(* ===== verification/Prelude.thy ===== *)
theory Prelude
  imports Main
begin

text \<open>
  Shared vocabulary of the development: identifiers, instants, text, the exceptions an operation
  can raise, the outcome of a state-changing operation, and the generic lemmas every component
  proof uses.

  \<^item> A UUID is a natural number, an instant is an integer number of microseconds, a Python
    \<open>str\<close> is the list of its Unicode code points (\<open>lit\<close> turns an ASCII literal into one).
  \<^item> An operation that may raise and may mutate the session returns an \<open>outcome\<close>: either the
    exception or the value, with the session state as it stands at that moment. A raise does not
    by itself undo what was mutated before it; \<open>transaction\<close> does, as the context manager of
    \<open>Database.tenant_session\<close> rolls back when an exception leaves its body.
\<close>

section \<open>Identifiers, time and text\<close>

type_synonym uuid = nat
type_synonym instant = int
type_synonym ustr = "nat list"

abbreviation lit :: "string \<Rightarrow> ustr" where
  "lit \<equiv> map of_char"

definition seconds :: "int \<Rightarrow> int" where
  "seconds n = 1000000 * n"

section \<open>JSON values\<close>

text \<open>
  What \<open>json.loads\<close> and JSONB columns hold. \<open>JFloat n k\<close> is the float \<open>n / 2 ^ k\<close>; an object is the
  association list of its entries, in order and with distinct keys.
\<close>

datatype json =
    JNull
  | JBool bool
  | JInt int
  | JFloat int nat
  | JStr ustr
  | JArr "json list"
  | JObj "(ustr \<times> json) list"

fun is_object :: "json \<Rightarrow> bool" where
  "is_object (JObj entries) = True"
| "is_object v = False"

section \<open>Exceptions and outcomes\<close>

datatype detail = Detail_fields "string list" | Detail_retry_after int | Detail_path "json list"

datatype exn =
    ApplicationError string nat "detail list"
  | IntegrityError
  | RichTextError string
  | PyValueError string
  | PyKeyError string
  | InvalidTokenError string
  | PyTypeError
  | PyRuntimeError string

abbreviation app_error :: "string \<Rightarrow> nat \<Rightarrow> exn" where
  "app_error code status \<equiv> ApplicationError code status []"

fun is_application_error :: "exn \<Rightarrow> bool" where
  "is_application_error (ApplicationError c s d) = True"
| "is_application_error e = False"

text \<open>The code and HTTP status \<open>ErrorBoundaryMiddleware.dispatch\<close> answers with.\<close>

fun error_response :: "exn \<Rightarrow> string \<times> nat" where
  "error_response (ApplicationError code status details) = (code, status)"
| "error_response e = (''INTERNAL_SERVER_ERROR'', 500)"

type_synonym ('a, 's) outcome = "(exn + 'a) \<times> 's"

text \<open>\<open>async with ... session.begin()\<close>: commit on a normal exit, roll back on an exception.\<close>

definition transaction :: "('s \<Rightarrow> ('a, 's) outcome) \<Rightarrow> 's \<Rightarrow> ('a, 's) outcome" where
  "transaction body s =
     (case body s of
        (Inl e, s') \<Rightarrow> (Inl e, s)
      | (Inr x, s') \<Rightarrow> (Inr x, s'))"

text \<open>\<open>except IntegrityError as exc: raise ApplicationError(...) from exc\<close> of the routers.\<close>

fun on_integrity_error :: "exn \<Rightarrow> ('a, 's) outcome \<Rightarrow> ('a, 's) outcome" where
  "on_integrity_error e (Inl IntegrityError, s) = (Inl e, s)"
| "on_integrity_error e out = out"

text \<open>Sequencing: the first operation's exception skips the second.\<close>

definition and_then :: "('a, 's) outcome \<Rightarrow> ('a \<Rightarrow> 's \<Rightarrow> ('b, 's) outcome) \<Rightarrow> ('b, 's) outcome" where
  "and_then out k = (case out of (Inl e, s) \<Rightarrow> (Inl e, s) | (Inr x, s) \<Rightarrow> k x s)"

named_theorems outcome_simps \<open>unfolding rules for outcomes, sequencing and transactions\<close>

lemma and_then_Inl [simp, outcome_simps]: "and_then (Inl e, s) k = (Inl e, s)"
  by (simp add: and_then_def)

lemma and_then_Inr [simp, outcome_simps]: "and_then (Inr x, s) k = k x s"
  by (simp add: and_then_def)

lemma and_then_eq_Inr:
  "and_then out k = (Inr y, s') \<longleftrightarrow> (\<exists>x s. out = (Inr x, s) \<and> k x s = (Inr y, s'))"
  by (cases out; cases "fst out") (auto simp: and_then_def)

lemma and_then_cong [fundef_cong]:
  assumes "out = out'" and "\<And>x s. out' = (Inr x, s) \<Longrightarrow> k x s = k' x s"
  shows "and_then out k = and_then out' k'"
  using assms by (cases out'; cases "fst out'") (auto simp: and_then_def)

lemma transaction_Inr:
  "transaction body s = (Inr x, s') \<longleftrightarrow> body s = (Inr x, s')"
  by (auto simp: transaction_def split: prod.splits sum.splits)

lemma transaction_error_unchanged:
  "fst (transaction body s) = Inl e \<Longrightarrow> snd (transaction body s) = s"
  by (auto simp: transaction_def split: prod.splits sum.splits)

lemma transaction_cases:
  obtains (rolled_back) e where "transaction body s = (Inl e, s)" "fst (body s) = Inl e"
  | (committed) x s' where "transaction body s = (Inr x, s')" "body s = (Inr x, s')"
proof (cases "body s")
  case (Pair r s')
  then show thesis
    using that by (cases r) (auto simp: transaction_def)
qed

lemma transaction_state:
  "snd (transaction body s) = s \<or> (\<exists>x. body s = (Inr x, snd (transaction body s)))"
  by (rule transaction_cases [of body s]) auto

lemma transaction_inv:
  assumes "I s" "\<And>x s'. body s = (Inr x, s') \<Longrightarrow> I s'"
  shows "I (snd (transaction body s))"
  by (rule transaction_cases [of body s]) (use assms in auto)

lemma on_integrity_error_snd [simp]: "snd (on_integrity_error e out) = snd out"
  by (induction e out rule: on_integrity_error.induct) auto

lemma on_integrity_error_eq_Inr [simp]:
  "on_integrity_error e out = (Inr x, s) \<longleftrightarrow> out = (Inr x, s)"
  by (induction e out rule: on_integrity_error.induct) auto

section \<open>Lists\<close>

text \<open>\<open>session.scalar(select(...))\<close>: the first row of the result, or \<open>None\<close>.\<close>

definition scalar :: "'r list \<Rightarrow> 'r option" where
  "scalar rows = (case rows of [] \<Rightarrow> None | r # _ \<Rightarrow> Some r)"

lemma scalar_None_iff [simp]: "scalar rows = None \<longleftrightarrow> rows = []"
  by (cases rows) (auto simp: scalar_def)

lemma scalar_Some_in: "scalar rows = Some r \<Longrightarrow> r \<in> set rows"
  by (cases rows) (auto simp: scalar_def)

lemma scalar_Nil [simp]: "scalar [] = None" and scalar_Cons [simp]: "scalar (x # xs) = Some x"
  by (simp_all add: scalar_def)

text \<open>
  \<open>ORDER BY key DESC LIMIT 1\<close>: a row with the greatest key. The database leaves the choice
  among equal keys open; the first such row of the table is taken.
\<close>

fun latest :: "('r \<Rightarrow> int) \<Rightarrow> 'r list \<Rightarrow> 'r option" where
  "latest key [] = None"
| "latest key (r # rows) =
     (case latest key rows of
        None \<Rightarrow> Some r
      | Some r' \<Rightarrow> if key r < key r' then Some r' else Some r)"

lemma latest_None_iff [simp]: "latest key rows = None \<longleftrightarrow> rows = []"
  by (cases rows) (auto split: option.splits)

lemma latest_Some_in: "latest key rows = Some r \<Longrightarrow> r \<in> set rows"
  by (induction rows arbitrary: r) (auto split: option.splits if_splits)

lemma latest_max: "latest key rows = Some r \<Longrightarrow> x \<in> set rows \<Longrightarrow> key x \<le> key r"
proof (induction rows arbitrary: r x)
  case (Cons y rows)
  then show ?case
    by (cases "latest key rows") (force split: if_splits)+
qed simp

lemma latest_snoc_greatest:
  assumes "\<And>x. x \<in> set rows \<Longrightarrow> key x < key r"
  shows "latest key (rows @ [r]) = Some r"
  using assms by (induction rows) auto

definition count_if :: "('r \<Rightarrow> bool) \<Rightarrow> 'r list \<Rightarrow> nat" where
  "count_if P rows = length (filter P rows)"

lemma count_if_Nil [simp]: "count_if P [] = 0"
  by (simp add: count_if_def)

lemma count_if_Cons [simp]: "count_if P (x # xs) = (if P x then 1 else 0) + count_if P xs"
  by (simp add: count_if_def)

lemma count_if_append [simp]: "count_if P (xs @ ys) = count_if P xs + count_if P ys"
  by (simp add: count_if_def)

lemma count_if_mono:
  assumes "\<And>x. x \<in> set xs \<Longrightarrow> P x \<Longrightarrow> Q x"
  shows "count_if P xs \<le> count_if Q xs"
  using assms by (induction xs) auto

lemma count_if_map: "count_if P (map f xs) = count_if (P \<circ> f) xs"
  by (induction xs) auto

lemma count_if_cong:
  assumes "\<And>x. x \<in> set xs \<Longrightarrow> P x = Q x"
  shows "count_if P xs = count_if Q xs"
  using assms by (induction xs) auto

lemma count_if_zero_iff: "count_if P xs = 0 \<longleftrightarrow> (\<forall>x\<in>set xs. \<not> P x)"
  by (induction xs) auto

section \<open>Options\<close>

text \<open>Python's \<open>x or y\<close> for an optional value that is falsy only when absent.\<close>

definition or_default :: "'a option \<Rightarrow> 'a \<Rightarrow> 'a" where
  "or_default v d = (case v of None \<Rightarrow> d | Some x \<Rightarrow> x)"

lemma or_default_simps [simp]: "or_default None d = d" "or_default (Some x) d = x"
  by (simp_all add: or_default_def)

end
