(* ===== verification/Tables.thy ===== *)
theory Tables
  imports Prelude
begin

text \<open>
  Tenant-owned tables under PostgreSQL row-level security (the policies of \<open>migrations/\<close>, the
  sessions of \<open>app/core/database.py\<close>). A table is the list of its rows, for all tenants. A query
  or statement of a session sees the rows its policy admits, so every table function takes the
  accessor of the row's tenant and the session's \<open>app.current_tenant_id\<close>.

  The lemmas say what the statements do to lookups and counts, and that a statement of one
  tenant's session never changes what another tenant's session sees. The locales
  \<open>tenant_confinement\<close> and \<open>inductive_invariant\<close> lift one-step facts to whole histories.
\<close>

section \<open>Sessions and the row-level-security policy\<close>

text \<open>The value of \<open>current_setting('app.current_tenant_id', true)\<close>: unset, or a tenant.\<close>

type_synonym session = "uuid option"

definition global_session :: session where
  "global_session = None"

definition tenant_session :: "uuid \<Rightarrow> session" where
  "tenant_session tenant_id = Some tenant_id"

text \<open>\<open>USING (tenant_id = NULLIF(current_setting(...), '')::uuid)\<close>: a missing setting is NULL,
  which admits no row.\<close>

definition tenant_isolation_policy :: "session \<Rightarrow> uuid \<Rightarrow> bool" where
  "tenant_isolation_policy cur row_tenant_id =
     (case cur of None \<Rightarrow> False | Some t \<Rightarrow> row_tenant_id = t)"

lemma policy_tenant [simp]: "tenant_isolation_policy (tenant_session t) u \<longleftrightarrow> u = t"
  by (simp add: tenant_isolation_policy_def tenant_session_def)

lemma policy_global [simp]: "\<not> tenant_isolation_policy global_session u"
  by (simp add: tenant_isolation_policy_def global_session_def)

lemma policy_Some: "tenant_isolation_policy cur u \<longleftrightarrow> cur = Some u"
  by (auto simp: tenant_isolation_policy_def split: option.splits)

section \<open>Statements\<close>

definition visible :: "('r \<Rightarrow> uuid) \<Rightarrow> session \<Rightarrow> 'r list \<Rightarrow> 'r list" where
  "visible tid cur rows = filter (\<lambda>r. tenant_isolation_policy cur (tid r)) rows"

definition select_where :: "('r \<Rightarrow> uuid) \<Rightarrow> session \<Rightarrow> ('r \<Rightarrow> bool) \<Rightarrow> 'r list \<Rightarrow> 'r list" where
  "select_where tid cur P rows = filter P (visible tid cur rows)"

definition get_row :: "('r \<Rightarrow> uuid) \<Rightarrow> ('r \<Rightarrow> uuid) \<Rightarrow> session \<Rightarrow> uuid \<Rightarrow> 'r list \<Rightarrow> 'r option" where
  "get_row tid rid cur i rows = scalar (select_where tid cur (\<lambda>r. rid r = i) rows)"

definition update_where ::
  "('r \<Rightarrow> uuid) \<Rightarrow> session \<Rightarrow> ('r \<Rightarrow> bool) \<Rightarrow> ('r \<Rightarrow> 'r) \<Rightarrow> 'r list \<Rightarrow> 'r list" where
  "update_where tid cur P f rows =
     map (\<lambda>r. if tenant_isolation_policy cur (tid r) \<and> P r then f r else r) rows"

definition delete_where :: "('r \<Rightarrow> uuid) \<Rightarrow> session \<Rightarrow> ('r \<Rightarrow> bool) \<Rightarrow> 'r list \<Rightarrow> 'r list" where
  "delete_where tid cur P rows =
     filter (\<lambda>r. \<not> (tenant_isolation_policy cur (tid r) \<and> P r)) rows"

text \<open>The flush of a modified object: \<open>UPDATE ... WHERE id = ...\<close>, which also obeys the policy.\<close>

definition save_row :: "('r \<Rightarrow> uuid) \<Rightarrow> ('r \<Rightarrow> uuid) \<Rightarrow> session \<Rightarrow> 'r \<Rightarrow> 'r list \<Rightarrow> 'r list" where
  "save_row tid rid cur r rows = update_where tid cur (\<lambda>x. rid x = rid r) (\<lambda>_. r) rows"

definition insert_row :: "'r \<Rightarrow> 'r list \<Rightarrow> 'r list" where
  "insert_row r rows = rows @ [r]"

text \<open>The primary key of a row to insert is checked against all rows, visible or not.\<close>

definition key_taken :: "('r \<Rightarrow> uuid) \<Rightarrow> 'r \<Rightarrow> 'r list \<Rightarrow> bool" where
  "key_taken rid r rows \<longleftrightarrow> list_ex (\<lambda>x. rid x = rid r) rows"

lemma key_taken_iff: "key_taken rid r rows \<longleftrightarrow> rid r \<in> rid ` set rows"
  unfolding key_taken_def by (induction rows) auto

lemma distinct_insert_row:
  "distinct (map rid (insert_row r rows)) \<longleftrightarrow> distinct (map rid rows) \<and> \<not> key_taken rid r rows"
  by (auto simp: insert_row_def key_taken_iff)

lemmas table_defs = visible_def select_where_def get_row_def update_where_def delete_where_def
  save_row_def insert_row_def

section \<open>What a session reads\<close>

lemma in_select_where [simp]:
  "r \<in> set (select_where tid cur P rows) \<longleftrightarrow>
     r \<in> set rows \<and> tenant_isolation_policy cur (tid r) \<and> P r"
  by (auto simp: select_where_def visible_def)

lemma get_rowD:
  assumes "get_row tid rid cur i rows = Some r"
  shows "r \<in> set rows" "tenant_isolation_policy cur (tid r)" "rid r = i"
  using assms by (auto simp: get_row_def dest!: scalar_Some_in)

lemma get_row_None:
  "get_row tid rid cur i rows = None \<longleftrightarrow>
     (\<forall>r\<in>set rows. tenant_isolation_policy cur (tid r) \<longrightarrow> rid r \<noteq> i)"
  by (auto simp: get_row_def select_where_def visible_def filter_empty_conv)

lemma get_row_Cons:
  "get_row tid rid cur i (r # rows) =
     (if tenant_isolation_policy cur (tid r) \<and> rid r = i then Some r
      else get_row tid rid cur i rows)"
  by (simp add: get_row_def select_where_def visible_def)

lemma get_row_Nil [simp]: "get_row tid rid cur i [] = None"
  by (simp add: get_row_None)

lemma get_row_append:
  "get_row tid rid cur i (xs @ ys) =
     (case get_row tid rid cur i xs of None \<Rightarrow> get_row tid rid cur i ys | Some r \<Rightarrow> Some r)"
  by (induction xs) (auto simp: get_row_Cons get_row_def select_where_def visible_def
      split: option.splits)

lemma get_row_update_where:
  assumes "\<And>r. tid (f r) = tid r" "\<And>r. rid (f r) = rid r"
  shows "get_row tid rid cur i (update_where tid cur P f rows) =
           map_option (\<lambda>r. if P r then f r else r) (get_row tid rid cur i rows)"
  using assms by (induction rows) (auto simp: get_row_Cons update_where_def get_row_def
      select_where_def visible_def)

lemma get_row_save_row:
  assumes "tenant_isolation_policy cur (tid r)"
  shows "get_row tid rid cur i (save_row tid rid cur r rows) =
           (if i = rid r then map_option (\<lambda>_. r) (get_row tid rid cur i rows)
            else get_row tid rid cur i rows)"
  using assms by (induction rows) (auto simp: get_row_Cons save_row_def update_where_def
      get_row_def select_where_def visible_def)

lemma get_row_global [simp]: "get_row tid rid global_session i rows = None"
  by (simp add: get_row_None)

section \<open>What a statement keeps\<close>

lemma update_where_keys:
  assumes "\<And>r. k (f r) = k r"
  shows "map k (update_where tid cur P f rows) = map k rows"
  using assms by (simp add: update_where_def)

lemma save_row_keys:
  assumes "\<And>x. x \<in> set rows \<Longrightarrow> tenant_isolation_policy cur (tid x) \<Longrightarrow> rid x = rid r
      \<Longrightarrow> k x = k r"
  shows "map k (save_row tid rid cur r rows) = map k rows"
  using assms by (auto simp: save_row_def update_where_def)

lemma in_save_rowD:
  "x \<in> set (save_row tid rid cur r rows) \<Longrightarrow>
     x = r \<or> (x \<in> set rows \<and> \<not> (tenant_isolation_policy cur (tid x) \<and> rid x = rid r))"
  by (auto simp: save_row_def update_where_def split: if_splits)

lemma in_save_row_iff:
  "x \<in> set (save_row tid rid cur r rows) \<longleftrightarrow>
     (x = r \<and> (\<exists>y\<in>set rows. tenant_isolation_policy cur (tid y) \<and> rid y = rid r))
     \<or> (x \<in> set rows \<and> \<not> (tenant_isolation_policy cur (tid x) \<and> rid x = rid r))"
  by (auto simp: save_row_def update_where_def split: if_splits)

lemma in_update_whereD:
  "x \<in> set (update_where tid cur P f rows) \<Longrightarrow>
     x \<in> set rows \<or> (\<exists>r\<in>set rows. tenant_isolation_policy cur (tid r) \<and> P r \<and> x = f r)"
  by (auto simp: update_where_def split: if_splits)

lemma in_update_where_iff:
  "x \<in> set (update_where tid cur P f rows) \<longleftrightarrow>
     (\<exists>r\<in>set rows. x = (if tenant_isolation_policy cur (tid r) \<and> P r then f r else r))"
  by (auto simp: update_where_def)

lemma in_insert_row [simp]: "x \<in> set (insert_row r rows) \<longleftrightarrow> x = r \<or> x \<in> set rows"
  by (auto simp: insert_row_def)

lemma in_delete_where [simp]:
  "x \<in> set (delete_where tid cur P rows) \<longleftrightarrow>
     x \<in> set rows \<and> \<not> (tenant_isolation_policy cur (tid x) \<and> P x)"
  by (auto simp: delete_where_def)

lemma map_insert_row [simp]: "map k (insert_row r rows) = map k rows @ [k r]"
  by (simp add: insert_row_def)

lemma count_if_insert_row [simp]:
  "count_if P (insert_row r rows) = count_if P rows + (if P r then 1 else 0)"
  by (simp add: insert_row_def)

lemma save_row_absent: "rid r \<notin> rid ` set rows \<Longrightarrow> save_row tid rid cur r rows = rows"
  by (induction rows) (auto simp: save_row_def update_where_def)

text \<open>With a primary key, an update of one row changes a count by that row alone.\<close>

lemma count_if_save_row:
  assumes "distinct (map rid rows)" "r0 \<in> set rows" "rid r0 = rid r"
    "tenant_isolation_policy cur (tid r0)"
  shows "count_if P (save_row tid rid cur r rows) + (if P r0 then 1 else 0) =
           count_if P rows + (if P r then 1 else 0)"
  using assms
proof (induction rows)
  case (Cons x rows)
  have rest: "save_row tid rid cur r rows = rows" if "rid r \<notin> rid ` set rows"
    using that by (rule save_row_absent)
  show ?case
  proof (cases "x = r0")
    case True
    with Cons.prems have "rid r \<notin> rid ` set rows" by auto
    with rest True Cons.prems show ?thesis
      by (simp add: save_row_def update_where_def)
  next
    case False
    with Cons.prems have "r0 \<in> set rows" by simp
    with Cons.prems have "rid x \<noteq> rid r" by (metis distinct.simps(2) imageI list.set_map list.simps(9))
    with Cons \<open>r0 \<in> set rows\<close> show ?thesis
      by (simp add: save_row_def update_where_def)
  qed
qed simp

lemma save_row_unique:
  assumes "distinct (map rid rows)" "r0 \<in> set rows" "rid r0 = rid r"
    "tenant_isolation_policy cur (tid r0)"
  shows "set (save_row tid rid cur r rows) = insert r (set rows - {r0})"
proof -
  have same: "x = r0" if "x \<in> set rows" "rid x = rid r" for x
    using that assms(1-3) by (simp add: distinct_map inj_on_def)
  show ?thesis
  proof (rule set_eqI)
    fix x
    show "x \<in> set (save_row tid rid cur r rows) \<longleftrightarrow> x \<in> insert r (set rows - {r0})"
      unfolding in_save_row_iff using assms(2-4) same by blast
  qed
qed

text \<open>Rows that exclude each other: a unique constraint, as a symmetric conflict between rows.\<close>

definition exclusive :: "('r \<Rightarrow> uuid) \<Rightarrow> ('r \<Rightarrow> 'r \<Rightarrow> bool) \<Rightarrow> 'r list \<Rightarrow> bool" where
  "exclusive k R rows \<longleftrightarrow> (\<forall>x\<in>set rows. \<forall>y\<in>set rows. k x \<noteq> k y \<longrightarrow> \<not> R x y)"

lemma exclusiveD: "exclusive k R rows \<Longrightarrow> x \<in> set rows \<Longrightarrow> y \<in> set rows \<Longrightarrow> k x \<noteq> k y \<Longrightarrow> \<not> R x y"
  unfolding exclusive_def by blast

lemma exclusive_Nil [simp]: "exclusive k R []"
  by (simp add: exclusive_def)

lemma exclusive_subset:
  assumes "exclusive k R rows" "set rows' \<subseteq> insert r (set rows)"
    and "\<And>x y. R x y \<Longrightarrow> R y x"
    and "\<And>x. x \<in> set rows \<Longrightarrow> x \<in> set rows' \<Longrightarrow> k x \<noteq> k r \<Longrightarrow> \<not> R x r"
  shows "exclusive k R rows'"
  unfolding exclusive_def
proof (intro ballI impI)
  fix x y assume h: "x \<in> set rows'" "y \<in> set rows'" "k x \<noteq> k y"
  then have "x = r \<or> x \<in> set rows" "y = r \<or> y \<in> set rows" using assms(2) by blast+
  then show "\<not> R x y"
    using h assms(3,4) exclusiveD [OF assms(1)] by metis
qed

lemma exclusive_image:
  assumes "exclusive k R rows"
    and "\<And>y. y \<in> set rows' \<Longrightarrow> \<exists>x\<in>set rows. k x = k y \<and> (\<forall>z w. R y z \<longrightarrow> R x z) \<and> (\<forall>z. R z y \<longrightarrow> R z x)"
  shows "exclusive k R rows'"
  unfolding exclusive_def
proof (intro ballI impI)
  fix x y assume h: "x \<in> set rows'" "y \<in> set rows'" "k x \<noteq> k y"
  obtain x0 y0 where "x0 \<in> set rows" "k x0 = k x" "y0 \<in> set rows" "k y0 = k y"
    "\<And>z. R x z \<Longrightarrow> R x0 z" "\<And>z. R z y \<Longrightarrow> R z y0"
    using assms(2) [OF h(1)] assms(2) [OF h(2)] by blast
  then show "\<not> R x y"
    using h(3) exclusiveD [OF assms(1)] by metis
qed

section \<open>Tenants do not see each other's statements\<close>

named_theorems isolation \<open>a statement of one tenant's session, seen by another tenant\<close>

lemma visible_update_where_other [isolation]:
  assumes "u \<noteq> t" "\<And>r. tid (f r) = tid r"
  shows "visible tid (tenant_session u) (update_where tid (tenant_session t) P f rows) =
           visible tid (tenant_session u) rows"
  using assms by (induction rows) (auto simp: visible_def update_where_def)

lemma visible_save_row_other [isolation]:
  assumes "u \<noteq> t" "tid r = t"
  shows "visible tid (tenant_session u) (save_row tid rid (tenant_session t) r rows) =
           visible tid (tenant_session u) rows"
  using assms by (induction rows) (auto simp: visible_def save_row_def update_where_def)

lemma visible_delete_where_other [isolation]:
  assumes "u \<noteq> t"
  shows "visible tid (tenant_session u) (delete_where tid (tenant_session t) P rows) =
           visible tid (tenant_session u) rows"
  using assms by (induction rows) (auto simp: visible_def delete_where_def)

lemma visible_insert_row_other [isolation]:
  assumes "u \<noteq> t" "tid r = t"
  shows "visible tid (tenant_session u) (insert_row r rows) = visible tid (tenant_session u) rows"
  using assms by (simp add: visible_def insert_row_def)

lemma visible_append_other:
  assumes "u \<noteq> t" "tid r = t"
  shows "visible tid (tenant_session u) (rows @ [r]) = visible tid (tenant_session u) rows"
  using assms by (simp add: visible_def)

text \<open>What a session computes depends on its own view alone.\<close>

lemma select_where_visible [isolation]:
  "visible tid cur rows = visible tid cur rows' \<Longrightarrow>
     select_where tid cur P rows = select_where tid cur P rows'"
  by (simp add: select_where_def)

lemma get_row_visible [isolation]:
  "visible tid cur rows = visible tid cur rows' \<Longrightarrow>
     get_row tid rid cur i rows = get_row tid rid cur i rows'"
  by (simp add: get_row_def select_where_def)

lemma visible_update_where_own:
  assumes "\<And>r. tid (f r) = tid r"
  shows "visible tid cur (update_where tid cur P f rows) =
           map (\<lambda>r. if P r then f r else r) (visible tid cur rows)"
  using assms by (induction rows) (auto simp: visible_def update_where_def)

lemma visible_save_row_own:
  assumes "tenant_isolation_policy cur (tid r)"
  shows "visible tid cur (save_row tid rid cur r rows) =
           map (\<lambda>x. if rid x = rid r then r else x) (visible tid cur rows)"
  using assms by (induction rows) (auto simp: visible_def save_row_def update_where_def)

lemma visible_delete_where_own:
  "visible tid cur (delete_where tid cur P rows) = filter (\<lambda>r. \<not> P r) (visible tid cur rows)"
  by (induction rows) (auto simp: visible_def delete_where_def)

lemma visible_insert_row_own:
  assumes "tenant_isolation_policy cur (tid r)"
  shows "visible tid cur (insert_row r rows) = visible tid cur rows @ [r]"
  using assms by (simp add: visible_def insert_row_def)

section \<open>Histories\<close>

text \<open>
  A component whose operations are events of a deterministic step function. The provider shows
  that one step keeps the invariant; every history then does.
\<close>

fun run :: "('e \<Rightarrow> 's \<Rightarrow> 's) \<Rightarrow> 'e list \<Rightarrow> 's \<Rightarrow> 's" where
  "run step [] s = s"
| "run step (e # es) s = run step es (step e s)"

lemma run_append [simp]: "run step (es @ fs) s = run step fs (run step es s)"
  by (induction es arbitrary: s) auto

text \<open>A history is legal when every event is admissible in the state it meets.\<close>

fun legal :: "('e \<Rightarrow> 's \<Rightarrow> 's) \<Rightarrow> ('s \<Rightarrow> 'e \<Rightarrow> bool) \<Rightarrow> 'e list \<Rightarrow> 's \<Rightarrow> bool" where
  "legal step admissible [] s = True"
| "legal step admissible (e # es) s \<longleftrightarrow> admissible s e \<and> legal step admissible es (step e s)"

lemma legal_always [simp]: "legal step (\<lambda>s e. True) es s"
  by (induction es arbitrary: s) auto

locale inductive_invariant =
  fixes step :: "'e \<Rightarrow> 's \<Rightarrow> 's"
    and admissible :: "'s \<Rightarrow> 'e \<Rightarrow> bool"
    and inv :: "'s \<Rightarrow> bool"
  assumes inv_step: "inv s \<Longrightarrow> admissible s e \<Longrightarrow> inv (step e s)"
begin

lemma inv_run: "inv s \<Longrightarrow> legal step admissible es s \<Longrightarrow> inv (run step es s)"
  by (induction es arbitrary: s) (auto intro: inv_step)

end

text \<open>A quantity that no step lowers is never lowered by a history.\<close>

locale monotone_quantity = inductive_invariant step admissible inv
  for step :: "'e \<Rightarrow> 's \<Rightarrow> 's" and admissible :: "'s \<Rightarrow> 'e \<Rightarrow> bool" and inv :: "'s \<Rightarrow> bool" +
  fixes measure_of :: "'s \<Rightarrow> int"
  assumes quantity_step: "inv s \<Longrightarrow> admissible s e \<Longrightarrow> measure_of s \<le> measure_of (step e s)"
begin

lemma quantity_run:
  "inv s \<Longrightarrow> legal step admissible es s \<Longrightarrow> measure_of s \<le> measure_of (run step es s)"
proof (induction es arbitrary: s)
  case (Cons e es)
  then have "measure_of s \<le> measure_of (step e s)"
    by (simp add: quantity_step)
  also have "\<dots> \<le> measure_of (run step es (step e s))"
    using Cons by (simp add: inv_step)
  finally show ?case by simp
qed simp

end

text \<open>
  Confinement of tenants: an event of another tenant, or of none, does not change what a tenant
  sees; then no history of such events does.
\<close>

locale tenant_confinement =
  fixes step :: "'e \<Rightarrow> 's \<Rightarrow> 's"
    and event_tenant :: "'e \<Rightarrow> uuid option"
    and view :: "uuid \<Rightarrow> 's \<Rightarrow> 'v"
  assumes locally_respects: "event_tenant e \<noteq> Some t \<Longrightarrow> view t (step e s) = view t s"
begin

lemma view_run_others: "view t (run step (filter (\<lambda>e. event_tenant e \<noteq> Some t) es) s) = view t s"
  by (induction es arbitrary: s) (simp_all add: locally_respects)

end

end
