(* ===== verification/RegistrationModel.thy ===== *)
theory RegistrationModel
  imports Tables
begin

text \<open>
  The tables the exam-registration side of the system works on: \<open>app/exams/models.py\<close>,
  \<open>app/registrations/models.py\<close>, \<open>app/payments/models.py\<close>, \<open>app/media/models.py\<close>,
  \<open>app/audit/models.py\<close>, the school directory of \<open>app/content/models.py\<close>, and the constraints the
  database checks when a session is flushed. Status columns restricted by a CHECK constraint are
  datatypes. \<open>updated_at\<close> is left out: nothing reads it.
\<close>

section \<open>Exams and pricing plans\<close>

datatype exam_mode = ONLINE | ONSITE

datatype exam_state =
  Exam_DRAFT | Exam_REGISTRATION_OPEN | Exam_REGISTRATION_CLOSED | Exam_COMPLETED | Exam_ARCHIVED

record exam_offering =
  exam_id :: uuid
  exam_tenant_id :: uuid
  exam_title :: ustr
  exam_slug :: ustr
  exam_description :: ustr
  exam_held :: exam_mode
  registration_starts_at :: "instant option"
  registration_ends_at :: "instant option"
  exam_starts_at :: "instant option"
  exam_ends_at :: "instant option"
  venue_name :: "ustr option"
  venue_address :: "ustr option"
  exam_capacity :: "int option"
  exam_status :: exam_state

text \<open>\<open>a IS NULL OR b IS NULL OR a > b\<close>\<close>

definition window_ok :: "instant option \<Rightarrow> instant option \<Rightarrow> bool" where
  "window_ok starts ends =
     (case (starts, ends) of (Some a, Some b) \<Rightarrow> b > a | _ \<Rightarrow> True)"

definition exam_checks :: "exam_offering \<Rightarrow> bool" where
  "exam_checks e \<longleftrightarrow>
     (case exam_capacity e of None \<Rightarrow> True | Some c \<Rightarrow> c > 0)
     \<and> window_ok (registration_starts_at e) (registration_ends_at e)
     \<and> window_ok (exam_starts_at e) (exam_ends_at e)"

datatype plan_state = Plan_DRAFT | Plan_PUBLISHED | Plan_ARCHIVED

record pricing_plan =
  plan_id :: uuid
  plan_tenant_id :: uuid
  plan_title :: ustr
  plan_slug :: ustr
  plan_description :: ustr
  plan_mode :: exam_mode
  plan_amount :: int
  plan_currency :: ustr
  plan_features :: "ustr list"
  plan_sort_order :: int
  plan_is_featured :: bool
  plan_status :: plan_state

definition plan_checks :: "pricing_plan \<Rightarrow> bool" where
  "plan_checks p \<longleftrightarrow> plan_amount p \<ge> 0"

record exam_pricing_plan =
  ep_tenant_id :: uuid
  ep_exam_offering_id :: uuid
  ep_pricing_plan_id :: uuid

section \<open>Registrations\<close>

record form_definition =
  form_id :: uuid
  form_tenant_id :: uuid
  form_version :: int
  form_schema :: json
  form_is_active :: bool
  form_created_at :: instant

datatype reg_state =
    Reg_DRAFT
  | Reg_PHONE_VERIFICATION_REQUIRED
  | Reg_PHONE_VERIFIED
  | Reg_READY_FOR_SUBMISSION
  | Reg_SUBMITTED
  | Reg_PAYMENT_PENDING
  | Reg_COMPLETED
  | Reg_CANCELLED

datatype reg_payment_state = RegPay_PENDING | RegPay_SUCCESSFUL | RegPay_FAILED

datatype gender = FEMALE | MALE | OTHER

record registration =
  reg_id :: uuid
  reg_tenant_id :: uuid
  reg_exam_offering_id :: uuid
  selected_pricing_plan_id :: "uuid option"
  form_definition_id :: "uuid option"
  form_definition_version :: "int option"
  draft_token_hash :: ustr
  draft_token_expires_at :: instant
  reg_phone_number :: ustr
  first_name :: "ustr option"
  last_name :: "ustr option"
  reg_gender :: "gender option"
  national_code :: "ustr option"
  father_name :: "ustr option"
  birth_date :: "int option"
  home_phone :: "ustr option"
  current_school_id :: "uuid option"
  previous_school_id :: "uuid option"
  postal_code :: "ustr option"
  address :: "ustr option"
  profile_image_id :: "uuid option"
  extra_answers :: json
  payable_amount :: "int option"
  payable_currency :: "ustr option"
  reg_status :: reg_state
  payment_status :: reg_payment_state
  phone_verified_at :: "instant option"
  submitted_at :: "instant option"
  internal_notes :: "ustr option"
  reg_created_at :: instant

record registration_contact =
  contact_id :: uuid
  contact_tenant_id :: uuid
  contact_registration_id :: uuid
  contact_position :: int
  contact_name :: ustr
  contact_phone_number :: ustr
  contact_relationship :: ustr

record otp_challenge =
  otp_id :: uuid
  otp_tenant_id :: uuid
  otp_registration_id :: uuid
  otp_phone_number :: ustr
  code_hash :: ustr
  attempt_count :: nat
  request_ip_hash :: ustr
  otp_expires_at :: instant
  consumed_at :: "instant option"
  invalidated_at :: "instant option"
  otp_created_at :: instant

section \<open>Payments, media, schools, audit\<close>

datatype payment_state =
    Pay_INITIATED | Pay_PENDING | Pay_SUCCESSFUL | Pay_FAILED | Pay_CANCELLED | Pay_REFUNDED

record payment_transaction =
  pay_id :: uuid
  pay_tenant_id :: uuid
  pay_registration_id :: uuid
  pay_provider :: ustr
  pay_amount :: int
  pay_currency :: ustr
  pay_status :: payment_state
  provider_authority :: "ustr option"
  provider_transaction_id :: "ustr option"
  idempotency_key :: ustr
  callback_nonce_hash :: ustr
  callback_state :: ustr
  callback_consumed_at :: "instant option"
  pay_failure_code :: "ustr option"
  pay_failure_message :: "ustr option"
  pay_verified_at :: "instant option"
  pay_created_at :: instant

datatype media_state = Media_PENDING | Media_READY | Media_REJECTED

datatype visibility = Vis_PUBLIC | Vis_PRIVATE

record media_asset =
  media_id :: uuid
  media_tenant_id :: uuid
  object_key :: ustr
  original_filename :: ustr
  media_mime_type :: ustr
  media_size_bytes :: int
  media_sha256 :: "ustr option"
  media_width :: "int option"
  media_height :: "int option"
  media_alt_text :: "ustr option"
  media_status :: media_state
  media_visibility :: visibility

record school_entry =
  school_id :: uuid
  school_name :: ustr
  school_city :: "ustr option"
  school_province :: "ustr option"
  school_is_active :: bool

record audit_event =
  audit_tenant_id :: uuid
  actor_user_id :: "uuid option"
  audit_action :: string
  entity_type :: string
  entity_id :: "uuid option"
  changed_fields :: "string list"
  audit_created_at :: instant

section \<open>The database\<close>

record reg_db =
  exams :: "exam_offering list"
  exam_plans :: "exam_pricing_plan list"
  plans :: "pricing_plan list"
  form_defs :: "form_definition list"
  registrations :: "registration list"
  contacts :: "registration_contact list"
  otps :: "otp_challenge list"
  payments :: "payment_transaction list"
  media :: "media_asset list"
  schools :: "school_entry list"
  audits :: "audit_event list"

abbreviation get_exam where "get_exam cur i s \<equiv> get_row exam_tenant_id exam_id cur i (exams s)"
abbreviation get_plan where "get_plan cur i s \<equiv> get_row plan_tenant_id plan_id cur i (plans s)"
abbreviation get_form where "get_form cur i s \<equiv> get_row form_tenant_id form_id cur i (form_defs s)"
abbreviation get_reg where
  "get_reg cur i s \<equiv> get_row reg_tenant_id reg_id cur i (registrations s)"
abbreviation get_media where
  "get_media cur i s \<equiv> get_row media_tenant_id media_id cur i (media s)"
abbreviation get_payment where
  "get_payment cur i s \<equiv> get_row pay_tenant_id pay_id cur i (payments s)"

abbreviation save_reg where
  "save_reg cur r s \<equiv>
     s\<lparr>registrations := save_row reg_tenant_id reg_id cur r (registrations s)\<rparr>"
abbreviation save_otp where
  "save_otp cur c s \<equiv> s\<lparr>otps := save_row otp_tenant_id otp_id cur c (otps s)\<rparr>"
abbreviation save_payment where
  "save_payment cur p s \<equiv> s\<lparr>payments := save_row pay_tenant_id pay_id cur p (payments s)\<rparr>"
abbreviation save_media where
  "save_media cur m s \<equiv> s\<lparr>media := save_row media_tenant_id media_id cur m (media s)\<rparr>"

text \<open>\<open>session.get(SchoolDirectoryEntry, id)\<close>: the directory is global, without a policy.\<close>

definition get_school :: "uuid \<Rightarrow> reg_db \<Rightarrow> school_entry option" where
  "get_school i s = find (\<lambda>x. school_id x = i) (schools s)"

section \<open>Constraints checked by a flush\<close>

text \<open>
  \<open>UniqueConstraint("tenant_id", "exam_offering_id", "national_code")\<close>: rows with a NULL national
  code never conflict. Uniqueness is checked against all rows, whatever the session may see.
\<close>

definition same_student :: "registration \<Rightarrow> registration \<Rightarrow> bool" where
  "same_student a b \<longleftrightarrow>
     reg_tenant_id a = reg_tenant_id b \<and> reg_exam_offering_id a = reg_exam_offering_id b
     \<and> national_code a \<noteq> None \<and> national_code a = national_code b"

definition registration_unique_ok :: "registration \<Rightarrow> reg_db \<Rightarrow> bool" where
  "registration_unique_ok r s \<longleftrightarrow>
     list_all (\<lambda>x. reg_id x \<noteq> reg_id r \<longrightarrow> \<not> same_student x r) (registrations s)"

text \<open>\<open>uq_payment_transactions_active_registration\<close> and the idempotency-key constraint.\<close>

definition payment_active :: "payment_transaction \<Rightarrow> bool" where
  "payment_active p \<longleftrightarrow> pay_status p \<in> {Pay_INITIATED, Pay_PENDING}"

definition payment_conflict :: "payment_transaction \<Rightarrow> payment_transaction \<Rightarrow> bool" where
  "payment_conflict a b \<longleftrightarrow>
     (pay_tenant_id a = pay_tenant_id b \<and> idempotency_key a = idempotency_key b)
     \<or> (pay_tenant_id a = pay_tenant_id b \<and> pay_registration_id a = pay_registration_id b
         \<and> payment_active a \<and> payment_active b)
     \<or> (pay_provider a = pay_provider b \<and> provider_transaction_id a \<noteq> None
         \<and> provider_transaction_id a = provider_transaction_id b)"

definition payment_unique_ok :: "payment_transaction \<Rightarrow> reg_db \<Rightarrow> bool" where
  "payment_unique_ok p s \<longleftrightarrow>
     list_all (\<lambda>x. pay_id x \<noteq> pay_id p \<longrightarrow> \<not> payment_conflict x p) (payments s)"

lemma same_student_sym: "same_student a b = same_student b a"
  unfolding same_student_def by metis

lemma payment_conflict_sym: "payment_conflict a b = payment_conflict b a"
  unfolding payment_conflict_def by metis

text \<open>Primary keys: a row inserted under a fresh identifier keeps them distinct.\<close>

definition keys_ok :: "reg_db \<Rightarrow> bool" where
  "keys_ok s \<longleftrightarrow> distinct (map reg_id (registrations s)) \<and> distinct (map otp_id (otps s))
     \<and> distinct (map pay_id (payments s)) \<and> distinct (map exam_id (exams s))
     \<and> distinct (map media_id (media s))"

end
