(* ===== verification/PyText.thy ===== *)
theory PyText
  imports Prelude
begin

text \<open>
  What the code uses of Python's \<open>str\<close>, on code points: whitespace and decimal digits as
  \<open>str.isspace\<close>, \<open>\s\<close> and \<open>\d\<close> of the \<open>re\<close> module see them (all of Unicode 15, not only
  ASCII), stripping, splitting, prefixes, ASCII case, and decimal and hexadecimal numerals.
\<close>

section \<open>Character classes\<close>

definition space_points :: "nat list" where
  "space_points =
     [9, 10, 11, 12, 13, 28, 29, 30, 31, 32, 133, 160, 5760, 8192, 8193, 8194, 8195, 8196,
      8197, 8198, 8199, 8200, 8201, 8202, 8232, 8233, 8239, 8287, 12288]"

definition is_space :: "nat \<Rightarrow> bool" where
  "is_space c \<longleftrightarrow> c \<in> set space_points"

text \<open>The code points of digit zero in the decimal scripts; each is followed by its 1 to 9.\<close>

definition decimal_zeros :: "nat list" where
  "decimal_zeros =
     [48, 1632, 1776, 1984, 2406, 2534, 2662, 2790, 2918, 3046, 3174, 3302, 3430, 3558, 3664,
      3792, 3872, 4160, 4240, 6112, 6160, 6470, 6608, 6784, 6800, 6992, 7088, 7232, 7248,
      42528, 43216, 43264, 43472, 43504, 43600, 44016, 65296, 66720, 68912, 69734, 69872,
      69942, 70096, 70384, 70736, 70864, 71248, 71360, 71472, 71904, 72016, 72784, 73040,
      73120, 73552, 92768, 92864, 93008, 120782, 120792, 120802, 120812, 120822, 123200,
      123632, 124144, 125264, 130032]"

definition is_decimal :: "nat \<Rightarrow> bool" where
  "is_decimal c \<longleftrightarrow> list_ex (\<lambda>z. z \<le> c \<and> c < z + 10) decimal_zeros"

text \<open>\<open>int(ch)\<close> of a single decimal character, \<open>None\<close> for the \<open>ValueError\<close>.\<close>

definition decimal_value :: "nat \<Rightarrow> nat option" where
  "decimal_value c = map_option (\<lambda>z. c - z) (find (\<lambda>z. z \<le> c \<and> c < z + 10) decimal_zeros)"

lemma decimal_value_None_iff: "decimal_value c = None \<longleftrightarrow> \<not> is_decimal c"
  by (auto simp: decimal_value_def is_decimal_def find_None_iff list_ex_iff)

lemma decimal_value_less: "decimal_value c = Some d \<Longrightarrow> d < 10"
  by (auto simp: decimal_value_def find_Some_iff)

lemma is_decimal_value: "is_decimal c \<Longrightarrow> \<exists>d<10. decimal_value c = Some d"
  using decimal_value_None_iff [of c] decimal_value_less [of c]
  by (cases "decimal_value c") auto

lemma space_not_decimal: "is_space c \<Longrightarrow> \<not> is_decimal c"
proof -
  have "list_all (\<lambda>c. \<not> is_decimal c) space_points"
    by (simp add: space_points_def is_decimal_def decimal_zeros_def)
  then show "is_space c \<Longrightarrow> \<not> is_decimal c"
    by (auto simp: list_all_iff is_space_def)
qed

lemma ascii_decimal: "48 \<le> c \<Longrightarrow> c \<le> 57 \<Longrightarrow> is_decimal c"
  by (simp add: is_decimal_def decimal_zeros_def)

definition is_ascii_alpha :: "nat \<Rightarrow> bool" where
  "is_ascii_alpha c \<longleftrightarrow> (65 \<le> c \<and> c \<le> 90) \<or> (97 \<le> c \<and> c \<le> 122)"

text \<open>\<open>str.lower\<close> on ASCII text; other code points are left alone.\<close>

definition lower_char :: "nat \<Rightarrow> nat" where
  "lower_char c = (if 65 \<le> c \<and> c \<le> 90 then c + 32 else c)"

definition lower :: "ustr \<Rightarrow> ustr" where
  "lower s = map lower_char s"

lemma lower_lower [simp]: "lower (lower s) = lower s"
  by (simp add: lower_def lower_char_def)

lemma length_lower [simp]: "length (lower s) = length s"
  by (simp add: lower_def)

definition is_ascii :: "ustr \<Rightarrow> bool" where
  "is_ascii s \<longleftrightarrow> (\<forall>c\<in>set s. c < 128)"

lemma is_ascii_lower [simp]: "is_ascii (lower s) = is_ascii s"
  by (auto simp: is_ascii_def lower_def lower_char_def)

section \<open>Prefixes, stripping, splitting\<close>

definition startswith :: "ustr \<Rightarrow> ustr \<Rightarrow> bool" where
  "startswith s p \<longleftrightarrow> take (length p) s = p"

lemma startswith_append [simp]: "startswith (p @ s) p"
  by (simp add: startswith_def)

lemma startswithD: "startswith s p \<Longrightarrow> s = p @ drop (length p) s"
  by (metis append_take_drop_id startswith_def)

definition lstrip_where :: "(nat \<Rightarrow> bool) \<Rightarrow> ustr \<Rightarrow> ustr" where
  "lstrip_where P s = dropWhile P s"

definition rstrip_where :: "(nat \<Rightarrow> bool) \<Rightarrow> ustr \<Rightarrow> ustr" where
  "rstrip_where P s = rev (dropWhile P (rev s))"

definition strip_where :: "(nat \<Rightarrow> bool) \<Rightarrow> ustr \<Rightarrow> ustr" where
  "strip_where P s = rstrip_where P (lstrip_where P s)"

definition strip :: "ustr \<Rightarrow> ustr" where
  "strip s = strip_where is_space s"

lemma set_lstrip_where: "set (lstrip_where P s) \<subseteq> set s"
  by (auto simp: lstrip_where_def dest: set_dropWhileD)

lemma set_rstrip_where: "set (rstrip_where P s) \<subseteq> set s"
  by (auto simp: rstrip_where_def dest: set_dropWhileD)

lemma set_strip_where: "set (strip_where P s) \<subseteq> set s"
  using set_lstrip_where set_rstrip_where unfolding strip_where_def by fast

lemma rstrip_where_id: "s = [] \<or> \<not> P (last s) \<Longrightarrow> rstrip_where P s = s"
  by (cases s rule: rev_cases) (auto simp: rstrip_where_def)

lemma strip_where_id:
  assumes "\<And>c. c \<in> set s \<Longrightarrow> \<not> P c"
  shows "strip_where P s = s"
proof -
  have "lstrip_where P s = s"
    using assms by (cases s) (auto simp: lstrip_where_def)
  moreover have "rstrip_where P s = s"
    using assms by (intro rstrip_where_id) auto
  ultimately show ?thesis by (simp add: strip_where_def)
qed

lemma strip_id:
  assumes "\<And>c. c \<in> set s \<Longrightarrow> \<not> is_space c"
  shows "strip s = s"
  using assms by (simp add: strip_def strip_where_id)

lemma rstrip_where_last: "rstrip_where P s \<noteq> [] \<Longrightarrow> \<not> P (last (rstrip_where P s))"
  by (simp add: rstrip_where_def last_rev hd_dropWhile)

text \<open>\<open>s.split(sep)\<close> for a one-character separator: never the empty list.\<close>

fun split_on :: "nat \<Rightarrow> ustr \<Rightarrow> ustr list" where
  "split_on sep [] = [[]]"
| "split_on sep (c # s) =
     (if c = sep then [] # split_on sep s
      else (case split_on sep s of [] \<Rightarrow> [[c]] | p # ps \<Rightarrow> (c # p) # ps))"

lemma split_on_not_Nil [simp]: "split_on sep s \<noteq> []"
  by (induction s) (auto split: list.splits)

lemma split_on_no_sep: "sep \<notin> set s \<Longrightarrow> split_on sep s = [s]"
  by (induction s) auto

lemma split_on_parts: "p \<in> set (split_on sep s) \<Longrightarrow> set p \<subseteq> set s"
proof (induction s arbitrary: p)
  case (Cons c s)
  then show ?case
    by (cases "split_on sep s") (force split: if_splits)+
qed simp

text \<open>\<open>s[:i]\<close> for \<open>i = s.find(c)\<close>: the text before the first \<open>c\<close>.\<close>

definition before :: "nat \<Rightarrow> ustr \<Rightarrow> ustr" where
  "before c s = takeWhile (\<lambda>x. x \<noteq> c) s"

definition after :: "nat \<Rightarrow> ustr \<Rightarrow> ustr" where
  "after c s = drop 1 (dropWhile (\<lambda>x. x \<noteq> c) s)"

lemma set_before: "set (before c s) \<subseteq> set s"
  by (auto simp: before_def dest: set_takeWhileD)

lemma before_id: "c \<notin> set s \<Longrightarrow> before c s = s"
  by (auto simp: before_def takeWhile_eq_all_conv)

lemma before_append: "c \<notin> set s \<Longrightarrow> before c (s @ c # t) = s"
  by (auto simp: before_def takeWhile_tail takeWhile_append)

section \<open>Numerals\<close>

fun digits_of :: "nat \<Rightarrow> ustr" where
  "digits_of n = (if n < 10 then [48 + n] else digits_of (n div 10) @ [48 + n mod 10])"

declare digits_of.simps [simp del]

text \<open>\<open>str(i)\<close>.\<close>

definition str_of_int :: "int \<Rightarrow> ustr" where
  "str_of_int i = (if i < 0 then 45 # digits_of (nat (- i)) else digits_of (nat i))"

lemma digits_of_ascii_digits: "c \<in> set (digits_of n) \<Longrightarrow> 48 \<le> c \<and> c \<le> 57"
proof (induction n rule: digits_of.induct)
  case (1 n)
  show ?case
  proof (cases "n < 10")
    case True
    with "1.prems" show ?thesis by (subst (asm) digits_of.simps) simp
  next
    case False
    with "1.prems" have "c \<in> set (digits_of (n div 10)) \<or> c = 48 + n mod 10"
      by (subst (asm) digits_of.simps) auto
    moreover have "n mod 10 < 10" by simp
    ultimately show ?thesis using "1.IH" False by fastforce
  qed
qed

end
