(* ===== verification/Validation.thy ===== *)
theory Validation
  imports PyText
begin

text \<open>
  \<open>app/registrations/validation.py\<close>: the normal form of Iranian mobile numbers, the checksum of
  national codes, postal codes and birth dates. Text is code points, and \<open>\d\<close> accepts every
  Unicode decimal digit, as it does in the source.
\<close>

section \<open>Definitions\<close>

text \<open>\<open>re.sub(r"[\s()-]", "", value)\<close>\<close>

definition is_separator :: "nat \<Rightarrow> bool" where
  "is_separator c \<longleftrightarrow> is_space c \<or> c = 40 \<or> c = 41 \<or> c = 45"

definition compact_mobile :: "ustr \<Rightarrow> ustr" where
  "compact_mobile value = filter (\<lambda>c. \<not> is_separator c) value"

text \<open>\<open>_MOBILE_RE.fullmatch\<close>, the pattern \<open>^989\d{9}$\<close>.\<close>

definition mobile_re :: "ustr \<Rightarrow> bool" where
  "mobile_re s \<longleftrightarrow> startswith s (lit ''989'') \<and> length s = 12 \<and> list_all is_decimal (drop 3 s)"

definition normalize_iranian_mobile :: "ustr \<Rightarrow> exn + ustr" where
  "normalize_iranian_mobile value =
     (let compact = compact_mobile value;
          compact =
            (if startswith compact (lit ''0098'') then drop 2 compact
             else if startswith compact (lit ''0'') then lit ''98'' @ drop 1 compact
             else if startswith compact (lit ''+'') then drop 1 compact
             else compact)
      in if \<not> mobile_re compact then Inl (PyValueError ''invalid Iranian mobile number'')
         else Inr (lit ''+'' @ compact))"

text \<open>\<open>_DIGITS_RE.fullmatch\<close>, the pattern \<open>^\d+$\<close>.\<close>

definition digits_re :: "ustr \<Rightarrow> bool" where
  "digits_re s \<longleftrightarrow> s \<noteq> [] \<and> list_all is_decimal s"

definition validate_postal_code :: "ustr \<Rightarrow> exn + ustr" where
  "validate_postal_code value =
     (if length value \<noteq> 10 \<or> \<not> digits_re value
      then Inl (PyValueError ''postal code must contain exactly 10 digits'')
      else Inr value)"

text \<open>\<open>int(value[index])\<close>, on text every character of which is a decimal digit.\<close>

definition digit_at :: "ustr \<Rightarrow> nat \<Rightarrow> nat" where
  "digit_at value i = or_default (decimal_value (value ! i)) 0"

definition national_remainder :: "ustr \<Rightarrow> nat" where
  "national_remainder value = sum_list (map (\<lambda>i. digit_at value i * (10 - i)) [0..<9]) mod 11"

definition expected_check :: "nat \<Rightarrow> nat" where
  "expected_check remainder = (if remainder < 2 then remainder else 11 - remainder)"

definition validate_iranian_national_code :: "ustr \<Rightarrow> exn + ustr" where
  "validate_iranian_national_code value =
     (if length value \<noteq> 10 \<or> \<not> digits_re value \<or> card (set value) = 1
      then Inl (PyValueError ''invalid national code'')
      else
        let check = digit_at value 9;
            expected = expected_check (national_remainder value)
        in if check \<noteq> expected then Inl (PyValueError ''invalid national code checksum'')
           else Inr value)"

text \<open>Dates are day numbers; \<open>today\<close> is \<open>date.today()\<close>.\<close>

definition require_past_birth_date :: "int \<Rightarrow> int \<Rightarrow> exn + int" where
  "require_past_birth_date today value =
     (if value \<ge> today then Inl (PyValueError ''birth date must be in the past'') else Inr value)"

section \<open>Mobile numbers\<close>

lemma decimal_not_separator: "is_decimal c \<Longrightarrow> \<not> is_separator c"
  using space_not_decimal [of c]
  by (auto simp: is_separator_def) (simp_all add: is_decimal_def decimal_zeros_def)

lemma compact_mobile_id:
  assumes "\<And>c. c \<in> set s \<Longrightarrow> \<not> is_separator c"
  shows "compact_mobile s = s"
  using assms by (simp add: compact_mobile_def)

text \<open>The shape of an accepted compact number: 9, 8, 9 and nine more decimal digits.\<close>

lemma mobile_reE:
  assumes "mobile_re s"
  obtains ds where "s = 57 # 56 # 57 # ds" "length ds = 9" "list_all is_decimal ds"
proof -
  from assms have "s = lit ''989'' @ drop 3 s"
    using startswithD [of s "lit ''989''"] by (simp add: mobile_re_def numeral_3_eq_3)
  with assms show thesis
    by (intro that [of "drop 3 s"]) (auto simp: mobile_re_def)
qed

lemma mobile_re_digits: "mobile_re (57 # 56 # 57 # ds) \<longleftrightarrow> length ds = 9 \<and> list_all is_decimal ds"
  by (auto simp: mobile_re_def startswith_def)

text \<open>The core of the number, from its first significant 9.\<close>

definition mobile_body :: "ustr \<Rightarrow> bool" where
  "mobile_body ds \<longleftrightarrow> length ds = 9 \<and> list_all is_decimal ds"

lemma normalize_spellings_core:
  assumes "mobile_body ds" "p \<in> {lit ''989'', lit ''09'', lit ''+989'', lit ''00989''}"
  shows "normalize_iranian_mobile (p @ ds) = Inr (lit ''+989'' @ ds)"
proof -
  have seps: "\<not> is_separator c" if "c \<in> set ds" for c
    using that assms(1) by (auto simp: mobile_body_def list_all_iff dest: decimal_not_separator)
  have "compact_mobile (p @ ds) = p @ ds"
    using seps assms(2)
    by (intro compact_mobile_id) (auto simp: is_separator_def is_space_def space_points_def)
  then show ?thesis
    using assms by (auto simp: normalize_iranian_mobile_def startswith_def mobile_re_def
        mobile_body_def)
qed

lemma normalize_mobile_cases:
  assumes "normalize_iranian_mobile v = Inr n"
  obtains ds where "n = lit ''+989'' @ ds" "mobile_body ds"
proof -
  from assms obtain s where "mobile_re s" "n = lit ''+'' @ s"
    by (auto simp: normalize_iranian_mobile_def Let_def split: if_splits)
  then show thesis
    using that by (auto simp: mobile_body_def elim!: mobile_reE)
qed

lemma normalize_compact:
  "normalize_iranian_mobile (compact_mobile v) = normalize_iranian_mobile v"
  by (simp add: normalize_iranian_mobile_def compact_mobile_def)

section \<open>National codes\<close>

lemma expected_check_less: "r < 11 \<Longrightarrow> expected_check r < 10"
  by (auto simp: expected_check_def)

lemma expected_check_collision:
  assumes "expected_check r = expected_check r'" "r < 11" "r' < 11" "r \<noteq> r'"
  shows "{r, r'} = {1, 10}"
  using assms by (auto simp: expected_check_def split: if_splits)

lemma national_remainder_less: "national_remainder v < 11"
  by (simp add: national_remainder_def)

text \<open>The weight 10 - i of a changed digit is a unit modulo 11, so the weighted sum moves.\<close>

lemma small_product_not_dvd_11:
  fixes d w :: nat
  assumes "1 \<le> d" "d \<le> 9" "2 \<le> w" "w \<le> 10"
  shows "\<not> 11 dvd d * w"
proof -
  have "w = 2 \<or> w = 3 \<or> w = 4 \<or> w = 5 \<or> w = 6 \<or> w = 7 \<or> w = 8 \<or> w = 9 \<or> w = 10"
    using assms(3,4) by auto
  moreover have "d = 1 \<or> d = 2 \<or> d = 3 \<or> d = 4 \<or> d = 5 \<or> d = 6 \<or> d = 7 \<or> d = 8 \<or> d = 9"
    using assms(1,2) by auto
  ultimately show ?thesis
    by (elim disjE) (simp_all add: dvd_eq_mod_eq_0)
qed

lemma weighted_digit_moves:
  fixes a b w :: nat
  assumes "a < 10" "b < 10" "a \<noteq> b" "2 \<le> w" "w \<le> 10"
  shows "(s + a * w) mod 11 \<noteq> (s + b * w) mod 11"
proof -
  have step: "(s + x * w) mod 11 \<noteq> (s + y * w) mod 11" if "x < y" "y < 10" for x y
  proof -
    have "\<not> 11 dvd (y - x) * w"
      using that assms(4,5) by (intro small_product_not_dvd_11) auto
    moreover have "(s + y * w) - (s + x * w) = (y - x) * w"
      by (simp add: diff_mult_distrib)
    moreover have "s + x * w \<le> s + y * w"
      using that by simp
    ultimately show ?thesis
      by (metis mod_eq_dvd_iff_nat)
  qed
  then show ?thesis
    using assms(1-3) by (metis linorder_neqE_nat)
qed

lemma digit_at_less: "digit_at v i < 10"
  using decimal_value_less [of "v ! i"] by (cases "decimal_value (v ! i)") (auto simp: digit_at_def)

lemma national_remainder_moves:
  assumes "i < 9" "digit_at v i \<noteq> digit_at w i"
    and "\<And>j. j < 10 \<Longrightarrow> j \<noteq> i \<Longrightarrow> digit_at v j = digit_at w j"
  shows "national_remainder v \<noteq> national_remainder w"
proof -
  define rest where "rest x = (\<Sum>j\<in>{..<9} - {i}. digit_at x j * (10 - j))" for x
  have split: "national_remainder x = (rest x + digit_at x i * (10 - i)) mod 11" for x
    using assms(1) unfolding national_remainder_def rest_def
    by (simp add: interv_sum_list_conv_sum_set_nat sum.remove [of "{..<9}" i] add.commute atLeast0LessThan)
  have "rest v = rest w"
    unfolding rest_def using assms(3) by (intro sum.cong) auto
  then show ?thesis
    unfolding split using assms(1,2) digit_at_less weighted_digit_moves [of "digit_at v i" "digit_at w i" "10 - i" "rest w"]
    by simp
qed

section \<open>Properties\<close>

text \<open>
  a mobile number is accepted exactly when, without whitespace, brackets and dashes, it is one
  of the four spellings (989..., 09..., +989..., 00989...) of a number with nine further decimal
  digits, and every spelling gets the one normal form +989... .
\<close>

theorem mobile_normal_form:
  "normalize_iranian_mobile v = Inr n \<longleftrightarrow>
     (\<exists>p ds. p \<in> {lit ''989'', lit ''09'', lit ''+989'', lit ''00989''} \<and> mobile_body ds
        \<and> compact_mobile v = p @ ds \<and> n = lit ''+989'' @ ds)"
  (is "?L \<longleftrightarrow> ?R")
proof
  assume ?L
  then obtain s where s: "mobile_re s" "n = lit ''+'' @ s"
    and cases: "(startswith (compact_mobile v) (lit ''0098'') \<and> s = drop 2 (compact_mobile v))
      \<or> (startswith (compact_mobile v) (lit ''0'') \<and> s = lit ''98'' @ drop 1 (compact_mobile v))
      \<or> (startswith (compact_mobile v) (lit ''+'') \<and> s = drop 1 (compact_mobile v))
      \<or> s = compact_mobile v"
    by (auto simp: normalize_iranian_mobile_def Let_def split: if_splits)
  from s(1) obtain ds where ds: "s = lit ''989'' @ ds" "mobile_body ds"
    by (auto simp: mobile_body_def elim!: mobile_reE)
  have "\<exists>p \<in> {lit ''989'', lit ''09'', lit ''+989'', lit ''00989''}. compact_mobile v = p @ ds"
    using cases ds(1)
  proof (elim disjE conjE)
    assume "startswith (compact_mobile v) (lit ''0098'')" "s = drop 2 (compact_mobile v)"
    then obtain r where "compact_mobile v = lit ''0098'' @ r" "s = lit ''98'' @ r"
      using startswithD by fastforce
    with ds(1) show ?thesis by simp
  next
    assume "startswith (compact_mobile v) (lit ''0'')" "s = lit ''98'' @ drop 1 (compact_mobile v)"
    then obtain r where "compact_mobile v = lit ''0'' @ r" "s = lit ''98'' @ r"
      using startswithD by fastforce
    with ds(1) show ?thesis by simp
  next
    assume "startswith (compact_mobile v) (lit ''+'')" "s = drop 1 (compact_mobile v)"
    then have "compact_mobile v = lit ''+'' @ s"
      using startswithD by fastforce
    with ds(1) show ?thesis by simp
  next
    assume "s = compact_mobile v"
    with ds(1) have "compact_mobile v = lit ''989'' @ ds" by simp
    then show ?thesis by blast
  qed
  then obtain p where "p \<in> {lit ''989'', lit ''09'', lit ''+989'', lit ''00989''}"
    and "compact_mobile v = p @ ds" by blast
  moreover have "n = lit ''+989'' @ ds"
    using s(2) ds(1) by simp
  ultimately show ?R
    using ds(2) by blast
next
  assume ?R
  then show ?L
    by (metis normalize_compact normalize_spellings_core)
qed

text \<open>
  a national code with one digit changed is rejected, unless the change is among the first
  nine digits and moves the weighted remainder between 1 and 10, the one collision of the check
  digit.
\<close>

theorem national_code_single_digit_error:
  assumes "validate_iranian_national_code v = Inr v" "validate_iranian_national_code w = Inr w"
    and "i < 10" "digit_at v i \<noteq> digit_at w i"
    and "\<And>j. j < 10 \<Longrightarrow> j \<noteq> i \<Longrightarrow> digit_at v j = digit_at w j"
  shows "i < 9 \<and> {national_remainder v, national_remainder w} = {1, 10}"
proof -
  have checks: "digit_at v 9 = expected_check (national_remainder v)"
      "digit_at w 9 = expected_check (national_remainder w)"
    using assms(1,2) by (auto simp: validate_iranian_national_code_def Let_def split: if_splits)
  show ?thesis
  proof (cases "i = 9")
    case True
    have "national_remainder v = national_remainder w"
      unfolding national_remainder_def using assms(5) True
      by (intro arg_cong [where f = "\<lambda>xs. sum_list xs mod 11"] map_cong) auto
    with checks assms(4) True show ?thesis by simp
  next
    case False
    then have "i < 9" using assms(3) by simp
    moreover have "national_remainder v \<noteq> national_remainder w"
      using \<open>i < 9\<close> assms(4,5) by (rule national_remainder_moves)
    moreover have "expected_check (national_remainder v) = expected_check (national_remainder w)"
      using checks assms(5) [of 9] False by simp
    ultimately show ?thesis
      using expected_check_collision national_remainder_less by blast
  qed
qed

lemmas national_code_eval = validate_iranian_national_code_def national_remainder_def
  expected_check_def digits_re_def digit_at_def decimal_value_def is_decimal_def decimal_zeros_def
  upt_rec card_insert_if

theorem national_code_single_digit_error_witness:
  "{national_remainder (lit ''1000000011''), national_remainder (lit ''3000000011'')} = {1, 10}"
proof -
  have "digit_at (lit ''1000000011'') j = digit_at (lit ''3000000011'') j" if "j < 10" "j \<noteq> 0" for j
    using that by (cases j) (auto simp: digit_at_def)
  moreover have "digit_at (lit ''1000000011'') 0 \<noteq> digit_at (lit ''3000000011'') 0"
    by (simp add: national_code_eval)
  ultimately show ?thesis
    using national_code_single_digit_error [of "lit ''1000000011''" "lit ''3000000011''" 0]
    by (simp add: national_code_eval)
qed

text \<open>
  the checks look at the value of a digit, not its script: the same national code written in
  Persian digits is accepted unchanged, as a different string.
\<close>

theorem national_code_script_alias:
  "\<exists>a b. a \<noteq> b \<and> validate_iranian_national_code a = Inr a \<and> validate_iranian_national_code b = Inr b
     \<and> map (digit_at a) [0..<10] = map (digit_at b) [0..<10]"
proof (intro exI conjI)
  let ?a = "lit ''1000000011''"
  let ?b = "map (\<lambda>c. c + 1728) ?a :: ustr"
  show "?a \<noteq> ?b" by simp
  show "validate_iranian_national_code ?a = Inr ?a" 
    by (simp add: national_code_eval)
  show "validate_iranian_national_code ?b = Inr ?b" 
    by (simp add: national_code_eval)
  show "map (digit_at ?a) [0..<10] = map (digit_at ?b) [0..<10]"
    by (simp add: national_code_eval)
qed

end
