(* ===== verification/Config.thy ===== *)
theory Config
  imports PyText
begin

text \<open>
  \<open>app/core/config.py\<close>: the settings, the bounds pydantic puts on them, and the validators of S3
  endpoints and of production deployments. \<open>urlsplit\<close> and the properties of its result are the
  standard library's, on ASCII text; the checks it makes of bracketed hosts and of characters
  that NFKC maps to URL delimiters are arguments (\<open>bracketed_ok\<close>, \<open>nfkc_ok\<close>).
\<close>

section \<open>Splitting URLs\<close>

text \<open>\<open>s.partition(c)\<close> and \<open>s.rpartition(c)\<close> as (head, found, tail).\<close>

definition partition_at :: "nat \<Rightarrow> ustr \<Rightarrow> ustr \<times> bool \<times> ustr" where
  "partition_at c s = (before c s, c \<in> set s, after c s)"

definition rpartition_at :: "nat \<Rightarrow> ustr \<Rightarrow> ustr \<times> bool \<times> ustr" where
  "rpartition_at c s =
     (if c \<in> set s then (rev (after c (rev s)), True, rev (before c (rev s))) else ([], False, s))"

record split_url =
  url_scheme :: ustr
  url_netloc :: ustr
  url_path :: ustr
  url_query :: ustr
  url_fragment :: ustr

definition is_scheme_char :: "nat \<Rightarrow> bool" where
  "is_scheme_char c \<longleftrightarrow> is_ascii_alpha c \<or> (48 \<le> c \<and> c \<le> 57) \<or> c = 43 \<or> c = 45 \<or> c = 46"

text \<open>The scheme is the text before the first colon, when it looks like one.\<close>

definition split_scheme :: "ustr \<Rightarrow> ustr \<times> ustr" where
  "split_scheme url =
     (let head = before 58 url in
      if 58 \<in> set url \<and> head \<noteq> [] \<and> is_ascii_alpha (hd url) \<and> list_all is_scheme_char head
      then (lower head, after 58 url) else ([], url))"

definition urlsplit :: "(ustr \<Rightarrow> bool) \<Rightarrow> (ustr \<Rightarrow> bool) \<Rightarrow> ustr \<Rightarrow> exn + split_url" where
  "urlsplit bracketed_ok nfkc_ok url =
     (let url = lstrip_where (\<lambda>c. c \<le> 32) url;
          url = filter (\<lambda>c. c \<notin> {9, 10, 13}) url;
          (scheme, url) = split_scheme url;
          has_netloc = startswith url (lit ''//'');
          netloc = (if has_netloc then takeWhile (\<lambda>c. c \<notin> {47, 63, 35}) (drop 2 url) else []);
          url = (if has_netloc then drop (2 + length netloc) url else url);
          (url, _, fragment) = partition_at 35 url;
          (path, _, query) = partition_at 63 url
      in if (91 \<in> set netloc) \<noteq> (93 \<in> set netloc) then Inl (PyValueError ''Invalid IPv6 URL'')
         else if 91 \<in> set netloc \<and> \<not> bracketed_ok netloc then Inl (PyValueError ''Invalid IPv6 URL'')
         else if \<not> nfkc_ok netloc then Inl (PyValueError ''invalid netloc'')
         else Inr \<lparr>url_scheme = scheme, url_netloc = netloc, url_path = path,
                   url_query = query, url_fragment = fragment\<rparr>)"

definition hostinfo :: "split_url \<Rightarrow> ustr" where
  "hostinfo u =
     (let (_, _, info) = rpartition_at 64 (url_netloc u);
          (_, bracketed, rest) = partition_at 91 info
      in if bracketed then before 93 rest else before 58 info)"

definition url_hostname :: "split_url \<Rightarrow> ustr option" where
  "url_hostname u =
     (let (name, percent, zone) = partition_at 37 (hostinfo u) in
      if hostinfo u = [] then None
      else Some (lower name @ (if percent then [37] else []) @ zone))"

definition url_username :: "split_url \<Rightarrow> ustr option" where
  "url_username u =
     (let (userinfo, have_info, _) = rpartition_at 64 (url_netloc u) in
      if have_info then Some (before 58 userinfo) else None)"

definition url_password :: "split_url \<Rightarrow> ustr option" where
  "url_password u =
     (let (userinfo, have_info, _) = rpartition_at 64 (url_netloc u) in
      if have_info \<and> 58 \<in> set userinfo then Some (after 58 userinfo) else None)"

section \<open>Settings\<close>

datatype environment = DEVELOPMENT | TESTING | PRODUCTION

datatype provider_kind = MOCK | EXTERNAL

record settings =
  environment_of :: environment
  debug :: bool
  database_dsn :: ustr
  database_application_role :: ustr
  database_pool_size :: int
  database_max_overflow :: int
  signing_key :: ustr
  access_token_ttl_seconds :: int
  refresh_token_ttl_seconds :: int
  draft_token_ttl_seconds :: int
  callback_token_ttl_seconds :: int
  authentication_window_seconds :: int
  authentication_max_attempts :: nat
  trust_forwarded_host :: bool
  trusted_proxy_cidrs :: "ustr list"
  allowed_cors_origins :: "ustr list"
  data_plane_host :: ustr
  data_plane_port :: int
  control_plane_host :: ustr
  control_plane_port :: int
  otp_provider_kind :: provider_kind
  otp_ttl_seconds :: int
  otp_resend_cooldown_seconds :: int
  otp_max_attempts :: nat
  otp_max_active_challenges :: nat
  otp_phone_hourly_limit :: nat
  otp_ip_hourly_limit :: nat
  otp_tenant_minute_limit :: nat
  payment_provider_kind :: provider_kind
  public_base_url :: ustr
  site_build_webhook_url :: "ustr option"
  site_build_hmac_secret :: ustr
  site_build_webhook_timeout_seconds :: int
  site_build_callback_max_age_seconds :: int
  site_build_max_attempts :: nat
  site_build_lease_seconds :: int
  s3_endpoint_url :: ustr
  s3_public_endpoint_url :: "ustr option"
  s3_bucket :: ustr
  s3_presign_ttl_seconds :: int
  upload_max_bytes :: int
  upload_allowed_mime_types :: "ustr list"

definition between :: "int \<Rightarrow> int \<Rightarrow> int \<Rightarrow> bool" where
  "between lo hi x \<longleftrightarrow> lo \<le> x \<and> x \<le> hi"

text \<open>The \<open>ge\<close>, \<open>le\<close>, \<open>min_length\<close> and \<open>max_length\<close> arguments of the fields.\<close>

definition settings_bounds :: "settings \<Rightarrow> bool" where
  "settings_bounds c \<longleftrightarrow>
     between 1 100 (database_pool_size c) \<and> between 0 200 (database_max_overflow c)
     \<and> between 60 3600 (access_token_ttl_seconds c) \<and> refresh_token_ttl_seconds c \<ge> 3600
     \<and> draft_token_ttl_seconds c \<ge> 3600 \<and> between 60 3600 (callback_token_ttl_seconds c)
     \<and> between 60 3600 (authentication_window_seconds c)
     \<and> between 3 100 (int (authentication_max_attempts c))
     \<and> between 1 253 (int (length (data_plane_host c)))
     \<and> between 1 65535 (data_plane_port c)
     \<and> between 1 253 (int (length (control_plane_host c)))
     \<and> between 1 65535 (control_plane_port c)
     \<and> between 60 600 (otp_ttl_seconds c) \<and> between 10 600 (otp_resend_cooldown_seconds c)
     \<and> between 1 10 (int (otp_max_attempts c)) \<and> between 1 10 (int (otp_max_active_challenges c))
     \<and> between 1 100 (int (otp_phone_hourly_limit c)) \<and> between 1 500 (int (otp_ip_hourly_limit c))
     \<and> between 1 10000 (int (otp_tenant_minute_limit c))
     \<and> between 1 120 (site_build_webhook_timeout_seconds c)
     \<and> between 30 3600 (site_build_callback_max_age_seconds c)
     \<and> between 1 20 (int (site_build_max_attempts c)) \<and> between 30 3600 (site_build_lease_seconds c)
     \<and> between 60 86400 (s3_presign_ttl_seconds c) \<and> upload_max_bytes c \<ge> 1024"

definition validate_s3_endpoint_url ::
  "(ustr \<Rightarrow> bool) \<Rightarrow> (ustr \<Rightarrow> bool) \<Rightarrow> ustr option \<Rightarrow> exn + ustr option" where
  "validate_s3_endpoint_url bracketed_ok nfkc_ok value =
     (case value of
        None \<Rightarrow> Inr None
      | Some v \<Rightarrow>
          (case urlsplit bracketed_ok nfkc_ok v of
             Inl e \<Rightarrow> Inl e
           | Inr parsed \<Rightarrow>
               if url_scheme parsed \<notin> {lit ''http'', lit ''https''} \<or> url_hostname parsed = None
               then Inl (PyValueError ''S3 endpoint URLs must be absolute HTTP(S) URLs'')
               else if url_username parsed \<noteq> None \<or> url_password parsed \<noteq> None
               then Inl (PyValueError ''S3 endpoint URLs must not contain credentials'')
               else if url_query parsed \<noteq> [] \<or> url_fragment parsed \<noteq> []
               then Inl (PyValueError ''S3 endpoint URLs must not contain a query or fragment'')
               else Inr (Some (rstrip_where (\<lambda>c. c = 47) v))))"

definition reject_unsafe_production_settings :: "settings \<Rightarrow> exn + settings" where
  "reject_unsafe_production_settings c =
     (if environment_of c = PRODUCTION
         \<and> (otp_provider_kind c = MOCK \<or> payment_provider_kind c = MOCK)
      then Inl (PyValueError ''mock OTP/payment providers are forbidden in production'')
      else if environment_of c = PRODUCTION \<and> length (signing_key c) < 32
      then Inl (PyValueError ''production signing key must contain at least 32 characters'')
      else if environment_of c = PRODUCTION \<and> length (site_build_hmac_secret c) < 32
      then Inl (PyValueError ''production site-build HMAC secret must contain 32 characters'')
      else if environment_of c = PRODUCTION \<and> debug c
      then Inl (PyValueError ''debug mode is forbidden in production'')
      else if trust_forwarded_host c \<and> trusted_proxy_cidrs c = []
      then Inl (PyValueError ''trusted proxy CIDRs are required when forwarded hosts are trusted'')
      else Inr c)"

text \<open>\<open>_ROLE_RE\<close> of \<open>app/core/database.py\<close>: the identifier put into \<open>SET LOCAL ROLE\<close>.\<close>

definition is_role_char :: "nat \<Rightarrow> bool" where
  "is_role_char c \<longleftrightarrow> is_ascii_alpha c \<or> (48 \<le> c \<and> c \<le> 57) \<or> c = 95"

definition role_re :: "ustr \<Rightarrow> bool" where
  "role_re s \<longleftrightarrow> s \<noteq> [] \<and> (is_ascii_alpha (hd s) \<or> hd s = 95) \<and> list_all is_role_char s"

definition set_role_statement :: "settings \<Rightarrow> exn + ustr" where
  "set_role_statement c =
     (if \<not> role_re (database_application_role c) then Inl (PyValueError ''invalid PostgreSQL application role'')
      else Inr (lit ''SET LOCAL ROLE '' @ [34] @ database_application_role c @ [34]))"

end
