(* ===== verification/Registrations.thy ===== *)
theory Registrations
  imports RegistrationModel Validation Config
begin

text \<open>
  Draft registrations: the request bodies of \<open>app/registrations/schemas.py\<close>, every operation of
  \<open>RegistrationService\<close> (\<open>app/registrations/service.py\<close>) and the endpoints of
  \<open>app/registrations/router.py\<close> that call them. An endpoint is a \<open>transaction\<close>; a service
  operation works on the session's state and receives the registration it works on as loaded
  by \<open>authorized_draft\<close>. \<open>digest\<close> is SHA-256 in hexadecimal, \<open>now\<close> the instant the operation
  reads the clock, \<open>fresh\<close> the identifiers \<open>uuid4\<close> returns, \<open>raw\<close> the token
  \<open>secrets.token_urlsafe\<close> returns.
\<close>

section \<open>Request bodies\<close>

definition length_between :: "nat \<Rightarrow> nat \<Rightarrow> ustr \<Rightarrow> bool" where
  "length_between lo hi s \<longleftrightarrow> lo \<le> length s \<and> length s \<le> hi"

record registration_create =
  create_exam_offering_id :: uuid
  create_pricing_plan_id :: "uuid option"
  create_phone_number :: ustr

definition validate_create :: "registration_create \<Rightarrow> exn + registration_create" where
  "validate_create body =
     (case normalize_iranian_mobile (create_phone_number body) of
        Inl e \<Rightarrow> Inl e
      | Inr p \<Rightarrow> Inr (body\<lparr>create_phone_number := p\<rparr>))"

text \<open>In a patch \<open>None\<close> is a field the client left out, \<open>Some None\<close> an explicit null.\<close>

record registration_patch =
  p_phone_number :: "ustr option option"
  p_first_name :: "ustr option option"
  p_last_name :: "ustr option option"
  p_gender :: "gender option option"
  p_national_code :: "ustr option option"
  p_father_name :: "ustr option option"
  p_birth_date :: "int option option"
  p_home_phone :: "ustr option option"
  p_current_school_id :: "uuid option option"
  p_previous_school_id :: "uuid option option"
  p_postal_code :: "ustr option option"
  p_address :: "ustr option option"
  p_profile_image_id :: "uuid option option"
  p_extra_answers :: "json option option"

definition empty_patch :: registration_patch where
  "empty_patch = \<lparr>p_phone_number = None, p_first_name = None, p_last_name = None, p_gender = None,
     p_national_code = None, p_father_name = None, p_birth_date = None, p_home_phone = None,
     p_current_school_id = None, p_previous_school_id = None, p_postal_code = None,
     p_address = None, p_profile_image_id = None, p_extra_answers = None\<rparr>"

text \<open>A validator runs on a field that is given and not null.\<close>

definition check_field :: "('a \<Rightarrow> exn + 'a) \<Rightarrow> 'a option option \<Rightarrow> exn + 'a option option" where
  "check_field f v =
     (case v of
        Some (Some x) \<Rightarrow> (case f x of Inl e \<Rightarrow> Inl e | Inr y \<Rightarrow> Inr (Some (Some y)))
      | _ \<Rightarrow> Inr v)"

definition sized :: "nat \<Rightarrow> nat \<Rightarrow> ustr \<Rightarrow> exn + ustr" where
  "sized lo hi s = (if length_between lo hi s then Inr s else Inl (PyValueError ''string length''))"

definition object_only :: "json \<Rightarrow> exn + json" where
  "object_only v = (if is_object v then Inr v else Inl (PyValueError ''dict_type''))"

text \<open>
  \<open>RegistrationPatch.model_validate\<close>. Pydantic reports the errors of all fields; the model keeps
  the first, since any error makes the request a 422.
\<close>

definition validate_patch :: "int \<Rightarrow> registration_patch \<Rightarrow> exn + registration_patch" where
  "validate_patch today body =
     (case (check_field normalize_iranian_mobile (p_phone_number body),
            check_field (sized 1 100) (p_first_name body),
            check_field (sized 1 100) (p_last_name body),
            check_field validate_iranian_national_code (p_national_code body),
            check_field (sized 1 200) (p_father_name body),
            check_field (require_past_birth_date today) (p_birth_date body),
            check_field (sized 0 32) (p_home_phone body),
            check_field validate_postal_code (p_postal_code body),
            check_field (sized 5 4000) (p_address body),
            check_field object_only (p_extra_answers body)) of
        (Inr phone, Inr _, Inr _, Inr _, Inr _, Inr _, Inr _, Inr _, Inr _, Inr _) \<Rightarrow>
          Inr (body\<lparr>p_phone_number := phone\<rparr>)
      | _ \<Rightarrow> Inl (PyValueError ''REQUEST_VALIDATION_FAILED''))"

record contact_input =
  ci_position :: int
  ci_name :: ustr
  ci_phone_number :: ustr
  ci_relationship :: ustr

definition validate_contact :: "contact_input \<Rightarrow> exn + contact_input" where
  "validate_contact c =
     (if ci_position c \<notin> {1, 2} then Inl (PyValueError ''literal_error'')
      else if \<not> length_between 2 200 (ci_name c) then Inl (PyValueError ''string length'')
      else if \<not> length_between 2 100 (ci_relationship c) then Inl (PyValueError ''string length'')
      else (case normalize_iranian_mobile (ci_phone_number c) of
              Inl e \<Rightarrow> Inl e
            | Inr p \<Rightarrow> Inr (c\<lparr>ci_phone_number := p\<rparr>)))"

fun validate_all :: "('a \<Rightarrow> exn + 'b) \<Rightarrow> 'a list \<Rightarrow> exn + 'b list" where
  "validate_all f [] = Inr []"
| "validate_all f (x # xs) =
     (case f x of
        Inl e \<Rightarrow> Inl e
      | Inr y \<Rightarrow> (case validate_all f xs of Inl e \<Rightarrow> Inl e | Inr ys \<Rightarrow> Inr (y # ys)))"

definition validate_contacts_put :: "contact_input list \<Rightarrow> exn + contact_input list" where
  "validate_contacts_put body =
     (if body = [] \<or> length body > 2 then Inl (PyValueError ''list length'')
      else case validate_all validate_contact body of
             Inl e \<Rightarrow> Inl e
           | Inr cs \<Rightarrow>
               if length (remdups (map ci_position cs)) \<noteq> length cs
               then Inl (PyValueError ''contact positions must be unique'')
               else Inr cs)"

section \<open>RegistrationService\<close>

definition MUTABLE_STATUSES :: "reg_state set" where
  "MUTABLE_STATUSES =
     {Reg_DRAFT, Reg_PHONE_VERIFICATION_REQUIRED, Reg_PHONE_VERIFIED, Reg_READY_FOR_SUBMISSION}"

definition SUBMITTED_STATUSES :: "reg_state set" where
  "SUBMITTED_STATUSES = {Reg_SUBMITTED, Reg_PAYMENT_PENDING, Reg_COMPLETED}"

definition plan_association :: "session \<Rightarrow> uuid \<Rightarrow> uuid \<Rightarrow> reg_db \<Rightarrow> exam_pricing_plan option" where
  "plan_association cur e p s =
     scalar (select_where ep_tenant_id cur
       (\<lambda>a. ep_exam_offering_id a = e \<and> ep_pricing_plan_id a = p) (exam_plans s))"

definition active_definition :: "session \<Rightarrow> reg_db \<Rightarrow> form_definition option" where
  "active_definition cur s =
     latest form_version (select_where form_tenant_id cur form_is_active (form_defs s))"

definition resolve_plan :: "session \<Rightarrow> uuid \<Rightarrow> uuid option \<Rightarrow> reg_db \<Rightarrow> exn + pricing_plan option" where
  "resolve_plan cur e plan_ref s =
     (case plan_ref of
        None \<Rightarrow> Inr None
      | Some i \<Rightarrow>
          (case (plan_association cur e i s, get_plan cur i s) of
             (Some _, Some plan) \<Rightarrow>
               if plan_status plan \<noteq> Plan_PUBLISHED
               then Inl (app_error ''PRICING_PLAN_NOT_AVAILABLE'' 400) else Inr (Some plan)
           | _ \<Rightarrow> Inl (app_error ''PRICING_PLAN_NOT_AVAILABLE'' 400)))"

definition create_draft ::
  "(ustr \<Rightarrow> ustr) \<Rightarrow> settings \<Rightarrow> session \<Rightarrow> instant \<Rightarrow> uuid \<Rightarrow> ustr \<Rightarrow> uuid \<Rightarrow> uuid \<Rightarrow> uuid option
     \<Rightarrow> ustr \<Rightarrow> reg_db \<Rightarrow> (registration \<times> ustr, reg_db) outcome" where
  "create_draft digest c cur now fresh raw tenant_id exam_ref plan_ref phone s =
     (case get_exam cur exam_ref s of
        None \<Rightarrow> (Inl (app_error ''EXAM_NOT_FOUND'' 404), s)
      | Some exam \<Rightarrow>
          if exam_tenant_id exam \<noteq> tenant_id then (Inl (app_error ''EXAM_NOT_FOUND'' 404), s)
          else if exam_status exam \<noteq> Exam_REGISTRATION_OPEN
          then (Inl (app_error ''EXAM_REGISTRATION_CLOSED'' 400), s)
          else if (case registration_starts_at exam of None \<Rightarrow> False | Some t \<Rightarrow> now < t)
          then (Inl (app_error ''EXAM_REGISTRATION_NOT_STARTED'' 400), s)
          else if (case registration_ends_at exam of None \<Rightarrow> False | Some t \<Rightarrow> now \<ge> t)
          then (Inl (app_error ''EXAM_REGISTRATION_CLOSED'' 400), s)
          else
            (case resolve_plan cur (exam_id exam) plan_ref s of
               Inl e \<Rightarrow> (Inl e, s)
             | Inr plan \<Rightarrow>
                 let form = active_definition cur s;
                     r = \<lparr>reg_id = fresh, reg_tenant_id = tenant_id,
                          reg_exam_offering_id = exam_id exam,
                          selected_pricing_plan_id = map_option plan_id plan,
                          form_definition_id = map_option form_id form,
                          form_definition_version = map_option form_version form,
                          draft_token_hash = digest raw,
                          draft_token_expires_at = now + seconds (draft_token_ttl_seconds c),
                          reg_phone_number = phone,
                          first_name = None, last_name = None, reg_gender = None,
                          national_code = None, father_name = None, birth_date = None,
                          home_phone = None, current_school_id = None,
                          previous_school_id = None, postal_code = None, address = None,
                          profile_image_id = None, extra_answers = JObj [],
                          payable_amount = Some (case plan of None \<Rightarrow> 0 | Some p \<Rightarrow> plan_amount p),
                          payable_currency = map_option plan_currency plan,
                          reg_status = Reg_PHONE_VERIFICATION_REQUIRED,
                          payment_status = RegPay_PENDING,
                          phone_verified_at = None, submitted_at = None, internal_notes = None,
                          reg_created_at = now\<rparr>
                 in if key_taken reg_id r (registrations s) then (Inl IntegrityError, s)
                    else (Inr (r, raw), s\<lparr>registrations := insert_row r (registrations s)\<rparr>)))"

definition authorized_draft ::
  "(ustr \<Rightarrow> ustr) \<Rightarrow> session \<Rightarrow> instant \<Rightarrow> uuid \<Rightarrow> ustr \<Rightarrow> reg_db \<Rightarrow> exn + registration" where
  "authorized_draft digest cur now registration_id raw_token s =
     (case get_reg cur registration_id s of
        None \<Rightarrow> Inl (app_error ''DRAFT_ACCESS_DENIED'' 404)
      | Some r \<Rightarrow>
          if draft_token_expires_at r > now \<and> draft_token_hash r = digest raw_token then Inr r
          else Inl (app_error ''DRAFT_ACCESS_DENIED'' 404))"

text \<open>The reference checks of \<open>patch\<close>.\<close>

definition school_invalid :: "reg_db \<Rightarrow> string \<Rightarrow> uuid option option \<Rightarrow> string list" where
  "school_invalid s field change =
     (case change of
        Some (Some i) \<Rightarrow>
          (case get_school i s of
             None \<Rightarrow> [field]
           | Some school \<Rightarrow> if \<not> school_is_active school then [field] else [])
      | _ \<Rightarrow> [])"

definition image_invalid :: "session \<Rightarrow> registration \<Rightarrow> uuid option option \<Rightarrow> reg_db \<Rightarrow> string list" where
  "image_invalid cur r change s =
     (case change of
        Some (Some i) \<Rightarrow>
          (case scalar (select_where media_tenant_id cur
                  (\<lambda>m. media_id m = i \<and> media_tenant_id m = reg_tenant_id r) (media s)) of
             None \<Rightarrow> [''profile_image_id'']
           | Some m \<Rightarrow>
               if media_status m \<noteq> Media_READY \<or> media_visibility m \<noteq> Vis_PRIVATE
               then [''profile_image_id''] else [])
      | _ \<Rightarrow> [])"

definition invalid_references ::
  "session \<Rightarrow> registration \<Rightarrow> registration_patch \<Rightarrow> reg_db \<Rightarrow> string list" where
  "invalid_references cur r body s =
     school_invalid s ''current_school_id'' (p_current_school_id body)
     @ school_invalid s ''previous_school_id'' (p_previous_school_id body)
     @ image_invalid cur r (p_profile_image_id body) s"

text \<open>
  \<open>for field, value in changes.items(): setattr(...)\<close>. An explicit null clears a nullable column;
  the NOT NULL column \<open>phone_number\<close> is treated in \<open>patch\<close>, and \<open>extra_answers\<close> becomes JSON null.
\<close>

definition setattr_changes :: "registration_patch \<Rightarrow> registration \<Rightarrow> registration" where
  "setattr_changes body r =
     r\<lparr>reg_phone_number := or_default (or_default (p_phone_number body) None) (reg_phone_number r),
       first_name := or_default (p_first_name body) (first_name r),
       last_name := or_default (p_last_name body) (last_name r),
       reg_gender := or_default (p_gender body) (reg_gender r),
       national_code := or_default (p_national_code body) (national_code r),
       father_name := or_default (p_father_name body) (father_name r),
       birth_date := or_default (p_birth_date body) (birth_date r),
       home_phone := or_default (p_home_phone body) (home_phone r),
       current_school_id := or_default (p_current_school_id body) (current_school_id r),
       previous_school_id := or_default (p_previous_school_id body) (previous_school_id r),
       postal_code := or_default (p_postal_code body) (postal_code r),
       address := or_default (p_address body) (address r),
       profile_image_id := or_default (p_profile_image_id body) (profile_image_id r),
       extra_answers :=
         (case p_extra_answers body of
            None \<Rightarrow> extra_answers r | Some None \<Rightarrow> JNull | Some (Some v) \<Rightarrow> v)\<rparr>"

definition invalidate_pending :: "session \<Rightarrow> instant \<Rightarrow> uuid \<Rightarrow> reg_db \<Rightarrow> reg_db" where
  "invalidate_pending cur now registration_id s =
     s\<lparr>otps := update_where otp_tenant_id cur
         (\<lambda>x. otp_registration_id x = registration_id \<and> consumed_at x = None \<and> invalidated_at x = None)
         (\<lambda>x. x\<lparr>invalidated_at := Some now\<rparr>) (otps s)\<rparr>"

text \<open>\<open>flush\<close> of a modified registration: the unique constraint, then the update.\<close>

definition flush_registration :: "session \<Rightarrow> registration \<Rightarrow> reg_db \<Rightarrow> (registration, reg_db) outcome" where
  "flush_registration cur r s =
     (if \<not> registration_unique_ok r s then (Inl IntegrityError, s) else (Inr r, save_reg cur r s))"

definition patch ::
  "session \<Rightarrow> instant \<Rightarrow> registration \<Rightarrow> registration_patch \<Rightarrow> reg_db \<Rightarrow> (registration, reg_db) outcome"
where
  "patch cur now r body s =
     (if reg_status r \<notin> MUTABLE_STATUSES then (Inl (app_error ''REGISTRATION_NOT_EDITABLE'' 400), s)
      else if invalid_references cur r body s \<noteq> [] then
        (Inl (ApplicationError ''REGISTRATION_REFERENCE_INVALID'' 422
           [Detail_fields (invalid_references cur r body s)]), s)
      else if p_phone_number body = Some None then
        (Inl IntegrityError, invalidate_pending cur now (reg_id r) s)
      else
        (let r' = setattr_changes body r in
         if reg_phone_number r' \<noteq> reg_phone_number r
         then flush_registration cur
                (r'\<lparr>phone_verified_at := None, reg_status := Reg_PHONE_VERIFICATION_REQUIRED\<rparr>)
                (invalidate_pending cur now (reg_id r) s)
         else flush_registration cur r' s))"

definition rotate_token ::
  "(ustr \<Rightarrow> ustr) \<Rightarrow> settings \<Rightarrow> instant \<Rightarrow> ustr \<Rightarrow> registration \<Rightarrow> registration \<times> ustr" where
  "rotate_token digest c now raw r =
     (r\<lparr>draft_token_hash := digest raw,
        draft_token_expires_at := now + seconds (draft_token_ttl_seconds c)\<rparr>, raw)"

definition new_contacts :: "registration \<Rightarrow> uuid list \<Rightarrow> contact_input list \<Rightarrow> registration_contact list" where
  "new_contacts r fresh inputs =
     map2 (\<lambda>i ci. \<lparr>contact_id = i, contact_tenant_id = reg_tenant_id r,
                   contact_registration_id = reg_id r, contact_position = ci_position ci,
                   contact_name = ci_name ci, contact_phone_number = ci_phone_number ci,
                   contact_relationship = ci_relationship ci\<rparr>) fresh inputs"

definition replace_contacts ::
  "session \<Rightarrow> uuid list \<Rightarrow> registration \<Rightarrow> contact_input list \<Rightarrow> reg_db
     \<Rightarrow> (registration_contact list, reg_db) outcome" where
  "replace_contacts cur fresh r inputs s =
     (if reg_status r \<notin> MUTABLE_STATUSES then (Inl (app_error ''REGISTRATION_NOT_EDITABLE'' 400), s)
      else
        (let stored = new_contacts r fresh inputs;
             kept = delete_where contact_tenant_id cur
               (\<lambda>x. contact_registration_id x = reg_id r) (contacts s)
         in if \<not> distinct (map contact_id (kept @ stored))
               \<or> \<not> distinct (map (\<lambda>x. (contact_tenant_id x, contact_registration_id x, contact_position x))
                    (kept @ stored))
            then (Inl IntegrityError, s\<lparr>contacts := kept\<rparr>)
            else (Inr stored, s\<lparr>contacts := kept @ stored\<rparr>)))"

definition registration_contacts :: "session \<Rightarrow> uuid \<Rightarrow> reg_db \<Rightarrow> registration_contact list" where
  "registration_contacts cur registration_id s =
     sort_key contact_position (select_where contact_tenant_id cur
       (\<lambda>x. contact_registration_id x = registration_id) (contacts s))"

definition missing_fields :: "registration \<Rightarrow> string list" where
  "missing_fields r =
     map fst (filter (\<lambda>(_, present). \<not> present)
       [(''first_name'', first_name r \<noteq> None),
        (''last_name'', last_name r \<noteq> None),
        (''gender'', reg_gender r \<noteq> None),
        (''national_code'', national_code r \<noteq> None),
        (''father_name'', father_name r \<noteq> None),
        (''birth_date'', birth_date r \<noteq> None),
        (''current_school_id'', current_school_id r \<noteq> None),
        (''previous_school_id'', previous_school_id r \<noteq> None),
        (''postal_code'', postal_code r \<noteq> None),
        (''address'', address r \<noteq> None),
        (''profile_image_id'', profile_image_id r \<noteq> None)])"

text \<open>
  \<open>Draft202012Validator(schema).validate(answers)\<close> is the argument \<open>validator\<close>: accepted, a
  validation error with its path, or another exception (a malformed schema).
\<close>

datatype schema_verdict = Schema_ok | Schema_invalid "json list" | Schema_raises exn

definition form_check ::
  "(json \<Rightarrow> json \<Rightarrow> schema_verdict) \<Rightarrow> session \<Rightarrow> registration \<Rightarrow> reg_db \<Rightarrow> exn option" where
  "form_check validator cur r s =
     (case form_definition_id r of
        None \<Rightarrow> None
      | Some i \<Rightarrow>
          (case get_form cur i s of
             None \<Rightarrow> Some (app_error ''REGISTRATION_FORM_VERSION_INVALID'' 400)
           | Some form \<Rightarrow>
               if Some (form_version form) \<noteq> form_definition_version r
               then Some (app_error ''REGISTRATION_FORM_VERSION_INVALID'' 400)
               else (case validator (form_schema form) (extra_answers r) of
                       Schema_ok \<Rightarrow> None
                     | Schema_invalid path \<Rightarrow>
                         Some (ApplicationError ''REGISTRATION_EXTRA_ANSWERS_INVALID'' 400 [Detail_path path])
                     | Schema_raises e \<Rightarrow> Some e)))"

definition submitted_count :: "session \<Rightarrow> uuid \<Rightarrow> reg_db \<Rightarrow> nat" where
  "submitted_count cur e s =
     length (select_where reg_tenant_id cur
       (\<lambda>x. reg_exam_offering_id x = e \<and> reg_status x \<in> SUBMITTED_STATUSES) (registrations s))"

definition profile_image_ready :: "session \<Rightarrow> registration \<Rightarrow> reg_db \<Rightarrow> bool" where
  "profile_image_ready cur r s =
     (case profile_image_id r of
        None \<Rightarrow> False
      | Some i \<Rightarrow>
          (case get_media cur i s of None \<Rightarrow> False | Some m \<Rightarrow> media_status m = Media_READY))"

definition submit ::
  "(json \<Rightarrow> json \<Rightarrow> schema_verdict) \<Rightarrow> session \<Rightarrow> instant \<Rightarrow> registration \<Rightarrow> reg_db
     \<Rightarrow> (registration, reg_db) outcome" where
  "submit validator cur now r s =
     (if reg_status r \<in> SUBMITTED_STATUSES then (Inr r, s)
      else if reg_status r \<notin> MUTABLE_STATUSES
      then (Inl (app_error ''REGISTRATION_STATE_INVALID'' 400), s)
      else if phone_verified_at r = None
      then (Inl (app_error ''REGISTRATION_PHONE_NOT_VERIFIED'' 400), s)
      else if missing_fields r \<noteq> [] then
        (Inl (ApplicationError ''REGISTRATION_INCOMPLETE'' 400 [Detail_fields (missing_fields r)]), s)
      else
        (let cs = registration_contacts cur (reg_id r) s in
         if length cs \<noteq> 2 \<or> set (map contact_position cs) \<noteq> {1, 2}
         then (Inl (app_error ''REGISTRATION_REQUIRES_TWO_CONTACTS'' 400), s)
         else if \<not> profile_image_ready cur r s
         then (Inl (app_error ''REGISTRATION_PROFILE_IMAGE_NOT_READY'' 400), s)
         else
           (case form_check validator cur r s of
              Some e \<Rightarrow> (Inl e, s)
            | None \<Rightarrow>
                (case get_exam cur (reg_exam_offering_id r) s of
                   None \<Rightarrow> (Inl (app_error ''EXAM_NOT_FOUND'' 404), s)
                 | Some exam \<Rightarrow>
                     if (case registration_ends_at exam of None \<Rightarrow> False | Some t \<Rightarrow> now \<ge> t)
                     then (Inl (app_error ''EXAM_REGISTRATION_CLOSED'' 400), s)
                     else if (case exam_capacity exam of
                                None \<Rightarrow> False
                              | Some cap \<Rightarrow> int (submitted_count cur (exam_id exam) s) \<ge> cap)
                     then (Inl (app_error ''EXAM_CAPACITY_REACHED'' 400), s)
                     else flush_registration cur
                            (r\<lparr>reg_status := Reg_SUBMITTED, submitted_at := Some now\<rparr>) s))))"

end
