(* ===== verification/Uuids.thy ===== *)
theory Uuids
  imports PyText
begin

text \<open>
  \<open>uuid.UUID\<close> of the standard library, as the code uses it: \<open>str(u)\<close>, \<open>u.hex\<close> and the constructor
  from text with the liberties Python takes (\<open>urn:uuid:\<close>, braces, dashes anywhere, and whatever
  \<open>int(text, 16)\<close> accepts: surrounding whitespace, a sign, \<open>0x\<close>, single underscores, decimal
  digits of any script).
\<close>

section \<open>Printing\<close>

definition hex_digit :: "nat \<Rightarrow> nat" where
  "hex_digit d = (if d < 10 then 48 + d else 87 + d)"

fun hex_digits :: "nat \<Rightarrow> nat \<Rightarrow> ustr" where
  "hex_digits 0 n = []"
| "hex_digits (Suc k) n = hex_digits k (n div 16) @ [hex_digit (n mod 16)]"

definition uuid_hex :: "uuid \<Rightarrow> ustr" where
  "uuid_hex u = hex_digits 32 u"

definition uuid_str :: "uuid \<Rightarrow> ustr" where
  "uuid_str u =
     (let h = uuid_hex u in
      take 8 h @ [45] @ take 4 (drop 8 h) @ [45] @ take 4 (drop 12 h) @ [45]
      @ take 4 (drop 16 h) @ [45] @ drop 20 h)"

section \<open>Parsing\<close>

text \<open>\<open>s.replace(p, "")\<close>, leftmost occurrences first.\<close>

fun remove_all :: "nat \<Rightarrow> ustr \<Rightarrow> ustr \<Rightarrow> ustr" where
  "remove_all 0 p s = s"
| "remove_all (Suc fuel) p [] = []"
| "remove_all (Suc fuel) p (c # s) =
     (if p \<noteq> [] \<and> startswith (c # s) p then remove_all fuel p (drop (length p) (c # s))
      else c # remove_all fuel p s)"

definition replace_empty :: "ustr \<Rightarrow> ustr \<Rightarrow> ustr" where
  "replace_empty p s = remove_all (length s) p s"

definition hex_value :: "nat \<Rightarrow> nat option" where
  "hex_value c =
     (if 97 \<le> c \<and> c \<le> 102 then Some (c - 87)
      else if 65 \<le> c \<and> c \<le> 70 then Some (c - 55)
      else decimal_value c)"

text \<open>
  Digits with single underscores between them: \<open>gap\<close> allows an underscore next, \<open>complete\<close> the
  end of the text.
\<close>

fun hex_number :: "bool \<Rightarrow> bool \<Rightarrow> nat \<Rightarrow> ustr \<Rightarrow> nat option" where
  "hex_number gap complete acc [] = (if complete then Some acc else None)"
| "hex_number gap complete acc (c # s) =
     (if c = 95 then (if gap then hex_number False False acc s else None)
      else case hex_value c of
             None \<Rightarrow> None
           | Some d \<Rightarrow> hex_number True True (16 * acc + d) s)"

definition int_base_16 :: "ustr \<Rightarrow> int option" where
  "int_base_16 text =
     (let s = strip text;
          negative = startswith s [45];
          s = (if startswith s [45] \<or> startswith s [43] then drop 1 s else s);
          prefixed = startswith s (lit ''0x'') \<or> startswith s (lit ''0X'');
          s = (if prefixed then drop 2 s else s)
      in map_option (\<lambda>n. if negative then - int n else int n) (hex_number prefixed False 0 s))"

definition parse_uuid :: "ustr \<Rightarrow> exn + uuid" where
  "parse_uuid text =
     (let h = replace_empty (lit ''uuid:'') (replace_empty (lit ''urn:'') text);
          h = filter (\<lambda>c. c \<noteq> 45) (strip_where (\<lambda>c. c = 123 \<or> c = 125) h)
      in if length h \<noteq> 32 then Inl (PyValueError ''badly formed hexadecimal UUID string'')
         else case int_base_16 h of
                None \<Rightarrow> Inl (PyValueError ''invalid literal for int() with base 16'')
              | Some i \<Rightarrow>
                  if i < 0 \<or> i \<ge> 2 ^ 128
                  then Inl (PyValueError ''int is out of range (need a 128-bit value)'')
                  else Inr (nat i))"

section \<open>Round trip\<close>

lemma length_hex_digits [simp]: "length (hex_digits k n) = k"
  by (induction k arbitrary: n) auto

lemma hex_digit_range: "d < 16 \<Longrightarrow> hex_digit d \<in> {48..57} \<union> {97..102}"
  by (auto simp: hex_digit_def)

lemma hex_digits_range: "c \<in> set (hex_digits k n) \<Longrightarrow> c \<in> {48..57} \<union> {97..102}"
proof (induction k arbitrary: n)
  case (Suc k)
  then show ?case using hex_digit_range [of "n mod 16"] by auto
qed simp

lemma hex_value_digit: "d < 16 \<Longrightarrow> hex_value (hex_digit d) = Some d"
proof -
  assume "d < 16"
  then have "d \<in> set [0..<16]" by simp
  moreover have "list_all (\<lambda>d. hex_value (hex_digit d) = Some d) [0..<16]"
    by (simp add: hex_value_def hex_digit_def decimal_value_def decimal_zeros_def upt_rec)
  ultimately show ?thesis by (simp only: list_all_iff)
qed

lemma hex_number_snoc:
  assumes "hex_number g b acc s = Some m" "d < 16"
  shows "hex_number g b acc (s @ [hex_digit d]) = Some (16 * m + d)"
proof -
  have "hex_digit d \<noteq> 95"
    using hex_digit_range [OF assms(2)] by auto
  with assms hex_value_digit [OF assms(2)] show ?thesis
    by (induction g b acc s rule: hex_number.induct) (auto split: if_splits option.splits)
qed

lemma hex_number_digits: "hex_number True True 0 (hex_digits k n) = Some (n mod 16 ^ k)"
proof (induction k arbitrary: n)
  case (Suc k)
  have "hex_number True True 0 (hex_digits (Suc k) n) = Some (16 * (n div 16 mod 16 ^ k) + n mod 16)"
    using hex_number_snoc [OF Suc.IH [of "n div 16"], of "n mod 16"] by simp
  also have "16 * (n div 16 mod 16 ^ k) + n mod 16 = n mod 16 ^ Suc k"
    by (simp only: power_Suc mod_mult2_eq)
  finally show ?case .
qed simp

lemma hex_number_start: "s \<noteq> [] \<Longrightarrow> hd s \<noteq> 95 \<Longrightarrow> hex_number g b 0 s = hex_number True True 0 s"
  by (cases s) auto

lemma startswith_hd: "p \<noteq> [] \<Longrightarrow> startswith s p \<Longrightarrow> s \<noteq> [] \<and> hd s = hd p"
  by (cases p; cases s) (auto simp: startswith_def)

lemma remove_all_id: "p \<noteq> [] \<Longrightarrow> hd p \<notin> set s \<Longrightarrow> remove_all n p s = s"
proof (induction n p s rule: remove_all.induct)
  case (3 fuel p c s)
  then have "\<not> startswith (c # s) p"
    using startswith_hd [of p "c # s"] by auto
  with 3 show ?case by simp
qed auto

lemma replace_empty_id: "p \<noteq> [] \<Longrightarrow> hd p \<notin> set s \<Longrightarrow> replace_empty p s = s"
  unfolding replace_empty_def by (rule remove_all_id)

lemma uuid_hex_facts:
  shows "length (uuid_hex u) = 32" "c \<in> set (uuid_hex u) \<Longrightarrow> c \<in> {48..57} \<union> {97..102}"
  using hex_digits_range by (auto simp: uuid_hex_def)

lemma uuid_str_points: "c \<in> set (uuid_str u) \<Longrightarrow> c = 45 \<or> c \<in> {48..57} \<union> {97..102}"
  using uuid_hex_facts(2) [of c u]
  by (auto simp: uuid_str_def Let_def dest!: in_set_takeD in_set_dropD)

lemma split_five:
  "take 8 h @ take 4 (drop 8 h) @ take 4 (drop 12 h) @ take 4 (drop 16 h) @ drop 20 h = h"
proof -
  have "drop n h = take 4 (drop n h) @ drop (n + 4) h" for n
    by (metis append_take_drop_id drop_drop add.commute)
  from this [of 8] this [of 12] this [of 16] show ?thesis
    by (simp flip: append_assoc)
qed

lemma dashes_removed: "filter (\<lambda>c. c \<noteq> 45) (uuid_str u) = uuid_hex u"
proof -
  have id: "filter (\<lambda>c. c \<noteq> 45) t = t" if "set t \<subseteq> set (uuid_hex u)" for t
    using that uuid_hex_facts(2) by (intro filter_True) fastforce
  show ?thesis
    unfolding uuid_str_def Let_def
    by (simp add: id set_take_subset set_drop_subset subset_trans [OF set_take_subset set_drop_subset]
        split_five)
qed

lemma hex_point_not_space: "c \<in> {48..57} \<union> {97..102} \<Longrightarrow> \<not> is_space c"
  by (auto simp: is_space_def space_points_def)

lemma parse_uuid_str_core: "u < 2 ^ 128 \<Longrightarrow> parse_uuid (uuid_str u) = Inr u"
proof -
  assume u: "u < 2 ^ 128"
  have points: "c = 45 \<or> 48 \<le> c \<and> c \<le> 57 \<or> 97 \<le> c \<and> c \<le> 102" if "c \<in> set (uuid_str u)" for c
    using uuid_str_points [OF that] by auto
  have urn: "replace_empty (lit ''urn:'') (uuid_str u) = uuid_str u"
    and uuid: "replace_empty (lit ''uuid:'') (uuid_str u) = uuid_str u"
    using points [of 117] by (auto intro!: replace_empty_id)
  have braces: "strip_where (\<lambda>c. c = 123 \<or> c = 125) (uuid_str u) = uuid_str u"
    using points [of 123] points [of 125] by (intro strip_where_id) auto
  have hexp: "48 \<le> c \<and> c \<le> 57 \<or> 97 \<le> c \<and> c \<le> 102" if "c \<in> set (uuid_hex u)" for c
    using uuid_hex_facts(2) [OF that] by auto
  obtain a b t where h: "uuid_hex u = a # b # t"
    using uuid_hex_facts(1) [of u] by (cases "uuid_hex u"; cases "tl (uuid_hex u)") auto
  have "strip (uuid_hex u) = uuid_hex u"
    using uuid_hex_facts(2) hex_point_not_space by (intro strip_id) blast
  moreover have "\<not> startswith (uuid_hex u) [45]" "\<not> startswith (uuid_hex u) [43]"
      "\<not> startswith (uuid_hex u) (lit ''0x'')" "\<not> startswith (uuid_hex u) (lit ''0X'')"
    using hexp [of a] hexp [of b] h by (auto simp: startswith_def)
  moreover have "hex_number False False 0 (uuid_hex u) = hex_number True True 0 (uuid_hex u)"
    using h hexp [of a] by (intro hex_number_start) auto
  moreover have "hex_number True True 0 (uuid_hex u) = Some u"
    using hex_number_digits [of 32 u] u by (simp add: uuid_hex_def)
  ultimately have "int_base_16 (uuid_hex u) = Some (int u)"
    by (simp add: int_base_16_def Let_def)
  moreover have "int u < 2 ^ 128"
    using u by (metis of_nat_less_iff of_nat_numeral of_nat_power)
  ultimately show ?thesis
    unfolding parse_uuid_def Let_def urn uuid braces dashes_removed
    by (simp add: uuid_hex_facts(1))
qed

end
