(* ===== verification/Media.thy ===== *)
theory Media
  imports RegistrationModel Uuids Config
begin

text \<open>
  Uploads: \<open>app/media/schemas.py\<close>, \<open>app/media/router.py\<close> and the parts of \<open>app/media/storage.py\<close>
  that decide anything (the S3 calls themselves are arguments: \<open>upload\<close> is what
  \<open>generate_presigned_post\<close> returns, \<open>head\<close> what \<open>head_object\<close> answers for a key, \<open>download_url\<close>
  what \<open>generate_presigned_url\<close> returns). Invariants: an asset is READY only after its object was
  inspected and matched the declaration; its key lies under its tenant's prefix.
\<close>

section \<open>File names and types\<close>

text \<open>\<open>Path(filename).suffix\<close> for a file name without a slash (Python 3.13).\<close>

definition path_suffix :: "ustr \<Rightarrow> ustr" where
  "path_suffix name =
     (let ext = rev (before 46 (rev name));
          i = length name - length ext - 1
      in if 46 \<in> set name \<and> 0 < i \<and> i < length name - 1 then 46 # ext else [])"

definition MIME_EXTENSIONS :: "ustr \<Rightarrow> ustr list option" where
  "MIME_EXTENSIONS mime_type =
     map_of [(lit ''image/jpeg'', [lit ''.jpg'', lit ''.jpeg'']),
             (lit ''image/png'', [lit ''.png'']),
             (lit ''image/webp'', [lit ''.webp'']),
             (lit ''application/pdf'', [lit ''.pdf''])] mime_type"

record upload_request =
  up_filename :: ustr
  up_mime_type :: ustr
  up_size_bytes :: int
  up_alt_text :: "ustr option"
  up_visibility :: visibility

definition validate_upload_request :: "upload_request \<Rightarrow> exn + upload_request" where
  "validate_upload_request body =
     (let name = up_filename body in
      if name = [] \<or> length name > 255 then Inl (PyValueError ''string length'')
      else if 47 \<in> set name \<or> 92 \<in> set name \<or> name = lit ''.'' \<or> name = lit ''..''
      then Inl (PyValueError ''filename must not contain a path'')
      else if length (up_mime_type body) < 3 \<or> length (up_mime_type body) > 127
      then Inl (PyValueError ''string length'')
      else if up_size_bytes body \<le> 0 then Inl (PyValueError ''greater_than'')
      else if (case up_alt_text body of None \<Rightarrow> False | Some t \<Rightarrow> length t > 500)
      then Inl (PyValueError ''string length'')
      else Inr body)"

record complete_request =
  done_sha256 :: "ustr option"
  done_width :: "int option"
  done_height :: "int option"

definition is_hex_point :: "nat \<Rightarrow> bool" where
  "is_hex_point c \<longleftrightarrow> (48 \<le> c \<and> c \<le> 57) \<or> (65 \<le> c \<and> c \<le> 70) \<or> (97 \<le> c \<and> c \<le> 102)"

definition validate_complete_request :: "complete_request \<Rightarrow> exn + complete_request" where
  "validate_complete_request body =
     (if (case done_sha256 body of
            None \<Rightarrow> False | Some h \<Rightarrow> length h \<noteq> 64 \<or> \<not> list_all is_hex_point h)
      then Inl (PyValueError ''string_pattern_mismatch'')
      else if (case done_width body of None \<Rightarrow> False | Some w \<Rightarrow> \<not> between 1 50000 w)
           \<or> (case done_height body of None \<Rightarrow> False | Some h \<Rightarrow> \<not> between 1 50000 h)
      then Inl (PyValueError ''greater_than'')
      else Inr body)"

text \<open>The extension when the declared type is allowed and the file name agrees with it.\<close>

definition allowed_extension :: "settings \<Rightarrow> upload_request \<Rightarrow> ustr option" where
  "allowed_extension c body =
     (let extension = lower (path_suffix (up_filename body)) in
      case MIME_EXTENSIONS (up_mime_type body) of
        None \<Rightarrow> None
      | Some allowed \<Rightarrow>
          if up_mime_type body \<in> set (upload_allowed_mime_types c) \<and> extension \<in> set allowed
          then Some extension else None)"

definition tenant_prefix :: "uuid \<Rightarrow> ustr" where
  "tenant_prefix tenant_id = lit ''tenants/'' @ uuid_str tenant_id @ lit ''/''"

definition object_key_for :: "uuid \<Rightarrow> uuid \<Rightarrow> uuid \<Rightarrow> ustr \<Rightarrow> ustr" where
  "object_key_for tenant_id media_ref nonce extension =
     tenant_prefix tenant_id @ uuid_str media_ref @ lit ''/'' @ uuid_hex nonce @ extension"

definition pending_asset ::
  "uuid \<Rightarrow> uuid \<Rightarrow> uuid \<Rightarrow> ustr \<Rightarrow> upload_request \<Rightarrow> ustr option \<Rightarrow> visibility \<Rightarrow> media_asset" where
  "pending_asset tenant_id media_ref nonce extension body alt vis =
     \<lparr>media_id = media_ref, media_tenant_id = tenant_id,
      object_key = object_key_for tenant_id media_ref nonce extension,
      original_filename = up_filename body, media_mime_type = up_mime_type body,
      media_size_bytes = up_size_bytes body, media_sha256 = None, media_width = None,
      media_height = None, media_alt_text = alt, media_status = Media_PENDING,
      media_visibility = vis\<rparr>"

section \<open>Storage\<close>

record stored_object =
  stored_size_bytes :: int
  stored_content_type :: ustr

record presigned_upload =
  presigned_url :: ustr
  presigned_fields :: "(ustr \<times> ustr) list"

record presign_request =
  presign_bucket :: ustr
  presign_key :: ustr
  presign_content_type :: ustr
  presign_min_length :: int
  presign_max_length :: int
  presign_expires_in :: int

text \<open>The conditions \<open>presign_upload\<close> asks the storage to enforce.\<close>

definition presign_upload :: "settings \<Rightarrow> ustr \<Rightarrow> ustr \<Rightarrow> int \<Rightarrow> presign_request" where
  "presign_upload c key mime max_bytes =
     \<lparr>presign_bucket = s3_bucket c, presign_key = key, presign_content_type = mime,
      presign_min_length = 1, presign_max_length = max_bytes,
      presign_expires_in = s3_presign_ttl_seconds c\<rparr>"

text \<open>\<open>head_object\<close>: the object's length and content type, or a client error's code and status.\<close>

datatype head_result = Head_object int "ustr option" | Head_error ustr "int option"

definition inspect :: "head_result \<Rightarrow> exn + stored_object option" where
  "inspect head =
     (case head of
        Head_error code http_status \<Rightarrow>
          if code \<in> {lit ''404'', lit ''NoSuchKey'', lit ''NotFound''} \<or> http_status = Some 404
          then Inr None else Inl (PyRuntimeError ''ClientError'')
      | Head_object len content_type \<Rightarrow>
          Inr (Some \<lparr>stored_size_bytes = len,
                     stored_content_type = or_default content_type (lit ''application/octet-stream'')\<rparr>))"

text \<open>The checks \<open>S3ObjectStorage\<close> makes of the settings before it opens its clients.\<close>

definition storage_startup_check :: "(ustr \<Rightarrow> bool) \<Rightarrow> (ustr \<Rightarrow> bool) \<Rightarrow> settings \<Rightarrow> exn option" where
  "storage_startup_check bracketed_ok nfkc_ok c =
     (if environment_of c \<noteq> PRODUCTION then None
      else case s3_public_endpoint_url c of
             None \<Rightarrow> Some (PyValueError ''a public S3 endpoint URL is required in production'')
           | Some u \<Rightarrow>
               (case urlsplit bracketed_ok nfkc_ok u of
                  Inl e \<Rightarrow> Some e
                | Inr parsed \<Rightarrow>
                    if url_scheme parsed \<noteq> lit ''https''
                    then Some (PyValueError ''the production public S3 endpoint URL must use HTTPS'')
                    else None))"

section \<open>Endpoints\<close>

record upload_response =
  ur_media_id :: uuid
  ur_upload_url :: ustr
  ur_form_fields :: "(ustr \<times> ustr) list"
  ur_expires_in :: int

definition initiate_upload ::
  "(presign_request \<Rightarrow> presigned_upload) \<Rightarrow> settings \<Rightarrow> uuid \<Rightarrow> uuid \<Rightarrow> uuid \<Rightarrow> upload_request \<Rightarrow> reg_db
     \<Rightarrow> (upload_response, reg_db) outcome" where
  "initiate_upload upload c tenant_id media_ref nonce body s =
     (case allowed_extension c body of
        None \<Rightarrow> (Inl (app_error ''MEDIA_TYPE_NOT_ALLOWED'' 422), s)
      | Some extension \<Rightarrow>
          if up_size_bytes body > upload_max_bytes c
          then (Inl (app_error ''MEDIA_TOO_LARGE'' 413), s)
          else
            (let m = pending_asset tenant_id media_ref nonce extension body (up_alt_text body)
                       (up_visibility body);
                 ticket = upload (presign_upload c (object_key m) (up_mime_type body) (upload_max_bytes c))
             in if key_taken media_id m (media s) then (Inl IntegrityError, s)
                else (Inr \<lparr>ur_media_id = media_ref, ur_upload_url = presigned_url ticket,
                           ur_form_fields = presigned_fields ticket,
                           ur_expires_in = s3_presign_ttl_seconds c\<rparr>,
                      s\<lparr>media := insert_row m (media s)\<rparr>)))"

definition mark_ready :: "complete_request \<Rightarrow> media_asset \<Rightarrow> media_asset" where
  "mark_ready body m =
     m\<lparr>media_sha256 := (case done_sha256 body of
                          None \<Rightarrow> None | Some h \<Rightarrow> if h = [] then None else Some (lower h)),
       media_width := done_width body, media_height := done_height body,
       media_status := Media_READY\<rparr>"

definition upload_mismatch :: "media_asset \<Rightarrow> stored_object \<Rightarrow> bool" where
  "upload_mismatch m stored \<longleftrightarrow>
     stored_size_bytes stored \<noteq> media_size_bytes m \<or> stored_content_type stored \<noteq> media_mime_type m"

text \<open>The body of \<open>complete_upload\<close>: the REJECTED mark is made before the raise.\<close>

definition complete_upload ::
  "(ustr \<Rightarrow> head_result) \<Rightarrow> session \<Rightarrow> uuid \<Rightarrow> complete_request \<Rightarrow> reg_db \<Rightarrow> (media_asset, reg_db) outcome"
where
  "complete_upload head cur media_ref body s =
     (case get_media cur media_ref s of
        None \<Rightarrow> (Inl (app_error ''MEDIA_NOT_FOUND'' 404), s)
      | Some m \<Rightarrow>
          if media_status m = Media_READY then (Inr m, s)
          else
            (case inspect (head (object_key m)) of
               Inl e \<Rightarrow> (Inl e, s)
             | Inr None \<Rightarrow> (Inl (app_error ''MEDIA_OBJECT_NOT_UPLOADED'' 409), s)
             | Inr (Some stored) \<Rightarrow>
                 if upload_mismatch m stored then
                   (Inl (app_error ''MEDIA_UPLOAD_MISMATCH'' 422),
                    save_media cur (m\<lparr>media_status := Media_REJECTED\<rparr>) s)
                 else (Inr (mark_ready body m), save_media cur (mark_ready body m) s)))"

definition complete_upload_request where
  "complete_upload_request head cur media_ref body = transaction (complete_upload head cur media_ref body)"

definition download_media ::
  "(ustr \<Rightarrow> ustr \<Rightarrow> ustr) \<Rightarrow> session \<Rightarrow> uuid \<Rightarrow> reg_db \<Rightarrow> exn + ustr" where
  "download_media download_url cur media_ref s =
     (case get_media cur media_ref s of
        None \<Rightarrow> Inl (app_error ''MEDIA_NOT_FOUND'' 404)
      | Some m \<Rightarrow>
          if media_status m \<noteq> Media_READY \<or> media_visibility m \<noteq> Vis_PUBLIC
          then Inl (app_error ''MEDIA_NOT_FOUND'' 404)
          else Inr (download_url (object_key m) (original_filename m)))"

section \<open>Lemmas\<close>

lemma allowed_extensionD:
  "allowed_extension c body = Some e \<Longrightarrow>
     up_mime_type body \<in> set (upload_allowed_mime_types c)
     \<and> e \<in> {lit ''.jpg'', lit ''.jpeg'', lit ''.png'', lit ''.webp'', lit ''.pdf''}"
  by (auto simp: allowed_extension_def Let_def MIME_EXTENSIONS_def split: option.splits if_splits)

lemma complete_upload_Inr:
  assumes "complete_upload head cur i body s = (Inr m, s')"
  obtains (already) "get_media cur i s = Some m" "media_status m = Media_READY" "s' = s"
  | (checked) m0 stored where "get_media cur i s = Some m0" "media_status m0 \<noteq> Media_READY"
      "inspect (head (object_key m0)) = Inr (Some stored)" "\<not> upload_mismatch m0 stored"
      "m = mark_ready body m0" "s' = save_media cur m s"
  using assms by (auto simp: complete_upload_def split: option.splits sum.splits if_splits)

section \<open>Properties\<close>

text \<open>
  completing an upload twice is idempotent, and an asset is marked READY only when the
  storage holds an object of exactly the declared size and type; every failure leaves the
  database as it was, so the REJECTED mark of a mismatch is never stored.
\<close>

theorem complete_upload_request_outcome:
  "case complete_upload_request head cur i body s of
     (Inl e, s') \<Rightarrow> s' = s
   | (Inr m, s') \<Rightarrow>
       media_status m = Media_READY
       \<and> get_media cur i s' = Some m
       \<and> complete_upload_request head' cur i body' s' = (Inr m, s')
       \<and> (s' = s \<or> (\<exists>stored. inspect (head (object_key m)) = Inr (Some stored)
            \<and> stored_size_bytes stored = media_size_bytes m
            \<and> stored_content_type stored = media_mime_type m))"
proof (cases "complete_upload head cur i body s")
  case (Pair r s')
  show ?thesis
  proof (cases r)
    case (Inl e)
    with Pair show ?thesis by (simp add: complete_upload_request_def transaction_def)
  next
    case (Inr m)
    have "get_media cur i s' = Some m \<and> media_status m = Media_READY
       \<and> (s' = s \<or> (\<exists>stored. inspect (head (object_key m)) = Inr (Some stored)
            \<and> stored_size_bytes stored = media_size_bytes m
            \<and> stored_content_type stored = media_mime_type m))"
      using Pair [unfolded Inr]
    proof (cases rule: complete_upload_Inr)
      case (checked m0 stored)
      then have "tenant_isolation_policy cur (media_tenant_id m)" "media_id m = i"
        using get_rowD [OF checked(1)] by (auto simp: mark_ready_def)
      with checked show ?thesis
        by (auto simp: get_row_save_row mark_ready_def upload_mismatch_def)
    qed auto
    moreover from this have "complete_upload head' cur i body' s' = (Inr m, s')"
      by (simp add: complete_upload_def)
    ultimately show ?thesis
      using Pair Inr by (simp add: complete_upload_request_def transaction_def)
  qed
qed

text \<open>
  a refused upload changes nothing and was refused for its type, its size or a clash of the
  random identifier; every accepted upload is of an allowed type and size and stays PENDING, its storage key
  starts with the prefix of its own tenant and ends in an extension of the allowed types, and
  the presigned form limits the stored object to the configured size.
\<close>

theorem initiate_upload_sound:
  "case initiate_upload upload c t i nonce body s of
     (Inl e, s') \<Rightarrow> s' = s \<and> (allowed_extension c body = None \<or> upload_max_bytes c < up_size_bytes body
         \<or> i \<in> media_id ` set (media s))
   | (Inr resp, s') \<Rightarrow>
       \<exists>m. media s' = media s @ [m] \<and> media_tenant_id m = t \<and> media_status m = Media_PENDING
         \<and> media_mime_type m \<in> set (upload_allowed_mime_types c) \<and> media_size_bytes m \<le> upload_max_bytes c
         \<and> startswith (object_key m) (tenant_prefix t)
         \<and> (\<exists>e \<in> {lit ''.jpg'', lit ''.jpeg'', lit ''.png'', lit ''.webp'', lit ''.pdf''}.
              object_key m = object_key_for t i nonce e)
         \<and> ur_upload_url resp
             = presigned_url (upload \<lparr>presign_bucket = s3_bucket c, presign_key = object_key m,
                 presign_content_type = media_mime_type m, presign_min_length = 1,
                 presign_max_length = upload_max_bytes c,
                 presign_expires_in = s3_presign_ttl_seconds c\<rparr>)"
proof (cases "allowed_extension c body")
  case (Some e)
  let ?m = "pending_asset t i nonce e body (up_alt_text body) (up_visibility body)"
  show ?thesis
  proof (cases "up_size_bytes body > upload_max_bytes c")
    case False
    then show ?thesis
      using Some allowed_extensionD [OF Some]
      by (simp add: initiate_upload_def Let_def insert_row_def key_taken_iff)
        (simp add: pending_asset_def object_key_for_def presign_upload_def)
  qed (use Some in \<open>simp add: initiate_upload_def\<close>)
qed (simp add: initiate_upload_def)

end
