(* ===== verification/Samples.thy ===== *)
theory Samples
  imports RegistrationModel Config
begin

text \<open>
  A small concrete tenant (tenant 1 with one open exam of capacity 1, one verified and complete
  draft and its contacts, image and schools) and the default settings. The witnesses of the
  properties evaluate the model's operations on it.
\<close>

definition default_settings :: settings where
  "default_settings =
     \<lparr>environment_of = DEVELOPMENT, debug = False, database_dsn = lit ''postgresql+psycopg'',
      database_application_role = lit ''kanoon_app'', database_pool_size = 10,
      database_max_overflow = 20, signing_key = lit ''development-only-change-me-at-least-32-bytes'',
      access_token_ttl_seconds = 900, refresh_token_ttl_seconds = 2592000,
      draft_token_ttl_seconds = 2592000, callback_token_ttl_seconds = 900,
      authentication_window_seconds = 900, authentication_max_attempts = 10,
      trust_forwarded_host = False, trusted_proxy_cidrs = [], allowed_cors_origins = [],
      data_plane_host = lit ''0.0.0.0'', data_plane_port = 8000,
      control_plane_host = lit ''127.0.0.1'', control_plane_port = 8001,
      otp_provider_kind = MOCK, otp_ttl_seconds = 180, otp_resend_cooldown_seconds = 60,
      otp_max_attempts = 5, otp_max_active_challenges = 3, otp_phone_hourly_limit = 10,
      otp_ip_hourly_limit = 20, otp_tenant_minute_limit = 100, payment_provider_kind = MOCK,
      public_base_url = lit ''http://localhost:8000'', site_build_webhook_url = None,
      site_build_hmac_secret = lit ''development-site-build-secret-change-me'',
      site_build_webhook_timeout_seconds = 15, site_build_callback_max_age_seconds = 300,
      site_build_max_attempts = 5, site_build_lease_seconds = 300,
      s3_endpoint_url = lit ''http://localhost:8333'', s3_public_endpoint_url = None,
      s3_bucket = lit ''kanoon'', s3_presign_ttl_seconds = 900, upload_max_bytes = 20971520,
      upload_allowed_mime_types =
        [lit ''image/jpeg'', lit ''image/png'', lit ''image/webp'', lit ''application/pdf'']\<rparr>"

lemma default_settings_in_bounds: "settings_bounds default_settings"
  by (simp add: settings_bounds_def default_settings_def between_def)

lemma default_settings_attempts: "otp_max_attempts default_settings = 5"
  by (simp add: default_settings_def)

definition small_exam :: exam_offering where
  "small_exam =
     \<lparr>exam_id = 10, exam_tenant_id = 1, exam_title = lit ''Mock exam'', exam_slug = lit ''mock'',
      exam_description = [], exam_held = ONSITE, registration_starts_at = None,
      registration_ends_at = None, exam_starts_at = None, exam_ends_at = None, venue_name = None,
      venue_address = None, exam_capacity = Some 1, exam_status = Exam_REGISTRATION_OPEN\<rparr>"

definition sample_plan :: pricing_plan where
  "sample_plan =
     \<lparr>plan_id = 20, plan_tenant_id = 1, plan_title = lit ''Plan'', plan_slug = lit ''plan'',
      plan_description = [], plan_mode = ONSITE, plan_amount = 500000, plan_currency = lit ''IRR'',
      plan_features = [], plan_sort_order = 0, plan_is_featured = False, plan_status = Plan_PUBLISHED\<rparr>"

text \<open>Its draft token is the text whose digest is \<open>secret\<close>.\<close>

definition sample_draft :: "uuid \<Rightarrow> registration" where
  "sample_draft i =
     \<lparr>reg_id = i, reg_tenant_id = 1, reg_exam_offering_id = 10,
      selected_pricing_plan_id = Some 20, form_definition_id = None,
      form_definition_version = None, draft_token_hash = lit ''secret'',
      draft_token_expires_at = 1000000, reg_phone_number = lit ''+989121234567'',
      first_name = Some (lit ''A''), last_name = Some (lit ''B''), reg_gender = Some OTHER,
      national_code = Some (digits_of i), father_name = Some (lit ''C''), birth_date = Some 0,
      home_phone = None, current_school_id = Some 40, previous_school_id = Some 40,
      postal_code = Some (lit ''1234567890''), address = Some (lit ''Some street''),
      profile_image_id = Some 50, extra_answers = JObj [], payable_amount = Some 500000,
      payable_currency = Some (lit ''IRR''), reg_status = Reg_PHONE_VERIFIED,
      payment_status = RegPay_PENDING, phone_verified_at = Some 5, submitted_at = None,
      internal_notes = None, reg_created_at = 0\<rparr>"

definition sample_contact :: "uuid \<Rightarrow> uuid \<Rightarrow> int \<Rightarrow> registration_contact" where
  "sample_contact i r p =
     \<lparr>contact_id = i, contact_tenant_id = 1, contact_registration_id = r, contact_position = p,
      contact_name = lit ''Parent'', contact_phone_number = lit ''+989121234568'',
      contact_relationship = lit ''mother''\<rparr>"

definition sample_image :: media_asset where
  "sample_image =
     \<lparr>media_id = 50, media_tenant_id = 1, object_key = lit ''key'', original_filename = lit ''a.png'',
      media_mime_type = lit ''image/png'', media_size_bytes = 10, media_sha256 = None,
      media_width = None, media_height = None, media_alt_text = None,
      media_status = Media_READY, media_visibility = Vis_PRIVATE\<rparr>"

definition sample_db :: "registration list \<Rightarrow> reg_db" where
  "sample_db rs =
     \<lparr>exams = [small_exam], exam_plans = [\<lparr>ep_tenant_id = 1, ep_exam_offering_id = 10, ep_pricing_plan_id = 20\<rparr>],
      plans = [sample_plan], form_defs = [], registrations = rs,
      contacts = concat (map (\<lambda>r. [sample_contact (100 + 2 * reg_id r) (reg_id r) 1,
                                   sample_contact (101 + 2 * reg_id r) (reg_id r) 2]) rs),
      otps = [], payments = [], media = [sample_image],
      schools = [\<lparr>school_id = 40, school_name = lit ''S'', school_city = None,
                  school_province = None, school_is_active = True\<rparr>], audits = []\<rparr>"

lemmas sample_defs = small_exam_def sample_plan_def sample_draft_def sample_contact_def
  sample_image_def sample_db_def default_settings_def

text \<open>Unfolding the model's statements and guards on a concrete state.\<close>

lemmas table_eval = get_row_def select_where_def visible_def update_where_def save_row_def
  delete_where_def insert_row_def tenant_session_def tenant_isolation_policy_def Let_def

end
