(* ===== verification/RegistrationRouter.thy ===== *)
theory RegistrationRouter
  imports Registrations Media Samples
begin

text \<open>
  The endpoints of \<open>app/registrations/router.py\<close> over \<open>RegistrationService\<close> (the OTP endpoints are
  in \<open>Otp\<close>), the facts about each operation the later components use, and the properties of
  drafts, patches and submissions.
\<close>

section \<open>Endpoints\<close>

text \<open>\<open>draft_token\<close>: the token of an \<open>Authorization: Draft ...\<close> header.\<close>

definition draft_token :: "ustr option \<Rightarrow> exn + ustr" where
  "draft_token authorization =
     (case authorization of
        None \<Rightarrow> Inl (app_error ''DRAFT_AUTH_REQUIRED'' 401)
      | Some header \<Rightarrow>
          (let (scheme, _, token) = partition_at 32 header in
           if lower scheme \<noteq> lit ''draft'' \<or> length token < 32
           then Inl (app_error ''DRAFT_AUTH_REQUIRED'' 401) else Inr token))"

text \<open>\<open>_response\<close>: serialisation validates the row; JSON null is no \<open>dict\<close>.\<close>

definition registration_response ::
  "session \<Rightarrow> registration \<Rightarrow> reg_db \<Rightarrow> exn + (registration \<times> registration_contact list)" where
  "registration_response cur r s =
     (if \<not> is_object (extra_answers r) then Inl (PyValueError ''ValidationError'')
      else Inr (r, registration_contacts cur (reg_id r) s))"

definition respond ::
  "session \<Rightarrow> registration \<Rightarrow> reg_db \<Rightarrow> (registration \<times> registration_contact list, reg_db) outcome" where
  "respond cur r s = (registration_response cur r s, s)"

definition create_registration where
  "create_registration digest c tenant_id now fresh raw body =
     transaction (\<lambda>s.
       and_then (create_draft digest c (tenant_session tenant_id) now fresh raw tenant_id
           (create_exam_offering_id body) (create_pricing_plan_id body) (create_phone_number body) s)
         (\<lambda>(r, token) s.
            and_then (respond (tenant_session tenant_id) r s) (\<lambda>resp s. (Inr (resp, token), s))))"

definition with_draft ::
  "(ustr \<Rightarrow> ustr) \<Rightarrow> session \<Rightarrow> instant \<Rightarrow> uuid \<Rightarrow> ustr \<Rightarrow> (registration \<Rightarrow> reg_db \<Rightarrow> ('a, reg_db) outcome)
     \<Rightarrow> reg_db \<Rightarrow> ('a, reg_db) outcome" where
  "with_draft digest cur now registration_id token body s =
     (case authorized_draft digest cur now registration_id token s of
        Inl e \<Rightarrow> (Inl e, s)
      | Inr r \<Rightarrow> body r s)"

definition get_registration where
  "get_registration digest cur now registration_id token =
     transaction (with_draft digest cur now registration_id token (respond cur))"

definition duplicate_registration :: exn where
  "duplicate_registration = app_error ''DUPLICATE_EXAM_REGISTRATION'' 409"

definition patch_registration where
  "patch_registration digest cur now registration_id token body =
     transaction (with_draft digest cur now registration_id token (\<lambda>r s.
       and_then (on_integrity_error duplicate_registration (patch cur now r body s)) (respond cur)))"

definition rotate_draft_token where
  "rotate_draft_token digest c cur now registration_id token raw =
     transaction (with_draft digest cur now registration_id token (\<lambda>r s.
       let (r', replacement) = rotate_token digest c now raw r in
       and_then (flush_registration cur r' s)
         (\<lambda>r' s. (Inr (replacement, draft_token_expires_at r'), s))))"

definition put_contacts where
  "put_contacts digest cur now registration_id token fresh body =
     transaction (with_draft digest cur now registration_id token (\<lambda>r.
       replace_contacts cur fresh r body))"

definition submit_registration where
  "submit_registration validator digest cur now registration_id token =
     transaction (with_draft digest cur now registration_id token (\<lambda>r s.
       and_then (on_integrity_error duplicate_registration (submit validator cur now r s))
         (respond cur)))"

definition initiate_profile_image_upload where
  "initiate_profile_image_upload upload digest c tenant_id now registration_id token media_ref nonce body =
     transaction (with_draft digest (tenant_session tenant_id) now registration_id token (\<lambda>r s.
       case allowed_extension c body of
         None \<Rightarrow> (Inl (app_error ''PROFILE_IMAGE_TYPE_NOT_ALLOWED'' 422), s)
       | Some extension \<Rightarrow>
           if \<not> startswith (up_mime_type body) (lit ''image/'')
           then (Inl (app_error ''PROFILE_IMAGE_TYPE_NOT_ALLOWED'' 422), s)
           else if up_size_bytes body > upload_max_bytes c
           then (Inl (app_error ''MEDIA_TOO_LARGE'' 413), s)
           else
             (let m = pending_asset tenant_id media_ref nonce extension body None Vis_PRIVATE;
                  ticket = upload (presign_upload c (object_key m) (up_mime_type body) (upload_max_bytes c))
              in if key_taken media_id m (media s) then (Inl IntegrityError, s) else
                 and_then (flush_registration (tenant_session tenant_id)
                     (r\<lparr>profile_image_id := Some media_ref\<rparr>) (s\<lparr>media := insert_row m (media s)\<rparr>))
                   (\<lambda>_ s. (Inr \<lparr>ur_media_id = media_ref, ur_upload_url = presigned_url ticket,
                              ur_form_fields = presigned_fields ticket,
                              ur_expires_in = s3_presign_ttl_seconds c\<rparr>, s)))))"

definition complete_profile_image_upload where
  "complete_profile_image_upload head digest cur now registration_id token media_ref body =
     transaction (with_draft digest cur now registration_id token (\<lambda>r s.
       if profile_image_id r \<noteq> Some media_ref
       then (Inl (app_error ''MEDIA_NOT_FOUND'' 404), s)
       else case get_media cur media_ref s of
              None \<Rightarrow> (Inl (app_error ''MEDIA_NOT_FOUND'' 404), s)
            | Some m \<Rightarrow>
                if media_visibility m \<noteq> Vis_PRIVATE then (Inl (app_error ''MEDIA_NOT_FOUND'' 404), s)
                else if media_status m = Media_READY then (Inr m, s)
                else
                  (case inspect (head (object_key m)) of
                     Inl e \<Rightarrow> (Inl e, s)
                   | Inr None \<Rightarrow> (Inl (app_error ''MEDIA_OBJECT_NOT_UPLOADED'' 409), s)
                   | Inr (Some stored) \<Rightarrow>
                       if upload_mismatch m stored
                       then (Inl (app_error ''MEDIA_UPLOAD_MISMATCH'' 422), s)
                       else (Inr (mark_ready body m), save_media cur (mark_ready body m) s))))"

section \<open>What the operations do when they succeed\<close>

lemma authorized_draftD:
  assumes "authorized_draft digest cur now i token s = Inr r"
  shows "get_reg cur i s = Some r" "r \<in> set (registrations s)" "reg_id r = i"
    "tenant_isolation_policy cur (reg_tenant_id r)" "draft_token_expires_at r > now"
    "draft_token_hash r = digest token"
  using assms get_rowD [of reg_tenant_id reg_id cur i "registrations s"]
  by (auto simp: authorized_draft_def split: option.splits if_splits)

lemma with_draft_Inr:
  "with_draft digest cur now i token body s = (Inr x, s') \<longleftrightarrow>
     (\<exists>r. authorized_draft digest cur now i token s = Inr r \<and> body r s = (Inr x, s'))"
  by (auto simp: with_draft_def split: sum.splits)

lemma respond_Inr [simp]:
  "respond cur r s = (Inr x, s') \<longleftrightarrow>
     is_object (extra_answers r) \<and> x = (r, registration_contacts cur (reg_id r) s) \<and> s' = s"
  by (auto simp: respond_def registration_response_def)

lemma flush_registration_Inr [simp]:
  "flush_registration cur r s = (Inr r', s') \<longleftrightarrow>
     registration_unique_ok r s \<and> r' = r \<and> s' = save_reg cur r s"
  by (auto simp: flush_registration_def)

lemma resolve_plan_cases:
  assumes "resolve_plan cur e i s = Inr plan"
  obtains "i = None" "plan = None"
  | j p where "i = Some j" "plan = Some p" "get_plan cur j s = Some p" "plan_status p = Plan_PUBLISHED"
      "plan_association cur e j s \<noteq> None"
proof (cases i)
  case None
  with assms show thesis by (intro that(1)) (auto simp: resolve_plan_def)
next
  case (Some j)
  with assms obtain a p where "plan_association cur e j s = Some a" and p: "get_plan cur j s = Some p"
    by (auto simp: resolve_plan_def split: option.splits)
  moreover from this Some assms have "plan_status p = Plan_PUBLISHED" "plan = Some p"
    by (auto simp: resolve_plan_def split: if_splits)
  ultimately show thesis
    using Some by (intro that(2) [of j p]) simp_all
qed

lemma create_draft_Inr:
  assumes "create_draft digest c cur now fresh raw t e i phone s = (Inr (r, token), s')"
  obtains exam plan where "get_exam cur e s = Some exam" "exam_tenant_id exam = t" "exam_id exam = e"
    "exam_status exam = Exam_REGISTRATION_OPEN"
    "\<And>t. registration_starts_at exam = Some t \<Longrightarrow> t \<le> now"
    "\<And>t. registration_ends_at exam = Some t \<Longrightarrow> now < t"
    "resolve_plan cur e i s = Inr plan" "token = raw"
    "s' = s\<lparr>registrations := registrations s @ [r]\<rparr>"
    "fresh \<notin> reg_id ` set (registrations s)"
    "reg_id r = fresh" "reg_tenant_id r = t" "reg_exam_offering_id r = e"
    "draft_token_hash r = digest raw"
    "draft_token_expires_at r = now + seconds (draft_token_ttl_seconds c)"
    "reg_phone_number r = phone" "reg_status r = Reg_PHONE_VERIFICATION_REQUIRED"
    "phone_verified_at r = None" "submitted_at r = None" "national_code r = None"
    "payable_amount r = Some (case plan of None \<Rightarrow> 0 | Some p \<Rightarrow> plan_amount p)"
    "payable_currency r = map_option plan_currency plan" "extra_answers r = JObj []"
    "selected_pricing_plan_id r = map_option plan_id plan" "payment_status r = RegPay_PENDING"
proof -
  from assms obtain exam where exam: "get_exam cur e s = Some exam"
    by (auto simp: create_draft_def split: option.splits)
  then have "exam_id exam = e" by (rule get_rowD)
  with assms exam show thesis
    by (auto simp: create_draft_def Let_def insert_row_def not_less not_le key_taken_iff
        split: if_splits sum.splits option.splits intro!: that)
qed

lemma create_draft_error:
  "create_draft digest c cur now fresh raw t e i phone s = (Inl x, s') \<Longrightarrow> s' = s"
  by (auto simp: create_draft_def Let_def split: option.splits if_splits sum.splits)

lemma setattr_changes_keys [simp]:
  "reg_id (setattr_changes body r) = reg_id r"
  "reg_tenant_id (setattr_changes body r) = reg_tenant_id r"
  "reg_exam_offering_id (setattr_changes body r) = reg_exam_offering_id r"
  "reg_status (setattr_changes body r) = reg_status r"
  "draft_token_hash (setattr_changes body r) = draft_token_hash r"
  "draft_token_expires_at (setattr_changes body r) = draft_token_expires_at r"
  "payable_amount (setattr_changes body r) = payable_amount r"
  "payable_currency (setattr_changes body r) = payable_currency r"
  "selected_pricing_plan_id (setattr_changes body r) = selected_pricing_plan_id r"
  "payment_status (setattr_changes body r) = payment_status r"
  "phone_verified_at (setattr_changes body r) = phone_verified_at r"
  "submitted_at (setattr_changes body r) = submitted_at r"
  "internal_notes (setattr_changes body r) = internal_notes r"
  "form_definition_id (setattr_changes body r) = form_definition_id r"
  "form_definition_version (setattr_changes body r) = form_definition_version r"
  "reg_created_at (setattr_changes body r) = reg_created_at r"
  by (simp_all add: setattr_changes_def)

text \<open>The registration and OTP table a successful patch leaves.\<close>

definition patched :: "registration_patch \<Rightarrow> registration \<Rightarrow> registration" where
  "patched body r =
     (let r' = setattr_changes body r in
      if reg_phone_number r' \<noteq> reg_phone_number r
      then r'\<lparr>phone_verified_at := None, reg_status := Reg_PHONE_VERIFICATION_REQUIRED\<rparr>
      else r')"

lemma patched_keys [simp]:
  "reg_id (patched body r) = reg_id r" "reg_tenant_id (patched body r) = reg_tenant_id r"
  "reg_exam_offering_id (patched body r) = reg_exam_offering_id r"
  "payable_amount (patched body r) = payable_amount r"
  "payable_currency (patched body r) = payable_currency r"
  "submitted_at (patched body r) = submitted_at r"
  "draft_token_hash (patched body r) = draft_token_hash r"
  "payment_status (patched body r) = payment_status r"
  by (simp_all add: patched_def Let_def)

lemma patched_mutable: "reg_status r \<in> MUTABLE_STATUSES \<Longrightarrow> reg_status (patched body r) \<in> MUTABLE_STATUSES"
  by (auto simp: patched_def Let_def MUTABLE_STATUSES_def)

lemma invalidate_pending_keeps [simp]:
  "registrations (invalidate_pending cur now i s) = registrations s"
  "exams (invalidate_pending cur now i s) = exams s"
  "contacts (invalidate_pending cur now i s) = contacts s"
  "payments (invalidate_pending cur now i s) = payments s"
  "media (invalidate_pending cur now i s) = media s"
  "map otp_id (otps (invalidate_pending cur now i s)) = map otp_id (otps s)"
  by (simp_all add: invalidate_pending_def update_where_keys)

lemma patch_Inr:
  assumes "patch cur now r body s = (Inr r', s')"
  obtains "reg_status r \<in> MUTABLE_STATUSES" "invalid_references cur r body s = []"
    "p_phone_number body \<noteq> Some None" "r' = patched body r" "registration_unique_ok r' s"
    "s' = save_reg cur r' (if reg_phone_number r' = reg_phone_number r then s
            else invalidate_pending cur now (reg_id r) s)"
  using assms
  by (auto simp: patch_def patched_def Let_def registration_unique_ok_def split: if_splits)

lemma submit_Inr:
  assumes "submit validator cur now r s = (Inr r', s')"
  obtains (again) "reg_status r \<in> SUBMITTED_STATUSES" "r' = r" "s' = s"
  | (submitted) exam where "reg_status r \<in> MUTABLE_STATUSES" "phone_verified_at r \<noteq> None"
      "missing_fields r = []" "get_exam cur (reg_exam_offering_id r) s = Some exam"
      "length (registration_contacts cur (reg_id r) s) = 2"
      "set (map contact_position (registration_contacts cur (reg_id r) s)) = {1, 2}"
      "profile_image_ready cur r s" "form_check validator cur r s = None"
      "\<And>t. registration_ends_at exam = Some t \<Longrightarrow> now < t"
      "\<And>cap. exam_capacity exam = Some cap \<Longrightarrow>
          int (submitted_count cur (reg_exam_offering_id r) s) < cap"
      "r' = r\<lparr>reg_status := Reg_SUBMITTED, submitted_at := Some now\<rparr>"
      "registration_unique_ok r' s" "s' = save_reg cur r' s"
proof (cases "reg_status r \<in> SUBMITTED_STATUSES")
  case True
  with assms show ?thesis by (auto simp: submit_def intro: again)
next
  case False
  with assms obtain exam where exam: "get_exam cur (reg_exam_offering_id r) s = Some exam"
    by (auto simp: submit_def Let_def split: if_splits option.splits)
  then have "exam_id exam = reg_exam_offering_id r" by (rule get_rowD)
  with assms False exam show ?thesis
    by (auto simp: submit_def Let_def not_le split: if_splits option.splits intro!: submitted)
qed

lemma submit_error: "submit validator cur now r s = (Inl e, s') \<Longrightarrow> s' = s"
  by (auto simp: submit_def Let_def flush_registration_def split: if_splits option.splits)

lemma saved_reg:
  assumes "get_reg cur (reg_id r) s = Some r0" "tenant_isolation_policy cur (reg_tenant_id r)"
  shows "get_reg cur (reg_id r) (save_reg cur r s) = Some r"
  using assms by (simp add: get_row_save_row)

lemma save_reg_others:
  "filter (\<lambda>x. reg_id x \<noteq> reg_id r) (save_row reg_tenant_id reg_id cur r rows) =
     filter (\<lambda>x. reg_id x \<noteq> reg_id r) rows"
  by (induction rows) (auto simp: save_row_def update_where_def)

lemma otps_invalidate_pending:
  "otps (invalidate_pending cur now i s) = update_where otp_tenant_id cur
     (\<lambda>x. otp_registration_id x = i \<and> consumed_at x = None \<and> invalidated_at x = None)
     (\<lambda>x. x\<lparr>invalidated_at := Some now\<rparr>) (otps s)"
  by (simp add: invalidate_pending_def)

lemma pending_invalidated:
  "list_all (\<lambda>x. \<not> (tenant_isolation_policy cur (otp_tenant_id x) \<and> otp_registration_id x = i
      \<and> consumed_at x = None \<and> invalidated_at x = None)) (otps (invalidate_pending cur now i s))"
proof -
  have "\<not> (tenant_isolation_policy cur (otp_tenant_id y) \<and> otp_registration_id y = i
      \<and> consumed_at y = None \<and> invalidated_at y = None)"
    if y: "y \<in> set (otps (invalidate_pending cur now i s))" for y
  proof -
    obtain x where "y = (if tenant_isolation_policy cur (otp_tenant_id x) \<and> otp_registration_id x = i
          \<and> consumed_at x = None \<and> invalidated_at x = None
        then x\<lparr>invalidated_at := Some now\<rparr> else x)"
      using y unfolding otps_invalidate_pending update_where_def set_map by blast
    then show ?thesis by (simp split: if_splits)
  qed
  then show ?thesis by (simp only: list_all_iff) blast
qed

section \<open>Properties\<close>

text \<open>
  the raw token returned by the creation of a draft opens exactly that draft, until it expires
  and only in the tenant's own sessions; any other token opens it only by a digest collision. The
  new draft is unverified, belongs to an exam whose registration is open at that instant, and
  freezes the amount of its published plan.
\<close>

theorem create_registration_grants_token:
  assumes "create_registration digest c t now fresh raw body s = (Inr ((r, cs), token), s')"
  shows "token = raw \<and> reg_id r = fresh \<and> reg_status r = Reg_PHONE_VERIFICATION_REQUIRED
    \<and> phone_verified_at r = None
    \<and> (\<exists>exam. get_exam (tenant_session t) (reg_exam_offering_id r) s = Some exam
          \<and> exam_status exam = Exam_REGISTRATION_OPEN)
    \<and> authorized_draft digest (tenant_session u) now' fresh token' s' =
        (if u = t \<and> now' < now + seconds (draft_token_ttl_seconds c) \<and> digest token' = digest raw
         then Inr r else Inl (app_error ''DRAFT_ACCESS_DENIED'' 404))
    \<and> payable_amount r = Some (case create_pricing_plan_id body of None \<Rightarrow> 0
        | Some i \<Rightarrow> (case get_plan (tenant_session t) i s of None \<Rightarrow> 0 | Some p \<Rightarrow> plan_amount p))"
proof -
  from assms have "create_draft digest c (tenant_session t) now fresh raw t
      (create_exam_offering_id body) (create_pricing_plan_id body) (create_phone_number body) s
      = (Inr (r, token), s')"
    by (auto simp: create_registration_def transaction_Inr and_then_eq_Inr)
  then show ?thesis
  proof (rule create_draft_Inr)
    fix exam plan
    assume f: "get_exam (tenant_session t) (create_exam_offering_id body) s = Some exam"
      "exam_status exam = Exam_REGISTRATION_OPEN" "token = raw"
      "resolve_plan (tenant_session t) (create_exam_offering_id body) (create_pricing_plan_id body) s = Inr plan"
      "s' = s\<lparr>registrations := registrations s @ [r]\<rparr>" "reg_id r = fresh" "reg_tenant_id r = t"
      "fresh \<notin> reg_id ` set (registrations s)"
      "reg_exam_offering_id r = create_exam_offering_id body" "draft_token_hash r = digest raw"
      "draft_token_expires_at r = now + seconds (draft_token_ttl_seconds c)"
      "reg_status r = Reg_PHONE_VERIFICATION_REQUIRED" "phone_verified_at r = None"
      "payable_amount r = Some (case plan of None \<Rightarrow> 0 | Some p \<Rightarrow> plan_amount p)"
    have "get_reg (tenant_session u) fresh s = None"
      using f(8) by (force simp: get_row_None)
    moreover have "registrations s' = registrations s @ [r]"
      using f(5) by simp
    ultimately have "get_reg (tenant_session u) fresh s' = (if u = t then Some r else None)"
      using f(6,7) by (simp add: get_row_append get_row_Cons)
    moreover have "(case plan of None \<Rightarrow> 0 | Some p \<Rightarrow> plan_amount p) =
        (case create_pricing_plan_id body of None \<Rightarrow> 0
         | Some i \<Rightarrow> (case get_plan (tenant_session t) i s of None \<Rightarrow> 0 | Some p \<Rightarrow> plan_amount p))"
      using f(4) by (rule resolve_plan_cases) simp_all
    ultimately show ?thesis
      using f by (auto simp: authorized_draft_def)
  qed
qed

theorem create_registration_grants_token_witness:
  "\<exists>r cs s'. create_registration id default_settings 1 0 99 (lit ''raw'')
       \<lparr>create_exam_offering_id = 10, create_pricing_plan_id = Some 20,
        create_phone_number = lit ''+989121234567''\<rparr> (sample_db []) = (Inr ((r, cs), lit ''raw''), s')
     \<and> authorized_draft id (tenant_session 1) 7 99 (lit ''raw'') s' = Inr r
     \<and> payable_amount r = Some 500000"
proof -
  have "\<exists>r cs s'. create_registration id default_settings 1 0 99 (lit ''raw'')
       \<lparr>create_exam_offering_id = 10, create_pricing_plan_id = Some 20,
        create_phone_number = lit ''+989121234567''\<rparr> (sample_db []) = (Inr ((r, cs), lit ''raw''), s')"
    by (simp add: create_registration_def transaction_def Let_def create_draft_def resolve_plan_def
        plan_association_def active_definition_def respond_def registration_response_def
        key_taken_def table_eval sample_defs)
  then show ?thesis
    using create_registration_grants_token [of id default_settings 1 0 99 "lit ''raw''" _ "sample_db []"
        _ _ _ _ 1 7 "lit ''raw''"]
    by (fastforce simp: table_eval sample_defs seconds_def)
qed

text \<open>
  rotating a draft's token revokes the old one at once: afterwards a token opens the draft
  exactly when it has the digest of the replacement and the new lifetime has not passed, and
  nothing else of the registration has changed.
\<close>

theorem rotate_revokes_token:
  assumes "rotate_draft_token digest c cur now i token raw s = (Inr (replacement, expires), s')"
  shows "replacement = raw \<and> expires = now + seconds (draft_token_ttl_seconds c)
    \<and> (\<exists>r. get_reg cur i s = Some r
         \<and> authorized_draft digest cur now' i token' s' =
             (if now' < expires \<and> digest token' = digest raw
              then Inr (r\<lparr>draft_token_hash := digest raw, draft_token_expires_at := expires\<rparr>)
              else Inl (app_error ''DRAFT_ACCESS_DENIED'' 404)))
    \<and> filter (\<lambda>x. reg_id x \<noteq> i) (registrations s') = filter (\<lambda>x. reg_id x \<noteq> i) (registrations s)"
proof -
  from assms obtain r where r: "authorized_draft digest cur now i token s = Inr r"
    and out: "replacement = raw" "expires = now + seconds (draft_token_ttl_seconds c)"
      "s' = save_reg cur (r\<lparr>draft_token_hash := digest raw, draft_token_expires_at := expires\<rparr>) s"
    by (auto simp: rotate_draft_token_def transaction_Inr with_draft_Inr rotate_token_def
        and_then_eq_Inr)
  define r' where "r' = r\<lparr>draft_token_hash := digest raw, draft_token_expires_at := expires\<rparr>"
  have "get_reg cur i s' = Some r'"
    using saved_reg [of cur r' s r] authorized_draftD [OF r] out(3) by (simp add: r'_def)
  moreover have "filter (\<lambda>x. reg_id x \<noteq> i) (registrations s') = filter (\<lambda>x. reg_id x \<noteq> i) (registrations s)"
    using save_reg_others [of r' cur "registrations s"] authorized_draftD(3) [OF r] out(3)
    by (simp add: r'_def)
  ultimately show ?thesis
    using out authorized_draftD(1) [OF r] by (auto simp: authorized_draft_def r'_def)
qed

theorem rotate_revokes_token_witness:
  "\<exists>s'. rotate_draft_token id default_settings (tenant_session 1) 9 5 (lit ''secret'') (lit ''next'')
       (sample_db [sample_draft 5]) = (Inr (lit ''next'', 9 + seconds 2592000), s')
     \<and> authorized_draft id (tenant_session 1) 10 5 (lit ''secret'') s'
         = Inl (app_error ''DRAFT_ACCESS_DENIED'' 404)"
proof -
  have "\<exists>s'. rotate_draft_token id default_settings (tenant_session 1) 9 5 (lit ''secret'') (lit ''next'')
       (sample_db [sample_draft 5]) = (Inr (lit ''next'', 9 + seconds 2592000), s')"
    by (simp add: rotate_draft_token_def transaction_def with_draft_def authorized_draft_def
        rotate_token_def flush_registration_def registration_unique_ok_def table_eval sample_defs)
  then show ?thesis
    using rotate_revokes_token [of id default_settings "tenant_session 1" 9 5 "lit ''secret''"
        "lit ''next''" "sample_db [sample_draft 5]" _ _ _ 10 "lit ''secret''"]
    by fastforce
qed

text \<open>
  C2: a patch that fails changes nothing; one that succeeds edited a registration that was still
  mutable, and leaves its exam, frozen price, token, payment state and submission instant and
  every other registration alone. When the phone number changes, the verification is lost and no
  pending code of the registration survives; when it does not, status, verification and codes
  stay as they were.
\<close>

theorem patch_registration_effect:
  "case patch_registration digest cur now i token body s of
     (Inl e, s') \<Rightarrow> s' = s
   | (Inr (r', cs), s') \<Rightarrow>
       (\<exists>r. authorized_draft digest cur now i token s = Inr r \<and> reg_status r \<in> MUTABLE_STATUSES
         \<and> get_reg cur i s' = Some r' \<and> reg_status r' \<in> MUTABLE_STATUSES
         \<and> reg_exam_offering_id r' = reg_exam_offering_id r
         \<and> payable_amount r' = payable_amount r \<and> payable_currency r' = payable_currency r
         \<and> draft_token_hash r' = draft_token_hash r \<and> payment_status r' = payment_status r
         \<and> submitted_at r' = submitted_at r
         \<and> (if reg_phone_number r' = reg_phone_number r
             then reg_status r' = reg_status r \<and> phone_verified_at r' = phone_verified_at r
               \<and> otps s' = otps s
             else reg_status r' = Reg_PHONE_VERIFICATION_REQUIRED \<and> phone_verified_at r' = None
               \<and> list_all (\<lambda>x. \<not> (tenant_isolation_policy cur (otp_tenant_id x)
                   \<and> otp_registration_id x = i \<and> consumed_at x = None \<and> invalidated_at x = None))
                   (otps s')))
       \<and> filter (\<lambda>x. reg_id x \<noteq> i) (registrations s') = filter (\<lambda>x. reg_id x \<noteq> i) (registrations s)"
proof (rule transaction_cases [of "with_draft digest cur now i token (\<lambda>r s.
       and_then (on_integrity_error duplicate_registration (patch cur now r body s)) (respond cur))" s])
  fix e
  assume "transaction (with_draft digest cur now i token (\<lambda>r s. and_then (on_integrity_error
       duplicate_registration (patch cur now r body s)) (respond cur))) s = (Inl e, s)"
  then show ?thesis by (simp add: patch_registration_def)
next
  fix x s'
  assume tx: "transaction (with_draft digest cur now i token (\<lambda>r s. and_then (on_integrity_error
       duplicate_registration (patch cur now r body s)) (respond cur))) s = (Inr x, s')"
  obtain r' cs where x: "x = (r', cs)" by (cases x)
  from tx obtain r where r: "authorized_draft digest cur now i token s = Inr r"
    and p: "patch cur now r body s = (Inr r', s')"
    by (auto simp: transaction_Inr with_draft_Inr and_then_eq_Inr x)
  have s1: "get_reg cur i s' = Some r'" "filter (\<lambda>x. reg_id x \<noteq> i) (registrations s')
      = filter (\<lambda>x. reg_id x \<noteq> i) (registrations s)"
    using p authorized_draftD [OF r] save_reg_others [of r' cur "registrations s"]
    by (auto elim!: patch_Inr simp: get_row_save_row)
  have st: "reg_status r \<in> MUTABLE_STATUSES" "r' = patched body r"
    "s' = save_reg cur r' (if reg_phone_number r' = reg_phone_number r then s
            else invalidate_pending cur now (reg_id r) s)"
    using p by (auto elim!: patch_Inr)
  have phone: "if reg_phone_number r' = reg_phone_number r
      then reg_status r' = reg_status r \<and> phone_verified_at r' = phone_verified_at r
      else reg_status r' = Reg_PHONE_VERIFICATION_REQUIRED \<and> phone_verified_at r' = None"
    by (auto simp: st(2) patched_def Let_def)
  show ?thesis
    unfolding patch_registration_def tx x prod.case sum.case
    using r s1 st(1,3) phone patched_mutable [OF st(1), of body] authorized_draftD(3) [OF r]
      pending_invalidated [of cur i now s]
    by (auto simp: st(2) split: if_splits)
qed

text \<open>What a registration must satisfy to be submitted, as the product asks for it.\<close>

definition submittable ::
  "(json \<Rightarrow> json \<Rightarrow> schema_verdict) \<Rightarrow> session \<Rightarrow> instant \<Rightarrow> registration \<Rightarrow> reg_db \<Rightarrow> bool" where
  "submittable validator cur now r s \<longleftrightarrow>
     reg_status r \<in> MUTABLE_STATUSES \<and> phone_verified_at r \<noteq> None
     \<and> first_name r \<noteq> None \<and> last_name r \<noteq> None \<and> reg_gender r \<noteq> None \<and> national_code r \<noteq> None
     \<and> father_name r \<noteq> None \<and> birth_date r \<noteq> None \<and> current_school_id r \<noteq> None
     \<and> previous_school_id r \<noteq> None \<and> postal_code r \<noteq> None \<and> address r \<noteq> None
     \<and> map contact_position (registration_contacts cur (reg_id r) s) = [1, 2]
     \<and> profile_image_ready cur r s
     \<and> form_check validator cur r s = None
     \<and> (\<exists>exam. get_exam cur (reg_exam_offering_id r) s = Some exam
          \<and> (case registration_ends_at exam of None \<Rightarrow> True | Some t \<Rightarrow> now < t)
          \<and> (case exam_capacity exam of None \<Rightarrow> True
              | Some cap \<Rightarrow> int (submitted_count cur (reg_exam_offering_id r) s) < cap))"

lemma missing_fields_Nil:
  "missing_fields r = [] \<longleftrightarrow>
     first_name r \<noteq> None \<and> last_name r \<noteq> None \<and> reg_gender r \<noteq> None \<and> national_code r \<noteq> None
     \<and> father_name r \<noteq> None \<and> birth_date r \<noteq> None \<and> current_school_id r \<noteq> None
     \<and> previous_school_id r \<noteq> None \<and> postal_code r \<noteq> None \<and> address r \<noteq> None
     \<and> profile_image_id r \<noteq> None"
  by (auto simp: missing_fields_def)

lemma image_ready_present: "profile_image_ready cur r s \<Longrightarrow> profile_image_id r \<noteq> None"
  by (auto simp: profile_image_ready_def split: option.splits)

lemma two_positions:
  assumes "sorted (map f xs)"
  shows "length xs = 2 \<and> set (map f xs) = {1, 2} \<longleftrightarrow> map f xs = [1, 2 :: int]"
proof
  assume h: "length xs = 2 \<and> set (map f xs) = {1, 2}"
  then obtain a b where xs: "xs = [a, b]"
    by (metis One_nat_def Suc_1 length_0_conv length_Suc_conv)
  then show "map f xs = [1, 2]"
    using h assms by (auto simp: doubleton_eq_iff)
next
  assume h: "map f xs = [1, 2]"
  then have "length xs = 2"
    using length_map [of f xs] by simp
  with h show "length xs = 2 \<and> set (map f xs) = {1, 2}" by simp
qed

lemma sorted_contacts: "sorted (map contact_position (registration_contacts cur i s))"
  by (simp add: registration_contacts_def)

lemma submit_exact:
  assumes "reg_status r \<notin> SUBMITTED_STATUSES"
  shows "submit validator cur now r s = (Inr r', s') \<longleftrightarrow>
     submittable validator cur now r s \<and> r' = r\<lparr>reg_status := Reg_SUBMITTED, submitted_at := Some now\<rparr>
     \<and> registration_unique_ok r' s \<and> s' = save_reg cur r' s"
    (is "?L \<longleftrightarrow> ?R")
proof
  assume ?L
  then show ?R
  proof (cases rule: submit_Inr)
    case (submitted exam)
    then show ?thesis
      using two_positions [OF sorted_contacts, of cur "reg_id r" s]
      by (auto simp: submittable_def missing_fields_Nil split: option.splits)
  qed (use assms in simp)
next
  assume ?R
  then obtain exam where e: "get_exam cur (reg_exam_offering_id r) s = Some exam"
    and sub: "submittable validator cur now r s"
    by (auto simp: submittable_def)
  have "exam_id exam = reg_exam_offering_id r"
    using e by (rule get_rowD)
  then show ?L
    using \<open>?R\<close> e assms image_ready_present [of cur r s]
      two_positions [OF sorted_contacts, of cur "reg_id r" s]
    by (auto simp: submit_def Let_def submittable_def missing_fields_Nil split: option.splits)
qed

text \<open>
  C1: submission succeeds exactly when the token opens the draft and the draft is complete,
  verified, with its two contacts at positions 1 and 2, a READY image, valid answers, an exam
  whose registration has not ended and a free place (or it is already submitted, which changes
  nothing); then only this registration changes, to SUBMITTED at this instant, and a failed
  submission changes nothing.
\<close>

theorem submit_registration_exact:
  "case submit_registration validator digest cur now i token s of
     (Inl e, s') \<Rightarrow> s' = s
       \<and> \<not> (\<exists>r. authorized_draft digest cur now i token s = Inr r \<and> is_object (extra_answers r)
             \<and> registration_unique_ok r s
             \<and> (reg_status r \<in> SUBMITTED_STATUSES \<or> submittable validator cur now r s))
   | (Inr (r', cs), s') \<Rightarrow>
       (\<exists>r. authorized_draft digest cur now i token s = Inr r
         \<and> (if reg_status r \<in> SUBMITTED_STATUSES then r' = r \<and> s' = s
             else submittable validator cur now r s
               \<and> r' = r\<lparr>reg_status := Reg_SUBMITTED, submitted_at := Some now\<rparr>
               \<and> get_reg cur i s' = Some r'
               \<and> filter (\<lambda>x. reg_id x \<noteq> i) (registrations s') = filter (\<lambda>x. reg_id x \<noteq> i) (registrations s)
               \<and> s' = s\<lparr>registrations := registrations s'\<rparr>))"
proof (cases "authorized_draft digest cur now i token s")
  case (Inl e)
  then show ?thesis by (simp add: submit_registration_def transaction_def with_draft_def)
next
  case (Inr r)
  note r = authorized_draftD [OF Inr]
  show ?thesis
  proof (cases "submit validator cur now r s")
    case (Pair res s1)
    show ?thesis
    proof (cases "reg_status r \<in> SUBMITTED_STATUSES")
      case True
      then have "submit validator cur now r s = (Inr r, s)" by (simp add: submit_def)
      then show ?thesis
        using Inr True by (simp add: submit_registration_def transaction_def with_draft_def respond_def
            registration_response_def)
    next
      case False
      show ?thesis
      proof (cases res)
        case (Inl e)
        then have "\<not> (submittable validator cur now r s \<and> registration_unique_ok r s)"
          using submit_exact [OF False, of validator cur now s
              "r\<lparr>reg_status := Reg_SUBMITTED, submitted_at := Some now\<rparr>"
              "save_reg cur (r\<lparr>reg_status := Reg_SUBMITTED, submitted_at := Some now\<rparr>) s"] Pair
          by (auto simp: registration_unique_ok_def same_student_def)
        then show ?thesis
          using Inr Pair Inl False
          by (cases e) (auto simp: submit_registration_def transaction_def with_draft_def)
      next
        case (Inr r2)
        then have facts: "submittable validator cur now r s"
            "r2 = r\<lparr>reg_status := Reg_SUBMITTED, submitted_at := Some now\<rparr>" "s1 = save_reg cur r2 s"
          using submit_exact [OF False, of validator cur now s r2 s1] Pair by auto
        moreover have "get_reg cur i s1 = Some r2"
          using saved_reg [of cur r2 s r] r facts by simp
        moreover have "filter (\<lambda>x. reg_id x \<noteq> i) (registrations s1) = filter (\<lambda>x. reg_id x \<noteq> i) (registrations s)"
          using save_reg_others [of r2 cur "registrations s"] r facts by simp
        ultimately show ?thesis
          using Pair Inr False \<open>authorized_draft digest cur now i token s = Inr r\<close>
          by (simp add: submit_registration_def transaction_def with_draft_def respond_def
              registration_response_def)
      qed
    qed
  qed
qed

end
