(* ===== verification/Otp.thy ===== *)
theory Otp
  imports RegistrationRouter
begin

text \<open>
  One-time codes: \<open>OTPService\<close> (\<open>app/otp/service.py\<close>), the provider interface and its mock
  (\<open>app/otp/provider.py\<close>), and the two OTP endpoints of \<open>app/registrations/router.py\<close>. The advisory
  locks of \<open>send\<close> serialise the sends of a scope, which the model's atomic operations take for
  granted. \<open>hmac key message\<close> is HMAC-SHA-256 in hexadecimal, \<open>digest\<close> SHA-256 in hexadecimal, and
  \<open>code\<close> the six random digits drawn by \<open>send\<close>.
\<close>

section \<open>Providers\<close>

text \<open>\<open>send_code phone code tenant_slug\<close> returns the provider's state, and may raise.\<close>

type_synonym 'p send_code = "ustr \<Rightarrow> ustr \<Rightarrow> ustr \<Rightarrow> 'p \<Rightarrow> (unit, 'p) outcome"

text \<open>\<open>MockOTPProvider.sent_codes\<close>: the last code sent to each phone number.\<close>

type_synonym sent_codes = "ustr \<rightharpoonup> ustr"

definition mock_send_code :: "sent_codes send_code" where
  "mock_send_code phone code tenant_slug p = (Inr (), p(phone \<mapsto> code))"

text \<open>
  What a caller relies on: after a send that returned, the phone's inbox shows this code, and the
  inboxes of other phones are untouched.
\<close>

locale otp_provider =
  fixes send_code :: "'p send_code" and inbox :: "'p \<Rightarrow> ustr \<Rightarrow> ustr option"
  assumes delivered: "send_code phone code slug p = (Inr (), p') \<Longrightarrow> inbox p' phone = Some code"
    and others_kept:
      "send_code phone code slug p = (res, p') \<Longrightarrow> q \<noteq> phone \<Longrightarrow> inbox p' q = inbox p q"
begin

lemma inbox_after_sends:
  assumes "send_code a x slug p = (Inr (), p1)" "send_code b y slug' p1 = (Inr (), p2)"
  shows "inbox p2 a = Some (if a = b then y else x)"
  using assms delivered others_kept by (cases "a = b") auto

end

interpretation mock_otp: otp_provider mock_send_code "\<lambda>p. p"
  by unfold_locales (auto simp: mock_send_code_def)

section \<open>OTPService\<close>

definition hash_code :: "(ustr \<Rightarrow> ustr \<Rightarrow> ustr) \<Rightarrow> settings \<Rightarrow> uuid \<Rightarrow> ustr \<Rightarrow> ustr" where
  "hash_code hmac c challenge_id code = hmac (signing_key c) (uuid_str challenge_id @ lit '':'' @ code)"

definition ip_hash :: "(ustr \<Rightarrow> ustr) \<Rightarrow> ustr \<Rightarrow> ustr" where
  "ip_hash digest ip = digest ip"

definition phone_count :: "session \<Rightarrow> instant \<Rightarrow> ustr \<Rightarrow> reg_db \<Rightarrow> nat" where
  "phone_count cur now phone s =
     length (select_where otp_tenant_id cur
       (\<lambda>x. otp_phone_number x = phone \<and> otp_created_at x \<ge> now - seconds 3600) (otps s))"

definition ip_count :: "session \<Rightarrow> instant \<Rightarrow> ustr \<Rightarrow> reg_db \<Rightarrow> nat" where
  "ip_count cur now hashed s =
     length (select_where otp_tenant_id cur
       (\<lambda>x. request_ip_hash x = hashed \<and> otp_created_at x \<ge> now - seconds 3600) (otps s))"

definition tenant_count :: "session \<Rightarrow> instant \<Rightarrow> reg_db \<Rightarrow> nat" where
  "tenant_count cur now s =
     length (select_where otp_tenant_id cur (\<lambda>x. otp_created_at x \<ge> now - seconds 60) (otps s))"

definition of_registration :: "registration \<Rightarrow> otp_challenge \<Rightarrow> bool" where
  "of_registration r x \<longleftrightarrow> otp_tenant_id x = reg_tenant_id r \<and> otp_registration_id x = reg_id r"

definition latest_challenge :: "session \<Rightarrow> registration \<Rightarrow> reg_db \<Rightarrow> otp_challenge option" where
  "latest_challenge cur r s =
     latest otp_created_at (select_where otp_tenant_id cur (of_registration r) (otps s))"

definition active_count :: "session \<Rightarrow> instant \<Rightarrow> registration \<Rightarrow> reg_db \<Rightarrow> nat" where
  "active_count cur now r s =
     length (select_where otp_tenant_id cur
       (\<lambda>x. of_registration r x \<and> consumed_at x = None \<and> invalidated_at x = None
            \<and> otp_expires_at x > now) (otps s))"

definition new_challenge ::
  "(ustr \<Rightarrow> ustr \<Rightarrow> ustr) \<Rightarrow> settings \<Rightarrow> instant \<Rightarrow> uuid \<Rightarrow> ustr \<Rightarrow> ustr \<Rightarrow> registration \<Rightarrow> otp_challenge"
where
  "new_challenge hmac c now challenge_id code hashed r =
     \<lparr>otp_id = challenge_id, otp_tenant_id = reg_tenant_id r, otp_registration_id = reg_id r,
      otp_phone_number = reg_phone_number r, code_hash = hash_code hmac c challenge_id code,
      attempt_count = 0, request_ip_hash = hashed,
      otp_expires_at = now + seconds (otp_ttl_seconds c), consumed_at = None,
      invalidated_at = None, otp_created_at = now\<rparr>"

definition supersede_challenges :: "session \<Rightarrow> instant \<Rightarrow> registration \<Rightarrow> reg_db \<Rightarrow> reg_db" where
  "supersede_challenges cur now r s =
     s\<lparr>otps := update_where otp_tenant_id cur
         (\<lambda>x. of_registration r x \<and> consumed_at x = None)
         (\<lambda>x. x\<lparr>invalidated_at := Some now\<rparr>) (otps s)\<rparr>"

text \<open>The guards of \<open>send\<close>, in order.\<close>

definition send_refused ::
  "settings \<Rightarrow> session \<Rightarrow> instant \<Rightarrow> ustr \<Rightarrow> registration \<Rightarrow> reg_db \<Rightarrow> exn option" where
  "send_refused c cur now hashed r s =
     (if phone_count cur now (reg_phone_number r) s \<ge> otp_phone_hourly_limit c
         \<or> ip_count cur now hashed s \<ge> otp_ip_hourly_limit c
         \<or> tenant_count cur now s \<ge> otp_tenant_minute_limit c
      then Some (app_error ''OTP_RATE_LIMITED'' 429)
      else
        (case latest_challenge cur r s of
           Some l \<Rightarrow>
             (let wait = otp_created_at l + seconds (otp_resend_cooldown_seconds c) - now in
              if wait > 0
              then Some (ApplicationError ''OTP_RESEND_COOLDOWN'' 429
                          [Detail_retry_after (max (wait div 1000000) 1)])
              else if active_count cur now r s \<ge> otp_max_active_challenges c
              then Some (app_error ''OTP_TOO_MANY_ACTIVE'' 429) else None)
         | None \<Rightarrow>
             if active_count cur now r s \<ge> otp_max_active_challenges c
             then Some (app_error ''OTP_TOO_MANY_ACTIVE'' 429) else None))"

definition send ::
  "'p send_code \<Rightarrow> (ustr \<Rightarrow> ustr \<Rightarrow> ustr) \<Rightarrow> (ustr \<Rightarrow> ustr) \<Rightarrow> settings \<Rightarrow> session \<Rightarrow> instant \<Rightarrow> uuid \<Rightarrow> ustr
     \<Rightarrow> registration \<Rightarrow> ustr \<Rightarrow> ustr \<Rightarrow> reg_db \<times> 'p \<Rightarrow> (otp_challenge, reg_db \<times> 'p) outcome" where
  "send send_code hmac digest c cur now challenge_id code r client_ip tenant_slug = (\<lambda>(s, p).
     case send_refused c cur now (ip_hash digest client_ip) r s of
       Some e \<Rightarrow> (Inl e, (s, p))
     | None \<Rightarrow>
         (let s1 = supersede_challenges cur now r s;
              x = new_challenge hmac c now challenge_id code (ip_hash digest client_ip) r
          in if key_taken otp_id x (otps s1) then (Inl IntegrityError, (s1, p))
             else
               (let s2 = s1\<lparr>otps := insert_row x (otps s1)\<rparr> in
                case send_code (reg_phone_number r) code tenant_slug p of
                  (Inl e, p') \<Rightarrow> (Inl e, (s2, p'))
                | (Inr _, p') \<Rightarrow> (Inr x, (s2, p')))))"

definition pending_challenge :: "session \<Rightarrow> registration \<Rightarrow> reg_db \<Rightarrow> otp_challenge option" where
  "pending_challenge cur r s =
     latest otp_created_at (select_where otp_tenant_id cur
       (\<lambda>x. of_registration r x \<and> otp_phone_number x = reg_phone_number r
            \<and> consumed_at x = None \<and> invalidated_at x = None) (otps s))"

definition verify ::
  "(ustr \<Rightarrow> ustr \<Rightarrow> ustr) \<Rightarrow> settings \<Rightarrow> session \<Rightarrow> instant \<Rightarrow> registration \<Rightarrow> ustr \<Rightarrow> reg_db
     \<Rightarrow> (instant, reg_db) outcome" where
  "verify hmac c cur now r code s =
     (case pending_challenge cur r s of
        None \<Rightarrow> (Inl (app_error ''OTP_EXPIRED'' 400), s)
      | Some x \<Rightarrow>
          if otp_expires_at x \<le> now then (Inl (app_error ''OTP_EXPIRED'' 400), s)
          else if attempt_count x \<ge> otp_max_attempts c then
            (Inl (app_error ''OTP_ATTEMPT_LIMIT'' 400), save_otp cur (x\<lparr>invalidated_at := Some now\<rparr>) s)
          else
            (let x = x\<lparr>attempt_count := attempt_count x + 1\<rparr> in
             if code_hash x \<noteq> hash_code hmac c (otp_id x) code then
               (Inl (app_error ''OTP_INVALID'' 400),
                save_otp cur (if attempt_count x \<ge> otp_max_attempts c
                              then x\<lparr>invalidated_at := Some now\<rparr> else x) s)
             else
               (Inr now,
                save_reg cur (r\<lparr>phone_verified_at := Some now, reg_status := Reg_PHONE_VERIFIED\<rparr>)
                  (save_otp cur (x\<lparr>consumed_at := Some now\<rparr>) s))))"

section \<open>Endpoints\<close>

definition valid_otp_code :: "ustr \<Rightarrow> bool" where
  "valid_otp_code code \<longleftrightarrow> length code = 6 \<and> list_all is_decimal code"

text \<open>\<open>send_otp\<close>: a raise rolls the database back, not the provider.\<close>

definition send_otp where
  "send_otp send_code hmac digest c tenant_id slug now registration_id token challenge_id code client_ip
     = (\<lambda>(s, p).
     case authorized_draft digest (tenant_session tenant_id) now registration_id token s of
       Inl e \<Rightarrow> (Inl e, (s, p))
     | Inr r \<Rightarrow>
         (case send send_code hmac digest c (tenant_session tenant_id) now challenge_id code r client_ip
                 slug (s, p) of
            (Inl e, (s', p')) \<Rightarrow> (Inl e, (s, p'))
          | (Inr x, (s', p')) \<Rightarrow>
              (Inr (otp_expires_at x, otp_resend_cooldown_seconds c), (s', p'))))"

text \<open>\<open>verify_otp\<close>: an \<open>ApplicationError\<close> of \<open>verify\<close> is raised after the commit.\<close>

definition verify_otp where
  "verify_otp hmac digest c tenant_id now registration_id token code s =
     (case authorized_draft digest (tenant_session tenant_id) now registration_id token s of
        Inl e \<Rightarrow> (Inl e, s)
      | Inr r \<Rightarrow>
          (case verify hmac c (tenant_session tenant_id) now r code s of
             (Inl e, s') \<Rightarrow> if is_application_error e then (Inl e, s') else (Inl e, s)
           | (Inr t, s') \<Rightarrow> (Inr t, s')))"

section \<open>Lemmas\<close>

lemma pending_challengeD:
  assumes "pending_challenge cur r s = Some x"
  shows "x \<in> set (otps s)" "tenant_isolation_policy cur (otp_tenant_id x)" "of_registration r x"
    "otp_phone_number x = reg_phone_number r" "consumed_at x = None" "invalidated_at x = None"
  using latest_Some_in [OF assms [unfolded pending_challenge_def]] by auto

lemma verify_Inr:
  assumes "verify hmac c cur now r code s = (Inr t, s')"
  obtains x where "pending_challenge cur r s = Some x" "now < otp_expires_at x" "t = now"
    "attempt_count x < otp_max_attempts c" "code_hash x = hash_code hmac c (otp_id x) code"
    "s' = save_reg cur (r\<lparr>phone_verified_at := Some now, reg_status := Reg_PHONE_VERIFIED\<rparr>)
            (save_otp cur (x\<lparr>attempt_count := attempt_count x + 1, consumed_at := Some now\<rparr>) s)"
  using assms by (auto simp: verify_def Let_def split: option.splits if_splits)

lemma verify_application_error:
  "verify hmac c cur now r code s = (Inl e, s') \<Longrightarrow> is_application_error e"
  by (auto simp: verify_def Let_def split: option.splits if_splits)

text \<open>Every outcome of \<open>verify\<close> changes at most the pending challenge and, on success, the row.\<close>

lemma verify_cases:
  obtains (unchanged) "snd (verify hmac c cur now r code s) = s"
  | (challenge) x y where "pending_challenge cur r s = Some x" "otp_id y = otp_id x"
      "otp_tenant_id y = otp_tenant_id x" "otp_registration_id y = otp_registration_id x"
      "otp_phone_number y = otp_phone_number x" "otp_created_at y = otp_created_at x"
      "request_ip_hash y = request_ip_hash x"
      "attempt_count y \<le> max (attempt_count x) (otp_max_attempts c)"
      "otp_max_attempts c \<le> attempt_count y \<Longrightarrow> consumed_at y \<noteq> None \<or> invalidated_at y \<noteq> None"
      "snd (verify hmac c cur now r code s) = save_otp cur y s \<or>
       (consumed_at y \<noteq> None \<and> snd (verify hmac c cur now r code s) =
         save_reg cur (r\<lparr>phone_verified_at := Some now, reg_status := Reg_PHONE_VERIFIED\<rparr>)
           (save_otp cur y s))"
proof (cases "pending_challenge cur r s")
  case None
  then show thesis by (intro unchanged) (simp add: verify_def)
next
  case (Some x)
  let ?x = "x\<lparr>attempt_count := attempt_count x + 1\<rparr>"
  consider "otp_expires_at x \<le> now"
    | "now < otp_expires_at x" "otp_max_attempts c \<le> attempt_count x"
    | "now < otp_expires_at x" "attempt_count x < otp_max_attempts c"
      "code_hash x \<noteq> hash_code hmac c (otp_id x) code" "otp_max_attempts c \<le> attempt_count x + 1"
    | "now < otp_expires_at x" "attempt_count x < otp_max_attempts c"
      "code_hash x \<noteq> hash_code hmac c (otp_id x) code" "\<not> otp_max_attempts c \<le> attempt_count x + 1"
    | "now < otp_expires_at x" "attempt_count x < otp_max_attempts c"
      "code_hash x = hash_code hmac c (otp_id x) code"
    by linarith
  then show thesis
  proof cases
    case 1
    then show thesis using Some by (intro unchanged) (simp add: verify_def)
  next
    case 2
    then show thesis using Some
      by (intro challenge [of x "x\<lparr>invalidated_at := Some now\<rparr>"]) (auto simp: verify_def)
  next
    case 3
    then show thesis using Some
      by (intro challenge [of x "?x\<lparr>invalidated_at := Some now\<rparr>"]) (auto simp: verify_def Let_def)
  next
    case 4
    then show thesis using Some
      by (intro challenge [of x ?x]) (auto simp: verify_def Let_def)
  next
    case 5
    then show thesis using Some
      by (intro challenge [of x "?x\<lparr>consumed_at := Some now\<rparr>"]) (auto simp: verify_def Let_def)
  qed
qed

lemma send_Inr:
  assumes "send send_code hmac digest c cur now i code r ip slug (s, p) = (Inr x, (s', p'))"
  shows "send_refused c cur now (ip_hash digest ip) r s = None"
    "x = new_challenge hmac c now i code (ip_hash digest ip) r"
    "i \<notin> otp_id ` set (otps s)"
    "s' = s\<lparr>otps := otps (supersede_challenges cur now r s) @ [x]\<rparr>"
    "send_code (reg_phone_number r) code slug p = (Inr (), p')"
proof -
  have keys: "otp_id ` set (otps (supersede_challenges cur now r s)) = otp_id ` set (otps s)"
    using update_where_keys [of otp_id "\<lambda>x. x\<lparr>invalidated_at := Some now\<rparr>" otp_tenant_id cur
        "\<lambda>x. of_registration r x \<and> consumed_at x = None" "otps s"]
    by (simp add: supersede_challenges_def) (metis list.set_map)
  show "send_refused c cur now (ip_hash digest ip) r s = None"
    "x = new_challenge hmac c now i code (ip_hash digest ip) r"
    "i \<notin> otp_id ` set (otps s)"
    "s' = s\<lparr>otps := otps (supersede_challenges cur now r s) @ [x]\<rparr>"
    "send_code (reg_phone_number r) code slug p = (Inr (), p')"
    using assms keys
    by (auto simp: send_def Let_def key_taken_iff insert_row_def supersede_challenges_def
        new_challenge_def split: option.splits if_splits prod.splits sum.splits)
qed

text \<open>The pending challenges of a registration, on its current number or not.\<close>

definition pending_rows :: "uuid \<Rightarrow> uuid \<Rightarrow> reg_db \<Rightarrow> otp_challenge list" where
  "pending_rows t i s =
     filter (\<lambda>x. otp_registration_id x = i \<and> consumed_at x = None \<and> invalidated_at x = None)
       (visible otp_tenant_id (tenant_session t) (otps s))"

lemma pending_challenge_rows:
  assumes "reg_tenant_id r = t" "reg_id r = i"
  shows "pending_challenge (tenant_session t) r s =
     latest otp_created_at (filter (\<lambda>x. otp_phone_number x = reg_phone_number r) (pending_rows t i s))"
  unfolding pending_challenge_def pending_rows_def select_where_def filter_filter
  by (rule arg_cong [where f = "latest otp_created_at"], rule filter_cong)
    (use assms in \<open>auto simp: of_registration_def visible_def\<close>)

lemma superseded_none:
  "pending_rows (reg_tenant_id r) (reg_id r)
     (supersede_challenges (tenant_session (reg_tenant_id r)) now r s) = []"
proof -
  let ?cur = "tenant_session (reg_tenant_id r)"
  have "\<not> (otp_tenant_id y = reg_tenant_id r \<and> otp_registration_id y = reg_id r
      \<and> consumed_at y = None \<and> invalidated_at y = None)"
    if y: "y \<in> set (otps (supersede_challenges ?cur now r s))" for y
  proof -
    have eq: "otps (supersede_challenges ?cur now r s) = update_where otp_tenant_id ?cur
         (\<lambda>x. of_registration r x \<and> consumed_at x = None) (\<lambda>x. x\<lparr>invalidated_at := Some now\<rparr>) (otps s)"
      by (simp add: supersede_challenges_def)
    obtain x where "y = (if tenant_isolation_policy ?cur (otp_tenant_id x) \<and> of_registration r x
          \<and> consumed_at x = None then x\<lparr>invalidated_at := Some now\<rparr> else x)"
      using y unfolding eq update_where_def set_map by blast
    then show ?thesis by (simp add: of_registration_def split: if_splits)
  qed
  then show ?thesis
    unfolding pending_rows_def visible_def filter_filter filter_empty_conv policy_tenant by blast
qed

lemma pending_after_send:
  assumes "send send_code hmac digest c (tenant_session t) now i code r ip slug (s, p) = (Inr x, (s', p'))"
    and "reg_tenant_id r = t"
  shows "pending_rows t (reg_id r) s' = [x]" "pending_challenge (tenant_session t) r s' = Some x"
proof -
  note f = send_Inr [OF assms(1)]
  have "pending_rows t (reg_id r) s' =
      pending_rows t (reg_id r) (supersede_challenges (tenant_session t) now r s) @ [x]"
    using assms(2)
    by (simp add: f(2,4) pending_rows_def visible_def new_challenge_def)
  then show rows: "pending_rows t (reg_id r) s' = [x]"
    using superseded_none [of r now s] assms(2) by simp
  then show "pending_challenge (tenant_session t) r s' = Some x"
    using assms(2) by (simp add: pending_challenge_rows f(2) new_challenge_def)
qed

lemma filter_replace:
  assumes "filter P xs = [x]" "k y = k x" "\<And>z. z \<in> set xs \<Longrightarrow> k z = k x \<Longrightarrow> z = x"
  shows "filter P (map (\<lambda>z. if k z = k y then y else z) xs) = (if P y then [y] else [])"
proof -
  from assms(1) obtain us vs where xs: "xs = us @ x # vs" "\<forall>u\<in>set us. \<not> P u" "filter P vs = []" "P x"
    by (auto simp: filter_eq_Cons_iff)
  have quiet: "map (\<lambda>z. if k z = k y then y else z) ws = ws" if "set ws \<subseteq> set xs" "\<forall>w\<in>set ws. \<not> P w" for ws
    using that xs(4) assms(2,3) by (intro map_idI) (metis subsetD)
  have "map (\<lambda>z. if k z = k y then y else z) us = us" "map (\<lambda>z. if k z = k y then y else z) vs = vs"
    using quiet [of us] quiet [of vs] xs by (auto simp: filter_empty_conv)
  then show ?thesis
    using xs assms(2) by simp
qed

lemma pending_rows_save_otp:
  assumes "pending_rows t i s = [x]" "otp_id y = otp_id x" "otp_tenant_id y = otp_tenant_id x"
    "otp_registration_id y = otp_registration_id x"
    and only: "\<And>z. z \<in> set (otps s) \<Longrightarrow> otp_id z = otp_id x \<Longrightarrow> z = x"
  shows "pending_rows t i (save_otp (tenant_session t) y s) =
           (if consumed_at y = None \<and> invalidated_at y = None then [y] else [])"
proof -
  have "x \<in> set (pending_rows t i s)" using assms(1) by simp
  then have x: "otp_tenant_id x = t" "otp_registration_id x = i"
    by (auto simp: pending_rows_def visible_def)
  have "filter (\<lambda>z. otp_registration_id z = i \<and> consumed_at z = None \<and> invalidated_at z = None)
      (map (\<lambda>z. if otp_id z = otp_id y then y else z) (visible otp_tenant_id (tenant_session t) (otps s)))
      = (if otp_registration_id y = i \<and> consumed_at y = None \<and> invalidated_at y = None then [y] else [])"
    using assms(1,2) only unfolding pending_rows_def
    by (intro filter_replace [of _ _ x]) (auto simp: visible_def)
  then show ?thesis
    using x assms(3,4) by (simp add: pending_rows_def visible_save_row_own)
qed

lemma pending_rows_save_reg [simp]: "pending_rows t i (s\<lparr>registrations := rs\<rparr>) = pending_rows t i s"
  by (simp add: pending_rows_def)

text \<open>Rows under a challenge's identifier, which no update changes the number of.\<close>

definition sole :: "otp_challenge \<Rightarrow> reg_db \<Rightarrow> bool" where
  "sole x s \<longleftrightarrow> x \<in> set (otps s) \<and> (\<forall>z\<in>set (otps s). otp_id z = otp_id x \<longrightarrow> z = x)"

lemma sole_after_send:
  assumes "send send_code hmac digest c (tenant_session t) now i code r ip slug (s, p) = (Inr x, (s', p'))"
  shows "sole x s'"
proof -
  note f = send_Inr [OF assms]
  have "map otp_id (otps (supersede_challenges (tenant_session t) now r s)) = map otp_id (otps s)"
    by (simp add: supersede_challenges_def update_where_keys)
  then have "otp_id ` set (otps (supersede_challenges (tenant_session t) now r s)) = otp_id ` set (otps s)"
    by (metis list.set_map)
  moreover have "otp_id x = i" by (simp add: f(2) new_challenge_def)
  ultimately show ?thesis
    using f(3) by (auto simp: sole_def f(4)) (metis image_eqI)
qed

lemma sole_save_otp:
  assumes "sole x s" "otp_id y = otp_id x" "tenant_isolation_policy cur (otp_tenant_id x)"
  shows "sole y (save_otp cur y s)"
  using assms unfolding sole_def by (auto simp: in_save_row_iff)

lemma sole_save_reg [simp]: "sole x (s\<lparr>registrations := rs\<rparr>) = sole x s"
  by (simp add: sole_def)

section \<open>Guessing\<close>

text \<open>A sequence of verification requests on one draft, each with its instant and code.\<close>

fun verify_all where
  "verify_all hmac digest c t i token [] s = []"
| "verify_all hmac digest c t i token ((now, code) # guesses) s =
     (case verify_otp hmac digest c t now i token code s of
        (res, s') \<Rightarrow> res # verify_all hmac digest c t i token guesses s')"

definition wrong_guess :: "exn + instant \<Rightarrow> bool" where
  "wrong_guess res \<longleftrightarrow> res = Inl (app_error ''OTP_INVALID'' 400)"

lemma verify_otp_denied:
  "authorized_draft digest (tenant_session t) now i token s = Inl e \<Longrightarrow>
     verify_otp hmac digest c t now i token code s = (Inl e, s)"
  by (simp add: verify_otp_def)

lemma verify_otp_granted:
  "authorized_draft digest (tenant_session t) now i token s = Inr r \<Longrightarrow>
     verify_otp hmac digest c t now i token code s = verify hmac c (tenant_session t) now r code s"
  by (auto simp: verify_otp_def dest: verify_application_error split: prod.splits sum.splits)

lemma denied_not_wrong:
  "authorized_draft digest cur now i token s = Inl e \<Longrightarrow> \<not> wrong_guess (Inl e)"
  by (auto simp: authorized_draft_def wrong_guess_def split: option.splits if_splits)

lemma no_pending_no_change:
  assumes "pending_rows t i s = []"
  shows "snd (verify_otp hmac digest c t now i token code s) = s"
    "\<not> wrong_guess (fst (verify_otp hmac digest c t now i token code s))"
proof -
  have "verify hmac c (tenant_session t) now r code s = (Inl (app_error ''OTP_EXPIRED'' 400), s)"
    if "authorized_draft digest (tenant_session t) now i token s = Inr r" for r
    using authorized_draftD [OF that] assms
    by (simp add: verify_def pending_challenge_rows)
  then show "snd (verify_otp hmac digest c t now i token code s) = s"
    "\<not> wrong_guess (fst (verify_otp hmac digest c t now i token code s))"
    using denied_not_wrong [of digest "tenant_session t" now i token s]
    by (cases "authorized_draft digest (tenant_session t) now i token s";
        simp add: verify_otp_denied verify_otp_granted wrong_guess_def)+
qed

text \<open>What one request does to the sole pending challenge of the draft.\<close>

lemma verify_otp_sole:
  assumes "pending_rows t i s = [x]" "sole x s"
    and out: "verify_otp hmac digest c t now i token code s = (res, s')"
  obtains (same) "pending_rows t i s' = [x]" "sole x s'" "\<not> wrong_guess res"
  | (closed) "pending_rows t i s' = []" "wrong_guess res \<longrightarrow> attempt_count x < otp_max_attempts c"
  | (counted) y where "pending_rows t i s' = [y]" "sole y s'"
      "attempt_count y = attempt_count x + 1" "attempt_count y < otp_max_attempts c"
proof (cases "authorized_draft digest (tenant_session t) now i token s")
  case (Inl e)
  then show thesis
    using assms denied_not_wrong [OF Inl] by (intro same) (auto simp: verify_otp_denied)
next
  case (Inr r)
  note r = authorized_draftD [OF Inr]
  have x: "otp_tenant_id x = t" "otp_registration_id x = i"
  proof -
    have "x \<in> set (pending_rows t i s)" using assms(1) by simp
    then show "otp_tenant_id x = t" "otp_registration_id x = i"
      by (auto simp: pending_rows_def visible_def)
  qed
  have only: "\<And>z. z \<in> set (otps s) \<Longrightarrow> otp_id z = otp_id x \<Longrightarrow> z = x"
    using assms(2) by (auto simp: sole_def)
  have upd: "pending_rows t i (save_otp (tenant_session t) y s) =
      (if consumed_at y = None \<and> invalidated_at y = None then [y] else [])
      \<and> sole y (save_otp (tenant_session t) y s)"
    if "otp_id y = otp_id x" "otp_tenant_id y = otp_tenant_id x"
      "otp_registration_id y = otp_registration_id x" for y
    using that pending_rows_save_otp [OF assms(1) that only] sole_save_otp [OF assms(2) that(1)] x(1)
    by simp
  have v: "verify hmac c (tenant_session t) now r code s = (res, s')"
    using out Inr by (simp add: verify_otp_granted)
  show thesis
  proof (cases "pending_challenge (tenant_session t) r s")
    case None
    with v assms show thesis by (intro same) (auto simp: verify_def wrong_guess_def)
  next
    case (Some z)
    then have z: "z = x"
      using r(3,4) assms(1) by (simp add: pending_challenge_rows [of r t i] split: if_splits)
    have px: "consumed_at x = None" "invalidated_at x = None"
      using pending_challengeD [OF Some] z by auto
    let ?y = "x\<lparr>attempt_count := attempt_count x + 1\<rparr>"
    consider "otp_expires_at x \<le> now"
      | "now < otp_expires_at x" "otp_max_attempts c \<le> attempt_count x"
      | "now < otp_expires_at x" "attempt_count x < otp_max_attempts c"
        "code_hash x \<noteq> hash_code hmac c (otp_id x) code" "otp_max_attempts c \<le> attempt_count x + 1"
      | "now < otp_expires_at x" "attempt_count x < otp_max_attempts c"
        "code_hash x \<noteq> hash_code hmac c (otp_id x) code" "attempt_count x + 1 < otp_max_attempts c"
      | "now < otp_expires_at x" "attempt_count x < otp_max_attempts c"
        "code_hash x = hash_code hmac c (otp_id x) code"
      by linarith
    then show thesis
    proof cases
      case 1
      with v Some z assms show thesis by (intro same) (auto simp: verify_def wrong_guess_def)
    next
      case 2
      with v Some z upd [of "x\<lparr>invalidated_at := Some now\<rparr>"] show thesis
        by (intro closed) (auto simp: verify_def wrong_guess_def)
    next
      case 3
      with v Some z upd [of "?y\<lparr>invalidated_at := Some now\<rparr>"] show thesis
        by (intro closed) (auto simp: verify_def)
    next
      case 4
      with v Some z px upd [of ?y] show thesis
        by (intro counted [of ?y]) (auto simp: verify_def)
    next
      case 5
      with v Some z upd [of "?y\<lparr>consumed_at := Some now\<rparr>"] show thesis
        by (intro closed) (auto simp: verify_def)
    qed
  qed
qed

lemma no_wrong_guess_without_pending:
  "pending_rows t i s = [] \<Longrightarrow> count_if wrong_guess (verify_all hmac digest c t i token guesses s) = 0"
proof (induction guesses)
  case (Cons g guesses)
  obtain now code where g: "g = (now, code)" by (cases g)
  show ?case
    using no_pending_no_change [OF Cons.prems, of hmac digest c now token code] Cons
    by (cases "verify_otp hmac digest c t now i token code s") (simp add: g)
qed simp

lemma wrong_guesses_of_sole:
  "pending_rows t i s = [x] \<Longrightarrow> sole x s \<Longrightarrow> attempt_count x \<le> otp_max_attempts c \<Longrightarrow>
     count_if wrong_guess (verify_all hmac digest c t i token guesses s)
       \<le> otp_max_attempts c - attempt_count x"
proof (induction guesses arbitrary: s x)
  case (Cons g guesses)
  obtain now code where g: "g = (now, code)" by (cases g)
  obtain res s' where out: "verify_otp hmac digest c t now i token code s = (res, s')"
    by (cases "verify_otp hmac digest c t now i token code s")
  from Cons.prems(1,2) out show ?case
  proof (cases rule: verify_otp_sole)
    case same
    with Cons.IH [OF same(1,2)] Cons.prems(3) out show ?thesis by (simp add: g)
  next
    case closed
    then show ?thesis
      using no_wrong_guess_without_pending [OF closed(1), of hmac digest c token guesses] out
      by (auto simp: g)
  next
    case (counted y)
    with Cons.IH [OF counted(1,2)] out show ?thesis
      by (cases "wrong_guess res"; simp add: g; linarith)
  qed
qed simp

lemma no_pending_no_success:
  assumes "pending_rows t i s = []"
  shows "fst (verify_otp hmac digest c t now i token code s) \<noteq> Inr now'"
proof (cases "authorized_draft digest (tenant_session t) now i token s")
  case (Inr r)
  then show ?thesis
    using authorized_draftD [OF Inr] assms
    by (simp add: verify_otp_granted verify_def pending_challenge_rows)
qed (simp add: verify_otp_denied)

lemma send_otp_Inr:
  assumes "send_otp send_code hmac digest c t slug now i token j code ip (s, p) = (Inr resp, (s', p'))"
  obtains r x where "authorized_draft digest (tenant_session t) now i token s = Inr r"
    "send send_code hmac digest c (tenant_session t) now j code r ip slug (s, p) = (Inr x, (s', p'))"
    "reg_id r = i" "reg_tenant_id r = t"
proof -
  from assms obtain r where r: "authorized_draft digest (tenant_session t) now i token s = Inr r"
    by (auto simp: send_otp_def split: sum.splits)
  with assms authorized_draftD [OF r] show thesis
    by (auto simp: send_otp_def split: sum.splits prod.splits intro: that)
qed

section \<open>Properties\<close>

text \<open>
  C4: after a code was sent, no sequence of verification requests, at whatever instants and with
  whatever tokens, gets more than the configured number of wrong guesses answered: the code is
  withdrawn with the last of them.
\<close>

theorem otp_guess_bound:
  assumes "send_otp send_code hmac digest c t slug now i token j code ip (s, p) = (Inr resp, (s', p'))"
  shows "count_if wrong_guess (verify_all hmac digest c t i token' guesses s') \<le> otp_max_attempts c"
proof -
  from assms obtain r x where r: "reg_id r = i" "reg_tenant_id r = t"
    and send: "send send_code hmac digest c (tenant_session t) now j code r ip slug (s, p)
        = (Inr x, (s', p'))"
    by (rule send_otp_Inr)
  have "attempt_count x = 0"
    by (simp add: send_Inr(2) [OF send] new_challenge_def)
  then show ?thesis
    using wrong_guesses_of_sole [OF pending_after_send(1) [OF send r(2)] sole_after_send [OF send],
        of c hmac digest token' guesses] r(1)
    by simp
qed

lemma sample_send:
  "\<exists>s'. send_otp mock_send_code (\<lambda>k m. m) id default_settings 1 (lit ''slug'') 9 5 (lit ''secret'') 70
     (lit ''123456'') (lit ''127.0.0.1'') (sample_db [sample_draft 5], \<lambda>_. None)
     = (Inr (9 + seconds 180, 60), (s', [lit ''+989121234567'' \<mapsto> lit ''123456'']))
     \<and> registrations s' = [sample_draft 5]"
  by (simp add: send_otp_def send_def authorized_draft_def send_refused_def phone_count_def ip_count_def
      tenant_count_def latest_challenge_def active_count_def supersede_challenges_def key_taken_def
      mock_send_code_def new_challenge_def table_eval sample_defs)

theorem otp_guess_bound_witness:
  "\<exists>s' p'. send_otp mock_send_code (\<lambda>k m. m) id default_settings 1 (lit ''slug'') 9 5 (lit ''secret'') 70
     (lit ''123456'') (lit ''127.0.0.1'') (sample_db [sample_draft 5], \<lambda>_. None)
     = (Inr (9 + seconds 180, 60), (s', p'))
     \<and> count_if wrong_guess (verify_all (\<lambda>k m. m) id default_settings 1 5 (lit ''secret'')
          (replicate 100 (10, lit ''000000'')) s') \<le> 5"
proof -
  obtain s' where "send_otp mock_send_code (\<lambda>k m. m) id default_settings 1 (lit ''slug'') 9 5
     (lit ''secret'') 70 (lit ''123456'') (lit ''127.0.0.1'') (sample_db [sample_draft 5], \<lambda>_. None)
     = (Inr (9 + seconds 180, 60), (s', [lit ''+989121234567'' \<mapsto> lit ''123456'']))"
    using sample_send by blast
  moreover from otp_guess_bound [OF this] have "count_if wrong_guess (verify_all (\<lambda>k m. m) id
      default_settings 1 5 (lit ''secret'') (replicate 100 (10, lit ''000000'')) s') \<le> 5"
    by (metis default_settings_attempts)
  ultimately show ?thesis by blast
qed

text \<open>
  the code delivered to the phone verifies it: while it lives, sending it back succeeds and
  records this instant as the verification, and the code is then spent, so that no further
  request on the draft verifies anything until a new one is sent. The status of the registration
  is not looked at: whatever it was, it becomes PHONE_VERIFIED.
\<close>

theorem otp_round_trip:
  assumes "send_otp mock_send_code hmac digest c t slug now i token j code ip (s, p)
      = (Inr resp, (s', p'))"
    and "authorized_draft digest (tenant_session t) now' i token' s' = Inr r"
    and "now' < now + seconds (otp_ttl_seconds c)" "0 < otp_max_attempts c"
  shows "\<exists>delivered s''. p' (reg_phone_number r) = Some delivered
     \<and> verify_otp hmac digest c t now' i token' delivered s' = (Inr now', s'')
     \<and> get_reg (tenant_session t) i s''
         = Some (r\<lparr>phone_verified_at := Some now', reg_status := Reg_PHONE_VERIFIED\<rparr>)
     \<and> \<not> (\<exists>later token'' any t'. fst (verify_otp hmac digest c t later i token'' any s'') = Inr t')"
proof -
  from assms(1) obtain r0 x where r0: "reg_id r0 = i" "reg_tenant_id r0 = t"
    "authorized_draft digest (tenant_session t) now i token s = Inr r0"
    and send: "send mock_send_code hmac digest c (tenant_session t) now j code r0 ip slug (s, p)
        = (Inr x, (s', p'))"
    by (rule send_otp_Inr)
  note f = send_Inr [OF send]
  note r = authorized_draftD [OF assms(2)]
  have "r = r0"
    using authorized_draftD(1) [OF r0(3)] r(1) f(4) by simp
  have x: "x = new_challenge hmac c now j code (ip_hash digest ip) r"
    using f(2) \<open>r = r0\<close> by simp
  have inbox: "p' (reg_phone_number r) = Some code"
    using mock_otp.delivered [OF f(5)] \<open>r = r0\<close> by simp
  have pend: "pending_challenge (tenant_session t) r s' = Some x"
    using pending_after_send(2) [OF send r0(2)] \<open>r = r0\<close> by simp
  let ?y = "x\<lparr>attempt_count := attempt_count x + 1, consumed_at := Some now'\<rparr>"
  define s2 where "s2 = save_reg (tenant_session t)
      (r\<lparr>phone_verified_at := Some now', reg_status := Reg_PHONE_VERIFIED\<rparr>) (save_otp (tenant_session t) ?y s')"
  have out: "verify_otp hmac digest c t now' i token' code s' = (Inr now', s2)"
    using pend assms(3,4)
    by (simp add: verify_otp_granted [OF assms(2)] verify_def x new_challenge_def s2_def)
  have saved: "get_reg (tenant_session t) i s2
      = Some (r\<lparr>phone_verified_at := Some now', reg_status := Reg_PHONE_VERIFIED\<rparr>)"
    using r by (simp add: s2_def get_row_save_row)
  have "pending_rows t i s2 = []"
    using pending_rows_save_otp [OF pending_after_send(1) [OF send r0(2)], of ?y]
      sole_after_send [OF send] r0(1)
    by (simp add: s2_def sole_def)
  then show ?thesis
    using inbox out saved no_pending_no_success by blast
qed

theorem otp_round_trip_witness:
  "\<exists>s' s''. send_otp mock_send_code (\<lambda>k m. m) id default_settings 1 (lit ''slug'') 9 5 (lit ''secret'')
       70 (lit ''123456'') (lit ''127.0.0.1'') (sample_db [sample_draft 5], \<lambda>_. None)
       = (Inr (9 + seconds 180, 60), (s', [lit ''+989121234567'' \<mapsto> lit ''123456'']))
     \<and> verify_otp (\<lambda>k m. m) id default_settings 1 10 5 (lit ''secret'') (lit ''123456'') s' = (Inr 10, s'')"
proof -
  obtain s' where send: "send_otp mock_send_code (\<lambda>k m. m) id default_settings 1 (lit ''slug'') 9 5
     (lit ''secret'') 70 (lit ''123456'') (lit ''127.0.0.1'') (sample_db [sample_draft 5], \<lambda>_. None)
     = (Inr (9 + seconds 180, 60), (s', [lit ''+989121234567'' \<mapsto> lit ''123456'']))"
    and regs: "registrations s' = [sample_draft 5]"
    using sample_send by blast
  have auth: "authorized_draft id (tenant_session 1) 10 5 (lit ''secret'') s' = Inr (sample_draft 5)"
    unfolding authorized_draft_def regs by (simp add: table_eval sample_defs)
  have phone: "reg_phone_number (sample_draft 5) = lit ''+989121234567''"
    by (simp add: sample_draft_def)
  have ttl: "10 < 9 + seconds (otp_ttl_seconds default_settings)" "0 < otp_max_attempts default_settings"
    by (simp_all add: default_settings_def seconds_def)
  show ?thesis
    using otp_round_trip [OF send auth ttl] send unfolding phone by auto
qed

end
