(* ===== verification/Tokens.thy ===== *)
theory Tokens
  imports Config Uuids "HOL-Library.Countable"
begin

text \<open>
  \<open>app/auth/security.py\<close>: access tokens and signed state. PyJWT is not part of the repository, so
  it is a pair of arguments: \<open>jwt_encode key claims\<close>, and \<open>jwt_decode key required now token\<close>, which
  answers with the claims of a token whose signature, required claims and \<open>exp\<close>/\<open>iat\<close> it accepts.
  \<open>jwt_laws\<close> states what its documentation promises of the two.
\<close>

type_synonym claims = "(string \<times> json) list"
type_synonym jwt_encode = "ustr \<Rightarrow> claims \<Rightarrow> ustr"
type_synonym jwt_decode = "ustr \<Rightarrow> string list \<Rightarrow> instant \<Rightarrow> ustr \<Rightarrow> claims option"

text \<open>A \<open>datetime\<close> claim is written as whole seconds.\<close>

definition timestamp :: "instant \<Rightarrow> json" where
  "timestamp t = JInt (t div 1000000)"

definition claim_time :: "claims \<Rightarrow> string \<Rightarrow> int option" where
  "claim_time cs k = (case map_of cs k of Some (JInt n) \<Rightarrow> Some n | _ \<Rightarrow> None)"

text \<open>Required claims are there, \<open>exp\<close> lies ahead and \<open>iat\<close> does not.\<close>

definition claims_current :: "string list \<Rightarrow> instant \<Rightarrow> claims \<Rightarrow> bool" where
  "claims_current required now cs \<longleftrightarrow>
     list_all (\<lambda>k. map_of cs k \<noteq> None) required
     \<and> (case claim_time cs ''exp'' of None \<Rightarrow> True | Some n \<Rightarrow> now < seconds n)
     \<and> (case claim_time cs ''iat'' of None \<Rightarrow> True | Some n \<Rightarrow> seconds n \<le> now)"

definition jwt_laws :: "jwt_encode \<Rightarrow> jwt_decode \<Rightarrow> bool" where
  "jwt_laws enc dec \<longleftrightarrow>
     (\<forall>key required now cs. dec key required now (enc key cs)
        = (if claims_current required now cs then Some cs else None))
     \<and> (\<forall>key required now token cs. dec key required now token = Some cs
          \<longrightarrow> claims_current required now cs)"

lemma jwt_decode_encode:
  "jwt_laws enc dec \<Longrightarrow>
     dec key required now (enc key cs) = (if claims_current required now cs then Some cs else None)"
  by (simp add: jwt_laws_def)

lemma jwt_decode_current:
  assumes "jwt_laws enc dec" "dec key required now token = Some cs"
  shows "claims_current required now cs"
  using assms unfolding jwt_laws_def by blast

text \<open>The laws can hold: tokens that number the pair of key and claims.\<close>

instance json :: countable
  by countable_datatype

definition numbered_encode :: jwt_encode where
  "numbered_encode key cs = [to_nat (key, cs)]"

definition numbered_decode :: jwt_decode where
  "numbered_decode key required now token =
     (case (from_nat (hd token) :: ustr \<times> claims) of (key', cs) \<Rightarrow>
        if token = numbered_encode key cs \<and> claims_current required now cs then Some cs else None)"

lemma numbered_laws: "jwt_laws numbered_encode numbered_decode"
  by (auto simp: jwt_laws_def numbered_decode_def numbered_encode_def split: prod.splits if_splits)

text \<open>Python's \<open>str\<close> of a claim; lists, objects and floats never spell an identifier.\<close>

fun claim_str :: "json \<Rightarrow> ustr option" where
  "claim_str (JStr s) = Some s"
| "claim_str (JInt n) = Some (str_of_int n)"
| "claim_str (JBool b) = Some (if b then lit ''True'' else lit ''False'')"
| "claim_str JNull = Some (lit ''None'')"
| "claim_str v = None"

fun truthy :: "json \<Rightarrow> bool" where
  "truthy JNull = False"
| "truthy (JBool b) = b"
| "truthy (JInt n) = (n \<noteq> 0)"
| "truthy (JFloat n k) = (n \<noteq> 0)"
| "truthy (JStr s) = (s \<noteq> [])"
| "truthy (JArr vs) = (vs \<noteq> [])"
| "truthy (JObj es) = (es \<noteq> [])"

section \<open>Passwords and opaque tokens\<close>

text \<open>\<open>argon2_verify\<close> answers, or raises a mismatch or an invalid-hash error (\<open>None\<close>).\<close>

definition verify_password :: "(ustr \<Rightarrow> ustr \<Rightarrow> bool option) \<Rightarrow> ustr \<Rightarrow> ustr \<Rightarrow> bool" where
  "verify_password argon2_verify password_hash password =
     or_default (argon2_verify password_hash password) False"

section \<open>Access tokens\<close>

record access_claims =
  ac_user_id :: uuid
  ac_tenant_id :: "uuid option"
  ac_is_platform_admin :: bool
  ac_expires_at :: instant

definition access_payload :: "instant \<Rightarrow> instant \<Rightarrow> uuid \<Rightarrow> uuid \<Rightarrow> uuid option \<Rightarrow> bool \<Rightarrow> claims" where
  "access_payload now expires_at jti user_id tenant_id is_platform_admin =
     [(''sub'', JStr (uuid_str user_id)),
      (''tenant_id'', case tenant_id of None \<Rightarrow> JNull | Some t \<Rightarrow> JStr (uuid_str t)),
      (''platform_admin'', JBool is_platform_admin),
      (''iat'', timestamp now),
      (''exp'', timestamp expires_at),
      (''type'', JStr (lit ''access'')),
      (''jti'', JStr (uuid_str jti))]"

definition create_access_token ::
  "jwt_encode \<Rightarrow> settings \<Rightarrow> instant \<Rightarrow> uuid \<Rightarrow> uuid \<Rightarrow> uuid option \<Rightarrow> bool \<Rightarrow> ustr \<times> instant" where
  "create_access_token jwt_encode c now jti user_id tenant_id is_platform_admin =
     (let expires_at = now + seconds (access_token_ttl_seconds c) in
      (jwt_encode (signing_key c)
         (access_payload now expires_at jti user_id tenant_id is_platform_admin), expires_at))"

definition claim_uuid :: "json option \<Rightarrow> exn + uuid" where
  "claim_uuid v =
     (case v of
        Some (JStr s) \<Rightarrow> parse_uuid s
      | _ \<Rightarrow> Inl (PyValueError ''badly formed hexadecimal UUID string''))"

definition decode_access_token ::
  "jwt_decode \<Rightarrow> settings \<Rightarrow> instant \<Rightarrow> ustr \<Rightarrow> exn + access_claims" where
  "decode_access_token jwt_decode c now token =
     (case jwt_decode (signing_key c) [''sub'', ''exp'', ''iat'', ''type''] now token of
        None \<Rightarrow> Inl (InvalidTokenError ''decode'')
      | Some payload \<Rightarrow>
          if map_of payload ''type'' \<noteq> Some (JStr (lit ''access''))
          then Inl (InvalidTokenError ''wrong token type'')
          else
            (let tenant = or_default (map_of payload ''tenant_id'') JNull in
             case claim_uuid (map_of payload ''sub'') of
               Inl e \<Rightarrow> Inl e
             | Inr user \<Rightarrow>
                 (case (if truthy tenant then map_sum id Some (claim_uuid (Some tenant)) else Inr None) of
                    Inl e \<Rightarrow> Inl e
                  | Inr t \<Rightarrow>
                      Inr \<lparr>ac_user_id = user, ac_tenant_id = t,
                           ac_is_platform_admin =
                             truthy (or_default (map_of payload ''platform_admin'') (JBool False)),
                           ac_expires_at = seconds (or_default (claim_time payload ''exp'') 0)\<rparr>)))"

section \<open>Signed state\<close>

text \<open>\<open>{**payload, "purpose": ...}\<close>: a later key replaces an earlier one.\<close>

definition set_claim :: "string \<Rightarrow> json \<Rightarrow> claims \<Rightarrow> claims" where
  "set_claim k v cs =
     (if map_of cs k = None then cs @ [(k, v)] else map (\<lambda>(k', v'). (k', if k' = k then v else v')) cs)"

definition sign_state ::
  "jwt_encode \<Rightarrow> settings \<Rightarrow> instant \<Rightarrow> ustr \<Rightarrow> claims \<Rightarrow> int \<Rightarrow> ustr" where
  "sign_state jwt_encode c now purpose payload ttl_seconds =
     jwt_encode (signing_key c)
       (set_claim ''exp'' (timestamp (now + seconds ttl_seconds))
         (set_claim ''iat'' (timestamp now)
           (set_claim ''purpose'' (JStr purpose) payload)))"

definition verify_state ::
  "jwt_decode \<Rightarrow> settings \<Rightarrow> instant \<Rightarrow> ustr \<Rightarrow> ustr \<Rightarrow> exn + claims" where
  "verify_state jwt_decode c now purpose token =
     (case jwt_decode (signing_key c) [''purpose'', ''iat'', ''exp''] now token of
        None \<Rightarrow> Inl (InvalidTokenError ''decode'')
      | Some body \<Rightarrow>
          if Option.bind (map_of body ''purpose'') claim_str \<noteq> Some purpose
          then Inl (InvalidTokenError ''state token purpose mismatch'')
          else Inr body)"

section \<open>Lemmas\<close>

lemma map_of_snoc_fresh: "map_of cs k = None \<Longrightarrow> map_of (cs @ [(k, v)]) k = Some v"
  by (simp add: map_add_def)

lemma map_of_replace:
  "map_of (map (\<lambda>(k', v'). (k', if k' = k then v else v')) cs) j =
     (if j = k then map_option (\<lambda>_. v) (map_of cs k) else map_of cs j)"
  by (induction cs) auto

lemma map_of_set_claim [simp]:
  "map_of (set_claim k v cs) j = (if j = k then Some v else map_of cs j)"
  by (auto simp: set_claim_def map_of_replace map_add_def split: option.splits)

lemma claim_uuid_str [simp]: "u < 2 ^ 128 \<Longrightarrow> claim_uuid (Some (JStr (uuid_str u))) = Inr u"
  by (simp add: claim_uuid_def parse_uuid_str_core)

lemma uuid_str_not_Nil [simp]: "uuid_str u \<noteq> []"
  by (simp add: uuid_str_def Let_def)

lemma floor_seconds: "seconds (t div 1000000) \<le> t"
  unfolding seconds_def by (metis mult.commute pos_mod_sign div_mult_mod_eq le_add_same_cancel1 zero_less_numeral)

lemma before_floor: "now + seconds 1 \<le> t \<Longrightarrow> now < seconds (t div 1000000)"
  unfolding seconds_def by linarith

text \<open>A state token opens with the payload it was signed with, until its lifetime is over.\<close>

lemma state_round_trip:
  assumes laws: "jwt_laws enc dec"
    and "now \<le> later" "later + seconds 1 \<le> now + seconds ttl"
  shows "\<exists>body. verify_state dec c later purpose (sign_state enc c now purpose payload ttl)
      = Inr body \<and> (\<forall>k. k \<notin> {''purpose'', ''iat'', ''exp''} \<longrightarrow> map_of body k = map_of payload k)"
proof -
  have "claims_current [''purpose'', ''iat'', ''exp''] later
      (set_claim ''exp'' (timestamp (now + seconds ttl))
         (set_claim ''iat'' (timestamp now) (set_claim ''purpose'' (JStr purpose) payload)))"
    using assms floor_seconds [of now] before_floor [of later "now + seconds ttl"]
    by (simp add: claims_current_def claim_time_def timestamp_def)
  then show ?thesis
    by (simp add: verify_state_def sign_state_def jwt_decode_encode [OF laws])
qed

text \<open>A state token never opens for another purpose.\<close>

lemma state_purpose:
  assumes laws: "jwt_laws enc dec" and "purpose' \<noteq> purpose"
  shows "verify_state dec c later purpose' (sign_state enc c now purpose payload ttl)
      \<noteq> Inr body"
  using assms by (simp add: verify_state_def sign_state_def jwt_decode_encode [OF laws])

text \<open>What opens as state names this purpose and is within its lifetime.\<close>

lemma state_current:
  assumes laws: "jwt_laws enc dec" and "verify_state dec c now purpose token = Inr body"
  shows "claims_current [''purpose'', ''iat'', ''exp''] now body"
    "Option.bind (map_of body ''purpose'') claim_str = Some purpose"
  using assms jwt_decode_current [OF laws] by (auto simp: verify_state_def split: option.splits if_splits)

lemma access_round_trip:
  assumes laws: "jwt_laws enc dec"
    and "now \<le> later" "later + seconds 1 \<le> now + seconds (access_token_ttl_seconds c)"
    and "user_id < 2 ^ 128" "\<And>t. tenant_id = Some t \<Longrightarrow> t < 2 ^ 128"
  shows "decode_access_token dec c later
      (fst (create_access_token enc c now jti user_id tenant_id admin)) =
      Inr \<lparr>ac_user_id = user_id, ac_tenant_id = tenant_id, ac_is_platform_admin = admin,
           ac_expires_at = seconds ((now + seconds (access_token_ttl_seconds c)) div 1000000)\<rparr>"
proof -
  have "claims_current [''sub'', ''exp'', ''iat'', ''type''] later
     (access_payload now (now + seconds (access_token_ttl_seconds c)) jti user_id tenant_id admin)"
    using assms(2,3) floor_seconds [of now] before_floor [of later "now + seconds (access_token_ttl_seconds c)"]
    by (simp add: claims_current_def claim_time_def timestamp_def access_payload_def)
  then show ?thesis
    using assms(4,5)
    by (cases tenant_id) (simp_all add: decode_access_token_def create_access_token_def Let_def
        jwt_decode_encode [OF laws] access_payload_def claim_time_def timestamp_def)
qed

text \<open>A state token is not an access token and cannot be used as one.\<close>

lemma state_not_access:
  assumes laws: "jwt_laws enc dec" and "map_of payload ''type'' = None"
  shows "decode_access_token dec c later (sign_state enc c now purpose payload ttl) \<noteq> Inr ac"
  using assms by (auto simp: decode_access_token_def sign_state_def jwt_decode_encode [OF laws] claims_current_def)

lemma access_not_state:
  assumes laws: "jwt_laws enc dec"
  shows "verify_state dec c later purpose
     (fst (create_access_token enc c now jti user_id tenant_id admin)) \<noteq> Inr body"
  by (auto simp: verify_state_def create_access_token_def Let_def jwt_decode_encode [OF laws] claims_current_def access_payload_def)

end
