(* ===== verification/Payments.thy ===== *)
theory Payments
  imports RegistrationRouter Tokens
begin

text \<open>
  Online payments: the gateway interface and its mock (\<open>app/payments/provider.py\<close>),
  \<open>PaymentService\<close> (\<open>app/payments/service.py\<close>) and the endpoints of \<open>app/payments/router.py\<close>. The
  gateway keeps its own state \<open>g\<close>, which no database rollback touches. The unique constraints of
  \<open>app/payments/models.py\<close> are checked at every flush.
\<close>

section \<open>Gateways\<close>

record initiation_result =
  authority :: ustr
  redirect_url :: ustr

record verification_result =
  successful :: bool
  result_transaction_id :: "ustr option"
  failure_code :: "ustr option"
  failure_message :: "ustr option"

type_synonym 'g gateway_initiate = "int \<Rightarrow> ustr \<Rightarrow> ustr \<Rightarrow> ustr \<Rightarrow> 'g \<Rightarrow> (initiation_result, 'g) outcome"
type_synonym 'g gateway_verify =
  "ustr \<Rightarrow> int \<Rightarrow> ustr \<Rightarrow> (ustr \<rightharpoonup> ustr) \<Rightarrow> 'g \<Rightarrow> (verification_result, 'g) outcome"

text \<open>
  What \<open>PaymentService\<close> relies on: the authorities a gateway has handed out stay known, and a
  verification of one it never handed out does not succeed.
\<close>

locale payment_gateway =
  fixes initiate :: "'g gateway_initiate" and verify :: "'g gateway_verify"
    and issued :: "'g \<Rightarrow> ustr \<Rightarrow> bool"
  assumes issues:
    "initiate amount currency url descr g = (Inr res, g') \<Longrightarrow> issued g' (authority res)"
  and initiate_keeps:
    "initiate amount currency url descr g = (out, g') \<Longrightarrow> issued g a \<Longrightarrow> issued g' a"
  and verify_keeps: "verify a amount currency data g = (out', g') \<Longrightarrow> issued g' b \<longleftrightarrow> issued g b"
  and only_issued: "verify a amount currency data g = (Inr res', g') \<Longrightarrow> successful res' \<Longrightarrow> issued g a"
begin

lemma unknown_fails:
  "\<not> issued g a \<Longrightarrow> verify a amount currency data g = (Inr res, g') \<Longrightarrow> \<not> successful res"
  using only_issued by blast

lemma verified_after_verify:
  assumes "verify a amount currency data g = (Inr res, g')" "successful res"
  shows "issued g' a"
  using only_issued [OF assms] verify_keeps [OF assms(1)] by simp

end

definition mock_name :: ustr where
  "mock_name = lit ''mock''"

text \<open>\<open>MockPaymentGateway\<close>: the list of authorities; \<open>nonce\<close> is the random token it draws.\<close>

definition mock_initiate :: "ustr \<Rightarrow> ustr list gateway_initiate" where
  "mock_initiate nonce amount currency callback_url description authorities =
     (Inr \<lparr>authority = nonce,
           redirect_url = callback_url @ lit ''&authority='' @ nonce @ lit ''&result=success''\<rparr>,
      if nonce \<in> set authorities then authorities else nonce # authorities)"

definition mock_failure :: "string \<Rightarrow> verification_result" where
  "mock_failure code =
     \<lparr>successful = False, result_transaction_id = None, failure_code = Some (lit code),
      failure_message = None\<rparr>"

definition mock_verify :: "ustr list gateway_verify" where
  "mock_verify auth amount currency callback_data authorities =
     (if auth \<notin> set authorities then (Inr (mock_failure ''UNKNOWN_AUTHORITY''), authorities)
      else if callback_data (lit ''authority'') \<noteq> Some auth
      then (Inr (mock_failure ''AUTHORITY_MISMATCH''), authorities)
      else if callback_data (lit ''result'') \<noteq> Some (lit ''success'')
      then (Inr (mock_failure ''MOCK_PAYMENT_FAILED''), authorities)
      else (Inr \<lparr>successful = True, result_transaction_id = Some (lit ''mock-'' @ auth),
                 failure_code = None, failure_message = None\<rparr>, authorities))"

interpretation mock_gateway: payment_gateway "mock_initiate nonce" mock_verify "\<lambda>g a. a \<in> set g"
  by unfold_locales
    (auto simp: mock_initiate_def mock_verify_def mock_failure_def split: if_splits)

section \<open>PaymentService\<close>

record payment_initiate_response =
  pr_transaction_id :: uuid
  pr_status :: payment_state
  pr_redirect_url :: ustr
  pr_amount :: int
  pr_currency :: ustr

definition callback_base :: "settings \<Rightarrow> ustr \<Rightarrow> ustr \<Rightarrow> ustr" where
  "callback_base c provider state =
     rstrip_where (\<lambda>x. x = 47) (public_base_url c) @ lit ''/api/v1/public/payments/callback/''
     @ provider @ lit ''?state='' @ state"

definition redirect :: "settings \<Rightarrow> payment_transaction \<Rightarrow> ustr" where
  "redirect c p =
     (let callback_url = callback_base c (pay_provider p) (callback_state p) in
      case provider_authority p of
        Some auth \<Rightarrow>
          if pay_provider p = mock_name \<and> auth \<noteq> []
          then callback_url @ lit ''&authority='' @ auth @ lit ''&result=success'' else callback_url
      | None \<Rightarrow> callback_url)"

definition payment_claims :: "registration \<Rightarrow> uuid \<Rightarrow> ustr \<Rightarrow> ustr \<Rightarrow> claims" where
  "payment_claims r transaction_id nonce provider =
     [(''tenant_id'', JStr (uuid_str (reg_tenant_id r))),
      (''transaction_id'', JStr (uuid_str transaction_id)),
      (''nonce'', JStr nonce),
      (''provider'', JStr provider)]"

definition payment_callback_purpose :: ustr where
  "payment_callback_purpose = lit ''payment_callback''"

definition active_transaction :: "session \<Rightarrow> uuid \<Rightarrow> reg_db \<Rightarrow> payment_transaction option" where
  "active_transaction cur registration_id s =
     scalar (select_where pay_tenant_id cur
       (\<lambda>x. pay_registration_id x = registration_id \<and> payment_active x) (payments s))"

definition by_idempotency_key :: "session \<Rightarrow> ustr \<Rightarrow> reg_db \<Rightarrow> payment_transaction option" where
  "by_idempotency_key cur key s =
     scalar (select_where pay_tenant_id cur (\<lambda>x. idempotency_key x = key) (payments s))"

text \<open>The flush of a new transaction together with the registration's new status.\<close>

definition flush_payment :: "session \<Rightarrow> payment_transaction \<Rightarrow> registration \<Rightarrow> reg_db \<Rightarrow> (unit, reg_db) outcome" where
  "flush_payment cur p r s =
     (if key_taken pay_id p (payments s) \<or> \<not> payment_unique_ok p s then (Inl IntegrityError, s)
      else (Inr (), save_reg cur r (s\<lparr>payments := insert_row p (payments s)\<rparr>)))"

definition payable :: "registration \<Rightarrow> exn + (int \<times> ustr)" where
  "payable r =
     (if reg_status r \<notin> {Reg_SUBMITTED, Reg_PAYMENT_PENDING}
      then Inl (app_error ''REGISTRATION_NOT_PAYABLE'' 400)
      else case payable_amount r of
             None \<Rightarrow> Inl (app_error ''PAYMENT_NOT_REQUIRED'' 400)
           | Some amount \<Rightarrow>
               if amount \<le> 0 then Inl (app_error ''PAYMENT_NOT_REQUIRED'' 400)
               else (case payable_currency r of
                       None \<Rightarrow> Inl (app_error ''PAYMENT_CURRENCY_MISSING'' 400)
                     | Some currency \<Rightarrow> Inr (amount, currency)))"

definition pending_transaction ::
  "(ustr \<Rightarrow> ustr) \<Rightarrow> instant \<Rightarrow> uuid \<Rightarrow> ustr \<Rightarrow> ustr \<Rightarrow> ustr \<Rightarrow> ustr \<Rightarrow> registration \<Rightarrow> int \<Rightarrow> ustr \<Rightarrow> ustr
     \<Rightarrow> payment_transaction" where
  "pending_transaction digest now transaction_id nonce provider auth state r amount currency key =
     \<lparr>pay_id = transaction_id, pay_tenant_id = reg_tenant_id r, pay_registration_id = reg_id r,
      pay_provider = provider, pay_amount = amount, pay_currency = currency,
      pay_status = Pay_PENDING, provider_authority = Some auth, provider_transaction_id = None,
      idempotency_key = key, callback_nonce_hash = digest nonce, callback_state = state,
      callback_consumed_at = None, pay_failure_code = None, pay_failure_message = None,
      pay_verified_at = None, pay_created_at = now\<rparr>"

text \<open>The part of \<open>initiate\<close> after its guards: the gateway call and the new transaction.\<close>

definition start_payment ::
  "'g gateway_initiate \<Rightarrow> ustr \<Rightarrow> jwt_encode \<Rightarrow> (ustr \<Rightarrow> ustr) \<Rightarrow> settings \<Rightarrow> session \<Rightarrow> instant \<Rightarrow> uuid
     \<Rightarrow> ustr \<Rightarrow> registration \<Rightarrow> ustr \<Rightarrow> int \<Rightarrow> ustr \<Rightarrow> reg_db \<times> 'g
     \<Rightarrow> (payment_initiate_response, reg_db \<times> 'g) outcome" where
  "start_payment gw_initiate gw_name jwt_encode digest c cur now transaction_id nonce r key amount
       currency = (\<lambda>(s, g).
     let state = sign_state jwt_encode c now payment_callback_purpose
           (payment_claims r transaction_id nonce gw_name) (callback_token_ttl_seconds c)
     in case gw_initiate amount currency (callback_base c gw_name state)
               (lit ''Exam registration '' @ uuid_str (reg_id r)) g of
          (Inl e, g') \<Rightarrow> (Inl e, (s, g'))
        | (Inr result, g') \<Rightarrow>
            (case flush_payment cur
                    (pending_transaction digest now transaction_id nonce gw_name (authority result) state
                       r amount currency key)
                    (r\<lparr>reg_status := Reg_PAYMENT_PENDING\<rparr>) s of
               (Inl e, s') \<Rightarrow> (Inl e, (s', g'))
             | (Inr _, s') \<Rightarrow>
                 (Inr \<lparr>pr_transaction_id = transaction_id, pr_status = Pay_PENDING,
                       pr_redirect_url = redirect_url result, pr_amount = amount,
                       pr_currency = currency\<rparr>, (s', g'))))"

definition initiate ::
  "'g gateway_initiate \<Rightarrow> ustr \<Rightarrow> jwt_encode \<Rightarrow> (ustr \<Rightarrow> ustr) \<Rightarrow> settings \<Rightarrow> session \<Rightarrow> instant \<Rightarrow> uuid
     \<Rightarrow> ustr \<Rightarrow> registration \<Rightarrow> ustr \<Rightarrow> reg_db \<times> 'g
     \<Rightarrow> (payment_initiate_response, reg_db \<times> 'g) outcome" where
  "initiate gw_initiate gw_name jwt_encode digest c cur now transaction_id nonce r key = (\<lambda>(s, g).
     case by_idempotency_key cur key s of
       Some existing \<Rightarrow>
         if pay_registration_id existing \<noteq> reg_id r
         then (Inl (app_error ''IDEMPOTENCY_KEY_CONFLICT'' 409), (s, g))
         else (Inr \<lparr>pr_transaction_id = pay_id existing, pr_status = pay_status existing,
                    pr_redirect_url = redirect c existing, pr_amount = pay_amount existing,
                    pr_currency = pay_currency existing\<rparr>, (s, g))
     | None \<Rightarrow>
         if active_transaction cur (reg_id r) s \<noteq> None
         then (Inl (app_error ''PAYMENT_ALREADY_PENDING'' 409), (s, g))
         else (case payable r of
                 Inl e \<Rightarrow> (Inl e, (s, g))
               | Inr (amount, currency) \<Rightarrow>
                   start_payment gw_initiate gw_name jwt_encode digest c cur now transaction_id nonce r
                     key amount currency (s, g)))"

text \<open>What the callback writes into the transaction and the registration.\<close>

definition settle_transaction ::
  "instant \<Rightarrow> verification_result \<Rightarrow> payment_transaction \<Rightarrow> payment_transaction" where
  "settle_transaction now result p =
     (let p = p\<lparr>callback_consumed_at := Some now\<rparr> in
      if successful result
      then p\<lparr>pay_status := Pay_SUCCESSFUL, provider_transaction_id := result_transaction_id result,
             pay_verified_at := Some now\<rparr>
      else p\<lparr>pay_status := Pay_FAILED, pay_failure_code := failure_code result,
             pay_failure_message := failure_message result\<rparr>)"

definition settle_registration :: "verification_result \<Rightarrow> registration \<Rightarrow> registration" where
  "settle_registration result r =
     (if successful result
      then r\<lparr>payment_status := RegPay_SUCCESSFUL, reg_status := Reg_COMPLETED\<rparr>
      else r\<lparr>payment_status := RegPay_FAILED, reg_status := Reg_SUBMITTED\<rparr>)"

definition verify_callback ::
  "'g gateway_verify \<Rightarrow> ustr \<Rightarrow> (ustr \<Rightarrow> ustr) \<Rightarrow> session \<Rightarrow> instant \<Rightarrow> uuid \<Rightarrow> ustr \<Rightarrow> (ustr \<rightharpoonup> ustr)
     \<Rightarrow> reg_db \<times> 'g \<Rightarrow> (payment_transaction, reg_db \<times> 'g) outcome" where
  "verify_callback gw_verify gw_name digest cur now transaction_id nonce callback_data = (\<lambda>(s, g).
     case get_payment cur transaction_id s of
       None \<Rightarrow> (Inl (app_error ''PAYMENT_TRANSACTION_NOT_FOUND'' 404), (s, g))
     | Some p \<Rightarrow>
         if pay_provider p \<noteq> gw_name
         then (Inl (app_error ''PAYMENT_TRANSACTION_NOT_FOUND'' 404), (s, g))
         else if digest nonce \<noteq> callback_nonce_hash p
         then (Inl (app_error ''PAYMENT_CALLBACK_INVALID'' 401), (s, g))
         else if pay_status p = Pay_SUCCESSFUL \<or> callback_consumed_at p \<noteq> None then (Inr p, (s, g))
         else
           (case provider_authority p of
              None \<Rightarrow> (Inl (app_error ''PAYMENT_CALLBACK_INVALID'' 401), (s, g))
            | Some auth \<Rightarrow>
                (case gw_verify auth (pay_amount p) (pay_currency p) callback_data g of
                   (Inl e, g') \<Rightarrow> (Inl e, (s, g'))
                 | (Inr result, g') \<Rightarrow>
                     (case get_reg cur (pay_registration_id p) s of
                        None \<Rightarrow> (Inl (app_error ''REGISTRATION_NOT_FOUND'' 404), (s, g'))
                      | Some r \<Rightarrow>
                          (let p' = settle_transaction now result p in
                           if \<not> payment_unique_ok p' s then (Inl IntegrityError, (s, g'))
                           else (Inr p', (save_reg cur (settle_registration result r) (save_payment cur p' s), g')))))))"

section \<open>Endpoints\<close>

text \<open>A rollback keeps the gateway's state.\<close>

definition initiate_payment where
  "initiate_payment gw_initiate gw_name jwt_encode digest c cur now registration_id token transaction_id
       nonce key = (\<lambda>(s, g).
     case authorized_draft digest cur now registration_id token s of
       Inl e \<Rightarrow> (Inl e, (s, g))
     | Inr r \<Rightarrow>
         (case initiate gw_initiate gw_name jwt_encode digest c cur now transaction_id nonce r key (s, g) of
            (Inl e, (s', g')) \<Rightarrow> (Inl e, (s, g'))
          | (Inr resp, (s', g')) \<Rightarrow> (Inr resp, (s', g'))))"

definition get_payment_status where
  "get_payment_status digest cur now registration_id token s =
     (case authorized_draft digest cur now registration_id token s of
        Inl e \<Rightarrow> Inl e
      | Inr r \<Rightarrow>
          Inr (reg_id r, payment_status r,
               map_option pay_status (latest pay_created_at
                 (select_where pay_tenant_id cur (\<lambda>x. pay_registration_id x = reg_id r) (payments s)))))"

definition callback_invalid :: exn where
  "callback_invalid = app_error ''PAYMENT_CALLBACK_INVALID'' 401"

text \<open>The claims of a callback's state: tenant, transaction and nonce.\<close>

definition callback_claims ::
  "jwt_decode \<Rightarrow> settings \<Rightarrow> instant \<Rightarrow> ustr \<Rightarrow> ustr \<Rightarrow> exn + (uuid \<times> uuid \<times> ustr)" where
  "callback_claims jwt_decode c now provider_name state =
     (case verify_state jwt_decode c now payment_callback_purpose state of
        Inl e \<Rightarrow> Inl callback_invalid
      | Inr body \<Rightarrow>
          (case (Option.bind (map_of body ''tenant_id'') claim_str,
                 Option.bind (map_of body ''transaction_id'') claim_str,
                 Option.bind (map_of body ''nonce'') claim_str) of
             (Some tenant_text, Some transaction_text, Some nonce) \<Rightarrow>
               (case (parse_uuid tenant_text, parse_uuid transaction_text) of
                  (Inr tenant_id, Inr transaction_id) \<Rightarrow>
                    if map_of body ''provider'' \<noteq> Some (JStr provider_name) then Inl callback_invalid
                    else Inr (tenant_id, transaction_id, nonce)
                | _ \<Rightarrow> Inl callback_invalid)
           | _ \<Rightarrow> Inl callback_invalid))"

definition payment_callback where
  "payment_callback gw_verify gw_name jwt_decode digest c now provider_name state query_params = (\<lambda>(s, g).
     if provider_name \<noteq> gw_name then (Inl (app_error ''PAYMENT_PROVIDER_NOT_FOUND'' 404), (s, g))
     else
       (case callback_claims jwt_decode c now provider_name state of
          Inl e \<Rightarrow> (Inl e, (s, g))
        | Inr (tenant_id, transaction_id, nonce) \<Rightarrow>
            (case verify_callback gw_verify gw_name digest (tenant_session tenant_id) now transaction_id
                    nonce (query_params(lit ''state'' := None)) (s, g) of
               (Inl e, (s', g')) \<Rightarrow> (Inl e, (s, g'))
             | (Inr p, (s', g')) \<Rightarrow>
                 (Inr (pay_id p, if pay_status p = Pay_SUCCESSFUL then Pay_SUCCESSFUL else Pay_FAILED),
                  (s', g')))))"

section \<open>Lemmas\<close>

lemma flush_payment_Inr [simp]:
  "flush_payment cur p r s = (Inr u, s') \<longleftrightarrow>
     \<not> key_taken pay_id p (payments s) \<and> payment_unique_ok p s
     \<and> s' = save_reg cur r (s\<lparr>payments := insert_row p (payments s)\<rparr>)"
  by (auto simp: flush_payment_def)

text \<open>A successful initiation either found the key or recorded one new transaction.\<close>

lemma initiate_Inr:
  assumes "initiate gi gn enc digest c cur now tid nonce r key (s, g) = (Inr resp, (s', g'))"
  obtains (found) p where "by_idempotency_key cur key s = Some p" "pay_registration_id p = reg_id r"
      "s' = s" "g' = g" "pr_transaction_id resp = pay_id p" "pr_status resp = pay_status p"
      "pr_amount resp = pay_amount p" "pr_currency resp = pay_currency p"
      "pr_redirect_url resp = redirect c p"
  | (fresh) p result where "by_idempotency_key cur key s = None" "active_transaction cur (reg_id r) s = None"
      "reg_status r \<in> {Reg_SUBMITTED, Reg_PAYMENT_PENDING}"
      "payable_amount r = Some (pay_amount p)" "0 < pay_amount p" "payable_currency r = Some (pay_currency p)"
      "pay_id p = tid" "pay_tenant_id p = reg_tenant_id r" "pay_registration_id p = reg_id r"
      "pay_provider p = gn" "pay_status p = Pay_PENDING" "idempotency_key p = key"
      "callback_nonce_hash p = digest nonce" "callback_consumed_at p = None"
      "provider_transaction_id p = None" "provider_authority p = Some (authority result)"
      "callback_state p = sign_state enc c now payment_callback_purpose (payment_claims r tid nonce gn)
          (callback_token_ttl_seconds c)"
      "gi (pay_amount p) (pay_currency p) (callback_base c gn (callback_state p))
          (lit ''Exam registration '' @ uuid_str (reg_id r)) g = (Inr result, g')"
      "pr_redirect_url resp = redirect_url result"
      "pr_transaction_id resp = tid" "pr_status resp = Pay_PENDING"
      "pr_amount resp = pay_amount p" "pr_currency resp = pay_currency p"
      "\<not> key_taken pay_id p (payments s)" "payment_unique_ok p s"
      "s' = save_reg cur (r\<lparr>reg_status := Reg_PAYMENT_PENDING\<rparr>) (s\<lparr>payments := payments s @ [p]\<rparr>)"
proof (cases "by_idempotency_key cur key s")
  case (Some p)
  with assms show thesis
    by (intro found [of p]) (auto simp: initiate_def split: if_splits)
next
  case None
  with assms obtain amount currency where money: "payable r = Inr (amount, currency)"
    "active_transaction cur (reg_id r) s = None"
    and start: "start_payment gi gn enc digest c cur now tid nonce r key amount currency (s, g)
        = (Inr resp, (s', g'))"
    by (auto simp: initiate_def split: if_splits sum.splits)
  have pay: "payable_amount r = Some amount" "payable_currency r = Some currency" "0 < amount"
    "reg_status r \<in> {Reg_SUBMITTED, Reg_PAYMENT_PENDING}"
    using money(1) by (auto simp: payable_def split: if_splits option.splits)
  define state where "state = sign_state enc c now payment_callback_purpose (payment_claims r tid nonce gn)
      (callback_token_ttl_seconds c)"
  from start obtain result where gw: "gi amount currency (callback_base c gn state)
      (lit ''Exam registration '' @ uuid_str (reg_id r)) g = (Inr result, g')"
    by (auto simp: start_payment_def Let_def state_def split: sum.splits prod.splits)
  define p where "p = pending_transaction digest now tid nonce gn (authority result) state r amount currency key"
  have fl: "flush_payment cur p (r\<lparr>reg_status := Reg_PAYMENT_PENDING\<rparr>) s = (Inr (), s')"
    "resp = \<lparr>pr_transaction_id = tid, pr_status = Pay_PENDING, pr_redirect_url = redirect_url result,
       pr_amount = amount, pr_currency = currency\<rparr>"
    using start gw
    by (auto simp: start_payment_def Let_def state_def [symmetric] p_def split: sum.splits prod.splits)
  have fields: "pay_id p = tid" "pay_tenant_id p = reg_tenant_id r" "pay_registration_id p = reg_id r"
    "pay_provider p = gn" "pay_amount p = amount" "pay_currency p = currency"
    "pay_status p = Pay_PENDING" "idempotency_key p = key" "callback_nonce_hash p = digest nonce"
    "callback_consumed_at p = None" "provider_transaction_id p = None"
    "provider_authority p = Some (authority result)" "callback_state p = state"
    by (simp_all add: p_def pending_transaction_def)
  show thesis
    by (rule fresh [of p result])
      (use None money pay gw fl fields in \<open>simp_all add: state_def insert_row_def\<close>)
qed

lemma initiate_payment_Inr:
  "initiate_payment gi gn enc digest c cur now i token tid nonce key (s, g) = (Inr resp, (s', g')) \<longleftrightarrow>
     (\<exists>r. authorized_draft digest cur now i token s = Inr r
        \<and> initiate gi gn enc digest c cur now tid nonce r key (s, g) = (Inr resp, (s', g')))"
  by (auto simp: initiate_payment_def split: sum.splits prod.splits)

text \<open>A callback that returned either found the transaction settled or settled it.\<close>

definition settled :: "payment_transaction \<Rightarrow> bool" where
  "settled p \<longleftrightarrow> pay_status p = Pay_SUCCESSFUL \<or> callback_consumed_at p \<noteq> None"

lemma settle_transaction_keeps [simp]:
  "pay_id (settle_transaction now result p) = pay_id p"
  "pay_tenant_id (settle_transaction now result p) = pay_tenant_id p"
  "pay_registration_id (settle_transaction now result p) = pay_registration_id p"
  "pay_provider (settle_transaction now result p) = pay_provider p"
  "pay_amount (settle_transaction now result p) = pay_amount p"
  "callback_nonce_hash (settle_transaction now result p) = callback_nonce_hash p"
  "idempotency_key (settle_transaction now result p) = idempotency_key p"
  "pay_status (settle_transaction now result p) = (if successful result then Pay_SUCCESSFUL else Pay_FAILED)"
  "settled (settle_transaction now result p)"
  "\<not> payment_active (settle_transaction now result p)"
  by (auto simp: settle_transaction_def Let_def settled_def payment_active_def)

lemma settle_registration_keeps [simp]:
  "reg_id (settle_registration result r) = reg_id r"
  "reg_tenant_id (settle_registration result r) = reg_tenant_id r"
  "reg_exam_offering_id (settle_registration result r) = reg_exam_offering_id r"
  "national_code (settle_registration result r) = national_code r"
  "payable_amount (settle_registration result r) = payable_amount r"
  "submitted_at (settle_registration result r) = submitted_at r"
  "reg_status (settle_registration result r) = (if successful result then Reg_COMPLETED else Reg_SUBMITTED)"
  by (auto simp: settle_registration_def)

lemma verify_callback_Inr:
  assumes "verify_callback gv gn digest cur now tid nonce data (s, g) = (Inr p', (s', g'))"
  obtains (again) "get_payment cur tid s = Some p'" "pay_provider p' = gn"
      "digest nonce = callback_nonce_hash p'" "settled p'" "s' = s" "g' = g"
  | (now) p auth result r where "get_payment cur tid s = Some p" "pay_provider p = gn"
      "digest nonce = callback_nonce_hash p" "\<not> settled p" "provider_authority p = Some auth"
      "gv auth (pay_amount p) (pay_currency p) data g = (Inr result, g')"
      "get_reg cur (pay_registration_id p) s = Some r" "p' = settle_transaction now result p"
      "payment_unique_ok p' s" "s' = save_reg cur (settle_registration result r) (save_payment cur p' s)"
proof -
  from assms obtain p where p: "get_payment cur tid s = Some p" "pay_provider p = gn"
    "digest nonce = callback_nonce_hash p"
    by (auto simp: verify_callback_def split: option.splits if_splits)
  show thesis
  proof (cases "settled p")
    case True
    with assms p show thesis by (intro again) (auto simp: verify_callback_def settled_def)
  next
    case False
    with assms p obtain auth where auth: "provider_authority p = Some auth"
      by (auto simp: verify_callback_def settled_def split: option.splits)
    with assms p False obtain result where "gv auth (pay_amount p) (pay_currency p) data g = (Inr result, g')"
      by (auto simp: verify_callback_def settled_def Let_def split: prod.splits sum.splits option.splits if_splits)
    moreover from this assms p False auth obtain r where "get_reg cur (pay_registration_id p) s = Some r"
      by (auto simp: verify_callback_def settled_def Let_def split: prod.splits sum.splits option.splits if_splits)
    ultimately show thesis
      using assms p False auth
      by (intro now [of p auth result r])
        (auto simp: verify_callback_def settled_def Let_def split: if_splits)
  qed
qed

lemma payment_callback_Inr:
  "payment_callback gv gn dec digest c now prov state q (s, g) = (Inr (tid, st), (s', g')) \<longleftrightarrow>
     (\<exists>t nonce p. prov = gn \<and> callback_claims dec c now prov state = Inr (t, tid, nonce)
        \<and> verify_callback gv gn digest (tenant_session t) now tid nonce (q(lit ''state'' := None)) (s, g)
            = (Inr p, (s', g'))
        \<and> st = (if pay_status p = Pay_SUCCESSFUL then Pay_SUCCESSFUL else Pay_FAILED))"
  (is "?L \<longleftrightarrow> ?R")
proof
  assume ?L
  then obtain t tid' nonce where claims: "prov = gn" "callback_claims dec c now prov state = Inr (t, tid', nonce)"
    by (auto simp: payment_callback_def split: if_splits sum.splits)
  with \<open>?L\<close> obtain p where v: "verify_callback gv gn digest (tenant_session t) now tid' nonce
      (q(lit ''state'' := None)) (s, g) = (Inr p, (s', g'))" "tid = pay_id p"
      "st = (if pay_status p = Pay_SUCCESSFUL then Pay_SUCCESSFUL else Pay_FAILED)"
    by (auto simp: payment_callback_def split: sum.splits prod.splits)
  have "pay_id p = tid'"
    using v(1) by (cases rule: verify_callback_Inr) (auto dest: get_rowD(3))
  with v claims show ?R by auto
next
  assume ?R
  then obtain t nonce p where h: "prov = gn" "callback_claims dec c now prov state = Inr (t, tid, nonce)"
    "verify_callback gv gn digest (tenant_session t) now tid nonce (q(lit ''state'' := None)) (s, g)
        = (Inr p, (s', g'))" "st = (if pay_status p = Pay_SUCCESSFUL then Pay_SUCCESSFUL else Pay_FAILED)"
    by blast
  have "pay_id p = tid"
    using h(3) by (cases rule: verify_callback_Inr) (auto dest: get_rowD(3))
  with h show ?L by (simp add: payment_callback_def)
qed

lemma payment_callback_error:
  "payment_callback gv gn dec digest c now prov state q (s, g) = (Inl e, (s', g')) \<Longrightarrow> s' = s"
  by (auto simp: payment_callback_def split: if_splits sum.splits prod.splits)

section \<open>Properties\<close>

text \<open>
  payment initiation is idempotent in its key: repeating it, at any later instant the draft
  is open, with any gateway, nonce and identifier, answers with the same transaction, amount,
  currency and status, calls no gateway and changes nothing.
\<close>

theorem initiate_payment_idempotent:
  assumes "initiate_payment gi gn enc digest c cur now i token tid nonce key (s, g) = (Inr resp, (s', g'))"
    and "authorized_draft digest cur now' i token' s' = Inr r'"
  shows "\<exists>resp'. initiate_payment gi' gn' enc' digest c cur now' i token' tid' nonce' key (s', g'')
      = (Inr resp', (s', g''))
    \<and> pr_transaction_id resp' = pr_transaction_id resp \<and> pr_status resp' = pr_status resp
    \<and> pr_amount resp' = pr_amount resp \<and> pr_currency resp' = pr_currency resp"
proof -
  from assms(1) obtain r where r: "authorized_draft digest cur now i token s = Inr r"
    and init: "initiate gi gn enc digest c cur now tid nonce r key (s, g) = (Inr resp, (s', g'))"
    by (auto simp: initiate_payment_Inr)
  note d = authorized_draftD [OF r] and d' = authorized_draftD [OF assms(2)]
  have "\<exists>p. by_idempotency_key cur key s' = Some p \<and> pay_registration_id p = i
      \<and> pr_transaction_id resp = pay_id p \<and> pr_status resp = pay_status p
      \<and> pr_amount resp = pay_amount p \<and> pr_currency resp = pay_currency p"
    using init
  proof (cases rule: initiate_Inr)
    case (found p)
    with d(3) show ?thesis by auto
  next
    case (fresh p result)
    have "select_where pay_tenant_id cur (\<lambda>x. idempotency_key x = key) (payments s) = []"
      using fresh(1) by (simp add: by_idempotency_key_def)
    then have "by_idempotency_key cur key s' = Some p"
      using fresh(8,12,26) d(4)
      by (simp add: by_idempotency_key_def select_where_def visible_def)
    with fresh d(3) show ?thesis by auto
  qed
  then obtain p where "by_idempotency_key cur key s' = Some p" "pay_registration_id p = i"
    "pr_transaction_id resp = pay_id p" "pr_status resp = pay_status p"
    "pr_amount resp = pay_amount p" "pr_currency resp = pay_currency p"
    by blast
  with assms(2) d'(3) show ?thesis
    by (simp add: initiate_payment_def initiate_def)
qed

text \<open>What the one settled transaction and its registration become, and that nothing else changes.\<close>

lemma save_row_at:
  "save_row tid rid (tenant_session t) r rows = map (\<lambda>x. if tid x = t \<and> rid x = rid r then r else x) rows"
  by (simp add: save_row_def update_where_def)

lemma settle_fields:
  "settle_transaction now result p =
     (if successful result
      then p\<lparr>pay_status := Pay_SUCCESSFUL, callback_consumed_at := Some now,
             provider_transaction_id := result_transaction_id result, pay_verified_at := Some now\<rparr>
      else p\<lparr>pay_status := Pay_FAILED, callback_consumed_at := Some now,
             pay_failure_code := failure_code result, pay_failure_message := failure_message result\<rparr>)"
  by (simp add: settle_transaction_def Let_def)

text \<open>
  C5: a callback changes the database only when its state is a token the decoder accepts under the
  signing key, made for payment callbacks and this provider and within its lifetime, that names a
  transaction of that tenant and carries its nonce, and only for a transaction not settled before.
  The gateway is asked once, about the stored authority, amount and currency; what it reports
  decides: that one transaction becomes SUCCESSFUL or FAILED with what the gateway says of it, its
  registration COMPLETED or SUBMITTED, and every other row of every table stays.
\<close>

theorem payment_callback_authentic:
  assumes "jwt_laws enc dec"
  shows "case payment_callback gv gn dec digest c now prov state q (s, g) of
     (Inl e, (s', g')) \<Rightarrow> s' = s
   | (Inr (tid, st), (s', g')) \<Rightarrow>
       (\<exists>body t nonce p.
          dec (signing_key c) [''purpose'', ''iat'', ''exp''] now state = Some body
          \<and> claims_current [''purpose'', ''iat'', ''exp''] now body
          \<and> Option.bind (map_of body ''purpose'') claim_str = Some payment_callback_purpose
          \<and> map_of body ''provider'' = Some (JStr gn) \<and> prov = gn
          \<and> callback_claims dec c now prov state = Inr (t, tid, nonce)
          \<and> get_payment (tenant_session t) tid s = Some p \<and> pay_provider p = gn
          \<and> digest nonce = callback_nonce_hash p
          \<and> (if settled p
             then s' = s \<and> g' = g \<and> st = (if pay_status p = Pay_SUCCESSFUL then Pay_SUCCESSFUL else Pay_FAILED)
             else (\<exists>auth result r p' r'. provider_authority p = Some auth
               \<and> gv auth (pay_amount p) (pay_currency p) (q(lit ''state'' := None)) g = (Inr result, g')
               \<and> get_reg (tenant_session t) (pay_registration_id p) s = Some r
               \<and> st = (if successful result then Pay_SUCCESSFUL else Pay_FAILED)
               \<and> p' = (if successful result
                  then p\<lparr>pay_status := Pay_SUCCESSFUL, callback_consumed_at := Some now,
                         provider_transaction_id := result_transaction_id result, pay_verified_at := Some now\<rparr>
                  else p\<lparr>pay_status := Pay_FAILED, callback_consumed_at := Some now,
                         pay_failure_code := failure_code result, pay_failure_message := failure_message result\<rparr>)
               \<and> r' = (if successful result
                  then r\<lparr>payment_status := RegPay_SUCCESSFUL, reg_status := Reg_COMPLETED\<rparr>
                  else r\<lparr>payment_status := RegPay_FAILED, reg_status := Reg_SUBMITTED\<rparr>)
               \<and> s' = s\<lparr>payments := map (\<lambda>x. if pay_tenant_id x = t \<and> pay_id x = tid then p' else x) (payments s),
                        registrations := map (\<lambda>x. if reg_tenant_id x = t \<and> reg_id x = pay_registration_id p
                          then r' else x) (registrations s)\<rparr>)))"
proof -
  obtain res s' g' where run: "payment_callback gv gn dec digest c now prov state q (s, g) = (res, (s', g'))"
    using prod.exhaust by metis
  show ?thesis
  proof (cases res)
    case (Inl e)
    with run payment_callback_error show ?thesis by fastforce
  next
    case (Inr out)
    obtain tid st where out: "out = (tid, st)" by (cases out)
    with run Inr obtain t nonce p0 where claims: "callback_claims dec c now prov state = Inr (t, tid, nonce)" "prov = gn"
      and v: "verify_callback gv gn digest (tenant_session t) now tid nonce (q(lit ''state'' := None)) (s, g)
          = (Inr p0, (s', g'))"
      and st: "st = (if pay_status p0 = Pay_SUCCESSFUL then Pay_SUCCESSFUL else Pay_FAILED)"
      by (auto simp: payment_callback_Inr)
    from claims obtain body where body: "verify_state dec c now payment_callback_purpose state = Inr body"
      "map_of body ''provider'' = Some (JStr gn)"
      by (auto simp: callback_claims_def split: sum.splits option.splits if_splits)
    note opened = this(2) state_current [OF assms body(1)]
    have accepted: "dec (signing_key c) [''purpose'', ''iat'', ''exp''] now state = Some body"
      using body(1) by (auto simp: verify_state_def split: option.splits if_splits)
    from v show ?thesis
    proof (cases rule: verify_callback_Inr)
      case again
      with run Inr out opened accepted claims st show ?thesis by auto
    next
      case (now p auth result r)
      note p = get_rowD [OF now(1)] and r = get_rowD [OF now(7)]
      have "s' = s\<lparr>payments := map (\<lambda>x. if pay_tenant_id x = t \<and> pay_id x = tid then p0 else x) (payments s),
          registrations := map (\<lambda>x. if reg_tenant_id x = t \<and> reg_id x = pay_registration_id p
            then settle_registration result r else x) (registrations s)\<rparr>"
        using now(8,10) p(3) r(3) by (simp add: save_row_at cong: if_cong)
      with run Inr out opened accepted claims st now(1-8) show ?thesis
        by (auto simp: settle_fields settle_registration_def)
    qed
  qed
qed

text \<open>
  C6: a payment is settled once: replaying a callback, at any instant its state token is still
  accepted, with any query and any gateway, answers the same and changes nothing.
\<close>

theorem payment_callback_settles_once:
  assumes "payment_callback gv gn dec digest c now gn state q (s, g) = (Inr (tid, st), (s', g'))"
    and "callback_claims dec c now' gn state = callback_claims dec c now gn state"
  shows "payment_callback gv' gn dec digest c now' gn state q' (s', g'') = (Inr (tid, st), (s', g''))"
proof -
  from assms(1) obtain t nonce p0 where claims: "callback_claims dec c now gn state = Inr (t, tid, nonce)"
    and v: "verify_callback gv gn digest (tenant_session t) now tid nonce (q(lit ''state'' := None)) (s, g)
        = (Inr p0, (s', g'))"
    and st: "st = (if pay_status p0 = Pay_SUCCESSFUL then Pay_SUCCESSFUL else Pay_FAILED)"
    by (auto simp: payment_callback_Inr)
  from v have "get_payment (tenant_session t) tid s' = Some p0 \<and> settled p0 \<and> pay_provider p0 = gn
      \<and> digest nonce = callback_nonce_hash p0"
  proof (cases rule: verify_callback_Inr)
    case (now p auth result r)
    then show ?thesis
      using get_rowD [OF now(1)] by (simp add: get_row_save_row)
  qed auto
  then have "verify_callback gv' gn digest (tenant_session t) now' tid nonce (q'(lit ''state'' := None))
      (s', g'') = (Inr p0, (s', g''))"
    by (simp add: verify_callback_def settled_def)
  then show ?thesis
    unfolding payment_callback_Inr using claims assms(2) st by auto
qed

lemma claims_of_payment_state:
  assumes "jwt_laws enc dec" "reg_tenant_id r = t" "t < 2 ^ 128" "tid < 2 ^ 128" "now \<le> later"
    "later + seconds 1 \<le> now + seconds ttl"
  shows "callback_claims dec c later gn
      (sign_state enc c now payment_callback_purpose (payment_claims r tid nonce gn) ttl) = Inr (t, tid, nonce)"
proof -
  obtain body where body: "verify_state dec c later payment_callback_purpose
      (sign_state enc c now payment_callback_purpose (payment_claims r tid nonce gn) ttl) = Inr body"
    and other: "\<And>k. k \<notin> {''purpose'', ''iat'', ''exp''} \<Longrightarrow> map_of body k = map_of (payment_claims r tid nonce gn) k"
    using state_round_trip [OF assms(1,5,6), of c payment_callback_purpose "payment_claims r tid nonce gn"]
    by blast
  have "map_of body ''tenant_id'' = Some (JStr (uuid_str t))"
    "map_of body ''transaction_id'' = Some (JStr (uuid_str tid))"
    "map_of body ''nonce'' = Some (JStr nonce)" "map_of body ''provider'' = Some (JStr gn)"
    using other assms(2) by (simp_all add: payment_claims_def)
  then show ?thesis
    using assms(3,4) by (simp add: callback_claims_def body parse_uuid_str_core)
qed

text \<open>
  a payment started on the mock gateway can be completed: the redirect it answers with carries
  a state and authority which, sent back while the state lives, settle this transaction as
  SUCCESSFUL and complete its registration.
\<close>

theorem payment_round_trip:
  assumes "jwt_laws enc dec"
    and "initiate_payment (mock_initiate auth) mock_name enc digest c (tenant_session t) now i token tid
        nonce key (s, g) = (Inr resp, (s', g'))"
    and "by_idempotency_key (tenant_session t) key s = None" "t < 2 ^ 128" "tid < 2 ^ 128"
    and "now \<le> later" "later + seconds 1 \<le> now + seconds (callback_token_ttl_seconds c)"
    and "Some (lit ''mock-'' @ auth) \<notin> provider_transaction_id ` set (payments s)"
  shows "\<exists>state s'' r. pr_redirect_url resp
        = callback_base c mock_name state @ lit ''&authority='' @ auth @ lit ''&result=success''
    \<and> payment_callback mock_verify mock_name dec digest c later mock_name state
        [lit ''authority'' \<mapsto> auth, lit ''result'' \<mapsto> lit ''success''] (s', g')
        = (Inr (tid, Pay_SUCCESSFUL), (s'', g'))
    \<and> get_reg (tenant_session t) i s'' = Some r
    \<and> reg_status r = Reg_COMPLETED \<and> payment_status r = RegPay_SUCCESSFUL"
proof -
  from assms(2) obtain r where r: "authorized_draft digest (tenant_session t) now i token s = Inr r"
    and init: "initiate (mock_initiate auth) mock_name enc digest c (tenant_session t) now tid nonce r key
        (s, g) = (Inr resp, (s', g'))"
    by (auto simp: initiate_payment_Inr)
  note d = authorized_draftD [OF r]
  from init show ?thesis
  proof (cases rule: initiate_Inr)
    case (found p)
    with assms(3) show ?thesis by simp
  next
    case (fresh p result)
    have gw: "result = \<lparr>authority = auth, redirect_url = callback_base c mock_name (callback_state p)
          @ lit ''&authority='' @ auth @ lit ''&result=success''\<rparr>" "auth \<in> set g'"
      using fresh(18) by (auto simp: mock_initiate_def split: if_splits)
    let ?res = "\<lparr>successful = True, result_transaction_id = Some (lit ''mock-'' @ auth),
                 failure_code = None, failure_message = None\<rparr>"
    let ?q = "[lit ''authority'' \<mapsto> auth, lit ''result'' \<mapsto> lit ''success''] :: ustr \<rightharpoonup> ustr"
    have t: "reg_tenant_id r = t" "reg_id r = i" using d by auto
    have claims: "callback_claims dec c later mock_name (callback_state p) = Inr (t, tid, nonce)"
      unfolding fresh(17) using assms(1,4-7) t(1) by (intro claims_of_payment_state) auto
    have pay: "get_payment (tenant_session t) tid s' = Some p"
    proof -
      have "get_payment (tenant_session t) tid s = None"
        using fresh(7,24) unfolding get_row_None key_taken_iff by (metis image_eqI)
      then show ?thesis
        using fresh(7,8,26) t by (simp add: get_row_append get_row_Cons)
    qed
    define r1 where "r1 = r\<lparr>reg_status := Reg_PAYMENT_PENDING\<rparr>"
    have reg: "get_reg (tenant_session t) i s' = Some r1"
      using d fresh(26) by (simp add: r1_def get_row_save_row)
    define p' where "p' = settle_transaction later ?res p"
    have ok: "payment_unique_ok p' s'"
    proof -
      have "\<not> payment_conflict x p'" if "x \<in> set (payments s)" "pay_id x \<noteq> tid" for x
      proof -
        have "\<not> payment_conflict x p"
          using fresh(25,7) that by (auto simp: payment_unique_ok_def list_all_iff)
        moreover have "provider_transaction_id x \<noteq> Some (lit ''mock-'' @ auth)"
          using assms(8) that(1) by (metis image_eqI)
        ultimately show ?thesis
          using fresh(8,12)
          by (auto simp: payment_conflict_def p'_def settle_transaction_def payment_active_def)
      qed
      then show ?thesis
        using fresh(7,26) by (auto simp: payment_unique_ok_def list_all_iff p'_def)
    qed
    define s2 where "s2 = save_reg (tenant_session t) (settle_registration ?res r1)
        (save_payment (tenant_session t) p' s')"
    have verified: "mock_verify auth (pay_amount p) (pay_currency p) (?q(lit ''state'' := None)) g' = (Inr ?res, g')"
      using gw(2) by (simp add: mock_verify_def)
    have "verify_callback mock_verify mock_name digest (tenant_session t) later tid nonce
        (?q(lit ''state'' := None)) (s', g') = (Inr p', (s2, g'))"
      using pay fresh(9-16) verified reg ok t(2) gw(1)
      by (simp add: verify_callback_def Let_def p'_def s2_def)
    then have cb: "payment_callback mock_verify mock_name dec digest c later mock_name (callback_state p) ?q (s', g')
        = (Inr (tid, Pay_SUCCESSFUL), (s2, g'))"
      unfolding payment_callback_Inr using claims by (auto simp: p'_def)
    have "get_reg (tenant_session t) i s2 = Some (settle_registration ?res r1)"
      using reg d by (simp add: s2_def r1_def get_row_save_row)
    with cb show ?thesis
      using fresh(19) gw(1) by (auto simp: settle_registration_def)
  qed
qed

section \<open>Witnesses\<close>

definition sample_payable :: registration where
  "sample_payable = (sample_draft 5)\<lparr>reg_status := Reg_SUBMITTED, submitted_at := Some 6\<rparr>"

definition sample_initiate where
  "sample_initiate =
     initiate_payment (mock_initiate (lit ''authority'')) mock_name numbered_encode id default_settings
       (tenant_session 1) 9 5 (lit ''secret'') 80 (lit ''nonce'') (lit ''key-0001'')
       (sample_db [sample_payable], [])"

lemma sample_initiate_ok: "\<exists>resp s' g'. sample_initiate = (Inr resp, (s', g'))"
  by (simp add: sample_initiate_def initiate_payment_def initiate_def authorized_draft_def
      by_idempotency_key_def active_transaction_def payable_def start_payment_def mock_initiate_def
      flush_payment_def payment_unique_ok_def key_taken_def sample_payable_def table_eval sample_defs)

theorem initiate_payment_idempotent_witness:
  "\<exists>resp s' g' resp'. sample_initiate = (Inr resp, (s', g'))
     \<and> initiate_payment (mock_initiate (lit ''other'')) mock_name numbered_encode id default_settings
         (tenant_session 1) 10 5 (lit ''secret'') 81 (lit ''nonce2'') (lit ''key-0001'') (s', g')
         = (Inr resp', (s', g'))
     \<and> pr_transaction_id resp' = pr_transaction_id resp"
proof -
  obtain resp s' g' where run: "sample_initiate = (Inr resp, (s', g'))"
    using sample_initiate_ok by blast
  then obtain r where auth: "authorized_draft id (tenant_session 1) 10 5 (lit ''secret'') s' = Inr r"
    by (auto simp: sample_initiate_def initiate_payment_def initiate_def authorized_draft_def
      by_idempotency_key_def active_transaction_def payable_def start_payment_def mock_initiate_def
      flush_payment_def payment_unique_ok_def key_taken_def sample_payable_def table_eval sample_defs)
  obtain resp' where "initiate_payment (mock_initiate (lit ''other'')) mock_name numbered_encode id
      default_settings (tenant_session 1) 10 5 (lit ''secret'') 81 (lit ''nonce2'') (lit ''key-0001'') (s', g')
         = (Inr resp', (s', g'))" "pr_transaction_id resp' = pr_transaction_id resp"
    using initiate_payment_idempotent [OF run [unfolded sample_initiate_def] auth,
        where gi' = "mock_initiate (lit ''other'')" and gn' = mock_name and enc' = numbered_encode
          and tid' = 81 and nonce' = "lit ''nonce2''" and g'' = g'] by blast
  with run show ?thesis by blast
qed

theorem payment_round_trip_witness:
  "\<exists>resp s' g' state s''. sample_initiate = (Inr resp, (s', g'))
     \<and> payment_callback mock_verify mock_name numbered_decode id default_settings 10 mock_name state
         [lit ''authority'' \<mapsto> lit ''authority'', lit ''result'' \<mapsto> lit ''success''] (s', g')
         = (Inr (80, Pay_SUCCESSFUL), (s'', g'))"
proof -
  obtain resp s' g' where run: "sample_initiate = (Inr resp, (s', g'))"
    using sample_initiate_ok by blast
  have "by_idempotency_key (tenant_session 1) (lit ''key-0001'') (sample_db [sample_payable]) = None"
    by (simp add: by_idempotency_key_def table_eval sample_defs)
  moreover have "Some (lit ''mock-'' @ lit ''authority'')
      \<notin> provider_transaction_id ` set (payments (sample_db [sample_payable]))"
    by (simp add: sample_db_def)
  moreover have "(10::int) + seconds 1 \<le> 9 + seconds (callback_token_ttl_seconds default_settings)"
    by (simp add: seconds_def default_settings_def)
  ultimately show ?thesis
    using payment_round_trip [OF numbered_laws run [unfolded sample_initiate_def], of 10] run by auto
qed

text \<open>A pending transaction whose authority the gateway does not know.\<close>

definition sample_state :: ustr where
  "sample_state = sign_state numbered_encode default_settings 9 payment_callback_purpose
     (payment_claims sample_payable 80 (lit ''nonce'') mock_name) 900"

definition sample_paying :: reg_db where
  "sample_paying = (sample_db [sample_payable])\<lparr>payments :=
     [pending_transaction id 9 80 (lit ''nonce'') mock_name (lit ''lost'') sample_state sample_payable
        500000 (lit ''IRR'') (lit ''key-0001'')]\<rparr>"

lemma sample_claims:
  "callback_claims numbered_decode default_settings 10 mock_name sample_state = Inr (1, 80, lit ''nonce'')"
  unfolding sample_state_def
  by (rule claims_of_payment_state [OF numbered_laws])
    (simp_all add: sample_payable_def sample_draft_def seconds_def)

lemma sample_callback:
  "\<exists>s'. payment_callback mock_verify mock_name numbered_decode id default_settings 10 mock_name
      sample_state Map.empty (sample_paying, []) = (Inr (80, Pay_FAILED), (s', []))"
  unfolding payment_callback_def sample_claims prod.case
  by (simp add: sample_claims verify_callback_def sample_paying_def pending_transaction_def
      mock_verify_def mock_failure_def settle_transaction_def payment_unique_ok_def sample_payable_def
      table_eval sample_defs)

text \<open>The callback of that state, after which the transaction has failed and nothing else has changed.\<close>

theorem payment_callback_authentic_witness:
  "\<exists>s' p. payment_callback mock_verify mock_name numbered_decode id default_settings 10 mock_name
      sample_state Map.empty (sample_paying, []) = (Inr (80, Pay_FAILED), (s', []))
     \<and> get_payment (tenant_session 1) 80 sample_paying = Some p \<and> \<not> settled p
     \<and> payments s' = map (\<lambda>x. if pay_tenant_id x = 1 \<and> pay_id x = 80
          then p\<lparr>pay_status := Pay_FAILED, callback_consumed_at := Some 10,
                 pay_failure_code := Some (lit ''UNKNOWN_AUTHORITY''), pay_failure_message := None\<rparr> else x)
          (payments sample_paying)"
proof -
  obtain s' where run: "payment_callback mock_verify mock_name numbered_decode id default_settings 10
      mock_name sample_state Map.empty (sample_paying, []) = (Inr (80, Pay_FAILED), (s', []))"
    using sample_callback by blast
  obtain p where p: "get_payment (tenant_session 1) 80 sample_paying = Some p" "\<not> settled p"
    by (simp add: sample_paying_def pending_transaction_def settled_def sample_payable_def table_eval sample_defs)
  show ?thesis
    using payment_callback_authentic [OF numbered_laws, where gv = mock_verify and gn = mock_name and digest = id
        and c = default_settings and now = 10 and prov = mock_name and state = sample_state and q = Map.empty
        and s = sample_paying and g = "[]"] run p
    by (auto simp: sample_claims mock_verify_def mock_failure_def)
qed

theorem payment_callback_settles_once_witness:
  "\<exists>s'. payment_callback mock_verify mock_name numbered_decode id default_settings 10 mock_name
      sample_state Map.empty (sample_paying, []) = (Inr (80, Pay_FAILED), (s', []))
     \<and> payment_callback mock_verify mock_name numbered_decode id default_settings 10 mock_name
       sample_state [lit ''authority'' \<mapsto> lit ''lost''] (s', [lit ''lost'']) = (Inr (80, Pay_FAILED), (s', [lit ''lost'']))"
proof -
  obtain s' where run: "payment_callback mock_verify mock_name numbered_decode id default_settings 10
      mock_name sample_state Map.empty (sample_paying, []) = (Inr (80, Pay_FAILED), (s', []))"
    using sample_callback by blast
  with payment_callback_settles_once [OF run refl, where gv' = mock_verify
      and q' = "[lit ''authority'' \<mapsto> lit ''lost'']" and g'' = "[lit ''lost'']"]
  show ?thesis by blast
qed

end
