(* ===== verification/AdminRegistrations.thy ===== *)
theory AdminRegistrations
  imports RegistrationRouter
begin

text \<open>
  The administrators' side of registrations: \<open>app/registrations/admin_service.py\<close> (search, detail,
  status changes, CSV export) and \<open>app/registrations/admin_router.py\<close>. Permissions are checked by
  the dependencies modelled in \<open>Auth\<close>. PostgreSQL folds case by its locale (\<open>casefold\<close>), and
  \<open>show_time\<close> is Python's \<open>str\<close> of a \<open>datetime\<close>.
\<close>

section \<open>Search\<close>

text \<open>\<open>LIKE\<close>: percent matches any text, underscore one character, backslash quotes the next.\<close>

function like :: "ustr \<Rightarrow> ustr \<Rightarrow> bool" where
  "like [] s \<longleftrightarrow> s = []"
| "like (p # ps) s \<longleftrightarrow>
     (if p = 37 then like ps s \<or> (case s of [] \<Rightarrow> False | _ # xs \<Rightarrow> like (p # ps) xs)
      else if p = 92 \<and> ps \<noteq> [] then (case s of [] \<Rightarrow> False | x # xs \<Rightarrow> x = hd ps \<and> like (tl ps) xs)
      else (case s of [] \<Rightarrow> False | x # xs \<Rightarrow> (p = 95 \<or> x = p) \<and> like ps xs))"
  by pat_completeness auto
termination
  by (relation "measure (\<lambda>(ps, s). length ps + length s)") auto

definition ilike :: "(nat \<Rightarrow> nat) \<Rightarrow> ustr option \<Rightarrow> ustr \<Rightarrow> bool" where
  "ilike casefold column pattern =
     (case column of None \<Rightarrow> False | Some v \<Rightarrow> like (map casefold pattern) (map casefold v))"

definition search_condition :: "(nat \<Rightarrow> nat) \<Rightarrow> ustr \<Rightarrow> registration \<Rightarrow> bool" where
  "search_condition casefold search r =
     (let pattern = [37] @ strip search @ [37] in
      ilike casefold (Some (reg_phone_number r)) pattern \<or> ilike casefold (national_code r) pattern
      \<or> ilike casefold (first_name r) pattern \<or> ilike casefold (last_name r) pattern)"

fun status_text :: "reg_state \<Rightarrow> string" where
  "status_text Reg_DRAFT = ''DRAFT''"
| "status_text Reg_PHONE_VERIFICATION_REQUIRED = ''PHONE_VERIFICATION_REQUIRED''"
| "status_text Reg_PHONE_VERIFIED = ''PHONE_VERIFIED''"
| "status_text Reg_READY_FOR_SUBMISSION = ''READY_FOR_SUBMISSION''"
| "status_text Reg_SUBMITTED = ''SUBMITTED''"
| "status_text Reg_PAYMENT_PENDING = ''PAYMENT_PENDING''"
| "status_text Reg_COMPLETED = ''COMPLETED''"
| "status_text Reg_CANCELLED = ''CANCELLED''"

definition list_registrations ::
  "(nat \<Rightarrow> nat) \<Rightarrow> session \<Rightarrow> ustr option \<Rightarrow> ustr option \<Rightarrow> nat \<Rightarrow> nat \<Rightarrow> reg_db \<Rightarrow> registration list \<times> nat"
where
  "list_registrations casefold cur status search offset limit s =
     (let matches = select_where reg_tenant_id cur
            (\<lambda>r. (case status of None \<Rightarrow> True
                  | Some v \<Rightarrow> v = [] \<or> lit (status_text (reg_status r)) = v)
                 \<and> (case search of None \<Rightarrow> True | Some v \<Rightarrow> v = [] \<or> search_condition casefold v r))
            (registrations s);
          ordered = sort_key (\<lambda>r. - reg_created_at r) matches
      in (take limit (drop offset ordered), length matches))"

section \<open>Detail and update\<close>

definition admin_get :: "session \<Rightarrow> uuid \<Rightarrow> reg_db \<Rightarrow> exn + registration" where
  "admin_get cur registration_id s =
     (case get_reg cur registration_id s of
        None \<Rightarrow> Inl (app_error ''REGISTRATION_NOT_FOUND'' 404) | Some r \<Rightarrow> Inr r)"

datatype admin_status = Request_SUBMITTED | Request_CANCELLED

text \<open>\<open>None\<close> is a field left out, \<open>Some None\<close> an explicit null.\<close>

record admin_update =
  au_status :: "admin_status option option"
  au_internal_notes :: "ustr option option"

definition validate_admin_update :: "admin_update \<Rightarrow> exn + admin_update" where
  "validate_admin_update body =
     (case au_internal_notes body of
        Some (Some notes) \<Rightarrow>
          if length notes > 10000 then Inl (PyValueError ''string length'') else Inr body
      | _ \<Rightarrow> Inr body)"

definition sorted_changes :: "admin_update \<Rightarrow> string list" where
  "sorted_changes body =
     (if au_internal_notes body \<noteq> None then [''internal_notes''] else [])
     @ (if au_status body \<noteq> None then [''status''] else [])"

definition transition_refused :: "registration \<Rightarrow> admin_update \<Rightarrow> bool" where
  "transition_refused r body \<longleftrightarrow>
     (au_status body = Some (Some Request_SUBMITTED) \<and> reg_status r \<noteq> Reg_CANCELLED)
     \<or> (au_status body = Some (Some Request_CANCELLED) \<and> reg_status r = Reg_COMPLETED)"

definition registration_audit :: "string \<Rightarrow> instant \<Rightarrow> uuid \<Rightarrow> uuid \<Rightarrow> uuid option \<Rightarrow> string list \<Rightarrow> audit_event" where
  "registration_audit action now tenant actor entity changed =
     \<lparr>audit_tenant_id = tenant, actor_user_id = Some actor, audit_action = action,
      entity_type = ''registration'', entity_id = entity, changed_fields = changed,
      audit_created_at = now\<rparr>"

definition admin_set :: "admin_update \<Rightarrow> registration \<Rightarrow> registration" where
  "admin_set body r =
     r\<lparr>reg_status :=
         (case au_status body of
            Some (Some Request_SUBMITTED) \<Rightarrow> Reg_SUBMITTED
          | Some (Some Request_CANCELLED) \<Rightarrow> Reg_CANCELLED
          | _ \<Rightarrow> reg_status r),
       internal_notes := or_default (au_internal_notes body) (internal_notes r)\<rparr>"

text \<open>A null status reaches the NOT NULL column and fails at the flush.\<close>

definition admin_update_registration ::
  "session \<Rightarrow> instant \<Rightarrow> uuid \<Rightarrow> registration \<Rightarrow> admin_update \<Rightarrow> reg_db \<Rightarrow> (registration, reg_db) outcome" where
  "admin_update_registration cur now actor r body s =
     (if transition_refused r body then (Inl (app_error ''ADMIN_STATUS_TRANSITION_INVALID'' 400), s)
      else if au_status body = Some None then (Inl IntegrityError, s)
      else
        (let r' = admin_set body r;
             event = registration_audit ''registration.admin_updated'' now (reg_tenant_id r) actor
                       (Some (reg_id r)) (sorted_changes body)
         in (Inr r', (save_reg cur r' s)\<lparr>audits := insert_row event (audits s)\<rparr>)))"

definition record_export :: "instant \<Rightarrow> uuid \<Rightarrow> uuid \<Rightarrow> reg_db \<Rightarrow> reg_db" where
  "record_export now tenant_id actor s =
     s\<lparr>audits := insert_row (registration_audit ''registration.exported'' now tenant_id actor None [])
         (audits s)\<rparr>"

section \<open>Export\<close>

text \<open>\<open>csv_safe\<close> on the text of a value: no cell starts like a spreadsheet formula.\<close>

definition is_formula_start :: "nat \<Rightarrow> bool" where
  "is_formula_start x \<longleftrightarrow> x \<in> {61, 43, 45, 64, 9, 13}"

definition csv_safe :: "ustr option \<Rightarrow> ustr" where
  "csv_safe value =
     (let text = or_default value [] in
      if text \<noteq> [] \<and> is_formula_start (hd text) then 39 # text else text)"

text \<open>\<open>csv.writer\<close> with the excel dialect: minimal quoting, doubled quotes, CR LF.\<close>

definition needs_quotes :: "ustr \<Rightarrow> bool" where
  "needs_quotes cell \<longleftrightarrow> list_ex (\<lambda>x. x \<in> {44, 34, 13, 10}) cell"

definition csv_cell :: "ustr \<Rightarrow> ustr" where
  "csv_cell cell =
     (if needs_quotes cell then [34] @ concat (map (\<lambda>x. if x = 34 then [34, 34] else [x]) cell) @ [34]
      else cell)"

fun csv_cells :: "ustr list \<Rightarrow> ustr" where
  "csv_cells [] = []"
| "csv_cells [x] = csv_cell x"
| "csv_cells (x # y # xs) = csv_cell x @ [44] @ csv_cells (y # xs)"

definition writerow :: "ustr list \<Rightarrow> ustr" where
  "writerow cells = (if cells = [[]] then [34, 34] else csv_cells cells) @ [13, 10]"

definition export_columns :: "ustr list" where
  "export_columns =
     [lit ''id'', lit ''exam_offering_id'', lit ''phone_number'', lit ''first_name'', lit ''last_name'',
      lit ''national_code'', lit ''status'', lit ''payment_status'', lit ''submitted_at'', lit ''created_at'']"

fun payment_status_text :: "reg_payment_state \<Rightarrow> string" where
  "payment_status_text RegPay_PENDING = ''PENDING''"
| "payment_status_text RegPay_SUCCESSFUL = ''SUCCESSFUL''"
| "payment_status_text RegPay_FAILED = ''FAILED''"

definition export_values :: "(instant \<Rightarrow> ustr) \<Rightarrow> registration \<Rightarrow> ustr option list" where
  "export_values show_time r =
     [Some (uuid_str (reg_id r)), Some (uuid_str (reg_exam_offering_id r)), Some (reg_phone_number r),
      first_name r, last_name r, national_code r, Some (lit (status_text (reg_status r))),
      Some (lit (payment_status_text (payment_status r))), map_option show_time (submitted_at r),
      Some (show_time (reg_created_at r))]"

definition export_rows :: "(instant \<Rightarrow> ustr) \<Rightarrow> session \<Rightarrow> reg_db \<Rightarrow> ustr list list" where
  "export_rows show_time cur s =
     map (\<lambda>r. map csv_safe (export_values show_time r))
       (sort_key reg_created_at (visible reg_tenant_id cur (registrations s)))"

text \<open>The streamed chunks; the first starts with the byte-order mark of \<open>utf-8-sig\<close>.\<close>

definition stream_registration_csv :: "(instant \<Rightarrow> ustr) \<Rightarrow> uuid \<Rightarrow> reg_db \<Rightarrow> ustr list" where
  "stream_registration_csv show_time tenant_id s =
     (65279 # writerow export_columns) # map writerow (export_rows show_time (tenant_session tenant_id) s)"

section \<open>Endpoints\<close>

definition registration_detail ::
  "session \<Rightarrow> uuid \<Rightarrow> reg_db \<Rightarrow> exn + (registration \<times> registration_contact list)" where
  "registration_detail cur registration_id s =
     (case admin_get cur registration_id s of
        Inl e \<Rightarrow> Inl e | Inr r \<Rightarrow> Inr (r, registration_contacts cur (reg_id r) s))"

definition update_registration where
  "update_registration cur now actor registration_id body =
     transaction (\<lambda>s.
       case admin_get cur registration_id s of
         Inl e \<Rightarrow> (Inl e, s)
       | Inr r \<Rightarrow>
           and_then (admin_update_registration cur now actor r body s)
             (\<lambda>r' s. (Inr (r', registration_contacts cur (reg_id r') s), s)))"

definition export_registrations where
  "export_registrations show_time now tenant_id actor s =
     (let s' = record_export now tenant_id actor s in
      (stream_registration_csv show_time tenant_id s', s'))"

section \<open>Reading an export back\<close>

text \<open>A reader of the dialect: cells of one line, and the rest after CR LF.\<close>

fun read_quoted :: "ustr \<Rightarrow> ustr \<times> ustr" where
  "read_quoted [] = ([], [])"
| "read_quoted (x # s) =
     (if x = 34 then
        (case s of
           y # s' \<Rightarrow> if y = 34 then (case read_quoted s' of (cell, rest) \<Rightarrow> (34 # cell, rest)) else ([], s)
         | [] \<Rightarrow> ([], []))
      else (case read_quoted s of (cell, rest) \<Rightarrow> (x # cell, rest)))"

definition read_cell :: "ustr \<Rightarrow> ustr \<times> ustr" where
  "read_cell s =
     (case s of
        x # s' \<Rightarrow> if x = 34 then read_quoted s'
                 else (takeWhile (\<lambda>x. x \<notin> {44, 13, 10}) s, dropWhile (\<lambda>x. x \<notin> {44, 13, 10}) s)
      | [] \<Rightarrow> ([], []))"

text \<open>The number of cells of a line is known from its header.\<close>

fun read_cells :: "nat \<Rightarrow> ustr \<Rightarrow> ustr list \<times> ustr" where
  "read_cells 0 s = ([], s)"
| "read_cells (Suc n) s =
     (case read_cell s of (cell, rest) \<Rightarrow>
        (case read_cells n (drop 1 rest) of (cells, rest') \<Rightarrow> (cell # cells, if n = 0 then rest else rest')))"

lemma read_quoted_cell:
  "rest = [] \<or> hd rest \<noteq> 34 \<Longrightarrow>
     read_quoted (concat (map (\<lambda>x. if x = 34 then [34, 34] else [x]) cell) @ 34 # rest) = (cell, rest)"
  by (induction cell) (auto split: list.splits)

lemma takeWhile_tail_stop:
  "\<forall>x\<in>set xs. P x \<Longrightarrow> ys \<noteq> [] \<Longrightarrow> \<not> P (hd ys) \<Longrightarrow> takeWhile P (xs @ ys) = xs"
  by (induction xs) (cases ys, auto)

lemma dropWhile_tail_stop:
  "\<forall>x\<in>set xs. P x \<Longrightarrow> ys \<noteq> [] \<Longrightarrow> \<not> P (hd ys) \<Longrightarrow> dropWhile P (xs @ ys) = ys"
  by (induction xs) (cases ys, auto)

lemma read_cell_csv_cell:
  assumes "rest \<noteq> []" "hd rest \<in> {44, 13, 10}"
  shows "read_cell (csv_cell cell @ rest) = (cell, rest)"
proof (cases "needs_quotes cell")
  case True
  then show ?thesis
    using assms read_quoted_cell [of rest cell] by (auto simp: csv_cell_def read_cell_def)
next
  case False
  then have plain: "\<forall>x\<in>set cell. x \<notin> {44, 34, 13, 10}"
    by (auto simp: needs_quotes_def list_ex_iff)
  have quiet: "\<forall>x\<in>set cell. x \<notin> {44, 13, 10}"
    using plain by blast
  have stop: "\<not> hd rest \<notin> {44, 13, 10}"
    using assms(2) by blast
  have "takeWhile (\<lambda>x. x \<notin> {44, 13, 10}) (cell @ rest) = cell"
    by (rule takeWhile_tail_stop [OF quiet assms(1) stop])
  moreover have "dropWhile (\<lambda>x. x \<notin> {44, 13, 10}) (cell @ rest) = rest"
    by (rule dropWhile_tail_stop [OF quiet assms(1) stop])
  moreover have "cell @ rest \<noteq> []"
    using assms(1) by simp
  moreover have "hd (cell @ rest) \<noteq> 34"
  proof (cases cell)
    case Nil
    have "hd rest \<noteq> 34" using assms(2) by force
    with Nil show ?thesis by simp
  qed (use plain in simp)
  ultimately show ?thesis
    using False by (cases "cell @ rest") (simp_all add: csv_cell_def read_cell_def)
qed

lemma read_cells_row:
  "cells \<noteq> [] \<Longrightarrow> read_cells (length cells) (csv_cells cells @ [13, 10] @ rest) = (cells, [13, 10] @ rest)"
proof (induction cells rule: csv_cells.induct)
  case (2 x)
  then show ?case
    using read_cell_csv_cell [of "[13, 10] @ rest" x] by simp
next
  case (3 x y xs)
  then show ?case
    using read_cell_csv_cell [of "44 # csv_cells (y # xs) @ [13, 10] @ rest" x] by simp
qed simp

lemma writerow_reads:
  assumes "length cells = n" "2 \<le> n"
  shows "read_cells n (writerow cells @ rest) = (cells, [13, 10] @ rest)"
proof -
  have "cells \<noteq> []" "cells \<noteq> [[]]" using assms by auto
  then show ?thesis
    using read_cells_row [of cells rest] assms(1) by (simp add: writerow_def)
qed

lemma csv_safe_start: "case csv_safe v of [] \<Rightarrow> True | x # _ \<Rightarrow> \<not> is_formula_start x"
  by (auto simp: csv_safe_def Let_def is_formula_start_def split: list.splits)

section \<open>Properties\<close>

text \<open>
  C7: every line of an export reads back as exactly the ten cells written into it, whatever names
  the applicants chose (commas, quotes, line breaks), and none of the cells starts like a
  spreadsheet formula; there is one line per registration of the tenant and none of another's.
\<close>

theorem export_reads_back:
  "\<forall>rest. list_all (\<lambda>(row, r). read_cells 10 (writerow row @ rest) = (row, [13, 10] @ rest)
       \<and> length row = 10 \<and> list_all (\<lambda>cell. case cell of [] \<Rightarrow> True | x # _ \<Rightarrow> \<not> is_formula_start x) row
       \<and> row ! 0 = csv_safe (Some (uuid_str (reg_id r))) \<and> reg_tenant_id r = t \<and> r \<in> set (registrations s))
     (zip (export_rows show_time (tenant_session t) s)
          (sort_key reg_created_at (visible reg_tenant_id (tenant_session t) (registrations s))))
   \<and> tl (stream_registration_csv show_time t s) = map writerow (export_rows show_time (tenant_session t) s)
   \<and> length (export_rows show_time (tenant_session t) s)
       = count_if (\<lambda>r. reg_tenant_id r = t) (registrations s)"
proof (intro allI conjI)
  fix rest :: ustr
  have row: "read_cells 10 (writerow (map csv_safe (export_values show_time r)) @ rest)
      = (map csv_safe (export_values show_time r), [13, 10] @ rest)" for r
    by (rule writerow_reads) (simp_all add: export_values_def)
  show "list_all (\<lambda>(row, r). read_cells 10 (writerow row @ rest) = (row, [13, 10] @ rest)
       \<and> length row = 10 \<and> list_all (\<lambda>cell. case cell of [] \<Rightarrow> True | x # _ \<Rightarrow> \<not> is_formula_start x) row
       \<and> row ! 0 = csv_safe (Some (uuid_str (reg_id r))) \<and> reg_tenant_id r = t \<and> r \<in> set (registrations s))
     (zip (export_rows show_time (tenant_session t) s)
          (sort_key reg_created_at (visible reg_tenant_id (tenant_session t) (registrations s))))"
    using row csv_safe_start
    by (auto simp: list_all_iff export_rows_def zip_map1 zip_same_conv_map visible_def export_values_def)
  show "tl (stream_registration_csv show_time t s) = map writerow (export_rows show_time (tenant_session t) s)"
    by (simp add: stream_registration_csv_def)
  show "length (export_rows show_time (tenant_session t) s)
      = count_if (\<lambda>r. reg_tenant_id r = t) (registrations s)"
    by (simp add: export_rows_def visible_def count_if_def)
qed

text \<open>
  an administrator's update never touches a registration's answers or payment: it sets the
  status and notes it was asked to, completes nothing, cancels nothing paid, writes exactly one
  audit event naming the changed fields, and changes no other row; a refused update changes
  nothing.
\<close>

theorem update_registration_effect:
  "case update_registration cur now actor i body s of
     (Inl e, s') \<Rightarrow> s' = s
   | (Inr (r', cs), s') \<Rightarrow>
       (\<exists>r. get_reg cur i s = Some r \<and> get_reg cur i s' = Some r'
         \<and> r' = r\<lparr>reg_status := reg_status r', internal_notes := internal_notes r'\<rparr>
         \<and> (reg_status r' = reg_status r \<or> reg_status r' = Reg_CANCELLED \<and> reg_status r \<noteq> Reg_COMPLETED
             \<or> reg_status r' = Reg_SUBMITTED \<and> reg_status r = Reg_CANCELLED))
       \<and> filter (\<lambda>x. reg_id x \<noteq> i) (registrations s') = filter (\<lambda>x. reg_id x \<noteq> i) (registrations s)
       \<and> (\<exists>event. audits s' = audits s @ [event] \<and> entity_id event = Some i
            \<and> actor_user_id event = Some actor \<and> changed_fields event = sorted_changes body)"
proof (cases "get_reg cur i s")
  case None
  then show ?thesis by (simp add: update_registration_def transaction_def admin_get_def)
next
  case (Some r)
  note g = get_rowD [OF Some]
  show ?thesis
  proof (cases "transition_refused r body \<or> au_status body = Some None")
    case True
    with Some show ?thesis
      by (auto simp: update_registration_def transaction_def admin_get_def admin_update_registration_def)
  next
    case False
    have "get_reg cur i (save_reg cur (admin_set body r) s) = Some (admin_set body r)"
      using g Some by (simp add: get_row_save_row admin_set_def)
    moreover have "filter (\<lambda>x. reg_id x \<noteq> i) (save_row reg_tenant_id reg_id cur (admin_set body r) (registrations s))
        = filter (\<lambda>x. reg_id x \<noteq> i) (registrations s)"
      using save_reg_others [of "admin_set body r" cur "registrations s"] g by (simp add: admin_set_def)
    moreover have "reg_status (admin_set body r) = reg_status r
        \<or> reg_status (admin_set body r) = Reg_CANCELLED \<and> reg_status r \<noteq> Reg_COMPLETED
        \<or> reg_status (admin_set body r) = Reg_SUBMITTED \<and> reg_status r = Reg_CANCELLED"
      using False by (auto simp: admin_set_def transition_refused_def split: option.splits admin_status.splits)
    moreover have "admin_set body r = r\<lparr>reg_status := reg_status (admin_set body r),
        internal_notes := internal_notes (admin_set body r)\<rparr>"
      by (simp add: admin_set_def)
    ultimately show ?thesis
      using False Some g
      by (simp add: update_registration_def transaction_def admin_get_def admin_update_registration_def
          Let_def insert_row_def registration_audit_def)
  qed
qed

end
