(* ===== verification/Enrollment.thy ===== *)
theory Enrollment
  imports Otp Payments AdminRegistrations
begin

text \<open>
  The enrolment side as one transition system: an event is a request to one of the endpoints of
  \<open>RegistrationRouter\<close>, \<open>Otp\<close>, \<open>Payments\<close>, \<open>Media\<close> or \<open>AdminRegistrations\<close> with everything it
  draws from outside (the clock, fresh identifiers, random tokens), and a history is any list of
  events of any tenants, which is what PostgreSQL's row locks make of concurrent requests. The
  state is the database with the OTP provider's and the gateway's own states.
\<close>

section \<open>Events\<close>

record ('p, 'g) services =
  digest_of :: "ustr \<Rightarrow> ustr"
  hmac_of :: "ustr \<Rightarrow> ustr \<Rightarrow> ustr"
  settings_of :: settings
  validator_of :: "json \<Rightarrow> json \<Rightarrow> schema_verdict"
  encode_of :: jwt_encode
  decode_of :: jwt_decode
  otp_send_of :: "'p send_code"
  gateway_initiate_of :: "ustr \<Rightarrow> 'g gateway_initiate"
  gateway_verify_of :: "'g gateway_verify"
  gateway_name_of :: ustr
  upload_of :: "presign_request \<Rightarrow> presigned_upload"
  head_of :: "ustr \<Rightarrow> head_result"

datatype enroll_event =
    Create uuid instant uuid ustr registration_create
  | Patch uuid instant uuid ustr registration_patch
  | Rotate uuid instant uuid ustr ustr
  | Contacts uuid instant uuid ustr "uuid list" "contact_input list"
  | Upload_image uuid instant uuid ustr uuid uuid upload_request
  | Complete_image uuid instant uuid ustr uuid complete_request
  | Send_otp uuid ustr instant uuid ustr uuid ustr ustr
  | Verify_otp uuid instant uuid ustr ustr
  | Submit uuid instant uuid ustr
  | Pay uuid instant uuid ustr uuid ustr ustr
  | Callback instant ustr ustr "(ustr \<times> ustr) list"
  | Admin_update uuid instant uuid uuid admin_update

text \<open>The database after the event; the providers' states change only where they are called.\<close>

fun enroll_step ::
  "('p, 'g) services \<Rightarrow> enroll_event \<Rightarrow> reg_db \<times> 'p \<times> 'g \<Rightarrow> reg_db \<times> 'p \<times> 'g" where
  "enroll_step V (Create t now fresh raw body) (s, p, g) =
     (snd (create_registration (digest_of V) (settings_of V) t now fresh raw body s), p, g)"
| "enroll_step V (Patch t now i token body) (s, p, g) =
     (snd (patch_registration (digest_of V) (tenant_session t) now i token body s), p, g)"
| "enroll_step V (Rotate t now i token raw) (s, p, g) =
     (snd (rotate_draft_token (digest_of V) (settings_of V) (tenant_session t) now i token raw s), p, g)"
| "enroll_step V (Contacts t now i token fresh body) (s, p, g) =
     (snd (put_contacts (digest_of V) (tenant_session t) now i token fresh body s), p, g)"
| "enroll_step V (Upload_image t now i token m nonce body) (s, p, g) =
     (snd (initiate_profile_image_upload (upload_of V) (digest_of V) (settings_of V) t now i token m nonce
             body s), p, g)"
| "enroll_step V (Complete_image t now i token m body) (s, p, g) =
     (snd (complete_profile_image_upload (head_of V) (digest_of V) (tenant_session t) now i token m body s),
      p, g)"
| "enroll_step V (Send_otp t slug now i token j code ip) (s, p, g) =
     (case snd (send_otp (otp_send_of V) (hmac_of V) (digest_of V) (settings_of V) t slug now i token j
                  code ip (s, p)) of (s', p') \<Rightarrow> (s', p', g))"
| "enroll_step V (Verify_otp t now i token code) (s, p, g) =
     (snd (verify_otp (hmac_of V) (digest_of V) (settings_of V) t now i token code s), p, g)"
| "enroll_step V (Submit t now i token) (s, p, g) =
     (snd (submit_registration (validator_of V) (digest_of V) (tenant_session t) now i token s), p, g)"
| "enroll_step V (Pay t now i token tid nonce key) (s, p, g) =
     (case snd (initiate_payment (gateway_initiate_of V nonce) (gateway_name_of V) (encode_of V) (digest_of V)
                  (settings_of V) (tenant_session t) now i token tid nonce key (s, g)) of
        (s', g') \<Rightarrow> (s', p, g'))"
| "enroll_step V (Callback now provider state query) (s, p, g) =
     (case snd (payment_callback (gateway_verify_of V) (gateway_name_of V) (decode_of V) (digest_of V)
                  (settings_of V) now provider state (map_of query) (s, g)) of
        (s', g') \<Rightarrow> (s', p, g'))"
| "enroll_step V (Admin_update t now actor i body) (s, p, g) =
     (snd (update_registration (tenant_session t) now actor i body s), p, g)"

section \<open>The invariant\<close>

definition students_distinct :: "reg_db \<Rightarrow> bool" where
  "students_distinct s \<longleftrightarrow> exclusive reg_id same_student (registrations s)"

definition is_pending :: "otp_challenge \<Rightarrow> bool" where
  "is_pending x \<longleftrightarrow> consumed_at x = None \<and> invalidated_at x = None"

definition both_pending :: "otp_challenge \<Rightarrow> otp_challenge \<Rightarrow> bool" where
  "both_pending x y \<longleftrightarrow> is_pending x \<and> is_pending y \<and> otp_tenant_id x = otp_tenant_id y
     \<and> otp_registration_id x = otp_registration_id y"

definition pending_single :: "reg_db \<Rightarrow> bool" where
  "pending_single s \<longleftrightarrow> exclusive otp_id both_pending (otps s)"

definition attempts_bounded :: "settings \<Rightarrow> reg_db \<Rightarrow> bool" where
  "attempts_bounded c s \<longleftrightarrow>
     list_all (\<lambda>x. if is_pending x then attempt_count x < otp_max_attempts c
                  else attempt_count x \<le> otp_max_attempts c) (otps s)"

definition payments_exclusive :: "reg_db \<Rightarrow> bool" where
  "payments_exclusive s \<longleftrightarrow> exclusive pay_id payment_conflict (payments s)"

definition pays_for :: "payment_transaction \<Rightarrow> registration \<Rightarrow> bool" where
  "pays_for p r \<longleftrightarrow> reg_id r = pay_registration_id p \<and> reg_tenant_id r = pay_tenant_id p
     \<and> payable_amount r = Some (pay_amount p)"

definition amounts_frozen :: "reg_db \<Rightarrow> bool" where
  "amounts_frozen s \<longleftrightarrow> list_all (\<lambda>p. list_ex (pays_for p) (registrations s)) (payments s)"

definition ids_distinct :: "reg_db \<Rightarrow> bool" where
  "ids_distinct s \<longleftrightarrow> distinct (map reg_id (registrations s)) \<and> distinct (map otp_id (otps s))
     \<and> distinct (map pay_id (payments s))"

definition enroll_inv :: "settings \<Rightarrow> reg_db \<Rightarrow> bool" where
  "enroll_inv c s \<longleftrightarrow> ids_distinct s \<and> students_distinct s \<and> pending_single s \<and> attempts_bounded c s
     \<and> payments_exclusive s \<and> amounts_frozen s"

lemma enroll_invD:
  assumes "enroll_inv c s"
  shows "distinct (map reg_id (registrations s))" "distinct (map otp_id (otps s))"
    "distinct (map pay_id (payments s))" "exclusive reg_id same_student (registrations s)"
    "exclusive otp_id both_pending (otps s)" "attempts_bounded c s"
    "exclusive pay_id payment_conflict (payments s)" "amounts_frozen s"
  using assms
  by (simp_all add: enroll_inv_def ids_distinct_def students_distinct_def pending_single_def payments_exclusive_def)

lemmas enroll_inv_intro = enroll_inv_def ids_distinct_def students_distinct_def pending_single_def
  payments_exclusive_def

text \<open>The three tables the invariant speaks of.\<close>

definition same_core :: "reg_db \<Rightarrow> reg_db \<Rightarrow> bool" where
  "same_core s s' \<longleftrightarrow> registrations s' = registrations s \<and> otps s' = otps s \<and> payments s' = payments s"

lemma enroll_inv_same_core: "enroll_inv c s \<Longrightarrow> same_core s s' \<Longrightarrow> enroll_inv c s'"
  by (simp add: enroll_inv_intro attempts_bounded_def amounts_frozen_def same_core_def)

lemma frozenD: "amounts_frozen s \<Longrightarrow> p \<in> set (payments s) \<Longrightarrow> \<exists>r\<in>set (registrations s). pays_for p r"
  by (auto simp: amounts_frozen_def list_all_iff list_ex_iff)

lemma frozenI: "(\<And>p. p \<in> set (payments s) \<Longrightarrow> \<exists>r\<in>set (registrations s). pays_for p r) \<Longrightarrow> amounts_frozen s"
  by (auto simp: amounts_frozen_def list_all_iff list_ex_iff)

subsection \<open>Editing and adding rows\<close>

text \<open>A registration row edited in place, keeping what identifies and prices it.\<close>

definition reg_edit :: "registration \<Rightarrow> registration \<Rightarrow> bool" where
  "reg_edit r0 r \<longleftrightarrow> reg_id r = reg_id r0 \<and> reg_tenant_id r = reg_tenant_id r0
     \<and> payable_amount r = payable_amount r0"

lemma reg_edit_pays: "reg_edit r0 r \<Longrightarrow> pays_for p r0 \<Longrightarrow> pays_for p r"
  by (simp add: reg_edit_def pays_for_def)

lemma unique_ok_unchanged:
  assumes "exclusive reg_id same_student (registrations s)" "r0 \<in> set (registrations s)"
    "reg_id r = reg_id r0" "reg_tenant_id r = reg_tenant_id r0"
    "reg_exam_offering_id r = reg_exam_offering_id r0" "national_code r = national_code r0"
  shows "registration_unique_ok r s"
proof -
  have "\<not> same_student x r" if "x \<in> set (registrations s)" "reg_id x \<noteq> reg_id r" for x
    using exclusiveD [OF assms(1) that(1) assms(2)] that(2) assms(3-6)
    by (simp add: same_student_def)
  then show ?thesis by (simp add: registration_unique_ok_def list_all_iff)
qed

lemma inv_save_reg:
  assumes inv: "enroll_inv c s" and r0: "r0 \<in> set (registrations s)" "reg_edit r0 r"
    and ok: "registration_unique_ok r s"
    and pol: "tenant_isolation_policy cur (reg_tenant_id r0)"
  shows "enroll_inv c (save_reg cur r s)"
proof -
  note I = enroll_invD [OF inv]
  let ?rows = "save_row reg_tenant_id reg_id cur r (registrations s)"
  have rows: "set ?rows = insert r (set (registrations s) - {r0})"
    using I(1) r0 pol by (intro save_row_unique) (auto simp: reg_edit_def)
  have ids: "map reg_id ?rows = map reg_id (registrations s)"
    by (rule save_row_keys) auto
  have "exclusive reg_id same_student ?rows"
    using ok by (intro exclusive_subset [OF I(4), where r = r])
      (auto simp: rows same_student_sym registration_unique_ok_def list_all_iff)
  moreover have "amounts_frozen (save_reg cur r s)"
  proof (rule frozenI)
    fix p assume "p \<in> set (payments (save_reg cur r s))"
    then obtain x where "x \<in> set (registrations s)" "pays_for p x"
      using frozenD [OF I(8)] by auto
    then show "\<exists>y\<in>set (registrations (save_reg cur r s)). pays_for p y"
      using reg_edit_pays [OF r0(2)] by (cases "x = r0") (auto simp: rows)
  qed
  ultimately show ?thesis
    using inv ids by (simp add: enroll_inv_intro attempts_bounded_def)
qed

lemma no_code_no_conflict: "national_code r = None \<Longrightarrow> \<not> same_student x r"
  unfolding same_student_def by force

lemma inv_insert_reg:
  assumes inv: "enroll_inv c s" and r: "reg_id r \<notin> reg_id ` set (registrations s)" "national_code r = None"
  shows "enroll_inv c (s\<lparr>registrations := registrations s @ [r]\<rparr>)"
proof -
  note I = enroll_invD [OF inv]
  have "exclusive reg_id same_student (registrations s @ [r])"
    using no_code_no_conflict [OF r(2)]
    by (intro exclusive_subset [OF I(4), where r = r]) (auto simp: same_student_sym)
  moreover have "amounts_frozen (s\<lparr>registrations := registrations s @ [r]\<rparr>)"
    using frozenD [OF I(8)] by (intro frozenI) auto
  ultimately show ?thesis
    using inv r(1) by (simp add: enroll_inv_intro attempts_bounded_def)
qed

text \<open>Withdrawing codes: some rows are invalidated, nothing else about them changes.\<close>

lemma inv_invalidate:
  assumes inv: "enroll_inv c s"
  shows "enroll_inv c (s\<lparr>otps := update_where otp_tenant_id cur P (\<lambda>x. x\<lparr>invalidated_at := Some now\<rparr>) (otps s)\<rparr>)"
proof -
  note I = enroll_invD [OF inv]
  let ?rows = "update_where otp_tenant_id cur P (\<lambda>x. x\<lparr>invalidated_at := Some now\<rparr>) (otps s)"
  have row: "\<exists>x\<in>set (otps s). y = x \<or> y = x\<lparr>invalidated_at := Some now\<rparr>" if "y \<in> set ?rows" for y
    using in_update_whereD [OF that] by blast
  have "exclusive otp_id both_pending ?rows"
    by (rule exclusive_image [OF I(5)], drule row) (auto simp: both_pending_def is_pending_def)
  moreover have "list_all (\<lambda>x. if is_pending x then attempt_count x < otp_max_attempts c
      else attempt_count x \<le> otp_max_attempts c) ?rows"
    unfolding list_all_iff
  proof
    fix y assume "y \<in> set ?rows"
    from row [OF this] obtain x where "x \<in> set (otps s)" "y = x \<or> y = x\<lparr>invalidated_at := Some now\<rparr>"
      by blast
    moreover from this have "if is_pending x then attempt_count x < otp_max_attempts c
        else attempt_count x \<le> otp_max_attempts c"
      using I(6) by (simp add: attempts_bounded_def list_all_iff)
    ultimately show "if is_pending y then attempt_count y < otp_max_attempts c
        else attempt_count y \<le> otp_max_attempts c"
      by (auto simp: is_pending_def split: if_splits)
  qed
  moreover have "map otp_id ?rows = map otp_id (otps s)"
    by (rule update_where_keys) simp
  ultimately show ?thesis
    using inv by (simp add: enroll_inv_intro attempts_bounded_def amounts_frozen_def)
qed

lemma inv_insert_otp:
  assumes inv: "enroll_inv c s" and x: "otp_id x \<notin> otp_id ` set (otps s)" "attempt_count x = 0"
    and none: "\<And>y. y \<in> set (otps s) \<Longrightarrow> \<not> both_pending y x"
    and c: "0 < otp_max_attempts c"
  shows "enroll_inv c (s\<lparr>otps := otps s @ [x]\<rparr>)"
proof -
  note I = enroll_invD [OF inv]
  have "exclusive otp_id both_pending (otps s @ [x])"
    using none by (intro exclusive_subset [OF I(5), where r = x]) (auto simp: both_pending_def)
  then show ?thesis
    using inv x c by (simp add: enroll_inv_intro attempts_bounded_def amounts_frozen_def)
qed

lemma inv_save_otp:
  assumes inv: "enroll_inv c s" and x: "x \<in> set (otps s)" "is_pending x"
    and y: "otp_id y = otp_id x" "otp_tenant_id y = otp_tenant_id x"
      "otp_registration_id y = otp_registration_id x"
      "if is_pending y then attempt_count y < otp_max_attempts c else attempt_count y \<le> otp_max_attempts c"
    and pol: "tenant_isolation_policy cur (otp_tenant_id x)"
  shows "enroll_inv c (save_otp cur y s)"
proof -
  note I = enroll_invD [OF inv]
  let ?rows = "save_row otp_tenant_id otp_id cur y (otps s)"
  have rows: "set ?rows = insert y (set (otps s) - {x})"
    using I(2) x(1) y(1) pol by (intro save_row_unique) auto
  have ids: "map otp_id ?rows = map otp_id (otps s)"
    by (rule save_row_keys) auto
  have "\<not> both_pending z y" if "z \<in> set (otps s)" "otp_id z \<noteq> otp_id y" for z
    using exclusiveD [OF I(5) that(1) x(1)] that(2) x(2) y(1-3) by (simp add: both_pending_def)
  then have "exclusive otp_id both_pending ?rows"
    by (intro exclusive_subset [OF I(5), where r = y]) (auto simp: rows both_pending_def)
  moreover have "attempts_bounded c (save_otp cur y s)"
    using I(6) y(4) by (simp add: attempts_bounded_def list_all_iff rows)
  ultimately show ?thesis
    using inv ids by (simp add: enroll_inv_intro amounts_frozen_def)
qed

lemma inv_insert_payment:
  assumes inv: "enroll_inv c s" and p: "\<not> key_taken pay_id p (payments s)" "payment_unique_ok p s"
    and r: "r \<in> set (registrations s)" "pays_for p r"
  shows "enroll_inv c (s\<lparr>payments := payments s @ [p]\<rparr>)"
proof -
  note I = enroll_invD [OF inv]
  have "exclusive pay_id payment_conflict (payments s @ [p])"
    using p(2) by (intro exclusive_subset [OF I(7), where r = p])
      (auto simp: payment_unique_ok_def list_all_iff payment_conflict_sym)
  moreover have "amounts_frozen (s\<lparr>payments := payments s @ [p]\<rparr>)"
    using frozenD [OF I(8)] r by (intro frozenI) auto
  ultimately show ?thesis
    using inv p(1) by (simp add: enroll_inv_intro attempts_bounded_def key_taken_iff)
qed

lemma inv_save_payment:
  assumes inv: "enroll_inv c s" and p0: "p0 \<in> set (payments s)"
    and p: "pay_id p = pay_id p0" "pay_tenant_id p = pay_tenant_id p0"
      "pay_registration_id p = pay_registration_id p0" "pay_amount p = pay_amount p0" "payment_unique_ok p s"
    and pol: "tenant_isolation_policy cur (pay_tenant_id p0)"
  shows "enroll_inv c (save_payment cur p s)"
proof -
  note I = enroll_invD [OF inv]
  let ?rows = "save_row pay_tenant_id pay_id cur p (payments s)"
  have rows: "set ?rows = insert p (set (payments s) - {p0})"
    using I(3) p0 p(1) pol by (intro save_row_unique) auto
  have ids: "map pay_id ?rows = map pay_id (payments s)"
    by (rule save_row_keys) auto
  have "exclusive pay_id payment_conflict ?rows"
    using p(5) by (intro exclusive_subset [OF I(7), where r = p])
      (auto simp: rows payment_unique_ok_def list_all_iff payment_conflict_sym)
  moreover have "amounts_frozen (save_payment cur p s)"
  proof (rule frozenI)
    fix q assume "q \<in> set (payments (save_payment cur p s))"
    then have "q = p \<or> q \<in> set (payments s)" by (auto simp: rows)
    then show "\<exists>r\<in>set (registrations (save_payment cur p s)). pays_for q r"
      using frozenD [OF I(8)] p0 p(2-4) by (auto simp: pays_for_def)
  qed
  ultimately show ?thesis
    using inv ids by (simp add: enroll_inv_intro attempts_bounded_def)
qed

subsection \<open>Every endpoint keeps the invariant\<close>

lemma create_inv:
  "enroll_inv c s \<Longrightarrow> enroll_inv c (snd (create_registration digest c' t now fresh raw body s))"
  unfolding create_registration_def
  by (rule transaction_inv)
    (auto simp: and_then_eq_Inr elim!: create_draft_Inr intro: inv_insert_reg)

lemma edit_inv:
  assumes "enroll_inv c s" "get_reg cur i s = Some r0" "reg_edit r0 r"
    "reg_exam_offering_id r = reg_exam_offering_id r0" "national_code r = national_code r0"
  shows "enroll_inv c (save_reg cur r s)"
proof (rule inv_save_reg [OF assms(1) _ assms(3)])
  show "r0 \<in> set (registrations s)" "tenant_isolation_policy cur (reg_tenant_id r0)"
    using get_rowD [OF assms(2)] by auto
  show "registration_unique_ok r s"
    using assms(3-5) get_rowD(1) [OF assms(2)]
    by (intro unique_ok_unchanged [OF enroll_invD(4) [OF assms(1)], of r0]) (auto simp: reg_edit_def)
qed

lemma invalidate_pending_inv: "enroll_inv c s \<Longrightarrow> enroll_inv c (invalidate_pending cur now i s)"
  unfolding invalidate_pending_def by (rule inv_invalidate)

lemma patch_inv:
  "enroll_inv c s \<Longrightarrow> enroll_inv c (snd (patch_registration digest cur now i token body s))"
  unfolding patch_registration_def
proof (rule transaction_inv, assumption)
  fix x s'
  assume inv: "enroll_inv c s" and run: "with_draft digest cur now i token (\<lambda>r s.
      and_then (on_integrity_error duplicate_registration (patch cur now r body s)) (respond cur)) s = (Inr x, s')"
  then obtain r r' where r: "authorized_draft digest cur now i token s = Inr r"
    and p: "patch cur now r body s = (Inr r', s')"
    by (auto simp: with_draft_Inr and_then_eq_Inr)
  note d = authorized_draftD [OF r]
  from p show "enroll_inv c s'"
  proof (cases rule: patch_Inr)
    case 1
    let ?s = "if reg_phone_number r' = reg_phone_number r then s else invalidate_pending cur now (reg_id r) s"
    have "enroll_inv c ?s"
      using inv invalidate_pending_inv by simp
    then show ?thesis
      unfolding 1(6)
      using d 1(4,5) by (intro inv_save_reg [where ?r0.0 = r]) (auto simp: reg_edit_def registration_unique_ok_def)
  qed
qed

lemma rotate_inv:
  "enroll_inv c s \<Longrightarrow> enroll_inv c (snd (rotate_draft_token digest c' cur now i token raw s))"
  unfolding rotate_draft_token_def
  by (rule transaction_inv)
    (auto simp: with_draft_Inr rotate_token_def and_then_eq_Inr reg_edit_def
      intro!: edit_inv dest: authorized_draftD(1))

lemma contacts_inv:
  "enroll_inv c s \<Longrightarrow> enroll_inv c (snd (put_contacts digest cur now i token fresh body s))"
  unfolding put_contacts_def
  by (rule transaction_inv)
    (auto simp: with_draft_Inr replace_contacts_def Let_def same_core_def
      intro: enroll_inv_same_core split: if_splits)

lemma enroll_inv_media [simp]: "enroll_inv c (s\<lparr>media := m\<rparr>) = enroll_inv c s"
  by (simp add: enroll_inv_intro attempts_bounded_def amounts_frozen_def)

lemma enroll_inv_audits [simp]: "enroll_inv c (s\<lparr>audits := a\<rparr>) = enroll_inv c s"
  by (simp add: enroll_inv_intro attempts_bounded_def amounts_frozen_def)

lemma upload_image_inv:
  "enroll_inv c s \<Longrightarrow>
     enroll_inv c (snd (initiate_profile_image_upload upload digest c' t now i token m nonce body s))"
  unfolding initiate_profile_image_upload_def
proof (rule transaction_inv, assumption, goal_cases)
  case (1 x s')
  then obtain r m' where r: "authorized_draft digest (tenant_session t) now i token s = Inr r"
    and s': "s' = save_reg (tenant_session t) (r\<lparr>profile_image_id := Some m\<rparr>) (s\<lparr>media := m'\<rparr>)"
    by (auto simp: with_draft_Inr and_then_eq_Inr Let_def split: option.splits if_splits)
  have "enroll_inv c (s\<lparr>media := m'\<rparr>)"
    using 1(1) by simp
  then show ?case
    unfolding s' using authorized_draftD(1) [OF r]
    by (intro edit_inv [where i = i and ?r0.0 = r]) (auto simp: reg_edit_def)
qed

lemma complete_image_inv:
  "enroll_inv c s \<Longrightarrow>
     enroll_inv c (snd (complete_profile_image_upload head digest cur now i token m body s))"
  unfolding complete_profile_image_upload_def
  by (rule transaction_inv)
    (auto simp: with_draft_Inr split: option.splits if_splits sum.splits)

lemma send_otp_inv:
  assumes "enroll_inv c s" "0 < otp_max_attempts c"
  shows "enroll_inv c (fst (snd (send_otp send_code hmac digest c t slug now i token j code ip (s, p))))"
proof (cases "send_otp send_code hmac digest c t slug now i token j code ip (s, p)")
  case (fields res s' p')
  show ?thesis
  proof (cases res)
    case (Inl e)
    then have "s' = s"
      using fields by (auto simp: send_otp_def split: sum.splits prod.splits)
    with assms fields show ?thesis by simp
  next
    case (Inr resp)
    with fields obtain r x where send: "send send_code hmac digest c (tenant_session t) now j code r ip slug (s, p)
        = (Inr x, (s', p'))" and r: "reg_id r = i" "reg_tenant_id r = t"
      using send_otp_Inr by metis
    note f = send_Inr [OF send]
    let ?s1 = "supersede_challenges (tenant_session t) now r s"
    have inv1: "enroll_inv c ?s1"
      unfolding supersede_challenges_def using assms(1) by (rule inv_invalidate)
    have x: "otp_id x = j" "attempt_count x = 0" "otp_tenant_id x = t" "otp_registration_id x = i"
      using f(2) r by (simp_all add: new_challenge_def)
    have "otp_id ` set (otps ?s1) = otp_id ` set (otps s)"
    proof -
      have "map otp_id (otps ?s1) = map otp_id (otps s)"
        by (simp add: supersede_challenges_def update_where_keys)
      then show ?thesis by (metis list.set_map)
    qed
    moreover have "\<not> both_pending y x" if "y \<in> set (otps ?s1)" for y
    proof -
      have "y \<notin> set (pending_rows t i ?s1)"
        using superseded_none [of r now s] r by simp
      with that x show ?thesis
        by (auto simp: pending_rows_def visible_def both_pending_def is_pending_def)
    qed
    ultimately have "enroll_inv c (?s1\<lparr>otps := otps ?s1 @ [x]\<rparr>)"
      using f(3) x assms(2) by (intro inv_insert_otp [OF inv1]) auto
    moreover have "?s1\<lparr>otps := otps ?s1 @ [x]\<rparr> = s'"
      by (simp add: f(4) supersede_challenges_def)
    ultimately show ?thesis using fields by simp
  qed
qed

lemma verify_otp_inv:
  assumes "enroll_inv c s"
  shows "enroll_inv c (snd (verify_otp hmac digest c t now i token code s))"
proof (cases "authorized_draft digest (tenant_session t) now i token s")
  case (Inl e)
  with assms show ?thesis by (simp add: verify_otp_denied)
next
  case (Inr r)
  note d = authorized_draftD [OF Inr]
  note step = verify_otp_granted [OF Inr, of hmac c code]
  show ?thesis
  proof (cases rule: verify_cases [of hmac c "tenant_session t" now r code s])
    case unchanged
    with assms show ?thesis by (simp add: step)
  next
    case (challenge x y)
    note x = pending_challengeD [OF challenge(1)]
    have bound: "attempt_count x < otp_max_attempts c"
      using enroll_invD(6) [OF assms] x(1,5,6)
      by (auto simp: attempts_bounded_def list_all_iff is_pending_def)
    have "if is_pending y then attempt_count y < otp_max_attempts c else attempt_count y \<le> otp_max_attempts c"
      using challenge(8,9) bound
      by (cases "otp_max_attempts c \<le> attempt_count y") (auto simp: is_pending_def)
    then have inv1: "enroll_inv c (save_otp (tenant_session t) y s)"
      using challenge(2-4) x by (intro inv_save_otp [OF assms x(1)]) (auto simp: is_pending_def)
    have "enroll_inv c (save_reg (tenant_session t)
        (r\<lparr>phone_verified_at := Some now, reg_status := Reg_PHONE_VERIFIED\<rparr>) (save_otp (tenant_session t) y s))"
      using d(1) by (intro edit_inv [OF inv1, where i = i]) (auto simp: reg_edit_def)
    with inv1 challenge(10) show ?thesis by (elim disjE conjE) (simp_all add: step)
  qed
qed

lemma submit_inv:
  "enroll_inv c s \<Longrightarrow> enroll_inv c (snd (submit_registration validator digest cur now i token s))"
  unfolding submit_registration_def
proof (rule transaction_inv, assumption)
  fix x s'
  assume inv: "enroll_inv c s" and run: "with_draft digest cur now i token (\<lambda>r s.
      and_then (on_integrity_error duplicate_registration (submit validator cur now r s)) (respond cur)) s
      = (Inr x, s')"
  then obtain r r' where r: "authorized_draft digest cur now i token s = Inr r"
    and p: "submit validator cur now r s = (Inr r', s')"
    by (auto simp: with_draft_Inr and_then_eq_Inr)
  note d = authorized_draftD [OF r]
  from p inv show "enroll_inv c s'"
    by (cases rule: submit_Inr)
      (auto intro!: edit_inv [OF inv d(1)] simp: reg_edit_def)
qed

lemma pay_inv:
  assumes "enroll_inv c s"
  shows "enroll_inv c (fst (snd (initiate_payment gi gn enc digest c' cur now i token tid nonce key (s, g))))"
proof (cases "initiate_payment gi gn enc digest c' cur now i token tid nonce key (s, g)")
  case (fields res s' g')
  show ?thesis
  proof (cases res)
    case (Inl e)
    then have "s' = s"
      using fields by (auto simp: initiate_payment_def split: sum.splits prod.splits)
    with assms fields show ?thesis by simp
  next
    case (Inr resp)
    with fields obtain r where r: "authorized_draft digest cur now i token s = Inr r"
      and init: "initiate gi gn enc digest c' cur now tid nonce r key (s, g) = (Inr resp, (s', g'))"
      by (auto simp: initiate_payment_Inr)
    note d = authorized_draftD [OF r]
    from init have "enroll_inv c s'"
    proof (cases rule: initiate_Inr)
      case (found p)
      with assms show ?thesis by simp
    next
      case (fresh p result)
      have inv1: "enroll_inv c (s\<lparr>payments := payments s @ [p]\<rparr>)"
        using fresh(4,8,9,24,25) d(2) by (intro inv_insert_payment [OF assms, of p r]) (auto simp: pays_for_def)
      show ?thesis
        unfolding fresh(26) using d(1) by (intro edit_inv [OF inv1, where i = i]) (auto simp: reg_edit_def)
    qed
    with fields show ?thesis by simp
  qed
qed

lemma callback_inv:
  assumes "enroll_inv c s"
  shows "enroll_inv c (fst (snd (payment_callback gv gn dec digest c' now prov state q (s, g))))"
proof (cases "payment_callback gv gn dec digest c' now prov state q (s, g)")
  case (fields res s' g')
  show ?thesis
  proof (cases res)
    case (Inl e)
    with assms fields payment_callback_error show ?thesis by (metis fst_conv snd_conv)
  next
    case (Inr out)
    obtain tid st where "out = (tid, st)" by (cases out)
    with fields Inr obtain t nonce p0 where
      v: "verify_callback gv gn digest (tenant_session t) now tid nonce (q(lit ''state'' := None)) (s, g)
          = (Inr p0, (s', g'))"
      by (auto simp: payment_callback_Inr)
    then have "enroll_inv c s'"
    proof (cases rule: verify_callback_Inr)
      case again
      with assms show ?thesis by simp
    next
      case (now p auth result r)
      note p = get_rowD [OF now(1)]
      have inv1: "enroll_inv c (save_payment (tenant_session t) p0 s)"
        using p now(8,9) by (intro inv_save_payment [OF assms, of p]) auto
      show ?thesis
        unfolding now(10) using now(7) by (intro edit_inv [OF inv1]) (auto simp: reg_edit_def)
    qed
    with fields show ?thesis by simp
  qed
qed

lemma admin_inv:
  "enroll_inv c s \<Longrightarrow> enroll_inv c (snd (update_registration cur now actor i body s))"
  unfolding update_registration_def
proof (rule transaction_inv, assumption, goal_cases)
  case (1 x s')
  then obtain r where r: "get_reg cur i s = Some r"
    and s': "\<exists>a. s' = (save_reg cur (admin_set body r) s)\<lparr>audits := a\<rparr>"
    by (auto simp: admin_get_def admin_update_registration_def and_then_eq_Inr Let_def
        split: option.splits if_splits)
  have "enroll_inv c (save_reg cur (admin_set body r) s)"
    using 1(1) r by (intro edit_inv) (auto simp: reg_edit_def admin_set_def)
  with s' show ?case by auto
qed

lemma enroll_step_inv:
  assumes "enroll_inv (settings_of V) s" "0 < otp_max_attempts (settings_of V)"
  shows "enroll_inv (settings_of V) (fst (enroll_step V e (s, p, g)))"
proof (cases e)
  case (Send_otp t slug now i token j code ip)
  then show ?thesis
    using send_otp_inv [OF assms] by (simp add: case_prod_beta)
next
  case (Pay t now i token tid nonce key)
  then show ?thesis
    using pay_inv [OF assms(1)] by (simp add: case_prod_beta)
next
  case (Callback now provider state query)
  then show ?thesis
    using callback_inv [OF assms(1)] by (simp add: case_prod_beta)
qed (use assms in \<open>simp_all add: create_inv patch_inv rotate_inv contacts_inv upload_image_inv
      complete_image_inv verify_otp_inv submit_inv admin_inv\<close>)

section \<open>Other tenants' rows\<close>

record tenant_rows =
  view_registrations :: "registration list"
  view_contacts :: "registration_contact list"
  view_otps :: "otp_challenge list"
  view_payments :: "payment_transaction list"
  view_media :: "media_asset list"
  view_audits :: "audit_event list"

definition tenant_view :: "uuid \<Rightarrow> reg_db \<Rightarrow> tenant_rows" where
  "tenant_view t s =
     \<lparr>view_registrations = visible reg_tenant_id (tenant_session t) (registrations s),
      view_contacts = visible contact_tenant_id (tenant_session t) (contacts s),
      view_otps = visible otp_tenant_id (tenant_session t) (otps s),
      view_payments = visible pay_tenant_id (tenant_session t) (payments s),
      view_media = visible media_tenant_id (tenant_session t) (media s),
      view_audits = visible audit_tenant_id (tenant_session t) (audits s)\<rparr>"

text \<open>The tenant an event works for; a callback names it in its signed state.\<close>

fun event_tenant :: "('p, 'g) services \<Rightarrow> enroll_event \<Rightarrow> uuid option" where
  "event_tenant V (Create t now fresh raw body) = Some t"
| "event_tenant V (Patch t now i token body) = Some t"
| "event_tenant V (Rotate t now i token raw) = Some t"
| "event_tenant V (Contacts t now i token fresh body) = Some t"
| "event_tenant V (Upload_image t now i token m nonce body) = Some t"
| "event_tenant V (Complete_image t now i token m body) = Some t"
| "event_tenant V (Send_otp t slug now i token j code ip) = Some t"
| "event_tenant V (Verify_otp t now i token code) = Some t"
| "event_tenant V (Submit t now i token) = Some t"
| "event_tenant V (Pay t now i token tid nonce key) = Some t"
| "event_tenant V (Callback now provider state query) =
     (case callback_claims (decode_of V) (settings_of V) now provider state of
        Inl e \<Rightarrow> None | Inr (t, tid, nonce) \<Rightarrow> Some t)"
| "event_tenant V (Admin_update t now actor i body) = Some t"

text \<open>A change confined to the rows of one tenant.\<close>

definition confined :: "uuid \<Rightarrow> reg_db \<Rightarrow> reg_db \<Rightarrow> bool" where
  "confined u s s' \<longleftrightarrow> (\<forall>t. t \<noteq> u \<longrightarrow> tenant_view t s' = tenant_view t s)"

lemma confined_refl [simp]: "confined u s s"
  by (simp add: confined_def)

lemma confined_trans: "confined u s s1 \<Longrightarrow> confined u s1 s2 \<Longrightarrow> confined u s s2"
  by (simp add: confined_def)

lemma confined_transaction:
  "(\<And>x s'. body s = (Inr x, s') \<Longrightarrow> confined u s s') \<Longrightarrow> confined u s (snd (transaction body s))"
  by (rule transaction_inv) auto

named_theorems confinement \<open>statements of one tenant's session\<close>

lemma confined_save_reg [confinement]:
  "reg_tenant_id r = u \<Longrightarrow> confined u s (save_reg (tenant_session u) r s)"
  by (simp add: confined_def tenant_view_def isolation)

lemma confined_save_otp [confinement]:
  "otp_tenant_id x = u \<Longrightarrow> confined u s (save_otp (tenant_session u) x s)"
  by (simp add: confined_def tenant_view_def isolation)

lemma confined_save_payment [confinement]:
  "pay_tenant_id p = u \<Longrightarrow> confined u s (save_payment (tenant_session u) p s)"
  by (simp add: confined_def tenant_view_def isolation)

lemma confined_save_media [confinement]:
  "media_tenant_id m = u \<Longrightarrow> confined u s (save_media (tenant_session u) m s)"
  by (simp add: confined_def tenant_view_def isolation)

lemma confined_update_otps [confinement]:
  "(\<And>x. otp_tenant_id (f x) = otp_tenant_id x) \<Longrightarrow>
     confined u s (s\<lparr>otps := update_where otp_tenant_id (tenant_session u) P f (otps s)\<rparr>)"
  by (simp add: confined_def tenant_view_def isolation)

lemma confined_append [confinement]:
  "reg_tenant_id r = u \<Longrightarrow> confined u s (s\<lparr>registrations := registrations s @ [r]\<rparr>)"
  "otp_tenant_id x = u \<Longrightarrow> confined u s (s\<lparr>otps := otps s @ [x]\<rparr>)"
  "pay_tenant_id p = u \<Longrightarrow> confined u s (s\<lparr>payments := payments s @ [p]\<rparr>)"
  "media_tenant_id m = u \<Longrightarrow> confined u s (s\<lparr>media := insert_row m (media s)\<rparr>)"
  "audit_tenant_id a = u \<Longrightarrow> confined u s (s\<lparr>audits := insert_row a (audits s)\<rparr>)"
  by (simp_all add: confined_def tenant_view_def visible_def insert_row_def)

lemma confined_contacts [confinement]:
  "(\<And>x. x \<in> set new \<Longrightarrow> contact_tenant_id x = u) \<Longrightarrow>
     confined u s (s\<lparr>contacts := delete_where contact_tenant_id (tenant_session u) P (contacts s) @ new\<rparr>)"
  by (auto simp: confined_def tenant_view_def visible_def delete_where_def filter_empty_conv
      intro!: filter_cong)

lemmas confined_simps = confined_def tenant_view_def isolation

lemma authorized_tenant:
  "authorized_draft digest (tenant_session t) now i token s = Inr r \<Longrightarrow> reg_tenant_id r = t"
  using authorized_draftD(4) by fastforce

lemma create_confined: "confined t s (snd (create_registration digest c t now fresh raw body s))"
  unfolding create_registration_def
  by (rule confined_transaction) (auto simp: and_then_eq_Inr elim!: create_draft_Inr intro: confinement)

lemma patch_confined: "confined t s (snd (patch_registration digest (tenant_session t) now i token body s))"
  unfolding patch_registration_def
proof (rule confined_transaction)
  fix x s'
  assume "with_draft digest (tenant_session t) now i token (\<lambda>r s. and_then (on_integrity_error
      duplicate_registration (patch (tenant_session t) now r body s)) (respond (tenant_session t))) s = (Inr x, s')"
  then obtain r r' where r: "authorized_draft digest (tenant_session t) now i token s = Inr r"
    and p: "patch (tenant_session t) now r body s = (Inr r', s')"
    by (auto simp: with_draft_Inr and_then_eq_Inr)
  from p show "confined t s s'"
    using authorized_tenant [OF r]
    by (auto elim!: patch_Inr simp: confined_simps invalidate_pending_def)
qed

lemma rotate_confined:
  "confined t s (snd (rotate_draft_token digest c (tenant_session t) now i token raw s))"
  unfolding rotate_draft_token_def
  by (rule confined_transaction)
    (auto simp: with_draft_Inr rotate_token_def and_then_eq_Inr intro!: confinement dest: authorized_tenant)

lemma new_contacts_tenant: "x \<in> set (new_contacts r fresh inputs) \<Longrightarrow> contact_tenant_id x = reg_tenant_id r"
  by (auto simp: new_contacts_def)

lemma contacts_confined:
  "confined t s (snd (put_contacts digest (tenant_session t) now i token fresh body s))"
  unfolding put_contacts_def
proof (rule confined_transaction)
  fix x s'
  assume "with_draft digest (tenant_session t) now i token
      (\<lambda>r. replace_contacts (tenant_session t) fresh r body) s = (Inr x, s')"
  then obtain r where r: "authorized_draft digest (tenant_session t) now i token s = Inr r"
    and out: "replace_contacts (tenant_session t) fresh r body s = (Inr x, s')"
    by (auto simp: with_draft_Inr)
  have "s' = s\<lparr>contacts := delete_where contact_tenant_id (tenant_session t)
      (\<lambda>x. contact_registration_id x = reg_id r) (contacts s) @ new_contacts r fresh body\<rparr>"
    using out by (auto simp: replace_contacts_def Let_def split: if_splits)
  then show "confined t s s'"
    using new_contacts_tenant authorized_tenant [OF r] by (auto intro!: confined_contacts)
qed

lemma upload_image_confined:
  "confined t s (snd (initiate_profile_image_upload upload digest c t now i token m nonce body s))"
  unfolding initiate_profile_image_upload_def
proof (rule confined_transaction, goal_cases)
  case (1 x s')
  then obtain r a where r: "authorized_draft digest (tenant_session t) now i token s = Inr r"
    and a: "a = pending_asset t m nonce (or_default (allowed_extension c body) []) body None Vis_PRIVATE"
    and s': "s' = save_reg (tenant_session t) (r\<lparr>profile_image_id := Some m\<rparr>)
        (s\<lparr>media := insert_row a (media s)\<rparr>)"
    by (auto simp: with_draft_Inr and_then_eq_Inr Let_def split: option.splits if_splits)
  then show ?case
    using authorized_tenant [OF r] by (simp add: confined_simps pending_asset_def)
qed

lemma complete_image_confined:
  "confined t s (snd (complete_profile_image_upload head digest (tenant_session t) now i token m body s))"
  unfolding complete_profile_image_upload_def
  by (rule confined_transaction)
    (auto simp: with_draft_Inr mark_ready_def intro!: confinement dest!: get_rowD(2)
      split: option.splits if_splits sum.splits)

lemma send_otp_confined:
  "confined t s (fst (snd (send_otp send_code hmac digest c t slug now i token j code ip (s, p))))"
proof (cases "send_otp send_code hmac digest c t slug now i token j code ip (s, p)")
  case (fields res s' p')
  show ?thesis
  proof (cases res)
    case (Inl e)
    with fields show ?thesis by (auto simp: send_otp_def split: sum.splits prod.splits)
  next
    case (Inr resp)
    with fields obtain r x where send: "send send_code hmac digest c (tenant_session t) now j code r ip slug (s, p)
        = (Inr x, (s', p'))" and r: "reg_tenant_id r = t"
      using send_otp_Inr by metis
    note f = send_Inr [OF send]
    let ?s1 = "supersede_challenges (tenant_session t) now r s"
    have "confined t s ?s1"
      unfolding supersede_challenges_def by (rule confinement) simp
    moreover have "confined t ?s1 (?s1\<lparr>otps := otps ?s1 @ [x]\<rparr>)"
      using f(2) r by (intro confinement) (simp add: new_challenge_def)
    moreover have "?s1\<lparr>otps := otps ?s1 @ [x]\<rparr> = s'"
      by (simp add: f(4) supersede_challenges_def)
    ultimately show ?thesis
      using fields confined_trans by (metis fst_conv snd_conv)
  qed
qed

lemma verify_otp_confined: "confined t s (snd (verify_otp hmac digest c t now i token code s))"
proof (cases "authorized_draft digest (tenant_session t) now i token s")
  case (Inl e)
  then show ?thesis by (simp add: verify_otp_denied)
next
  case (Inr r)
  note step = verify_otp_granted [OF Inr, of hmac c code]
  show ?thesis
  proof (cases rule: verify_cases [of hmac c "tenant_session t" now r code s])
    case unchanged
    then show ?thesis by (simp add: step)
  next
    case (challenge x y)
    then show ?thesis
      using pending_challengeD(2) [OF challenge(1)] authorized_tenant [OF Inr] unfolding step
      by (elim disjE conjE) (simp_all add: confined_simps)
  qed
qed

lemma submit_confined:
  "confined t s (snd (submit_registration validator digest (tenant_session t) now i token s))"
  unfolding submit_registration_def
  by (rule confined_transaction)
    (auto simp: with_draft_Inr and_then_eq_Inr elim!: submit_Inr intro!: confinement dest: authorized_tenant)

lemma pay_confined:
  "confined t s (fst (snd (initiate_payment gi gn enc digest c (tenant_session t) now i token tid nonce key (s, g))))"
proof (cases "initiate_payment gi gn enc digest c (tenant_session t) now i token tid nonce key (s, g)")
  case (fields res s' g')
  show ?thesis
  proof (cases res)
    case (Inl e)
    with fields show ?thesis by (auto simp: initiate_payment_def split: sum.splits prod.splits)
  next
    case (Inr resp)
    with fields obtain r where r: "authorized_draft digest (tenant_session t) now i token s = Inr r"
      and init: "initiate gi gn enc digest c (tenant_session t) now tid nonce r key (s, g) = (Inr resp, (s', g'))"
      by (auto simp: initiate_payment_Inr)
    from init have "confined t s s'"
    proof (cases rule: initiate_Inr)
      case (fresh p result)
      show ?thesis
        unfolding fresh(26) using authorized_tenant [OF r] fresh(8)
        by (simp add: confined_simps visible_append_other)
    qed simp
    with fields show ?thesis by simp
  qed
qed

lemma callback_confined:
  assumes "callback_claims dec c now prov state = Inr (t, tid, nonce)"
  shows "confined t s (fst (snd (payment_callback gv gn dec digest c now prov state q (s, g))))"
proof (cases "payment_callback gv gn dec digest c now prov state q (s, g)")
  case (fields res s' g')
  show ?thesis
  proof (cases res)
    case (Inl e)
    with fields payment_callback_error show ?thesis by (metis confined_refl fst_conv snd_conv)
  next
    case (Inr out)
    obtain tid' st where "out = (tid', st)" by (cases out)
    with fields Inr assms obtain p0 where
      v: "verify_callback gv gn digest (tenant_session t) now tid nonce (q(lit ''state'' := None)) (s, g)
          = (Inr p0, (s', g'))"
      by (auto simp: payment_callback_Inr)
    then have "confined t s s'"
    proof (cases rule: verify_callback_Inr)
      case (now p auth result r)
      show ?thesis
        unfolding now(10) using get_rowD(2) [OF now(1)] get_rowD(2) [OF now(7)] now(8)
        by (simp add: confined_simps)
    qed simp
    with fields show ?thesis by simp
  qed
qed

lemma callback_no_claims:
  assumes "callback_claims dec c now prov state = Inl e"
  shows "fst (snd (payment_callback gv gn dec digest c now prov state q (s, g))) = s"
  using assms by (auto simp: payment_callback_def)

lemma admin_confined: "confined t s (snd (update_registration (tenant_session t) now actor i body s))"
  unfolding update_registration_def
proof (rule confined_transaction, goal_cases)
  case (1 x s')
  then obtain r where r: "get_reg (tenant_session t) i s = Some r"
    and s': "s' = (save_reg (tenant_session t) (admin_set body r) s)\<lparr>audits := insert_row
      (registration_audit ''registration.admin_updated'' now (reg_tenant_id r) actor (Some (reg_id r))
        (sorted_changes body)) (audits s)\<rparr>"
    by (auto simp: admin_get_def admin_update_registration_def and_then_eq_Inr Let_def
        split: option.splits if_splits)
  show ?case
    unfolding s' using get_rowD(2) [OF r]
    by (simp add: confined_simps admin_set_def registration_audit_def)
qed

lemma confinedD: "confined u s s' \<Longrightarrow> t \<noteq> u \<Longrightarrow> tenant_view t s' = tenant_view t s"
  by (simp add: confined_def)

lemmas step_confined = create_confined [THEN confinedD] patch_confined [THEN confinedD]
  rotate_confined [THEN confinedD] contacts_confined [THEN confinedD] upload_image_confined [THEN confinedD]
  complete_image_confined [THEN confinedD] send_otp_confined [THEN confinedD]
  verify_otp_confined [THEN confinedD] submit_confined [THEN confinedD] pay_confined [THEN confinedD]
  admin_confined [THEN confinedD]

lemma enroll_step_confined:
  "event_tenant V e \<noteq> Some t \<Longrightarrow> tenant_view t (fst (enroll_step V e (s, p, g))) = tenant_view t s"
proof (cases e)
  case (Callback now provider state query)
  assume other: "event_tenant V e \<noteq> Some t"
  show ?thesis
  proof (cases "callback_claims (decode_of V) (settings_of V) now provider state")
    case (Inl x)
    then show ?thesis
      using Callback by (simp add: case_prod_beta callback_no_claims [OF Inl])
  next
    case (Inr claims)
    obtain u tid nonce where claims: "claims = (u, tid, nonce)" by (cases claims)
    with other Callback Inr have "t \<noteq> u" by auto
    then show ?thesis
      using Callback callback_confined [OF Inr [unfolded claims], where gv = "gateway_verify_of V"
          and gn = "gateway_name_of V" and digest = "digest_of V" and q = "map_of query" and g = g]
      by (simp add: case_prod_beta confined_def)
  qed
qed (simp_all add: case_prod_beta step_confined)

section \<open>Exam capacity\<close>

definition holds_seat :: "uuid \<Rightarrow> uuid \<Rightarrow> registration \<Rightarrow> bool" where
  "holds_seat t e r \<longleftrightarrow> reg_tenant_id r = t \<and> reg_exam_offering_id r = e \<and> reg_status r \<in> SUBMITTED_STATUSES"

definition seats_taken :: "uuid \<Rightarrow> uuid \<Rightarrow> reg_db \<Rightarrow> nat" where
  "seats_taken t e s = count_if (holds_seat t e) (registrations s)"

lemma submitted_count_seats: "submitted_count (tenant_session t) e s = seats_taken t e s"
  by (simp add: submitted_count_def seats_taken_def count_if_def select_where_def visible_def
      holds_seat_def [abs_def] conj_assoc)

definition within_capacity :: "reg_db \<Rightarrow> bool" where
  "within_capacity s \<longleftrightarrow>
     list_all (\<lambda>exam. case exam_capacity exam of None \<Rightarrow> True
       | Some cap \<Rightarrow> int (seats_taken (exam_tenant_id exam) (exam_id exam) s) \<le> cap) (exams s)"

text \<open>A payment still open belongs to a registration that already holds its seat.\<close>

definition open_payments_seated :: "reg_db \<Rightarrow> bool" where
  "open_payments_seated s \<longleftrightarrow>
     list_all (\<lambda>p. settled p \<or> list_all (\<lambda>r. if reg_id r = pay_registration_id p
         then reg_status r \<in> SUBMITTED_STATUSES else True) (registrations s)) (payments s)"

definition seat_inv :: "settings \<Rightarrow> reg_db \<Rightarrow> bool" where
  "seat_inv c s \<longleftrightarrow> enroll_inv c s \<and> distinct (map exam_id (exams s)) \<and> within_capacity s
     \<and> open_payments_seated s"

lemma openD:
  "open_payments_seated s \<Longrightarrow> p \<in> set (payments s) \<Longrightarrow> \<not> settled p \<Longrightarrow> r \<in> set (registrations s) \<Longrightarrow>
     reg_id r = pay_registration_id p \<Longrightarrow> reg_status r \<in> SUBMITTED_STATUSES"
  by (auto simp: open_payments_seated_def list_all_iff)

lemma openI:
  "(\<And>p r. p \<in> set (payments s) \<Longrightarrow> \<not> settled p \<Longrightarrow> r \<in> set (registrations s) \<Longrightarrow>
     reg_id r = pay_registration_id p \<Longrightarrow> reg_status r \<in> SUBMITTED_STATUSES) \<Longrightarrow> open_payments_seated s"
  by (auto simp: open_payments_seated_def list_all_iff)

lemma within_capacity_mono:
  assumes "within_capacity s" "exams s' = exams s" "\<And>t e. seats_taken t e s' \<le> seats_taken t e s"
  shows "within_capacity s'"
  unfolding within_capacity_def assms(2) list_all_iff
proof
  fix exam assume "exam \<in> set (exams s)"
  then show "case exam_capacity exam of None \<Rightarrow> True
      | Some cap \<Rightarrow> int (seats_taken (exam_tenant_id exam) (exam_id exam) s') \<le> cap"
    using assms(1) assms(3) [of "exam_tenant_id exam" "exam_id exam"]
    by (auto simp: within_capacity_def list_all_iff split: option.splits)
qed

text \<open>The events whose registration stays seated or stays unseated.\<close>

lemma seat_same:
  assumes "seat_inv c s" "enroll_inv c s'" "exams s' = exams s" "registrations s' = registrations s"
    "payments s' = payments s"
  shows "seat_inv c s'"
proof -
  have "within_capacity s'"
    by (rule within_capacity_mono [of s]) (use assms in \<open>simp_all add: seat_inv_def seats_taken_def\<close>)
  then show ?thesis
    using assms by (simp add: seat_inv_def open_payments_seated_def)
qed

lemma seats_after_save:
  assumes "distinct (map reg_id (registrations s))" "r0 \<in> set (registrations s)" "reg_id r = reg_id r0"
    "tenant_isolation_policy cur (reg_tenant_id r0)" "registrations s' = save_row reg_tenant_id reg_id cur r (registrations s)"
  shows "seats_taken t e s' + (if holds_seat t e r0 then 1 else 0)
       = seats_taken t e s + (if holds_seat t e r then 1 else 0)"
  unfolding seats_taken_def assms(5) using assms(1-4) by (intro count_if_save_row) auto

lemma seat_edit:
  assumes inv: "seat_inv c s" and inv': "enroll_inv c s'" and ex: "exams s' = exams s"
    and r0: "r0 \<in> set (registrations s)" "reg_id r = reg_id r0" "reg_tenant_id r = reg_tenant_id r0"
      "reg_exam_offering_id r = reg_exam_offering_id r0" "tenant_isolation_policy cur (reg_tenant_id r0)"
    and rows: "registrations s' = save_row reg_tenant_id reg_id cur r (registrations s)"
    and seat: "reg_status r \<in> SUBMITTED_STATUSES \<Longrightarrow> reg_status r0 \<in> SUBMITTED_STATUSES"
    and pays: "\<And>p. p \<in> set (payments s') \<Longrightarrow> \<not> settled p \<Longrightarrow>
        p \<in> set (payments s) \<or> pay_registration_id p = reg_id r0"
    and kept: "\<And>p. p \<in> set (payments s') \<Longrightarrow> \<not> settled p \<Longrightarrow> pay_registration_id p = reg_id r0 \<Longrightarrow>
        reg_status r \<in> SUBMITTED_STATUSES"
  shows "seat_inv c s'"
proof -
  have E: "enroll_inv c s" "distinct (map exam_id (exams s))" "within_capacity s" "open_payments_seated s"
    using inv by (simp_all add: seat_inv_def)
  have "seats_taken t e s' \<le> seats_taken t e s" for t e
    using seats_after_save [OF enroll_invD(1) [OF E(1)] r0(1,2,5) rows, of t e] seat r0(3,4)
    by (auto simp: holds_seat_def split: if_splits)
  then have "within_capacity s'"
    using within_capacity_mono [OF E(3) ex] by simp
  moreover have "open_payments_seated s'"
  proof (rule openI)
    fix p x assume h: "p \<in> set (payments s')" "\<not> settled p" "x \<in> set (registrations s')"
      "reg_id x = pay_registration_id p"
    have rset: "set (registrations s') = insert r (set (registrations s) - {r0})"
      unfolding rows using enroll_invD(1) [OF E(1)] r0 by (intro save_row_unique) auto
    show "reg_status x \<in> SUBMITTED_STATUSES"
    proof (cases "x = r")
      case True
      then show ?thesis using kept h r0(2) by simp
    next
      case False
      with h(3) rset have x: "x \<in> set (registrations s)" "x \<noteq> r0" by auto
      then have "reg_id x \<noteq> reg_id r0"
        using enroll_invD(1) [OF E(1)] r0(1) by (auto simp: distinct_map inj_on_def)
      then have "p \<in> set (payments s)"
        using pays h by auto
      then show ?thesis using openD [OF E(4)] h x by auto
    qed
  qed
  ultimately show ?thesis
    using inv' E(2) ex by (simp add: seat_inv_def)
qed

text \<open>
  The events a careful operator allows: codes are verified only on registrations still being
  edited, nothing cancelled is restored, and nothing with an open payment is cancelled.
\<close>

fun seat_safe :: "reg_db \<times> 'p \<times> 'g \<Rightarrow> enroll_event \<Rightarrow> bool" where
  "seat_safe (s, p, g) (Verify_otp t now i token code) =
     (case get_reg (tenant_session t) i s of None \<Rightarrow> True | Some r \<Rightarrow> reg_status r \<in> MUTABLE_STATUSES)"
| "seat_safe (s, p, g) (Admin_update t now actor i body) =
     (au_status body \<noteq> Some (Some Request_SUBMITTED)
      \<and> (if au_status body = Some (Some Request_CANCELLED)
         then list_all (\<lambda>x. settled x \<or> pay_registration_id x \<noteq> i) (payments s) else True))"
| "seat_safe (s, p, g) e = True"

lemma mutable_not_submitted: "x \<in> MUTABLE_STATUSES \<Longrightarrow> x \<notin> SUBMITTED_STATUSES"
  by (auto simp: MUTABLE_STATUSES_def SUBMITTED_STATUSES_def)

lemma seat_transaction:
  assumes "seat_inv c s" "enroll_inv c (snd (transaction body s))"
    "\<And>x s'. body s = (Inr x, s') \<Longrightarrow> enroll_inv c s' \<Longrightarrow> seat_inv c s'"
  shows "seat_inv c (snd (transaction body s))"
  by (rule transaction_cases [of body s]) (use assms in auto)

lemma seat_invE: "seat_inv c s \<Longrightarrow> enroll_inv c s"
  by (simp add: seat_inv_def)

lemma create_seat:
  assumes inv: "seat_inv c s"
  shows "seat_inv c (snd (create_registration digest c' t now fresh raw body s))"
  unfolding create_registration_def
proof (rule seat_transaction [OF inv], goal_cases)
  case 1
  show ?case using create_inv [OF seat_invE [OF inv]] by (simp add: create_registration_def)
next
  case (2 x s')
  then obtain r where r: "s' = s\<lparr>registrations := registrations s @ [r]\<rparr>"
    "reg_status r = Reg_PHONE_VERIFICATION_REQUIRED" "reg_id r = fresh" "fresh \<notin> reg_id ` set (registrations s)"
    by (auto simp: and_then_eq_Inr elim!: create_draft_Inr)
  have le: "seats_taken t e s' \<le> seats_taken t e s" for t e
    using r(2) by (simp add: seats_taken_def r(1) holds_seat_def SUBMITTED_STATUSES_def)
  have "within_capacity s" "exams s' = exams s"
    using inv r(1) by (simp_all add: seat_inv_def)
  then have "within_capacity s'"
    using le by (rule within_capacity_mono)
  moreover have "open_payments_seated s'"
  proof (rule openI)
    fix p x assume h: "p \<in> set (payments s')" "\<not> settled p" "x \<in> set (registrations s')"
      "reg_id x = pay_registration_id p"
    obtain y where "y \<in> set (registrations s)" "pays_for p y"
      using frozenD [OF enroll_invD(8) [OF seat_invE [OF inv]]] h(1) r(1) by auto
    then have "reg_id x \<noteq> fresh"
      using h(4) r(4) unfolding pays_for_def by (metis image_eqI)
    then have "x \<noteq> r" using r(3) by auto
    then show "reg_status x \<in> SUBMITTED_STATUSES"
      using openD [of s p x] inv h r(1) by (auto simp: seat_inv_def)
  qed
  ultimately show ?case
    using 2(2) inv r(1) by (simp add: seat_inv_def)
qed

lemma patch_seat:
  assumes inv: "seat_inv c s"
  shows "seat_inv c (snd (patch_registration digest cur now i token body s))"
  unfolding patch_registration_def
proof (rule seat_transaction [OF inv], goal_cases)
  case 1
  show ?case using patch_inv [OF seat_invE [OF inv]] by (simp add: patch_registration_def)
next
  case (2 x s')
  then obtain r r' where r: "authorized_draft digest cur now i token s = Inr r"
    and p: "patch cur now r body s = (Inr r', s')"
    by (auto simp: with_draft_Inr and_then_eq_Inr)
  note d = authorized_draftD [OF r]
  from p have st: "reg_status r \<in> MUTABLE_STATUSES" and r': "r' = patched body r"
    and eq: "exams s' = exams s" "payments s' = payments s"
      "registrations s' = save_row reg_tenant_id reg_id cur r' (registrations s)"
    by (auto elim!: patch_Inr)
  show ?case
  proof (rule seat_edit [OF inv 2(2) eq(1) d(2) _ _ _ d(4) eq(3)])
    show "reg_status r' \<in> SUBMITTED_STATUSES \<Longrightarrow> reg_status r \<in> SUBMITTED_STATUSES"
      using mutable_not_submitted [OF patched_mutable [OF st, of body]] r' by simp
    show "reg_status r' \<in> SUBMITTED_STATUSES"
      if "q \<in> set (payments s')" "\<not> settled q" "pay_registration_id q = reg_id r" for q
      using openD [of s q r] that inv d(2) mutable_not_submitted [OF st] eq(2) by (auto simp: seat_inv_def)
  qed (use r' eq in auto)
qed

text \<open>Edits that keep the status keep the seats.\<close>

lemma seat_keep_status:
  assumes "seat_inv c s" "enroll_inv c s'" "exams s' = exams s" "payments s' = payments s"
    "registrations s' = save_row reg_tenant_id reg_id cur r (registrations s)"
    "r0 \<in> set (registrations s)" "reg_id r = reg_id r0" "reg_tenant_id r = reg_tenant_id r0"
    "reg_exam_offering_id r = reg_exam_offering_id r0" "tenant_isolation_policy cur (reg_tenant_id r0)"
    "reg_status r = reg_status r0"
  shows "seat_inv c s'"
proof (rule seat_edit [OF assms(1-3,6-10) assms(5)])
  show "reg_status r \<in> SUBMITTED_STATUSES"
    if "q \<in> set (payments s')" "\<not> settled q" "pay_registration_id q = reg_id r0" for q
    using openD [of s q r0] that assms by (auto simp: seat_inv_def)
qed (use assms in auto)

lemma rotate_seat:
  assumes inv: "seat_inv c s"
  shows "seat_inv c (snd (rotate_draft_token digest c' cur now i token raw s))"
  unfolding rotate_draft_token_def
proof (rule seat_transaction [OF inv], goal_cases)
  case 1
  show ?case using rotate_inv [OF seat_invE [OF inv]] by (simp add: rotate_draft_token_def)
next
  case (2 x s')
  then obtain r r' where r: "authorized_draft digest cur now i token s = Inr r"
    and s': "s' = save_reg cur r' s" "r' = fst (rotate_token digest c' now raw r)"
    by (auto simp: with_draft_Inr rotate_token_def and_then_eq_Inr)
  show ?case
    by (rule seat_keep_status [OF inv 2(2), of cur r' r])
      (use authorized_draftD [OF r] s' in \<open>simp_all add: rotate_token_def\<close>)
qed

lemma contacts_seat:
  assumes inv: "seat_inv c s"
  shows "seat_inv c (snd (put_contacts digest cur now i token fresh body s))"
  unfolding put_contacts_def
proof (rule seat_transaction [OF inv], goal_cases)
  case 1
  show ?case using contacts_inv [OF seat_invE [OF inv]] by (simp add: put_contacts_def)
next
  case (2 x s')
  then show ?case
    by (intro seat_same [OF inv 2(2)])
      (auto simp: with_draft_Inr replace_contacts_def Let_def split: if_splits)
qed

lemma upload_image_seat:
  assumes inv: "seat_inv c s"
  shows "seat_inv c (snd (initiate_profile_image_upload upload digest c' t now i token m nonce body s))"
  unfolding initiate_profile_image_upload_def
proof (rule seat_transaction [OF inv], goal_cases)
  case 1
  show ?case using upload_image_inv [OF seat_invE [OF inv]] by (simp add: initiate_profile_image_upload_def)
next
  case (2 x s')
  then obtain r m' where r: "authorized_draft digest (tenant_session t) now i token s = Inr r"
    and s': "s' = save_reg (tenant_session t) (r\<lparr>profile_image_id := Some m\<rparr>) (s\<lparr>media := m'\<rparr>)"
    by (auto simp: with_draft_Inr and_then_eq_Inr Let_def split: option.splits if_splits)
  show ?case
    by (rule seat_keep_status [OF inv 2(2), of "tenant_session t" "r\<lparr>profile_image_id := Some m\<rparr>" r])
      (use authorized_draftD [OF r] s' in simp_all)
qed

lemma complete_image_seat:
  assumes inv: "seat_inv c s"
  shows "seat_inv c (snd (complete_profile_image_upload head digest cur now i token m body s))"
  unfolding complete_profile_image_upload_def
proof (rule seat_transaction [OF inv], goal_cases)
  case 1
  show ?case using complete_image_inv [OF seat_invE [OF inv]] by (simp add: complete_profile_image_upload_def)
next
  case (2 x s')
  then show ?case
    by (intro seat_same [OF inv 2(2)])
      (auto simp: with_draft_Inr split: option.splits if_splits sum.splits)
qed

lemma send_otp_seat:
  assumes inv: "seat_inv c s" and c: "0 < otp_max_attempts c"
  shows "seat_inv c (fst (snd (send_otp send_code hmac digest c t slug now i token j code ip (s, p))))"
proof (rule seat_same [OF inv send_otp_inv [OF seat_invE [OF inv] c]])
  obtain res s' p' where run: "send_otp send_code hmac digest c t slug now i token j code ip (s, p) = (res, (s', p'))"
    using prod.exhaust by metis
  have "exams s' = exams s \<and> registrations s' = registrations s \<and> payments s' = payments s"
  proof (cases res)
    case (Inl e)
    with run show ?thesis by (auto simp: send_otp_def split: sum.splits prod.splits)
  next
    case (Inr resp)
    with run obtain r x where sent: "send send_code hmac digest c (tenant_session t) now j code r ip slug (s, p)
        = (Inr x, (s', p'))"
      using send_otp_Inr by metis
    show ?thesis by (simp add: send_Inr(4) [OF sent])
  qed
  with run show "exams (fst (snd (send_otp send_code hmac digest c t slug now i token j code ip (s, p)))) = exams s"
    "registrations (fst (snd (send_otp send_code hmac digest c t slug now i token j code ip (s, p)))) = registrations s"
    "payments (fst (snd (send_otp send_code hmac digest c t slug now i token j code ip (s, p)))) = payments s"
    by simp_all
qed

lemma verify_otp_seat:
  assumes inv: "seat_inv c s"
    and safe: "case get_reg (tenant_session t) i s of None \<Rightarrow> True | Some r \<Rightarrow> reg_status r \<in> MUTABLE_STATUSES"
  shows "seat_inv c (snd (verify_otp hmac digest c t now i token code s))"
proof (cases "authorized_draft digest (tenant_session t) now i token s")
  case (Inl e)
  with inv show ?thesis by (simp add: verify_otp_denied)
next
  case (Inr r)
  note d = authorized_draftD [OF Inr]
  note step = verify_otp_granted [OF Inr, of hmac c code]
  have st: "reg_status r \<in> MUTABLE_STATUSES" using safe d(1) by simp
  have inv': "enroll_inv c (snd (verify_otp hmac digest c t now i token code s))"
    by (rule verify_otp_inv [OF seat_invE [OF inv]])
  show ?thesis
  proof (cases rule: verify_cases [of hmac c "tenant_session t" now r code s])
    case unchanged
    with inv show ?thesis by (simp add: step)
  next
    case (challenge x y)
    let ?r = "r\<lparr>phone_verified_at := Some now, reg_status := Reg_PHONE_VERIFIED\<rparr>"
    from challenge(10) consider "snd (verify hmac c (tenant_session t) now r code s) = save_otp (tenant_session t) y s"
      | "snd (verify hmac c (tenant_session t) now r code s) = save_reg (tenant_session t) ?r (save_otp (tenant_session t) y s)"
      by blast
    then show ?thesis
    proof cases
      case 1
      then show ?thesis using inv' by (intro seat_same [OF inv]) (simp_all add: step)
    next
      case 2
      show ?thesis
      proof (rule seat_edit [OF inv inv' _ d(2) _ _ _ d(4), where r = ?r])
        show "reg_status ?r \<in> SUBMITTED_STATUSES"
          if "q \<in> set (payments (snd (verify_otp hmac digest c t now i token code s)))" "\<not> settled q"
            "pay_registration_id q = reg_id r" for q
          using openD [of s q r] that inv d(2) mutable_not_submitted [OF st] 2
          by (simp add: seat_inv_def step)
      qed (use 2 in \<open>simp_all add: step SUBMITTED_STATUSES_def\<close>)
    qed
  qed
qed

lemma submit_seat:
  assumes inv: "seat_inv c s"
  shows "seat_inv c (snd (submit_registration validator digest (tenant_session t) now i token s))"
  unfolding submit_registration_def
proof (rule seat_transaction [OF inv], goal_cases)
  case 1
  show ?case using submit_inv [OF seat_invE [OF inv]] by (simp add: submit_registration_def)
next
  case (2 x s')
  then obtain r r' where r: "authorized_draft digest (tenant_session t) now i token s = Inr r"
    and p: "submit validator (tenant_session t) now r s = (Inr r', s')"
    by (auto simp: with_draft_Inr and_then_eq_Inr)
  note d = authorized_draftD [OF r]
  have t: "reg_tenant_id r = t" by (rule authorized_tenant [OF r])
  from p show ?case
  proof (cases rule: submit_Inr)
    case again
    with inv show ?thesis by simp
  next
    case (submitted exam)
    have E: "distinct (map exam_id (exams s))" "within_capacity s" "open_payments_seated s"
      using inv by (simp_all add: seat_inv_def)
    have not_seated: "reg_status r \<notin> SUBMITTED_STATUSES"
      by (rule mutable_not_submitted [OF submitted(1)])
    have seats: "seats_taken u e s' = seats_taken u e s + (if u = t \<and> e = reg_exam_offering_id r then 1 else 0)" for u e
      using seats_after_save [OF enroll_invD(1) [OF seat_invE [OF inv]] d(2) _ d(4), of r' s' u e] submitted(11,13)
        not_seated t
      by (auto simp: holds_seat_def SUBMITTED_STATUSES_def)
    have "within_capacity s'"
      unfolding within_capacity_def list_all_iff
    proof
      fix ex assume ex: "ex \<in> set (exams s')"
      then have "ex \<in> set (exams s)" by (simp add: submitted(13))
      have old: "case exam_capacity ex of None \<Rightarrow> True
          | Some cap \<Rightarrow> int (seats_taken (exam_tenant_id ex) (exam_id ex) s) \<le> cap"
        using E(2) \<open>ex \<in> set (exams s)\<close> by (simp add: within_capacity_def list_all_iff)
      have "exam_id ex = reg_exam_offering_id r \<Longrightarrow> ex = exam"
        using E(1) \<open>ex \<in> set (exams s)\<close> get_rowD [OF submitted(4)] by (auto simp: distinct_map inj_on_def)
      then show "case exam_capacity ex of None \<Rightarrow> True
          | Some cap \<Rightarrow> int (seats_taken (exam_tenant_id ex) (exam_id ex) s') \<le> cap"
        using old submitted(10) submitted_count_seats [of t "reg_exam_offering_id r" s]
        by (auto simp: seats split: option.splits)
    qed
    moreover have "open_payments_seated s'"
    proof (rule openI)
      fix p x assume h: "p \<in> set (payments s')" "\<not> settled p" "x \<in> set (registrations s')"
        "reg_id x = pay_registration_id p"
      then have "x = r' \<or> x \<in> set (registrations s)"
        using submitted(13) by (auto dest: in_save_rowD)
      then show "reg_status x \<in> SUBMITTED_STATUSES"
        using openD [OF E(3)] h submitted(11,13) by (auto simp: SUBMITTED_STATUSES_def)
    qed
    ultimately show ?thesis
      using 2(2) E(1) by (simp add: seat_inv_def submitted(13))
  qed
qed

lemma pay_seat:
  assumes inv: "seat_inv c s"
  shows "seat_inv c (fst (snd (initiate_payment gi gn enc digest c' cur now i token tid nonce key (s, g))))"
proof -
  obtain res s' g' where run: "initiate_payment gi gn enc digest c' cur now i token tid nonce key (s, g)
      = (res, (s', g'))"
    using prod.exhaust by metis
  have inv': "enroll_inv c s'"
    using pay_inv [OF seat_invE [OF inv], of gi gn enc digest c' cur now i token tid nonce key g] run by simp
  show ?thesis
  proof (cases res)
    case (Inl e)
    then have "s' = s"
      using run by (auto simp: initiate_payment_def split: sum.splits prod.splits)
    with inv run show ?thesis by simp
  next
    case (Inr resp)
    with run obtain r where r: "authorized_draft digest cur now i token s = Inr r"
      and init: "initiate gi gn enc digest c' cur now tid nonce r key (s, g) = (Inr resp, (s', g'))"
      by (auto simp: initiate_payment_Inr)
    note d = authorized_draftD [OF r]
    from init have "seat_inv c s'"
    proof (cases rule: initiate_Inr)
      case (found p)
      with inv show ?thesis by simp
    next
      case (fresh p result)
      have st: "reg_status r \<in> SUBMITTED_STATUSES"
        using fresh(3) by (auto simp: SUBMITTED_STATUSES_def)
      show ?thesis
        by (rule seat_edit [OF inv inv' _ d(2) _ _ _ d(4), where r = "r\<lparr>reg_status := Reg_PAYMENT_PENDING\<rparr>"])
          (use fresh(9,26) st in \<open>auto simp: SUBMITTED_STATUSES_def\<close>)
    qed
    with run show ?thesis by simp
  qed
qed

lemma callback_seat:
  assumes inv: "seat_inv c s"
  shows "seat_inv c (fst (snd (payment_callback gv gn dec digest c' now prov state q (s, g))))"
proof -
  obtain res s' g' where run: "payment_callback gv gn dec digest c' now prov state q (s, g) = (res, (s', g'))"
    using prod.exhaust by metis
  have inv': "enroll_inv c s'"
    using callback_inv [OF seat_invE [OF inv], of gv gn dec digest c' now prov state q g] run by simp
  show ?thesis
  proof (cases res)
    case (Inl e)
    with inv run payment_callback_error show ?thesis by (metis fst_conv snd_conv)
  next
    case (Inr out)
    obtain tid st where "out = (tid, st)" by (cases out)
    with run Inr obtain t nonce p0 where
      v: "verify_callback gv gn digest (tenant_session t) now tid nonce (q(lit ''state'' := None)) (s, g)
          = (Inr p0, (s', g'))"
      by (auto simp: payment_callback_Inr)
    then have "seat_inv c s'"
    proof (cases rule: verify_callback_Inr)
      case again
      with inv show ?thesis by simp
    next
      case (now p auth result r)
      note p = get_rowD [OF now(1)] and r = get_rowD [OF now(7)]
      have opened: "open_payments_seated s" using inv by (simp add: seat_inv_def)
      have seated: "reg_status r \<in> SUBMITTED_STATUSES"
        by (rule openD [OF opened p(1) now(4) r(1) r(3)])
      have new: "reg_status (settle_registration result r) \<in> SUBMITTED_STATUSES"
        by (simp add: SUBMITTED_STATUSES_def)
      have "settled p0" by (simp add: now(8))
      then have pays: "q' \<in> set (payments s)" if "q' \<in> set (payments s')" "\<not> settled q'" for q'
        using that now(10) by (auto dest: in_save_rowD)
      show ?thesis
        by (rule seat_edit [OF inv inv' _ r(1) _ _ _ r(2), where r = "settle_registration result r"])
          (use now(10) seated new pays in auto)
    qed
    with run show ?thesis by simp
  qed
qed

lemma admin_seat:
  assumes inv: "seat_inv c s" and safe: "seat_safe (s, p, g) (Admin_update t now' actor' i body)"
  shows "seat_inv c (snd (update_registration (tenant_session t) now actor i body s))"
  unfolding update_registration_def
proof (rule seat_transaction [OF inv], goal_cases)
  case 1
  show ?case using admin_inv [OF seat_invE [OF inv]] by (simp add: update_registration_def)
next
  case (2 x s')
  then obtain r where r: "get_reg (tenant_session t) i s = Some r"
    and s': "registrations s' = save_row reg_tenant_id reg_id (tenant_session t) (admin_set body r) (registrations s)"
      "payments s' = payments s" "exams s' = exams s"
    by (auto simp: admin_get_def admin_update_registration_def and_then_eq_Inr Let_def
        split: option.splits if_splits)
  note d = get_rowD [OF r]
  have opened: "open_payments_seated s" using inv by (simp add: seat_inv_def)
  have req: "au_status body \<noteq> Some (Some Request_SUBMITTED)"
    using safe by simp
  have status: "reg_status (admin_set body r) = reg_status r
      \<or> (reg_status (admin_set body r) = Reg_CANCELLED \<and> au_status body = Some (Some Request_CANCELLED))"
    using req by (auto simp: admin_set_def split: option.splits admin_status.splits)
  show ?case
  proof (rule seat_edit [OF inv 2(2) s'(3) d(1) _ _ _ d(2) s'(1)])
    show "reg_status (admin_set body r) \<in> SUBMITTED_STATUSES \<Longrightarrow> reg_status r \<in> SUBMITTED_STATUSES"
      using status by (auto simp: SUBMITTED_STATUSES_def)
    show "reg_status (admin_set body r) \<in> SUBMITTED_STATUSES"
      if q: "q \<in> set (payments s')" "\<not> settled q" "pay_registration_id q = reg_id r" for q
    proof -
      have "q \<in> set (payments s)" using q(1) s'(2) by simp
      then have "au_status body \<noteq> Some (Some Request_CANCELLED)"
        using safe q(2,3) d(3) by (auto simp: list_all_iff)
      then show ?thesis
        using status openD [OF opened \<open>q \<in> set (payments s)\<close> q(2) d(1)] q(3) by auto
    qed
  qed (use s' in \<open>simp_all add: admin_set_def\<close>)
qed

lemma seat_step_inv:
  assumes inv: "seat_inv (settings_of V) s" and c: "0 < otp_max_attempts (settings_of V)"
    and safe: "seat_safe (s, p, g) e"
  shows "seat_inv (settings_of V) (fst (enroll_step V e (s, p, g)))"
proof (cases e)
  case (Send_otp t slug now i token j code ip)
  then show ?thesis
    by (simp add: case_prod_beta send_otp_seat [OF inv c])
next
  case (Verify_otp t now i token code)
  then show ?thesis
    using safe by (simp add: verify_otp_seat [OF inv])
next
  case (Admin_update t now actor i body)
  then show ?thesis
    using admin_seat [OF inv, where p = p and g = g] safe by simp
qed (simp_all add: case_prod_beta create_seat patch_seat rotate_seat contacts_seat upload_image_seat
    complete_image_seat submit_seat pay_seat callback_seat inv)

section \<open>Histories\<close>

interpretation enrollment: inductive_invariant "enroll_step V" "\<lambda>_ _. True"
  "\<lambda>(s, p, g). enroll_inv (settings_of V) s \<and> 0 < otp_max_attempts (settings_of V)" for V
  using enroll_step_inv [of V] by unfold_locales (auto split: prod.splits, metis fst_conv)

interpretation seating: inductive_invariant "enroll_step V" seat_safe
  "\<lambda>(s, p, g). seat_inv (settings_of V) s \<and> 0 < otp_max_attempts (settings_of V)" for V
  using seat_step_inv [of V] by unfold_locales (auto split: prod.splits, metis fst_conv)

interpretation tenants: tenant_confinement "enroll_step V" "event_tenant V"
  "\<lambda>t (s, p, g). tenant_view t s" for V
  using enroll_step_confined [of V] by unfold_locales (auto split: prod.splits, metis fst_conv)

text \<open>A tenant's database before anyone has registered.\<close>

definition no_registrations :: "reg_db \<Rightarrow> reg_db" where
  "no_registrations s = s\<lparr>registrations := [], contacts := [], otps := [], payments := []\<rparr>"

lemma no_registrations_inv: "enroll_inv c (no_registrations s)"
  by (simp add: no_registrations_def enroll_inv_intro attempts_bounded_def amounts_frozen_def)

end
