(* ===== verification/EnrollmentProperties.thy ===== *)
theory EnrollmentProperties
  imports Enrollment
begin

text \<open>
  What holds of every history of the enrolment system of \<open>Enrollment\<close>: at most one code of a
  registration is pending, the OTP rate limit holds over every window of an hour, tenants never
  touch each other's rows, and an exam's capacity is respected by careful histories only.
\<close>

section \<open>The trace of sent codes\<close>

definition otp_key :: "otp_challenge \<Rightarrow> uuid \<times> ustr \<times> instant" where
  "otp_key x = (otp_tenant_id x, otp_phone_number x, otp_created_at x)"

definition otp_trace :: "reg_db \<Rightarrow> (uuid \<times> ustr \<times> instant) list" where
  "otp_trace s = map otp_key (otps s)"

lemma otp_trace_eq: "otps s' = otps s \<Longrightarrow> otp_trace s' = otp_trace s"
  by (simp add: otp_trace_def)

lemma trace_transaction:
  "(\<And>x s'. body s = (Inr x, s') \<Longrightarrow> otp_trace s' = otp_trace s) \<Longrightarrow>
     otp_trace (snd (transaction body s)) = otp_trace s"
  by (rule transaction_inv) auto

lemma trace_update: "(\<And>x. otp_key (f x) = otp_key x) \<Longrightarrow> map otp_key (update_where otp_tenant_id cur P f rows) = map otp_key rows"
  by (simp add: update_where_keys)

lemma patch_trace: "otp_trace (snd (patch_registration digest cur now i token body s)) = otp_trace s"
  unfolding patch_registration_def
  by (rule trace_transaction)
    (auto simp: with_draft_Inr and_then_eq_Inr otp_trace_def invalidate_pending_def trace_update otp_key_def
      elim!: patch_Inr)

lemma create_trace: "otp_trace (snd (create_registration digest c t now fresh raw body s)) = otp_trace s"
  unfolding create_registration_def
  by (rule trace_transaction) (auto simp: and_then_eq_Inr otp_trace_def elim!: create_draft_Inr)

lemma rotate_trace: "otp_trace (snd (rotate_draft_token digest c cur now i token raw s)) = otp_trace s"
  unfolding rotate_draft_token_def
  by (rule trace_transaction) (auto simp: with_draft_Inr rotate_token_def and_then_eq_Inr otp_trace_def)

lemma contacts_trace: "otp_trace (snd (put_contacts digest cur now i token fresh body s)) = otp_trace s"
  unfolding put_contacts_def
  by (rule trace_transaction)
    (auto simp: with_draft_Inr replace_contacts_def Let_def otp_trace_def split: if_splits)

lemma upload_trace:
  "otp_trace (snd (initiate_profile_image_upload upload digest c t now i token m nonce body s)) = otp_trace s"
  unfolding initiate_profile_image_upload_def
  by (rule trace_transaction)
    (auto simp: with_draft_Inr and_then_eq_Inr Let_def otp_trace_def split: option.splits if_splits)

lemma complete_trace:
  "otp_trace (snd (complete_profile_image_upload head digest cur now i token m body s)) = otp_trace s"
  unfolding complete_profile_image_upload_def
  by (rule trace_transaction)
    (auto simp: with_draft_Inr otp_trace_def split: option.splits if_splits sum.splits)

lemma submit_trace: "otp_trace (snd (submit_registration validator digest cur now i token s)) = otp_trace s"
  unfolding submit_registration_def
  by (rule trace_transaction) (auto simp: with_draft_Inr and_then_eq_Inr otp_trace_def elim!: submit_Inr)

lemma admin_trace: "otp_trace (snd (update_registration cur now actor i body s)) = otp_trace s"
  unfolding update_registration_def
  by (rule trace_transaction)
    (auto simp: admin_get_def admin_update_registration_def and_then_eq_Inr Let_def otp_trace_def
      split: option.splits if_splits)

lemma save_otp_trace:
  assumes "x \<in> set (otps s)" "otp_id y = otp_id x" "otp_key y = otp_key x" "distinct (map otp_id (otps s))"
  shows "otp_trace (save_otp cur y s) = otp_trace s"
proof -
  have "otp_key z = otp_key y" if "z \<in> set (otps s)" "otp_id z = otp_id y" for z
    using assms that by (auto simp: distinct_map inj_on_def)
  then show ?thesis
    by (simp add: otp_trace_def save_row_keys)
qed

lemma verify_trace:
  assumes "distinct (map otp_id (otps s))"
  shows "otp_trace (snd (verify_otp hmac digest c t now i token code s)) = otp_trace s"
proof (cases "authorized_draft digest (tenant_session t) now i token s")
  case (Inl e)
  then show ?thesis by (simp add: verify_otp_denied)
next
  case (Inr r)
  note step = verify_otp_granted [OF Inr, of hmac c code]
  show ?thesis
  proof (cases rule: verify_cases [of hmac c "tenant_session t" now r code s])
    case unchanged
    then show ?thesis by (simp add: step)
  next
    case (challenge x y)
    have "otp_trace (save_otp (tenant_session t) y s) = otp_trace s"
      using pending_challengeD(1) [OF challenge(1)] challenge(2-6) assms
      by (intro save_otp_trace) (auto simp: otp_key_def)
    then show ?thesis
      using challenge(10) by (auto simp: step otp_trace_def)
  qed
qed

lemma pay_trace:
  "otp_trace (fst (snd (initiate_payment gi gn enc digest c cur now i token tid nonce key (s, g)))) = otp_trace s"
proof -
  obtain res s' g' where run: "initiate_payment gi gn enc digest c cur now i token tid nonce key (s, g)
      = (res, (s', g'))"
    using prod.exhaust by metis
  have "otp_trace s' = otp_trace s"
  proof (cases res)
    case (Inl e)
    with run show ?thesis by (auto simp: initiate_payment_def split: sum.splits prod.splits)
  next
    case (Inr resp)
    with run obtain r where "initiate gi gn enc digest c cur now tid nonce r key (s, g) = (Inr resp, (s', g'))"
      by (auto simp: initiate_payment_Inr)
    then show ?thesis
      by (cases rule: initiate_Inr) (auto simp: otp_trace_def)
  qed
  with run show ?thesis by simp
qed

lemma callback_trace:
  "otp_trace (fst (snd (payment_callback gv gn dec digest c now prov state q (s, g)))) = otp_trace s"
proof -
  obtain res s' g' where run: "payment_callback gv gn dec digest c now prov state q (s, g) = (res, (s', g'))"
    using prod.exhaust by metis
  have "otp_trace s' = otp_trace s"
  proof (cases res)
    case (Inl e)
    with run payment_callback_error show ?thesis by metis
  next
    case (Inr out)
    obtain tid st where "out = (tid, st)" by (cases out)
    with run Inr obtain t nonce p0 where
      "verify_callback gv gn digest (tenant_session t) now tid nonce (q(lit ''state'' := None)) (s, g)
          = (Inr p0, (s', g'))"
      by (auto simp: payment_callback_Inr)
    then show ?thesis
      by (cases rule: verify_callback_Inr) (auto simp: otp_trace_def)
  qed
  with run show ?thesis by simp
qed

text \<open>A send adds one entry, and only below the hourly limit of its number.\<close>

lemma send_trace:
  "otp_trace (fst (snd (send_otp send_code hmac digest c t slug now i token j code ip (s, p)))) = otp_trace s
   \<or> (\<exists>phone. otp_trace (fst (snd (send_otp send_code hmac digest c t slug now i token j code ip (s, p))))
         = otp_trace s @ [(t, phone, now)]
       \<and> phone_count (tenant_session t) now phone s < otp_phone_hourly_limit c)"
proof -
  obtain res s' p' where run: "send_otp send_code hmac digest c t slug now i token j code ip (s, p) = (res, (s', p'))"
    using prod.exhaust by metis
  show ?thesis
  proof (cases res)
    case (Inl e)
    with run have "s' = s" by (auto simp: send_otp_def split: sum.splits prod.splits)
    with run show ?thesis by simp
  next
    case (Inr resp)
    with run obtain r x where sent: "send send_code hmac digest c (tenant_session t) now j code r ip slug (s, p)
        = (Inr x, (s', p'))" and r: "reg_tenant_id r = t"
      using send_otp_Inr by metis
    note f = send_Inr [OF sent]
    have "otp_trace s' = otp_trace s @ [(t, reg_phone_number r, now)]"
      using r by (simp add: otp_trace_def f(2,4) supersede_challenges_def trace_update otp_key_def new_challenge_def)
    moreover have "phone_count (tenant_session t) now (reg_phone_number r) s < otp_phone_hourly_limit c"
      using f(1) by (auto simp: send_refused_def split: if_splits)
    ultimately show ?thesis
      using run by auto
  qed
qed

section \<open>The hourly limit\<close>

text \<open>The codes a tenant sent to a number in the hour that ends at an instant.\<close>

definition sent_in_hour :: "uuid \<Rightarrow> ustr \<Rightarrow> instant \<Rightarrow> reg_db \<Rightarrow> nat" where
  "sent_in_hour t phone until s =
     count_if (\<lambda>(t', phone', at). t' = t \<and> phone' = phone \<and> until - seconds 3600 \<le> at \<and> at \<le> until)
       (otp_trace s)"

fun event_time :: "enroll_event \<Rightarrow> instant" where
  "event_time (Create t now fresh raw body) = now"
| "event_time (Patch t now i token body) = now"
| "event_time (Rotate t now i token raw) = now"
| "event_time (Contacts t now i token fresh body) = now"
| "event_time (Upload_image t now i token m nonce body) = now"
| "event_time (Complete_image t now i token m body) = now"
| "event_time (Send_otp t slug now i token j code ip) = now"
| "event_time (Verify_otp t now i token code) = now"
| "event_time (Submit t now i token) = now"
| "event_time (Pay t now i token tid nonce key) = now"
| "event_time (Callback now provider state query) = now"
| "event_time (Admin_update t now actor i body) = now"

text \<open>The clock does not run backwards past a code already sent.\<close>

fun clock_ahead :: "reg_db \<times> 'p \<times> 'g \<Rightarrow> enroll_event \<Rightarrow> bool" where
  "clock_ahead (s, p, g) e = list_all (\<lambda>x. otp_created_at x \<le> event_time e) (otps s)"

lemma phone_count_trace:
  "phone_count (tenant_session t) now phone s =
     count_if (\<lambda>(t', phone', at). t' = t \<and> phone' = phone \<and> at \<ge> now - seconds 3600) (otp_trace s)"
  by (simp add: phone_count_def otp_trace_def count_if_map count_if_def select_where_def visible_def
      otp_key_def comp_def conj_assoc)

lemma trace_step:
  assumes "distinct (map otp_id (otps s))"
  shows "otp_trace (fst (enroll_step V e (s, p, g))) = otp_trace s
     \<or> (\<exists>t phone. otp_trace (fst (enroll_step V e (s, p, g))) = otp_trace s @ [(t, phone, event_time e)]
         \<and> phone_count (tenant_session t) (event_time e) phone s < otp_phone_hourly_limit (settings_of V))"
proof (cases e)
  case (Send_otp t slug now i token j code ip)
  then show ?thesis
    using send_trace [of "otp_send_of V" "hmac_of V" "digest_of V" "settings_of V" t slug now i token j code ip s p]
    by (auto simp: case_prod_beta)
qed (simp_all add: case_prod_beta create_trace patch_trace rotate_trace contacts_trace upload_trace
    complete_trace verify_trace [OF assms] submit_trace pay_trace callback_trace admin_trace)

definition within_hourly_limit :: "settings \<Rightarrow> reg_db \<Rightarrow> bool" where
  "within_hourly_limit c s \<longleftrightarrow> (\<forall>t phone until. sent_in_hour t phone until s \<le> otp_phone_hourly_limit c)"

lemma hourly_step:
  assumes lim: "within_hourly_limit c s" and clock: "list_all (\<lambda>(t, phone, at). at \<le> now) (otp_trace s)"
    and count: "phone_count (tenant_session t) now phone s < otp_phone_hourly_limit c"
    and trace: "otp_trace s' = otp_trace s @ [(t, phone, now)]"
  shows "within_hourly_limit c s'"
  unfolding within_hourly_limit_def
proof (intro allI)
  fix t' phone' until
  let ?W = "\<lambda>(u :: uuid, ph :: ustr, at :: instant). u = t' \<and> ph = phone' \<and> until - seconds 3600 \<le> at \<and> at \<le> until"
  have old: "count_if ?W (otp_trace s) \<le> otp_phone_hourly_limit c"
    using lim by (simp add: within_hourly_limit_def sent_in_hour_def)
  show "sent_in_hour t' phone' until s' \<le> otp_phone_hourly_limit c"
  proof (cases "?W (t, phone, now)")
    case False
    with old show ?thesis by (auto simp: sent_in_hour_def trace)
  next
    case True
    then have "count_if ?W (otp_trace s) \<le> phone_count (tenant_session t) now phone s"
      unfolding phone_count_trace by (intro count_if_mono) auto
    with count True show ?thesis by (simp add: sent_in_hour_def trace)
  qed
qed

interpretation rate_limit: inductive_invariant "enroll_step V" clock_ahead
  "\<lambda>(s, p, g). enroll_inv (settings_of V) s \<and> 0 < otp_max_attempts (settings_of V)
     \<and> within_hourly_limit (settings_of V) s" for V
proof unfold_locales
  fix st :: "reg_db \<times> 'a \<times> 'b" and e
  assume inv: "case st of (s, p, g) \<Rightarrow> enroll_inv (settings_of V) s \<and> 0 < otp_max_attempts (settings_of V)
      \<and> within_hourly_limit (settings_of V) s" and clock: "clock_ahead st e"
  obtain s p g where st: "st = (s, p, g)" by (cases st)
  obtain s' p' g' where step: "enroll_step V e st = (s', p', g')" by (cases "enroll_step V e st")
  have ids: "distinct (map otp_id (otps s))"
    using inv st enroll_invD(2) by auto
  have "within_hourly_limit (settings_of V) s'"
    using trace_step [OF ids, of V e p g]
  proof (elim disjE exE conjE)
    assume "otp_trace (fst (enroll_step V e (s, p, g))) = otp_trace s"
    then show ?thesis
      using inv st step by (simp add: within_hourly_limit_def sent_in_hour_def)
  next
    fix t phone
    assume "otp_trace (fst (enroll_step V e (s, p, g))) = otp_trace s @ [(t, phone, event_time e)]"
      "phone_count (tenant_session t) (event_time e) phone s < otp_phone_hourly_limit (settings_of V)"
    moreover have "list_all (\<lambda>(t, phone, at). at \<le> event_time e) (otp_trace s)"
      using clock st by (simp add: otp_trace_def list.pred_map otp_key_def comp_def)
    ultimately show ?thesis
      using inv st step hourly_step [of "settings_of V" s "event_time e" t phone s'] by simp
  qed
  moreover have "enroll_inv (settings_of V) s'"
    using enroll_step_inv [of V s e p g] inv st step by simp
  ultimately show "case enroll_step V e st of (s, p, g) \<Rightarrow> enroll_inv (settings_of V) s
      \<and> 0 < otp_max_attempts (settings_of V) \<and> within_hourly_limit (settings_of V) s"
    using inv st step by simp
qed

section \<open>Properties\<close>

lemma initial_enroll_inv:
  "settings_bounds (settings_of V) \<Longrightarrow>
     (\<lambda>(s, p, g). enroll_inv (settings_of V) s \<and> 0 < otp_max_attempts (settings_of V)) (no_registrations s, p, g)"
  by (simp add: no_registrations_inv settings_bounds_def between_def)

text \<open>
  in every history at most one code of a registration is pending, a pending code was guessed
  fewer times than allowed, and no code was ever guessed more often.
\<close>

theorem one_pending_code:
  assumes "settings_bounds (settings_of V)"
  shows "case run (enroll_step V) es (no_registrations s, p, g) of
     (s', p', g') \<Rightarrow> exclusive otp_id both_pending (otps s')
       \<and> list_all (\<lambda>x. if consumed_at x = None \<and> invalidated_at x = None
            then attempt_count x < otp_max_attempts (settings_of V)
            else attempt_count x \<le> otp_max_attempts (settings_of V)) (otps s')"
proof -
  obtain s' p' g' where run: "run (enroll_step V) es (no_registrations s, p, g) = (s', p', g')"
    using prod.exhaust by metis
  then have "enroll_inv (settings_of V) s'"
    using enrollment.inv_run [OF initial_enroll_inv [OF assms], of es s p g] by simp
  from enroll_invD(5,6) [OF this] run show ?thesis
    by (simp add: attempts_bounded_def is_pending_def)
qed

text \<open>
  C10: tenants never touch each other: whatever requests of other tenants run, and whatever
  callbacks whose signed state names another tenant or nobody arrive, a tenant's registrations,
  contacts, codes, payments, media and audit entries are exactly what they were.
\<close>

theorem other_tenants_change_nothing:
  "case run (enroll_step V) (filter (\<lambda>e. event_tenant V e \<noteq> Some t) es) (s, p, g) of
     (s', p', g') \<Rightarrow> tenant_view t s' = tenant_view t s"
  using tenants.view_run_others [of t V es "(s, p, g)"] by (auto split: prod.splits)


text \<open>
  C11: over every window of an hour, at any time, a tenant sends no more codes to one phone number
  than the hourly limit, in every history in which the clock does not run backwards.
\<close>

theorem hourly_code_limit:
  assumes "settings_bounds (settings_of V)"
    and "legal (enroll_step V) clock_ahead es (no_registrations s, p, g)"
  shows "case run (enroll_step V) es (no_registrations s, p, g) of
     (s', p', g') \<Rightarrow> count_if (\<lambda>x. otp_tenant_id x = t \<and> otp_phone_number x = phone
         \<and> until - seconds 3600 \<le> otp_created_at x \<and> otp_created_at x \<le> until) (otps s')
       \<le> otp_phone_hourly_limit (settings_of V)"
proof -
  have "within_hourly_limit (settings_of V) (no_registrations s)"
    by (simp add: within_hourly_limit_def sent_in_hour_def otp_trace_def no_registrations_def)
  then have "(\<lambda>(s, p, g). enroll_inv (settings_of V) s \<and> 0 < otp_max_attempts (settings_of V)
      \<and> within_hourly_limit (settings_of V) s) (no_registrations s, p, g)"
    using initial_enroll_inv [OF assms(1)] by auto
  from rate_limit.inv_run [OF this assms(2)] show ?thesis
    by (auto simp: within_hourly_limit_def sent_in_hour_def otp_trace_def otp_key_def count_if_map
        comp_def case_prod_beta)
qed

section \<open>Witnesses\<close>

text \<open>
  The mock services, and a history of one applicant: the draft is created, a code is sent to its
  phone and verified.
\<close>

definition sample_services :: "(sent_codes, ustr list) services" where
  "sample_services =
     \<lparr>digest_of = id, hmac_of = \<lambda>k m. m, settings_of = default_settings,
      validator_of = \<lambda>schema value. Schema_ok, encode_of = numbered_encode, decode_of = numbered_decode,
      otp_send_of = mock_send_code, gateway_initiate_of = mock_initiate, gateway_verify_of = mock_verify,
      gateway_name_of = mock_name,
      upload_of = \<lambda>r. \<lparr>presigned_url = [], presigned_fields = []\<rparr>,
      head_of = \<lambda>k. Head_error (lit ''404'') None\<rparr>"

definition sample_history :: "enroll_event list" where
  "sample_history =
     [Create 1 3 7 (lit ''secret'')
        \<lparr>create_exam_offering_id = 10, create_pricing_plan_id = Some 20,
         create_phone_number = lit ''+989121234567''\<rparr>,
      Send_otp 1 (lit ''slug'') 9 7 (lit ''secret'') 70 (lit ''123456'') (lit ''127.0.0.1''),
      Verify_otp 1 10 7 (lit ''secret'') (lit ''123456'')]"

lemma sample_services_bounds: "settings_bounds (settings_of sample_services)"
  by (simp add: sample_services_def default_settings_in_bounds)

definition sample_start :: "reg_db \<times> sent_codes \<times> ustr list" where
  "sample_start = (no_registrations (sample_db []), \<lambda>_. None, [])"

definition sample_created :: reg_db where
  "sample_created = (sample_db [])\<lparr>registrations :=
     [(sample_draft 7)\<lparr>first_name := None, last_name := None, reg_gender := None, national_code := None,
        father_name := None, birth_date := None, current_school_id := None, previous_school_id := None,
        postal_code := None, address := None, profile_image_id := None,
        reg_status := Reg_PHONE_VERIFICATION_REQUIRED, phone_verified_at := None, reg_created_at := 3,
        draft_token_expires_at := 3 + seconds 2592000\<rparr>]\<rparr>"

lemma sample_step1: "enroll_step sample_services (hd sample_history) sample_start = (sample_created, \<lambda>_. None, [])"
  by (simp add: sample_history_def sample_start_def sample_created_def no_registrations_def
      create_registration_def create_draft_def sample_services_def table_eval sample_defs
      resolve_plan_def active_definition_def plan_association_def key_taken_def respond_def
      registration_response_def transaction_def)

definition sample_sent :: reg_db where
  "sample_sent = sample_created\<lparr>otps := [new_challenge (\<lambda>k m. m) default_settings 9 70 (lit ''123456'')
     (lit ''127.0.0.1'') (hd (registrations sample_created))]\<rparr>"

lemma sample_step2:
  "enroll_step sample_services (sample_history ! 1) (sample_created, \<lambda>_. None, [])
     = (sample_sent, [lit ''+989121234567'' \<mapsto> lit ''123456''], [])"
  by (simp add: sample_history_def sample_sent_def sample_created_def sample_services_def send_otp_def
      send_def authorized_draft_def send_refused_def phone_count_def ip_count_def tenant_count_def
      latest_challenge_def active_count_def supersede_challenges_def key_taken_def mock_send_code_def
      new_challenge_def ip_hash_def seconds_def table_eval sample_defs)

lemma legal_three:
  "ok s1 a \<Longrightarrow> step a s1 = s2 \<Longrightarrow> ok s2 b \<Longrightarrow> step b s2 = s3 \<Longrightarrow> ok s3 c \<Longrightarrow> legal step ok [a, b, c] s1"
  by simp

lemma sample_events:
  "sample_history = [hd sample_history, sample_history ! 1, sample_history ! 2]"
  by (simp add: sample_history_def)

lemma sample_legal:
  "legal (enroll_step sample_services) seat_safe sample_history sample_start"
  "legal (enroll_step sample_services) clock_ahead sample_history sample_start"
proof -
  have "seat_safe sample_start (hd sample_history)" "clock_ahead sample_start (hd sample_history)"
    by (simp_all add: sample_start_def sample_history_def no_registrations_def)
  moreover have "seat_safe (sample_created, \<lambda>_. None, []) (sample_history ! 1)"
    "clock_ahead (sample_created, \<lambda>_. None, []) (sample_history ! 1)"
    by (simp_all add: sample_history_def sample_created_def sample_db_def)
  moreover have "seat_safe (sample_sent, [lit ''+989121234567'' \<mapsto> lit ''123456''], []) (sample_history ! 2)"
    "clock_ahead (sample_sent, [lit ''+989121234567'' \<mapsto> lit ''123456''], []) (sample_history ! 2)"
    by (simp_all add: sample_history_def sample_sent_def sample_created_def sample_db_def sample_draft_def
        new_challenge_def table_eval MUTABLE_STATUSES_def)
  ultimately show "legal (enroll_step sample_services) seat_safe sample_history sample_start"
    "legal (enroll_step sample_services) clock_ahead sample_history sample_start"
    by (metis legal_three sample_events sample_step1 sample_step2)+
qed

theorem one_pending_code_witness:
  "case run (enroll_step sample_services) sample_history sample_start of
     (s', p', g') \<Rightarrow> exclusive otp_id both_pending (otps s')
       \<and> list_all (\<lambda>x. if consumed_at x = None \<and> invalidated_at x = None
            then attempt_count x < otp_max_attempts (settings_of sample_services)
            else attempt_count x \<le> otp_max_attempts (settings_of sample_services)) (otps s')"
  unfolding sample_start_def by (rule one_pending_code [OF sample_services_bounds])

lemma sample_exams: "distinct (map exam_id (exams (sample_db [])))" "list_all exam_checks (exams (sample_db []))"
  by (simp_all add: sample_defs exam_checks_def window_ok_def)

theorem hourly_code_limit_witness:
  "case run (enroll_step sample_services) sample_history sample_start of
     (s', p', g') \<Rightarrow> count_if (\<lambda>x. otp_tenant_id x = 1 \<and> otp_phone_number x = lit ''+989121234567''
         \<and> 10 - seconds 3600 \<le> otp_created_at x \<and> otp_created_at x \<le> 10) (otps s') \<le> 10"
proof -
  have "otp_phone_hourly_limit (settings_of sample_services) = 10"
    by (simp add: sample_services_def default_settings_def)
  with hourly_code_limit [OF sample_services_bounds sample_legal(2) [unfolded sample_start_def], of 1
        "lit ''+989121234567''" 10]
  show ?thesis
    unfolding sample_start_def by metis
qed

section \<open>A history beyond the capacity\<close>

text \<open>
  The side conditions of \<open>capacity_respected\<close> are needed. The exam has one place, taken by the
  submitted registration 5 whose payment is still open, and 6 is a verified draft. Registration 5
  is sent a code and verifies it, which makes it PHONE_VERIFIED and frees its place; 6 submits;
  the failed payment of 5 is reported and makes 5 SUBMITTED again: two registrations hold the one
  place.
\<close>

definition overrun_start :: reg_db where
  "overrun_start = (sample_db [sample_payable, sample_draft 6])\<lparr>payments := payments sample_paying\<rparr>"

definition overrun_history :: "enroll_event list" where
  "overrun_history =
     [Send_otp 1 (lit ''slug'') 9 5 (lit ''secret'') 70 (lit ''123456'') (lit ''127.0.0.1''),
      Verify_otp 1 9 5 (lit ''secret'') (lit ''123456''),
      Submit 1 9 6 (lit ''secret''),
      Callback 10 mock_name sample_state []]"

lemma draft_fields [simp]:
  "reg_id (sample_draft i) = i" "reg_tenant_id (sample_draft i) = 1" "reg_exam_offering_id (sample_draft i) = 10"
  "draft_token_hash (sample_draft i) = lit ''secret''" "draft_token_expires_at (sample_draft i) = 1000000"
  "reg_phone_number (sample_draft i) = lit ''+989121234567''" "reg_status (sample_draft i) = Reg_PHONE_VERIFIED"
  "profile_image_id (sample_draft i) = Some 50" "extra_answers (sample_draft i) = JObj []"
  "form_definition_id (sample_draft i) = None" "phone_verified_at (sample_draft i) = Some 5"
  "missing_fields (sample_draft i) = []" "national_code (sample_draft i) = Some (digits_of i)"
  by (simp_all add: sample_draft_def missing_fields_def)

lemma payable_fields [simp]:
  "reg_id sample_payable = 5" "reg_tenant_id sample_payable = 1" "reg_exam_offering_id sample_payable = 10"
  "draft_token_hash sample_payable = lit ''secret''" "draft_token_expires_at sample_payable = 1000000"
  "reg_phone_number sample_payable = lit ''+989121234567''" "reg_status sample_payable = Reg_SUBMITTED"
  "national_code sample_payable = Some (digits_of 5)"
  by (simp_all add: sample_payable_def)

definition overrun_code :: otp_challenge where
  "overrun_code = new_challenge (\<lambda>k m. m) default_settings 9 70 (lit ''123456'') (lit ''127.0.0.1'') sample_payable"

lemma code_fields [simp]:
  "otp_id overrun_code = 70" "otp_tenant_id overrun_code = 1" "otp_registration_id overrun_code = 5"
  "otp_phone_number overrun_code = lit ''+989121234567''" "otp_created_at overrun_code = 9"
  "attempt_count overrun_code = 0" "consumed_at overrun_code = None" "invalidated_at overrun_code = None"
  "otp_expires_at overrun_code = 9 + seconds 180" "code_hash overrun_code = hash_code (\<lambda>k m. m) default_settings 70 (lit ''123456'')"
  by (simp_all add: overrun_code_def new_challenge_def default_settings_def)

lemma authorized_overrun:
  "registrations s = x # y # rs \<Longrightarrow> reg_tenant_id x = 1 \<Longrightarrow> reg_tenant_id y = 1 \<Longrightarrow> reg_id x = 5 \<Longrightarrow> reg_id y = 6 \<Longrightarrow>
     z = (if i = 5 then x else y) \<Longrightarrow> i = 5 \<or> i = 6 \<Longrightarrow>
     draft_token_hash z = lit ''secret'' \<Longrightarrow> draft_token_expires_at z = 1000000 \<Longrightarrow>
     authorized_draft id (tenant_session 1) 9 i (lit ''secret'') s = Inr z"
  by (auto simp: authorized_draft_def get_row_Cons tenant_session_def tenant_isolation_policy_def)

definition overrun_sent :: reg_db where
  "overrun_sent = overrun_start\<lparr>otps := [overrun_code]\<rparr>"

lemma overrun_send:
  "enroll_step sample_services (overrun_history ! 0) (overrun_start, \<lambda>_. None, [])
     = (overrun_sent, [lit ''+989121234567'' \<mapsto> lit ''123456''], [])"
proof -
  have "authorized_draft id (tenant_session 1) 9 5 (lit ''secret'') overrun_start = Inr sample_payable"
    by (rule authorized_overrun [of _ sample_payable "sample_draft 6" "[]"]) (simp_all add: overrun_start_def sample_db_def)
  moreover have "otps overrun_start = []"
    by (simp add: overrun_start_def sample_db_def)
  ultimately show ?thesis
    by (simp add: overrun_history_def overrun_sent_def sample_services_def send_otp_def send_def
        send_refused_def phone_count_def ip_count_def tenant_count_def latest_challenge_def active_count_def
        supersede_challenges_def key_taken_def mock_send_code_def overrun_code_def ip_hash_def
        default_settings_def table_eval)
qed

definition overrun_verified :: reg_db where
  "overrun_verified = overrun_sent\<lparr>
     otps := [overrun_code\<lparr>attempt_count := 1, consumed_at := Some 9\<rparr>],
     registrations := [sample_payable\<lparr>phone_verified_at := Some 9, reg_status := Reg_PHONE_VERIFIED\<rparr>,
                       sample_draft 6]\<rparr>"

lemma overrun_verify:
  "enroll_step sample_services (overrun_history ! 1) (overrun_sent, p, g) = (overrun_verified, p, g)"
proof -
  have auth: "authorized_draft id (tenant_session 1) 9 5 (lit ''secret'') overrun_sent = Inr sample_payable"
    by (rule authorized_overrun [of _ sample_payable "sample_draft 6" "[]"]) (simp_all add: overrun_sent_def overrun_start_def sample_db_def)
  have "pending_challenge (tenant_session 1) sample_payable overrun_sent = Some overrun_code"
    by (simp add: pending_challenge_def of_registration_def overrun_sent_def table_eval)
  moreover have "otps overrun_sent = [overrun_code]" "registrations overrun_sent = [sample_payable, sample_draft 6]"
    by (simp_all add: overrun_sent_def overrun_start_def sample_db_def)
  ultimately have "snd (verify_otp (\<lambda>k m. m) id default_settings 1 9 5 (lit ''secret'') (lit ''123456'') overrun_sent)
      = overrun_verified"
    unfolding verify_otp_granted [OF auth]
    by (simp add: verify_def overrun_verified_def default_settings_attempts seconds_def table_eval)
  then show ?thesis
    by (simp add: overrun_history_def sample_services_def)
qed

definition overrun_submitted :: reg_db where
  "overrun_submitted = overrun_verified\<lparr>registrations :=
     [sample_payable\<lparr>phone_verified_at := Some 9, reg_status := Reg_PHONE_VERIFIED\<rparr>,
      (sample_draft 6)\<lparr>reg_status := Reg_SUBMITTED, submitted_at := Some 9\<rparr>]\<rparr>"

lemma overrun_rest:
  "exams overrun_verified = [small_exam]" "media overrun_verified = [sample_image]"
  "contacts overrun_verified = [sample_contact 110 5 1, sample_contact 111 5 2, sample_contact 112 6 1, sample_contact 113 6 2]"
  "registrations overrun_verified = [sample_payable\<lparr>phone_verified_at := Some 9, reg_status := Reg_PHONE_VERIFIED\<rparr>,
                       sample_draft 6]"
  by (simp_all add: overrun_verified_def overrun_sent_def overrun_start_def sample_db_def)

lemma overrun_submit:
  "enroll_step sample_services (overrun_history ! 2) (overrun_verified, p, g) = (overrun_submitted, p, g)"
proof -
  have auth: "authorized_draft id (tenant_session 1) 9 6 (lit ''secret'') overrun_verified = Inr (sample_draft 6)"
    by (rule authorized_overrun [OF overrun_rest(4)]) simp_all
  have contacts: "map contact_position (registration_contacts (tenant_session 1) 6 overrun_verified) = [1, 2]"
    by (simp add: registration_contacts_def overrun_rest sample_contact_def table_eval)
  then have two: "length (registration_contacts (tenant_session 1) 6 overrun_verified) = 2"
    by (metis length_map length_Cons list.size(3) One_nat_def Suc_1)
  have positions: "contact_position ` set (registration_contacts (tenant_session 1) 6 overrun_verified) = {1, 2}"
    using arg_cong [OF contacts, of set] by simp
  have image: "profile_image_ready (tenant_session 1) (sample_draft 6) overrun_verified"
    by (simp add: profile_image_ready_def overrun_rest sample_image_def table_eval)
  have form: "form_check v (tenant_session 1) (sample_draft 6) overrun_verified = None" for v
    by (simp add: form_check_def)
  have exam: "get_exam (tenant_session 1) 10 overrun_verified = Some small_exam"
    by (simp add: overrun_rest small_exam_def table_eval)
  have seats: "submitted_count (tenant_session 1) 10 overrun_verified = 0"
    by (simp add: submitted_count_def overrun_rest SUBMITTED_STATUSES_def table_eval)
  have unique: "registration_unique_ok ((sample_draft 6)\<lparr>reg_status := Reg_SUBMITTED, submitted_at := Some 9\<rparr>) overrun_verified"
    by (simp add: registration_unique_ok_def overrun_rest same_student_def digits_of.simps)
  have "submit (\<lambda>schema value. Schema_ok) (tenant_session 1) 9 (sample_draft 6) overrun_verified
      = (Inr ((sample_draft 6)\<lparr>reg_status := Reg_SUBMITTED, submitted_at := Some 9\<rparr>), overrun_submitted)"
    using positions two image form exam seats unique
    by (simp add: submit_def MUTABLE_STATUSES_def SUBMITTED_STATUSES_def flush_registration_def
        overrun_submitted_def overrun_rest small_exam_def table_eval)
  then have "snd (submit_registration (\<lambda>schema value. Schema_ok) id (tenant_session 1) 9 6 (lit ''secret'') overrun_verified)
      = overrun_submitted"
    unfolding submit_registration_def with_draft_def auth transaction_def
    by (simp add: auth respond_def registration_response_def)
  then show ?thesis
    by (simp add: overrun_history_def sample_services_def)
qed

lemma sample_paying_row:
  "payments sample_paying = [pending_transaction id 9 80 (lit ''nonce'') mock_name (lit ''lost'') sample_state
      sample_payable 500000 (lit ''IRR'') (lit ''key-0001'')]"
  by (simp add: sample_paying_def)

lemma overrun_callback:
  "\<exists>s'. enroll_step sample_services (overrun_history ! 3) (overrun_submitted, p, []) = (s', p, [])
     \<and> seats_taken 1 10 s' = 2"
proof -
  have pays: "payments overrun_submitted = payments sample_paying"
    "registrations overrun_submitted = [sample_payable\<lparr>phone_verified_at := Some 9, reg_status := Reg_PHONE_VERIFIED\<rparr>,
      (sample_draft 6)\<lparr>reg_status := Reg_SUBMITTED, submitted_at := Some 9\<rparr>]"
    by (simp_all add: overrun_submitted_def overrun_verified_def overrun_sent_def overrun_start_def)
  show ?thesis
    by (simp add: overrun_history_def sample_services_def payment_callback_def sample_claims
        verify_callback_def pays sample_paying_row pending_transaction_def
        mock_verify_def mock_failure_def settle_transaction_def settle_registration_def payment_unique_ok_def
        seats_taken_def holds_seat_def SUBMITTED_STATUSES_def table_eval)
qed

theorem capacity_overrun:
  "\<exists>s' p' g'. run (enroll_step sample_services) overrun_history (overrun_start, \<lambda>_. None, []) = (s', p', g')
     \<and> enroll_inv default_settings overrun_start \<and> seats_taken 1 10 overrun_start = 1
     \<and> exam_capacity small_exam = Some 1 \<and> seats_taken 1 10 s' = 2"
proof -
  have events: "overrun_history = [overrun_history ! 0, overrun_history ! 1, overrun_history ! 2, overrun_history ! 3]"
    by (simp add: overrun_history_def)
  have four: "run f [a, b, c, d] x = f d (f c (f b (f a x)))" for f :: "enroll_event \<Rightarrow> 's \<Rightarrow> 's" and a b c d x
    by simp
  have "enroll_inv default_settings overrun_start"
    by (simp add: enroll_inv_intro attempts_bounded_def amounts_frozen_def overrun_start_def sample_paying_row
        sample_db_def exclusive_def same_student_def pays_for_def pending_transaction_def digits_of.simps)
      (simp add: sample_payable_def sample_draft_def)
  moreover have "seats_taken 1 10 overrun_start = 1"
    by (simp add: seats_taken_def overrun_start_def sample_db_def holds_seat_def SUBMITTED_STATUSES_def)
  moreover have "exam_capacity small_exam = Some 1"
    by (simp add: small_exam_def)
  ultimately show ?thesis
    using overrun_callback
    by (subst events) (simp only: four overrun_send overrun_verify overrun_submit, blast)
qed

end
