(* ===== verification/PaidOnce.thy ===== *)
theory PaidOnce
  imports EnrollmentProperties
begin

text \<open>
  No registration is paid twice. The statuses of a registration and its payments move together as
  long as no code is verified on a completed registration, which the code does not prevent: a
  completed registration then can be submitted and paid again (the last section).
\<close>

section \<open>Payments and statuses\<close>

definition has_paid :: "payment_transaction list \<Rightarrow> uuid \<Rightarrow> bool" where
  "has_paid ps i \<longleftrightarrow> (\<exists>p\<in>set ps. pay_registration_id p = i \<and> pay_status p = Pay_SUCCESSFUL)"

definition open_or_settled :: "reg_db \<Rightarrow> bool" where
  "open_or_settled s \<longleftrightarrow> (\<forall>p\<in>set (payments s). settled p \<longleftrightarrow> \<not> payment_active p)"

definition paid_alone :: "reg_db \<Rightarrow> bool" where
  "paid_alone s \<longleftrightarrow> (\<forall>p\<in>set (payments s). \<forall>q\<in>set (payments s).
     pay_status p = Pay_SUCCESSFUL \<longrightarrow> pay_registration_id q = pay_registration_id p \<longrightarrow> q \<noteq> p \<longrightarrow>
       settled q \<and> pay_status q \<noteq> Pay_SUCCESSFUL)"

definition completed_paid :: "reg_db \<Rightarrow> bool" where
  "completed_paid s \<longleftrightarrow> (\<forall>r\<in>set (registrations s).
     reg_status r = Reg_COMPLETED \<longleftrightarrow> has_paid (payments s) (reg_id r))"

definition paid_inv :: "settings \<Rightarrow> reg_db \<Rightarrow> bool" where
  "paid_inv c s \<longleftrightarrow> enroll_inv c s \<and> open_or_settled s \<and> paid_alone s \<and> completed_paid s"

lemma paid_invD:
  assumes "paid_inv c s"
  shows "enroll_inv c s" "p \<in> set (payments s) \<Longrightarrow> settled p \<longleftrightarrow> \<not> payment_active p"
    "p \<in> set (payments s) \<Longrightarrow> q \<in> set (payments s) \<Longrightarrow> pay_status p = Pay_SUCCESSFUL \<Longrightarrow>
       pay_registration_id q = pay_registration_id p \<Longrightarrow> q \<noteq> p \<Longrightarrow> settled q \<and> pay_status q \<noteq> Pay_SUCCESSFUL"
    "r \<in> set (registrations s) \<Longrightarrow> reg_status r = Reg_COMPLETED \<longleftrightarrow> has_paid (payments s) (reg_id r)"
  using assms unfolding paid_inv_def open_or_settled_def paid_alone_def completed_paid_def by blast+

lemma paid_invI:
  assumes "enroll_inv c s" "\<And>p. p \<in> set (payments s) \<Longrightarrow> settled p \<longleftrightarrow> \<not> payment_active p"
    "\<And>p q. p \<in> set (payments s) \<Longrightarrow> q \<in> set (payments s) \<Longrightarrow> pay_status p = Pay_SUCCESSFUL \<Longrightarrow>
       pay_registration_id q = pay_registration_id p \<Longrightarrow> q \<noteq> p \<Longrightarrow> settled q \<and> pay_status q \<noteq> Pay_SUCCESSFUL"
    "\<And>r. r \<in> set (registrations s) \<Longrightarrow> reg_status r = Reg_COMPLETED \<longleftrightarrow> has_paid (payments s) (reg_id r)"
  shows "paid_inv c s"
  using assms unfolding paid_inv_def open_or_settled_def paid_alone_def completed_paid_def by blast

text \<open>Codes are verified only on registrations that are not completed.\<close>

fun codes_before_completion :: "reg_db \<times> 'p \<times> 'g \<Rightarrow> enroll_event \<Rightarrow> bool" where
  "codes_before_completion (s, p, g) (Verify_otp t now i token code) =
     (case get_reg (tenant_session t) i s of None \<Rightarrow> True | Some r \<Rightarrow> reg_status r \<noteq> Reg_COMPLETED)"
| "codes_before_completion (s, p, g) e = True"

section \<open>Every endpoint keeps them together\<close>

lemma paid_same:
  assumes "paid_inv c s" "enroll_inv c s'" "registrations s' = registrations s" "payments s' = payments s"
  shows "paid_inv c s'"
  by (rule paid_invI [OF assms(2)]; unfold assms(3,4); rule paid_invD(2-4) [OF assms(1)]; assumption)

text \<open>An edit that neither completes a registration nor takes its completion back.\<close>

lemma paid_edit:
  assumes inv: "paid_inv c s" and inv': "enroll_inv c s'"
    and r0: "r0 \<in> set (registrations s)" "reg_id r = reg_id r0"
      "reg_status r = Reg_COMPLETED \<longleftrightarrow> reg_status r0 = Reg_COMPLETED"
    and rows: "registrations s' = save_row reg_tenant_id reg_id cur r (registrations s)" "payments s' = payments s"
  shows "paid_inv c s'"
proof -
  have "reg_status x = Reg_COMPLETED \<longleftrightarrow> has_paid (payments s) (reg_id x)" if "x \<in> set (registrations s')" for x
  proof (cases "x = r")
    case True
    then show ?thesis using paid_invD(4) [OF inv r0(1)] r0(2,3) by simp
  next
    case False
    then show ?thesis using paid_invD(4) [OF inv] in_save_rowD that rows(1) by metis
  qed
  then show ?thesis
    by - (rule paid_invI [OF inv']; unfold rows(2); (rule paid_invD(2,3) [OF inv]; assumption | blast))
qed

lemma paid_transaction:
  assumes "paid_inv c s" "enroll_inv c (snd (transaction body s))"
    "\<And>x s'. body s = (Inr x, s') \<Longrightarrow> enroll_inv c s' \<Longrightarrow> paid_inv c s'"
  shows "paid_inv c (snd (transaction body s))"
  by (rule transaction_cases [of body s]) (use assms in auto)

lemma create_paid:
  assumes inv: "paid_inv c s"
  shows "paid_inv c (snd (create_registration digest c' t now fresh raw body s))"
  unfolding create_registration_def
proof (rule paid_transaction [OF inv], goal_cases)
  case 1
  show ?case using create_inv [OF paid_invD(1) [OF inv]] by (simp add: create_registration_def)
next
  case (2 x s')
  then obtain r where r: "s' = s\<lparr>registrations := registrations s @ [r]\<rparr>"
    "reg_status r = Reg_PHONE_VERIFICATION_REQUIRED" "reg_id r = fresh" "fresh \<notin> reg_id ` set (registrations s)"
    by (auto simp: and_then_eq_Inr elim!: create_draft_Inr)
  have "pay_registration_id p \<noteq> fresh" if "p \<in> set (payments s)" for p
    using frozenD [OF enroll_invD(8) [OF paid_invD(1) [OF inv]] that] r(4) by (auto simp: pays_for_def image_iff)
  then have "\<not> has_paid (payments s) fresh" by (auto simp: has_paid_def)
  then have regs: "reg_status x = Reg_COMPLETED \<longleftrightarrow> has_paid (payments s) (reg_id x)" if "x \<in> set (registrations s')" for x
    using that r(1-3) paid_invD(4) [OF inv, of x] by auto
  have same: "payments s' = payments s" using r(1) by simp
  show ?case
    by (rule paid_invI [OF 2(2)]; unfold same; (rule paid_invD(2,3) [OF inv]; assumption | rule regs; assumption))
qed

lemma patch_paid:
  assumes inv: "paid_inv c s"
  shows "paid_inv c (snd (patch_registration digest cur now i token body s))"
  unfolding patch_registration_def
proof (rule paid_transaction [OF inv], goal_cases)
  case 1
  show ?case using patch_inv [OF paid_invD(1) [OF inv]] by (simp add: patch_registration_def)
next
  case (2 x s')
  then obtain r r' where r: "authorized_draft digest cur now i token s = Inr r"
    and p: "patch cur now r body s = (Inr r', s')"
    by (auto simp: with_draft_Inr and_then_eq_Inr)
  from p have st: "reg_status r \<in> MUTABLE_STATUSES" and r': "r' = patched body r"
    and eq: "payments s' = payments s" "registrations s' = save_row reg_tenant_id reg_id cur r' (registrations s)"
    by (auto elim!: patch_Inr)
  show ?case
    by (rule paid_edit [OF inv 2(2) authorized_draftD(2) [OF r] _ _ eq(2,1)])
      (use r' st patched_mutable [OF st, of body] in \<open>auto simp: MUTABLE_STATUSES_def\<close>)
qed

lemma rotate_paid:
  assumes inv: "paid_inv c s"
  shows "paid_inv c (snd (rotate_draft_token digest c' cur now i token raw s))"
  unfolding rotate_draft_token_def
proof (rule paid_transaction [OF inv], goal_cases)
  case 1
  show ?case using rotate_inv [OF paid_invD(1) [OF inv]] by (simp add: rotate_draft_token_def)
next
  case (2 x s')
  then obtain r r' where r: "authorized_draft digest cur now i token s = Inr r"
    and s': "s' = save_reg cur r' s" "r' = fst (rotate_token digest c' now raw r)"
    by (auto simp: with_draft_Inr rotate_token_def and_then_eq_Inr)
  show ?case
    by (rule paid_edit [OF inv 2(2) authorized_draftD(2) [OF r], of r' cur])
      (use s' in \<open>simp_all add: rotate_token_def\<close>)
qed

lemma contacts_paid:
  assumes inv: "paid_inv c s"
  shows "paid_inv c (snd (put_contacts digest cur now i token fresh body s))"
  unfolding put_contacts_def
proof (rule paid_transaction [OF inv], goal_cases)
  case 1
  show ?case using contacts_inv [OF paid_invD(1) [OF inv]] by (simp add: put_contacts_def)
next
  case (2 x s')
  then show ?case
    by (intro paid_same [OF inv 2(2)])
      (auto simp: with_draft_Inr replace_contacts_def Let_def split: if_splits)
qed

lemma upload_image_paid:
  assumes inv: "paid_inv c s"
  shows "paid_inv c (snd (initiate_profile_image_upload upload digest c' t now i token m nonce body s))"
  unfolding initiate_profile_image_upload_def
proof (rule paid_transaction [OF inv], goal_cases)
  case 1
  show ?case using upload_image_inv [OF paid_invD(1) [OF inv]] by (simp add: initiate_profile_image_upload_def)
next
  case (2 x s')
  then obtain r m' where r: "authorized_draft digest (tenant_session t) now i token s = Inr r"
    and s': "s' = save_reg (tenant_session t) (r\<lparr>profile_image_id := Some m\<rparr>) (s\<lparr>media := m'\<rparr>)"
    by (auto simp: with_draft_Inr and_then_eq_Inr Let_def split: option.splits if_splits)
  show ?case
    by (rule paid_edit [OF inv 2(2) authorized_draftD(2) [OF r], of "r\<lparr>profile_image_id := Some m\<rparr>" "tenant_session t"])
      (use s' in simp_all)
qed

lemma complete_image_paid:
  assumes inv: "paid_inv c s"
  shows "paid_inv c (snd (complete_profile_image_upload head digest cur now i token m body s))"
  unfolding complete_profile_image_upload_def
proof (rule paid_transaction [OF inv], goal_cases)
  case 1
  show ?case using complete_image_inv [OF paid_invD(1) [OF inv]] by (simp add: complete_profile_image_upload_def)
next
  case (2 x s')
  then show ?case
    by (intro paid_same [OF inv 2(2)])
      (auto simp: with_draft_Inr split: option.splits if_splits sum.splits)
qed

lemma send_otp_paid:
  assumes inv: "paid_inv c s" and c: "0 < otp_max_attempts c"
  shows "paid_inv c (fst (snd (send_otp send_code hmac digest c t slug now i token j code ip (s, p))))"
proof (rule paid_same [OF inv send_otp_inv [OF paid_invD(1) [OF inv] c]])
  obtain res s' p' where run: "send_otp send_code hmac digest c t slug now i token j code ip (s, p) = (res, (s', p'))"
    using prod.exhaust by metis
  have "registrations s' = registrations s \<and> payments s' = payments s"
  proof (cases res)
    case (Inl e)
    with run show ?thesis by (auto simp: send_otp_def split: sum.splits prod.splits)
  next
    case (Inr resp)
    with run obtain r x where sent: "send send_code hmac digest c (tenant_session t) now j code r ip slug (s, p)
        = (Inr x, (s', p'))"
      using send_otp_Inr by metis
    show ?thesis by (simp add: send_Inr(4) [OF sent])
  qed
  with run show "registrations (fst (snd (send_otp send_code hmac digest c t slug now i token j code ip (s, p)))) = registrations s"
    "payments (fst (snd (send_otp send_code hmac digest c t slug now i token j code ip (s, p)))) = payments s"
    by simp_all
qed

lemma verify_otp_paid:
  assumes inv: "paid_inv c s"
    and safe: "case get_reg (tenant_session t) i s of None \<Rightarrow> True | Some r \<Rightarrow> reg_status r \<noteq> Reg_COMPLETED"
  shows "paid_inv c (snd (verify_otp hmac digest c t now i token code s))"
proof (cases "authorized_draft digest (tenant_session t) now i token s")
  case (Inl e)
  with inv show ?thesis by (simp add: verify_otp_denied)
next
  case (Inr r)
  note d = authorized_draftD [OF Inr]
  note step = verify_otp_granted [OF Inr, of hmac c code]
  have st: "reg_status r \<noteq> Reg_COMPLETED" using safe d(1) by simp
  have inv': "enroll_inv c (snd (verify_otp hmac digest c t now i token code s))"
    by (rule verify_otp_inv [OF paid_invD(1) [OF inv]])
  show ?thesis
  proof (cases rule: verify_cases [of hmac c "tenant_session t" now r code s])
    case unchanged
    with inv show ?thesis by (simp add: step)
  next
    case (challenge x y)
    let ?r = "r\<lparr>phone_verified_at := Some now, reg_status := Reg_PHONE_VERIFIED\<rparr>"
    from challenge(10) consider "snd (verify hmac c (tenant_session t) now r code s) = save_otp (tenant_session t) y s"
      | "snd (verify hmac c (tenant_session t) now r code s) = save_reg (tenant_session t) ?r (save_otp (tenant_session t) y s)"
      by blast
    then show ?thesis
    proof cases
      case 1
      then show ?thesis using inv' by (intro paid_same [OF inv]) (simp_all add: step)
    next
      case 2
      then show ?thesis
        using st by (intro paid_edit [OF inv inv' d(2), of ?r "tenant_session t"]) (simp_all add: step)
    qed
  qed
qed

lemma submit_paid:
  assumes inv: "paid_inv c s"
  shows "paid_inv c (snd (submit_registration validator digest cur now i token s))"
  unfolding submit_registration_def
proof (rule paid_transaction [OF inv], goal_cases)
  case 1
  show ?case using submit_inv [OF paid_invD(1) [OF inv]] by (simp add: submit_registration_def)
next
  case (2 x s')
  then obtain r r' where r: "authorized_draft digest cur now i token s = Inr r"
    and p: "submit validator cur now r s = (Inr r', s')"
    by (auto simp: with_draft_Inr and_then_eq_Inr)
  from p show ?case
  proof (cases rule: submit_Inr)
    case again
    with inv show ?thesis by simp
  next
    case (submitted exam)
    then show ?thesis
      by (intro paid_edit [OF inv 2(2) authorized_draftD(2) [OF r], of r' cur])
        (auto simp: MUTABLE_STATUSES_def)
  qed
qed

lemma admin_paid:
  assumes inv: "paid_inv c s"
  shows "paid_inv c (snd (update_registration cur now actor i body s))"
  unfolding update_registration_def
proof (rule paid_transaction [OF inv], goal_cases)
  case 1
  show ?case using admin_inv [OF paid_invD(1) [OF inv]] by (simp add: update_registration_def)
next
  case (2 x s')
  then obtain r where r: "get_reg cur i s = Some r" and ok: "\<not> transition_refused r body"
    and s': "registrations s' = save_row reg_tenant_id reg_id cur (admin_set body r) (registrations s)"
      "payments s' = payments s"
    by (auto simp: admin_get_def admin_update_registration_def and_then_eq_Inr Let_def
        split: option.splits if_splits)
  show ?case
    by (rule paid_edit [OF inv 2(2) get_rowD(1) [OF r] _ _ s'])
      (use ok in \<open>auto simp: admin_set_def transition_refused_def split: option.splits admin_status.splits\<close>)
qed

text \<open>A payment starts only on a registration that has not been paid.\<close>

lemma pay_paid:
  assumes inv: "paid_inv c s"
  shows "paid_inv c (fst (snd (initiate_payment gi gn enc digest c' cur now i token tid nonce key (s, g))))"
proof -
  obtain res s' g' where run: "initiate_payment gi gn enc digest c' cur now i token tid nonce key (s, g)
      = (res, (s', g'))"
    using prod.exhaust by metis
  have inv': "enroll_inv c s'"
    using pay_inv [OF paid_invD(1) [OF inv], of gi gn enc digest c' cur now i token tid nonce key g] run by simp
  have "paid_inv c s'"
  proof (cases res)
    case (Inl e)
    with inv run show ?thesis by (auto simp: initiate_payment_def split: sum.splits prod.splits)
  next
    case (Inr resp)
    with run obtain r where r: "authorized_draft digest cur now i token s = Inr r"
      and init: "initiate gi gn enc digest c' cur now tid nonce r key (s, g) = (Inr resp, (s', g'))"
      by (auto simp: initiate_payment_Inr)
    note d = authorized_draftD [OF r]
    from init show ?thesis
    proof (cases rule: initiate_Inr)
      case (found p)
      with inv show ?thesis by simp
    next
      case (fresh p result)
      have unpaid: "\<not> has_paid (payments s) (reg_id r)"
        using paid_invD(4) [OF inv d(2)] fresh(3) by auto
      have p: "payment_active p" "\<not> settled p" "pay_status p \<noteq> Pay_SUCCESSFUL"
        using fresh(11,14) by (simp_all add: payment_active_def settled_def)
      have same: "has_paid (payments s') j \<longleftrightarrow> has_paid (payments s) j" for j
        using p(3) by (auto simp: has_paid_def fresh(26))
      have "reg_status x = Reg_COMPLETED \<longleftrightarrow> has_paid (payments s) (reg_id x)" if "x \<in> set (registrations s')" for x
        using that paid_invD(4) [OF inv] unpaid by (auto simp: fresh(26) dest!: in_save_rowD)
      moreover have "settled q \<and> pay_status q \<noteq> Pay_SUCCESSFUL"
        if q: "q \<in> set (payments s')" "q' \<in> set (payments s')" "pay_status q' = Pay_SUCCESSFUL"
          "pay_registration_id q = pay_registration_id q'" "q \<noteq> q'" for q q'
      proof -
        have q': "q' \<in> set (payments s)" using q(2,3) p(3) by (auto simp: fresh(26))
        moreover have "q \<noteq> p"
          using q(3,4) q' unpaid fresh(9) by (auto simp: has_paid_def)
        then have "q \<in> set (payments s)" using q(1) by (simp add: fresh(26))
        ultimately show ?thesis using paid_invD(3) [OF inv _ _ q(3,4,5)] by simp
      qed
      moreover have "settled q \<longleftrightarrow> \<not> payment_active q" if "q \<in> set (payments s')" for q
        using that p paid_invD(2) [OF inv, of q] by (auto simp: fresh(26))
      ultimately show ?thesis
        by - (rule paid_invI [OF inv']; (unfold same)?; blast)
    qed
  qed
  with run show ?thesis by simp
qed

text \<open>Two open payments of one registration conflict.\<close>

lemma single_open:
  assumes inv: "enroll_inv c s" and p: "p \<in> set (payments s)" "payment_active p"
    and q: "q \<in> set (payments s)" "payment_active q" "pay_registration_id q = pay_registration_id p"
  shows "q = p"
proof -
  note I = enroll_invD [OF inv]
  obtain x y where "x \<in> set (registrations s)" "pays_for p x" "y \<in> set (registrations s)" "pays_for q y"
    using frozenD [OF I(8)] p(1) q(1) by metis
  moreover from this have "x = y"
    using I(1) q(3) by (auto simp: pays_for_def distinct_map inj_on_def)
  ultimately have "payment_conflict q p"
    using p q by (simp add: payment_conflict_def pays_for_def)
  then have "pay_id q = pay_id p" using exclusiveD [OF I(7) q(1) p(1)] by blast
  then show ?thesis using I(3) p(1) q(1) by (auto simp: distinct_map inj_on_def)
qed

lemma callback_paid:
  assumes inv: "paid_inv c s"
  shows "paid_inv c (fst (snd (payment_callback gv gn dec digest c' now prov state q (s, g))))"
proof -
  obtain res s' g' where run: "payment_callback gv gn dec digest c' now prov state q (s, g) = (res, (s', g'))"
    using prod.exhaust by metis
  have inv': "enroll_inv c s'"
    using callback_inv [OF paid_invD(1) [OF inv], of gv gn dec digest c' now prov state q g] run by simp
  have "paid_inv c s'"
  proof (cases res)
    case (Inl e)
    with inv run payment_callback_error show ?thesis by metis
  next
    case (Inr out)
    obtain tid st where "out = (tid, st)" by (cases out)
    with run Inr obtain t nonce p0 where
      v: "verify_callback gv gn digest (tenant_session t) now tid nonce (q(lit ''state'' := None)) (s, g)
          = (Inr p0, (s', g'))"
      by (auto simp: payment_callback_Inr)
    then show ?thesis
    proof (cases rule: verify_callback_Inr)
      case again
      with inv show ?thesis by simp
    next
      case (now p auth result r)
      note p = get_rowD [OF now(1)] and r = get_rowD [OF now(7)]
      note I = enroll_invD [OF paid_invD(1) [OF inv]]
      have pays: "set (payments s') = insert p0 (set (payments s) - {p})"
        unfolding now(10) using I(3) p now(8) by (simp add: save_row_unique)
      have regs: "set (registrations s') = insert (settle_registration result r) (set (registrations s) - {r})"
        unfolding now(10) using I(1) r by (simp add: save_row_unique)
      have active: "payment_active p" using paid_invD(2) [OF inv p(1)] now(4) by simp
      have unpaid: "pay_status x \<noteq> Pay_SUCCESSFUL" if "x \<in> set (payments s)" "pay_registration_id x = reg_id r" for x
        using paid_invD(3) [OF inv that(1) p(1)] that(2) r(3) now(4) by (auto simp: settled_def)
      have others: "settled x" if "x \<in> set (payments s)" "x \<noteq> p" "pay_registration_id x = reg_id r" for x
        using single_open [OF paid_invD(1) [OF inv] p(1) active that(1)] that(2,3) r(3) paid_invD(2) [OF inv that(1)]
        by auto
      have p0: "pay_registration_id p0 = reg_id r" "settled p0" "\<not> payment_active p0"
        "pay_status p0 = Pay_SUCCESSFUL \<longleftrightarrow> successful result"
        using now(8) r(3) by simp_all
      have paid: "has_paid (payments s') j \<longleftrightarrow> (if j = reg_id r then successful result else has_paid (payments s) j)" for j
        using p0 unpaid r(3) by (auto simp: has_paid_def pays)
      have "reg_status x = Reg_COMPLETED \<longleftrightarrow> has_paid (payments s') (reg_id x)" if "x \<in> set (registrations s')" for x
      proof (cases "x = settle_registration result r")
        case False
        then have x: "x \<in> set (registrations s)" "x \<noteq> r" using that by (auto simp: regs)
        then have "reg_id x \<noteq> reg_id r" using I(1) r(1) by (auto simp: distinct_map inj_on_def)
        then show ?thesis using paid_invD(4) [OF inv x(1)] by (simp add: paid)
      qed (simp add: paid)
      moreover have "settled x \<longleftrightarrow> \<not> payment_active x" if "x \<in> set (payments s')" for x
        using that p0(2,3) paid_invD(2) [OF inv, of x] by (auto simp: pays)
      moreover have "settled y \<and> pay_status y \<noteq> Pay_SUCCESSFUL"
        if xy: "x \<in> set (payments s')" "y \<in> set (payments s')" "pay_status x = Pay_SUCCESSFUL"
          "pay_registration_id y = pay_registration_id x" "y \<noteq> x" for x y
      proof (cases "pay_registration_id x = reg_id r")
        case True
        then have "x = p0" using xy(1,3) unpaid by (auto simp: pays)
        then have "y \<in> set (payments s)" "y \<noteq> p" using xy(2,5) by (auto simp: pays)
        then show ?thesis using True xy(4) unpaid others by simp
      next
        case False
        then have "x \<in> set (payments s)" "y \<in> set (payments s)" using xy(1,2,4) p0(1) by (auto simp: pays)
        then show ?thesis using paid_invD(3) [OF inv _ _ xy(3-5)] by blast
      qed
      ultimately show ?thesis
        by - (rule paid_invI [OF inv']; blast)
    qed
  qed
  with run show ?thesis by simp
qed

lemma paid_step_inv:
  assumes inv: "paid_inv (settings_of V) s" and c: "0 < otp_max_attempts (settings_of V)"
    and safe: "codes_before_completion (s, p, g) e"
  shows "paid_inv (settings_of V) (fst (enroll_step V e (s, p, g)))"
proof (cases e)
  case (Send_otp t slug now i token j code ip)
  then show ?thesis
    by (simp add: case_prod_beta send_otp_paid [OF inv c])
next
  case (Verify_otp t now i token code)
  then show ?thesis
    using safe by (simp add: verify_otp_paid [OF inv])
qed (simp_all add: case_prod_beta create_paid patch_paid rotate_paid contacts_paid upload_image_paid
    complete_image_paid submit_paid pay_paid callback_paid admin_paid inv)

interpretation paying: inductive_invariant "enroll_step V" codes_before_completion
  "\<lambda>(s, p, g). paid_inv (settings_of V) s \<and> 0 < otp_max_attempts (settings_of V)" for V
  using paid_step_inv [of V] by unfold_locales (auto split: prod.splits, metis fst_conv)

section \<open>Properties\<close>

text \<open>Where no two rows of a list of keyed rows satisfy a condition, at most one does.\<close>

lemma at_most_one:
  assumes "distinct (map k xs)" "\<And>x y. x \<in> set xs \<Longrightarrow> y \<in> set xs \<Longrightarrow> P x \<Longrightarrow> P y \<Longrightarrow> x = y"
  shows "count_if P xs \<le> 1"
  using assms
proof (induction xs)
  case (Cons x xs)
  show ?case
  proof (cases "P x")
    case True
    have "\<not> P y" if "y \<in> set xs" for y
      using Cons.prems(2) [of x y] Cons.prems(1) True that by auto
    then have "count_if P xs = 0" by (simp add: count_if_zero_iff)
    with True show ?thesis by simp
  qed (use Cons in auto)
qed simp

text \<open>
  C8: In every history in which no code is verified on a completed registration: a registration
  is COMPLETED exactly when it has a successful payment, it never has two payments that are
  successful or still open, and every payment is for exactly the amount its registration still
  carries.
\<close>

theorem paid_at_most_once:
  assumes "settings_bounds (settings_of V)"
    and "legal (enroll_step V) codes_before_completion es (no_registrations s, p, g)"
  shows "case run (enroll_step V) es (no_registrations s, p, g) of
     (s', p', g') \<Rightarrow>
       list_all (\<lambda>r. (reg_status r = Reg_COMPLETED \<longleftrightarrow>
              list_ex (\<lambda>x. pay_registration_id x = reg_id r \<and> pay_status x = Pay_SUCCESSFUL) (payments s'))
           \<and> count_if (\<lambda>x. pay_registration_id x = reg_id r
               \<and> pay_status x \<in> {Pay_SUCCESSFUL, Pay_INITIATED, Pay_PENDING}) (payments s') \<le> 1) (registrations s')
       \<and> list_all (\<lambda>x. list_ex (\<lambda>r. reg_id r = pay_registration_id x \<and> reg_tenant_id r = pay_tenant_id x
            \<and> payable_amount r = Some (pay_amount x)) (registrations s')) (payments s')"
proof -
  obtain s' p' g' where run: "run (enroll_step V) es (no_registrations s, p, g) = (s', p', g')"
    using prod.exhaust by metis
  have "(\<lambda>(s, p, g). paid_inv (settings_of V) s \<and> 0 < otp_max_attempts (settings_of V)) (no_registrations s, p, g)"
    using initial_enroll_inv [OF assms(1), of s p g] by (auto intro!: paid_invI simp: no_registrations_def)
  from paying.inv_run [OF this assms(2)] run have inv: "paid_inv (settings_of V) s'" by simp
  note I = enroll_invD [OF paid_invD(1) [OF inv]]
  have one: "x = y" if "x \<in> set (payments s')" "y \<in> set (payments s')" "pay_registration_id x = pay_registration_id y"
    "pay_status x = Pay_SUCCESSFUL \<or> payment_active x" "pay_status y = Pay_SUCCESSFUL \<or> payment_active y" for x y
  proof (rule ccontr)
    assume ne: "x \<noteq> y"
    have False if "u \<in> set (payments s')" "v \<in> set (payments s')" "pay_registration_id v = pay_registration_id u"
      "pay_status u = Pay_SUCCESSFUL" "v \<noteq> u" "pay_status v = Pay_SUCCESSFUL \<or> payment_active v" for u v
      using paid_invD(3) [OF inv that(1,2,4,3,5)] paid_invD(2) [OF inv that(2)] that(6) by blast
    from this [of x y] this [of y x] single_open [OF paid_invD(1) [OF inv], of x y] ne that show False by metis
  qed
  have "count_if (\<lambda>x. pay_registration_id x = reg_id r
      \<and> pay_status x \<in> {Pay_SUCCESSFUL, Pay_INITIATED, Pay_PENDING}) (payments s') \<le> 1" for r
    by (rule at_most_one [OF I(3)]) (rule one, auto simp: payment_active_def)
  moreover have "has_paid (payments s') i \<longleftrightarrow>
      list_ex (\<lambda>x. pay_registration_id x = i \<and> pay_status x = Pay_SUCCESSFUL) (payments s')" for i
    by (auto simp: has_paid_def list_ex_iff)
  moreover have "list_all (\<lambda>x. list_ex (\<lambda>r. reg_id r = pay_registration_id x \<and> reg_tenant_id r = pay_tenant_id x
      \<and> payable_amount r = Some (pay_amount x)) (registrations s')) (payments s')"
    using I(8) by (simp add: amounts_frozen_def pays_for_def [abs_def])
  ultimately show ?thesis
    using paid_invD(4) [OF inv] unfolding run list_all_iff prod.case by blast
qed


section \<open>A history up to a payment\<close>

text \<open>
  The applicant of \<open>sample_history\<close> fills in the form, names two contacts, submits, pays and comes
  back from the gateway.
\<close>

definition filled_form :: registration_patch where
  "filled_form = empty_patch
     \<lparr>p_first_name := Some (Some (lit ''A'')), p_last_name := Some (Some (lit ''B'')),
      p_gender := Some (Some OTHER), p_national_code := Some (Some (digits_of 7)),
      p_father_name := Some (Some (lit ''C'')), p_birth_date := Some (Some 0),
      p_current_school_id := Some (Some 40), p_previous_school_id := Some (Some 40),
      p_postal_code := Some (Some (lit ''1234567890'')), p_address := Some (Some (lit ''Some street'')),
      p_profile_image_id := Some (Some 50)\<rparr>"

definition two_parents :: "contact_input list" where
  "two_parents = map (\<lambda>p. \<lparr>ci_position = p, ci_name = lit ''Parent'', ci_phone_number = lit ''+989121234568'',
     ci_relationship = lit ''mother''\<rparr>) [1, 2]"

definition applicant :: registration where
  "applicant = (sample_draft 7)\<lparr>phone_verified_at := Some 10, reg_created_at := 3,
     draft_token_expires_at := 3 + seconds 2592000\<rparr>"

definition applicant_state :: ustr where
  "applicant_state = sign_state numbered_encode default_settings 14 payment_callback_purpose
     (payment_claims applicant 80 (lit ''nonce'') mock_name) 900"

definition paying_history :: "enroll_event list" where
  "paying_history = sample_history @
     [Patch 1 11 7 (lit ''secret'') filled_form,
      Contacts 1 12 7 (lit ''secret'') [114, 115] two_parents,
      Submit 1 13 7 (lit ''secret''),
      Pay 1 14 7 (lit ''secret'') 80 (lit ''nonce'') (lit ''key-0001''),
      Callback 15 mock_name applicant_state
        [(lit ''authority'', lit ''nonce''), (lit ''result'', lit ''success'')]]"

definition used_code :: otp_challenge where
  "used_code = (new_challenge (\<lambda>k m. m) default_settings 9 70 (lit ''123456'') (lit ''127.0.0.1'')
     (hd (registrations sample_created)))\<lparr>attempt_count := 1, consumed_at := Some 10\<rparr>"

definition history_state :: "registration \<Rightarrow> registration_contact list \<Rightarrow> payment_transaction list \<Rightarrow> reg_db" where
  "history_state r cs ps = (sample_db [])\<lparr>registrations := [r], contacts := cs, otps := [used_code], payments := ps\<rparr>"

definition verified_applicant :: registration where
  "verified_applicant = (hd (registrations sample_created))\<lparr>reg_status := Reg_PHONE_VERIFIED, phone_verified_at := Some 10\<rparr>"

lemma sample_step3:
  "enroll_step sample_services (sample_history ! 2) (sample_sent, p, g) = (history_state verified_applicant [] [], p, g)"
  by (simp add: sample_history_def history_state_def verified_applicant_def used_code_def sample_sent_def sample_created_def
      sample_services_def verify_otp_def verify_def authorized_draft_def pending_challenge_def of_registration_def
      new_challenge_def seconds_def table_eval sample_defs)

lemma paying_step4:
  "enroll_step sample_services (paying_history ! 3) (history_state verified_applicant [] [], p, g)
     = (history_state applicant [] [], p, g)"
  by (simp add: paying_history_def sample_history_def history_state_def verified_applicant_def applicant_def
      sample_created_def sample_services_def patch_registration_def with_draft_def authorized_draft_def patch_def
      transaction_def filled_form_def empty_patch_def invalid_references_def school_invalid_def image_invalid_def
      get_school_def setattr_changes_def flush_registration_def registration_unique_ok_def respond_def
      registration_response_def MUTABLE_STATUSES_def seconds_def table_eval sample_defs)

definition named_contacts :: "registration_contact list" where
  "named_contacts = [sample_contact 114 7 1, sample_contact 115 7 2]"

lemma paying_step5:
  "enroll_step sample_services (paying_history ! 4) (history_state applicant [] [], p, g)
     = (history_state applicant named_contacts [], p, g)"
  by (simp add: paying_history_def sample_history_def history_state_def applicant_def named_contacts_def two_parents_def
      sample_services_def put_contacts_def with_draft_def authorized_draft_def replace_contacts_def new_contacts_def
      transaction_def MUTABLE_STATUSES_def seconds_def table_eval sample_defs)

definition submitted_applicant :: registration where
  "submitted_applicant = applicant\<lparr>reg_status := Reg_SUBMITTED, submitted_at := Some 13\<rparr>"

lemma paying_step6:
  "enroll_step sample_services (paying_history ! 5) (history_state applicant named_contacts [], p, g)
     = (history_state submitted_applicant named_contacts [], p, g)"
  by (simp add: paying_history_def sample_history_def history_state_def applicant_def submitted_applicant_def
      named_contacts_def sample_services_def submit_registration_def with_draft_def authorized_draft_def submit_def
      missing_fields_def registration_contacts_def profile_image_ready_def form_check_def submitted_count_def
      flush_registration_def registration_unique_ok_def respond_def registration_response_def SUBMITTED_STATUSES_def
      transaction_def MUTABLE_STATUSES_def seconds_def table_eval sample_defs)

definition pending_applicant :: registration where
  "pending_applicant = submitted_applicant\<lparr>reg_status := Reg_PAYMENT_PENDING\<rparr>"

definition open_payment :: payment_transaction where
  "open_payment = pending_transaction id 14 80 (lit ''nonce'') mock_name (lit ''nonce'') applicant_state applicant
     500000 (lit ''IRR'') (lit ''key-0001'')"

lemma paying_step7:
  "enroll_step sample_services (paying_history ! 6) (history_state submitted_applicant named_contacts [], p, [])
     = (history_state pending_applicant named_contacts [open_payment], p, [lit ''nonce''])"
  by (simp add: paying_history_def sample_history_def history_state_def applicant_def submitted_applicant_def
      pending_applicant_def open_payment_def pending_transaction_def applicant_state_def payment_claims_def
      named_contacts_def sample_services_def initiate_payment_def initiate_def authorized_draft_def
      by_idempotency_key_def active_transaction_def payable_def start_payment_def mock_initiate_def
      flush_payment_def payment_unique_ok_def key_taken_def seconds_def table_eval sample_defs)

lemma applicant_claims:
  "callback_claims numbered_decode default_settings 15 mock_name applicant_state = Inr (1, 80, lit ''nonce'')"
  unfolding applicant_state_def
  by (rule claims_of_payment_state [OF numbered_laws]) (simp_all add: applicant_def sample_draft_def seconds_def)

definition gateway_success :: verification_result where
  "gateway_success = \<lparr>successful = True, result_transaction_id = Some (lit ''mock-'' @ lit ''nonce''),
     failure_code = None, failure_message = None\<rparr>"

definition paid_state :: reg_db where
  "paid_state = history_state (settle_registration gateway_success pending_applicant) named_contacts
     [settle_transaction 15 gateway_success open_payment]"

lemma paying_step8:
  "enroll_step sample_services (paying_history ! 7)
       (history_state pending_applicant named_contacts [open_payment], p, [lit ''nonce''])
     = (paid_state, p, [lit ''nonce''])"
  by (simp add: paying_history_def sample_history_def sample_services_def payment_callback_def applicant_claims
      history_state_def open_payment_def pending_transaction_def verify_callback_def mock_verify_def
      settle_transaction_def settle_registration_def payment_unique_ok_def pending_applicant_def
      submitted_applicant_def applicant_def paid_state_def gateway_success_def sample_draft_def sample_db_def
      table_eval)

lemma paying_events:
  "paying_history = [hd sample_history, sample_history ! 1, sample_history ! 2, paying_history ! 3, paying_history ! 4,
     paying_history ! 5, paying_history ! 6, paying_history ! 7]"
  by (simp add: paying_history_def sample_history_def)

lemma paying_run:
  "run (enroll_step sample_services) paying_history sample_start
     = (paid_state, [lit ''+989121234567'' \<mapsto> lit ''123456''], [lit ''nonce''])"
  by (subst paying_events) (simp only: run.simps sample_step1 sample_step2 sample_step3 paying_step4 paying_step5 paying_step6
      paying_step7 paying_step8)

lemma paying_legal: "legal (enroll_step sample_services) codes_before_completion paying_history sample_start"
proof -
  have first: "codes_before_completion st (hd sample_history)" for st :: "reg_db \<times> sent_codes \<times> ustr list"
    by (cases st) (simp add: sample_history_def)
  have verify: "codes_before_completion (sample_sent, p, g) (sample_history ! 2)" for p :: sent_codes and g :: "ustr list"
    by (simp add: sample_history_def sample_sent_def sample_created_def sample_db_def sample_draft_def table_eval)
  have other: "codes_before_completion st (sample_history ! 1)" "codes_before_completion st (paying_history ! 3)"
    "codes_before_completion st (paying_history ! 4)" "codes_before_completion st (paying_history ! 5)"
    "codes_before_completion st (paying_history ! 6)" "codes_before_completion st (paying_history ! 7)"
    for st :: "reg_db \<times> sent_codes \<times> ustr list"
    by (cases st, simp add: sample_history_def paying_history_def)+
  show ?thesis
    by (subst paying_events) (simp only: legal.simps sample_step1 sample_step2 sample_step3 paying_step4 paying_step5 paying_step6
        paying_step7 paying_step8 first verify other simp_thms)
qed

theorem paid_at_most_once_witness:
  "case run (enroll_step sample_services) paying_history sample_start of
     (s', p', g') \<Rightarrow>
       count_if (\<lambda>x. pay_status x = Pay_SUCCESSFUL) (payments s') = 1 \<and> length (registrations s') = 1
       \<and> list_all (\<lambda>r. reg_status r = Reg_COMPLETED \<and> count_if (\<lambda>x. pay_registration_id x = reg_id r
            \<and> pay_status x \<in> {Pay_SUCCESSFUL, Pay_INITIATED, Pay_PENDING}) (payments s') \<le> 1) (registrations s')"
proof -
  have "count_if (\<lambda>x. pay_status x = Pay_SUCCESSFUL) (payments paid_state) = 1" "length (registrations paid_state) = 1"
    "list_all (\<lambda>r. reg_status r = Reg_COMPLETED) (registrations paid_state)"
    by (simp_all add: paid_state_def history_state_def gateway_success_def)
  with paid_at_most_once [OF sample_services_bounds paying_legal [unfolded sample_start_def]] show ?thesis
    by (simp add: sample_start_def [symmetric] paying_run list_all_iff)
qed



section \<open>A registration paid again\<close>

text \<open>
  The condition is needed: the applicant of \<open>paying_history\<close>, completed and paid, is sent another
  code, verifies it, submits again, and the second payment is accepted.
\<close>

definition second_code :: otp_challenge where
  "second_code = new_challenge (\<lambda>k m. m) default_settings 70000000 71 (lit ''654321'') (lit ''127.0.0.1'')
     (hd (registrations paid_state))"

definition paid_again :: "enroll_event list" where
  "paid_again =
     [Send_otp 1 (lit ''slug'') 70000000 7 (lit ''secret'') 71 (lit ''654321'') (lit ''127.0.0.1''),
      Verify_otp 1 70000001 7 (lit ''secret'') (lit ''654321''),
      Submit 1 70000002 7 (lit ''secret''),
      Pay 1 70000003 7 (lit ''secret'') 81 (lit ''again'') (lit ''key-0002'')]"

definition resent_state :: reg_db where
  "resent_state = paid_state\<lparr>otps := [used_code, second_code]\<rparr>"

lemma again_step1:
  "enroll_step sample_services (paid_again ! 0) (paid_state, [lit ''+989121234567'' \<mapsto> lit ''123456''], g)
     = (resent_state, [lit ''+989121234567'' \<mapsto> lit ''654321''], g)"
  by (simp add: paid_again_def resent_state_def second_code_def paid_state_def history_state_def used_code_def
      sample_created_def settle_registration_def gateway_success_def pending_applicant_def submitted_applicant_def
      applicant_def sample_services_def send_otp_def send_def authorized_draft_def send_refused_def phone_count_def
      ip_count_def tenant_count_def latest_challenge_def active_count_def supersede_challenges_def key_taken_def
      mock_send_code_def new_challenge_def ip_hash_def seconds_def table_eval sample_defs)

definition reverified :: registration where
  "reverified = (hd (registrations paid_state))\<lparr>reg_status := Reg_PHONE_VERIFIED, phone_verified_at := Some 70000001\<rparr>"

definition reverified_state :: "registration \<Rightarrow> payment_transaction list \<Rightarrow> reg_db" where
  "reverified_state r ps = resent_state\<lparr>registrations := [r], payments := ps,
     otps := [used_code, second_code\<lparr>attempt_count := 1, consumed_at := Some 70000001\<rparr>]\<rparr>"

lemma again_step2:
  "enroll_step sample_services (paid_again ! 1) (resent_state, p, g)
     = (reverified_state reverified (payments paid_state), p, g)"
  by (simp add: paid_again_def reverified_state_def reverified_def resent_state_def second_code_def paid_state_def
      history_state_def used_code_def sample_created_def settle_registration_def gateway_success_def
      pending_applicant_def submitted_applicant_def applicant_def sample_services_def verify_otp_def verify_def
      authorized_draft_def pending_challenge_def of_registration_def new_challenge_def seconds_def table_eval sample_defs)

definition resubmitted :: registration where
  "resubmitted = reverified\<lparr>reg_status := Reg_SUBMITTED, submitted_at := Some 70000002\<rparr>"

lemma again_step3:
  "enroll_step sample_services (paid_again ! 2) (reverified_state reverified ps, p, g)
     = (reverified_state resubmitted ps, p, g)"
  by (simp add: paid_again_def reverified_state_def reverified_def resubmitted_def resent_state_def paid_state_def
      history_state_def settle_registration_def gateway_success_def pending_applicant_def submitted_applicant_def
      applicant_def named_contacts_def sample_services_def submit_registration_def with_draft_def authorized_draft_def
      submit_def missing_fields_def registration_contacts_def profile_image_ready_def form_check_def
      submitted_count_def flush_registration_def registration_unique_ok_def respond_def registration_response_def
      SUBMITTED_STATUSES_def transaction_def MUTABLE_STATUSES_def seconds_def table_eval sample_defs)

lemma again_step4:
  "\<exists>r x. \<forall>p. enroll_step sample_services (paid_again ! 3) (reverified_state resubmitted (payments paid_state), p, [lit ''nonce''])
     = (reverified_state r (payments paid_state @ [x]), p, [lit ''again'', lit ''nonce''])
     \<and> pay_registration_id x = 7 \<and> pay_status x = Pay_PENDING"
  by (simp add: paid_again_def reverified_state_def reverified_def resubmitted_def resent_state_def paid_state_def
      history_state_def settle_registration_def settle_transaction_def gateway_success_def pending_applicant_def
      open_payment_def pending_transaction_def submitted_applicant_def applicant_def sample_services_def
      initiate_payment_def initiate_def authorized_draft_def by_idempotency_key_def active_transaction_def payable_def
      start_payment_def mock_initiate_def flush_payment_def payment_unique_ok_def payment_conflict_def
      payment_active_def key_taken_def seconds_def table_eval sample_defs)

text \<open>second_payment_opens. After \<open>paying_history\<close> and \<open>paid_again\<close> the registration has a successful and
  an open payment.\<close>

theorem second_payment_opens:
  "case run (enroll_step sample_services) (paying_history @ paid_again) sample_start of
     (s', p', g') \<Rightarrow> count_if (\<lambda>x. pay_registration_id x = 7
       \<and> pay_status x \<in> {Pay_SUCCESSFUL, Pay_INITIATED, Pay_PENDING}) (payments s') = 2"
proof -
  have events: "paid_again = [paid_again ! 0, paid_again ! 1, paid_again ! 2, paid_again ! 3]"
    by (simp add: paid_again_def)
  obtain r x where last: "enroll_step sample_services (paid_again ! 3) (reverified_state resubmitted (payments paid_state), p, [lit ''nonce''])
     = (reverified_state r (payments paid_state @ [x]), p, [lit ''again'', lit ''nonce''])"
     "pay_registration_id x = 7" "pay_status x = Pay_PENDING" for p
    using again_step4 by metis
  have "run (enroll_step sample_services) (paying_history @ paid_again) sample_start
      = (reverified_state r (payments paid_state @ [x]), [lit ''+989121234567'' \<mapsto> lit ''654321''], [lit ''again'', lit ''nonce''])"
    by (subst events) (simp only: run_append run.simps paying_run again_step1 again_step2 again_step3 last)
  moreover have "payments paid_state = [settle_transaction 15 gateway_success open_payment]"
    by (simp add: paid_state_def history_state_def)
  moreover have "pay_registration_id open_payment = 7"
    by (simp add: open_payment_def pending_transaction_def applicant_def)
  ultimately show ?thesis
    using last(2,3) by (simp add: reverified_state_def gateway_success_def)
qed

end
