(* ===== verification/Pagination.thy ===== *)
theory Pagination
  imports Prelude
begin

text \<open>
  \<open>PageParams\<close> and \<open>Page\<close> of \<open>app/core/pagination.py\<close>, and the \<open>OFFSET ... LIMIT ...\<close> queries
  the list endpoints run with them.
\<close>

record page_params =
  page :: int
  page_size :: int

text \<open>The bounds of the two \<open>Query\<close> parameters; a request outside them is answered with 422.\<close>

definition valid_page_params :: "page_params \<Rightarrow> bool" where
  "valid_page_params p \<longleftrightarrow> 1 \<le> page p \<and> 1 \<le> page_size p \<and> page_size p \<le> 100"

definition offset :: "page_params \<Rightarrow> int" where
  "offset p = (page p - 1) * page_size p"

definition offset_limit :: "page_params \<Rightarrow> 'r list \<Rightarrow> 'r list" where
  "offset_limit p rows = take (nat (page_size p)) (drop (nat (offset p)) rows)"

record 'r page_result =
  items :: "'r list"
  result_page :: int
  result_page_size :: int
  total :: nat

definition page_of :: "page_params \<Rightarrow> 'r list \<Rightarrow> 'r page_result" where
  "page_of p rows =
     \<lparr>items = offset_limit p rows, result_page = page p, result_page_size = page_size p,
      total = length rows\<rparr>"

text \<open>The pages from the first to the \<open>n\<close>-th put together are the first \<open>n * k\<close> rows.\<close>

lemma pages_are_prefix:
  "0 < k \<Longrightarrow>
     concat (map (\<lambda>i. offset_limit \<lparr>page = int i, page_size = int k\<rparr> rows) [1..<Suc n])
       = take (n * k) rows"
proof (induction n)
  case (Suc n)
  have "nat (offset \<lparr>page = int (Suc n), page_size = int k\<rparr>) = n * k"
    by (simp add: offset_def nat_mult_distrib)
  then have "offset_limit \<lparr>page = int (Suc n), page_size = int k\<rparr> rows = take k (drop (n * k) rows)"
    by (simp add: offset_limit_def)
  with Suc show ?case
    by (simp add: take_add [symmetric] add.commute)
qed simp

lemma length_offset_limit:
  "valid_page_params p \<Longrightarrow> length (offset_limit p rows) \<le> 100"
  by (auto simp: offset_limit_def valid_page_params_def)

end
