(* ===== verification/SiteBuilds.thy ===== *)
theory SiteBuilds
  imports Tables Config Pagination
begin

text \<open>
  The static-site build queue: the tables of \<open>site_builds/models.py\<close>, \<open>SiteBuildService\<close>, the
  worker's \<open>_claim\<close> and \<open>_trigger_failed\<close>, \<open>BuildResultService.record\<close> and the admin endpoints.

  Sessions are created with \<open>autoflush=False\<close>: a query sees the rows as last flushed, so \<open>claim\<close>
  keeps the objects it has changed apart from the table until the unit of work writes them, one
  UPDATE after the other, each against the partial unique indexes. In which order it writes the
  two rows a claim may change is an argument.
\<close>

section \<open>Tables\<close>

datatype tenant_status = Tenant_ACTIVE | Tenant_SUSPENDED | Tenant_ARCHIVED

record tenant =
  tenant_id :: uuid
  tenant_name :: ustr
  slug :: ustr
  tenant_status :: tenant_status
  default_locale :: ustr
  timezone :: ustr
  default_currency :: ustr
  tenant_created_at :: instant

record site_state =
  st_tenant_id :: uuid
  content_revision :: int
  last_successful_build_revision :: "int option"
  last_build_at :: "instant option"

record build_config =
  cfg_tenant_id :: uuid
  cfg_enabled :: bool
  canonical_domain :: ustr
  build_target_key :: ustr
  deployment_target_key :: ustr

datatype build_status = PENDING | RUNNING | SUCCESSFUL | FAILED | SUPERSEDED

record build_request =
  br_id :: uuid
  br_tenant_id :: uuid
  br_reason :: ustr
  br_entity_type :: "ustr option"
  br_entity_id :: "uuid option"
  target_revision :: int
  br_status :: build_status
  br_attempt_count :: int
  requested_at :: instant
  next_attempt_at :: instant
  started_at :: "instant option"
  lease_expires_at :: "instant option"
  completed_at :: "instant option"
  failed_at :: "instant option"
  actual_revision :: "int option"
  last_error :: "ustr option"
  br_created_by :: "uuid option"

record audit_entry =
  ae_tenant_id :: uuid
  ae_actor :: "uuid option"
  ae_action :: string
  ae_entity_type :: string
  ae_entity_id :: "uuid option"
  ae_metadata :: "(ustr \<times> json) list"
  ae_created_at :: instant

record site_db =
  tenants :: "tenant list"
  site_states :: "site_state list"
  build_configs :: "build_config list"
  build_requests :: "build_request list"
  audit_log :: "audit_entry list"

text \<open>The CHECK constraints.\<close>

definition site_state_checks :: "site_state \<Rightarrow> bool" where
  "site_state_checks x \<longleftrightarrow> 0 \<le> content_revision x
     \<and> (case last_successful_build_revision x of None \<Rightarrow> True | Some r \<Rightarrow> 0 \<le> r)"

definition build_request_checks :: "build_request \<Rightarrow> bool" where
  "build_request_checks r \<longleftrightarrow> 0 \<le> target_revision r \<and> 0 \<le> br_attempt_count r"

text \<open>The two partial unique indexes: one PENDING and one RUNNING request per tenant.\<close>

definition build_conflict :: "build_request \<Rightarrow> build_request \<Rightarrow> bool" where
  "build_conflict x y \<longleftrightarrow> br_tenant_id x = br_tenant_id y \<and> br_status x = br_status y
     \<and> br_status x \<in> {PENDING, RUNNING}"

definition build_unique_ok :: "build_request \<Rightarrow> 'z site_db_scheme \<Rightarrow> bool" where
  "build_unique_ok r s \<longleftrightarrow> list_all (\<lambda>x. br_id x \<noteq> br_id r \<longrightarrow> \<not> build_conflict x r) (build_requests s)"

abbreviation get_build where
  "get_build cur i s \<equiv> get_row br_tenant_id br_id cur i (build_requests s)"

abbreviation save_build where
  "save_build cur r s \<equiv> s\<lparr>build_requests := save_row br_tenant_id br_id cur r (build_requests s)\<rparr>"

definition flush_build ::
  "session \<Rightarrow> build_request \<Rightarrow> 'z site_db_scheme \<Rightarrow> (build_request, 'z site_db_scheme) outcome" where
  "flush_build cur r s =
     (if \<not> build_unique_ok r s then (Inl IntegrityError, s) else (Inr r, save_build cur r s))"

fun flush_builds ::
  "session \<Rightarrow> build_request list \<Rightarrow> 'z site_db_scheme \<Rightarrow> (unit, 'z site_db_scheme) outcome" where
  "flush_builds cur [] s = (Inr (), s)"
| "flush_builds cur (r # rs) s = and_then (flush_build cur r s) (\<lambda>_. flush_builds cur rs)"

text \<open>\<open>select(SiteBuildRequest).where(status == ...)\<close>, first row.\<close>

definition pending_build :: "session \<Rightarrow> 'z site_db_scheme \<Rightarrow> build_request option" where
  "pending_build cur s = scalar (select_where br_tenant_id cur (\<lambda>x. br_status x = PENDING) (build_requests s))"

definition running_build :: "session \<Rightarrow> 'z site_db_scheme \<Rightarrow> build_request option" where
  "running_build cur s = scalar (select_where br_tenant_id cur (\<lambda>x. br_status x = RUNNING) (build_requests s))"

section \<open>\<open>SiteBuildService\<close>\<close>

definition find_state :: "session \<Rightarrow> uuid \<Rightarrow> 'z site_db_scheme \<Rightarrow> site_state option" where
  "find_state cur tenant s = get_row st_tenant_id st_tenant_id cur tenant (site_states s)"

definition state_for_update ::
  "session \<Rightarrow> uuid \<Rightarrow> 'z site_db_scheme \<Rightarrow> (site_state, 'z site_db_scheme) outcome" where
  "state_for_update cur tenant s =
     (let fresh = \<lparr>st_tenant_id = tenant, content_revision = 0, last_successful_build_revision = None,
                   last_build_at = None\<rparr>;
          s = (if key_taken st_tenant_id fresh (site_states s) then s
               else s\<lparr>site_states := insert_row fresh (site_states s)\<rparr>)
      in case find_state cur tenant s of
           None \<Rightarrow> (Inl (PyRuntimeError ''tenant site state could not be established''), s)
         | Some st \<Rightarrow> (Inr st, s))"

abbreviation save_state where
  "save_state cur st s \<equiv> s\<lparr>site_states := save_row st_tenant_id st_tenant_id cur st (site_states s)\<rparr>"

record change =
  change_reason :: ustr
  change_entity_type :: "ustr option"
  change_entity_id :: "uuid option"
  change_by :: "uuid option"

definition coalesced :: "instant \<Rightarrow> int \<Rightarrow> change \<Rightarrow> build_request \<Rightarrow> build_request" where
  "coalesced now target ch p =
     p\<lparr>target_revision := max (target_revision p) target, br_reason := change_reason ch,
       br_entity_type := change_entity_type ch, br_entity_id := change_entity_id ch,
       br_created_by := change_by ch, requested_at := now, next_attempt_at := now, last_error := None\<rparr>"

definition new_request :: "uuid \<Rightarrow> instant \<Rightarrow> uuid \<Rightarrow> int \<Rightarrow> change \<Rightarrow> build_request" where
  "new_request fresh now tenant target ch =
     \<lparr>br_id = fresh, br_tenant_id = tenant, br_reason = change_reason ch,
      br_entity_type = change_entity_type ch, br_entity_id = change_entity_id ch,
      target_revision = target, br_status = PENDING, br_attempt_count = 0, requested_at = now,
      next_attempt_at = now, started_at = None, lease_expires_at = None, completed_at = None,
      failed_at = None, actual_revision = None, last_error = None, br_created_by = change_by ch\<rparr>"

definition enqueue ::
  "session \<Rightarrow> instant \<Rightarrow> uuid \<Rightarrow> uuid \<Rightarrow> int \<Rightarrow> change \<Rightarrow> 'z site_db_scheme
     \<Rightarrow> (build_request, 'z site_db_scheme) outcome" where
  "enqueue cur now fresh tenant target ch s =
     (case pending_build cur s of
        Some p \<Rightarrow> flush_build cur (coalesced now target ch p) s
      | None \<Rightarrow>
          (let r = new_request fresh now tenant target ch in
           if key_taken br_id r (build_requests s) \<or> \<not> build_unique_ok r s then (Inl IntegrityError, s)
           else (Inr r, s\<lparr>build_requests := insert_row r (build_requests s)\<rparr>)))"

definition public_content_changed ::
  "session \<Rightarrow> instant \<Rightarrow> uuid \<Rightarrow> uuid \<Rightarrow> change \<Rightarrow> 'z site_db_scheme
     \<Rightarrow> (build_request, 'z site_db_scheme) outcome" where
  "public_content_changed cur now fresh tenant ch s =
     and_then (state_for_update cur tenant s) (\<lambda>st s.
       let st = st\<lparr>content_revision := content_revision st + 1\<rparr> in
       enqueue cur now fresh tenant (content_revision st) ch (save_state cur st s))"

definition manual_rebuild ::
  "session \<Rightarrow> instant \<Rightarrow> uuid \<Rightarrow> uuid \<Rightarrow> uuid \<Rightarrow> 'z site_db_scheme
     \<Rightarrow> (build_request, 'z site_db_scheme) outcome" where
  "manual_rebuild cur now fresh tenant created_by s =
     and_then (state_for_update cur tenant s) (\<lambda>st s.
       enqueue cur now fresh tenant (content_revision st)
         \<lparr>change_reason = lit ''manual_rebuild'', change_entity_type = None, change_entity_id = None,
          change_by = Some created_by\<rparr> s)"

datatype display_state = UP_TO_DATE | Display_PENDING | BUILDING | Display_FAILED | NOT_CONFIGURED

record build_status_view =
  current_content_revision :: int
  deployed_revision :: "int option"
  view_state :: display_state
  latest_request_id :: "uuid option"
  latest_status :: "build_status option"
  latest_target_revision :: "int option"
  latest_failure :: "ustr option"
  view_requested_at :: "instant option"
  view_completed_at :: "instant option"

text \<open>\<open>(deployed or -1)\<close>: a deployed revision 0 is falsy and counts as \<open>-1\<close>.\<close>

definition or_minus_one :: "int option \<Rightarrow> int" where
  "or_minus_one deployed = (case deployed of None \<Rightarrow> - 1 | Some d \<Rightarrow> if d = 0 then - 1 else d)"

definition display_of :: "bool option \<Rightarrow> build_status option \<Rightarrow> int \<Rightarrow> int option \<Rightarrow> display_state" where
  "display_of config newest current deployed =
     (if config \<noteq> Some True then NOT_CONFIGURED
      else if newest = Some RUNNING then BUILDING
      else if newest = Some PENDING then Display_PENDING
      else if newest = Some FAILED \<and> or_minus_one deployed < current then Display_FAILED
      else if (case deployed of None \<Rightarrow> False | Some d \<Rightarrow> current \<le> d) then UP_TO_DATE
      else Display_PENDING)"

definition latest_build :: "session \<Rightarrow> 'z site_db_scheme \<Rightarrow> build_request option" where
  "latest_build cur s = latest requested_at (visible br_tenant_id cur (build_requests s))"

definition status :: "session \<Rightarrow> 'z site_db_scheme \<Rightarrow> build_status_view" where
  "status cur s =
     (let state = scalar (visible st_tenant_id cur (site_states s));
          newest = latest_build cur s;
          config = map_option cfg_enabled (scalar (visible cfg_tenant_id cur (build_configs s)));
          current = (case state of None \<Rightarrow> 0 | Some st \<Rightarrow> content_revision st);
          deployed = Option.bind state last_successful_build_revision
      in \<lparr>current_content_revision = current, deployed_revision = deployed,
          view_state = display_of config (map_option br_status newest) current deployed,
          latest_request_id = map_option br_id newest, latest_status = map_option br_status newest,
          latest_target_revision = map_option target_revision newest,
          latest_failure = Option.bind newest (\<lambda>r. if br_status r = FAILED then last_error r else None),
          view_requested_at = map_option requested_at newest,
          view_completed_at = Option.bind newest completed_at\<rparr>)"

section \<open>The worker\<close>

text \<open>The earliest due request as the table has it; \<open>fetch\<close> is the identity map: the object the
session has already loaded and changed is the one the query returns.\<close>

definition due_build :: "session \<Rightarrow> instant \<Rightarrow> 'z site_db_scheme \<Rightarrow> build_request option" where
  "due_build cur now s =
     latest (\<lambda>r. - requested_at r)
       (select_where br_tenant_id cur (\<lambda>r. br_status r = PENDING \<and> next_attempt_at r \<le> now) (build_requests s))"

definition fetch :: "build_request list \<Rightarrow> build_request \<Rightarrow> build_request" where
  "fetch dirty x = or_default (find (\<lambda>d. br_id d = br_id x) dirty) x"

definition started :: "settings \<Rightarrow> instant \<Rightarrow> build_request \<Rightarrow> build_request" where
  "started c now r =
     r\<lparr>br_status := RUNNING, br_attempt_count := br_attempt_count r + 1, started_at := Some now,
       lease_expires_at := Some (now + seconds (site_build_lease_seconds c)), last_error := None\<rparr>"

definition start_due ::
  "settings \<Rightarrow> session \<Rightarrow> instant \<Rightarrow> bool \<Rightarrow> build_request list \<Rightarrow> 'z site_db_scheme
     \<Rightarrow> (build_request option, 'z site_db_scheme) outcome" where
  "start_due c cur now claimed_first dirty s =
     (case due_build cur now s of
        None \<Rightarrow> and_then (flush_builds cur dirty s) (\<lambda>_ s. (Inr None, s))
      | Some x \<Rightarrow>
          (let r = started c now (fetch dirty x);
               rest = filter (\<lambda>d. br_id d \<noteq> br_id x) dirty
           in and_then (flush_builds cur (if claimed_first then r # rest else rest @ [r]) s)
                (\<lambda>_ s. (Inr (Some r), s))))"

definition lease_lost :: ustr where
  "lease_lost = lit ''worker lease expired; a newer request will retry''"

definition claim_body ::
  "settings \<Rightarrow> session \<Rightarrow> instant \<Rightarrow> bool \<Rightarrow> 'z site_db_scheme
     \<Rightarrow> (build_request option, 'z site_db_scheme) outcome" where
  "claim_body c cur now claimed_first s =
     (if select_where cfg_tenant_id cur cfg_enabled (build_configs s) = [] then (Inr None, s)
      else
        (case running_build cur s of
           None \<Rightarrow> start_due c cur now claimed_first [] s
         | Some r \<Rightarrow>
             if (case lease_expires_at r of None \<Rightarrow> True | Some e \<Rightarrow> now < e) then (Inr None, s)
             else
               (case pending_build cur s of
                  Some p \<Rightarrow>
                    start_due c cur now claimed_first
                      [p\<lparr>target_revision := max (target_revision p) (target_revision r)\<rparr>,
                       r\<lparr>br_status := SUPERSEDED, last_error := Some lease_lost\<rparr>] s
                | None \<Rightarrow>
                    start_due c cur now claimed_first
                      [r\<lparr>br_status := PENDING, started_at := None, lease_expires_at := None,
                         next_attempt_at := now\<rparr>] s)))"

definition claim where
  "claim c tenant now claimed_first = transaction (claim_body c (tenant_session tenant) now claimed_first)"

definition retry_delay :: "int \<Rightarrow> int" where
  "retry_delay attempts = min 3600 (2 ^ nat (max 0 (attempts - 1)) * 30)"

definition safe_error :: "ustr \<Rightarrow> ustr" where
  "safe_error error =
     (let text = take 2000 (strip error) in if text = [] then lit ''build trigger failed'' else text)"

definition trigger_failed ::
  "settings \<Rightarrow> uuid \<Rightarrow> instant \<Rightarrow> uuid \<Rightarrow> ustr \<Rightarrow> 'z site_db_scheme \<Rightarrow> (unit, 'z site_db_scheme) outcome" where
  "trigger_failed c tenant now request_id error =
     transaction (\<lambda>s.
       let cur = tenant_session tenant in
       case get_build cur request_id s of
         None \<Rightarrow> (Inr (), s)
       | Some r \<Rightarrow>
           if br_status r \<noteq> RUNNING then (Inr (), s)
           else
             (case pending_build cur s of
                Some newer \<Rightarrow>
                  flush_builds cur
                    [newer\<lparr>target_revision := max (target_revision newer) (target_revision r)\<rparr>,
                     r\<lparr>br_status := SUPERSEDED, last_error := Some (safe_error error), lease_expires_at := None\<rparr>] s
              | None \<Rightarrow>
                  if br_attempt_count r \<ge> int (site_build_max_attempts c) then
                    flush_builds cur
                      [r\<lparr>br_status := FAILED, failed_at := Some now, last_error := Some (safe_error error),
                         lease_expires_at := None\<rparr>] s
                  else
                    flush_builds cur
                      [r\<lparr>br_status := PENDING,
                         next_attempt_at := now + seconds (retry_delay (br_attempt_count r)),
                         started_at := None, lease_expires_at := None,
                         last_error := Some (safe_error error)\<rparr>] s))"

section \<open>\<open>BuildResultService\<close>\<close>

datatype result_status = Result_SUCCESSFUL | Result_FAILED

record build_result =
  res_tenant_id :: uuid
  res_status :: result_status
  res_actual_revision :: "int option"
  res_error :: "ustr option"
  retryable :: bool

text \<open>The bounds of the body's fields.\<close>

definition valid_build_result :: "build_result \<Rightarrow> bool" where
  "valid_build_result b \<longleftrightarrow> (case res_actual_revision b of None \<Rightarrow> True | Some r \<Rightarrow> 0 \<le> r)
     \<and> (case res_error b of None \<Rightarrow> True | Some e \<Rightarrow> length e \<le> 2000)"

abbreviation result_conflict :: exn where
  "result_conflict \<equiv> app_error ''BUILD_RESULT_CONFLICT'' 409"

definition record_success ::
  "session \<Rightarrow> instant \<Rightarrow> int \<Rightarrow> build_request \<Rightarrow> uuid \<Rightarrow> 'z site_db_scheme
     \<Rightarrow> (build_request, 'z site_db_scheme) outcome" where
  "record_success cur now actual r tenant s =
     (if br_status r = SUCCESSFUL \<or> (br_status r = SUPERSEDED \<and> completed_at r \<noteq> None)
      then (if actual_revision r \<noteq> Some actual then (Inl result_conflict, s) else (Inr r, s))
      else if br_status r = FAILED then (Inl result_conflict, s)
      else
        and_then (state_for_update cur tenant s) (\<lambda>st s.
          let st = st\<lparr>last_successful_build_revision :=
                        Some (max (or_default (last_successful_build_revision st) 0) actual),
                      last_build_at := Some now\<rparr>;
              r = (if br_status r \<noteq> SUPERSEDED then r\<lparr>br_status := SUCCESSFUL\<rparr> else r);
              r = r\<lparr>actual_revision := Some actual, completed_at := Some now, lease_expires_at := None,
                    last_error := None\<rparr>
          in flush_build cur r (save_state cur st s)))"

text \<open>\<open>newer\<close> is the same object as \<open>request\<close> when the request itself is PENDING.\<close>

definition record_failure ::
  "settings \<Rightarrow> session \<Rightarrow> instant \<Rightarrow> build_result \<Rightarrow> build_request \<Rightarrow> 'z site_db_scheme
     \<Rightarrow> (build_request, 'z site_db_scheme) outcome" where
  "record_failure c cur now result r s =
     (if br_status r \<in> {SUCCESSFUL, SUPERSEDED, FAILED} then (Inr r, s)
      else
        (let closed = (\<lambda>r. r\<lparr>lease_expires_at := None,
               last_error := Some (take 2000 (strip
                 (case res_error result of
                    None \<Rightarrow> lit ''build failed''
                  | Some e \<Rightarrow> if e = [] then lit ''build failed'' else e)))\<rparr>)
         in case pending_build cur s of
              Some newer \<Rightarrow>
                (let newer' = newer\<lparr>target_revision := max (target_revision newer) (target_revision r)\<rparr>;
                     r' = closed ((if br_id newer = br_id r then newer' else r)\<lparr>br_status := SUPERSEDED\<rparr>)
                 in and_then
                      (flush_builds cur (if br_id newer = br_id r then [r'] else [newer', r']) s)
                      (\<lambda>_ s. (Inr r', s)))
            | None \<Rightarrow>
                if retryable result \<and> br_attempt_count r < int (site_build_max_attempts c) then
                  flush_build cur
                    (closed (r\<lparr>br_status := PENDING,
                               next_attempt_at := now + seconds (retry_delay (br_attempt_count r)),
                               started_at := None\<rparr>)) s
                else flush_build cur (closed (r\<lparr>br_status := FAILED, failed_at := Some now\<rparr>)) s))"

definition record_result ::
  "settings \<Rightarrow> session \<Rightarrow> instant \<Rightarrow> uuid \<Rightarrow> build_result \<Rightarrow> 'z site_db_scheme
     \<Rightarrow> (build_request, 'z site_db_scheme) outcome" where
  "record_result c cur now request_id result s =
     (case get_build cur request_id s of
        None \<Rightarrow> (Inl (app_error ''BUILD_REQUEST_NOT_FOUND'' 404), s)
      | Some r \<Rightarrow>
          if br_tenant_id r \<noteq> res_tenant_id result then (Inl (app_error ''BUILD_REQUEST_NOT_FOUND'' 404), s)
          else
            (case res_status result of
               Result_SUCCESSFUL \<Rightarrow>
                 (case res_actual_revision result of
                    None \<Rightarrow> (Inl (app_error ''BUILD_REVISION_INVALID'' 422), s)
                  | Some actual \<Rightarrow>
                      if actual < target_revision r then (Inl (app_error ''BUILD_REVISION_INVALID'' 422), s)
                      else record_success cur now actual r (res_tenant_id result) s)
             | Result_FAILED \<Rightarrow> record_failure c cur now result r s))"

section \<open>Admin endpoints\<close>

definition build_history :: "session \<Rightarrow> page_params \<Rightarrow> 'z site_db_scheme \<Rightarrow> build_request page_result" where
  "build_history cur p s =
     page_of p (sort_key (\<lambda>r. - requested_at r) (rev (sort_key br_id (visible br_tenant_id cur (build_requests s)))))"

definition request_rebuild where
  "request_rebuild now fresh tenant actor =
     transaction (\<lambda>s.
       and_then (manual_rebuild (tenant_session tenant) now fresh tenant actor s) (\<lambda>r s.
         let s = s\<lparr>audit_log := insert_row
                 \<lparr>ae_tenant_id = tenant, ae_actor = Some actor, ae_action = ''site_build.manual_requested'',
                  ae_entity_type = ''site_build_request'', ae_entity_id = Some (br_id r),
                  ae_metadata = [(lit ''target_revision'', JInt (target_revision r))],
                  ae_created_at = now\<rparr> (audit_log s)\<rparr>
         in (Inr (status (tenant_session tenant) s), s)))"

section \<open>Configuration\<close>

text \<open>
  The writes of \<open>set_site_build_config\<close> (\<open>tenancy/platform_router.py\<close>) once the canonical domain
  was found to be a registered one: the row is inserted or every field of it overwritten.
\<close>

definition write_build_config ::
  "session \<Rightarrow> instant \<Rightarrow> uuid \<Rightarrow> build_config \<Rightarrow> 'z site_db_scheme \<Rightarrow> 'z site_db_scheme" where
  "write_build_config cur now actor config s =
     (let s = (case get_row cfg_tenant_id cfg_tenant_id cur (cfg_tenant_id config) (build_configs s) of
                 None \<Rightarrow> s\<lparr>build_configs := insert_row config (build_configs s)\<rparr>
               | Some _ \<Rightarrow> s\<lparr>build_configs := save_row cfg_tenant_id cfg_tenant_id cur config (build_configs s)\<rparr>)
      in s\<lparr>audit_log := insert_row
             \<lparr>ae_tenant_id = cfg_tenant_id config, ae_actor = Some actor, ae_action = ''site_build.config_updated'',
              ae_entity_type = ''tenant_site_build_config'', ae_entity_id = None,
              ae_metadata = [(lit ''enabled'', JBool (cfg_enabled config))], ae_created_at = now\<rparr> (audit_log s)\<rparr>)"

end
