(* ===== verification/SiteBuildQueue.thy ===== *)
theory SiteBuildQueue
  imports SiteBuilds
begin

text \<open>
  The build queue as a transition system over the operations of \<open>SiteBuilds\<close>, in any
  interleaving of tenants, content changes, workers and result callbacks: the invariant of the
  queue, the monotone revisions, and that no published change is lost.
\<close>

section \<open>Events\<close>

datatype queue_event =
    Changed uuid instant uuid change
  | Rebuild uuid instant uuid uuid
  | Claim uuid instant bool
  | Trigger_failure uuid instant uuid ustr
  | Result instant uuid build_result
  | Configure instant uuid build_config

fun queue_step :: "settings \<Rightarrow> queue_event \<Rightarrow> 'z site_db_scheme \<Rightarrow> 'z site_db_scheme" where
  "queue_step c (Changed t now fresh ch) s =
     snd (transaction (public_content_changed (tenant_session t) now fresh t ch) s)"
| "queue_step c (Rebuild t now fresh actor) s = snd (request_rebuild now fresh t actor s)"
| "queue_step c (Claim t now claimed_first) s = snd (claim c t now claimed_first s)"
| "queue_step c (Trigger_failure t now i error) s = snd (trigger_failed c t now i error s)"
| "queue_step c (Result now i b) s =
     snd (transaction (record_result c (tenant_session (res_tenant_id b)) now i b) s)"
| "queue_step c (Configure now actor config) s =
     write_build_config (tenant_session (cfg_tenant_id config)) now actor config s"

fun queue_tenant :: "queue_event \<Rightarrow> uuid option" where
  "queue_tenant (Changed t now fresh ch) = Some t"
| "queue_tenant (Rebuild t now fresh actor) = Some t"
| "queue_tenant (Claim t now claimed_first) = Some t"
| "queue_tenant (Trigger_failure t now i error) = Some t"
| "queue_tenant (Result now i b) = Some (res_tenant_id b)"
| "queue_tenant (Configure now actor config) = Some (cfg_tenant_id config)"

section \<open>The invariant\<close>

definition content_of :: "uuid \<Rightarrow> 'z site_db_scheme \<Rightarrow> int" where
  "content_of t s = (case find_state (tenant_session t) t s of None \<Rightarrow> 0 | Some st \<Rightarrow> content_revision st)"

definition deployed_of :: "uuid \<Rightarrow> 'z site_db_scheme \<Rightarrow> int" where
  "deployed_of t s =
     (case find_state (tenant_session t) t s of
        None \<Rightarrow> 0 | Some st \<Rightarrow> or_default (last_successful_build_revision st) 0)"

definition row_ok :: "'z site_db_scheme \<Rightarrow> build_request \<Rightarrow> bool" where
  "row_ok s r \<longleftrightarrow> build_request_checks r \<and> target_revision r \<le> content_of (br_tenant_id r) s
     \<and> (br_status r = SUCCESSFUL \<longrightarrow>
          (case actual_revision r of None \<Rightarrow> False
           | Some a \<Rightarrow> target_revision r \<le> a \<and> a \<le> deployed_of (br_tenant_id r) s))"

definition queue_inv :: "'z site_db_scheme \<Rightarrow> bool" where
  "queue_inv s \<longleftrightarrow> distinct (map br_id (build_requests s)) \<and> exclusive br_id build_conflict (build_requests s)
     \<and> list_all (row_ok s) (build_requests s) \<and> list_all site_state_checks (site_states s)"

lemma queue_invD:
  assumes "queue_inv s"
  shows "distinct (map br_id (build_requests s))" "exclusive br_id build_conflict (build_requests s)"
    "\<And>r. r \<in> set (build_requests s) \<Longrightarrow> row_ok s r" "\<And>st. st \<in> set (site_states s) \<Longrightarrow> site_state_checks st"
  using assms by (auto simp: queue_inv_def list_all_iff)

lemma build_conflict_sym: "build_conflict x y \<Longrightarrow> build_conflict y x"
  by (auto simp: build_conflict_def)

lemma row_ok_same: "site_states s' = site_states s \<Longrightarrow> row_ok s' r = row_ok s r"
  by (simp add: row_ok_def content_of_def deployed_of_def find_state_def split: option.split)

lemma queue_inv_same:
  "queue_inv s \<Longrightarrow> build_requests s' = build_requests s \<Longrightarrow> site_states s' = site_states s \<Longrightarrow> queue_inv s'"
  using row_ok_same [of s' s] by (simp add: queue_inv_def list_all_iff)

lemma flush_build_Inr:
  "flush_build cur r s = (Inr x, s') \<longleftrightarrow> build_unique_ok r s \<and> x = r \<and> s' = save_build cur r s"
  by (auto simp: flush_build_def)

lemma flush_builds_Inr:
  "flush_builds cur [] s = (Inr x, s') \<longleftrightarrow> s' = s"
  "flush_builds cur (r # rs) s = (Inr x, s')
     \<longleftrightarrow> build_unique_ok r s \<and> flush_builds cur rs (save_build cur r s) = (Inr x, s')"
  by (auto simp: and_then_eq_Inr flush_build_Inr flush_builds.simps)

declare flush_builds.simps [simp del]

text \<open>The edit of one row.\<close>

lemma queue_inv_save:
  assumes inv: "queue_inv s" and r0: "r0 \<in> set (build_requests s)" "br_id r = br_id r0"
      "br_tenant_id r = br_tenant_id r0" "tenant_isolation_policy cur (br_tenant_id r0)"
    and ok: "build_unique_ok r s" "row_ok s r"
  shows "queue_inv (save_build cur r s)"
proof -
  note I = queue_invD [OF inv]
  let ?rows = "save_row br_tenant_id br_id cur r (build_requests s)"
  have rows: "set ?rows = insert r (set (build_requests s) - {r0})"
    using I(1) r0 by (intro save_row_unique) auto
  have "map br_id ?rows = map br_id (build_requests s)"
    by (rule save_row_keys) auto
  moreover have "exclusive br_id build_conflict ?rows"
    using ok(1) by (intro exclusive_subset [OF I(2), where r = r])
      (auto simp: rows build_unique_ok_def list_all_iff intro: build_conflict_sym)
  moreover have "\<forall>x\<in>set ?rows. row_ok s x"
    using I(3) ok(2) by (auto simp: rows)
  ultimately show ?thesis
    using inv row_ok_same [of "save_build cur r s" s] by (simp add: queue_inv_def list_all_iff)
qed

lemma queue_inv_insert:
  assumes "queue_inv s" "br_id r \<notin> br_id ` set (build_requests s)" "build_unique_ok r s" "row_ok s r"
  shows "queue_inv (s\<lparr>build_requests := insert_row r (build_requests s)\<rparr>)"
proof -
  note I = queue_invD [OF assms(1)]
  have "exclusive br_id build_conflict (build_requests s @ [r])"
    using assms(3) by (intro exclusive_subset [OF I(2), where r = r])
      (auto simp: build_unique_ok_def list_all_iff intro: build_conflict_sym)
  then show ?thesis
    using assms row_ok_same [of "s\<lparr>build_requests := build_requests s @ [r]\<rparr>" s]
    by (simp add: queue_inv_def insert_row_def list_all_iff)
qed

text \<open>The edit of a tenant's state, which only raises its revisions.\<close>

lemma find_state_save:
  "find_state (tenant_session u) u (save_state (tenant_session t) st s) =
     (if u = t \<and> st_tenant_id st = t then map_option (\<lambda>_. st) (find_state (tenant_session t) t s)
      else find_state (tenant_session u) u s)"
proof -
  have "get_row st_tenant_id st_tenant_id (tenant_session u) u
      (save_row st_tenant_id st_tenant_id (tenant_session t) st rows)
     = (if u = t \<and> st_tenant_id st = t
        then map_option (\<lambda>_. st) (get_row st_tenant_id st_tenant_id (tenant_session t) t rows)
        else get_row st_tenant_id st_tenant_id (tenant_session u) u rows)" for rows
    by (induction rows) (auto simp: get_row_Cons save_row_def update_where_def get_row_def select_where_def visible_def)
  then show ?thesis by (simp add: find_state_def)
qed

lemma queue_inv_state:
  assumes inv: "queue_inv s" and st0: "find_state (tenant_session t) t s = Some st0"
    and st: "st_tenant_id st = t" "content_revision st0 \<le> content_revision st"
      "or_default (last_successful_build_revision st0) 0 \<le> or_default (last_successful_build_revision st) 0"
      "site_state_checks st"
  shows "queue_inv (save_state (tenant_session t) st s)"
proof -
  note I = queue_invD [OF inv]
  let ?s = "save_state (tenant_session t) st s"
  have "content_of u s \<le> content_of u ?s" "deployed_of u s \<le> deployed_of u ?s" for u
    unfolding content_of_def deployed_of_def find_state_save using st0 st by auto
  then have "row_ok ?s r" if "row_ok s r" for r
    using that unfolding row_ok_def by (fastforce split: option.splits intro: order_trans)
  moreover have "site_state_checks x" if "x \<in> set (site_states ?s)" for x
    using that st(4) I(4) by (auto dest: in_save_rowD)
  ultimately show ?thesis
    using inv by (auto simp: queue_inv_def list_all_iff)
qed

lemma state_for_update_Inr:
  assumes "state_for_update (tenant_session t) t s = (Inr st, s')"
  shows "find_state (tenant_session t) t s' = Some st" "st_tenant_id st = t"
    "build_requests s' = build_requests s" "build_configs s' = build_configs s" "audit_log s' = audit_log s"
    "content_of u s' = content_of u s" "deployed_of u s' = deployed_of u s"
    "queue_inv s \<Longrightarrow> queue_inv s'"
proof -
  let ?f = "\<lparr>st_tenant_id = t, content_revision = 0, last_successful_build_revision = None, last_build_at = None\<rparr>"
  show *: "find_state (tenant_session t) t s' = Some st" "build_requests s' = build_requests s"
    "build_configs s' = build_configs s" "audit_log s' = audit_log s"
    using assms by (auto simp: state_for_update_def Let_def split: option.splits if_splits)
  show "st_tenant_id st = t"
    using get_rowD(3) *(1) unfolding find_state_def by metis
  have s': "s' = s \<or> (\<not> key_taken st_tenant_id ?f (site_states s) \<and> s' = s\<lparr>site_states := insert_row ?f (site_states s)\<rparr>)"
    using assms by (auto simp: state_for_update_def Let_def split: option.splits if_splits)
  have views: "content_of u s' = content_of u s \<and> deployed_of u s' = deployed_of u s" for u
    using s'
  proof (elim disjE conjE)
    assume new: "\<not> key_taken st_tenant_id ?f (site_states s)" and s: "s' = s\<lparr>site_states := insert_row ?f (site_states s)\<rparr>"
    then have "find_state (tenant_session t) t s = None"
      by (auto simp: find_state_def get_row_None key_taken_iff)
    then have "find_state (tenant_session u) u s'
        = (if u = t then Some ?f else find_state (tenant_session u) u s)"
      by (auto simp: s find_state_def insert_row_def get_row_append get_row_Cons split: option.splits)
    with \<open>find_state (tenant_session t) t s = None\<close> show ?thesis
      by (simp add: content_of_def deployed_of_def or_default_def)
  qed simp
  then show "content_of u s' = content_of u s" "deployed_of u s' = deployed_of u s" by auto
  show "queue_inv s'" if "queue_inv s"
  proof -
    have "row_ok s' r = row_ok s r" for r
      using views by (simp add: row_ok_def split: option.split)
    then show ?thesis
      using that s' by (auto simp: queue_inv_def list_all_iff site_state_checks_def)
  qed
qed

section \<open>Writing several rows\<close>

definition edits :: "session \<Rightarrow> 'z site_db_scheme \<Rightarrow> build_request list \<Rightarrow> bool" where
  "edits cur s rs \<longleftrightarrow> distinct (map br_id rs) \<and>
     (\<forall>r\<in>set rs. row_ok s r \<and>
        (\<exists>r0\<in>set (build_requests s). br_id r0 = br_id r \<and> br_tenant_id r0 = br_tenant_id r
           \<and> tenant_isolation_policy cur (br_tenant_id r0)))"

lemma editsI:
  assumes "distinct (map br_id rs)"
    and "\<And>r. r \<in> set rs \<Longrightarrow> row_ok s r"
    and "\<And>r. r \<in> set rs \<Longrightarrow> \<exists>r0\<in>set (build_requests s). br_id r0 = br_id r
        \<and> br_tenant_id r0 = br_tenant_id r \<and> tenant_isolation_policy cur (br_tenant_id r0)"
  shows "edits cur s rs"
  using assms by (simp add: edits_def)

lemma edits_after_save:
  assumes "edits cur s (r # rs)"
  shows "edits cur (save_build cur r s) rs"
proof -
  have "\<exists>r0\<in>set (save_row br_tenant_id br_id cur r (build_requests s)). br_id r0 = br_id x
      \<and> br_tenant_id r0 = br_tenant_id x \<and> tenant_isolation_policy cur (br_tenant_id r0)"
    if x: "x \<in> set rs" for x
  proof -
    from assms x obtain r0 where "r0 \<in> set (build_requests s)" "br_id r0 = br_id x"
      "br_tenant_id r0 = br_tenant_id x" "tenant_isolation_policy cur (br_tenant_id r0)"
      by (auto simp: edits_def)
    moreover have "br_id x \<noteq> br_id r"
      using assms imageI [OF x, of br_id] by (auto simp: edits_def)
    ultimately show ?thesis by (auto simp: in_save_row_iff)
  qed
  then show ?thesis
    using assms row_ok_same [of "save_build cur r s" s] by (simp add: edits_def)
qed

lemma flush_builds_rows:
  assumes "flush_builds cur rs s = (Inr u, s')" "edits cur s rs"
  shows "site_states s' = site_states s \<and> (\<forall>r\<in>set rs. r \<in> set (build_requests s'))
     \<and> (\<forall>x\<in>set (build_requests s). br_id x \<notin> br_id ` set rs \<longrightarrow> x \<in> set (build_requests s'))
     \<and> (queue_inv s \<longrightarrow> queue_inv s')"
  using assms
proof (induction rs arbitrary: s)
  case (Cons r rs)
  then have ok: "build_unique_ok r s" and rest: "flush_builds cur rs (save_build cur r s) = (Inr u, s')"
    unfolding flush_builds_Inr by blast+
  note IH = Cons.IH [OF rest edits_after_save [OF Cons.prems(2)]]
  obtain r0 where r0: "r0 \<in> set (build_requests s)" "br_id r = br_id r0" "br_tenant_id r = br_tenant_id r0"
    "tenant_isolation_policy cur (br_tenant_id r0)" and rok: "row_ok s r" and new: "br_id r \<notin> br_id ` set rs"
    using Cons.prems(2) by (auto simp: edits_def)
  then have "r \<in> set (save_row br_tenant_id br_id cur r (build_requests s))"
    by (auto simp: in_save_row_iff)
  then have "r \<in> set (build_requests s')"
    using IH new by auto
  moreover have "x \<in> set (build_requests s')" if "x \<in> set (build_requests s)" "br_id x \<notin> br_id ` set (r # rs)" for x
    using IH that by (auto simp: in_save_row_iff)
  moreover have "queue_inv (save_build cur r s)" if "queue_inv s"
    by (rule queue_inv_save [OF that r0 ok rok])
  ultimately show ?case
    using IH by auto
qed (simp add: flush_builds_Inr)

lemma flush_builds_from:
  assumes "flush_builds cur rs s = (Inr u, s')" "x \<in> set (build_requests s')"
    "tenant_isolation_policy cur (br_tenant_id x)"
  shows "x \<in> set rs \<or> (x \<in> set (build_requests s) \<and> br_id x \<notin> br_id ` set rs)"
  using assms
proof (induction rs arbitrary: s)
  case (Cons r rs)
  then have "flush_builds cur rs (save_build cur r s) = (Inr u, s')"
    unfolding flush_builds_Inr by blast
  from Cons.IH [OF this Cons.prems(2,3)] Cons.prems(3) show ?case
    by (auto simp: in_save_row_iff)
qed (simp add: flush_builds_Inr)

section \<open>Coverage\<close>

text \<open>
  A request still to be built, being built or reported as failed, for at least the tenant's
  current revision; a tenant is covered when its current revision is deployed or has one.
\<close>

definition covers :: "uuid \<Rightarrow> int \<Rightarrow> build_request \<Rightarrow> bool" where
  "covers t revision r \<longleftrightarrow> br_tenant_id r = t \<and> br_status r \<in> {PENDING, RUNNING, FAILED} \<and> revision \<le> target_revision r"

definition covered :: "uuid \<Rightarrow> 'z site_db_scheme \<Rightarrow> bool" where
  "covered t s \<longleftrightarrow> content_of t s \<le> deployed_of t s \<or> list_ex (covers t (content_of t s)) (build_requests s)"

lemma views_same:
  "site_states s' = site_states s \<Longrightarrow> content_of t s' = content_of t s \<and> deployed_of t s' = deployed_of t s"
  by (simp add: content_of_def deployed_of_def find_state_def)

lemma covered_same:
  "build_requests s' = build_requests s \<Longrightarrow> content_of t s' = content_of t s \<Longrightarrow>
     deployed_of t s' = deployed_of t s \<Longrightarrow> covered t s' = covered t s"
  by (simp add: covered_def)

lemma covered_flush:
  assumes cov: "covered t s" and flush: "flush_builds cur rs s = (Inr u, s')" "edits cur s rs"
    and edit: "\<And>r0. r0 \<in> set (build_requests s) \<Longrightarrow> br_id r0 \<in> br_id ` set rs \<Longrightarrow> covers t (content_of t s) r0 \<Longrightarrow>
        \<exists>r\<in>set rs. covers t (content_of t s) r"
  shows "covered t s'"
proof -
  note R = flush_builds_rows [OF flush]
  have views: "content_of t s' = content_of t s" "deployed_of t s' = deployed_of t s"
    using R views_same by blast+
  show ?thesis
  proof (cases "content_of t s \<le> deployed_of t s")
    case True
    with views show ?thesis by (simp add: covered_def)
  next
    case False
    with cov obtain r0 where r0: "r0 \<in> set (build_requests s)" "covers t (content_of t s) r0"
      by (auto simp: covered_def list_ex_iff)
    have "\<exists>r\<in>set (build_requests s'). covers t (content_of t s) r"
    proof (cases "br_id r0 \<in> br_id ` set rs")
      case True
      from edit [OF r0(1) True r0(2)] R show ?thesis by blast
    next
      case False
      with R r0 show ?thesis by blast
    qed
    with views show ?thesis by (auto simp: covered_def list_ex_iff)
  qed
qed

section \<open>Content changes\<close>

lemma pending_buildD:
  assumes "pending_build cur s = Some p"
  shows "p \<in> set (build_requests s)" "br_status p = PENDING" "tenant_isolation_policy cur (br_tenant_id p)"
  using scalar_Some_in [OF assms [unfolded pending_build_def]] by (auto simp: select_where_def visible_def)

lemma running_buildD:
  assumes "running_build cur s = Some p"
  shows "p \<in> set (build_requests s)" "br_status p = RUNNING" "tenant_isolation_policy cur (br_tenant_id p)"
  using scalar_Some_in [OF assms [unfolded running_build_def]] by (auto simp: select_where_def visible_def)

lemma pending_build_None:
  "pending_build cur s = None \<Longrightarrow> x \<in> set (build_requests s) \<Longrightarrow> tenant_isolation_policy cur (br_tenant_id x) \<Longrightarrow>
     br_status x \<noteq> PENDING"
  by (auto simp: pending_build_def select_where_def visible_def filter_empty_conv)

lemma enqueue_Inr:
  assumes "enqueue (tenant_session t) now fresh t target ch s = (Inr r, s')"
  obtains (coalesced) p where "pending_build (tenant_session t) s = Some p" "r = coalesced now target ch p"
      "flush_builds (tenant_session t) [r] s = (Inr (), s')"
  | (fresh) "pending_build (tenant_session t) s = None" "r = new_request fresh now t target ch"
      "fresh \<notin> br_id ` set (build_requests s)" "build_unique_ok r s"
      "s' = s\<lparr>build_requests := insert_row r (build_requests s)\<rparr>"
proof (cases "pending_build (tenant_session t) s")
  case None
  with assms show thesis
    by (auto simp: enqueue_def Let_def key_taken_iff new_request_def split: if_splits intro!: fresh)
next
  case (Some p)
  with assms show thesis
    by (auto simp: enqueue_def flush_build_Inr flush_builds_Inr intro!: coalesced)
qed

text \<open>After an enqueue a PENDING request of the tenant targets at least the given revision.\<close>

lemma enqueue_result:
  assumes run: "enqueue (tenant_session t) now fresh t target ch s = (Inr r, s')"
    and inv: "queue_inv s" and target: "0 \<le> target" "target \<le> content_of t s"
  shows "queue_inv s'" "site_states s' = site_states s" "r \<in> set (build_requests s')"
    "br_tenant_id r = t" "br_status r = PENDING" "target \<le> target_revision r"
    "\<And>u. u \<noteq> t \<Longrightarrow> covered u s \<Longrightarrow> covered u s'"
proof -
  have all: "queue_inv s' \<and> site_states s' = site_states s \<and> r \<in> set (build_requests s')
    \<and> br_tenant_id r = t \<and> br_status r = PENDING \<and> target \<le> target_revision r
    \<and> (\<forall>u. u \<noteq> t \<longrightarrow> covered u s \<longrightarrow> covered u s')"
    using run
  proof (cases rule: enqueue_Inr)
    case (coalesced p)
    note p = pending_buildD [OF coalesced(1)]
    have r: "br_id r = br_id p" "br_tenant_id r = br_tenant_id p" "br_status r = PENDING" "target \<le> target_revision r"
      using p by (simp_all add: coalesced(2) coalesced_def)
    have "row_ok s r"
      using queue_invD(3) [OF inv p(1)] target p(2,3)
      by (auto simp: coalesced(2) coalesced_def row_ok_def build_request_checks_def)
    then have e: "edits (tenant_session t) s [r]"
      using p r by (intro editsI) auto
    note R = flush_builds_rows [OF coalesced(3) e]
    have "covered u s'" if "u \<noteq> t" "covered u s" for u
    proof (rule covered_flush [OF that(2) coalesced(3) e])
      fix r0 assume "r0 \<in> set (build_requests s)" "br_id r0 \<in> br_id ` set [r]" "covers u (content_of u s) r0"
      moreover from this have "r0 = p"
        using queue_invD(1) [OF inv] p(1) r(1) by (auto simp: distinct_map inj_on_def)
      ultimately show "\<exists>r\<in>set [r]. covers u (content_of u s) r"
        using that(1) p(3) by (simp add: covers_def)
    qed
    with R r p(3) inv show ?thesis by auto
  next
    case fresh
    have "row_ok s r"
      using target by (simp add: fresh(2) new_request_def row_ok_def build_request_checks_def)
    then have "queue_inv s'"
      using fresh(3,4) inv unfolding fresh(5) by (intro queue_inv_insert) (auto simp: fresh(2) new_request_def)
    moreover have "covered u s'" if "covered u s" for u
      using that views_same [of s' s u] by (auto simp: fresh(5) covered_def list_ex_iff)
    ultimately show ?thesis
      by (simp add: fresh(5)) (simp add: fresh(2) new_request_def)
  qed
  then show "queue_inv s'" "site_states s' = site_states s" "r \<in> set (build_requests s')"
    "br_tenant_id r = t" "br_status r = PENDING" "target \<le> target_revision r"
    "\<And>u. u \<noteq> t \<Longrightarrow> covered u s \<Longrightarrow> covered u s'" by auto
qed

lemma changed_result:
  assumes run: "public_content_changed (tenant_session t) now fresh t ch s = (Inr r, s')" and inv: "queue_inv s"
  shows "queue_inv s'" "content_of t s' = content_of t s + 1" "deployed_of u s' = deployed_of u s"
    "u \<noteq> t \<Longrightarrow> content_of u s' = content_of u s" "covered t s'" "u \<noteq> t \<Longrightarrow> covered u s \<Longrightarrow> covered u s'"
    "r \<in> set (build_requests s')" "br_tenant_id r = t" "br_status r = PENDING" "target_revision r = content_of t s'"
proof -
  from run obtain st s1 where st: "state_for_update (tenant_session t) t s = (Inr st, s1)"
    and enq: "enqueue (tenant_session t) now fresh t (content_revision st + 1) ch
        (save_state (tenant_session t) (st\<lparr>content_revision := content_revision st + 1\<rparr>) s1) = (Inr r, s')"
    by (auto simp: public_content_changed_def and_then_eq_Inr Let_def)
  note F = state_for_update_Inr [OF st]
  let ?st = "st\<lparr>content_revision := content_revision st + 1\<rparr>"
  let ?s2 = "save_state (tenant_session t) ?st s1"
  have st_in: "st \<in> set (site_states s1)"
    using get_rowD(1) F(1) unfolding find_state_def by metis
  have checks: "site_state_checks st" "0 \<le> content_revision st"
    using queue_invD(4) [OF F(8) [OF inv] st_in] by (auto simp: site_state_checks_def)
  have inv2: "queue_inv ?s2"
    using checks F(2) by (intro queue_inv_state [OF F(8) [OF inv] F(1)]) (auto simp: site_state_checks_def)
  have "content_of t s1 = content_revision st"
    using F(1) by (simp add: content_of_def)
  then have c2: "content_of t ?s2 = content_revision st + 1" "content_of t s = content_revision st"
    using F(1,2) F(6) [of t] by (simp_all add: content_of_def [of t ?s2] find_state_save)
  have other: "u \<noteq> t \<Longrightarrow> content_of u ?s2 = content_of u s" for u
    using F(6) [of u] by (simp add: content_of_def find_state_save)
  have dep: "deployed_of u ?s2 = deployed_of u s" for u
    using F(1,2) F(7) [of u] by (cases "u = t") (simp_all add: deployed_of_def find_state_save)
  note E = enqueue_result [OF enq inv2]
  have views: "content_of u s' = content_of u ?s2" "deployed_of u s' = deployed_of u ?s2" for u
    using views_same [OF E(2)] checks(2) c2(1) by auto
  have e: "0 \<le> content_revision st + 1" "content_revision st + 1 \<le> content_of t ?s2"
    using checks(2) c2(1) by auto
  show "queue_inv s'" "r \<in> set (build_requests s')" "br_tenant_id r = t" "br_status r = PENDING"
    by (rule E [OF e])+
  show "content_of t s' = content_of t s + 1" using views c2 by simp
  show "deployed_of u s' = deployed_of u s" using views dep by simp
  show "content_of u s' = content_of u s" if "u \<noteq> t" using views other that by simp
  have "row_ok s' r"
    using E(1,3) [OF e] queue_invD(3) by blast
  then show target: "target_revision r = content_of t s'"
    using E(4,6) [OF e] views(1) [of t] c2(1) by (auto simp: row_ok_def)
  show "covered t s'"
    using E(3,4,5) [OF e] target by (auto simp: covered_def list_ex_iff covers_def)
  show "covered u s'" if "u \<noteq> t" "covered u s"
  proof (rule E(7) [OF e that(1)])
    show "covered u ?s2"
      using that other [OF that(1)] dep [of u] F(3) by (simp add: covered_def)
  qed
qed

lemma rebuild_result:
  assumes run: "manual_rebuild (tenant_session t) now fresh t actor s = (Inr r, s')" and inv: "queue_inv s"
  shows "queue_inv s'" "content_of u s' = content_of u s" "deployed_of u s' = deployed_of u s"
    "covered u s \<Longrightarrow> covered u s'" "r \<in> set (build_requests s')" "br_tenant_id r = t" "br_status r = PENDING"
    "target_revision r = content_of t s"
proof -
  define ch where "ch = \<lparr>change_reason = lit ''manual_rebuild'', change_entity_type = None,
      change_entity_id = None, change_by = Some actor\<rparr>"
  from run obtain st s1 where st: "state_for_update (tenant_session t) t s = (Inr st, s1)"
    and enq: "enqueue (tenant_session t) now fresh t (content_revision st) ch s1 = (Inr r, s')"
    by (auto simp: manual_rebuild_def and_then_eq_Inr ch_def)
  note F = state_for_update_Inr [OF st]
  have st_in: "st \<in> set (site_states s1)"
    using get_rowD(1) F(1) unfolding find_state_def by metis
  have checks: "0 \<le> content_revision st"
    using queue_invD(4) [OF F(8) [OF inv] st_in] by (auto simp: site_state_checks_def)
  have c1: "content_of t s1 = content_revision st"
    using F(1) by (simp add: content_of_def)
  note E = enqueue_result [OF enq F(8) [OF inv] checks]
  have e: "content_revision st \<le> content_of t s1" using c1 by simp
  show "queue_inv s'" "r \<in> set (build_requests s')" "br_tenant_id r = t" "br_status r = PENDING"
    by (rule E [OF e])+
  have views: "content_of u s' = content_of u s" "deployed_of u s' = deployed_of u s" for u
    using views_same [OF E(2) [OF e], of u] F(6,7) [of u] by auto
  then show "content_of u s' = content_of u s" "deployed_of u s' = deployed_of u s" by auto
  have "row_ok s' r"
    using E(1,3) [OF e] queue_invD(3) by blast
  then show target: "target_revision r = content_of t s"
    using E(4,6) [OF e] views(1) [of t] c1 F(6) [of t] by (auto simp: row_ok_def)
  have "covered t s'"
    using E(3,4,5) [OF e] target views(1) by (auto simp: covered_def list_ex_iff covers_def)
  moreover have "covered u s'" if "u \<noteq> t" "covered u s"
    using that F(3) F(6,7) [of u] by (intro E(7) [OF e that(1)]) (simp add: covered_def)
  ultimately show "covered u s \<Longrightarrow> covered u s'" by blast
qed

section \<open>The worker\<close>

lemma due_buildD:
  assumes "due_build cur now s = Some x"
  shows "x \<in> set (build_requests s)" "br_status x = PENDING" "tenant_isolation_policy cur (br_tenant_id x)"
    "next_attempt_at x \<le> now"
  using latest_Some_in [OF assms [unfolded due_build_def]] by (auto simp: select_where_def visible_def)

lemma due_is_pending:
  assumes "queue_inv s" "due_build (tenant_session t) now s = Some x" "pending_build (tenant_session t) s = Some p"
  shows "x = p"
proof -
  note x = due_buildD [OF assms(2)] and p = pending_buildD [OF assms(3)]
  have "build_conflict x p"
    using x p by (simp add: build_conflict_def)
  then have "br_id x = br_id p"
    using exclusiveD [OF queue_invD(2) [OF assms(1)] x(1) p(1)] by blast
  then show ?thesis
    using queue_invD(1) [OF assms(1)] x(1) p(1) by (auto simp: distinct_map inj_on_def)
qed

lemma row_ok_edit:
  assumes "row_ok s r0" "br_tenant_id r = br_tenant_id r0" "0 \<le> target_revision r"
    "target_revision r \<le> content_of (br_tenant_id r0) s" "br_status r \<noteq> SUCCESSFUL"
    "br_attempt_count r0 \<le> br_attempt_count r"
  shows "row_ok s r"
  using assms by (simp add: row_ok_def build_request_checks_def)

text \<open>What a claim writes: the request it starts, and what it did to a request whose lease expired.\<close>

lemma claim_Inr:
  assumes run: "claim_body c (tenant_session t) now claimed_first s = (Inr out, s')" and inv: "queue_inv s"
  obtains (none) "out = None" "s' = s"
  | (start) x where "out = Some (started c now x)" "x \<in> set (build_requests s)" "br_status x = PENDING"
      "br_tenant_id x = t" "next_attempt_at x \<le> now" "running_build (tenant_session t) s = None"
      "flush_builds (tenant_session t) [started c now x] s = (Inr (), s')"
  | (requeue) r where "out = None" "running_build (tenant_session t) s = Some r"
      "flush_builds (tenant_session t) [r\<lparr>br_status := PENDING, started_at := None, lease_expires_at := None,
          next_attempt_at := now\<rparr>] s = (Inr (), s')"
  | (supersede) r p where "out = None" "running_build (tenant_session t) s = Some r"
      "pending_build (tenant_session t) s = Some p"
      "flush_builds (tenant_session t) [p\<lparr>target_revision := max (target_revision p) (target_revision r)\<rparr>,
          r\<lparr>br_status := SUPERSEDED, last_error := Some lease_lost\<rparr>] s = (Inr (), s')"
  | (takeover) r p rs where "running_build (tenant_session t) s = Some r" "pending_build (tenant_session t) s = Some p"
      "out = Some (started c now (p\<lparr>target_revision := max (target_revision p) (target_revision r)\<rparr>))"
      "next_attempt_at p \<le> now" "case lease_expires_at r of None \<Rightarrow> False | Some e \<Rightarrow> e \<le> now"
      "flush_builds (tenant_session t) rs s = (Inr (), s')"
      "rs = (if claimed_first
             then [started c now (p\<lparr>target_revision := max (target_revision p) (target_revision r)\<rparr>),
                   r\<lparr>br_status := SUPERSEDED, last_error := Some lease_lost\<rparr>]
             else [r\<lparr>br_status := SUPERSEDED, last_error := Some lease_lost\<rparr>,
                   started c now (p\<lparr>target_revision := max (target_revision p) (target_revision r)\<rparr>)])"
proof (cases "running_build (tenant_session t) s")
  case None
  show thesis
  proof (cases "due_build (tenant_session t) now s")
    case None
    with run \<open>running_build (tenant_session t) s = None\<close> show thesis
      by (auto simp: claim_body_def start_due_def flush_builds.simps split: if_splits intro: none)
  next
    case (Some x)
    note x = due_buildD [OF Some]
    from Some run \<open>running_build (tenant_session t) s = None\<close> show thesis
      by (cases "select_where cfg_tenant_id (tenant_session t) cfg_enabled (build_configs s) = []")
        (use x in \<open>auto simp: claim_body_def start_due_def fetch_def or_default_def and_then_eq_Inr Let_def
          split: if_splits intro: none start [of x]\<close>)
  qed
next
  case running: (Some r)
  note r = running_buildD [OF running]
  show thesis
  proof (cases "select_where cfg_tenant_id (tenant_session t) cfg_enabled (build_configs s) = []
      \<or> (case lease_expires_at r of None \<Rightarrow> True | Some e \<Rightarrow> now < e)")
    case True
    then have "claim_body c (tenant_session t) now claimed_first s = (Inr None, s)"
      using running by (cases "lease_expires_at r") (auto simp: claim_body_def)
    with run show thesis by (auto intro: none)
  next
    case False
    then have step: "claim_body c (tenant_session t) now claimed_first s =
        (case pending_build (tenant_session t) s of
           Some p \<Rightarrow> start_due c (tenant_session t) now claimed_first
             [p\<lparr>target_revision := max (target_revision p) (target_revision r)\<rparr>,
              r\<lparr>br_status := SUPERSEDED, last_error := Some lease_lost\<rparr>] s
         | None \<Rightarrow> start_due c (tenant_session t) now claimed_first
             [r\<lparr>br_status := PENDING, started_at := None, lease_expires_at := None, next_attempt_at := now\<rparr>] s)"
      using running by (cases "lease_expires_at r") (simp_all add: claim_body_def)
    show thesis
    proof (cases "pending_build (tenant_session t) s")
      case None
      then have "due_build (tenant_session t) now s = None"
        using due_buildD pending_build_None by (cases "due_build (tenant_session t) now s") blast+
      with run running None show thesis
        by (auto simp: step start_due_def and_then_eq_Inr intro: requeue)
    next
      case pending: (Some p)
      note p = pending_buildD [OF pending]
      have ids: "br_id p \<noteq> br_id r"
        using queue_invD(1) [OF inv] p r by (auto simp: distinct_map inj_on_def)
      show thesis
      proof (cases "due_build (tenant_session t) now s")
        case None
        with run running pending show thesis
          by (auto simp: step start_due_def and_then_eq_Inr intro: supersede)
      next
        case (Some x)
        have "x = p" "next_attempt_at p \<le> now"
          using due_is_pending [OF inv Some pending] due_buildD(4) [OF Some] by auto
        moreover obtain e where "lease_expires_at r = Some e" "e \<le> now"
          using False by (auto split: option.splits)
        ultimately show thesis
          using run running pending Some ids
          by (auto simp: step start_due_def fetch_def or_default_def and_then_eq_Inr Let_def
              split: if_splits intro!: takeover)
      qed
    qed
  qed
qed

text \<open>Everything an operation has to show of the rows it writes.\<close>

definition keeps :: "'z site_db_scheme \<Rightarrow> 'z site_db_scheme \<Rightarrow> bool" where
  "keeps s s' \<longleftrightarrow> queue_inv s' \<and> site_states s' = site_states s \<and> (\<forall>u. covered u s \<longrightarrow> covered u s')"

lemma keeps_refl [simp]: "queue_inv s \<Longrightarrow> keeps s s"
  by (simp add: keeps_def)

lemma same_row: "queue_inv s \<Longrightarrow> x \<in> set (build_requests s) \<Longrightarrow> y \<in> set (build_requests s) \<Longrightarrow> br_id x = br_id y \<Longrightarrow> x = y"
  using queue_invD(1) [of s] by (auto simp: distinct_map inj_on_def)

lemma write_keeps:
  assumes inv: "queue_inv s" and flush: "flush_builds (tenant_session t) rs s = (Inr u, s')"
    and ids: "distinct (map br_id rs)"
    and row: "\<And>r. r \<in> set rs \<Longrightarrow> \<exists>r0\<in>set (build_requests s). br_id r = br_id r0 \<and> br_tenant_id r0 = t
        \<and> br_tenant_id r = t \<and> 0 \<le> target_revision r \<and> target_revision r \<le> content_of t s
        \<and> br_status r \<noteq> SUCCESSFUL \<and> br_attempt_count r0 \<le> br_attempt_count r"
    and cover: "\<And>r r0 k. r \<in> set rs \<Longrightarrow> r0 \<in> set (build_requests s) \<Longrightarrow> br_id r0 = br_id r \<Longrightarrow>
        covers t k r0 \<Longrightarrow> \<exists>r\<in>set rs. covers t k r"
  shows "keeps s s'"
proof -
  have e: "edits (tenant_session t) s rs"
  proof (rule editsI [OF ids])
    fix r assume "r \<in> set rs"
    then obtain r0 where r0: "r0 \<in> set (build_requests s)" "br_id r = br_id r0" "br_tenant_id r0 = t"
      "br_tenant_id r = t" "0 \<le> target_revision r" "target_revision r \<le> content_of t s"
      "br_status r \<noteq> SUCCESSFUL" "br_attempt_count r0 \<le> br_attempt_count r"
      using row by blast
    show "row_ok s r"
      using row_ok_edit [OF queue_invD(3) [OF inv r0(1)], of r] r0 by simp
    show "\<exists>r0\<in>set (build_requests s). br_id r0 = br_id r \<and> br_tenant_id r0 = br_tenant_id r
        \<and> tenant_isolation_policy (tenant_session t) (br_tenant_id r0)"
      using r0 by (intro bexI [of _ r0]) auto
  qed
  note R = flush_builds_rows [OF flush e]
  have "covered u s'" if "covered u s" for u
  proof (rule covered_flush [OF that flush e])
    fix r0
    assume h: "r0 \<in> set (build_requests s)" "br_id r0 \<in> br_id ` set rs" "covers u (content_of u s) r0"
    then obtain r where r: "r \<in> set rs" "br_id r0 = br_id r" by auto
    from row [OF r(1)] same_row [OF inv _ h(1)] r(2) have "br_tenant_id r0 = t" by metis
    with h(3) have "u = t" by (simp add: covers_def)
    with h cover [OF r(1) h(1) r(2)] show "\<exists>r\<in>set rs. covers u (content_of u s) r" by blast
  qed
  with R inv show ?thesis by (simp add: keeps_def)
qed

lemma target_bounds:
  assumes "queue_inv s" "r \<in> set (build_requests s)"
  shows "0 \<le> target_revision r" "target_revision r \<le> content_of (br_tenant_id r) s"
  using queue_invD(3) [OF assms] by (auto simp: row_ok_def build_request_checks_def)

lemma started_simps [simp]:
  "br_id (started c now r) = br_id r" "br_tenant_id (started c now r) = br_tenant_id r"
  "target_revision (started c now r) = target_revision r" "br_status (started c now r) = RUNNING"
  "br_attempt_count (started c now r) = br_attempt_count r + 1"
  by (simp_all add: started_def)

text \<open>One row edited without losing its place in the queue.\<close>

lemma write_one_keeps:
  assumes "queue_inv s" "flush_builds (tenant_session t) [r] s = (Inr u, s')" "r0 \<in> set (build_requests s)"
    "br_id r = br_id r0" "br_tenant_id r0 = t" "br_tenant_id r = t" "target_revision r = target_revision r0"
    "br_attempt_count r0 \<le> br_attempt_count r" "br_status r \<in> {PENDING, RUNNING, FAILED}"
  shows "keeps s s'"
proof (rule write_keeps [OF assms(1,2)])
  show "\<exists>y\<in>set (build_requests s). br_id x = br_id y \<and> br_tenant_id y = t \<and> br_tenant_id x = t
      \<and> 0 \<le> target_revision x \<and> target_revision x \<le> content_of t s \<and> br_status x \<noteq> SUCCESSFUL
      \<and> br_attempt_count y \<le> br_attempt_count x" if "x \<in> set [r]" for x
    using that assms target_bounds [OF assms(1,3)] by (intro bexI [of _ r0]) auto
  show "\<exists>x\<in>set [r]. covers t k x" if "x \<in> set [r]" "y \<in> set (build_requests s)" "br_id y = br_id x" "covers t k y"
    for x y k
    using that same_row [OF assms(1) _ assms(3), of y] assms by (auto simp: covers_def)
qed simp

text \<open>One row given up for a pending one that takes over its target.\<close>

lemma write_two_keeps:
  assumes inv: "queue_inv s" and flush: "flush_builds (tenant_session t) rs s = (Inr u, s')"
    and rs: "rs = [p', r'] \<or> rs = [r', p']"
    and p: "p \<in> set (build_requests s)" "br_id p' = br_id p" "br_tenant_id p = t" "br_tenant_id p' = t"
      "br_attempt_count p \<le> br_attempt_count p'" "br_status p' \<in> {PENDING, RUNNING}"
    and r: "r \<in> set (build_requests s)" "br_id r' = br_id r" "br_tenant_id r = t" "br_tenant_id r' = t"
      "br_attempt_count r' = br_attempt_count r" "target_revision r' = target_revision r" "br_status r' = SUPERSEDED"
    and other: "br_id p \<noteq> br_id r" and target: "target_revision p' = max (target_revision p) (target_revision r)"
  shows "keeps s s'"
proof (rule write_keeps [OF inv flush])
  show "distinct (map br_id rs)"
    using rs other p(2) r(2) by auto
  show "\<exists>y\<in>set (build_requests s). br_id x = br_id y \<and> br_tenant_id y = t \<and> br_tenant_id x = t
      \<and> 0 \<le> target_revision x \<and> target_revision x \<le> content_of t s \<and> br_status x \<noteq> SUCCESSFUL
      \<and> br_attempt_count y \<le> br_attempt_count x" if "x \<in> set rs" for x
  proof -
    from that rs have "x = p' \<or> x = r'" by auto
    then show ?thesis
    proof
      assume "x = p'"
      then show ?thesis
        using p r target target_bounds [OF inv p(1)] target_bounds [OF inv r(1)] by (intro bexI [of _ p]) auto
    next
      assume "x = r'"
      then show ?thesis
        using r target_bounds [OF inv r(1)] by (intro bexI [of _ r]) auto
    qed
  qed
  show "\<exists>x\<in>set rs. covers t k x" if "x \<in> set rs" "y \<in> set (build_requests s)" "br_id y = br_id x" "covers t k y" for x y k
  proof -
    from that rs have "x = p' \<or> x = r'" by auto
    then have "y = p \<or> y = r"
      using that same_row [OF inv _ p(1), of y] same_row [OF inv _ r(1), of y] p(2) r(2) by auto
    then have "covers t k p'"
      using that(4) p target by (auto simp: covers_def)
    with rs show ?thesis by auto
  qed
qed

lemma claim_keeps:
  assumes run: "claim_body c (tenant_session t) now claimed_first s = (Inr out, s')" and inv: "queue_inv s"
  shows "keeps s s'"
  using run inv
proof (cases rule: claim_Inr)
  case none
  with inv show ?thesis by simp
next
  case (start x)
  show ?thesis
    by (rule write_one_keeps [OF inv start(7) start(2)]) (simp_all add: start(4))
next
  case (requeue r)
  note r = running_buildD [OF requeue(2)]
  show ?thesis
    by (rule write_one_keeps [OF inv requeue(3) r(1)]) (use r in simp_all)
next
  case (supersede r p)
  note r = running_buildD [OF supersede(2)] and p = pending_buildD [OF supersede(3)]
  have "br_id p \<noteq> br_id r"
    using same_row [OF inv p(1) r(1)] p(2) r(2) by auto
  then show ?thesis
    using p r by (intro write_two_keeps [OF inv supersede(4) disjI1 [OF refl] p(1) _ _ _ _ _ r(1)]) auto
next
  case (takeover r p rs)
  note r = running_buildD [OF takeover(1)] and p = pending_buildD [OF takeover(2)]
  have "br_id p \<noteq> br_id r"
    using same_row [OF inv p(1) r(1)] p(2) r(2) by auto
  then show ?thesis
    using p r takeover(7)
    by (intro write_two_keeps [OF inv takeover(6), of
        "started c now (p\<lparr>target_revision := max (target_revision p) (target_revision r)\<rparr>)"
        "r\<lparr>br_status := SUPERSEDED, last_error := Some lease_lost\<rparr>" p r]) auto
qed

lemma trigger_failed_keeps:
  assumes inv: "queue_inv s"
  shows "keeps s (snd (trigger_failed c t now i error s))"
  unfolding trigger_failed_def Let_def
proof (rule transaction_inv, goal_cases)
  case (2 x s')
  show ?case
  proof (cases "get_build (tenant_session t) i s")
    case None
    with 2 inv show ?thesis by simp
  next
    case (Some r)
    note r = get_rowD [OF Some]
    show ?thesis
    proof (cases "br_status r = RUNNING")
      case False
      with 2 Some inv show ?thesis by simp
    next
      case True
      show ?thesis
      proof (cases "pending_build (tenant_session t) s")
        case None
        obtain r' where "flush_builds (tenant_session t) [r'] s = (Inr x, s')" "br_id r' = br_id r"
          "br_tenant_id r' = br_tenant_id r" "target_revision r' = target_revision r"
          "br_attempt_count r' = br_attempt_count r" "br_status r' \<in> {PENDING, RUNNING, FAILED}"
        proof (cases "br_attempt_count r \<ge> int (site_build_max_attempts c)")
          case True
          with 2 Some \<open>br_status r = RUNNING\<close> None show thesis
            by (intro that [of "r\<lparr>br_status := FAILED, failed_at := Some now, last_error := Some (safe_error error),
                lease_expires_at := None\<rparr>"]) auto
        next
          case False
          with 2 Some \<open>br_status r = RUNNING\<close> None show thesis
            by (intro that [of "r\<lparr>br_status := PENDING, next_attempt_at := now + seconds (retry_delay (br_attempt_count r)),
                started_at := None, lease_expires_at := None, last_error := Some (safe_error error)\<rparr>"]) auto
        qed
        then show ?thesis
          using r by (intro write_one_keeps [OF inv _ r(1)]) auto
      next
        case pending: (Some newer)
        note p = pending_buildD [OF pending]
        have other: "br_id newer \<noteq> br_id r"
          using same_row [OF inv p(1) r(1)] p(2) True by auto
        have flush: "flush_builds (tenant_session t)
            [newer\<lparr>target_revision := max (target_revision newer) (target_revision r)\<rparr>,
             r\<lparr>br_status := SUPERSEDED, last_error := Some (safe_error error), lease_expires_at := None\<rparr>] s = (Inr x, s')"
          using 2 Some True pending by simp
        show ?thesis
          by (rule write_two_keeps [OF inv flush disjI1 [OF refl] p(1) _ _ _ _ _ r(1)])
            (use p r other in auto)
      qed
    qed
  qed
qed (simp add: inv)

section \<open>Results\<close>

lemma success_result:
  assumes run: "record_success (tenant_session t) now actual r t s = (Inr x, s')" and inv: "queue_inv s"
    and r: "r \<in> set (build_requests s)" "br_tenant_id r = t" "target_revision r \<le> actual"
  shows "queue_inv s'" "\<And>u. content_of u s' = content_of u s"
    "deployed_of t s \<le> deployed_of t s'" "\<And>u. u \<noteq> t \<Longrightarrow> deployed_of u s' = deployed_of u s"
    "\<And>u. covered u s \<Longrightarrow> covered u s'"
proof -
  have "queue_inv s' \<and> (\<forall>u. content_of u s' = content_of u s) \<and> deployed_of t s \<le> deployed_of t s'
    \<and> (\<forall>u. u \<noteq> t \<longrightarrow> deployed_of u s' = deployed_of u s) \<and> (\<forall>u. covered u s \<longrightarrow> covered u s')"
  proof (cases "s' = s")
    case True
    with inv show ?thesis by simp
  next
    case False
    define r' where "r' = (if br_status r \<noteq> SUPERSEDED then r\<lparr>br_status := SUCCESSFUL\<rparr> else r)
        \<lparr>actual_revision := Some actual, completed_at := Some now, lease_expires_at := None, last_error := None\<rparr>"
    from run False obtain st s1 where st: "state_for_update (tenant_session t) t s = (Inr st, s1)"
      and flush: "flush_build (tenant_session t) r' (save_state (tenant_session t)
          (st\<lparr>last_successful_build_revision := Some (max (or_default (last_successful_build_revision st) 0) actual),
              last_build_at := Some now\<rparr>) s1) = (Inr x, s')"
      by (auto simp: record_success_def Let_def and_then_eq_Inr r'_def split: if_splits)
    note F = state_for_update_Inr [OF st]
    let ?st = "st\<lparr>last_successful_build_revision := Some (max (or_default (last_successful_build_revision st) 0) actual),
              last_build_at := Some now\<rparr>"
    define s2 where "s2 = save_state (tenant_session t) ?st s1"
    have fs: "flush_builds (tenant_session t) [r'] s2 = (Inr (), s')"
      using flush by (simp add: s2_def flush_builds_Inr flush_build_Inr)
    have rt: "0 \<le> actual" "0 \<le> target_revision r" "target_revision r \<le> content_of t s"
      using target_bounds [OF inv r(1)] r by auto
    have "st \<in> set (site_states s1)"
      using get_rowD(1) F(1) unfolding find_state_def by metis
    then have checks: "site_state_checks st"
      using queue_invD(4) [OF F(8) [OF inv]] by blast
    have inv2: "queue_inv s2"
      unfolding s2_def using checks F(2) rt
      by (intro queue_inv_state [OF F(8) [OF inv] F(1)]) (auto simp: site_state_checks_def or_default_def)
    have content: "content_of u s2 = content_of u s" for u
      using F(1,2) F(6) [of u] by (cases "u = t") (simp_all add: s2_def content_of_def find_state_save)
    have dep1: "deployed_of t s = or_default (last_successful_build_revision st) 0"
      using F(1) F(7) [of t] by (simp add: deployed_of_def)
    have dep: "deployed_of t s2 = max (deployed_of t s) actual"
      using F(1,2) by (simp add: dep1) (simp add: s2_def deployed_of_def find_state_save or_default_def)
    have other: "deployed_of u s2 = deployed_of u s" if "u \<noteq> t" for u
      using that F(7) [of u] by (simp add: s2_def deployed_of_def find_state_save)
    have rows: "build_requests s2 = build_requests s"
      by (simp add: s2_def F(3))
    have "row_ok s2 r'"
      using queue_invD(3) [OF inv r(1)] rt r content [of t] dep
      by (auto simp: r'_def row_ok_def build_request_checks_def)
    then have e: "edits (tenant_session t) s2 [r']"
      using r by (intro editsI) (auto simp: rows r'_def)
    note R = flush_builds_rows [OF fs e]
    have views: "content_of u s' = content_of u s" "deployed_of u s' = deployed_of u s2" for u
      using views_same [of s' s2 u] R content by auto
    have "covered u s'" if c: "covered u s" for u
    proof (cases "content_of u s2 \<le> deployed_of u s2")
      case True
      with views content show ?thesis by (simp add: covered_def)
    next
      case less: False
      have "covered u s2"
        using c content [of u] other [of u] dep rows by (cases "u = t") (auto simp: covered_def)
      then show ?thesis
      proof (rule covered_flush [OF _ fs e])
        fix r0 assume h: "r0 \<in> set (build_requests s2)" "br_id r0 \<in> br_id ` set [r']" "covers u (content_of u s2) r0"
        then have "r0 = r"
          using same_row [OF inv _ r(1)] rows by (auto simp: r'_def)
        with h(3) r less dep show "\<exists>r\<in>set [r']. covers u (content_of u s2) r"
          by (auto simp: covers_def)
      qed
    qed
    with R inv2 views dep other show ?thesis by auto
  qed
  then show "queue_inv s'" "\<And>u. content_of u s' = content_of u s"
    "deployed_of t s \<le> deployed_of t s'" "\<And>u. u \<noteq> t \<Longrightarrow> deployed_of u s' = deployed_of u s"
    "\<And>u. covered u s \<Longrightarrow> covered u s'" by auto
qed

lemma pending_is_self:
  assumes "queue_inv s" "pending_build (tenant_session t) s = Some p" "r \<in> set (build_requests s)"
    "br_tenant_id r = t" "br_status r = PENDING"
  shows "p = r"
proof -
  note p = pending_buildD [OF assms(2)]
  have "build_conflict p r"
    using p assms(4,5) by (simp add: build_conflict_def)
  then have "br_id p = br_id r"
    using exclusiveD [OF queue_invD(2) [OF assms(1)] p(1) assms(3)] by blast
  then show ?thesis by (rule same_row [OF assms(1) p(1) assms(3)])
qed

text \<open>A failure of a request that is not PENDING keeps its tenant covered; of a PENDING one it does not.\<close>

lemma failure_result:
  assumes run: "record_failure c (tenant_session t) now b r s = (Inr x, s')" and inv: "queue_inv s"
    and r: "r \<in> set (build_requests s)" "br_tenant_id r = t"
  shows "queue_inv s'" "site_states s' = site_states s" "br_status r \<noteq> PENDING \<Longrightarrow> covered u s \<Longrightarrow> covered u s'"
proof -
  define closed where "closed = (\<lambda>r :: build_request. r\<lparr>lease_expires_at := None,
      last_error := Some (take 2000 (strip (case res_error b of None \<Rightarrow> lit ''build failed''
        | Some e \<Rightarrow> if e = [] then lit ''build failed'' else e)))\<rparr>)"
  have closed: "br_id (closed y) = br_id y" "br_tenant_id (closed y) = br_tenant_id y"
    "target_revision (closed y) = target_revision y" "br_status (closed y) = br_status y"
    "br_attempt_count (closed y) = br_attempt_count y" for y
    by (simp_all add: closed_def)
  have "queue_inv s' \<and> site_states s' = site_states s \<and> (br_status r \<noteq> PENDING \<longrightarrow> (\<forall>u. covered u s \<longrightarrow> covered u s'))"
  proof (cases "br_status r \<in> {SUCCESSFUL, SUPERSEDED, FAILED}")
    case True
    with run inv show ?thesis by (auto simp: record_failure_def)
  next
    case False
    then have status: "br_status r = PENDING \<or> br_status r = RUNNING"
      by (cases "br_status r") auto
    show ?thesis
    proof (cases "pending_build (tenant_session t) s")
      case None
      obtain r' where "flush_builds (tenant_session t) [r'] s = (Inr (), s')" "br_id r' = br_id r"
          "br_tenant_id r' = br_tenant_id r" "target_revision r' = target_revision r"
          "br_attempt_count r' = br_attempt_count r" "br_status r' \<in> {PENDING, RUNNING, FAILED}"
      proof (cases "retryable b \<and> br_attempt_count r < int (site_build_max_attempts c)")
        case True
        with run False None show thesis
          by (intro that [of "closed (r\<lparr>br_status := PENDING, next_attempt_at := now + seconds (retry_delay (br_attempt_count r)),
              started_at := None\<rparr>)"])
            (auto simp: record_failure_def closed closed_def [symmetric] flush_build_Inr flush_builds_Inr)
      next
        case no: False
        with run False None show thesis
          by (intro that [of "closed (r\<lparr>br_status := FAILED, failed_at := Some now\<rparr>)"])
            (auto simp: record_failure_def closed closed_def [symmetric] flush_build_Inr flush_builds_Inr)
      qed
      then have "keeps s s'"
        using r by (intro write_one_keeps [OF inv _ r(1)]) auto
      then show ?thesis by (simp add: keeps_def)
    next
      case (Some newer)
      note p = pending_buildD [OF Some]
      show ?thesis
      proof (cases "br_id newer = br_id r")
        case same: True
        then have "newer = r" by (rule same_row [OF inv p(1) r(1)])
        define r' where "r' = closed (r\<lparr>target_revision := max (target_revision r) (target_revision r), br_status := SUPERSEDED\<rparr>)"
        have flush: "flush_builds (tenant_session t) [r'] s = (Inr (), s')"
          using run False Some \<open>newer = r\<close>
          by (auto simp: record_failure_def closed_def [symmetric] r'_def and_then_eq_Inr Let_def)
        have "row_ok s r'"
          using queue_invD(3) [OF inv r(1)] by (simp add: r'_def closed row_ok_def build_request_checks_def)
        then have "edits (tenant_session t) s [r']"
          using r by (intro editsI) (auto simp: r'_def closed)
        from flush_builds_rows [OF flush this] inv p(2) \<open>newer = r\<close> show ?thesis by simp
      next
        case False
        then have flush: "flush_builds (tenant_session t)
            [newer\<lparr>target_revision := max (target_revision newer) (target_revision r)\<rparr>,
             closed (r\<lparr>br_status := SUPERSEDED\<rparr>)] s = (Inr (), s')"
          using run \<open>br_status r \<notin> {SUCCESSFUL, SUPERSEDED, FAILED}\<close> Some
          by (auto simp: record_failure_def closed_def [symmetric] and_then_eq_Inr Let_def)
        have "keeps s s'"
          by (rule write_two_keeps [OF inv flush disjI1 [OF refl] p(1) _ _ _ _ _ r(1)])
            (use p r False in \<open>auto simp: closed\<close>)
        then show ?thesis by (simp add: keeps_def)
      qed
    qed
  qed
  then show "queue_inv s'" "site_states s' = site_states s" "br_status r \<noteq> PENDING \<Longrightarrow> covered u s \<Longrightarrow> covered u s'"
    by auto
qed

section \<open>Every event keeps the invariant\<close>

text \<open>A failure callback is answered for a request whose build has been started.\<close>

fun started_only :: "'z site_db_scheme \<Rightarrow> queue_event \<Rightarrow> bool" where
  "started_only s (Result now i b) =
     (case get_build (tenant_session (res_tenant_id b)) i s of
        None \<Rightarrow> True
      | Some r \<Rightarrow> if res_status b = Result_FAILED then br_status r \<noteq> PENDING else True)"
| "started_only s e = True"

definition step_good :: "'z site_db_scheme \<Rightarrow> 'z site_db_scheme \<Rightarrow> bool" where
  "step_good s s' \<longleftrightarrow> queue_inv s' \<and> (\<forall>t. content_of t s \<le> content_of t s' \<and> deployed_of t s \<le> deployed_of t s')"

lemma step_good_transaction:
  assumes "queue_inv s" "\<And>x s'. body s = (Inr x, s') \<Longrightarrow> step_good s s'"
  shows "step_good s (snd (transaction body s))"
  by (rule transaction_inv) (use assms in \<open>auto simp: step_good_def\<close>)

lemma step_good_same:
  "queue_inv s' \<Longrightarrow> site_states s' = site_states s \<Longrightarrow> step_good s s'"
  using views_same [of s' s] by (simp add: step_good_def)

lemma record_result_Inr:
  assumes "record_result c (tenant_session t) now i b s = (Inr x, s')" "t = res_tenant_id b"
  obtains (success) r actual where "get_build (tenant_session t) i s = Some r" "res_status b = Result_SUCCESSFUL"
      "res_actual_revision b = Some actual" "target_revision r \<le> actual" "record_success (tenant_session t) now actual r t s = (Inr x, s')"
  | (failure) r where "get_build (tenant_session t) i s = Some r" "res_status b = Result_FAILED"
      "record_failure c (tenant_session t) now b r s = (Inr x, s')"
  using assms
  by (auto simp: record_result_def not_less split: option.splits if_splits result_status.splits)

lemma config_same:
  "site_states (write_build_config cur now actor config s) = site_states s"
  "build_requests (write_build_config cur now actor config s) = build_requests s"
  by (simp_all add: write_build_config_def Let_def split: option.split)

lemma request_rebuild_Inr:
  "request_rebuild now fresh t actor s = transaction (\<lambda>s.
       and_then (manual_rebuild (tenant_session t) now fresh t actor s) (\<lambda>r s.
         let s' = s\<lparr>audit_log := insert_row
                 \<lparr>ae_tenant_id = t, ae_actor = Some actor, ae_action = ''site_build.manual_requested'',
                  ae_entity_type = ''site_build_request'', ae_entity_id = Some (br_id r),
                  ae_metadata = [(lit ''target_revision'', JInt (target_revision r))],
                  ae_created_at = now\<rparr> (audit_log s)\<rparr>
         in (Inr (status (tenant_session t) s'), s'))) s"
  by (simp add: request_rebuild_def Let_def)

lemma queue_step_good:
  assumes inv: "queue_inv s"
  shows "step_good s (queue_step c e s)"
proof (cases e)
  case (Changed t now fresh ch)
  have "step_good s s'" if "public_content_changed (tenant_session t) now fresh t ch s = (Inr x, s')" for x s'
  proof -
    have "content_of u s \<le> content_of u s'" for u
      using changed_result(2,4) [OF that inv] by (cases "u = t") auto
    then show ?thesis
      using changed_result(1,3) [OF that inv] by (simp add: step_good_def)
  qed
  then show ?thesis
    using Changed by (auto intro!: step_good_transaction [OF inv])
next
  case (Rebuild t now fresh actor)
  have "step_good s (s'\<lparr>audit_log := a\<rparr>)"
    if "manual_rebuild (tenant_session t) now fresh t actor s = (Inr x, s')" for x s' a
    using rebuild_result(1-3) [OF that inv] queue_inv_same [of s' "s'\<lparr>audit_log := a\<rparr>"]
      views_same [of "s'\<lparr>audit_log := a\<rparr>" s']
    by (auto simp: step_good_def)
  then show ?thesis
    unfolding Rebuild queue_step.simps request_rebuild_Inr
    by (intro step_good_transaction [OF inv]) (auto simp: and_then_eq_Inr Let_def)
next
  case (Claim t now claimed_first)
  have "step_good s s'" if "claim_body c (tenant_session t) now claimed_first s = (Inr x, s')" for x s'
    using claim_keeps [OF that inv] by (intro step_good_same) (simp_all add: keeps_def)
  then show ?thesis
    unfolding Claim queue_step.simps claim_def by (rule step_good_transaction [OF inv])
next
  case (Trigger_failure t now i error)
  then show ?thesis
    using trigger_failed_keeps [OF inv, of c t now i error] by (auto simp: keeps_def intro: step_good_same)
next
  case (Result now i b)
  have "step_good s s'" if "record_result c (tenant_session (res_tenant_id b)) now i b s = (Inr x, s')" for x s'
    using that refl
  proof (cases rule: record_result_Inr)
    case (success r actual)
    note r = get_rowD [OF success(1)]
    have t: "br_tenant_id r = res_tenant_id b" using r(2) by simp
    note S = success_result [OF success(5) inv r(1) t success(4)]
    have "deployed_of u s \<le> deployed_of u s'" for u
      using S(3) S(4) [of u] by (cases "u = res_tenant_id b") auto
    with S(1,2) show ?thesis by (simp add: step_good_def)
  next
    case (failure r)
    note r = get_rowD [OF failure(1)]
    have t: "br_tenant_id r = res_tenant_id b" using r(2) by simp
    show ?thesis
      using failure_result(1,2) [OF failure(3) inv r(1) t] by (intro step_good_same)
  qed
  then show ?thesis
    using Result by (auto intro!: step_good_transaction [OF inv])
next
  case (Configure now actor config)
  show ?thesis
    unfolding Configure queue_step.simps
    by (rule step_good_same [OF queue_inv_same [OF inv]]) (simp_all add: config_same)
qed

lemma queue_step_covered:
  assumes inv: "queue_inv s" and cov: "covered u s" and ok: "started_only s e"
  shows "covered u (queue_step c e s)"
proof (cases e)
  case (Changed t now fresh ch)
  have "covered u s'" if "public_content_changed (tenant_session t) now fresh t ch s = (Inr x, s')" for x s'
    using changed_result(5,6) [OF that inv] cov by (cases "u = t") auto
  then show ?thesis
    unfolding Changed queue_step.simps by (rule transaction_inv [where I = "covered u", OF cov])
next
  case (Rebuild t now fresh actor)
  have "covered u (s'\<lparr>audit_log := a\<rparr>)"
    if "manual_rebuild (tenant_session t) now fresh t actor s = (Inr x, s')" for x s' a
    using rebuild_result(4) [OF that inv cov] views_same [of "s'\<lparr>audit_log := a\<rparr>" s' u] by (simp add: covered_def)
  then show ?thesis
    unfolding Rebuild queue_step.simps request_rebuild_Inr
    by (intro transaction_inv [where I = "covered u", OF cov]) (auto simp: and_then_eq_Inr Let_def)
next
  case (Claim t now claimed_first)
  have "covered u s'" if "claim_body c (tenant_session t) now claimed_first s = (Inr x, s')" for x s'
    using claim_keeps [OF that inv] cov by (simp add: keeps_def)
  then show ?thesis
    unfolding Claim queue_step.simps claim_def by (rule transaction_inv [where I = "covered u", OF cov])
next
  case (Trigger_failure t now i error)
  then show ?thesis
    using trigger_failed_keeps [OF inv, of c t now i error] cov by (auto simp: keeps_def)
next
  case (Result now i b)
  have "covered u s'" if "record_result c (tenant_session (res_tenant_id b)) now i b s = (Inr x, s')" for x s'
    using that refl
  proof (cases rule: record_result_Inr)
    case (success r actual)
    note r = get_rowD [OF success(1)]
    have t: "br_tenant_id r = res_tenant_id b" using r(2) by simp
    show ?thesis by (rule success_result(5) [OF success(5) inv r(1) t success(4) cov])
  next
    case (failure r)
    note r = get_rowD [OF failure(1)]
    have t: "br_tenant_id r = res_tenant_id b" using r(2) by simp
    have "br_status r \<noteq> PENDING" using ok failure Result by simp
    with failure_result(3) [OF failure(3) inv r(1) t _ cov] show ?thesis by simp
  qed
  then show ?thesis
    unfolding Result queue_step.simps by (rule transaction_inv [where I = "covered u", OF cov])
next
  case (Configure now actor config)
  then show ?thesis
    using cov config_same [of "tenant_session (cfg_tenant_id config)" now actor config s]
      views_same [of "write_build_config (tenant_session (cfg_tenant_id config)) now actor config s" s u]
    by (simp add: covered_def)
qed

section \<open>Tenants\<close>

definition queue_view where
  "queue_view t s =
     (visible st_tenant_id (tenant_session t) (site_states s),
      visible br_tenant_id (tenant_session t) (build_requests s),
      visible cfg_tenant_id (tenant_session t) (build_configs s),
      visible ae_tenant_id (tenant_session t) (audit_log s))"

lemma view_transaction:
  "(\<And>x s'. body s = (Inr x, s') \<Longrightarrow> queue_view u s' = queue_view u s) \<Longrightarrow>
     queue_view u (snd (transaction body s)) = queue_view u s"
  by (rule transaction_inv) auto

lemma flush_view:
  assumes "flush_builds (tenant_session t) rs s = (Inr x, s')" "u \<noteq> t" "\<And>r. r \<in> set rs \<Longrightarrow> br_tenant_id r = t"
  shows "queue_view u s' = queue_view u s"
  using assms
proof (induction rs arbitrary: s)
  case (Cons r rs)
  then have "flush_builds (tenant_session t) rs (save_build (tenant_session t) r s) = (Inr x, s')"
    unfolding flush_builds_Inr by blast
  from Cons.IH [OF this Cons.prems(2)] Cons.prems(2,3) show ?case
    by (simp add: queue_view_def isolation)
qed (simp add: flush_builds_Inr)

lemma state_view:
  assumes "state_for_update (tenant_session t) t s = (Inr st, s')" "u \<noteq> t"
  shows "queue_view u s' = queue_view u s" "st_tenant_id st = t"
  using assms state_for_update_Inr(2) [OF assms(1)]
  by (auto simp: state_for_update_def Let_def queue_view_def isolation split: option.splits if_splits)

lemma save_state_view:
  "u \<noteq> t \<Longrightarrow> st_tenant_id st = t \<Longrightarrow> queue_view u (save_state (tenant_session t) st s) = queue_view u s"
  by (simp add: queue_view_def isolation)

lemma enqueue_view:
  assumes "enqueue (tenant_session t) now fresh t target ch s = (Inr r, s')" "u \<noteq> t"
  shows "queue_view u s' = queue_view u s"
  using assms(1)
proof (cases rule: enqueue_Inr)
  case (coalesced p)
  show ?thesis
    by (rule flush_view [OF coalesced(3) assms(2)])
      (use pending_buildD(3) [OF coalesced(1)] coalesced(2) in \<open>simp add: coalesced_def\<close>)
next
  case fresh
  then show ?thesis
    using assms(2) by (simp add: queue_view_def isolation new_request_def)
qed

lemma changed_view:
  assumes "public_content_changed (tenant_session t) now fresh t ch s = (Inr r, s')" "u \<noteq> t"
  shows "queue_view u s' = queue_view u s"
proof -
  from assms(1) obtain st s1 where st: "state_for_update (tenant_session t) t s = (Inr st, s1)"
    and enq: "enqueue (tenant_session t) now fresh t (content_revision st + 1) ch
        (save_state (tenant_session t) (st\<lparr>content_revision := content_revision st + 1\<rparr>) s1) = (Inr r, s')"
    by (auto simp: public_content_changed_def and_then_eq_Inr Let_def)
  note S = state_view [OF st assms(2)]
  from enqueue_view [OF enq assms(2)] S(1)
    save_state_view [OF assms(2), of "st\<lparr>content_revision := content_revision st + 1\<rparr>" s1] S(2)
  show ?thesis by simp
qed

lemma rebuild_view:
  assumes "manual_rebuild (tenant_session t) now fresh t actor s = (Inr r, s')" "u \<noteq> t"
  shows "queue_view u s' = queue_view u s"
  using assms state_view [OF _ assms(2)]
  by (auto simp: manual_rebuild_def and_then_eq_Inr dest!: enqueue_view)

lemma claim_view:
  assumes run: "claim_body c (tenant_session t) now claimed_first s = (Inr out, s')" and u: "u \<noteq> t"
  shows "queue_view u s' = queue_view u s"
proof -
  have start: "queue_view u s2 = queue_view u s"
    if "start_due c (tenant_session t) now claimed_first dirty s = (Inr x, s2)"
      and "\<And>d. d \<in> set dirty \<Longrightarrow> br_tenant_id d = t" for dirty x s2
  proof (cases "due_build (tenant_session t) now s")
    case None
    with that u show ?thesis
      by (auto simp: start_due_def and_then_eq_Inr intro: flush_view)
  next
    case (Some y)
    have "br_tenant_id (fetch dirty y) = t"
      using due_buildD(3) [OF Some] that(2)
      by (auto simp: fetch_def or_default_def find_Some_iff split: option.split)
    moreover define rs where "rs = (if claimed_first
        then started c now (fetch dirty y) # filter (\<lambda>d. br_id d \<noteq> br_id y) dirty
        else filter (\<lambda>d. br_id d \<noteq> br_id y) dirty @ [started c now (fetch dirty y)])"
    moreover have rs: "flush_builds (tenant_session t) rs s = (Inr (), s2)"
      "set rs \<subseteq> insert (started c now (fetch dirty y)) (set dirty)"
      using that(1) Some by (auto simp: rs_def start_due_def and_then_eq_Inr Let_def)
    ultimately show ?thesis
      using that(2) by (intro flush_view [OF rs(1) u]) (use rs(2) in auto)
  qed
  show ?thesis
    using run
    by (auto simp: claim_body_def split: if_splits option.splits
        dest!: running_buildD(3) pending_buildD(3) intro!: start)
qed

lemma trigger_failed_view:
  assumes "u \<noteq> t"
  shows "queue_view u (snd (trigger_failed c t now i error s)) = queue_view u s"
  unfolding trigger_failed_def Let_def
  by (rule view_transaction)
    (auto split: option.splits if_splits dest!: get_rowD(2) pending_buildD(3) elim!: flush_view [OF _ assms])

lemma success_view:
  assumes "record_success (tenant_session t) now actual r t s = (Inr x, s')" "u \<noteq> t" "br_tenant_id r = t"
  shows "queue_view u s' = queue_view u s"
proof (cases "s' = s")
  case False
  from assms(1) False obtain st st' r' s1 where st: "state_for_update (tenant_session t) t s = (Inr st, s1)"
    and flush: "flush_builds (tenant_session t) [r'] (save_state (tenant_session t) st' s1) = (Inr (), s')"
    and ids: "br_tenant_id r' = br_tenant_id r" "st_tenant_id st' = st_tenant_id st"
    by (fastforce simp: record_success_def Let_def and_then_eq_Inr flush_build_Inr flush_builds_Inr split: if_splits)
  note S = state_view [OF st assms(2)]
  have "queue_view u s' = queue_view u (save_state (tenant_session t) st' s1)"
    by (rule flush_view [OF flush assms(2)]) (use ids assms(3) in simp)
  with S ids save_state_view [OF assms(2), of st' s1] show ?thesis by simp
qed simp

lemma failure_view:
  assumes run: "record_failure c (tenant_session t) now b r s = (Inr x, s')" and u: "u \<noteq> t" and r: "br_tenant_id r = t"
  shows "queue_view u s' = queue_view u s"
proof (cases "s' = s")
  case False
  with run obtain rs y where "flush_builds (tenant_session t) rs s = (Inr y, s')" "\<forall>r\<in>set rs. br_tenant_id r = t"
  proof (cases "pending_build (tenant_session t) s")
    case None
    with run False show thesis
      by (auto simp: record_failure_def Let_def flush_build_Inr split: if_splits
          intro!: that [of "[_]" "()"] simp: flush_builds_Inr r)
  next
    case (Some p)
    with run False pending_buildD(3) [OF Some] show thesis
      by (auto simp: record_failure_def Let_def and_then_eq_Inr r split: if_splits intro!: that)
  qed
  then show ?thesis using flush_view [OF _ u] by blast
qed simp

lemma config_view:
  assumes "u \<noteq> cfg_tenant_id config"
  shows "queue_view u (write_build_config (tenant_session (cfg_tenant_id config)) now actor config s) = queue_view u s"
  using visible_insert_row_other [OF assms, of cfg_tenant_id config "build_configs s"]
    visible_save_row_other [OF assms, of cfg_tenant_id config cfg_tenant_id "build_configs s"]
    visible_insert_row_other [OF assms, of ae_tenant_id _ "audit_log s"]
  by (cases "get_row cfg_tenant_id cfg_tenant_id (tenant_session (cfg_tenant_id config)) (cfg_tenant_id config)
        (build_configs s)") (simp_all add: write_build_config_def queue_view_def Let_def)

lemma queue_step_confined:
  assumes "queue_tenant e \<noteq> Some u"
  shows "queue_view u (queue_step c e s) = queue_view u s"
proof (cases e)
  case (Changed t now fresh ch)
  then have "u \<noteq> t" using assms by auto
  then show ?thesis
    unfolding Changed queue_step.simps by (intro view_transaction changed_view)
next
  case (Rebuild t now fresh actor)
  then have "u \<noteq> t" using assms by auto
  then have "queue_view u (s'\<lparr>audit_log := insert_row a (audit_log s')\<rparr>) = queue_view u s"
    if "manual_rebuild (tenant_session t) now fresh t actor s = (Inr x, s')" "ae_tenant_id a = t" for x s' a
    using rebuild_view [OF that(1)] that(2) by (simp add: queue_view_def isolation)
  then show ?thesis
    unfolding Rebuild queue_step.simps request_rebuild_Inr
    by (intro view_transaction) (auto simp: and_then_eq_Inr Let_def)
next
  case (Claim t now claimed_first)
  then have "u \<noteq> t" using assms by auto
  then show ?thesis
    unfolding Claim queue_step.simps claim_def by (intro view_transaction claim_view)
next
  case (Trigger_failure t now i error)
  with assms show ?thesis by (simp add: trigger_failed_view)
next
  case (Result now i b)
  then have u: "u \<noteq> res_tenant_id b" using assms by auto
  have "queue_view u s' = queue_view u s"
    if "record_result c (tenant_session (res_tenant_id b)) now i b s = (Inr x, s')" for x s'
    using that refl
  proof (cases rule: record_result_Inr)
    case (success r actual)
    then show ?thesis
      using get_rowD(2) [OF success(1)] by (intro success_view [OF success(5) u]) simp
  next
    case (failure r)
    then show ?thesis
      using get_rowD(2) [OF failure(1)] by (intro failure_view [OF failure(3) u]) simp
  qed
  then show ?thesis
    unfolding Result queue_step.simps by (rule view_transaction)
next
  case (Configure now actor config)
  with assms show ?thesis by (simp add: config_view)
qed

section \<open>Histories\<close>

lemma queue_step_facts:
  "queue_inv s \<Longrightarrow> queue_inv (queue_step c e s)"
  "queue_inv s \<Longrightarrow> content_of t s \<le> content_of t (queue_step c e s)"
  "queue_inv s \<Longrightarrow> deployed_of t s \<le> deployed_of t (queue_step c e s)"
  using queue_step_good [of s c e] by (simp_all add: step_good_def)

interpretation queue: inductive_invariant "queue_step c" "\<lambda>_ _. True" queue_inv for c
  by unfold_locales (simp_all add: queue_step_facts)

interpretation content: monotone_quantity "queue_step c" "\<lambda>_ _. True" queue_inv "content_of t" for c t
  by unfold_locales (simp_all add: queue_step_facts)

interpretation deployed: monotone_quantity "queue_step c" "\<lambda>_ _. True" queue_inv "deployed_of t" for c t
  by unfold_locales (simp_all add: queue_step_facts)

interpretation coverage: inductive_invariant "queue_step c" started_only "\<lambda>s. queue_inv s \<and> covered t s" for c t
  by unfold_locales (simp add: queue_step_facts queue_step_covered)

interpretation builds: tenant_confinement "queue_step c" queue_tenant queue_view for c
  by unfold_locales (rule queue_step_confined)

definition empty_queue :: "'z site_db_scheme \<Rightarrow> 'z site_db_scheme" where
  "empty_queue s = s\<lparr>site_states := [], build_requests := []\<rparr>"

lemma empty_queue_inv: "queue_inv (empty_queue s)"
  by (simp add: empty_queue_def queue_inv_def)

lemma empty_queue_covered: "covered t (empty_queue s)"
  by (simp add: empty_queue_def covered_def content_of_def deployed_of_def find_state_def)

lemma reachable_queue_inv: "queue_inv (run (queue_step c) es (empty_queue s))"
  by (rule queue.inv_run [OF empty_queue_inv]) simp

end
