(* ===== verification/SiteBuildProperties.thy ===== *)
theory SiteBuildProperties
  imports SiteBuildQueue Samples "HOL-Library.Multiset"
begin

text \<open>
  What the build queue of \<open>SiteBuildQueue\<close> promises, over every history that starts with no
  requests: the invariant, the revisions, the refinement of an abstract coalescing queue, claims,
  retries, results, tenants, and two histories on which it fails.
\<close>

section \<open>The abstract queue\<close>

text \<open>
  Per tenant: the content revision, the revision last deployed, the revision waiting to be built
  and the one being built.
\<close>

record abstract_queue =
  content :: int
  deployed :: int
  waiting :: "int option"
  building :: "int option"

definition abstract_of :: "uuid \<Rightarrow> 'z site_db_scheme \<Rightarrow> abstract_queue" where
  "abstract_of t s =
     \<lparr>content = content_of t s, deployed = deployed_of t s,
      waiting = map_option target_revision (pending_build (tenant_session t) s),
      building = map_option target_revision (running_build (tenant_session t) s)\<rparr>"

definition abstract_change :: "abstract_queue \<Rightarrow> abstract_queue" where
  "abstract_change q = q\<lparr>content := content q + 1, waiting := Some (content q + 1)\<rparr>"

definition abstract_rebuild :: "abstract_queue \<Rightarrow> abstract_queue" where
  "abstract_rebuild q = q\<lparr>waiting := Some (content q)\<rparr>"

text \<open>A claim moves the waiting revision to the builder, with what an expired build still owed.\<close>

definition abstract_claim :: "abstract_queue \<Rightarrow> abstract_queue" where
  "abstract_claim q =
     q\<lparr>waiting := None,
       building := (case waiting q of None \<Rightarrow> None
                    | Some w \<Rightarrow> Some (case building q of None \<Rightarrow> w | Some b \<Rightarrow> max w b))\<rparr>"

text \<open>A claim that finds an expired build and nothing due puts back what that build owes.\<close>

definition abstract_expire :: "abstract_queue \<Rightarrow> abstract_queue" where
  "abstract_expire q =
     (case building q of
        None \<Rightarrow> q
      | Some b \<Rightarrow> q\<lparr>waiting := Some (case waiting q of None \<Rightarrow> b | Some w \<Rightarrow> max w b), building := None\<rparr>)"

section \<open>Looking up the one pending and the one running request\<close>

lemma pending_build_eq:
  assumes "queue_inv s" "r \<in> set (build_requests s)" "br_tenant_id r = t" "br_status r = PENDING"
  shows "pending_build (tenant_session t) s = Some r"
proof (cases "pending_build (tenant_session t) s")
  case None
  with pending_build_None [OF None assms(2)] assms show ?thesis by simp
next
  case (Some p)
  with pending_is_self [OF assms(1) Some assms(2-4)] show ?thesis by simp
qed

lemma running_build_eq:
  assumes "queue_inv s" "r \<in> set (build_requests s)" "br_tenant_id r = t" "br_status r = RUNNING"
  shows "running_build (tenant_session t) s = Some r"
proof (cases "running_build (tenant_session t) s")
  case None
  with assms show ?thesis
    by (auto simp: running_build_def select_where_def visible_def filter_empty_conv)
next
  case (Some p)
  note p = running_buildD [OF Some]
  have "build_conflict p r"
    using p assms(3,4) by (simp add: build_conflict_def)
  then have "br_id p = br_id r"
    using exclusiveD [OF queue_invD(2) [OF assms(1)] p(1) assms(2)] by blast
  then show ?thesis
    using same_row [OF assms(1) p(1) assms(2)] Some by simp
qed

lemma running_build_None_iff:
  "running_build (tenant_session t) s = None \<longleftrightarrow>
     (\<forall>x\<in>set (build_requests s). br_tenant_id x = t \<longrightarrow> br_status x \<noteq> RUNNING)"
  by (auto simp: running_build_def select_where_def visible_def filter_empty_conv)

lemma pending_build_None_iff:
  "pending_build (tenant_session t) s = None \<longleftrightarrow>
     (\<forall>x\<in>set (build_requests s). br_tenant_id x = t \<longrightarrow> br_status x \<noteq> PENDING)"
  by (auto simp: pending_build_def select_where_def visible_def filter_empty_conv)

text \<open>An enqueue leaves the running build alone.\<close>

lemma enqueue_running:
  assumes run: "enqueue (tenant_session t) now fresh t target ch s = (Inr r, s')" and inv: "queue_inv s" "queue_inv s'"
  shows "running_build (tenant_session t) s' = running_build (tenant_session t) s"
proof -
  have iff: "x \<in> set (build_requests s') \<and> br_status x = RUNNING \<longleftrightarrow> x \<in> set (build_requests s) \<and> br_status x = RUNNING" for x
    using run
  proof (cases rule: enqueue_Inr)
    case (coalesced p)
    note p = pending_buildD [OF coalesced(1)]
    have s': "s' = save_build (tenant_session t) r s"
      using coalesced(3) by (simp add: flush_builds_Inr)
    have r: "br_id p = br_id r" "br_status r = PENDING"
      using p(2) by (simp_all add: coalesced(2) coalesced_def)
    have rows: "set (build_requests s') = insert r (set (build_requests s) - {p})"
      using save_row_unique [OF queue_invD(1) [OF inv(1)] p(1) r(1), of "tenant_session t" br_tenant_id] p(3)
      unfolding s' by simp
    show ?thesis
      unfolding rows using p(2) r(2) by force
  next
    case fresh
    then show ?thesis by (auto simp: new_request_def)
  qed
  show ?thesis
  proof (cases "running_build (tenant_session t) s")
    case None
    then have "running_build (tenant_session t) s' = None"
      unfolding running_build_None_iff using iff by blast
    with None show ?thesis by simp
  next
    case (Some r0)
    note r0 = running_buildD [OF Some]
    have "running_build (tenant_session t) s' = Some r0"
      using iff r0 by (intro running_build_eq [OF inv(2)]) auto
    with Some show ?thesis by simp
  qed
qed

lemma state_running:
  "build_requests s' = build_requests s \<Longrightarrow> running_build cur s' = running_build cur s"
  by (simp add: running_build_def)

lemma changed_abstract:
  assumes run: "public_content_changed (tenant_session t) now fresh t ch s = (Inr r, s')" and inv: "queue_inv s"
  shows "abstract_of t s' = abstract_change (abstract_of t s)"
proof -
  note C = changed_result [OF run inv]
  from run obtain st s1 where st: "state_for_update (tenant_session t) t s = (Inr st, s1)"
    and enq: "enqueue (tenant_session t) now fresh t (content_revision st + 1) ch
        (save_state (tenant_session t) (st\<lparr>content_revision := content_revision st + 1\<rparr>) s1) = (Inr r, s')"
    by (auto simp: public_content_changed_def and_then_eq_Inr Let_def)
  note F = state_for_update_Inr [OF st]
  have "st \<in> set (site_states s1)"
    using get_rowD(1) F(1) unfolding find_state_def by metis
  then have checks: "site_state_checks st"
    using queue_invD(4) [OF F(8) [OF inv]] by blast
  have "queue_inv (save_state (tenant_session t) (st\<lparr>content_revision := content_revision st + 1\<rparr>) s1)"
    using checks F(2) by (intro queue_inv_state [OF F(8) [OF inv] F(1)]) (auto simp: site_state_checks_def)
  from enqueue_running [OF enq this C(1)]
  have "running_build (tenant_session t) s' = running_build (tenant_session t) s"
    using F(3) state_running [of s1 s "tenant_session t"]
      state_running [of "save_state (tenant_session t) (st\<lparr>content_revision := content_revision st + 1\<rparr>) s1" s1 "tenant_session t"]
    by simp
  moreover have "pending_build (tenant_session t) s' = Some r"
    by (rule pending_build_eq [OF C(1,7,8,9)])
  ultimately show ?thesis
    using C(2,3,10) by (simp add: abstract_of_def abstract_change_def)
qed

lemma rebuild_abstract:
  assumes run: "manual_rebuild (tenant_session t) now fresh t actor s = (Inr r, s')" and inv: "queue_inv s"
  shows "abstract_of t s' = abstract_rebuild (abstract_of t s)"
proof -
  note C = rebuild_result [OF run inv]
  from run obtain st s1 ch where st: "state_for_update (tenant_session t) t s = (Inr st, s1)"
    and enq: "enqueue (tenant_session t) now fresh t (content_revision st) ch s1 = (Inr r, s')"
    by (auto simp: manual_rebuild_def and_then_eq_Inr)
  note F = state_for_update_Inr [OF st]
  from enqueue_running [OF enq F(8) [OF inv] C(1)]
  have "running_build (tenant_session t) s' = running_build (tenant_session t) s"
    using F(3) state_running [of s1 s "tenant_session t"] by simp
  moreover have "pending_build (tenant_session t) s' = Some r"
    by (rule pending_build_eq [OF C(1,5,6,7)])
  ultimately show ?thesis
    using C(2,3,8) by (simp add: abstract_of_def abstract_rebuild_def)
qed

lemma claimed_queue:
  assumes inv: "queue_inv s" "queue_inv s'" and flush: "flush_builds (tenant_session t) rs s = (Inr u, s')"
    "edits (tenant_session t) s rs"
    and rs: "r \<in> set rs" "br_tenant_id r = t" "br_status r = RUNNING" "\<And>x. x \<in> set rs \<Longrightarrow> br_status x \<noteq> PENDING"
    and p: "pending_build (tenant_session t) s = Some p" "br_id p \<in> br_id ` set rs"
  shows "running_build (tenant_session t) s' = Some r" "pending_build (tenant_session t) s' = None"
proof -
  have "r \<in> set (build_requests s')"
    using flush_builds_rows [OF flush] rs(1) by blast
  then show "running_build (tenant_session t) s' = Some r"
    by (rule running_build_eq [OF inv(2) _ rs(2,3)])
  show "pending_build (tenant_session t) s' = None"
    unfolding pending_build_None_iff
  proof (intro ballI impI)
    fix x assume x: "x \<in> set (build_requests s')" "br_tenant_id x = t"
    then have "x \<in> set rs \<or> (x \<in> set (build_requests s) \<and> br_id x \<notin> br_id ` set rs)"
      by (intro flush_builds_from [OF flush(1)]) simp_all
    then show "br_status x \<noteq> PENDING"
      using rs(4) pending_is_self [OF inv(1) p(1) _ x(2)] p(2) by auto
  qed
qed

lemma row_edits:
  assumes inv: "queue_inv s" and ids: "distinct (map br_id rs)"
    and row: "\<And>r. r \<in> set rs \<Longrightarrow> \<exists>r0\<in>set (build_requests s). br_id r0 = br_id r \<and> br_tenant_id r0 = t
        \<and> br_tenant_id r = t \<and> 0 \<le> target_revision r \<and> target_revision r \<le> content_of t s
        \<and> br_status r \<noteq> SUCCESSFUL \<and> br_attempt_count r0 \<le> br_attempt_count r"
  shows "edits (tenant_session t) s rs"
proof (rule editsI [OF ids])
  fix r assume "r \<in> set rs"
  from row [OF this] obtain r0 where r0: "r0 \<in> set (build_requests s)" "br_id r0 = br_id r" "br_tenant_id r0 = t"
    "br_tenant_id r = t" "0 \<le> target_revision r" "target_revision r \<le> content_of t s"
    "br_status r \<noteq> SUCCESSFUL" "br_attempt_count r0 \<le> br_attempt_count r" by blast
  show "row_ok s r"
    using row_ok_edit [OF queue_invD(3) [OF inv r0(1)], of r] r0 by simp
  show "\<exists>r0\<in>set (build_requests s). br_id r0 = br_id r \<and> br_tenant_id r0 = br_tenant_id r
      \<and> tenant_isolation_policy (tenant_session t) (br_tenant_id r0)"
    using r0 by (intro bexI [of _ r0]) auto
qed

lemma claim_outcome:
  assumes run: "claim_body c (tenant_session t) now claimed_first s = (Inr (Some r), s')" and inv: "queue_inv s"
  shows "\<exists>p. pending_build (tenant_session t) s = Some p \<and> next_attempt_at p \<le> now
     \<and> br_id r = br_id p \<and> br_attempt_count r = br_attempt_count p + 1
     \<and> br_status r = RUNNING \<and> lease_expires_at r = Some (now + seconds (site_build_lease_seconds c))
     \<and> running_build (tenant_session t) s' = Some r \<and> pending_build (tenant_session t) s' = None
     \<and> (case running_build (tenant_session t) s of
          None \<Rightarrow> target_revision r = target_revision p
        | Some old \<Rightarrow> (case lease_expires_at old of None \<Rightarrow> False | Some e \<Rightarrow> e \<le> now)
            \<and> target_revision r = max (target_revision p) (target_revision old))"
proof -
  have inv': "queue_inv s'" using claim_keeps [OF run inv] by (simp add: keeps_def)
  show ?thesis
    using run inv
  proof (cases rule: claim_Inr)
    case (start x)
    note b = target_bounds [OF inv start(2)]
    have p: "pending_build (tenant_session t) s = Some x"
      by (rule pending_build_eq [OF inv start(2,4,3)])
    have r: "r = started c now x" using start(1) by simp
    have e: "edits (tenant_session t) s [r]"
      by (rule row_edits [OF inv]) (use start b r in auto)
    have flush: "flush_builds (tenant_session t) [r] s = (Inr (), s')"
      using start(7) r by simp
    have "running_build (tenant_session t) s' = Some r \<and> pending_build (tenant_session t) s' = None"
      using claimed_queue [OF inv inv' flush e, of r x] p start(4) r by simp
    with p start r show ?thesis by (simp add: started_def)
  next
    case (takeover old p rs)
    note ro = running_buildD [OF takeover(1)] and rp = pending_buildD [OF takeover(2)]
    have other: "br_id p \<noteq> br_id old"
      using same_row [OF inv rp(1) ro(1)] rp(2) ro(2) by auto
    note b = target_bounds [OF inv rp(1)] target_bounds [OF inv ro(1)]
    have r: "r = started c now (p\<lparr>target_revision := max (target_revision p) (target_revision old)\<rparr>)"
      using takeover(3) by simp
    have rs: "rs = [r, old\<lparr>br_status := SUPERSEDED, last_error := Some lease_lost\<rparr>]
        \<or> rs = [old\<lparr>br_status := SUPERSEDED, last_error := Some lease_lost\<rparr>, r]"
      using takeover(7) r by auto
    have e: "edits (tenant_session t) s rs"
    proof (rule row_edits [OF inv])
      show "distinct (map br_id rs)" using rs other r by auto
      fix x assume "x \<in> set rs"
      then have "x = r \<or> x = old\<lparr>br_status := SUPERSEDED, last_error := Some lease_lost\<rparr>"
        using rs by auto
      then show "\<exists>r0\<in>set (build_requests s). br_id r0 = br_id x \<and> br_tenant_id r0 = t
        \<and> br_tenant_id x = t \<and> 0 \<le> target_revision x \<and> target_revision x \<le> content_of t s
        \<and> br_status x \<noteq> SUCCESSFUL \<and> br_attempt_count r0 \<le> br_attempt_count x"
        using ro rp b r by (elim disjE) (force intro: bexI [of _ p], force intro: bexI [of _ old])
    qed
    have c: "r \<in> set rs" "br_tenant_id r = t" "br_status r = RUNNING" "br_id p \<in> br_id ` set rs"
      using rs r rp by auto
    have c': "br_status x \<noteq> PENDING" if "x \<in> set rs" for x
      using that rs r by auto
    have "running_build (tenant_session t) s' = Some r \<and> pending_build (tenant_session t) s' = None"
      using claimed_queue [OF inv inv' takeover(6) e c(1-3) c' takeover(2) c(4)] by simp
    with takeover r show ?thesis by (simp add: started_def)
  qed auto
qed

lemma claim_idle:
  assumes run: "claim_body c (tenant_session t) now claimed_first s = (Inr None, s')" and inv: "queue_inv s"
  shows "s' = s \<or> abstract_of t s' = abstract_expire (abstract_of t s)"
proof -
  note keeps = claim_keeps [OF run inv]
  have inv': "queue_inv s'" using keeps by (simp add: keeps_def)
  have views: "content_of t s' = content_of t s" "deployed_of t s' = deployed_of t s"
    using views_same [of s' s t] keeps by (auto simp: keeps_def)
  have idle: "running_build (tenant_session t) s' = None"
    if "flush_builds (tenant_session t) rs s = (Inr u, s')" "\<forall>x\<in>set rs. br_status x \<noteq> RUNNING"
      "running_build (tenant_session t) s = Some r" "br_id r \<in> br_id ` set rs" for rs u r
    unfolding running_build_None_iff
  proof (intro ballI impI)
    fix x assume x: "x \<in> set (build_requests s')" "br_tenant_id x = t"
    from flush_builds_from [OF that(1) x(1)] x(2)
    consider "x \<in> set rs" | "x \<in> set (build_requests s)" "br_id x \<notin> br_id ` set rs" by auto
    then show "br_status x \<noteq> RUNNING"
    proof cases
      case 2
      then show ?thesis using running_build_eq [OF inv 2(1) x(2)] that(3,4) by auto
    qed (use that(2) in blast)
  qed
  from run inv show ?thesis
  proof (cases rule: claim_Inr)
    case none
    then show ?thesis by simp
  next
    case (requeue r)
    note r = running_buildD [OF requeue(2)]
    define x where "x = r\<lparr>br_status := PENDING, started_at := None, lease_expires_at := None, next_attempt_at := now\<rparr>"
    have flush: "flush_builds (tenant_session t) [x] s = (Inr (), s')" using requeue(3) by (simp add: x_def)
    have "pending_build (tenant_session t) s = None"
    proof (rule ccontr)
      assume "pending_build (tenant_session t) s \<noteq> None"
      then obtain p where p: "pending_build (tenant_session t) s = Some p" by blast
      note p = pending_buildD [OF p]
      have "br_id p \<noteq> br_id x" using same_row [OF inv p(1) r(1)] p(2) r(2) by (auto simp: x_def)
      then have "build_conflict p x \<and> br_id p \<noteq> br_id x" using p r by (simp add: build_conflict_def x_def)
      with flush p(1) show False by (auto simp: flush_builds_Inr build_unique_ok_def list_all_iff)
    qed
    moreover have "x \<in> set (build_requests s')"
    proof -
      have "s' = save_build (tenant_session t) x s" using flush by (simp add: flush_builds_Inr)
      then show ?thesis using r by (auto simp: in_save_row_iff x_def)
    qed
    then have "pending_build (tenant_session t) s' = Some x"
      using r by (intro pending_build_eq [OF inv']) (simp_all add: x_def)
    moreover have "running_build (tenant_session t) s' = None"
      by (rule idle [OF flush _ requeue(2)]) (simp_all add: x_def)
    ultimately show ?thesis
      using requeue(2) views by (simp add: abstract_of_def abstract_expire_def x_def)
  next
    case (supersede r p)
    note r = running_buildD [OF supersede(2)] and p = pending_buildD [OF supersede(3)]
    define x where "x = p\<lparr>target_revision := max (target_revision p) (target_revision r)\<rparr>"
    define y where "y = r\<lparr>br_status := SUPERSEDED, last_error := Some lease_lost\<rparr>"
    have flush: "flush_builds (tenant_session t) [x, y] s = (Inr (), s')" using supersede(4) by (simp add: x_def y_def)
    have other: "br_id p \<noteq> br_id r" using same_row [OF inv p(1) r(1)] p(2) r(2) by auto
    have "x \<in> set (build_requests s')"
    proof -
      have "s' = save_build (tenant_session t) y (save_build (tenant_session t) x s)"
        using flush by (simp add: flush_builds_Inr)
      then show ?thesis using p r other by (auto simp: in_save_row_iff x_def y_def)
    qed
    then have "pending_build (tenant_session t) s' = Some x"
      using p by (intro pending_build_eq [OF inv']) (simp_all add: x_def)
    moreover have "running_build (tenant_session t) s' = None"
      by (rule idle [OF flush _ supersede(2)]) (use p in \<open>simp_all add: x_def y_def\<close>)
    ultimately show ?thesis
      using supersede(2,3) views by (simp add: abstract_of_def abstract_expire_def x_def)
  qed simp_all
qed

section \<open>Properties\<close>

lemma claim_views:
  assumes "claim_body c (tenant_session t) now claimed_first s = (Inr out, s')" "queue_inv s"
  shows "content_of t s' = content_of t s" "deployed_of t s' = deployed_of t s"
  using views_same [of s' s t] claim_keeps [OF assms] by (auto simp: keeps_def)

lemma claim_abstract:
  assumes inv: "queue_inv s"
  shows "case claim c t now claimed_first s of
      (Inl e, s') \<Rightarrow> s' = s
    | (Inr None, s') \<Rightarrow> s' = s \<or> abstract_of t s' = abstract_expire (abstract_of t s)
    | (Inr (Some r), s') \<Rightarrow> abstract_of t s' = abstract_claim (abstract_of t s)"
  unfolding claim_def
proof (rule transaction_cases [of "claim_body c (tenant_session t) now claimed_first" s], goal_cases)
  case (1 e)
  then show ?case by simp
next
  case (2 r s')
  show ?case
  proof (cases r)
    case None
    with 2 claim_idle [OF 2(2) [unfolded None] inv] show ?thesis by simp
  next
    case (Some x)
    note views = claim_views [OF 2(2) inv]
    from claim_outcome [OF 2(2) [unfolded Some] inv] 2(1) Some views show ?thesis
      by (auto simp: abstract_of_def abstract_claim_def max.commute split: option.splits)
  qed
qed

text \<open>
  C12: in every history of content changes, rebuilds, workers, trigger failures and callbacks, a
  tenant has at most one PENDING and one RUNNING request, no request targets a revision that does
  not exist yet, and what a SUCCESSFUL request built, at least its target, is deployed.
\<close>

theorem build_queue_invariant:
  "case run (queue_step c) es (empty_queue s0) of s \<Rightarrow>
     exclusive br_id (\<lambda>x y. br_tenant_id x = br_tenant_id y \<and> br_status x = br_status y
        \<and> br_status x \<in> {PENDING, RUNNING}) (build_requests s)
     \<and> list_all (\<lambda>r. 0 \<le> target_revision r \<and> target_revision r \<le> content_of (br_tenant_id r) s) (build_requests s)
     \<and> list_all (\<lambda>r. if br_status r = SUCCESSFUL
          then (case actual_revision r of None \<Rightarrow> False
                | Some a \<Rightarrow> target_revision r \<le> a \<and> a \<le> deployed_of (br_tenant_id r) s) else True) (build_requests s)"
proof -
  let ?s = "run (queue_step c) es (empty_queue s0)"
  have inv: "queue_inv ?s" by (rule reachable_queue_inv)
  note I = queue_invD [OF inv]
  have "list_all (\<lambda>r. 0 \<le> target_revision r \<and> target_revision r \<le> content_of (br_tenant_id r) ?s) (build_requests ?s)"
    using target_bounds [OF inv] by (simp add: list_all_iff)
  moreover have "list_all (\<lambda>r. if br_status r = SUCCESSFUL
          then (case actual_revision r of None \<Rightarrow> False
                | Some a \<Rightarrow> target_revision r \<le> a \<and> a \<le> deployed_of (br_tenant_id r) ?s) else True) (build_requests ?s)"
    using I(3) by (simp add: list_all_iff row_ok_def)
  ultimately show ?thesis
    using I(2) by (simp add: build_conflict_def [abs_def])
qed

text \<open>
  a tenant's content revision and its deployed revision never decrease, whatever happens and
  in whatever order builds report back.
\<close>

theorem revisions_never_decrease:
  "content_of t (run (queue_step c) es (empty_queue s0)) \<le> content_of t (run (queue_step c) (es @ later) (empty_queue s0))
   \<and> deployed_of t (run (queue_step c) es (empty_queue s0)) \<le> deployed_of t (run (queue_step c) (es @ later) (empty_queue s0))"
  unfolding run_append
  by (intro conjI content.quantity_run deployed.quantity_run reachable_queue_inv legal_always)


text \<open>
  C14: content changes, manual rebuilds and claims implement the abstract coalescing queue: a change
  makes the next revision the one waiting, a rebuild the current one, and neither touches the build
  that runs; a claim that hands out a build moves what waits, and what an expired build owed, to the
  build that runs; a claim that hands out none leaves the database as it was or only returns the
  expired build; and an operation that fails changes nothing.
\<close>

theorem enqueue_refines_abstract:
  "case run (queue_step c) es (empty_queue s0) of s \<Rightarrow>
     (case transaction (public_content_changed (tenant_session t) now fresh t ch) s of
        (Inl e, s') \<Rightarrow> s' = s
      | (Inr r, s') \<Rightarrow> abstract_of t s' = abstract_change (abstract_of t s))
     \<and> (case transaction (manual_rebuild (tenant_session t) now fresh t actor) s of
        (Inl e, s') \<Rightarrow> s' = s
      | (Inr r, s') \<Rightarrow> abstract_of t s' = abstract_rebuild (abstract_of t s))
     \<and> (case claim c t now claimed_first s of
        (Inl e, s') \<Rightarrow> s' = s
      | (Inr None, s') \<Rightarrow> s' = s \<or> abstract_of t s' = abstract_expire (abstract_of t s)
      | (Inr (Some r), s') \<Rightarrow> abstract_of t s' = abstract_claim (abstract_of t s))"
proof (intro conjI)
  let ?s = "run (queue_step c) es (empty_queue s0)"
  have inv: "queue_inv ?s" by (rule reachable_queue_inv)
  show "case transaction (public_content_changed (tenant_session t) now fresh t ch) ?s of
        (Inl e, s') \<Rightarrow> s' = ?s
      | (Inr r, s') \<Rightarrow> abstract_of t s' = abstract_change (abstract_of t ?s)"
    by (rule transaction_cases [of "public_content_changed (tenant_session t) now fresh t ch" ?s])
      (simp_all add: changed_abstract [OF _ inv])
  show "case transaction (manual_rebuild (tenant_session t) now fresh t actor) ?s of
        (Inl e, s') \<Rightarrow> s' = ?s
      | (Inr r, s') \<Rightarrow> abstract_of t s' = abstract_rebuild (abstract_of t ?s)"
    by (rule transaction_cases [of "manual_rebuild (tenant_session t) now fresh t actor" ?s])
      (simp_all add: rebuild_abstract [OF _ inv])
  show "case claim c t now claimed_first ?s of
        (Inl e, s') \<Rightarrow> s' = ?s
      | (Inr None, s') \<Rightarrow> s' = ?s \<or> abstract_of t s' = abstract_expire (abstract_of t ?s)
      | (Inr (Some r), s') \<Rightarrow> abstract_of t s' = abstract_claim (abstract_of t ?s)"
    by (rule claim_abstract [OF inv])
qed

text \<open>
  tenants' queues are independent: requests, workers and callbacks for other tenants leave a
  tenant's state, requests, configuration and audit log exactly as they were.
\<close>

theorem builds_of_other_tenants:
  "queue_view t (run (queue_step c) (filter (\<lambda>e. queue_tenant e \<noteq> Some t) es) s) = queue_view t s"
  by (rule builds.view_run_others)

text \<open>
  a worker that claims a build gets a due request that was PENDING, RUNNING from now on under
  a lease of the configured length and counted as one more attempt; it becomes the only RUNNING
  request of its tenant, which before had none whose lease was still valid; it owes at least what
  it targeted and what an expired build targeted; and a worker that claims nothing leaves the
  revisions waiting and running as they were, or puts an expired build back.
\<close>

theorem claim_exclusive:
  "case run (queue_step c) es (empty_queue s0) of s \<Rightarrow>
     (case claim c t now claimed_first s of
        (Inr (Some r), s') \<Rightarrow>
          br_status r = RUNNING \<and> lease_expires_at r = Some (now + seconds (site_build_lease_seconds c))
          \<and> running_build (tenant_session t) s' = Some r
          \<and> (case running_build (tenant_session t) s of
               None \<Rightarrow> True
             | Some old \<Rightarrow> (case lease_expires_at old of None \<Rightarrow> False | Some e \<Rightarrow> e \<le> now)
                 \<and> target_revision old \<le> target_revision r)
          \<and> (case pending_build (tenant_session t) s of
               None \<Rightarrow> False
             | Some p \<Rightarrow> br_id p = br_id r \<and> next_attempt_at p \<le> now \<and> br_attempt_count r = br_attempt_count p + 1
                 \<and> target_revision p \<le> target_revision r)
          \<and> abstract_of t s' = abstract_claim (abstract_of t s)
      | (Inr None, s') \<Rightarrow> content_of t s' = content_of t s \<and> deployed_of t s' = deployed_of t s
      | (Inl e, s') \<Rightarrow> s' = s)"
proof -
  let ?s = "run (queue_step c) es (empty_queue s0)"
  have inv: "queue_inv ?s" by (rule reachable_queue_inv)
  show ?thesis
    unfolding claim_def
  proof (rule transaction_cases [of "claim_body c (tenant_session t) now claimed_first" ?s], goal_cases)
    case (1 e)
    then show ?case by simp
  next
    case (2 out s')
    note views = claim_views [OF 2(2) inv]
    show ?case
    proof (cases out)
      case None
      with 2 views show ?thesis by simp
    next
      case (Some r)
      from claim_outcome [OF 2(2) [unfolded Some] inv] 2(1) Some views show ?thesis
        by (auto simp: abstract_of_def abstract_claim_def max.commute split: option.splits)
    qed
  qed
qed

lemma flush_builds_states: "flush_builds cur rs s = (Inr u, s') \<Longrightarrow> site_states s' = site_states s"
  by (induction rs arbitrary: s) (auto simp: flush_builds_Inr)

lemma get_build_saved:
  "get_build (tenant_session t) i s = Some r0 \<Longrightarrow> br_id r = i \<Longrightarrow> br_tenant_id r = t \<Longrightarrow>
     get_build (tenant_session t) i (save_build (tenant_session t) r s) = Some r"
  by (simp add: get_row_save_row)

lemma record_success_final:
  assumes run: "record_success (tenant_session t) now actual r0 t s = (Inr r, s')"
    and r0: "get_build (tenant_session t) i s = Some r0" "target_revision r0 \<le> actual"
  shows "get_build (tenant_session t) i s' = Some r \<and> actual_revision r = Some actual \<and> target_revision r \<le> actual
     \<and> (br_status r = SUCCESSFUL \<or> (br_status r = SUPERSEDED \<and> completed_at r \<noteq> None))"
proof (cases "br_status r0 = SUCCESSFUL \<or> (br_status r0 = SUPERSEDED \<and> completed_at r0 \<noteq> None)")
  case True
  with run have "r = r0" "s' = s" "actual_revision r0 = Some actual"
    by (auto simp: record_success_def split: if_splits)
  with True r0 show ?thesis by simp
next
  case False
  from run False obtain st s1 st' where st: "state_for_update (tenant_session t) t s = (Inr st, s1)"
    and flush: "flush_build (tenant_session t) r (save_state (tenant_session t) st' s1) = (Inr r, s')"
    and r: "r = (if br_status r0 \<noteq> SUPERSEDED then r0\<lparr>br_status := SUCCESSFUL\<rparr> else r0)
        \<lparr>actual_revision := Some actual, completed_at := Some now, lease_expires_at := None, last_error := None\<rparr>"
    by (auto simp: record_success_def Let_def and_then_eq_Inr flush_build_Inr split: if_splits)
  have "get_build (tenant_session t) i s' = Some r"
    using flush get_build_saved [of t i "save_state (tenant_session t) st' s1" r0 r] get_rowD(2,3) [OF r0(1)] r0(1)
      state_for_update_Inr(3) [OF st] r
    by (simp add: flush_build_Inr)
  with r r0(2) show ?thesis by auto
qed

lemma recorded_stays:
  assumes "get_build (tenant_session t) i s = Some r" "actual_revision r = Some actual" "target_revision r \<le> actual"
    "br_status r = SUCCESSFUL \<or> (br_status r = SUPERSEDED \<and> completed_at r \<noteq> None)" "res_tenant_id b = t"
  shows "snd (record_result c (tenant_session t) later i b s) = s"
    and "res_status b = Result_SUCCESSFUL \<Longrightarrow> res_actual_revision b = Some actual \<Longrightarrow>
      record_result c (tenant_session t) later i b s = (Inr r, s)"
  using assms get_rowD(2) [OF assms(1)]
  by (auto simp: record_result_def record_success_def record_failure_def split: option.splits result_status.splits)

text \<open>
  recording a build's result is idempotent. A success is recorded with the revision it was
  reported with, which is at least the one requested; from then on repeating the callback answers
  with the same request, and no callback for the request, be it a failure or another revision,
  changes anything. A failure never touches what is deployed, and a refused callback nothing at all.
\<close>

theorem build_results_final:
  "case transaction (record_result c (tenant_session (res_tenant_id b)) now i b) s of
     (Inl e, s') \<Rightarrow> s' = s
   | (Inr r, s') \<Rightarrow>
       (if res_status b = Result_SUCCESSFUL
        then res_actual_revision b = actual_revision r
          \<and> (case actual_revision r of None \<Rightarrow> False | Some a \<Rightarrow> target_revision r \<le> a)
          \<and> (\<forall>later. transaction (record_result c (tenant_session (res_tenant_id b)) later i b) s' = (Inr r, s'))
          \<and> (\<forall>later b'. snd (transaction (record_result c (tenant_session (res_tenant_id b)) later i
               (b'\<lparr>res_tenant_id := res_tenant_id b\<rparr>)) s') = s')
        else site_states s' = site_states s)"
proof (rule transaction_cases [of "record_result c (tenant_session (res_tenant_id b)) now i b" s], goal_cases)
  case (1 e)
  then show ?case by simp
next
  case (2 r s')
  from 2(2) refl show ?case
  proof (cases rule: record_result_Inr)
    case (success r0 actual)
    note f = record_success_final [OF success(5,1,4)]
    have same: "snd (transaction body s') = s'" if "snd (body s') = s'" for body :: "'a site_db_scheme \<Rightarrow> (build_request, 'a site_db_scheme) outcome"
      using that by (auto simp: transaction_def split: prod.splits sum.splits)
    have "snd (transaction (record_result c (tenant_session (res_tenant_id b)) later i
        (b'\<lparr>res_tenant_id := res_tenant_id b\<rparr>)) s') = s'" for later b'
      using f by (intro same recorded_stays(1) [of "res_tenant_id b" i s' r actual]) auto
    moreover have "transaction (record_result c (tenant_session (res_tenant_id b)) later i b) s' = (Inr r, s')" for later
      using f success(2,3) unfolding transaction_Inr
      by (intro recorded_stays(2) [of "res_tenant_id b" i s' r actual]) auto
    ultimately show ?thesis
      using f success(2,3) 2(1) by simp
  next
    case (failure r0)
    have "site_states s' = site_states s"
      using failure(3) flush_builds_states
      by (auto simp: record_failure_def Let_def flush_build_Inr and_then_eq_Inr split: if_splits option.splits)
    with failure(2) 2(1) show ?thesis by simp
  qed
qed

lemma retry_delay_bounds: "30 \<le> retry_delay n" "retry_delay n \<le> 3600"
proof -
  have "(1 :: int) \<le> 2 ^ k" for k by simp
  from this [of "nat (max 0 (n - 1))"] show "30 \<le> retry_delay n" "retry_delay n \<le> 3600"
    by (simp_all add: retry_delay_def)
qed

lemma get_build_saved_other:
  "br_id r \<noteq> i \<Longrightarrow> br_tenant_id r = t \<Longrightarrow>
     get_build (tenant_session t) i (save_build (tenant_session t) r s) = get_build (tenant_session t) i s"
  by (simp add: get_row_save_row)

text \<open>
  a failed trigger is handled as documented: only a RUNNING request is touched; if a newer one
  waits, it takes over; otherwise the request fails for good once it used all its attempts, and
  before that waits again, for at least half a minute and at most an hour.
\<close>

theorem failed_trigger_retries:
  "case run (queue_step c) es (empty_queue s0) of s \<Rightarrow>
     (case (get_build (tenant_session t) i s, trigger_failed c t now i error s) of
        (None, (out, s')) \<Rightarrow> s' = s
      | (Some r, (Inl e, s')) \<Rightarrow> s' = s
      | (Some r, (Inr out, s')) \<Rightarrow>
          if br_status r \<noteq> RUNNING then s' = s
          else (case get_build (tenant_session t) i s' of
                  None \<Rightarrow> False
                | Some r' \<Rightarrow>
                    lease_expires_at r' = None \<and> br_attempt_count r' = br_attempt_count r
                    \<and> (if pending_build (tenant_session t) s \<noteq> None then br_status r' = SUPERSEDED
                       else if int (site_build_max_attempts c) \<le> br_attempt_count r
                       then br_status r' = FAILED \<and> failed_at r' = Some now
                       else br_status r' = PENDING \<and> now + seconds 30 \<le> next_attempt_at r'
                         \<and> next_attempt_at r' \<le> now + seconds 3600)))"
proof -
  let ?s = "run (queue_step c) es (empty_queue s0)"
  have inv: "queue_inv ?s" by (rule reachable_queue_inv)
  show ?thesis
  proof (cases "get_build (tenant_session t) i ?s")
    case None
    then show ?thesis by (simp add: trigger_failed_def transaction_def)
  next
    case (Some r)
    note r = get_rowD [OF Some]
    have bounds: "seconds 30 \<le> seconds (retry_delay n)" "seconds (retry_delay n) \<le> seconds 3600" for n
      using retry_delay_bounds [of n] by (simp_all add: seconds_def)
    show ?thesis
    proof (cases "br_status r = RUNNING")
      case False
      with Some show ?thesis by (simp add: trigger_failed_def transaction_def)
    next
      case running: True
      show ?thesis
      proof (cases "pending_build (tenant_session t) ?s")
        case None
        define r' where "r' = (if int (site_build_max_attempts c) \<le> br_attempt_count r
          then r\<lparr>br_status := FAILED, failed_at := Some now, last_error := Some (safe_error error), lease_expires_at := None\<rparr>
          else r\<lparr>br_status := PENDING, next_attempt_at := now + seconds (retry_delay (br_attempt_count r)),
                 started_at := None, lease_expires_at := None, last_error := Some (safe_error error)\<rparr>)"
        have keys: "br_id r' = i" "br_tenant_id r' = t"
          using r by (simp_all add: r'_def)
        have "trigger_failed c t now i error ?s
            = (if build_unique_ok r' ?s then (Inr (), save_build (tenant_session t) r' ?s) else (Inl IntegrityError, ?s))"
          using Some running None
          by (simp add: trigger_failed_def transaction_def flush_builds.simps flush_build_def Let_def r'_def)
        with get_build_saved [OF Some keys] Some running None bounds show ?thesis
          by (cases "build_unique_ok r' ?s") (simp_all add: r'_def)
      next
        case pending: (Some p)
        note p = pending_buildD [OF pending]
        have other: "br_id p \<noteq> br_id r"
          using same_row [OF inv p(1) r(1)] p(2) running by auto
        define p' where "p' = p\<lparr>target_revision := max (target_revision p) (target_revision r)\<rparr>"
        define r' where "r' = r\<lparr>br_status := SUPERSEDED, last_error := Some (safe_error error), lease_expires_at := None\<rparr>"
        have keys: "br_id r' = i" "br_tenant_id r' = t" "br_id p' \<noteq> i" "br_tenant_id p' = t"
          using r p other by (simp_all add: r'_def p'_def)
        define s2 where "s2 = save_build (tenant_session t) p' ?s"
        have "trigger_failed c t now i error ?s
            = (if build_unique_ok p' ?s \<and> build_unique_ok r' s2
               then (Inr (), save_build (tenant_session t) r' s2) else (Inl IntegrityError, ?s))"
          using Some running pending
          by (simp add: trigger_failed_def transaction_def flush_builds.simps flush_build_def Let_def r'_def p'_def s2_def)
        moreover have "get_build (tenant_session t) i (save_build (tenant_session t) r' s2) = Some r'"
          using get_build_saved [of t i s2 r r'] get_build_saved_other [OF keys(3,4), of ?s] Some keys
          by (simp add: s2_def)
        ultimately show ?thesis
          using Some running pending
          by (cases "build_unique_ok p' ?s \<and> build_unique_ok r' s2") (simp_all add: r'_def)
      qed
    qed
  qed
qed

text \<open>
  the pages of the build history, read one after the other at any page size, are together
  exactly the tenant's requests, each once and newest first; every page carries the full count.
\<close>

theorem history_pages_complete:
  "case map (\<lambda>k. build_history (tenant_session t) \<lparr>page = int k, page_size = int (Suc m)\<rparr> s)
          [1..<Suc (count_if (\<lambda>r. br_tenant_id r = t) (build_requests s))] of pages \<Rightarrow>
     mset (concat (map items pages)) = mset (filter (\<lambda>r. br_tenant_id r = t) (build_requests s))
     \<and> sorted (map (\<lambda>r. - requested_at r) (concat (map items pages)))
     \<and> list_all (\<lambda>p. total p = count_if (\<lambda>r. br_tenant_id r = t) (build_requests s)) pages"
proof -
  let ?rows = "visible br_tenant_id (tenant_session t) (build_requests s)"
  let ?sorted = "sort_key (\<lambda>r. - requested_at r) (rev (sort_key br_id ?rows))"
  have n: "count_if (\<lambda>r. br_tenant_id r = t) (build_requests s) = length ?rows"
    by (simp add: count_if_def visible_def)
  have "concat (map (\<lambda>k. offset_limit \<lparr>page = int k, page_size = int (Suc m)\<rparr> ?sorted) [1..<Suc (length ?rows)])
      = take (length ?rows * Suc m) ?sorted"
    by (rule pages_are_prefix) simp
  also have "\<dots> = ?sorted" by simp
  finally have all: "concat (map (\<lambda>k. offset_limit \<lparr>page = int k, page_size = int (Suc m)\<rparr> ?sorted)
      [1..<Suc (length ?rows)]) = ?sorted" .
  have items: "map items (map (\<lambda>k. build_history (tenant_session t) \<lparr>page = int k, page_size = int (Suc m)\<rparr> s) ks)
      = map (\<lambda>k. offset_limit \<lparr>page = int k, page_size = int (Suc m)\<rparr> ?sorted) ks" for ks
    by (simp add: build_history_def page_of_def)
  show ?thesis
    unfolding n items all
    by (simp add: build_history_def page_of_def list_all_iff visible_def)
qed

section \<open>Two histories that fail\<close>

text \<open>
  A failure reported before the worker claimed the request: the query for a newer PENDING request
  finds the request itself, which becomes SUPERSEDED by nothing. Revision 1 is neither deployed
  nor ever built: \<open>started_only\<close> is needed in \<open>no_change_lost\<close>.
\<close>

definition sample_change :: change where
  "sample_change = \<lparr>change_reason = lit ''post_published'', change_entity_type = Some (lit ''post''),
     change_entity_id = Some 9, change_by = Some 3\<rparr>"

definition sample_failure :: build_result where
  "sample_failure = \<lparr>res_tenant_id = 1, res_status = Result_FAILED, res_actual_revision = None,
     res_error = Some (lit ''boom''), retryable = True\<rparr>"

definition sample_site :: site_db where
  "sample_site = \<lparr>tenants = [], site_states = [],
     build_configs = [\<lparr>cfg_tenant_id = 1, cfg_enabled = True, canonical_domain = lit ''a.example'',
       build_target_key = lit ''t'', deployment_target_key = lit ''d''\<rparr>],
     build_requests = [], audit_log = []\<rparr>"

lemmas queue_eval = public_content_changed_def state_for_update_def find_state_def enqueue_def pending_build_def
  running_build_def new_request_def build_unique_ok_def build_conflict_def key_taken_def record_result_def
  record_failure_def flush_builds.simps flush_build_def transaction_def content_of_def deployed_of_def
  empty_queue_def or_default_def table_eval

theorem change_lost:
  "case run (queue_step default_settings) [Changed 1 5 7 sample_change, Result 6 7 sample_failure] (empty_queue sample_site) of
     s \<Rightarrow> content_of 1 s = 1 \<and> deployed_of 1 s = 0 \<and> map br_status (build_requests s) = [SUPERSEDED]"
  by (simp add: queue_eval sample_change_def sample_failure_def sample_site_def)


text \<open>
  A build whose lease has expired while a newer request waits. The unit of work that takes over
  writes two rows; written in the order of their keys, the waiting request, whose key is the
  smaller here, becomes RUNNING while the old one still is, which the partial unique index
  refuses: nothing is claimed, at this poll and at any later one.
\<close>

definition stuck_queue :: site_db where
  "stuck_queue = sample_site\<lparr>build_requests :=
     [new_request 1 8 1 2 sample_change,
      started default_settings 5 (new_request 2 4 1 1 sample_change)]\<rparr>"

theorem claim_refused_by_index:
  "claim default_settings 1 (5 + seconds 300 + 1) True stuck_queue = (Inl IntegrityError, stuck_queue)"
  "case claim default_settings 1 (5 + seconds 300 + 1) False stuck_queue of
     (Inl e, s) \<Rightarrow> False | (Inr out, s) \<Rightarrow> map br_status (build_requests s) = [RUNNING, SUPERSEDED]"
  by (simp_all add: claim_def claim_body_def start_due_def due_build_def fetch_def started_def stuck_queue_def
      default_settings_def seconds_def queue_eval sample_change_def sample_site_def)

end
