(* ===== verification/Hostnames.thy ===== *)
theory Hostnames
  imports Config
begin

text \<open>
  \<open>tenancy/context.py\<close> and \<open>tenancy/features.py\<close>: how the host a request names becomes the
  canonical hostname tenants are looked up by, and the feature keys.

  Unicode's case tables, Punycode and the address parser of \<open>ipaddress\<close> are arguments
  (\<open>text_tables\<close>, \<open>ip_address\<close>, \<open>ip_network\<close>); what Python does with ASCII text needs no table
  and is written out.
\<close>

section \<open>Text outside ASCII\<close>

record text_tables =
  unicode_lower :: "ustr \<Rightarrow> ustr"
  unicode_upper :: "ustr \<Rightarrow> ustr"
  unicode_casefold :: "ustr \<Rightarrow> ustr"
  unicode_to_ascii :: "ustr \<Rightarrow> ustr option"

definition upper :: "ustr \<Rightarrow> ustr" where
  "upper s = map (\<lambda>x. if 97 \<le> x \<and> x \<le> 122 then x - 32 else x) s"

definition str_lower :: "text_tables \<Rightarrow> ustr \<Rightarrow> ustr" where
  "str_lower U s = (if is_ascii s then lower s else unicode_lower U s)"

definition str_upper :: "text_tables \<Rightarrow> ustr \<Rightarrow> ustr" where
  "str_upper U s = (if is_ascii s then upper s else unicode_upper U s)"

definition casefold :: "text_tables \<Rightarrow> ustr \<Rightarrow> ustr" where
  "casefold U s = (if is_ascii s then lower s else unicode_casefold U s)"

text \<open>
  \<open>host.encode("idna").decode("ascii")\<close>, \<open>None\<close> for the \<open>UnicodeError\<close>: of an ASCII name only the
  lengths of the labels are checked.
\<close>

definition idna_encode :: "text_tables \<Rightarrow> ustr \<Rightarrow> ustr option" where
  "idna_encode U host =
     (if is_ascii host
      then (let labels = split_on 46 host in
            if list_all (\<lambda>l. l \<noteq> [] \<and> length l < 64) (butlast labels) \<and> length (last labels) < 64
            then Some host else None)
      else unicode_to_ascii U host)"

section \<open>Hostnames\<close>

definition invalid_host :: "string \<Rightarrow> exn + 'a" where
  "invalid_host message = Inl (PyValueError message)"

text \<open>The host of a \<open>Host\<close> header: brackets or a port are taken off.\<close>

definition host_of :: "ustr \<Rightarrow> exn + ustr" where
  "host_of value =
     (if startswith value [91]
      then (if 93 \<in> set value then Inr (drop 1 (before 93 value)) else invalid_host ''invalid IPv6 hostname'')
      else if count_if (\<lambda>x. x = 58) value = 1 then Inr (before 58 value)
      else Inr value)"

definition normalize_hostname :: "text_tables \<Rightarrow> ustr \<Rightarrow> exn + ustr" where
  "normalize_hostname U raw_host =
     (let value = strip raw_host in
      if value = [] then invalid_host ''hostname is empty''
      else
        (case host_of value of
           Inl e \<Rightarrow> Inl e
         | Inr host \<Rightarrow>
             (let host = str_lower U (rstrip_where (\<lambda>x. x = 46) host) in
              if host = [] \<or> length host > 253 then invalid_host ''invalid hostname length''
              else
                (case idna_encode U host of
                   None \<Rightarrow> invalid_host ''invalid internationalized hostname''
                 | Some normalized \<Rightarrow>
                     if list_ex (\<lambda>l. l = [] \<or> length l > 63) (split_on 46 normalized)
                     then invalid_host ''invalid hostname label''
                     else Inr normalized))))"

section \<open>The host a request names\<close>

record web_request =
  request_method :: ustr
  request_path :: ustr
  host_header :: "ustr option"
  x_forwarded_host :: "ustr option"
  origin_header :: "ustr option"
  access_control_request_method :: "ustr option"
  x_request_id :: "ustr option"
  client_host :: "ustr option"

text \<open>
  \<open>ip_address\<close> and \<open>ip_network\<close> stand for the constructors of \<open>ipaddress\<close>; \<open>None\<close> is their
  \<open>ValueError\<close>. The networks are parsed one by one until one contains the client.
\<close>

fun any_network :: "('ip \<Rightarrow> bool) option list \<Rightarrow> 'ip \<Rightarrow> exn + bool" where
  "any_network [] client_ip = Inr False"
| "any_network (None # nets) client_ip = Inl (PyValueError ''not a network'')"
| "any_network (Some contains # nets) client_ip = (if contains client_ip then Inr True else any_network nets client_ip)"

definition client_is_trusted_proxy ::
  "(ustr \<Rightarrow> 'ip option) \<Rightarrow> (ustr \<Rightarrow> ('ip \<Rightarrow> bool) option) \<Rightarrow> settings \<Rightarrow> web_request \<Rightarrow> exn + bool" where
  "client_is_trusted_proxy ip_address ip_network c req =
     (if \<not> trust_forwarded_host c then Inr False
      else case client_host req of
             None \<Rightarrow> Inr False
           | Some client \<Rightarrow>
               (case ip_address client of
                  None \<Rightarrow> Inr False
                | Some ip \<Rightarrow> any_network (map ip_network (trusted_proxy_cidrs c)) ip))"

definition request_hostname ::
  "text_tables \<Rightarrow> (ustr \<Rightarrow> 'ip option) \<Rightarrow> (ustr \<Rightarrow> ('ip \<Rightarrow> bool) option) \<Rightarrow> settings \<Rightarrow> web_request \<Rightarrow> exn + ustr"
where
  "request_hostname U ip_address ip_network c req =
     (case client_is_trusted_proxy ip_address ip_network c req of
        Inl e \<Rightarrow> Inl e
      | Inr trusted \<Rightarrow>
          (let forwarded = or_default (x_forwarded_host req) [];
               raw_host = (if trusted \<and> forwarded \<noteq> [] then strip (before 44 forwarded)
                           else or_default (host_header req) [])
           in case normalize_hostname U raw_host of
                Inl e \<Rightarrow> Inl (app_error ''TENANT_NOT_FOUND'' 404)
              | Inr hostname \<Rightarrow> Inr hostname))"

section \<open>Feature keys\<close>

definition FEATURE_KEYS :: "ustr list" where
  "FEATURE_KEYS = map lit
     [''announcements'', ''banners'', ''blog'', ''contact_requests'', ''exam_registration'', ''gallery'',
      ''honors'', ''news'', ''online_payments'', ''pricing'', ''sample_exams'', ''school_profile'', ''staff'']"

definition validate_feature_key :: "ustr \<Rightarrow> exn + ustr" where
  "validate_feature_key value =
     (if value \<in> set FEATURE_KEYS then Inr value else Inl (PyValueError ''unsupported feature key''))"

section \<open>Normal forms\<close>

lemma set_host_of: "host_of value = Inr h \<Longrightarrow> set h \<subseteq> set value"
  using set_before [of 93 "value"] set_before [of 58 "value"]
  by (auto simp: host_of_def invalid_host_def split: if_splits dest!: in_set_dropD)

lemma is_ascii_subset: "is_ascii s \<Longrightarrow> set t \<subseteq> set s \<Longrightarrow> is_ascii t"
  by (auto simp: is_ascii_def)

lemma last_lower: "s \<noteq> [] \<Longrightarrow> last (lower s) = lower_char (last s)"
  by (simp add: lower_def last_map)

lemma normalize_InrE:
  assumes "normalize_hostname U raw = Inr h"
  obtains host where "host_of (strip raw) = Inr host" "strip raw \<noteq> []"
    "str_lower U (rstrip_where (\<lambda>x. x = 46) host) \<noteq> []"
    "length (str_lower U (rstrip_where (\<lambda>x. x = 46) host)) \<le> 253"
    "idna_encode U (str_lower U (rstrip_where (\<lambda>x. x = 46) host)) = Some h"
    "list_all (\<lambda>l. l \<noteq> [] \<and> length l \<le> 63) (split_on 46 h)"
  using assms
  by (auto simp: normalize_hostname_def invalid_host_def Let_def list_ex_iff list_all_iff not_less
      split: if_splits sum.splits option.splits)

text \<open>A lower-case ASCII name of good labels is its own normal form.\<close>

definition canonical_hostname :: "ustr \<Rightarrow> bool" where
  "canonical_hostname h \<longleftrightarrow>
     is_ascii h \<and> lower h = h \<and> length h \<le> 253
     \<and> list_all (\<lambda>x. \<not> is_space x \<and> x \<noteq> 58 \<and> x \<noteq> 91) h
     \<and> list_all (\<lambda>l. l \<noteq> [] \<and> length l \<le> 63) (split_on 46 h)"

lemma split_on_snoc_sep: "split_on c (s @ [c]) = split_on c s @ [[]]"
  by (induction s) (auto split: list.splits)

lemma canonical_not_Nil: "canonical_hostname h \<Longrightarrow> h \<noteq> []"
  by (auto simp: canonical_hostname_def)

lemma canonical_last: "canonical_hostname h \<Longrightarrow> last h \<noteq> 46"
  by (cases h rule: rev_cases) (auto simp: canonical_hostname_def split_on_snoc_sep)

lemma canonical_idna:
  assumes "canonical_hostname h"
  shows "idna_encode U h = Some h"
proof -
  have good: "l \<noteq> [] \<and> length l < 64" if "l \<in> set (split_on 46 h)" for l
    using assms that by (auto simp: canonical_hostname_def list_all_iff less_Suc_eq_le)
  from good [OF last_in_set [OF split_on_not_Nil]] good [OF in_set_butlastD] assms show ?thesis
    by (simp add: canonical_hostname_def idna_encode_def Let_def list_all_iff)
qed

text \<open>A host header in any letter case, with a port and dots at the end, names the same host.\<close>

lemma normalize_spelling:
  assumes h: "canonical_hostname h" and v: "lower v = h"
    and port: "list_all (\<lambda>x. x \<noteq> 58 \<and> \<not> is_space x) port"
  shows "normalize_hostname U (v @ replicate n 46 @ (if with_port then 58 # port else [])) = Inr h"
proof -
  let ?raw = "v @ replicate n 46 @ (if with_port then 58 # port else [])"
  have nonempty: "v \<noteq> []"
    using v canonical_not_Nil [OF h] by (auto simp: lower_def)
  moreover have "lower_char (last v) \<noteq> 46"
    using canonical_last [OF h] v last_lower [OF nonempty] by simp
  moreover have "is_ascii v"
    using h is_ascii_lower [of v] v by (simp add: canonical_hostname_def)
  ultimately have v': "is_ascii v" "v \<noteq> []" "last v \<noteq> 46"
    by (auto simp: lower_char_def)
  have chars: "\<not> is_space x \<and> x \<noteq> 58 \<and> x \<noteq> 91" if "x \<in> set v" for x
  proof -
    have "lower_char x \<in> set h"
      using that v by (auto simp: lower_def)
    then have "\<not> is_space (lower_char x) \<and> lower_char x \<noteq> 58 \<and> lower_char x \<noteq> 91"
      using h by (auto simp: canonical_hostname_def list_all_iff)
    moreover have "lower_char x = x" if "is_space x \<or> x = 58 \<or> x = 91"
      using that by (auto simp: lower_char_def is_space_def space_points_def)
    ultimately show ?thesis by metis
  qed
  have dot: "\<not> is_space 46" "\<not> is_space 58"
    by (simp_all add: is_space_def space_points_def)
  have strip: "strip ?raw = ?raw"
    using chars port dot by (intro strip_id) (auto simp: list_all_iff split: if_splits)
  have start: "\<not> startswith ?raw [91]"
    using chars v'(2) by (cases v) (auto simp: startswith_def)
  have colons: "count_if (\<lambda>x. x = 58) ?raw = (if with_port then 1 else 0)"
    using chars port by (auto simp: count_if_def filter_empty_conv list_all_iff)
  have "before 58 (v @ replicate n 46 @ 58 # port) = v @ replicate n 46"
    using chars before_append [of 58 "v @ replicate n 46" port] by auto
  with start colons have host: "host_of ?raw = Inr (v @ replicate n 46)"
    by (auto simp: host_of_def)
  have "rstrip_where (\<lambda>x. x = 46) (v @ replicate n 46) = v"
    using v'(2,3) by (cases v rule: rev_cases) (auto simp: rstrip_where_def dropWhile_append)
  with strip host v v' h show ?thesis
    using canonical_idna [OF h, of U] canonical_not_Nil [OF h]
    by (auto simp: normalize_hostname_def Let_def str_lower_def canonical_hostname_def list_ex_iff list_all_iff
        invalid_host_def)
qed

text \<open>hostname_normal_form. A hostname accepted by \<open>normalize_hostname\<close> consists of labels of 1 to 63
  characters. From ASCII input it is lower-case ASCII of at most 253 characters, and, when it holds no
  colon, opening bracket or whitespace (which only a bracketed host can smuggle in), every spelling of it
  (any letter case, dots at the end, a port) is accepted with the same result.\<close>

theorem hostname_normal_form:
  "case normalize_hostname U raw of
     Inl e \<Rightarrow> True
   | Inr h \<Rightarrow>
       list_all (\<lambda>l. l \<noteq> [] \<and> length l \<le> 63) (split_on 46 h)
       \<and> (if is_ascii raw then is_ascii h \<and> lower h = h \<and> length h \<le> 253 else True)
       \<and> (if is_ascii raw \<and> list_all (\<lambda>x. \<not> is_space x \<and> x \<noteq> 58 \<and> x \<noteq> 91) h
             \<and> lower v = h \<and> list_all (\<lambda>x. x \<noteq> 58 \<and> \<not> is_space x) port
           then normalize_hostname U (v @ replicate n 46 @ (if with_port then 58 # port else [])) = Inr h
           else True)"
proof (cases "normalize_hostname U raw")
  case (Inr h)
  from normalize_InrE [OF Inr] obtain host where
    host: "host_of (strip raw) = Inr host"
    and len: "length (str_lower U (rstrip_where (\<lambda>x. x = 46) host)) \<le> 253"
    and idna: "idna_encode U (str_lower U (rstrip_where (\<lambda>x. x = 46) host)) = Some h"
    and labels: "list_all (\<lambda>l. l \<noteq> [] \<and> length l \<le> 63) (split_on 46 h)"
    by metis
  have ascii: "is_ascii h \<and> lower h = h \<and> length h \<le> 253" if "is_ascii raw"
  proof -
    have "is_ascii (rstrip_where (\<lambda>x. x = 46) host)"
      using that set_host_of [OF host] set_strip_where [of is_space raw]
      by (intro is_ascii_subset [OF that]) (auto simp: strip_def dest!: subsetD [OF set_rstrip_where])
    with idna len show ?thesis
      by (auto simp: str_lower_def idna_encode_def Let_def split: if_splits)
  qed
  moreover have "canonical_hostname h" if "is_ascii raw" "list_all (\<lambda>x. \<not> is_space x \<and> x \<noteq> 58 \<and> x \<noteq> 91) h"
    using ascii [OF that(1)] that(2) labels by (simp add: canonical_hostname_def)
  ultimately show ?thesis
    using labels Inr normalize_spelling [of h v port U n with_port] by auto
qed simp

end
