(* ===== verification/SiteBuildDelivery.thy ===== *)
theory SiteBuildDelivery
  imports SiteBuildProperties Uuids Hostnames "HOL-Library.List_Lexorder"
begin

text \<open>
  What leaves and enters the build queue: the signatures of \<open>site_builds/signing.py\<close>, the executors
  of \<open>site_builds/executor.py\<close>, the worker's \<open>_trigger\<close> and \<open>run_once\<close>, and the callback endpoint of
  \<open>site_builds/internal_router.py\<close>. HMAC-SHA256 is an argument that yields the digest's bytes; the
  HTTP client is an argument that answers a request with a status or an error text.
\<close>

section \<open>Bytes and integers\<close>

text \<open>\<open>str.encode()\<close>: UTF-8 of code points that are no surrogates, which no text here holds.\<close>

definition utf8_char :: "nat \<Rightarrow> nat list" where
  "utf8_char x =
     (if x < 128 then [x]
      else if x < 2048 then [192 + x div 64, 128 + x mod 64]
      else if x < 65536 then [224 + x div 4096, 128 + x div 64 mod 64, 128 + x mod 64]
      else [240 + x div 262144, 128 + x div 4096 mod 64, 128 + x div 64 mod 64, 128 + x mod 64])"

definition utf8 :: "ustr \<Rightarrow> nat list" where
  "utf8 s = concat (map utf8_char s)"

definition hexdigest :: "nat list \<Rightarrow> ustr" where
  "hexdigest bytes = concat (map (\<lambda>b. [hex_digit (b div 16 mod 16), hex_digit (b mod 16)]) bytes)"

text \<open>
  \<open>int(text)\<close>: surrounding whitespace, a sign, and at most 4300 digits of any script with single
  underscores between them.
\<close>

fun dec_number :: "bool \<Rightarrow> bool \<Rightarrow> nat \<Rightarrow> ustr \<Rightarrow> nat option" where
  "dec_number gap complete acc [] = (if complete then Some acc else None)"
| "dec_number gap complete acc (x # s) =
     (if x = 95 then (if gap then dec_number False False acc s else None)
      else case decimal_value x of
             None \<Rightarrow> None
           | Some d \<Rightarrow> dec_number True True (10 * acc + d) s)"

definition int_base_10 :: "ustr \<Rightarrow> int option" where
  "int_base_10 text =
     (let s = strip text;
          negative = startswith s [45];
          s = (if startswith s [45] \<or> startswith s [43] then drop 1 s else s)
      in if length (filter (\<lambda>x. x \<noteq> 95) s) > 4300 then None
         else map_option (\<lambda>n. if negative then - int n else int n) (dec_number False False 0 s))"


section \<open>Signatures\<close>

type_synonym hmac_sha256 = "nat list \<Rightarrow> nat list \<Rightarrow> nat list"

definition sign_message :: "hmac_sha256 \<Rightarrow> ustr \<Rightarrow> int \<Rightarrow> ustr \<Rightarrow> ustr \<Rightarrow> nat list \<Rightarrow> ustr" where
  "sign_message hmac secret timestamp method path body =
     hexdigest (hmac (utf8 secret)
       (utf8 (str_of_int timestamp @ [46] @ upper method @ [46] @ path @ [46]) @ body))"

text \<open>\<open>hmac.compare_digest\<close> of two texts raises unless both are ASCII.\<close>

definition verify_message ::
  "hmac_sha256 \<Rightarrow> ustr \<Rightarrow> instant \<Rightarrow> ustr option \<Rightarrow> ustr option \<Rightarrow> ustr \<Rightarrow> ustr \<Rightarrow> nat list \<Rightarrow> int \<Rightarrow> exn + unit"
where
  "verify_message hmac secret now timestamp_value signature method path body max_age_seconds =
     (case int_base_10 (or_default timestamp_value []) of
        None \<Rightarrow> Inl (app_error ''BUILD_SIGNATURE_INVALID'' 401)
      | Some timestamp \<Rightarrow>
          if \<bar>now div 1000000 - timestamp\<bar> > max_age_seconds
          then Inl (app_error ''BUILD_SIGNATURE_EXPIRED'' 401)
          else
            (case signature of
               None \<Rightarrow> Inl (app_error ''BUILD_SIGNATURE_INVALID'' 401)
             | Some sig \<Rightarrow>
                 if \<not> is_ascii sig then Inl PyTypeError
                 else if sig \<noteq> sign_message hmac secret timestamp method path body
                 then Inl (app_error ''BUILD_SIGNATURE_INVALID'' 401)
                 else Inr ()))"

lemma hexdigest_ascii: "is_ascii (hexdigest bytes)"
proof -
  have "hex_digit d < 128" if "d < 16" for d
    using hex_digit_range [OF that] by auto
  then show ?thesis by (auto simp: is_ascii_def hexdigest_def)
qed

lemma verify_message_iff:
  "verify_message hmac secret now tv sig method path body age = Inr () \<longleftrightarrow>
     (\<exists>ts. int_base_10 (or_default tv []) = Some ts \<and> \<bar>now div 1000000 - ts\<bar> \<le> age
        \<and> sig = Some (sign_message hmac secret ts method path body))"
  using hexdigest_ascii
  by (auto simp: verify_message_def sign_message_def not_less split: option.splits)

section \<open>Reading decimal numerals back\<close>

lemma dec_number_snoc:
  "dec_number g b acc s = Some m \<Longrightarrow> d < 10 \<Longrightarrow> dec_number g b acc (s @ [48 + d]) = Some (10 * m + d)"
proof (induction g b acc s rule: dec_number.induct)
  case (1 gap complete acc)
  have "decimal_value (48 + d) = Some d"
    using 1(2) by (simp add: decimal_value_def decimal_zeros_def)
  with 1 show ?case by (auto split: if_splits)
next
  case (2 gap complete acc x s)
  then show ?case by (auto split: if_splits option.splits)
qed

lemma dec_number_digits: "dec_number g b 0 (digits_of n) = Some n"
proof (induction n rule: digits_of.induct)
  case (1 n)
  show ?case
  proof (cases "n < 10")
    case True
    then have "decimal_value (48 + n) = Some n"
      by (simp add: decimal_value_def decimal_zeros_def)
    with True show ?thesis by (subst digits_of.simps) simp
  next
    case False
    have "n mod 10 < 10" by simp
    from dec_number_snoc [OF 1 [OF False] this] False show ?thesis
      by (subst digits_of.simps) simp
  qed
qed

lemma digits_of_not_Nil: "digits_of n \<noteq> []"
  by (subst digits_of.simps) simp

lemma int_base_10_str:
  "int_base_10 (str_of_int i) = (if length (digits_of (nat \<bar>i\<bar>)) > 4300 then None else Some i)"
proof -
  have digits: "\<not> is_space x \<and> x \<noteq> 45 \<and> x \<noteq> 43" if "x \<in> set (digits_of n)" for x n
    using digits_of_ascii_digits [OF that] by (auto simp: is_space_def space_points_def)
  have hd: "\<not> startswith (digits_of n) [45]" "\<not> startswith (digits_of n) [43]" for n
    using digits [of "hd (digits_of n)" n] digits_of_not_Nil [of n]
    by (cases "digits_of n"; auto simp: startswith_def)+
  have "strip (str_of_int i) = str_of_int i"
    by (rule strip_id) (use digits in \<open>auto simp: str_of_int_def is_space_def space_points_def split: if_splits\<close>)
  moreover have "filter (\<lambda>x. x \<noteq> 95) (digits_of n) = digits_of n" for n
    using digits_of_ascii_digits by (intro filter_True ballI) (force simp: startswith_def)
  ultimately show ?thesis
    using hd by (simp add: int_base_10_def str_of_int_def dec_number_digits startswith_def)
qed

section \<open>Executors\<close>

text \<open>\<open>trigger_build\<close> returns or raises; of an exception the worker keeps \<open>str(exc)\<close>.\<close>

type_synonym 'x executor = "tenant \<Rightarrow> build_config \<Rightarrow> build_request \<Rightarrow> 'x \<Rightarrow> (ustr + unit) \<times> 'x"

text \<open>The contract: a request whose trigger returned has been accepted, and stays accepted.\<close>

locale build_executor =
  fixes trigger_build :: "'x executor"
    and accepted :: "'x \<Rightarrow> uuid \<Rightarrow> bool"
  assumes triggered: "trigger_build tn cf r x = (Inr (), x') \<Longrightarrow> accepted x' (br_id r)"
    and kept: "trigger_build tn cf r x = (out, x') \<Longrightarrow> accepted x i \<Longrightarrow> accepted x' i"

record triggered_build =
  tb_tenant_id :: uuid
  tb_request_id :: uuid
  tb_target_revision :: int

record fake_state =
  failures :: nat
  triggered_builds :: "triggered_build list"

definition fake_trigger_build :: "fake_state executor" where
  "fake_trigger_build tn cf r x =
     (let x = x\<lparr>triggered_builds := triggered_builds x @
                 [\<lparr>tb_tenant_id = tenant_id tn, tb_request_id = br_id r, tb_target_revision = target_revision r\<rparr>]\<rparr>
      in if failures x > 0
         then (Inl (lit ''simulated transient build trigger failure''), x\<lparr>failures := failures x - 1\<rparr>)
         else (Inr (), x))"

interpretation fake: build_executor fake_trigger_build "\<lambda>x i. i \<in> tb_request_id ` set (triggered_builds x)"
  by unfold_locales (auto simp: fake_trigger_build_def Let_def split: if_splits)

text \<open>\<open>json.dumps(payload, sort_keys=True, separators=(",", ":"))\<close> of a flat payload of texts and integers.\<close>

definition u_escape :: "nat \<Rightarrow> ustr" where
  "u_escape n = lit [CHR 0x5C, CHR ''u''] @ hex_digits 4 n"

definition json_char :: "nat \<Rightarrow> ustr" where
  "json_char x =
     (if x = 34 then [92, 34] else if x = 92 then [92, 92]
      else if x = 10 then [92, 110] else if x = 13 then [92, 114] else if x = 9 then [92, 116]
      else if x = 12 then [92, 102] else if x = 8 then [92, 98]
      else if 32 \<le> x \<and> x \<le> 126 then [x]
      else if x < 65536 then u_escape x
      else u_escape (55296 + (x - 65536) div 1024) @ u_escape (56320 + (x - 65536) mod 1024))"

definition json_string :: "ustr \<Rightarrow> ustr" where
  "json_string s = [34] @ concat (map json_char s) @ [34]"

definition json_scalar :: "int + ustr \<Rightarrow> ustr" where
  "json_scalar v = (case v of Inl i \<Rightarrow> str_of_int i | Inr s \<Rightarrow> json_string s)"

fun joined :: "ustr \<Rightarrow> ustr list \<Rightarrow> ustr" where
  "joined sep [] = []"
| "joined sep [x] = x"
| "joined sep (x # y # xs) = x @ sep @ joined sep (y # xs)"

definition json_dumps :: "(ustr \<times> (int + ustr)) list \<Rightarrow> ustr" where
  "json_dumps payload =
     [123] @ joined [44] (map (\<lambda>(k, v). json_string k @ [58] @ json_scalar v) (sort_key fst payload)) @ [125]"

definition webhook_payload :: "settings \<Rightarrow> tenant \<Rightarrow> build_config \<Rightarrow> build_request \<Rightarrow> (ustr \<times> (int + ustr)) list" where
  "webhook_payload c tn cf r =
     [(lit ''schema_version'', Inl 1),
      (lit ''build_request_id'', Inr (uuid_str (br_id r))),
      (lit ''tenant_id'', Inr (uuid_str (tenant_id tn))),
      (lit ''tenant_slug'', Inr (slug tn)),
      (lit ''canonical_domain'', Inr (canonical_domain cf)),
      (lit ''build_target_key'', Inr (build_target_key cf)),
      (lit ''deployment_target_key'', Inr (deployment_target_key cf)),
      (lit ''target_revision'', Inl (target_revision r)),
      (lit ''snapshot_path'',
         Inr (lit ''/api/v1/public/blog/snapshot?requested_revision='' @ str_of_int (target_revision r))),
      (lit ''callback_url'',
         Inr (rstrip_where (\<lambda>x. x = 47) (public_base_url c) @ lit ''/api/v1/internal/site-builds/''
              @ uuid_str (br_id r) @ lit ''/result''))]"

record http_request =
  request_url :: ustr
  request_body :: "nat list"
  timestamp_header :: ustr
  signature_header :: ustr
  idempotency_key_header :: ustr

text \<open>The path the receiver sees: path and query of the configured URL.\<close>

definition signed_path :: "split_url \<Rightarrow> ustr" where
  "signed_path u = url_path u @ (if url_query u = [] then [] else 63 # url_query u)"

definition webhook_request ::
  "hmac_sha256 \<Rightarrow> settings \<Rightarrow> instant \<Rightarrow> ustr \<Rightarrow> split_url \<Rightarrow> tenant \<Rightarrow> build_config \<Rightarrow> build_request \<Rightarrow> http_request" where
  "webhook_request hmac c now url parsed tn cf r =
     (let body = utf8 (json_dumps (webhook_payload c tn cf r));
          timestamp = now div 1000000
      in \<lparr>request_url = url, request_body = body, timestamp_header = str_of_int timestamp,
          signature_header = sign_message hmac (site_build_hmac_secret c) timestamp (lit ''POST'')
            (signed_path parsed) body,
          idempotency_key_header = uuid_str (br_id r)\<rparr>)"

text \<open>
  \<open>WebhookSiteBuildExecutor.trigger_build\<close>: \<open>post\<close> is the HTTP client (a status, or the text of a
  transport error), \<open>status_error\<close> the text \<open>raise_for_status\<close> raises with, \<open>split\<close> is \<open>urlsplit\<close>
  with its parameters.
\<close>

definition webhook_trigger_build where
  "webhook_trigger_build post status_error split hmac c now = (\<lambda>tn cf r x.
     case site_build_webhook_url c of
       None \<Rightarrow> (Inl (lit ''site build webhook is not configured''), x)
     | Some url \<Rightarrow>
         (case split url of
            Inl e \<Rightarrow> (Inl e, x)
          | Inr parsed \<Rightarrow>
              (case post (webhook_request hmac c now url parsed tn cf r) x of
                 (Inl e, x') \<Rightarrow> (Inl e, x')
               | (Inr code, x') \<Rightarrow>
                   if 200 \<le> code \<and> code < (300 :: nat) then (Inr (), x')
                   else (Inl (status_error code), x'))))"

text \<open>
  A network that keeps a log of what it was sent, with any answers whatsoever; \<open>before\<close> are keys
  taken for sent already.
\<close>

definition logging_post ::
  "(http_request \<Rightarrow> ustr + nat) \<Rightarrow> http_request \<Rightarrow> http_request list \<Rightarrow> (ustr + nat) \<times> http_request list" where
  "logging_post answer req log = (answer req, log @ [req])"

interpretation webhook: build_executor
  "webhook_trigger_build (logging_post answer) status_error split hmac c now"
  "\<lambda>log i. uuid_str i \<in> idempotency_key_header ` set log \<union> before" for answer status_error split hmac c now before
  by unfold_locales
    (auto simp: webhook_trigger_build_def logging_post_def webhook_request_def Let_def
      split: option.splits sum.splits if_splits)

section \<open>The worker\<close>

definition find_tenant :: "uuid \<Rightarrow> 'z site_db_scheme \<Rightarrow> tenant option" where
  "find_tenant t s = find (\<lambda>tn. tenant_id tn = t) (tenants s)"

definition trigger ::
  "'x executor \<Rightarrow> settings \<Rightarrow> uuid \<Rightarrow> instant \<Rightarrow> build_request \<Rightarrow> 'x \<times> 'z site_db_scheme
     \<Rightarrow> (unit, 'x \<times> 'z site_db_scheme) outcome" where
  "trigger exec c t now r = (\<lambda>(x, s).
     let fail = (\<lambda>x error. case trigger_failed c t now (br_id r) error s of (out, s') \<Rightarrow> (out, (x, s'))) in
     case (find_tenant t s, get_row cfg_tenant_id cfg_tenant_id (tenant_session t) t (build_configs s)) of
       (Some tn, Some cf) \<Rightarrow>
         if \<not> cfg_enabled cf then fail x (lit ''build configuration unavailable'')
         else (case exec tn cf r x of
                 (Inl error, x') \<Rightarrow> fail x' error
               | (Inr u, x') \<Rightarrow> (Inr (), (x', s)))
     | _ \<Rightarrow> fail x (lit ''build configuration unavailable''))"

text \<open>
  \<open>run_once\<close> over the tenants read at its start, each with the instants of its claim and its
  trigger and the order of the writes; an exception ends the round.
\<close>

fun run_tenants ::
  "'x executor \<Rightarrow> settings \<Rightarrow> (uuid \<times> instant \<times> instant \<times> bool) list \<Rightarrow> nat \<Rightarrow> 'x \<times> 'z site_db_scheme
     \<Rightarrow> (nat, 'x \<times> 'z site_db_scheme) outcome" where
  "run_tenants exec c [] claimed (x, s) = (Inr claimed, (x, s))"
| "run_tenants exec c ((t, now, later, first) # plan) claimed (x, s) =
     (case claim c t now first s of
        (Inl e, s') \<Rightarrow> (Inl e, (x, s'))
      | (Inr None, s') \<Rightarrow> run_tenants exec c plan claimed (x, s')
      | (Inr (Some r), s') \<Rightarrow>
          and_then (trigger exec c t later r (x, s'))
            (\<lambda>_. run_tenants exec c plan (claimed + 1)))"

definition run_once where
  "run_once exec c schedule = (\<lambda>(x, s).
     run_tenants exec c (map (\<lambda>tn. case schedule (tenant_id tn) of (now, later, first) \<Rightarrow>
       (tenant_id tn, now, later, first)) (tenants s)) 0 (x, s))"

section \<open>The callback endpoint\<close>

text \<open>\<open>parse\<close> is \<open>BuildResult.model_validate_json\<close> on the raw body.\<close>

definition record_build_result where
  "record_build_result hmac parse c now path method request_id timestamp signature raw_body = (\<lambda>s.
     case verify_message hmac (site_build_hmac_secret c) now timestamp signature method path raw_body
            (site_build_callback_max_age_seconds c) of
       Inl e \<Rightarrow> (Inl e, s)
     | Inr u \<Rightarrow>
         (case parse raw_body of
            None \<Rightarrow> (Inl (app_error ''BUILD_RESULT_INVALID'' 422), s)
          | Some b \<Rightarrow>
              and_then (transaction (record_result c (tenant_session (res_tenant_id b)) now request_id b) s)
                (\<lambda>r s. if br_tenant_id r \<noteq> res_tenant_id b
                       then (Inl (app_error ''BUILD_REQUEST_NOT_FOUND'' 404), s)
                       else (Inr ''accepted'', s))))"

section \<open>Running builds have been delivered\<close>

lemma in_view: "queue_view u s' = queue_view u s \<Longrightarrow> br_tenant_id x = u \<Longrightarrow>
    x \<in> set (build_requests s') \<longleftrightarrow> x \<in> set (build_requests s)"
proof -
  assume view: "queue_view u s' = queue_view u s" and u: "br_tenant_id x = u"
  from view have "visible br_tenant_id (tenant_session u) (build_requests s') =
      visible br_tenant_id (tenant_session u) (build_requests s)"
    by (simp add: queue_view_def)
  from arg_cong [OF this, of "\<lambda>rs. x \<in> set rs"] u show ?thesis
    by (simp add: visible_def)
qed

text \<open>A claim starts the request it returns and no other.\<close>

lemma claim_running:
  assumes run: "claim_body c (tenant_session t) now claimed_first s = (Inr out, s')" and inv: "queue_inv s"
    and x: "x \<in> set (build_requests s')" "br_status x = RUNNING"
  shows "x \<in> set (build_requests s) \<or> out = Some x"
proof (cases "br_tenant_id x = t")
  case False
  then show ?thesis
    using in_view [OF claim_view [OF run False] refl] x by blast
next
  case True
  have from_rs: "x \<in> set rs \<or> x \<in> set (build_requests s)"
    if "flush_builds (tenant_session t) rs s = (Inr (), s')" for rs
    using flush_builds_from [OF that x(1)] True by auto
  from run inv show ?thesis
  proof (cases rule: claim_Inr)
    case none
    with x show ?thesis by simp
  next
    case (start y)
    with from_rs [OF start(7)] show ?thesis by auto
  next
    case (requeue r)
    with from_rs [OF requeue(3)] x(2) show ?thesis by auto
  next
    case (supersede r p)
    with from_rs [OF supersede(4)] x(2) pending_buildD(2) [OF supersede(3)] show ?thesis by auto
  next
    case (takeover r p rs)
    with from_rs [OF takeover(6)] x(2) show ?thesis by (auto split: if_splits)
  qed
qed

lemma trigger_failed_stops:
  assumes run: "trigger_failed c t now (br_id r) error s = (Inr u, s')" and inv: "queue_inv s"
    and r: "r \<in> set (build_requests s)" "br_tenant_id r = t"
    and x: "x \<in> set (build_requests s')" "br_status x = RUNNING"
  shows "x \<in> set (build_requests s) \<and> br_id x \<noteq> br_id r"
proof (cases "br_tenant_id x = t")
  case False
  have "queue_view (br_tenant_id x) s' = queue_view (br_tenant_id x) s"
    using trigger_failed_view [OF False, of c now "br_id r" error s] run by simp
  then have "x \<in> set (build_requests s)"
    using in_view x by blast
  moreover have "br_id x \<noteq> br_id r"
    using same_row [OF inv calculation r(1)] r(2) False by auto
  ultimately show ?thesis by simp
next
  case True
  have row: "get_build (tenant_session t) (br_id r) s = Some r"
  proof (cases "get_build (tenant_session t) (br_id r) s")
    case None
    then show ?thesis using r by (auto simp: get_row_None)
  next
    case (Some y)
    then show ?thesis using same_row [OF inv get_rowD(1) [OF Some] r(1) get_rowD(3) [OF Some]] by simp
  qed
  show ?thesis
  proof (cases "br_status r = RUNNING")
    case False
    then have "s' = s" using run row by (simp add: trigger_failed_def transaction_def)
    then have "x \<in> set (build_requests s)" using x by simp
    moreover have "br_id x \<noteq> br_id r"
      using same_row [OF inv calculation r(1)] x(2) False by auto
    ultimately show ?thesis by simp
  next
    case running: True
    obtain rs where rs: "flush_builds (tenant_session t) rs s = (Inr u, s')" "br_id r \<in> br_id ` set rs"
      "\<forall>y\<in>set rs. br_status y \<noteq> RUNNING"
    proof (cases "pending_build (tenant_session t) s")
      case None
      show thesis
      proof (cases "br_attempt_count r \<ge> int (site_build_max_attempts c)")
        case True
        with run row running None show thesis
          by (intro that [of "[r\<lparr>br_status := FAILED, failed_at := Some now, last_error := Some (safe_error error),
              lease_expires_at := None\<rparr>]"]) (auto simp: trigger_failed_def transaction_Inr Let_def)
      next
        case False
        with run row running None show thesis
          by (intro that [of "[r\<lparr>br_status := PENDING, next_attempt_at := now + seconds (retry_delay (br_attempt_count r)),
              started_at := None, lease_expires_at := None, last_error := Some (safe_error error)\<rparr>]"])
            (auto simp: trigger_failed_def transaction_Inr Let_def)
      qed
    next
      case (Some p)
      with run row running pending_buildD(2) [OF Some] show thesis
        by (intro that [of "[p\<lparr>target_revision := max (target_revision p) (target_revision r)\<rparr>,
            r\<lparr>br_status := SUPERSEDED, last_error := Some (safe_error error), lease_expires_at := None\<rparr>]"])
          (auto simp: trigger_failed_def transaction_Inr Let_def)
    qed
    from flush_builds_from [OF rs(1) x(1)] True rs(2,3) x(2) show ?thesis by auto
  qed
qed

text \<open>Reporting a failed trigger never raises: no write of it can break a constraint.\<close>

lemma unique_ok_edit:
  assumes inv: "queue_inv s" and r: "r \<in> set (build_requests s)" "br_id x = br_id r" "br_tenant_id x = br_tenant_id r"
    and st: "br_status x = br_status r \<or> br_status x \<notin> {PENDING, RUNNING}"
  shows "build_unique_ok x s"
proof -
  have "\<not> build_conflict y x" if "y \<in> set (build_requests s)" "br_id y \<noteq> br_id x" for y
    using exclusiveD [OF queue_invD(2) [OF inv] that(1) r(1)] that(2) r(2,3) st by (auto simp: build_conflict_def)
  then show ?thesis by (simp add: build_unique_ok_def list_all_iff)
qed

lemma trigger_failed_returns:
  assumes inv: "queue_inv s"
  obtains s' where "trigger_failed c t now i error s = (Inr (), s')"
proof (cases "get_build (tenant_session t) i s")
  case None
  then show thesis by (intro that [of s]) (simp add: trigger_failed_def transaction_def)
next
  case (Some r)
  note r = get_rowD [OF Some]
  show thesis
  proof (cases "br_status r = RUNNING")
    case False
    with Some show thesis by (intro that [of s]) (simp add: trigger_failed_def transaction_def)
  next
    case running: True
    show thesis
    proof (cases "pending_build (tenant_session t) s")
      case None
      define x where "x = (if br_attempt_count r \<ge> int (site_build_max_attempts c)
        then r\<lparr>br_status := FAILED, failed_at := Some now, last_error := Some (safe_error error), lease_expires_at := None\<rparr>
        else r\<lparr>br_status := PENDING, next_attempt_at := now + seconds (retry_delay (br_attempt_count r)),
               started_at := None, lease_expires_at := None, last_error := Some (safe_error error)\<rparr>)"
      have "\<not> build_conflict y x" if "y \<in> set (build_requests s)" "br_id y \<noteq> br_id x" for y
        using pending_build_None [OF None that(1)] r(2) by (auto simp: build_conflict_def x_def split: if_splits)
      then have "build_unique_ok x s" by (simp add: build_unique_ok_def list_all_iff)
      moreover have "trigger_failed c t now i error s
          = (if build_unique_ok x s then (Inr (), save_build (tenant_session t) x s) else (Inl IntegrityError, s))"
        using Some running None
        by (simp add: trigger_failed_def transaction_def flush_builds.simps flush_build_def Let_def x_def)
      ultimately show thesis by (intro that) simp
    next
      case pending: (Some p)
      note p = pending_buildD [OF pending]
      define p' where "p' = p\<lparr>target_revision := max (target_revision p) (target_revision r)\<rparr>"
      define x where "x = r\<lparr>br_status := SUPERSEDED, last_error := Some (safe_error error), lease_expires_at := None\<rparr>"
      have "build_unique_ok p' s"
        by (rule unique_ok_edit [OF inv p(1)]) (simp_all add: p'_def)
      moreover have "build_unique_ok x (save_build (tenant_session t) p' s)"
        by (auto simp: build_unique_ok_def list_all_iff build_conflict_def x_def)
      ultimately show thesis
        using Some running pending
        by (intro that [of "save_build (tenant_session t) x (save_build (tenant_session t) p' s)"])
          (simp add: trigger_failed_def transaction_def flush_builds.simps flush_build_def Let_def p'_def x_def)
    qed
  qed
qed

lemma trigger_returns:
  assumes "queue_inv s"
  obtains x' s' where "trigger exec c t now r (x, s) = (Inr (), (x', s'))"
proof -
  have failed: "\<exists>s'. trigger_failed c t now i error s = (Inr (), s')" for i error
    using trigger_failed_returns [OF assms, of c t now i error] by metis
  then obtain f where f: "trigger_failed c t now i error s = (Inr (), f i error)" for i error
    by metis
  have "\<exists>x' s'. trigger exec c t now r (x, s) = (Inr (), (x', s'))"
    by (auto simp: trigger_def Let_def f split: option.split prod.split sum.split)
  with that show thesis by blast
qed

context build_executor
begin

definition all_delivered :: "'x \<Rightarrow> 'z site_db_scheme \<Rightarrow> bool" where
  "all_delivered x s \<longleftrightarrow> (\<forall>r\<in>set (build_requests s). br_status r = RUNNING \<longrightarrow> accepted x (br_id r))"

lemma trigger_delivers:
  assumes run: "trigger trigger_build c t later r (x, s) = (Inr u, (x', s'))" and inv: "queue_inv s"
    and r: "r \<in> set (build_requests s)" "br_tenant_id r = t"
    and others: "\<forall>y\<in>set (build_requests s). br_status y = RUNNING \<longrightarrow> y = r \<or> accepted x (br_id y)"
  shows "queue_inv s' \<and> all_delivered x' s'"
proof -
  have failed: "queue_inv s2 \<and> all_delivered y s2"
    if "trigger_failed c t later (br_id r) error s = (Inr v, s2)" "\<And>i. accepted x i \<Longrightarrow> accepted y i" for y error v s2
  proof -
    have "queue_inv s2"
      using trigger_failed_keeps [OF inv, of c t later "br_id r" error] that(1) by (simp add: keeps_def)
    moreover have "all_delivered y s2"
      unfolding all_delivered_def
    proof (intro ballI impI)
      fix z assume "z \<in> set (build_requests s2)" "br_status z = RUNNING"
      from trigger_failed_stops [OF that(1) inv r this] others \<open>br_status z = RUNNING\<close>
      show "accepted y (br_id z)" using that(2) by auto
    qed
    ultimately show ?thesis by simp
  qed
  show ?thesis
  proof (cases "find_tenant t s")
    case None
    then show ?thesis
      using run failed [of _ _ s' x'] by (auto simp: trigger_def Let_def split: prod.splits)
  next
    case tn: (Some tn)
    show ?thesis
    proof (cases "get_row cfg_tenant_id cfg_tenant_id (tenant_session t) t (build_configs s)")
      case None
      with tn show ?thesis
        using run failed [of _ _ s' x'] by (auto simp: trigger_def Let_def split: prod.splits)
    next
      case cf: (Some cf)
      show ?thesis
      proof (cases "cfg_enabled cf")
        case False
        with tn cf show ?thesis
          using run failed [of _ _ s' x'] by (auto simp: trigger_def Let_def split: prod.splits)
      next
        case True
        obtain out y where e: "trigger_build tn cf r x = (out, y)"
          by (cases "trigger_build tn cf r x")
        show ?thesis
        proof (cases out)
          case (Inl error)
          with tn cf True run e show ?thesis
            using failed [of error _ s' x'] kept [OF e] by (auto simp: trigger_def Let_def split: prod.splits)
        next
          case (Inr v)
          with tn cf True run e have "s' = s" "x' = y"
            by (auto simp: trigger_def Let_def)
          moreover have "accepted y (br_id r)"
            using triggered e Inr by simp
          ultimately show ?thesis
            using inv others kept [OF e] by (auto simp: all_delivered_def)
        qed
      qed
    qed
  qed
qed

lemma run_tenants_delivered:
  "run_tenants trigger_build c plan n (x, s) = (final, (x', s')) \<Longrightarrow> queue_inv s \<Longrightarrow> all_delivered x s \<Longrightarrow>
     queue_inv s' \<and> all_delivered x' s'"
proof (induction plan arbitrary: n x s)
  case Nil
  then show ?case by simp
next
  case (Cons e plan)
  obtain t now later first where e: "e = (t, now, later, first)" by (cases e)
  note 2 = Cons [unfolded e]
  obtain out s1 where cl: "claim c t now first s = (out, s1)" by (cases "claim c t now first s")
  show ?case
  proof (cases out)
    case (Inl e)
    then have "s1 = s"
      using cl transaction_error_unchanged [of "claim_body c (tenant_session t) now first" s e] by (simp add: claim_def)
    with 2(2-4) cl Inl show ?thesis by simp
  next
    case (Inr res)
    have body: "claim_body c (tenant_session t) now first s = (Inr res, s1)"
      using cl Inr by (simp add: claim_def transaction_Inr)
    have inv1: "queue_inv s1"
      using claim_keeps [OF body] 2(3) by (simp add: keeps_def)
    have running: "y \<in> set (build_requests s) \<or> res = Some y"
      if "y \<in> set (build_requests s1)" "br_status y = RUNNING" for y
      using claim_running [OF body 2(3)] that by blast
    show ?thesis
    proof (cases res)
      case None
      have "all_delivered x s1"
        using running None 2(4) by (auto simp: all_delivered_def)
      with 2(1,2) cl Inr None inv1 show ?thesis by simp
    next
      case (Some r)
      from claim_outcome [OF body [unfolded Some]] 2(3)
      have "running_build (tenant_session t) s1 = Some r" by auto
      note r = running_buildD [OF this]
      obtain x2 s2 where tr: "trigger trigger_build c t later r (x, s1) = (Inr (), (x2, s2))"
        using trigger_returns [OF inv1] .
      with 2(2) cl Inr Some have rest: "run_tenants trigger_build c plan (n + 1) (x2, s2) = (final, (x', s'))"
        by simp
      have "\<forall>y\<in>set (build_requests s1). br_status y = RUNNING \<longrightarrow> y = r \<or> accepted x (br_id y)"
        using running Some 2(4) by (auto simp: all_delivered_def)
      from trigger_delivers [OF tr inv1 r(1) _ this] r(3)
      have "queue_inv s2 \<and> all_delivered x2 s2" by simp
      with 2(1) rest show ?thesis by simp
    qed
  qed
qed

end

section \<open>Properties\<close>

text \<open>C16: callbacks_authentic. A callback changes the database only when its timestamp header is a
  number of seconds within the allowed age of the server's clock, its signature header is the HMAC of
  that timestamp, the method, the path and the raw body under the shared secret, and the body parses;
  and what it does then is exactly to record that result, in the session of the tenant the body names.\<close>

theorem callbacks_authentic:
  "case record_build_result hmac parse c now path method i timestamp signature raw_body s of
     (out, s') \<Rightarrow>
       s' = s \<or>
       (\<exists>ts b r. int_base_10 (or_default timestamp []) = Some ts
          \<and> \<bar>now div 1000000 - ts\<bar> \<le> site_build_callback_max_age_seconds c
          \<and> signature = Some (sign_message hmac (site_build_hmac_secret c) ts method path raw_body)
          \<and> parse raw_body = Some b
          \<and> record_result c (tenant_session (res_tenant_id b)) now i b s = (Inr r, s'))"
proof -
  have signed: "s' = s \<or> (\<exists>r. record_result c (tenant_session (res_tenant_id b)) now i b s = (Inr r, s'))"
    if "transaction (record_result c (tenant_session (res_tenant_id b)) now i b) s = (out, s')" for b out s'
    using transaction_state [of "record_result c (tenant_session (res_tenant_id b)) now i b" s] that by auto
  show ?thesis
  proof (cases "verify_message hmac (site_build_hmac_secret c) now timestamp signature method path raw_body
      (site_build_callback_max_age_seconds c)")
    case (Inr u)
    note valid = Inr [unfolded unit_eq [of u] verify_message_iff]
    show ?thesis
    proof (cases "parse raw_body")
      case (Some b)
      obtain out s' where "transaction (record_result c (tenant_session (res_tenant_id b)) now i b) s = (out, s')"
        by fastforce
      with signed [OF this] valid Inr Some show ?thesis
        by (cases out) (auto simp: record_build_result_def)
    qed (use Inr in \<open>simp add: record_build_result_def\<close>)
  qed (simp add: record_build_result_def)
qed

text \<open>webhook_signature_accepted. The request the webhook executor sends carries a signature that the
  receiver's check of \<open>signing.py\<close> accepts for the method, path and body sent, at any moment within the
  allowed age, whatever HMAC is; later it is refused as expired. (A timestamp beyond Python's limit of
  4300 digits is no number to the receiver.)\<close>

theorem webhook_signature_accepted:
  "verify_message hmac (site_build_hmac_secret c) later
     (Some (timestamp_header (webhook_request hmac c now url parsed tn cf r)))
     (Some (signature_header (webhook_request hmac c now url parsed tn cf r)))
     (lit ''post'') (signed_path parsed) (request_body (webhook_request hmac c now url parsed tn cf r)) age =
   (if length (digits_of (nat \<bar>now div 1000000\<bar>)) > 4300 then Inl (app_error ''BUILD_SIGNATURE_INVALID'' 401)
    else if \<bar>later div 1000000 - now div 1000000\<bar> > age then Inl (app_error ''BUILD_SIGNATURE_EXPIRED'' 401)
    else Inr ())"
proof -
  have "upper (lit ''post'') = upper (lit ''POST'')"
    by (simp add: upper_def)
  then show ?thesis
    using hexdigest_ascii by (simp add: verify_message_def webhook_request_def int_base_10_str sign_message_def Let_def)
qed

text \<open>signature_errors. A signature header outside ASCII does not get the 401 of every other bad
  signature: \<open>compare_digest\<close> raises a \<open>TypeError\<close>, the answer is 500.\<close>

theorem signature_errors:
  "verify_message hmac secret now timestamp signature method path body age =
     (case int_base_10 (or_default timestamp []) of
        None \<Rightarrow> Inl (app_error ''BUILD_SIGNATURE_INVALID'' 401)
      | Some ts \<Rightarrow>
          if age < \<bar>now div 1000000 - ts\<bar> then Inl (app_error ''BUILD_SIGNATURE_EXPIRED'' 401)
          else if signature = Some (sign_message hmac secret ts method path body) then Inr ()
          else if is_ascii (or_default signature []) then Inl (app_error ''BUILD_SIGNATURE_INVALID'' 401)
          else Inl PyTypeError)"
proof -
  have "is_ascii (sign_message hmac secret ts method path body)" for ts
    by (simp add: sign_message_def hexdigest_ascii)
  then show ?thesis
    by (auto simp: verify_message_def is_ascii_def split: option.splits)
qed

text \<open>C15: round_delivers_running. A round of the worker with the webhook executor, whatever the network
  answers and whether or not the round ends with an exception: every request that is running afterwards
  and was not running before it has been sent to the build service under its own idempotency key, so a
  claim of the round that the service never saw does not stay running. (A request that was running
  before, because the worker that claimed it died, is left to its lease.)\<close>

theorem round_delivers_running:
  "case run_once (webhook_trigger_build (logging_post answer) status_error split hmac c now) c schedule
          (log, run (queue_step c) es (empty_queue s)) of
     (out, (log', s')) \<Rightarrow>
       (\<lambda>r. uuid_str (br_id r)) ` {r \<in> set (build_requests s'). br_status r = RUNNING} \<subseteq>
         idempotency_key_header ` set log' \<union>
         (\<lambda>r. uuid_str (br_id r)) `
           {r \<in> set (build_requests (run (queue_step c) es (empty_queue s))). br_status r = RUNNING}"
proof -
  let ?before = "(\<lambda>r. uuid_str (br_id r)) `
    {r \<in> set (build_requests (run (queue_step c) es (empty_queue s))). br_status r = RUNNING}"
  have start: "webhook.all_delivered ?before log (run (queue_step c) es (empty_queue s))"
    unfolding webhook.all_delivered_def by auto
  show ?thesis
    using webhook.run_tenants_delivered [OF _ reachable_queue_inv start, unfolded webhook.all_delivered_def]
    unfolding run_once_def by (fastforce split: prod.splits sum.splits)
qed

end
