(* ===== verification/SiteBuildRetries.thy ===== *)
theory SiteBuildRetries
  imports SiteBuildProperties
begin

text \<open>
  Why a build whose trigger keeps failing comes to an end: a round of the worker that starts a build
  and sees it fail uses up an attempt, and what the attempts leave bounds the rounds.
\<close>

section \<open>Rounds whose trigger fails\<close>

text \<open>A round: when the worker claims, the order of its writes, when the failure is recorded, the error.\<close>

type_synonym failing_round = "instant \<times> bool \<times> instant \<times> ustr"

text \<open>The number of builds started when the worker comes by again and again and every trigger fails.\<close>

fun failing_rounds :: "settings \<Rightarrow> uuid \<Rightarrow> failing_round list \<Rightarrow> 'z site_db_scheme \<Rightarrow> nat" where
  "failing_rounds c t [] s = 0"
| "failing_rounds c t ((now, claimed_first, later, error) # rounds) s =
     (case claim c t now claimed_first s of
        (Inr (Some r), s) \<Rightarrow> Suc (failing_rounds c t rounds (snd (trigger_failed c t later (br_id r) error s)))
      | (_, s) \<Rightarrow> failing_rounds c t rounds s)"

definition attempts_left :: "settings \<Rightarrow> build_request \<Rightarrow> nat" where
  "attempts_left c r = max 1 (site_build_max_attempts c - nat (br_attempt_count r))"

text \<open>The measure: the attempts of the request that comes next.\<close>

definition rounds_left :: "settings \<Rightarrow> uuid \<Rightarrow> 'z site_db_scheme \<Rightarrow> nat" where
  "rounds_left c t s =
     (case pending_build (tenant_session t) s of
        Some p \<Rightarrow> attempts_left c p
      | None \<Rightarrow> (case running_build (tenant_session t) s of Some r \<Rightarrow> attempts_left c r | None \<Rightarrow> 0))"

lemma rounds_left_bound: "rounds_left c t s \<le> max 1 (site_build_max_attempts c)"
  by (auto simp: rounds_left_def attempts_left_def split: option.split)

section \<open>One row saved\<close>

lemma saved_rows:
  assumes "x \<in> set (build_requests (save_build (tenant_session t) r s))" "br_tenant_id x = t"
  shows "x = r \<or> x \<in> set (build_requests s) \<and> br_id x \<noteq> br_id r"
  using assms by (auto simp: in_save_row_iff)

lemma saved_self:
  assumes "r0 \<in> set (build_requests s)" "br_id r = br_id r0" "br_tenant_id r0 = t"
  shows "r \<in> set (build_requests (save_build (tenant_session t) r s))"
  using assms by (auto simp: in_save_row_iff)

text \<open>A running request given back or given up, when nothing waits.\<close>

lemma released_left:
  assumes inv: "queue_inv s" "queue_inv s'" and r: "running_build (tenant_session t) s = Some r" "pending_build (tenant_session t) s = None"
    and s': "s' = save_build (tenant_session t) r' s" and r': "br_id r' = br_id r" "br_tenant_id r' = t" "br_status r' \<noteq> RUNNING"
  shows "running_build (tenant_session t) s' = None"
    "pending_build (tenant_session t) s' = (if br_status r' = PENDING then Some r' else None)"
proof -
  note ro = running_buildD [OF r(1)]
  have others: "br_status x \<noteq> RUNNING" "br_status x \<noteq> PENDING"
    if "x \<in> set (build_requests s)" "br_tenant_id x = t" "br_id x \<noteq> br_id r" for x
    using that running_build_eq [OF inv(1) that(1,2)] r pending_build_None_iff [of t s] by auto
  have rows: "x = r' \<or> br_status x \<noteq> RUNNING \<and> br_status x \<noteq> PENDING" if "x \<in> set (build_requests s')" "br_tenant_id x = t" for x
    using saved_rows [of x t r' s] that s' others r'(1) by auto
  show "running_build (tenant_session t) s' = None"
    unfolding running_build_None_iff using rows r'(3) by auto
  show "pending_build (tenant_session t) s' = (if br_status r' = PENDING then Some r' else None)"
  proof (cases "br_status r' = PENDING")
    case True
    have "r' \<in> set (build_requests s')"
      using saved_self [of r s r' t] ro r'(1) s' by simp
    with pending_build_eq [OF inv(2) this r'(2) True] True show ?thesis by simp
  next
    case False
    with rows have "pending_build (tenant_session t) s' = None"
      unfolding pending_build_None_iff by auto
    with False show ?thesis by simp
  qed
qed

lemma failure_left:
  assumes inv: "queue_inv s" and r: "running_build (tenant_session t) s = Some r" "pending_build (tenant_session t) s = None"
    and count: "br_attempt_count r = br_attempt_count p + 1" "0 \<le> br_attempt_count p"
  shows "Suc (rounds_left c t (snd (trigger_failed c t later (br_id r) error s))) \<le> attempts_left c p"
proof -
  note ro = running_buildD [OF r(1)]
  define r' where "r' = (if int (site_build_max_attempts c) \<le> br_attempt_count r
          then r\<lparr>br_status := FAILED, failed_at := Some later, last_error := Some (safe_error error), lease_expires_at := None\<rparr>
          else r\<lparr>br_status := PENDING, next_attempt_at := later + seconds (retry_delay (br_attempt_count r)),
                 started_at := None, lease_expires_at := None, last_error := Some (safe_error error)\<rparr>)"
  have keys: "br_id r' = br_id r" "br_tenant_id r' = t" "br_status r' \<noteq> RUNNING" "br_attempt_count r' = br_attempt_count r"
    using ro by (simp_all add: r'_def)
  have get: "get_build (tenant_session t) (br_id r) s = Some r"
  proof (cases "get_build (tenant_session t) (br_id r) s")
    case None
    with ro show ?thesis by (auto simp: get_row_None)
  next
    case (Some x)
    note x = get_rowD [OF Some]
    from same_row [OF inv x(1) ro(1) x(3)] Some show ?thesis by simp
  qed
  have "\<not> build_conflict x r'" if "x \<in> set (build_requests s)" "br_id x \<noteq> br_id r'" for x
    using that keys r(2) pending_build_None_iff [of t s] by (auto simp: build_conflict_def)
  then have "build_unique_ok r' s"
    by (auto simp: build_unique_ok_def list_all_iff)
  moreover have "trigger_failed c t later (br_id r) error s
      = (if build_unique_ok r' s then (Inr (), save_build (tenant_session t) r' s) else (Inl IntegrityError, s))"
    using get ro(2) r(2) by (simp add: trigger_failed_def transaction_def flush_builds.simps flush_build_def Let_def r'_def)
  ultimately have s': "snd (trigger_failed c t later (br_id r) error s) = save_build (tenant_session t) r' s"
    by simp
  have inv': "queue_inv (snd (trigger_failed c t later (br_id r) error s))"
    using trigger_failed_keeps [OF inv] by (simp add: keeps_def)
  note L = released_left [OF inv inv' r s' keys(1-3)]
  show ?thesis
  proof (cases "int (site_build_max_attempts c) \<le> br_attempt_count r")
    case True
    then have "br_status r' = FAILED" by (simp add: r'_def)
    with L show ?thesis by (simp add: rounds_left_def attempts_left_def)
  next
    case False
    then have "br_status r' = PENDING" by (simp add: r'_def)
    with L have "rounds_left c t (snd (trigger_failed c t later (br_id r) error s)) = attempts_left c r'"
      by (simp add: rounds_left_def)
    with False keys(4) count show ?thesis
      by (simp add: attempts_left_def)
  qed
qed

lemma claim_left:
  assumes run: "claim_body c (tenant_session t) now claimed_first s = (Inr None, s')" and inv: "queue_inv s"
  shows "rounds_left c t s' = rounds_left c t s"
  using run inv
proof (cases rule: claim_Inr)
  case (requeue r)
  define r' where "r' = r\<lparr>br_status := PENDING, started_at := None, lease_expires_at := None, next_attempt_at := now\<rparr>"
  have inv': "queue_inv s'" using claim_keeps [OF run inv] by (simp add: keeps_def)
  note ro = running_buildD [OF requeue(2)]
  have s': "s' = save_build (tenant_session t) r' s"
    using requeue(3) by (simp add: flush_builds_Inr r'_def)
  have none: "pending_build (tenant_session t) s = None"
  proof (rule ccontr)
    assume "pending_build (tenant_session t) s \<noteq> None"
    then obtain p where p: "pending_build (tenant_session t) s = Some p" by blast
    note po = pending_buildD [OF p]
    have "br_id p \<noteq> br_id r" using same_row [OF inv po(1) ro(1)] po(2) ro(2) by auto
    moreover have "build_unique_ok r' s" using requeue(3) by (simp add: flush_builds_Inr r'_def)
    ultimately show False
      using po ro by (auto simp: build_unique_ok_def list_all_iff build_conflict_def r'_def)
  qed
  have "pending_build (tenant_session t) s' = Some r'"
    using released_left(2) [OF inv inv' requeue(2) none s'] ro by (simp add: r'_def)
  then show ?thesis
    using requeue(2) none by (simp add: rounds_left_def attempts_left_def r'_def)
next
  case (supersede r p)
  define p' where "p' = p\<lparr>target_revision := max (target_revision p) (target_revision r)\<rparr>"
  have inv': "queue_inv s'" using claim_keeps [OF run inv] by (simp add: keeps_def)
  note ro = running_buildD [OF supersede(2)] and po = pending_buildD [OF supersede(3)]
  have other: "br_id p \<noteq> br_id r" using same_row [OF inv po(1) ro(1)] po(2) ro(2) by auto
  have s': "s' = save_build (tenant_session t) (r\<lparr>br_status := SUPERSEDED, last_error := Some lease_lost\<rparr>)
      (save_build (tenant_session t) p' s)"
    using supersede(4) by (simp add: flush_builds_Inr p'_def)
  have "p' \<in> set (build_requests (save_build (tenant_session t) p' s))"
    using saved_self [of p s p' t] po by (simp add: p'_def)
  then have "p' \<in> set (build_requests s')"
    using other by (auto simp: s' in_save_row_iff p'_def)
  moreover have "br_tenant_id p' = t" "br_status p' = PENDING" using po by (simp_all add: p'_def)
  ultimately have "pending_build (tenant_session t) s' = Some p'"
    by (rule pending_build_eq [OF inv'])
  then show ?thesis
    using supersede(3) by (simp add: rounds_left_def attempts_left_def p'_def)
qed simp_all

lemma failing_rounds_bound: "queue_inv s \<Longrightarrow> failing_rounds c t rounds s \<le> rounds_left c t s"
proof (induction c t rounds s rule: failing_rounds.induct)
  case (2 c t now claimed_first later error rounds s)
  obtain out s1 where run: "claim_body c (tenant_session t) now claimed_first s = (out, s1)" by force
  show ?case
  proof (cases out)
    case (Inl e)
    with run have "claim c t now claimed_first s = (Inl e, s)" by (simp add: claim_def transaction_def)
    with 2 show ?thesis by simp
  next
    case (Inr r)
    with run have claim: "claim c t now claimed_first s = (Inr r, s1)" by (simp add: claim_def transaction_def)
    have inv1: "queue_inv s1" using claim_keeps [OF run [unfolded Inr] 2(4)] by (simp add: keeps_def)
    show ?thesis
    proof (cases r)
      case None
      with 2 claim inv1 claim_left [OF run [unfolded Inr None] 2(4)] show ?thesis by simp
    next
      case (Some b)
      from claim_outcome [OF run [unfolded Inr Some] 2(4)] obtain p where
        p: "pending_build (tenant_session t) s = Some p" "br_attempt_count b = br_attempt_count p + 1"
        and b: "running_build (tenant_session t) s1 = Some b" "pending_build (tenant_session t) s1 = None"
        by blast
      have "0 \<le> br_attempt_count p"
        using queue_invD(3) [OF 2(4) pending_buildD(1) [OF p(1)]] by (simp add: row_ok_def build_request_checks_def)
      from failure_left [OF inv1 b p(2) this, of c later error] have
        "Suc (rounds_left c t (snd (trigger_failed c t later (br_id b) error s1))) \<le> rounds_left c t s"
        using p(1) by (simp add: rounds_left_def)
      moreover have inv2: "queue_inv (snd (trigger_failed c t later (br_id b) error s1))"
        using trigger_failed_keeps [OF inv1] by (simp add: keeps_def)
      moreover note 2(3) [OF claim [unfolded Some, symmetric] refl refl inv2]
      ultimately show ?thesis
        using claim Some by simp
    qed
  qed
qed simp

text \<open>C34: failing_builds_end. From every reachable state of the queue: however often the worker comes by, at
  whatever times, when every trigger fails and nothing else happens it starts at most
  \<open>site_build_max_attempts\<close> builds for a tenant (one, if that is zero); after them the request has
  failed for good and the rounds find nothing to do. The retry loop ends.\<close>

theorem failing_builds_end:
  "failing_rounds c t rounds (run (queue_step c) es (empty_queue s)) \<le> max 1 (site_build_max_attempts c)"
  using failing_rounds_bound [OF reachable_queue_inv] rounds_left_bound le_trans by blast

end
