(* ===== verification/Tenancy.thy ===== *)
theory Tenancy
  imports SiteBuilds Hostnames
begin

text \<open>
  Tenants and their platform administration: the tables of \<open>tenancy/models.py\<close> and
  \<open>auth/models.py\<close>, domain resolution (\<open>repository.py\<close>, \<open>middleware.py\<close>, \<open>dependencies.py\<close>,
  \<open>features.py\<close>), the endpoints of \<open>platform_router.py\<close> and the \<open>bootstrap\<close> command of \<open>cli.py\<close>.

  \<open>tenants\<close>, \<open>tenant_domains\<close>, \<open>users\<close>, \<open>refresh_tokens\<close> and \<open>authentication_attempts\<close> carry no
  row-level security; \<open>tenant_features\<close> and \<open>tenant_memberships\<close> do. Fresh identifiers and the
  argon2 hash of a password are arguments.
\<close>

section \<open>Tables\<close>

record tenant_domain =
  dom_id :: uuid
  dom_tenant_id :: uuid
  hostname :: ustr
  is_primary :: bool
  dom_active :: bool
  dom_created_at :: instant

record tenant_feature =
  tf_tenant_id :: uuid
  feature_key :: ustr
  tf_enabled :: bool
  tf_configuration :: "(ustr \<times> json) list"

datatype tenant_role = TENANT_ADMIN | CONTENT_EDITOR | REGISTRATION_MANAGER | FINANCE_VIEWER

record user =
  user_id :: uuid
  email :: ustr
  password_hash :: ustr
  user_active :: bool
  is_platform_admin :: bool

record membership =
  mem_tenant_id :: uuid
  mem_user_id :: uuid
  mem_role :: tenant_role
  mem_created_at :: instant

record refresh_token =
  rt_id :: uuid
  rt_user_id :: uuid
  rt_tenant_id :: "uuid option"
  family_id :: uuid
  token_hash :: ustr
  rt_expires_at :: instant
  rt_created_at :: instant
  revoked_at :: "instant option"
  replaced_by_id :: "uuid option"

record authentication_attempt =
  scope_hash :: ustr
  succeeded :: bool
  attempted_at :: instant

record platform_db = site_db +
  tenant_domains :: "tenant_domain list"
  tenant_features :: "tenant_feature list"
  users :: "user list"
  memberships :: "membership list"
  refresh_tokens :: "refresh_token list"
  authentication_attempts :: "authentication_attempt list"

text \<open>Primary keys and unique columns: an insert that clashes with a row of any tenant fails.\<close>

definition tenant_clash :: "tenant \<Rightarrow> tenant \<Rightarrow> bool" where
  "tenant_clash a b \<longleftrightarrow> tenant_id a = tenant_id b \<or> slug a = slug b"

definition domain_clash :: "tenant_domain \<Rightarrow> tenant_domain \<Rightarrow> bool" where
  "domain_clash a b \<longleftrightarrow> dom_id a = dom_id b \<or> hostname a = hostname b"

definition feature_clash :: "tenant_feature \<Rightarrow> tenant_feature \<Rightarrow> bool" where
  "feature_clash a b \<longleftrightarrow> tf_tenant_id a = tf_tenant_id b \<and> feature_key a = feature_key b"

definition user_clash :: "user \<Rightarrow> user \<Rightarrow> bool" where
  "user_clash a b \<longleftrightarrow> user_id a = user_id b \<or> email a = email b"

definition membership_clash :: "membership \<Rightarrow> membership \<Rightarrow> bool" where
  "membership_clash a b \<longleftrightarrow> mem_tenant_id a = mem_tenant_id b \<and> mem_user_id a = mem_user_id b"

definition token_clash :: "refresh_token \<Rightarrow> refresh_token \<Rightarrow> bool" where
  "token_clash a b \<longleftrightarrow> rt_id a = rt_id b \<or> token_hash a = token_hash b"

definition insert_unless :: "('r \<Rightarrow> 'r \<Rightarrow> bool) \<Rightarrow> 'r \<Rightarrow> 'r list \<Rightarrow> exn + 'r list" where
  "insert_unless clash r rows =
     (if list_ex (clash r) rows then Inl IntegrityError else Inr (insert_row r rows))"

text \<open>What the driver raises for a text longer than its column; it is no \<open>IntegrityError\<close>.\<close>

abbreviation data_error :: exn where
  "data_error \<equiv> PyRuntimeError ''DataError''"

definition flush_tenant :: "tenant \<Rightarrow> platform_db \<Rightarrow> (unit, platform_db) outcome" where
  "flush_tenant r s =
     (if length (tenant_name r) > 200 \<or> length (slug r) > 100 \<or> length (default_locale r) > 20
         \<or> length (timezone r) > 64 \<or> length (default_currency r) > 8 then (Inl data_error, s)
      else case insert_unless tenant_clash r (tenants s) of
             Inl e \<Rightarrow> (Inl e, s)
           | Inr rows \<Rightarrow> (Inr (), s\<lparr>tenants := rows\<rparr>))"

definition flush_domain :: "tenant_domain \<Rightarrow> platform_db \<Rightarrow> (unit, platform_db) outcome" where
  "flush_domain r s =
     (if length (hostname r) > 253 then (Inl data_error, s)
      else case insert_unless domain_clash r (tenant_domains s) of
             Inl e \<Rightarrow> (Inl e, s)
           | Inr rows \<Rightarrow> (Inr (), s\<lparr>tenant_domains := rows\<rparr>))"

definition flush_feature :: "tenant_feature \<Rightarrow> platform_db \<Rightarrow> (unit, platform_db) outcome" where
  "flush_feature r s =
     (case insert_unless feature_clash r (tenant_features s) of
        Inl e \<Rightarrow> (Inl e, s)
      | Inr rows \<Rightarrow> (Inr (), s\<lparr>tenant_features := rows\<rparr>))"

fun flush_features :: "tenant_feature list \<Rightarrow> platform_db \<Rightarrow> (unit, platform_db) outcome" where
  "flush_features [] s = (Inr (), s)"
| "flush_features (r # rs) s = and_then (flush_feature r s) (\<lambda>_. flush_features rs)"

definition flush_user :: "user \<Rightarrow> platform_db \<Rightarrow> (unit, platform_db) outcome" where
  "flush_user r s =
     (if length (email r) > 320 \<or> length (password_hash r) > 512 then (Inl data_error, s)
      else case insert_unless user_clash r (users s) of
             Inl e \<Rightarrow> (Inl e, s)
           | Inr rows \<Rightarrow> (Inr (), s\<lparr>users := rows\<rparr>))"

definition flush_membership :: "membership \<Rightarrow> platform_db \<Rightarrow> (unit, platform_db) outcome" where
  "flush_membership r s =
     (case insert_unless membership_clash r (memberships s) of
        Inl e \<Rightarrow> (Inl e, s)
      | Inr rows \<Rightarrow> (Inr (), s\<lparr>memberships := rows\<rparr>))"

definition find_user :: "ustr \<Rightarrow> platform_db \<Rightarrow> user option" where
  "find_user e s = scalar (filter (\<lambda>u. email u = e) (users s))"

definition get_user :: "uuid \<Rightarrow> platform_db \<Rightarrow> user option" where
  "get_user i s = scalar (filter (\<lambda>u. user_id u = i) (users s))"

definition get_tenant :: "uuid \<Rightarrow> platform_db \<Rightarrow> tenant option" where
  "get_tenant t s = scalar (filter (\<lambda>tn. tenant_id tn = t) (tenants s))"

section \<open>Domain resolution\<close>

record tenant_context =
  ctx_tenant_id :: uuid
  ctx_slug :: ustr
  ctx_hostname :: ustr
  ctx_status :: tenant_status
  ctx_locale :: ustr
  ctx_timezone :: ustr
  ctx_currency :: ustr

definition context_of :: "tenant \<Rightarrow> tenant_domain \<Rightarrow> tenant_context" where
  "context_of tn d =
     \<lparr>ctx_tenant_id = tenant_id tn, ctx_slug = slug tn, ctx_hostname = hostname d, ctx_status = tenant_status tn,
      ctx_locale = default_locale tn, ctx_timezone = timezone tn, ctx_currency = default_currency tn\<rparr>"

definition resolve_active_domain :: "ustr \<Rightarrow> platform_db \<Rightarrow> exn + tenant_context option" where
  "resolve_active_domain name s =
     (case [(tn, d). d \<leftarrow> filter (\<lambda>d. hostname d = name \<and> dom_active d) (tenant_domains s),
                     tn \<leftarrow> filter (\<lambda>tn. tenant_id tn = dom_tenant_id d) (tenants s)] of
        [] \<Rightarrow> Inr None
      | [(tn, d)] \<Rightarrow> Inr (Some (context_of tn d))
      | _ \<Rightarrow> Inl (PyRuntimeError ''MultipleResultsFound''))"

definition EXEMPT_PATHS :: "ustr list" where
  "EXEMPT_PATHS = map lit [''/health/live'', ''/health/ready'', ''/docs'', ''/openapi.json'']"

definition EXEMPT_PREFIXES :: "ustr list" where
  "EXEMPT_PREFIXES = map lit [''/api/v1/public/payments/callback/'', ''/api/v1/internal/site-builds/'']"

definition exempt :: "ustr \<Rightarrow> bool" where
  "exempt path \<longleftrightarrow> path \<in> set EXEMPT_PATHS \<or> list_ex (startswith path) EXEMPT_PREFIXES"

text \<open>What the middleware leaves in \<open>request.state.tenant\<close> before it calls on.\<close>

definition resolve_tenant where
  "resolve_tenant U ip_address ip_network c req s =
     (if exempt (request_path req) then Inr None
      else case request_hostname U ip_address ip_network c req of
             Inl e \<Rightarrow> Inl e
           | Inr name \<Rightarrow>
               (case resolve_active_domain name s of
                  Inl e \<Rightarrow> Inl e
                | Inr None \<Rightarrow> Inl (app_error ''TENANT_NOT_FOUND'' 404)
                | Inr (Some ctx) \<Rightarrow>
                    if ctx_status ctx \<noteq> Tenant_ACTIVE then Inl (app_error ''TENANT_UNAVAILABLE'' 404)
                    else Inr (Some ctx)))"

definition tenant_context_from_request :: "tenant_context option \<Rightarrow> exn + tenant_context" where
  "tenant_context_from_request tenant =
     (case tenant of None \<Rightarrow> Inl (app_error ''TENANT_CONTEXT_REQUIRED'' 404) | Some ctx \<Rightarrow> Inr ctx)"

section \<open>Features\<close>

definition feature_enabled :: "uuid \<Rightarrow> ustr \<Rightarrow> platform_db \<Rightarrow> bool option" where
  "feature_enabled t key s =
     map_option tf_enabled
       (scalar (select_where tf_tenant_id (tenant_session t) (\<lambda>f. feature_key f = key) (tenant_features s)))"

definition ensure_feature_enabled :: "uuid \<Rightarrow> ustr \<Rightarrow> platform_db \<Rightarrow> exn + unit" where
  "ensure_feature_enabled t key s =
     (if feature_enabled t key s \<noteq> Some True then Inl (app_error ''FEATURE_DISABLED'' 404) else Inr ())"

definition require_feature :: "ustr \<Rightarrow> tenant_context option \<Rightarrow> platform_db \<Rightarrow> exn + unit" where
  "require_feature key tenant s =
     (case tenant_context_from_request tenant of
        Inl e \<Rightarrow> Inl e
      | Inr ctx \<Rightarrow> ensure_feature_enabled (ctx_tenant_id ctx) key s)"

end
