(* ===== verification/PlatformRouter.thy ===== *)
theory PlatformRouter
  imports Tenancy
begin

text \<open>
  \<open>tenancy/schemas.py\<close>, the endpoints of \<open>tenancy/platform_router.py\<close> behind their authentication,
  and the \<open>bootstrap\<close> command of \<open>cli.py\<close>. \<open>EmailStr\<close> is the validator of a third-party package:
  an e-mail address is taken as the text it returned.
\<close>

section \<open>Requests\<close>

record tenant_create =
  tc_name :: ustr
  tc_slug :: ustr
  primary_hostname :: ustr
  tc_default_locale :: ustr
  tc_timezone :: ustr
  tc_default_currency :: ustr
  first_admin_email :: "ustr option"
  first_admin_password :: "ustr option"

text \<open>\<open>[a-z0-9]+(?:-[a-z0-9]+)*\<close>\<close>

definition slug_re :: "ustr \<Rightarrow> bool" where
  "slug_re s \<longleftrightarrow>
     list_all (\<lambda>part. part \<noteq> [] \<and> list_all (\<lambda>x. (97 \<le> x \<and> x \<le> 122) \<or> (48 \<le> x \<and> x \<le> 57)) part) (split_on 45 s)"

definition within :: "nat \<Rightarrow> nat \<Rightarrow> ustr \<Rightarrow> bool" where
  "within lo hi s \<longleftrightarrow> lo \<le> length s \<and> length s \<le> hi"

definition opt_within :: "nat \<Rightarrow> nat \<Rightarrow> ustr option \<Rightarrow> bool" where
  "opt_within lo hi v = (case v of None \<Rightarrow> True | Some s \<Rightarrow> within lo hi s)"

text \<open>The validated body; \<open>None\<close> is the 422 of a body that does not validate.\<close>

definition validate_tenant_create :: "text_tables \<Rightarrow> tenant_create \<Rightarrow> tenant_create option" where
  "validate_tenant_create U b =
     (if within 2 200 (tc_name b) \<and> slug_re (tc_slug b) \<and> within 0 100 (tc_slug b)
         \<and> within 0 20 (tc_default_locale b) \<and> within 0 64 (tc_timezone b)
         \<and> within 3 8 (tc_default_currency b) \<and> opt_within 12 256 (first_admin_password b)
      then (case normalize_hostname U (primary_hostname b) of
              Inl e \<Rightarrow> None
            | Inr h \<Rightarrow> Some (b\<lparr>primary_hostname := h\<rparr>))
      else None)"

record domain_create =
  dc_hostname :: ustr
  dc_is_primary :: bool

definition validate_domain_create :: "text_tables \<Rightarrow> domain_create \<Rightarrow> domain_create option" where
  "validate_domain_create U b =
     (case normalize_hostname U (dc_hostname b) of
        Inl e \<Rightarrow> None
      | Inr h \<Rightarrow> Some (b\<lparr>dc_hostname := h\<rparr>))"

record feature_update =
  fu_enabled :: bool
  fu_configuration :: "(ustr \<times> json) list"

record membership_create =
  mc_email :: ustr
  mc_password :: "ustr option"
  mc_role :: tenant_role

definition validate_membership_create :: "membership_create \<Rightarrow> bool" where
  "validate_membership_create b \<longleftrightarrow> opt_within 12 256 (mc_password b)"

record build_config_write =
  bw_enabled :: bool
  bw_canonical_domain :: ustr
  bw_build_target_key :: ustr
  bw_deployment_target_key :: ustr

definition target_key_re :: "ustr \<Rightarrow> bool" where
  "target_key_re s \<longleftrightarrow>
     s \<noteq> [] \<and> list_all (\<lambda>x. is_ascii_alpha x \<or> (48 \<le> x \<and> x \<le> 57) \<or> x \<in> {46, 95, 58, 45}) s"

definition validate_build_config_write :: "build_config_write \<Rightarrow> bool" where
  "validate_build_config_write b \<longleftrightarrow>
     bw_canonical_domain b \<noteq> [] \<and> length (bw_canonical_domain b) \<le> 253
     \<and> list_all (\<lambda>x. (97 \<le> x \<and> x \<le> 122) \<or> (48 \<le> x \<and> x \<le> 57) \<or> x = 46 \<or> x = 45) (bw_canonical_domain b)
     \<and> target_key_re (bw_build_target_key b) \<and> length (bw_build_target_key b) \<le> 200
     \<and> target_key_re (bw_deployment_target_key b) \<and> length (bw_deployment_target_key b) \<le> 200"

section \<open>Tenants\<close>

definition require_tenant :: "uuid \<Rightarrow> platform_db \<Rightarrow> exn + tenant" where
  "require_tenant t s =
     (case get_tenant t s of None \<Rightarrow> Inl (app_error ''TENANT_NOT_FOUND'' 404) | Some tn \<Rightarrow> Inr tn)"

definition with_tenant ::
  "uuid \<Rightarrow> (tenant \<Rightarrow> platform_db \<Rightarrow> ('a, platform_db) outcome) \<Rightarrow> platform_db \<Rightarrow> ('a, platform_db) outcome" where
  "with_tenant t k s = (case require_tenant t s of Inl e \<Rightarrow> (Inl e, s) | Inr tn \<Rightarrow> k tn s)"

definition list_tenants :: "platform_db \<Rightarrow> tenant list" where
  "list_tenants s = sort_key tenant_created_at (tenants s)"

text \<open>The identity a membership is created for: the user of that address, or a new one.\<close>

definition user_for ::
  "uuid \<Rightarrow> ustr \<Rightarrow> (unit \<Rightarrow> exn + ustr) \<Rightarrow> platform_db \<Rightarrow> (user, platform_db) outcome" where
  "user_for fresh address hashed s =
     (case find_user address s of
        Some u \<Rightarrow> (Inr u, s)
      | None \<Rightarrow>
          (case hashed () of
             Inl e \<Rightarrow> (Inl e, s)
           | Inr h \<Rightarrow>
               let u = \<lparr>user_id = fresh, email = address, password_hash = h, user_active = True,
                        is_platform_admin = False\<rparr>
               in and_then (flush_user u s) (\<lambda>_ s. (Inr u, s))))"

definition initial_features :: "uuid \<Rightarrow> tenant_feature list" where
  "initial_features t =
     map (\<lambda>key. \<lparr>tf_tenant_id = t, feature_key = key, tf_enabled = True, tf_configuration = []\<rparr>) FEATURE_KEYS"

text \<open>The rows of a new tenant: itself, its primary domain, its features.\<close>

definition new_tenant_rows :: "instant \<Rightarrow> uuid \<Rightarrow> tenant \<Rightarrow> ustr \<Rightarrow> platform_db \<Rightarrow> (unit, platform_db) outcome" where
  "new_tenant_rows now domain_id tn name s =
     and_then (flush_tenant tn s) (\<lambda>_ s.
       and_then (flush_domain \<lparr>dom_id = domain_id, dom_tenant_id = tenant_id tn, hostname = name, is_primary = True,
                               dom_active = True, dom_created_at = now\<rparr> s) (\<lambda>_ s.
         flush_features (initial_features (tenant_id tn)) s))"

definition create_tenant ::
  "text_tables \<Rightarrow> (ustr \<Rightarrow> ustr) \<Rightarrow> instant \<Rightarrow> uuid \<Rightarrow> uuid \<Rightarrow> uuid \<Rightarrow> tenant_create
     \<Rightarrow> platform_db \<Rightarrow> (tenant, platform_db) outcome" where
  "create_tenant U argon2_hash now fresh domain_id fresh_user b s =
     (if (first_admin_email b = None) \<noteq> (first_admin_password b = None)
      then (Inl (app_error ''FIRST_ADMIN_INCOMPLETE'' 400), s)
      else
        let tn = \<lparr>tenant_id = fresh, tenant_name = tc_name b, slug = tc_slug b, tenant_status = Tenant_ACTIVE,
                  default_locale = tc_default_locale b, timezone = tc_timezone b,
                  default_currency = str_upper U (tc_default_currency b), tenant_created_at = now\<rparr>
        in on_integrity_error (app_error ''TENANT_CONFLICT'' 409) (transaction (\<lambda>s.
             and_then (new_tenant_rows now domain_id tn (primary_hostname b) s) (\<lambda>_ s.
               case (first_admin_email b, first_admin_password b) of
                 (Some address, Some password) \<Rightarrow>
                   if address = [] \<or> password = [] then (Inr tn, s)
                   else and_then (user_for fresh_user (casefold U address) (\<lambda>_. Inr (argon2_hash password)) s)
                     (\<lambda>u s. and_then (flush_membership
                        \<lparr>mem_tenant_id = fresh, mem_user_id = user_id u, mem_role = TENANT_ADMIN, mem_created_at = now\<rparr> s)
                        (\<lambda>_ s. (Inr tn, s)))
               | _ \<Rightarrow> (Inr tn, s))) s))"

text \<open>\<open>merge\<close> writes the tenant read before, with the new status.\<close>

definition set_tenant_status :: "uuid \<Rightarrow> tenant_status \<Rightarrow> platform_db \<Rightarrow> (tenant, platform_db) outcome" where
  "set_tenant_status t st = with_tenant t (\<lambda>tn. transaction (\<lambda>s.
     let managed = tn\<lparr>tenant_status := st\<rparr>
     in (Inr managed, s\<lparr>tenants := map (\<lambda>x. if tenant_id x = t then managed else x) (tenants s)\<rparr>)))"

section \<open>Domains, features, members\<close>

text \<open>
  A primary domain takes the place of the one before: \<open>add_domain\<close> first demotes the tenant's domains, then
  inserts the new row, in one transaction. \<open>add_domain\<close> is the endpoint for a request that runs alone.
  The code takes no lock on the tenant, so two requests can overlap; see \<open>overlapping_additions\<close>.
\<close>

definition demote_domains :: "uuid \<Rightarrow> domain_create \<Rightarrow> platform_db \<Rightarrow> platform_db" where
  "demote_domains t b s =
     (if dc_is_primary b
      then s\<lparr>tenant_domains :=
             map (\<lambda>x. if dom_tenant_id x = t then x\<lparr>is_primary := False\<rparr> else x) (tenant_domains s)\<rparr>
      else s)"

definition new_domain :: "instant \<Rightarrow> uuid \<Rightarrow> uuid \<Rightarrow> domain_create \<Rightarrow> tenant_domain" where
  "new_domain now fresh t b =
     \<lparr>dom_id = fresh, dom_tenant_id = t, hostname = dc_hostname b, is_primary = dc_is_primary b,
      dom_active = True, dom_created_at = now\<rparr>"

definition add_domain :: "instant \<Rightarrow> uuid \<Rightarrow> uuid \<Rightarrow> domain_create \<Rightarrow> platform_db \<Rightarrow> (tenant_domain, platform_db) outcome" where
  "add_domain now fresh t b = with_tenant t (\<lambda>_ s.
     let d = new_domain now fresh t b
     in on_integrity_error (app_error ''DOMAIN_CONFLICT'' 409) (transaction (\<lambda>s.
          and_then (flush_domain d (demote_domains t b s)) (\<lambda>_ s. (Inr d, s))) s))"

text \<open>
  Two such requests for one tenant that overlap, both with a tenant that exists: the second demotes before the first
  has committed its row. Its update does not see that row; where it waits for the rows that the first one
  changed, it goes on with exactly those rows once the first has committed.
\<close>

definition overlapping_additions ::
  "(instant \<times> uuid \<times> domain_create) \<Rightarrow> (instant \<times> uuid \<times> domain_create) \<Rightarrow> uuid \<Rightarrow> platform_db
     \<Rightarrow> (unit, platform_db) outcome" where
  "overlapping_additions x y t s =
     (case (x, y) of ((now, i, b), (now', j, b')) \<Rightarrow>
        and_then (flush_domain (new_domain now i t b) (demote_domains t b' (demote_domains t b s)))
          (\<lambda>_. flush_domain (new_domain now' j t b')))"

definition audited ::
  "instant \<Rightarrow> uuid \<Rightarrow> uuid \<Rightarrow> string \<Rightarrow> string \<Rightarrow> (ustr \<times> json) list \<Rightarrow> platform_db \<Rightarrow> platform_db" where
  "audited now actor t action entity_type metadata s =
     s\<lparr>audit_log := insert_row
        \<lparr>ae_tenant_id = t, ae_actor = Some actor, ae_action = action, ae_entity_type = entity_type,
         ae_entity_id = None, ae_metadata = metadata, ae_created_at = now\<rparr> (audit_log s)\<rparr>"

definition set_feature ::
  "instant \<Rightarrow> uuid \<Rightarrow> uuid \<Rightarrow> ustr \<Rightarrow> feature_update \<Rightarrow> platform_db \<Rightarrow> (ustr \<times> feature_update, platform_db) outcome" where
  "set_feature now actor t key b s =
     (case validate_feature_key key of
        Inl e \<Rightarrow> (Inl (app_error ''UNKNOWN_FEATURE'' 422), s)
      | Inr _ \<Rightarrow> with_tenant t (\<lambda>_. transaction (\<lambda>s.
          let row = \<lparr>tf_tenant_id = t, feature_key = key, tf_enabled = fu_enabled b, tf_configuration = fu_configuration b\<rparr>;
              metadata = [(lit ''feature_key'', JStr key), (lit ''enabled'', JBool (fu_enabled b))]
          in case select_where tf_tenant_id (tenant_session t) (\<lambda>f. feature_key f = key) (tenant_features s) of
               [] \<Rightarrow> and_then (flush_feature row s)
                       (\<lambda>_ s. (Inr (key, b), audited now actor t ''tenant.feature.updated'' ''tenant_feature'' metadata s))
             | _ \<Rightarrow> (Inr (key, b), audited now actor t ''tenant.feature.updated'' ''tenant_feature'' metadata
                       (s\<lparr>tenant_features := update_where tf_tenant_id (tenant_session t) (\<lambda>f. feature_key f = key)
                            (\<lambda>_. row) (tenant_features s)\<rparr>)))) s)"

definition add_membership ::
  "text_tables \<Rightarrow> (ustr \<Rightarrow> ustr) \<Rightarrow> instant \<Rightarrow> uuid \<Rightarrow> uuid \<Rightarrow> membership_create \<Rightarrow> platform_db
     \<Rightarrow> (string, platform_db) outcome" where
  "add_membership U argon2_hash now fresh_user t b = with_tenant t (\<lambda>_ s.
     on_integrity_error (app_error ''MEMBERSHIP_CONFLICT'' 409) (transaction (\<lambda>s.
       and_then (user_for fresh_user (casefold U (mc_email b))
           (\<lambda>_. case mc_password b of
                  None \<Rightarrow> Inl (app_error ''USER_PASSWORD_REQUIRED'' 400)
                | Some p \<Rightarrow> Inr (argon2_hash p)) s)
         (\<lambda>u s. and_then (flush_membership
            \<lparr>mem_tenant_id = t, mem_user_id = user_id u, mem_role = mc_role b, mem_created_at = now\<rparr> s)
            (\<lambda>_ s. (Inr ''created'', s)))) s))"

section \<open>Build configuration\<close>

definition set_site_build_config ::
  "instant \<Rightarrow> uuid \<Rightarrow> uuid \<Rightarrow> build_config_write \<Rightarrow> platform_db \<Rightarrow> (build_config, platform_db) outcome" where
  "set_site_build_config now actor t b = with_tenant t (\<lambda>_. transaction (\<lambda>s.
     if \<not> list_ex (\<lambda>d. dom_tenant_id d = t \<and> hostname d = bw_canonical_domain b \<and> dom_active d) (tenant_domains s)
     then (Inl (app_error ''BUILD_DOMAIN_INVALID'' 422), s)
     else
       let config = \<lparr>cfg_tenant_id = t, cfg_enabled = bw_enabled b, canonical_domain = bw_canonical_domain b,
                     build_target_key = bw_build_target_key b, deployment_target_key = bw_deployment_target_key b\<rparr>
       in (Inr config, write_build_config (tenant_session t) now actor config s)))"

definition get_site_build_config :: "uuid \<Rightarrow> platform_db \<Rightarrow> exn + build_config" where
  "get_site_build_config t s =
     (case require_tenant t s of
        Inl e \<Rightarrow> Inl e
      | Inr _ \<Rightarrow>
          (case get_row cfg_tenant_id cfg_tenant_id (tenant_session t) t (build_configs s) of
             None \<Rightarrow> Inl (app_error ''BUILD_CONFIG_NOT_FOUND'' 404)
           | Some config \<Rightarrow> Inr config))"

section \<open>Bootstrap\<close>

record bootstrap_args =
  ba_email :: ustr
  ba_tenant_name :: ustr
  ba_tenant_slug :: "ustr option"
  ba_tenant_domain :: ustr

text \<open>The user of that address becomes an active platform administrator; a new one gets the password.\<close>

definition bootstrap_admin ::
  "text_tables \<Rightarrow> (ustr \<Rightarrow> ustr) \<Rightarrow> uuid \<Rightarrow> ustr \<Rightarrow> ustr \<Rightarrow> platform_db \<Rightarrow> (user, platform_db) outcome" where
  "bootstrap_admin U argon2_hash fresh_user address password s =
     (case find_user (casefold U address) s of
        None \<Rightarrow>
          let u = \<lparr>user_id = fresh_user, email = casefold U address, password_hash = argon2_hash password,
                   user_active = True, is_platform_admin = True\<rparr>
          in and_then (flush_user u s) (\<lambda>_ s. (Inr u, s))
      | Some u \<Rightarrow>
          let u = u\<lparr>is_platform_admin := True, user_active := True\<rparr>
          in (Inr u, s\<lparr>users := map (\<lambda>x. if user_id x = user_id u then u else x) (users s)\<rparr>))"

text \<open>A tenant of that slug is left as it is, without a membership.\<close>

definition bootstrap_tenant ::
  "text_tables \<Rightarrow> instant \<Rightarrow> uuid \<Rightarrow> uuid \<Rightarrow> bootstrap_args \<Rightarrow> user \<Rightarrow> platform_db \<Rightarrow> (unit, platform_db) outcome" where
  "bootstrap_tenant U now fresh domain_id a u s =
     (case ba_tenant_slug a of
        None \<Rightarrow> (Inr (), s)
      | Some name \<Rightarrow>
          if name = [] \<or> list_ex (\<lambda>tn. slug tn = name) (tenants s) then (Inr (), s)
          else
            let tn = \<lparr>tenant_id = fresh, tenant_name = ba_tenant_name a, slug = name,
                      tenant_status = Tenant_ACTIVE, default_locale = lit ''fa-IR'',
                      timezone = lit ''Asia/Tehran'', default_currency = lit ''IRR'', tenant_created_at = now\<rparr>
            in (case normalize_hostname U (ba_tenant_domain a) of
                  Inl e \<Rightarrow> and_then (flush_tenant tn s) (\<lambda>_ s. (Inl e, s))
                | Inr h \<Rightarrow>
                    and_then (new_tenant_rows now domain_id tn h s) (\<lambda>_.
                      flush_membership \<lparr>mem_tenant_id = fresh, mem_user_id = user_id u,
                        mem_role = TENANT_ADMIN, mem_created_at = now\<rparr>)))"

text \<open>\<open>password\<close> is the environment's or the one typed in, \<open>None\<close> where there is neither.\<close>

definition bootstrap ::
  "text_tables \<Rightarrow> (ustr \<Rightarrow> ustr) \<Rightarrow> instant \<Rightarrow> uuid \<Rightarrow> uuid \<Rightarrow> uuid \<Rightarrow> ustr option \<Rightarrow> bootstrap_args
     \<Rightarrow> platform_db \<Rightarrow> (unit, platform_db) outcome" where
  "bootstrap U argon2_hash now fresh domain_id fresh_user password a s =
     (case password of
        None \<Rightarrow> (Inl (PyRuntimeError ''set KANOON_BOOTSTRAP_PASSWORD in non-interactive environments''), s)
      | Some password \<Rightarrow>
          if length password < 12
          then (Inl (PyRuntimeError ''bootstrap password must contain at least 12 characters''), s)
          else transaction (\<lambda>s.
            and_then (bootstrap_admin U argon2_hash fresh_user (ba_email a) password s)
              (bootstrap_tenant U now fresh domain_id a)) s)"

end
