(* ===== verification/Auth.thy ===== *)
theory Auth
  imports Tokens PlatformRouter
begin

text \<open>
  Authentication and authorisation: \<open>auth/permissions.py\<close>, \<open>AuthenticationService\<close>
  (\<open>auth/service.py\<close>), the dependencies of \<open>auth/dependencies.py\<close> and the endpoints of
  \<open>auth/router.py\<close>.

  Arguments of the model, gathered in \<open>crypto\<close>: HMAC-SHA256 of the rate-limit scope, the SHA-256
  digest of an opaque token, argon2, PyJWT. A fresh opaque token and fresh identifiers are arguments
  of the operations that draw them.
\<close>

section \<open>Permissions\<close>

datatype permission =
    CONTENT_READ | CONTENT_WRITE | CONTENT_PUBLISH | SITE_BUILD_READ | SITE_BUILD_REQUEST
  | PROFILE_WRITE | REGISTRATION_READ | REGISTRATION_WRITE | REGISTRATION_EXPORT | CONTACT_READ
  | FINANCE_READ | MEMBERSHIP_WRITE | FEATURE_WRITE

definition all_permissions :: "permission list" where
  "all_permissions =
     [CONTENT_READ, CONTENT_WRITE, CONTENT_PUBLISH, SITE_BUILD_READ, SITE_BUILD_REQUEST, PROFILE_WRITE,
      REGISTRATION_READ, REGISTRATION_WRITE, REGISTRATION_EXPORT, CONTACT_READ, FINANCE_READ,
      MEMBERSHIP_WRITE, FEATURE_WRITE]"

fun ROLE_PERMISSIONS :: "tenant_role \<Rightarrow> permission list" where
  "ROLE_PERMISSIONS TENANT_ADMIN = all_permissions"
| "ROLE_PERMISSIONS CONTENT_EDITOR = [CONTENT_READ, CONTENT_WRITE, PROFILE_WRITE]"
| "ROLE_PERMISSIONS REGISTRATION_MANAGER = [REGISTRATION_READ, REGISTRATION_WRITE, REGISTRATION_EXPORT, CONTACT_READ]"
| "ROLE_PERMISSIONS FINANCE_VIEWER = [REGISTRATION_READ, FINANCE_READ]"

definition role_has_permission :: "tenant_role \<Rightarrow> permission \<Rightarrow> bool" where
  "role_has_permission role p \<longleftrightarrow> p \<in> set (ROLE_PERMISSIONS role)"

section \<open>The authentication service\<close>

record crypto =
  scope_hmac :: "ustr \<Rightarrow> ustr \<Rightarrow> ustr"
  token_digest :: "ustr \<Rightarrow> ustr"
  argon2_check :: "ustr \<Rightarrow> ustr \<Rightarrow> bool option"
  jwt_encoder :: jwt_encode
  jwt_decoder :: jwt_decode

definition auth_scope :: "crypto \<Rightarrow> text_tables \<Rightarrow> settings \<Rightarrow> ustr \<Rightarrow> ustr \<Rightarrow> ustr" where
  "auth_scope K U c address client_ip =
     scope_hmac K (signing_key c) (casefold U address @ [124] @ client_ip)"

text \<open>Failed attempts of a scope since an instant.\<close>

definition failures_since :: "ustr \<Rightarrow> instant \<Rightarrow> platform_db \<Rightarrow> nat" where
  "failures_since scope since s =
     count_if (\<lambda>a. scope_hash a = scope \<and> attempted_at a \<ge> since \<and> \<not> succeeded a) (authentication_attempts s)"

definition enforce_rate_limit ::
  "crypto \<Rightarrow> text_tables \<Rightarrow> settings \<Rightarrow> instant \<Rightarrow> ustr \<Rightarrow> ustr \<Rightarrow> platform_db \<Rightarrow> exn + ustr" where
  "enforce_rate_limit K U c now address client_ip s =
     (let scope = auth_scope K U c address client_ip in
      if failures_since scope (now - seconds (authentication_window_seconds c)) s \<ge> authentication_max_attempts c
      then Inl (app_error ''AUTHENTICATION_RATE_LIMITED'' 429)
      else Inr scope)"

definition valid_login :: "crypto \<Rightarrow> ustr \<Rightarrow> bool \<Rightarrow> user option \<Rightarrow> bool" where
  "valid_login K password platform_only found =
     (case found of
        None \<Rightarrow> False
      | Some u \<Rightarrow> user_active u \<and> (\<not> platform_only \<or> is_platform_admin u)
                    \<and> verify_password (argon2_check K) (password_hash u) password)"

definition authenticate_user ::
  "crypto \<Rightarrow> text_tables \<Rightarrow> settings \<Rightarrow> instant \<Rightarrow> ustr \<Rightarrow> ustr \<Rightarrow> ustr \<Rightarrow> bool \<Rightarrow> platform_db
     \<Rightarrow> (user option, platform_db) outcome" where
  "authenticate_user K U c now address password client_ip platform_only s =
     (case enforce_rate_limit K U c now address client_ip s of
        Inl e \<Rightarrow> (Inl e, s)
      | Inr scope \<Rightarrow>
          let found = find_user (casefold U address) s;
              valid = valid_login K password platform_only found
          in (Inr (if valid then found else None),
              s\<lparr>authentication_attempts := insert_row
                  \<lparr>scope_hash = scope, succeeded = valid, attempted_at = now\<rparr> (authentication_attempts s)\<rparr>))"

definition find_membership :: "uuid \<Rightarrow> uuid \<Rightarrow> platform_db \<Rightarrow> membership option" where
  "find_membership t i s =
     scalar (select_where mem_tenant_id (tenant_session t) (\<lambda>m. mem_tenant_id m = t \<and> mem_user_id m = i) (memberships s))"

definition ensure_tenant_access :: "user \<Rightarrow> uuid \<Rightarrow> platform_db \<Rightarrow> exn + membership option" where
  "ensure_tenant_access u t s =
     (let m = find_membership t (user_id u) s in
      if m = None \<and> \<not> is_platform_admin u then Inl (app_error ''INVALID_CREDENTIALS'' 401) else Inr m)"

record token_pair =
  access_token :: ustr
  refresh_token_text :: ustr
  expires_in :: int

definition flush_token :: "refresh_token \<Rightarrow> platform_db \<Rightarrow> (unit, platform_db) outcome" where
  "flush_token r s =
     (case insert_unless token_clash r (refresh_tokens s) of
        Inl e \<Rightarrow> (Inl e, s)
      | Inr rows \<Rightarrow> (Inr (), s\<lparr>refresh_tokens := rows\<rparr>))"

text \<open>What a call draws at random: token identifiers, the opaque text, a family.\<close>

record draw =
  new_jti :: uuid
  new_rt_id :: uuid
  new_raw :: ustr
  new_family :: uuid

definition issued :: "crypto \<Rightarrow> settings \<Rightarrow> instant \<Rightarrow> draw \<Rightarrow> user \<Rightarrow> uuid option \<Rightarrow> uuid option \<Rightarrow> refresh_token" where
  "issued K c now d u t family =
     \<lparr>rt_id = new_rt_id d, rt_user_id = user_id u, rt_tenant_id = t, family_id = or_default family (new_family d),
      token_hash = token_digest K (new_raw d),
      rt_expires_at = now + seconds (refresh_token_ttl_seconds c), rt_created_at = now,
      revoked_at = None, replaced_by_id = None\<rparr>"

definition issue_pair ::
  "crypto \<Rightarrow> settings \<Rightarrow> instant \<Rightarrow> draw \<Rightarrow> user \<Rightarrow> uuid option \<Rightarrow> uuid option \<Rightarrow> platform_db
     \<Rightarrow> (token_pair, platform_db) outcome" where
  "issue_pair K c now d u t family s =
     and_then (flush_token (issued K c now d u t family) s)
       (\<lambda>_ s. (Inr \<lparr>access_token = fst (create_access_token (jwt_encoder K) c now (new_jti d) (user_id u) t
                       (is_platform_admin u)),
                    refresh_token_text = new_raw d, expires_in = access_token_ttl_seconds c\<rparr>, s))"

definition find_token :: "ustr \<Rightarrow> platform_db \<Rightarrow> refresh_token option" where
  "find_token digest s = scalar (filter (\<lambda>r. token_hash r = digest) (refresh_tokens s))"

definition save_token :: "refresh_token \<Rightarrow> platform_db \<Rightarrow> platform_db" where
  "save_token r s = s\<lparr>refresh_tokens := map (\<lambda>x. if rt_id x = rt_id r then r else x) (refresh_tokens s)\<rparr>"

definition revoke_family :: "instant \<Rightarrow> uuid \<Rightarrow> platform_db \<Rightarrow> platform_db" where
  "revoke_family now family s =
     s\<lparr>refresh_tokens :=
        map (\<lambda>r. if family_id r = family \<and> revoked_at r = None then r\<lparr>revoked_at := Some now\<rparr> else r) (refresh_tokens s)\<rparr>"

text \<open>The result is the pair and whether a revoked token was presented again.\<close>

definition rotate_refresh_token ::
  "crypto \<Rightarrow> settings \<Rightarrow> instant \<Rightarrow> draw \<Rightarrow> ustr \<Rightarrow> uuid option \<Rightarrow> platform_db
     \<Rightarrow> (token_pair option \<times> bool, platform_db) outcome" where
  "rotate_refresh_token K c now d raw_token expected s =
     (case find_token (token_digest K raw_token) s of
        None \<Rightarrow> (Inl (app_error ''INVALID_REFRESH_TOKEN'' 401), s)
      | Some stored \<Rightarrow>
          if rt_expires_at stored \<le> now then (Inl (app_error ''INVALID_REFRESH_TOKEN'' 401), s)
          else if rt_tenant_id stored \<noteq> expected then (Inl (app_error ''INVALID_REFRESH_TOKEN'' 401), s)
          else if revoked_at stored \<noteq> None then (Inr (None, True), revoke_family now (family_id stored) s)
          else
            (case get_user (rt_user_id stored) s of
               None \<Rightarrow> (Inl (app_error ''INVALID_REFRESH_TOKEN'' 401), s)
             | Some u \<Rightarrow>
                 if \<not> user_active u then (Inl (app_error ''INVALID_REFRESH_TOKEN'' 401), s)
                 else
                   let stored = stored\<lparr>revoked_at := Some now\<rparr> in
                   and_then (issue_pair K c now d u (rt_tenant_id stored) (Some (family_id stored)) (save_token stored s))
                     (\<lambda>pair s.
                        let replacement = find_token (token_digest K (refresh_token_text pair)) s
                        in (Inr (Some pair, False),
                            save_token (stored\<lparr>replaced_by_id := map_option rt_id replacement\<rparr>) s))))"

section \<open>Principals\<close>

record principal =
  pr_user_id :: uuid
  pr_tenant_id :: "uuid option"
  pr_role :: "tenant_role option"
  pr_platform_admin :: bool

type_synonym credentials = "(ustr \<times> ustr) option"

definition claims_of :: "crypto \<Rightarrow> text_tables \<Rightarrow> settings \<Rightarrow> instant \<Rightarrow> credentials \<Rightarrow> exn + access_claims" where
  "claims_of K U c now credentials =
     (case credentials of
        None \<Rightarrow> Inl (app_error ''AUTHENTICATION_REQUIRED'' 401)
      | Some (scheme, token) \<Rightarrow>
          if casefold U scheme \<noteq> lit ''bearer'' then Inl (app_error ''AUTHENTICATION_REQUIRED'' 401)
          else (case decode_access_token (jwt_decoder K) c now token of
                  Inl (InvalidTokenError m) \<Rightarrow> Inl (app_error ''INVALID_ACCESS_TOKEN'' 401)
                | Inl (PyValueError m) \<Rightarrow> Inl (app_error ''INVALID_ACCESS_TOKEN'' 401)
                | Inl e \<Rightarrow> Inl e
                | Inr claims \<Rightarrow> Inr claims))"

definition tenant_principal ::
  "crypto \<Rightarrow> text_tables \<Rightarrow> settings \<Rightarrow> instant \<Rightarrow> tenant_context option \<Rightarrow> credentials \<Rightarrow> platform_db \<Rightarrow> exn + principal"
where
  "tenant_principal K U c now tenant credentials s =
     (case tenant_context_from_request tenant of
        Inl e \<Rightarrow> Inl e
      | Inr ctx \<Rightarrow>
          (case claims_of K U c now credentials of
             Inl e \<Rightarrow> Inl e
           | Inr claims \<Rightarrow>
               if ac_tenant_id claims \<noteq> Some (ctx_tenant_id ctx) then Inl (app_error ''TENANT_TOKEN_MISMATCH'' 403)
               else
                 (case (get_user (ac_user_id claims) s, find_membership (ctx_tenant_id ctx) (ac_user_id claims) s) of
                    (Some u, m) \<Rightarrow>
                      if \<not> user_active u \<or> (m = None \<and> \<not> is_platform_admin u) then Inl (app_error ''ACCESS_DENIED'' 403)
                      else Inr \<lparr>pr_user_id = user_id u, pr_tenant_id = Some (ctx_tenant_id ctx),
                                pr_role = map_option mem_role m, pr_platform_admin = is_platform_admin u\<rparr>
                  | (None, m) \<Rightarrow> Inl (app_error ''ACCESS_DENIED'' 403))))"

definition platform_principal ::
  "crypto \<Rightarrow> text_tables \<Rightarrow> settings \<Rightarrow> instant \<Rightarrow> credentials \<Rightarrow> platform_db \<Rightarrow> exn + principal" where
  "platform_principal K U c now credentials s =
     (case claims_of K U c now credentials of
        Inl e \<Rightarrow> Inl e
      | Inr claims \<Rightarrow>
          if \<not> ac_is_platform_admin claims \<or> ac_tenant_id claims \<noteq> None then Inl (app_error ''ACCESS_DENIED'' 403)
          else
            (case get_user (ac_user_id claims) s of
               None \<Rightarrow> Inl (app_error ''ACCESS_DENIED'' 403)
             | Some u \<Rightarrow>
                 if \<not> user_active u \<or> \<not> is_platform_admin u then Inl (app_error ''ACCESS_DENIED'' 403)
                 else Inr \<lparr>pr_user_id = user_id u, pr_tenant_id = None, pr_role = None, pr_platform_admin = True\<rparr>))"

definition require_permission :: "permission \<Rightarrow> principal \<Rightarrow> exn + principal" where
  "require_permission p who =
     (if pr_platform_admin who then Inr who
      else case pr_role who of
             None \<Rightarrow> Inl (app_error ''PERMISSION_DENIED'' 403)
           | Some role \<Rightarrow>
               if role_has_permission role p then Inr who else Inl (app_error ''PERMISSION_DENIED'' 403))"

section \<open>Endpoints\<close>

record login_request =
  login_email :: ustr
  login_password :: ustr

definition validate_login_request :: "login_request \<Rightarrow> bool" where
  "validate_login_request b \<longleftrightarrow> within 8 256 (login_password b)"

definition validate_refresh_request :: "ustr \<Rightarrow> bool" where
  "validate_refresh_request raw \<longleftrightarrow> within 32 512 raw"

definition client_ip_of :: "web_request \<Rightarrow> ustr" where
  "client_ip_of req = or_default (client_host req) (lit ''unknown'')"

definition tenant_login where
  "tenant_login K U c now d req tenant b s =
     (case tenant_context_from_request tenant of
        Inl e \<Rightarrow> (Inl e, s)
      | Inr ctx \<Rightarrow>
          and_then (transaction (authenticate_user K U c now (login_email b) (login_password b) (client_ip_of req) False) s)
            (\<lambda>found s.
               case found of
                 None \<Rightarrow> (Inl (app_error ''INVALID_CREDENTIALS'' 401), s)
               | Some u \<Rightarrow>
                   (case ensure_tenant_access u (ctx_tenant_id ctx) s of
                      Inl e \<Rightarrow> (Inl e, s)
                    | Inr m \<Rightarrow> transaction (issue_pair K c now d u (Some (ctx_tenant_id ctx)) None) s)))"

definition refresh_response :: "(token_pair option \<times> bool, platform_db) outcome \<Rightarrow> (token_pair, platform_db) outcome" where
  "refresh_response out =
     and_then out (\<lambda>(pair, reused) s.
       if reused then (Inl (app_error ''REFRESH_TOKEN_REUSE_DETECTED'' 401), s)
       else case pair of
              None \<Rightarrow> (Inl (PyRuntimeError ''AssertionError''), s)
            | Some p \<Rightarrow> (Inr p, s))"

definition tenant_refresh where
  "tenant_refresh K c now d tenant raw_token s =
     (case tenant_context_from_request tenant of
        Inl e \<Rightarrow> (Inl e, s)
      | Inr ctx \<Rightarrow>
          refresh_response (transaction (rotate_refresh_token K c now d raw_token (Some (ctx_tenant_id ctx))) s))"

text \<open>A failed attempt leaves the transaction normally, so its record is committed.\<close>

definition platform_login where
  "platform_login K U c now d req b s =
     and_then
       (transaction (\<lambda>s.
          and_then (authenticate_user K U c now (login_email b) (login_password b) (client_ip_of req) True s)
            (\<lambda>found s.
               case found of
                 None \<Rightarrow> (Inr None, s)
               | Some u \<Rightarrow> and_then (issue_pair K c now d u None None s) (\<lambda>pair s. (Inr (Some pair), s)))) s)
       (\<lambda>pair s. case pair of None \<Rightarrow> (Inl (app_error ''INVALID_CREDENTIALS'' 401), s) | Some p \<Rightarrow> (Inr p, s))"

definition platform_refresh where
  "platform_refresh K c now d raw_token s =
     refresh_response (transaction (rotate_refresh_token K c now d raw_token None) s)"

text \<open>The endpoints of \<open>platform_router.py\<close> sit behind \<open>platform_principal\<close>.\<close>

definition as_platform ::
  "crypto \<Rightarrow> text_tables \<Rightarrow> settings \<Rightarrow> instant \<Rightarrow> credentials \<Rightarrow> (uuid \<Rightarrow> platform_db \<Rightarrow> ('a, platform_db) outcome)
     \<Rightarrow> platform_db \<Rightarrow> ('a, platform_db) outcome" where
  "as_platform K U c now credentials k s =
     (case platform_principal K U c now credentials s of
        Inl e \<Rightarrow> (Inl e, s)
      | Inr who \<Rightarrow> k (pr_user_id who) s)"

end
