(* ===== verification/PlatformHistory.thy ===== *)
theory PlatformHistory
  imports Auth
begin

text \<open>
  Histories of the platform: every endpoint that changes tenants, domains, features, users,
  memberships or refresh tokens, as an event that runs alone; the invariant of those tables, kept by every event and
  so by every history, and the interpretations of the history locales.
\<close>

section \<open>Events\<close>

record 'ip platform_env =
  env_crypto :: crypto
  env_text :: text_tables
  env_settings :: settings
  env_ip_address :: "ustr \<Rightarrow> 'ip option"
  env_ip_network :: "ustr \<Rightarrow> ('ip \<Rightarrow> bool) option"
  env_argon2 :: "ustr \<Rightarrow> ustr"

datatype platform_action =
    Create_tenant uuid uuid uuid tenant_create
  | Set_tenant_status uuid tenant_status
  | Add_domain uuid uuid domain_create
  | Set_feature uuid ustr feature_update
  | Add_membership uuid uuid membership_create
  | Set_build_config uuid build_config_write

datatype platform_event =
    Platform instant credentials platform_action
  | Bootstrap instant uuid uuid uuid "ustr option" bootstrap_args
  | Tenant_login instant draw web_request login_request
  | Tenant_refresh instant draw web_request ustr
  | Platform_login instant draw web_request login_request
  | Platform_refresh instant draw ustr

text \<open>Bodies that do not validate are answered 422 before the endpoint runs.\<close>

fun run_action :: "'ip platform_env \<Rightarrow> instant \<Rightarrow> platform_action \<Rightarrow> uuid \<Rightarrow> platform_db \<Rightarrow> (unit, platform_db) outcome" where
  "run_action V now (Create_tenant i j k b) actor s =
     (case validate_tenant_create (env_text V) b of
        None \<Rightarrow> (Inl (app_error ''REQUEST_VALIDATION_FAILED'' 422), s)
      | Some b \<Rightarrow> and_then (create_tenant (env_text V) (env_argon2 V) now i j k b s) (\<lambda>_ s. (Inr (), s)))"
| "run_action V now (Set_tenant_status t st) actor s =
     and_then (set_tenant_status t st s) (\<lambda>_ s. (Inr (), s))"
| "run_action V now (Add_domain i t b) actor s =
     (case validate_domain_create (env_text V) b of
        None \<Rightarrow> (Inl (app_error ''REQUEST_VALIDATION_FAILED'' 422), s)
      | Some b \<Rightarrow> and_then (add_domain now i t b s) (\<lambda>_ s. (Inr (), s)))"
| "run_action V now (Set_feature t key b) actor s =
     and_then (set_feature now actor t key b s) (\<lambda>_ s. (Inr (), s))"
| "run_action V now (Add_membership i t b) actor s =
     (if \<not> validate_membership_create b then (Inl (app_error ''REQUEST_VALIDATION_FAILED'' 422), s)
      else and_then (add_membership (env_text V) (env_argon2 V) now i t b s) (\<lambda>_ s. (Inr (), s)))"
| "run_action V now (Set_build_config t b) actor s =
     (if \<not> validate_build_config_write b then (Inl (app_error ''REQUEST_VALIDATION_FAILED'' 422), s)
      else and_then (set_site_build_config now actor t b s) (\<lambda>_ s. (Inr (), s)))"

text \<open>The tenant the middleware finds; a request it refuses reaches no endpoint.\<close>

definition resolved where
  "resolved V req k s =
     (case resolve_tenant (env_text V) (env_ip_address V) (env_ip_network V) (env_settings V) req s of
        Inl e \<Rightarrow> (Inl e, s)
      | Inr tenant \<Rightarrow> k tenant s)"

fun platform_step :: "'ip platform_env \<Rightarrow> platform_event \<Rightarrow> platform_db \<Rightarrow> platform_db" where
  "platform_step V (Platform now cr a) s =
     snd (as_platform (env_crypto V) (env_text V) (env_settings V) now cr (run_action V now a) s)"
| "platform_step V (Bootstrap now i j k password a) s =
     snd (bootstrap (env_text V) (env_argon2 V) now i j k password a s)"
| "platform_step V (Tenant_login now d req b) s =
     (if \<not> validate_login_request b then s
      else snd (resolved V req (\<lambda>tenant. tenant_login (env_crypto V) (env_text V) (env_settings V) now d req tenant b) s))"
| "platform_step V (Tenant_refresh now d req raw) s =
     (if \<not> validate_refresh_request raw then s
      else snd (resolved V req (\<lambda>tenant. tenant_refresh (env_crypto V) (env_settings V) now d tenant raw) s))"
| "platform_step V (Platform_login now d req b) s =
     (if \<not> validate_login_request b then s
      else snd (platform_login (env_crypto V) (env_text V) (env_settings V) now d req b s))"
| "platform_step V (Platform_refresh now d raw) s =
     (if \<not> validate_refresh_request raw then s
      else snd (platform_refresh (env_crypto V) (env_settings V) now d raw s))"

text \<open>A database before its first row.\<close>

definition empty_platform :: platform_db where
  "empty_platform =
     \<lparr>tenants = [], site_states = [], build_configs = [], build_requests = [], audit_log = [],
      tenant_domains = [], tenant_features = [], users = [], memberships = [], refresh_tokens = [],
      authentication_attempts = []\<rparr>"

section \<open>The invariant\<close>

definition tenants_ok :: "tenant list \<Rightarrow> bool" where
  "tenants_ok tns \<longleftrightarrow> distinct (map tenant_id tns) \<and> distinct (map slug tns)"

definition domains_ok :: "tenant list \<Rightarrow> tenant_domain list \<Rightarrow> bool" where
  "domains_ok tns ds \<longleftrightarrow>
     distinct (map hostname ds) \<and> (\<forall>d\<in>set ds. dom_tenant_id d \<in> tenant_id ` set tns)
     \<and> (\<forall>t. count_if (\<lambda>d. dom_tenant_id d = t \<and> is_primary d) ds \<le> 1)"

definition feature_id :: "tenant_feature \<Rightarrow> uuid \<times> ustr" where
  "feature_id f = (tf_tenant_id f, feature_key f)"

definition features_ok :: "tenant list \<Rightarrow> tenant_feature list \<Rightarrow> bool" where
  "features_ok tns fs \<longleftrightarrow>
     distinct (map feature_id fs)
     \<and> (\<forall>tn\<in>set tns. \<forall>key\<in>set FEATURE_KEYS. (tenant_id tn, key) \<in> feature_id ` set fs)"

definition users_ok :: "user list \<Rightarrow> bool" where
  "users_ok us \<longleftrightarrow> distinct (map user_id us) \<and> distinct (map email us)"

definition memberships_ok :: "user list \<Rightarrow> membership list \<Rightarrow> bool" where
  "memberships_ok us ms \<longleftrightarrow>
     distinct (map (\<lambda>m. (mem_tenant_id m, mem_user_id m)) ms) \<and> (\<forall>m\<in>set ms. mem_user_id m \<in> user_id ` set us)"

definition tokens_ok :: "refresh_token list \<Rightarrow> bool" where
  "tokens_ok rs \<longleftrightarrow>
     distinct (map rt_id rs) \<and> distinct (map token_hash rs)"

definition platform_inv :: "platform_db \<Rightarrow> bool" where
  "platform_inv s \<longleftrightarrow>
     tenants_ok (tenants s) \<and> domains_ok (tenants s) (tenant_domains s) \<and> features_ok (tenants s) (tenant_features s)
     \<and> users_ok (users s) \<and> memberships_ok (users s) (memberships s) \<and> tokens_ok (refresh_tokens s)"

lemmas platform_inv_defs = platform_inv_def tenants_ok_def domains_ok_def features_ok_def users_ok_def
  memberships_ok_def tokens_ok_def

lemma empty_platform_inv: "platform_inv empty_platform"
  by (simp add: platform_inv_defs empty_platform_def)

section \<open>Inserts\<close>

lemma insert_unless_Inr [simp]:
  "insert_unless clash r rows = Inr rows' \<longleftrightarrow> (\<forall>x\<in>set rows. \<not> clash r x) \<and> rows' = rows @ [r]"
  by (auto simp: insert_unless_def insert_row_def list_ex_iff)

lemma flush_tenant_Inr:
  "flush_tenant r s = (Inr u, s') \<Longrightarrow>
     (\<forall>x\<in>set (tenants s). \<not> tenant_clash r x) \<and> s' = s\<lparr>tenants := tenants s @ [r]\<rparr>"
  by (auto simp: flush_tenant_def split: if_splits sum.splits)

lemma flush_domain_Inr:
  "flush_domain r s = (Inr u, s') \<Longrightarrow>
     (\<forall>x\<in>set (tenant_domains s). \<not> domain_clash r x) \<and> s' = s\<lparr>tenant_domains := tenant_domains s @ [r]\<rparr>"
  by (auto simp: flush_domain_def split: if_splits sum.splits)

lemma flush_feature_Inr:
  "flush_feature r s = (Inr u, s') \<Longrightarrow>
     feature_id r \<notin> feature_id ` set (tenant_features s) \<and> s' = s\<lparr>tenant_features := tenant_features s @ [r]\<rparr>"
  by (auto simp: flush_feature_def feature_clash_def feature_id_def split: sum.splits)

lemma flush_features_Inr:
  "flush_features rs s = (Inr u, s') \<Longrightarrow> distinct (map feature_id (tenant_features s)) \<Longrightarrow>
     s' = s\<lparr>tenant_features := tenant_features s @ rs\<rparr> \<and> distinct (map feature_id (tenant_features s @ rs))"
proof (induction rs arbitrary: s)
  case (Cons r rs)
  then obtain s1 where "flush_feature r s = (Inr (), s1)" and rest: "flush_features rs s1 = (Inr u, s')"
    by (auto simp: and_then_eq_Inr)
  from flush_feature_Inr [OF this(1)] have s1: "feature_id r \<notin> feature_id ` set (tenant_features s)"
    "s1 = s\<lparr>tenant_features := tenant_features s @ [r]\<rparr>" by auto
  have "distinct (map feature_id (tenant_features s1))"
    using s1 Cons.prems(2) by simp
  from Cons.IH [OF rest this] s1(2) show ?case by simp
qed simp

lemma flush_user_Inr:
  "flush_user r s = (Inr u, s') \<Longrightarrow>
     (\<forall>x\<in>set (users s). \<not> user_clash r x) \<and> s' = s\<lparr>users := users s @ [r]\<rparr>"
  by (auto simp: flush_user_def split: if_splits sum.splits)

lemma flush_membership_Inr:
  "flush_membership r s = (Inr u, s') \<Longrightarrow>
     (\<forall>x\<in>set (memberships s). \<not> membership_clash r x) \<and> s' = s\<lparr>memberships := memberships s @ [r]\<rparr>"
  by (auto simp: flush_membership_def split: sum.splits)

lemma find_userD: "find_user a s = Some u \<Longrightarrow> u \<in> set (users s) \<and> email u = a"
  by (auto simp: find_user_def dest!: scalar_Some_in)

lemma get_userD: "get_user i s = Some u \<Longrightarrow> u \<in> set (users s) \<and> user_id u = i"
  by (auto simp: get_user_def dest!: scalar_Some_in)

lemma get_tenantD: "get_tenant t s = Some tn \<Longrightarrow> tn \<in> set (tenants s) \<and> tenant_id tn = t"
  by (auto simp: get_tenant_def dest!: scalar_Some_in)

lemma find_tokenD: "find_token h s = Some r \<Longrightarrow> r \<in> set (refresh_tokens s) \<and> token_hash r = h"
  by (auto simp: find_token_def dest!: scalar_Some_in)

lemma inv_add_user:
  assumes "flush_user r s = (Inr u, s')" "platform_inv s"
  shows "platform_inv s' \<and> s' = s\<lparr>users := users s @ [r]\<rparr>"
proof -
  from flush_user_Inr [OF assms(1)] have clash: "user_id r \<notin> user_id ` set (users s)" "email r \<notin> email ` set (users s)"
    and s': "s' = s\<lparr>users := users s @ [r]\<rparr>"
    by (auto simp: user_clash_def)
  have "users_ok (users s')"
    using assms(2) clash by (simp add: s' platform_inv_def users_ok_def)
  moreover have "memberships_ok (users s') (memberships s')"
    using assms(2) by (auto simp: s' platform_inv_def memberships_ok_def)
  ultimately show ?thesis
    using assms(2) by (simp add: s' platform_inv_def)
qed

lemma inv_add_membership:
  assumes "flush_membership r s = (Inr u, s')" "platform_inv s" "mem_user_id r \<in> user_id ` set (users s)"
  shows "platform_inv s'"
proof -
  from flush_membership_Inr [OF assms(1)] have
    clash: "(mem_tenant_id r, mem_user_id r) \<notin> (\<lambda>m. (mem_tenant_id m, mem_user_id m)) ` set (memberships s)"
    and s': "s' = s\<lparr>memberships := memberships s @ [r]\<rparr>"
    by (auto simp: membership_clash_def)
  have "memberships_ok (users s') (memberships s')"
    using assms(2,3) clash by (simp add: s' platform_inv_def memberships_ok_def)
  with assms(2) show ?thesis
    by (simp add: s' platform_inv_def)
qed

lemma initial_features_keys:
  "key \<in> set FEATURE_KEYS \<Longrightarrow> (t, key) \<in> feature_id ` set (initial_features t)"
  by (force simp: initial_features_def feature_id_def)

lemma inv_new_tenant:
  assumes run: "new_tenant_rows now j tn h s = (Inr u, s')" and inv: "platform_inv s"
  shows "platform_inv s' \<and> users s' = users s"
proof -
  let ?d = "\<lparr>dom_id = j, dom_tenant_id = tenant_id tn, hostname = h, is_primary = True, dom_active = True, dom_created_at = now\<rparr>"
  let ?s1 = "s\<lparr>tenants := tenants s @ [tn]\<rparr>"
  let ?s2 = "?s1\<lparr>tenant_domains := tenant_domains s @ [?d]\<rparr>"
  from run obtain s1 s2 where
    tn: "flush_tenant tn s = (Inr (), s1)" and d: "flush_domain ?d s1 = (Inr (), s2)"
    and fs: "flush_features (initial_features (tenant_id tn)) s2 = (Inr u, s')"
    by (auto simp: new_tenant_rows_def and_then_eq_Inr)
  from flush_tenant_Inr [OF tn] flush_domain_Inr [OF d] have
    clash: "\<forall>x\<in>set (tenants s). \<not> tenant_clash tn x" "\<forall>x\<in>set (tenant_domains s). \<not> domain_clash ?d x"
    and s2: "s2 = ?s2" by auto
  have "distinct (map feature_id (tenant_features s2))"
    using inv by (simp add: s2 platform_inv_defs)
  from flush_features_Inr [OF fs this] have
    s': "s' = ?s2\<lparr>tenant_features := tenant_features s @ initial_features (tenant_id tn)\<rparr>"
    and feats: "distinct (map feature_id (tenant_features s @ initial_features (tenant_id tn)))"
    by (simp_all add: s2)
  have fresh: "tenant_id tn \<notin> tenant_id ` set (tenants s)" "slug tn \<notin> slug ` set (tenants s)"
    "h \<notin> hostname ` set (tenant_domains s)"
    using clash by (auto simp: tenant_clash_def domain_clash_def)
  have none: "count_if (\<lambda>d. dom_tenant_id d = tenant_id tn \<and> is_primary d) (tenant_domains s) = 0"
    unfolding count_if_zero_iff
  proof (intro ballI)
    fix d assume "d \<in> set (tenant_domains s)"
    then have "dom_tenant_id d \<in> tenant_id ` set (tenants s)"
      using inv by (simp add: platform_inv_def domains_ok_def)
    with fresh(1) show "\<not> (dom_tenant_id d = tenant_id tn \<and> is_primary d)" by metis
  qed
  have "tenants_ok (tenants s')"
    using inv fresh by (auto simp: s' platform_inv_def tenants_ok_def)
  moreover have "domains_ok (tenants s') (tenant_domains s')"
    using inv fresh none by (auto simp: s' platform_inv_def domains_ok_def)
  moreover have "features_ok (tenants s') (tenant_features s')"
    using inv feats initial_features_keys by (simp add: s' platform_inv_def features_ok_def image_Un)
  ultimately show ?thesis
    using inv by (simp add: platform_inv_def s')
qed

lemma user_for_inv:
  assumes "user_for i a hashed s = (Inr u, s')" "platform_inv s"
  shows "platform_inv s' \<and> u \<in> set (users s')"
proof (cases "find_user a s")
  case (Some v)
  with assms find_userD [OF Some] show ?thesis by (simp add: user_for_def)
next
  case None
  with assms(1) have "flush_user u s = (Inr (), s')"
    by (auto simp: user_for_def Let_def and_then_eq_Inr split: sum.splits)
  from inv_add_user [OF this assms(2)] show ?thesis by auto
qed

section \<open>Every operation keeps it\<close>

lemma create_tenant_inv:
  assumes "platform_inv s"
  shows "platform_inv (snd (create_tenant U hash now i j k b s))"
proof -
  have "platform_inv s2"
    if new: "new_tenant_rows now j tn h s = (Inr u, s1)"
      and user: "user_for k a f s1 = (Inr v, s3)"
      and mem: "flush_membership \<lparr>mem_tenant_id = i, mem_user_id = user_id v, mem_role = TENANT_ADMIN, mem_created_at = now\<rparr> s3
          = (Inr w, s2)" for tn h u s1 a f v s3 w s2
  proof -
    from inv_new_tenant [OF new assms] user_for_inv [OF user] have "platform_inv s3" "v \<in> set (users s3)" by auto
    then show ?thesis
      by (intro inv_add_membership [OF mem]) auto
  qed
  then show ?thesis
    unfolding create_tenant_def Let_def
    using inv_new_tenant [OF _ assms]
    by (auto simp: assms and_then_eq_Inr split: option.splits if_splits intro!: transaction_inv [where I = platform_inv])
qed

lemma domains_ok_cong: "tenant_id ` set tns = tenant_id ` set tns' \<Longrightarrow> domains_ok tns ds = domains_ok tns' ds"
  by (simp add: domains_ok_def)

lemma set_status_inv:
  assumes "platform_inv s"
  shows "platform_inv (snd (set_tenant_status t st s))"
proof (cases "get_tenant t s")
  case None
  with assms show ?thesis by (simp add: set_tenant_status_def with_tenant_def require_tenant_def)
next
  case (Some tn)
  let ?tns = "map (\<lambda>x. if tenant_id x = t then tn\<lparr>tenant_status := st\<rparr> else x) (tenants s)"
  have tn: "tn \<in> set (tenants s)" "tenant_id tn = t"
    using get_tenantD [OF Some] by auto
  have same: "x = tn" if "x \<in> set (tenants s)" "tenant_id x = t" for x
    using assms that tn by (auto simp: platform_inv_def tenants_ok_def distinct_map dest: inj_onD)
  have ids: "map tenant_id ?tns = map tenant_id (tenants s)" and slugs: "map slug ?tns = map slug (tenants s)"
    using same tn by auto
  have "tenants_ok ?tns"
    using assms ids slugs unfolding platform_inv_def tenants_ok_def by (simp only:)
  moreover have "tenant_id ` set ?tns = tenant_id ` set (tenants s)"
    using arg_cong [OF ids, of set] by (simp only: set_map)
  from domains_ok_cong [OF this] have "domains_ok ?tns (tenant_domains s)"
    using assms by (simp only: platform_inv_def)
  moreover have "features_ok ?tns (tenant_features s)"
    using assms tn by (auto simp: platform_inv_def features_ok_def)
  ultimately show ?thesis
    using assms by (simp add: set_tenant_status_def with_tenant_def require_tenant_def Some transaction_def Let_def platform_inv_def)
qed

lemma with_tenant_inv:
  assumes "platform_inv s" "\<And>tn. tn \<in> set (tenants s) \<Longrightarrow> tenant_id tn = t \<Longrightarrow> platform_inv (snd (k tn s))"
  shows "platform_inv (snd (with_tenant t k s))"
  using assms by (auto simp: with_tenant_def require_tenant_def split: option.splits dest!: get_tenantD)

lemma add_domain_inv:
  assumes inv: "platform_inv s"
  shows "platform_inv (snd (add_domain now i t b s))"
  unfolding add_domain_def Let_def new_domain_def
proof (rule with_tenant_inv [OF inv], unfold on_integrity_error_snd, rule transaction_inv [where I = platform_inv, OF inv],
    goal_cases)
  case (1 tn x s')
  let ?ds = "if dc_is_primary b
    then map (\<lambda>x. if dom_tenant_id x = t then x\<lparr>is_primary := False\<rparr> else x) (tenant_domains s) else tenant_domains s"
  let ?d = "\<lparr>dom_id = i, dom_tenant_id = t, hostname = dc_hostname b, is_primary = dc_is_primary b, dom_active = True,
    dom_created_at = now\<rparr>"
  from 1(3) have "\<forall>x\<in>set ?ds. \<not> domain_clash ?d x" and s': "s' = s\<lparr>tenant_domains := ?ds @ [?d]\<rparr>"
    by (auto simp: demote_domains_def and_then_eq_Inr dest!: flush_domain_Inr split: if_splits)
  then have fresh: "dc_hostname b \<notin> set (map hostname ?ds)"
    by (auto simp: domain_clash_def)
  have names: "map hostname ?ds = map hostname (tenant_domains s)"
    by auto
  have "map dom_tenant_id ?ds = map dom_tenant_id (tenant_domains s)"
    by auto
  from arg_cong [OF this, of set] have owners: "dom_tenant_id ` set ?ds = dom_tenant_id ` set (tenant_domains s)"
    by (simp only: set_map)
  have primaries: "count_if (\<lambda>d. dom_tenant_id d = u \<and> is_primary d) (?ds @ [?d]) \<le> 1" for u
  proof -
    have old: "count_if (\<lambda>d. dom_tenant_id d = u \<and> is_primary d) (tenant_domains s) \<le> 1"
      using inv by (simp add: platform_inv_def domains_ok_def)
    show ?thesis
    proof (cases "dc_is_primary b")
      case True
      have "count_if (\<lambda>d. dom_tenant_id d = u \<and> is_primary d) ?ds
          = (if u = t then 0 else count_if (\<lambda>d. dom_tenant_id d = u \<and> is_primary d) (tenant_domains s))"
        using True by (auto simp: count_if_map o_def count_if_zero_iff intro!: count_if_cong)
      with old True show ?thesis by simp
    qed (use old in simp)
  qed
  have "dom_tenant_id d \<in> tenant_id ` set (tenants s)" if "d \<in> set ?ds" for d
    using inv owners imageI [OF that, of dom_tenant_id] by (auto simp only: platform_inv_def domains_ok_def)
  then have "domains_ok (tenants s) (?ds @ [?d])"
    using inv 1(1,2) fresh names primaries unfolding platform_inv_def domains_ok_def by (auto simp del: map_map)
  with inv show ?case
    by (simp add: s' platform_inv_def)
qed

text \<open>Audit entries and build rows are outside the invariant.\<close>

lemma platform_inv_audited [simp]: "platform_inv (audited now actor t a e m s) = platform_inv s"
  by (simp add: audited_def platform_inv_def)

lemma platform_inv_config [simp]: "platform_inv (write_build_config cur now actor cf s) = platform_inv s"
  by (simp add: write_build_config_def Let_def platform_inv_def split: option.split)

lemma features_ok_cong: "map feature_id fs = map feature_id fs' \<Longrightarrow> features_ok tns fs = features_ok tns fs'"
  by (simp only: features_ok_def set_map [symmetric])

lemma set_feature_inv:
  assumes inv: "platform_inv s"
  shows "platform_inv (snd (set_feature now actor t key b s))"
proof (cases "validate_feature_key key")
  case (Inl e)
  with inv show ?thesis by (simp add: set_feature_def)
next
  case (Inr v)
  let ?row = "\<lparr>tf_tenant_id = t, feature_key = key, tf_enabled = fu_enabled b, tf_configuration = fu_configuration b\<rparr>"
  have insert: "platform_inv s'" if "flush_feature ?row s = (Inr u, s')" for u s'
  proof -
    from flush_feature_Inr [OF that] have clash: "feature_id ?row \<notin> feature_id ` set (tenant_features s)"
      and s': "s' = s\<lparr>tenant_features := tenant_features s @ [?row]\<rparr>" by auto
    have "features_ok (tenants s') (tenant_features s')"
      using inv clash by (simp add: s' platform_inv_def features_ok_def image_Un)
    with inv show ?thesis by (simp add: s' platform_inv_def)
  qed
  have update: "platform_inv (s\<lparr>tenant_features := update_where tf_tenant_id (tenant_session t) (\<lambda>f. feature_key f = key)
      (\<lambda>_. ?row) (tenant_features s)\<rparr>)"
  proof -
    have "map feature_id (update_where tf_tenant_id (tenant_session t) (\<lambda>f. feature_key f = key) (\<lambda>_. ?row) (tenant_features s))
        = map feature_id (tenant_features s)"
      by (simp add: update_where_def feature_id_def)
    from features_ok_cong [OF this] show ?thesis
      using inv by (simp add: platform_inv_def)
  qed
  show ?thesis
    unfolding set_feature_def Inr Let_def
    using insert update
    by (auto intro!: with_tenant_inv [OF inv] transaction_inv [where I = platform_inv, OF inv]
        simp: and_then_eq_Inr split: list.splits)
qed

lemma add_membership_inv:
  assumes inv: "platform_inv s"
  shows "platform_inv (snd (add_membership U hash now i t b s))"
  unfolding add_membership_def
proof (rule with_tenant_inv [OF inv], unfold on_integrity_error_snd, rule transaction_inv [where I = platform_inv, OF inv],
    goal_cases)
  case (1 tn x s')
  then obtain u s1 v where
    user: "user_for i (casefold U (mc_email b)) (\<lambda>_. case mc_password b of
        None \<Rightarrow> Inl (app_error ''USER_PASSWORD_REQUIRED'' 400) | Some p \<Rightarrow> Inr (hash p)) s = (Inr u, s1)"
    and mem: "flush_membership \<lparr>mem_tenant_id = t, mem_user_id = user_id u, mem_role = mc_role b, mem_created_at = now\<rparr> s1
      = (Inr v, s')"
    by (auto simp: and_then_eq_Inr)
  from user_for_inv [OF user inv] show ?case
    by (intro inv_add_membership [OF mem]) auto
qed

lemma set_config_inv:
  assumes inv: "platform_inv s"
  shows "platform_inv (snd (set_site_build_config now actor t b s))"
  unfolding set_site_build_config_def Let_def
  by (auto intro!: with_tenant_inv [OF inv] transaction_inv [where I = platform_inv, OF inv] simp: inv split: if_splits)

lemma users_ok_map:
  assumes "users_ok us" "u \<in> set us" "user_id u' = user_id u" "email u' = email u"
  shows "map user_id (map (\<lambda>x. if user_id x = user_id u' then u' else x) us) = map user_id us"
    "map email (map (\<lambda>x. if user_id x = user_id u' then u' else x) us) = map email us"
  using assms by (auto simp: users_ok_def distinct_map dest: inj_onD)

lemma bootstrap_user:
  assumes inv: "platform_inv s" and u: "u \<in> set (users s)" and u': "user_id u' = user_id u" "email u' = email u"
  shows "platform_inv (s\<lparr>users := map (\<lambda>x. if user_id x = user_id u' then u' else x) (users s)\<rparr>)
    \<and> u' \<in> set (map (\<lambda>x. if user_id x = user_id u' then u' else x) (users s))"
proof -
  have ok: "users_ok (users s)" using inv by (simp add: platform_inv_def)
  note ids = users_ok_map [OF ok u u']
  from arg_cong [OF ids(1), of set] have "user_id ` set (map (\<lambda>x. if user_id x = user_id u' then u' else x) (users s)) = user_id ` set (users s)"
    by (simp only: set_map)
  then have "memberships_ok (map (\<lambda>x. if user_id x = user_id u' then u' else x) (users s)) (memberships s)"
    using inv by (simp add: platform_inv_def memberships_ok_def)
  moreover have "users_ok (map (\<lambda>x. if user_id x = user_id u' then u' else x) (users s))"
    using ok ids unfolding users_ok_def by (simp only:)
  ultimately show ?thesis
    using inv u u'(1) by (force simp: platform_inv_def)
qed

lemma bootstrap_admin_inv:
  assumes inv: "platform_inv s" and run: "bootstrap_admin U hash k e p s = (Inr u, s')"
  shows "platform_inv s' \<and> u \<in> set (users s')"
proof (cases "find_user (casefold U e) s")
  case None
  with run have "flush_user u s = (Inr (), s')"
    by (auto simp: bootstrap_admin_def Let_def and_then_eq_Inr)
  from inv_add_user [OF this inv] show ?thesis by auto
next
  case (Some v)
  with run have "u = v\<lparr>is_platform_admin := True, user_active := True\<rparr>"
    "s' = s\<lparr>users := map (\<lambda>x. if user_id x = user_id u then u else x) (users s)\<rparr>"
    by (auto simp: bootstrap_admin_def Let_def)
  with bootstrap_user [OF inv conjunct1 [OF find_userD [OF Some]], of u] show ?thesis by simp
qed

lemma bootstrap_tenant_inv:
  assumes inv: "platform_inv s" and u: "u \<in> set (users s)" and run: "bootstrap_tenant U now i j a u s = (Inr x, s')"
  shows "platform_inv s'"
proof -
  have "platform_inv s'"
    if "new_tenant_rows now j tn h s = (Inr v, s1)"
      "flush_membership \<lparr>mem_tenant_id = i, mem_user_id = user_id u, mem_role = TENANT_ADMIN, mem_created_at = now\<rparr> s1 = (Inr x, s')"
    for tn h v s1
    using inv_new_tenant [OF that(1) inv] u by (intro inv_add_membership [OF that(2)]) auto
  with run inv show ?thesis
    by (auto simp: bootstrap_tenant_def Let_def and_then_eq_Inr split: option.splits if_splits sum.splits)
qed

lemma bootstrap_inv:
  assumes inv: "platform_inv s"
  shows "platform_inv (snd (bootstrap U hash now i j k password a s))"
proof -
  have "platform_inv s'"
    if "bootstrap_admin U hash k e p s = (Inr u, s1)" "bootstrap_tenant U now i j a u s1 = (Inr x, s')" for e p u s1 x s'
    using bootstrap_admin_inv [OF inv that(1)] bootstrap_tenant_inv [OF _ _ that(2)] by blast
  then show ?thesis
    using inv by (auto simp: bootstrap_def and_then_eq_Inr split: option.splits intro!: transaction_inv [where I = platform_inv])
qed

section \<open>Sessions\<close>

text \<open>Attempts are outside the invariant; the operations on tokens change nothing else.\<close>

lemma authenticate_user_cases:
  assumes "authenticate_user K U c now e p ip only s = (Inr found, s')"
  shows "s' = s\<lparr>authentication_attempts := insert_row
      \<lparr>scope_hash = auth_scope K U c e ip, succeeded = found \<noteq> None, attempted_at = now\<rparr> (authentication_attempts s)\<rparr>"
    "failures_since (auth_scope K U c e ip) (now - seconds (authentication_window_seconds c)) s < authentication_max_attempts c"
    "found = Some u \<Longrightarrow> u \<in> set (users s) \<and> user_active u \<and> email u = casefold U e
       \<and> (only \<longrightarrow> is_platform_admin u) \<and> verify_password (argon2_check K) (password_hash u) p"
  using assms
  by (auto simp: authenticate_user_def enforce_rate_limit_def Let_def valid_login_def split: sum.splits if_splits option.splits
      dest!: find_userD)

lemma platform_inv_attempts [simp]: "platform_inv (s\<lparr>authentication_attempts := x\<rparr>) = platform_inv s"
  by (simp add: platform_inv_def)

lemma issue_pair_Inr:
  "issue_pair K c now d u t f s = (Inr pair, s') \<longleftrightarrow>
     (\<forall>x\<in>set (refresh_tokens s). \<not> token_clash (issued K c now d u t f) x)
     \<and> s' = s\<lparr>refresh_tokens := refresh_tokens s @ [issued K c now d u t f]\<rparr>
     \<and> pair = \<lparr>access_token = fst (create_access_token (jwt_encoder K) c now (new_jti d) (user_id u) t (is_platform_admin u)),
        refresh_token_text = new_raw d, expires_in = access_token_ttl_seconds c\<rparr>"
  by (auto simp: issue_pair_def and_then_eq_Inr flush_token_def insert_unless_def insert_row_def list_ex_iff)

lemma tokens_ok_insert:
  "\<forall>x\<in>set rs. \<not> token_clash r x \<Longrightarrow> tokens_ok rs \<Longrightarrow> tokens_ok (rs @ [r])"
  by (auto simp: tokens_ok_def token_clash_def)

lemma tokens_ok_map:
  assumes "\<And>r. rt_id (f r) = rt_id r \<and> token_hash (f r) = token_hash r"
  shows "tokens_ok (map f rs) = tokens_ok rs"
  using assms by (simp add: tokens_ok_def o_def)

lemma tokens_ok_unique: "tokens_ok rs \<Longrightarrow> x \<in> set rs \<Longrightarrow> y \<in> set rs \<Longrightarrow> rt_id x = rt_id y \<Longrightarrow> x = y"
  by (auto simp: tokens_ok_def distinct_map dest: inj_onD)

lemma tokens_ok_save:
  assumes "tokens_ok (refresh_tokens s)" "x \<in> set (refresh_tokens s)" "rt_id r = rt_id x" "token_hash r = token_hash x"
  shows "tokens_ok (refresh_tokens (save_token r s))"
proof -
  have "map rt_id (refresh_tokens (save_token r s)) = map rt_id (refresh_tokens s)"
    by (auto simp: save_token_def)
  moreover have "map token_hash (refresh_tokens (save_token r s)) = map token_hash (refresh_tokens s)"
    using assms tokens_ok_unique [OF assms(1) _ assms(2)] by (auto simp: save_token_def)
  ultimately show ?thesis
    using assms(1) unfolding tokens_ok_def by (simp only:)
qed

text \<open>What a successful rotation did, and what a replay does.\<close>

lemma rotate_Inr:
  assumes "rotate_refresh_token K c now d raw t s = (Inr out, s')"
  obtains
    (reused) stored where "find_token (token_digest K raw) s = Some stored" "now < rt_expires_at stored"
      "rt_tenant_id stored = t" "revoked_at stored \<noteq> None" "out = (None, True)"
      "s' = revoke_family now (family_id stored) s"
  | (rotated) stored u pair s1 new where "find_token (token_digest K raw) s = Some stored" "now < rt_expires_at stored"
      "rt_tenant_id stored = t" "revoked_at stored = None" "out = (Some pair, False)"
      "get_user (rt_user_id stored) s = Some u" "user_active u"
      "issue_pair K c now d u t (Some (family_id stored)) (save_token (stored\<lparr>revoked_at := Some now\<rparr>) s) = (Inr pair, s1)"
      "s' = save_token (stored\<lparr>revoked_at := Some now, replaced_by_id := new\<rparr>) s1"
proof (cases "find_token (token_digest K raw) s")
  case None
  with assms show thesis by (simp add: rotate_refresh_token_def)
next
  case (Some stored)
  show thesis
  proof (cases "revoked_at stored")
    case revoked: (Some at)
    with Some assms show thesis
      by (intro reused [of stored]) (auto simp: rotate_refresh_token_def split: if_splits)
  next
    case None
    with Some assms obtain u where u: "get_user (rt_user_id stored) s = Some u" "user_active u"
      and ok: "now < rt_expires_at stored" "rt_tenant_id stored = t"
      by (auto simp: rotate_refresh_token_def not_le split: if_splits option.splits)
    with Some None assms obtain pair s1 new where
      "issue_pair K c now d u t (Some (family_id stored)) (save_token (stored\<lparr>revoked_at := Some now\<rparr>) s) = (Inr pair, s1)"
      "out = (Some pair, False)" "s' = save_token (stored\<lparr>revoked_at := Some now, replaced_by_id := new\<rparr>) s1"
      by (auto simp: rotate_refresh_token_def Let_def and_then_eq_Inr not_le)
    with Some None u ok show thesis by (intro rotated)
  qed
qed

lemma save_token_fields [simp]:
  "tenants (save_token r s) = tenants s" "users (save_token r s) = users s" "memberships (save_token r s) = memberships s"
  "tenant_domains (save_token r s) = tenant_domains s" "tenant_features (save_token r s) = tenant_features s"
  "authentication_attempts (save_token r s) = authentication_attempts s"
  by (simp_all add: save_token_def)

lemma inv_token: "platform_inv s \<Longrightarrow> tokens_ok x \<Longrightarrow> platform_inv (s\<lparr>refresh_tokens := x\<rparr>)"
  by (simp add: platform_inv_def)

lemma inv_save_token:
  assumes "platform_inv s" "x \<in> set (refresh_tokens s)" "rt_id r = rt_id x" "token_hash r = token_hash x"
  shows "platform_inv (save_token r s)"
  using tokens_ok_save [OF _ assms(2-4)] assms(1) by (simp add: platform_inv_def)

lemma inv_issue:
  assumes "issue_pair K c now d u t f s = (Inr pair, s')" "platform_inv s"
  shows "platform_inv s'"
  using assms tokens_ok_insert by (simp add: issue_pair_Inr platform_inv_def)

lemma in_save_token:
  assumes "x \<in> set (refresh_tokens s)" "rt_id r = rt_id x"
  shows "r \<in> set (refresh_tokens (save_token r s))"
  using assms by (force simp: save_token_def)

lemma rotation_inv:
  assumes run: "rotate_refresh_token K c now d raw t s = (Inr out, s')" and inv: "platform_inv s"
  shows "platform_inv s'"
  using run
proof (cases rule: rotate_Inr)
  case (reused stored)
  have "tokens_ok (refresh_tokens s')"
    using inv unfolding reused(6) revoke_family_def by (simp add: tokens_ok_map platform_inv_def)
  with inv show ?thesis
    by (simp add: reused(6) revoke_family_def platform_inv_def)
next
  case (rotated stored u pair s1 new)
  note stored = find_tokenD [OF rotated(1)]
  let ?r = "stored\<lparr>revoked_at := Some now\<rparr>"
  have "platform_inv (save_token ?r s)"
    using stored by (intro inv_save_token [OF inv, of stored]) auto
  from inv_issue [OF rotated(8) this] have s1: "platform_inv s1" .
  have "?r \<in> set (refresh_tokens s1)"
    using in_save_token [OF conjunct1 [OF stored], of ?r] rotated(8) by (simp add: issue_pair_Inr)
  from inv_save_token [OF s1 this, of "?r\<lparr>replaced_by_id := new\<rparr>"] show ?thesis
    by (simp add: rotated(9))
qed

lemma refresh_response_snd [simp]: "snd (refresh_response out) = snd out"
  by (auto simp: refresh_response_def and_then_def split: prod.splits sum.splits option.splits)

lemma attempt_inv:
  assumes "platform_inv s" "transaction (authenticate_user K U c now e p ip only) s = (out, s')"
  shows "platform_inv s'"
  using assms transaction_inv [where I = platform_inv, OF assms(1), of "authenticate_user K U c now e p ip only"]
    authenticate_user_cases(1) [of K U c now e p ip only s] by force

lemma issue_commit_inv:
  assumes "platform_inv s"
  shows "platform_inv (snd (transaction (issue_pair K c now d u t f) s))"
  by (rule transaction_inv [where I = platform_inv, OF assms], rule inv_issue [OF _ assms])

lemma rotate_commit_inv:
  assumes "platform_inv s"
  shows "platform_inv (snd (refresh_response (transaction (rotate_refresh_token K c now d raw t) s)))"
  unfolding refresh_response_snd
  by (rule transaction_inv [where I = platform_inv, OF assms], rule rotation_inv [OF _ assms])

lemma tenant_login_inv:
  assumes inv: "platform_inv s"
  shows "platform_inv (snd (tenant_login K U c now d req tenant b s))"
proof (cases tenant)
  case None
  with inv show ?thesis by (simp add: tenant_login_def tenant_context_from_request_def)
next
  case (Some ctx)
  obtain out s1 where tr: "transaction (authenticate_user K U c now (login_email b) (login_password b) (client_ip_of req) False) s
      = (out, s1)" by fastforce
  from attempt_inv [OF inv tr] Some tr show ?thesis
    by (cases out) (auto simp: tenant_login_def tenant_context_from_request_def issue_commit_inv split: option.splits sum.splits)
qed

lemma platform_login_inv:
  assumes inv: "platform_inv s"
  shows "platform_inv (snd (platform_login K U c now d req b s))"
proof -
  let ?body = "\<lambda>s. and_then (authenticate_user K U c now (login_email b) (login_password b) (client_ip_of req) True s)
      (\<lambda>found s. case found of None \<Rightarrow> (Inr None, s)
         | Some u \<Rightarrow> and_then (issue_pair K c now d u None None s) (\<lambda>pair s. (Inr (Some pair), s)))"
  have "platform_inv (snd (transaction ?body s))"
  proof (rule transaction_inv [where I = platform_inv, OF inv], goal_cases)
    case (1 x s')
    then obtain found s1 where a: "authenticate_user K U c now (login_email b) (login_password b) (client_ip_of req) True s
        = (Inr found, s1)" and rest: "(case found of None \<Rightarrow> (Inr None, s1)
         | Some u \<Rightarrow> and_then (issue_pair K c now d u None None s1) (\<lambda>pair s. (Inr (Some pair), s))) = (Inr x, s')"
      by (auto simp: and_then_eq_Inr)
    have "platform_inv s1"
      using inv by (simp add: authenticate_user_cases(1) [OF a])
    with rest inv_issue show ?case
      by (cases found) (auto simp: and_then_eq_Inr)
  qed
  moreover have "snd (platform_login K U c now d req b s) = snd (transaction ?body s)"
    by (auto simp: platform_login_def and_then_def split: prod.splits sum.splits option.splits)
  ultimately show ?thesis by simp
qed

lemma refresh_inv:
  assumes "platform_inv s"
  shows "platform_inv (snd (tenant_refresh K c now d tenant raw s))" "platform_inv (snd (platform_refresh K c now d raw s))"
  using assms rotate_commit_inv [OF assms] by (auto simp: tenant_refresh_def platform_refresh_def split: sum.split)

lemma snd_unit [simp]: "snd (and_then out (\<lambda>_ s. (Inr (), s))) = snd out"
  by (auto simp: and_then_def split: prod.splits sum.splits)

lemma platform_step_inv:
  assumes inv: "platform_inv s"
  shows "platform_inv (platform_step V e s)"
proof (cases e)
  case (Platform now cr a)
  have "platform_inv (snd (run_action V now a actor s))" for actor
    by (cases a) (auto simp: inv create_tenant_inv set_status_inv add_domain_inv set_feature_inv
        add_membership_inv set_config_inv split: option.splits)
  with inv Platform show ?thesis by (simp add: as_platform_def split: sum.splits)
qed (use inv in \<open>auto simp: bootstrap_inv tenant_login_inv platform_login_inv refresh_inv resolved_def split: sum.splits\<close>)

interpretation platform: inductive_invariant "platform_step V" "\<lambda>s e. True" platform_inv for V
  by unfold_locales (simp add: platform_step_inv)

lemma reachable_platform_inv: "platform_inv (run (platform_step V) es empty_platform)"
  by (rule platform.inv_run [OF empty_platform_inv legal_always])

end
