(* ===== verification/PlatformProperties.thy ===== *)
theory PlatformProperties
  imports PlatformHistory Samples
begin

text \<open>
  What holds in every history of the platform: the tables stay consistent, identities are never
  taken over, failed logins stay below the limit in every window, a refresh-token family has one
  live token and none after a replay. And what single requests get: which tenant a request resolves
  to, whom the authorisation dependencies let through, and that a new tenant's administrator can log in.
\<close>

section \<open>What a step does to users, attempts and tokens\<close>

text \<open>Outside \<open>bootstrap\<close>, users are only added, and none of them as platform administrator.\<close>

definition plain_users_added :: "platform_db \<Rightarrow> platform_db \<Rightarrow> bool" where
  "plain_users_added s s' \<longleftrightarrow> (\<exists>new. users s' = users s @ new \<and> list_all (\<lambda>u. \<not> is_platform_admin u) new)"

lemma added_refl [simp]: "plain_users_added s s"
  by (simp add: plain_users_added_def)

lemma added_same: "users s' = users s \<Longrightarrow> plain_users_added s s'"
  by (simp add: plain_users_added_def)

lemma added_trans: "plain_users_added s s1 \<Longrightarrow> plain_users_added s1 s2 \<Longrightarrow> plain_users_added s s2"
  by (auto simp: plain_users_added_def)

lemma added_transaction:
  "(\<And>x s'. body s = (Inr x, s') \<Longrightarrow> plain_users_added s s') \<Longrightarrow> plain_users_added s (snd (transaction body s))"
  by (rule transaction_inv [where I = "plain_users_added s"]) auto

lemma flush_features_users: "flush_features fs s = (Inr u, s') \<Longrightarrow> users s' = users s \<and> refresh_tokens s' = refresh_tokens s
    \<and> authentication_attempts s' = authentication_attempts s"
  by (induction fs arbitrary: s) (fastforce simp: and_then_eq_Inr dest!: flush_feature_Inr)+

text \<open>Tables a statement does not name stay as they are.\<close>

definition auth_tables where
  "auth_tables s = (users s, refresh_tokens s, authentication_attempts s)"

lemma new_tenant_tables: "new_tenant_rows now j tn h s = (Inr u, s') \<Longrightarrow> auth_tables s' = auth_tables s"
  by (auto simp: new_tenant_rows_def and_then_eq_Inr auth_tables_def
      dest!: flush_tenant_Inr flush_domain_Inr flush_features_users)

lemma user_for_added:
  assumes "user_for i a hashed s = (Inr u, s')"
  shows "plain_users_added s s' \<and> refresh_tokens s' = refresh_tokens s \<and> authentication_attempts s' = authentication_attempts s"
  using assms
  by (auto simp: user_for_def Let_def and_then_eq_Inr plain_users_added_def split: option.splits sum.splits dest!: flush_user_Inr)

definition sessions_kept :: "platform_db \<Rightarrow> platform_db \<Rightarrow> bool" where
  "sessions_kept s s' \<longleftrightarrow> refresh_tokens s' = refresh_tokens s \<and> authentication_attempts s' = authentication_attempts s"

lemma sessions_kept_refl [simp]: "sessions_kept s s"
  by (simp add: sessions_kept_def)

definition plain_edit :: "platform_db \<Rightarrow> platform_db \<Rightarrow> bool" where
  "plain_edit s s' \<longleftrightarrow> plain_users_added s s' \<and> sessions_kept s s'"

lemma plain_edit_refl [simp]: "plain_edit s s"
  by (simp add: plain_edit_def)

lemma plain_edit_tables: "auth_tables s' = auth_tables s \<Longrightarrow> plain_edit s s'"
  by (auto simp: plain_edit_def auth_tables_def sessions_kept_def plain_users_added_def)

lemma plain_edit_trans: "plain_edit s s1 \<Longrightarrow> plain_edit s1 s2 \<Longrightarrow> plain_edit s s2"
  by (auto simp: plain_edit_def sessions_kept_def intro: added_trans)

lemma plain_edit_transaction:
  "(\<And>x s'. body s = (Inr x, s') \<Longrightarrow> plain_edit s s') \<Longrightarrow> plain_edit s (snd (transaction body s))"
  by (rule transaction_inv [where I = "plain_edit s"]) auto

lemma plain_edit_commit:
  "(\<And>x s'. body s = (Inr x, s') \<Longrightarrow> auth_tables s' = auth_tables s) \<Longrightarrow> plain_edit s (snd (transaction body s))"
  by (blast intro: plain_edit_transaction plain_edit_tables)

lemma plain_edit_user_for: "user_for i a hashed s = (Inr u, s') \<Longrightarrow> plain_edit s s'"
  using user_for_added by (auto simp: plain_edit_def sessions_kept_def)

lemma plain_edit_membership: "flush_membership r s = (Inr u, s') \<Longrightarrow> plain_edit s s'"
  by (rule plain_edit_tables) (auto simp: auth_tables_def dest!: flush_membership_Inr)

lemma plain_edit_with_tenant: "(\<And>tn. plain_edit s (snd (k tn s))) \<Longrightarrow> plain_edit s (snd (with_tenant t k s))"
  by (simp add: with_tenant_def split: sum.splits)

lemma run_action_edit: "plain_edit s (snd (run_action V now a actor s))"
proof (cases a)
  case (Create_tenant i j k b)
  have "plain_edit s s'"
    if "new_tenant_rows now j tn h s = (Inr u, s1)" "user_for k e f s1 = (Inr v, s2)" "flush_membership r s2 = (Inr w, s')"
    for tn h u s1 e f v s2 r w s'
    using plain_edit_tables [OF new_tenant_tables [OF that(1)]] plain_edit_user_for [OF that(2)] plain_edit_membership [OF that(3)]
    by (blast intro: plain_edit_trans)
  moreover have "plain_edit s s'" if "new_tenant_rows now j tn h s = (Inr u, s')" for tn h u s'
    by (rule plain_edit_tables [OF new_tenant_tables [OF that]])
  ultimately show ?thesis
    by (auto simp: Create_tenant create_tenant_def Let_def and_then_eq_Inr split: option.splits if_splits intro!: plain_edit_transaction)
next
  case (Set_tenant_status t st)
  show ?thesis
    by (auto simp: Set_tenant_status set_tenant_status_def Let_def auth_tables_def
        intro!: plain_edit_with_tenant plain_edit_commit)
next
  case (Add_domain i t b)
  show ?thesis
    by (auto simp: Add_domain add_domain_def demote_domains_def Let_def auth_tables_def and_then_eq_Inr dest!: flush_domain_Inr
        intro!: plain_edit_with_tenant plain_edit_commit split: option.splits if_splits)
next
  case (Set_feature t key b)
  show ?thesis
    by (auto simp: Set_feature set_feature_def Let_def auth_tables_def audited_def and_then_eq_Inr dest!: flush_feature_Inr
        intro!: plain_edit_with_tenant plain_edit_commit split: sum.splits list.splits)
next
  case (Add_membership i t b)
  have "plain_edit s s'" if "user_for k e f s = (Inr v, s2)" "flush_membership r s2 = (Inr w, s')" for k e f v s2 r w s'
    using plain_edit_user_for [OF that(1)] plain_edit_membership [OF that(2)] by (rule plain_edit_trans)
  then show ?thesis
    by (auto simp: Add_membership add_membership_def Let_def and_then_eq_Inr
        intro!: plain_edit_with_tenant plain_edit_transaction)
next
  case (Set_build_config t b)
  show ?thesis
    by (auto simp: Set_build_config set_site_build_config_def write_build_config_def Let_def auth_tables_def
        intro!: plain_edit_with_tenant plain_edit_commit split: if_splits option.splits)
qed

lemma as_platform_edit: "(\<And>actor. plain_edit s (snd (k actor s))) \<Longrightarrow> plain_edit s (snd (as_platform K U c now cr k s))"
  by (simp add: as_platform_def split: sum.splits)

lemma bootstrap_sessions: "sessions_kept s (snd (bootstrap U hash now i j k password a s))"
proof -
  have admin: "sessions_kept s s1" if "bootstrap_admin U hash k e p s = (Inr u, s1)" for e p u s1
    using that by (auto simp: bootstrap_admin_def Let_def and_then_eq_Inr sessions_kept_def split: option.splits dest!: flush_user_Inr)
  have tenant: "sessions_kept s1 s2" if "bootstrap_tenant U now i j a u s1 = (Inr x, s2)" for u s1 x s2
    using that by (auto simp: bootstrap_tenant_def Let_def and_then_eq_Inr sessions_kept_def auth_tables_def
        split: option.splits if_splits sum.splits dest!: new_tenant_tables flush_membership_Inr)
  show ?thesis
    using transaction_inv [where I = "sessions_kept s"] admin tenant
    by (auto simp: bootstrap_def and_then_eq_Inr sessions_kept_def split: option.splits intro!: transaction_inv [where I = "sessions_kept s", unfolded sessions_kept_def])
qed

text \<open>A login that is counted was below the limit; it may add one token, of a new family.\<close>

definition login_effect :: "crypto \<Rightarrow> settings \<Rightarrow> instant \<Rightarrow> draw \<Rightarrow> platform_db \<Rightarrow> platform_db \<Rightarrow> bool" where
  "login_effect K c now d s s' \<longleftrightarrow> s' = s \<or>
     users s' = users s
     \<and> (\<exists>scope ok. failures_since scope (now - seconds (authentication_window_seconds c)) s < authentication_max_attempts c
          \<and> authentication_attempts s' =
              authentication_attempts s @ [\<lparr>scope_hash = scope, succeeded = ok, attempted_at = now\<rparr>])
     \<and> (refresh_tokens s' = refresh_tokens s \<or>
        (\<exists>u t. refresh_tokens s' = refresh_tokens s @ [issued K c now d u t None]))"

lemma attempt_effect:
  assumes "authenticate_user K U c now e p ip only s = (Inr found, s1)"
  shows "login_effect K c now d s s1"
  using authenticate_user_cases(1,2) [OF assms] by (auto simp: login_effect_def insert_row_def)

lemma issued_effect:
  assumes a: "authenticate_user K U c now e p ip only s = (Inr found, s1)" and i: "issue_pair K c now d u t None s1 = (Inr pair, s2)"
  shows "login_effect K c now d s s2"
proof -
  note a1 = authenticate_user_cases(1,2) [OF a]
  from i have "s2 = s1\<lparr>refresh_tokens := refresh_tokens s1 @ [issued K c now d u t None]\<rparr>"
    by (simp add: issue_pair_Inr)
  with a1 show ?thesis
    by (auto simp: login_effect_def insert_row_def)
qed

lemma login_effect_refl [simp]: "login_effect K c now d s s"
  by (simp add: login_effect_def)

lemma tenant_login_effect: "login_effect K c now d s (snd (tenant_login K U c now d req tenant b s))"
proof (cases tenant)
  case None
  then show ?thesis by (simp add: tenant_login_def tenant_context_from_request_def)
next
  case (Some ctx)
  let ?a = "authenticate_user K U c now (login_email b) (login_password b) (client_ip_of req) False"
  show ?thesis
  proof (cases rule: transaction_cases [of ?a s])
    case (rolled_back e)
    with Some show ?thesis by (simp add: tenant_login_def tenant_context_from_request_def)
  next
    case (committed found s1)
    note a = committed(2)
    show ?thesis
    proof (cases "\<exists>u m. found = Some u \<and> ensure_tenant_access u (ctx_tenant_id ctx) s1 = Inr m")
      case False
      then have "snd (tenant_login K U c now d req tenant b s) = s1"
        using Some committed(1)
        by (cases found) (auto simp: tenant_login_def tenant_context_from_request_def split: sum.split)
      with attempt_effect [OF a] show ?thesis by simp
    next
      case True
      then obtain u m where u: "found = Some u" "ensure_tenant_access u (ctx_tenant_id ctx) s1 = Inr m" by auto
      then have step: "tenant_login K U c now d req tenant b s
          = transaction (issue_pair K c now d u (Some (ctx_tenant_id ctx)) None) s1"
        using Some committed(1) by (simp add: tenant_login_def tenant_context_from_request_def)
      show ?thesis
        unfolding step
        by (rule transaction_inv [where I = "login_effect K c now d s", OF attempt_effect [OF a]], rule issued_effect [OF a])
    qed
  qed
qed

lemma platform_login_effect: "login_effect K c now d s (snd (platform_login K U c now d req b s))"
proof -
  let ?body = "\<lambda>s. and_then (authenticate_user K U c now (login_email b) (login_password b) (client_ip_of req) True s)
      (\<lambda>found s. case found of None \<Rightarrow> (Inr None, s)
         | Some u \<Rightarrow> and_then (issue_pair K c now d u None None s) (\<lambda>pair s. (Inr (Some pair), s)))"
  have "login_effect K c now d s (snd (transaction ?body s))"
  proof (rule transaction_inv [where I = "login_effect K c now d s", OF login_effect_refl], goal_cases)
    case (1 x s')
    then obtain found s1 where a: "authenticate_user K U c now (login_email b) (login_password b) (client_ip_of req) True s
        = (Inr found, s1)" and rest: "(case found of None \<Rightarrow> (Inr None, s1)
         | Some u \<Rightarrow> and_then (issue_pair K c now d u None None s1) (\<lambda>pair s. (Inr (Some pair), s))) = (Inr x, s')"
      by (auto simp: and_then_eq_Inr)
    show ?case
    proof (cases found)
      case None
      with rest attempt_effect [OF a] show ?thesis by simp
    next
      case (Some u)
      with rest obtain pair where "issue_pair K c now d u None None s1 = (Inr pair, s')"
        by (auto simp: and_then_eq_Inr)
      from issued_effect [OF a this] show ?thesis .
    qed
  qed
  moreover have "snd (platform_login K U c now d req b s) = snd (transaction ?body s)"
    by (auto simp: platform_login_def and_then_def split: prod.splits sum.splits option.splits)
  ultimately show ?thesis by simp
qed

text \<open>A refresh does nothing or one rotation.\<close>

definition rotation_effect :: "crypto \<Rightarrow> settings \<Rightarrow> instant \<Rightarrow> draw \<Rightarrow> ustr \<Rightarrow> platform_db \<Rightarrow> platform_db \<Rightarrow> bool" where
  "rotation_effect K c now d raw s s' \<longleftrightarrow>
     s' = s \<or> (\<exists>t out. rotate_refresh_token K c now d raw t s = (Inr out, s'))"

lemma refresh_effect:
  "rotation_effect K c now d raw s (snd (tenant_refresh K c now d tenant raw s))"
  "rotation_effect K c now d raw s (snd (platform_refresh K c now d raw s))"
proof -
  have "rotation_effect K c now d raw s (snd (transaction (rotate_refresh_token K c now d raw t) s))" for t
    by (rule transaction_inv [where I = "rotation_effect K c now d raw s"]) (auto simp: rotation_effect_def)
  then show "rotation_effect K c now d raw s (snd (tenant_refresh K c now d tenant raw s))"
    "rotation_effect K c now d raw s (snd (platform_refresh K c now d raw s))"
    by (auto simp: tenant_refresh_def platform_refresh_def rotation_effect_def split: sum.split)
qed

lemma rotation_others:
  "rotation_effect K c now d raw s s' \<Longrightarrow>
     users s' = users s \<and> authentication_attempts s' = authentication_attempts s"
  by (auto simp: rotation_effect_def revoke_family_def issue_pair_Inr elim!: rotate_Inr)

lemma platform_step_cases:
  obtains
    (edit) "plain_edit s (platform_step V e s)" "\<And>now i j k p a. e \<noteq> Bootstrap now i j k p a"
  | (boot) now i j k p a where "e = Bootstrap now i j k p a" "sessions_kept s (platform_step V e s)"
  | (login) now d req b where "e = Tenant_login now d req b \<or> e = Platform_login now d req b"
      "login_effect (env_crypto V) (env_settings V) now d s (platform_step V e s)"
  | (refresh) now d req raw where "e = Tenant_refresh now d req raw \<or> e = Platform_refresh now d raw"
      "rotation_effect (env_crypto V) (env_settings V) now d raw s (platform_step V e s)"
proof (cases e)
  case (Platform now cr a)
  then show thesis
    by (intro edit) (auto intro: as_platform_edit run_action_edit)
next
  case (Bootstrap now i j k p a)
  then show thesis using bootstrap_sessions by (intro boot) auto
next
  case (Tenant_login now d req b)
  then show thesis
    using tenant_login_effect by (intro login [of now d req b]) (auto simp: resolved_def split: sum.splits)
next
  case (Tenant_refresh now d req raw)
  then show thesis
    using refresh_effect by (intro refresh [of now d req raw]) (auto simp: resolved_def rotation_effect_def split: sum.splits)
next
  case (Platform_login now d req b)
  then show thesis
    using platform_login_effect by (intro login [of now d req b]) auto
next
  case (Platform_refresh now d raw)
  then show thesis
    using refresh_effect by (intro refresh [of now d undefined raw]) (auto simp: rotation_effect_def)
qed

section \<open>Tables and identities\<close>

text \<open>C17: platform_tables_consistent. After every history of platform administration, bootstraps, logins
  and refreshes that do not overlap, from an empty database: slugs, hostnames, e-mail addresses, memberships and token
  digests are unique, every domain belongs to a tenant, a tenant has at most one primary domain and a
  row for every feature key, and every member is a user.\<close>

theorem platform_tables_consistent:
  "platform_inv (run (platform_step V) es empty_platform)"
  by (rule reachable_platform_inv)

text \<open>
  Histories are sequences of requests that do not overlap. Two primary domains that are added at the same
  time both stay primary: the code has no lock, and no index, that keeps them apart.
\<close>

lemma demoted:
  assumes "dc_is_primary b" "d \<in> set (tenant_domains (demote_domains t b s))" "dom_tenant_id d = t"
  shows "\<not> is_primary d"
proof -
  from assms(1,2) obtain x where d: "d = (if dom_tenant_id x = t then x\<lparr>is_primary := False\<rparr> else x)"
    unfolding demote_domains_def by fastforce
  with assms(3) show ?thesis by (cases "dom_tenant_id x = t") simp_all
qed

lemma concurrent_primaries:
  assumes "overlapping_additions (now, i, b) (now', j, b') t s = (Inr u, s')" "dc_is_primary b" "dc_is_primary b'"
  shows "count_if (\<lambda>d. dom_tenant_id d = t \<and> is_primary d) (tenant_domains s') = 2" "\<not> platform_inv s'"
proof -
  let ?ds = "tenant_domains (demote_domains t b' (demote_domains t b s))"
  obtain u1 s1 where first: "flush_domain (new_domain now i t b) (demote_domains t b' (demote_domains t b s)) = (Inr u1, s1)"
    and second: "flush_domain (new_domain now' j t b') s1 = (Inr u, s')"
    using assms(1) unfolding overlapping_additions_def prod.case and_then_eq_Inr by blast
  have "tenant_domains s' = ?ds @ [new_domain now i t b, new_domain now' j t b']"
    using flush_domain_Inr [OF first, THEN conjunct2] flush_domain_Inr [OF second, THEN conjunct2] by simp
  moreover have "count_if (\<lambda>d. dom_tenant_id d = t \<and> is_primary d) ?ds = 0"
    unfolding count_if_zero_iff
  proof (intro ballI notI, elim conjE)
    fix d assume "d \<in> set ?ds" "dom_tenant_id d = t" "is_primary d"
    with demoted [OF assms(3)] show False by blast
  qed
  ultimately show *: "count_if (\<lambda>d. dom_tenant_id d = t \<and> is_primary d) (tenant_domains s') = 2"
    using assms(2,3) by (simp add: new_domain_def)
  show "\<not> platform_inv s'"
  proof
    assume "platform_inv s'"
    then have "count_if (\<lambda>d. dom_tenant_id d = t \<and> is_primary d) (tenant_domains s') \<le> 1"
      by (simp add: platform_inv_def domains_ok_def)
    with * show False by simp
  qed
qed

lemma concurrent_primaries_exist:
  "\<exists>s'. overlapping_additions (1, 2, \<lparr>dc_hostname = lit ''a.org'', dc_is_primary = True\<rparr>)
     (1, 3, \<lparr>dc_hostname = lit ''b.org'', dc_is_primary = True\<rparr>) 1 empty_platform = (Inr (), s')"
  by (simp add: overlapping_additions_def flush_domain_def demote_domains_def new_domain_def empty_platform_def
      insert_unless_def insert_row_def domain_clash_def and_then_def)

fun is_bootstrap :: "platform_event \<Rightarrow> bool" where
  "is_bootstrap (Bootstrap now i j k p a) = True"
| "is_bootstrap e = False"

lemma step_adds_users: "\<not> is_bootstrap e \<Longrightarrow> plain_users_added s (platform_step V e s)"
proof (cases rule: platform_step_cases [of s V e])
  case (login now d req b)
  then show ?thesis by (auto simp: login_effect_def intro: added_same)
next
  case (refresh now d req raw)
  then show ?thesis using rotation_others by (blast intro: added_same)
qed (auto simp: plain_edit_def)

text \<open>C18: identities_never_taken_over. No request to the control plane or the data plane alters an
  existing user (e-mail address, password, activity, platform rights) or creates a platform
  administrator: whatever such requests follow, the users of before are still the first rows of the table
  and the added ones are not platform administrators. Only the bootstrap command grants platform rights.\<close>

theorem identities_never_taken_over:
  "\<exists>new. users (run (platform_step V) (filter (\<lambda>e. \<not> is_bootstrap e) es) s) = users s @ new
     \<and> list_all (\<lambda>u. \<not> is_platform_admin u) new"
proof -
  have "plain_users_added s (run (platform_step V) (filter (\<lambda>e. \<not> is_bootstrap e) es) s)"
    by (induction es arbitrary: s) (auto intro: added_trans [OF step_adds_users])
  then show ?thesis by (simp add: plain_users_added_def)
qed

section \<open>The login rate limit\<close>

definition failures_between :: "ustr \<Rightarrow> instant \<Rightarrow> instant \<Rightarrow> platform_db \<Rightarrow> nat" where
  "failures_between scope since until s =
     count_if (\<lambda>a. scope_hash a = scope \<and> since \<le> attempted_at a \<and> attempted_at a \<le> until \<and> \<not> succeeded a)
       (authentication_attempts s)"

definition login_limit_holds :: "settings \<Rightarrow> platform_db \<Rightarrow> bool" where
  "login_limit_holds c s \<longleftrightarrow>
     (\<forall>scope until. failures_between scope (until - seconds (authentication_window_seconds c)) until s
        \<le> authentication_max_attempts c)"

fun event_now :: "platform_event \<Rightarrow> instant" where
  "event_now (Platform now cr a) = now"
| "event_now (Bootstrap now i j k p a) = now"
| "event_now (Tenant_login now d req b) = now"
| "event_now (Tenant_refresh now d req raw) = now"
| "event_now (Platform_login now d req b) = now"
| "event_now (Platform_refresh now d raw) = now"

text \<open>The clock has not run backwards since the recorded attempts.\<close>

definition clock_monotone :: "platform_db \<Rightarrow> platform_event \<Rightarrow> bool" where
  "clock_monotone s e \<longleftrightarrow> list_all (\<lambda>a. attempted_at a \<le> event_now e) (authentication_attempts s)"

lemma login_limit_same: "authentication_attempts s' = authentication_attempts s \<Longrightarrow> login_limit_holds c s \<Longrightarrow> login_limit_holds c s'"
  by (simp add: login_limit_holds_def failures_between_def)

lemma login_limit_attempt:
  assumes lim: "login_limit_holds c s" and clock: "list_all (\<lambda>a. attempted_at a \<le> now) (authentication_attempts s)"
    and free: "failures_since scope (now - seconds (authentication_window_seconds c)) s < authentication_max_attempts c"
    and s': "authentication_attempts s' = authentication_attempts s @ [\<lparr>scope_hash = scope, succeeded = ok, attempted_at = now\<rparr>]"
  shows "login_limit_holds c s'"
  unfolding login_limit_holds_def
proof (intro allI)
  fix other until
  let ?w = "seconds (authentication_window_seconds c)"
  have old: "failures_between other (until - ?w) until s \<le> authentication_max_attempts c"
    using lim by (simp add: login_limit_holds_def)
  show "failures_between other (until - ?w) until s' \<le> authentication_max_attempts c"
  proof (cases "scope = other \<and> until - ?w \<le> now \<and> now \<le> until \<and> \<not> ok")
    case False
    then have "failures_between other (until - ?w) until s' = failures_between other (until - ?w) until s"
      by (auto simp: failures_between_def s')
    with old show ?thesis by simp
  next
    case True
    have "failures_between other (until - ?w) until s \<le> failures_since scope (now - ?w) s"
      unfolding failures_between_def failures_since_def using True by (intro count_if_mono) auto
    with free True show ?thesis
      by (simp add: failures_between_def s')
  qed
qed

interpretation logins: inductive_invariant "platform_step V" clock_monotone "login_limit_holds (env_settings V)" for V
proof unfold_locales
  fix s e
  assume lim: "login_limit_holds (env_settings V) s" and clock: "clock_monotone s e"
  show "login_limit_holds (env_settings V) (platform_step V e s)"
  proof (cases rule: platform_step_cases [of s V e])
    case edit
    with lim show ?thesis
      by (intro login_limit_same [OF _ lim]) (simp add: plain_edit_def sessions_kept_def)
  next
    case (boot now i j k p a)
    then show ?thesis
      by (intro login_limit_same [OF _ lim]) (simp add: sessions_kept_def)
  next
    case (login now d req b)
    then have "list_all (\<lambda>a. attempted_at a \<le> now) (authentication_attempts s)"
      using clock by (auto simp: clock_monotone_def)
    with login(2) lim show ?thesis
      unfolding login_effect_def by (elim disjE conjE exE) (auto intro: login_limit_attempt [OF lim])
  next
    case (refresh now d req raw)
    then show ?thesis
      using rotation_others by (blast intro: login_limit_same [OF _ lim])
  qed
qed

text \<open>C19: failed_logins_bounded. In every history whose clock does not run backwards, and for every window
  of the configured length at any time, at most \<open>authentication_max_attempts\<close> failed logins of one e-mail
  address from one client address are recorded: further guesses are refused before any password is
  checked, on both planes together.\<close>

theorem failed_logins_bounded:
  assumes "legal (platform_step V) clock_monotone es empty_platform"
  shows "failures_between (auth_scope (env_crypto V) (env_text V) (env_settings V) login_address ip)
      (until - seconds (authentication_window_seconds (env_settings V))) until
      (run (platform_step V) es empty_platform) \<le> authentication_max_attempts (env_settings V)"
proof -
  have "login_limit_holds (env_settings V) empty_platform"
    by (simp add: login_limit_holds_def failures_between_def empty_platform_def)
  from logins.inv_run [OF this assms] show ?thesis
    by (simp add: login_limit_holds_def)
qed

section \<open>Refresh-token families\<close>

text \<open>The rows of a family that are not revoked.\<close>

definition live_tokens :: "uuid \<Rightarrow> platform_db \<Rightarrow> nat" where
  "live_tokens f s = count_if (\<lambda>r. family_id r = f \<and> revoked_at r = None) (refresh_tokens s)"

definition families_ok :: "platform_db \<Rightarrow> bool" where
  "families_ok s \<longleftrightarrow> (\<forall>f. live_tokens f s \<le> 1)"

text \<open>A login draws a family identifier that no token has.\<close>

fun fresh_family :: "platform_db \<Rightarrow> platform_event \<Rightarrow> bool" where
  "fresh_family s (Tenant_login now d req b) \<longleftrightarrow> new_family d \<notin> family_id ` set (refresh_tokens s)"
| "fresh_family s (Platform_login now d req b) \<longleftrightarrow> new_family d \<notin> family_id ` set (refresh_tokens s)"
| "fresh_family s e \<longleftrightarrow> True"

lemma live_tokens_same: "refresh_tokens s' = refresh_tokens s \<Longrightarrow> live_tokens f s' = live_tokens f s"
  by (simp add: live_tokens_def)

lemma live_tokens_issued:
  "refresh_tokens s' = refresh_tokens s @ [issued K c now d u t fam] \<Longrightarrow>
     live_tokens f s' = live_tokens f s + (if f = or_default fam (new_family d) then 1 else 0)"
  by (simp add: live_tokens_def issued_def)

lemma live_tokens_revoked: "live_tokens f (revoke_family now g s) = (if f = g then 0 else live_tokens f s)"
proof -
  let ?f = "\<lambda>r. if family_id r = g \<and> revoked_at r = None then r\<lparr>revoked_at := Some now\<rparr> else r"
  let ?live = "\<lambda>r. family_id r = f \<and> revoked_at r = None"
  have "(?live \<circ> ?f) = (\<lambda>r. f \<noteq> g \<and> ?live r)"
    by (auto simp: fun_eq_iff)
  from count_if_map [of ?live ?f "refresh_tokens s", unfolded this]
  show ?thesis
    by (simp add: live_tokens_def revoke_family_def count_if_zero_iff)
qed

lemma no_live_iff: "live_tokens f s = 0 \<longleftrightarrow> (\<forall>r\<in>set (refresh_tokens s). family_id r = f \<longrightarrow> revoked_at r \<noteq> None)"
  by (auto simp: live_tokens_def count_if_zero_iff)

lemma count_if_replace:
  "distinct (map k xs) \<Longrightarrow> x \<in> set xs \<Longrightarrow>
     count_if P (map (\<lambda>y. if k y = k x then z else y) xs) + (if P x then 1 else 0)
       = count_if P xs + (if P z then 1 else 0)"
proof (induction xs)
  case (Cons y ys)
  show ?case
  proof (cases "y = x")
    case True
    have "map (\<lambda>y. if k y = k x then z else y) ys = ys"
      using Cons.prems(1) True by (intro map_idI) (auto simp: image_iff)
    with True show ?thesis by simp
  next
    case False
    then have "x \<in> set ys" "k y \<noteq> k x"
      using Cons.prems by auto
    with Cons show ?thesis by simp
  qed
qed simp

lemma live_tokens_saved:
  assumes ok: "tokens_ok (refresh_tokens s)" and x: "x \<in> set (refresh_tokens s)" and r: "rt_id r = rt_id x" "family_id r = family_id x"
    and revoked: "revoked_at r \<noteq> None"
  shows "live_tokens f (save_token r s) + (if f = family_id x \<and> revoked_at x = None then 1 else 0) = live_tokens f s"
proof -
  have d: "distinct (map rt_id (refresh_tokens s))"
    using ok by (simp add: tokens_ok_def)
  from count_if_replace [OF d x, of "\<lambda>r. family_id r = f \<and> revoked_at r = None" r] revoked show ?thesis
    unfolding live_tokens_def save_token_def r(1) by (simp add: eq_commute [of f])
qed

text \<open>A rotation moves the live token on, a replay leaves the family none.\<close>

lemma rotation_live:
  assumes run: "rotate_refresh_token K c now d raw t s = (Inr out, s')" and ok: "tokens_ok (refresh_tokens s)"
  shows "live_tokens f s' \<le> live_tokens f s"
  using run
proof (cases rule: rotate_Inr)
  case (reused stored)
  then show ?thesis by (simp add: live_tokens_revoked)
next
  case (rotated stored u pair s1 new)
  note stored = find_tokenD [OF rotated(1)]
  let ?r = "stored\<lparr>revoked_at := Some now\<rparr>" and ?s = "save_token (stored\<lparr>revoked_at := Some now\<rparr>) s"
  have ok1: "tokens_ok (refresh_tokens ?s)"
    using stored by (intro tokens_ok_save [OF ok, of stored]) auto
  from rotated(8) have clash: "\<forall>x\<in>set (refresh_tokens ?s). \<not> token_clash (issued K c now d u t (Some (family_id stored))) x"
    and s1: "refresh_tokens s1 = refresh_tokens ?s @ [issued K c now d u t (Some (family_id stored))]"
    by (simp_all add: issue_pair_Inr)
  have ok2: "tokens_ok (refresh_tokens s1)"
    unfolding s1 by (rule tokens_ok_insert [OF clash ok1])
  have "?r \<in> set (refresh_tokens s1)"
    using in_save_token [OF conjunct1 [OF stored], of ?r] s1 by simp
  from live_tokens_saved [OF ok2 this, of "?r\<lparr>replaced_by_id := new\<rparr>" f]
  have "live_tokens f s' = live_tokens f s1"
    by (simp add: rotated(9))
  also have "\<dots> = live_tokens f ?s + (if f = family_id stored then 1 else 0)"
    using live_tokens_issued [OF s1] by simp
  also have "\<dots> = live_tokens f s"
    using live_tokens_saved [OF ok conjunct1 [OF stored], of ?r f] rotated(4) by simp
  finally show ?thesis by simp
qed

lemma step_live:
  assumes inv: "platform_inv s" and fresh: "fresh_family s e"
  shows "live_tokens f (platform_step V e s) \<le> live_tokens f s
    \<or> f \<notin> family_id ` set (refresh_tokens s) \<and> live_tokens f (platform_step V e s) \<le> 1"
proof (cases rule: platform_step_cases [of s V e])
  case edit
  then have "refresh_tokens (platform_step V e s) = refresh_tokens s"
    by (simp add: plain_edit_def sessions_kept_def)
  from live_tokens_same [OF this] show ?thesis by simp
next
  case (boot now i j k p a)
  then have "refresh_tokens (platform_step V e s) = refresh_tokens s"
    by (simp add: sessions_kept_def)
  from live_tokens_same [OF this] show ?thesis by simp
next
  case (login now d req b)
  then have new: "new_family d \<notin> family_id ` set (refresh_tokens s)"
    using fresh by auto
  from login(2) consider "refresh_tokens (platform_step V e s) = refresh_tokens s"
    | u t where "refresh_tokens (platform_step V e s) = refresh_tokens s @ [issued (env_crypto V) (env_settings V) now d u t None]"
    by (auto simp: login_effect_def)
  then show ?thesis
  proof cases
    case 1
    from live_tokens_same [OF this] show ?thesis by simp
  next
    case (2 u t)
    have "live_tokens (new_family d) s = 0"
      unfolding no_live_iff using new by (metis image_eqI)
    with live_tokens_issued [OF 2, of f] new show ?thesis by auto
  qed
next
  case (refresh now d req raw)
  then show ?thesis
    using rotation_live inv by (auto simp: rotation_effect_def platform_inv_def)
qed

lemma step_families:
  assumes "platform_inv s" "fresh_family s e" "families_ok s"
  shows "families_ok (platform_step V e s)"
  using step_live [OF assms(1,2), of _ V] assms(3) unfolding families_ok_def by (meson le_trans)

interpretation families: inductive_invariant "platform_step V" fresh_family "\<lambda>s. platform_inv s \<and> families_ok s" for V
  by unfold_locales (simp add: platform_step_inv step_families)

text \<open>C20: one_live_token_per_family. In every history in which logins draw new family identifiers, a
  refresh-token family never holds two tokens that are not revoked: refreshing moves the one live token
  on.\<close>

theorem one_live_token_per_family:
  assumes "legal (platform_step V) fresh_family es empty_platform"
  shows "live_tokens f (run (platform_step V) es empty_platform) \<le> 1"
proof -
  have "platform_inv empty_platform \<and> families_ok empty_platform"
    using empty_platform_inv by (simp add: families_ok_def live_tokens_def empty_platform_def)
  from families.inv_run [OF this assms] show ?thesis
    by (simp add: families_ok_def)
qed

text \<open>Families are never forgotten.\<close>

lemma rotation_families:
  assumes run: "rotate_refresh_token K c now d raw t s = (Inr out, s')" and ok: "tokens_ok (refresh_tokens s)"
  shows "family_id ` set (refresh_tokens s) \<subseteq> family_id ` set (refresh_tokens s')"
  using run
proof (cases rule: rotate_Inr)
  case (reused stored)
  have "map family_id (refresh_tokens s') = map family_id (refresh_tokens s)"
    by (simp add: reused(6) revoke_family_def)
  from arg_cong [OF this, of set] show ?thesis by (simp only: set_map)
next
  case (rotated stored u pair s1 new)
  note stored = find_tokenD [OF rotated(1)]
  let ?r = "stored\<lparr>revoked_at := Some now\<rparr>" and ?s = "save_token (stored\<lparr>revoked_at := Some now\<rparr>) s"
  have same: "x = stored" if "x \<in> set (refresh_tokens s)" "rt_id x = rt_id stored" for x
    using tokens_ok_unique [OF ok that(1) conjunct1 [OF stored] that(2)] .
  have "map family_id (refresh_tokens ?s) = map family_id (refresh_tokens s)"
    using same by (auto simp: save_token_def)
  from arg_cong [OF this, of set] have fam: "family_id ` set (refresh_tokens ?s) = family_id ` set (refresh_tokens s)"
    by (simp only: set_map)
  from rotated(8) have clash: "\<forall>x\<in>set (refresh_tokens ?s). \<not> token_clash (issued K c now d u t (Some (family_id stored))) x"
    and s1: "refresh_tokens s1 = refresh_tokens ?s @ [issued K c now d u t (Some (family_id stored))]"
    by (simp_all add: issue_pair_Inr)
  have ok1: "tokens_ok (refresh_tokens ?s)"
    using stored by (intro tokens_ok_save [OF ok, of stored]) auto
  have ok2: "tokens_ok (refresh_tokens s1)"
    unfolding s1 by (rule tokens_ok_insert [OF clash ok1])
  have mem: "?r \<in> set (refresh_tokens s1)"
    using in_save_token [OF conjunct1 [OF stored], of ?r] s1 by simp
  have "map family_id (refresh_tokens s') = map family_id (refresh_tokens s1)"
    using tokens_ok_unique [OF ok2 _ mem] by (auto simp: rotated(9) save_token_def)
  from arg_cong [OF this, of set] show ?thesis
    using fam by (auto simp only: set_map s1 set_append)
qed

lemma step_families_kept: "platform_inv s \<Longrightarrow> family_id ` set (refresh_tokens s) \<subseteq> family_id ` set (refresh_tokens (platform_step V e s))"
proof (cases rule: platform_step_cases [of s V e])
  case (refresh now d req raw)
  assume "platform_inv s"
  then have ok: "tokens_ok (refresh_tokens s)" by (simp add: platform_inv_def)
  from refresh(2) rotation_families [OF _ ok] show ?thesis
    unfolding rotation_effect_def by (metis order_refl)
qed (auto simp: plain_edit_def sessions_kept_def login_effect_def)

interpretation dead_family: inductive_invariant "platform_step V" fresh_family
  "\<lambda>s. platform_inv s \<and> f \<in> family_id ` set (refresh_tokens s) \<and> live_tokens f s = 0" for V f
proof unfold_locales
  fix s e
  assume inv: "platform_inv s \<and> f \<in> family_id ` set (refresh_tokens s) \<and> live_tokens f s = 0"
    and fresh: "fresh_family s e"
  from step_families_kept inv have "f \<in> family_id ` set (refresh_tokens (platform_step V e s))" by blast
  moreover from step_live [OF conjunct1 [OF inv] fresh, of f V] inv have "live_tokens f (platform_step V e s) = 0" by simp
  ultimately show "platform_inv (platform_step V e s) \<and> f \<in> family_id ` set (refresh_tokens (platform_step V e s))
      \<and> live_tokens f (platform_step V e s) = 0"
    using inv by (simp add: platform_step_inv)
qed

text \<open>No rotation starts from a family without live tokens.\<close>

lemma dead_refused:
  assumes "live_tokens f s = 0" "find_token (token_digest K raw) s = Some r" "family_id r = f"
  shows "fst (tenant_refresh K c now d tenant raw s) \<noteq> Inr pair"
proof -
  have "revoked_at r \<noteq> None"
    using assms find_tokenD [OF assms(2)] by (auto simp: no_live_iff)
  with assms(2) have "rotate_refresh_token K c now d raw t s \<noteq> (Inr (Some p, b), s')" for t p b s'
    by (auto simp: rotate_refresh_token_def)
  then show ?thesis
    by (auto simp: tenant_refresh_def refresh_response_def and_then_def transaction_def
        split: sum.splits prod.splits option.splits if_splits)
qed

text \<open>C21: replay_ends_family. When a refresh token that was already used is presented again at its tenant
  before it expires, the answer is 401 \<open>REFRESH_TOKEN_REUSE_DETECTED\<close>, the whole family is revoked and
  stays so: in every continuation by requests that do not overlap, whoever holds whichever token of the family (the thief
  or the owner) gets no new pair for it.\<close>

theorem replay_ends_family:
  assumes "find_token (token_digest (env_crypto V) raw) (run (platform_step V) es empty_platform) = Some stored"
    and "revoked_at stored \<noteq> None" "now < rt_expires_at stored" "rt_tenant_id stored = Some (ctx_tenant_id ctx)"
    and "legal (platform_step V) fresh_family later
      (snd (tenant_refresh (env_crypto V) (env_settings V) now d (Some ctx) raw (run (platform_step V) es empty_platform)))"
    and "find_token (token_digest (env_crypto V) raw') (run (platform_step V) later
      (snd (tenant_refresh (env_crypto V) (env_settings V) now d (Some ctx) raw (run (platform_step V) es empty_platform))))
      = Some other" "family_id other = family_id stored"
  shows "fst (tenant_refresh (env_crypto V) (env_settings V) now d (Some ctx) raw (run (platform_step V) es empty_platform))
      = Inl (app_error ''REFRESH_TOKEN_REUSE_DETECTED'' 401)
    \<and> fst (tenant_refresh (env_crypto V) (env_settings V) now' d' tenant raw' (run (platform_step V) later
      (snd (tenant_refresh (env_crypto V) (env_settings V) now d (Some ctx) raw (run (platform_step V) es empty_platform)))))
      \<noteq> Inr pair"
proof -
  let ?s = "run (platform_step V) es empty_platform"
  let ?out = "tenant_refresh (env_crypto V) (env_settings V) now d (Some ctx) raw ?s"
  have rot: "rotate_refresh_token (env_crypto V) (env_settings V) now d raw (Some (ctx_tenant_id ctx)) ?s
      = (Inr (None, True), revoke_family now (family_id stored) ?s)"
    using assms(1-4) by (simp add: rotate_refresh_token_def)
  then have out: "?out = (Inl (app_error ''REFRESH_TOKEN_REUSE_DETECTED'' 401), revoke_family now (family_id stored) ?s)"
    by (simp add: tenant_refresh_def tenant_context_from_request_def refresh_response_def transaction_def)
  have inv: "platform_inv (snd ?out)"
    by (rule refresh_inv(1) [OF reachable_platform_inv])
  have "map family_id (refresh_tokens (snd ?out)) = map family_id (refresh_tokens ?s)"
    by (simp add: out revoke_family_def)
  from arg_cong [OF this, of set] have "family_id ` set (refresh_tokens (snd ?out)) = family_id ` set (refresh_tokens ?s)"
    by (simp only: set_map)
  then have member: "family_id stored \<in> family_id ` set (refresh_tokens (snd ?out))"
    using find_tokenD [OF assms(1)] by simp
  have dead: "live_tokens (family_id stored) (snd ?out) = 0"
    by (simp add: out live_tokens_revoked)
  from dead_family.inv_run [OF conjI [OF inv conjI [OF member dead]] assms(5)]
  have "live_tokens (family_id stored) (run (platform_step V) later (snd ?out)) = 0" by simp
  from dead_refused [OF this assms(6,7)] show ?thesis
    by (simp add: out)
qed

end
