(* ===== verification/Access.thy ===== *)
theory Access
  imports PlatformProperties
begin

text \<open>
  From a request to a principal: which tenant a request resolves to in a reachable database, whom
  \<open>require_permission\<close> lets through, and the way of a new tenant's first administrator from the
  creation of the tenant to an authorised request. Then the witnesses of the platform's properties
  on a small installation.
\<close>

section \<open>Resolution\<close>

lemma filter_unique:
  "distinct (map f xs) \<Longrightarrow> x \<in> set xs \<Longrightarrow> filter (\<lambda>y. f y = f x) xs = [x]"
proof (induction xs)
  case (Cons y ys)
  show ?case
  proof (cases "y = x")
    case True
    with Cons.prems(1) have "filter (\<lambda>z. f z = f x) ys = []"
      by (auto simp: filter_empty_conv image_iff)
    with True show ?thesis by simp
  next
    case False
    with Cons have "x \<in> set ys" "f y \<noteq> f x" by auto
    with Cons show ?thesis by simp
  qed
qed simp

lemma resolve_some:
  assumes inv: "platform_inv s" and d: "d \<in> set (tenant_domains s)" "dom_active d"
    and tn: "tn \<in> set (tenants s)" "tenant_id tn = dom_tenant_id d"
  shows "resolve_active_domain (hostname d) s = Inr (Some (context_of tn d))"
proof -
  have names: "distinct (map hostname (tenant_domains s))" and ids: "distinct (map tenant_id (tenants s))"
    using inv by (auto simp: platform_inv_def domains_ok_def tenants_ok_def)
  have "filter (\<lambda>x. hostname x = hostname d \<and> dom_active x) (tenant_domains s)
      = filter dom_active (filter (\<lambda>x. hostname x = hostname d) (tenant_domains s))"
    by (simp add: conj_commute)
  also have "\<dots> = [d]"
    using filter_unique [OF names d(1)] d(2) by simp
  finally show ?thesis
    using filter_unique [OF ids tn(1)] tn(2) by (simp add: resolve_active_domain_def)
qed

lemma resolve_none:
  "\<forall>d\<in>set (tenant_domains s). hostname d = name \<longrightarrow> \<not> dom_active d \<Longrightarrow> resolve_active_domain name s = Inr None"
proof -
  assume "\<forall>d\<in>set (tenant_domains s). hostname d = name \<longrightarrow> \<not> dom_active d"
  then have "filter (\<lambda>d. hostname d = name \<and> dom_active d) (tenant_domains s) = []"
    by (auto simp: filter_empty_conv)
  then show ?thesis by (simp add: resolve_active_domain_def)
qed

lemma resolve_iff:
  assumes inv: "platform_inv s"
  shows "resolve_active_domain name s = Inr (Some ctx) \<longleftrightarrow>
     (\<exists>d tn. d \<in> set (tenant_domains s) \<and> hostname d = name \<and> dom_active d \<and> tn \<in> set (tenants s)
        \<and> tenant_id tn = dom_tenant_id d \<and> ctx = context_of tn d)"
proof (cases "\<exists>d\<in>set (tenant_domains s). hostname d = name \<and> dom_active d")
  case False
  then show ?thesis using resolve_none [of s name] by auto
next
  case True
  then obtain d where d: "d \<in> set (tenant_domains s)" "hostname d = name" "dom_active d" by auto
  then have "dom_tenant_id d \<in> tenant_id ` set (tenants s)"
    using inv by (simp add: platform_inv_def domains_ok_def)
  then obtain tn where tn: "tn \<in> set (tenants s)" "tenant_id tn = dom_tenant_id d" by auto
  have found: "resolve_active_domain name s = Inr (Some (context_of tn d))"
    using resolve_some [OF inv d(1,3) tn] d(2) by simp
  show ?thesis
  proof
    assume "resolve_active_domain name s = Inr (Some ctx)"
    with found d tn show "\<exists>d tn. d \<in> set (tenant_domains s) \<and> hostname d = name \<and> dom_active d \<and> tn \<in> set (tenants s)
        \<and> tenant_id tn = dom_tenant_id d \<and> ctx = context_of tn d" by auto
  next
    assume "\<exists>d tn. d \<in> set (tenant_domains s) \<and> hostname d = name \<and> dom_active d \<and> tn \<in> set (tenants s)
        \<and> tenant_id tn = dom_tenant_id d \<and> ctx = context_of tn d"
    then obtain d' tn' where other: "d' \<in> set (tenant_domains s)" "hostname d' = name" "dom_active d'"
      "tn' \<in> set (tenants s)" "tenant_id tn' = dom_tenant_id d'" "ctx = context_of tn' d'" by auto
    from resolve_some [OF inv other(1,3,4,5)] other(2,6) show "resolve_active_domain name s = Inr (Some ctx)" by simp
  qed
qed

text \<open>requests_reach_their_tenant. In every reachable database a request gets a tenant exactly when
  its path is not exempt, the hostname it names (that of a trusted proxy's forwarded header first) is an
  active domain, and the domain's tenant is active; the tenant is the domain's own, and the lookup never
  fails for finding several.\<close>

theorem requests_reach_their_tenant:
  "(resolve_tenant U ip_address ip_network c req (run (platform_step V) es empty_platform) = Inr (Some ctx) \<longleftrightarrow>
     \<not> exempt (request_path req)
     \<and> (\<exists>d tn. request_hostname U ip_address ip_network c req = Inr (hostname d)
          \<and> d \<in> set (tenant_domains (run (platform_step V) es empty_platform)) \<and> dom_active d
          \<and> tn \<in> set (tenants (run (platform_step V) es empty_platform)) \<and> tenant_id tn = dom_tenant_id d
          \<and> tenant_status tn = Tenant_ACTIVE \<and> ctx = context_of tn d))
   \<and> resolve_active_domain name (run (platform_step V) es empty_platform) \<noteq> Inl (PyRuntimeError ''MultipleResultsFound'')"
proof -
  let ?s = "run (platform_step V) es empty_platform"
  note iff = resolve_iff [OF reachable_platform_inv [of V es]]
  have "resolve_active_domain name ?s \<noteq> Inl (PyRuntimeError ''MultipleResultsFound'')" for name
  proof (cases "\<exists>d\<in>set (tenant_domains ?s). hostname d = name \<and> dom_active d")
    case False
    with resolve_none [of ?s name] show ?thesis by auto
  next
    case True
    then obtain d where d: "d \<in> set (tenant_domains ?s)" "hostname d = name" "dom_active d" by auto
    then have "dom_tenant_id d \<in> tenant_id ` set (tenants ?s)"
      using reachable_platform_inv [of V es] by (simp add: platform_inv_def domains_ok_def)
    then obtain tn where "tn \<in> set (tenants ?s)" "tenant_id tn = dom_tenant_id d" by auto
    from resolve_some [OF reachable_platform_inv d(1,3) this] d(2) show ?thesis by simp
  qed
  moreover have "resolve_tenant U ip_address ip_network c req ?s = Inr (Some ctx) \<longleftrightarrow>
      \<not> exempt (request_path req)
      \<and> (\<exists>h. request_hostname U ip_address ip_network c req = Inr h \<and> resolve_active_domain h ?s = Inr (Some ctx)
           \<and> ctx_status ctx = Tenant_ACTIVE)"
    by (auto simp: resolve_tenant_def split: sum.splits option.splits if_splits)
  moreover have "ctx_status (context_of tn d) = tenant_status tn" for tn d
    by (simp add: context_of_def)
  ultimately show ?thesis
    unfolding iff by metis
qed

section \<open>Authorisation\<close>

text \<open>The dependency of an endpoint guarded by \<open>require_permission(p)\<close>.\<close>

definition with_permission ::
  "crypto \<Rightarrow> text_tables \<Rightarrow> settings \<Rightarrow> instant \<Rightarrow> permission \<Rightarrow> tenant_context option \<Rightarrow> credentials \<Rightarrow> platform_db
     \<Rightarrow> exn + principal" where
  "with_permission K U c now p tenant cr s =
     (case tenant_principal K U c now tenant cr s of Inl e \<Rightarrow> Inl e | Inr who \<Rightarrow> require_permission p who)"

lemma with_permission_iff:
  "with_permission K U c now p tenant cr s = Inr who \<longleftrightarrow>
     (\<exists>ctx claims u.
        tenant = Some ctx \<and> claims_of K U c now cr = Inr claims
        \<and> ac_tenant_id claims = Some (ctx_tenant_id ctx)
        \<and> get_user (ac_user_id claims) s = Some u \<and> user_active u
        \<and> who = \<lparr>pr_user_id = user_id u, pr_tenant_id = Some (ctx_tenant_id ctx),
                 pr_role = map_option mem_role (find_membership (ctx_tenant_id ctx) (ac_user_id claims) s),
                 pr_platform_admin = is_platform_admin u\<rparr>
        \<and> (is_platform_admin u
           \<or> (\<exists>m. find_membership (ctx_tenant_id ctx) (ac_user_id claims) s = Some m
                \<and> role_has_permission (mem_role m) p)))"
  unfolding with_permission_def tenant_principal_def require_permission_def tenant_context_from_request_def
  by (auto split: option.splits sum.splits if_splits)

text \<open>C22: access_granted_exactly. An endpoint guarded by a permission lets a request through exactly when
  it carries a valid access token that was issued for this very tenant, its user is still there and
  active, and is a platform administrator or a member of this tenant whose role has the permission;
  rights are those of the database, not of the token.\<close>

theorem access_granted_exactly:
  "with_permission K U c now p tenant cr s = Inr who \<longleftrightarrow>
     (\<exists>ctx claims u.
        tenant = Some ctx \<and> claims_of K U c now cr = Inr claims
        \<and> ac_tenant_id claims = Some (ctx_tenant_id ctx)
        \<and> get_user (ac_user_id claims) s = Some u \<and> user_active u
        \<and> who = \<lparr>pr_user_id = user_id u, pr_tenant_id = Some (ctx_tenant_id ctx),
                 pr_role = map_option mem_role (find_membership (ctx_tenant_id ctx) (ac_user_id claims) s),
                 pr_platform_admin = is_platform_admin u\<rparr>
        \<and> (is_platform_admin u
           \<or> (\<exists>m. find_membership (ctx_tenant_id ctx) (ac_user_id claims) s = Some m
                \<and> role_has_permission (mem_role m) p)))"
  by (rule with_permission_iff)

section \<open>The first administrator\<close>

lemma membership_after:
  assumes "\<forall>x\<in>set (memberships s). \<not> membership_clash m x"
  shows "find_membership (mem_tenant_id m) (mem_user_id m) (s\<lparr>memberships := memberships s @ [m]\<rparr>) = Some m"
proof -
  have "select_where mem_tenant_id (tenant_session (mem_tenant_id m))
      (\<lambda>x. mem_tenant_id x = mem_tenant_id m \<and> mem_user_id x = mem_user_id m) (memberships s) = []"
    using assms by (auto simp: select_where_def visible_def filter_empty_conv membership_clash_def)
  then show ?thesis
    by (simp add: find_membership_def select_where_def visible_def)
qed

lemma create_tenant_Inr:
  assumes run: "create_tenant U hash now i j k b s = (Inr tn, s')" and inv: "platform_inv s"
    and admin: "first_admin_email b = Some e" "first_admin_password b = Some p" "e \<noteq> []" "p \<noteq> []"
    and new: "find_user (casefold U e) s = None"
  obtains d u m where
    "tn \<in> set (tenants s')" "tenant_id tn = i" "tenant_status tn = Tenant_ACTIVE"
    "d \<in> set (tenant_domains s')" "hostname d = primary_hostname b" "dom_active d" "dom_tenant_id d = i"
    "u = \<lparr>user_id = k, email = casefold U e, password_hash = hash p, user_active = True, is_platform_admin = False\<rparr>"
    "find_user (casefold U e) s' = Some u" "get_user k s' = Some u"
    "find_membership i k s' = Some m" "mem_role m = TENANT_ADMIN"
    "refresh_tokens s' = refresh_tokens s" "authentication_attempts s' = authentication_attempts s"
proof -
  let ?tn = "\<lparr>tenant_id = i, tenant_name = tc_name b, slug = tc_slug b, tenant_status = Tenant_ACTIVE,
    default_locale = tc_default_locale b, timezone = tc_timezone b,
    default_currency = str_upper U (tc_default_currency b), tenant_created_at = now\<rparr>"
  let ?d = "\<lparr>dom_id = j, dom_tenant_id = i, hostname = primary_hostname b, is_primary = True, dom_active = True, dom_created_at = now\<rparr>"
  let ?u = "\<lparr>user_id = k, email = casefold U e, password_hash = hash p, user_active = True, is_platform_admin = False\<rparr>"
  let ?m = "\<lparr>mem_tenant_id = i, mem_user_id = k, mem_role = TENANT_ADMIN, mem_created_at = now\<rparr>"
  from run admin obtain s1 v s2 w where tn: "tn = ?tn"
    and rows: "new_tenant_rows now j ?tn (primary_hostname b) s = (Inr (), s1)"
    and user: "user_for k (casefold U e) (\<lambda>_. Inr (hash p)) s1 = (Inr v, s2)"
    and mem: "flush_membership \<lparr>mem_tenant_id = i, mem_user_id = user_id v, mem_role = TENANT_ADMIN, mem_created_at = now\<rparr> s2
      = (Inr w, s')"
    by (auto simp: create_tenant_def Let_def transaction_Inr and_then_eq_Inr)
  from rows inv have s1: "tenants s1 = tenants s @ [?tn]" "tenant_domains s1 = tenant_domains s @ [?d]" "auth_tables s1 = auth_tables s"
    using new_tenant_tables [OF rows]
    by (auto simp: new_tenant_rows_def and_then_eq_Inr platform_inv_def features_ok_def
        dest!: flush_tenant_Inr flush_domain_Inr flush_features_Inr)
  have absent: "find_user (casefold U e) s1 = None"
    using new s1(3) by (simp add: find_user_def auth_tables_def)
  with user have v: "v = ?u" and ins: "flush_user ?u s1 = (Inr (), s2)"
    by (auto simp: user_for_def Let_def and_then_eq_Inr)
  from flush_user_Inr [OF ins] have clash: "\<forall>x\<in>set (users s1). \<not> user_clash ?u x" and s2: "s2 = s1\<lparr>users := users s1 @ [?u]\<rparr>"
    by auto
  from flush_membership_Inr [OF mem] v have s': "s' = s2\<lparr>memberships := memberships s2 @ [?m]\<rparr>"
    and mclash: "\<forall>x\<in>set (memberships s2). \<not> membership_clash ?m x" by simp_all
  have users: "users s' = users s1 @ [?u]"
    by (simp add: s' s2)
  have "filter (\<lambda>x. email x = casefold U e) (users s1) = []" "filter (\<lambda>x. user_id x = k) (users s1) = []"
    using clash by (auto simp: user_clash_def filter_empty_conv)
  then have found: "find_user (casefold U e) s' = Some ?u" "get_user k s' = Some ?u"
    by (simp_all add: find_user_def get_user_def users)
  have member: "find_membership i k s' = Some ?m"
    using membership_after [OF mclash] by (simp add: s')
  show thesis
    by (rule that [of ?d ?u ?m]) (use tn s1 s2 s' found member in \<open>auto simp: auth_tables_def\<close>)
qed

text \<open>first_admin_can_work. After a tenant has been created with the e-mail address and password of a
  first administrator who is new to the platform, a request to its primary hostname resolves to it, the
  administrator logs in there with that password, and the access token obtained opens every permission
  of that tenant, as its \<open>TENANT_ADMIN\<close> and not as a platform administrator, for as long as it lives.
  (PyJWT and argon2 accept what they made; the address is not rate-limited; the random draws are new.)\<close>

theorem first_admin_can_work:
  assumes "jwt_laws (jwt_encoder K) (jwt_decoder K)" and "argon2_check K (hash p) p = Some True"
    and "create_tenant U hash now i j k b (run (platform_step V) es empty_platform) = (Inr tn, s)"
    and "first_admin_email b = Some e" "first_admin_password b = Some p" "e \<noteq> []" "p \<noteq> []"
    and "find_user (casefold U e) (run (platform_step V) es empty_platform) = None"
    and "i < 2 ^ 128" "k < 2 ^ 128"
    and "\<not> exempt (request_path req)" "request_hostname U ip_address ip_network c req = Inr (primary_hostname b)"
    and "failures_since (auth_scope K U c e (client_ip_of req)) (at - seconds (authentication_window_seconds c)) s
      < authentication_max_attempts c"
    and "new_rt_id d \<notin> rt_id ` set (refresh_tokens s)" "token_digest K (new_raw d) \<notin> token_hash ` set (refresh_tokens s)"
    and "at \<le> later" "later + seconds 1 \<le> at + seconds (access_token_ttl_seconds c)"
  shows "\<exists>ctx pair s'.
     resolve_tenant U ip_address ip_network c req s = Inr (Some ctx) \<and> ctx_tenant_id ctx = i
     \<and> tenant_login K U c at d req (Some ctx) \<lparr>login_email = e, login_password = p\<rparr> s = (Inr pair, s')
     \<and> with_permission K U c later perm (Some ctx) (Some (lit ''Bearer'', access_token pair)) s'
         = Inr \<lparr>pr_user_id = k, pr_tenant_id = Some i, pr_role = Some TENANT_ADMIN, pr_platform_admin = False\<rparr>"
proof -
  have inv0: "platform_inv (run (platform_step V) es empty_platform)"
    by (rule reachable_platform_inv)
  from create_tenant_inv [OF inv0, of U hash now i j k b] assms(3) have inv: "platform_inv s" by simp
  from create_tenant_Inr [OF assms(3) inv0 assms(4-8)] obtain dom u m where
    tn: "tn \<in> set (tenants s)" "tenant_id tn = i" "tenant_status tn = Tenant_ACTIVE"
    and dom: "dom \<in> set (tenant_domains s)" "hostname dom = primary_hostname b" "dom_active dom" "dom_tenant_id dom = i"
    and u: "u = \<lparr>user_id = k, email = casefold U e, password_hash = hash p, user_active = True, is_platform_admin = False\<rparr>"
    and found: "find_user (casefold U e) s = Some u" "get_user k s = Some u"
    and m: "find_membership i k s = Some m" "mem_role m = TENANT_ADMIN" by metis
  let ?ctx = "context_of tn dom"
  have ctx: "ctx_tenant_id ?ctx = i" "ctx_status ?ctx = Tenant_ACTIVE"
    using tn by (simp_all add: context_of_def)
  have resolve: "resolve_tenant U ip_address ip_network c req s = Inr (Some ?ctx)"
    using resolve_some [OF inv dom(1,3) tn(1)] tn(2) dom(2,4) assms(11,12) ctx(2) by (simp add: resolve_tenant_def)
  let ?a = "\<lparr>scope_hash = auth_scope K U c e (client_ip_of req), succeeded = True, attempted_at = at\<rparr>"
  let ?s1 = "s\<lparr>authentication_attempts := insert_row ?a (authentication_attempts s)\<rparr>"
  have "authenticate_user K U c at e p (client_ip_of req) False s = (Inr (Some u), ?s1)"
    using assms(2,13) found(1)
    by (simp add: authenticate_user_def enforce_rate_limit_def valid_login_def verify_password_def u)
  then have auth: "transaction (authenticate_user K U c at e p (client_ip_of req) False) s = (Inr (Some u), ?s1)"
    by (simp add: transaction_def)
  have access: "ensure_tenant_access u i ?s1 = Inr (Some m)"
    using m(1) by (simp add: ensure_tenant_access_def find_membership_def u)
  let ?pair = "\<lparr>access_token = fst (create_access_token (jwt_encoder K) c at (new_jti d) k (Some i) False),
    refresh_token_text = new_raw d, expires_in = access_token_ttl_seconds c\<rparr>"
  let ?s2 = "?s1\<lparr>refresh_tokens := refresh_tokens s @ [issued K c at d u (Some i) None]\<rparr>"
  have "issue_pair K c at d u (Some i) None ?s1 = (Inr ?pair, ?s2)"
    using assms(14,15) by (auto simp: issue_pair_Inr token_clash_def issued_def u)
  then have login: "tenant_login K U c at d req (Some ?ctx) \<lparr>login_email = e, login_password = p\<rparr> s = (Inr ?pair, ?s2)"
    using auth access ctx(1) by (simp add: tenant_login_def tenant_context_from_request_def transaction_def)
  have claims: "claims_of K U c later (Some (lit ''Bearer'', access_token ?pair)) =
      Inr \<lparr>ac_user_id = k, ac_tenant_id = Some i, ac_is_platform_admin = False,
           ac_expires_at = seconds ((at + seconds (access_token_ttl_seconds c)) div 1000000)\<rparr>"
    using access_round_trip [OF assms(1,16,17) assms(10), of "Some i"] assms(9)
    by (simp add: claims_of_def casefold_def is_ascii_def lower_def lower_char_def)
  have "get_user k ?s2 = Some u" "find_membership i k ?s2 = Some m"
    using found(2) m(1) by (simp_all add: get_user_def find_membership_def)
  moreover have "role_has_permission TENANT_ADMIN perm"
    by (cases perm) (simp_all add: role_has_permission_def all_permissions_def)
  ultimately have "with_permission K U c later perm (Some ?ctx) (Some (lit ''Bearer'', access_token ?pair)) ?s2
      = Inr \<lparr>pr_user_id = k, pr_tenant_id = Some i, pr_role = Some TENANT_ADMIN, pr_platform_admin = False\<rparr>"
    unfolding with_permission_iff using claims ctx(1) m(2) by (simp add: u)
  with resolve ctx(1) login show ?thesis by blast
qed

section \<open>Witnesses\<close>

text \<open>Tokens and hashes that are their own text, and a platform of one administrator and one tenant.\<close>

definition plain_crypto :: crypto where
  "plain_crypto =
     \<lparr>scope_hmac = (\<lambda>key text. text), token_digest = (\<lambda>t. t), argon2_check = (\<lambda>h p. Some (h = p)),
      jwt_encoder = numbered_encode, jwt_decoder = numbered_decode\<rparr>"

definition plain_text :: text_tables where
  "plain_text = \<lparr>unicode_lower = (\<lambda>s. s), unicode_upper = (\<lambda>s. s), unicode_casefold = (\<lambda>s. s), unicode_to_ascii = (\<lambda>s. None)\<rparr>"

definition no_ip :: "ustr \<Rightarrow> unit option" where
  "no_ip h = None"

definition no_network :: "ustr \<Rightarrow> (unit \<Rightarrow> bool) option" where
  "no_network n = None"

definition sample_env :: "unit platform_env" where
  "sample_env =
     \<lparr>env_crypto = plain_crypto, env_text = plain_text, env_settings = default_settings,
      env_ip_address = no_ip, env_ip_network = no_network, env_argon2 = (\<lambda>p. p)\<rparr>"

definition sample_request :: "string \<Rightarrow> web_request" where
  "sample_request host =
     \<lparr>request_method = lit ''POST'', request_path = lit ''/api/v1/admin/auth/login'', host_header = Some (lit host),
      x_forwarded_host = None, origin_header = None, access_control_request_method = None, x_request_id = None,
      client_host = Some (lit ''10.0.0.1'')\<rparr>"

definition sample_draw :: "nat \<Rightarrow> draw" where
  "sample_draw n = \<lparr>new_jti = n, new_rt_id = n, new_raw = replicate 40 n, new_family = n\<rparr>"

definition sample_bootstrap :: platform_event where
  "sample_bootstrap = Bootstrap 0 1 2 3 (Some (lit ''correct horse battery''))
     \<lparr>ba_email = lit ''Root@Example.org'', ba_tenant_name = lit ''School'', ba_tenant_slug = Some (lit ''school''),
      ba_tenant_domain = lit ''school.localhost''\<rparr>"

definition sample_login :: platform_event where
  "sample_login = Platform_login 1000000 (sample_draw 7) (sample_request ''control'')
     \<lparr>login_email = lit ''root@example.org'', login_password = lit ''correct horse battery''\<rparr>"

lemmas sample_platform_defs = plain_crypto_def plain_text_def sample_env_def sample_request_def sample_draw_def
  sample_bootstrap_def sample_login_def

definition sample_admin :: user where
  "sample_admin = \<lparr>user_id = 3, email = lit ''root@example.org'', password_hash = lit ''correct horse battery'',
     user_active = True, is_platform_admin = True\<rparr>"

definition sample_tenant :: tenant where
  "sample_tenant = \<lparr>tenant_id = 1, tenant_name = lit ''School'', slug = lit ''school'', tenant_status = Tenant_ACTIVE,
     default_locale = lit ''fa-IR'', timezone = lit ''Asia/Tehran'', default_currency = lit ''IRR'', tenant_created_at = 0\<rparr>"

definition sample_domain :: tenant_domain where
  "sample_domain = \<lparr>dom_id = 2, dom_tenant_id = 1, hostname = lit ''school.localhost'', is_primary = True,
     dom_active = True, dom_created_at = 0\<rparr>"

definition bootstrapped :: platform_db where
  "bootstrapped = empty_platform\<lparr>tenants := [sample_tenant], tenant_domains := [sample_domain],
     tenant_features := initial_features 1, users := [sample_admin],
     memberships := [\<lparr>mem_tenant_id = 1, mem_user_id = 3, mem_role = TENANT_ADMIN, mem_created_at = 0\<rparr>]\<rparr>"

lemma sample_hostname:
  "normalize_hostname plain_text (lit ''school.localhost'') = Inr (lit ''school.localhost'')"
proof -
  have "canonical_hostname (lit ''school.localhost'')"
    by (simp add: canonical_hostname_def is_ascii_def lower_def lower_char_def is_space_def space_points_def)
  from normalize_spelling [OF this, of "lit ''school.localhost''" "[]" _ 0 False] show ?thesis
    by (simp add: lower_def lower_char_def)
qed

lemma sample_features: "tenant_features s = [] \<Longrightarrow> flush_features (initial_features t) s = (Inr (), s\<lparr>tenant_features := initial_features t\<rparr>)"
  by (simp add: initial_features_def FEATURE_KEYS_def flush_feature_def insert_unless_def insert_row_def feature_clash_def)

lemma sample_bootstrapped: "platform_step sample_env sample_bootstrap empty_platform = bootstrapped"
proof -
  have fold: "casefold plain_text (lit ''Root@Example.org'') = lit ''root@example.org''"
    by (simp add: casefold_def is_ascii_def lower_def lower_char_def)
  let ?s1 = "empty_platform\<lparr>users := [sample_admin]\<rparr>"
  have "bootstrap_admin plain_text (\<lambda>p. p) 3 (lit ''Root@Example.org'') (lit ''correct horse battery'') empty_platform
      = (Inr sample_admin, ?s1)"
    unfolding bootstrap_admin_def fold
    by (simp add: find_user_def flush_user_def insert_unless_def insert_row_def empty_platform_def sample_admin_def Let_def)
  moreover have "new_tenant_rows 0 2 sample_tenant (lit ''school.localhost'') ?s1
      = (Inr (), ?s1\<lparr>tenants := [sample_tenant], tenant_domains := [sample_domain], tenant_features := initial_features 1\<rparr>)"
    by (simp add: new_tenant_rows_def flush_tenant_def flush_domain_def insert_unless_def insert_row_def sample_tenant_def
        sample_domain_def empty_platform_def sample_features)
  moreover have "bootstrap_tenant plain_text 0 1 2 \<lparr>ba_email = lit ''Root@Example.org'', ba_tenant_name = lit ''School'',
      ba_tenant_slug = Some (lit ''school''), ba_tenant_domain = lit ''school.localhost''\<rparr> sample_admin ?s1
      = (Inr (), bootstrapped)"
    unfolding bootstrap_tenant_def bootstrap_args.select_convs option.case sample_hostname sum.case Let_def
      sample_tenant_def [symmetric] calculation(2)
    by (simp add: empty_platform_def flush_membership_def insert_unless_def insert_row_def bootstrapped_def sample_admin_def)
  ultimately show ?thesis
    unfolding sample_bootstrap_def sample_env_def platform_step.simps platform_env.select_convs bootstrap_def option.case
      bootstrap_args.select_convs
    by (simp add: transaction_def)
qed

lemma sample_logged_in:
  "platform_step sample_env sample_login bootstrapped =
     bootstrapped\<lparr>authentication_attempts :=
         [\<lparr>scope_hash = lit ''root@example.org|10.0.0.1'', succeeded = True, attempted_at = 1000000\<rparr>],
       refresh_tokens := [issued plain_crypto default_settings 1000000 (sample_draw 7) sample_admin None None]\<rparr>"
proof -
  have fold: "casefold plain_text (lit ''root@example.org'') = lit ''root@example.org''"
    by (simp add: casefold_def is_ascii_def lower_def lower_char_def)
  let ?s1 = "bootstrapped\<lparr>authentication_attempts :=
         [\<lparr>scope_hash = lit ''root@example.org|10.0.0.1'', succeeded = True, attempted_at = 1000000\<rparr>]\<rparr>"
  have "authenticate_user plain_crypto plain_text default_settings 1000000 (lit ''root@example.org'')
      (lit ''correct horse battery'') (lit ''10.0.0.1'') True bootstrapped = (Inr (Some sample_admin), ?s1)"
    unfolding authenticate_user_def enforce_rate_limit_def auth_scope_def fold
    by (simp add: find_user_def bootstrapped_def empty_platform_def sample_admin_def valid_login_def verify_password_def
        failures_since_def default_settings_def plain_crypto_def insert_row_def Let_def)
  moreover have "\<exists>pair. issue_pair plain_crypto default_settings 1000000 (sample_draw 7) sample_admin None None ?s1
      = (Inr pair, ?s1\<lparr>refresh_tokens := [issued plain_crypto default_settings 1000000 (sample_draw 7) sample_admin None None]\<rparr>)"
    by (simp add: issue_pair_Inr bootstrapped_def empty_platform_def)
  ultimately show ?thesis
    unfolding sample_login_def sample_env_def platform_step.simps platform_env.select_convs platform_login_def
    by (auto simp add: transaction_def client_ip_of_def sample_request_def validate_login_request_def within_def)
qed

lemma platform_legal:
  "legal (platform_step sample_env) clock_monotone [sample_bootstrap, sample_login] empty_platform"
  "legal (platform_step sample_env) fresh_family [sample_bootstrap, sample_login] empty_platform"
  by (simp_all add: sample_bootstrapped)
    (simp_all add: clock_monotone_def sample_bootstrap_def sample_login_def bootstrapped_def empty_platform_def)

theorem failed_logins_bounded_witness:
  "failures_between (auth_scope plain_crypto plain_text default_settings (lit ''root@example.org'') (lit ''10.0.0.1''))
      (1000000 - seconds 900) 1000000 (run (platform_step sample_env) [sample_bootstrap, sample_login] empty_platform) \<le> 10"
  using failed_logins_bounded [OF platform_legal(1), of "lit ''root@example.org''" "lit ''10.0.0.1''" 1000000]
  by (simp add: sample_env_def default_settings_def)

theorem one_live_token_per_family_witness:
  "live_tokens 7 (run (platform_step sample_env) [sample_bootstrap, sample_login] empty_platform) \<le> 1
   \<and> live_tokens 7 (run (platform_step sample_env) [sample_bootstrap, sample_login] empty_platform) = 1"
proof
  show "live_tokens 7 (run (platform_step sample_env) [sample_bootstrap, sample_login] empty_platform) \<le> 1"
    by (rule one_live_token_per_family [OF platform_legal(2)])
  show "live_tokens 7 (run (platform_step sample_env) [sample_bootstrap, sample_login] empty_platform) = 1"
    by (simp add: sample_bootstrapped sample_logged_in live_tokens_def issued_def sample_draw_def)
qed

text \<open>A session of the school: log in, refresh, and the first token once more.\<close>

definition school_login :: platform_event where
  "school_login = Tenant_login 1000000 (sample_draw 7) (sample_request ''school.localhost'')
     \<lparr>login_email = lit ''root@example.org'', login_password = lit ''correct horse battery''\<rparr>"

definition school_refresh :: platform_event where
  "school_refresh = Tenant_refresh 2000000 (sample_draw 8) (sample_request ''school.localhost'') (replicate 40 7)"

definition first_token :: refresh_token where
  "first_token = issued plain_crypto default_settings 1000000 (sample_draw 7) sample_admin (Some 1) None"

definition second_token :: refresh_token where
  "second_token = issued plain_crypto default_settings 2000000 (sample_draw 8) sample_admin (Some 1) (Some 7)"

definition school_attempt :: authentication_attempt where
  "school_attempt = \<lparr>scope_hash = lit ''root@example.org|10.0.0.1'', succeeded = True, attempted_at = 1000000\<rparr>"

definition refreshed :: platform_db where
  "refreshed = bootstrapped\<lparr>authentication_attempts := [school_attempt],
     refresh_tokens := [first_token\<lparr>revoked_at := Some 2000000, replaced_by_id := Some 8\<rparr>, second_token]\<rparr>"

lemma school_resolves:
  assumes "tenants s = [sample_tenant]" "tenant_domains s = [sample_domain]"
  shows "resolve_tenant plain_text no_ip no_network default_settings (sample_request ''school.localhost'') s
    = Inr (Some (context_of sample_tenant sample_domain))"
proof -
  have "request_hostname plain_text no_ip no_network default_settings (sample_request ''school.localhost'')
      = Inr (lit ''school.localhost'')"
    unfolding request_hostname_def client_is_trusted_proxy_def sample_request_def
    using sample_hostname by (simp add: default_settings_def)
  moreover have "\<not> exempt (request_path (sample_request ''school.localhost''))"
    by (simp add: exempt_def EXEMPT_PATHS_def EXEMPT_PREFIXES_def startswith_def sample_request_def)
  moreover have "resolve_active_domain (lit ''school.localhost'') s = Inr (Some (context_of sample_tenant sample_domain))"
    using assms by (simp add: resolve_active_domain_def sample_domain_def sample_tenant_def)
  ultimately show ?thesis
    by (simp add: resolve_tenant_def context_of_def sample_tenant_def)
qed

lemma school_logged_in:
  "platform_step sample_env school_login bootstrapped =
     bootstrapped\<lparr>authentication_attempts := [school_attempt], refresh_tokens := [first_token]\<rparr>"
proof -
  have fold: "casefold plain_text (lit ''root@example.org'') = lit ''root@example.org''"
    by (simp add: casefold_def is_ascii_def lower_def lower_char_def)
  let ?s1 = "bootstrapped\<lparr>authentication_attempts := [school_attempt]\<rparr>"
  have resolve: "resolve_tenant plain_text no_ip no_network default_settings (sample_request ''school.localhost'') bootstrapped
      = Inr (Some (context_of sample_tenant sample_domain))"
    by (rule school_resolves) (simp_all add: bootstrapped_def)
  have "authenticate_user plain_crypto plain_text default_settings 1000000 (lit ''root@example.org'')
      (lit ''correct horse battery'') (lit ''10.0.0.1'') False bootstrapped = (Inr (Some sample_admin), ?s1)"
    unfolding authenticate_user_def enforce_rate_limit_def auth_scope_def fold
    by (simp add: find_user_def bootstrapped_def empty_platform_def sample_admin_def valid_login_def verify_password_def
        failures_since_def default_settings_def plain_crypto_def insert_row_def Let_def school_attempt_def)
  then have auth: "transaction (authenticate_user plain_crypto plain_text default_settings 1000000 (lit ''root@example.org'')
      (lit ''correct horse battery'') (lit ''10.0.0.1'') False) bootstrapped = (Inr (Some sample_admin), ?s1)"
    by (simp add: transaction_def)
  have access: "\<exists>m. ensure_tenant_access sample_admin (Suc 0) ?s1 = Inr m"
    by (simp add: ensure_tenant_access_def sample_admin_def)
  have "\<exists>pair. issue_pair plain_crypto default_settings 1000000 (sample_draw 7) sample_admin (Some (Suc 0)) None ?s1
      = (Inr pair, ?s1\<lparr>refresh_tokens := [first_token]\<rparr>)"
    by (simp add: issue_pair_Inr bootstrapped_def empty_platform_def first_token_def)
  moreover have "client_ip_of (sample_request ''school.localhost'') = lit ''10.0.0.1''"
    by (simp add: client_ip_of_def sample_request_def)
  moreover have "ctx_tenant_id (context_of sample_tenant sample_domain) = Suc 0"
    by (simp add: context_of_def sample_tenant_def)
  ultimately show ?thesis
    using resolve auth access
    unfolding school_login_def sample_env_def platform_step.simps platform_env.select_convs resolved_def
    by (auto simp: tenant_login_def tenant_context_from_request_def validate_login_request_def within_def transaction_def)
qed

lemma token_facts:
  "token_hash first_token = replicate 40 7" "token_hash second_token = replicate 40 8" "rt_id first_token = 7" "rt_id second_token = 8"
  "family_id first_token = 7" "family_id second_token = 7" "revoked_at first_token = None"
  "rt_tenant_id first_token = Some 1" "rt_user_id first_token = 3" "rt_expires_at first_token = 2592001000000"
  by (simp_all add: first_token_def second_token_def issued_def plain_crypto_def sample_draw_def sample_admin_def
      default_settings_def seconds_def)

lemma school_refreshed:
  "platform_step sample_env school_refresh (platform_step sample_env school_login bootstrapped) = refreshed"
proof -
  let ?s = "bootstrapped\<lparr>authentication_attempts := [school_attempt], refresh_tokens := [first_token]\<rparr>"
  have resolve: "resolve_tenant plain_text no_ip no_network default_settings (sample_request ''school.localhost'') ?s
      = Inr (Some (context_of sample_tenant sample_domain))"
    by (rule school_resolves) (simp_all add: bootstrapped_def)
  have digest: "token_digest plain_crypto x = x" for x
    by (simp add: plain_crypto_def)
  have found: "find_token (replicate 40 7) ?s = Some first_token"
    by (simp add: find_token_def token_facts)
  have user: "get_user 3 ?s = Some sample_admin" "user_active sample_admin"
    by (simp_all add: get_user_def bootstrapped_def sample_admin_def)
  have saved: "save_token (first_token\<lparr>revoked_at := Some 2000000\<rparr>) ?s
      = ?s\<lparr>refresh_tokens := [first_token\<lparr>revoked_at := Some 2000000\<rparr>]\<rparr>"
    by (simp add: save_token_def token_facts)
  let ?pair = "\<lparr>access_token = fst (create_access_token (jwt_encoder plain_crypto) default_settings 2000000 (new_jti (sample_draw 8))
      (user_id sample_admin) (Some 1) (is_platform_admin sample_admin)),
    refresh_token_text = new_raw (sample_draw 8), expires_in = access_token_ttl_seconds default_settings\<rparr>"
  have pair: "issue_pair plain_crypto default_settings 2000000 (sample_draw 8) sample_admin (Some 1) (Some 7)
      (?s\<lparr>refresh_tokens := [first_token\<lparr>revoked_at := Some 2000000\<rparr>]\<rparr>)
      = (Inr ?pair, ?s\<lparr>refresh_tokens := [first_token\<lparr>revoked_at := Some 2000000\<rparr>, second_token]\<rparr>)"
    unfolding issue_pair_Inr second_token_def [symmetric] by (simp add: token_clash_def token_facts)
  have raw: "new_raw (sample_draw 8) = replicate 40 8"
    by (simp add: sample_draw_def)
  have "rotate_refresh_token plain_crypto default_settings 2000000 (sample_draw 8) (replicate 40 7) (Some 1) ?s
      = (Inr (Some ?pair, False), refreshed)"
    unfolding rotate_refresh_token_def digest found
    using user saved pair raw
    by (simp add: token_facts find_token_def save_token_def refreshed_def)
  moreover have "ctx_tenant_id (context_of sample_tenant sample_domain) = 1"
    by (simp add: context_of_def sample_tenant_def)
  ultimately show ?thesis
    using resolve unfolding school_logged_in
    unfolding school_refresh_def sample_env_def platform_step.simps platform_env.select_convs resolved_def
    by (simp add: tenant_refresh_def tenant_context_from_request_def validate_refresh_request_def within_def transaction_def
        refresh_response_def)
qed

lemma school_history: "run (platform_step sample_env) [sample_bootstrap, school_login, school_refresh] empty_platform = refreshed"
  by (simp add: sample_bootstrapped school_refreshed)

text \<open>The used token is presented again; the token obtained in between is refused as well.\<close>

theorem replay_ends_family_witness:
  "fst (tenant_refresh plain_crypto default_settings 3000000 (sample_draw 9) (Some (context_of sample_tenant sample_domain))
      (replicate 40 7) refreshed) = Inl (app_error ''REFRESH_TOKEN_REUSE_DETECTED'' 401)
   \<and> (\<nexists>pair. fst (tenant_refresh plain_crypto default_settings 4000000 (sample_draw 10)
      (Some (context_of sample_tenant sample_domain)) (replicate 40 8)
      (snd (tenant_refresh plain_crypto default_settings 3000000 (sample_draw 9)
         (Some (context_of sample_tenant sample_domain)) (replicate 40 7) refreshed))) = Inr pair)"
proof -
  let ?ctx = "context_of sample_tenant sample_domain"
  let ?used = "first_token\<lparr>revoked_at := Some 2000000, replaced_by_id := Some 8\<rparr>"
  have env: "env_crypto sample_env = plain_crypto" "env_settings sample_env = default_settings"
    by (simp_all add: sample_env_def)
  have digest: "token_digest plain_crypto x = x" for x
    by (simp add: plain_crypto_def)
  have ctx: "ctx_tenant_id ?ctx = 1"
    by (simp add: context_of_def sample_tenant_def)
  have first: "find_token (replicate 40 7) refreshed = Some ?used"
    by (simp add: find_token_def refreshed_def token_facts)
  have "rotate_refresh_token plain_crypto default_settings 3000000 (sample_draw 9) (replicate 40 7) (Some 1) refreshed
      = (Inr (None, True), revoke_family 3000000 7 refreshed)"
    unfolding rotate_refresh_token_def digest first by (simp add: token_facts)
  then have replay: "snd (tenant_refresh plain_crypto default_settings 3000000 (sample_draw 9) (Some ?ctx) (replicate 40 7) refreshed)
      = revoke_family 3000000 7 refreshed"
    using ctx by (simp add: tenant_refresh_def tenant_context_from_request_def transaction_def refresh_response_def)
  have "\<exists>r. find_token (replicate 40 8) (revoke_family 3000000 7 refreshed) = Some r \<and> family_id r = 7"
    by (simp add: find_token_def refreshed_def revoke_family_def token_facts)
  then obtain other where other: "find_token (replicate 40 8) (revoke_family 3000000 7 refreshed) = Some other" "family_id other = 7"
    by blast
  show ?thesis
    using replay_ends_family [of sample_env "replicate 40 7" "[sample_bootstrap, school_login, school_refresh]" ?used 3000000 ?ctx
        "[]" "sample_draw 9" "replicate 40 8" other 4000000 "sample_draw 10" "Some ?ctx",
        unfolded school_history env digest replay]
      first other ctx by (simp add: token_facts replay)
qed

text \<open>A second school on the bootstrapped platform.\<close>

definition new_school :: tenant_create where
  "new_school = \<lparr>tc_name = lit ''Second'', tc_slug = lit ''second'', primary_hostname = lit ''second.localhost'',
     tc_default_locale = lit ''fa-IR'', tc_timezone = lit ''Asia/Tehran'', tc_default_currency = lit ''IRR'',
     first_admin_email = Some (lit ''head@second.org''), first_admin_password = Some (lit ''a long password'')\<rparr>"

definition second_school :: tenant where
  "second_school = \<lparr>tenant_id = 5, tenant_name = lit ''Second'', slug = lit ''second'', tenant_status = Tenant_ACTIVE,
     default_locale = lit ''fa-IR'', timezone = lit ''Asia/Tehran'', default_currency = lit ''IRR'', tenant_created_at = 1000000\<rparr>"

definition with_second_school :: platform_db where
  "with_second_school = bootstrapped\<lparr>tenants := [sample_tenant, second_school],
     tenant_domains := [sample_domain, \<lparr>dom_id = 6, dom_tenant_id = 5, hostname = lit ''second.localhost'', is_primary = True,
       dom_active = True, dom_created_at = 1000000\<rparr>],
     tenant_features := initial_features 1 @ initial_features 5,
     users := [sample_admin, \<lparr>user_id = 4, email = lit ''head@second.org'', password_hash = lit ''a long password'',
       user_active = True, is_platform_admin = False\<rparr>],
     memberships := memberships bootstrapped @ [\<lparr>mem_tenant_id = 5, mem_user_id = 4, mem_role = TENANT_ADMIN, mem_created_at = 1000000\<rparr>]\<rparr>"

lemma second_features: "tenant_features s = initial_features 1 \<Longrightarrow>
    flush_features (initial_features 5) s = (Inr (), s\<lparr>tenant_features := initial_features 1 @ initial_features 5\<rparr>)"
  by (simp add: initial_features_def FEATURE_KEYS_def flush_feature_def insert_unless_def insert_row_def feature_clash_def)

lemma second_school_created:
  "create_tenant plain_text (\<lambda>p. p) 1000000 5 6 4 new_school bootstrapped = (Inr second_school, with_second_school)"
proof -
  have fold: "casefold plain_text (lit ''head@second.org'') = lit ''head@second.org''"
    "str_upper plain_text (lit ''IRR'') = lit ''IRR''"
    by (simp_all add: casefold_def str_upper_def upper_def is_ascii_def lower_def lower_char_def)
  let ?s1 = "bootstrapped\<lparr>tenants := [sample_tenant, second_school],
     tenant_domains := [sample_domain, \<lparr>dom_id = 6, dom_tenant_id = 5, hostname = lit ''second.localhost'', is_primary = True,
       dom_active = True, dom_created_at = 1000000\<rparr>],
     tenant_features := initial_features 1 @ initial_features 5\<rparr>"
  have rows: "new_tenant_rows 1000000 6 second_school (lit ''second.localhost'') bootstrapped = (Inr (), ?s1)"
    by (simp add: new_tenant_rows_def flush_tenant_def flush_domain_def insert_unless_def insert_row_def second_school_def
        sample_tenant_def sample_domain_def tenant_clash_def domain_clash_def bootstrapped_def second_features)
  have "user_for 4 (lit ''head@second.org'') (\<lambda>_. Inr (lit ''a long password'')) ?s1 = (Inr (users with_second_school ! 1),
      ?s1\<lparr>users := users with_second_school\<rparr>)"
    by (simp add: user_for_def find_user_def flush_user_def insert_unless_def insert_row_def user_clash_def bootstrapped_def
        sample_admin_def with_second_school_def Let_def)
  moreover have "flush_membership \<lparr>mem_tenant_id = 5, mem_user_id = user_id (users with_second_school ! 1), mem_role = TENANT_ADMIN,
      mem_created_at = 1000000\<rparr> (?s1\<lparr>users := users with_second_school\<rparr>) = (Inr (), with_second_school)"
    by (simp add: flush_membership_def insert_unless_def insert_row_def membership_clash_def bootstrapped_def with_second_school_def)
  ultimately have "and_then (user_for 4 (lit ''head@second.org'') (\<lambda>_. Inr (lit ''a long password'')) ?s1)
      (\<lambda>u s. and_then (flush_membership \<lparr>mem_tenant_id = 5, mem_user_id = user_id u, mem_role = TENANT_ADMIN,
         mem_created_at = 1000000\<rparr> s) (\<lambda>_ s. (Inr second_school, s))) = (Inr second_school, with_second_school)"
    by (simp only: and_then_Inr)
  then show ?thesis
    unfolding create_tenant_def new_school_def tenant_create.select_convs fold Let_def second_school_def [symmetric] option.case
      prod.case
    using rows by (simp add: transaction_def)
qed

theorem first_admin_can_work_witness:
  "\<exists>ctx pair s'.
     resolve_tenant plain_text no_ip no_network default_settings (sample_request ''second.localhost'') with_second_school
       = Inr (Some ctx) \<and> ctx_tenant_id ctx = 5
     \<and> tenant_login plain_crypto plain_text default_settings 2000000 (sample_draw 7) (sample_request ''second.localhost'') (Some ctx)
         \<lparr>login_email = lit ''head@second.org'', login_password = lit ''a long password''\<rparr> with_second_school = (Inr pair, s')
     \<and> with_permission plain_crypto plain_text default_settings 5000000 REGISTRATION_EXPORT (Some ctx)
         (Some (lit ''Bearer'', access_token pair)) s'
         = Inr \<lparr>pr_user_id = 4, pr_tenant_id = Some 5, pr_role = Some TENANT_ADMIN, pr_platform_admin = False\<rparr>"
proof (rule first_admin_can_work [where V = sample_env and es = "[sample_bootstrap]" and hash = "\<lambda>p. p" and b = new_school
      and U = plain_text and now = 1000000 and j = 6 and tn = second_school])
  have "canonical_hostname (lit ''second.localhost'')"
    by (simp add: canonical_hostname_def is_ascii_def lower_def lower_char_def is_space_def space_points_def)
  from normalize_spelling [OF this, of "lit ''second.localhost''" "[]" plain_text 0 False]
  show "request_hostname plain_text no_ip no_network default_settings (sample_request ''second.localhost'')
      = Inr (primary_hostname new_school)"
    by (simp add: request_hostname_def client_is_trusted_proxy_def sample_request_def default_settings_def new_school_def
        lower_def lower_char_def)
  show "create_tenant plain_text (\<lambda>p. p) 1000000 5 6 4 new_school (run (platform_step sample_env) [sample_bootstrap] empty_platform)
      = (Inr second_school, with_second_school)"
    by (simp add: sample_bootstrapped second_school_created)
  show "find_user (casefold plain_text (lit ''head@second.org'')) (run (platform_step sample_env) [sample_bootstrap] empty_platform) = None"
    by (simp add: sample_bootstrapped bootstrapped_def find_user_def sample_admin_def casefold_def is_ascii_def lower_def lower_char_def)
  show "jwt_laws (jwt_encoder plain_crypto) (jwt_decoder plain_crypto)"
    by (simp add: plain_crypto_def numbered_laws)
  show "\<not> exempt (request_path (sample_request ''second.localhost''))"
    by (simp add: exempt_def EXEMPT_PATHS_def EXEMPT_PREFIXES_def startswith_def sample_request_def)
  show "failures_since (auth_scope plain_crypto plain_text default_settings (lit ''head@second.org'')
      (client_ip_of (sample_request ''second.localhost''))) (2000000 - seconds (authentication_window_seconds default_settings))
      with_second_school < authentication_max_attempts default_settings"
    by (simp add: failures_since_def with_second_school_def bootstrapped_def empty_platform_def default_settings_def)
qed (simp_all add: new_school_def plain_crypto_def with_second_school_def bootstrapped_def empty_platform_def seconds_def
      default_settings_def)

end
