(* ===== verification/HttpSecurity.thy ===== *)
theory HttpSecurity
  imports Access
begin

text \<open>
  The HTTP stack of the data plane: \<open>core/errors.py\<close>, \<open>core/http_security.py\<close>, the request identifier
  of \<open>core/logging.py\<close>, and the order in which \<open>main.py\<close> and \<open>application.py\<close> stack them. A
  middleware added later wraps those added before, so from the outside in: error boundary, security
  headers, request logging, tenant resolution, CORS, exception handlers, routes.

  A handler takes the state and either answers or lets an exception through. Header names are in
  lower case, as Starlette keeps them. The log lines are not modelled.
\<close>

section \<open>Responses\<close>

record response =
  resp_status :: nat
  resp_headers :: "(string \<times> ustr) list"
  error_code :: string

definition header :: "string \<Rightarrow> response \<Rightarrow> ustr option" where
  "header k r = map_of (resp_headers r) k"

text \<open>\<open>MutableHeaders.__setitem__\<close>, \<open>setdefault\<close> and \<open>append\<close>.\<close>

fun put_header :: "string \<Rightarrow> ustr \<Rightarrow> (string \<times> ustr) list \<Rightarrow> (string \<times> ustr) list" where
  "put_header k v [] = [(k, v)]"
| "put_header k v ((j, w) # hs) =
     (if j = k then (k, v) # filter (\<lambda>(i, _). i \<noteq> k) hs else (j, w) # put_header k v hs)"

definition set_header :: "string \<Rightarrow> ustr \<Rightarrow> response \<Rightarrow> response" where
  "set_header k v r = r\<lparr>resp_headers := put_header k v (resp_headers r)\<rparr>"

definition default_header :: "string \<Rightarrow> ustr \<Rightarrow> response \<Rightarrow> response" where
  "default_header k v r =
     (if map_of (resp_headers r) k = None then r\<lparr>resp_headers := resp_headers r @ [(k, v)]\<rparr> else r)"

definition append_header :: "string \<Rightarrow> ustr \<Rightarrow> response \<Rightarrow> response" where
  "append_header k v r = r\<lparr>resp_headers := resp_headers r @ [(k, v)]\<rparr>"

type_synonym 's handler = "'s \<Rightarrow> (response, 's) outcome"

section \<open>Errors\<close>

text \<open>The \<open>JSONResponse\<close> of an \<open>ErrorBody\<close>; of its headers only the content type is kept.\<close>

definition error_body :: "exn \<Rightarrow> response" where
  "error_body e =
     \<lparr>resp_status = snd (error_response e), resp_headers = [(''content-type'', lit ''application/json'')],
      error_code = fst (error_response e)\<rparr>"

definition error_boundary :: "'s handler \<Rightarrow> 's handler" where
  "error_boundary call_next s =
     (case call_next s of (Inl e, s') \<Rightarrow> (Inr (error_body e), s') | (Inr r, s') \<Rightarrow> (Inr r, s'))"

text \<open>
  \<open>install_error_handlers\<close>: inside the middleware only application errors (and requests that do not
  validate, which are application errors here) become responses; the handler of \<open>Exception\<close> belongs
  to the outermost layer of Starlette, which no exception reaches.
\<close>

definition exception_handlers :: "'s handler \<Rightarrow> 's handler" where
  "exception_handlers route s =
     (case route s of
        (Inl e, s') \<Rightarrow> (if is_application_error e then (Inr (error_body e), s') else (Inl e, s'))
      | (Inr r, s') \<Rightarrow> (Inr r, s'))"

definition on_response :: "(response \<Rightarrow> response) \<Rightarrow> 's handler \<Rightarrow> 's handler" where
  "on_response f call_next s =
     (case call_next s of (Inl e, s') \<Rightarrow> (Inl e, s') | (Inr r, s') \<Rightarrow> (Inr (f r), s'))"

section \<open>Headers\<close>

definition with_security_headers :: "response \<Rightarrow> response" where
  "with_security_headers r =
     default_header ''permissions-policy'' (lit ''camera=(), microphone=(), geolocation=()'')
       (default_header ''referrer-policy'' (lit ''no-referrer'')
         (default_header ''x-frame-options'' (lit ''DENY'')
           (default_header ''x-content-type-options'' (lit ''nosniff'') r)))"

definition security_headers :: "'s handler \<Rightarrow> 's handler" where
  "security_headers = on_response with_security_headers"

definition request_id :: "ustr \<Rightarrow> web_request \<Rightarrow> ustr" where
  "request_id fresh req =
     (case x_request_id req of None \<Rightarrow> fresh | Some i \<Rightarrow> if i = [] then fresh else i)"

definition request_logging :: "ustr \<Rightarrow> web_request \<Rightarrow> 's handler \<Rightarrow> 's handler" where
  "request_logging fresh req = on_response (set_header ''x-request-id'' (request_id fresh req))"

section \<open>CORS\<close>

definition domain_owner :: "ustr \<Rightarrow> platform_db \<Rightarrow> uuid option" where
  "domain_owner name s =
     map_option dom_tenant_id (scalar (filter (\<lambda>d. hostname d = name \<and> dom_active d) (tenant_domains s)))"

definition origin_allowed ::
  "text_tables \<Rightarrow> (ustr \<Rightarrow> exn + split_url) \<Rightarrow> settings \<Rightarrow> tenant_context option \<Rightarrow> ustr \<Rightarrow> platform_db \<Rightarrow> exn + bool"
where
  "origin_allowed U split c tenant origin s =
     (if origin \<in> set (allowed_cors_origins c) then Inr True
      else case tenant of
             None \<Rightarrow> Inr False
           | Some ctx \<Rightarrow>
               (case split origin of
                  Inl e \<Rightarrow> Inl e
                | Inr parsed \<Rightarrow>
                    (case url_hostname parsed of
                       None \<Rightarrow> Inr False
                     | Some name \<Rightarrow>
                         if url_scheme parsed \<notin> {lit ''http'', lit ''https''} then Inr False
                         else case normalize_hostname U name of
                                Inl e \<Rightarrow> Inr False
                              | Inr h \<Rightarrow> Inr (domain_owner h s = Some (ctx_tenant_id ctx)))))"

definition cors_headers :: "ustr \<Rightarrow> response \<Rightarrow> response" where
  "cors_headers origin r =
     append_header ''vary'' (lit ''Origin'')
       (set_header ''access-control-max-age'' (lit ''600'')
         (set_header ''access-control-allow-headers'' (lit ''Authorization,Content-Type,Idempotency-Key,X-Request-ID'')
           (set_header ''access-control-allow-methods'' (lit ''GET,POST,PUT,PATCH,DELETE,OPTIONS'')
             (set_header ''access-control-allow-credentials'' (lit ''true'')
               (set_header ''access-control-allow-origin'' origin r)))))"

definition is_preflight :: "web_request \<Rightarrow> bool" where
  "is_preflight req \<longleftrightarrow>
     request_method req = lit ''OPTIONS'' \<and> or_default (access_control_request_method req) [] \<noteq> []"

definition dynamic_cors ::
  "text_tables \<Rightarrow> (ustr \<Rightarrow> exn + split_url) \<Rightarrow> settings \<Rightarrow> web_request \<Rightarrow> tenant_context option
     \<Rightarrow> platform_db handler \<Rightarrow> platform_db handler" where
  "dynamic_cors U split c req tenant call_next s =
     (case origin_header req of
        None \<Rightarrow> call_next s
      | Some origin \<Rightarrow>
          (case origin_allowed U split c tenant origin s of
             Inl e \<Rightarrow> (Inl e, s)
           | Inr allowed \<Rightarrow>
               and_then
                 (if is_preflight req
                  then (Inr \<lparr>resp_status = (if allowed then 204 else 403), resp_headers = [], error_code = ''''\<rparr>, s)
                  else call_next s)
                 (\<lambda>r s. (Inr (if allowed then cors_headers origin r else r), s))))"

section \<open>The stacks\<close>

definition tenant_resolution where
  "tenant_resolution U ip_address ip_network c req call_next s =
     (case resolve_tenant U ip_address ip_network c req s of
        Inl e \<Rightarrow> (Inl e, s)
      | Inr tenant \<Rightarrow> call_next tenant s)"

definition data_plane where
  "data_plane U ip_address ip_network split c fresh req route =
     error_boundary (security_headers (request_logging fresh req
       (tenant_resolution U ip_address ip_network c req (\<lambda>tenant.
         dynamic_cors U split c req tenant (exception_handlers (route tenant))))))"

definition control_plane :: "ustr \<Rightarrow> web_request \<Rightarrow> platform_db handler \<Rightarrow> platform_db handler" where
  "control_plane fresh req route =
     error_boundary (security_headers (request_logging fresh req (exception_handlers route)))"

section \<open>Lemmas\<close>

lemma header_default [simp]: "header j (default_header k v r) =
    (if j = k then Some (or_default (header k r) v) else header j r)"
  by (auto simp: header_def default_header_def map_add_def split: option.split)

lemma map_of_filter_other: "j \<noteq> k \<Longrightarrow> map_of (filter (\<lambda>(i, _). i \<noteq> k) xs) j = map_of xs j"
  by (induction xs) auto

lemma map_of_put_header: "map_of (put_header k v hs) j = (if j = k then Some v else map_of hs j)"
  by (induction k v hs rule: put_header.induct) (auto simp: map_of_filter_other)

lemma header_set [simp]: "header j (set_header k v r) = (if j = k then Some v else header j r)"
  by (simp add: header_def set_header_def map_of_put_header)

lemma header_append [simp]: "header j (append_header k v r) = (case header j r of None \<Rightarrow> if j = k then Some v else None | Some x \<Rightarrow> Some x)"
  by (auto simp: header_def append_header_def map_add_def split: option.split)

lemma with_security_headers_set:
  "header ''x-content-type-options'' (with_security_headers r) = Some (or_default (header ''x-content-type-options'' r) (lit ''nosniff''))"
  "header ''x-frame-options'' (with_security_headers r) = Some (or_default (header ''x-frame-options'' r) (lit ''DENY''))"
  "header ''referrer-policy'' (with_security_headers r) = Some (or_default (header ''referrer-policy'' r) (lit ''no-referrer''))"
  "header ''access-control-allow-origin'' (with_security_headers r) = header ''access-control-allow-origin'' r"
  "header ''x-request-id'' (with_security_headers r) = header ''x-request-id'' r"
  by (simp_all add: with_security_headers_def)

lemma header_empty [simp]: "header k \<lparr>resp_status = n, resp_headers = [], error_code = e\<rparr> = None"
  by (simp add: header_def)

lemma cors_headers_origin [simp]: "header ''access-control-allow-origin'' (cors_headers origin r) = Some origin"
  by (simp add: cors_headers_def)

lemma error_body_headers [simp]:
  "header k (error_body e) = (if k = ''content-type'' then Some (lit ''application/json'') else None)"
  by (simp add: header_def error_body_def)

text \<open>The answer by what the tenant middleware and the layers below it do.\<close>

lemma data_plane_refused:
  "resolve_tenant U ip_address ip_network c req s = Inl e \<Longrightarrow>
     data_plane U ip_address ip_network split c fresh req route s = (Inr (error_body e), s)"
  by (simp add: data_plane_def error_boundary_def security_headers_def request_logging_def on_response_def
      tenant_resolution_def)

lemma data_plane_Inl:
  "resolve_tenant U ip_address ip_network c req s = Inr tenant \<Longrightarrow>
   dynamic_cors U split c req tenant (exception_handlers (route tenant)) s = (Inl e, s') \<Longrightarrow>
     data_plane U ip_address ip_network split c fresh req route s = (Inr (error_body e), s')"
  by (simp add: data_plane_def error_boundary_def security_headers_def request_logging_def on_response_def
      tenant_resolution_def)

lemma data_plane_Inr:
  "resolve_tenant U ip_address ip_network c req s = Inr tenant \<Longrightarrow>
   dynamic_cors U split c req tenant (exception_handlers (route tenant)) s = (Inr r, s') \<Longrightarrow>
     data_plane U ip_address ip_network split c fresh req route s
       = (Inr (with_security_headers (set_header ''x-request-id'' (request_id fresh req) r)), s')"
  by (simp add: data_plane_def error_boundary_def security_headers_def request_logging_def on_response_def
      tenant_resolution_def)

section \<open>Properties\<close>

text \<open>What the layers above the routes let through as an exception is no application error.\<close>

lemma urlsplit_error: "urlsplit b n url = Inl e \<Longrightarrow> \<exists>m. e = PyValueError m"
  by (auto simp: urlsplit_def Let_def split: prod.splits if_splits)

lemma exception_handlers_Inl: "exception_handlers route s = (Inl e, s') \<Longrightarrow> \<not> is_application_error e"
  by (auto simp: exception_handlers_def split: prod.splits sum.splits if_splits)

lemma origin_allowed_Inl: "origin_allowed U (urlsplit b n) c tenant origin s = Inl e \<Longrightarrow> \<not> is_application_error e"
  by (auto simp: origin_allowed_def split: if_splits option.splits sum.splits dest!: urlsplit_error)

lemma dynamic_cors_Inl:
  assumes "dynamic_cors U (urlsplit b n) c req tenant (exception_handlers route) s = (Inl e, s')"
  shows "\<not> is_application_error e"
proof (cases "origin_header req")
  case None
  with assms have "exception_handlers route s = (Inl e, s')" by (simp add: dynamic_cors_def)
  then show ?thesis by (rule exception_handlers_Inl)
next
  case (Some origin)
  show ?thesis
  proof (cases "origin_allowed U (urlsplit b n) c tenant origin s")
    case (Inl x)
    with Some assms origin_allowed_Inl [OF Inl] show ?thesis by (simp add: dynamic_cors_def)
  next
    case (Inr allowed)
    with Some assms obtain s1 where "exception_handlers route s = (Inl e, s1)"
      by (auto simp: dynamic_cors_def and_then_def split: if_splits prod.splits sum.splits)
    then show ?thesis by (rule exception_handlers_Inl)
  qed
qed

lemma unexpected_status: "\<not> is_application_error e \<Longrightarrow> resp_status (error_body e) = 500"
  by (cases e) (simp_all add: error_body_def)

text \<open>C23: every_request_answered. Whatever the routes do, the data plane answers every request. An answer
  that comes through the stack carries the request identifier and the security headers, and only requests
  of a resolved (or exempt) tenant get one; an answer without the identifier has no security headers
  either and is the tenant middleware's refusal or a 500.\<close>

theorem every_request_answered:
  "case data_plane U ip_address ip_network (urlsplit b n) c fresh req route s of
     (Inl e, s') \<Rightarrow> False
   | (Inr r, s') \<Rightarrow>
       (if header ''x-request-id'' r = None
        then header ''x-frame-options'' r = None \<and> header ''x-content-type-options'' r = None
          \<and> ((\<exists>e. resolve_tenant U ip_address ip_network c req s = Inl e \<and> r = error_body e) \<or> resp_status r = 500)
        else header ''x-request-id'' r = Some (request_id fresh req)
          \<and> header ''x-frame-options'' r \<noteq> None \<and> header ''x-content-type-options'' r \<noteq> None
          \<and> header ''referrer-policy'' r \<noteq> None
          \<and> (\<exists>tenant. resolve_tenant U ip_address ip_network c req s = Inr tenant))"
proof (cases "resolve_tenant U ip_address ip_network c req s")
  case (Inl e)
  then show ?thesis by (simp add: data_plane_refused)
next
  case (Inr tenant)
  obtain out s' where cors: "dynamic_cors U (urlsplit b n) c req tenant (exception_handlers (route tenant)) s = (out, s')"
    by fastforce
  show ?thesis
  proof (cases out)
    case (Inl e)
    with data_plane_Inl [where route = route, OF Inr cors [unfolded Inl], of fresh] dynamic_cors_Inl [OF cors [unfolded Inl]]
    show ?thesis by (simp add: unexpected_status)
  next
    case outr: (Inr r)
    with data_plane_Inr [where route = route, OF Inr cors [unfolded outr], of fresh] Inr show ?thesis
      by (simp add: with_security_headers_set)
  qed
qed

lemma domain_owner_iff:
  assumes inv: "platform_inv s"
  shows "domain_owner h s = Some t \<longleftrightarrow> (\<exists>d\<in>set (tenant_domains s). hostname d = h \<and> dom_active d \<and> dom_tenant_id d = t)"
proof -
  have names: "distinct (map hostname (tenant_domains s))"
    using inv by (simp add: platform_inv_def domains_ok_def)
  have "filter (\<lambda>x. hostname x = h \<and> dom_active x) (tenant_domains s) = [d]"
    if d: "d \<in> set (tenant_domains s)" "hostname d = h" "dom_active d" for d
  proof -
    have "filter (\<lambda>x. hostname x = h \<and> dom_active x) (tenant_domains s)
        = filter dom_active (filter (\<lambda>x. hostname x = hostname d) (tenant_domains s))"
      using d(2) by (simp add: conj_commute)
    with filter_unique [OF names d(1)] d(3) show ?thesis by simp
  qed
  then show ?thesis
    unfolding domain_owner_def by (force dest!: scalar_Some_in)
qed

text \<open>C24: cors_only_own_domains. When routes set no CORS header of their own, a response of the data plane
  (in any reachable database) allows an origin only if that is the request's own \<open>Origin\<close> and either one
  of the configured platform origins, or an \<open>http(s)\<close> origin whose normalised host is an active domain
  of the very tenant the request resolved to: never another tenant's domain.\<close>

theorem cors_only_own_domains:
  assumes "\<And>tenant s r s'. route tenant s = (Inr r, s') \<Longrightarrow> header ''access-control-allow-origin'' r = None"
    and "data_plane U ip_address ip_network (urlsplit b n) c fresh req route (run (platform_step V) es empty_platform) = (Inr r, s')"
    and "header ''access-control-allow-origin'' r = Some origin"
  shows "origin_header req = Some origin
    \<and> (origin \<in> set (allowed_cors_origins c)
       \<or> (\<exists>ctx parsed name d.
            resolve_tenant U ip_address ip_network c req (run (platform_step V) es empty_platform) = Inr (Some ctx)
            \<and> urlsplit b n origin = Inr parsed \<and> url_scheme parsed \<in> {lit ''http'', lit ''https''}
            \<and> url_hostname parsed = Some name \<and> normalize_hostname U name = Inr (hostname d)
            \<and> d \<in> set (tenant_domains (run (platform_step V) es empty_platform)) \<and> dom_active d
            \<and> dom_tenant_id d = ctx_tenant_id ctx))"
proof -
  let ?s = "run (platform_step V) es empty_platform"
  have no_origin: "header ''access-control-allow-origin'' x = None"
    if "exception_handlers (route tenant) ?s = (Inr x, s1)" for tenant x s1
    using that assms(1) by (auto simp: exception_handlers_def split: prod.splits sum.splits if_splits)
  obtain tenant where tenant: "resolve_tenant U ip_address ip_network c req ?s = Inr tenant"
    using assms(2,3) by (cases "resolve_tenant U ip_address ip_network c req ?s") (auto simp: data_plane_refused)
  obtain out s1 where out: "dynamic_cors U (urlsplit b n) c req tenant (exception_handlers (route tenant)) ?s = (out, s1)"
    by fastforce
  obtain x where cors: "dynamic_cors U (urlsplit b n) c req tenant (exception_handlers (route tenant)) ?s = (Inr x, s1)"
    and x: "header ''access-control-allow-origin'' x = Some origin"
  proof (cases out)
    case (Inl e)
    with data_plane_Inl [where route = route, OF tenant out [unfolded Inl], of fresh] assms(2,3) show thesis by auto
  next
    case (Inr x)
    with data_plane_Inr [where route = route, OF tenant out [unfolded Inr], of fresh] assms(2,3) out show thesis
      by (intro that [of x]) (auto simp: with_security_headers_set)
  qed
  from cors x no_origin obtain o' where o': "origin_header req = Some o'" "origin_allowed U (urlsplit b n) c tenant o' ?s = Inr True"
    "o' = origin"
    by (auto simp: dynamic_cors_def and_then_def split: option.splits sum.splits if_splits prod.splits)
  show ?thesis
    using o' tenant
    by (auto simp: origin_allowed_def domain_owner_iff [OF reachable_platform_inv] split: if_splits option.splits sum.splits)
qed

section \<open>Witness, and a malformed origin\<close>

definition origin_request :: "ustr \<Rightarrow> web_request" where
  "origin_request origin = (sample_request ''school.localhost'')\<lparr>request_method := lit ''GET'', origin_header := Some origin\<rparr>"

definition ok_response :: response where
  "ok_response = \<lparr>resp_status = 200, resp_headers = [], error_code = ''''\<rparr>"

definition ok_route :: "tenant_context option \<Rightarrow> platform_db handler" where
  "ok_route tenant s = (Inr ok_response, s)"

definition any_url :: "ustr \<Rightarrow> bool" where
  "any_url s = True"

lemma origin_resolves:
  "resolve_tenant plain_text no_ip no_network default_settings (origin_request o') bootstrapped
     = Inr (Some (context_of sample_tenant sample_domain))"
proof -
  have "resolve_tenant plain_text no_ip no_network default_settings (origin_request o') bootstrapped
      = resolve_tenant plain_text no_ip no_network default_settings (sample_request ''school.localhost'') bootstrapped"
    by (simp add: resolve_tenant_def request_hostname_def client_is_trusted_proxy_def origin_request_def default_settings_def)
  also have "\<dots> = Inr (Some (context_of sample_tenant sample_domain))"
    by (rule school_resolves) (simp_all add: bootstrapped_def)
  finally show ?thesis .
qed

text \<open>An origin that \<open>urlsplit\<close> refuses: outside the \<open>try\<close> of \<open>_origin_allowed\<close>, so the answer is a 500.\<close>

theorem malformed_origin_crashes:
  "fst (data_plane plain_text no_ip no_network (urlsplit any_url any_url) default_settings fresh
      (origin_request (lit ''http://['')) ok_route (run (platform_step sample_env) [sample_bootstrap] empty_platform))
     = Inr (error_body (PyValueError ''Invalid IPv6 URL''))
   \<and> resp_status (error_body (PyValueError ''Invalid IPv6 URL'')) = 500"
proof -
  have "urlsplit any_url any_url (lit ''http://['') = Inl (PyValueError ''Invalid IPv6 URL'')"
    by (simp add: urlsplit_def Let_def split_scheme_def partition_at_def before_def after_def lstrip_where_def startswith_def
        is_ascii_alpha_def is_scheme_char_def)
  then have "dynamic_cors plain_text (urlsplit any_url any_url) default_settings (origin_request (lit ''http://['')) (Some ctx)
      (exception_handlers (ok_route (Some ctx))) bootstrapped = (Inl (PyValueError ''Invalid IPv6 URL''), bootstrapped)" for ctx
    by (simp add: dynamic_cors_def origin_request_def origin_allowed_def default_settings_def)
  from data_plane_Inl [where route = ok_route, OF origin_resolves this, of fresh] show ?thesis
    by (simp add: sample_bootstrapped unexpected_status)
qed

theorem cors_only_own_domains_witness:
  "\<exists>r s'. data_plane plain_text no_ip no_network (urlsplit any_url any_url) default_settings []
      (origin_request (lit ''https://School.localhost:8443'')) ok_route
      (run (platform_step sample_env) [sample_bootstrap] empty_platform) = (Inr r, s')
   \<and> header ''access-control-allow-origin'' r = Some (lit ''https://School.localhost:8443'')
   \<and> origin_header (origin_request (lit ''https://School.localhost:8443'')) = Some (lit ''https://School.localhost:8443'')"
proof -
  let ?o = "lit ''https://School.localhost:8443''"
  have "\<exists>parsed. urlsplit any_url any_url ?o = Inr parsed \<and> url_scheme parsed = lit ''https''
      \<and> url_hostname parsed = Some (lit ''school.localhost'')"
    by (simp add: urlsplit_def Let_def split_scheme_def partition_at_def rpartition_at_def before_def after_def lstrip_where_def
        startswith_def is_ascii_alpha_def is_scheme_char_def url_hostname_def hostinfo_def any_url_def lower_def lower_char_def)
  then obtain parsed where parsed: "urlsplit any_url any_url ?o = Inr parsed" "url_scheme parsed = lit ''https''"
    "url_hostname parsed = Some (lit ''school.localhost'')" by blast
  have owner: "domain_owner (lit ''school.localhost'') bootstrapped = Some 1"
    by (simp add: domain_owner_def bootstrapped_def sample_domain_def)
  have ctx: "ctx_tenant_id (context_of sample_tenant sample_domain) = 1"
    by (simp add: context_of_def sample_tenant_def)
  have "origin_allowed plain_text (urlsplit any_url any_url) default_settings
      (Some (context_of sample_tenant sample_domain)) ?o bootstrapped = Inr True"
    unfolding origin_allowed_def option.case parsed sum.case sample_hostname owner ctx
    by simp
  then have "dynamic_cors plain_text (urlsplit any_url any_url) default_settings (origin_request ?o)
      (Some (context_of sample_tenant sample_domain))
      (exception_handlers (ok_route (Some (context_of sample_tenant sample_domain)))) bootstrapped
      = (Inr (cors_headers ?o ok_response), bootstrapped)"
    by (simp add: dynamic_cors_def origin_request_def is_preflight_def sample_request_def exception_handlers_def ok_route_def)
  from data_plane_Inr [where route = ok_route, OF origin_resolves this, of "[]"]
  have run: "data_plane plain_text no_ip no_network (urlsplit any_url any_url) default_settings [] (origin_request ?o) ok_route
      (run (platform_step sample_env) [sample_bootstrap] empty_platform)
      = (Inr (with_security_headers (set_header ''x-request-id'' (request_id [] (origin_request ?o))
          (cors_headers ?o ok_response))), bootstrapped)"
    by (simp add: sample_bootstrapped)
  have allow: "header ''access-control-allow-origin'' (with_security_headers (set_header ''x-request-id''
      (request_id [] (origin_request ?o)) (cors_headers ?o ok_response))) = Some ?o"
    by (simp add: with_security_headers_set)
  have none: "header ''access-control-allow-origin'' r = None" if "ok_route t s = (Inr r, s')" for t s r s'
    using that by (auto simp: ok_route_def ok_response_def)
  show ?thesis
    by (intro exI conjI, rule run, rule allow, rule conjunct1 [OF cors_only_own_domains [of ok_route, OF none run allow]])
qed

end
