(* ===== verification/RichText.thy ===== *)
theory RichText
  imports Config Uuids
begin

text \<open>
  \<open>app/blog/rich_text.py\<close>: the validation of structured documents, the media they refer to and
  their HTML. \<open>split\<close> is \<open>urlsplit\<close> of \<open>Config\<close> with its two library checks fixed; \<open>py_repr\<close> is
  Python's \<open>str\<close> of a float, list or dict, which no accepted document puts on a page.
\<close>

section \<open>Python values\<close>

text \<open>The two ways a lookup with \<open>.get\<close> is used; a missing key reads as \<open>None\<close>.\<close>

type_synonym entries = "(ustr \<times> json) list"

definition get_or :: "entries \<Rightarrow> string \<Rightarrow> json \<Rightarrow> json" where
  "get_or es key d = or_default (map_of es (lit key)) d"

definition get :: "entries \<Rightarrow> string \<Rightarrow> json" where
  "get es key = get_or es key JNull"

text \<open>\<open>es[key]\<close>\<close>

definition item :: "entries \<Rightarrow> string \<Rightarrow> exn + json" where
  "item es key = (case map_of es (lit key) of None \<Rightarrow> Inl (PyKeyError key) | Some v \<Rightarrow> Inr v)"

definition attempt :: "exn + 'a \<Rightarrow> ('a \<Rightarrow> exn + 'b) \<Rightarrow> exn + 'b" where
  "attempt m k = (case m of Inl e \<Rightarrow> Inl e | Inr x \<Rightarrow> k x)"

lemma attempt_simps [simp]: "attempt (Inl e) k = Inl e" "attempt (Inr x) k = k x"
  by (simp_all add: attempt_def)

lemma attempt_Inr: "attempt m k = Inr y \<longleftrightarrow> (\<exists>x. m = Inr x \<and> k x = Inr y)"
  by (cases m) auto

lemma attempt_Inl: "attempt m k = Inl e \<longleftrightarrow> m = Inl e \<or> (\<exists>x. m = Inr x \<and> k x = Inl e)"
  by (cases m) auto

lemma attempt_cong [fundef_cong]:
  "m = m' \<Longrightarrow> (\<And>x. m' = Inr x \<Longrightarrow> k x = k' x) \<Longrightarrow> attempt m k = attempt m' k'"
  by (cases m') auto

abbreviation refuse :: "string \<Rightarrow> exn + 'a" where
  "refuse message \<equiv> Inl (RichTextError message)"

text \<open>\<open>value in {"a", "b"}\<close>: a list or a dict is not hashable.\<close>

fun in_strings :: "json \<Rightarrow> ustr list \<Rightarrow> exn + bool" where
  "in_strings (JStr s) names = Inr (s \<in> set names)"
| "in_strings (JArr xs) names = Inl PyTypeError"
| "in_strings (JObj es) names = Inl PyTypeError"
| "in_strings v names = Inr False"

text \<open>The number a value compares equal to in \<open>value in {1, ..., 6}\<close>: \<open>True\<close> is 1 and 2.0 is 2.\<close>

fun in_levels :: "json \<Rightarrow> exn + bool" where
  "in_levels (JInt i) = Inr (1 \<le> i \<and> i \<le> 6)"
| "in_levels (JBool b) = Inr b"
| "in_levels (JFloat n k) = Inr (2 ^ k dvd n \<and> 1 \<le> n div 2 ^ k \<and> n div 2 ^ k \<le> 6)"
| "in_levels (JArr xs) = Inl PyTypeError"
| "in_levels (JObj es) = Inl PyTypeError"
| "in_levels v = Inr False"

text \<open>\<open>int(text)\<close>\<close>

fun decimal_number :: "bool \<Rightarrow> bool \<Rightarrow> nat \<Rightarrow> ustr \<Rightarrow> nat option" where
  "decimal_number gap complete acc [] = (if complete then Some acc else None)"
| "decimal_number gap complete acc (c # s) =
     (if c = 95 then (if gap then decimal_number False False acc s else None)
      else case decimal_value c of
             None \<Rightarrow> None
           | Some d \<Rightarrow> decimal_number True True (10 * acc + d) s)"

definition int_of_text :: "ustr \<Rightarrow> int option" where
  "int_of_text text =
     (let s = strip text in
      if startswith s [45] then map_option (\<lambda>n. - int n) (decimal_number False False 0 (drop 1 s))
      else map_option int (decimal_number False False 0 (if startswith s [43] then drop 1 s else s)))"

fun py_int :: "json \<Rightarrow> exn + int" where
  "py_int (JInt i) = Inr i"
| "py_int (JBool b) = Inr (if b then 1 else 0)"
| "py_int (JFloat n k) = Inr (sgn n * (\<bar>n\<bar> div 2 ^ k))"
| "py_int (JStr s) = (case int_of_text s of None \<Rightarrow> Inl (PyValueError ''int'') | Some i \<Rightarrow> Inr i)"
| "py_int v = Inl PyTypeError"

text \<open>\<open>str(value)\<close>\<close>

fun py_str :: "(json \<Rightarrow> ustr) \<Rightarrow> json \<Rightarrow> ustr" where
  "py_str py_repr (JStr s) = s"
| "py_str py_repr JNull = lit ''None''"
| "py_str py_repr (JBool b) = (if b then lit ''True'' else lit ''False'')"
| "py_str py_repr (JInt i) = str_of_int i"
| "py_str py_repr v = py_repr v"

text \<open>\<open>bool(value)\<close>\<close>

fun py_truthy :: "json \<Rightarrow> bool" where
  "py_truthy JNull = False"
| "py_truthy (JBool b) = b"
| "py_truthy (JInt i) = (i \<noteq> 0)"
| "py_truthy (JFloat n k) = (n \<noteq> 0)"
| "py_truthy (JStr s) = (s \<noteq> [])"
| "py_truthy (JArr xs) = (xs \<noteq> [])"
| "py_truthy (JObj es) = (es \<noteq> [])"

text \<open>
  \<open>uuid.UUID(str(value))\<close>. Text and integers can spell one; \<open>None\<close>, booleans and floats are too
  short, and the text of a list or a dict holds a bracket or a quote, or nothing at all.
\<close>

fun uuid_of :: "json \<Rightarrow> exn + uuid" where
  "uuid_of (JStr s) = parse_uuid s"
| "uuid_of (JInt i) = parse_uuid (str_of_int i)"
| "uuid_of v = Inl (PyValueError ''badly formed hexadecimal UUID string'')"

section \<open>Validation\<close>

definition MAX_NODES :: nat where "MAX_NODES = 10000"
definition MAX_DEPTH :: nat where "MAX_DEPTH = 32"
definition MAX_TEXT_CHARS :: nat where "MAX_TEXT_CHARS = 200000"

fun as_mapping :: "json \<Rightarrow> string \<Rightarrow> exn + entries" where
  "as_mapping (JObj es) message = Inr es"
| "as_mapping v message = refuse message"

definition check_keys :: "entries \<Rightarrow> ustr list \<Rightarrow> exn + unit" where
  "check_keys es allowed =
     (if list_all (\<lambda>(k, v). k \<in> set allowed) es then Inr ()
      else refuse ''rich-text node contains unsupported fields'')"

definition safe_schemes :: "ustr list" where
  "safe_schemes = [[], lit ''http'', lit ''https'', lit ''mailto'', lit ''tel'']"

text \<open>The scheme \<open>urlsplit\<close> returns is ASCII and in lower case, so \<open>casefold\<close> leaves it alone.\<close>

definition safe_href :: "(ustr \<Rightarrow> exn + split_url) \<Rightarrow> json \<Rightarrow> exn + ustr" where
  "safe_href split value =
     (case value of
        JStr href \<Rightarrow>
          if href = [] \<or> length href > 2048 then refuse ''link href is invalid''
          else attempt (split href) (\<lambda>parsed.
            if url_scheme parsed \<notin> set safe_schemes then refuse ''link scheme is not allowed''
            else if url_scheme parsed = [] \<and> hd href \<notin> {47, 35, 63}
            then refuse ''relative links must begin with /, #, or ?''
            else Inr href)
      | _ \<Rightarrow> refuse ''link href is invalid'')"

record counters =
  count_nodes :: nat
  count_text :: nat
  count_meaningful :: nat

definition mark_types :: "ustr list" where
  "mark_types = [lit ''bold'', lit ''italic'', lit ''underline'', lit ''link'']"

definition check_link :: "(ustr \<Rightarrow> exn + split_url) \<Rightarrow> entries \<Rightarrow> exn + unit" where
  "check_link split mark =
     attempt (check_keys mark [lit ''type'', lit ''attrs'']) (\<lambda>_.
     attempt (as_mapping (get mark ''attrs'') ''link attrs are required'') (\<lambda>attrs.
     attempt (check_keys attrs [lit ''href'']) (\<lambda>_.
     attempt (safe_href split (get attrs ''href'')) (\<lambda>_. Inr ()))))"

fun check_marks :: "(ustr \<Rightarrow> exn + split_url) \<Rightarrow> json list \<Rightarrow> ustr list \<Rightarrow> exn + unit" where
  "check_marks split [] seen = Inr ()"
| "check_marks split (raw_mark # marks) seen =
     attempt (as_mapping raw_mark ''rich-text mark must be an object'') (\<lambda>mark.
     attempt (in_strings (get mark ''type'') mark_types) (\<lambda>known.
       if \<not> known then refuse ''rich-text mark is not supported''
       else
         (case get mark ''type'' of
            JStr mark_type \<Rightarrow>
              if mark_type \<in> set seen then refuse ''duplicate rich-text mark''
              else attempt (if mark_type = lit ''link'' then check_link split mark
                            else check_keys mark [lit ''type'']) (\<lambda>_.
                check_marks split marks (mark_type # seen))
          | _ \<Rightarrow> refuse ''rich-text mark is not supported'')))"

definition validate_text ::
  "(ustr \<Rightarrow> exn + split_url) \<Rightarrow> entries \<Rightarrow> counters \<Rightarrow> exn + counters" where
  "validate_text split node c =
     attempt (check_keys node [lit ''type'', lit ''text'', lit ''marks'']) (\<lambda>_.
       case get node ''text'' of
         JStr text_value \<Rightarrow>
           if text_value = [] then refuse ''text node text must be non-empty''
           else
             let c = c\<lparr>count_text := count_text c + length text_value,
                       count_meaningful := count_meaningful c + (if strip text_value \<noteq> [] then 1 else 0)\<rparr>
             in if count_text c > MAX_TEXT_CHARS then refuse ''rich-text document is too large''
                else
                  (case get_or node ''marks'' (JArr []) of
                     JArr marks \<Rightarrow> attempt (check_marks split marks []) (\<lambda>_. Inr c)
                   | _ \<Rightarrow> refuse ''text marks must be a list'')
       | _ \<Rightarrow> refuse ''text node text must be non-empty'')"

fun optional_text :: "json \<Rightarrow> nat \<Rightarrow> bool" where
  "optional_text JNull maximum = True"
| "optional_text (JStr s) maximum = (length s \<le> maximum)"
| "optional_text v maximum = False"

definition check_image :: "entries \<Rightarrow> exn + unit" where
  "check_image node =
     attempt (check_keys node [lit ''type'', lit ''attrs'']) (\<lambda>_.
     attempt (as_mapping (get node ''attrs'') ''image attrs are required'') (\<lambda>attrs.
     attempt (check_keys attrs [lit ''media_id'', lit ''alt'', lit ''caption'']) (\<lambda>_.
       case uuid_of (get attrs ''media_id'') of
         Inl e \<Rightarrow> refuse ''image media_id must be a UUID''
       | Inr _ \<Rightarrow>
           if \<not> optional_text (get attrs ''alt'') 500 then refuse ''image alt is invalid''
           else if \<not> optional_text (get attrs ''caption'') 2000 then refuse ''image caption is invalid''
           else Inr ())))"

definition validate_image :: "entries \<Rightarrow> counters \<Rightarrow> exn + counters" where
  "validate_image node c =
     attempt (check_image node) (\<lambda>_. Inr (c\<lparr>count_meaningful := count_meaningful c + 1\<rparr>))"

definition validate_break :: "ustr \<Rightarrow> entries \<Rightarrow> counters \<Rightarrow> exn + counters" where
  "validate_break node_type node c =
     attempt (check_keys node [lit ''type'']) (\<lambda>_.
       Inr (if node_type = lit ''horizontalRule''
            then c\<lparr>count_meaningful := count_meaningful c + 1\<rparr> else c))"

definition block_types :: "ustr list" where
  "block_types = [lit ''paragraph'', lit ''heading'', lit ''blockquote'', lit ''bulletList'', lit ''orderedList'']"

definition root_types :: "ustr list" where
  "root_types = block_types @ [lit ''horizontalRule'', lit ''image'']"

definition allowed_children :: "ustr \<Rightarrow> ustr list option" where
  "allowed_children =
     map_of [(lit ''paragraph'', [lit ''text'', lit ''hardBreak'']),
             (lit ''heading'', [lit ''text'', lit ''hardBreak'']),
             (lit ''blockquote'', block_types),
             (lit ''bulletList'', [lit ''listItem'']),
             (lit ''orderedList'', [lit ''listItem'']),
             (lit ''listItem'', block_types)]"

definition check_container :: "ustr \<Rightarrow> entries \<Rightarrow> exn + unit" where
  "check_container node_type node =
     attempt (check_keys node
       ([lit ''type'', lit ''content''] @
        (if node_type \<in> {lit ''heading'', lit ''orderedList''} then [lit ''attrs''] else []))) (\<lambda>_.
       if node_type = lit ''heading'' then
         attempt (as_mapping (get node ''attrs'') ''heading attrs are required'') (\<lambda>attrs.
         attempt (check_keys attrs [lit ''level'']) (\<lambda>_.
         attempt (in_levels (get attrs ''level'')) (\<lambda>ok.
           if ok then Inr () else refuse ''heading level must be between 1 and 6'')))
       else if node_type = lit ''orderedList'' \<and> get node ''attrs'' \<noteq> JNull then
         attempt (as_mapping (get node ''attrs'') ''ordered-list attrs must be an object'') (\<lambda>attrs.
         attempt (check_keys attrs [lit ''start'']) (\<lambda>_.
           case get attrs ''start'' of
             JInt i \<Rightarrow> if i < 1 then refuse ''ordered-list start must be positive'' else Inr ()
           | JBool b \<Rightarrow> if \<not> b then refuse ''ordered-list start must be positive'' else Inr ()
           | _ \<Rightarrow> refuse ''ordered-list start must be positive''))
       else Inr ())"

definition list_types :: "ustr list" where
  "list_types = [lit ''bulletList'', lit ''orderedList'', lit ''listItem'']"

text \<open>
  \<open>_validate_node\<close> and its loop over children. The loop of \<open>validate_document\<close> over the root's
  content is the same one with its own allowed types and messages.
\<close>

function (sequential) validate_node ::
  "(ustr \<Rightarrow> exn + split_url) \<Rightarrow> nat \<Rightarrow> json \<Rightarrow> counters \<Rightarrow> exn + counters"
and validate_children ::
  "(ustr \<Rightarrow> exn + split_url) \<Rightarrow> string \<times> string \<Rightarrow> ustr list \<Rightarrow> nat \<Rightarrow> json list \<Rightarrow> counters \<Rightarrow> exn + counters"
where
  "validate_node split depth (JObj node) c =
     (if depth > MAX_DEPTH then refuse ''rich-text document is nested too deeply''
      else
        (case get node ''type'' of
           JStr node_type \<Rightarrow>
             let c = c\<lparr>count_nodes := count_nodes c + 1\<rparr> in
             if count_nodes c > MAX_NODES then refuse ''rich-text document contains too many nodes''
             else if node_type = lit ''text'' then validate_text split node c
             else if node_type = lit ''image'' then validate_image node c
             else if node_type \<in> {lit ''horizontalRule'', lit ''hardBreak''} then validate_break node_type node c
             else
               (case allowed_children node_type of
                  None \<Rightarrow> refuse ''rich-text node type is not supported''
                | Some allowed \<Rightarrow>
                    attempt (check_container node_type node) (\<lambda>_.
                      case get_or node ''content'' (JArr []) of
                        JArr children \<Rightarrow>
                          if node_type \<in> set list_types \<and> children = []
                          then refuse (map char_of node_type @ '' cannot be empty'')
                          else validate_children split
                                 (''rich-text child must be an object'',
                                  map char_of node_type @ '' contains an unsupported child'')
                                 allowed (depth + 1) children c
                      | _ \<Rightarrow> refuse ''rich-text node content must be a list''))
         | _ \<Rightarrow> refuse ''rich-text node type is required''))"
| "validate_node split depth raw c =
     (if depth > MAX_DEPTH then refuse ''rich-text document is nested too deeply''
      else refuse ''rich-text node must be an object'')"
| "validate_children split messages allowed depth [] c = Inr c"
| "validate_children split messages allowed depth (child # children) c =
     attempt (as_mapping child (fst messages)) (\<lambda>entries.
     attempt (in_strings (get entries ''type'') allowed) (\<lambda>ok.
       if \<not> ok then refuse (snd messages)
       else attempt (validate_node split depth child c) (\<lambda>c'.
              validate_children split messages allowed depth children c')))"
  by pat_completeness auto
termination
  by (relation "measures [\<lambda>x. case x of Inl (_, d, _) \<Rightarrow> Suc MAX_DEPTH - d | Inr (_, _, _, d, _, _) \<Rightarrow> Suc MAX_DEPTH - d,
       \<lambda>x. case x of Inl _ \<Rightarrow> 0 | Inr (_, _, _, _, xs, _) \<Rightarrow> Suc (length xs)]") auto

definition validate_document :: "(ustr \<Rightarrow> exn + split_url) \<Rightarrow> bool \<Rightarrow> json \<Rightarrow> exn + entries" where
  "validate_document split require_content value =
     attempt (as_mapping value ''rich-text document must be an object'') (\<lambda>document.
     attempt (check_keys document [lit ''type'', lit ''content'']) (\<lambda>_.
       if get document ''type'' \<noteq> JStr (lit ''doc'') then refuse ''rich-text root type must be doc''
       else
         (case get_or document ''content'' (JArr []) of
            JArr content \<Rightarrow>
              attempt (validate_children split
                  (''rich-text node must be an object'', ''rich-text document contains an unsupported root node'')
                  root_types 1 content \<lparr>count_nodes = 1, count_text = 0, count_meaningful = 0\<rparr>) (\<lambda>c.
                if require_content \<and> count_meaningful c = 0
                then refuse ''rich-text document cannot be empty when published''
                else Inr document)
          | _ \<Rightarrow> refuse ''rich-text document content must be a list'')))"

section \<open>Media references\<close>

text \<open>
  \<open>for child in node.get("content", [])\<close>: what the loop sees first when the content is no list
  is a one-character string or a key, which is no object.
\<close>

definition children_of :: "entries \<Rightarrow> string \<Rightarrow> exn + json list" where
  "children_of node message =
     (case get_or node ''content'' (JArr []) of
        JArr xs \<Rightarrow> Inr xs
      | JStr s \<Rightarrow> if s = [] then Inr [] else refuse message
      | JObj es \<Rightarrow> if es = [] then Inr [] else refuse message
      | _ \<Rightarrow> Inl PyTypeError)"

lemma children_of_size: "children_of node m = Inr xs \<Longrightarrow> xs = [] \<or> size_list size xs < size (JObj node)"
proof -
  have smaller: "size v < size (JObj node)" if "map_of node k = Some v" for k v
    using map_of_SomeD [OF that] by (induction node) (auto simp: less_Suc_eq_le trans_le_add2)
  assume "children_of node m = Inr xs"
  then show ?thesis
    using smaller [of "lit ''content''"]
    by (cases "map_of node (lit ''content'')")
      (force simp: children_of_def get_or_def split: json.splits if_splits)+
qed

definition message_child :: string where "message_child = ''rich-text child must be an object''"

definition image_id :: "entries \<Rightarrow> exn + uuid list" where
  "image_id node =
     (if get node ''type'' = JStr (lit ''image'') then
        attempt (as_mapping (get node ''attrs'') ''image attrs are required'') (\<lambda>attrs.
        attempt (item attrs ''media_id'') (\<lambda>v. attempt (uuid_of v) (\<lambda>i. Inr [i])))
      else Inr [])"

text \<open>\<open>visit\<close> of \<open>referenced_media_ids\<close>: the identifiers in document order; the code keeps their set.\<close>

function (sequential) visit :: "entries \<Rightarrow> exn + uuid list"
and visit_all :: "json list \<Rightarrow> exn + uuid list" where
  "visit node =
     attempt (image_id node) (\<lambda>own.
     attempt (children_of node message_child) (\<lambda>children.
     attempt (visit_all children) (\<lambda>below. Inr (own @ below))))"
| "visit_all [] = Inr []"
| "visit_all (JObj child # children) =
     attempt (visit child) (\<lambda>first. attempt (visit_all children) (\<lambda>rest. Inr (first @ rest)))"
| "visit_all (child # children) = refuse message_child"
  by pat_completeness auto
termination
  by (relation "measure (\<lambda>x. case x of Inl node \<Rightarrow> size (JObj node) | Inr xs \<Rightarrow> size_list size xs)")
    (auto dest: children_of_size)

definition referenced_media_ids :: "entries \<Rightarrow> exn + uuid list" where
  "referenced_media_ids document = attempt (visit document) (\<lambda>ids. Inr (remdups ids))"

section \<open>Rendering\<close>

text \<open>\<open>html.escape(s, quote=...)\<close>\<close>

definition escape_char :: "bool \<Rightarrow> nat \<Rightarrow> ustr" where
  "escape_char quote c =
     (if c = 38 then lit ''&amp;'' else if c = 60 then lit ''&lt;'' else if c = 62 then lit ''&gt;''
      else if quote \<and> c = 34 then lit ''&quot;'' else if quote \<and> c = 39 then lit ''&#x27;'' else [c])"

definition escape :: "bool \<Rightarrow> ustr \<Rightarrow> ustr" where
  "escape quote s = concat (map (escape_char quote) s)"

text \<open>An element: its tag with attributes, its content, its closing tag.\<close>

definition element :: "ustr \<Rightarrow> ustr \<Rightarrow> ustr \<Rightarrow> ustr" where
  "element name attributes body =
     [60] @ name @ attributes @ [62] @ body @ [60, 47] @ name @ [62]"

definition anchor_attributes :: "ustr \<Rightarrow> bool \<Rightarrow> ustr" where
  "anchor_attributes href external =
     lit '' href=\"'' @ escape True href @ lit ''\"'' @
     (if external then lit '' target=\"_blank\" rel=\"noopener noreferrer\"'' else [])"

definition wrap_mark :: "(ustr \<Rightarrow> exn + split_url) \<Rightarrow> entries \<Rightarrow> ustr \<Rightarrow> exn + ustr" where
  "wrap_mark split mark result =
     attempt (item mark ''type'') (\<lambda>mark_type.
       if mark_type = JStr (lit ''bold'') then Inr (element (lit ''strong'') [] result)
       else if mark_type = JStr (lit ''italic'') then Inr (element (lit ''em'') [] result)
       else if mark_type = JStr (lit ''underline'') then Inr (element (lit ''u'') [] result)
       else
         attempt (item mark ''attrs'') (\<lambda>raw.
         attempt (as_mapping raw ''link attrs are required'') (\<lambda>attrs.
         attempt (item attrs ''href'') (\<lambda>value.
         attempt (safe_href split value) (\<lambda>href.
         attempt (split href) (\<lambda>parsed.
           Inr (element (lit ''a'')
             (anchor_attributes href (url_scheme parsed \<in> {lit ''http'', lit ''https''})) result)))))))"

fun wrap_marks :: "(ustr \<Rightarrow> exn + split_url) \<Rightarrow> json list \<Rightarrow> ustr \<Rightarrow> exn + ustr" where
  "wrap_marks split [] result = Inr result"
| "wrap_marks split (raw_mark # marks) result =
     attempt (as_mapping raw_mark ''rich-text mark must be an object'') (\<lambda>mark.
     attempt (wrap_mark split mark result) (wrap_marks split marks))"

definition iterate :: "json \<Rightarrow> exn + json list" where
  "iterate v =
     (case v of
        JArr xs \<Rightarrow> Inr xs
      | JStr s \<Rightarrow> Inr (map (\<lambda>c. JStr [c]) s)
      | JObj es \<Rightarrow> Inr (map (\<lambda>(k, _). JStr k) es)
      | _ \<Rightarrow> Inl PyTypeError)"

definition render_text ::
  "(json \<Rightarrow> ustr) \<Rightarrow> (ustr \<Rightarrow> exn + split_url) \<Rightarrow> entries \<Rightarrow> exn + ustr" where
  "render_text py_repr split node =
     attempt (item node ''text'') (\<lambda>value.
     attempt (iterate (get_or node ''marks'' (JArr []))) (\<lambda>marks.
       wrap_marks split marks (escape False (py_str py_repr value))))"

definition render_image :: "(json \<Rightarrow> ustr) \<Rightarrow> entries \<Rightarrow> exn + ustr" where
  "render_image py_repr node =
     attempt (item node ''attrs'') (\<lambda>raw.
     attempt (as_mapping raw ''image attrs are required'') (\<lambda>attrs.
     attempt (item attrs ''media_id'') (\<lambda>value.
     attempt (uuid_of value) (\<lambda>media_id.
       let alt = get attrs ''alt'';
           alt = escape True (if py_truthy alt then py_str py_repr alt else []);
           image = lit ''<img src=\"/api/v1/public/media/'' @ uuid_str media_id @ lit ''\" alt=\"'' @ alt
             @ lit ''\" loading=\"lazy\">'';
           caption = get attrs ''caption''
       in Inr (element (lit ''figure'') []
            (if py_truthy caption
             then image @ element (lit ''figcaption'') [] (escape True (py_str py_repr caption))
             else image))))))"

text \<open>The tag around the children of a container; \<open>None\<close> for an unknown node type.\<close>

definition wrap_children :: "json \<Rightarrow> entries \<Rightarrow> ustr \<Rightarrow> exn + ustr" where
  "wrap_children node_type node children =
     (if node_type = JStr (lit ''paragraph'') then Inr (element (lit ''p'') [] children)
      else if node_type = JStr (lit ''heading'') then
        attempt (item node ''attrs'') (\<lambda>raw.
        attempt (as_mapping raw ''heading attrs are required'') (\<lambda>attrs.
        attempt (item attrs ''level'') (\<lambda>value.
        attempt (py_int value) (\<lambda>level. Inr (element (lit ''h'' @ str_of_int level) [] children)))))
      else if node_type = JStr (lit ''blockquote'') then Inr (element (lit ''blockquote'') [] children)
      else if node_type = JStr (lit ''bulletList'') then Inr (element (lit ''ul'') [] children)
      else if node_type = JStr (lit ''orderedList'') then
        attempt (as_mapping (get_or node ''attrs'' (JObj [(lit ''start'', JInt 1)])) ''ordered attrs invalid'')
          (\<lambda>attrs. attempt (py_int (get_or attrs ''start'' (JInt 1))) (\<lambda>start.
            Inr (element (lit ''ol'')
              (if start \<noteq> 1 then lit '' start=\"'' @ str_of_int start @ lit ''\"'' else []) children)))
      else if node_type = JStr (lit ''listItem'') then Inr (element (lit ''li'') [] children)
      else refuse ''rich-text node type is not supported'')"

function (sequential) render_node ::
  "(json \<Rightarrow> ustr) \<Rightarrow> (ustr \<Rightarrow> exn + split_url) \<Rightarrow> entries \<Rightarrow> exn + ustr"
and render_children ::
  "(json \<Rightarrow> ustr) \<Rightarrow> (ustr \<Rightarrow> exn + split_url) \<Rightarrow> string \<Rightarrow> json list \<Rightarrow> exn + ustr"
where
  "render_node py_repr split node =
     attempt (item node ''type'') (\<lambda>node_type.
       if node_type = JStr (lit ''text'') then render_text py_repr split node
       else if node_type = JStr (lit ''image'') then render_image py_repr node
       else if node_type = JStr (lit ''horizontalRule'') then Inr (lit ''<hr>'')
       else if node_type = JStr (lit ''hardBreak'') then Inr (lit ''<br>'')
       else attempt (children_of node message_child) (\<lambda>children.
              attempt (render_children py_repr split message_child children) (wrap_children node_type node)))"
| "render_children py_repr split message [] = Inr []"
| "render_children py_repr split message (JObj child # children) =
     attempt (render_node py_repr split child) (\<lambda>first.
     attempt (render_children py_repr split message children) (\<lambda>rest. Inr (first @ rest)))"
| "render_children py_repr split message (child # children) = refuse message"
  by pat_completeness auto
termination
  by (relation "measure (\<lambda>x. case x of Inl (_, _, node) \<Rightarrow> size (JObj node) | Inr (_, _, _, xs) \<Rightarrow> size_list size xs)")
    (auto dest: children_of_size)

definition render_document ::
  "(json \<Rightarrow> ustr) \<Rightarrow> (ustr \<Rightarrow> exn + split_url) \<Rightarrow> entries \<Rightarrow> exn + ustr" where
  "render_document py_repr split document =
     attempt (children_of document ''rich-text node must be an object'')
       (render_children py_repr split ''rich-text node must be an object'')"

end
