(* ===== verification/RichTextProperties.thy ===== *)
theory RichTextProperties
  imports RichText
begin

text \<open>
  What the rich-text code promises. A document is looked at as the list of its nodes
  (\<open>subnodes\<close>): validation accepts exactly the documents whose nodes are each in order and that
  stay within three bounds, and what is rendered of an accepted document is nested markup over
  a fixed list of tags whose text is the document's text.
\<close>

section \<open>A document as the list of its nodes\<close>

text \<open>The children of a node, and the node with everything below it, in document order.\<close>

definition kids :: "entries \<Rightarrow> json list" where
  "kids node = (case map_of node (lit ''content'') of Some (JArr xs) \<Rightarrow> xs | _ \<Rightarrow> [])"

lemma kids_children: "children_of node m = Inr xs \<Longrightarrow> kids node = xs \<or> xs = []"
  by (auto simp: children_of_def kids_def get_or_def or_default_def split: json.splits option.splits if_splits)

lemma kids_size: "size_list size (kids node) < size (JObj node) \<or> kids node = []"
proof -
  have "children_of node m = Inr (kids node) \<or> kids node = []" for m
    by (auto simp: children_of_def kids_def get_or_def split: json.splits option.splits)
  then show ?thesis using children_of_size by blast
qed

function (sequential) subnodes :: "entries \<Rightarrow> entries list" and subnodes_all :: "json list \<Rightarrow> entries list" where
  "subnodes node = node # subnodes_all (kids node)"
| "subnodes_all [] = []"
| "subnodes_all (JObj child # children) = subnodes child @ subnodes_all children"
| "subnodes_all (child # children) = subnodes_all children"
  by pat_completeness auto
termination
  by (relation "measure (\<lambda>x. case x of Inl node \<Rightarrow> size (JObj node) | Inr xs \<Rightarrow> size_list size xs)")
    (use kids_size in \<open>fastforce+\<close>)

text \<open>The length of the longest path down from a node.\<close>

function (sequential) height :: "entries \<Rightarrow> nat" and height_all :: "json list \<Rightarrow> nat" where
  "height node = Suc (height_all (kids node))"
| "height_all [] = 0"
| "height_all (JObj child # children) = max (height child) (height_all children)"
| "height_all (child # children) = height_all children"
  by pat_completeness auto
termination
  by (relation "measure (\<lambda>x. case x of Inl node \<Rightarrow> size (JObj node) | Inr xs \<Rightarrow> size_list size xs)")
    (use kids_size in \<open>fastforce+\<close>)

declare subnodes.simps [simp del] height.simps [simp del] validate_node.simps(1) [simp del]

definition text_size :: "entries \<Rightarrow> nat" where
  "text_size node =
     (if get node ''type'' = JStr (lit ''text'')
      then case get node ''text'' of JStr t \<Rightarrow> length t | _ \<Rightarrow> 0 else 0)"

text \<open>Something to see: text that is not blank, an image, a rule.\<close>

definition meaningful :: "entries \<Rightarrow> bool" where
  "meaningful node =
     (get node ''type'' \<in> {JStr (lit ''image''), JStr (lit ''horizontalRule'')}
      \<or> get node ''type'' = JStr (lit ''text'')
        \<and> (case get node ''text'' of JStr t \<Rightarrow> strip t \<noteq> [] | _ \<Rightarrow> False))"

text \<open>What one node must satisfy, apart from the limits of the whole document.\<close>

definition text_ok :: "(ustr \<Rightarrow> exn + split_url) \<Rightarrow> entries \<Rightarrow> bool" where
  "text_ok split node \<longleftrightarrow>
     check_keys node [lit ''type'', lit ''text'', lit ''marks''] = Inr ()
     \<and> (case get node ''text'' of JStr t \<Rightarrow> t \<noteq> [] | _ \<Rightarrow> False)
     \<and> (case get_or node ''marks'' (JArr []) of JArr marks \<Rightarrow> check_marks split marks [] = Inr () | _ \<Rightarrow> False)"

definition child_ok :: "ustr list \<Rightarrow> json \<Rightarrow> bool" where
  "child_ok allowed child =
     (case child of JObj es \<Rightarrow> in_strings (get es ''type'') allowed = Inr True | _ \<Rightarrow> False)"

definition container_ok :: "ustr \<Rightarrow> entries \<Rightarrow> bool" where
  "container_ok node_type node =
     (case allowed_children node_type of
        None \<Rightarrow> False
      | Some allowed \<Rightarrow>
          check_container node_type node = Inr ()
          \<and> get_or node ''content'' (JArr []) = JArr (kids node)
          \<and> (node_type \<in> set list_types \<longrightarrow> kids node \<noteq> [])
          \<and> list_all (child_ok allowed) (kids node))"

definition node_ok :: "(ustr \<Rightarrow> exn + split_url) \<Rightarrow> entries \<Rightarrow> bool" where
  "node_ok split node =
     (case get node ''type'' of
        JStr node_type \<Rightarrow>
          if node_type = lit ''text'' then text_ok split node
          else if node_type = lit ''image'' then check_image node = Inr ()
          else if node_type \<in> {lit ''horizontalRule'', lit ''hardBreak''} then check_keys node [lit ''type''] = Inr ()
          else container_ok node_type node
      | _ \<Rightarrow> False)"

definition count_in :: "entries list \<Rightarrow> counters \<Rightarrow> counters" where
  "count_in nodes c =
     \<lparr>count_nodes = count_nodes c + length nodes,
      count_text = count_text c + sum_list (map text_size nodes),
      count_meaningful = count_meaningful c + count_if meaningful nodes\<rparr>"

definition within_limits :: "counters \<Rightarrow> bool" where
  "within_limits c \<longleftrightarrow> count_nodes c \<le> MAX_NODES \<and> count_text c \<le> MAX_TEXT_CHARS"

lemma count_in_simps [simp]:
  "count_in [] c = c" "count_in (ns @ ms) c = count_in ms (count_in ns c)"
  by (simp_all add: count_in_def)

lemma within_limits_mono: "within_limits (count_in ns c) \<Longrightarrow> within_limits c"
  by (simp add: within_limits_def count_in_def)

section \<open>What validation accepts\<close>

lemma check_keys_absent:
  "check_keys node allowed = Inr u \<Longrightarrow> k \<notin> set allowed \<Longrightarrow> map_of node k = None"
  by (auto simp: check_keys_def list_all_iff map_of_eq_None_iff split: if_splits)

lemma no_kids: "check_keys node allowed = Inr u \<Longrightarrow> lit ''content'' \<notin> set allowed \<Longrightarrow> kids node = []"
  using check_keys_absent [of node allowed u "lit ''content''"] by (simp add: kids_def)

lemma leaf_subnodes: "kids node = [] \<Longrightarrow> subnodes node = [node]" "kids node = [] \<Longrightarrow> height node = 1"
  by (simp_all add: subnodes.simps height.simps)

text \<open>The three kinds of leaves.\<close>

lemma validate_text_iff:
  assumes "get node ''type'' = JStr (lit ''text'')"
  shows "validate_text split node (c\<lparr>count_nodes := count_nodes c + 1\<rparr>) = Inr c' \<longleftrightarrow>
    text_ok split node \<and> c' = count_in [node] c \<and> count_text c' \<le> MAX_TEXT_CHARS"
proof (cases "\<exists>t marks. get node ''text'' = JStr t \<and> get_or node ''marks'' (JArr []) = JArr marks")
  case True
  then obtain t marks where parts: "get node ''text'' = JStr t" "get_or node ''marks'' (JArr []) = JArr marks"
    by blast
  have "meaningful node \<longleftrightarrow> strip t \<noteq> []" "text_size node = length t"
    using assms parts by (simp_all add: meaningful_def text_size_def)
  then have "count_in [node] c = c\<lparr>count_nodes := count_nodes c + 1, count_text := count_text c + length t,
      count_meaningful := count_meaningful c + (if strip t \<noteq> [] then 1 else 0)\<rparr>"
    by (simp add: count_in_def)
  with parts show ?thesis
    by (auto simp: validate_text_def text_ok_def attempt_Inr)
next
  case False
  then show ?thesis
    unfolding validate_text_def text_ok_def Let_def attempt_Inr
    by (cases "get node ''text''"; cases "get_or node ''marks'' (JArr [])") auto
qed

lemma validate_image_iff:
  assumes "get node ''type'' = JStr (lit ''image'')"
  shows "validate_image node (c\<lparr>count_nodes := count_nodes c + 1\<rparr>) = Inr c' \<longleftrightarrow>
    check_image node = Inr () \<and> c' = count_in [node] c"
proof -
  have "text_size node = 0" "meaningful node"
    using assms by (simp_all add: text_size_def meaningful_def)
  then have count: "count_in [node] c = c\<lparr>count_nodes := count_nodes c + 1, count_meaningful := count_meaningful c + 1\<rparr>"
    by (simp add: count_in_def)
  show ?thesis
    by (auto simp: validate_image_def attempt_Inr count)
qed

lemma validate_break_iff:
  assumes "get node ''type'' = JStr node_type" "node_type \<in> {lit ''horizontalRule'', lit ''hardBreak''}"
  shows "validate_break node_type node (c\<lparr>count_nodes := count_nodes c + 1\<rparr>) = Inr c' \<longleftrightarrow>
    check_keys node [lit ''type''] = Inr () \<and> c' = count_in [node] c"
proof -
  have "get node ''type'' \<noteq> JStr (lit ''text'')" "get node ''type'' \<noteq> JStr (lit ''image'')"
    using assms by auto
  then have "text_size node = 0" "meaningful node \<longleftrightarrow> node_type = lit ''horizontalRule''"
    using assms(1) by (simp_all only: text_size_def meaningful_def if_False) auto
  then show ?thesis
    by (auto simp: validate_break_def attempt_Inr count_in_def)
qed

lemma leaf_no_kids:
  assumes "get node ''type'' = JStr ty" "ty \<in> {lit ''text'', lit ''image'', lit ''horizontalRule'', lit ''hardBreak''}"
    and "node_ok split node"
  shows "kids node = []"
proof -
  have "\<exists>allowed. check_keys node allowed = Inr () \<and> lit ''content'' \<notin> set allowed"
    using assms by (auto simp: node_ok_def text_ok_def check_image_def attempt_Inr)
  then show ?thesis using no_kids by blast
qed

lemma leaf_iff:
  assumes "get node ''type'' = JStr ty" "ty \<in> {lit ''text'', lit ''image'', lit ''horizontalRule'', lit ''hardBreak''}"
    and "depth \<le> MAX_DEPTH" "count_text c \<le> MAX_TEXT_CHARS"
  shows "validate_node split depth (JObj node) c = Inr c' \<longleftrightarrow>
    node_ok split node \<and> c' = count_in [node] c \<and> within_limits c'"
proof -
  have count: "count_nodes (count_in [node] c) = Suc (count_nodes c)"
    by (simp add: count_in_def)
  have no_text: "count_text (count_in [node] c) = count_text c" if "ty \<noteq> lit ''text''"
    using that assms(1) by (simp add: count_in_def text_size_def)
  consider (text_node) "ty = lit ''text''" | (image) "ty = lit ''image''"
    | (break_node) "ty \<in> {lit ''horizontalRule'', lit ''hardBreak''}"
    using assms(2) by blast
  then show ?thesis
  proof cases
    case text_node
    with assms validate_text_iff [of node split c c'] show ?thesis
      by (auto simp: validate_node.simps node_ok_def within_limits_def count Let_def)
  next
    case image
    with assms validate_image_iff [of node c c'] no_text show ?thesis
      by (auto simp: validate_node.simps node_ok_def within_limits_def count Let_def)
  next
    case break_node
    with assms validate_break_iff [of node ty c c'] no_text show ?thesis
      by (auto simp: validate_node.simps node_ok_def within_limits_def count Let_def)
  qed
qed

lemma content_kids: "get_or node ''content'' (JArr []) = JArr xs \<Longrightarrow> kids node = xs"
  by (auto simp: get_or_def kids_def or_default_def split: option.splits)

lemma container_eq:
  assumes "get node ''type'' = JStr ty" "ty \<notin> {lit ''text'', lit ''image'', lit ''horizontalRule'', lit ''hardBreak''}"
    and "depth \<le> MAX_DEPTH"
  shows "validate_node split depth (JObj node) c =
      (if count_nodes (c\<lparr>count_nodes := count_nodes c + 1\<rparr>) > MAX_NODES
       then refuse ''rich-text document contains too many nodes''
       else case allowed_children ty of
          None \<Rightarrow> refuse ''rich-text node type is not supported''
        | Some allowed \<Rightarrow> attempt (check_container ty node) (\<lambda>_.
            case get_or node ''content'' (JArr []) of
              JArr children \<Rightarrow>
                if ty \<in> set list_types \<and> children = [] then refuse (map char_of ty @ '' cannot be empty'')
                else validate_children split (''rich-text child must be an object'',
                    map char_of ty @ '' contains an unsupported child'') allowed (depth + 1) children
                    (c\<lparr>count_nodes := count_nodes c + 1\<rparr>)
            | _ \<Rightarrow> refuse ''rich-text node content must be a list''))"
  using assms by (simp only: validate_node.simps(1) Let_def not_less [symmetric] if_False json.case insert_iff
      empty_iff de_Morgan_disj simp_thms)

lemma container_step:
  assumes "get node ''type'' = JStr ty" "ty \<notin> {lit ''text'', lit ''image'', lit ''horizontalRule'', lit ''hardBreak''}"
    and "depth \<le> MAX_DEPTH"
  shows "validate_node split depth (JObj node) c = Inr c' \<longleftrightarrow>
     count_nodes (c\<lparr>count_nodes := count_nodes c + 1\<rparr>) \<le> MAX_NODES
     \<and> (\<exists>allowed. allowed_children ty = Some allowed \<and> check_container ty node = Inr ()
         \<and> get_or node ''content'' (JArr []) = JArr (kids node) \<and> \<not> (ty \<in> set list_types \<and> kids node = [])
         \<and> validate_children split (''rich-text child must be an object'',
              map char_of ty @ '' contains an unsupported child'') allowed (depth + 1) (kids node)
              (c\<lparr>count_nodes := count_nodes c + 1\<rparr>) = Inr c')"
proof -
  note step = container_eq [OF assms]
  show ?thesis
  proof (cases "get_or node ''content'' (JArr [])")
    case (JArr xs)
    moreover from this have "kids node = xs" by (rule content_kids)
    ultimately show ?thesis
      unfolding step by (cases "allowed_children ty"; cases "check_container ty node"; simp add: not_less)
  qed (unfold step, cases "allowed_children ty"; cases "check_container ty node"; simp)+
qed

text \<open>A node as a whole, and a list of children that must each be of an allowed type.\<close>

lemma in_strings_JStr: "in_strings v names = Inr True \<longleftrightarrow> (\<exists>s. v = JStr s \<and> s \<in> set names)"
  by (cases v) auto

lemma validate_iff:
  "count_text c \<le> MAX_TEXT_CHARS \<Longrightarrow>
     validate_node split d raw c = Inr c' \<longleftrightarrow>
       (\<exists>node. raw = JObj node \<and> list_all (node_ok split) (subnodes node) \<and> d + height node \<le> Suc MAX_DEPTH
          \<and> c' = count_in (subnodes node) c \<and> within_limits c')"
  "within_limits c \<Longrightarrow> d \<le> Suc MAX_DEPTH \<Longrightarrow>
     validate_children split messages allowed d xs c = Inr c' \<longleftrightarrow>
       list_all (child_ok allowed) xs \<and> list_all (node_ok split) (subnodes_all xs)
       \<and> d + height_all xs \<le> Suc MAX_DEPTH \<and> c' = count_in (subnodes_all xs) c \<and> within_limits c'"
proof (induction split d raw c and split messages allowed d xs c arbitrary: c' and c'
    rule: validate_node_validate_children.induct)
  case (1 split depth node c)
  show ?case
  proof (cases "\<exists>ty. get node ''type'' = JStr ty \<and> depth \<le> MAX_DEPTH")
    case False
    then have "\<not> node_ok split node \<or> \<not> depth + height node \<le> Suc MAX_DEPTH"
      by (auto simp: node_ok_def height.simps split: json.splits)
    moreover have "validate_node split depth (JObj node) c \<noteq> Inr c'"
      using False by (auto simp: validate_node.simps split: json.splits)
    ultimately show ?thesis
      by (auto simp: subnodes.simps)
  next
    case True
    then obtain ty where ty: "get node ''type'' = JStr ty" and depth: "depth \<le> MAX_DEPTH" by blast
    let ?c = "c\<lparr>count_nodes := count_nodes c + 1\<rparr>"
    show ?thesis
    proof (cases "ty \<in> {lit ''text'', lit ''image'', lit ''horizontalRule'', lit ''hardBreak''}")
      case True
      note iff = leaf_iff [OF ty True depth "1.prems"]
      show ?thesis
      proof (cases "node_ok split node")
        case ok: True
        from leaf_subnodes [OF leaf_no_kids [OF ty True ok]] iff ok depth show ?thesis
          by simp
      next
        case False
        with iff show ?thesis by (simp add: subnodes.simps)
      qed
    next
      case False
      then have count: "count_in (node # below) c = count_in below ?c" for below
        using ty by (simp add: count_in_def text_size_def meaningful_def)
      have ok: "node_ok split node \<longleftrightarrow> container_ok ty node"
        using False ty by (simp add: node_ok_def)
      have run: "validate_node split depth (JObj node) c = Inr c' \<longleftrightarrow>
          count_nodes ?c \<le> MAX_NODES \<and> (\<exists>allowed. allowed_children ty = Some allowed \<and> check_container ty node = Inr ()
            \<and> get_or node ''content'' (JArr []) = JArr (kids node) \<and> \<not> (ty \<in> set list_types \<and> kids node = [])
            \<and> validate_children split (''rich-text child must be an object'',
                 map char_of ty @ '' contains an unsupported child'') allowed (depth + 1) (kids node) ?c = Inr c')"
        using container_step [OF ty False depth, of split c c'] .
      show ?thesis
      proof (cases "count_nodes ?c \<le> MAX_NODES \<and> (\<exists>allowed. allowed_children ty = Some allowed
          \<and> check_container ty node = Inr () \<and> get_or node ''content'' (JArr []) = JArr (kids node)
          \<and> \<not> (ty \<in> set list_types \<and> kids node = []))")
        case checks: True
        then obtain allowed where allowed: "allowed_children ty = Some allowed" by blast
        have "within_limits ?c" using checks "1.prems" by (simp add: within_limits_def)
        with "1.IH" [OF _ ty refl _ _ _ _ allowed, of "()" "kids node" c'] checks False depth
        have "validate_children split (''rich-text child must be an object'',
              map char_of ty @ '' contains an unsupported child'') allowed (depth + 1) (kids node) ?c = Inr c'
          \<longleftrightarrow> list_all (child_ok allowed) (kids node) \<and> list_all (node_ok split) (subnodes_all (kids node))
            \<and> depth + 1 + height_all (kids node) \<le> Suc MAX_DEPTH
            \<and> c' = count_in (subnodes_all (kids node)) ?c \<and> within_limits c'"
          by simp
        with checks allowed run ok show ?thesis
          by (auto simp: subnodes.simps height.simps container_ok_def count)
      next
        case False
        then have "\<not> container_ok ty node \<or> \<not> within_limits ?c"
          by (auto simp: container_ok_def within_limits_def split: option.splits)
        moreover have "validate_node split depth (JObj node) c \<noteq> Inr c'"
          using run False by blast
        ultimately show ?thesis
          using ok count within_limits_mono [of "subnodes_all (kids node)" ?c]
          by (auto simp: subnodes.simps count)
      qed
    qed
  qed
next
  case (4 split messages allowed depth child children c)
  show ?case
  proof (cases child)
    case (JObj node)
    show ?thesis
    proof (cases "in_strings (get node ''type'') allowed = Inr True")
      case True
      with JObj have "validate_children split messages allowed depth (child # children) c = Inr c'
          \<longleftrightarrow> (\<exists>c1. validate_node split depth (JObj node) c = Inr c1
            \<and> validate_children split messages allowed depth children c1 = Inr c')"
        by (auto simp: attempt_Inr)
      also have "\<dots> \<longleftrightarrow> list_all (node_ok split) (subnodes node) \<and> depth + height node \<le> Suc MAX_DEPTH
          \<and> within_limits (count_in (subnodes node) c)
          \<and> validate_children split messages allowed depth children (count_in (subnodes node) c) = Inr c'"
        using "4.IH"(1) [of node True] JObj True "4.prems"(1) by (auto simp: within_limits_def)
      also have "\<dots> \<longleftrightarrow> list_all (child_ok allowed) (child # children)
          \<and> list_all (node_ok split) (subnodes_all (child # children))
          \<and> depth + height_all (child # children) \<le> Suc MAX_DEPTH
          \<and> c' = count_in (subnodes_all (child # children)) c \<and> within_limits c'"
      proof (cases "validate_node split depth child c = Inr (count_in (subnodes node) c)")
        case good: True
        have child: "child_ok allowed child"
          using JObj True by (simp add: child_ok_def)
        have here: "list_all (node_ok split) (subnodes node)" "depth + height node \<le> Suc MAX_DEPTH"
            "within_limits (count_in (subnodes node) c)"
          using "4.IH"(1) [of node True] JObj True "4.prems"(1) good by (auto simp: within_limits_def)
        from "4.IH"(2) [of node True "count_in (subnodes node) c" c'] JObj True good here(3) "4.prems"(2)
        have "validate_children split messages allowed depth children (count_in (subnodes node) c) = Inr c'
            \<longleftrightarrow> list_all (child_ok allowed) children \<and> list_all (node_ok split) (subnodes_all children)
              \<and> depth + height_all children \<le> Suc MAX_DEPTH
              \<and> c' = count_in (subnodes_all children) (count_in (subnodes node) c) \<and> within_limits c'"
          by simp
        with here child JObj show ?thesis by auto
      next
        case False
        then have "\<not> (list_all (node_ok split) (subnodes node) \<and> depth + height node \<le> Suc MAX_DEPTH
            \<and> within_limits (count_in (subnodes node) c))"
          using "4.IH"(1) [of node True "count_in (subnodes node) c"] JObj True "4.prems"(1)
          by (auto simp: within_limits_def)
        with JObj show ?thesis
          by (auto dest: within_limits_mono)
      qed
      finally show ?thesis .
    next
      case False
      with JObj show ?thesis by (auto simp: child_ok_def attempt_Inr)
    qed
  qed (auto simp: child_ok_def)
qed (auto simp: child_ok_def)

end
