(* ===== verification/RichTextSafety.thy ===== *)
theory RichTextSafety
  imports RichTextProperties
begin

text \<open>
  The HTML of an accepted document, read the way a browser's tokenizer reads it: tags and text
  (\<open>pieces\<close>), the nesting of the tags (\<open>nested\<close>) and the text with its character references
  resolved (\<open>unescape\<close>). Every node of an accepted document renders to \<open>markup\<close>: nested elements
  with tags from a fixed list, whose text is the document's text; the only document that
  validation accepts and rendering cannot handle has an ordered list with a null \<open>attrs\<close>.
\<close>

section \<open>Reading markup\<close>

datatype piece = Tag ustr | Char nat

text \<open>The first argument is the tag being read, if any; a stray angle bracket is \<open>None\<close>.\<close>

fun pieces :: "ustr option \<Rightarrow> ustr \<Rightarrow> piece list option" where
  "pieces None [] = Some []"
| "pieces (Some t) [] = None"
| "pieces None (c # s) =
     (if c = 60 then pieces (Some []) s else if c = 62 then None
      else map_option ((#) (Char c)) (pieces None s))"
| "pieces (Some t) (c # s) =
     (if c = 62 then map_option ((#) (Tag t)) (pieces None s) else if c = 60 then None
      else pieces (Some (t @ [c])) s)"

definition tag_name :: "ustr \<Rightarrow> ustr" where
  "tag_name t = takeWhile (\<lambda>c. c \<noteq> 32) t"

definition void_names :: "ustr list" where
  "void_names = [lit ''hr'', lit ''br'', lit ''img'']"

text \<open>The elements left open after the pieces, the innermost first; a closing tag that closes
  another element than the innermost is \<open>None\<close>.\<close>

fun nested :: "ustr list \<Rightarrow> piece list \<Rightarrow> ustr list option" where
  "nested open_names [] = Some open_names"
| "nested open_names (Char c # ps) = nested open_names ps"
| "nested open_names (Tag t # ps) =
     (if take 1 t = [47]
      then (case open_names of
              [] \<Rightarrow> None
            | name # outer \<Rightarrow> if drop 1 t = name then nested outer ps else None)
      else nested (if tag_name t \<in> set void_names then open_names else tag_name t # open_names) ps)"

fun characters :: "piece list \<Rightarrow> ustr" where
  "characters [] = []"
| "characters (Char c # ps) = c # characters ps"
| "characters (Tag t # ps) = characters ps"

definition entities :: "(ustr \<times> nat) list" where
  "entities = [(lit ''&amp;'', 38), (lit ''&lt;'', 60), (lit ''&gt;'', 62), (lit ''&quot;'', 34), (lit ''&#x27;'', 39)]"

definition entity_at :: "ustr \<Rightarrow> (ustr \<times> nat) option" where
  "entity_at s = find (\<lambda>(e, c). startswith s e) entities"

function unescape :: "ustr \<Rightarrow> ustr" where
  "unescape s =
     (case s of
        [] \<Rightarrow> []
      | c # r \<Rightarrow>
          (case entity_at s of
             None \<Rightarrow> c # unescape r
           | Some (e, x) \<Rightarrow> x # unescape (drop (length e - 1) r)))"
  by pat_completeness auto
termination by (relation "measure length") auto

declare unescape.simps [simp del]

section \<open>Composing markup\<close>

lemma pieces_append:
  "pieces st a = Some ps \<Longrightarrow> pieces st (a @ b) = map_option ((@) ps) (pieces None b)"
proof (induction st a arbitrary: ps rule: pieces.induct)
  case 1
  then show ?case by (cases "pieces None b") auto
next
  case (3 c s)
  then show ?case by (cases "pieces None b") (auto split: if_splits)
next
  case (4 t c s)
  then show ?case by (cases "pieces None b") (auto split: if_splits)
qed auto

definition angle_free :: "ustr \<Rightarrow> bool" where
  "angle_free s \<longleftrightarrow> 60 \<notin> set s \<and> 62 \<notin> set s"

lemma angle_free_simps [simp]:
  "angle_free []" "angle_free (c # s) \<longleftrightarrow> c \<noteq> 60 \<and> c \<noteq> 62 \<and> angle_free s"
  "angle_free (s @ t) \<longleftrightarrow> angle_free s \<and> angle_free t"
  by (auto simp: angle_free_def)

lemma pieces_plain: "angle_free s \<Longrightarrow> pieces None s = Some (map Char s)"
  by (induction s) auto

lemma pieces_in_tag: "angle_free s \<Longrightarrow> pieces (Some t) (s @ 62 # r) = map_option ((#) (Tag (t @ s))) (pieces None r)"
  by (induction s arbitrary: t) auto

lemma pieces_tag: "angle_free t \<Longrightarrow> pieces None (60 # t @ 62 # r) = map_option ((#) (Tag t)) (pieces None r)"
  using pieces_in_tag [of t "[]"] by simp

lemma nested_append: "nested st (ps @ qs) = Option.bind (nested st ps) (\<lambda>st'. nested st' qs)"
  by (induction st ps rule: nested.induct) (auto split: list.splits)

lemma characters_append [simp]: "characters (ps @ qs) = characters ps @ characters qs"
  by (induction ps rule: characters.induct) auto

lemma characters_map [simp]: "characters (map Char s) = s"
  by (induction s) auto

lemma nested_map [simp]: "nested st (map Char s) = Some st"
  by (induction s) auto

fun tag_ok :: "(ustr \<Rightarrow> bool) \<Rightarrow> piece \<Rightarrow> bool" where
  "tag_ok T (Tag t) = T t"
| "tag_ok T (Char c) = True"

lemma tag_ok_map [simp]: "list_all (tag_ok T) (map Char s)"
  by (induction s) auto

text \<open>
  Markup that reads as nested tags of the list \<open>T\<close> and whose text is \<open>txt\<close>. The rest
  after it makes the last clause one about concatenation: no text can complete a character
  reference that another text began.
\<close>

definition markup :: "(ustr \<Rightarrow> bool) \<Rightarrow> ustr \<Rightarrow> ustr \<Rightarrow> bool" where
  "markup T html txt \<longleftrightarrow>
     (\<exists>ps. pieces None html = Some ps \<and> (\<forall>st. nested st ps = Some st) \<and> list_all (tag_ok T) ps
        \<and> (\<forall>rest. unescape (characters ps @ rest) = txt @ unescape rest))"

lemma pageE:
  assumes "markup T html txt"
  obtains ps where "pieces None html = Some ps" "\<forall>st. nested st ps = Some st" "list_all (tag_ok T) ps"
    "\<forall>rest. unescape (characters ps @ rest) = txt @ unescape rest"
  using assms unfolding markup_def by blast

lemma page_Nil: "markup T [] []"
  by (simp add: markup_def)

lemma page_append:
  assumes "markup T a s" "markup T b t"
  shows "markup T (a @ b) (s @ t)"
proof -
  from assms(1) obtain ps where ps: "pieces None a = Some ps" "\<forall>st. nested st ps = Some st"
    "list_all (tag_ok T) ps" "\<forall>rest. unescape (characters ps @ rest) = s @ unescape rest"
    by (rule pageE)
  from assms(2) obtain qs where qs: "pieces None b = Some qs" "\<forall>st. nested st qs = Some st"
    "list_all (tag_ok T) qs" "\<forall>rest. unescape (characters qs @ rest) = t @ unescape rest"
    by (rule pageE)
  from ps qs show ?thesis
    unfolding markup_def using pieces_append [OF ps(1), of b]
    by (intro exI [of _ "ps @ qs"]) (simp add: nested_append)
qed

lemma unescape_step: "unescape (c # r) = (case entity_at (c # r) of
    None \<Rightarrow> c # unescape r | Some (e, x) \<Rightarrow> x # unescape (drop (length e - 1) r))"
  by (subst unescape.simps) simp

lemma unescape_entities:
  "unescape (lit ''&amp;'' @ s) = 38 # unescape s" "unescape (lit ''&lt;'' @ s) = 60 # unescape s"
  "unescape (lit ''&gt;'' @ s) = 62 # unescape s" "unescape (lit ''&quot;'' @ s) = 34 # unescape s"
  "unescape (lit ''&#x27;'' @ s) = 39 # unescape s"
  by (simp_all add: unescape_step entity_at_def entities_def startswith_def)

lemma unescape_other: "c \<noteq> 38 \<Longrightarrow> unescape (c # s) = c # unescape s"
  by (subst unescape.simps) (simp add: entity_at_def entities_def startswith_def)

lemma unescape_escape_char: "unescape (escape_char q c @ s) = c # unescape s"
  unfolding escape_char_def using unescape_entities [of s] unescape_other [of c s] by simp

lemma unescape_escape: "unescape (escape q t @ s) = t @ unescape s"
  by (induction t) (simp_all add: escape_def unescape_escape_char)

lemma escape_char_points:
  "list_all (\<lambda>c. c \<noteq> 60 \<and> c \<noteq> 62 \<and> (q \<longrightarrow> c \<noteq> 34 \<and> c \<noteq> 39)) (escape_char q x)"
  by (simp add: escape_char_def)

lemma escape_points: "c \<in> set (escape q s) \<Longrightarrow> c \<noteq> 60 \<and> c \<noteq> 62 \<and> (q \<longrightarrow> c \<noteq> 34 \<and> c \<noteq> 39)"
  using escape_char_points [of q] unfolding escape_def list_all_iff by auto

lemma escape_angle_free [simp]: "angle_free (escape q s)"
  using escape_points by (fastforce simp: angle_free_def)

lemma page_text: "markup T (escape q s) s"
  unfolding markup_def
  by (intro exI [of _ "map Char (escape q s)"]) (simp add: pieces_plain unescape_escape)

lemma page_void:
  assumes "T t" "angle_free t" "take 1 t \<noteq> [47]" "tag_name t \<in> set void_names"
  shows "markup T (60 # t @ [62]) []"
  unfolding markup_def using assms pieces_tag [of t "[]"]
  by (intro exI [of _ "[Tag t]"]) simp

definition names_element :: "(ustr \<Rightarrow> bool) \<Rightarrow> ustr \<Rightarrow> ustr \<Rightarrow> bool" where
  "names_element T name attributes \<longleftrightarrow>
     T (name @ attributes) \<and> T (47 # name) \<and> angle_free name \<and> angle_free attributes
     \<and> 32 \<notin> set name \<and> take 1 name \<noteq> [47] \<and> name \<noteq> [] \<and> name \<notin> set void_names
     \<and> (attributes = [] \<or> hd attributes = 32)"

lemma tag_name_append: "32 \<notin> set name \<Longrightarrow> attributes = [] \<or> hd attributes = 32 \<Longrightarrow> tag_name (name @ attributes) = name"
  by (cases attributes) (auto simp: tag_name_def takeWhile_append takeWhile_eq_all_conv)

lemma page_element:
  assumes "names_element T name attributes" "markup T body txt"
  shows "markup T (element name attributes body) txt"
proof -
  have name: "T (name @ attributes)" "T (47 # name)" "angle_free name" "angle_free attributes"
      "name \<notin> set void_names" "tag_name (name @ attributes) = name" "take 1 (name @ attributes) \<noteq> [47]"
    using assms(1)
    by (auto simp: names_element_def intro: tag_name_append) (cases name; simp)
  from assms(2) obtain ps where ps: "pieces None body = Some ps" "\<forall>st. nested st ps = Some st"
    "list_all (tag_ok T) ps" "\<forall>rest. unescape (characters ps @ rest) = txt @ unescape rest"
    by (rule pageE)
  have "pieces None ([60, 47] @ name @ [62]) = Some [Tag (47 # name)]"
    using pieces_tag [of "47 # name" "[]"] name by simp
  with pieces_append [OF ps(1), of "[60, 47] @ name @ [62]"]
  have "pieces None (element name attributes body) = Some (Tag (name @ attributes) # ps @ [Tag (47 # name)])"
    using pieces_tag [of "name @ attributes" "body @ [60, 47] @ name @ [62]"] name by (simp add: element_def)
  with ps name show ?thesis
    unfolding markup_def by (simp add: nested_append)
qed

section \<open>The tags of a page\<close>

definition plain_names :: "ustr list" where
  "plain_names =
     [lit ''p'', lit ''h1'', lit ''h2'', lit ''h3'', lit ''h4'', lit ''h5'', lit ''h6'', lit ''blockquote'', lit ''ul'',
      lit ''ol'', lit ''li'', lit ''strong'', lit ''em'', lit ''u'', lit ''figure'', lit ''figcaption'']"

text \<open>A link: its address is one \<open>safe_href\<close> lets through, and web addresses open apart.\<close>

definition link_tag :: "(ustr \<Rightarrow> exn + split_url) \<Rightarrow> ustr \<Rightarrow> bool" where
  "link_tag split t \<longleftrightarrow>
     (\<exists>href parsed. safe_href split (JStr href) = Inr href \<and> split href = Inr parsed
        \<and> url_scheme parsed \<in> set safe_schemes
        \<and> t = lit ''a'' @ anchor_attributes href (url_scheme parsed \<in> {lit ''http'', lit ''https''}))"

definition image_attributes :: "uuid \<Rightarrow> ustr \<Rightarrow> ustr" where
  "image_attributes i alt = lit '' src=\"/api/v1/public/media/'' @ uuid_str i @ lit ''\" alt=\"'' @ escape True alt
     @ lit ''\" loading=\"lazy\"''"

definition image_tag :: "uuid list \<Rightarrow> ustr \<Rightarrow> bool" where
  "image_tag ids t \<longleftrightarrow> (\<exists>i alt. i \<in> set ids \<and> t = lit ''img'' @ image_attributes i alt)"

definition start_attribute :: "int \<Rightarrow> ustr" where
  "start_attribute n = lit '' start=\"'' @ str_of_int n @ lit ''\"''"

definition list_tag :: "ustr \<Rightarrow> bool" where
  "list_tag t \<longleftrightarrow> (\<exists>n\<ge>1. t = lit ''ol'' @ start_attribute n)"

definition page_tag :: "(ustr \<Rightarrow> exn + split_url) \<Rightarrow> uuid list \<Rightarrow> ustr \<Rightarrow> bool" where
  "page_tag split ids t \<longleftrightarrow>
     t \<in> set plain_names \<or> t \<in> (#) 47 ` set plain_names \<or> t \<in> {lit ''/a'', lit ''hr'', lit ''br''}
     \<or> link_tag split t \<or> image_tag ids t \<or> list_tag t"

lemma plain_names_list:
  "list_all (\<lambda>n. angle_free n \<and> 32 \<notin> set n \<and> take 1 n \<noteq> [47] \<and> n \<noteq> [] \<and> n \<notin> set void_names) plain_names"
  by (simp add: plain_names_def void_names_def)

lemma plain_name:
  assumes "n \<in> set plain_names"
  shows "names_element (page_tag split ids) n []"
  using assms plain_names_list by (simp add: names_element_def page_tag_def list_all_iff)

lemma plain_name_in:
  "lit ''p'' \<in> set plain_names" "lit ''blockquote'' \<in> set plain_names" "lit ''ul'' \<in> set plain_names"
  "lit ''ol'' \<in> set plain_names" "lit ''li'' \<in> set plain_names" "lit ''strong'' \<in> set plain_names"
  "lit ''em'' \<in> set plain_names" "lit ''u'' \<in> set plain_names" "lit ''figure'' \<in> set plain_names"
  "lit ''figcaption'' \<in> set plain_names"
  by (simp_all add: plain_names_def)

lemma str_of_level: "1 \<le> n \<Longrightarrow> n \<le> 6 \<Longrightarrow> str_of_int n = [48 + nat n]"
  by (cases "nat n < 10") (auto simp: str_of_int_def digits_of.simps [of "nat n"])

lemma heading_name:
  assumes "1 \<le> n" "n \<le> 6"
  shows "lit ''h'' @ str_of_int n \<in> set plain_names"
proof -
  have "n \<in> {1, 2, 3, 4, 5, 6}" using assms by auto
  then show ?thesis by (auto simp: str_of_level plain_names_def)
qed

lemma angle_free_number: "angle_free (str_of_int n)"
proof -
  have "c \<noteq> 60 \<and> c \<noteq> 62" if "c \<in> set (str_of_int n)" for c
    using that digits_of_ascii_digits [of c "nat n"] digits_of_ascii_digits [of c "nat (- n)"]
    by (auto simp: str_of_int_def split: if_splits)
  then show ?thesis by (auto simp: angle_free_def)
qed

lemma list_start_element:
  assumes "1 \<le> n"
  shows "names_element (page_tag split ids) (lit ''ol'') (start_attribute n)"
proof -
  have "page_tag split ids (lit ''ol'' @ start_attribute n)"
    using assms unfolding page_tag_def list_tag_def by blast
  then show ?thesis
    using plain_name [OF plain_name_in(4), of split ids] angle_free_number [of n]
    by (simp add: names_element_def start_attribute_def)
qed

lemma link_element:
  assumes "link_tag split (lit ''a'' @ anchor_attributes href external)"
  shows "names_element (page_tag split ids) (lit ''a'') (anchor_attributes href external)"
proof -
  have "page_tag split ids (lit ''a'' @ anchor_attributes href external)" "page_tag split ids (47 # lit ''a'')"
    using assms by (simp_all add: page_tag_def)
  then show ?thesis
    by (simp add: names_element_def anchor_attributes_def void_names_def)
qed

lemma angle_free_uuid: "angle_free (uuid_str i)"
  using uuid_str_points [of _ i] by (fastforce simp: angle_free_def)

lemma image_page:
  assumes "i \<in> set ids"
  shows "markup (page_tag split ids) (60 # (lit ''img'' @ image_attributes i alt) @ [62]) []"
proof (rule page_void)
  show "page_tag split ids (lit ''img'' @ image_attributes i alt)"
    using assms unfolding page_tag_def image_tag_def by blast
  show "angle_free (lit ''img'' @ image_attributes i alt)"
    by (simp add: image_attributes_def angle_free_uuid)
  show "tag_name (lit ''img'' @ image_attributes i alt) \<in> set void_names"
    by (simp add: tag_name_def image_attributes_def void_names_def)
qed simp

section \<open>Nodes of an accepted document\<close>

definition shown_text :: "entries \<Rightarrow> ustr" where
  "shown_text node =
     (if get node ''type'' = JStr (lit ''text'')
      then case get node ''text'' of JStr t \<Rightarrow> t | _ \<Rightarrow> []
      else if get node ''type'' = JStr (lit ''image'')
      then case get node ''attrs'' of
             JObj attrs \<Rightarrow> (case get attrs ''caption'' of JStr t \<Rightarrow> t | _ \<Rightarrow> [])
           | _ \<Rightarrow> []
      else [])"

definition visible_text :: "entries list \<Rightarrow> ustr" where
  "visible_text nodes = concat (map shown_text nodes)"

definition node_ids :: "entries \<Rightarrow> uuid list" where
  "node_ids node = (case image_id node of Inr l \<Rightarrow> l | Inl _ \<Rightarrow> [])"

text \<open>The node that validation accepts and rendering cannot handle.\<close>

definition null_list :: "entries \<Rightarrow> bool" where
  "null_list node \<longleftrightarrow>
     get node ''type'' = JStr (lit ''orderedList'') \<and> map_of node (lit ''attrs'') = Some JNull"

lemma get_item: "get es k = v \<Longrightarrow> v \<noteq> JNull \<Longrightarrow> item es k = Inr v"
  by (cases "map_of es (lit k)") (auto simp: get_def get_or_def item_def)

lemma content_absent:
  "check_keys node allowed = Inr u \<Longrightarrow> lit ''content'' \<notin> set allowed \<Longrightarrow> children_of node m = Inr [] \<and> kids node = []"
  using check_keys_absent [of node allowed u "lit ''content''"] by (simp add: children_of_def get_or_def kids_def)

lemma child_ok_object: "child_ok allowed child \<Longrightarrow> is_object child"
  by (cases child) (auto simp: child_ok_def)

lemma node_ok_children:
  assumes "node_ok split node"
  shows "children_of node m = Inr (kids node)" "list_all is_object (kids node)"
proof -
  obtain ty where ty: "get node ''type'' = JStr ty"
    using assms by (auto simp: node_ok_def split: json.splits)
  have "(\<forall>m. children_of node m = Inr (kids node)) \<and> list_all is_object (kids node)"
  proof (cases "ty \<in> {lit ''text'', lit ''image'', lit ''horizontalRule'', lit ''hardBreak''}")
    case True
    have "\<exists>allowed. check_keys node allowed = Inr () \<and> lit ''content'' \<notin> set allowed"
      using assms ty True by (auto simp: node_ok_def text_ok_def check_image_def attempt_Inr)
    then have "children_of node m = Inr [] \<and> kids node = []" for m
      using content_absent by blast
    then show ?thesis by simp
  next
    case False
    then have "container_ok ty node" using assms ty by (simp add: node_ok_def)
    then obtain allowed where c: "get_or node ''content'' (JArr []) = JArr (kids node)"
        "list_all (child_ok allowed) (kids node)"
      by (auto simp: container_ok_def split: option.splits)
    from c(2) have "list_all is_object (kids node)"
      by (rule list.pred_mono_strong) (rule child_ok_object)
    with c(1) show ?thesis by (simp add: children_of_def)
  qed
  then show "children_of node m = Inr (kids node)" "list_all is_object (kids node)" by simp_all
qed

lemma image_parts:
  assumes "check_image node = Inr ()"
  obtains attrs v i where "get node ''attrs'' = JObj attrs" "map_of attrs (lit ''media_id'') = Some v"
    "uuid_of v = Inr i" "optional_text (get attrs ''alt'') 500" "optional_text (get attrs ''caption'') 2000"
proof -
  from assms obtain attrs where attrs: "as_mapping (get node ''attrs'') ''image attrs are required'' = Inr attrs"
    and checks: "(case uuid_of (get attrs ''media_id'') of
         Inl e \<Rightarrow> refuse ''image media_id must be a UUID''
       | Inr _ \<Rightarrow>
           if \<not> optional_text (get attrs ''alt'') 500 then refuse ''image alt is invalid''
           else if \<not> optional_text (get attrs ''caption'') 2000 then refuse ''image caption is invalid''
           else Inr ()) = Inr ()"
    unfolding check_image_def attempt_Inr by blast
  from checks obtain i where "uuid_of (get attrs ''media_id'') = Inr i"
    and rest: "optional_text (get attrs ''alt'') 500" "optional_text (get attrs ''caption'') 2000"
    by (cases "uuid_of (get attrs ''media_id'')") (auto split: if_splits)
  moreover have "get node ''attrs'' = JObj attrs"
    using attrs by (cases "get node ''attrs''") auto
  ultimately show thesis
    using that rest by (cases "map_of attrs (lit ''media_id'')") (auto simp: get_def get_or_def)
qed

lemma image_node_ids:
  assumes "node_ok split node"
  shows "image_id node = Inr (node_ids node)"
proof (cases "get node ''type'' = JStr (lit ''image'')")
  case True
  with assms have "check_image node = Inr ()" by (simp add: node_ok_def)
  then show ?thesis
    by (rule image_parts) (simp add: image_id_def node_ids_def True item_def)
qed (simp add: image_id_def node_ids_def)

lemma visit_subnodes:
  "list_all (node_ok split) (subnodes node) \<Longrightarrow> visit node = Inr (concat (map node_ids (subnodes node)))"
  "list_all is_object xs \<Longrightarrow> list_all (node_ok split) (subnodes_all xs)
    \<Longrightarrow> visit_all xs = Inr (concat (map node_ids (subnodes_all xs)))"
proof (induction node and xs rule: subnodes_subnodes_all.induct)
  case (1 node)
  from "1.prems" have ok: "node_ok split node" "list_all (node_ok split) (subnodes_all (kids node))"
    by (simp_all add: subnodes.simps)
  show ?case
    using 1 ok image_node_ids [OF ok(1)] node_ok_children [OF ok(1)]
    by (simp add: subnodes.simps visit.simps)
qed auto

text \<open>Text with its marks.\<close>

lemma link_parts:
  assumes "check_link split mark = Inr ()"
  obtains attrs href parsed where "item mark ''attrs'' = Inr (JObj attrs)" "item attrs ''href'' = Inr (JStr href)"
    "safe_href split (JStr href) = Inr href" "split href = Inr parsed" "url_scheme parsed \<in> set safe_schemes"
proof -
  from assms obtain attrs h where attrs: "as_mapping (get mark ''attrs'') ''link attrs are required'' = Inr attrs"
    and h: "safe_href split (get attrs ''href'') = Inr h"
    by (auto simp: check_link_def attempt_Inr)
  from h obtain href parsed where href: "get attrs ''href'' = JStr href" "split href = Inr parsed" "h = href"
      "url_scheme parsed \<in> set safe_schemes"
    by (auto simp: safe_href_def attempt_Inr split: json.splits if_splits)
  have "get mark ''attrs'' = JObj attrs"
    using attrs by (cases "get mark ''attrs''") auto
  with href h show thesis
    by (intro that [of attrs href parsed]) (auto intro: get_item)
qed

lemma wrap_mark_page:
  assumes "in_strings (get mark ''type'') mark_types = Inr True"
    and "get mark ''type'' = JStr (lit ''link'') \<Longrightarrow> check_link split mark = Inr ()"
    and "markup (page_tag split ids) body txt"
  shows "\<exists>h. wrap_mark split mark body = Inr h \<and> markup (page_tag split ids) h txt"
proof -
  from assms(1) obtain ty where ty: "get mark ''type'' = JStr ty" "ty \<in> set mark_types"
    by (auto simp: in_strings_JStr)
  note item = get_item [OF ty(1)]
  show ?thesis
  proof (cases "ty = lit ''link''")
    case False
    then have "ty \<in> {lit ''bold'', lit ''italic'', lit ''underline''}"
      using ty(2) by (auto simp: mark_types_def)
    then show ?thesis
      using item page_element [OF plain_name assms(3)] plain_name_in
      by (auto simp: wrap_mark_def)
  next
    case True
    with assms(2) ty have "check_link split mark = Inr ()" by simp
    then show ?thesis
    proof (rule link_parts)
      fix attrs href parsed
      assume parts: "item mark ''attrs'' = Inr (JObj attrs)" "item attrs ''href'' = Inr (JStr href)"
        "safe_href split (JStr href) = Inr href" "split href = Inr parsed" "url_scheme parsed \<in> set safe_schemes"
      let ?external = "url_scheme parsed \<in> {lit ''http'', lit ''https''}"
      have "link_tag split (lit ''a'' @ anchor_attributes href ?external)"
        unfolding link_tag_def using parts by blast
      with parts item True page_element [OF link_element assms(3)] show ?thesis
        by (simp add: wrap_mark_def)
    qed
  qed
qed

lemma wrap_marks_page:
  "check_marks split marks seen = Inr () \<Longrightarrow> markup (page_tag split ids) body txt \<Longrightarrow>
    \<exists>h. wrap_marks split marks body = Inr h \<and> markup (page_tag split ids) h txt"
proof (induction split marks seen arbitrary: body rule: check_marks.induct)
  case (2 split raw_mark marks seen)
  from "2.prems"(1) obtain mark known where mark: "as_mapping raw_mark ''rich-text mark must be an object'' = Inr mark"
      "in_strings (get mark ''type'') mark_types = Inr known"
    and body: "(if \<not> known then refuse ''rich-text mark is not supported''
       else
         (case get mark ''type'' of
            JStr mark_type \<Rightarrow>
              if mark_type \<in> set seen then refuse ''duplicate rich-text mark''
              else attempt (if mark_type = lit ''link'' then check_link split mark
                            else check_keys mark [lit ''type'']) (\<lambda>_.
                check_marks split marks (mark_type # seen))
          | _ \<Rightarrow> refuse ''rich-text mark is not supported'')) = Inr ()"
    unfolding check_marks.simps attempt_Inr by blast
  from body have known by (cases known) simp_all
  with mark(2) obtain ty where ty: "get mark ''type'' = JStr ty" by (auto simp: in_strings_JStr)
  with body \<open>known\<close> have rest: "ty \<notin> set seen" "ty = lit ''link'' \<Longrightarrow> check_link split mark = Inr ()"
      "check_marks split marks (ty # seen) = Inr ()"
      "\<exists>u. (if ty = lit ''link'' then check_link split mark else check_keys mark [lit ''type'']) = Inr u"
    by (auto simp: attempt_Inr split: if_splits)
  note parts = mark(1) mark(2) [unfolded eq_True [THEN iffD2, OF \<open>known\<close>]] ty rest
  from wrap_mark_page [OF parts(2) _ "2.prems"(2)] parts(3,5)
  obtain h where h: "wrap_mark split mark body = Inr h" "markup (page_tag split ids) h txt"
    by auto
  have "\<exists>h'. wrap_marks split marks h = Inr h' \<and> markup (page_tag split ids) h' txt"
    using "2.IH" parts h(2) by simp
  with parts(1) h(1) show ?case by simp
qed simp

text \<open>Each kind of node.\<close>

lemma text_node_page:
  assumes "text_ok split node" "get node ''type'' = JStr (lit ''text'')"
  shows "\<exists>h. render_text py_repr split node = Inr h \<and> markup (page_tag split ids) h (shown_text node)"
proof -
  obtain t where t: "get node ''text'' = JStr t"
    using assms(1) by (auto simp: text_ok_def split: json.splits)
  obtain marks where marks: "get_or node ''marks'' (JArr []) = JArr marks" "check_marks split marks [] = Inr ()"
    using assms(1) by (auto simp: text_ok_def split: json.splits)
  have "shown_text node = t"
    using assms(2) t by (simp add: shown_text_def)
  moreover have "\<exists>h. wrap_marks split marks (escape False t) = Inr h \<and> markup (page_tag split ids) h t"
    by (rule wrap_marks_page [OF marks(2) page_text])
  ultimately show ?thesis
    using get_item [OF t] marks(1) by (simp add: render_text_def iterate_def)
qed

lemma image_node_page:
  assumes "check_image node = Inr ()" "get node ''type'' = JStr (lit ''image'')" "set (node_ids node) \<subseteq> set ids"
  shows "\<exists>h. render_image py_repr node = Inr h \<and> markup (page_tag split ids) h (shown_text node)"
proof (rule image_parts [OF assms(1)])
  fix attrs v i
  assume attrs: "get node ''attrs'' = JObj attrs" "map_of attrs (lit ''media_id'') = Some v" "uuid_of v = Inr i"
    and alt: "optional_text (get attrs ''alt'') 500" and caption: "optional_text (get attrs ''caption'') 2000"
  have "node_ids node = [i]"
    using assms(2) attrs by (simp add: node_ids_def image_id_def item_def)
  with assms(3) have i: "i \<in> set ids" by simp
  obtain alt' where alt': "(if py_truthy (get attrs ''alt'') then py_str py_repr (get attrs ''alt'') else []) = alt'"
    by blast
  let ?image = "60 # (lit ''img'' @ image_attributes i alt') @ [62]"
  let ?caption = "get attrs ''caption''"
  have shown: "shown_text node = (case ?caption of JStr t \<Rightarrow> t | _ \<Rightarrow> [])"
    using assms(2) attrs(1) by (simp add: shown_text_def)
  have run: "render_image py_repr node = Inr (element (lit ''figure'') []
      (if py_truthy ?caption then ?image @ element (lit ''figcaption'') [] (escape True (py_str py_repr ?caption))
       else ?image))"
    using get_item [OF attrs(1)] attrs(2,3) alt' by (simp add: render_image_def item_def image_attributes_def Let_def)
  have image: "markup (page_tag split ids) ?image []"
    by (rule image_page [OF i])
  consider (none) "\<not> py_truthy ?caption" "shown_text node = []"
    | (some) t where "py_truthy ?caption" "?caption = JStr t" "shown_text node = t"
    using caption shown by (cases ?caption) auto
  then have "markup (page_tag split ids)
      (if py_truthy ?caption then ?image @ element (lit ''figcaption'') [] (escape True (py_str py_repr ?caption))
       else ?image) (shown_text node)"
  proof cases
    case none
    with image show ?thesis by simp
  next
    case (some t)
    have "markup (page_tag split ids) (?image @ element (lit ''figcaption'') [] (escape True t)) ([] @ t)"
      by (intro page_append image page_element plain_name plain_name_in page_text)
    with some show ?thesis by simp
  qed
  then show ?thesis
    unfolding run using page_element [OF plain_name [OF plain_name_in(9)]] by blast
qed

lemma level_value: "in_levels v = Inr True \<Longrightarrow> \<exists>n. py_int v = Inr n \<and> 1 \<le> n \<and> n \<le> 6"
proof (cases v)
  case (JFloat m k)
  assume "in_levels v = Inr True"
  with JFloat have "1 \<le> m div 2 ^ k" "m div 2 ^ k \<le> 6" by auto
  moreover have "0 < m"
  proof (rule ccontr)
    assume "\<not> 0 < m"
    then have "m div 2 ^ k \<le> 0" by (intro div_nonpos_pos_le0) simp_all
    with \<open>1 \<le> m div 2 ^ k\<close> show False by simp
  qed
  ultimately show ?thesis using JFloat by simp
qed auto

lemma start_value:
  assumes "case v of JInt i \<Rightarrow> 1 \<le> i | JBool b \<Rightarrow> b | _ \<Rightarrow> False"
  shows "\<exists>n. py_int v = Inr n \<and> 1 \<le> n"
  using assms by (cases v) auto

text \<open>A container around what its children render to.\<close>

lemma heading_parts:
  assumes "check_container (lit ''heading'') node = Inr ()"
  obtains attrs v n where "item node ''attrs'' = Inr (JObj attrs)" "item attrs ''level'' = Inr v"
    "py_int v = Inr n" "1 \<le> n" "n \<le> 6"
proof -
  from assms obtain attrs where attrs: "as_mapping (get node ''attrs'') ''heading attrs are required'' = Inr attrs"
    and level: "in_levels (get attrs ''level'') = Inr True"
    by (auto simp: check_container_def attempt_Inr split: if_splits)
  from level_value [OF level] obtain n where n: "py_int (get attrs ''level'') = Inr n" "1 \<le> n" "n \<le> 6" by blast
  have "get attrs ''level'' \<noteq> JNull" using level by auto
  moreover have "get node ''attrs'' = JObj attrs" using attrs by (cases "get node ''attrs''") auto
  ultimately show thesis
    using n by (intro that [of attrs "get attrs ''level''" n]) (auto intro: get_item)
qed

lemma ordered_list_parts:
  assumes "check_container (lit ''orderedList'') node = Inr ()" "map_of node (lit ''attrs'') \<noteq> Some JNull"
  obtains attrs n where "get_or node ''attrs'' (JObj [(lit ''start'', JInt 1)]) = JObj attrs"
    "py_int (get_or attrs ''start'' (JInt 1)) = Inr n" "1 \<le> n"
proof (cases "map_of node (lit ''attrs'')")
  case None
  then show thesis
    by (intro that [of "[(lit ''start'', JInt 1)]" 1]) (simp_all add: get_or_def)
next
  case (Some raw)
  with assms(2) have "get node ''attrs'' = raw" "raw \<noteq> JNull" by (auto simp: get_def get_or_def)
  with assms(1) obtain attrs where attrs: "as_mapping raw ''ordered-list attrs must be an object'' = Inr attrs"
    and checked: "(case get attrs ''start'' of
             JInt i \<Rightarrow> if i < 1 then refuse ''ordered-list start must be positive'' else Inr ()
           | JBool b \<Rightarrow> if \<not> b then refuse ''ordered-list start must be positive'' else Inr ()
           | _ \<Rightarrow> refuse ''ordered-list start must be positive'') = Inr ()"
    by (auto simp: check_container_def attempt_Inr)
  have start: "case get attrs ''start'' of JInt i \<Rightarrow> 1 \<le> i | JBool b \<Rightarrow> b | _ \<Rightarrow> False"
    using checked by (cases "get attrs ''start''") (auto split: if_splits)
  from start_value [OF start] obtain n where n: "py_int (get attrs ''start'') = Inr n" "1 \<le> n" by blast
  have "get attrs ''start'' \<noteq> JNull" using start by auto
  then have "get_or attrs ''start'' (JInt 1) = get attrs ''start''"
    by (auto simp: get_def get_or_def or_default_def split: option.splits)
  moreover have "raw = JObj attrs" using attrs by (cases raw) auto
  ultimately show thesis
    using n Some by (intro that [of attrs n]) (simp_all add: get_or_def)
qed

lemma container_types:
  "dom allowed_children = {lit ''paragraph'', lit ''heading'', lit ''blockquote'', lit ''bulletList'', lit ''orderedList'', lit ''listItem''}"
  unfolding allowed_children_def dom_map_of_conv_image_fst by simp

lemma container_page:
  assumes "container_ok ty node" "get node ''type'' = JStr ty" "markup (page_tag split ids) body txt"
  shows "if null_list node then \<exists>e. wrap_children (JStr ty) node body = Inl e
    else \<exists>h. wrap_children (JStr ty) node body = Inr h \<and> markup (page_tag split ids) h txt"
proof -
  from assms(1) obtain allowed where allowed: "allowed_children ty = Some allowed" and check: "check_container ty node = Inr ()"
    by (auto simp: container_ok_def split: option.splits)
  note plain = page_element [OF plain_name assms(3)] plain_name_in
  have null: "null_list node \<longleftrightarrow> ty = lit ''orderedList'' \<and> map_of node (lit ''attrs'') = Some JNull"
    using assms(2) by (simp add: null_list_def)
  from allowed have "ty \<in> dom allowed_children" by blast
  then consider "ty = lit ''paragraph''" | (heading) "ty = lit ''heading''" | "ty = lit ''blockquote''" | "ty = lit ''bulletList''"
    | (ordered) "ty = lit ''orderedList''" | "ty = lit ''listItem''"
    unfolding container_types by blast
  then show ?thesis
  proof cases
    case heading
    with check have "check_container (lit ''heading'') node = Inr ()" by simp
    then show ?thesis
    proof (rule heading_parts)
      fix attrs v n
      assume "item node ''attrs'' = Inr (JObj attrs)" "item attrs ''level'' = Inr v" "py_int v = Inr n" "1 \<le> n" "n \<le> 6"
      then show ?thesis
        using heading null plain(1) [OF heading_name] by (simp add: wrap_children_def)
    qed
  next
    case ordered
    show ?thesis
    proof (cases "null_list node")
      case True
      then show ?thesis
        using ordered null by (simp add: wrap_children_def get_or_def)
    next
      case False
      then have "check_container (lit ''orderedList'') node = Inr ()" "map_of node (lit ''attrs'') \<noteq> Some JNull"
        using check ordered null by auto
      then show ?thesis
      proof (rule ordered_list_parts)
        fix attrs n
        assume parts: "get_or node ''attrs'' (JObj [(lit ''start'', JInt 1)]) = JObj attrs"
          "py_int (get_or attrs ''start'' (JInt 1)) = Inr n" "1 \<le> n"
        have "wrap_children (JStr ty) node body =
            Inr (element (lit ''ol'') (if n \<noteq> 1 then start_attribute n else []) body)"
          unfolding ordered wrap_children_def parts(1) using parts(2) by (simp add: start_attribute_def)
        moreover have "markup (page_tag split ids) (element (lit ''ol'') (if n \<noteq> 1 then start_attribute n else []) body) txt"
          using page_element [OF list_start_element [OF parts(3)] assms(3)] plain(1) [OF plain_name_in(4)] by simp
        ultimately show ?thesis using False by simp
      qed
    qed
  qed (use null plain in \<open>simp_all add: wrap_children_def\<close>)
qed

section \<open>Documents\<close>

lemma visible_text_simps [simp]:
  "visible_text [] = []" "visible_text (n # ns) = shown_text n @ visible_text ns"
  "visible_text (ns @ ms) = visible_text ns @ visible_text ms"
  by (simp_all add: visible_text_def)

lemma leaf_page:
  assumes "node_ok split node" "get node ''type'' = JStr ty" "set (node_ids node) \<subseteq> set ids"
    and "ty \<in> {lit ''text'', lit ''image'', lit ''horizontalRule'', lit ''hardBreak''}"
  shows "\<not> null_list node \<and> subnodes node = [node]
    \<and> (\<exists>h. render_node py_repr split node = Inr h \<and> markup (page_tag split ids) h (shown_text node))"
proof -
  have void: "markup (page_tag split ids) (60 # t @ [62]) []" if "t \<in> {lit ''hr'', lit ''br''}" for t
    using that by (intro page_void) (auto simp: page_tag_def tag_name_def void_names_def)
  have "\<exists>h. render_node py_repr split node = Inr h \<and> markup (page_tag split ids) h (shown_text node)"
  proof -
    consider (text_node) "ty = lit ''text''" | (image) "ty = lit ''image''"
      | (rule_node) "ty = lit ''horizontalRule''" | (break_node) "ty = lit ''hardBreak''"
      using assms(4) by blast
    then show ?thesis
    proof cases
      case text_node
      with assms have "text_ok split node" by (simp add: node_ok_def)
      with text_node text_node_page [of split node py_repr ids] assms(2) get_item [OF assms(2)] show ?thesis
        by (simp add: render_node.simps)
    next
      case image
      with assms have "check_image node = Inr ()" by (simp add: node_ok_def)
      with image image_node_page [of node ids py_repr split] assms(2,3) get_item [OF assms(2)] show ?thesis
        by (simp add: render_node.simps)
    next
      case rule_node
      with void [of "lit ''hr''"] get_item [OF assms(2)] assms(2) show ?thesis
        by (simp add: render_node.simps shown_text_def)
    next
      case break_node
      with void [of "lit ''br''"] get_item [OF assms(2)] assms(2) show ?thesis
        by (simp add: render_node.simps shown_text_def)
    qed
  qed
  moreover have "\<not> null_list node"
    using assms(2,4) by (auto simp: null_list_def)
  moreover have "subnodes node = [node]"
    by (rule leaf_subnodes(1) [OF leaf_no_kids [OF assms(2,4,1)]])
  ultimately show ?thesis by blast
qed

lemma render_page:
  "list_all (node_ok split) (subnodes node) \<Longrightarrow> set (concat (map node_ids (subnodes node))) \<subseteq> set ids \<Longrightarrow>
    (if list_ex null_list (subnodes node) then \<exists>e. render_node py_repr split node = Inl e
     else \<exists>h. render_node py_repr split node = Inr h \<and> markup (page_tag split ids) h (visible_text (subnodes node)))"
  "list_all is_object xs \<Longrightarrow> list_all (node_ok split) (subnodes_all xs) \<Longrightarrow>
    set (concat (map node_ids (subnodes_all xs))) \<subseteq> set ids \<Longrightarrow>
    (if list_ex null_list (subnodes_all xs) then \<exists>e. render_children py_repr split m xs = Inl e
     else \<exists>h. render_children py_repr split m xs = Inr h \<and> markup (page_tag split ids) h (visible_text (subnodes_all xs)))"
proof (induction node and xs arbitrary: and m rule: subnodes_subnodes_all.induct)
  case (1 node)
  from "1.prems" have ok: "node_ok split node" "list_all (node_ok split) (subnodes_all (kids node))"
    and ids: "set (node_ids node) \<subseteq> set ids" "set (concat (map node_ids (subnodes_all (kids node)))) \<subseteq> set ids"
    by (auto simp: subnodes.simps)
  obtain ty where ty: "get node ''type'' = JStr ty"
    using ok(1) by (auto simp: node_ok_def split: json.splits)
  show ?case
  proof (cases "ty \<in> {lit ''text'', lit ''image'', lit ''horizontalRule'', lit ''hardBreak''}")
    case True
    from leaf_page [OF ok(1) ty ids(1) this, of py_repr] show ?thesis by simp
  next
    case False
    then have container: "container_ok ty node" and shown: "shown_text node = []"
      using ok(1) ty by (simp_all add: node_ok_def shown_text_def)
    have run: "render_node py_repr split node =
        attempt (render_children py_repr split message_child (kids node)) (wrap_children (JStr ty) node)"
      using False get_item [OF ty] node_ok_children(1) [OF ok(1)] by (simp add: render_node.simps)
    note below = "1.IH" [OF node_ok_children(2) [OF ok(1)] ok(2) ids(2), of message_child]
    show ?thesis
    proof (cases "list_ex null_list (subnodes_all (kids node))")
      case True
      with below run show ?thesis by (auto simp: subnodes.simps)
    next
      case False
      with below obtain body where body: "render_children py_repr split message_child (kids node) = Inr body"
        "markup (page_tag split ids) body (visible_text (subnodes_all (kids node)))" by auto
      with container_page [OF container ty body(2)] run False shown show ?thesis
        by (simp add: subnodes.simps)
    qed
  qed
next
  case 2
  then show ?case by (simp add: page_Nil)
next
  case (3 child children)
  have ok: "list_all (node_ok split) (subnodes child)" "list_all is_object children"
      "list_all (node_ok split) (subnodes_all children)"
    and ids: "set (concat (map node_ids (subnodes child))) \<subseteq> set ids"
      "set (concat (map node_ids (subnodes_all children))) \<subseteq> set ids"
    using "3.prems" by simp_all
  note first = "3.IH"(1) [OF ok(1) ids(1)] and rest = "3.IH"(2) [OF ok(2,3) ids(2), of m]
  show ?case
  proof (cases "list_ex null_list (subnodes child) \<or> list_ex null_list (subnodes_all children)")
    case True
    with first rest show ?thesis
      by (cases "list_ex null_list (subnodes child)") (auto split: if_splits)
  next
    case False
    with first rest obtain a b where
      "render_node py_repr split child = Inr a" "markup (page_tag split ids) a (visible_text (subnodes child))"
      "render_children py_repr split m children = Inr b" "markup (page_tag split ids) b (visible_text (subnodes_all children))"
      by auto
    with False show ?thesis by (simp add: page_append)
  qed
qed auto

text \<open>A document that validation accepts, as a predicate on its nodes.\<close>

definition acceptable :: "(ustr \<Rightarrow> exn + split_url) \<Rightarrow> bool \<Rightarrow> entries \<Rightarrow> bool" where
  "acceptable split require_content doc \<longleftrightarrow>
     check_keys doc [lit ''type'', lit ''content''] = Inr () \<and> get doc ''type'' = JStr (lit ''doc'')
     \<and> get_or doc ''content'' (JArr []) = JArr (kids doc)
     \<and> list_all (child_ok root_types) (kids doc) \<and> list_all (node_ok split) (subnodes_all (kids doc))
     \<and> length (subnodes doc) \<le> MAX_NODES \<and> height doc \<le> Suc MAX_DEPTH
     \<and> sum_list (map text_size (subnodes doc)) \<le> MAX_TEXT_CHARS
     \<and> (if require_content then list_ex meaningful (subnodes doc) else True)"

lemma count_root:
  assumes "get doc ''type'' = JStr (lit ''doc'')"
  shows "count_in (subnodes_all (kids doc)) \<lparr>count_nodes = 1, count_text = 0, count_meaningful = 0\<rparr>
    = count_in (subnodes doc) \<lparr>count_nodes = 0, count_text = 0, count_meaningful = 0\<rparr>"
  using assms by (simp add: count_in_def subnodes.simps text_size_def meaningful_def)

lemma validate_content_iff:
  assumes "get doc ''type'' = JStr (lit ''doc'')"
  shows "validate_children split messages root_types 1 (kids doc) \<lparr>count_nodes = 1, count_text = 0, count_meaningful = 0\<rparr> = Inr c
    \<longleftrightarrow> list_all (child_ok root_types) (kids doc) \<and> list_all (node_ok split) (subnodes_all (kids doc))
      \<and> length (subnodes doc) \<le> MAX_NODES \<and> height doc \<le> Suc MAX_DEPTH
      \<and> sum_list (map text_size (subnodes doc)) \<le> MAX_TEXT_CHARS
      \<and> c = count_in (subnodes doc) \<lparr>count_nodes = 0, count_text = 0, count_meaningful = 0\<rparr>"
proof -
  have start: "within_limits \<lparr>count_nodes = 1, count_text = 0, count_meaningful = 0\<rparr>" "1 \<le> Suc MAX_DEPTH"
    by (simp_all add: within_limits_def MAX_NODES_def)
  show ?thesis
    unfolding validate_iff(2) [OF start] count_root [OF assms]
    by (auto simp: within_limits_def count_in_def height.simps)
qed

lemma documents_accepted_core:
  "validate_document split require_content value = Inr doc
    \<longleftrightarrow> value = JObj doc \<and> acceptable split require_content doc"
proof (cases "\<exists>es. value = JObj es \<and> check_keys es [lit ''type'', lit ''content''] = Inr ()
    \<and> get es ''type'' = JStr (lit ''doc'') \<and> get_or es ''content'' (JArr []) = JArr (kids es)")
  case True
  then obtain es where es: "value = JObj es" "check_keys es [lit ''type'', lit ''content''] = Inr ()"
    "get es ''type'' = JStr (lit ''doc'')" "get_or es ''content'' (JArr []) = JArr (kids es)" by blast
  have meaning: "count_meaningful (count_in (subnodes es) \<lparr>count_nodes = 0, count_text = 0, count_meaningful = 0\<rparr>) = 0
      \<longleftrightarrow> \<not> list_ex meaningful (subnodes es)"
    by (auto simp: count_in_def count_if_zero_iff list_ex_iff)
  have "validate_document split require_content value = Inr doc \<longleftrightarrow> doc = es \<and> acceptable split require_content es"
    using es meaning
    by (auto simp: validate_document_def attempt_Inr validate_content_iff [OF es(3), unfolded One_nat_def] acceptable_def)
  with es(1) show ?thesis by auto
next
  case False
  then have "\<not> (value = JObj doc \<and> acceptable split require_content doc)"
    by (auto simp: acceptable_def)
  moreover have "validate_document split require_content value \<noteq> Inr doc"
  proof
    assume run: "validate_document split require_content value = Inr doc"
    then obtain es where es: "value = JObj es"
      by (cases "value") (auto simp: validate_document_def)
    with run obtain xs where "check_keys es [lit ''type'', lit ''content''] = Inr ()"
      "get es ''type'' = JStr (lit ''doc'')" "get_or es ''content'' (JArr []) = JArr xs"
      by (auto simp: validate_document_def attempt_Inr split: if_splits json.splits)
    moreover from this have "kids es = xs" by (intro content_kids)
    ultimately show False using False es by blast
  qed
  ultimately show ?thesis by blast
qed

text \<open>C25: validation accepts exactly the objects of type \<open>doc\<close> each of whose nodes is in order
  and that hold at most 10000 nodes, 200000 characters and 32 levels; a document to be published
  must also show something. What it returns is the document itself.\<close>

theorem documents_accepted_exactly:
  "validate_document split require_content value = Inr doc
    \<longleftrightarrow> value = JObj doc \<and> acceptable split require_content doc"
  by (rule documents_accepted_core)

section \<open>How validation fails\<close>

text \<open>
  A refusal by the validator itself, the \<open>TypeError\<close> of a list or dict where a name or a level is
  looked up in a set, or whatever \<open>urlsplit\<close> raises. Pydantic turns the \<open>ValueError\<close>s among them
  into a 422 answer; the \<open>TypeError\<close> is a 500.
\<close>

definition refusal :: "(ustr \<Rightarrow> exn + split_url) \<Rightarrow> exn \<Rightarrow> bool" where
  "refusal split e \<longleftrightarrow> (\<exists>m. e = RichTextError m) \<or> e = PyTypeError \<or> (\<exists>u. split u = Inl e)"

lemma refusal_simps [simp]: "refusal split (RichTextError m)" "refusal split PyTypeError"
  by (simp_all add: refusal_def)

lemma refusal_leaves:
  "as_mapping v m = Inl e \<Longrightarrow> refusal split e"
  "check_keys es allowed = Inl e \<Longrightarrow> refusal split e"
  "in_strings v names = Inl e \<Longrightarrow> refusal split e"
  "in_levels v = Inl e \<Longrightarrow> refusal split e"
  by (cases v; auto simp: check_keys_def split: if_splits)+

lemma refusal_attempt:
  "attempt x k = Inl e \<Longrightarrow> (x = Inl e \<Longrightarrow> refusal split e) \<Longrightarrow> (\<And>y. x = Inr y \<Longrightarrow> k y = Inl e \<Longrightarrow> refusal split e)
    \<Longrightarrow> refusal split e"
  by (cases x) auto

lemma refusal_href: "safe_href split v = Inl e \<Longrightarrow> refusal split e"
  unfolding safe_href_def
  by (cases v) (auto simp: refusal_def attempt_Inl split: if_splits)

lemma refusal_link: "check_link split mark = Inl e \<Longrightarrow> refusal split e"
  unfolding check_link_def
  by (elim refusal_attempt) (auto intro: refusal_leaves refusal_href)

lemma refusal_marks: "check_marks split marks seen = Inl e \<Longrightarrow> refusal split e"
proof (induction split marks seen rule: check_marks.induct)
  case (2 split raw_mark marks seen)
  show ?case
    using "2.prems" unfolding check_marks.simps
  proof (elim refusal_attempt)
    fix mark known
    assume mark: "as_mapping raw_mark ''rich-text mark must be an object'' = Inr mark"
      "in_strings (get mark ''type'') mark_types = Inr known"
      and failed: "(if \<not> known then refuse ''rich-text mark is not supported''
       else
         (case get mark ''type'' of
            JStr mark_type \<Rightarrow>
              if mark_type \<in> set seen then refuse ''duplicate rich-text mark''
              else attempt (if mark_type = lit ''link'' then check_link split mark
                            else check_keys mark [lit ''type'']) (\<lambda>_.
                check_marks split marks (mark_type # seen))
          | _ \<Rightarrow> refuse ''rich-text mark is not supported'')) = Inl e"
    show "refusal split e"
    proof (cases "known \<and> (\<exists>ty. get mark ''type'' = JStr ty \<and> ty \<notin> set seen)")
      case True
      then obtain ty where ty: "get mark ''type'' = JStr ty" "ty \<notin> set seen" by blast
      from failed True ty have "attempt (if ty = lit ''link'' then check_link split mark
          else check_keys mark [lit ''type'']) (\<lambda>_. check_marks split marks (ty # seen)) = Inl e"
        by simp
      then show ?thesis
      proof (rule refusal_attempt)
        show "(if ty = lit ''link'' then check_link split mark else check_keys mark [lit ''type'']) = Inl e \<Longrightarrow> refusal split e"
          by (cases "ty = lit ''link''") (simp_all add: refusal_link refusal_leaves)
      next
        fix u
        assume "(if ty = lit ''link'' then check_link split mark else check_keys mark [lit ''type'']) = Inr u"
          "check_marks split marks (ty # seen) = Inl e"
        then show "refusal split e"
          using "2.IH" [OF mark _ ty(1,2)] True by blast
      qed
    next
      case False
      with failed show ?thesis by (cases "get mark ''type''") (auto split: if_splits)
    qed
  qed (auto intro: refusal_leaves)
qed simp

lemma refusal_text: "validate_text split node c = Inl e \<Longrightarrow> refusal split e"
  unfolding validate_text_def Let_def
  by (elim refusal_attempt)
    (auto intro: refusal_leaves refusal_marks elim: refusal_attempt split: json.splits if_splits)

lemma refusal_image: "validate_image node c = Inl e \<Longrightarrow> refusal split e"
  unfolding validate_image_def check_image_def
  by (elim refusal_attempt) (auto intro: refusal_leaves split: sum.splits if_splits)

lemma refusal_break: "validate_break ty node c = Inl e \<Longrightarrow> refusal split e"
  unfolding validate_break_def by (elim refusal_attempt) (auto intro: refusal_leaves)

lemma refusal_container: "check_container ty node = Inl e \<Longrightarrow> refusal split e"
  unfolding check_container_def
  by (elim refusal_attempt)
    (auto intro: refusal_leaves elim!: refusal_attempt split: json.splits if_splits)

lemma refusal_nodes:
  "validate_node split d raw c = Inl e \<Longrightarrow> refusal split e"
  "validate_children split messages allowed d xs c = Inl e \<Longrightarrow> refusal split e"
proof (induction split d raw c and split messages allowed d xs c rule: validate_node_validate_children.induct)
  case (1 split depth node c)
  show ?case
  proof (cases "\<exists>ty. get node ''type'' = JStr ty \<and> depth \<le> MAX_DEPTH \<and> Suc (count_nodes c) \<le> MAX_NODES")
    case False
    then show ?thesis
      using "1.prems" by (cases "get node ''type''") (auto simp: validate_node.simps(1) Let_def split: if_splits)
  next
    case True
    then obtain ty where ty: "get node ''type'' = JStr ty" and depth: "depth \<le> MAX_DEPTH"
      and room: "Suc (count_nodes c) \<le> MAX_NODES" by blast
    let ?c = "c\<lparr>count_nodes := count_nodes c + 1\<rparr>"
    show ?thesis
    proof (cases "ty \<in> {lit ''text'', lit ''image'', lit ''horizontalRule'', lit ''hardBreak''}")
      case True
      then show ?thesis
        using "1.prems" ty depth room
        by (auto simp: validate_node.simps(1) Let_def intro: refusal_text refusal_image refusal_break)
    next
      case False
      from "1.prems" have step: "(case allowed_children ty of
          None \<Rightarrow> refuse ''rich-text node type is not supported''
        | Some allowed \<Rightarrow> attempt (check_container ty node) (\<lambda>_.
            case get_or node ''content'' (JArr []) of
              JArr children \<Rightarrow>
                if ty \<in> set list_types \<and> children = [] then refuse (map char_of ty @ '' cannot be empty'')
                else validate_children split (''rich-text child must be an object'',
                    map char_of ty @ '' contains an unsupported child'') allowed (depth + 1) children ?c
            | _ \<Rightarrow> refuse ''rich-text node content must be a list'')) = Inl e"
        unfolding container_eq [OF ty False depth] using room by simp
      show ?thesis
      proof (cases "allowed_children ty")
        case None
        with step show ?thesis by (auto simp: refusal_def)
      next
        case (Some allowed)
        with step have "attempt (check_container ty node) (\<lambda>_.
            case get_or node ''content'' (JArr []) of
              JArr children \<Rightarrow>
                if ty \<in> set list_types \<and> children = [] then refuse (map char_of ty @ '' cannot be empty'')
                else validate_children split (''rich-text child must be an object'',
                    map char_of ty @ '' contains an unsupported child'') allowed (depth + 1) children ?c
            | _ \<Rightarrow> refuse ''rich-text node content must be a list'') = Inl e"
          by simp
        then show ?thesis
        proof (rule refusal_attempt [OF _ refusal_container])
          fix u
          assume u: "check_container ty node = Inr u"
            and run: "(case get_or node ''content'' (JArr []) of
              JArr children \<Rightarrow>
                if ty \<in> set list_types \<and> children = [] then refuse (map char_of ty @ '' cannot be empty'')
                else validate_children split (''rich-text child must be an object'',
                    map char_of ty @ '' contains an unsupported child'') allowed (depth + 1) children ?c
            | _ \<Rightarrow> refuse ''rich-text node content must be a list'') = Inl e"
          show "refusal split e"
          proof (cases "\<exists>xs. get_or node ''content'' (JArr []) = JArr xs \<and> \<not> (ty \<in> set list_types \<and> xs = [])")
            case False
            with run show ?thesis by (auto simp: refusal_def split: json.splits if_splits)
          next
            case True
            then obtain xs where xs: "get_or node ''content'' (JArr []) = JArr xs" "\<not> (ty \<in> set list_types \<and> xs = [])"
              by blast
            with run have "validate_children split (''rich-text child must be an object'',
                map char_of ty @ '' contains an unsupported child'') allowed (depth + 1) xs ?c = Inl e"
              by simp
            with "1.IH" [OF _ ty refl _ _ _ _ Some u xs] False depth room show ?thesis by simp
          qed
        qed
      qed
    qed
  qed
next
  case (4 split messages allowed depth child children c)
  from "4.prems" show ?case
    unfolding validate_children.simps
  proof (elim refusal_attempt)
    fix es ok
    assume found: "as_mapping child (fst messages) = Inr es" "in_strings (get es ''type'') allowed = Inr ok"
      "(if \<not> ok then refuse (snd messages)
        else attempt (validate_node split depth child c)
          (\<lambda>c'. validate_children split messages allowed depth children c')) = Inl e"
    then show "refusal split e"
      using "4.IH" [OF found(1,2)] by (cases ok) (auto simp: attempt_Inl)
  qed (auto intro: refusal_leaves)
qed (auto split: if_splits)

lemma refusal_document:
  assumes "validate_document split require_content value = Inl e"
  shows "refusal split e"
  using assms unfolding validate_document_def
  by (elim refusal_attempt)
    (auto intro: refusal_leaves elim!: refusal_attempt refusal_nodes(2) split: json.splits if_splits)

section \<open>What is rendered\<close>

lemma acceptable_rendering:
  assumes "acceptable split rc doc"
  shows "\<exists>ids. referenced_media_ids doc = Inr ids
    \<and> (if list_ex null_list (subnodes doc) then \<exists>e. render_document py_repr split doc = Inl e
       else \<exists>html. render_document py_repr split doc = Inr html
         \<and> markup (page_tag split ids) html (visible_text (subnodes doc)))"
proof -
  from assms have doc: "get doc ''type'' = JStr (lit ''doc'')" "get_or doc ''content'' (JArr []) = JArr (kids doc)"
    and children: "list_all (child_ok root_types) (kids doc)" "list_all (node_ok split) (subnodes_all (kids doc))"
    by (simp_all add: acceptable_def)
  from children(1) have objects: "list_all is_object (kids doc)"
    by (rule list.pred_mono_strong) (rule child_ok_object)
  let ?ids = "remdups (concat (map node_ids (subnodes_all (kids doc))))"
  have "referenced_media_ids doc = Inr ?ids"
    using visit_subnodes(2) [OF objects children(2)] doc
    by (simp add: referenced_media_ids_def visit.simps image_id_def children_of_def)
  moreover have "\<not> null_list doc" "shown_text doc = []"
    using doc(1) by (simp_all add: null_list_def shown_text_def)
  moreover have "render_document py_repr split doc =
      render_children py_repr split ''rich-text node must be an object'' (kids doc)"
    using doc(2) by (simp add: render_document_def children_of_def)
  ultimately show ?thesis
    using render_page(2) [OF objects children(2), of ?ids py_repr "''rich-text node must be an object''"]
    by (simp add: subnodes.simps)
qed

text \<open>C26: validation answers or refuses, and what it accepts does not get stuck: its media
  references can be collected, and it renders unless it holds an ordered list whose \<open>attrs\<close> is
  null, the one shape that validation lets through and \<open>render_document\<close> raises on.\<close>

theorem accepted_documents_render:
  "case validate_document (urlsplit b n) require_content value of
     Inl e \<Rightarrow> refusal (urlsplit b n) e
   | Inr doc \<Rightarrow> (\<exists>ids. referenced_media_ids doc = Inr ids)
       \<and> ((\<exists>html. render_document py_repr (urlsplit b n) doc = Inr html)
          \<longleftrightarrow> \<not> list_ex null_list (subnodes doc))"
proof (cases "validate_document (urlsplit b n) require_content value")
  case (Inl e)
  with refusal_document show ?thesis by fastforce
next
  case (Inr doc)
  then have "acceptable (urlsplit b n) require_content doc"
    unfolding documents_accepted_core by blast
  from acceptable_rendering [OF this, of py_repr] Inr show ?thesis
    by (auto split: if_splits)
qed

text \<open>C27: the HTML of an accepted document reads as properly nested markup whose tags all come
  from the fixed list of \<open>page_tag\<close> (links only to addresses that are safe, images only of media
  the document refers to), and its text, with character references resolved, is the text of the
  document: nothing an author types becomes markup.\<close>

theorem rendered_html_safe:
  "case validate_document (urlsplit b n) require_content value of
     Inl e \<Rightarrow> True
   | Inr doc \<Rightarrow>
       (case render_document py_repr (urlsplit b n) doc of
          Inl e \<Rightarrow> True
        | Inr html \<Rightarrow>
            (\<exists>ids ps. referenced_media_ids doc = Inr ids \<and> pieces None html = Some ps \<and> nested [] ps = Some []
               \<and> list_all (tag_ok (page_tag (urlsplit b n) ids)) ps
               \<and> unescape (characters ps) = visible_text (subnodes doc)))"
proof (cases "validate_document (urlsplit b n) require_content value")
  case (Inr doc)
  then have "acceptable (urlsplit b n) require_content doc"
    unfolding documents_accepted_core by blast
  from acceptable_rendering [OF this, of py_repr] obtain ids where ids: "referenced_media_ids doc = Inr ids"
    "if list_ex null_list (subnodes doc) then \<exists>e. render_document py_repr (urlsplit b n) doc = Inl e
     else \<exists>html. render_document py_repr (urlsplit b n) doc = Inr html
       \<and> markup (page_tag (urlsplit b n) ids) html (visible_text (subnodes doc))" by blast
  show ?thesis
  proof (cases "render_document py_repr (urlsplit b n) doc")
    case rendered: (Inr html)
    with ids have "markup (page_tag (urlsplit b n) ids) html (visible_text (subnodes doc))"
      by (auto split: if_splits)
    then obtain ps where "pieces None html = Some ps" "\<forall>st. nested st ps = Some st"
      "list_all (tag_ok (page_tag (urlsplit b n) ids)) ps"
      "\<forall>rest. unescape (characters ps @ rest) = visible_text (subnodes doc) @ unescape rest"
      by (rule pageE)
    moreover from this(4) have "unescape (characters ps) = visible_text (subnodes doc)"
      using unescape.simps [of "[]"] by (metis append_Nil2 list.case(1))
    ultimately show ?thesis using Inr rendered ids(1) by auto
  qed (simp add: Inr)
qed simp

end
