(* ===== verification/ContentModel.thy ===== *)
theory ContentModel
  imports Auth RegistrationModel
begin

text \<open>
  The tables of \<open>content/models.py\<close>, the profile tables of \<open>tenancy/models.py\<close> and those of
  \<open>exams/models.py\<close> and \<open>media/models.py\<close> as the content side uses them, with the constraints the
  database checks when a session is flushed. \<open>content_db\<close> extends the platform's database, so the
  guards and the build queue of a tenant work on it as they are.

  \<open>created_at\<close> is set by the database at the insert and \<open>updated_at\<close> at every update; both are
  the time of the transaction, the \<open>now\<close> of the operations.
\<close>

section \<open>Tables\<close>

datatype content_status = Status_DRAFT | Status_PUBLISHED | Status_ARCHIVED

record banner =
  banner_id :: uuid
  banner_tenant_id :: uuid
  banner_title :: ustr
  banner_description :: "ustr option"
  banner_image_id :: uuid
  target_url :: "ustr option"
  banner_sort_order :: int
  banner_status :: content_status
  banner_starts_at :: "instant option"
  banner_ends_at :: "instant option"

datatype post_kind = NEWS | ANNOUNCEMENT | BLOG

record post =
  post_id :: uuid
  post_tenant_id :: uuid
  post_kind_of :: post_kind
  post_title :: ustr
  post_slug :: ustr
  post_summary :: "ustr option"
  post_body :: ustr
  content_document :: "(ustr \<times> json) list"
  rendered_html :: "ustr option"
  cover_image_id :: "uuid option"
  og_image_id :: "uuid option"
  seo_title :: "ustr option"
  seo_description :: "ustr option"
  event_date :: "int option"
  published_at :: "instant option"
  post_status :: content_status
  post_locale :: "ustr option"
  post_created_by :: "uuid option"
  post_updated_by :: "uuid option"
  post_created_at :: instant
  post_updated_at :: instant

record post_reference =
  ref_id :: uuid
  ref_tenant_id :: uuid
  ref_post_id :: uuid
  ref_media_id :: uuid

record honor_category =
  category_id :: uuid
  category_tenant_id :: uuid
  category_name :: ustr
  category_slug :: ustr
  category_description :: "ustr option"
  category_sort_order :: int
  category_is_active :: bool
  category_archived_at :: "instant option"

record honor =
  honor_id :: uuid
  honor_tenant_id :: uuid
  honor_category_id :: uuid
  student_name :: ustr
  honor_title :: ustr
  honor_description :: "ustr option"
  honor_year :: "int option"
  honor_rank :: "int option"
  institution_name :: "ustr option"
  field_of_study :: "ustr option"
  honor_image_id :: "uuid option"
  honor_sort_order :: int
  honor_status :: content_status

datatype member_kind = TEACHER | EMPLOYEE | MANAGER | OTHER_MEMBER

record staff_member =
  staff_id :: uuid
  staff_tenant_id :: uuid
  staff_first_name :: ustr
  staff_last_name :: ustr
  staff_display_name :: ustr
  member_type :: member_kind
  staff_title :: ustr
  biography :: "ustr option"
  staff_image_id :: "uuid option"
  public_phone :: "ustr option"
  public_email :: "ustr option"
  staff_sort_order :: int
  staff_is_active :: bool
  staff_archived_at :: "instant option"

datatype contact_state = Contact_NEW | CONTACTED | CLOSED | SPAM

record contact_request =
  cr_id :: uuid
  cr_tenant_id :: uuid
  cr_name :: ustr
  cr_education_level :: ustr
  cr_phone_number :: ustr
  cr_request_ip_hash :: ustr
  cr_status :: contact_state
  cr_created_at :: instant
  handled_at :: "instant option"
  handled_by :: "uuid option"
  cr_internal_notes :: "ustr option"

record sample_exam =
  sample_id :: uuid
  sample_tenant_id :: uuid
  sample_title :: ustr
  sample_description :: "ustr option"
  sample_education_level :: "ustr option"
  exam_year :: "int option"
  file_media_id :: uuid
  cover_media_id :: "uuid option"
  sample_sort_order :: int
  sample_status :: content_status
  download_count :: int

record gallery_album =
  album_id :: uuid
  album_tenant_id :: uuid
  album_title :: ustr
  album_slug :: ustr
  album_description :: "ustr option"
  album_cover_id :: "uuid option"
  album_sort_order :: int
  album_status :: content_status

record gallery_item =
  item_id :: uuid
  item_tenant_id :: uuid
  item_album_id :: uuid
  item_media_id :: uuid
  item_title :: "ustr option"
  item_description :: "ustr option"
  captured_at :: "instant option"
  item_sort_order :: int
  item_created_at :: instant

record tenant_profile =
  profile_id :: uuid
  profile_tenant_id :: uuid
  profile_display_name :: ustr
  profile_description :: "ustr option"

record tenant_address =
  addr_id :: uuid
  addr_tenant_id :: uuid
  addr_label :: ustr
  addr_text :: ustr
  latitude :: "ustr option"
  longitude :: "ustr option"
  addr_sort_order :: int

record tenant_phone =
  phone_id :: uuid
  phone_tenant_id :: uuid
  phone_label :: ustr
  phone_text :: ustr
  phone_sort_order :: int

record tenant_social_link =
  social_id :: uuid
  social_tenant_id :: uuid
  social_platform :: ustr
  social_url :: ustr
  social_sort_order :: int

record content_db = platform_db +
  posts :: "post list"
  post_references :: "post_reference list"
  assets :: "media_asset list"
  banners :: "banner list"
  honor_categories :: "honor_category list"
  honors :: "honor list"
  staff :: "staff_member list"
  contact_requests :: "contact_request list"
  sample_exams :: "sample_exam list"
  albums :: "gallery_album list"
  album_items :: "gallery_item list"
  offerings :: "exam_offering list"
  price_plans :: "pricing_plan list"
  offering_plans :: "exam_pricing_plan list"
  profiles :: "tenant_profile list"
  addresses :: "tenant_address list"
  phones :: "tenant_phone list"
  social_links :: "tenant_social_link list"
  school_directory :: "school_entry list"

section \<open>Constraints\<close>

text \<open>The composite foreign keys: the row referred to belongs to the same tenant.\<close>

definition asset_of :: "uuid \<Rightarrow> uuid \<Rightarrow> content_db \<Rightarrow> media_asset option" where
  "asset_of t i s = find (\<lambda>m. media_id m = i \<and> media_tenant_id m = t) (assets s)"

definition has_asset :: "uuid \<Rightarrow> uuid \<Rightarrow> content_db \<Rightarrow> bool" where
  "has_asset t i s = (asset_of t i s \<noteq> None)"

definition has_asset_option :: "uuid \<Rightarrow> uuid option \<Rightarrow> content_db \<Rightarrow> bool" where
  "has_asset_option t i s = (case i of None \<Rightarrow> True | Some i \<Rightarrow> has_asset t i s)"

text \<open>\<open>UNIQUE (tenant_id, ...)\<close>: no other row of the tenant has the same key.\<close>

definition unique_key :: "('r \<Rightarrow> uuid) \<Rightarrow> ('r \<Rightarrow> 'k) \<Rightarrow> 'r \<Rightarrow> 'r list \<Rightarrow> bool" where
  "unique_key rid key r rows \<longleftrightarrow> list_all (\<lambda>x. rid x = rid r \<or> key x \<noteq> key r) rows"

definition post_key :: "post \<Rightarrow> uuid \<times> post_kind \<times> ustr" where
  "post_key p = (post_tenant_id p, post_kind_of p, post_slug p)"

definition post_constraints :: "post \<Rightarrow> content_db \<Rightarrow> bool" where
  "post_constraints p s \<longleftrightarrow> unique_key post_id post_key p (posts s)
     \<and> has_asset_option (post_tenant_id p) (cover_image_id p) s
     \<and> has_asset_option (post_tenant_id p) (og_image_id p) s"

definition banner_constraints :: "banner \<Rightarrow> content_db \<Rightarrow> bool" where
  "banner_constraints b s \<longleftrightarrow> has_asset (banner_tenant_id b) (banner_image_id b) s
     \<and> window_ok (banner_starts_at b) (banner_ends_at b)"

definition category_constraints :: "honor_category \<Rightarrow> content_db \<Rightarrow> bool" where
  "category_constraints c s \<longleftrightarrow>
     unique_key category_id (\<lambda>c. (category_tenant_id c, category_slug c)) c (honor_categories s)"

definition honor_constraints :: "honor \<Rightarrow> content_db \<Rightarrow> bool" where
  "honor_constraints h s \<longleftrightarrow>
     list_ex (\<lambda>c. category_id c = honor_category_id h \<and> category_tenant_id c = honor_tenant_id h) (honor_categories s)
     \<and> has_asset_option (honor_tenant_id h) (honor_image_id h) s"

definition staff_constraints :: "staff_member \<Rightarrow> content_db \<Rightarrow> bool" where
  "staff_constraints m s \<longleftrightarrow> has_asset_option (staff_tenant_id m) (staff_image_id m) s"

definition sample_constraints :: "sample_exam \<Rightarrow> content_db \<Rightarrow> bool" where
  "sample_constraints x s \<longleftrightarrow> has_asset (sample_tenant_id x) (file_media_id x) s
     \<and> has_asset_option (sample_tenant_id x) (cover_media_id x) s \<and> 0 \<le> download_count x"

definition album_constraints :: "gallery_album \<Rightarrow> content_db \<Rightarrow> bool" where
  "album_constraints a s \<longleftrightarrow>
     unique_key album_id (\<lambda>a. (album_tenant_id a, album_slug a)) a (albums s)
     \<and> has_asset_option (album_tenant_id a) (album_cover_id a) s"

definition item_constraints :: "gallery_item \<Rightarrow> content_db \<Rightarrow> bool" where
  "item_constraints i s \<longleftrightarrow>
     list_ex (\<lambda>a. album_id a = item_album_id i \<and> album_tenant_id a = item_tenant_id i) (albums s)
     \<and> has_asset (item_tenant_id i) (item_media_id i) s"

definition offering_constraints :: "exam_offering \<Rightarrow> content_db \<Rightarrow> bool" where
  "offering_constraints e s \<longleftrightarrow> exam_checks e
     \<and> unique_key exam_id (\<lambda>e. (exam_tenant_id e, exam_slug e)) e (offerings s)"

definition price_plan_constraints :: "pricing_plan \<Rightarrow> content_db \<Rightarrow> bool" where
  "price_plan_constraints p s \<longleftrightarrow> plan_checks p
     \<and> unique_key plan_id (\<lambda>p. (plan_tenant_id p, plan_slug p)) p (price_plans s)"

section \<open>Guards\<close>

text \<open>\<open>Depends(require_feature(key))\<close> and \<open>Depends(require_permission(p))\<close> of an endpoint.\<close>

definition feature_guard :: "ustr \<Rightarrow> tenant_context \<Rightarrow> 'z platform_db_scheme \<Rightarrow> exn + unit" where
  "feature_guard key ctx s = ensure_feature_enabled (ctx_tenant_id ctx) key (platform_db.truncate s)"

text \<open>The audit entries of the content services carry no metadata.\<close>

definition audit :: "instant \<Rightarrow> uuid \<Rightarrow> uuid \<Rightarrow> string \<Rightarrow> string \<Rightarrow> uuid \<Rightarrow> 'z site_db_scheme \<Rightarrow> 'z site_db_scheme" where
  "audit now tenant actor action what which s =
     s\<lparr>audit_log := insert_row
         \<lparr>ae_tenant_id = tenant, ae_actor = Some actor, ae_action = action, ae_entity_type = what,
          ae_entity_id = Some which, ae_metadata = [], ae_created_at = now\<rparr> (audit_log s)\<rparr>"

end
