(* ===== verification/ContentWrites.thy ===== *)
theory ContentWrites
  imports ContentModel RichText Hostnames Validation
begin

text \<open>
  The request bodies of \<open>content/admin_schemas.py\<close> and \<open>content/schemas.py\<close> with their validators,
  and what each makes of a row: the column values of a new one (\<open>new_...\<close>) and the attributes an
  update sets (\<open>write_...\<close>). \<open>http_url\<close> and \<open>email_text\<close> are pydantic's \<open>HttpUrl\<close> and \<open>EmailStr\<close>:
  the normalised text, or \<open>None\<close>. All instants carry a time zone.
\<close>

section \<open>Field bounds\<close>

definition in_range :: "int \<Rightarrow> int \<Rightarrow> int \<Rightarrow> bool" where
  "in_range lo hi n \<longleftrightarrow> lo \<le> n \<and> n \<le> hi"

definition option_all :: "('a \<Rightarrow> bool) \<Rightarrow> 'a option \<Rightarrow> bool" where
  "option_all P v = (case v of None \<Rightarrow> True | Some x \<Rightarrow> P x)"

abbreviation sort_order_ok :: "int \<Rightarrow> bool" where
  "sort_order_ok n \<equiv> in_range (- 100000) 100000 n"

text \<open>An \<open>INTEGER\<close> column holds 32 bits; a value beyond them is a \<open>DataError\<close> at the flush.\<close>

definition int4 :: "int \<Rightarrow> bool" where
  "int4 n \<longleftrightarrow> in_range (- (2 ^ 31)) (2 ^ 31 - 1) n"

definition checked :: "bool \<Rightarrow> 'b \<Rightarrow> exn + 'b" where
  "checked ok b = (if ok then Inr b else Inl (PyValueError ''request body''))"

text \<open>An optional URL or address: absent, or one that validates.\<close>

definition validated :: "('a \<Rightarrow> 'a option) \<Rightarrow> 'a option \<Rightarrow> exn + 'a option" where
  "validated f v =
     (case v of None \<Rightarrow> Inr None
      | Some x \<Rightarrow> (case f x of None \<Rightarrow> Inl (PyValueError ''request body'') | Some y \<Rightarrow> Inr (Some y)))"

section \<open>Posts and banners\<close>

record post_write =
  pw_kind :: post_kind
  pw_title :: ustr
  pw_slug :: ustr
  pw_summary :: "ustr option"
  pw_body :: ustr
  pw_cover :: "uuid option"
  pw_event_date :: "int option"
  pw_published_at :: "instant option"
  pw_status :: content_status
  pw_locale :: "ustr option"

definition validate_post_write :: "post_write \<Rightarrow> exn + post_write" where
  "validate_post_write b =
     checked (within 2 300 (pw_title b) \<and> slug_re (pw_slug b) \<and> within 0 200 (pw_slug b)
       \<and> opt_within 0 2000 (pw_summary b) \<and> within 1 200000 (pw_body b) \<and> opt_within 0 20 (pw_locale b)) b"

definition empty_document :: entries where
  "empty_document = [(lit ''type'', JStr (lit ''doc'')), (lit ''content'', JArr [])]"

definition new_post_row :: "uuid \<Rightarrow> uuid \<Rightarrow> instant \<Rightarrow> post_write \<Rightarrow> post" where
  "new_post_row i t now b =
     \<lparr>post_id = i, post_tenant_id = t, post_kind_of = pw_kind b, post_title = pw_title b, post_slug = pw_slug b,
      post_summary = pw_summary b, post_body = pw_body b, content_document = empty_document,
      rendered_html = None, cover_image_id = pw_cover b, og_image_id = None, seo_title = None,
      seo_description = None, event_date = pw_event_date b, published_at = pw_published_at b,
      post_status = pw_status b, post_locale = pw_locale b, post_created_by = None, post_updated_by = None,
      post_created_at = now, post_updated_at = now\<rparr>"

definition write_post_row :: "post_write \<Rightarrow> post \<Rightarrow> post" where
  "write_post_row b p =
     p\<lparr>post_kind_of := pw_kind b, post_title := pw_title b, post_slug := pw_slug b, post_summary := pw_summary b,
       post_body := pw_body b, cover_image_id := pw_cover b, event_date := pw_event_date b,
       published_at := pw_published_at b, post_status := pw_status b, post_locale := pw_locale b\<rparr>"

record banner_write =
  bw_title :: ustr
  bw_description :: "ustr option"
  bw_image :: uuid
  bw_target_url :: "ustr option"
  bw_sort_order :: int
  bw_status :: content_status
  bw_starts_at :: "instant option"
  bw_ends_at :: "instant option"

definition validate_banner_write :: "(ustr \<Rightarrow> ustr option) \<Rightarrow> banner_write \<Rightarrow> exn + banner_write" where
  "validate_banner_write http_url b =
     attempt (checked (within 2 200 (bw_title b) \<and> opt_within 0 4000 (bw_description b)
         \<and> sort_order_ok (bw_sort_order b) \<and> window_ok (bw_starts_at b) (bw_ends_at b)) b) (\<lambda>b.
     attempt (validated http_url (bw_target_url b)) (\<lambda>url. Inr (b\<lparr>bw_target_url := url\<rparr>)))"

definition new_banner :: "uuid \<Rightarrow> uuid \<Rightarrow> banner_write \<Rightarrow> banner" where
  "new_banner i t b =
     \<lparr>banner_id = i, banner_tenant_id = t, banner_title = bw_title b, banner_description = bw_description b,
      banner_image_id = bw_image b, target_url = bw_target_url b, banner_sort_order = bw_sort_order b,
      banner_status = bw_status b, banner_starts_at = bw_starts_at b, banner_ends_at = bw_ends_at b\<rparr>"

definition write_banner :: "banner_write \<Rightarrow> banner \<Rightarrow> banner" where
  "write_banner b r = new_banner (banner_id r) (banner_tenant_id r) b"

section \<open>Honours and staff\<close>

record category_write =
  hcw_name :: ustr
  hcw_slug :: ustr
  hcw_description :: "ustr option"
  hcw_sort_order :: int
  hcw_is_active :: bool

definition validate_category_write :: "category_write \<Rightarrow> exn + category_write" where
  "validate_category_write b =
     checked (within 2 200 (hcw_name b) \<and> slug_re (hcw_slug b) \<and> within 0 150 (hcw_slug b)
       \<and> opt_within 0 4000 (hcw_description b) \<and> sort_order_ok (hcw_sort_order b)) b"

definition new_category :: "uuid \<Rightarrow> uuid \<Rightarrow> category_write \<Rightarrow> honor_category" where
  "new_category i t b =
     \<lparr>category_id = i, category_tenant_id = t, category_name = hcw_name b, category_slug = hcw_slug b,
      category_description = hcw_description b, category_sort_order = hcw_sort_order b,
      category_is_active = hcw_is_active b, category_archived_at = None\<rparr>"

definition write_category :: "category_write \<Rightarrow> honor_category \<Rightarrow> honor_category" where
  "write_category b r =
     r\<lparr>category_name := hcw_name b, category_slug := hcw_slug b, category_description := hcw_description b,
       category_sort_order := hcw_sort_order b, category_is_active := hcw_is_active b\<rparr>"

record honor_write =
  hw_category :: uuid
  hw_student_name :: ustr
  hw_title :: ustr
  hw_description :: "ustr option"
  hw_year :: "int option"
  hw_rank :: "int option"
  hw_institution_name :: "ustr option"
  hw_field_of_study :: "ustr option"
  hw_image :: "uuid option"
  hw_sort_order :: int
  hw_status :: content_status

definition validate_honor_write :: "honor_write \<Rightarrow> exn + honor_write" where
  "validate_honor_write b =
     checked (within 2 200 (hw_student_name b) \<and> within 2 300 (hw_title b) \<and> opt_within 0 10000 (hw_description b)
       \<and> option_all (in_range 1300 2500) (hw_year b) \<and> option_all ((\<le>) 1) (hw_rank b)
       \<and> opt_within 0 300 (hw_institution_name b) \<and> opt_within 0 200 (hw_field_of_study b)
       \<and> sort_order_ok (hw_sort_order b)) b"

definition new_honor :: "uuid \<Rightarrow> uuid \<Rightarrow> honor_write \<Rightarrow> honor" where
  "new_honor i t b =
     \<lparr>honor_id = i, honor_tenant_id = t, honor_category_id = hw_category b, student_name = hw_student_name b,
      honor_title = hw_title b, honor_description = hw_description b, honor_year = hw_year b, honor_rank = hw_rank b,
      institution_name = hw_institution_name b, field_of_study = hw_field_of_study b, honor_image_id = hw_image b,
      honor_sort_order = hw_sort_order b, honor_status = hw_status b\<rparr>"

definition write_honor :: "honor_write \<Rightarrow> honor \<Rightarrow> honor" where
  "write_honor b r = new_honor (honor_id r) (honor_tenant_id r) b"

record staff_write =
  sw_first_name :: ustr
  sw_last_name :: ustr
  sw_display_name :: ustr
  sw_member_type :: member_kind
  sw_title :: ustr
  sw_biography :: "ustr option"
  sw_image :: "uuid option"
  sw_public_phone :: "ustr option"
  sw_public_email :: "ustr option"
  sw_sort_order :: int
  sw_is_active :: bool

definition validate_staff_write :: "(ustr \<Rightarrow> ustr option) \<Rightarrow> staff_write \<Rightarrow> exn + staff_write" where
  "validate_staff_write email_text b =
     attempt (checked (within 1 100 (sw_first_name b) \<and> within 1 100 (sw_last_name b)
         \<and> within 2 200 (sw_display_name b) \<and> within 2 200 (sw_title b) \<and> opt_within 0 20000 (sw_biography b)
         \<and> opt_within 0 32 (sw_public_phone b) \<and> sort_order_ok (sw_sort_order b)) b) (\<lambda>b.
     attempt (validated email_text (sw_public_email b)) (\<lambda>address. Inr (b\<lparr>sw_public_email := address\<rparr>)))"

definition new_staff :: "uuid \<Rightarrow> uuid \<Rightarrow> staff_write \<Rightarrow> staff_member" where
  "new_staff i t b =
     \<lparr>staff_id = i, staff_tenant_id = t, staff_first_name = sw_first_name b, staff_last_name = sw_last_name b,
      staff_display_name = sw_display_name b, member_type = sw_member_type b, staff_title = sw_title b,
      biography = sw_biography b, staff_image_id = sw_image b, public_phone = sw_public_phone b,
      public_email = sw_public_email b, staff_sort_order = sw_sort_order b, staff_is_active = sw_is_active b,
      staff_archived_at = None\<rparr>"

definition write_staff :: "staff_write \<Rightarrow> staff_member \<Rightarrow> staff_member" where
  "write_staff b r = (new_staff (staff_id r) (staff_tenant_id r) b)\<lparr>staff_archived_at := staff_archived_at r\<rparr>"

section \<open>Exams and prices\<close>

record plan_write =
  plw_title :: ustr
  plw_slug :: ustr
  plw_description :: ustr
  plw_mode :: exam_mode
  plw_amount :: int
  plw_currency :: ustr
  plw_features :: "ustr list"
  plw_sort_order :: int
  plw_is_featured :: bool
  plw_status :: plan_state

definition validate_plan_write :: "plan_write \<Rightarrow> exn + plan_write" where
  "validate_plan_write b =
     checked (within 2 300 (plw_title b) \<and> slug_re (plw_slug b) \<and> within 0 200 (plw_slug b)
       \<and> within 1 10000 (plw_description b) \<and> 0 \<le> plw_amount b \<and> within 3 8 (plw_currency b)
       \<and> length (plw_features b) \<le> 30 \<and> sort_order_ok (plw_sort_order b)) b"

definition new_price_plan :: "uuid \<Rightarrow> uuid \<Rightarrow> plan_write \<Rightarrow> pricing_plan" where
  "new_price_plan i t b =
     \<lparr>plan_id = i, plan_tenant_id = t, plan_title = plw_title b, plan_slug = plw_slug b,
      plan_description = plw_description b, plan_mode = plw_mode b, plan_amount = plw_amount b,
      plan_currency = plw_currency b, plan_features = plw_features b, plan_sort_order = plw_sort_order b,
      plan_is_featured = plw_is_featured b, plan_status = plw_status b\<rparr>"

definition write_price_plan :: "plan_write \<Rightarrow> pricing_plan \<Rightarrow> pricing_plan" where
  "write_price_plan b r = new_price_plan (plan_id r) (plan_tenant_id r) b"

record offering_write =
  ow_title :: ustr
  ow_slug :: ustr
  ow_description :: ustr
  ow_mode :: exam_mode
  ow_registration_starts_at :: "instant option"
  ow_registration_ends_at :: "instant option"
  ow_exam_starts_at :: "instant option"
  ow_exam_ends_at :: "instant option"
  ow_venue_name :: "ustr option"
  ow_venue_address :: "ustr option"
  ow_capacity :: "int option"
  ow_status :: exam_state
  ow_plan_ids :: "uuid list"

definition validate_offering_write :: "offering_write \<Rightarrow> exn + offering_write" where
  "validate_offering_write b =
     checked (within 2 300 (ow_title b) \<and> slug_re (ow_slug b) \<and> within 0 200 (ow_slug b)
       \<and> within 1 50000 (ow_description b) \<and> opt_within 0 300 (ow_venue_name b) \<and> opt_within 0 4000 (ow_venue_address b)
       \<and> option_all (\<lambda>n. 0 < n) (ow_capacity b)
       \<and> window_ok (ow_registration_starts_at b) (ow_registration_ends_at b)
       \<and> window_ok (ow_exam_starts_at b) (ow_exam_ends_at b)) b"

definition new_offering :: "uuid \<Rightarrow> uuid \<Rightarrow> offering_write \<Rightarrow> exam_offering" where
  "new_offering i t b =
     \<lparr>exam_id = i, exam_tenant_id = t, exam_title = ow_title b, exam_slug = ow_slug b,
      exam_description = ow_description b, exam_held = ow_mode b,
      registration_starts_at = ow_registration_starts_at b, registration_ends_at = ow_registration_ends_at b,
      exam_starts_at = ow_exam_starts_at b, exam_ends_at = ow_exam_ends_at b, venue_name = ow_venue_name b,
      venue_address = ow_venue_address b, exam_capacity = ow_capacity b, exam_status = ow_status b\<rparr>"

definition write_offering :: "offering_write \<Rightarrow> exam_offering \<Rightarrow> exam_offering" where
  "write_offering b r = new_offering (exam_id r) (exam_tenant_id r) b"

section \<open>Sample exams and galleries\<close>

record sample_write =
  smw_title :: ustr
  smw_description :: "ustr option"
  smw_education_level :: "ustr option"
  smw_exam_year :: "int option"
  smw_file :: uuid
  smw_cover :: "uuid option"
  smw_sort_order :: int
  smw_status :: content_status

definition validate_sample_write :: "sample_write \<Rightarrow> exn + sample_write" where
  "validate_sample_write b =
     checked (within 2 300 (smw_title b) \<and> opt_within 0 10000 (smw_description b)
       \<and> opt_within 0 100 (smw_education_level b) \<and> option_all (in_range 1300 2500) (smw_exam_year b)
       \<and> sort_order_ok (smw_sort_order b)) b"

definition new_sample :: "uuid \<Rightarrow> uuid \<Rightarrow> sample_write \<Rightarrow> sample_exam" where
  "new_sample i t b =
     \<lparr>sample_id = i, sample_tenant_id = t, sample_title = smw_title b, sample_description = smw_description b,
      sample_education_level = smw_education_level b, exam_year = smw_exam_year b, file_media_id = smw_file b,
      cover_media_id = smw_cover b, sample_sort_order = smw_sort_order b, sample_status = smw_status b,
      download_count = 0\<rparr>"

definition write_sample :: "sample_write \<Rightarrow> sample_exam \<Rightarrow> sample_exam" where
  "write_sample b r = (new_sample (sample_id r) (sample_tenant_id r) b)\<lparr>download_count := download_count r\<rparr>"

record album_write =
  aw_title :: ustr
  aw_slug :: ustr
  aw_description :: "ustr option"
  aw_cover :: "uuid option"
  aw_sort_order :: int
  aw_status :: content_status

definition validate_album_write :: "album_write \<Rightarrow> exn + album_write" where
  "validate_album_write b =
     checked (within 2 300 (aw_title b) \<and> slug_re (aw_slug b) \<and> within 0 200 (aw_slug b)
       \<and> opt_within 0 10000 (aw_description b) \<and> sort_order_ok (aw_sort_order b)) b"

definition new_album :: "uuid \<Rightarrow> uuid \<Rightarrow> album_write \<Rightarrow> gallery_album" where
  "new_album i t b =
     \<lparr>album_id = i, album_tenant_id = t, album_title = aw_title b, album_slug = aw_slug b,
      album_description = aw_description b, album_cover_id = aw_cover b, album_sort_order = aw_sort_order b,
      album_status = aw_status b\<rparr>"

definition write_album :: "album_write \<Rightarrow> gallery_album \<Rightarrow> gallery_album" where
  "write_album b r = new_album (album_id r) (album_tenant_id r) b"

record item_write =
  iw_media :: uuid
  iw_title :: "ustr option"
  iw_description :: "ustr option"
  iw_captured_at :: "instant option"
  iw_sort_order :: int

definition validate_item_write :: "item_write \<Rightarrow> exn + item_write" where
  "validate_item_write b =
     checked (opt_within 0 300 (iw_title b) \<and> opt_within 0 10000 (iw_description b) \<and> sort_order_ok (iw_sort_order b)) b"

section \<open>The school's profile and contact requests\<close>

record address_write =
  adw_label :: ustr
  adw_address :: ustr
  adw_latitude :: "ustr option"
  adw_longitude :: "ustr option"
  adw_sort_order :: int

record phone_write =
  phw_label :: ustr
  phw_phone_number :: ustr
  phw_sort_order :: int

record social_write =
  slw_platform :: ustr
  slw_url :: ustr
  slw_sort_order :: int

record profile_write =
  prw_display_name :: ustr
  prw_description :: "ustr option"
  prw_addresses :: "address_write list"
  prw_phones :: "phone_write list"
  prw_social_links :: "social_write list"

definition validate_address :: "address_write \<Rightarrow> bool" where
  "validate_address a \<longleftrightarrow> within 1 100 (adw_label a) \<and> within 3 4000 (adw_address a)
     \<and> opt_within 0 32 (adw_latitude a) \<and> opt_within 0 32 (adw_longitude a)"

definition validate_phone :: "phone_write \<Rightarrow> bool" where
  "validate_phone a \<longleftrightarrow> within 1 100 (phw_label a) \<and> within 3 32 (phw_phone_number a)"

definition validate_social :: "(ustr \<Rightarrow> ustr option) \<Rightarrow> social_write \<Rightarrow> social_write option" where
  "validate_social http_url a =
     (if within 1 64 (slw_platform a) then map_option (\<lambda>u. a\<lparr>slw_url := u\<rparr>) (http_url (slw_url a)) else None)"

definition validate_profile_write :: "(ustr \<Rightarrow> ustr option) \<Rightarrow> profile_write \<Rightarrow> exn + profile_write" where
  "validate_profile_write http_url b =
     (let links = map (validate_social http_url) (prw_social_links b) in
      checked (within 2 200 (prw_display_name b) \<and> opt_within 0 50000 (prw_description b)
        \<and> length (prw_addresses b) \<le> 20 \<and> length (prw_phones b) \<le> 20 \<and> length (prw_social_links b) \<le> 30
        \<and> list_all validate_address (prw_addresses b) \<and> list_all validate_phone (prw_phones b)
        \<and> None \<notin> set links)
        (b\<lparr>prw_social_links := List.map_filter (\<lambda>v. v) links\<rparr>))"

record contact_create =
  cc_name :: ustr
  cc_education_level :: ustr
  cc_phone_number :: ustr

definition validate_contact_create :: "contact_create \<Rightarrow> exn + contact_create" where
  "validate_contact_create b =
     attempt (checked (within 2 200 (cc_name b) \<and> within 1 100 (cc_education_level b)) b) (\<lambda>b.
     attempt (normalize_iranian_mobile (cc_phone_number b)) (\<lambda>phone. Inr (b\<lparr>cc_phone_number := phone\<rparr>)))"

record contact_update =
  cu_status :: contact_state
  cu_internal_notes :: "ustr option"

definition validate_contact_update :: "contact_update \<Rightarrow> exn + contact_update" where
  "validate_contact_update b = checked (opt_within 0 10000 (cu_internal_notes b)) b"

end
