(* ===== verification/Blog.thy ===== *)
theory Blog
  imports ContentModel RichText
begin

text \<open>
  \<open>app/blog\<close>: the request bodies, \<open>BlogService\<close>, and the endpoints of both routers. A post is
  created as a draft, edited, published and archived; publishing it, changing it while it is
  published and archiving it tell the build service that public content changed.

  \<open>split\<close> and \<open>py_repr\<close> are those of \<open>RichText\<close>. The identifiers an operation draws are arguments:
  of the post, of the build request, and one per inline reference.
\<close>

section \<open>Request bodies\<close>

record blog_create =
  bc_title :: ustr
  bc_slug :: ustr
  bc_summary :: "ustr option"
  bc_document :: entries
  bc_cover :: "uuid option"
  bc_seo_title :: "ustr option"
  bc_seo_description :: "ustr option"
  bc_og :: "uuid option"
  bc_locale :: "ustr option"

text \<open>A patch: \<open>None\<close> for a field that was not sent, \<open>Some None\<close> for one sent as null.\<close>

record blog_update =
  bu_title :: "ustr option option"
  bu_slug :: "ustr option option"
  bu_summary :: "ustr option option"
  bu_document :: "entries option option"
  bu_cover :: "uuid option option"
  bu_seo_title :: "ustr option option"
  bu_seo_description :: "ustr option option"
  bu_og :: "uuid option option"
  bu_locale :: "ustr option option"

abbreviation bad_body :: "exn + 'a" where
  "bad_body \<equiv> Inl (PyValueError ''request body'')"

definition validate_blog_create :: "(ustr \<Rightarrow> exn + split_url) \<Rightarrow> blog_create \<Rightarrow> exn + blog_create" where
  "validate_blog_create split b =
     (if within 2 300 (bc_title b) \<and> slug_re (bc_slug b) \<and> within 0 200 (bc_slug b)
         \<and> opt_within 0 2000 (bc_summary b) \<and> opt_within 0 300 (bc_seo_title b)
         \<and> opt_within 0 500 (bc_seo_description b) \<and> opt_within 0 20 (bc_locale b)
      then attempt (validate_document split False (JObj (bc_document b))) (\<lambda>doc. Inr (b\<lparr>bc_document := doc\<rparr>))
      else bad_body)"

definition sent :: "'a option option \<Rightarrow> 'a option" where
  "sent v = (case v of Some x \<Rightarrow> x | None \<Rightarrow> None)"

definition validate_blog_update :: "(ustr \<Rightarrow> exn + split_url) \<Rightarrow> blog_update \<Rightarrow> exn + blog_update" where
  "validate_blog_update split b =
     (if opt_within 2 300 (sent (bu_title b)) \<and> opt_within 0 200 (sent (bu_slug b))
         \<and> (case sent (bu_slug b) of None \<Rightarrow> True | Some v \<Rightarrow> slug_re v)
         \<and> opt_within 0 2000 (sent (bu_summary b)) \<and> opt_within 0 300 (sent (bu_seo_title b))
         \<and> opt_within 0 500 (sent (bu_seo_description b)) \<and> opt_within 0 20 (sent (bu_locale b))
      then (case sent (bu_document b) of
              None \<Rightarrow> Inr b
            | Some doc \<Rightarrow> attempt (validate_document split False (JObj doc)) (\<lambda>_. Inr b))
      else bad_body)"

section \<open>The service\<close>

definition find_post :: "session \<Rightarrow> uuid \<Rightarrow> content_db \<Rightarrow> exn + post" where
  "find_post cur i s =
     (case scalar (select_where post_tenant_id cur (\<lambda>p. post_id p = i \<and> post_kind_of p = BLOG) (posts s)) of
        None \<Rightarrow> Inl (app_error ''BLOG_POST_NOT_FOUND'' 404)
      | Some p \<Rightarrow> Inr p)"

definition all_media_ids :: "uuid option \<Rightarrow> uuid option \<Rightarrow> entries \<Rightarrow> exn + uuid list" where
  "all_media_ids cover og document =
     attempt (referenced_media_ids document) (\<lambda>ids.
       Inr (remdups (ids @ List.map_filter (\<lambda>v. v) [cover, og])))"

text \<open>The loop of \<open>_validate_media\<close>; the code's loop runs over a set, in an order it leaves open.\<close>

fun validate_media :: "uuid \<Rightarrow> bool \<Rightarrow> uuid list \<Rightarrow> content_db \<Rightarrow> exn + unit" where
  "validate_media t public [] s = Inr ()"
| "validate_media t public (i # ids) s =
     (case asset_of t i s of
        None \<Rightarrow> Inl (app_error ''BLOG_MEDIA_NOT_FOUND'' 422)
      | Some m \<Rightarrow>
          if public \<and> (media_status m \<noteq> Media_READY \<or> media_visibility m \<noteq> Vis_PUBLIC)
          then Inl (app_error ''BLOG_MEDIA_NOT_PUBLIC'' 422)
          else validate_media t public ids s)"

text \<open>The checks before a document is stored: its media, then its HTML.\<close>

definition prepare ::
  "(json \<Rightarrow> ustr) \<Rightarrow> (ustr \<Rightarrow> exn + split_url) \<Rightarrow> uuid \<Rightarrow> bool \<Rightarrow> uuid option \<Rightarrow> uuid option \<Rightarrow> entries
     \<Rightarrow> content_db \<Rightarrow> exn + ustr" where
  "prepare py_repr split t public cover og document s =
     attempt (all_media_ids cover og document) (\<lambda>ids.
     attempt (validate_media t public ids s) (\<lambda>_. render_document py_repr split document))"

definition save_post :: "session \<Rightarrow> post \<Rightarrow> content_db \<Rightarrow> content_db" where
  "save_post cur p s = s\<lparr>posts := save_row post_tenant_id post_id cur p (posts s)\<rparr>"

definition flush_post :: "session \<Rightarrow> instant \<Rightarrow> post \<Rightarrow> content_db \<Rightarrow> (post, content_db) outcome" where
  "flush_post cur now p s =
     (let p = p\<lparr>post_updated_at := now\<rparr> in
      if post_constraints p s then (Inr p, save_post cur p s) else (Inl IntegrityError, s))"

definition references_of :: "post \<Rightarrow> (uuid \<Rightarrow> uuid) \<Rightarrow> uuid list \<Rightarrow> post_reference list" where
  "references_of p fresh ids =
     map (\<lambda>i. \<lparr>ref_id = fresh i, ref_tenant_id = post_tenant_id p, ref_post_id = post_id p, ref_media_id = i\<rparr>) ids"

definition sync_references ::
  "session \<Rightarrow> (uuid \<Rightarrow> uuid) \<Rightarrow> post \<Rightarrow> entries \<Rightarrow> content_db \<Rightarrow> (unit, content_db) outcome" where
  "sync_references cur fresh p document s =
     (case referenced_media_ids document of
        Inl e \<Rightarrow> (Inl e, s)
      | Inr ids \<Rightarrow>
          let kept = delete_where ref_tenant_id cur (\<lambda>r. ref_post_id r = post_id p) (post_references s);
              rows = kept @ references_of p fresh ids
          in if distinct (map ref_id rows) \<and> list_all (\<lambda>i. has_asset (post_tenant_id p) i s) ids
             then (Inr (), s\<lparr>post_references := rows\<rparr>) else (Inl IntegrityError, s))"

record drawn =
  new_post :: uuid
  new_build :: uuid
  new_reference :: "uuid \<Rightarrow> uuid"

definition blog_audit :: "instant \<Rightarrow> post \<Rightarrow> uuid \<Rightarrow> string \<Rightarrow> content_db \<Rightarrow> content_db" where
  "blog_audit now p actor action s = audit now (post_tenant_id p) actor action ''blog_post'' (post_id p) s"

definition blog_change :: "string \<Rightarrow> post \<Rightarrow> uuid \<Rightarrow> change" where
  "blog_change reason p actor =
     \<lparr>change_reason = lit reason, change_entity_type = Some (lit ''blog_post''), change_entity_id = Some (post_id p),
      change_by = Some actor\<rparr>"

definition create where
  "create py_repr split now d t actor b s =
     (case attempt (validate_document split False (JObj (bc_document b))) (\<lambda>doc.
             attempt (prepare py_repr split t False (bc_cover b) (bc_og b) doc s) (\<lambda>html. Inr (doc, html))) of
        Inl e \<Rightarrow> (Inl e, s)
      | Inr (doc, html) \<Rightarrow>
          let p = \<lparr>post_id = new_post d, post_tenant_id = t, post_kind_of = BLOG, post_title = bc_title b,
                   post_slug = bc_slug b, post_summary = bc_summary b, post_body = [], content_document = doc,
                   rendered_html = Some html, cover_image_id = bc_cover b, og_image_id = bc_og b,
                   seo_title = bc_seo_title b, seo_description = bc_seo_description b, event_date = None,
                   published_at = None, post_status = Status_DRAFT, post_locale = bc_locale b,
                   post_created_by = Some actor, post_updated_by = Some actor, post_created_at = now,
                   post_updated_at = now\<rparr>
          in if key_taken post_id p (posts s) \<or> \<not> post_constraints p s then (Inl IntegrityError, s)
             else and_then (sync_references (tenant_session t) (new_reference d) p doc
                     (s\<lparr>posts := insert_row p (posts s)\<rparr>)) (\<lambda>_ s.
                    (Inr p, blog_audit now p actor ''blog_post.created'' s)))"

text \<open>Python's \<open>==\<close> on JSON values: numbers by value, booleans among them, objects without order.\<close>

fun number_of :: "json \<Rightarrow> (int \<times> nat) option" where
  "number_of (JInt i) = Some (i, 0)"
| "number_of (JBool b) = Some (if b then 1 else 0, 0)"
| "number_of (JFloat n k) = Some (n, k)"
| "number_of v = None"

function (sequential) py_eq :: "json \<Rightarrow> json \<Rightarrow> bool" where
  "py_eq JNull JNull = True"
| "py_eq (JStr a) (JStr b) = (a = b)"
| "py_eq (JArr xs) (JArr ys) = (length xs = length ys \<and> list_all (\<lambda>(x, y). py_eq x y) (zip xs ys))"
| "py_eq (JObj es) (JObj fs) =
     (length es = length fs
      \<and> list_all (\<lambda>(k, v). case map_of fs k of None \<Rightarrow> False | Some w \<Rightarrow> py_eq v w) es)"
| "py_eq v w =
     (case (number_of v, number_of w) of
        (Some (n, j), Some (m, k)) \<Rightarrow> n * 2 ^ k = m * 2 ^ j
      | _ \<Rightarrow> False)"
  by pat_completeness auto
termination
proof (relation "measure (\<lambda>(v, w). size v)")
  fix xs ys :: "json list" and z x y
  assume "z \<in> set (zip xs ys)" "(x, y) = z"
  then have "x \<in> set xs" by (auto dest: set_zip_leftD)
  then show "((x, y), (JArr xs, JArr ys)) \<in> measure (\<lambda>(v, w). size v)"
    by (auto intro: size_list_estimation' simp: less_Suc_eq_le)
next
  fix es fs :: entries and z k v and w :: json
  assume "z \<in> set es" "(k, v) = z"
  then have "(k, v) \<in> set es" by simp
  then show "((v, w), (JObj es, JObj fs)) \<in> measure (\<lambda>(v, w). size v)"
    by (induction es) (auto simp: less_Suc_eq_le trans_le_add2)
qed simp

text \<open>The loop over the fields of the patch: one that differs is set.\<close>

definition differs :: "'a option \<Rightarrow> 'a option option \<Rightarrow> bool" where
  "differs old new = (case new of None \<Rightarrow> False | Some v \<Rightarrow> old \<noteq> v)"

definition document_differs :: "entries \<Rightarrow> entries option option \<Rightarrow> bool" where
  "document_differs old new = (case sent new of None \<Rightarrow> False | Some doc \<Rightarrow> \<not> py_eq (JObj old) (JObj doc))"

definition patch_changes :: "blog_update \<Rightarrow> post \<Rightarrow> bool" where
  "patch_changes u p \<longleftrightarrow>
     differs (Some (post_title p)) (bu_title u) \<or> differs (Some (post_slug p)) (bu_slug u)
     \<or> differs (post_summary p) (bu_summary u) \<or> document_differs (content_document p) (bu_document u)
     \<or> differs (cover_image_id p) (bu_cover u) \<or> differs (seo_title p) (bu_seo_title u)
     \<or> differs (seo_description p) (bu_seo_description u) \<or> differs (og_image_id p) (bu_og u)
     \<or> differs (post_locale p) (bu_locale u)"

definition patched_post :: "blog_update \<Rightarrow> post \<Rightarrow> post" where
  "patched_post u p =
     p\<lparr>post_title := or_default (sent (bu_title u)) (post_title p),
       post_slug := or_default (sent (bu_slug u)) (post_slug p),
       post_summary := or_default (bu_summary u) (post_summary p),
       content_document :=
         (if document_differs (content_document p) (bu_document u)
          then or_default (sent (bu_document u)) (content_document p) else content_document p),
       cover_image_id := or_default (bu_cover u) (cover_image_id p),
       seo_title := or_default (bu_seo_title u) (seo_title p),
       seo_description := or_default (bu_seo_description u) (seo_description p),
       og_image_id := or_default (bu_og u) (og_image_id p),
       post_locale := or_default (bu_locale u) (post_locale p)\<rparr>"

text \<open>The NOT NULL columns a patch can set to null.\<close>

definition nulls_required :: "blog_update \<Rightarrow> bool" where
  "nulls_required u \<longleftrightarrow> bu_title u = Some None \<or> bu_slug u = Some None"

definition update where
  "update py_repr split now d t actor p u s =
     (if bu_document u = Some None then (Inl (app_error ''BLOG_DOCUMENT_INVALID'' 422), s)
      else if \<not> patch_changes u p then (Inr (p, False), s)
      else
        let p = patched_post u p; public = (post_status p = Status_PUBLISHED) in
        case attempt (validate_document split public (JObj (content_document p))) (\<lambda>doc.
               attempt (prepare py_repr split t public (cover_image_id p) (og_image_id p) doc s) (\<lambda>html.
                 Inr (doc, html))) of
          Inl e \<Rightarrow> (Inl e, s)
        | Inr (doc, html) \<Rightarrow>
            if nulls_required u then (Inl IntegrityError, s)
            else and_then (flush_post (tenant_session t) now
                   (p\<lparr>rendered_html := Some html, post_updated_by := Some actor\<rparr>) s) (\<lambda>p s.
                 and_then (sync_references (tenant_session t) (new_reference d) p doc s) (\<lambda>_ s.
                   if public
                   then and_then (public_content_changed (tenant_session t) now (new_build d) t
                          (blog_change ''published_blog_updated'' p actor) s) (\<lambda>_ s.
                          (Inr (p, True), blog_audit now p actor ''blog_post.published_updated'' s))
                   else (Inr (p, True), s))))"

definition publish where
  "publish py_repr split now d t actor p s =
     (if post_status p = Status_PUBLISHED then (Inr p, s)
      else if strip (post_title p) = [] \<or> \<not> slug_re (post_slug p)
      then (Inl (app_error ''BLOG_PUBLISH_INVALID'' 422), s)
      else
        case attempt (validate_document split True (JObj (content_document p))) (\<lambda>doc.
               attempt (prepare py_repr split t True (cover_image_id p) (og_image_id p) doc s) (\<lambda>html.
                 Inr (doc, html))) of
          Inl e \<Rightarrow> (Inl e, s)
        | Inr (doc, html) \<Rightarrow>
            and_then (flush_post (tenant_session t) now
              (p\<lparr>rendered_html := Some html, post_status := Status_PUBLISHED, published_at := Some now,
                 post_updated_by := Some actor\<rparr>) s) (\<lambda>p s.
            and_then (sync_references (tenant_session t) (new_reference d) p doc s) (\<lambda>_ s.
            and_then (public_content_changed (tenant_session t) now (new_build d) t
              (blog_change ''blog_published'' p actor) s) (\<lambda>_ s.
              (Inr p, blog_audit now p actor ''blog_post.published'' s)))))"

definition archive where
  "archive now d t actor p s =
     (if post_status p = Status_ARCHIVED then (Inr p, s)
      else
        and_then (flush_post (tenant_session t) now
          (p\<lparr>post_status := Status_ARCHIVED, post_updated_by := Some actor\<rparr>) s) (\<lambda>p' s.
        and_then
          (if post_status p = Status_PUBLISHED
           then and_then (public_content_changed (tenant_session t) now (new_build d) t
                  (blog_change ''blog_archived'' p' actor) s) (\<lambda>_ s. (Inr (), s))
           else (Inr (), s)) (\<lambda>_ s.
          (Inr p', blog_audit now p' actor ''blog_post.archived'' s))))"

section \<open>Administration endpoints\<close>

text \<open>\<open>dependencies=[Depends(require_feature("blog"))]\<close> of the router, then the endpoint's permission.\<close>

definition blog_guard :: "permission \<Rightarrow> tenant_context \<Rightarrow> principal \<Rightarrow> content_db \<Rightarrow> exn + principal" where
  "blog_guard p ctx who s =
     attempt (feature_guard (lit ''blog'') ctx s) (\<lambda>_. require_permission p who)"

definition guarded :: "(exn + 'g) \<Rightarrow> ('g \<Rightarrow> ('a, 's) outcome) \<Rightarrow> 's \<Rightarrow> ('a, 's) outcome" where
  "guarded check k s = (case check of Inl e \<Rightarrow> (Inl e, s) | Inr x \<Rightarrow> k x)"

definition require_publish :: "principal \<Rightarrow> exn + unit" where
  "require_publish who =
     (if pr_platform_admin who then Inr ()
      else case pr_role who of
             None \<Rightarrow> Inl (app_error ''PERMISSION_DENIED'' 403)
           | Some role \<Rightarrow>
               if role_has_permission role CONTENT_PUBLISH then Inr ()
               else Inl (app_error ''PERMISSION_DENIED'' 403))"

definition newest_first :: "('r \<Rightarrow> instant) \<Rightarrow> ('r \<Rightarrow> uuid) \<Rightarrow> 'r list \<Rightarrow> 'r list" where
  "newest_first time rid rows = sort_key (\<lambda>r. - time r) (rev (sort_key rid rows))"

definition list_blog_posts ::
  "tenant_context \<Rightarrow> principal \<Rightarrow> page_params \<Rightarrow> content_status option \<Rightarrow> content_db \<Rightarrow> exn + post page_result" where
  "list_blog_posts ctx who p wanted s =
     attempt (blog_guard CONTENT_READ ctx who s) (\<lambda>_.
       Inr (page_of p (newest_first post_updated_at post_id
         (select_where post_tenant_id (tenant_session (ctx_tenant_id ctx))
            (\<lambda>x. post_kind_of x = BLOG \<and> (case wanted of None \<Rightarrow> True | Some st \<Rightarrow> post_status x = st)) (posts s)))))"

abbreviation blog_conflict :: exn where
  "blog_conflict \<equiv> app_error ''BLOG_POST_CONFLICT'' 409"

definition create_blog_post where
  "create_blog_post py_repr split now d ctx who b =
     transaction (\<lambda>s.
       guarded (attempt (blog_guard CONTENT_WRITE ctx who s) (\<lambda>_. validate_blog_create split b)) (\<lambda>b.
         on_integrity_error blog_conflict
           (create py_repr split now d (ctx_tenant_id ctx) (pr_user_id who) b s)) s)"

definition get_blog_post :: "tenant_context \<Rightarrow> principal \<Rightarrow> uuid \<Rightarrow> content_db \<Rightarrow> exn + post" where
  "get_blog_post ctx who i s =
     attempt (blog_guard CONTENT_READ ctx who s) (\<lambda>_. find_post (tenant_session (ctx_tenant_id ctx)) i s)"

definition update_blog_post where
  "update_blog_post py_repr split now d ctx who i b =
     transaction (\<lambda>s.
       guarded (attempt (blog_guard CONTENT_WRITE ctx who s) (\<lambda>_.
                attempt (validate_blog_update split b) (\<lambda>b.
                attempt (find_post (tenant_session (ctx_tenant_id ctx)) i s) (\<lambda>p.
                attempt (if post_status p = Status_PUBLISHED then require_publish who else Inr ()) (\<lambda>_.
                  Inr (b, p)))))) (\<lambda>(b, p).
         and_then (on_integrity_error blog_conflict
           (update py_repr split now d (ctx_tenant_id ctx) (pr_user_id who) p b s)) (\<lambda>(p, changed) s. (Inr p, s))) s)"

definition publish_blog_post where
  "publish_blog_post py_repr split now d ctx who i =
     transaction (\<lambda>s.
       guarded (attempt (blog_guard CONTENT_PUBLISH ctx who s) (\<lambda>_.
                find_post (tenant_session (ctx_tenant_id ctx)) i s)) (\<lambda>p.
         on_integrity_error blog_conflict
           (publish py_repr split now d (ctx_tenant_id ctx) (pr_user_id who) p s)) s)"

definition archive_blog_post where
  "archive_blog_post now d ctx who i =
     transaction (\<lambda>s.
       guarded (attempt (blog_guard CONTENT_PUBLISH ctx who s) (\<lambda>_.
                find_post (tenant_session (ctx_tenant_id ctx)) i s)) (\<lambda>p.
         archive now d (ctx_tenant_id ctx) (pr_user_id who) p s) s)"

section \<open>Public endpoints\<close>

record media_reference =
  mr_id :: uuid
  mr_url :: ustr
  mr_alt_text :: "ustr option"
  mr_width :: "int option"
  mr_height :: "int option"

record blog_summary =
  bs_title :: ustr
  bs_slug :: ustr
  bs_summary :: "ustr option"
  bs_cover_image :: "media_reference option"
  bs_seo_title :: ustr
  bs_seo_description :: "ustr option"
  bs_og_image :: "media_reference option"
  bs_published_at :: instant
  bs_updated_at :: instant
  bs_locale :: "ustr option"

record blog_detail = blog_summary +
  bd_content_document :: entries
  bd_rendered_html :: ustr

record snapshot_answer =
  snapshot_revision :: int
  snapshot_requested :: "int option"
  snapshot_posts :: "blog_detail list"

text \<open>\<open>_media_map\<close>: the ready and public assets the posts show as cover or preview.\<close>

definition shown_media_ids :: "post list \<Rightarrow> uuid list" where
  "shown_media_ids ps = concat (map (\<lambda>p. List.map_filter (\<lambda>v. v) [cover_image_id p, og_image_id p]) ps)"

definition media_map :: "session \<Rightarrow> post list \<Rightarrow> content_db \<Rightarrow> uuid \<Rightarrow> media_reference option" where
  "media_map cur ps s i =
     map_option (\<lambda>m. \<lparr>mr_id = media_id m, mr_url = lit ''/api/v1/public/media/'' @ uuid_str (media_id m),
                      mr_alt_text = media_alt_text m, mr_width = media_width m, mr_height = media_height m\<rparr>)
       (scalar (select_where media_tenant_id cur
          (\<lambda>m. media_id m = i \<and> i \<in> set (shown_media_ids ps) \<and> media_status m = Media_READY
              \<and> media_visibility m = Vis_PUBLIC) (assets s)))"

definition or_text :: "ustr option \<Rightarrow> ustr \<Rightarrow> ustr" where
  "or_text v d = (case v of None \<Rightarrow> d | Some t \<Rightarrow> if t = [] then d else t)"

definition or_option :: "ustr option \<Rightarrow> ustr option \<Rightarrow> ustr option" where
  "or_option v d = (case v of None \<Rightarrow> d | Some t \<Rightarrow> if t = [] then d else v)"

definition summarise :: "(uuid \<Rightarrow> media_reference option) \<Rightarrow> post \<Rightarrow> exn + blog_summary" where
  "summarise media_of p =
     (case published_at p of
        None \<Rightarrow> Inl (PyRuntimeError ''published post is missing published_at'')
      | Some at \<Rightarrow>
          Inr \<lparr>bs_title = post_title p, bs_slug = post_slug p, bs_summary = post_summary p,
               bs_cover_image = Option.bind (cover_image_id p) media_of,
               bs_seo_title = or_text (seo_title p) (post_title p),
               bs_seo_description = or_option (seo_description p) (post_summary p),
               bs_og_image =
                 Option.bind (case og_image_id p of None \<Rightarrow> cover_image_id p | Some i \<Rightarrow> Some i) media_of,
               bs_published_at = at, bs_updated_at = post_updated_at p, bs_locale = post_locale p\<rparr>)"

definition detail_of :: "(uuid \<Rightarrow> media_reference option) \<Rightarrow> post \<Rightarrow> exn + blog_detail" where
  "detail_of media_of p =
     attempt (summarise media_of p) (\<lambda>b.
       Inr (blog_summary.extend b
         (blog_detail.fields (content_document p) (or_default (rendered_html p) []))))"

fun map_attempt :: "('a \<Rightarrow> exn + 'b) \<Rightarrow> 'a list \<Rightarrow> exn + 'b list" where
  "map_attempt f [] = Inr []"
| "map_attempt f (x # xs) = attempt (f x) (\<lambda>y. attempt (map_attempt f xs) (\<lambda>ys. Inr (y # ys)))"

definition is_published :: "post \<Rightarrow> bool" where
  "is_published p \<longleftrightarrow> post_kind_of p = BLOG \<and> post_status p = Status_PUBLISHED \<and> published_at p \<noteq> None"

definition published_posts :: "session \<Rightarrow> content_db \<Rightarrow> post list" where
  "published_posts cur s =
     newest_first (\<lambda>p. or_default (published_at p) 0) post_id
       (select_where post_tenant_id cur is_published (posts s))"

definition site_revision :: "session \<Rightarrow> 'z site_db_scheme \<Rightarrow> int" where
  "site_revision cur s =
     (case scalar (visible st_tenant_id cur (site_states s)) of None \<Rightarrow> 0 | Some st \<Rightarrow> content_revision st)"

text \<open>
  \<open>blog_snapshot\<close>: each of its statements sees the database as it is when the statement runs, so an
  attempt reads four states: the revision, the posts, their media, the revision again.

  All attempts share one session. A row whose object is still referenced keeps the attributes it was
  loaded with (the query does not ask for \<open>populate_existing\<close>), and \<open>posts\<close> refers to the objects of
  one attempt until the query of the next has returned: \<open>loaded_as\<close>. The media objects of an attempt are
  gone when \<open>_media_map\<close> returns, and the revisions are columns, not objects; those are read anew.
\<close>

record attempt_reads =
  read_before :: content_db
  read_posts :: content_db
  read_media :: content_db
  read_after :: content_db

definition loaded_as :: "post list \<Rightarrow> post list \<Rightarrow> post list" where
  "loaded_as held rows =
     map (\<lambda>p. case find (\<lambda>q. post_id q = post_id p) held of None \<Rightarrow> p | Some q \<Rightarrow> q) rows"

fun snapshot_attempts ::
  "session \<Rightarrow> int option \<Rightarrow> post list \<Rightarrow> attempt_reads list \<Rightarrow> exn + snapshot_answer" where
  "snapshot_attempts cur requested held [] = Inl (app_error ''SITE_SNAPSHOT_CHANGED'' 409)"
| "snapshot_attempts cur requested held (r # rs) =
     (let ps = loaded_as held (published_posts cur (read_posts r)); after = site_revision cur (read_after r) in
      if site_revision cur (read_before r) = after
      then attempt (map_attempt (detail_of (media_map cur ps (read_media r))) ps) (\<lambda>ds.
             Inr \<lparr>snapshot_revision = after, snapshot_requested = requested, snapshot_posts = ds\<rparr>)
      else snapshot_attempts cur requested ps rs)"

definition blog_snapshot ::
  "tenant_context \<Rightarrow> int option \<Rightarrow> content_db \<Rightarrow> attempt_reads \<Rightarrow> attempt_reads \<Rightarrow> attempt_reads \<Rightarrow> exn + snapshot_answer"
where
  "blog_snapshot ctx requested s r1 r2 r3 =
     attempt (feature_guard (lit ''blog'') ctx s) (\<lambda>_.
       if (case requested of None \<Rightarrow> False | Some n \<Rightarrow> n < 0) then bad_body
       else snapshot_attempts (tenant_session (ctx_tenant_id ctx)) requested [] [r1, r2, r3])"

definition list_public_posts :: "tenant_context \<Rightarrow> page_params \<Rightarrow> content_db \<Rightarrow> exn + blog_summary page_result" where
  "list_public_posts ctx p s =
     attempt (feature_guard (lit ''blog'') ctx s) (\<lambda>_.
       let cur = tenant_session (ctx_tenant_id ctx); ps = published_posts cur s; shown = offset_limit p ps in
       attempt (map_attempt (summarise (media_map cur shown s)) shown) (\<lambda>bs.
         Inr \<lparr>items = bs, result_page = page p, result_page_size = page_size p, total = length ps\<rparr>))"

definition get_public_post :: "tenant_context \<Rightarrow> ustr \<Rightarrow> content_db \<Rightarrow> exn + blog_detail" where
  "get_public_post ctx name s =
     attempt (feature_guard (lit ''blog'') ctx s) (\<lambda>_.
       let cur = tenant_session (ctx_tenant_id ctx) in
       case scalar (select_where post_tenant_id cur (\<lambda>p. is_published p \<and> post_slug p = name) (posts s)) of
         None \<Rightarrow> Inl (app_error ''BLOG_POST_NOT_FOUND'' 404)
       | Some p \<Rightarrow> detail_of (media_map cur [p] s) p)"

end
