(* ===== verification/ContentAdmin.thy ===== *)
theory ContentAdmin
  imports ContentWrites Blog
begin

text \<open>
  \<open>content/admin_service.py\<close> and \<open>content/admin_router.py\<close>. \<open>AdminContentService\<close> is written over
  any mapped class; an \<open>entity\<close> record is such a class: its table, keys, attributes and
  constraints. Each operation of the service is one definition over entities, and the endpoints
  apply them to the nine classes of the router.

  The list queries have no ORDER BY: the order in which the database returns the rows is the
  argument \<open>any_order\<close>.
\<close>

section \<open>Mapped classes\<close>

record ('b, 'r) entity =
  entity_name :: string
  rows_of :: "content_db \<Rightarrow> 'r list"
  with_rows :: "'r list \<Rightarrow> content_db \<Rightarrow> content_db"
  key_of :: "'r \<Rightarrow> uuid"
  owner_of :: "'r \<Rightarrow> uuid"
  new_row :: "uuid \<Rightarrow> uuid \<Rightarrow> instant \<Rightarrow> 'b \<Rightarrow> 'r"
  write_row :: "'b \<Rightarrow> 'r \<Rightarrow> 'r"
  stamp_row :: "instant \<Rightarrow> 'r \<Rightarrow> 'r"
  is_frozen :: "'r \<Rightarrow> bool"
  archive_row :: "instant \<Rightarrow> 'r \<Rightarrow> 'r"
  storable :: "'r \<Rightarrow> bool"
  satisfies :: "'r \<Rightarrow> content_db \<Rightarrow> bool"

text \<open>
  The special case of \<open>update\<close> for posts: one that is published gets a publication time. The
  \<open>onupdate\<close> of \<open>updated_at\<close> is with it.
\<close>

definition stamp_post :: "instant \<Rightarrow> post \<Rightarrow> post" where
  "stamp_post now p =
     (let p = p\<lparr>post_updated_at := now\<rparr> in
      if post_status p = Status_PUBLISHED \<and> published_at p = None then p\<lparr>published_at := Some now\<rparr> else p)"

definition post_entity :: "(post_write, post) entity" where
  "post_entity =
     \<lparr>entity_name = ''post'', rows_of = posts, with_rows = (\<lambda>rs s. s\<lparr>posts := rs\<rparr>),
      key_of = post_id, owner_of = post_tenant_id, new_row = new_post_row, write_row = write_post_row,
      stamp_row = stamp_post, is_frozen = (\<lambda>p. post_status p = Status_ARCHIVED),
      archive_row = (\<lambda>now p. p\<lparr>post_status := Status_ARCHIVED, post_updated_at := now\<rparr>),
      storable = (\<lambda>_. True), satisfies = post_constraints\<rparr>"

definition banner_entity :: "(banner_write, banner) entity" where
  "banner_entity =
     \<lparr>entity_name = ''banner'', rows_of = banners, with_rows = (\<lambda>rs s. s\<lparr>banners := rs\<rparr>),
      key_of = banner_id, owner_of = banner_tenant_id, new_row = (\<lambda>i t now. new_banner i t),
      write_row = write_banner, stamp_row = (\<lambda>_ r. r), is_frozen = (\<lambda>r. banner_status r = Status_ARCHIVED),
      archive_row = (\<lambda>_ r. r\<lparr>banner_status := Status_ARCHIVED\<rparr>), storable = (\<lambda>_. True),
      satisfies = banner_constraints\<rparr>"

definition category_entity :: "(category_write, honor_category) entity" where
  "category_entity =
     \<lparr>entity_name = ''honor_category'', rows_of = honor_categories, with_rows = (\<lambda>rs s. s\<lparr>honor_categories := rs\<rparr>),
      key_of = category_id, owner_of = category_tenant_id, new_row = (\<lambda>i t now. new_category i t),
      write_row = write_category, stamp_row = (\<lambda>_ r. r), is_frozen = (\<lambda>r. category_archived_at r \<noteq> None),
      archive_row = (\<lambda>now r. r\<lparr>category_is_active := False, category_archived_at := Some now\<rparr>),
      storable = (\<lambda>_. True), satisfies = category_constraints\<rparr>"

definition honor_entity :: "(honor_write, honor) entity" where
  "honor_entity =
     \<lparr>entity_name = ''honor'', rows_of = honors, with_rows = (\<lambda>rs s. s\<lparr>honors := rs\<rparr>),
      key_of = honor_id, owner_of = honor_tenant_id, new_row = (\<lambda>i t now. new_honor i t),
      write_row = write_honor, stamp_row = (\<lambda>_ r. r), is_frozen = (\<lambda>r. honor_status r = Status_ARCHIVED),
      archive_row = (\<lambda>_ r. r\<lparr>honor_status := Status_ARCHIVED\<rparr>),
      storable = (\<lambda>r. option_all int4 (honor_rank r)), satisfies = honor_constraints\<rparr>"

definition staff_entity :: "(staff_write, staff_member) entity" where
  "staff_entity =
     \<lparr>entity_name = ''staff_member'', rows_of = staff, with_rows = (\<lambda>rs s. s\<lparr>staff := rs\<rparr>),
      key_of = staff_id, owner_of = staff_tenant_id, new_row = (\<lambda>i t now. new_staff i t),
      write_row = write_staff, stamp_row = (\<lambda>_ r. r), is_frozen = (\<lambda>r. staff_archived_at r \<noteq> None),
      archive_row = (\<lambda>now r. r\<lparr>staff_is_active := False, staff_archived_at := Some now\<rparr>),
      storable = (\<lambda>_. True), satisfies = staff_constraints\<rparr>"

definition plan_entity :: "(plan_write, pricing_plan) entity" where
  "plan_entity =
     \<lparr>entity_name = ''pricing_plan'', rows_of = price_plans, with_rows = (\<lambda>rs s. s\<lparr>price_plans := rs\<rparr>),
      key_of = plan_id, owner_of = plan_tenant_id, new_row = (\<lambda>i t now. new_price_plan i t),
      write_row = write_price_plan, stamp_row = (\<lambda>_ r. r), is_frozen = (\<lambda>r. plan_status r = Plan_ARCHIVED),
      archive_row = (\<lambda>_ r. r\<lparr>plan_status := Plan_ARCHIVED\<rparr>), storable = (\<lambda>r. int4 (plan_amount r)),
      satisfies = price_plan_constraints\<rparr>"

definition offering_entity :: "(offering_write, exam_offering) entity" where
  "offering_entity =
     \<lparr>entity_name = ''exam_offering'', rows_of = offerings, with_rows = (\<lambda>rs s. s\<lparr>offerings := rs\<rparr>),
      key_of = exam_id, owner_of = exam_tenant_id, new_row = (\<lambda>i t now. new_offering i t),
      write_row = write_offering, stamp_row = (\<lambda>_ r. r), is_frozen = (\<lambda>r. exam_status r = Exam_ARCHIVED),
      archive_row = (\<lambda>_ r. r\<lparr>exam_status := Exam_ARCHIVED\<rparr>),
      storable = (\<lambda>r. option_all int4 (exam_capacity r)), satisfies = offering_constraints\<rparr>"

definition sample_entity :: "(sample_write, sample_exam) entity" where
  "sample_entity =
     \<lparr>entity_name = ''sample_exam'', rows_of = sample_exams, with_rows = (\<lambda>rs s. s\<lparr>sample_exams := rs\<rparr>),
      key_of = sample_id, owner_of = sample_tenant_id, new_row = (\<lambda>i t now. new_sample i t),
      write_row = write_sample, stamp_row = (\<lambda>_ r. r), is_frozen = (\<lambda>r. sample_status r = Status_ARCHIVED),
      archive_row = (\<lambda>_ r. r\<lparr>sample_status := Status_ARCHIVED\<rparr>), storable = (\<lambda>_. True),
      satisfies = sample_constraints\<rparr>"

definition album_entity :: "(album_write, gallery_album) entity" where
  "album_entity =
     \<lparr>entity_name = ''gallery_album'', rows_of = albums, with_rows = (\<lambda>rs s. s\<lparr>albums := rs\<rparr>),
      key_of = album_id, owner_of = album_tenant_id, new_row = (\<lambda>i t now. new_album i t),
      write_row = write_album, stamp_row = (\<lambda>_ r. r), is_frozen = (\<lambda>r. album_status r = Status_ARCHIVED),
      archive_row = (\<lambda>_ r. r\<lparr>album_status := Status_ARCHIVED\<rparr>), storable = (\<lambda>_. True),
      satisfies = album_constraints\<rparr>"

section \<open>The service\<close>

abbreviation not_found :: exn where
  "not_found \<equiv> app_error ''ADMIN_RESOURCE_NOT_FOUND'' 404"

definition resource_list :: "('b, 'r) entity \<Rightarrow> ('r list \<Rightarrow> 'r list) \<Rightarrow> session \<Rightarrow> page_params \<Rightarrow> ('r \<Rightarrow> bool)
    \<Rightarrow> content_db \<Rightarrow> 'r page_result" where
  "resource_list E any_order cur p wanted s =
     page_of p (any_order (select_where (owner_of E) cur wanted (rows_of E s)))"

definition resource_get :: "('b, 'r) entity \<Rightarrow> session \<Rightarrow> uuid \<Rightarrow> content_db \<Rightarrow> exn + 'r" where
  "resource_get E cur i s =
     (case get_row (owner_of E) (key_of E) cur i (rows_of E s) of None \<Rightarrow> Inl not_found | Some r \<Rightarrow> Inr r)"

text \<open>A flush: the value must fit its columns, the row its constraints.\<close>

definition flush_check :: "('b, 'r) entity \<Rightarrow> 'r \<Rightarrow> content_db \<Rightarrow> exn + unit" where
  "flush_check E r s =
     (if \<not> storable E r then Inl (PyRuntimeError ''DataError'')
      else if \<not> satisfies E r s then Inl IntegrityError else Inr ())"

definition resource_create ::
  "('b, 'r) entity \<Rightarrow> instant \<Rightarrow> uuid \<Rightarrow> uuid \<Rightarrow> uuid \<Rightarrow> 'b \<Rightarrow> content_db \<Rightarrow> ('r, content_db) outcome" where
  "resource_create E now fresh t actor b s =
     (let r = new_row E fresh t now b in
      if key_taken (key_of E) r (rows_of E s) then (Inl IntegrityError, s)
      else guarded (flush_check E r s) (\<lambda>_.
        (Inr r, audit now t actor (entity_name E @ ''.created'') (entity_name E) (key_of E r)
                  (with_rows E (insert_row r (rows_of E s)) s))) s)"

definition resource_update ::
  "('b, 'r) entity \<Rightarrow> instant \<Rightarrow> uuid \<Rightarrow> uuid \<Rightarrow> 'b \<Rightarrow> 'r \<Rightarrow> content_db \<Rightarrow> ('r, content_db) outcome" where
  "resource_update E now t actor b r s =
     (if is_frozen E r then (Inl (app_error ''ADMIN_RESOURCE_ARCHIVED'' 409), s)
      else
        let r = stamp_row E now (write_row E b r) in
        guarded (flush_check E r s) (\<lambda>_.
          (Inr r, audit now t actor (entity_name E @ ''.updated'') (entity_name E) (key_of E r)
                    (with_rows E (save_row (owner_of E) (key_of E) (tenant_session t) r (rows_of E s)) s))) s)"

text \<open>Every class of \<open>RESOURCE_MODELS\<close> has a status or an activity flag, so nothing is deleted.\<close>

definition archive_or_delete ::
  "('b, 'r) entity \<Rightarrow> instant \<Rightarrow> uuid \<Rightarrow> uuid \<Rightarrow> 'r \<Rightarrow> content_db \<Rightarrow> (unit, content_db) outcome" where
  "archive_or_delete E now t actor r s =
     (let r = archive_row E now r in
      (Inr (), audit now t actor (entity_name E @ ''.archived'') (entity_name E) (key_of E r)
                 (with_rows E (save_row (owner_of E) (key_of E) (tenant_session t) r (rows_of E s)) s)))"

definition set_exam_plans :: "session \<Rightarrow> exam_offering \<Rightarrow> uuid list \<Rightarrow> content_db \<Rightarrow> (unit, content_db) outcome" where
  "set_exam_plans cur exam plan_ids s =
     (let kept = delete_where ep_tenant_id cur (\<lambda>x. ep_exam_offering_id x = exam_id exam) (offering_plans s);
          ids = remdups plan_ids
      in if list_all (\<lambda>i. get_row plan_tenant_id plan_id cur i (price_plans s) \<noteq> None) ids
         then (Inr (), s\<lparr>offering_plans := kept @
                 map (\<lambda>i. \<lparr>ep_tenant_id = exam_tenant_id exam, ep_exam_offering_id = exam_id exam,
                          ep_pricing_plan_id = i\<rparr>) ids\<rparr>)
         else (Inl (app_error ''PRICING_PLAN_NOT_FOUND'' 422), s))"

text \<open>The identifiers of the rows a profile brings: of itself and, by position, of its contacts.\<close>

record profile_ids =
  id_profile :: uuid
  id_address :: "nat \<Rightarrow> uuid"
  id_phone :: "nat \<Rightarrow> uuid"
  id_social :: "nat \<Rightarrow> uuid"

definition new_addresses :: "profile_ids \<Rightarrow> uuid \<Rightarrow> address_write list \<Rightarrow> tenant_address list" where
  "new_addresses d t xs =
     map (\<lambda>(n, a). \<lparr>addr_id = id_address d n, addr_tenant_id = t, addr_label = adw_label a, addr_text = adw_address a,
                   latitude = adw_latitude a, longitude = adw_longitude a, addr_sort_order = adw_sort_order a\<rparr>)
       (enumerate 0 xs)"

definition new_phones :: "profile_ids \<Rightarrow> uuid \<Rightarrow> phone_write list \<Rightarrow> tenant_phone list" where
  "new_phones d t xs =
     map (\<lambda>(n, a). \<lparr>phone_id = id_phone d n, phone_tenant_id = t, phone_label = phw_label a,
                   phone_text = phw_phone_number a, phone_sort_order = phw_sort_order a\<rparr>) (enumerate 0 xs)"

definition new_social_links :: "profile_ids \<Rightarrow> uuid \<Rightarrow> social_write list \<Rightarrow> tenant_social_link list" where
  "new_social_links d t xs =
     map (\<lambda>(n, a). \<lparr>social_id = id_social d n, social_tenant_id = t, social_platform = slw_platform a,
                   social_url = slw_url a, social_sort_order = slw_sort_order a\<rparr>) (enumerate 0 xs)"

definition find_profile :: "uuid \<Rightarrow> content_db \<Rightarrow> tenant_profile option" where
  "find_profile t s =
     scalar (select_where profile_tenant_id (tenant_session t) (\<lambda>p. profile_tenant_id p = t) (profiles s))"

definition clear_contacts :: "uuid \<Rightarrow> content_db \<Rightarrow> content_db" where
  "clear_contacts t s =
     s\<lparr>addresses := delete_where addr_tenant_id (tenant_session t) (\<lambda>x. addr_tenant_id x = t) (addresses s),
       phones := delete_where phone_tenant_id (tenant_session t) (\<lambda>x. phone_tenant_id x = t) (phones s),
       social_links := delete_where social_tenant_id (tenant_session t) (\<lambda>x. social_tenant_id x = t) (social_links s)\<rparr>"

definition replace_profile where
  "replace_profile now d t actor b s =
     (let old = find_profile t s;
          p = \<lparr>profile_id = (case old of None \<Rightarrow> id_profile d | Some p \<Rightarrow> profile_id p), profile_tenant_id = t,
               profile_display_name = prw_display_name b, profile_description = prw_description b\<rparr>;
          s' = clear_contacts t s;
          s' = s'\<lparr>profiles := (case old of
                      None \<Rightarrow> insert_row p (profiles s)
                    | Some _ \<Rightarrow> save_row profile_tenant_id profile_id (tenant_session t) p (profiles s)),
                 addresses := addresses s' @ new_addresses d t (prw_addresses b),
                 phones := phones s' @ new_phones d t (prw_phones b),
                 social_links := social_links s' @ new_social_links d t (prw_social_links b)\<rparr>
      in if \<not> (list_all (\<lambda>a. int4 (adw_sort_order a)) (prw_addresses b)
               \<and> list_all (\<lambda>a. int4 (phw_sort_order a)) (prw_phones b)
               \<and> list_all (\<lambda>a. int4 (slw_sort_order a)) (prw_social_links b))
         then (Inl (PyRuntimeError ''DataError''), s)
         else if distinct (map profile_id (profiles s')) \<and> distinct (map addr_id (addresses s'))
              \<and> distinct (map phone_id (phones s')) \<and> distinct (map social_id (social_links s'))
         then (Inr p, audit now t actor ''tenant_profile.updated'' ''tenant_profile'' (profile_id p) s')
         else (Inl IntegrityError, s))"

definition reset_profile :: "instant \<Rightarrow> uuid \<Rightarrow> uuid \<Rightarrow> content_db \<Rightarrow> (unit, content_db) outcome" where
  "reset_profile now t actor s =
     (let s' = clear_contacts t s in
      case find_profile t s of
        None \<Rightarrow> (Inr (), s')
      | Some p \<Rightarrow>
          (Inr (), audit now t actor ''tenant_profile.reset'' ''tenant_profile'' (profile_id p)
             (s'\<lparr>profiles := delete_where profile_tenant_id (tenant_session t)
                 (\<lambda>x. profile_id x = profile_id p) (profiles s')\<rparr>)))"

definition add_gallery_item where
  "add_gallery_item now fresh t actor album b s =
     (let r = \<lparr>item_id = fresh, item_tenant_id = t, item_album_id = album, item_media_id = iw_media b,
               item_title = iw_title b, item_description = iw_description b, captured_at = iw_captured_at b,
               item_sort_order = iw_sort_order b, item_created_at = now\<rparr>
      in if key_taken item_id r (album_items s) \<or> \<not> item_constraints r s then (Inl IntegrityError, s)
         else (Inr r, audit now t actor ''gallery_item.created'' ''gallery_item'' fresh
                 (s\<lparr>album_items := insert_row r (album_items s)\<rparr>)))"

definition handle_contact ::
  "instant \<Rightarrow> uuid \<Rightarrow> contact_request \<Rightarrow> contact_update \<Rightarrow> content_db \<Rightarrow> (contact_request, content_db) outcome" where
  "handle_contact now actor c b s =
     (let c = c\<lparr>cr_status := cu_status b, cr_internal_notes := cu_internal_notes b, handled_by := Some actor,
                handled_at := Some now\<rparr>
      in (Inr c, audit now (cr_tenant_id c) actor ''contact_request.handled'' ''contact_request'' (cr_id c)
            (s\<lparr>contact_requests := save_row cr_tenant_id cr_id (tenant_session (cr_tenant_id c)) c (contact_requests s)\<rparr>)))"

section \<open>The endpoints' common parts\<close>

abbreviation resource_conflict :: exn where
  "resource_conflict \<equiv> app_error ''ADMIN_RESOURCE_CONFLICT'' 409"

text \<open>\<open>dependencies=[Depends(require_feature(key))]\<close>, where the route has it, then the permission.\<close>

definition admin_guard :: "ustr option \<Rightarrow> permission \<Rightarrow> tenant_context \<Rightarrow> principal \<Rightarrow> content_db \<Rightarrow> exn + unit" where
  "admin_guard key p ctx who s =
     attempt (case key of None \<Rightarrow> Inr () | Some k \<Rightarrow> feature_guard k ctx s) (\<lambda>_.
     attempt (require_permission p who) (\<lambda>_. Inr ()))"

definition create_resource where
  "create_resource E key validate now fresh ctx who b =
     transaction (\<lambda>s.
       guarded (attempt (admin_guard key CONTENT_WRITE ctx who s) (\<lambda>_. validate b)) (\<lambda>b.
         on_integrity_error resource_conflict
           (resource_create E now fresh (ctx_tenant_id ctx) (pr_user_id who) b s)) s)"

definition list_resource where
  "list_resource E key p any_order ctx who pg s =
     attempt (admin_guard key p ctx who s) (\<lambda>_.
       Inr (resource_list E any_order (tenant_session (ctx_tenant_id ctx)) pg (\<lambda>_. True) s))"

definition update_resource where
  "update_resource E key validate now ctx who i b =
     transaction (\<lambda>s.
       guarded (attempt (admin_guard key CONTENT_WRITE ctx who s) (\<lambda>_.
                attempt (validate b) (\<lambda>b.
                attempt (resource_get E (tenant_session (ctx_tenant_id ctx)) i s) (\<lambda>r. Inr (b, r))))) (\<lambda>(b, r).
         on_integrity_error resource_conflict
           (resource_update E now (ctx_tenant_id ctx) (pr_user_id who) b r s)) s)"

section \<open>Posts\<close>

fun post_feature :: "post_kind \<Rightarrow> ustr" where
  "post_feature NEWS = lit ''news''"
| "post_feature ANNOUNCEMENT = lit ''announcements''"
| "post_feature BLOG = lit ''blog''"

abbreviation blog_endpoint_required :: exn where
  "blog_endpoint_required \<equiv> app_error ''BLOG_ENDPOINT_REQUIRED'' 422"

text \<open>The query parameter \<open>kind\<close> is NEWS or ANNOUNCEMENT.\<close>

definition list_posts where
  "list_posts any_order k ctx who pg s =
     attempt (require_permission CONTENT_READ who) (\<lambda>_.
     attempt (if k = BLOG then bad_body else Inr ()) (\<lambda>_.
     attempt (feature_guard (post_feature k) ctx s) (\<lambda>_.
       Inr (resource_list post_entity any_order (tenant_session (ctx_tenant_id ctx)) pg
              (\<lambda>p. post_kind_of p = k) s))))"

definition post_guard :: "post_write \<Rightarrow> tenant_context \<Rightarrow> principal \<Rightarrow> content_db \<Rightarrow> exn + post_write" where
  "post_guard b ctx who s =
     attempt (require_permission CONTENT_WRITE who) (\<lambda>_.
     attempt (validate_post_write b) (\<lambda>b.
     attempt (if pw_kind b = BLOG then Inl blog_endpoint_required else Inr ()) (\<lambda>_.
     attempt (feature_guard (post_feature (pw_kind b)) ctx s) (\<lambda>_. Inr b))))"

definition create_post where
  "create_post now fresh ctx who b =
     transaction (\<lambda>s.
       guarded (post_guard b ctx who s) (\<lambda>b.
         on_integrity_error resource_conflict
           (resource_create post_entity now fresh (ctx_tenant_id ctx) (pr_user_id who) b s)) s)"

definition update_post where
  "update_post now ctx who i b =
     transaction (\<lambda>s.
       guarded (attempt (post_guard b ctx who s) (\<lambda>b.
                attempt (resource_get post_entity (tenant_session (ctx_tenant_id ctx)) i s) (\<lambda>p.
                  if post_kind_of p = BLOG then Inl blog_endpoint_required else Inr (b, p)))) (\<lambda>(b, p).
         on_integrity_error resource_conflict
           (resource_update post_entity now (ctx_tenant_id ctx) (pr_user_id who) b p s)) s)"

section \<open>The other resources\<close>

definition list_banners where
  "list_banners = list_resource banner_entity (Some (lit ''banners'')) CONTENT_READ"

definition create_banner where
  "create_banner http_url = create_resource banner_entity (Some (lit ''banners'')) (validate_banner_write http_url)"

definition update_banner where
  "update_banner http_url = update_resource banner_entity (Some (lit ''banners'')) (validate_banner_write http_url)"

definition list_honor_categories where
  "list_honor_categories = list_resource category_entity (Some (lit ''honors'')) CONTENT_READ"

definition create_honor_category where
  "create_honor_category = create_resource category_entity (Some (lit ''honors'')) validate_category_write"

definition update_honor_category where
  "update_honor_category = update_resource category_entity (Some (lit ''honors'')) validate_category_write"

definition list_honors where
  "list_honors = list_resource honor_entity (Some (lit ''honors'')) CONTENT_READ"

definition create_honor where
  "create_honor = create_resource honor_entity (Some (lit ''honors'')) validate_honor_write"

definition update_honor where
  "update_honor = update_resource honor_entity (Some (lit ''honors'')) validate_honor_write"

definition list_staff where
  "list_staff = list_resource staff_entity (Some (lit ''staff'')) CONTENT_READ"

definition create_staff where
  "create_staff email_text = create_resource staff_entity (Some (lit ''staff'')) (validate_staff_write email_text)"

definition update_staff where
  "update_staff email_text = update_resource staff_entity (Some (lit ''staff'')) (validate_staff_write email_text)"

definition list_pricing where
  "list_pricing = list_resource plan_entity (Some (lit ''pricing'')) CONTENT_READ"

definition create_pricing where
  "create_pricing = create_resource plan_entity (Some (lit ''pricing'')) validate_plan_write"

definition update_pricing_plan where
  "update_pricing_plan = update_resource plan_entity (Some (lit ''pricing'')) validate_plan_write"

definition list_sample_exams where
  "list_sample_exams = list_resource sample_entity (Some (lit ''sample_exams'')) CONTENT_READ"

definition create_sample_exam where
  "create_sample_exam = create_resource sample_entity (Some (lit ''sample_exams'')) validate_sample_write"

definition update_sample_exam where
  "update_sample_exam = update_resource sample_entity (Some (lit ''sample_exams'')) validate_sample_write"

definition list_gallery where
  "list_gallery = list_resource album_entity (Some (lit ''gallery'')) CONTENT_READ"

definition create_gallery where
  "create_gallery = create_resource album_entity (Some (lit ''gallery'')) validate_album_write"

definition update_gallery_album where
  "update_gallery_album = update_resource album_entity (Some (lit ''gallery'')) validate_album_write"

definition create_gallery_item where
  "create_gallery_item now fresh ctx who album b =
     transaction (\<lambda>s.
       guarded (attempt (admin_guard (Some (lit ''gallery'')) CONTENT_WRITE ctx who s) (\<lambda>_.
                attempt (validate_item_write b) (\<lambda>b.
                attempt (resource_get album_entity (tenant_session (ctx_tenant_id ctx)) album s) (\<lambda>_. Inr b)))) (\<lambda>b.
         on_integrity_error resource_conflict
           (add_gallery_item now fresh (ctx_tenant_id ctx) (pr_user_id who) album b s)) s)"

section \<open>Exams\<close>

text \<open>The routes of exams ask for no feature; the plans of an exam are replaced with it.\<close>

definition list_exams where
  "list_exams any_order plan_order ctx who pg s =
     attempt (list_resource offering_entity None CONTENT_READ any_order ctx who pg s) (\<lambda>result.
       Inr (result, map (\<lambda>e. (exam_id e, map ep_pricing_plan_id (plan_order
              (select_where ep_tenant_id (tenant_session (ctx_tenant_id ctx))
                 (\<lambda>x. ep_exam_offering_id x = exam_id e) (offering_plans s))))) (items result)))"

definition create_exam where
  "create_exam now fresh ctx who b =
     transaction (\<lambda>s.
       guarded (attempt (admin_guard None CONTENT_WRITE ctx who s) (\<lambda>_. validate_offering_write b)) (\<lambda>b.
         on_integrity_error resource_conflict
           (and_then (resource_create offering_entity now fresh (ctx_tenant_id ctx) (pr_user_id who) b s) (\<lambda>e s.
            and_then (set_exam_plans (tenant_session (ctx_tenant_id ctx)) e (ow_plan_ids b) s) (\<lambda>_ s.
              (Inr (e, ow_plan_ids b), s))))) s)"

definition update_exam where
  "update_exam now ctx who i b =
     transaction (\<lambda>s.
       guarded (attempt (admin_guard None CONTENT_WRITE ctx who s) (\<lambda>_.
                attempt (validate_offering_write b) (\<lambda>b.
                attempt (resource_get offering_entity (tenant_session (ctx_tenant_id ctx)) i s) (\<lambda>e. Inr (b, e))))) (\<lambda>(b, e).
         on_integrity_error resource_conflict
           (and_then (resource_update offering_entity now (ctx_tenant_id ctx) (pr_user_id who) b e s) (\<lambda>e s.
            and_then (set_exam_plans (tenant_session (ctx_tenant_id ctx)) e (ow_plan_ids b) s) (\<lambda>_ s.
              (Inr (e, ow_plan_ids b), s))))) s)"

section \<open>Profile and contact requests\<close>

definition replace_school_profile where
  "replace_school_profile http_url now d ctx who b =
     transaction (\<lambda>s.
       guarded (attempt (admin_guard (Some (lit ''school_profile'')) PROFILE_WRITE ctx who s) (\<lambda>_.
                validate_profile_write http_url b)) (\<lambda>b.
         replace_profile now d (ctx_tenant_id ctx) (pr_user_id who) b s) s)"

definition reset_school_profile where
  "reset_school_profile now ctx who =
     transaction (\<lambda>s.
       guarded (admin_guard (Some (lit ''school_profile'')) PROFILE_WRITE ctx who s) (\<lambda>_.
         reset_profile now (ctx_tenant_id ctx) (pr_user_id who) s) s)"

definition list_contact_requests where
  "list_contact_requests any_order ctx who pg s =
     attempt (admin_guard (Some (lit ''contact_requests'')) CONTACT_READ ctx who s) (\<lambda>_.
       Inr (page_of pg (any_order (visible cr_tenant_id (tenant_session (ctx_tenant_id ctx)) (contact_requests s)))))"

definition handle_contact_request where
  "handle_contact_request now ctx who i b =
     transaction (\<lambda>s.
       guarded (attempt (admin_guard (Some (lit ''contact_requests'')) REGISTRATION_WRITE ctx who s) (\<lambda>_.
                attempt (validate_contact_update b) (\<lambda>b.
                (case get_row cr_tenant_id cr_id (tenant_session (ctx_tenant_id ctx)) i (contact_requests s) of
                   None \<Rightarrow> Inl not_found | Some c \<Rightarrow> Inr (b, c))))) (\<lambda>(b, c).
         handle_contact now (pr_user_id who) c b s) s)"

section \<open>Archiving\<close>

text \<open>One row of \<open>RESOURCE_MODELS\<close>; a post's feature depends on its kind.\<close>

definition archive_entity where
  "archive_entity E feature now ctx who i s =
     guarded (attempt (resource_get E (tenant_session (ctx_tenant_id ctx)) i s) (\<lambda>r.
              attempt (feature_guard (feature r) ctx s) (\<lambda>_. Inr r))) (\<lambda>r.
       archive_or_delete E now (ctx_tenant_id ctx) (pr_user_id who) r s) s"

definition archive_resource ::
  "instant \<Rightarrow> tenant_context \<Rightarrow> principal \<Rightarrow> ustr \<Rightarrow> uuid \<Rightarrow> content_db \<Rightarrow> (unit, content_db) outcome" where
  "archive_resource now ctx who resource i =
     transaction (\<lambda>s.
       guarded (require_permission CONTENT_WRITE who) (\<lambda>_.
         if resource = lit ''posts'' then archive_entity post_entity (\<lambda>p. post_feature (post_kind_of p)) now ctx who i s
         else if resource = lit ''banners'' then archive_entity banner_entity (\<lambda>_. lit ''banners'') now ctx who i s
         else if resource = lit ''honor-categories'' then archive_entity category_entity (\<lambda>_. lit ''honors'') now ctx who i s
         else if resource = lit ''honors'' then archive_entity honor_entity (\<lambda>_. lit ''honors'') now ctx who i s
         else if resource = lit ''staff'' then archive_entity staff_entity (\<lambda>_. lit ''staff'') now ctx who i s
         else if resource = lit ''pricing-plans'' then archive_entity plan_entity (\<lambda>_. lit ''pricing'') now ctx who i s
         else if resource = lit ''exams'' then archive_entity offering_entity (\<lambda>_. lit ''exam_registration'') now ctx who i s
         else if resource = lit ''sample-exams'' then archive_entity sample_entity (\<lambda>_. lit ''sample_exams'') now ctx who i s
         else if resource = lit ''gallery'' then archive_entity album_entity (\<lambda>_. lit ''gallery'') now ctx who i s
         else (Inl not_found, s)) s)"

end
