(* ===== verification/ContentClasses.thy ===== *)
theory ContentClasses
  imports ContentAdmin SiteBuildQueue
begin

text \<open>
  The laws of a mapped class, as the locale \<open>mapped_class\<close>: its table is a field of the database, a
  new row has the key and tenant it was given, and writing, stamping or archiving a row keeps both.
  The lemmas that \<open>AdminContentService\<close> rests on are proved from them once; the nine classes are
  the interpretations. \<open>side_class\<close> adds that the table is none the blog works on.
\<close>

lemma guarded_Inr: "guarded check k s = (Inr x, s') \<Longrightarrow> \<exists>v. check = Inr v \<and> k v = (Inr x, s')"
  by (cases check) (simp_all add: guarded_def)

section \<open>What the service does to a table\<close>

text \<open>\<open>ok\<close> is what the endpoint has checked of the old row, where there is one, and the new one.\<close>

inductive row_change ::
  "('b, 'r) entity \<Rightarrow> uuid \<Rightarrow> ('r option \<Rightarrow> 'r \<Rightarrow> bool) \<Rightarrow> 'r list \<Rightarrow> 'r list \<Rightarrow> bool"
  for E t ok rows where
  created: "\<not> key_taken (key_of E) r rows \<Longrightarrow> owner_of E r = t \<Longrightarrow> ok None r
     \<Longrightarrow> row_change E t ok rows (insert_row r rows)"
| updated: "r0 \<in> set rows \<Longrightarrow> owner_of E r0 = t \<Longrightarrow> \<not> is_frozen E r0 \<Longrightarrow> key_of E r = key_of E r0
     \<Longrightarrow> owner_of E r = t \<Longrightarrow> ok (Some r0) r
     \<Longrightarrow> row_change E t ok rows (save_row (owner_of E) (key_of E) (tenant_session t) r rows)"
| archived: "r0 \<in> set rows \<Longrightarrow> owner_of E r0 = t \<Longrightarrow> ok (Some r0) (archive_row E now r0)
     \<Longrightarrow> row_change E t ok rows (save_row (owner_of E) (key_of E) (tenant_session t) (archive_row E now r0) rows)"

definition class_step ::
  "('b, 'r) entity \<Rightarrow> uuid \<Rightarrow> ('r option \<Rightarrow> 'r \<Rightarrow> bool) \<Rightarrow> content_db \<Rightarrow> content_db \<Rightarrow> bool" where
  "class_step E t ok s s' \<longleftrightarrow>
     (\<exists>rs e. row_change E t ok (rows_of E s) rs \<and> ae_tenant_id e = t
        \<and> s' = (with_rows E rs s)\<lparr>audit_log := insert_row e (audit_log s)\<rparr>)"

definition keys_distinct :: "('b, 'r) entity \<Rightarrow> content_db \<Rightarrow> bool" where
  "keys_distinct E s \<longleftrightarrow> distinct (map (key_of E) (rows_of E s))"

text \<open>A row that is archived stays, but for the time of a repeated archiving.\<close>

definition archived_kept :: "('b, 'r) entity \<Rightarrow> ('r \<Rightarrow> bool) \<Rightarrow> content_db \<Rightarrow> content_db \<Rightarrow> bool" where
  "archived_kept E P s s' \<longleftrightarrow>
     (\<forall>r\<in>set (rows_of E s). P r \<and> is_frozen E r \<longrightarrow>
        r \<in> set (rows_of E s') \<or> (\<exists>now. archive_row E now r \<in> set (rows_of E s')))"

section \<open>What a tenant sees\<close>

definition content_view where
  "content_view u s =
     (let cur = tenant_session u in
      ((visible post_tenant_id cur (posts s), visible ref_tenant_id cur (post_references s),
        visible media_tenant_id cur (assets s), visible banner_tenant_id cur (banners s),
        visible category_tenant_id cur (honor_categories s), visible honor_tenant_id cur (honors s),
        visible staff_tenant_id cur (staff s), visible cr_tenant_id cur (contact_requests s)),
       (visible sample_tenant_id cur (sample_exams s), visible album_tenant_id cur (albums s),
        visible item_tenant_id cur (album_items s), visible exam_tenant_id cur (offerings s),
        visible plan_tenant_id cur (price_plans s), visible ep_tenant_id cur (offering_plans s),
        visible profile_tenant_id cur (profiles s), visible addr_tenant_id cur (addresses s)),
       (visible phone_tenant_id cur (phones s), visible social_tenant_id cur (social_links s),
        queue_view u s)))"

text \<open>The tables the blog and the builds work on.\<close>

definition blog_part where
  "blog_part s = (posts s, post_references s, assets s, site_states s, build_requests s)"

section \<open>The laws\<close>

locale mapped_class =
  fixes E :: "('b, 'r) entity"
  assumes rows_with: "rows_of E (with_rows E rs s) = rs"
    and rows_log: "rows_of E (s\<lparr>audit_log := l\<rparr>) = rows_of E s"
    and log_with: "audit_log (with_rows E rs s) = audit_log s"
    and new_keys: "key_of E (new_row E i t now b) = i" "owner_of E (new_row E i t now b) = t"
    and write_keys: "key_of E (write_row E b r) = key_of E r" "owner_of E (write_row E b r) = owner_of E r"
    and stamp_keys: "key_of E (stamp_row E now r) = key_of E r" "owner_of E (stamp_row E now r) = owner_of E r"
    and archive_keys: "key_of E (archive_row E now r) = key_of E r" "owner_of E (archive_row E now r) = owner_of E r"
    and archive_freezes: "is_frozen E (archive_row E now r)"
    and archive_again: "archive_row E now' (archive_row E now r) = archive_row E now' r"
    and with_view: "visible (owner_of E) (tenant_session u) rs = visible (owner_of E) (tenant_session u) (rows_of E s)
      \<Longrightarrow> visible ae_tenant_id (tenant_session u) l = visible ae_tenant_id (tenant_session u) (audit_log s)
      \<Longrightarrow> content_view u ((with_rows E rs s)\<lparr>audit_log := l\<rparr>) = content_view u s"
begin

lemmas keys = new_keys write_keys stamp_keys archive_keys

lemma create_step:
  assumes "resource_create E now fresh t actor b s = (Inr r, s')"
    "satisfies E (new_row E fresh t now b) s \<Longrightarrow> ok None (new_row E fresh t now b)"
  shows "class_step E t ok s s'"
  using assms
  by (auto simp: resource_create_def Let_def guarded_def flush_check_def class_step_def audit_def log_with keys
      split: if_splits sum.splits intro!: created exI)

lemma get_Inr:
  "resource_get E (tenant_session t) i s = Inr r \<Longrightarrow> r \<in> set (rows_of E s) \<and> owner_of E r = t \<and> key_of E r = i"
  by (auto simp: resource_get_def split: option.splits dest: get_rowD)

lemma update_step:
  assumes "resource_update E now t actor b r s = (Inr r', s')" "r \<in> set (rows_of E s)" "owner_of E r = t"
    "satisfies E (stamp_row E now (write_row E b r)) s \<Longrightarrow> ok (Some r) (stamp_row E now (write_row E b r))"
  shows "class_step E t ok s s'"
  using assms
  by (auto simp: resource_update_def Let_def guarded_def flush_check_def class_step_def audit_def log_with keys
      split: if_splits sum.splits intro!: updated exI)

lemma archive_step:
  assumes "r \<in> set (rows_of E s)" "owner_of E r = t" "ok (Some r) (archive_row E now r)"
  shows "class_step E t ok s (snd (archive_or_delete E now t actor r s))"
  using assms
  by (auto simp: archive_or_delete_def Let_def class_step_def audit_def log_with keys intro!: archived exI)

lemma changed_keys: "row_change E t ok rows rs \<Longrightarrow> distinct (map (key_of E) rows) \<Longrightarrow> distinct (map (key_of E) rs)"
proof (induction rule: row_change.induct)
  case (created r)
  then show ?case by (simp only: distinct_insert_row) simp
qed (auto simp: save_row_keys keys)

lemma step_keys: "class_step E t ok s s' \<Longrightarrow> keys_distinct E s \<Longrightarrow> keys_distinct E s'"
  by (auto simp: class_step_def keys_distinct_def rows_with rows_log changed_keys)

lemma row_change_view:
  "row_change E t ok rows rs \<Longrightarrow> u \<noteq> t
     \<Longrightarrow> visible (owner_of E) (tenant_session u) rs = visible (owner_of E) (tenant_session u) rows"
  by (induction rule: row_change.induct) (auto simp: isolation keys)

lemma step_view: "class_step E t ok s s' \<Longrightarrow> u \<noteq> t \<Longrightarrow> content_view u s' = content_view u s"
  by (auto simp: class_step_def row_change_view isolation intro!: with_view)

lemma changed_frozen:
  assumes "row_change E t ok rows rs" "distinct (map (key_of E) rows)" "r \<in> set rows" "is_frozen E r"
  shows "r \<in> set rs \<or> (\<exists>now. archive_row E now r \<in> set rs)"
  using assms
proof (induction rule: row_change.induct)
  case (updated r0 r')
  then have "key_of E r \<noteq> key_of E r'"
    by (auto simp: distinct_map dest: inj_onD)
  with updated show ?case by (simp add: in_save_row_iff)
next
  case (archived r0 now)
  show ?case
  proof (cases "key_of E r = key_of E r0")
    case True
    with archived have "r = r0"
      by (auto simp: distinct_map dest: inj_onD)
    with archived show ?thesis
      by (auto simp: in_save_row_iff keys)
  next
    case False
    with archived show ?thesis by (simp add: in_save_row_iff keys)
  qed
qed simp

lemma step_frozen: "class_step E t ok s s' \<Longrightarrow> keys_distinct E s \<Longrightarrow> archived_kept E P s s'"
  by (auto simp: class_step_def keys_distinct_def archived_kept_def rows_with rows_log dest: changed_frozen)

lemma kept_refl: "archived_kept E P s s"
  by (simp add: archived_kept_def)

lemma kept_same: "rows_of E s' = rows_of E s \<Longrightarrow> archived_kept E P s s'"
  by (simp add: archived_kept_def)

lemma kept_trans:
  assumes "archived_kept E P s s1" "archived_kept E P s1 s2" "\<And>now r. P (archive_row E now r) = P r"
  shows "archived_kept E P s s2"
  using assms archive_freezes archive_again unfolding archived_kept_def by metis

text \<open>The common parts of the endpoints.\<close>

lemma create_resource_step:
  "snd (create_resource E key validate now fresh ctx who b s) = s
     \<or> class_step E (ctx_tenant_id ctx) (\<lambda>_ _. True) s (snd (create_resource E key validate now fresh ctx who b s))"
  unfolding create_resource_def
  by (rule transaction_inv) (auto simp: guarded_def create_step split: sum.splits)

lemma update_resource_step:
  "snd (update_resource E key validate now ctx who i b s) = s
     \<or> class_step E (ctx_tenant_id ctx) (\<lambda>_ _. True) s (snd (update_resource E key validate now ctx who i b s))"
  unfolding update_resource_def
  by (rule transaction_inv)
    (auto simp: guarded_def attempt_def split: sum.splits dest!: get_Inr intro: update_step)

lemma archive_entity_step:
  assumes "\<And>r. r \<in> set (rows_of E s) \<Longrightarrow> owner_of E r = ctx_tenant_id ctx \<Longrightarrow> key_of E r = i \<Longrightarrow> ok (Some r) (archive_row E now r)"
  shows "snd (archive_entity E feature now ctx who i s) = s
     \<or> class_step E (ctx_tenant_id ctx) ok s (snd (archive_entity E feature now ctx who i s))"
  using assms unfolding archive_entity_def
  by (auto simp: guarded_def attempt_def split: sum.splits dest!: get_Inr intro: archive_step)

end

text \<open>A class whose table the blog does not touch.\<close>

locale side_class = mapped_class E for E :: "('b, 'r) entity" +
  assumes with_blog: "blog_part ((with_rows E rs s)\<lparr>audit_log := l\<rparr>) = blog_part s"
    and with_contacts: "contact_requests ((with_rows E rs s)\<lparr>audit_log := l\<rparr>) = contact_requests s"
begin

lemma step_blog: "class_step E t ok s s' \<Longrightarrow> blog_part s' = blog_part s \<and> contact_requests s' = contact_requests s"
  by (auto simp: class_step_def with_blog with_contacts)

end

section \<open>The nine classes\<close>

lemmas entity_defs = post_entity_def banner_entity_def category_entity_def honor_entity_def staff_entity_def
  plan_entity_def offering_entity_def sample_entity_def album_entity_def

lemmas row_defs = new_post_row_def write_post_row_def stamp_post_def new_banner_def write_banner_def new_category_def
  write_category_def new_honor_def write_honor_def new_staff_def write_staff_def new_price_plan_def write_price_plan_def
  new_offering_def write_offering_def new_sample_def write_sample_def new_album_def write_album_def

interpretation posts: mapped_class post_entity
  by unfold_locales (auto simp: entity_defs row_defs content_view_def Let_def queue_view_def)

interpretation banners: side_class banner_entity
  by unfold_locales (auto simp: entity_defs row_defs content_view_def Let_def queue_view_def blog_part_def)

interpretation categories: side_class category_entity
  by unfold_locales (auto simp: entity_defs row_defs content_view_def Let_def queue_view_def blog_part_def)

interpretation honors: side_class honor_entity
  by unfold_locales (auto simp: entity_defs row_defs content_view_def Let_def queue_view_def blog_part_def)

interpretation staff: side_class staff_entity
  by unfold_locales (auto simp: entity_defs row_defs content_view_def Let_def queue_view_def blog_part_def)

interpretation plans: side_class plan_entity
  by unfold_locales (auto simp: entity_defs row_defs content_view_def Let_def queue_view_def blog_part_def)

interpretation offerings: side_class offering_entity
  by unfold_locales (auto simp: entity_defs row_defs content_view_def Let_def queue_view_def blog_part_def)

interpretation samples: side_class sample_entity
  by unfold_locales (auto simp: entity_defs row_defs content_view_def Let_def queue_view_def blog_part_def)

interpretation albums: side_class album_entity
  by unfold_locales (auto simp: entity_defs row_defs content_view_def Let_def queue_view_def blog_part_def)

section \<open>A step of any class\<close>

text \<open>
  The endpoints of \<open>content/admin_router.py\<close> leave the posts of the blog to it, but for archiving;
  \<open>P\<close> holds of the posts a request may archive.
\<close>

definition post_ok :: "(post \<Rightarrow> bool) \<Rightarrow> content_db \<Rightarrow> post option \<Rightarrow> post \<Rightarrow> bool" where
  "post_ok P s old p \<longleftrightarrow>
     (case old of
        None \<Rightarrow> post_kind_of p \<noteq> BLOG \<and> unique_key post_id post_key p (posts s)
      | Some p0 \<Rightarrow> (post_kind_of p0 \<noteq> BLOG \<and> post_kind_of p \<noteq> BLOG \<and> unique_key post_id post_key p (posts s))
          \<or> (P p0 \<and> (\<exists>now. p = p0\<lparr>post_status := Status_ARCHIVED, post_updated_at := now\<rparr>)))"

abbreviation any_row :: "'r option \<Rightarrow> 'r \<Rightarrow> bool" where
  "any_row \<equiv> \<lambda>_ _. True"

definition side_step :: "uuid \<Rightarrow> content_db \<Rightarrow> content_db \<Rightarrow> bool" where
  "side_step t s s' \<longleftrightarrow>
     class_step banner_entity t any_row s s' \<or> class_step category_entity t any_row s s'
     \<or> class_step honor_entity t any_row s s' \<or> class_step staff_entity t any_row s s'
     \<or> class_step plan_entity t any_row s s' \<or> class_step offering_entity t any_row s s'
     \<or> class_step sample_entity t any_row s s' \<or> class_step album_entity t any_row s s'"

lemma side_step_blog: "side_step t s s' \<Longrightarrow> blog_part s' = blog_part s \<and> contact_requests s' = contact_requests s"
  unfolding side_step_def
  by (elim disjE) (simp_all add: banners.step_blog categories.step_blog honors.step_blog staff.step_blog
      plans.step_blog offerings.step_blog samples.step_blog albums.step_blog)

lemma side_step_view: "side_step t s s' \<Longrightarrow> u \<noteq> t \<Longrightarrow> content_view u s' = content_view u s"
  unfolding side_step_def
  by (elim disjE) (simp_all add: banners.step_view categories.step_view honors.step_view staff.step_view
      plans.step_view offerings.step_view samples.step_view albums.step_view)

lemma post_entity_simps [simp]:
  "rows_of post_entity = posts" "key_of post_entity = post_id" "owner_of post_entity = post_tenant_id"
  "new_row post_entity = new_post_row" "write_row post_entity = write_post_row" "stamp_row post_entity = stamp_post"
  "satisfies post_entity = post_constraints" "is_frozen post_entity p = (post_status p = Status_ARCHIVED)"
  "archive_row post_entity now p = p\<lparr>post_status := Status_ARCHIVED, post_updated_at := now\<rparr>"
  "with_rows post_entity rs s = s\<lparr>posts := rs\<rparr>"
  by (simp_all add: post_entity_def)

lemma post_kinds [simp]:
  "post_kind_of (new_post_row i t now b) = pw_kind b" "post_kind_of (stamp_post now (write_post_row b p)) = pw_kind b"
  by (simp_all add: new_post_row_def stamp_post_def write_post_row_def Let_def)

lemma post_guard_Inr: "post_guard b ctx who s = Inr b' \<Longrightarrow> pw_kind b' \<noteq> BLOG"
  by (auto simp: post_guard_def attempt_def split: sum.splits if_splits)

lemma create_post_step:
  "snd (create_post now i ctx who b s) = s
     \<or> class_step post_entity (ctx_tenant_id ctx) (post_ok P s) s (snd (create_post now i ctx who b s))"
  unfolding create_post_def
proof (rule transaction_inv)
  fix x s'
  assume "guarded (post_guard b ctx who s) (\<lambda>b. on_integrity_error resource_conflict
      (resource_create post_entity now i (ctx_tenant_id ctx) (pr_user_id who) b s)) s = (Inr x, s')"
  then obtain b' where b': "post_guard b ctx who s = Inr b'"
    "resource_create post_entity now i (ctx_tenant_id ctx) (pr_user_id who) b' s = (Inr x, s')"
    by (auto simp: guarded_def split: sum.splits)
  from post_guard_Inr [OF b'(1)] have "class_step post_entity (ctx_tenant_id ctx) (post_ok P s) s s'"
    by (intro posts.create_step [OF b'(2)]) (simp add: post_ok_def post_constraints_def)
  then show "s' = s \<or> class_step post_entity (ctx_tenant_id ctx) (post_ok P s) s s'" by blast
qed simp

lemma update_post_step:
  "snd (update_post now ctx who i b s) = s
     \<or> class_step post_entity (ctx_tenant_id ctx) (post_ok P s) s (snd (update_post now ctx who i b s))"
  unfolding update_post_def
proof (rule transaction_inv)
  fix x s'
  assume "guarded (attempt (post_guard b ctx who s) (\<lambda>b.
                attempt (resource_get post_entity (tenant_session (ctx_tenant_id ctx)) i s) (\<lambda>p.
                  if post_kind_of p = BLOG then Inl blog_endpoint_required else Inr (b, p)))) (\<lambda>(b, p).
         on_integrity_error resource_conflict
           (resource_update post_entity now (ctx_tenant_id ctx) (pr_user_id who) b p s)) s = (Inr x, s')"
  then obtain b' p where b': "post_guard b ctx who s = Inr b'" "post_kind_of p \<noteq> BLOG"
    and p: "resource_get post_entity (tenant_session (ctx_tenant_id ctx)) i s = Inr p"
    and run: "resource_update post_entity now (ctx_tenant_id ctx) (pr_user_id who) b' p s = (Inr x, s')"
    by (auto simp: guarded_def attempt_def split: sum.splits if_splits)
  from post_guard_Inr [OF b'(1)] b'(2) posts.get_Inr [OF p]
  have "class_step post_entity (ctx_tenant_id ctx) (post_ok P s) s s'"
    by (intro posts.update_step [OF run]) (simp_all add: post_ok_def post_constraints_def)
  then show "s' = s \<or> class_step post_entity (ctx_tenant_id ctx) (post_ok P s) s s'" by blast
qed simp

lemma archive_resource_step:
  "snd (archive_resource now ctx who res i s) = s
     \<or> side_step (ctx_tenant_id ctx) s (snd (archive_resource now ctx who res i s))
     \<or> res = lit ''posts''
       \<and> class_step post_entity (ctx_tenant_id ctx) (post_ok (\<lambda>p. post_id p = i \<and> post_tenant_id p = ctx_tenant_id ctx) s) s (snd (archive_resource now ctx who res i s))"
  (is "?I (snd (archive_resource now ctx who res i s))")
proof -
  have side: "?I s'" if "archive_entity E feature now ctx who i s = (Inr x, s')"
    "snd (archive_entity E feature now ctx who i s) = s \<or> class_step E (ctx_tenant_id ctx) any_row s (snd (archive_entity E feature now ctx who i s))"
    "\<And>s'. class_step E (ctx_tenant_id ctx) any_row s s' \<Longrightarrow> side_step (ctx_tenant_id ctx) s s'"
    for E :: "('b, 'r) entity" and feature x s'
    using that by auto
  have blog: "?I s'" if "archive_entity post_entity feature now ctx who i s = (Inr x, s')" "res = lit ''posts''" for feature x s'
  proof -
    have "snd (archive_entity post_entity feature now ctx who i s) = s
        \<or> class_step post_entity (ctx_tenant_id ctx) (post_ok (\<lambda>p. post_id p = i \<and> post_tenant_id p = ctx_tenant_id ctx) s) s (snd (archive_entity post_entity feature now ctx who i s))"
      by (rule posts.archive_entity_step) (auto simp: post_ok_def)
    with that show ?thesis by auto
  qed
  show ?thesis
    unfolding archive_resource_def
  proof (rule transaction_inv)
    fix x s'
    assume "guarded (require_permission CONTENT_WRITE who) (\<lambda>_.
         if res = lit ''posts'' then archive_entity post_entity (\<lambda>p. post_feature (post_kind_of p)) now ctx who i s
         else if res = lit ''banners'' then archive_entity banner_entity (\<lambda>_. lit ''banners'') now ctx who i s
         else if res = lit ''honor-categories'' then archive_entity category_entity (\<lambda>_. lit ''honors'') now ctx who i s
         else if res = lit ''honors'' then archive_entity honor_entity (\<lambda>_. lit ''honors'') now ctx who i s
         else if res = lit ''staff'' then archive_entity staff_entity (\<lambda>_. lit ''staff'') now ctx who i s
         else if res = lit ''pricing-plans'' then archive_entity plan_entity (\<lambda>_. lit ''pricing'') now ctx who i s
         else if res = lit ''exams'' then archive_entity offering_entity (\<lambda>_. lit ''exam_registration'') now ctx who i s
         else if res = lit ''sample-exams'' then archive_entity sample_entity (\<lambda>_. lit ''sample_exams'') now ctx who i s
         else if res = lit ''gallery'' then archive_entity album_entity (\<lambda>_. lit ''gallery'') now ctx who i s
         else (Inl not_found, s)) s = (Inr x, s')"
    then consider
        (post) "archive_entity post_entity (\<lambda>p. post_feature (post_kind_of p)) now ctx who i s = (Inr x, s')" "res = lit ''posts''"
      | (banner) "archive_entity banner_entity (\<lambda>_. lit ''banners'') now ctx who i s = (Inr x, s')"
      | (category) "archive_entity category_entity (\<lambda>_. lit ''honors'') now ctx who i s = (Inr x, s')"
      | (honor) "archive_entity honor_entity (\<lambda>_. lit ''honors'') now ctx who i s = (Inr x, s')"
      | (staff) "archive_entity staff_entity (\<lambda>_. lit ''staff'') now ctx who i s = (Inr x, s')"
      | (plan) "archive_entity plan_entity (\<lambda>_. lit ''pricing'') now ctx who i s = (Inr x, s')"
      | (offering) "archive_entity offering_entity (\<lambda>_. lit ''exam_registration'') now ctx who i s = (Inr x, s')"
      | (sample) "archive_entity sample_entity (\<lambda>_. lit ''sample_exams'') now ctx who i s = (Inr x, s')"
      | (album) "archive_entity album_entity (\<lambda>_. lit ''gallery'') now ctx who i s = (Inr x, s')"
      unfolding guarded_def by (cases "require_permission CONTENT_WRITE who") (simp_all split: if_split_asm)
    then show "?I s'"
    proof cases
      case post
      then show ?thesis by (rule blog)
    next
      case banner
      then show ?thesis
        by (rule side [OF _ banners.archive_entity_step]) (simp_all add: side_step_def)
    next
      case category
      then show ?thesis
        by (rule side [OF _ categories.archive_entity_step]) (simp_all add: side_step_def)
    next
      case honor
      then show ?thesis
        by (rule side [OF _ honors.archive_entity_step]) (simp_all add: side_step_def)
    next
      case staff
      then show ?thesis
        by (rule side [OF _ staff.archive_entity_step]) (simp_all add: side_step_def)
    next
      case plan
      then show ?thesis
        by (rule side [OF _ plans.archive_entity_step]) (simp_all add: side_step_def)
    next
      case offering
      then show ?thesis
        by (rule side [OF _ offerings.archive_entity_step]) (simp_all add: side_step_def)
    next
      case sample
      then show ?thesis
        by (rule side [OF _ samples.archive_entity_step]) (simp_all add: side_step_def)
    next
      case album
      then show ?thesis
        by (rule side [OF _ albums.archive_entity_step]) (simp_all add: side_step_def)
    qed
  qed simp
qed

section \<open>The operations beside the classes\<close>

definition class_tables where
  "class_tables s =
     (posts s, banners s, honor_categories s, honors s, staff s, price_plans s, offerings s, sample_exams s, albums s)"

definition aside :: "uuid \<Rightarrow> content_db \<Rightarrow> content_db \<Rightarrow> bool" where
  "aside t s s' \<longleftrightarrow> blog_part s' = blog_part s \<and> contact_requests s' = contact_requests s
     \<and> class_tables s' = class_tables s \<and> (\<forall>u. u \<noteq> t \<longrightarrow> content_view u s' = content_view u s)"

lemma aside_refl [simp]: "aside t s s"
  by (simp add: aside_def)

lemma visible_append [simp]: "visible tid cur (xs @ ys) = visible tid cur xs @ visible tid cur ys"
  by (simp add: visible_def)

lemma visible_foreign: "(\<And>r. r \<in> set rows \<Longrightarrow> tid r = t) \<Longrightarrow> u \<noteq> t \<Longrightarrow> visible tid (tenant_session u) rows = []"
  by (auto simp: visible_def filter_empty_conv)

lemmas view_defs = content_view_def queue_view_def Let_def

lemma audit_aside:
  "blog_part (audit now t a x y i s) = blog_part s" "contact_requests (audit now t a x y i s) = contact_requests s"
  "class_tables (audit now t a x y i s) = class_tables s"
  "u \<noteq> t \<Longrightarrow> content_view u (audit now t a x y i s) = content_view u s"
  by (auto simp: audit_def blog_part_def class_tables_def view_defs isolation)

lemma item_aside:
  assumes "add_gallery_item now fresh t actor album b s = (Inr r, s')"
  shows "aside t s s'"
proof -
  from assms have "s' = audit now t actor ''gallery_item.created'' ''gallery_item'' fresh
      (s\<lparr>album_items := insert_row r (album_items s)\<rparr>)" "item_tenant_id r = t"
    by (auto simp: add_gallery_item_def Let_def split: if_splits)
  then show ?thesis
    by (simp add: aside_def audit_aside) (auto simp: blog_part_def class_tables_def view_defs isolation)
qed

lemma plans_aside:
  assumes "set_exam_plans (tenant_session t) e ids s = (Inr u, s')" "exam_tenant_id e = t"
  shows "aside t s s'"
proof -
  define new where "new = map (\<lambda>i. \<lparr>ep_tenant_id = t, ep_exam_offering_id = exam_id e, ep_pricing_plan_id = i\<rparr>) (remdups ids)"
  have s': "s' = s\<lparr>offering_plans := delete_where ep_tenant_id (tenant_session t)
      (\<lambda>x. ep_exam_offering_id x = exam_id e) (offering_plans s) @ new\<rparr>"
    using assms by (simp add: set_exam_plans_def Let_def new_def split: if_split_asm)
  have "visible ep_tenant_id (tenant_session v) new = []" if "v \<noteq> t" for v
    using that by (intro visible_foreign [of _ _ t]) (auto simp: new_def)
  then show ?thesis
    unfolding s' by (simp add: aside_def blog_part_def class_tables_def view_defs visible_delete_where_other)
qed

lemma clear_contacts_aside: "aside t s (clear_contacts t s)"
  by (auto simp: clear_contacts_def aside_def blog_part_def class_tables_def view_defs isolation)

lemma replace_aside:
  assumes "replace_profile now d t actor b s = (Inr p, s')"
  shows "aside t s s'"
proof -
  have rows: "visible addr_tenant_id (tenant_session u) (new_addresses d t xs) = []"
    "visible phone_tenant_id (tenant_session u) (new_phones d t ys) = []"
    "visible social_tenant_id (tenant_session u) (new_social_links d t zs) = []" if "u \<noteq> t" for u xs ys zs
    using that by (auto simp: new_addresses_def new_phones_def new_social_links_def intro!: visible_foreign)
  define rs where "rs = (case find_profile t s of None \<Rightarrow> insert_row p (profiles s)
      | Some _ \<Rightarrow> save_row profile_tenant_id profile_id (tenant_session t) p (profiles s))"
  from assms have s': "s' = audit now t actor ''tenant_profile.updated'' ''tenant_profile'' (profile_id p)
      (clear_contacts t s\<lparr>profiles := rs, addresses := addresses (clear_contacts t s) @ new_addresses d t (prw_addresses b),
        phones := phones (clear_contacts t s) @ new_phones d t (prw_phones b),
        social_links := social_links (clear_contacts t s) @ new_social_links d t (prw_social_links b)\<rparr>)"
    and p: "profile_tenant_id p = t"
    unfolding replace_profile_def Let_def rs_def by (auto simp del: split_paired_All split: if_split_asm)
  have "visible profile_tenant_id (tenant_session u) rs = visible profile_tenant_id (tenant_session u) (profiles s)" if "u \<noteq> t" for u
    using p that by (auto simp: rs_def isolation split: option.split)
  then show ?thesis
    unfolding s'
    by (simp add: aside_def audit_aside)
      (auto simp: clear_contacts_def blog_part_def class_tables_def view_defs isolation rows)
qed

lemma reset_aside:
  assumes "reset_profile now t actor s = (Inr u, s')"
  shows "aside t s s'"
proof (cases "find_profile t s")
  case None
  with assms clear_contacts_aside [of t s] show ?thesis
    by (simp add: reset_profile_def Let_def)
next
  case (Some p)
  then have s': "s' = audit now t actor ''tenant_profile.reset'' ''tenant_profile'' (profile_id p)
      (clear_contacts t s\<lparr>profiles := delete_where profile_tenant_id (tenant_session t) (\<lambda>x. profile_id x = profile_id p)
        (profiles (clear_contacts t s))\<rparr>)"
    using assms by (simp add: reset_profile_def Let_def)
  show ?thesis
    unfolding s' by (simp add: aside_def audit_aside)
      (auto simp: clear_contacts_def blog_part_def class_tables_def view_defs isolation)
qed

end
