(* ===== verification/ContentPublic.thy ===== *)
theory ContentPublic
  imports ContentWrites Blog
begin

text \<open>
  \<open>content/public_router.py\<close>: what a visitor of a school's site reads, and the contact form. The
  response classes are projections of rows; here the rows themselves are returned. Every query
  runs under the tenant's session; the school directory belongs to no tenant.

  \<open>ORDER BY a, id\<close> is \<open>ordered\<close>; an order that leaves equal keys open is that of the table.
\<close>

section \<open>Queries\<close>

definition ordered :: "('r \<Rightarrow> 'k::linorder) \<Rightarrow> ('r \<Rightarrow> uuid) \<Rightarrow> 'r list \<Rightarrow> 'r list" where
  "ordered key rid rows = sort_key key (sort_key rid rows)"

definition tenant_cursor :: "tenant_context \<Rightarrow> session" where
  "tenant_cursor ctx = tenant_session (ctx_tenant_id ctx)"

definition with_feature :: "string \<Rightarrow> tenant_context \<Rightarrow> content_db \<Rightarrow> 'a \<Rightarrow> exn + 'a" where
  "with_feature key ctx s answer = attempt (feature_guard (lit key) ctx s) (\<lambda>_. Inr answer)"

record site_bootstrap =
  site_name :: ustr
  site_slug :: ustr
  site_locale :: ustr
  site_timezone :: ustr
  site_currency :: ustr
  site_profile :: "tenant_profile option"
  enabled_capabilities :: "ustr list"
  site_addresses :: "tenant_address list"
  site_phones :: "tenant_phone list"
  site_social_links :: "tenant_social_link list"

text \<open>The collation of the database orders the feature keys: \<open>by_text\<close> sorts them.\<close>

definition site_bootstrap_of :: "(ustr list \<Rightarrow> ustr list) \<Rightarrow> tenant_context \<Rightarrow> content_db \<Rightarrow> site_bootstrap" where
  "site_bootstrap_of by_text ctx s =
     (let cur = tenant_cursor ctx; profile = scalar (visible profile_tenant_id cur (profiles s)) in
      \<lparr>site_name = (case profile of None \<Rightarrow> ctx_slug ctx | Some p \<Rightarrow> profile_display_name p),
       site_slug = ctx_slug ctx, site_locale = ctx_locale ctx, site_timezone = ctx_timezone ctx,
       site_currency = ctx_currency ctx, site_profile = profile,
       enabled_capabilities =
         by_text (map feature_key (select_where tf_tenant_id cur tf_enabled (tenant_features s))),
       site_addresses = sort_key addr_sort_order (visible addr_tenant_id cur (addresses s)),
       site_phones = sort_key phone_sort_order (visible phone_tenant_id cur (phones s)),
       site_social_links = sort_key social_sort_order (visible social_tenant_id cur (social_links s))\<rparr>)"

definition banner_shown :: "instant \<Rightarrow> banner \<Rightarrow> bool" where
  "banner_shown now b \<longleftrightarrow> banner_status b = Status_PUBLISHED
     \<and> (case banner_starts_at b of None \<Rightarrow> True | Some a \<Rightarrow> a \<le> now)
     \<and> (case banner_ends_at b of None \<Rightarrow> True | Some z \<Rightarrow> z > now)"

definition public_banners :: "instant \<Rightarrow> tenant_context \<Rightarrow> content_db \<Rightarrow> exn + banner list" where
  "public_banners now ctx s =
     with_feature ''banners'' ctx s
       (ordered banner_sort_order banner_id
          (select_where banner_tenant_id (tenant_cursor ctx) (banner_shown now) (banners s)))"

definition post_shown :: "instant \<Rightarrow> post_kind \<Rightarrow> post \<Rightarrow> bool" where
  "post_shown now k p \<longleftrightarrow> post_kind_of p = k \<and> post_status p = Status_PUBLISHED
     \<and> (case published_at p of None \<Rightarrow> False | Some at \<Rightarrow> at \<le> now)"

definition post_page :: "instant \<Rightarrow> session \<Rightarrow> post_kind \<Rightarrow> page_params \<Rightarrow> content_db \<Rightarrow> post page_result" where
  "post_page now cur k p s =
     page_of p (ordered (\<lambda>x. - or_default (published_at x) 0) post_id
       (select_where post_tenant_id cur (post_shown now k) (posts s)))"

definition post_detail :: "instant \<Rightarrow> session \<Rightarrow> post_kind \<Rightarrow> ustr \<Rightarrow> content_db \<Rightarrow> exn + post" where
  "post_detail now cur k name s =
     (case scalar (select_where post_tenant_id cur (\<lambda>p. post_shown now k p \<and> post_slug p = name) (posts s)) of
        None \<Rightarrow> Inl (app_error ''CONTENT_NOT_FOUND'' 404)
      | Some p \<Rightarrow> Inr p)"

definition news where
  "news now p ctx s = with_feature ''news'' ctx s (post_page now (tenant_cursor ctx) NEWS p s)"

definition news_detail where
  "news_detail now name ctx s =
     attempt (feature_guard (lit ''news'') ctx s) (\<lambda>_. post_detail now (tenant_cursor ctx) NEWS name s)"

definition announcements where
  "announcements now p ctx s =
     with_feature ''announcements'' ctx s (post_page now (tenant_cursor ctx) ANNOUNCEMENT p s)"

definition announcement_detail where
  "announcement_detail now name ctx s =
     attempt (feature_guard (lit ''announcements'') ctx s) (\<lambda>_.
       post_detail now (tenant_cursor ctx) ANNOUNCEMENT name s)"

definition public_honors :: "page_params \<Rightarrow> tenant_context \<Rightarrow> content_db \<Rightarrow> exn + honor page_result" where
  "public_honors p ctx s =
     with_feature ''honors'' ctx s (page_of p (ordered honor_sort_order honor_id
       (select_where honor_tenant_id (tenant_cursor ctx) (\<lambda>h. honor_status h = Status_PUBLISHED) (honors s))))"

definition public_staff :: "tenant_context \<Rightarrow> content_db \<Rightarrow> exn + staff_member list" where
  "public_staff ctx s =
     with_feature ''staff'' ctx s (ordered staff_sort_order staff_id
       (select_where staff_tenant_id (tenant_cursor ctx) staff_is_active (staff s)))"

definition pricing_plans :: "tenant_context \<Rightarrow> content_db \<Rightarrow> exn + pricing_plan list" where
  "pricing_plans ctx s =
     with_feature ''pricing'' ctx s (ordered plan_sort_order plan_id
       (select_where plan_tenant_id (tenant_cursor ctx) (\<lambda>x. plan_status x = Plan_PUBLISHED) (price_plans s)))"

text \<open>In an ascending order NULL comes last.\<close>

definition nulls_last :: "instant option \<Rightarrow> int \<times> instant" where
  "nulls_last v = (case v of None \<Rightarrow> (1, 0) | Some at \<Rightarrow> (0, at))"

definition public_exams :: "tenant_context \<Rightarrow> content_db \<Rightarrow> exam_offering list" where
  "public_exams ctx s =
     sort_key (\<lambda>e. fst (nulls_last (registration_starts_at e)))
       (sort_key (\<lambda>e. snd (nulls_last (registration_starts_at e)))
          (sort_key exam_id
            (select_where exam_tenant_id (tenant_cursor ctx) (\<lambda>e. exam_status e = Exam_REGISTRATION_OPEN) (offerings s))))"

definition public_sample_exams :: "page_params \<Rightarrow> tenant_context \<Rightarrow> content_db \<Rightarrow> exn + sample_exam page_result" where
  "public_sample_exams p ctx s =
     with_feature ''sample_exams'' ctx s (page_of p (ordered sample_sort_order sample_id
       (select_where sample_tenant_id (tenant_cursor ctx) (\<lambda>x. sample_status x = Status_PUBLISHED) (sample_exams s))))"

definition public_gallery :: "page_params \<Rightarrow> tenant_context \<Rightarrow> content_db \<Rightarrow> exn + gallery_album page_result" where
  "public_gallery p ctx s =
     with_feature ''gallery'' ctx s (page_of p (ordered album_sort_order album_id
       (select_where album_tenant_id (tenant_cursor ctx) (\<lambda>x. album_status x = Status_PUBLISHED) (albums s))))"

definition gallery_detail :: "ustr \<Rightarrow> tenant_context \<Rightarrow> content_db \<Rightarrow> exn + gallery_album \<times> gallery_item list" where
  "gallery_detail name ctx s =
     attempt (feature_guard (lit ''gallery'') ctx s) (\<lambda>_.
       case scalar (select_where album_tenant_id (tenant_cursor ctx)
              (\<lambda>a. album_slug a = name \<and> album_status a = Status_PUBLISHED) (albums s)) of
         None \<Rightarrow> Inl (app_error ''GALLERY_NOT_FOUND'' 404)
       | Some a \<Rightarrow>
           Inr (a, ordered item_sort_order item_id
                  (select_where item_tenant_id (tenant_cursor ctx) (\<lambda>x. item_album_id x = album_id a) (album_items s))))"

section \<open>The school directory\<close>

text \<open>
  \<open>LIKE\<close>: \<open>%\<close> stands for any text, \<open>_\<close> for any character, a backslash takes the next character
  as it is. A pattern that ends with a backslash is an error of the database; the patterns of
  the search end with \<open>%\<close>.
\<close>

function (sequential) sql_like :: "ustr \<Rightarrow> ustr \<Rightarrow> bool" where
  "sql_like [] s = (s = [])"
| "sql_like (p # ps) [] = (p = 37 \<and> sql_like ps [])"
| "sql_like (p # ps) (c # s) =
     (if p = 37 then sql_like ps (c # s) \<or> sql_like (p # ps) s
      else if p = 95 then sql_like ps s
      else if p = 92 then (case ps of [] \<Rightarrow> False | q # qs \<Rightarrow> q = c \<and> sql_like qs s)
      else p = c \<and> sql_like ps s)"
  by pat_completeness auto
termination
  by (relation "measure (\<lambda>(p, s). length p + length s)") auto

text \<open>\<open>name.ilike(f"%{search[:100]}%")\<close>; \<open>lowered\<close> is the database's lower case.\<close>

definition search_pattern :: "ustr \<Rightarrow> ustr" where
  "search_pattern search = [37] @ take 100 search @ [37]"

definition matches_search :: "(ustr \<Rightarrow> ustr) \<Rightarrow> ustr option \<Rightarrow> school_entry \<Rightarrow> bool" where
  "matches_search lowered search e =
     (case search of
        None \<Rightarrow> True
      | Some text \<Rightarrow> if text = [] then True else sql_like (lowered (search_pattern text)) (lowered (school_name e)))"

definition school_directory_page ::
  "(ustr \<Rightarrow> ustr) \<Rightarrow> (school_entry list \<Rightarrow> school_entry list) \<Rightarrow> page_params \<Rightarrow> ustr option \<Rightarrow> content_db
     \<Rightarrow> school_entry page_result" where
  "school_directory_page lowered by_name p search s =
     page_of p (by_name (filter (\<lambda>e. school_is_active e \<and> matches_search lowered search e) (school_directory s)))"

section \<open>The contact form\<close>

text \<open>
  \<open>hash\<close> is the HMAC of the client's address under the signing key. The two advisory locks are held
  to the end of the transaction, so requests of one phone number or address follow each other.
\<close>

definition contact_attempts :: "session \<Rightarrow> instant \<Rightarrow> ustr \<Rightarrow> ustr \<Rightarrow> content_db \<Rightarrow> nat" where
  "contact_attempts cur now ip_hash phone s =
     count_if (\<lambda>c. now - seconds 3600 \<le> cr_created_at c \<and> (cr_request_ip_hash c = ip_hash \<or> cr_phone_number c = phone))
       (visible cr_tenant_id cur (contact_requests s))"

definition contact_of :: "instant \<Rightarrow> uuid \<Rightarrow> uuid \<Rightarrow> ustr \<Rightarrow> contact_create \<Rightarrow> contact_request" where
  "contact_of now fresh t ip_hash b =
     \<lparr>cr_id = fresh, cr_tenant_id = t, cr_name = cc_name b, cr_education_level = cc_education_level b,
      cr_phone_number = cc_phone_number b, cr_request_ip_hash = ip_hash, cr_status = Contact_NEW,
      cr_created_at = now, handled_at = None, handled_by = None, cr_internal_notes = None\<rparr>"

definition create_contact_request ::
  "(ustr \<Rightarrow> ustr) \<Rightarrow> instant \<Rightarrow> uuid \<Rightarrow> tenant_context \<Rightarrow> ustr option \<Rightarrow> contact_create \<Rightarrow> content_db
     \<Rightarrow> (uuid \<times> contact_state, content_db) outcome" where
  "create_contact_request hash now fresh ctx client b =
     transaction (\<lambda>s.
       guarded (attempt (feature_guard (lit ''contact_requests'') ctx s) (\<lambda>_. validate_contact_create b)) (\<lambda>b.
         let ip_hash = hash (or_default client (lit ''unknown''));
             r = contact_of now fresh (ctx_tenant_id ctx) ip_hash b
         in if contact_attempts (tenant_cursor ctx) now ip_hash (cc_phone_number b) s \<ge> 5
            then (Inl (app_error ''CONTACT_REQUEST_RATE_LIMITED'' 429), s)
            else if key_taken cr_id r (contact_requests s) then (Inl IntegrityError, s)
            else (Inr (cr_id r, cr_status r), s\<lparr>contact_requests := insert_row r (contact_requests s)\<rparr>)) s)"

end
