(* ===== verification/ContentHistory.thy ===== *)
theory ContentHistory
  imports ContentClasses ContentPublic Media
begin

text \<open>
  Histories of the content side: every endpoint that changes content, the contact form, the uploads
  of media and the whole life of the site builds, as events of one step function. Who asks and for
  which tenant is part of the event; the guards of the endpoints decide what becomes of it.
\<close>

section \<open>Events\<close>

record content_env =
  ce_repr :: "json \<Rightarrow> ustr"
  ce_split :: "ustr \<Rightarrow> exn + split_url"
  ce_url :: "ustr \<Rightarrow> ustr option"
  ce_email :: "ustr \<Rightarrow> ustr option"
  ce_hash :: "ustr \<Rightarrow> ustr"
  ce_settings :: settings
  ce_presign :: "presign_request \<Rightarrow> presigned_upload"

datatype content_action =
    Create_blog drawn blog_create
  | Update_blog drawn uuid blog_update
  | Publish_blog drawn uuid
  | Archive_blog drawn uuid
  | Create_post uuid post_write
  | Update_post uuid post_write
  | Create_banner uuid banner_write
  | Update_banner uuid banner_write
  | Create_category uuid category_write
  | Update_category uuid category_write
  | Create_honor uuid honor_write
  | Update_honor uuid honor_write
  | Create_staff uuid staff_write
  | Update_staff uuid staff_write
  | Create_plan uuid plan_write
  | Update_plan uuid plan_write
  | Create_sample uuid sample_write
  | Update_sample uuid sample_write
  | Create_album uuid album_write
  | Update_album uuid album_write
  | Create_item uuid uuid item_write
  | Create_exam uuid offering_write
  | Update_exam uuid offering_write
  | Replace_profile profile_ids profile_write
  | Reset_profile
  | Handle_contact uuid contact_update
  | Archive_resource ustr uuid

datatype content_event =
    Admin instant tenant_context principal content_action
  | Contact_form instant uuid tenant_context "ustr option" contact_create
  | Build queue_event
  | Start_upload uuid uuid uuid upload_request
  | Finish_upload uuid uuid complete_request head_result

fun content_action_step ::
  "content_env \<Rightarrow> instant \<Rightarrow> tenant_context \<Rightarrow> principal \<Rightarrow> content_action \<Rightarrow> content_db \<Rightarrow> content_db" where
  "content_action_step V now ctx who (Create_blog d b) s = snd (create_blog_post (ce_repr V) (ce_split V) now d ctx who b s)"
| "content_action_step V now ctx who (Update_blog d i b) s = snd (update_blog_post (ce_repr V) (ce_split V) now d ctx who i b s)"
| "content_action_step V now ctx who (Publish_blog d i) s = snd (publish_blog_post (ce_repr V) (ce_split V) now d ctx who i s)"
| "content_action_step V now ctx who (Archive_blog d i) s = snd (archive_blog_post now d ctx who i s)"
| "content_action_step V now ctx who (Create_post i b) s = snd (create_post now i ctx who b s)"
| "content_action_step V now ctx who (Update_post i b) s = snd (update_post now ctx who i b s)"
| "content_action_step V now ctx who (Create_banner i b) s = snd (create_banner (ce_url V) now i ctx who b s)"
| "content_action_step V now ctx who (Update_banner i b) s = snd (update_banner (ce_url V) now ctx who i b s)"
| "content_action_step V now ctx who (Create_category i b) s = snd (create_honor_category now i ctx who b s)"
| "content_action_step V now ctx who (Update_category i b) s = snd (update_honor_category now ctx who i b s)"
| "content_action_step V now ctx who (Create_honor i b) s = snd (create_honor now i ctx who b s)"
| "content_action_step V now ctx who (Update_honor i b) s = snd (update_honor now ctx who i b s)"
| "content_action_step V now ctx who (Create_staff i b) s = snd (create_staff (ce_email V) now i ctx who b s)"
| "content_action_step V now ctx who (Update_staff i b) s = snd (update_staff (ce_email V) now ctx who i b s)"
| "content_action_step V now ctx who (Create_plan i b) s = snd (create_pricing now i ctx who b s)"
| "content_action_step V now ctx who (Update_plan i b) s = snd (update_pricing_plan now ctx who i b s)"
| "content_action_step V now ctx who (Create_sample i b) s = snd (create_sample_exam now i ctx who b s)"
| "content_action_step V now ctx who (Update_sample i b) s = snd (update_sample_exam now ctx who i b s)"
| "content_action_step V now ctx who (Create_album i b) s = snd (create_gallery now i ctx who b s)"
| "content_action_step V now ctx who (Update_album i b) s = snd (update_gallery_album now ctx who i b s)"
| "content_action_step V now ctx who (Create_item i a b) s = snd (create_gallery_item now i ctx who a b s)"
| "content_action_step V now ctx who (Create_exam i b) s = snd (create_exam now i ctx who b s)"
| "content_action_step V now ctx who (Update_exam i b) s = snd (update_exam now ctx who i b s)"
| "content_action_step V now ctx who (Replace_profile d b) s = snd (replace_school_profile (ce_url V) now d ctx who b s)"
| "content_action_step V now ctx who Reset_profile s = snd (reset_school_profile now ctx who s)"
| "content_action_step V now ctx who (Handle_contact i b) s = snd (handle_contact_request now ctx who i b s)"
| "content_action_step V now ctx who (Archive_resource res i) s = snd (archive_resource now ctx who res i s)"

text \<open>The media endpoints work on the tables the registrations share with the content.\<close>

definition shared_tables :: "content_db \<Rightarrow> reg_db" where
  "shared_tables s =
     \<lparr>exams = offerings s, exam_plans = offering_plans s, plans = price_plans s, form_defs = [], registrations = [],
      contacts = [], otps = [], payments = [], media = assets s, schools = school_directory s, audits = []\<rparr>"

definition on_media :: "(reg_db \<Rightarrow> ('a, reg_db) outcome) \<Rightarrow> content_db \<Rightarrow> content_db" where
  "on_media f s = s\<lparr>assets := media (snd (f (shared_tables s)))\<rparr>"

fun content_step :: "content_env \<Rightarrow> content_event \<Rightarrow> content_db \<Rightarrow> content_db" where
  "content_step V (Admin now ctx who a) s = content_action_step V now ctx who a s"
| "content_step V (Contact_form now i ctx client b) s = snd (create_contact_request (ce_hash V) now i ctx client b s)"
| "content_step V (Build e) s = queue_step (ce_settings V) e s"
| "content_step V (Start_upload t i nonce b) s =
     (case validate_upload_request b of
        Inl e \<Rightarrow> s
      | Inr b \<Rightarrow> on_media (transaction (initiate_upload (ce_presign V) (ce_settings V) t i nonce b)) s)"
| "content_step V (Finish_upload t i b found) s =
     (case validate_complete_request b of
        Inl e \<Rightarrow> s
      | Inr b \<Rightarrow> on_media (complete_upload_request (\<lambda>_. found) (tenant_session t) i b) s)"

fun event_tenant_of :: "content_event \<Rightarrow> uuid option" where
  "event_tenant_of (Admin now ctx who a) = Some (ctx_tenant_id ctx)"
| "event_tenant_of (Contact_form now i ctx client b) = Some (ctx_tenant_id ctx)"
| "event_tenant_of (Build e) = queue_tenant e"
| "event_tenant_of (Start_upload t i nonce b) = Some t"
| "event_tenant_of (Finish_upload t i b found) = Some t"

text \<open>Any platform, before the first piece of content.\<close>

definition without_content :: "content_db \<Rightarrow> content_db" where
  "without_content s =
     s\<lparr>site_states := [], build_requests := [], posts := [], post_references := [], assets := [], banners := [],
       honor_categories := [], honors := [], staff := [], contact_requests := [], sample_exams := [], albums := [],
       album_items := [], offerings := [], price_plans := [], offering_plans := [], profiles := [],
       addresses := [], phones := [], social_links := []\<rparr>"

section \<open>What an operation leaves alone\<close>

text \<open>The build queue works on its own tables.\<close>

definition beyond_queue :: "'z site_db_scheme \<Rightarrow> tenant list \<times> 'z" where
  "beyond_queue s = (tenants s, site_db.more s)"

lemma beyond_update [simp]:
  "beyond_queue (s\<lparr>site_states := a\<rparr>) = beyond_queue s" "beyond_queue (s\<lparr>build_requests := b\<rparr>) = beyond_queue s"
  "beyond_queue (s\<lparr>build_configs := c\<rparr>) = beyond_queue s" "beyond_queue (s\<lparr>audit_log := l\<rparr>) = beyond_queue s"
  by (simp_all add: beyond_queue_def)

lemma beyond_and_then:
  "beyond_queue (snd out) = q \<Longrightarrow> (\<And>x s. out = (Inr x, s) \<Longrightarrow> beyond_queue s = q \<Longrightarrow> beyond_queue (snd (k x s)) = q)
     \<Longrightarrow> beyond_queue (snd (and_then out k)) = q"
  by (cases out; cases "fst out") (auto simp: and_then_def)

lemma beyond_transaction:
  "beyond_queue (snd (body s)) = beyond_queue s \<Longrightarrow> beyond_queue (snd (transaction body s)) = beyond_queue s"
  by (rule transaction_inv) auto

lemma beyond_flush_build [simp]: "beyond_queue (snd (flush_build cur r s)) = beyond_queue s"
  by (simp add: flush_build_def)

lemma beyond_flush [simp]: "beyond_queue (snd (flush_builds cur rs s)) = beyond_queue s"
  by (induction rs arbitrary: s) (auto intro: beyond_and_then)

lemma beyond_state [simp]: "beyond_queue (snd (state_for_update cur t s)) = beyond_queue s"
  by (simp add: state_for_update_def Let_def split: option.split)

lemma beyond_enqueue [simp]: "beyond_queue (snd (enqueue cur now fresh t target ch s)) = beyond_queue s"
  by (simp add: enqueue_def Let_def split: option.split)

lemma beyond_changed [simp]: "beyond_queue (snd (public_content_changed cur now fresh t ch s)) = beyond_queue s"
  unfolding public_content_changed_def by (rule beyond_and_then) (simp_all add: Let_def)

lemma beyond_rebuild [simp]: "beyond_queue (snd (manual_rebuild cur now fresh t actor s)) = beyond_queue s"
  unfolding manual_rebuild_def by (rule beyond_and_then) (simp_all add: Let_def)

lemma beyond_start [simp]: "beyond_queue (snd (start_due c cur now first dirty s)) = beyond_queue s"
  by (auto simp: start_due_def Let_def split: option.split intro!: beyond_and_then)

lemma beyond_claim [simp]: "beyond_queue (snd (claim_body c cur now first s)) = beyond_queue s"
  by (simp add: claim_body_def Let_def split: option.split)

lemma beyond_success [simp]: "beyond_queue (snd (record_success cur now actual r t s)) = beyond_queue s"
  by (auto simp: record_success_def Let_def intro!: beyond_and_then)

lemma beyond_failure [simp]: "beyond_queue (snd (record_failure c cur now b r s)) = beyond_queue s"
  by (auto simp: record_failure_def Let_def split: option.split intro!: beyond_and_then)

lemma beyond_step: "beyond_queue (queue_step c e s) = beyond_queue s"
proof (cases e)
  case (Rebuild t now fresh actor)
  then show ?thesis
    by (auto simp: request_rebuild_Inr Let_def intro!: beyond_transaction beyond_and_then)
next
  case (Trigger_failure t now i error)
  then show ?thesis
    by (auto simp: trigger_failed_def Let_def split: option.split intro!: beyond_transaction beyond_and_then)
next
  case (Result now i b)
  then show ?thesis
    by (auto simp: record_result_def Let_def split: option.split result_status.split intro!: beyond_transaction)
next
  case (Configure now actor config)
  then show ?thesis
    by (auto simp: write_build_config_def Let_def split: option.split)
qed (auto simp: claim_def intro!: beyond_transaction)

lemma beyond_tables:
  fixes s s' :: content_db
  assumes "beyond_queue s' = beyond_queue s"
  shows "posts s' = posts s" "post_references s' = post_references s" "assets s' = assets s"
    "contact_requests s' = contact_requests s" "banners s' = banners s" "honor_categories s' = honor_categories s"
    "honors s' = honors s" "staff s' = staff s" "sample_exams s' = sample_exams s" "albums s' = albums s"
    "album_items s' = album_items s" "offerings s' = offerings s" "price_plans s' = price_plans s"
    "offering_plans s' = offering_plans s" "profiles s' = profiles s" "addresses s' = addresses s"
    "phones s' = phones s" "social_links s' = social_links s" "tenant_features s' = tenant_features s"
  using assms by (cases s; cases s'; simp add: beyond_queue_def)+

text \<open>A post with its document stored: the row, and its references instead of the earlier ones.\<close>

definition synced :: "uuid \<Rightarrow> post \<Rightarrow> content_db \<Rightarrow> content_db \<Rightarrow> bool" where
  "synced t p s s' \<longleftrightarrow>
     (\<exists>ids fresh. referenced_media_ids (content_document p) = Inr ids
        \<and> post_references s' = delete_where ref_tenant_id (tenant_session t) (\<lambda>r. ref_post_id r = post_id p) (post_references s)
            @ references_of p fresh ids)"

text \<open>What else the blog leaves alone.\<close>

definition beside_blog where
  "beside_blog s =
     ((assets s, contact_requests s, banners s, honor_categories s, honors s, staff s, sample_exams s, albums s),
      (album_items s, offerings s, price_plans s, offering_plans s, profiles s, addresses s, phones s, social_links s),
      tenant_features s)"

lemma beyond_beside:
  fixes s s' :: content_db
  assumes "beyond_queue s' = beyond_queue s"
  shows "beside_blog s' = beside_blog s"
  using beyond_tables [OF assms] by (simp add: beside_blog_def)

lemma sync_Inr:
  assumes "sync_references (tenant_session t) fresh p document s = (Inr u, s')" "document = content_document p"
  shows "synced t p s s'" "posts s' = posts s" "site_states s' = site_states s" "build_requests s' = build_requests s"
    "build_configs s' = build_configs s" "audit_log s' = audit_log s" "beside_blog s' = beside_blog s" "queue_view v s' = queue_view v s"
  using assms by (auto simp: sync_references_def Let_def synced_def beside_blog_def queue_view_def split: sum.splits if_splits)

lemma same_document: "validate_document split rc (JObj d) = Inr doc \<Longrightarrow> doc = d"
  by (auto simp: validate_document_def attempt_def split: sum.splits if_splits json.splits)

text \<open>The checks \<open>create\<close>, \<open>update\<close> and \<open>publish\<close> share.\<close>

definition checked_post :: "content_env \<Rightarrow> bool \<Rightarrow> post \<Rightarrow> content_db \<Rightarrow> bool" where
  "checked_post V public p s \<longleftrightarrow>
     validate_document (ce_split V) public (JObj (content_document p)) = Inr (content_document p)
     \<and> (\<exists>html ids. render_document (ce_repr V) (ce_split V) (content_document p) = Inr html \<and> rendered_html p = Some html
         \<and> all_media_ids (cover_image_id p) (og_image_id p) (content_document p) = Inr ids
         \<and> validate_media (post_tenant_id p) public ids s = Inr ())"

text \<open>The four operations of the service, when they succeed and change something.\<close>

datatype blog_effect = Drafted | Edited | Published | Withdrawn

definition blog_step :: "content_env \<Rightarrow> uuid \<Rightarrow> blog_effect \<Rightarrow> post \<Rightarrow> post \<Rightarrow> content_db \<Rightarrow> content_db \<Rightarrow> bool" where
  "blog_step V t what p0 p s s' \<longleftrightarrow>
     beside_blog s' = beside_blog s \<and> post_tenant_id p = t \<and> post_kind_of p = BLOG
     \<and> unique_key post_id post_key p (posts s)
     \<and> (if what = Drafted
        then \<not> key_taken post_id p (posts s) \<and> posts s' = insert_row p (posts s) \<and> post_status p = Status_DRAFT
        else p0 \<in> set (posts s) \<and> post_tenant_id p0 = t \<and> post_kind_of p0 = BLOG \<and> post_id p = post_id p0
          \<and> posts s' = save_row post_tenant_id post_id (tenant_session t) p (posts s))
     \<and> (if what = Withdrawn
        then post_status p = Status_ARCHIVED \<and> post_references s' = post_references s
          \<and> content_document p = content_document p0 \<and> rendered_html p = rendered_html p0
          \<and> cover_image_id p = cover_image_id p0 \<and> og_image_id p = og_image_id p0
        else synced t p s s' \<and> checked_post V (post_status p = Status_PUBLISHED) p s)
     \<and> (what = Edited \<longrightarrow> post_status p = post_status p0 \<and> published_at p = published_at p0)
     \<and> (what = Published \<longrightarrow> post_status p = Status_PUBLISHED \<and> published_at p \<noteq> None)"

text \<open>Whether the operation told the build service, through states that differ in the queue only.\<close>

definition announced_by :: "uuid \<Rightarrow> bool \<Rightarrow> content_db \<Rightarrow> content_db \<Rightarrow> bool" where
  "announced_by t told s s' \<longleftrightarrow> (\<forall>u. u \<noteq> t \<longrightarrow> queue_view u s' = queue_view u s) \<and>
     (if told
      then (\<exists>(s1 :: content_db) s2 now fresh ch r. public_content_changed (tenant_session t) now fresh t ch s1 = (Inr r, s2)
             \<and> site_states s1 = site_states s \<and> build_requests s1 = build_requests s
             \<and> site_states s' = site_states s2 \<and> build_requests s' = build_requests s2)
      else site_states s' = site_states s \<and> build_requests s' = build_requests s)"

lemma checked_Inr:
  assumes "attempt (validate_document split rc (JObj d)) (\<lambda>doc.
       attempt (prepare py_repr split t public cover og doc s) (\<lambda>html. Inr (doc, html))) = Inr (doc, html)"
  shows "doc = d" "validate_document split rc (JObj d) = Inr d" "render_document py_repr split d = Inr html"
    "\<exists>ids. all_media_ids cover og d = Inr ids \<and> validate_media t public ids s = Inr ()"
  using assms by (auto simp: prepare_def attempt_def split: sum.splits dest: same_document)

lemma flush_post_Inr:
  "flush_post (tenant_session t) now p s = (Inr p', s') \<longleftrightarrow>
     p' = p\<lparr>post_updated_at := now\<rparr> \<and> post_constraints p' s \<and> s' = save_post (tenant_session t) p' s"
  by (auto simp: flush_post_def Let_def)

lemma save_post_facts [simp]:
  "posts (save_post cur p s) = save_row post_tenant_id post_id cur p (posts s)"
  "post_references (save_post cur p s) = post_references s" "site_states (save_post cur p s) = site_states s"
  "build_requests (save_post cur p s) = build_requests s" "beside_blog (save_post cur p s) = beside_blog s"
  "assets (save_post cur p s) = assets s" "queue_view u (save_post cur p s) = queue_view u s"
  by (simp_all add: save_post_def beside_blog_def queue_view_def)

lemma blog_audit_facts [simp]:
  "posts (blog_audit now p a x s) = posts s" "post_references (blog_audit now p a x s) = post_references s"
  "site_states (blog_audit now p a x s) = site_states s" "build_requests (blog_audit now p a x s) = build_requests s"
  "beside_blog (blog_audit now p a x s) = beside_blog s"
  "u \<noteq> post_tenant_id p \<Longrightarrow> queue_view u (blog_audit now p a x s) = queue_view u s"
  by (simp_all add: blog_audit_def audit_def beside_blog_def queue_view_def visible_insert_row_other)

lemma create_result:
  assumes "create (ce_repr V) (ce_split V) now d t actor b s = (Inr p, s')"
  shows "blog_step V t Drafted p p s s' \<and> announced_by t False s s'"
proof -
  from assms obtain doc html s1 where c: "attempt (validate_document (ce_split V) False (JObj (bc_document b))) (\<lambda>doc.
             attempt (prepare (ce_repr V) (ce_split V) t False (bc_cover b) (bc_og b) doc s) (\<lambda>html. Inr (doc, html))) = Inr (doc, html)"
    and p: "p = \<lparr>post_id = new_post d, post_tenant_id = t, post_kind_of = BLOG, post_title = bc_title b,
                   post_slug = bc_slug b, post_summary = bc_summary b, post_body = [], content_document = doc,
                   rendered_html = Some html, cover_image_id = bc_cover b, og_image_id = bc_og b,
                   seo_title = bc_seo_title b, seo_description = bc_seo_description b, event_date = None,
                   published_at = None, post_status = Status_DRAFT, post_locale = bc_locale b,
                   post_created_by = Some actor, post_updated_by = Some actor, post_created_at = now,
                   post_updated_at = now\<rparr>"
    and free: "\<not> key_taken post_id p (posts s)" "post_constraints p s"
    and sync: "sync_references (tenant_session t) (new_reference d) p doc (s\<lparr>posts := insert_row p (posts s)\<rparr>) = (Inr (), s1)"
    and s': "s' = blog_audit now p actor ''blog_post.created'' s1"
    by (auto simp: create_def Let_def and_then_eq_Inr split: sum.splits prod.splits if_splits)
  note C = checked_Inr [OF c]
  have doc: "doc = content_document p" by (simp add: p)
  note S = sync_Inr [OF sync doc]
  have "checked_post V False p s"
    using C by (auto simp: checked_post_def p)
  moreover have "unique_key post_id post_key p (posts s)"
    using free(2) by (simp add: post_constraints_def)
  moreover have "synced t p s s'"
    using S(1) by (simp add: synced_def s')
  moreover have "beside_blog s1 = beside_blog s"
    using S(7) by (simp add: beside_blog_def)
  moreover have "post_tenant_id p = t" "post_kind_of p = BLOG" "post_status p = Status_DRAFT" by (simp_all add: p)
  ultimately show ?thesis
    using free(1) S by (simp add: blog_step_def announced_by_def s') (simp add: queue_view_def)
qed

lemma announcedI:
  fixes s1 :: content_db
  assumes "public_content_changed (tenant_session t) now fresh t ch s1 = (Inr r, s2)"
    "site_states s1 = site_states s" "build_requests s1 = build_requests s"
    "site_states s' = site_states s2" "build_requests s' = build_requests s2"
    "\<And>u. u \<noteq> t \<Longrightarrow> queue_view u s1 = queue_view u s" "\<And>u. u \<noteq> t \<Longrightarrow> queue_view u s' = queue_view u s2"
  shows "announced_by t True s s'"
proof -
  have "queue_view u s' = queue_view u s" if "u \<noteq> t" for u
    using that assms(6,7) [OF that] changed_view [OF assms(1) that] by simp
  with assms show ?thesis unfolding announced_by_def by (simp only: if_True) blast
qed

lemma changed_tables:
  fixes s s' :: content_db
  assumes "public_content_changed cur now fresh t ch s = (out, s')"
  shows "posts s' = posts s" "post_references s' = post_references s" "beside_blog s' = beside_blog s"
proof -
  have "beyond_queue s' = beyond_queue s"
    using beyond_changed [of cur now fresh t ch s] assms by simp
  then show "posts s' = posts s" "post_references s' = post_references s" "beside_blog s' = beside_blog s"
    by (rule beyond_tables beyond_beside)+
qed

lemma told_result:
  assumes "and_then (public_content_changed (tenant_session t) now fresh t ch s2) (\<lambda>_ s. (Inr x, blog_audit now p actor what s)) = (Inr y, s')"
    "site_states s2 = site_states s" "build_requests s2 = build_requests s"
    "\<And>u. queue_view u s2 = queue_view u s" "post_tenant_id p = t"
  shows "announced_by t True s s'" "posts s' = posts s2" "post_references s' = post_references s2"
    "beside_blog s' = beside_blog s2" "y = x"
proof -
  from assms(1) obtain r s3 where told: "public_content_changed (tenant_session t) now fresh t ch s2 = (Inr r, s3)"
    and s': "s' = blog_audit now p actor what s3" and "y = x"
    by (auto simp: and_then_eq_Inr)
  then show "y = x" by blast
  note T = changed_tables [OF told]
  show "announced_by t True s s'"
    by (rule announcedI [OF told assms(2,3)]) (simp_all add: s' assms(4,5))
  show "posts s' = posts s2" "post_references s' = post_references s2" "beside_blog s' = beside_blog s2"
    using T by (simp_all add: s')
qed

text \<open>The part \<open>update\<close> and \<open>publish\<close> have in common.\<close>

lemma stored_result:
  assumes c: "attempt (validate_document (ce_split V) public (JObj (content_document p))) (\<lambda>doc.
        attempt (prepare (ce_repr V) (ce_split V) t public (cover_image_id p) (og_image_id p) doc s) (\<lambda>html.
          Inr (doc, html))) = Inr (doc, html)"
    and flush: "flush_post (tenant_session t) now p1 s = (Inr p', s1)"
    and sync: "sync_references (tenant_session t) fresh p' doc s1 = (Inr (), s2)"
    and p1: "content_document p1 = content_document p" "rendered_html p1 = Some html" "post_tenant_id p1 = t"
      "cover_image_id p1 = cover_image_id p" "og_image_id p1 = og_image_id p"
  shows "checked_post V public p' s" "synced t p' s s2" "unique_key post_id post_key p' (posts s)"
    "posts s2 = save_row post_tenant_id post_id (tenant_session t) p' (posts s)" "beside_blog s2 = beside_blog s"
    "site_states s2 = site_states s" "build_requests s2 = build_requests s" "p' = p1\<lparr>post_updated_at := now\<rparr>"
    "queue_view u s2 = queue_view u s"
proof -
  note C = checked_Inr [OF c]
  note F = flush [unfolded flush_post_Inr]
  have doc: "doc = content_document p'"
    using C(1) F p1 by simp
  note S = sync_Inr [OF sync doc]
  show "checked_post V public p' s"
    using C F p1 by (auto simp: checked_post_def)
  from F have "post_constraints p' s" by blast
  then show "unique_key post_id post_key p' (posts s)"
    by (simp add: post_constraints_def)
  show "synced t p' s s2" "posts s2 = save_row post_tenant_id post_id (tenant_session t) p' (posts s)"
    "beside_blog s2 = beside_blog s" "site_states s2 = site_states s" "build_requests s2 = build_requests s"
    "p' = p1\<lparr>post_updated_at := now\<rparr>" "queue_view u s2 = queue_view u s"
    using S F by (simp_all add: synced_def)
qed

lemma patched_post_keys [simp]:
  "post_id (patched_post u p) = post_id p" "post_tenant_id (patched_post u p) = post_tenant_id p"
  "post_kind_of (patched_post u p) = post_kind_of p" "post_status (patched_post u p) = post_status p"
  "published_at (patched_post u p) = published_at p"
  by (simp_all add: patched_post_def)

lemma update_result:
  assumes run: "update (ce_repr V) (ce_split V) now d t actor p0 u s = (Inr (p, changed), s')"
    and p0: "p0 \<in> set (posts s)" "post_tenant_id p0 = t" "post_kind_of p0 = BLOG"
  shows "if changed then blog_step V t Edited p0 p s s' \<and> announced_by t (post_status p0 = Status_PUBLISHED) s s'
    else s' = s \<and> p = p0"
proof (cases changed)
  case False
  with run show ?thesis
    by (auto simp: update_def Let_def and_then_eq_Inr split: sum.splits prod.splits if_splits)
next
  case True
  let ?p = "patched_post u p0" and ?public = "post_status p0 = Status_PUBLISHED"
  from run True obtain doc html s1 s2 where
    c: "attempt (validate_document (ce_split V) ?public (JObj (content_document ?p))) (\<lambda>doc.
        attempt (prepare (ce_repr V) (ce_split V) t ?public (cover_image_id ?p) (og_image_id ?p) doc s) (\<lambda>html.
          Inr (doc, html))) = Inr (doc, html)"
    and flush: "flush_post (tenant_session t) now (?p\<lparr>rendered_html := Some html, post_updated_by := Some actor\<rparr>) s = (Inr p, s1)"
    and sync: "sync_references (tenant_session t) (new_reference d) p doc s1 = (Inr (), s2)"
    and rest: "(if ?public
         then and_then (public_content_changed (tenant_session t) now (new_build d) t
                (blog_change ''published_blog_updated'' p actor) s2) (\<lambda>_ s.
                (Inr (p, True), blog_audit now p actor ''blog_post.published_updated'' s))
         else (Inr (p, True), s2)) = (Inr (p, True), s')"
    by (auto simp: update_def Let_def and_then_eq_Inr patched_post_keys split: sum.splits prod.splits if_splits)
  note S = stored_result [OF c flush sync, simplified patched_post_keys, simplified, OF p0(2)]
  have "announced_by t ?public s s' \<and> posts s' = posts s2 \<and> post_references s' = post_references s2
      \<and> beside_blog s' = beside_blog s2"
  proof (cases ?public)
    case True
    with told_result [OF rest [unfolded if_P [OF True]] S(6,7,9)] S(8) p0(2) show ?thesis by simp
  next
    case False
    with rest S(6,7,9) show ?thesis by (auto simp: announced_by_def)
  qed
  then have told: "announced_by t ?public s s'" and same: "posts s' = posts s2" "post_references s' = post_references s2"
    "beside_blog s' = beside_blog s2"
    by blast+
  have "synced t p s s'"
    using S(2) same(2) by (simp add: synced_def)
  with S p0 same told True show ?thesis
    by (auto simp: blog_step_def)
qed

lemma publish_result:
  assumes run: "publish (ce_repr V) (ce_split V) now d t actor p0 s = (Inr p, s')"
    and p0: "p0 \<in> set (posts s)" "post_tenant_id p0 = t" "post_kind_of p0 = BLOG"
  shows "if post_status p0 = Status_PUBLISHED then s' = s \<and> p = p0
    else blog_step V t Published p0 p s s' \<and> announced_by t True s s'"
proof (cases "post_status p0 = Status_PUBLISHED")
  case True
  with run show ?thesis by (simp add: publish_def)
next
  case False
  with run obtain doc html s1 s2 where
    c: "attempt (validate_document (ce_split V) True (JObj (content_document p0))) (\<lambda>doc.
        attempt (prepare (ce_repr V) (ce_split V) t True (cover_image_id p0) (og_image_id p0) doc s) (\<lambda>html.
          Inr (doc, html))) = Inr (doc, html)"
    and flush: "flush_post (tenant_session t) now
        (p0\<lparr>rendered_html := Some html, post_status := Status_PUBLISHED, published_at := Some now,
           post_updated_by := Some actor\<rparr>) s = (Inr p, s1)"
    and sync: "sync_references (tenant_session t) (new_reference d) p doc s1 = (Inr (), s2)"
    and rest: "and_then (public_content_changed (tenant_session t) now (new_build d) t
              (blog_change ''blog_published'' p actor) s2) (\<lambda>_ s.
              (Inr p, blog_audit now p actor ''blog_post.published'' s)) = (Inr p, s')"
    by (auto simp: publish_def Let_def and_then_eq_Inr split: sum.splits prod.splits if_splits)
  note S = stored_result [OF c flush sync, simplified, OF p0(2)]
  have "post_tenant_id p = t" using S(8) p0(2) by simp
  note T = told_result [OF rest S(6,7,9) this]
  have "synced t p s s'"
    using S(2) T(3) by (simp add: synced_def)
  with S p0 T False show ?thesis
    by (auto simp: blog_step_def)
qed

lemma archive_result:
  assumes run: "archive now d t actor p0 s = (Inr p, s')"
    and p0: "p0 \<in> set (posts s)" "post_tenant_id p0 = t" "post_kind_of p0 = BLOG"
  shows "if post_status p0 = Status_ARCHIVED then s' = s \<and> p = p0
    else blog_step V t Withdrawn p0 p s s' \<and> announced_by t (post_status p0 = Status_PUBLISHED) s s'"
proof (cases "post_status p0 = Status_ARCHIVED")
  case True
  with run show ?thesis by (simp add: archive_def)
next
  case False
  let ?public = "post_status p0 = Status_PUBLISHED"
  from run False obtain s1 s2 where
    flush: "flush_post (tenant_session t) now (p0\<lparr>post_status := Status_ARCHIVED, post_updated_by := Some actor\<rparr>) s = (Inr p, s1)"
    and told: "(if ?public
           then and_then (public_content_changed (tenant_session t) now (new_build d) t
                  (blog_change ''blog_archived'' p actor) s1) (\<lambda>_ s. (Inr (), s))
           else (Inr (), s1)) = (Inr (), s2)"
    and s': "s' = blog_audit now p actor ''blog_post.archived'' s2"
    by (auto simp: archive_def Let_def and_then_eq_Inr)
  note F = flush [unfolded flush_post_Inr]
  have "announced_by t ?public s s' \<and> posts s' = posts s1 \<and> post_references s' = post_references s1
      \<and> beside_blog s' = beside_blog s1"
  proof (cases ?public)
    case True
    have "and_then (public_content_changed (tenant_session t) now (new_build d) t (blog_change ''blog_archived'' p actor) s1)
        (\<lambda>_ s. (Inr (), blog_audit now p actor ''blog_post.archived'' s)) = (Inr (), s')"
      using told True by (auto simp: s' and_then_eq_Inr)
    have "site_states s1 = site_states s" "build_requests s1 = build_requests s" "\<And>u. queue_view u s1 = queue_view u s"
      "post_tenant_id p = t"
      using F p0(2) by simp_all
    from told_result [OF \<open>and_then _ _ = _\<close> this] True show ?thesis by simp
  next
    case False
    with told F p0(2) show ?thesis by (auto simp: announced_by_def s')
  qed
  moreover from F have "post_constraints p s" by blast
  then have "unique_key post_id post_key p (posts s)" by (simp add: post_constraints_def)
  ultimately show ?thesis
    using F p0 False by (simp add: blog_step_def)
qed

section \<open>The endpoints\<close>

lemma find_postD:
  "find_post (tenant_session t) i s = Inr p \<Longrightarrow> p \<in> set (posts s) \<and> post_tenant_id p = t \<and> post_kind_of p = BLOG \<and> post_id p = i"
  by (auto simp: find_post_def split: option.splits dest!: scalar_Some_in)

text \<open>What became of a post, and whether the build service was told.\<close>

fun told_of :: "blog_effect \<Rightarrow> post \<Rightarrow> bool" where
  "told_of Drafted p0 = False"
| "told_of Published p0 = True"
| "told_of what p0 = (post_status p0 = Status_PUBLISHED)"

definition blog_outcome :: "content_env \<Rightarrow> uuid \<Rightarrow> content_db \<Rightarrow> content_db \<Rightarrow> bool" where
  "blog_outcome V t s s' \<longleftrightarrow>
     s' = s \<or> (\<exists>what p0 p. blog_step V t what p0 p s s' \<and> announced_by t (told_of what p0) s s'
       \<and> (what = Published \<longrightarrow> post_status p0 \<noteq> Status_PUBLISHED))"

lemma blog_outcomeI:
  "blog_step V t what p0 p s s' \<Longrightarrow> announced_by t (told_of what p0) s s'
     \<Longrightarrow> (what = Published \<Longrightarrow> post_status p0 \<noteq> Status_PUBLISHED) \<Longrightarrow> blog_outcome V t s s'"
  unfolding blog_outcome_def by blast

lemma blog_outcome_refl [simp]: "blog_outcome V t s s"
  by (simp add: blog_outcome_def)

lemma create_blog_outcome:
  "blog_outcome V (ctx_tenant_id ctx) s (snd (create_blog_post (ce_repr V) (ce_split V) now d ctx who b s))"
  unfolding create_blog_post_def
proof (rule transaction_inv)
  fix x s'
  assume "guarded (attempt (blog_guard CONTENT_WRITE ctx who s) (\<lambda>_. validate_blog_create (ce_split V) b))
      (\<lambda>b. on_integrity_error blog_conflict
        (create (ce_repr V) (ce_split V) now d (ctx_tenant_id ctx) (pr_user_id who) b s)) s = (Inr x, s')"
  then obtain b' :: blog_create where "create (ce_repr V) (ce_split V) now d (ctx_tenant_id ctx) (pr_user_id who) b' s = (Inr x, s')"
    by (auto simp: guarded_def split: sum.splits)
  from create_result [OF this] show "blog_outcome V (ctx_tenant_id ctx) s s'"
    by (intro blog_outcomeI [of _ _ Drafted x x]) simp_all
qed simp

lemma update_blog_outcome:
  "blog_outcome V (ctx_tenant_id ctx) s (snd (update_blog_post (ce_repr V) (ce_split V) now d ctx who i b s))"
  unfolding update_blog_post_def
proof (rule transaction_inv)
  fix x s'
  let ?t = "ctx_tenant_id ctx"
  assume "guarded (attempt (blog_guard CONTENT_WRITE ctx who s) (\<lambda>_.
                attempt (validate_blog_update (ce_split V) b) (\<lambda>b.
                attempt (find_post (tenant_session ?t) i s) (\<lambda>p.
                attempt (if post_status p = Status_PUBLISHED then require_publish who else Inr ()) (\<lambda>_.
                  Inr (b, p)))))) (\<lambda>(b, p).
         and_then (on_integrity_error blog_conflict
           (update (ce_repr V) (ce_split V) now d ?t (pr_user_id who) p b s)) (\<lambda>(p, changed) s. (Inr p, s))) s = (Inr x, s')"
  then obtain b' p0 p changed where p0: "find_post (tenant_session ?t) i s = Inr p0"
    and run: "update (ce_repr V) (ce_split V) now d ?t (pr_user_id who) p0 b' s = (Inr (p, changed), s')"
    unfolding guarded_def attempt_def by (force simp: and_then_eq_Inr split: sum.splits)
  from find_postD [OF p0] have "p0 \<in> set (posts s)" "post_tenant_id p0 = ?t" "post_kind_of p0 = BLOG" by blast+
  from update_result [OF run this] show "blog_outcome V ?t s s'"
    by (auto split: if_split_asm intro: blog_outcomeI)
qed simp

lemma publish_blog_outcome:
  "blog_outcome V (ctx_tenant_id ctx) s (snd (publish_blog_post (ce_repr V) (ce_split V) now d ctx who i s))"
  unfolding publish_blog_post_def
proof (rule transaction_inv)
  fix x s'
  let ?t = "ctx_tenant_id ctx"
  assume "guarded (attempt (blog_guard CONTENT_PUBLISH ctx who s) (\<lambda>_. find_post (tenant_session ?t) i s)) (\<lambda>p.
         on_integrity_error blog_conflict (publish (ce_repr V) (ce_split V) now d ?t (pr_user_id who) p s)) s = (Inr x, s')"
  then obtain p0 where p0: "find_post (tenant_session ?t) i s = Inr p0"
    and run: "publish (ce_repr V) (ce_split V) now d ?t (pr_user_id who) p0 s = (Inr x, s')"
    by (auto simp: guarded_def attempt_def split: sum.splits)
  from find_postD [OF p0] have "p0 \<in> set (posts s)" "post_tenant_id p0 = ?t" "post_kind_of p0 = BLOG" by blast+
  from publish_result [OF run this] show "blog_outcome V ?t s s'"
    by (auto split: if_split_asm intro: blog_outcomeI)
qed simp

lemma archive_blog_outcome:
  "blog_outcome V (ctx_tenant_id ctx) s (snd (archive_blog_post now d ctx who i s))"
  unfolding archive_blog_post_def
proof (rule transaction_inv)
  fix x s'
  let ?t = "ctx_tenant_id ctx"
  assume "guarded (attempt (blog_guard CONTENT_PUBLISH ctx who s) (\<lambda>_. find_post (tenant_session ?t) i s)) (\<lambda>p.
         archive now d ?t (pr_user_id who) p s) s = (Inr x, s')"
  then obtain p0 where p0: "find_post (tenant_session ?t) i s = Inr p0"
    and run: "archive now d ?t (pr_user_id who) p0 s = (Inr x, s')"
    by (auto simp: guarded_def attempt_def split: sum.splits)
  from find_postD [OF p0] have "p0 \<in> set (posts s)" "post_tenant_id p0 = ?t" "post_kind_of p0 = BLOG" by blast+
  from archive_result [OF run this, of V] show "blog_outcome V ?t s s'"
    by (auto split: if_split_asm intro: blog_outcomeI)
qed simp

text \<open>The endpoints beside the blog and the posts.\<close>

definition side_outcome :: "uuid \<Rightarrow> content_db \<Rightarrow> content_db \<Rightarrow> bool" where
  "side_outcome t s s' \<longleftrightarrow> (\<exists>s1. (s1 = s \<or> side_step t s s1) \<and> aside t s1 s')"

lemma side_outcome_refl [simp]: "side_outcome t s s"
  using aside_refl unfolding side_outcome_def by blast

lemma side_outcome_step: "side_step t s s' \<Longrightarrow> side_outcome t s s'"
  using aside_refl unfolding side_outcome_def by blast

lemma side_outcome_aside: "aside t s s' \<Longrightarrow> side_outcome t s s'"
  unfolding side_outcome_def by blast

lemma create_item_outcome: "side_outcome (ctx_tenant_id ctx) s (snd (create_gallery_item now fresh ctx who album b s))"
  unfolding create_gallery_item_def
  by (rule transaction_inv) (auto simp: guarded_def split: sum.splits intro: side_outcome_aside item_aside)

lemma replace_outcome: "side_outcome (ctx_tenant_id ctx) s (snd (replace_school_profile url now d ctx who b s))"
  unfolding replace_school_profile_def
  by (rule transaction_inv) (auto simp: guarded_def split: sum.splits intro: side_outcome_aside replace_aside)

lemma reset_outcome: "side_outcome (ctx_tenant_id ctx) s (snd (reset_school_profile now ctx who s))"
  unfolding reset_school_profile_def
  by (rule transaction_inv) (auto simp: guarded_def split: sum.splits intro: side_outcome_aside reset_aside)

lemma offering_owner:
  "resource_create offering_entity now fresh t actor b s = (Inr e, s1) \<Longrightarrow> exam_tenant_id e = t"
  "resource_update offering_entity now t actor b e0 s = (Inr e, s1) \<Longrightarrow> exam_tenant_id e = exam_tenant_id e0"
  by (auto simp: resource_create_def resource_update_def Let_def guarded_def offering_entity_def new_offering_def
      write_offering_def split: sum.splits if_splits)

lemma create_exam_outcome: "side_outcome (ctx_tenant_id ctx) s (snd (create_exam now fresh ctx who b s))"
  unfolding create_exam_def
proof (rule transaction_inv)
  fix x s'
  let ?t = "ctx_tenant_id ctx"
  assume "guarded (attempt (admin_guard None CONTENT_WRITE ctx who s) (\<lambda>_. validate_offering_write b)) (\<lambda>b.
         on_integrity_error resource_conflict
           (and_then (resource_create offering_entity now fresh ?t (pr_user_id who) b s) (\<lambda>e s.
            and_then (set_exam_plans (tenant_session ?t) e (ow_plan_ids b) s) (\<lambda>_ s.
              (Inr (e, ow_plan_ids b), s))))) s = (Inr x, s')"
  then obtain b' e s1 u where e: "resource_create offering_entity now fresh ?t (pr_user_id who) b' s = (Inr e, s1)"
    and plans: "set_exam_plans (tenant_session ?t) e (ow_plan_ids b') s1 = (Inr u, s')"
    by (auto simp: guarded_def and_then_eq_Inr split: sum.splits)
  have "side_step ?t s s1"
    using offerings.create_step [OF e] by (simp add: side_step_def)
  with plans_aside [OF plans offering_owner(1) [OF e]] show "side_outcome ?t s s'"
    unfolding side_outcome_def by blast
qed simp

lemma update_exam_outcome: "side_outcome (ctx_tenant_id ctx) s (snd (update_exam now ctx who i b s))"
  unfolding update_exam_def
proof (rule transaction_inv)
  fix x s'
  let ?t = "ctx_tenant_id ctx"
  assume "guarded (attempt (admin_guard None CONTENT_WRITE ctx who s) (\<lambda>_.
                attempt (validate_offering_write b) (\<lambda>b.
                attempt (resource_get offering_entity (tenant_session ?t) i s) (\<lambda>e. Inr (b, e))))) (\<lambda>(b, e).
         on_integrity_error resource_conflict
           (and_then (resource_update offering_entity now ?t (pr_user_id who) b e s) (\<lambda>e s.
            and_then (set_exam_plans (tenant_session ?t) e (ow_plan_ids b) s) (\<lambda>_ s.
              (Inr (e, ow_plan_ids b), s))))) s = (Inr x, s')"
  then obtain b' e0 e s1 u where e0: "resource_get offering_entity (tenant_session ?t) i s = Inr e0"
    and e: "resource_update offering_entity now ?t (pr_user_id who) b' e0 s = (Inr e, s1)"
    and plans: "set_exam_plans (tenant_session ?t) e (ow_plan_ids b') s1 = (Inr u, s')"
    by (auto simp: guarded_def attempt_def and_then_eq_Inr split: sum.splits)
  note G = offerings.get_Inr [OF e0]
  have "side_step ?t s s1"
    using offerings.update_step [OF e] G by (simp add: side_step_def)
  moreover have "exam_tenant_id e = ?t"
    using offering_owner(2) [OF e] G by (simp add: offering_entity_def)
  ultimately show "side_outcome ?t s s'"
    using plans_aside [OF plans] unfolding side_outcome_def by blast
qed simp

text \<open>The contact form and the handling of its requests.\<close>

definition contacts_only :: "uuid \<Rightarrow> content_db \<Rightarrow> content_db \<Rightarrow> bool" where
  "contacts_only t s s' \<longleftrightarrow> blog_part s' = blog_part s \<and> class_tables s' = class_tables s
     \<and> (\<forall>u. u \<noteq> t \<longrightarrow> content_view u s' = content_view u s)"

definition contact_added :: "instant \<Rightarrow> uuid \<Rightarrow> content_db \<Rightarrow> content_db \<Rightarrow> bool" where
  "contact_added now t s s' \<longleftrightarrow>
     (\<exists>r. contact_requests s' = insert_row r (contact_requests s) \<and> \<not> key_taken cr_id r (contact_requests s)
        \<and> cr_tenant_id r = t \<and> cr_created_at r = now
        \<and> contact_attempts (tenant_session t) now (cr_request_ip_hash r) (cr_phone_number r) s < 5)"

lemma contact_form_outcome:
  "snd (create_contact_request hash now fresh ctx client b s) = s
     \<or> contacts_only (ctx_tenant_id ctx) s (snd (create_contact_request hash now fresh ctx client b s))
       \<and> contact_added now (ctx_tenant_id ctx) s (snd (create_contact_request hash now fresh ctx client b s))"
  unfolding create_contact_request_def
proof (rule transaction_inv)
  fix x s'
  let ?t = "ctx_tenant_id ctx"
  assume "guarded (attempt (feature_guard (lit ''contact_requests'') ctx s) (\<lambda>_. validate_contact_create b)) (\<lambda>b.
         let ip_hash = hash (or_default client (lit ''unknown''));
             r = contact_of now fresh ?t ip_hash b
         in if contact_attempts (tenant_cursor ctx) now ip_hash (cc_phone_number b) s \<ge> 5
            then (Inl (app_error ''CONTACT_REQUEST_RATE_LIMITED'' 429), s)
            else if key_taken cr_id r (contact_requests s) then (Inl IntegrityError, s)
            else (Inr (cr_id r, cr_status r), s\<lparr>contact_requests := insert_row r (contact_requests s)\<rparr>)) s = (Inr x, s')"
  then obtain v where body: "(let ip_hash = hash (or_default client (lit ''unknown''));
             r = contact_of now fresh ?t ip_hash v
         in if contact_attempts (tenant_cursor ctx) now ip_hash (cc_phone_number v) s \<ge> 5
            then (Inl (app_error ''CONTACT_REQUEST_RATE_LIMITED'' 429), s)
            else if key_taken cr_id r (contact_requests s) then (Inl IntegrityError, s)
            else (Inr (cr_id r, cr_status r), s\<lparr>contact_requests := insert_row r (contact_requests s)\<rparr>)) = (Inr x, s')"
    by (blast dest: guarded_Inr)
  define ip where "ip = hash (or_default client (lit ''unknown''))"
  define r where "r = contact_of now fresh ?t ip v"
  have r: "contact_attempts (tenant_session ?t) now ip (cc_phone_number v) s < 5" "\<not> key_taken cr_id r (contact_requests s)"
    and s': "s' = s\<lparr>contact_requests := insert_row r (contact_requests s)\<rparr>"
    using body unfolding Let_def tenant_cursor_def ip_def [symmetric] r_def [symmetric] by (simp_all split: if_split_asm)
  have "contact_added now ?t s s'"
    unfolding contact_added_def s' using r by (intro exI [of _ r]) (simp add: r_def contact_of_def)
  moreover have "contacts_only ?t s s'"
    by (auto simp: s' contacts_only_def blog_part_def class_tables_def view_defs isolation r_def contact_of_def)
  ultimately show "s' = s \<or> contacts_only ?t s s' \<and> contact_added now ?t s s'" by blast
qed simp

definition contact_handled :: "uuid \<Rightarrow> content_db \<Rightarrow> content_db \<Rightarrow> bool" where
  "contact_handled t s s' \<longleftrightarrow>
     (\<exists>c. contact_requests s' = save_row cr_tenant_id cr_id (tenant_session t) c (contact_requests s) \<and> cr_tenant_id c = t
        \<and> (\<exists>c0\<in>set (contact_requests s). cr_tenant_id c0 = t \<and> cr_id c = cr_id c0
             \<and> cr_created_at c = cr_created_at c0 \<and> cr_phone_number c = cr_phone_number c0
             \<and> cr_request_ip_hash c = cr_request_ip_hash c0))"

lemma handle_outcome:
  "snd (handle_contact_request now ctx who i b s) = s
     \<or> contacts_only (ctx_tenant_id ctx) s (snd (handle_contact_request now ctx who i b s))
       \<and> contact_handled (ctx_tenant_id ctx) s (snd (handle_contact_request now ctx who i b s))"
  unfolding handle_contact_request_def
proof (rule transaction_inv)
  fix x s'
  let ?t = "ctx_tenant_id ctx"
  assume "guarded (attempt (admin_guard (Some (lit ''contact_requests'')) REGISTRATION_WRITE ctx who s) (\<lambda>_.
                attempt (validate_contact_update b) (\<lambda>b.
                (case get_row cr_tenant_id cr_id (tenant_session ?t) i (contact_requests s) of
                   None \<Rightarrow> Inl not_found | Some c \<Rightarrow> Inr (b, c))))) (\<lambda>(b, c).
         handle_contact now (pr_user_id who) c b s) s = (Inr x, s')"
  then have "\<exists>c0 (b' :: contact_update). get_row cr_tenant_id cr_id (tenant_session ?t) i (contact_requests s) = Some c0
      \<and> handle_contact now (pr_user_id who) c0 b' s = (Inr x, s')"
    by (auto simp: guarded_def attempt_def split: sum.splits option.splits)
  then obtain c0 and b' :: contact_update where c0: "get_row cr_tenant_id cr_id (tenant_session ?t) i (contact_requests s) = Some c0"
    and run: "handle_contact now (pr_user_id who) c0 b' s = (Inr x, s')"
    by blast
  from get_rowD [OF c0] have in0: "c0 \<in> set (contact_requests s)" "cr_tenant_id c0 = ?t" by simp_all
  define c where "c = c0\<lparr>cr_status := cu_status b', cr_internal_notes := cu_internal_notes b',
      handled_by := Some (pr_user_id who), handled_at := Some now\<rparr>"
  have s': "s' = audit now ?t (pr_user_id who) ''contact_request.handled'' ''contact_request'' (cr_id c)
      (s\<lparr>contact_requests := save_row cr_tenant_id cr_id (tenant_session ?t) c (contact_requests s)\<rparr>)"
    using run in0(2) by (auto simp: handle_contact_def Let_def c_def)
  have "contact_handled ?t s s'"
    unfolding contact_handled_def s' using in0
    by (intro exI [of _ c] conjI bexI [of _ c0]) (simp_all add: c_def audit_aside)
  moreover have "contacts_only ?t s s'"
    using in0(2) unfolding s'
    by (simp add: contacts_only_def audit_aside) (auto simp: blog_part_def class_tables_def view_defs isolation c_def)
  ultimately show "s' = s \<or> contacts_only ?t s s' \<and> contact_handled ?t s s'" by blast
qed simp

text \<open>Media: an asset that is ready stays as it is.\<close>

definition assets_kept :: "content_db \<Rightarrow> content_db \<Rightarrow> bool" where
  "assets_kept s s' \<longleftrightarrow>
     (\<forall>t i m. asset_of t i s = Some m \<longrightarrow>
        (case asset_of t i s' of None \<Rightarrow> False | Some m' \<Rightarrow> media_status m = Media_READY \<longrightarrow> m' = m))"

lemma assets_kept_same: "assets s' = assets s \<Longrightarrow> assets_kept s s'"
  by (simp add: assets_kept_def asset_of_def)

lemma assets_kept_refl [simp]: "assets_kept s s"
  by (simp add: assets_kept_same)

lemma assets_kept_trans:
  assumes "assets_kept s s1" "assets_kept s1 s2"
  shows "assets_kept s s2"
  unfolding assets_kept_def
proof (intro allI impI)
  fix t i m assume "asset_of t i s = Some m"
  with assms(1) obtain m1 where m1: "asset_of t i s1 = Some m1" "media_status m = Media_READY \<longrightarrow> m1 = m"
    unfolding assets_kept_def by (fastforce split: option.splits)
  with assms(2) obtain m2 where "asset_of t i s2 = Some m2" "media_status m1 = Media_READY \<longrightarrow> m2 = m1"
    unfolding assets_kept_def by (fastforce split: option.splits)
  with m1 show "case asset_of t i s2 of None \<Rightarrow> False | Some m' \<Rightarrow> media_status m = Media_READY \<longrightarrow> m' = m"
    by simp
qed

lemma asset_of_row: "asset_of t i s = get_row media_tenant_id media_id (tenant_session t) i (assets s)"
proof -
  have "find (\<lambda>m. media_id m = i \<and> media_tenant_id m = t) rows = get_row media_tenant_id media_id (tenant_session t) i rows" for rows
    by (induction rows) (auto simp: get_row_Cons)
  then show ?thesis by (simp add: asset_of_def)
qed

definition media_only :: "uuid \<Rightarrow> content_db \<Rightarrow> content_db \<Rightarrow> bool" where
  "media_only t s s' \<longleftrightarrow> (\<exists>rs. s' = s\<lparr>assets := rs\<rparr>) \<and> assets_kept s s'
     \<and> (\<forall>u. u \<noteq> t \<longrightarrow> content_view u s' = content_view u s)"

lemma media_only_refl: "media_only t s s"
  unfolding media_only_def by (intro conjI exI [of _ "assets s"]) simp_all

lemma shared_assets [simp]: "media (shared_tables s) = assets s"
  by (simp add: shared_tables_def)

lemma on_media_cases:
  assumes "media (snd (f (shared_tables s))) = assets s \<or> (\<exists>rs. media (snd (f (shared_tables s))) = rs \<and> media_only t s (s\<lparr>assets := rs\<rparr>))"
  shows "media_only t s (on_media f s)"
  using assms media_only_refl [of t s] by (auto simp: on_media_def)

lemma media_only_insert:
  assumes "media_tenant_id m = t"
  shows "media_only t s (s\<lparr>assets := insert_row m (assets s)\<rparr>)"
proof -
  have "get_row tid rid cur i (insert_row r rows) =
      (case get_row tid rid cur i rows of None \<Rightarrow> get_row tid rid cur i [r] | Some x \<Rightarrow> Some x)"
    for tid rid cur i r and rows :: "media_asset list"
    by (simp add: insert_row_def get_row_append)
  then have "assets_kept s (s\<lparr>assets := insert_row m (assets s)\<rparr>)"
    by (simp add: assets_kept_def asset_of_row)
  then show ?thesis
    using assms by (auto simp: media_only_def view_defs visible_insert_row_other)
qed

lemma media_only_save:
  assumes "get_row media_tenant_id media_id (tenant_session t) i (assets s) = Some m0" "media_status m0 \<noteq> Media_READY"
    "media_tenant_id m = t" "media_id m = i"
  shows "media_only t s (s\<lparr>assets := save_row media_tenant_id media_id (tenant_session t) m (assets s)\<rparr>)"
proof -
  let ?s' = "s\<lparr>assets := save_row media_tenant_id media_id (tenant_session t) m (assets s)\<rparr>"
  have own: "asset_of t j ?s' = (if j = i then Some m else asset_of t j s)" for j
    using assms by (simp add: asset_of_row get_row_save_row)
  have other: "asset_of u j ?s' = asset_of u j s" if "u \<noteq> t" for u j
    using that assms(3) by (simp add: asset_of_row get_row_visible [OF visible_save_row_other])
  have "assets_kept s ?s'"
    unfolding assets_kept_def
  proof (intro allI impI)
    fix u j x assume x: "asset_of u j s = Some x"
    show "case asset_of u j ?s' of None \<Rightarrow> False | Some m' \<Rightarrow> media_status x = Media_READY \<longrightarrow> m' = x"
      using x own [of j] other [of u j] assms(1,2) by (cases "u = t"; cases "j = i") (simp_all add: asset_of_row)
  qed
  then show ?thesis
    using assms by (auto simp: media_only_def view_defs visible_save_row_other)
qed

lemma start_upload_outcome: "media_only t s (on_media (transaction (initiate_upload presign c t i nonce b)) s)"
proof (rule on_media_cases)
  let ?out = "transaction (initiate_upload presign c t i nonce b) (shared_tables s)"
  have "media (snd ?out) = assets s \<or> (\<exists>m. media (snd ?out) = insert_row m (assets s) \<and> media_tenant_id m = t)"
  proof (rule transaction_inv)
    fix x r'
    assume run: "initiate_upload presign c t i nonce b (shared_tables s) = (Inr x, r')"
    then obtain ext where ext: "allowed_extension c b = Some ext"
      by (auto simp: initiate_upload_def split: option.splits)
    let ?m = "pending_asset t i nonce ext b (up_alt_text b) (up_visibility b)"
    have "r' = (shared_tables s)\<lparr>media := insert_row ?m (media (shared_tables s))\<rparr>"
      using run ext unfolding initiate_upload_def Let_def by (simp split: if_split_asm)
    then show "media r' = assets s \<or> (\<exists>m. media r' = insert_row m (assets s) \<and> media_tenant_id m = t)"
      by (intro disjI2 exI [of _ ?m]) (simp add: pending_asset_def)
  qed simp
  then show "media (snd ?out) = assets s \<or> (\<exists>rs. media (snd ?out) = rs \<and> media_only t s (s\<lparr>assets := rs\<rparr>))"
    using media_only_insert by blast
qed

lemma finish_upload_outcome: "media_only t s (on_media (complete_upload_request head (tenant_session t) i b) s)"
  unfolding complete_upload_request_def
proof (rule on_media_cases)
  let ?r = "shared_tables s"
  let ?out = "transaction (complete_upload head (tenant_session t) i b) ?r"
  show "media (snd ?out) = assets s \<or> (\<exists>rs. media (snd ?out) = rs \<and> media_only t s (s\<lparr>assets := rs\<rparr>))"
  proof (rule transaction_inv)
    fix x r'
    assume run: "complete_upload head (tenant_session t) i b ?r = (Inr x, r')"
    then obtain m0 where m0: "get_media (tenant_session t) i ?r = Some m0"
      by (auto simp: complete_upload_def split: option.splits)
    show "media r' = assets s \<or> (\<exists>rs. media r' = rs \<and> media_only t s (s\<lparr>assets := rs\<rparr>))"
    proof (cases "media_status m0 = Media_READY")
      case True
      with run m0 show ?thesis by (auto simp: complete_upload_def)
    next
      case False
      with run m0 have "r' = save_media (tenant_session t) (mark_ready b m0) ?r"
        by (auto simp: complete_upload_def split: sum.splits option.splits if_splits)
      moreover have "media_only t s (s\<lparr>assets := save_row media_tenant_id media_id (tenant_session t) (mark_ready b m0) (assets s)\<rparr>)"
        using False m0 get_rowD(2,3) [OF m0] by (intro media_only_save [of _ i]) (simp_all add: mark_ready_def)
      ultimately show ?thesis by simp
    qed
  qed simp
qed

section \<open>What an event does\<close>

text \<open>The posts a generic archiving request is about.\<close>

fun archives :: "content_event \<Rightarrow> post \<Rightarrow> bool" where
  "archives (Admin now ctx who (Archive_resource res i)) p =
     (res = lit ''posts'' \<and> post_id p = i \<and> post_tenant_id p = ctx_tenant_id ctx)"
| "archives e p = False"

definition contact_effect :: "content_event \<Rightarrow> uuid \<Rightarrow> content_db \<Rightarrow> content_db \<Rightarrow> bool" where
  "contact_effect e t s s' \<longleftrightarrow>
     (case e of
        Contact_form now i ctx client b \<Rightarrow> contact_added now t s s'
      | _ \<Rightarrow> contact_handled t s s')"

lemma side_outcomeI: "s' = s \<or> class_step E t any_row s s' \<Longrightarrow> (\<And>s'. class_step E t any_row s s' \<Longrightarrow> side_step t s s') \<Longrightarrow> side_outcome t s s'"
  using side_outcome_step by auto

lemma class_outcomes:
  "side_outcome (ctx_tenant_id ctx) s (snd (create_banner v now i ctx who b_banner s))"
  "side_outcome (ctx_tenant_id ctx) s (snd (update_banner v now ctx who i b_banner s))"
  "side_outcome (ctx_tenant_id ctx) s (snd (create_honor_category now i ctx who b_category s))"
  "side_outcome (ctx_tenant_id ctx) s (snd (update_honor_category now ctx who i b_category s))"
  "side_outcome (ctx_tenant_id ctx) s (snd (create_honor now i ctx who b_honor s))"
  "side_outcome (ctx_tenant_id ctx) s (snd (update_honor now ctx who i b_honor s))"
  "side_outcome (ctx_tenant_id ctx) s (snd (create_staff v now i ctx who b_staff s))"
  "side_outcome (ctx_tenant_id ctx) s (snd (update_staff v now ctx who i b_staff s))"
  "side_outcome (ctx_tenant_id ctx) s (snd (create_pricing now i ctx who b_plan s))"
  "side_outcome (ctx_tenant_id ctx) s (snd (update_pricing_plan now ctx who i b_plan s))"
  "side_outcome (ctx_tenant_id ctx) s (snd (create_sample_exam now i ctx who b_sample s))"
  "side_outcome (ctx_tenant_id ctx) s (snd (update_sample_exam now ctx who i b_sample s))"
  "side_outcome (ctx_tenant_id ctx) s (snd (create_gallery now i ctx who b_album s))"
  "side_outcome (ctx_tenant_id ctx) s (snd (update_gallery_album now ctx who i b_album s))"
  unfolding create_banner_def update_banner_def create_honor_category_def update_honor_category_def create_honor_def update_honor_def create_staff_def update_staff_def create_pricing_def update_pricing_plan_def create_sample_exam_def update_sample_exam_def create_gallery_def update_gallery_album_def
    apply (rule side_outcomeI [OF banners.create_resource_step], simp add: side_step_def)
    apply (rule side_outcomeI [OF banners.update_resource_step], simp add: side_step_def)
    apply (rule side_outcomeI [OF categories.create_resource_step], simp add: side_step_def)
    apply (rule side_outcomeI [OF categories.update_resource_step], simp add: side_step_def)
    apply (rule side_outcomeI [OF honors.create_resource_step], simp add: side_step_def)
    apply (rule side_outcomeI [OF honors.update_resource_step], simp add: side_step_def)
    apply (rule side_outcomeI [OF staff.create_resource_step], simp add: side_step_def)
    apply (rule side_outcomeI [OF staff.update_resource_step], simp add: side_step_def)
    apply (rule side_outcomeI [OF plans.create_resource_step], simp add: side_step_def)
    apply (rule side_outcomeI [OF plans.update_resource_step], simp add: side_step_def)
    apply (rule side_outcomeI [OF samples.create_resource_step], simp add: side_step_def)
    apply (rule side_outcomeI [OF samples.update_resource_step], simp add: side_step_def)
    apply (rule side_outcomeI [OF albums.create_resource_step], simp add: side_step_def)
    apply (rule side_outcomeI [OF albums.update_resource_step], simp add: side_step_def)
  done

lemma action_cases:
  "side_outcome (ctx_tenant_id ctx) s (content_action_step V now ctx who a s)
   \<or> (contacts_only (ctx_tenant_id ctx) s (content_action_step V now ctx who a s)
       \<and> contact_handled (ctx_tenant_id ctx) s (content_action_step V now ctx who a s))
   \<or> class_step post_entity (ctx_tenant_id ctx) (post_ok (archives (Admin now ctx who a)) s) s (content_action_step V now ctx who a s)
   \<or> blog_outcome V (ctx_tenant_id ctx) s (content_action_step V now ctx who a s)"
proof -
  let ?t = "ctx_tenant_id ctx"
  have same: "x = s \<Longrightarrow> side_outcome ?t s x" for x by simp
  show ?thesis
  proof (cases a)
    case (Create_post i b)
    then show ?thesis using create_post_step [of now i ctx who b s "archives (Admin now ctx who a)"] same by auto
  next
    case (Update_post i b)
    then show ?thesis using update_post_step [of now ctx who i b s "archives (Admin now ctx who a)"] same by auto
  next
    case (Handle_contact i b)
    then show ?thesis using handle_outcome [of now ctx who i b s] same by auto
  next
    case (Archive_resource res i)
    show ?thesis
    proof (cases "res = lit ''posts''")
      case True
      then have "archives (Admin now ctx who a) = (\<lambda>p. post_id p = i \<and> post_tenant_id p = ?t)"
        by (intro ext) (simp add: Archive_resource)
      with archive_resource_step [of now ctx who res i s] same side_outcome_step Archive_resource show ?thesis by auto
    next
      case False
      with archive_resource_step [of now ctx who res i s] same side_outcome_step Archive_resource show ?thesis by auto
    qed
  qed (simp_all add: create_blog_outcome update_blog_outcome publish_blog_outcome archive_blog_outcome
      create_item_outcome create_exam_outcome update_exam_outcome replace_outcome reset_outcome class_outcomes)
qed

lemma content_step_cases:
  obtains (side) t where "event_tenant_of e = Some t" "side_outcome t s (content_step V e s)"
  | (contacts) t where "event_tenant_of e = Some t" "contacts_only t s (content_step V e s)"
      "contact_effect e t s (content_step V e s)"
  | (post) t where "event_tenant_of e = Some t" "class_step post_entity t (post_ok (archives e) s) s (content_step V e s)"
  | (blog) t where "event_tenant_of e = Some t" "blog_outcome V t s (content_step V e s)"
  | (build) q where "e = Build q" "content_step V e s = queue_step (ce_settings V) q s"
  | (media) t where "event_tenant_of e = Some t" "media_only t s (content_step V e s)"
proof (cases e)
  case (Admin now ctx who a)
  with action_cases [of ctx s V now who a] show thesis
    by (auto simp: contact_effect_def intro: that)
next
  case (Contact_form now i ctx client b)
  with contact_form_outcome [of "ce_hash V" now i ctx client b s] show thesis
    by (auto simp: contact_effect_def intro: that)
next
  case (Build q)
  then show thesis by (intro build) simp_all
next
  case (Start_upload t i nonce b)
  then have "media_only t s (content_step V e s)"
    by (simp add: start_upload_outcome media_only_refl split: sum.split)
  with Start_upload show thesis by (intro media [of t]) simp_all
next
  case (Finish_upload t i b found)
  then have "media_only t s (content_step V e s)"
    by (simp add: finish_upload_outcome media_only_refl split: sum.split)
  with Finish_upload show thesis by (intro media [of t]) simp_all
qed

end
