(* ===== verification/ContentProperties.thy ===== *)
theory ContentProperties
  imports ContentHistory
begin

text \<open>
  What holds of the content in every history: posts and their documents, references and media are
  consistent, a snapshot of the blog is explained by the moments its statements saw, contact requests stay within their limit,
  tenants do not touch each other's content, and archived content stays archived.
\<close>

section \<open>Posts\<close>

definition refs_of :: "content_db \<Rightarrow> post \<Rightarrow> post_reference list" where
  "refs_of s p = filter (\<lambda>r. ref_post_id r = post_id p) (post_references s)"

definition usable :: "content_db \<Rightarrow> post \<Rightarrow> uuid \<Rightarrow> bool" where
  "usable s p i \<longleftrightarrow>
     (case asset_of (post_tenant_id p) i s of
        None \<Rightarrow> False
      | Some m \<Rightarrow> post_status p = Status_PUBLISHED \<longrightarrow> media_status m = Media_READY \<and> media_visibility m = Vis_PUBLIC)"

definition blog_post_ok :: "content_env \<Rightarrow> content_db \<Rightarrow> post \<Rightarrow> bool" where
  "blog_post_ok V s p \<longleftrightarrow>
     validate_document (ce_split V) (post_status p = Status_PUBLISHED) (JObj (content_document p)) = Inr (content_document p)
     \<and> map_option Inr (rendered_html p) = Some (render_document (ce_repr V) (ce_split V) (content_document p))
     \<and> referenced_media_ids (content_document p) = Inr (map ref_media_id (refs_of s p))
     \<and> list_all (usable s p) (map ref_media_id (refs_of s p) @ List.map_filter (\<lambda>v. v) [cover_image_id p, og_image_id p])
     \<and> (post_status p = Status_PUBLISHED \<longrightarrow> published_at p \<noteq> None)"

definition owned :: "content_db \<Rightarrow> post_reference \<Rightarrow> bool" where
  "owned s r \<longleftrightarrow> (ref_post_id r, ref_tenant_id r) \<in> (\<lambda>p. (post_id p, post_tenant_id p)) ` set (posts s)"

abbreviation same_key :: "post \<Rightarrow> post \<Rightarrow> bool" where
  "same_key p q \<equiv> post_key p = post_key q"

definition blog_inv :: "content_env \<Rightarrow> content_db \<Rightarrow> bool" where
  "blog_inv V s \<longleftrightarrow>
     distinct (map post_id (posts s)) \<and> exclusive post_id same_key (posts s) \<and> (\<forall>r\<in>set (post_references s). owned s r)
     \<and> (\<forall>p\<in>set (posts s). post_kind_of p = BLOG \<longrightarrow> blog_post_ok V s p)"

lemma blog_invD:
  assumes "blog_inv V s"
  shows "distinct (map post_id (posts s))" "exclusive post_id same_key (posts s)"
    "r \<in> set (post_references s) \<Longrightarrow> owned s r" "p \<in> set (posts s) \<Longrightarrow> post_kind_of p = BLOG \<Longrightarrow> blog_post_ok V s p"
    "p \<in> set (posts s) \<Longrightarrow> q \<in> set (posts s) \<Longrightarrow> post_id p = post_id q \<Longrightarrow> p = q"
  using assms by (auto simp: blog_inv_def distinct_map dest: inj_onD)

lemma blog_inv_empty: "blog_inv V (without_content s)"
  by (simp add: blog_inv_def without_content_def)

text \<open>Only assets and references matter to a post beside its row.\<close>

lemma blog_post_ok_mono:
  assumes "blog_post_ok V s p" "assets_kept s s'" "refs_of s' p = refs_of s p"
  shows "blog_post_ok V s' p"
proof -
  have "usable s' p i" if "usable s p i" for i
    using that assms(2) unfolding usable_def assets_kept_def by (fastforce split: option.splits)
  then have "list_all (usable s p) xs \<Longrightarrow> list_all (usable s' p) xs" for xs
    by (simp add: list_all_iff)
  with assms show ?thesis by (simp add: blog_post_ok_def)
qed

lemma blog_inv_same:
  assumes "blog_inv V s" "posts s' = posts s" "post_references s' = post_references s" "assets_kept s s'"
  shows "blog_inv V s'"
  using assms(1) blog_post_ok_mono [OF _ assms(4)]
  by (simp add: blog_inv_def assms(2,3) owned_def refs_of_def)

section \<open>A row put into the table of posts\<close>

definition placed :: "uuid \<Rightarrow> post \<Rightarrow> post list \<Rightarrow> post list \<Rightarrow> bool" where
  "placed t p rows rows' \<longleftrightarrow> post_tenant_id p = t \<and> unique_key post_id post_key p rows
     \<and> (\<not> key_taken post_id p rows \<and> rows' = insert_row p rows
        \<or> (\<exists>p0\<in>set rows. post_id p = post_id p0 \<and> post_tenant_id p0 = t
             \<and> rows' = save_row post_tenant_id post_id (tenant_session t) p rows))"

lemma placed_in:
  assumes "placed t p rows rows'" "distinct (map post_id rows)" "x \<in> set rows'"
  shows "x = p \<or> x \<in> set rows \<and> post_id x \<noteq> post_id p"
proof -
  from assms(1) consider "\<not> key_taken post_id p rows" "rows' = insert_row p rows"
    | p0 where "p0 \<in> set rows" "post_id p = post_id p0" "post_tenant_id p0 = t"
        "rows' = save_row post_tenant_id post_id (tenant_session t) p rows"
    unfolding placed_def by blast
  then show ?thesis
  proof cases
    case 1
    with assms(3) show ?thesis by (simp add: key_taken_iff) (metis imageI)
  next
    case 2
    from in_save_rowD [OF assms(3) [unfolded 2(4)]] show ?thesis
      using 2(1-3) assms(2) by (auto simp: distinct_map dest: inj_onD)
  qed
qed

lemma placed_self: "placed t p rows rows' \<Longrightarrow> p \<in> set rows'"
  by (auto simp: placed_def in_save_row_iff)

lemma placed_distinct: "placed t p rows rows' \<Longrightarrow> distinct (map post_id rows) \<Longrightarrow> distinct (map post_id rows')"
  by (auto simp: placed_def save_row_keys key_taken_iff)

lemma placed_owned:
  assumes "placed t p rows rows'"
  shows "(\<lambda>p. (post_id p, post_tenant_id p)) ` set rows \<subseteq> (\<lambda>p. (post_id p, post_tenant_id p)) ` set rows'"
proof -
  let ?k = "\<lambda>p. (post_id p, post_tenant_id p)"
  have "map ?k (save_row post_tenant_id post_id (tenant_session t) p rows) = map ?k rows"
    using assms by (intro save_row_keys) (auto simp: placed_def)
  then have "?k ` set (save_row post_tenant_id post_id (tenant_session t) p rows) = ?k ` set rows"
    by (metis list.set_map)
  then show ?thesis
    using assms unfolding placed_def by auto
qed

lemma placed_exclusive:
  assumes "placed t p rows rows'" "distinct (map post_id rows)" "exclusive post_id same_key rows"
  shows "exclusive post_id same_key rows'"
proof (rule exclusive_subset [OF assms(3)])
  show "set rows' \<subseteq> insert p (set rows)"
    using placed_in [OF assms(1,2)] by blast
  show "\<not> same_key x p" if "x \<in> set rows" "post_id x \<noteq> post_id p" for x
    using assms(1) that by (auto simp: placed_def unique_key_def list_all_iff)
qed simp_all

text \<open>The invariant after one row was placed.\<close>

lemma blog_inv_placed:
  assumes inv: "blog_inv V s" and placed: "placed t p (posts s) (posts s')"
    and refs: "\<And>q. post_id q \<noteq> post_id p \<Longrightarrow> refs_of s' q = refs_of s q" "\<And>r. r \<in> set (post_references s') \<Longrightarrow>
      r \<in> set (post_references s) \<or> (ref_post_id r = post_id p \<and> ref_tenant_id r = t)"
    and kept: "assets_kept s s'" and ok: "post_kind_of p = BLOG \<Longrightarrow> blog_post_ok V s' p"
  shows "blog_inv V s'"
  unfolding blog_inv_def
proof (intro conjI ballI impI)
  note D = blog_invD [OF inv]
  show "distinct (map post_id (posts s'))"
    using placed_distinct [OF placed D(1)] .
  show "exclusive post_id same_key (posts s')"
    using placed_exclusive [OF placed D(1,2)] .
  show "owned s' r" if "r \<in> set (post_references s')" for r
    using refs(2) [OF that]
  proof
    assume "r \<in> set (post_references s)"
    from D(3) [OF this] show ?thesis
      using placed_owned [OF placed] unfolding owned_def by (rule subsetD [rotated])
  next
    assume "ref_post_id r = post_id p \<and> ref_tenant_id r = t"
    moreover have "post_tenant_id p = t" using placed by (simp add: placed_def)
    ultimately show ?thesis
      using placed_self [OF placed] unfolding owned_def by (intro image_eqI [of _ _ p]) simp_all
  qed
  show "blog_post_ok V s' q" if "q \<in> set (posts s')" "post_kind_of q = BLOG" for q
  proof (cases "q = p")
    case True
    with ok that(2) show ?thesis by simp
  next
    case False
    with placed_in [OF placed D(1) that(1)] have "q \<in> set (posts s)" "post_id q \<noteq> post_id p" by auto
    with blog_post_ok_mono [OF D(4) [OF _ that(2)] kept refs(1)] show ?thesis by blast
  qed
qed

section \<open>Every event keeps the posts consistent\<close>

lemma validate_weaker:
  "validate_document split True v = Inr d \<Longrightarrow> validate_document split False v = Inr d"
  by (auto simp: validate_document_def attempt_def split: sum.splits if_splits json.splits)

lemma ok_archived:
  assumes "blog_post_ok V s p0" "post_id p = post_id p0" "post_tenant_id p = post_tenant_id p0" "post_status p = Status_ARCHIVED"
    "content_document p = content_document p0" "rendered_html p = rendered_html p0"
    "cover_image_id p = cover_image_id p0" "og_image_id p = og_image_id p0"
  shows "blog_post_ok V s p"
proof -
  have "refs_of s p = refs_of s p0"
    by (simp add: refs_of_def assms(2))
  moreover have "validate_document (ce_split V) False (JObj (content_document p0)) = Inr (content_document p0)"
    using assms(1) validate_weaker unfolding blog_post_ok_def by (cases "post_status p0 = Status_PUBLISHED") auto
  moreover have "usable s p i" if "usable s p0 i" for i
    using that assms(3,4) unfolding usable_def by (simp split: option.splits)
  then have "list_all (usable s p0) xs \<Longrightarrow> list_all (usable s p) xs" for xs
    by (simp add: list_all_iff)
  ultimately show ?thesis
    using assms unfolding blog_post_ok_def by simp
qed

lemma validate_media_Inr:
  "validate_media t public ids s = Inr () \<longleftrightarrow>
     (\<forall>i\<in>set ids. case asset_of t i s of None \<Rightarrow> False
        | Some m \<Rightarrow> public \<longrightarrow> media_status m = Media_READY \<and> media_visibility m = Vis_PUBLIC)"
  by (induction t public ids s rule: validate_media.induct) (auto split: option.splits)

lemma class_step_posts:
  assumes "class_step post_entity t (post_ok P s) s s'" "blog_inv V s"
  obtains p where "placed t p (posts s) (posts s')"
    "post_references s' = post_references s" "assets s' = assets s"
    "post_kind_of p \<noteq> BLOG \<or> (\<exists>p0 now. p0 \<in> set (posts s) \<and> post_tenant_id p0 = t \<and> P p0
       \<and> p = p0\<lparr>post_status := Status_ARCHIVED, post_updated_at := now\<rparr>)"
    "\<And>q. q \<in> set (posts s) \<Longrightarrow> post_id q = post_id p \<Longrightarrow> post_kind_of q \<noteq> BLOG \<or> P q"
proof -
  note unique = blog_invD(5) [OF assms(2)]
  from assms(1) obtain rs e where rc: "row_change post_entity t (post_ok P s) (posts s) rs"
    and s': "s' = (s\<lparr>posts := rs\<rparr>)\<lparr>audit_log := insert_row e (audit_log s)\<rparr>"
    by (auto simp: class_step_def)
  have same: "unique_key post_id post_key p (posts s)"
    if "p0 \<in> set (posts s)" "p = p0\<lparr>post_status := Status_ARCHIVED, post_updated_at := now\<rparr>" for p p0 now
    using that exclusiveD [OF blog_invD(2) [OF assms(2)]] by (auto simp: unique_key_def list_all_iff post_key_def)
  from rc show thesis
  proof (cases rule: row_change.cases)
    case (created r)
    then show thesis
      by (intro that [of r]) (auto simp: s' placed_def post_ok_def key_taken_iff image_iff)
  next
    case (updated r0 r)
    then have "unique_key post_id post_key r (posts s)"
      using same by (auto simp: post_ok_def)
    with updated show thesis
      by (intro that [of r]) (auto simp: s' placed_def post_ok_def dest: unique)
  next
    case (archived r0 now)
    with same [OF archived(2)] show thesis
      by (intro that [of "archive_row post_entity now r0"]) (auto simp: s' placed_def post_ok_def dest: unique)
  qed
qed

lemma class_step_blog_inv:
  assumes step: "class_step post_entity t (post_ok P s) s s'" and inv: "blog_inv V s"
  shows "blog_inv V s'"
  using step inv
proof (cases rule: class_step_posts)
  case (1 p)
  have refs: "refs_of s' q = refs_of s q" for q
    using 1(2) by (simp add: refs_of_def)
  show ?thesis
  proof (rule blog_inv_placed [OF inv 1(1)])
    assume "post_kind_of p = BLOG"
    with 1(4) obtain p0 now where p0: "p0 \<in> set (posts s)" "p = p0\<lparr>post_status := Status_ARCHIVED, post_updated_at := now\<rparr>"
      by blast
    with \<open>post_kind_of p = BLOG\<close> have "blog_post_ok V s p0"
      by (intro blog_invD(4) [OF inv]) simp_all
    then have "blog_post_ok V s p"
      by (rule ok_archived) (simp_all add: p0(2))
    then show "blog_post_ok V s' p"
      by (rule blog_post_ok_mono) (simp_all add: assets_kept_same 1(3) refs)
  qed (use 1 refs assets_kept_same in auto)
qed

lemma blog_step_placed:
  assumes "blog_step V t what p0 p s s'"
  shows "placed t p (posts s) (posts s')"
  using assms by (auto simp: blog_step_def placed_def split: if_split_asm)

lemma synced_refs:
  assumes synced: "synced t p s s'" and inv: "blog_inv V s" and p: "post_tenant_id p = t"
    "\<And>q. q \<in> set (posts s) \<Longrightarrow> post_id q = post_id p \<Longrightarrow> post_tenant_id q = t"
  shows "post_id q \<noteq> post_id p \<Longrightarrow> refs_of s' q = refs_of s q"
    "r \<in> set (post_references s') \<Longrightarrow> r \<in> set (post_references s) \<or> (ref_post_id r = post_id p \<and> ref_tenant_id r = t)"
    "referenced_media_ids (content_document p) = Inr (map ref_media_id (refs_of s' p))"
proof -
  from synced obtain ids fresh where ids: "referenced_media_ids (content_document p) = Inr ids"
    and rs: "post_references s' = delete_where ref_tenant_id (tenant_session t) (\<lambda>r. ref_post_id r = post_id p) (post_references s)
            @ references_of p fresh ids"
    unfolding synced_def by blast
  have new: "filter (\<lambda>r. ref_post_id r = post_id q) (references_of p fresh ids)
      = (if post_id q = post_id p then references_of p fresh ids else [])" for q
    by (auto simp: references_of_def filter_map o_def)
  show "refs_of s' q = refs_of s q" if "post_id q \<noteq> post_id p"
  proof -
    have "filter (\<lambda>r. ref_post_id r = post_id q) (delete_where ref_tenant_id (tenant_session t) (\<lambda>r. ref_post_id r = post_id p) rows)
        = filter (\<lambda>r. ref_post_id r = post_id q) rows" for rows
      using that by (induction rows) (auto simp: delete_where_def)
    with that new [of q] show ?thesis by (simp add: refs_of_def rs)
  qed
  show "r \<in> set (post_references s) \<or> (ref_post_id r = post_id p \<and> ref_tenant_id r = t)" if "r \<in> set (post_references s')"
    using that p(1) by (auto simp: rs references_of_def)
  have "ref_tenant_id r = t" if "r \<in> set (post_references s)" "ref_post_id r = post_id p" for r
    using blog_invD(3) [OF inv that(1)] p(2) that(2) by (auto simp: owned_def)
  then have "filter (\<lambda>r. ref_post_id r = post_id p)
      (delete_where ref_tenant_id (tenant_session t) (\<lambda>r. ref_post_id r = post_id p) (post_references s)) = []"
    by (auto simp: filter_empty_conv)
  then show "referenced_media_ids (content_document p) = Inr (map ref_media_id (refs_of s' p))"
    using new [of p] ids by (simp add: refs_of_def rs references_of_def o_def)
qed

lemma checked_ok:
  assumes checked: "checked_post V (post_status p = Status_PUBLISHED) p s" and assets: "assets s' = assets s"
    and refs: "referenced_media_ids (content_document p) = Inr (map ref_media_id (refs_of s' p))"
    and at: "post_status p = Status_PUBLISHED \<Longrightarrow> published_at p \<noteq> None"
  shows "blog_post_ok V s' p"
proof -
  from checked obtain html ids where html: "render_document (ce_repr V) (ce_split V) (content_document p) = Inr html"
      "rendered_html p = Some html"
    and doc: "validate_document (ce_split V) (post_status p = Status_PUBLISHED) (JObj (content_document p)) = Inr (content_document p)"
    and ids: "all_media_ids (cover_image_id p) (og_image_id p) (content_document p) = Inr ids"
    and ok: "validate_media (post_tenant_id p) (post_status p = Status_PUBLISHED) ids s = Inr ()"
    unfolding checked_post_def by blast
  have "set ids = set (map ref_media_id (refs_of s' p) @ List.map_filter (\<lambda>v. v) [cover_image_id p, og_image_id p])"
    using ids unfolding all_media_ids_def refs attempt_def by auto
  moreover have "usable s' p i" if "i \<in> set ids" for i
    using ok that unfolding validate_media_Inr usable_def asset_of_def assets by blast
  ultimately have "list_all (usable s' p) (map ref_media_id (refs_of s' p) @ List.map_filter (\<lambda>v. v) [cover_image_id p, og_image_id p])"
    unfolding list_all_iff by blast
  then show ?thesis
    unfolding blog_post_ok_def using doc html refs at by simp
qed

lemma blog_step_blog_inv:
  assumes step: "blog_step V t what p0 p s s'" and inv: "blog_inv V s"
  shows "blog_inv V s'"
proof -
  note placed = blog_step_placed [OF step]
  have p: "post_tenant_id p = t" "post_kind_of p = BLOG" and assets: "assets s' = assets s"
    using step by (auto simp: blog_step_def beside_blog_def)
  have p0: "p0 \<in> set (posts s) \<and> post_id p = post_id p0 \<and> post_tenant_id p0 = t \<and> blog_post_ok V s p0" if "what \<noteq> Drafted"
    using step that blog_invD(4) [OF inv] by (auto simp: blog_step_def)
  show ?thesis
  proof (cases "what = Withdrawn")
    case True
    then have refs: "post_references s' = post_references s" using step by (simp add: blog_step_def)
    have "blog_post_ok V s p"
    proof (rule ok_archived)
      show "blog_post_ok V s p0" using p0 True by blast
    qed (use True step p0 in \<open>simp_all add: blog_step_def\<close>)
    then have "blog_post_ok V s' p"
      by (rule blog_post_ok_mono) (simp_all add: assets_kept_same assets refs_of_def refs)
    then show ?thesis
      using refs by (intro blog_inv_placed [OF inv placed]) (simp_all add: refs_of_def assets_kept_same assets)
  next
    case False
    then have synced: "synced t p s s'" and checked: "checked_post V (post_status p = Status_PUBLISHED) p s"
      using step by (auto simp: blog_step_def)
    have owner: "post_tenant_id q = t" if "q \<in> set (posts s)" "post_id q = post_id p" for q
    proof (cases "what = Drafted")
      case True
      with step have "post_id p \<notin> post_id ` set (posts s)" by (simp add: blog_step_def key_taken_iff)
      with that show ?thesis by (metis imageI)
    next
      case False
      with p0 that blog_invD(5) [OF inv] show ?thesis by metis
    qed
    note R = synced_refs [OF synced inv p(1) owner]
    have "published_at p \<noteq> None" if "post_status p = Status_PUBLISHED"
      using that step p0 False by (cases what) (auto simp: blog_step_def blog_post_ok_def)
    from checked_ok [OF checked assets R(3) this] have "blog_post_ok V s' p" .
    with R show ?thesis
      by (intro blog_inv_placed [OF inv placed]) (simp_all add: assets_kept_same assets)
  qed
qed

lemma beyond_queue_posts:
  fixes s s' :: content_db
  assumes "beyond_queue s' = beyond_queue s" "blog_inv V s"
  shows "blog_inv V s'"
  by (rule blog_inv_same [OF assms(2)]) (simp_all add: beyond_tables [OF assms(1)] assets_kept_same)

lemma blog_part_inv: "blog_part s' = blog_part s \<Longrightarrow> blog_inv V s \<Longrightarrow> blog_inv V s'"
  by (rule blog_inv_same [of V s]) (simp_all add: blog_part_def assets_kept_same)

lemma side_outcome_blog: "side_outcome t s s' \<Longrightarrow> blog_part s' = blog_part s \<and> contact_requests s' = contact_requests s"
  using side_step_blog by (auto simp: side_outcome_def aside_def)

interpretation blog: inductive_invariant "content_step V" "\<lambda>s e. True" "blog_inv V" for V
proof unfold_locales
  fix s e
  assume inv: "blog_inv V s"
  show "blog_inv V (content_step V e s)"
  proof (cases rule: content_step_cases [of e s V])
    case (side t)
    with side_outcome_blog inv show ?thesis by (blast intro: blog_part_inv)
  next
    case (contacts t)
    with inv show ?thesis by (auto simp: contacts_only_def intro: blog_part_inv)
  next
    case (post t)
    from class_step_blog_inv [OF post(2) inv] show ?thesis .
  next
    case (blog t)
    with inv blog_step_blog_inv show ?thesis unfolding blog_outcome_def by auto
  next
    case (build q)
    with beyond_queue_posts [OF beyond_step inv] show ?thesis by simp
  next
    case (media t)
    then obtain rs where "content_step V e s = s\<lparr>assets := rs\<rparr>" "assets_kept s (content_step V e s)"
      unfolding media_only_def by blast
    with blog_inv_same [OF inv] show ?thesis by simp
  qed
qed

lemma reachable_blog_inv: "blog_inv V (run (content_step V) es (without_content s))"
  by (rule blog.inv_run [OF blog_inv_empty]) simp

text \<open>C28: blog_posts_consistent. In every history of requests, uploads and builds, whoever sends them: slugs
  are unique among the posts of a tenant and kind, every reference belongs to a post of its own tenant,
  and every blog post has a document that validates, the HTML that is the rendering of that very document, references
  to exactly the images in it, and media of its own tenant; when it is published it has content and a
  publication time, and all its media are ready and public.\<close>

theorem blog_posts_consistent:
  "exclusive post_id same_key (posts (run (content_step V) es (without_content s)))
   \<and> list_all (owned (run (content_step V) es (without_content s)))
       (post_references (run (content_step V) es (without_content s)))
   \<and> list_all (blog_post_ok V (run (content_step V) es (without_content s)))
       (filter (\<lambda>p. post_kind_of p = BLOG) (posts (run (content_step V) es (without_content s))))"
  using reachable_blog_inv [of V es s] by (simp add: blog_inv_def list_all_iff)

end
