(* ===== verification/BlogSnapshot.thy ===== *)
theory BlogSnapshot
  imports ContentProperties
begin

text \<open>
  The snapshot the site build reads (\<open>blog_snapshot\<close>): its statements run at different moments, with
  anything happening between them. The revision tells when nothing public changed in between; so a
  snapshot that the first attempt returns shows the blog of one moment. A retry runs in the session of the
  attempt before, and a post that has changed since is answered as it was: \<open>stale_retry\<close>.

  The generic archiving endpoint takes published blog posts down without telling the build service
  (see the findings); histories here are those without such a request.
\<close>

section \<open>What the public sees of the blog\<close>

definition blog_at :: "uuid \<Rightarrow> content_db \<Rightarrow> post list" where
  "blog_at t s = select_where post_tenant_id (tenant_session t) is_published (posts s)"


lemma published_posts_at:
  "published_posts (tenant_session t) s = newest_first (\<lambda>p. or_default (published_at p) 0) post_id (blog_at t s)"
  by (simp add: published_posts_def blog_at_def)

lemma set_newest_first [simp]: "set (newest_first f g rows) = set rows"
  by (simp add: newest_first_def)

lemma site_revision_content: "site_revision (tenant_session t) s = content_of t s"
proof -
  have "visible st_tenant_id (tenant_session t) rows =
      select_where st_tenant_id (tenant_session t) (\<lambda>r. st_tenant_id r = t) rows" for rows :: "site_state list"
    by (induction rows) (auto simp: visible_def select_where_def)
  then show ?thesis
    by (simp add: site_revision_def content_of_def find_state_def get_row_def)
qed

section \<open>Steps\<close>










section \<open>Histories\<close>
















lemma published_posts_published: "p \<in> set (published_posts cur s) \<Longrightarrow> is_published p"
  by (simp add: published_posts_def)

section \<open>Snapshots\<close>








text \<open>
  What an answer may hold when earlier attempts have read the posts before: the posts of the moment, each in
  a version that was public when this attempt or an earlier one read it; and the very page of the moment when
  no post read before has changed.
\<close>

definition posts_read :: "uuid \<Rightarrow> attempt_reads \<Rightarrow> post list" where
  "posts_read t r = published_posts (tenant_session t) (read_posts r)"






lemma loaded_as_Nil [simp]: "loaded_as [] rows = rows"
  by (simp add: loaded_as_def)










text \<open>
  The stale retry: a post that is edited while the first attempt runs, and is stable afterwards, is answered
  by the second attempt in its old version under the new revision.
\<close>

lemma stale_retry:
  assumes "site_revision (tenant_session t) (read_before r1) \<noteq> site_revision (tenant_session t) (read_after r1)"
    and "site_revision (tenant_session t) (read_before r2) = n" "site_revision (tenant_session t) (read_after r2) = n"
    and "posts_read t r1 = [old]" "posts_read t r2 = [new]" "post_id new = post_id old"
  shows "case snapshot_attempts (tenant_session t) requested [] [r1, r2, r3] of
      Inl e \<Rightarrow> False
    | Inr snap \<Rightarrow> snapshot_revision snap = n \<and> map bs_title (snapshot_posts snap) = [post_title old]
        \<and> map bd_content_document (snapshot_posts snap) = [content_document old]"
proof -
  have "is_published old"
    using published_posts_published [of old "tenant_session t" "read_posts r1"] assms(4) by (simp add: posts_read_def)
  then obtain at where "published_at old = Some at" by (auto simp: is_published_def)
  then show ?thesis
    using assms by (simp add: posts_read_def loaded_as_def detail_of_def summarise_def attempt_def Let_def
        blog_summary.defs blog_detail.defs)
qed

text \<open>Such reads exist for every published post: its title is changed once, while the first attempt runs.\<close>

definition one_post :: "content_db \<Rightarrow> uuid \<Rightarrow> int \<Rightarrow> post \<Rightarrow> content_db" where
  "one_post s t n p =
     s\<lparr>posts := [p], site_states := [\<lparr>st_tenant_id = t, content_revision = n, last_successful_build_revision = None,
        last_build_at = None\<rparr>]\<rparr>"

lemma stale_retry_exists:
  assumes "is_published old" "post_tenant_id old = t" "title \<noteq> post_title old"
  shows "\<exists>snap. snapshot_attempts (tenant_session t) requested []
      [\<lparr>read_before = one_post s t 1 old, read_posts = one_post s t 1 old, read_media = one_post s t 1 old,
         read_after = one_post s t 2 (old\<lparr>post_title := title\<rparr>)\<rparr>,
       \<lparr>read_before = one_post s t 2 (old\<lparr>post_title := title\<rparr>), read_posts = one_post s t 2 (old\<lparr>post_title := title\<rparr>),
         read_media = one_post s t 2 (old\<lparr>post_title := title\<rparr>), read_after = one_post s t 2 (old\<lparr>post_title := title\<rparr>)\<rparr>, r3]
      = Inr snap \<and> snapshot_revision snap = 2 \<and> map bs_title (snapshot_posts snap) \<noteq> [title]"
    (is "\<exists>snap. snapshot_attempts _ _ _ [?r1, ?r2, _] = _ \<and> _")
proof -
  have new: "is_published (old\<lparr>post_title := title\<rparr>)"
    using assms(1) by (simp add: is_published_def)
  have rev: "site_revision (tenant_session t) (one_post s t n p) = n" for n p
    by (simp add: one_post_def site_revision_content content_of_def find_state_def get_row_def select_where_def visible_def)
  have row: "published_posts (tenant_session t) (one_post s t n p) = [p]" if "is_published p" "post_tenant_id p = t" for n p
    using that by (simp add: one_post_def published_posts_def newest_first_def table_defs tenant_session_def tenant_isolation_policy_def)
  from stale_retry [of t ?r1 ?r2 2 old "old\<lparr>post_title := title\<rparr>" requested r3] show ?thesis
    using assms by (auto simp: rev row new posts_read_def split: sum.splits)
qed

section \<open>Publishing\<close>

lemma feature_guard_same:
  "tenant_features s' = tenant_features s \<Longrightarrow> feature_guard key ctx s' = feature_guard key ctx s"
  by (simp add: feature_guard_def ensure_feature_enabled_def feature_enabled_def platform_db.defs)

lemma publish_post_Inr:
  assumes "publish_blog_post (ce_repr V) (ce_split V) now (d :: drawn) ctx who i s = (Inr p, s')" and inv: "blog_inv V s"
  shows "blog_inv V s'" "p \<in> set (posts s')" "is_published p" "post_tenant_id p = ctx_tenant_id ctx" "post_id p = i"
    "feature_guard (lit ''blog'') ctx s' = Inr ()"
proof -
  let ?t = "ctx_tenant_id ctx"
  have "content_step V (Admin now ctx who (Publish_blog d i)) s = s'"
    using assms(1) by simp
  with blog.inv_step [OF inv, of "Admin now ctx who (Publish_blog d i)"] show inv': "blog_inv V s'" by simp
  from assms(1) have "guarded (attempt (blog_guard CONTENT_PUBLISH ctx who s) (\<lambda>_. find_post (tenant_session ?t) i s)) (\<lambda>p.
         on_integrity_error blog_conflict (publish (ce_repr V) (ce_split V) now d ?t (pr_user_id who) p s)) s = (Inr p, s')"
    by (simp add: publish_blog_post_def transaction_Inr)
  then obtain p0 where guard: "feature_guard (lit ''blog'') ctx s = Inr ()" and p0: "find_post (tenant_session ?t) i s = Inr p0"
    and run: "publish (ce_repr V) (ce_split V) now d ?t (pr_user_id who) p0 s = (Inr p, s')"
    by (auto simp: guarded_def attempt_def blog_guard_def split: sum.splits)
  note F = find_postD [OF p0]
  have "p \<in> set (posts s') \<and> is_published p \<and> post_tenant_id p = ?t \<and> post_id p = i \<and> tenant_features s' = tenant_features s"
  proof (cases "post_status p0 = Status_PUBLISHED")
    case True
    then have "s' = s" "p = p0"
      using publish_result [OF run] F by auto
    moreover have "published_at p0 \<noteq> None"
      using blog_invD(4) [OF inv, of p0] F True by (simp add: blog_post_ok_def)
    ultimately show ?thesis using F True by (simp add: is_published_def)
  next
    case False
    then have step: "blog_step V ?t Published p0 p s s'"
      using publish_result [OF run] F by auto
    with placed_self [OF blog_step_placed [OF step]] F show ?thesis
      by (auto simp: blog_step_def is_published_def beside_blog_def)
  qed
  with feature_guard_same [of s' s] guard show "p \<in> set (posts s')" "is_published p" "post_tenant_id p = ?t" "post_id p = i"
    "feature_guard (lit ''blog'') ctx s' = Inr ()" by simp_all
qed

lemma public_post_unique:
  assumes inv: "blog_inv V s" and p: "p \<in> set (posts s)" "is_published p" "post_tenant_id p = t"
  shows "scalar (select_where post_tenant_id (tenant_session t) (\<lambda>q. is_published q \<and> post_slug q = post_slug p) (posts s)) = Some p"
proof -
  let ?rows = "select_where post_tenant_id (tenant_session t) (\<lambda>q. is_published q \<and> post_slug q = post_slug p) (posts s)"
  have "p \<in> set ?rows" using p by simp
  then have "?rows \<noteq> []" by (metis empty_iff empty_set)
  then obtain q where q: "scalar ?rows = Some q" by (meson not_None_eq scalar_None_iff)
  from scalar_Some_in [OF q] have q': "q \<in> set (posts s)" "post_tenant_id q = t" "is_published q" "post_slug q = post_slug p" by auto
  then have "same_key q p" using p by (simp add: post_key_def is_published_def)
  with exclusiveD [OF blog_invD(2) [OF inv] q'(1) p(1)] have "post_id q = post_id p" by blast
  with blog_invD(5) [OF inv q'(1) p(1)] q show ?thesis by simp
qed

text \<open>C30: published_post_is_read. In every reachable state: publishing a post either fails and changes
  nothing, or the public endpoint then answers its slug with that very post: its title, its
  document, the rendering of that document, and its publication time, and the post is listed in the next snapshot.\<close>

theorem published_post_is_read:
  "case publish_blog_post (ce_repr V) (ce_split V) now (d :: drawn) ctx who i (run (content_step V) es (without_content s0)) of
     (Inl e, s') \<Rightarrow> s' = run (content_step V) es (without_content s0)
   | (Inr p, s') \<Rightarrow>
       post_id p = i \<and> p \<in> set (published_posts (tenant_session (ctx_tenant_id ctx)) s')
       \<and> (case get_public_post ctx (post_slug p) s' of
            Inl e \<Rightarrow> False
          | Inr b \<Rightarrow> bs_title b = post_title p \<and> bd_content_document b = content_document p
              \<and> render_document (ce_repr V) (ce_split V) (content_document p) = Inr (bd_rendered_html b)
              \<and> published_at p = Some (bs_published_at b))"
proof -
  let ?s = "run (content_step V) es (without_content s0)"
  note inv = reachable_blog_inv [of V es s0]
  obtain out s' where run: "publish_blog_post (ce_repr V) (ce_split V) now d ctx who i ?s = (out, s')" by force
  show ?thesis
  proof (cases out)
    case (Inl e)
    have "snd (publish_blog_post (ce_repr V) (ce_split V) now d ctx who i ?s) = ?s"
      unfolding publish_blog_post_def
      by (rule transaction_error_unchanged) (use run Inl in \<open>simp add: publish_blog_post_def\<close>)
    with run Inl show ?thesis by simp
  next
    case (Inr p)
    note P = publish_post_Inr [OF run [unfolded Inr] inv]
    note U = public_post_unique [OF P(1-4)]
    from P(3) obtain at where at: "published_at p = Some at" and kind: "post_kind_of p = BLOG" by (auto simp: is_published_def)
    from blog_invD(4) [OF P(1,2) kind] obtain html where
      html: "rendered_html p = Some html" "render_document (ce_repr V) (ce_split V) (content_document p) = Inr html"
      by (auto simp: blog_post_ok_def)
    have listed: "p \<in> set (published_posts (tenant_session (ctx_tenant_id ctx)) s')"
      using P(2-4) by (simp add: published_posts_at blog_at_def)
    have "get_public_post ctx (post_slug p) s' = detail_of (media_map (tenant_session (ctx_tenant_id ctx)) [p] s') p"
      using P(6) U by (simp add: get_public_post_def attempt_def Let_def)
    with at html listed P(5) run Inr show ?thesis
      by (simp add: detail_of_def summarise_def attempt_def blog_summary.defs blog_detail.defs)
  qed
qed

end
