(* ===== verification/ContentGuarantees.thy ===== *)
theory ContentGuarantees
  imports ContentProperties
begin

text \<open>
  What the content side promises beside the blog: tenants do not touch each other's content,
  archived content stays archived, the contact form keeps its rate limit, and a school's profile
  reads back as it was written.
\<close>

section \<open>Tenants\<close>

lemma placed_view:
  assumes "placed t p rows rows'" "u \<noteq> t"
  shows "visible post_tenant_id (tenant_session u) rows' = visible post_tenant_id (tenant_session u) rows"
  using assms by (auto simp: placed_def visible_insert_row_other visible_save_row_other)

lemma blog_step_view:
  assumes step: "blog_step V t what p0 p s s'" and told: "announced_by t told s s'" and u: "u \<noteq> t"
  shows "content_view u s' = content_view u s"
proof -
  have "visible ref_tenant_id (tenant_session u) (post_references s') = visible ref_tenant_id (tenant_session u) (post_references s)"
  proof (cases "what = Withdrawn")
    case True
    with step show ?thesis by (simp add: blog_step_def)
  next
    case False
    with step have "synced t p s s'" and p: "post_tenant_id p = t" by (auto simp: blog_step_def)
    moreover have "visible ref_tenant_id (tenant_session u) (references_of p fresh ids) = []" for fresh ids
      using u p by (intro visible_foreign [of _ _ t]) (auto simp: references_of_def)
    ultimately show ?thesis
      using u unfolding synced_def by (auto simp: visible_delete_where_other)
  qed
  moreover have "beside_blog s' = beside_blog s" using step by (simp add: blog_step_def)
  moreover have "queue_view u s' = queue_view u s" using told u by (simp add: announced_by_def)
  ultimately show ?thesis
    using placed_view [OF blog_step_placed [OF step] u] by (simp add: content_view_def Let_def beside_blog_def)
qed

lemma blog_outcome_view: "blog_outcome V t s s' \<Longrightarrow> u \<noteq> t \<Longrightarrow> content_view u s' = content_view u s"
  unfolding blog_outcome_def by (elim disjE exE conjE) (simp_all add: blog_step_view)

interpretation content_tenants: tenant_confinement "content_step V" event_tenant_of content_view for V
proof unfold_locales
  fix e t s
  assume other: "event_tenant_of e \<noteq> Some t"
  show "content_view t (content_step V e s) = content_view t s"
  proof (cases rule: content_step_cases [of e s V])
    case (side u)
    with other have "t \<noteq> u" by auto
    with side(2) show ?thesis unfolding side_outcome_def aside_def by (auto simp: side_step_view)
  next
    case (contacts u)
    with other show ?thesis by (auto simp: contacts_only_def)
  next
    case (post u)
    with other show ?thesis by (intro posts.step_view) auto
  next
    case (blog u)
    with other have "t \<noteq> u" by auto
    with blog(2) show ?thesis by (intro blog_outcome_view)
  next
    case (build q)
    note T = beyond_tables [OF beyond_step [of "ce_settings V" q s]]
    from build(1) other have "queue_tenant q \<noteq> Some t" by simp
    from queue_step_confined [OF this, of "ce_settings V" s] build(2) show ?thesis
      by (simp add: content_view_def Let_def T)
  next
    case (media u)
    with other show ?thesis by (auto simp: media_only_def)
  qed
qed

text \<open>C31: content_of_other_tenants. Whatever the requests, uploads and builds of other tenants do,
  in any order, a tenant's view stays the same row for row: its posts, references, media, banners, honours,
  staff, contact requests, sample exams, galleries, exams, prices, profile and contacts, its audit
  log, and its site builds.\<close>

theorem content_of_other_tenants:
  "content_view t (run (content_step V) (filter (\<lambda>e. event_tenant_of e \<noteq> Some t) es) s) = content_view t s"
  by (rule content_tenants.view_run_others)

section \<open>Archived content\<close>

definition all_keys_distinct :: "content_db \<Rightarrow> bool" where
  "all_keys_distinct s \<longleftrightarrow> keys_distinct post_entity s \<and> keys_distinct banner_entity s \<and> keys_distinct category_entity s
     \<and> keys_distinct honor_entity s \<and> keys_distinct staff_entity s \<and> keys_distinct plan_entity s
     \<and> keys_distinct offering_entity s \<and> keys_distinct sample_entity s \<and> keys_distinct album_entity s"

definition archives_kept :: "content_db \<Rightarrow> content_db \<Rightarrow> bool" where
  "archives_kept s s' \<longleftrightarrow> archived_kept post_entity (\<lambda>p. post_kind_of p \<noteq> BLOG) s s'
     \<and> archived_kept banner_entity (\<lambda>_. True) s s' \<and> archived_kept category_entity (\<lambda>_. True) s s'
     \<and> archived_kept honor_entity (\<lambda>_. True) s s' \<and> archived_kept staff_entity (\<lambda>_. True) s s'
     \<and> archived_kept plan_entity (\<lambda>_. True) s s' \<and> archived_kept offering_entity (\<lambda>_. True) s s'
     \<and> archived_kept sample_entity (\<lambda>_. True) s s' \<and> archived_kept album_entity (\<lambda>_. True) s s'"

lemma rows_of_entities [simp]:
  "rows_of banner_entity = banners" "rows_of category_entity = honor_categories" "rows_of honor_entity = honors"
  "rows_of staff_entity = staff" "rows_of plan_entity = price_plans" "rows_of offering_entity = offerings"
  "rows_of sample_entity = sample_exams" "rows_of album_entity = albums"
  by (simp_all add: entity_defs)

lemma archives_kept_same:
  "class_tables s' = class_tables s \<Longrightarrow> all_keys_distinct s \<Longrightarrow> all_keys_distinct s' \<and> archives_kept s s'"
  by (simp add: class_tables_def all_keys_distinct_def keys_distinct_def archives_kept_def archived_kept_def)

lemma archives_kept_refl [simp]: "archives_kept s s"
  by (simp add: archives_kept_def archived_kept_def)

lemma archives_kept_trans: "archives_kept s s1 \<Longrightarrow> archives_kept s1 s2 \<Longrightarrow> archives_kept s s2"
  unfolding archives_kept_def
  by (elim conjE, intro conjI)
    (erule (1) posts.kept_trans banners.kept_trans categories.kept_trans honors.kept_trans staff.kept_trans
        plans.kept_trans offerings.kept_trans samples.kept_trans albums.kept_trans, simp)+

text \<open>A step of one class leaves the tables of the others.\<close>

lemma class_frames:
  "class_step post_entity t ok_post s s' \<Longrightarrow> class_tables s' =
     (posts s', banners s, honor_categories s, honors s, staff s, price_plans s, offerings s, sample_exams s, albums s)"
  "class_step banner_entity t ok_banner s s' \<Longrightarrow> class_tables s' =
     (posts s, banners s', honor_categories s, honors s, staff s, price_plans s, offerings s, sample_exams s, albums s)"
  "class_step category_entity t ok_category s s' \<Longrightarrow> class_tables s' =
     (posts s, banners s, honor_categories s', honors s, staff s, price_plans s, offerings s, sample_exams s, albums s)"
  "class_step honor_entity t ok_honor s s' \<Longrightarrow> class_tables s' =
     (posts s, banners s, honor_categories s, honors s', staff s, price_plans s, offerings s, sample_exams s, albums s)"
  "class_step staff_entity t ok_staff s s' \<Longrightarrow> class_tables s' =
     (posts s, banners s, honor_categories s, honors s, staff s', price_plans s, offerings s, sample_exams s, albums s)"
  "class_step plan_entity t ok_plan s s' \<Longrightarrow> class_tables s' =
     (posts s, banners s, honor_categories s, honors s, staff s, price_plans s', offerings s, sample_exams s, albums s)"
  "class_step offering_entity t ok_offering s s' \<Longrightarrow> class_tables s' =
     (posts s, banners s, honor_categories s, honors s, staff s, price_plans s, offerings s', sample_exams s, albums s)"
  "class_step sample_entity t ok_sample s s' \<Longrightarrow> class_tables s' =
     (posts s, banners s, honor_categories s, honors s, staff s, price_plans s, offerings s, sample_exams s', albums s)"
  "class_step album_entity t ok_album s s' \<Longrightarrow> class_tables s' =
     (posts s, banners s, honor_categories s, honors s, staff s, price_plans s, offerings s, sample_exams s, albums s')"
  by (auto simp: class_step_def class_tables_def entity_defs)

lemmas same_rows = posts.kept_same banners.kept_same categories.kept_same honors.kept_same staff.kept_same
  plans.kept_same offerings.kept_same samples.kept_same albums.kept_same

lemma side_step_archives:
  assumes "side_step t s s'" and keys: "all_keys_distinct s"
  shows "all_keys_distinct s' \<and> archives_kept s s'"
proof -
  from assms(1) consider
    (banners) "class_step banner_entity t any_row s s'"
  | (categories) "class_step category_entity t any_row s s'"
  | (honors) "class_step honor_entity t any_row s s'"
  | (staff) "class_step staff_entity t any_row s s'"
  | (plans) "class_step plan_entity t any_row s s'"
  | (offerings) "class_step offering_entity t any_row s s'"
  | (samples) "class_step sample_entity t any_row s s'"
  | (albums) "class_step album_entity t any_row s s'"
    unfolding side_step_def by blast
  then show ?thesis
  proof cases
    case banners
    show ?thesis
      using keys banners.step_keys [OF banners] banners.step_frozen [OF banners] class_frames(2) [OF banners]
      by (simp add: class_tables_def all_keys_distinct_def archives_kept_def keys_distinct_def same_rows)
  next
    case categories
    show ?thesis
      using keys categories.step_keys [OF categories] categories.step_frozen [OF categories] class_frames(3) [OF categories]
      by (simp add: class_tables_def all_keys_distinct_def archives_kept_def keys_distinct_def same_rows)
  next
    case honors
    show ?thesis
      using keys honors.step_keys [OF honors] honors.step_frozen [OF honors] class_frames(4) [OF honors]
      by (simp add: class_tables_def all_keys_distinct_def archives_kept_def keys_distinct_def same_rows)
  next
    case staff
    show ?thesis
      using keys staff.step_keys [OF staff] staff.step_frozen [OF staff] class_frames(5) [OF staff]
      by (simp add: class_tables_def all_keys_distinct_def archives_kept_def keys_distinct_def same_rows)
  next
    case plans
    show ?thesis
      using keys plans.step_keys [OF plans] plans.step_frozen [OF plans] class_frames(6) [OF plans]
      by (simp add: class_tables_def all_keys_distinct_def archives_kept_def keys_distinct_def same_rows)
  next
    case offerings
    show ?thesis
      using keys offerings.step_keys [OF offerings] offerings.step_frozen [OF offerings] class_frames(7) [OF offerings]
      by (simp add: class_tables_def all_keys_distinct_def archives_kept_def keys_distinct_def same_rows)
  next
    case samples
    show ?thesis
      using keys samples.step_keys [OF samples] samples.step_frozen [OF samples] class_frames(8) [OF samples]
      by (simp add: class_tables_def all_keys_distinct_def archives_kept_def keys_distinct_def same_rows)
  next
    case albums
    show ?thesis
      using keys albums.step_keys [OF albums] albums.step_frozen [OF albums] class_frames(9) [OF albums]
      by (simp add: class_tables_def all_keys_distinct_def archives_kept_def keys_distinct_def same_rows)
  qed
qed

lemma blog_step_archives:
  assumes step: "blog_step V t what p0 p s s'" and keys: "all_keys_distinct s"
  shows "all_keys_distinct s' \<and> archives_kept s s'"
proof -
  have keys_posts: "distinct (map post_id (posts s))"
    using keys by (simp add: all_keys_distinct_def keys_distinct_def)
  note placed = blog_step_placed [OF step]
  have "archived_kept post_entity (\<lambda>p. post_kind_of p \<noteq> BLOG) s s'"
    unfolding archived_kept_def
  proof (intro ballI impI disjI1)
    fix q assume q: "q \<in> set (rows_of post_entity s)" "post_kind_of q \<noteq> BLOG \<and> is_frozen post_entity q"
    have "post_id q \<noteq> post_id p"
    proof (cases "what = Drafted")
      case True
      with step have "post_id p \<notin> post_id ` set (posts s)" by (simp add: blog_step_def key_taken_iff)
      with q(1) show ?thesis by (metis imageI post_entity_simps(1))
    next
      case False
      with step have "p0 \<in> set (posts s)" "post_kind_of p0 = BLOG" "post_id p = post_id p0" by (auto simp: blog_step_def)
      with q keys_posts show ?thesis by (auto simp: distinct_map dest: inj_onD)
    qed
    with q(1) placed show "q \<in> set (rows_of post_entity s')"
      by (auto simp: placed_def in_save_row_iff)
  qed
  moreover have "distinct (map post_id (posts s'))"
    using placed_distinct [OF placed keys_posts] .
  moreover have "beside_blog s' = beside_blog s" using step by (simp add: blog_step_def)
  ultimately show ?thesis
    using keys by (simp add: all_keys_distinct_def archives_kept_def keys_distinct_def beside_blog_def same_rows)
qed

lemma step_archives:
  assumes keys: "all_keys_distinct s"
  shows "all_keys_distinct (content_step V e s) \<and> archives_kept s (content_step V e s)"
proof (cases rule: content_step_cases [of e s V])
  case (side t)
  then obtain s1 where s1: "s1 = s \<or> side_step t s s1" "aside t s1 (content_step V e s)"
    unfolding side_outcome_def by blast
  then have "all_keys_distinct s1 \<and> archives_kept s s1"
    using side_step_archives keys by auto
  moreover from this s1(2) have "all_keys_distinct (content_step V e s) \<and> archives_kept s1 (content_step V e s)"
    by (intro archives_kept_same) (simp_all add: aside_def)
  ultimately show ?thesis using archives_kept_trans by blast
next
  case (contacts t)
  with keys show ?thesis by (intro archives_kept_same) (simp_all add: contacts_only_def)
next
  case (post t)
  then show ?thesis
    using keys posts.step_keys [OF post(2)] posts.step_frozen [OF post(2)] class_frames(1) [OF post(2)]
    by (simp add: class_tables_def all_keys_distinct_def archives_kept_def keys_distinct_def same_rows)
next
  case (blog t)
  with keys blog_step_archives show ?thesis
    unfolding blog_outcome_def by (elim disjE exE conjE) simp_all
next
  case (build q)
  have "class_tables (queue_step (ce_settings V) q s) = class_tables s"
    by (simp add: class_tables_def beyond_tables [OF beyond_step])
  with build keys show ?thesis by (intro archives_kept_same) simp_all
next
  case (media t)
  then have "class_tables (content_step V e s) = class_tables s"
    by (auto simp: media_only_def class_tables_def)
  from archives_kept_same [OF this keys] show ?thesis .
qed

interpretation keys: inductive_invariant "content_step V" "\<lambda>s e. True" all_keys_distinct for V
  by unfold_locales (simp add: step_archives)

lemma run_archives: "all_keys_distinct s \<Longrightarrow> archives_kept s (run (content_step V) es s)"
proof (induction es arbitrary: s)
  case (Cons e es)
  with step_archives [OF Cons.prems, of V e] archives_kept_trans show ?case by auto
qed simp

lemma reachable_keys: "all_keys_distinct (run (content_step V) es (without_content s))"
  by (rule keys.inv_run) (simp_all add: all_keys_distinct_def keys_distinct_def without_content_def)

text \<open>C32: archived_content_stays. Once a news post, announcement, banner, honour category, honour,
  staff member, price plan, exam, sample exam or gallery is archived, it stays in its table exactly as it is
  through every continuation of the history, but for the time of a repeated archiving: no request
  brings it back or changes it.\<close>

theorem archived_content_stays:
  "archives_kept (run (content_step V) es (without_content s)) (run (content_step V) (es @ fs) (without_content s))"
  using run_archives [OF reachable_keys] by simp

section \<open>The contact form\<close>

text \<open>Histories in which time passes: each event comes some time after the one before.\<close>

fun at_time :: "instant \<Rightarrow> content_event \<Rightarrow> content_event" where
  "at_time now (Admin _ ctx who a) = Admin now ctx who a"
| "at_time now (Contact_form _ i ctx client b) = Contact_form now i ctx client b"
| "at_time now e = e"

fun timed :: "instant \<Rightarrow> (nat \<times> content_event) list \<Rightarrow> content_event list" where
  "timed now [] = []"
| "timed now ((d, e) # es) = at_time (now + int d) e # timed (now + int d) es"

definition contacts_between :: "(contact_request \<Rightarrow> bool) \<Rightarrow> uuid \<Rightarrow> instant \<Rightarrow> instant \<Rightarrow> content_db \<Rightarrow> nat" where
  "contacts_between P t since until s =
     count_if (\<lambda>c. cr_tenant_id c = t \<and> P c \<and> since \<le> cr_created_at c \<and> cr_created_at c \<le> until) (contact_requests s)"

abbreviation from_phone :: "ustr \<Rightarrow> contact_request \<Rightarrow> bool" where
  "from_phone phone c \<equiv> cr_phone_number c = phone"

abbreviation from_address :: "ustr \<Rightarrow> contact_request \<Rightarrow> bool" where
  "from_address ip c \<equiv> cr_request_ip_hash c = ip"

definition contacts_ok :: "instant \<Rightarrow> content_db \<Rightarrow> bool" where
  "contacts_ok now s \<longleftrightarrow> distinct (map cr_id (contact_requests s)) \<and> list_all (\<lambda>c. cr_created_at c \<le> now) (contact_requests s)
     \<and> (\<forall>t x until. contacts_between (from_phone x) t (until - seconds 3600) until s \<le> 5
          \<and> contacts_between (from_address x) t (until - seconds 3600) until s \<le> 5)"

lemma contacts_ok_same: "contact_requests s' = contact_requests s \<Longrightarrow> contacts_ok now s \<Longrightarrow> contacts_ok now s'"
  by (simp add: contacts_ok_def contacts_between_def)

lemma contacts_ok_later: "contacts_ok now s \<Longrightarrow> now \<le> now' \<Longrightarrow> contacts_ok now' s"
  by (auto simp: contacts_ok_def list_all_iff)

text \<open>Handling a request keeps what the limit counts.\<close>

lemma count_handled:
  assumes "contact_handled t s s'" "distinct (map cr_id (contact_requests s))"
    and P: "\<And>c c'. cr_tenant_id c = cr_tenant_id c' \<Longrightarrow> cr_phone_number c = cr_phone_number c'
      \<Longrightarrow> cr_request_ip_hash c = cr_request_ip_hash c' \<Longrightarrow> cr_created_at c = cr_created_at c' \<Longrightarrow> P c = P c'"
  shows "count_if P (contact_requests s') = count_if P (contact_requests s)"
proof -
  from assms(1) obtain c c0 where s': "contact_requests s' = save_row cr_tenant_id cr_id (tenant_session t) c (contact_requests s)"
    and c: "cr_tenant_id c = t" "c0 \<in> set (contact_requests s)" "cr_tenant_id c0 = t" "cr_id c = cr_id c0"
      "cr_created_at c = cr_created_at c0" "cr_phone_number c = cr_phone_number c0" "cr_request_ip_hash c = cr_request_ip_hash c0"
    unfolding contact_handled_def by blast
  have "P c = P c0" using c by (intro P) simp_all
  with count_if_save_row [OF assms(2) c(2), where r = c and tid = cr_tenant_id and cur = "tenant_session t" and P = P] c show ?thesis
    by (simp add: s')
qed

lemma handled_ok:
  assumes handled: "contact_handled t s s'" and ok: "contacts_ok now s"
  shows "contacts_ok now s'"
proof -
  from ok have d: "distinct (map cr_id (contact_requests s))" by (simp add: contacts_ok_def)
  have between: "contacts_between (from_phone x) u a b s' = contacts_between (from_phone x) u a b s"
    "contacts_between (from_address x) u a b s' = contacts_between (from_address x) u a b s" for x u a b
    unfolding contacts_between_def by (rule count_handled [OF handled d]; simp)+
  have "count_if (\<lambda>c. \<not> cr_created_at c \<le> now) (contact_requests s') = count_if (\<lambda>c. \<not> cr_created_at c \<le> now) (contact_requests s)"
    by (rule count_handled [OF handled d]) simp
  moreover have "count_if (\<lambda>c. \<not> cr_created_at c \<le> now) (contact_requests s) = 0"
    using ok by (simp add: count_if_zero_iff contacts_ok_def list_all_iff)
  ultimately have created: "list_all (\<lambda>c. cr_created_at c \<le> now) (contact_requests s')"
    by (simp add: count_if_zero_iff list_all_iff)
  from handled have "map cr_id (contact_requests s') = map cr_id (contact_requests s)"
    unfolding contact_handled_def by (auto simp: save_row_keys)
  with d ok between created show ?thesis
    by (simp add: contacts_ok_def)
qed

lemma added_ok:
  assumes added: "contact_added now t s s'" and ok: "contacts_ok now s"
  shows "contacts_ok now s'"
proof -
  from added obtain r where s': "contact_requests s' = insert_row r (contact_requests s)"
    and r: "\<not> key_taken cr_id r (contact_requests s)" "cr_tenant_id r = t" "cr_created_at r = now"
    and free: "contact_attempts (tenant_session t) now (cr_request_ip_hash r) (cr_phone_number r) s < 5"
    unfolding contact_added_def by blast
  have limit: "contacts_between P u (until - seconds 3600) until s' \<le> 5"
    if old: "contacts_between P u (until - seconds 3600) until s \<le> 5"
      and covered: "\<And>c. P r \<Longrightarrow> P c \<Longrightarrow> cr_request_ip_hash c = cr_request_ip_hash r \<or> cr_phone_number c = cr_phone_number r"
    for P u until
  proof (cases "cr_tenant_id r = u \<and> P r \<and> until - seconds 3600 \<le> now \<and> now \<le> until")
    case False
    then have "contacts_between P u (until - seconds 3600) until s' = contacts_between P u (until - seconds 3600) until s"
      using r(3) by (auto simp: contacts_between_def s')
    with old show ?thesis by simp
  next
    case True
    have "contacts_between P u (until - seconds 3600) until s
        \<le> contact_attempts (tenant_session t) now (cr_request_ip_hash r) (cr_phone_number r) s"
    proof -
      have "count_if Q (visible cr_tenant_id (tenant_session t) rows) = count_if (\<lambda>c. cr_tenant_id c = t \<and> Q c) rows"
        for Q and rows :: "contact_request list"
        by (induction rows) (auto simp: visible_def)
      then show ?thesis
        using True r(2) covered
        unfolding contacts_between_def contact_attempts_def by (auto intro!: count_if_mono)
    qed
    with free True r(3) show ?thesis
      by (simp add: contacts_between_def s')
  qed
  have "distinct (map cr_id (contact_requests s'))"
    using ok r(1) by (simp add: contacts_ok_def s' key_taken_iff)
  moreover have "list_all (\<lambda>c. cr_created_at c \<le> now) (contact_requests s')"
    using ok r(3) by (auto simp: contacts_ok_def s' list_all_iff)
  moreover have "contacts_between (from_phone x) u (until - seconds 3600) until s' \<le> 5"
    "contacts_between (from_address x) u (until - seconds 3600) until s' \<le> 5" for x u until
    using ok by (intro limit; simp add: contacts_ok_def)+
  ultimately show ?thesis by (simp add: contacts_ok_def)
qed

lemma contacts_step:
  assumes "contacts_ok now s"
  shows "contacts_ok now (content_step V (at_time now e) s)"
proof (cases rule: content_step_cases [of "at_time now e" s V])
  case (side t)
  with side_outcome_blog [OF side(2)] assms show ?thesis by (blast intro: contacts_ok_same)
next
  case (contacts t)
  then show ?thesis
    using assms by (cases e) (auto simp: contact_effect_def intro: added_ok handled_ok)
next
  case (post t)
  then have "contact_requests (content_step V (at_time now e) s) = contact_requests s" by (auto simp: class_step_def)
  with assms show ?thesis by (blast intro: contacts_ok_same)
next
  case (blog t)
  then have "contact_requests (content_step V (at_time now e) s) = contact_requests s"
    unfolding blog_outcome_def by (auto simp: blog_step_def beside_blog_def)
  with assms show ?thesis by (blast intro: contacts_ok_same)
next
  case (build q)
  with beyond_tables(4) [OF beyond_step] assms show ?thesis by (auto intro: contacts_ok_same)
next
  case (media t)
  then have "contact_requests (content_step V (at_time now e) s) = contact_requests s" by (auto simp: media_only_def)
  with assms show ?thesis by (blast intro: contacts_ok_same)
qed

lemma contacts_run: "contacts_ok now s \<Longrightarrow> \<exists>now'. contacts_ok now' (run (content_step V) (timed now es) s)"
proof (induction now es arbitrary: s rule: timed.induct)
  case (2 now d e es)
  from 2(2) have "contacts_ok (now + int d) s" by (rule contacts_ok_later) simp
  from contacts_step [OF this] show ?case
    using 2(1) by simp
qed auto

text \<open>C33: contact_requests_bounded. In every history in which time passes, for every hour at any time, a
  school has received at most five contact requests from one phone number and at most five from
  one client address: further ones are refused, and handling requests does not make room.\<close>

theorem contact_requests_bounded:
  "contacts_between (from_phone phone) t (until - seconds 3600) until
     (run (content_step V) (timed now es) (without_content s)) \<le> 5
   \<and> contacts_between (from_address (ce_hash V client)) t (until - seconds 3600) until
     (run (content_step V) (timed now es) (without_content s)) \<le> 5"
proof -
  have "contacts_ok now (without_content s)"
    by (simp add: contacts_ok_def contacts_between_def without_content_def)
  from contacts_run [OF this] show ?thesis
    unfolding contacts_ok_def by blast
qed

section \<open>The school's profile\<close>

definition address_read :: "tenant_address \<Rightarrow> address_write" where
  "address_read a = \<lparr>adw_label = addr_label a, adw_address = addr_text a, adw_latitude = latitude a,
     adw_longitude = longitude a, adw_sort_order = addr_sort_order a\<rparr>"

definition phone_read :: "tenant_phone \<Rightarrow> phone_write" where
  "phone_read a = \<lparr>phw_label = phone_label a, phw_phone_number = phone_text a, phw_sort_order = phone_sort_order a\<rparr>"

definition social_read :: "tenant_social_link \<Rightarrow> social_write" where
  "social_read a = \<lparr>slw_platform = social_platform a, slw_url = social_url a, slw_sort_order = social_sort_order a\<rparr>"

definition reads_back :: "site_bootstrap \<Rightarrow> profile_write \<Rightarrow> bool" where
  "reads_back site b \<longleftrightarrow> site_name site = prw_display_name b
     \<and> map_option profile_description (site_profile site) = Some (prw_description b)
     \<and> map address_read (site_addresses site) = sort_key adw_sort_order (prw_addresses b)
     \<and> map phone_read (site_phones site) = sort_key phw_sort_order (prw_phones b)
     \<and> map social_read (site_social_links site) = sort_key slw_sort_order (prw_social_links b)"

lemma map_insort_key: "(\<And>x. k (f x) = j x) \<Longrightarrow> map f (insort_key j x xs) = insort_key k (f x) (map f xs)"
  by (induction xs) auto

lemma map_sort_key: "(\<And>x. k (f x) = j x) \<Longrightarrow> map f (sort_key j xs) = sort_key k (map f xs)"
  by (induction xs) (simp_all add: map_insort_key [of k f j])

lemma write_eta:
  "\<lparr>adw_label = adw_label a, adw_address = adw_address a, adw_latitude = adw_latitude a, adw_longitude = adw_longitude a,
     adw_sort_order = adw_sort_order a\<rparr> = a"
  "\<lparr>phw_label = phw_label x, phw_phone_number = phw_phone_number x, phw_sort_order = phw_sort_order x\<rparr> = x"
  "\<lparr>slw_platform = slw_platform y, slw_url = slw_url y, slw_sort_order = slw_sort_order y\<rparr> = y"
  by (cases a; cases x; cases y; simp)+

lemma reads_new:
  "map address_read (new_addresses d t xs) = xs" "map phone_read (new_phones d t ys) = ys"
  "map social_read (new_social_links d t zs) = zs"
  by (simp_all add: new_addresses_def new_phones_def new_social_links_def address_read_def phone_read_def
      social_read_def case_prod_unfold o_def write_eta)

lemma visible_own: "(\<And>r. r \<in> set rows \<Longrightarrow> tid r = t) \<Longrightarrow> visible tid (tenant_session t) rows = rows"
  by (simp add: visible_def filter_id_conv)

lemma visible_cleared:
  "visible tid (tenant_session t) (delete_where tid (tenant_session t) (\<lambda>x. tid x = t) rows) = []"
  by (auto simp: visible_def delete_where_def filter_empty_conv)

lemma replaced_profile:
  assumes "replace_profile now d t actor b s = (Inr p, s')"
  shows "visible addr_tenant_id (tenant_session t) (addresses s') = new_addresses d t (prw_addresses b)"
    "visible phone_tenant_id (tenant_session t) (phones s') = new_phones d t (prw_phones b)"
    "visible social_tenant_id (tenant_session t) (social_links s') = new_social_links d t (prw_social_links b)"
    "scalar (visible profile_tenant_id (tenant_session t) (profiles s')) = Some p"
    "profile_display_name p = prw_display_name b" "profile_description p = prw_description b"
proof -
  define rs where "rs = (case find_profile t s of None \<Rightarrow> insert_row p (profiles s)
      | Some _ \<Rightarrow> save_row profile_tenant_id profile_id (tenant_session t) p (profiles s))"
  from assms have s': "s' = audit now t actor ''tenant_profile.updated'' ''tenant_profile'' (profile_id p)
      (clear_contacts t s\<lparr>profiles := rs, addresses := addresses (clear_contacts t s) @ new_addresses d t (prw_addresses b),
        phones := phones (clear_contacts t s) @ new_phones d t (prw_phones b),
        social_links := social_links (clear_contacts t s) @ new_social_links d t (prw_social_links b)\<rparr>)"
    and p: "profile_tenant_id p = t" "profile_display_name p = prw_display_name b" "profile_description p = prw_description b"
      "profile_id p = (case find_profile t s of None \<Rightarrow> id_profile d | Some p \<Rightarrow> profile_id p)"
    unfolding replace_profile_def Let_def rs_def by (auto simp del: split_paired_All split: if_split_asm)
  show "profile_display_name p = prw_display_name b" "profile_description p = prw_description b" by (fact p)+
  have new: "visible addr_tenant_id (tenant_session t) (new_addresses d t xs) = new_addresses d t xs"
    "visible phone_tenant_id (tenant_session t) (new_phones d t ys) = new_phones d t ys"
    "visible social_tenant_id (tenant_session t) (new_social_links d t zs) = new_social_links d t zs" for xs ys zs
    by (auto simp: new_addresses_def new_phones_def new_social_links_def intro!: visible_own)
  show "visible addr_tenant_id (tenant_session t) (addresses s') = new_addresses d t (prw_addresses b)"
    "visible phone_tenant_id (tenant_session t) (phones s') = new_phones d t (prw_phones b)"
    "visible social_tenant_id (tenant_session t) (social_links s') = new_social_links d t (prw_social_links b)"
    by (simp_all add: s' audit_def clear_contacts_def visible_cleared new)
  have all: "select_where profile_tenant_id (tenant_session t) (\<lambda>x. profile_tenant_id x = t) (profiles s)
      = visible profile_tenant_id (tenant_session t) (profiles s)"
    by (auto simp: select_where_def visible_def intro: filter_cong)
  have "scalar (visible profile_tenant_id (tenant_session t) rs) = Some p"
  proof (cases "find_profile t s")
    case None
    then have "visible profile_tenant_id (tenant_session t) (profiles s) = []"
      unfolding find_profile_def all by simp
    with None p(1) show ?thesis
      by (simp add: rs_def visible_insert_row_own)
  next
    case (Some old)
    then obtain rest where "visible profile_tenant_id (tenant_session t) (profiles s) = old # rest"
      unfolding find_profile_def all by (auto simp: scalar_def split: list.splits)
    with Some p(1,4) show ?thesis
      by (simp add: rs_def visible_save_row_own)
  qed
  then show "scalar (visible profile_tenant_id (tenant_session t) (profiles s')) = Some p"
    by (simp add: s' audit_def)
qed

text \<open>profile_reads_back. Replacing a school's profile either fails and changes nothing, or the
  site's bootstrap answers with exactly the display name, description, addresses, phones and links
  that were sent (links as the validator normalises them), each list in its sort order with ties in the order sent,
  and with nothing left of the earlier profile.\<close>

theorem profile_reads_back:
  "case replace_school_profile http_url now d ctx who b s of
     (Inl e, s') \<Rightarrow> s' = s
   | (Inr p, s') \<Rightarrow>
       (case validate_profile_write http_url b of
          Inl e \<Rightarrow> False
        | Inr b' \<Rightarrow> reads_back (site_bootstrap_of by_text ctx s') b' \<and> site_profile (site_bootstrap_of by_text ctx s') = Some p)"
proof (cases "replace_school_profile http_url now d ctx who b s")
  case (Pair out s')
  show ?thesis
  proof (cases out)
    case (Inl e)
    have "snd (replace_school_profile http_url now d ctx who b s) = s"
      unfolding replace_school_profile_def
      by (rule transaction_error_unchanged) (use Pair Inl in \<open>simp add: replace_school_profile_def\<close>)
    with Pair Inl show ?thesis by simp
  next
    case (Inr p)
    with Pair have "guarded (attempt (admin_guard (Some (lit ''school_profile'')) PROFILE_WRITE ctx who s) (\<lambda>_.
                validate_profile_write http_url b)) (\<lambda>b. replace_profile now d (ctx_tenant_id ctx) (pr_user_id who) b s) s = (Inr p, s')"
      by (simp add: replace_school_profile_def transaction_Inr)
    from guarded_Inr [OF this] obtain b' where b': "validate_profile_write http_url b = Inr b'"
      and run: "replace_profile now d (ctx_tenant_id ctx) (pr_user_id who) b' s = (Inr p, s')"
      by (auto simp: attempt_def split: sum.splits)
    note R = replaced_profile [OF run]
    have "map address_read (sort_key addr_sort_order xs) = sort_key adw_sort_order (map address_read xs)"
      "map phone_read (sort_key phone_sort_order ys) = sort_key phw_sort_order (map phone_read ys)"
      "map social_read (sort_key social_sort_order zs) = sort_key slw_sort_order (map social_read zs)" for xs ys zs
      by (rule map_sort_key, simp add: address_read_def phone_read_def social_read_def)+
    then have "reads_back (site_bootstrap_of by_text ctx s') b'" "site_profile (site_bootstrap_of by_text ctx s') = Some p"
      by (simp_all add: reads_back_def site_bootstrap_of_def Let_def tenant_cursor_def R reads_new)
    with Pair Inr b' show ?thesis by simp
  qed
qed

end
