(* ===== verification/Schema.thy ===== *)
theory Schema
  imports Tables
begin

text \<open>
  The database schema as the migrations of \<open>migrations/versions/\<close> build it: columns, constraints,
  indexes, row-level security and privileges, with the rows of the tables where a migration
  touches data. An \<open>operation\<close> is one call of Alembic's \<open>op\<close>; \<open>migrate\<close> runs a list of them and
  stops at the first one that PostgreSQL refuses. The lemmas turn a run over whole tables into
  checks on summaries of tables, so that a migration of a thousand lines is run by the simplifier
  with every table a folded constant.
\<close>

section \<open>Columns, constraints, indexes and tables\<close>

datatype sql_type =
    VarChar nat | TextType | BooleanType | IntegerType | BigIntType | UuidType | TimestampTz
  | DateType | JsonbType

text \<open>\<open>server_default=sa.text(...)\<close>: the two expressions the code gives.\<close>

datatype server_default = Now | Jsonb_literal json

datatype column =
  Column (column_name: string) (column_type: sql_type) (is_nullable: bool)
    (column_default: "server_default option")

datatype table_constraint =
    PrimaryKeyConstraint string "string list"
  | UniqueConstraint string "string list"
  | ForeignKeyConstraint string "string list" string "string list" "string option"
  | CheckConstraint string string

datatype table_index =
  Index (index_name: string) (index_columns: "string list") (is_unique: bool)
    (index_where: "string option")

text \<open>
  The expressions of the policies: columns, \<open>current_setting(name, true)\<close>, text literals,
  \<open>NULLIF\<close>, the cast to \<open>uuid\<close> and equality.
\<close>

datatype sql_expr =
    Column_value string
  | Current_setting string
  | Text_literal string
  | Nullif sql_expr sql_expr
  | Cast_uuid sql_expr
  | Equals sql_expr sql_expr

datatype policy = Policy (policy_name: string) (policy_using: sql_expr) (policy_check: sql_expr)

datatype cell = Null | Text ustr | Json json | Uuid uuid | Timestamp instant | Boolean bool

type_synonym table_row = "string \<Rightarrow> cell"

record table =
  table_name :: string
  table_columns :: "column list"
  table_constraints :: "table_constraint list"
  table_indexes :: "table_index list"
  row_security :: bool
  force_row_security :: bool
  table_policies :: "policy list"
  app_privileges :: bool
  table_rows :: "table_row list"

record role =
  rolname :: string
  rolsuper :: bool
  rolbypassrls :: bool
  rolcreatedb :: bool
  rolcreaterole :: bool
  rolcanlogin :: bool

record database =
  db_roles :: "role list"
  db_tables :: "table list"
  schema_usage :: bool
  transaction_time :: instant

text \<open>A text literal of SQL inside a longer text.\<close>

definition quoted :: "string \<Rightarrow> string" where
  "quoted s = [CHR 0x27] @ s @ [CHR 0x27]"

definition empty_database :: "role list \<Rightarrow> instant \<Rightarrow> database" where
  "empty_database roles now =
     \<lparr>db_roles = roles, db_tables = [], schema_usage = False, transaction_time = now\<rparr>"

definition new_table :: "string \<Rightarrow> column list \<Rightarrow> table_constraint list \<Rightarrow> table" where
  "new_table n cs ks =
     \<lparr>table_name = n, table_columns = cs, table_constraints = ks, table_indexes = [],
      row_security = False, force_row_security = False, table_policies = [],
      app_privileges = False, table_rows = []\<rparr>"

section \<open>Names, keys and references\<close>

fun constraint_name :: "table_constraint \<Rightarrow> string" where
  "constraint_name (PrimaryKeyConstraint n cs) = n"
| "constraint_name (UniqueConstraint n cs) = n"
| "constraint_name (ForeignKeyConstraint n cs t rs od) = n"
| "constraint_name (CheckConstraint n e) = n"

text \<open>The columns a constraint names, except those inside a check expression.\<close>

fun constraint_columns :: "table_constraint \<Rightarrow> string list" where
  "constraint_columns (PrimaryKeyConstraint n cs) = cs"
| "constraint_columns (UniqueConstraint n cs) = cs"
| "constraint_columns (ForeignKeyConstraint n cs t rs od) = cs"
| "constraint_columns (CheckConstraint n e) = []"

fun key_of :: "table_constraint \<Rightarrow> string list list" where
  "key_of (PrimaryKeyConstraint n cs) = [cs]"
| "key_of (UniqueConstraint n cs) = [cs]"
| "key_of k = []"

fun reference_of :: "table_constraint \<Rightarrow> (string list \<times> string \<times> string list) list" where
  "reference_of (ForeignKeyConstraint n cs t rs od) = [(cs, t, rs)]"
| "reference_of k = []"

text \<open>Primary keys and unique constraints are backed by an index of the constraint's name.\<close>

fun backing_index :: "table_constraint \<Rightarrow> string list" where
  "backing_index (PrimaryKeyConstraint n cs) = [n]"
| "backing_index (UniqueConstraint n cs) = [n]"
| "backing_index k = []"

definition table_keys :: "table \<Rightarrow> string list list" where
  "table_keys t = concat (map key_of (table_constraints t))"

definition table_references :: "table \<Rightarrow> (string list \<times> string \<times> string list) list" where
  "table_references t = concat (map reference_of (table_constraints t))"

text \<open>Tables and indexes share one name space.\<close>

definition relation_names :: "table \<Rightarrow> string list" where
  "relation_names t =
     table_name t # concat (map backing_index (table_constraints t)) @ map index_name (table_indexes t)"

definition type_of_column :: "table \<Rightarrow> string \<Rightarrow> sql_type option" where
  "type_of_column t c = map_of (map (\<lambda>k. (column_name k, column_type k)) (table_columns t)) c"

definition has_columns :: "table \<Rightarrow> string list \<Rightarrow> bool" where
  "has_columns t cs = list_all (\<lambda>c. c \<in> set (map column_name (table_columns t))) cs"

definition find_table :: "string \<Rightarrow> table list \<Rightarrow> table option" where
  "find_table n ts = scalar (filter (\<lambda>t. table_name t = n) ts)"

text \<open>
  A foreign key is accepted when the table it refers to exists, the columns it refers to are a key
  of that table, and the types agree.
\<close>

definition reference_ok :: "table list \<Rightarrow> table \<Rightarrow> string list \<times> string \<times> string list \<Rightarrow> bool" where
  "reference_ok ts t r =
     (case r of (cs, n, rs) \<Rightarrow>
        (case find_table n ts of
           None \<Rightarrow> False
         | Some u \<Rightarrow> rs \<in> set (table_keys u) \<and> map (type_of_column t) cs = map (type_of_column u) rs))"

section \<open>Operations\<close>

datatype ddl_error =
    Raised string
  | Duplicate_table
  | Duplicate_column
  | Duplicate_object
  | Undefined_table
  | Undefined_column
  | Undefined_object
  | Invalid_foreign_key
  | Foreign_key_violation
  | Not_null_violation
  | Dependent_objects

datatype operation =
    Require_application_role
  | Create_table string "column list" "table_constraint list"
  | Drop_table string
  | Create_index string string "string list" bool "string option"
  | Drop_index string string
  | Add_column string column
  | Drop_column string string
  | Create_foreign_key string string string "string list" "string list"
  | Drop_constraint string string
  | Enable_row_security string
  | Force_row_security string
  | No_force_row_security string
  | Create_policy string string sql_expr sql_expr
  | Grant_schema_usage
  | Grant_all_tables
  | Grant_tables "string list"
  | Update_rows string "table_row \<Rightarrow> table_row"

definition alter_table ::
  "string \<Rightarrow> (table \<Rightarrow> ddl_error + table) \<Rightarrow> database \<Rightarrow> ddl_error + database" where
  "alter_table n f d =
     (case find_table n (db_tables d) of
        None \<Rightarrow> Inl Undefined_table
      | Some t \<Rightarrow>
          (case f t of
             Inl e \<Rightarrow> Inl e
           | Inr t' \<Rightarrow>
               Inr (d\<lparr>db_tables := map (\<lambda>u. if table_name u = n then t' else u) (db_tables d)\<rparr>)))"

definition all_relations :: "database \<Rightarrow> string list" where
  "all_relations d = concat (map relation_names (db_tables d))"

definition create_table ::
  "string \<Rightarrow> column list \<Rightarrow> table_constraint list \<Rightarrow> database \<Rightarrow> ddl_error + database" where
  "create_table n cs ks d =
     (let t = new_table n cs ks in
      if list_ex (\<lambda>r. r \<in> set (all_relations d)) (relation_names t) \<or> \<not> distinct (relation_names t)
      then Inl Duplicate_table
      else if \<not> distinct (map column_name cs) then Inl Duplicate_column
      else if \<not> distinct (map constraint_name ks) then Inl Duplicate_object
      else if \<not> list_all (\<lambda>k. has_columns t (constraint_columns k)) ks then Inl Undefined_column
      else if \<not> list_all (reference_ok (db_tables d @ [t]) t) (table_references t)
      then Inl Invalid_foreign_key
      else Inr (d\<lparr>db_tables := db_tables d @ [t]\<rparr>))"

text \<open>A table other tables refer to cannot be dropped (no \<open>CASCADE\<close>).\<close>

definition drop_table :: "string \<Rightarrow> database \<Rightarrow> ddl_error + database" where
  "drop_table n d =
     (if find_table n (db_tables d) = None then Inl Undefined_table
      else if list_ex (\<lambda>t. table_name t \<noteq> n \<and> list_ex (\<lambda>(cs, u, rs). u = n) (table_references t)) (db_tables d)
      then Inl Dependent_objects
      else Inr (d\<lparr>db_tables := filter (\<lambda>t. table_name t \<noteq> n) (db_tables d)\<rparr>))"

definition create_index ::
  "string \<Rightarrow> string \<Rightarrow> string list \<Rightarrow> bool \<Rightarrow> string option \<Rightarrow> database \<Rightarrow> ddl_error + database" where
  "create_index n t cs u w d =
     (if n \<in> set (all_relations d) then Inl Duplicate_table
      else alter_table t (\<lambda>t.
        if \<not> has_columns t cs then Inl Undefined_column
        else Inr (t\<lparr>table_indexes := table_indexes t @ [Index n cs u w]\<rparr>)) d)"

definition drop_index :: "string \<Rightarrow> string \<Rightarrow> database \<Rightarrow> ddl_error + database" where
  "drop_index n t d =
     alter_table t (\<lambda>t.
       if n \<notin> set (map index_name (table_indexes t)) then Inl Undefined_object
       else Inr (t\<lparr>table_indexes := filter (\<lambda>i. index_name i \<noteq> n) (table_indexes t)\<rparr>)) d"

definition default_cell :: "instant \<Rightarrow> server_default option \<Rightarrow> cell" where
  "default_cell now e =
     (case e of None \<Rightarrow> Null | Some Now \<Rightarrow> Timestamp now | Some (Jsonb_literal j) \<Rightarrow> Json j)"

text \<open>Existing rows get the default, or NULL, which a \<open>NOT NULL\<close> column refuses.\<close>

definition add_column :: "string \<Rightarrow> column \<Rightarrow> database \<Rightarrow> ddl_error + database" where
  "add_column t c d =
     alter_table t (\<lambda>t.
       if column_name c \<in> set (map column_name (table_columns t)) then Inl Duplicate_column
       else if \<not> is_nullable c \<and> column_default c = None \<and> table_rows t \<noteq> [] then Inl Not_null_violation
       else Inr (t\<lparr>table_columns := table_columns t @ [c],
                   table_rows := map (\<lambda>r. r(column_name c := default_cell (transaction_time d) (column_default c)))
                     (table_rows t)\<rparr>)) d"

text \<open>
  The constraints and indexes over a dropped column go with it. A foreign key of another table
  that refers to the column stands in the way.
\<close>

definition drop_column :: "string \<Rightarrow> string \<Rightarrow> database \<Rightarrow> ddl_error + database" where
  "drop_column t c d =
     (if list_ex (\<lambda>u. table_name u \<noteq> t \<and> list_ex (\<lambda>(cs, n, rs). n = t \<and> c \<in> set rs) (table_references u)) (db_tables d)
      then Inl Dependent_objects
      else alter_table t (\<lambda>t.
        if c \<notin> set (map column_name (table_columns t)) then Inl Undefined_column
        else Inr (t\<lparr>table_columns := filter (\<lambda>k. column_name k \<noteq> c) (table_columns t),
                    table_constraints := filter (\<lambda>k. c \<notin> set (constraint_columns k)) (table_constraints t),
                    table_indexes := filter (\<lambda>i. c \<notin> set (index_columns i)) (table_indexes t),
                    table_rows := map (\<lambda>r. r(c := Null)) (table_rows t)\<rparr>)) d)"

text \<open>
  \<open>MATCH SIMPLE\<close>: a row with a NULL among the referring columns is not checked.
\<close>

definition row_matches :: "string list \<Rightarrow> string list \<Rightarrow> table_row \<Rightarrow> table_row \<Rightarrow> bool" where
  "row_matches cs rs r r' = list_all2 (\<lambda>c c'. r c \<noteq> Null \<and> r c = r' c') cs rs"

definition row_refers :: "string list \<Rightarrow> string list \<Rightarrow> table_row list \<Rightarrow> table_row \<Rightarrow> bool" where
  "row_refers cs rs targets r =
     (list_ex (\<lambda>c. r c = Null) cs \<or> list_ex (row_matches cs rs r) targets)"

definition create_foreign_key ::
  "string \<Rightarrow> string \<Rightarrow> string \<Rightarrow> string list \<Rightarrow> string list \<Rightarrow> database \<Rightarrow> ddl_error + database" where
  "create_foreign_key n t u cs rs d =
     (case find_table u (db_tables d) of
        None \<Rightarrow> Inl Undefined_table
      | Some target \<Rightarrow>
          alter_table t (\<lambda>t.
            if n \<in> set (map constraint_name (table_constraints t)) then Inl Duplicate_object
            else if \<not> has_columns t cs then Inl Undefined_column
            else if \<not> reference_ok (db_tables d) t (cs, u, rs) then Inl Invalid_foreign_key
            else if \<not> list_all (row_refers cs rs (table_rows target)) (table_rows t)
            then Inl Foreign_key_violation
            else Inr (t\<lparr>table_constraints :=
                         table_constraints t @ [ForeignKeyConstraint n cs u rs None]\<rparr>)) d)"

text \<open>\<open>op.drop_constraint(..., type_="foreignkey")\<close>: nothing depends on a foreign key.\<close>

definition is_foreign_key :: "string \<Rightarrow> table_constraint \<Rightarrow> bool" where
  "is_foreign_key n k = (constraint_name k = n \<and> reference_of k \<noteq> [])"

definition drop_constraint :: "string \<Rightarrow> string \<Rightarrow> database \<Rightarrow> ddl_error + database" where
  "drop_constraint n t d =
     alter_table t (\<lambda>t.
       if \<not> list_ex (is_foreign_key n) (table_constraints t) then Inl Undefined_object
       else Inr (t\<lparr>table_constraints :=
                    filter (\<lambda>k. constraint_name k \<noteq> n) (table_constraints t)\<rparr>)) d"

definition create_policy ::
  "string \<Rightarrow> string \<Rightarrow> sql_expr \<Rightarrow> sql_expr \<Rightarrow> database \<Rightarrow> ddl_error + database" where
  "create_policy n t u c d =
     alter_table t (\<lambda>t.
       if n \<in> set (map policy_name (table_policies t)) then Inl Duplicate_object
       else Inr (t\<lparr>table_policies := table_policies t @ [Policy n u c]\<rparr>)) d"

text \<open>\<open>GRANT SELECT, INSERT, UPDATE, DELETE ... TO kanoon_app\<close>\<close>

definition grant_tables :: "string list \<Rightarrow> database \<Rightarrow> ddl_error + database" where
  "grant_tables ns d =
     (if list_all (\<lambda>n. find_table n (db_tables d) \<noteq> None) ns
      then Inr (d\<lparr>db_tables := map (\<lambda>t. if table_name t \<in> set ns then t\<lparr>app_privileges := True\<rparr> else t)
                    (db_tables d)\<rparr>)
      else Inl Undefined_table)"

text \<open>
  An \<open>UPDATE\<close> of every row by the owner of the tables, who runs the migrations without a tenant
  setting. Row-level security does not apply to the owner unless it is forced, and then the policy
  admits no row.
\<close>

definition update_rows :: "string \<Rightarrow> (table_row \<Rightarrow> table_row) \<Rightarrow> database \<Rightarrow> ddl_error + database" where
  "update_rows t f d =
     alter_table t (\<lambda>t.
       Inr (if row_security t \<and> force_row_security t then t
            else t\<lparr>table_rows := map f (table_rows t)\<rparr>)) d"

text \<open>The \<open>DO\<close> block at the head of the initial migration.\<close>

definition require_application_role :: "database \<Rightarrow> ddl_error + database" where
  "require_application_role d =
     (let app = filter (\<lambda>r. rolname r = ''kanoon_app'') (db_roles d) in
      if app = [] then Inl (Raised ''Required PostgreSQL role kanoon_app is not provisioned'')
      else if list_ex (\<lambda>r. rolsuper r \<or> rolbypassrls r \<or> rolcreatedb r \<or> rolcreaterole r \<or> rolcanlogin r) app
      then Inl (Raised ''kanoon_app has unsafe role attributes'')
      else Inr d)"

fun perform :: "operation \<Rightarrow> database \<Rightarrow> ddl_error + database" where
  "perform Require_application_role d = require_application_role d"
| "perform (Create_table n cs ks) d = create_table n cs ks d"
| "perform (Drop_table n) d = drop_table n d"
| "perform (Create_index n t cs u w) d = create_index n t cs u w d"
| "perform (Drop_index n t) d = drop_index n t d"
| "perform (Add_column t c) d = add_column t c d"
| "perform (Drop_column t c) d = drop_column t c d"
| "perform (Create_foreign_key n t u cs rs) d = create_foreign_key n t u cs rs d"
| "perform (Drop_constraint n t) d = drop_constraint n t d"
| "perform (Enable_row_security t) d = alter_table t (\<lambda>t. Inr (t\<lparr>row_security := True\<rparr>)) d"
| "perform (Force_row_security t) d = alter_table t (\<lambda>t. Inr (t\<lparr>force_row_security := True\<rparr>)) d"
| "perform (No_force_row_security t) d = alter_table t (\<lambda>t. Inr (t\<lparr>force_row_security := False\<rparr>)) d"
| "perform (Create_policy n t u c) d = create_policy n t u c d"
| "perform Grant_schema_usage d = Inr (d\<lparr>schema_usage := True\<rparr>)"
| "perform Grant_all_tables d =
     Inr (d\<lparr>db_tables := map (\<lambda>t. t\<lparr>app_privileges := True\<rparr>) (db_tables d)\<rparr>)"
| "perform (Grant_tables ns) d = grant_tables ns d"
| "perform (Update_rows t f) d = update_rows t f d"

text \<open>A migration runs in one transaction: the first refusal ends it.\<close>

fun migrate :: "operation list \<Rightarrow> database \<Rightarrow> ddl_error + database" where
  "migrate [] d = Inr d"
| "migrate (op # ops) d = (case perform op d of Inl e \<Rightarrow> Inl e | Inr d' \<Rightarrow> migrate ops d')"

lemma migrate_append:
  "migrate (ops @ ops') d = (case migrate ops d of Inl e \<Rightarrow> Inl e | Inr d' \<Rightarrow> migrate ops' d')"
  by (induction ops arbitrary: d) (auto split: sum.splits)

lemma migrate_appendI:
  assumes "migrate ops d = Inr d'"
  shows "migrate (ops @ ops') d = migrate ops' d'"
  using assms by (simp add: migrate_append)

end
