(* ===== verification/Metadata.thy ===== *)
theory Metadata
  imports Schema
begin

text \<open>
  The ORM's view of the schema: the mapped classes of every \<open>models.py\<close> as
    declarations, and what
  the declarative base of \<open>core/models.py\<close> makes of them,
    with its mixins and its naming convention.
  \<open>metadata\<close> is \<open>Base.metadata\<close> after \<open>all_models.py\<close> has
    imported every module. The defaults that
  Python fills in (\<open>default=...\<close>) are no part of the schema.
\<close>

section \<open>Declarations\<close>

datatype annotation = Py_uuid | Py_str | Py_int | Py_bool | Py_datetime | Py_date | Py_json

record attribute =
  attr_column :: string
  attr_annotation :: annotation
  attr_optional :: bool
  attr_type :: "sql_type option"
  attr_reference :: "(string \<times> string \<times> string option) option"
  attr_nullable :: "bool option"
  attr_primary_key :: bool
  attr_unique :: bool
  attr_index :: bool
  attr_default :: "server_default option"

text \<open>\<open>name: Mapped[annotation]\<close>, or \<open>Mapped[annotation | None]\<close>,
  with nothing else said.\<close>

definition mapped :: "string \<Rightarrow> annotation \<Rightarrow> attribute" where
  "mapped n a =
     \<lparr>attr_column = n, attr_annotation = a, attr_optional = False, attr_type = None,
      attr_reference = None, attr_nullable = None, attr_primary_key = False, attr_unique = False,
      attr_index = False, attr_default = None\<rparr>"

datatype table_arg =
    Unique_arg "string list"
  | Foreign_key_arg "string list" string "string list" "string option"
  | Check_arg string string
  | Index_arg string "string list" bool "string option"

record model_class =
  class_table :: string
  class_args :: "table_arg list"
  class_attributes :: "attribute list"
  uuid_primary_key_mixin :: bool
  timestamp_mixin :: bool

section \<open>Names of constraints\<close>

datatype name_part = Part string | Table_name | Column_0_N_name | Constraint_name |
  Referred_table_name

definition NAMING_CONVENTION :: "string \<rightharpoonup> name_part list" where
  "NAMING_CONVENTION =
     map_of [(''ix'', [Part ''ix_'', Table_name, Part ''_'', Column_0_N_name]),
             (''uq'', [Part ''uq_'', Table_name, Part ''_'', Column_0_N_name]),
             (''ck'', [Part ''ck_'', Table_name, Part ''_'', Constraint_name]),
             (''fk'', [Part ''fk_'', Table_name, Part ''_'', Column_0_N_name, Part ''_'',
               Referred_table_name]),
             (''pk'', [Part ''pk_'', Table_name])]"

text \<open>\<open>column_0_N_name\<close>: the names of all columns,
  joined by underscores.\<close>

fun join_names :: "string list \<Rightarrow> string" where
  "join_names [] = []"
| "join_names [n] = n"
| "join_names (n # ns) = n @ ''_'' @ join_names ns"

fun part_text :: "string \<Rightarrow> string list \<Rightarrow> string \<Rightarrow> string
  \<Rightarrow> name_part \<Rightarrow> string" where
  "part_text t cs n r (Part s) = s"
| "part_text t cs n r Table_name = t"
| "part_text t cs n r Column_0_N_name = join_names cs"
| "part_text t cs n r Constraint_name = n"
| "part_text t cs n r Referred_table_name = r"

definition convention_name :: "string \<Rightarrow> string \<Rightarrow> string list \<Rightarrow>
  string \<Rightarrow> string \<Rightarrow> string" where
  "convention_name kind t cs n r =
     (case NAMING_CONVENTION kind of
        None \<Rightarrow> n
      | Some parts \<Rightarrow> concat (map (part_text t cs n r) parts))"

section \<open>From declarations to tables\<close>

text \<open>
  The column type an annotation stands for when none is given. The declarations give one wherever
  the annotation is \<open>str\<close>, \<open>datetime\<close> or a JSON type,
    so that no other case arises; \<open>None\<close> is the
  mapper's refusal. A column with a foreign key takes the type of the column it refers to,
    which is
  \<open>uuid\<close> as its annotation is, for every one of them.
\<close>

fun annotation_type :: "annotation \<Rightarrow> sql_type option" where
  "annotation_type Py_uuid = Some UuidType"
| "annotation_type Py_int = Some IntegerType"
| "annotation_type Py_bool = Some BooleanType"
| "annotation_type Py_date = Some DateType"
| "annotation_type _ = None"

definition declared_type :: "attribute \<Rightarrow> sql_type option" where
  "declared_type a = (case attr_type a of Some t \<Rightarrow> Some t | None \<Rightarrow>
    annotation_type (attr_annotation a))"

definition declared_nullable :: "attribute \<Rightarrow> bool" where
  "declared_nullable a =
     (case attr_nullable a of Some b \<Rightarrow> b | None \<Rightarrow> attr_optional a \<and>
       \<not> attr_primary_key a)"

definition declared_column :: "attribute \<Rightarrow> column option" where
  "declared_column a =
     map_option (\<lambda>t. Column (attr_column a) t (declared_nullable a) (attr_default a))
       (declared_type a)"

definition uuid_primary_key :: "attribute list" where
  "uuid_primary_key = [(mapped ''id'' Py_uuid)\<lparr>attr_type := Some UuidType,
    attr_primary_key := True\<rparr>]"

definition timestamps :: "attribute list" where
  "timestamps =
     [(mapped ''created_at'' Py_datetime)\<lparr>attr_type := Some TimestampTz,
       attr_nullable := Some False,
        attr_default := Some Now\<rparr>,
      (mapped ''updated_at'' Py_datetime)\<lparr>attr_type := Some TimestampTz,
        attr_nullable := Some False,
        attr_default := Some Now\<rparr>]"

definition all_attributes :: "model_class \<Rightarrow> attribute list" where
  "all_attributes c =
     class_attributes c @ (if uuid_primary_key_mixin c then uuid_primary_key else [])
     @ (if timestamp_mixin c then timestamps else [])"

fun arg_constraints :: "string \<Rightarrow> table_arg \<Rightarrow> table_constraint list" where
  "arg_constraints t (Unique_arg cs) = [UniqueConstraint (convention_name ''uq'' t cs [] []) cs]"
| "arg_constraints t (Foreign_key_arg cs r rs od) =
     [ForeignKeyConstraint (convention_name ''fk'' t cs [] r) cs r rs od]"
| "arg_constraints t (Check_arg e n) = [CheckConstraint (convention_name ''ck'' t [] n []) e]"
| "arg_constraints t (Index_arg n cs u w) = []"

fun arg_indexes :: "table_arg \<Rightarrow> table_index list" where
  "arg_indexes (Index_arg n cs u w) = [Index n cs u w]"
| "arg_indexes _ = []"

definition attribute_constraints :: "string \<Rightarrow> attribute \<Rightarrow> table_constraint
  list" where
  "attribute_constraints t a =
     (if attr_unique a
      then [UniqueConstraint (convention_name ''uq'' t [attr_column a] [] []) [attr_column a]]
        else [])
     @ (case attr_reference a of
          None \<Rightarrow> []
        | Some (r, c, od) \<Rightarrow>
            [ForeignKeyConstraint (convention_name ''fk'' t [attr_column a] [] r) [attr_column a]
              r [c] od])"

definition attribute_indexes :: "string \<Rightarrow> attribute \<Rightarrow> table_index list"
  where
  "attribute_indexes t a =
     (if attr_index a
      then [Index (convention_name ''ix'' t [attr_column a] [] []) [attr_column a] False None]
        else [])"

definition declared_table :: "model_class \<Rightarrow> table option" where
  "declared_table c =
     (let t = class_table c; attributes = all_attributes c in
      map_option (\<lambda>columns.
        (new_table t columns
           (PrimaryKeyConstraint (convention_name ''pk'' t [] [] [])
              (map attr_column (filter attr_primary_key attributes))
            # concat (map (attribute_constraints t) attributes)
            @ concat (map (arg_constraints t) (class_args c))))
        \<lparr>table_indexes := concat (map (attribute_indexes t) attributes) @ concat (map
          arg_indexes (class_args c))\<rparr>)
      (those (map declared_column attributes)))"

section \<open>The mapped classes\<close>

definition class_AuditEvent :: model_class where
  "class_AuditEvent =
     \<lparr>class_table = ''audit_events'',
      class_args =
        [Unique_arg [''tenant_id'', ''id''],
         Index_arg ''ix_audit_events_tenant_created'' [''tenant_id'', ''created_at''] False None,
         Index_arg ''ix_audit_events_tenant_entity'' [''tenant_id'', ''entity_type'',
           ''entity_id''] False None],
      class_attributes =
        [(mapped ''tenant_id'' Py_uuid)\<lparr>attr_reference := Some (''tenants'', ''id'', None),
          attr_nullable := Some False\<rparr>,
         (mapped ''actor_user_id'' Py_uuid)\<lparr>attr_optional := True,
           attr_reference := Some (''users'', ''id'', None)\<rparr>,
         (mapped ''action'' Py_str)\<lparr>attr_type := Some (VarChar 100),
           attr_nullable := Some False\<rparr>,
         (mapped ''entity_type'' Py_str)\<lparr>attr_type := Some (VarChar 100),
           attr_nullable := Some False\<rparr>,
         (mapped ''entity_id'' Py_uuid)\<lparr>attr_optional := True\<rparr>,
         (mapped ''metadata'' Py_json)\<lparr>attr_type := Some JsonbType,
           attr_nullable := Some False\<rparr>,
         (mapped ''created_at'' Py_datetime)\<lparr>attr_type := Some TimestampTz,
           attr_nullable := Some False\<rparr>],
      uuid_primary_key_mixin = True, timestamp_mixin = False\<rparr>"

definition class_User :: model_class where
  "class_User =
     \<lparr>class_table = ''users'',
      class_args =
        [],
      class_attributes =
        [(mapped ''email'' Py_str)\<lparr>attr_type := Some (VarChar 320),
          attr_nullable := Some False, attr_unique := True\<rparr>,
         (mapped ''password_hash'' Py_str)\<lparr>attr_type := Some (VarChar 512),
           attr_nullable := Some False\<rparr>,
         (mapped ''is_active'' Py_bool)\<lparr>attr_type := Some BooleanType,
           attr_nullable := Some False\<rparr>,
         (mapped ''is_platform_admin'' Py_bool)\<lparr>attr_type := Some BooleanType,
           attr_nullable := Some False\<rparr>],
      uuid_primary_key_mixin = True, timestamp_mixin = True\<rparr>"

definition class_TenantMembership :: model_class where
  "class_TenantMembership =
     \<lparr>class_table = ''tenant_memberships'',
      class_args =
        [Index_arg ''ix_tenant_memberships_tenant_role'' [''tenant_id'', ''role''] False None],
      class_attributes =
        [(mapped ''tenant_id'' Py_uuid)\<lparr>attr_reference := Some (''tenants'', ''id'',
          Some ''CASCADE''), attr_primary_key := True\<rparr>,
         (mapped ''user_id'' Py_uuid)\<lparr>attr_reference := Some (''users'', ''id'',
           Some ''CASCADE''), attr_primary_key := True\<rparr>,
         (mapped ''role'' Py_str)\<lparr>attr_type := Some (VarChar 32),
           attr_nullable := Some False\<rparr>,
         (mapped ''created_at'' Py_datetime)\<lparr>attr_type := Some TimestampTz,
           attr_nullable := Some False\<rparr>],
      uuid_primary_key_mixin = False, timestamp_mixin = False\<rparr>"

definition class_RefreshToken :: model_class where
  "class_RefreshToken =
     \<lparr>class_table = ''refresh_tokens'',
      class_args =
        [Index_arg ''ix_refresh_tokens_user_active'' [''user_id'', ''revoked_at''] False None],
      class_attributes =
        [(mapped ''user_id'' Py_uuid)\<lparr>attr_reference := Some (''users'', ''id'',
          Some ''CASCADE''), attr_nullable := Some False\<rparr>,
         (mapped ''tenant_id'' Py_uuid)\<lparr>attr_optional := True,
           attr_reference := Some (''tenants'', ''id'', None)\<rparr>,
         (mapped ''family_id'' Py_uuid)\<lparr>attr_nullable := Some False\<rparr>,
         (mapped ''token_hash'' Py_str)\<lparr>attr_type := Some (VarChar 64),
           attr_nullable := Some False, attr_unique := True\<rparr>,
         (mapped ''expires_at'' Py_datetime)\<lparr>attr_type := Some TimestampTz,
           attr_nullable := Some False\<rparr>,
         (mapped ''created_at'' Py_datetime)\<lparr>attr_type := Some TimestampTz,
           attr_nullable := Some False\<rparr>,
         (mapped ''revoked_at'' Py_datetime)\<lparr>attr_optional := True,
           attr_type := Some TimestampTz\<rparr>,
         (mapped ''replaced_by_id'' Py_uuid)\<lparr>attr_optional := True,
           attr_reference := Some (''refresh_tokens'', ''id'', None)\<rparr>],
      uuid_primary_key_mixin = True, timestamp_mixin = False\<rparr>"

definition class_AuthenticationAttempt :: model_class where
  "class_AuthenticationAttempt =
     \<lparr>class_table = ''authentication_attempts'',
      class_args =
        [Index_arg ''ix_auth_attempt_scope_created'' [''scope_hash'', ''created_at''] False None],
      class_attributes =
        [(mapped ''scope_hash'' Py_str)\<lparr>attr_type := Some (VarChar 64),
          attr_nullable := Some False\<rparr>,
         (mapped ''succeeded'' Py_bool)\<lparr>attr_type := Some BooleanType,
           attr_nullable := Some False\<rparr>,
         (mapped ''created_at'' Py_datetime)\<lparr>attr_type := Some TimestampTz,
           attr_nullable := Some False\<rparr>],
      uuid_primary_key_mixin = True, timestamp_mixin = False\<rparr>"

definition class_Banner :: model_class where
  "class_Banner =
     \<lparr>class_table = ''banners'',
      class_args =
        [Unique_arg [''tenant_id'', ''id''],
         Foreign_key_arg [''tenant_id'', ''image_id''] ''media_assets'' [''tenant_id'',
           ''id''] None,
         Check_arg ''status IN ('DRAFT', 'PUBLISHED', 'ARCHIVED')'' ''valid_status'',
         Check_arg ''ends_at IS NULL OR starts_at IS NULL OR ends_at > starts_at''
           ''valid_window'',
         Index_arg ''ix_banners_tenant_public'' [''tenant_id'', ''status'',
           ''sort_order''] False None],
      class_attributes =
        [(mapped ''tenant_id'' Py_uuid)\<lparr>attr_reference := Some (''tenants'', ''id'', None),
          attr_nullable := Some False\<rparr>,
         (mapped ''title'' Py_str)\<lparr>attr_type := Some (VarChar 200),
           attr_nullable := Some False\<rparr>,
         (mapped ''description'' Py_str)\<lparr>attr_optional := True,
           attr_type := Some TextType\<rparr>,
         (mapped ''image_id'' Py_uuid)\<lparr>attr_nullable := Some False\<rparr>,
         (mapped ''target_url'' Py_str)\<lparr>attr_optional := True,
           attr_type := Some TextType\<rparr>,
         (mapped ''sort_order'' Py_int)\<lparr>attr_nullable := Some False\<rparr>,
         (mapped ''status'' Py_str)\<lparr>attr_type := Some (VarChar 16),
           attr_nullable := Some False\<rparr>,
         (mapped ''starts_at'' Py_datetime)\<lparr>attr_optional := True,
           attr_type := Some TimestampTz\<rparr>,
         (mapped ''ends_at'' Py_datetime)\<lparr>attr_optional := True,
           attr_type := Some TimestampTz\<rparr>],
      uuid_primary_key_mixin = True, timestamp_mixin = True\<rparr>"

definition class_Post :: model_class where
  "class_Post =
     \<lparr>class_table = ''posts'',
      class_args =
        [Unique_arg [''tenant_id'', ''id''],
         Unique_arg [''tenant_id'', ''kind'', ''slug''],
         Foreign_key_arg [''tenant_id'', ''cover_image_id''] ''media_assets'' [''tenant_id'',
           ''id''] None,
         Foreign_key_arg [''tenant_id'', ''og_image_id''] ''media_assets'' [''tenant_id'',
           ''id''] None,
         Check_arg ''kind IN ('NEWS', 'ANNOUNCEMENT', 'BLOG')'' ''valid_kind'',
         Check_arg ''status IN ('DRAFT', 'PUBLISHED', 'ARCHIVED')'' ''valid_status'',
         Index_arg ''ix_posts_tenant_kind_public'' [''tenant_id'', ''kind'', ''status'',
           ''published_at''] False None],
      class_attributes =
        [(mapped ''tenant_id'' Py_uuid)\<lparr>attr_reference := Some (''tenants'', ''id'', None),
          attr_nullable := Some False\<rparr>,
         (mapped ''kind'' Py_str)\<lparr>attr_type := Some (VarChar 16),
           attr_nullable := Some False\<rparr>,
         (mapped ''title'' Py_str)\<lparr>attr_type := Some (VarChar 300),
           attr_nullable := Some False\<rparr>,
         (mapped ''slug'' Py_str)\<lparr>attr_type := Some (VarChar 200),
           attr_nullable := Some False\<rparr>,
         (mapped ''summary'' Py_str)\<lparr>attr_optional := True,
           attr_type := Some TextType\<rparr>,
         (mapped ''body'' Py_str)\<lparr>attr_type := Some TextType,
           attr_nullable := Some False\<rparr>,
         (mapped ''content_document'' Py_json)\<lparr>attr_type := Some JsonbType,
           attr_nullable := Some False\<rparr>,
         (mapped ''rendered_html'' Py_str)\<lparr>attr_optional := True,
           attr_type := Some TextType\<rparr>,
         (mapped ''cover_image_id'' Py_uuid)\<lparr>attr_optional := True\<rparr>,
         (mapped ''og_image_id'' Py_uuid)\<lparr>attr_optional := True\<rparr>,
         (mapped ''seo_title'' Py_str)\<lparr>attr_optional := True,
           attr_type := Some (VarChar 300)\<rparr>,
         (mapped ''seo_description'' Py_str)\<lparr>attr_optional := True,
           attr_type := Some (VarChar 500)\<rparr>,
         (mapped ''event_date'' Py_date)\<lparr>attr_optional := True,
           attr_type := Some DateType\<rparr>,
         (mapped ''published_at'' Py_datetime)\<lparr>attr_optional := True,
           attr_type := Some TimestampTz\<rparr>,
         (mapped ''status'' Py_str)\<lparr>attr_type := Some (VarChar 16),
           attr_nullable := Some False\<rparr>,
         (mapped ''locale'' Py_str)\<lparr>attr_optional := True,
           attr_type := Some (VarChar 20)\<rparr>,
         (mapped ''created_by'' Py_uuid)\<lparr>attr_optional := True,
           attr_reference := Some (''users'', ''id'', None)\<rparr>,
         (mapped ''updated_by'' Py_uuid)\<lparr>attr_optional := True,
           attr_reference := Some (''users'', ''id'', None)\<rparr>],
      uuid_primary_key_mixin = True, timestamp_mixin = True\<rparr>"

definition class_PostMediaReference :: model_class where
  "class_PostMediaReference =
     \<lparr>class_table = ''post_media_references'',
      class_args =
        [Unique_arg [''tenant_id'', ''id''],
         Unique_arg [''tenant_id'', ''post_id'', ''media_id''],
         Foreign_key_arg [''tenant_id'', ''post_id''] ''posts'' [''tenant_id'',
           ''id''] (Some ''CASCADE''),
         Foreign_key_arg [''tenant_id'', ''media_id''] ''media_assets'' [''tenant_id'',
           ''id''] None,
         Index_arg ''ix_post_media_references_tenant_post'' [''tenant_id'',
           ''post_id''] False None,
         Index_arg ''ix_post_media_references_tenant_media'' [''tenant_id'',
           ''media_id''] False None],
      class_attributes =
        [(mapped ''tenant_id'' Py_uuid)\<lparr>attr_reference := Some (''tenants'', ''id'', None),
          attr_nullable := Some False\<rparr>,
         (mapped ''post_id'' Py_uuid)\<lparr>attr_nullable := Some False\<rparr>,
         (mapped ''media_id'' Py_uuid)\<lparr>attr_nullable := Some False\<rparr>],
      uuid_primary_key_mixin = True, timestamp_mixin = False\<rparr>"

definition class_HonorCategory :: model_class where
  "class_HonorCategory =
     \<lparr>class_table = ''honor_categories'',
      class_args =
        [Unique_arg [''tenant_id'', ''id''],
         Unique_arg [''tenant_id'', ''slug'']],
      class_attributes =
        [(mapped ''tenant_id'' Py_uuid)\<lparr>attr_reference := Some (''tenants'', ''id'', None),
          attr_nullable := Some False\<rparr>,
         (mapped ''name'' Py_str)\<lparr>attr_type := Some (VarChar 200),
           attr_nullable := Some False\<rparr>,
         (mapped ''slug'' Py_str)\<lparr>attr_type := Some (VarChar 150),
           attr_nullable := Some False\<rparr>,
         (mapped ''description'' Py_str)\<lparr>attr_optional := True,
           attr_type := Some TextType\<rparr>,
         (mapped ''sort_order'' Py_int)\<lparr>attr_nullable := Some False\<rparr>,
         (mapped ''is_active'' Py_bool)\<lparr>attr_nullable := Some False\<rparr>,
         (mapped ''archived_at'' Py_datetime)\<lparr>attr_optional := True,
           attr_type := Some TimestampTz\<rparr>],
      uuid_primary_key_mixin = True, timestamp_mixin = True\<rparr>"

definition class_Honor :: model_class where
  "class_Honor =
     \<lparr>class_table = ''honors'',
      class_args =
        [Unique_arg [''tenant_id'', ''id''],
         Foreign_key_arg [''tenant_id'', ''category_id''] ''honor_categories'' [''tenant_id'',
           ''id''] None,
         Foreign_key_arg [''tenant_id'', ''image_id''] ''media_assets'' [''tenant_id'',
           ''id''] None,
         Check_arg ''status IN ('DRAFT', 'PUBLISHED', 'ARCHIVED')'' ''valid_status'',
         Index_arg ''ix_honors_tenant_public'' [''tenant_id'', ''status'',
           ''sort_order''] False None],
      class_attributes =
        [(mapped ''tenant_id'' Py_uuid)\<lparr>attr_reference := Some (''tenants'', ''id'', None),
          attr_nullable := Some False\<rparr>,
         (mapped ''category_id'' Py_uuid)\<lparr>attr_nullable := Some False\<rparr>,
         (mapped ''student_name'' Py_str)\<lparr>attr_type := Some (VarChar 200),
           attr_nullable := Some False\<rparr>,
         (mapped ''title'' Py_str)\<lparr>attr_type := Some (VarChar 300),
           attr_nullable := Some False\<rparr>,
         (mapped ''description'' Py_str)\<lparr>attr_optional := True,
           attr_type := Some TextType\<rparr>,
         (mapped ''year'' Py_int)\<lparr>attr_optional := True\<rparr>,
         (mapped ''rank'' Py_int)\<lparr>attr_optional := True\<rparr>,
         (mapped ''institution_name'' Py_str)\<lparr>attr_optional := True,
           attr_type := Some (VarChar 300)\<rparr>,
         (mapped ''field_of_study'' Py_str)\<lparr>attr_optional := True,
           attr_type := Some (VarChar 200)\<rparr>,
         (mapped ''image_id'' Py_uuid)\<lparr>attr_optional := True\<rparr>,
         (mapped ''sort_order'' Py_int)\<lparr>attr_nullable := Some False\<rparr>,
         (mapped ''status'' Py_str)\<lparr>attr_type := Some (VarChar 16),
           attr_nullable := Some False\<rparr>],
      uuid_primary_key_mixin = True, timestamp_mixin = True\<rparr>"

definition class_StaffMember :: model_class where
  "class_StaffMember =
     \<lparr>class_table = ''staff_members'',
      class_args =
        [Unique_arg [''tenant_id'', ''id''],
         Foreign_key_arg [''tenant_id'', ''image_id''] ''media_assets'' [''tenant_id'',
           ''id''] None,
         Check_arg ''member_type IN ('TEACHER', 'EMPLOYEE', 'MANAGER', 'OTHER')'' ''valid_type'',
         Index_arg ''ix_staff_members_tenant_active'' [''tenant_id'', ''is_active'',
           ''sort_order''] False None],
      class_attributes =
        [(mapped ''tenant_id'' Py_uuid)\<lparr>attr_reference := Some (''tenants'', ''id'', None),
          attr_nullable := Some False\<rparr>,
         (mapped ''first_name'' Py_str)\<lparr>attr_type := Some (VarChar 100),
           attr_nullable := Some False\<rparr>,
         (mapped ''last_name'' Py_str)\<lparr>attr_type := Some (VarChar 100),
           attr_nullable := Some False\<rparr>,
         (mapped ''display_name'' Py_str)\<lparr>attr_type := Some (VarChar 200),
           attr_nullable := Some False\<rparr>,
         (mapped ''member_type'' Py_str)\<lparr>attr_type := Some (VarChar 16),
           attr_nullable := Some False\<rparr>,
         (mapped ''title'' Py_str)\<lparr>attr_type := Some (VarChar 200),
           attr_nullable := Some False\<rparr>,
         (mapped ''biography'' Py_str)\<lparr>attr_optional := True,
           attr_type := Some TextType\<rparr>,
         (mapped ''image_id'' Py_uuid)\<lparr>attr_optional := True\<rparr>,
         (mapped ''public_phone'' Py_str)\<lparr>attr_optional := True,
           attr_type := Some (VarChar 32)\<rparr>,
         (mapped ''public_email'' Py_str)\<lparr>attr_optional := True,
           attr_type := Some (VarChar 320)\<rparr>,
         (mapped ''sort_order'' Py_int)\<lparr>attr_nullable := Some False\<rparr>,
         (mapped ''is_active'' Py_bool)\<lparr>attr_nullable := Some False\<rparr>,
         (mapped ''archived_at'' Py_datetime)\<lparr>attr_optional := True,
           attr_type := Some TimestampTz\<rparr>],
      uuid_primary_key_mixin = True, timestamp_mixin = True\<rparr>"

definition class_ContactRequest :: model_class where
  "class_ContactRequest =
     \<lparr>class_table = ''contact_requests'',
      class_args =
        [Unique_arg [''tenant_id'', ''id''],
         Check_arg ''status IN ('NEW', 'CONTACTED', 'CLOSED', 'SPAM')'' ''valid_status'',
         Index_arg ''ix_contact_requests_tenant_status_created'' [''tenant_id'', ''status'',
           ''created_at''] False None,
         Index_arg ''ix_contact_requests_tenant_ip_created'' [''tenant_id'', ''request_ip_hash'',
           ''created_at''] False None,
         Index_arg ''ix_contact_requests_tenant_phone_created'' [''tenant_id'', ''phone_number'',
           ''created_at''] False None],
      class_attributes =
        [(mapped ''tenant_id'' Py_uuid)\<lparr>attr_reference := Some (''tenants'', ''id'', None),
          attr_nullable := Some False\<rparr>,
         (mapped ''name'' Py_str)\<lparr>attr_type := Some (VarChar 200),
           attr_nullable := Some False\<rparr>,
         (mapped ''education_level'' Py_str)\<lparr>attr_type := Some (VarChar 100),
           attr_nullable := Some False\<rparr>,
         (mapped ''phone_number'' Py_str)\<lparr>attr_type := Some (VarChar 16),
           attr_nullable := Some False\<rparr>,
         (mapped ''request_ip_hash'' Py_str)\<lparr>attr_type := Some (VarChar 64),
           attr_nullable := Some False\<rparr>,
         (mapped ''status'' Py_str)\<lparr>attr_type := Some (VarChar 16),
           attr_nullable := Some False\<rparr>,
         (mapped ''created_at'' Py_datetime)\<lparr>attr_type := Some TimestampTz,
           attr_nullable := Some False\<rparr>,
         (mapped ''handled_at'' Py_datetime)\<lparr>attr_optional := True,
           attr_type := Some TimestampTz\<rparr>,
         (mapped ''handled_by'' Py_uuid)\<lparr>attr_optional := True,
           attr_reference := Some (''users'', ''id'', None)\<rparr>,
         (mapped ''internal_notes'' Py_str)\<lparr>attr_optional := True,
           attr_type := Some TextType\<rparr>],
      uuid_primary_key_mixin = True, timestamp_mixin = False\<rparr>"

definition class_SampleExam :: model_class where
  "class_SampleExam =
     \<lparr>class_table = ''sample_exams'',
      class_args =
        [Unique_arg [''tenant_id'', ''id''],
         Foreign_key_arg [''tenant_id'', ''file_media_id''] ''media_assets'' [''tenant_id'',
           ''id''] None,
         Foreign_key_arg [''tenant_id'', ''cover_media_id''] ''media_assets'' [''tenant_id'',
           ''id''] None,
         Check_arg ''status IN ('DRAFT', 'PUBLISHED', 'ARCHIVED')'' ''valid_status'',
         Check_arg ''download_count >= 0'' ''download_count_nonnegative'',
         Index_arg ''ix_sample_exams_tenant_public'' [''tenant_id'', ''status'',
           ''sort_order''] False None],
      class_attributes =
        [(mapped ''tenant_id'' Py_uuid)\<lparr>attr_reference := Some (''tenants'', ''id'', None),
          attr_nullable := Some False\<rparr>,
         (mapped ''title'' Py_str)\<lparr>attr_type := Some (VarChar 300),
           attr_nullable := Some False\<rparr>,
         (mapped ''description'' Py_str)\<lparr>attr_optional := True,
           attr_type := Some TextType\<rparr>,
         (mapped ''education_level'' Py_str)\<lparr>attr_optional := True,
           attr_type := Some (VarChar 100)\<rparr>,
         (mapped ''exam_year'' Py_int)\<lparr>attr_optional := True\<rparr>,
         (mapped ''file_media_id'' Py_uuid)\<lparr>attr_nullable := Some False\<rparr>,
         (mapped ''cover_media_id'' Py_uuid)\<lparr>attr_optional := True\<rparr>,
         (mapped ''sort_order'' Py_int)\<lparr>attr_nullable := Some False\<rparr>,
         (mapped ''status'' Py_str)\<lparr>attr_type := Some (VarChar 16),
           attr_nullable := Some False\<rparr>,
         (mapped ''download_count'' Py_int)\<lparr>attr_nullable := Some False\<rparr>],
      uuid_primary_key_mixin = True, timestamp_mixin = True\<rparr>"

definition class_GalleryAlbum :: model_class where
  "class_GalleryAlbum =
     \<lparr>class_table = ''gallery_albums'',
      class_args =
        [Unique_arg [''tenant_id'', ''id''],
         Unique_arg [''tenant_id'', ''slug''],
         Foreign_key_arg [''tenant_id'', ''cover_image_id''] ''media_assets'' [''tenant_id'',
           ''id''] None,
         Check_arg ''status IN ('DRAFT', 'PUBLISHED', 'ARCHIVED')'' ''valid_status'',
         Index_arg ''ix_gallery_albums_tenant_public'' [''tenant_id'', ''status'',
           ''sort_order''] False None],
      class_attributes =
        [(mapped ''tenant_id'' Py_uuid)\<lparr>attr_reference := Some (''tenants'', ''id'', None),
          attr_nullable := Some False\<rparr>,
         (mapped ''title'' Py_str)\<lparr>attr_type := Some (VarChar 300),
           attr_nullable := Some False\<rparr>,
         (mapped ''slug'' Py_str)\<lparr>attr_type := Some (VarChar 200),
           attr_nullable := Some False\<rparr>,
         (mapped ''description'' Py_str)\<lparr>attr_optional := True,
           attr_type := Some TextType\<rparr>,
         (mapped ''cover_image_id'' Py_uuid)\<lparr>attr_optional := True\<rparr>,
         (mapped ''sort_order'' Py_int)\<lparr>attr_nullable := Some False\<rparr>,
         (mapped ''status'' Py_str)\<lparr>attr_type := Some (VarChar 16),
           attr_nullable := Some False\<rparr>],
      uuid_primary_key_mixin = True, timestamp_mixin = True\<rparr>"

definition class_GalleryItem :: model_class where
  "class_GalleryItem =
     \<lparr>class_table = ''gallery_items'',
      class_args =
        [Unique_arg [''tenant_id'', ''id''],
         Foreign_key_arg [''tenant_id'', ''album_id''] ''gallery_albums'' [''tenant_id'',
           ''id''] (Some ''CASCADE''),
         Foreign_key_arg [''tenant_id'', ''media_id''] ''media_assets'' [''tenant_id'',
           ''id''] None,
         Index_arg ''ix_gallery_items_tenant_album_order'' [''tenant_id'', ''album_id'',
           ''sort_order''] False None],
      class_attributes =
        [(mapped ''tenant_id'' Py_uuid)\<lparr>attr_reference := Some (''tenants'', ''id'', None),
          attr_nullable := Some False\<rparr>,
         (mapped ''album_id'' Py_uuid)\<lparr>attr_nullable := Some False\<rparr>,
         (mapped ''media_id'' Py_uuid)\<lparr>attr_nullable := Some False\<rparr>,
         (mapped ''title'' Py_str)\<lparr>attr_optional := True,
           attr_type := Some (VarChar 300)\<rparr>,
         (mapped ''description'' Py_str)\<lparr>attr_optional := True,
           attr_type := Some TextType\<rparr>,
         (mapped ''captured_at'' Py_datetime)\<lparr>attr_optional := True,
           attr_type := Some TimestampTz\<rparr>,
         (mapped ''sort_order'' Py_int)\<lparr>attr_nullable := Some False\<rparr>,
         (mapped ''created_at'' Py_datetime)\<lparr>attr_type := Some TimestampTz,
           attr_nullable := Some False\<rparr>],
      uuid_primary_key_mixin = True, timestamp_mixin = False\<rparr>"

definition class_SchoolDirectoryEntry :: model_class where
  "class_SchoolDirectoryEntry =
     \<lparr>class_table = ''school_directory_entries'',
      class_args =
        [],
      class_attributes =
        [(mapped ''name'' Py_str)\<lparr>attr_type := Some (VarChar 300),
          attr_nullable := Some False\<rparr>,
         (mapped ''city'' Py_str)\<lparr>attr_optional := True,
           attr_type := Some (VarChar 150)\<rparr>,
         (mapped ''province'' Py_str)\<lparr>attr_optional := True,
           attr_type := Some (VarChar 150)\<rparr>,
         (mapped ''is_active'' Py_bool)\<lparr>attr_nullable := Some False\<rparr>],
      uuid_primary_key_mixin = True, timestamp_mixin = True\<rparr>"

definition class_ExamOffering :: model_class where
  "class_ExamOffering =
     \<lparr>class_table = ''exam_offerings'',
      class_args =
        [Unique_arg [''tenant_id'', ''id''],
         Unique_arg [''tenant_id'', ''slug''],
         Check_arg ''mode IN ('ONLINE', 'ONSITE')'' ''valid_mode'',
         Check_arg
           ''status IN ('DRAFT', 'REGISTRATION_OPEN', 'REGISTRATION_CLOSED', 'COMPLETED', 'ARCHIVED')'' ''valid_status'',
         Check_arg ''capacity IS NULL OR capacity > 0'' ''capacity_positive'',
         Check_arg
           ''registration_ends_at IS NULL OR registration_starts_at IS NULL OR registration_ends_at > registration_starts_at'' ''valid_registration_window'',
         Check_arg
           ''exam_ends_at IS NULL OR exam_starts_at IS NULL OR exam_ends_at > exam_starts_at''
             ''valid_exam_window'',
         Index_arg ''ix_exam_offerings_tenant_public'' [''tenant_id'', ''status'',
           ''registration_starts_at''] False None],
      class_attributes =
        [(mapped ''tenant_id'' Py_uuid)\<lparr>attr_reference := Some (''tenants'', ''id'', None),
          attr_nullable := Some False\<rparr>,
         (mapped ''title'' Py_str)\<lparr>attr_type := Some (VarChar 300),
           attr_nullable := Some False\<rparr>,
         (mapped ''slug'' Py_str)\<lparr>attr_type := Some (VarChar 200),
           attr_nullable := Some False\<rparr>,
         (mapped ''description'' Py_str)\<lparr>attr_type := Some TextType,
           attr_nullable := Some False\<rparr>,
         (mapped ''mode'' Py_str)\<lparr>attr_type := Some (VarChar 16),
           attr_nullable := Some False\<rparr>,
         (mapped ''registration_starts_at'' Py_datetime)\<lparr>attr_optional := True,
           attr_type := Some TimestampTz\<rparr>,
         (mapped ''registration_ends_at'' Py_datetime)\<lparr>attr_optional := True,
           attr_type := Some TimestampTz\<rparr>,
         (mapped ''exam_starts_at'' Py_datetime)\<lparr>attr_optional := True,
           attr_type := Some TimestampTz\<rparr>,
         (mapped ''exam_ends_at'' Py_datetime)\<lparr>attr_optional := True,
           attr_type := Some TimestampTz\<rparr>,
         (mapped ''venue_name'' Py_str)\<lparr>attr_optional := True,
           attr_type := Some (VarChar 300)\<rparr>,
         (mapped ''venue_address'' Py_str)\<lparr>attr_optional := True,
           attr_type := Some TextType\<rparr>,
         (mapped ''capacity'' Py_int)\<lparr>attr_optional := True\<rparr>,
         (mapped ''status'' Py_str)\<lparr>attr_type := Some (VarChar 32),
           attr_nullable := Some False\<rparr>],
      uuid_primary_key_mixin = True, timestamp_mixin = True\<rparr>"

definition class_PricingPlan :: model_class where
  "class_PricingPlan =
     \<lparr>class_table = ''pricing_plans'',
      class_args =
        [Unique_arg [''tenant_id'', ''id''],
         Unique_arg [''tenant_id'', ''slug''],
         Check_arg ''mode IN ('ONLINE', 'ONSITE')'' ''valid_mode'',
         Check_arg ''amount >= 0'' ''amount_nonnegative'',
         Check_arg ''status IN ('DRAFT', 'PUBLISHED', 'ARCHIVED')'' ''valid_status'',
         Index_arg ''ix_pricing_plans_tenant_public'' [''tenant_id'', ''status'',
           ''sort_order''] False None],
      class_attributes =
        [(mapped ''tenant_id'' Py_uuid)\<lparr>attr_reference := Some (''tenants'', ''id'', None),
          attr_nullable := Some False\<rparr>,
         (mapped ''title'' Py_str)\<lparr>attr_type := Some (VarChar 300),
           attr_nullable := Some False\<rparr>,
         (mapped ''slug'' Py_str)\<lparr>attr_type := Some (VarChar 200),
           attr_nullable := Some False\<rparr>,
         (mapped ''description'' Py_str)\<lparr>attr_type := Some TextType,
           attr_nullable := Some False\<rparr>,
         (mapped ''mode'' Py_str)\<lparr>attr_type := Some (VarChar 16),
           attr_nullable := Some False\<rparr>,
         (mapped ''amount'' Py_int)\<lparr>attr_nullable := Some False\<rparr>,
         (mapped ''currency'' Py_str)\<lparr>attr_type := Some (VarChar 8),
           attr_nullable := Some False\<rparr>,
         (mapped ''features'' Py_json)\<lparr>attr_type := Some JsonbType,
           attr_nullable := Some False\<rparr>,
         (mapped ''sort_order'' Py_int)\<lparr>attr_nullable := Some False\<rparr>,
         (mapped ''is_featured'' Py_bool)\<lparr>attr_nullable := Some False\<rparr>,
         (mapped ''status'' Py_str)\<lparr>attr_type := Some (VarChar 16),
           attr_nullable := Some False\<rparr>],
      uuid_primary_key_mixin = True, timestamp_mixin = True\<rparr>"

definition class_ExamPricingPlan :: model_class where
  "class_ExamPricingPlan =
     \<lparr>class_table = ''exam_pricing_plans'',
      class_args =
        [Foreign_key_arg [''tenant_id'', ''exam_offering_id''] ''exam_offerings'' [''tenant_id'',
          ''id''] (Some ''CASCADE''),
         Foreign_key_arg [''tenant_id'', ''pricing_plan_id''] ''pricing_plans'' [''tenant_id'',
           ''id''] (Some ''CASCADE'')],
      class_attributes =
        [(mapped ''tenant_id'' Py_uuid)\<lparr>attr_reference := Some (''tenants'', ''id'', None),
          attr_primary_key := True\<rparr>,
         (mapped ''exam_offering_id'' Py_uuid)\<lparr>attr_primary_key := True\<rparr>,
         (mapped ''pricing_plan_id'' Py_uuid)\<lparr>attr_primary_key := True\<rparr>],
      uuid_primary_key_mixin = False, timestamp_mixin = False\<rparr>"

definition class_MediaAsset :: model_class where
  "class_MediaAsset =
     \<lparr>class_table = ''media_assets'',
      class_args =
        [Unique_arg [''tenant_id'', ''id''],
         Unique_arg [''tenant_id'', ''object_key''],
         Check_arg ''size_bytes >= 0'' ''size_nonnegative'',
         Check_arg ''status IN ('PENDING', 'READY', 'REJECTED')'' ''valid_status'',
         Check_arg ''visibility IN ('PUBLIC', 'PRIVATE')'' ''valid_visibility'',
         Index_arg ''ix_media_assets_tenant_created'' [''tenant_id'', ''created_at''] False None],
      class_attributes =
        [(mapped ''tenant_id'' Py_uuid)\<lparr>attr_reference := Some (''tenants'', ''id'', None),
          attr_nullable := Some False\<rparr>,
         (mapped ''object_key'' Py_str)\<lparr>attr_type := Some TextType,
           attr_nullable := Some False\<rparr>,
         (mapped ''original_filename'' Py_str)\<lparr>attr_type := Some (VarChar 255),
           attr_nullable := Some False\<rparr>,
         (mapped ''mime_type'' Py_str)\<lparr>attr_type := Some (VarChar 127),
           attr_nullable := Some False\<rparr>,
         (mapped ''size_bytes'' Py_int)\<lparr>attr_type := Some BigIntType,
           attr_nullable := Some False\<rparr>,
         (mapped ''sha256'' Py_str)\<lparr>attr_optional := True,
           attr_type := Some (VarChar 64)\<rparr>,
         (mapped ''width'' Py_int)\<lparr>attr_optional := True\<rparr>,
         (mapped ''height'' Py_int)\<lparr>attr_optional := True\<rparr>,
         (mapped ''alt_text'' Py_str)\<lparr>attr_optional := True,
           attr_type := Some (VarChar 500)\<rparr>,
         (mapped ''status'' Py_str)\<lparr>attr_type := Some (VarChar 16),
           attr_nullable := Some False\<rparr>,
         (mapped ''visibility'' Py_str)\<lparr>attr_type := Some (VarChar 16),
           attr_nullable := Some False\<rparr>],
      uuid_primary_key_mixin = True, timestamp_mixin = True\<rparr>"

definition class_PaymentTransaction :: model_class where
  "class_PaymentTransaction =
     \<lparr>class_table = ''payment_transactions'',
      class_args =
        [Unique_arg [''tenant_id'', ''id''],
         Unique_arg [''tenant_id'', ''idempotency_key''],
         Unique_arg [''provider'', ''provider_transaction_id''],
         Foreign_key_arg [''tenant_id'', ''registration_id''] ''registrations'' [''tenant_id'',
           ''id''] None,
         Check_arg ''amount >= 0'' ''amount_nonnegative'',
         Check_arg
           ''status IN ('INITIATED', 'PENDING', 'SUCCESSFUL', 'FAILED', 'CANCELLED', 'REFUNDED')''
             ''valid_status'',
         Index_arg ''ix_payment_transactions_tenant_registration'' [''tenant_id'',
           ''registration_id''] False None,
         Index_arg ''ix_payment_transactions_tenant_status_created'' [''tenant_id'', ''status'',
           ''created_at''] False None,
         Index_arg ''uq_payment_transactions_active_registration'' [''tenant_id'',
           ''registration_id''] True (Some ''status IN ('INITIATED', 'PENDING')'')],
      class_attributes =
        [(mapped ''tenant_id'' Py_uuid)\<lparr>attr_reference := Some (''tenants'', ''id'', None),
          attr_nullable := Some False\<rparr>,
         (mapped ''registration_id'' Py_uuid)\<lparr>attr_nullable := Some False\<rparr>,
         (mapped ''provider'' Py_str)\<lparr>attr_type := Some (VarChar 64),
           attr_nullable := Some False\<rparr>,
         (mapped ''amount'' Py_int)\<lparr>attr_nullable := Some False\<rparr>,
         (mapped ''currency'' Py_str)\<lparr>attr_type := Some (VarChar 8),
           attr_nullable := Some False\<rparr>,
         (mapped ''status'' Py_str)\<lparr>attr_type := Some (VarChar 16),
           attr_nullable := Some False\<rparr>,
         (mapped ''provider_authority'' Py_str)\<lparr>attr_optional := True,
           attr_type := Some (VarChar 255)\<rparr>,
         (mapped ''provider_transaction_id'' Py_str)\<lparr>attr_optional := True,
           attr_type := Some (VarChar 255)\<rparr>,
         (mapped ''idempotency_key'' Py_str)\<lparr>attr_type := Some (VarChar 128),
           attr_nullable := Some False\<rparr>,
         (mapped ''callback_nonce_hash'' Py_str)\<lparr>attr_type := Some (VarChar 64),
           attr_nullable := Some False\<rparr>,
         (mapped ''callback_state'' Py_str)\<lparr>attr_type := Some TextType,
           attr_nullable := Some False\<rparr>,
         (mapped ''callback_consumed_at'' Py_datetime)\<lparr>attr_optional := True,
           attr_type := Some TimestampTz\<rparr>,
         (mapped ''failure_code'' Py_str)\<lparr>attr_optional := True,
           attr_type := Some (VarChar 100)\<rparr>,
         (mapped ''failure_message'' Py_str)\<lparr>attr_optional := True,
           attr_type := Some TextType\<rparr>,
         (mapped ''verified_at'' Py_datetime)\<lparr>attr_optional := True,
           attr_type := Some TimestampTz\<rparr>],
      uuid_primary_key_mixin = True, timestamp_mixin = True\<rparr>"

definition class_RegistrationFormDefinition :: model_class where
  "class_RegistrationFormDefinition =
     \<lparr>class_table = ''registration_form_definitions'',
      class_args =
        [Unique_arg [''tenant_id'', ''id''],
         Unique_arg [''tenant_id'', ''version''],
         Check_arg ''version > 0'' ''version_positive''],
      class_attributes =
        [(mapped ''tenant_id'' Py_uuid)\<lparr>attr_reference := Some (''tenants'', ''id'', None),
          attr_nullable := Some False\<rparr>,
         (mapped ''version'' Py_int)\<lparr>attr_nullable := Some False\<rparr>,
         (mapped ''schema'' Py_json)\<lparr>attr_type := Some JsonbType,
           attr_nullable := Some False\<rparr>,
         (mapped ''is_active'' Py_bool)\<lparr>attr_nullable := Some False\<rparr>,
         (mapped ''created_at'' Py_datetime)\<lparr>attr_type := Some TimestampTz,
           attr_nullable := Some False\<rparr>],
      uuid_primary_key_mixin = True, timestamp_mixin = False\<rparr>"

definition class_Registration :: model_class where
  "class_Registration =
     \<lparr>class_table = ''registrations'',
      class_args =
        [Unique_arg [''tenant_id'', ''id''],
         Unique_arg [''tenant_id'', ''exam_offering_id'', ''national_code''],
         Foreign_key_arg [''tenant_id'', ''exam_offering_id''] ''exam_offerings'' [''tenant_id'',
           ''id''] None,
         Foreign_key_arg [''tenant_id'', ''selected_pricing_plan_id''] ''pricing_plans''
           [''tenant_id'', ''id''] None,
         Foreign_key_arg [''tenant_id'', ''profile_image_id''] ''media_assets'' [''tenant_id'',
           ''id''] None,
         Foreign_key_arg [''tenant_id'', ''form_definition_id''] ''registration_form_definitions''
           [''tenant_id'', ''id''] None,
         Check_arg
           ''status IN ('DRAFT', 'PHONE_VERIFICATION_REQUIRED', 'PHONE_VERIFIED', 'READY_FOR_SUBMISSION', 'SUBMITTED', 'PAYMENT_PENDING', 'COMPLETED', 'CANCELLED')'' ''valid_status'',
         Check_arg ''payment_status IN ('PENDING', 'SUCCESSFUL', 'FAILED')''
           ''valid_payment_status'',
         Check_arg ''gender IS NULL OR gender IN ('FEMALE', 'MALE', 'OTHER')'' ''valid_gender'',
         Check_arg ''payable_amount IS NULL OR payable_amount >= 0''
           ''payable_amount_nonnegative'',
         Index_arg ''ix_registrations_tenant_status_created'' [''tenant_id'', ''status'',
           ''created_at''] False None,
         Index_arg ''ix_registrations_tenant_phone'' [''tenant_id'',
           ''phone_number''] False None],
      class_attributes =
        [(mapped ''tenant_id'' Py_uuid)\<lparr>attr_reference := Some (''tenants'', ''id'', None),
          attr_nullable := Some False\<rparr>,
         (mapped ''exam_offering_id'' Py_uuid)\<lparr>attr_nullable := Some False\<rparr>,
         (mapped ''selected_pricing_plan_id'' Py_uuid)\<lparr>attr_optional := True\<rparr>,
         (mapped ''form_definition_id'' Py_uuid)\<lparr>attr_optional := True\<rparr>,
         (mapped ''form_definition_version'' Py_int)\<lparr>attr_optional := True\<rparr>,
         (mapped ''draft_token_hash'' Py_str)\<lparr>attr_type := Some (VarChar 64),
           attr_nullable := Some False\<rparr>,
         (mapped ''draft_token_expires_at'' Py_datetime)\<lparr>attr_type := Some TimestampTz,
           attr_nullable := Some False\<rparr>,
         (mapped ''phone_number'' Py_str)\<lparr>attr_type := Some (VarChar 16),
           attr_nullable := Some False\<rparr>,
         (mapped ''first_name'' Py_str)\<lparr>attr_optional := True,
           attr_type := Some (VarChar 100)\<rparr>,
         (mapped ''last_name'' Py_str)\<lparr>attr_optional := True,
           attr_type := Some (VarChar 100)\<rparr>,
         (mapped ''gender'' Py_str)\<lparr>attr_optional := True,
           attr_type := Some (VarChar 16)\<rparr>,
         (mapped ''national_code'' Py_str)\<lparr>attr_optional := True,
           attr_type := Some (VarChar 10)\<rparr>,
         (mapped ''father_name'' Py_str)\<lparr>attr_optional := True,
           attr_type := Some (VarChar 200)\<rparr>,
         (mapped ''birth_date'' Py_date)\<lparr>attr_optional := True,
           attr_type := Some DateType\<rparr>,
         (mapped ''home_phone'' Py_str)\<lparr>attr_optional := True,
           attr_type := Some (VarChar 32)\<rparr>,
         (mapped ''current_school_id'' Py_uuid)\<lparr>attr_optional := True,
           attr_reference := Some (''school_directory_entries'', ''id'', None)\<rparr>,
         (mapped ''previous_school_id'' Py_uuid)\<lparr>attr_optional := True,
           attr_reference := Some (''school_directory_entries'', ''id'', None)\<rparr>,
         (mapped ''postal_code'' Py_str)\<lparr>attr_optional := True,
           attr_type := Some (VarChar 10)\<rparr>,
         (mapped ''address'' Py_str)\<lparr>attr_optional := True,
           attr_type := Some TextType\<rparr>,
         (mapped ''profile_image_id'' Py_uuid)\<lparr>attr_optional := True\<rparr>,
         (mapped ''extra_answers'' Py_json)\<lparr>attr_type := Some JsonbType,
           attr_nullable := Some False\<rparr>,
         (mapped ''payable_amount'' Py_int)\<lparr>attr_optional := True\<rparr>,
         (mapped ''payable_currency'' Py_str)\<lparr>attr_optional := True,
           attr_type := Some (VarChar 8)\<rparr>,
         (mapped ''status'' Py_str)\<lparr>attr_type := Some (VarChar 32),
           attr_nullable := Some False\<rparr>,
         (mapped ''payment_status'' Py_str)\<lparr>attr_type := Some (VarChar 16),
           attr_nullable := Some False\<rparr>,
         (mapped ''phone_verified_at'' Py_datetime)\<lparr>attr_optional := True,
           attr_type := Some TimestampTz\<rparr>,
         (mapped ''submitted_at'' Py_datetime)\<lparr>attr_optional := True,
           attr_type := Some TimestampTz\<rparr>,
         (mapped ''internal_notes'' Py_str)\<lparr>attr_optional := True,
           attr_type := Some TextType\<rparr>],
      uuid_primary_key_mixin = True, timestamp_mixin = True\<rparr>"

definition class_RegistrationContact :: model_class where
  "class_RegistrationContact =
     \<lparr>class_table = ''registration_contacts'',
      class_args =
        [Unique_arg [''tenant_id'', ''id''],
         Unique_arg [''tenant_id'', ''registration_id'', ''position''],
         Foreign_key_arg [''tenant_id'', ''registration_id''] ''registrations'' [''tenant_id'',
           ''id''] (Some ''CASCADE''),
         Check_arg ''position IN (1, 2)'' ''valid_position'',
         Index_arg ''ix_registration_contacts_tenant_registration'' [''tenant_id'',
           ''registration_id''] False None],
      class_attributes =
        [(mapped ''tenant_id'' Py_uuid)\<lparr>attr_reference := Some (''tenants'', ''id'', None),
          attr_nullable := Some False\<rparr>,
         (mapped ''registration_id'' Py_uuid)\<lparr>attr_nullable := Some False\<rparr>,
         (mapped ''position'' Py_int)\<lparr>attr_nullable := Some False\<rparr>,
         (mapped ''name'' Py_str)\<lparr>attr_type := Some (VarChar 200),
           attr_nullable := Some False\<rparr>,
         (mapped ''phone_number'' Py_str)\<lparr>attr_type := Some (VarChar 16),
           attr_nullable := Some False\<rparr>,
         (mapped ''relationship'' Py_str)\<lparr>attr_type := Some (VarChar 100),
           attr_nullable := Some False\<rparr>],
      uuid_primary_key_mixin = True, timestamp_mixin = True\<rparr>"

definition class_OTPChallenge :: model_class where
  "class_OTPChallenge =
     \<lparr>class_table = ''otp_challenges'',
      class_args =
        [Unique_arg [''tenant_id'', ''id''],
         Foreign_key_arg [''tenant_id'', ''registration_id''] ''registrations'' [''tenant_id'',
           ''id''] (Some ''CASCADE''),
         Check_arg ''attempt_count >= 0'' ''attempt_count_nonnegative'',
         Index_arg ''ix_otp_challenges_tenant_registration_created'' [''tenant_id'',
           ''registration_id'', ''created_at''] False None,
         Index_arg ''ix_otp_challenges_tenant_phone_created'' [''tenant_id'', ''phone_number'',
           ''created_at''] False None,
         Index_arg ''ix_otp_challenges_ip_created'' [''request_ip_hash'',
           ''created_at''] False None],
      class_attributes =
        [(mapped ''tenant_id'' Py_uuid)\<lparr>attr_reference := Some (''tenants'', ''id'', None),
          attr_nullable := Some False\<rparr>,
         (mapped ''registration_id'' Py_uuid)\<lparr>attr_nullable := Some False\<rparr>,
         (mapped ''phone_number'' Py_str)\<lparr>attr_type := Some (VarChar 16),
           attr_nullable := Some False\<rparr>,
         (mapped ''code_hash'' Py_str)\<lparr>attr_type := Some (VarChar 256),
           attr_nullable := Some False\<rparr>,
         (mapped ''attempt_count'' Py_int)\<lparr>attr_nullable := Some False\<rparr>,
         (mapped ''request_ip_hash'' Py_str)\<lparr>attr_type := Some (VarChar 64),
           attr_nullable := Some False\<rparr>,
         (mapped ''expires_at'' Py_datetime)\<lparr>attr_type := Some TimestampTz,
           attr_nullable := Some False\<rparr>,
         (mapped ''consumed_at'' Py_datetime)\<lparr>attr_optional := True,
           attr_type := Some TimestampTz\<rparr>,
         (mapped ''invalidated_at'' Py_datetime)\<lparr>attr_optional := True,
           attr_type := Some TimestampTz\<rparr>,
         (mapped ''created_at'' Py_datetime)\<lparr>attr_type := Some TimestampTz,
           attr_nullable := Some False\<rparr>],
      uuid_primary_key_mixin = True, timestamp_mixin = False\<rparr>"

definition class_TenantSiteState :: model_class where
  "class_TenantSiteState =
     \<lparr>class_table = ''tenant_site_states'',
      class_args =
        [Check_arg ''content_revision >= 0'' ''content_revision_nonnegative'',
         Check_arg
           ''last_successful_build_revision IS NULL OR last_successful_build_revision >= 0''
             ''deployed_revision_nonnegative''],
      class_attributes =
        [(mapped ''tenant_id'' Py_uuid)\<lparr>attr_reference := Some (''tenants'', ''id'',
          Some ''CASCADE''), attr_primary_key := True\<rparr>,
         (mapped ''content_revision'' Py_int)\<lparr>attr_type := Some BigIntType,
           attr_nullable := Some False\<rparr>,
         (mapped ''last_successful_build_revision'' Py_int)\<lparr>attr_optional := True,
           attr_type := Some BigIntType\<rparr>,
         (mapped ''last_build_at'' Py_datetime)\<lparr>attr_optional := True,
           attr_type := Some TimestampTz\<rparr>],
      uuid_primary_key_mixin = False, timestamp_mixin = False\<rparr>"

definition class_TenantSiteBuildConfig :: model_class where
  "class_TenantSiteBuildConfig =
     \<lparr>class_table = ''tenant_site_build_configs'',
      class_args =
        [],
      class_attributes =
        [(mapped ''tenant_id'' Py_uuid)\<lparr>attr_reference := Some (''tenants'', ''id'',
          Some ''CASCADE''), attr_primary_key := True\<rparr>,
         (mapped ''enabled'' Py_bool)\<lparr>attr_type := Some BooleanType,
           attr_nullable := Some False\<rparr>,
         (mapped ''canonical_domain'' Py_str)\<lparr>attr_type := Some (VarChar 253),
           attr_nullable := Some False\<rparr>,
         (mapped ''build_target_key'' Py_str)\<lparr>attr_type := Some (VarChar 200),
           attr_nullable := Some False\<rparr>,
         (mapped ''deployment_target_key'' Py_str)\<lparr>attr_type := Some (VarChar 200),
           attr_nullable := Some False\<rparr>],
      uuid_primary_key_mixin = False, timestamp_mixin = True\<rparr>"

definition class_SiteBuildRequest :: model_class where
  "class_SiteBuildRequest =
     \<lparr>class_table = ''site_build_requests'',
      class_args =
        [Unique_arg [''tenant_id'', ''id''],
         Check_arg ''status IN ('PENDING', 'RUNNING', 'SUCCESSFUL', 'FAILED', 'SUPERSEDED')''
           ''valid_status'',
         Check_arg ''target_revision >= 0'' ''target_revision_nonnegative'',
         Check_arg ''attempt_count >= 0'' ''attempt_count_nonnegative'',
         Index_arg ''uq_site_build_requests_one_pending_per_tenant'' [''tenant_id''] True (Some
           (''status = '' @ quoted ''PENDING'')),
         Index_arg ''uq_site_build_requests_one_running_per_tenant'' [''tenant_id''] True (Some
           (''status = '' @ quoted ''RUNNING'')),
         Index_arg ''ix_site_build_requests_tenant_status_requested'' [''tenant_id'', ''status'',
           ''requested_at''] False None,
         Index_arg ''ix_site_build_requests_poll'' [''status'', ''next_attempt_at'',
           ''requested_at''] False None],
      class_attributes =
        [(mapped ''tenant_id'' Py_uuid)\<lparr>attr_reference := Some (''tenants'', ''id'', None),
          attr_nullable := Some False\<rparr>,
         (mapped ''reason'' Py_str)\<lparr>attr_type := Some (VarChar 100),
           attr_nullable := Some False\<rparr>,
         (mapped ''entity_type'' Py_str)\<lparr>attr_optional := True,
           attr_type := Some (VarChar 100)\<rparr>,
         (mapped ''entity_id'' Py_uuid)\<lparr>attr_optional := True\<rparr>,
         (mapped ''target_revision'' Py_int)\<lparr>attr_type := Some BigIntType,
           attr_nullable := Some False\<rparr>,
         (mapped ''status'' Py_str)\<lparr>attr_type := Some (VarChar 16),
           attr_nullable := Some False\<rparr>,
         (mapped ''attempt_count'' Py_int)\<lparr>attr_type := Some IntegerType,
           attr_nullable := Some False\<rparr>,
         (mapped ''requested_at'' Py_datetime)\<lparr>attr_type := Some TimestampTz,
           attr_nullable := Some False\<rparr>,
         (mapped ''next_attempt_at'' Py_datetime)\<lparr>attr_type := Some TimestampTz,
           attr_nullable := Some False\<rparr>,
         (mapped ''started_at'' Py_datetime)\<lparr>attr_optional := True,
           attr_type := Some TimestampTz\<rparr>,
         (mapped ''lease_expires_at'' Py_datetime)\<lparr>attr_optional := True,
           attr_type := Some TimestampTz\<rparr>,
         (mapped ''completed_at'' Py_datetime)\<lparr>attr_optional := True,
           attr_type := Some TimestampTz\<rparr>,
         (mapped ''failed_at'' Py_datetime)\<lparr>attr_optional := True,
           attr_type := Some TimestampTz\<rparr>,
         (mapped ''actual_revision'' Py_int)\<lparr>attr_optional := True,
           attr_type := Some BigIntType\<rparr>,
         (mapped ''last_error'' Py_str)\<lparr>attr_optional := True,
           attr_type := Some TextType\<rparr>,
         (mapped ''created_by'' Py_uuid)\<lparr>attr_optional := True,
           attr_reference := Some (''users'', ''id'', None)\<rparr>],
      uuid_primary_key_mixin = True, timestamp_mixin = False\<rparr>"

definition class_Tenant :: model_class where
  "class_Tenant =
     \<lparr>class_table = ''tenants'',
      class_args =
        [],
      class_attributes =
        [(mapped ''name'' Py_str)\<lparr>attr_type := Some (VarChar 200),
          attr_nullable := Some False\<rparr>,
         (mapped ''slug'' Py_str)\<lparr>attr_type := Some (VarChar 100),
           attr_nullable := Some False, attr_unique := True\<rparr>,
         (mapped ''status'' Py_str)\<lparr>attr_type := Some (VarChar 20),
           attr_nullable := Some False\<rparr>,
         (mapped ''default_locale'' Py_str)\<lparr>attr_type := Some (VarChar 20),
           attr_nullable := Some False\<rparr>,
         (mapped ''timezone'' Py_str)\<lparr>attr_type := Some (VarChar 64),
           attr_nullable := Some False\<rparr>,
         (mapped ''default_currency'' Py_str)\<lparr>attr_type := Some (VarChar 8),
           attr_nullable := Some False\<rparr>],
      uuid_primary_key_mixin = True, timestamp_mixin = True\<rparr>"

definition class_TenantDomain :: model_class where
  "class_TenantDomain =
     \<lparr>class_table = ''tenant_domains'',
      class_args =
        [],
      class_attributes =
        [(mapped ''tenant_id'' Py_uuid)\<lparr>attr_reference := Some (''tenants'', ''id'',
          Some ''RESTRICT''), attr_nullable := Some False, attr_index := True\<rparr>,
         (mapped ''hostname'' Py_str)\<lparr>attr_type := Some (VarChar 253),
           attr_nullable := Some False, attr_unique := True\<rparr>,
         (mapped ''is_primary'' Py_bool)\<lparr>attr_type := Some BooleanType,
           attr_nullable := Some False\<rparr>,
         (mapped ''is_active'' Py_bool)\<lparr>attr_type := Some BooleanType,
           attr_nullable := Some False\<rparr>,
         (mapped ''created_at'' Py_datetime)\<lparr>attr_type := Some TimestampTz,
           attr_nullable := Some False\<rparr>],
      uuid_primary_key_mixin = True, timestamp_mixin = False\<rparr>"

definition class_TenantFeature :: model_class where
  "class_TenantFeature =
     \<lparr>class_table = ''tenant_features'',
      class_args =
        [Index_arg ''ix_tenant_features_tenant_enabled'' [''tenant_id'', ''enabled''] False None],
      class_attributes =
        [(mapped ''tenant_id'' Py_uuid)\<lparr>attr_reference := Some (''tenants'', ''id'',
          Some ''CASCADE''), attr_primary_key := True\<rparr>,
         (mapped ''feature_key'' Py_str)\<lparr>attr_type := Some (VarChar 64),
           attr_primary_key := True\<rparr>,
         (mapped ''enabled'' Py_bool)\<lparr>attr_type := Some BooleanType,
           attr_nullable := Some False\<rparr>,
         (mapped ''configuration'' Py_json)\<lparr>attr_type := Some JsonbType,
           attr_nullable := Some False\<rparr>],
      uuid_primary_key_mixin = False, timestamp_mixin = True\<rparr>"

definition class_TenantProfile :: model_class where
  "class_TenantProfile =
     \<lparr>class_table = ''tenant_profiles'',
      class_args =
        [Unique_arg [''tenant_id''],
         Unique_arg [''tenant_id'', ''id'']],
      class_attributes =
        [(mapped ''tenant_id'' Py_uuid)\<lparr>attr_reference := Some (''tenants'', ''id'',
          Some ''CASCADE''), attr_nullable := Some False\<rparr>,
         (mapped ''display_name'' Py_str)\<lparr>attr_type := Some (VarChar 200),
           attr_nullable := Some False\<rparr>,
         (mapped ''description'' Py_str)\<lparr>attr_optional := True,
           attr_type := Some TextType\<rparr>],
      uuid_primary_key_mixin = True, timestamp_mixin = True\<rparr>"

definition class_TenantAddress :: model_class where
  "class_TenantAddress =
     \<lparr>class_table = ''tenant_addresses'',
      class_args =
        [Unique_arg [''tenant_id'', ''id'']],
      class_attributes =
        [(mapped ''tenant_id'' Py_uuid)\<lparr>attr_reference := Some (''tenants'', ''id'', None),
          attr_nullable := Some False\<rparr>,
         (mapped ''label'' Py_str)\<lparr>attr_type := Some (VarChar 100),
           attr_nullable := Some False\<rparr>,
         (mapped ''address'' Py_str)\<lparr>attr_type := Some TextType,
           attr_nullable := Some False\<rparr>,
         (mapped ''latitude'' Py_str)\<lparr>attr_optional := True,
           attr_type := Some (VarChar 32)\<rparr>,
         (mapped ''longitude'' Py_str)\<lparr>attr_optional := True,
           attr_type := Some (VarChar 32)\<rparr>,
         (mapped ''sort_order'' Py_int)\<lparr>attr_nullable := Some False\<rparr>],
      uuid_primary_key_mixin = True, timestamp_mixin = True\<rparr>"

definition class_TenantPhone :: model_class where
  "class_TenantPhone =
     \<lparr>class_table = ''tenant_phones'',
      class_args =
        [Unique_arg [''tenant_id'', ''id'']],
      class_attributes =
        [(mapped ''tenant_id'' Py_uuid)\<lparr>attr_reference := Some (''tenants'', ''id'', None),
          attr_nullable := Some False\<rparr>,
         (mapped ''label'' Py_str)\<lparr>attr_type := Some (VarChar 100),
           attr_nullable := Some False\<rparr>,
         (mapped ''phone_number'' Py_str)\<lparr>attr_type := Some (VarChar 32),
           attr_nullable := Some False\<rparr>,
         (mapped ''sort_order'' Py_int)\<lparr>attr_nullable := Some False\<rparr>],
      uuid_primary_key_mixin = True, timestamp_mixin = True\<rparr>"

definition class_TenantSocialLink :: model_class where
  "class_TenantSocialLink =
     \<lparr>class_table = ''tenant_social_links'',
      class_args =
        [Unique_arg [''tenant_id'', ''id'']],
      class_attributes =
        [(mapped ''tenant_id'' Py_uuid)\<lparr>attr_reference := Some (''tenants'', ''id'', None),
          attr_nullable := Some False\<rparr>,
         (mapped ''platform'' Py_str)\<lparr>attr_type := Some (VarChar 64),
           attr_nullable := Some False\<rparr>,
         (mapped ''url'' Py_str)\<lparr>attr_type := Some TextType,
           attr_nullable := Some False\<rparr>,
         (mapped ''sort_order'' Py_int)\<lparr>attr_nullable := Some False\<rparr>],
      uuid_primary_key_mixin = True, timestamp_mixin = True\<rparr>"

section \<open>The metadata\<close>

definition all_models :: "model_class list" where
  "all_models =
     [class_AuditEvent, class_AuthenticationAttempt, class_RefreshToken,
      class_TenantMembership, class_User, class_Banner, class_ContactRequest,
      class_GalleryAlbum, class_GalleryItem, class_Honor, class_HonorCategory, class_Post,
      class_PostMediaReference, class_SampleExam, class_SchoolDirectoryEntry,
      class_StaffMember, class_ExamOffering, class_ExamPricingPlan, class_PricingPlan,
      class_MediaAsset, class_PaymentTransaction, class_OTPChallenge, class_Registration,
      class_RegistrationContact, class_RegistrationFormDefinition, class_SiteBuildRequest,
      class_TenantSiteBuildConfig, class_TenantSiteState, class_Tenant, class_TenantAddress,
      class_TenantDomain, class_TenantFeature, class_TenantPhone, class_TenantProfile,
      class_TenantSocialLink]"

definition metadata :: "table option list" where
  "metadata = map declared_table all_models"

end
