(* ===== verification/MigrationInitial.thy ===== *)
theory MigrationInitial
  imports Schema
begin

text \<open>
  The first migration,
    \<open>migrations/versions/bfd7cd1209eb_initial_production_schema.py\<close>, operation
  by operation: for each table its \<open>create_table\<close> with the
    \<open>create_index\<close> calls that follow it
  (\<open>ddl_\<close> and the table's name), then row-level security for the tables of
    \<open>tenant_tables\<close> and the
  grants; and the operations of its \<open>downgrade\<close>.
\<close>

section \<open>Creating the tables\<close>

definition ddl_authentication_attempts :: "operation list" where
  "ddl_authentication_attempts =
     [Create_table ''authentication_attempts''
        [Column ''scope_hash'' (VarChar 64) False None,
         Column ''succeeded'' BooleanType False None,
         Column ''created_at'' TimestampTz False None,
         Column ''id'' UuidType False None]
        [PrimaryKeyConstraint ''pk_authentication_attempts'' [''id'']],
      Create_index ''ix_auth_attempt_scope_created'' ''authentication_attempts''
        [''scope_hash'', ''created_at''] False None]"

definition ddl_school_directory_entries :: "operation list" where
  "ddl_school_directory_entries =
     [Create_table ''school_directory_entries''
        [Column ''name'' (VarChar 300) False None,
         Column ''city'' (VarChar 150) True None,
         Column ''province'' (VarChar 150) True None,
         Column ''is_active'' BooleanType False None,
         Column ''id'' UuidType False None,
         Column ''created_at'' TimestampTz False (Some Now),
         Column ''updated_at'' TimestampTz False (Some Now)]
        [PrimaryKeyConstraint ''pk_school_directory_entries'' [''id'']]]"

definition ddl_tenants :: "operation list" where
  "ddl_tenants =
     [Create_table ''tenants''
        [Column ''name'' (VarChar 200) False None,
         Column ''slug'' (VarChar 100) False None,
         Column ''status'' (VarChar 20) False None,
         Column ''default_locale'' (VarChar 20) False None,
         Column ''timezone'' (VarChar 64) False None,
         Column ''default_currency'' (VarChar 8) False None,
         Column ''id'' UuidType False None,
         Column ''created_at'' TimestampTz False (Some Now),
         Column ''updated_at'' TimestampTz False (Some Now)]
        [PrimaryKeyConstraint ''pk_tenants'' [''id''],
         UniqueConstraint ''uq_tenants_slug'' [''slug'']]]"

definition ddl_users :: "operation list" where
  "ddl_users =
     [Create_table ''users''
        [Column ''email'' (VarChar 320) False None,
         Column ''password_hash'' (VarChar 512) False None,
         Column ''is_active'' BooleanType False None,
         Column ''is_platform_admin'' BooleanType False None,
         Column ''id'' UuidType False None,
         Column ''created_at'' TimestampTz False (Some Now),
         Column ''updated_at'' TimestampTz False (Some Now)]
        [PrimaryKeyConstraint ''pk_users'' [''id''],
         UniqueConstraint ''uq_users_email'' [''email'']]]"

definition ddl_audit_events :: "operation list" where
  "ddl_audit_events =
     [Create_table ''audit_events''
        [Column ''tenant_id'' UuidType False None,
         Column ''actor_user_id'' UuidType True None,
         Column ''action'' (VarChar 100) False None,
         Column ''entity_type'' (VarChar 100) False None,
         Column ''entity_id'' UuidType True None,
         Column ''metadata'' JsonbType False None,
         Column ''created_at'' TimestampTz False None,
         Column ''id'' UuidType False None]
        [ForeignKeyConstraint ''fk_audit_events_actor_user_id_users'' [''actor_user_id'']
          ''users'' [''id''] None,
         ForeignKeyConstraint ''fk_audit_events_tenant_id_tenants'' [''tenant_id''] ''tenants''
           [''id''] None,
         PrimaryKeyConstraint ''pk_audit_events'' [''id''],
         UniqueConstraint ''uq_audit_events_tenant_id_id'' [''tenant_id'', ''id'']],
      Create_index ''ix_audit_events_tenant_created'' ''audit_events''
        [''tenant_id'', ''created_at''] False None,
      Create_index ''ix_audit_events_tenant_entity'' ''audit_events''
        [''tenant_id'', ''entity_type'', ''entity_id''] False None]"

definition ddl_contact_requests :: "operation list" where
  "ddl_contact_requests =
     [Create_table ''contact_requests''
        [Column ''tenant_id'' UuidType False None,
         Column ''name'' (VarChar 200) False None,
         Column ''education_level'' (VarChar 100) False None,
         Column ''phone_number'' (VarChar 16) False None,
         Column ''request_ip_hash'' (VarChar 64) False None,
         Column ''status'' (VarChar 16) False None,
         Column ''created_at'' TimestampTz False None,
         Column ''handled_at'' TimestampTz True None,
         Column ''handled_by'' UuidType True None,
         Column ''internal_notes'' TextType True None,
         Column ''id'' UuidType False None]
        [CheckConstraint ''ck_contact_requests_valid_status''
          ''status IN ('NEW', 'CONTACTED', 'CLOSED', 'SPAM')'',
         ForeignKeyConstraint ''fk_contact_requests_handled_by_users'' [''handled_by''] ''users''
           [''id''] None,
         ForeignKeyConstraint ''fk_contact_requests_tenant_id_tenants'' [''tenant_id'']
           ''tenants'' [''id''] None,
         PrimaryKeyConstraint ''pk_contact_requests'' [''id''],
         UniqueConstraint ''uq_contact_requests_tenant_id_id'' [''tenant_id'', ''id'']],
      Create_index ''ix_contact_requests_tenant_status_created'' ''contact_requests''
        [''tenant_id'', ''status'', ''created_at''] False None,
      Create_index ''ix_contact_requests_tenant_ip_created'' ''contact_requests''
        [''tenant_id'', ''request_ip_hash'', ''created_at''] False None,
      Create_index ''ix_contact_requests_tenant_phone_created'' ''contact_requests''
        [''tenant_id'', ''phone_number'', ''created_at''] False None]"

definition ddl_exam_offerings :: "operation list" where
  "ddl_exam_offerings =
     [Create_table ''exam_offerings''
        [Column ''tenant_id'' UuidType False None,
         Column ''title'' (VarChar 300) False None,
         Column ''slug'' (VarChar 200) False None,
         Column ''description'' TextType False None,
         Column ''mode'' (VarChar 16) False None,
         Column ''registration_starts_at'' TimestampTz True None,
         Column ''registration_ends_at'' TimestampTz True None,
         Column ''exam_starts_at'' TimestampTz True None,
         Column ''exam_ends_at'' TimestampTz True None,
         Column ''venue_name'' (VarChar 300) True None,
         Column ''venue_address'' TextType True None,
         Column ''capacity'' IntegerType True None,
         Column ''status'' (VarChar 32) False None,
         Column ''id'' UuidType False None,
         Column ''created_at'' TimestampTz False (Some Now),
         Column ''updated_at'' TimestampTz False (Some Now)]
        [CheckConstraint ''ck_exam_offerings_valid_mode'' ''mode IN ('ONLINE', 'ONSITE')'',
         CheckConstraint ''ck_exam_offerings_valid_status''
           ''status IN ('DRAFT', 'REGISTRATION_OPEN', 'REGISTRATION_CLOSED', 'COMPLETED', 'ARCHIVED')'',
         CheckConstraint ''ck_exam_offerings_capacity_positive''
           ''capacity IS NULL OR capacity > 0'',
         CheckConstraint ''ck_exam_offerings_valid_exam_window''
           ''exam_ends_at IS NULL OR exam_starts_at IS NULL OR exam_ends_at > exam_starts_at'',
         CheckConstraint ''ck_exam_offerings_valid_registration_window''
           ''registration_ends_at IS NULL OR registration_starts_at IS NULL OR registration_ends_at > registration_starts_at'',
         ForeignKeyConstraint ''fk_exam_offerings_tenant_id_tenants'' [''tenant_id''] ''tenants''
           [''id''] None,
         PrimaryKeyConstraint ''pk_exam_offerings'' [''id''],
         UniqueConstraint ''uq_exam_offerings_tenant_id_id'' [''tenant_id'', ''id''],
         UniqueConstraint ''uq_exam_offerings_tenant_id_slug'' [''tenant_id'', ''slug'']],
      Create_index ''ix_exam_offerings_tenant_public'' ''exam_offerings''
        [''tenant_id'', ''status'', ''registration_starts_at''] False None]"

definition ddl_honor_categories :: "operation list" where
  "ddl_honor_categories =
     [Create_table ''honor_categories''
        [Column ''tenant_id'' UuidType False None,
         Column ''name'' (VarChar 200) False None,
         Column ''slug'' (VarChar 150) False None,
         Column ''description'' TextType True None,
         Column ''sort_order'' IntegerType False None,
         Column ''is_active'' BooleanType False None,
         Column ''id'' UuidType False None,
         Column ''created_at'' TimestampTz False (Some Now),
         Column ''updated_at'' TimestampTz False (Some Now)]
        [ForeignKeyConstraint ''fk_honor_categories_tenant_id_tenants'' [''tenant_id'']
          ''tenants'' [''id''] None,
         PrimaryKeyConstraint ''pk_honor_categories'' [''id''],
         UniqueConstraint ''uq_honor_categories_tenant_id_id'' [''tenant_id'', ''id''],
         UniqueConstraint ''uq_honor_categories_tenant_id_slug'' [''tenant_id'', ''slug'']]]"

definition ddl_media_assets :: "operation list" where
  "ddl_media_assets =
     [Create_table ''media_assets''
        [Column ''tenant_id'' UuidType False None,
         Column ''object_key'' TextType False None,
         Column ''original_filename'' (VarChar 255) False None,
         Column ''mime_type'' (VarChar 127) False None,
         Column ''size_bytes'' BigIntType False None,
         Column ''sha256'' (VarChar 64) True None,
         Column ''width'' IntegerType True None,
         Column ''height'' IntegerType True None,
         Column ''alt_text'' (VarChar 500) True None,
         Column ''status'' (VarChar 16) False None,
         Column ''visibility'' (VarChar 16) False None,
         Column ''id'' UuidType False None,
         Column ''created_at'' TimestampTz False (Some Now),
         Column ''updated_at'' TimestampTz False (Some Now)]
        [CheckConstraint ''ck_media_assets_valid_status''
          ''status IN ('PENDING', 'READY', 'REJECTED')'',
         CheckConstraint ''ck_media_assets_valid_visibility''
           ''visibility IN ('PUBLIC', 'PRIVATE')'',
         CheckConstraint ''ck_media_assets_size_nonnegative'' ''size_bytes >= 0'',
         ForeignKeyConstraint ''fk_media_assets_tenant_id_tenants'' [''tenant_id''] ''tenants''
           [''id''] None,
         PrimaryKeyConstraint ''pk_media_assets'' [''id''],
         UniqueConstraint ''uq_media_assets_tenant_id_id'' [''tenant_id'', ''id''],
         UniqueConstraint ''uq_media_assets_tenant_id_object_key'' [''tenant_id'',
           ''object_key'']],
      Create_index ''ix_media_assets_tenant_created'' ''media_assets''
        [''tenant_id'', ''created_at''] False None]"

definition ddl_pricing_plans :: "operation list" where
  "ddl_pricing_plans =
     [Create_table ''pricing_plans''
        [Column ''tenant_id'' UuidType False None,
         Column ''title'' (VarChar 300) False None,
         Column ''slug'' (VarChar 200) False None,
         Column ''description'' TextType False None,
         Column ''mode'' (VarChar 16) False None,
         Column ''amount'' IntegerType False None,
         Column ''currency'' (VarChar 8) False None,
         Column ''features'' JsonbType False None,
         Column ''sort_order'' IntegerType False None,
         Column ''is_featured'' BooleanType False None,
         Column ''status'' (VarChar 16) False None,
         Column ''id'' UuidType False None,
         Column ''created_at'' TimestampTz False (Some Now),
         Column ''updated_at'' TimestampTz False (Some Now)]
        [CheckConstraint ''ck_pricing_plans_valid_mode'' ''mode IN ('ONLINE', 'ONSITE')'',
         CheckConstraint ''ck_pricing_plans_valid_status''
           ''status IN ('DRAFT', 'PUBLISHED', 'ARCHIVED')'',
         CheckConstraint ''ck_pricing_plans_amount_nonnegative'' ''amount >= 0'',
         ForeignKeyConstraint ''fk_pricing_plans_tenant_id_tenants'' [''tenant_id''] ''tenants''
           [''id''] None,
         PrimaryKeyConstraint ''pk_pricing_plans'' [''id''],
         UniqueConstraint ''uq_pricing_plans_tenant_id_id'' [''tenant_id'', ''id''],
         UniqueConstraint ''uq_pricing_plans_tenant_id_slug'' [''tenant_id'', ''slug'']],
      Create_index ''ix_pricing_plans_tenant_public'' ''pricing_plans''
        [''tenant_id'', ''status'', ''sort_order''] False None]"

definition ddl_refresh_tokens :: "operation list" where
  "ddl_refresh_tokens =
     [Create_table ''refresh_tokens''
        [Column ''user_id'' UuidType False None,
         Column ''tenant_id'' UuidType True None,
         Column ''family_id'' UuidType False None,
         Column ''token_hash'' (VarChar 64) False None,
         Column ''expires_at'' TimestampTz False None,
         Column ''created_at'' TimestampTz False None,
         Column ''revoked_at'' TimestampTz True None,
         Column ''replaced_by_id'' UuidType True None,
         Column ''id'' UuidType False None]
        [ForeignKeyConstraint ''fk_refresh_tokens_replaced_by_id_refresh_tokens''
          [''replaced_by_id''] ''refresh_tokens'' [''id''] None,
         ForeignKeyConstraint ''fk_refresh_tokens_tenant_id_tenants'' [''tenant_id''] ''tenants''
           [''id''] None,
         ForeignKeyConstraint ''fk_refresh_tokens_user_id_users'' [''user_id''] ''users'' [''id'']
           (Some ''CASCADE''),
         PrimaryKeyConstraint ''pk_refresh_tokens'' [''id''],
         UniqueConstraint ''uq_refresh_tokens_token_hash'' [''token_hash'']],
      Create_index ''ix_refresh_tokens_user_active'' ''refresh_tokens''
        [''user_id'', ''revoked_at''] False None]"

definition ddl_registration_form_definitions :: "operation list" where
  "ddl_registration_form_definitions =
     [Create_table ''registration_form_definitions''
        [Column ''tenant_id'' UuidType False None,
         Column ''version'' IntegerType False None,
         Column ''schema'' JsonbType False None,
         Column ''is_active'' BooleanType False None,
         Column ''created_at'' TimestampTz False None,
         Column ''id'' UuidType False None]
        [CheckConstraint ''ck_registration_form_definitions_version_positive'' ''version > 0'',
         ForeignKeyConstraint ''fk_registration_form_definitions_tenant_id_tenants''
           [''tenant_id''] ''tenants'' [''id''] None,
         PrimaryKeyConstraint ''pk_registration_form_definitions'' [''id''],
         UniqueConstraint ''uq_registration_form_definitions_tenant_id_id'' [''tenant_id'',
           ''id''],
         UniqueConstraint ''uq_registration_form_definitions_tenant_id_version'' [''tenant_id'',
           ''version'']]]"

definition ddl_tenant_addresses :: "operation list" where
  "ddl_tenant_addresses =
     [Create_table ''tenant_addresses''
        [Column ''tenant_id'' UuidType False None,
         Column ''label'' (VarChar 100) False None,
         Column ''address'' TextType False None,
         Column ''latitude'' (VarChar 32) True None,
         Column ''longitude'' (VarChar 32) True None,
         Column ''sort_order'' IntegerType False None,
         Column ''id'' UuidType False None,
         Column ''created_at'' TimestampTz False (Some Now),
         Column ''updated_at'' TimestampTz False (Some Now)]
        [ForeignKeyConstraint ''fk_tenant_addresses_tenant_id_tenants'' [''tenant_id'']
          ''tenants'' [''id''] None,
         PrimaryKeyConstraint ''pk_tenant_addresses'' [''id''],
         UniqueConstraint ''uq_tenant_addresses_tenant_id_id'' [''tenant_id'', ''id'']]]"

definition ddl_tenant_domains :: "operation list" where
  "ddl_tenant_domains =
     [Create_table ''tenant_domains''
        [Column ''tenant_id'' UuidType False None,
         Column ''hostname'' (VarChar 253) False None,
         Column ''is_primary'' BooleanType False None,
         Column ''is_active'' BooleanType False None,
         Column ''created_at'' TimestampTz False None,
         Column ''id'' UuidType False None]
        [ForeignKeyConstraint ''fk_tenant_domains_tenant_id_tenants'' [''tenant_id''] ''tenants''
          [''id''] (Some ''RESTRICT''),
         PrimaryKeyConstraint ''pk_tenant_domains'' [''id''],
         UniqueConstraint ''uq_tenant_domains_hostname'' [''hostname'']],
      Create_index ''ix_tenant_domains_tenant_id'' ''tenant_domains''
        [''tenant_id''] False None]"

definition ddl_tenant_features :: "operation list" where
  "ddl_tenant_features =
     [Create_table ''tenant_features''
        [Column ''tenant_id'' UuidType False None,
         Column ''feature_key'' (VarChar 64) False None,
         Column ''enabled'' BooleanType False None,
         Column ''configuration'' JsonbType False None,
         Column ''created_at'' TimestampTz False (Some Now),
         Column ''updated_at'' TimestampTz False (Some Now)]
        [ForeignKeyConstraint ''fk_tenant_features_tenant_id_tenants'' [''tenant_id''] ''tenants''
          [''id''] (Some ''CASCADE''),
         PrimaryKeyConstraint ''pk_tenant_features'' [''tenant_id'', ''feature_key''],
         UniqueConstraint ''uq_tenant_features_tenant_id_feature_key'' [''tenant_id'',
           ''feature_key'']],
      Create_index ''ix_tenant_features_tenant_enabled'' ''tenant_features''
        [''tenant_id'', ''enabled''] False None]"

definition ddl_tenant_memberships :: "operation list" where
  "ddl_tenant_memberships =
     [Create_table ''tenant_memberships''
        [Column ''tenant_id'' UuidType False None,
         Column ''user_id'' UuidType False None,
         Column ''role'' (VarChar 32) False None,
         Column ''created_at'' TimestampTz False None]
        [ForeignKeyConstraint ''fk_tenant_memberships_tenant_id_tenants'' [''tenant_id'']
          ''tenants'' [''id''] (Some ''CASCADE''),
         ForeignKeyConstraint ''fk_tenant_memberships_user_id_users'' [''user_id''] ''users''
           [''id''] (Some ''CASCADE''),
         PrimaryKeyConstraint ''pk_tenant_memberships'' [''tenant_id'', ''user_id''],
         UniqueConstraint ''uq_tenant_memberships_tenant_id_user_id'' [''tenant_id'',
           ''user_id'']],
      Create_index ''ix_tenant_memberships_tenant_role'' ''tenant_memberships''
        [''tenant_id'', ''role''] False None]"

definition ddl_tenant_phones :: "operation list" where
  "ddl_tenant_phones =
     [Create_table ''tenant_phones''
        [Column ''tenant_id'' UuidType False None,
         Column ''label'' (VarChar 100) False None,
         Column ''phone_number'' (VarChar 32) False None,
         Column ''sort_order'' IntegerType False None,
         Column ''id'' UuidType False None,
         Column ''created_at'' TimestampTz False (Some Now),
         Column ''updated_at'' TimestampTz False (Some Now)]
        [ForeignKeyConstraint ''fk_tenant_phones_tenant_id_tenants'' [''tenant_id''] ''tenants''
          [''id''] None,
         PrimaryKeyConstraint ''pk_tenant_phones'' [''id''],
         UniqueConstraint ''uq_tenant_phones_tenant_id_id'' [''tenant_id'', ''id'']]]"

definition ddl_tenant_profiles :: "operation list" where
  "ddl_tenant_profiles =
     [Create_table ''tenant_profiles''
        [Column ''tenant_id'' UuidType False None,
         Column ''display_name'' (VarChar 200) False None,
         Column ''description'' TextType True None,
         Column ''id'' UuidType False None,
         Column ''created_at'' TimestampTz False (Some Now),
         Column ''updated_at'' TimestampTz False (Some Now)]
        [ForeignKeyConstraint ''fk_tenant_profiles_tenant_id_tenants'' [''tenant_id''] ''tenants''
          [''id''] (Some ''CASCADE''),
         PrimaryKeyConstraint ''pk_tenant_profiles'' [''id''],
         UniqueConstraint ''uq_tenant_profiles_tenant_id_id'' [''tenant_id'', ''id''],
         UniqueConstraint ''uq_tenant_profiles_tenant_id'' [''tenant_id'']]]"

definition ddl_tenant_social_links :: "operation list" where
  "ddl_tenant_social_links =
     [Create_table ''tenant_social_links''
        [Column ''tenant_id'' UuidType False None,
         Column ''platform'' (VarChar 64) False None,
         Column ''url'' TextType False None,
         Column ''sort_order'' IntegerType False None,
         Column ''id'' UuidType False None,
         Column ''created_at'' TimestampTz False (Some Now),
         Column ''updated_at'' TimestampTz False (Some Now)]
        [ForeignKeyConstraint ''fk_tenant_social_links_tenant_id_tenants'' [''tenant_id'']
          ''tenants'' [''id''] None,
         PrimaryKeyConstraint ''pk_tenant_social_links'' [''id''],
         UniqueConstraint ''uq_tenant_social_links_tenant_id_id'' [''tenant_id'', ''id'']]]"

definition ddl_banners :: "operation list" where
  "ddl_banners =
     [Create_table ''banners''
        [Column ''tenant_id'' UuidType False None,
         Column ''title'' (VarChar 200) False None,
         Column ''description'' TextType True None,
         Column ''image_id'' UuidType False None,
         Column ''target_url'' TextType True None,
         Column ''sort_order'' IntegerType False None,
         Column ''status'' (VarChar 16) False None,
         Column ''starts_at'' TimestampTz True None,
         Column ''ends_at'' TimestampTz True None,
         Column ''id'' UuidType False None,
         Column ''created_at'' TimestampTz False (Some Now),
         Column ''updated_at'' TimestampTz False (Some Now)]
        [CheckConstraint ''ck_banners_valid_status''
          ''status IN ('DRAFT', 'PUBLISHED', 'ARCHIVED')'',
         CheckConstraint ''ck_banners_valid_window''
           ''ends_at IS NULL OR starts_at IS NULL OR ends_at > starts_at'',
         ForeignKeyConstraint ''fk_banners_tenant_id_image_id_media_assets'' [''tenant_id'',
           ''image_id''] ''media_assets'' [''tenant_id'', ''id''] None,
         ForeignKeyConstraint ''fk_banners_tenant_id_tenants'' [''tenant_id''] ''tenants''
           [''id''] None,
         PrimaryKeyConstraint ''pk_banners'' [''id''],
         UniqueConstraint ''uq_banners_tenant_id_id'' [''tenant_id'', ''id'']],
      Create_index ''ix_banners_tenant_public'' ''banners''
        [''tenant_id'', ''status'', ''sort_order''] False None]"

definition ddl_exam_pricing_plans :: "operation list" where
  "ddl_exam_pricing_plans =
     [Create_table ''exam_pricing_plans''
        [Column ''tenant_id'' UuidType False None,
         Column ''exam_offering_id'' UuidType False None,
         Column ''pricing_plan_id'' UuidType False None]
        [ForeignKeyConstraint ''fk_exam_pricing_plans_tenant_id_exam_offering_id_exam_offerings''
          [''tenant_id'', ''exam_offering_id''] ''exam_offerings'' [''tenant_id'',
            ''id''] (Some ''CASCADE''),
         ForeignKeyConstraint ''fk_exam_pricing_plans_tenant_id_pricing_plan_id_pricing_plans''
           [''tenant_id'', ''pricing_plan_id''] ''pricing_plans'' [''tenant_id'',
             ''id''] (Some ''CASCADE''),
         ForeignKeyConstraint ''fk_exam_pricing_plans_tenant_id_tenants'' [''tenant_id'']
           ''tenants'' [''id''] None,
         PrimaryKeyConstraint ''pk_exam_pricing_plans'' [''tenant_id'', ''exam_offering_id'',
           ''pricing_plan_id'']]]"

definition ddl_gallery_albums :: "operation list" where
  "ddl_gallery_albums =
     [Create_table ''gallery_albums''
        [Column ''tenant_id'' UuidType False None,
         Column ''title'' (VarChar 300) False None,
         Column ''slug'' (VarChar 200) False None,
         Column ''description'' TextType True None,
         Column ''cover_image_id'' UuidType True None,
         Column ''sort_order'' IntegerType False None,
         Column ''status'' (VarChar 16) False None,
         Column ''id'' UuidType False None,
         Column ''created_at'' TimestampTz False (Some Now),
         Column ''updated_at'' TimestampTz False (Some Now)]
        [CheckConstraint ''ck_gallery_albums_valid_status''
          ''status IN ('DRAFT', 'PUBLISHED', 'ARCHIVED')'',
         ForeignKeyConstraint ''fk_gallery_albums_tenant_id_cover_image_id_media_assets''
           [''tenant_id'', ''cover_image_id''] ''media_assets'' [''tenant_id'', ''id''] None,
         ForeignKeyConstraint ''fk_gallery_albums_tenant_id_tenants'' [''tenant_id''] ''tenants''
           [''id''] None,
         PrimaryKeyConstraint ''pk_gallery_albums'' [''id''],
         UniqueConstraint ''uq_gallery_albums_tenant_id_id'' [''tenant_id'', ''id''],
         UniqueConstraint ''uq_gallery_albums_tenant_id_slug'' [''tenant_id'', ''slug'']],
      Create_index ''ix_gallery_albums_tenant_public'' ''gallery_albums''
        [''tenant_id'', ''status'', ''sort_order''] False None]"

definition ddl_honors :: "operation list" where
  "ddl_honors =
     [Create_table ''honors''
        [Column ''tenant_id'' UuidType False None,
         Column ''category_id'' UuidType False None,
         Column ''student_name'' (VarChar 200) False None,
         Column ''title'' (VarChar 300) False None,
         Column ''description'' TextType True None,
         Column ''year'' IntegerType True None,
         Column ''rank'' IntegerType True None,
         Column ''institution_name'' (VarChar 300) True None,
         Column ''field_of_study'' (VarChar 200) True None,
         Column ''image_id'' UuidType True None,
         Column ''sort_order'' IntegerType False None,
         Column ''status'' (VarChar 16) False None,
         Column ''id'' UuidType False None,
         Column ''created_at'' TimestampTz False (Some Now),
         Column ''updated_at'' TimestampTz False (Some Now)]
        [CheckConstraint ''ck_honors_valid_status''
          ''status IN ('DRAFT', 'PUBLISHED', 'ARCHIVED')'',
         ForeignKeyConstraint ''fk_honors_tenant_id_category_id_honor_categories'' [''tenant_id'',
           ''category_id''] ''honor_categories'' [''tenant_id'', ''id''] None,
         ForeignKeyConstraint ''fk_honors_tenant_id_image_id_media_assets'' [''tenant_id'',
           ''image_id''] ''media_assets'' [''tenant_id'', ''id''] None,
         ForeignKeyConstraint ''fk_honors_tenant_id_tenants'' [''tenant_id''] ''tenants'' [''id'']
           None,
         PrimaryKeyConstraint ''pk_honors'' [''id''],
         UniqueConstraint ''uq_honors_tenant_id_id'' [''tenant_id'', ''id'']],
      Create_index ''ix_honors_tenant_public'' ''honors''
        [''tenant_id'', ''status'', ''sort_order''] False None]"

definition ddl_posts :: "operation list" where
  "ddl_posts =
     [Create_table ''posts''
        [Column ''tenant_id'' UuidType False None,
         Column ''kind'' (VarChar 16) False None,
         Column ''title'' (VarChar 300) False None,
         Column ''slug'' (VarChar 200) False None,
         Column ''summary'' TextType True None,
         Column ''body'' TextType False None,
         Column ''cover_image_id'' UuidType True None,
         Column ''event_date'' DateType True None,
         Column ''published_at'' TimestampTz True None,
         Column ''status'' (VarChar 16) False None,
         Column ''locale'' (VarChar 20) True None,
         Column ''id'' UuidType False None,
         Column ''created_at'' TimestampTz False (Some Now),
         Column ''updated_at'' TimestampTz False (Some Now)]
        [CheckConstraint ''ck_posts_valid_kind'' ''kind IN ('NEWS', 'ANNOUNCEMENT', 'BLOG')'',
         CheckConstraint ''ck_posts_valid_status''
           ''status IN ('DRAFT', 'PUBLISHED', 'ARCHIVED')'',
         ForeignKeyConstraint ''fk_posts_tenant_id_cover_image_id_media_assets'' [''tenant_id'',
           ''cover_image_id''] ''media_assets'' [''tenant_id'', ''id''] None,
         ForeignKeyConstraint ''fk_posts_tenant_id_tenants'' [''tenant_id''] ''tenants'' [''id'']
           None,
         PrimaryKeyConstraint ''pk_posts'' [''id''],
         UniqueConstraint ''uq_posts_tenant_id_id'' [''tenant_id'', ''id''],
         UniqueConstraint ''uq_posts_tenant_id_kind_slug'' [''tenant_id'', ''kind'', ''slug'']],
      Create_index ''ix_posts_tenant_kind_public'' ''posts''
        [''tenant_id'', ''kind'', ''status'', ''published_at''] False None]"

definition ddl_registrations :: "operation list" where
  "ddl_registrations =
     [Create_table ''registrations''
        [Column ''tenant_id'' UuidType False None,
         Column ''exam_offering_id'' UuidType False None,
         Column ''selected_pricing_plan_id'' UuidType True None,
         Column ''form_definition_id'' UuidType True None,
         Column ''form_definition_version'' IntegerType True None,
         Column ''draft_token_hash'' (VarChar 64) False None,
         Column ''draft_token_expires_at'' TimestampTz False None,
         Column ''phone_number'' (VarChar 16) False None,
         Column ''first_name'' (VarChar 100) True None,
         Column ''last_name'' (VarChar 100) True None,
         Column ''gender'' (VarChar 16) True None,
         Column ''national_code'' (VarChar 10) True None,
         Column ''father_name'' (VarChar 200) True None,
         Column ''birth_date'' DateType True None,
         Column ''home_phone'' (VarChar 32) True None,
         Column ''current_school_id'' UuidType True None,
         Column ''previous_school_id'' UuidType True None,
         Column ''postal_code'' (VarChar 10) True None,
         Column ''address'' TextType True None,
         Column ''profile_image_id'' UuidType True None,
         Column ''extra_answers'' JsonbType False None,
         Column ''payable_amount'' IntegerType True None,
         Column ''payable_currency'' (VarChar 8) True None,
         Column ''status'' (VarChar 32) False None,
         Column ''payment_status'' (VarChar 16) False None,
         Column ''phone_verified_at'' TimestampTz True None,
         Column ''submitted_at'' TimestampTz True None,
         Column ''internal_notes'' TextType True None,
         Column ''id'' UuidType False None,
         Column ''created_at'' TimestampTz False (Some Now),
         Column ''updated_at'' TimestampTz False (Some Now)]
        [CheckConstraint ''ck_registrations_valid_gender''
          ''gender IS NULL OR gender IN ('FEMALE', 'MALE', 'OTHER')'',
         CheckConstraint ''ck_registrations_valid_payment_status''
           ''payment_status IN ('PENDING', 'SUCCESSFUL', 'FAILED')'',
         CheckConstraint ''ck_registrations_valid_status''
           ''status IN ('DRAFT', 'PHONE_VERIFICATION_REQUIRED', 'PHONE_VERIFIED', 'READY_FOR_SUBMISSION', 'SUBMITTED', 'PAYMENT_PENDING', 'COMPLETED', 'CANCELLED')'',
         CheckConstraint ''ck_registrations_payable_amount_nonnegative''
           ''payable_amount IS NULL OR payable_amount >= 0'',
         ForeignKeyConstraint ''fk_registrations_current_school_id_school_directory_entries''
           [''current_school_id''] ''school_directory_entries'' [''id''] None,
         ForeignKeyConstraint ''fk_registrations_previous_school_id_school_directory_entries''
           [''previous_school_id''] ''school_directory_entries'' [''id''] None,
         ForeignKeyConstraint ''fk_registrations_tenant_id_exam_offering_id_exam_offerings''
           [''tenant_id'', ''exam_offering_id''] ''exam_offerings'' [''tenant_id'', ''id''] None,
         ForeignKeyConstraint
           ''fk_registrations_tenant_id_form_definition_id_registration_form_definitions''
             [''tenant_id'', ''form_definition_id''] ''registration_form_definitions''
               [''tenant_id'', ''id''] None,
         ForeignKeyConstraint ''fk_registrations_tenant_id_profile_image_id_media_assets''
           [''tenant_id'', ''profile_image_id''] ''media_assets'' [''tenant_id'', ''id''] None,
         ForeignKeyConstraint
           ''fk_registrations_tenant_id_selected_pricing_plan_id_pricing_plans'' [''tenant_id'',
             ''selected_pricing_plan_id''] ''pricing_plans'' [''tenant_id'', ''id''] None,
         ForeignKeyConstraint ''fk_registrations_tenant_id_tenants'' [''tenant_id''] ''tenants''
           [''id''] None,
         PrimaryKeyConstraint ''pk_registrations'' [''id''],
         UniqueConstraint ''uq_registrations_tenant_id_exam_offering_id_national_code''
           [''tenant_id'', ''exam_offering_id'', ''national_code''],
         UniqueConstraint ''uq_registrations_tenant_id_id'' [''tenant_id'', ''id'']],
      Create_index ''ix_registrations_tenant_phone'' ''registrations''
        [''tenant_id'', ''phone_number''] False None,
      Create_index ''ix_registrations_tenant_status_created'' ''registrations''
        [''tenant_id'', ''status'', ''created_at''] False None]"

definition ddl_sample_exams :: "operation list" where
  "ddl_sample_exams =
     [Create_table ''sample_exams''
        [Column ''tenant_id'' UuidType False None,
         Column ''title'' (VarChar 300) False None,
         Column ''description'' TextType True None,
         Column ''education_level'' (VarChar 100) True None,
         Column ''exam_year'' IntegerType True None,
         Column ''file_media_id'' UuidType False None,
         Column ''cover_media_id'' UuidType True None,
         Column ''sort_order'' IntegerType False None,
         Column ''status'' (VarChar 16) False None,
         Column ''download_count'' IntegerType False None,
         Column ''id'' UuidType False None,
         Column ''created_at'' TimestampTz False (Some Now),
         Column ''updated_at'' TimestampTz False (Some Now)]
        [CheckConstraint ''ck_sample_exams_valid_status''
          ''status IN ('DRAFT', 'PUBLISHED', 'ARCHIVED')'',
         CheckConstraint ''ck_sample_exams_download_count_nonnegative'' ''download_count >= 0'',
         ForeignKeyConstraint ''fk_sample_exams_tenant_id_cover_media_id_media_assets''
           [''tenant_id'', ''cover_media_id''] ''media_assets'' [''tenant_id'', ''id''] None,
         ForeignKeyConstraint ''fk_sample_exams_tenant_id_file_media_id_media_assets''
           [''tenant_id'', ''file_media_id''] ''media_assets'' [''tenant_id'', ''id''] None,
         ForeignKeyConstraint ''fk_sample_exams_tenant_id_tenants'' [''tenant_id''] ''tenants''
           [''id''] None,
         PrimaryKeyConstraint ''pk_sample_exams'' [''id''],
         UniqueConstraint ''uq_sample_exams_tenant_id_id'' [''tenant_id'', ''id'']],
      Create_index ''ix_sample_exams_tenant_public'' ''sample_exams''
        [''tenant_id'', ''status'', ''sort_order''] False None]"

definition ddl_staff_members :: "operation list" where
  "ddl_staff_members =
     [Create_table ''staff_members''
        [Column ''tenant_id'' UuidType False None,
         Column ''first_name'' (VarChar 100) False None,
         Column ''last_name'' (VarChar 100) False None,
         Column ''display_name'' (VarChar 200) False None,
         Column ''member_type'' (VarChar 16) False None,
         Column ''title'' (VarChar 200) False None,
         Column ''biography'' TextType True None,
         Column ''image_id'' UuidType True None,
         Column ''public_phone'' (VarChar 32) True None,
         Column ''public_email'' (VarChar 320) True None,
         Column ''sort_order'' IntegerType False None,
         Column ''is_active'' BooleanType False None,
         Column ''id'' UuidType False None,
         Column ''created_at'' TimestampTz False (Some Now),
         Column ''updated_at'' TimestampTz False (Some Now)]
        [CheckConstraint ''ck_staff_members_valid_type''
          ''member_type IN ('TEACHER', 'EMPLOYEE', 'MANAGER', 'OTHER')'',
         ForeignKeyConstraint ''fk_staff_members_tenant_id_image_id_media_assets'' [''tenant_id'',
           ''image_id''] ''media_assets'' [''tenant_id'', ''id''] None,
         ForeignKeyConstraint ''fk_staff_members_tenant_id_tenants'' [''tenant_id''] ''tenants''
           [''id''] None,
         PrimaryKeyConstraint ''pk_staff_members'' [''id''],
         UniqueConstraint ''uq_staff_members_tenant_id_id'' [''tenant_id'', ''id'']],
      Create_index ''ix_staff_members_tenant_active'' ''staff_members''
        [''tenant_id'', ''is_active'', ''sort_order''] False None]"

definition ddl_gallery_items :: "operation list" where
  "ddl_gallery_items =
     [Create_table ''gallery_items''
        [Column ''tenant_id'' UuidType False None,
         Column ''album_id'' UuidType False None,
         Column ''media_id'' UuidType False None,
         Column ''title'' (VarChar 300) True None,
         Column ''description'' TextType True None,
         Column ''captured_at'' TimestampTz True None,
         Column ''sort_order'' IntegerType False None,
         Column ''created_at'' TimestampTz False None,
         Column ''id'' UuidType False None]
        [ForeignKeyConstraint ''fk_gallery_items_tenant_id_album_id_gallery_albums''
          [''tenant_id'', ''album_id''] ''gallery_albums'' [''tenant_id'',
            ''id''] (Some ''CASCADE''),
         ForeignKeyConstraint ''fk_gallery_items_tenant_id_media_id_media_assets'' [''tenant_id'',
           ''media_id''] ''media_assets'' [''tenant_id'', ''id''] None,
         ForeignKeyConstraint ''fk_gallery_items_tenant_id_tenants'' [''tenant_id''] ''tenants''
           [''id''] None,
         PrimaryKeyConstraint ''pk_gallery_items'' [''id''],
         UniqueConstraint ''uq_gallery_items_tenant_id_id'' [''tenant_id'', ''id'']],
      Create_index ''ix_gallery_items_tenant_album_order'' ''gallery_items''
        [''tenant_id'', ''album_id'', ''sort_order''] False None]"

definition ddl_otp_challenges :: "operation list" where
  "ddl_otp_challenges =
     [Create_table ''otp_challenges''
        [Column ''tenant_id'' UuidType False None,
         Column ''registration_id'' UuidType False None,
         Column ''phone_number'' (VarChar 16) False None,
         Column ''code_hash'' (VarChar 256) False None,
         Column ''attempt_count'' IntegerType False None,
         Column ''request_ip_hash'' (VarChar 64) False None,
         Column ''expires_at'' TimestampTz False None,
         Column ''consumed_at'' TimestampTz True None,
         Column ''invalidated_at'' TimestampTz True None,
         Column ''created_at'' TimestampTz False None,
         Column ''id'' UuidType False None]
        [CheckConstraint ''ck_otp_challenges_attempt_count_nonnegative'' ''attempt_count >= 0'',
         ForeignKeyConstraint ''fk_otp_challenges_tenant_id_registration_id_registrations''
           [''tenant_id'', ''registration_id''] ''registrations'' [''tenant_id'',
             ''id''] (Some ''CASCADE''),
         ForeignKeyConstraint ''fk_otp_challenges_tenant_id_tenants'' [''tenant_id''] ''tenants''
           [''id''] None,
         PrimaryKeyConstraint ''pk_otp_challenges'' [''id''],
         UniqueConstraint ''uq_otp_challenges_tenant_id_id'' [''tenant_id'', ''id'']],
      Create_index ''ix_otp_challenges_ip_created'' ''otp_challenges''
        [''request_ip_hash'', ''created_at''] False None,
      Create_index ''ix_otp_challenges_tenant_phone_created'' ''otp_challenges''
        [''tenant_id'', ''phone_number'', ''created_at''] False None,
      Create_index ''ix_otp_challenges_tenant_registration_created'' ''otp_challenges''
        [''tenant_id'', ''registration_id'', ''created_at''] False None]"

definition ddl_payment_transactions :: "operation list" where
  "ddl_payment_transactions =
     [Create_table ''payment_transactions''
        [Column ''tenant_id'' UuidType False None,
         Column ''registration_id'' UuidType False None,
         Column ''provider'' (VarChar 64) False None,
         Column ''amount'' IntegerType False None,
         Column ''currency'' (VarChar 8) False None,
         Column ''status'' (VarChar 16) False None,
         Column ''provider_authority'' (VarChar 255) True None,
         Column ''provider_transaction_id'' (VarChar 255) True None,
         Column ''idempotency_key'' (VarChar 128) False None,
         Column ''callback_nonce_hash'' (VarChar 64) False None,
         Column ''callback_state'' TextType False None,
         Column ''callback_consumed_at'' TimestampTz True None,
         Column ''failure_code'' (VarChar 100) True None,
         Column ''failure_message'' TextType True None,
         Column ''verified_at'' TimestampTz True None,
         Column ''id'' UuidType False None,
         Column ''created_at'' TimestampTz False (Some Now),
         Column ''updated_at'' TimestampTz False (Some Now)]
        [CheckConstraint ''ck_payment_transactions_valid_status''
          ''status IN ('INITIATED', 'PENDING', 'SUCCESSFUL', 'FAILED', 'CANCELLED', 'REFUNDED')'',
         CheckConstraint ''ck_payment_transactions_amount_nonnegative'' ''amount >= 0'',
         ForeignKeyConstraint ''fk_payment_transactions_tenant_id_registration_id_registrations''
           [''tenant_id'', ''registration_id''] ''registrations'' [''tenant_id'', ''id''] None,
         ForeignKeyConstraint ''fk_payment_transactions_tenant_id_tenants'' [''tenant_id'']
           ''tenants'' [''id''] None,
         PrimaryKeyConstraint ''pk_payment_transactions'' [''id''],
         UniqueConstraint ''uq_payment_transactions_provider_provider_transaction_id''
           [''provider'', ''provider_transaction_id''],
         UniqueConstraint ''uq_payment_transactions_tenant_id_id'' [''tenant_id'', ''id''],
         UniqueConstraint ''uq_payment_transactions_tenant_id_idempotency_key'' [''tenant_id'',
           ''idempotency_key'']],
      Create_index ''ix_payment_transactions_tenant_registration'' ''payment_transactions''
        [''tenant_id'', ''registration_id''] False None,
      Create_index ''ix_payment_transactions_tenant_status_created'' ''payment_transactions''
        [''tenant_id'', ''status'', ''created_at''] False None,
      Create_index ''uq_payment_transactions_active_registration'' ''payment_transactions''
        [''tenant_id'', ''registration_id''] True (Some ''status IN ('INITIATED', 'PENDING')'')]"

definition ddl_registration_contacts :: "operation list" where
  "ddl_registration_contacts =
     [Create_table ''registration_contacts''
        [Column ''tenant_id'' UuidType False None,
         Column ''registration_id'' UuidType False None,
         Column ''position'' IntegerType False None,
         Column ''name'' (VarChar 200) False None,
         Column ''phone_number'' (VarChar 16) False None,
         Column ''relationship'' (VarChar 100) False None,
         Column ''id'' UuidType False None,
         Column ''created_at'' TimestampTz False (Some Now),
         Column ''updated_at'' TimestampTz False (Some Now)]
        [CheckConstraint ''ck_registration_contacts_valid_position'' ''position IN (1, 2)'',
         ForeignKeyConstraint ''fk_registration_contacts_tenant_id_registration_id_registrations''
           [''tenant_id'', ''registration_id''] ''registrations'' [''tenant_id'',
             ''id''] (Some ''CASCADE''),
         ForeignKeyConstraint ''fk_registration_contacts_tenant_id_tenants'' [''tenant_id'']
           ''tenants'' [''id''] None,
         PrimaryKeyConstraint ''pk_registration_contacts'' [''id''],
         UniqueConstraint ''uq_registration_contacts_tenant_id_id'' [''tenant_id'', ''id''],
         UniqueConstraint ''uq_registration_contacts_tenant_id_registration_id_position''
           [''tenant_id'', ''registration_id'', ''position'']],
      Create_index ''ix_registration_contacts_tenant_registration'' ''registration_contacts''
        [''tenant_id'', ''registration_id''] False None]"

section \<open>Row-level security\<close>

definition tenant_tables :: "string list" where
  "tenant_tables =
     [''audit_events'', ''banners'', ''contact_requests'', ''exam_offerings'',
      ''exam_pricing_plans'', ''gallery_albums'', ''gallery_items'', ''honor_categories'',
      ''honors'', ''media_assets'', ''otp_challenges'', ''payment_transactions'', ''posts'',
      ''pricing_plans'', ''registration_contacts'', ''registration_form_definitions'',
      ''registrations'', ''sample_exams'', ''staff_members'', ''tenant_addresses'',
      ''tenant_features'', ''tenant_memberships'', ''tenant_phones'', ''tenant_profiles'',
      ''tenant_social_links'']"

text \<open>\<open>tenant_id = NULLIF(current_setting('app.current_tenant_id', true),
  '')::uuid\<close>\<close>

definition tenant_predicate :: sql_expr where
  "tenant_predicate =
     Equals (Column_value ''tenant_id'')
       (Cast_uuid (Nullif (Current_setting ''app.current_tenant_id'') (Text_literal [])))"

definition tenant_rls :: "string \<Rightarrow> operation list" where
  "tenant_rls n =
     [Enable_row_security n, Force_row_security n,
      Create_policy ''tenant_isolation'' n tenant_predicate tenant_predicate]"

section \<open>The migration\<close>

definition create_initial_tables :: "operation list list" where
  "create_initial_tables =
     [ddl_authentication_attempts, ddl_school_directory_entries, ddl_tenants, ddl_users,
      ddl_audit_events, ddl_contact_requests, ddl_exam_offerings, ddl_honor_categories,
      ddl_media_assets, ddl_pricing_plans, ddl_refresh_tokens,
      ddl_registration_form_definitions, ddl_tenant_addresses, ddl_tenant_domains,
      ddl_tenant_features, ddl_tenant_memberships, ddl_tenant_phones, ddl_tenant_profiles,
      ddl_tenant_social_links, ddl_banners, ddl_exam_pricing_plans, ddl_gallery_albums,
      ddl_honors, ddl_posts, ddl_registrations, ddl_sample_exams, ddl_staff_members,
      ddl_gallery_items, ddl_otp_challenges, ddl_payment_transactions, ddl_registration_contacts]"

definition upgrade_bfd7cd1209eb :: "operation list" where
  "upgrade_bfd7cd1209eb =
     [Require_application_role] @ concat create_initial_tables
     @ concat (map tenant_rls tenant_tables)
     @ [Grant_schema_usage, Grant_all_tables]"

definition downgrade_bfd7cd1209eb :: "operation list" where
  "downgrade_bfd7cd1209eb =
     [Drop_index ''ix_registration_contacts_tenant_registration'' ''registration_contacts'',
      Drop_table ''registration_contacts'',
      Drop_index ''ix_payment_transactions_tenant_status_created'' ''payment_transactions'',
      Drop_index ''uq_payment_transactions_active_registration'' ''payment_transactions'',
      Drop_index ''ix_payment_transactions_tenant_registration'' ''payment_transactions'',
      Drop_table ''payment_transactions'',
      Drop_index ''ix_otp_challenges_tenant_registration_created'' ''otp_challenges'',
      Drop_index ''ix_otp_challenges_tenant_phone_created'' ''otp_challenges'',
      Drop_index ''ix_otp_challenges_ip_created'' ''otp_challenges'',
      Drop_table ''otp_challenges'',
      Drop_index ''ix_gallery_items_tenant_album_order'' ''gallery_items'',
      Drop_table ''gallery_items'',
      Drop_index ''ix_staff_members_tenant_active'' ''staff_members'',
      Drop_table ''staff_members'',
      Drop_index ''ix_sample_exams_tenant_public'' ''sample_exams'',
      Drop_table ''sample_exams'',
      Drop_index ''ix_registrations_tenant_status_created'' ''registrations'',
      Drop_index ''ix_registrations_tenant_phone'' ''registrations'',
      Drop_table ''registrations'',
      Drop_index ''ix_posts_tenant_kind_public'' ''posts'',
      Drop_table ''posts'',
      Drop_index ''ix_honors_tenant_public'' ''honors'',
      Drop_table ''honors'',
      Drop_index ''ix_gallery_albums_tenant_public'' ''gallery_albums'',
      Drop_table ''gallery_albums'',
      Drop_table ''exam_pricing_plans'',
      Drop_index ''ix_banners_tenant_public'' ''banners'',
      Drop_table ''banners'',
      Drop_table ''tenant_social_links'',
      Drop_table ''tenant_profiles'',
      Drop_table ''tenant_phones'',
      Drop_index ''ix_tenant_memberships_tenant_role'' ''tenant_memberships'',
      Drop_table ''tenant_memberships'',
      Drop_index ''ix_tenant_features_tenant_enabled'' ''tenant_features'',
      Drop_table ''tenant_features'',
      Drop_index ''ix_tenant_domains_tenant_id'' ''tenant_domains'',
      Drop_table ''tenant_domains'',
      Drop_table ''tenant_addresses'',
      Drop_table ''registration_form_definitions'',
      Drop_index ''ix_refresh_tokens_user_active'' ''refresh_tokens'',
      Drop_table ''refresh_tokens'',
      Drop_index ''ix_pricing_plans_tenant_public'' ''pricing_plans'',
      Drop_table ''pricing_plans'',
      Drop_index ''ix_media_assets_tenant_created'' ''media_assets'',
      Drop_table ''media_assets'',
      Drop_table ''honor_categories'',
      Drop_index ''ix_exam_offerings_tenant_public'' ''exam_offerings'',
      Drop_table ''exam_offerings'',
      Drop_index ''ix_contact_requests_tenant_phone_created'' ''contact_requests'',
      Drop_index ''ix_contact_requests_tenant_ip_created'' ''contact_requests'',
      Drop_index ''ix_contact_requests_tenant_status_created'' ''contact_requests'',
      Drop_table ''contact_requests'',
      Drop_index ''ix_audit_events_tenant_entity'' ''audit_events'',
      Drop_index ''ix_audit_events_tenant_created'' ''audit_events'',
      Drop_table ''audit_events'',
      Drop_table ''users'',
      Drop_table ''tenants'',
      Drop_table ''school_directory_entries'',
      Drop_index ''ix_auth_attempt_scope_created'' ''authentication_attempts'',
      Drop_table ''authentication_attempts'']"

end
