(* ===== verification/MigrationBlog.thy ===== *)
theory MigrationBlog
  imports MigrationInitial RichText
begin

text \<open>
  The two later migrations of \<open>migrations/versions/\<close>:
    \<open>8f3a2d6b9c10_blog_and_static_site_builds.py\<close>,
  which gives posts structured documents, fills them from the old plain-text bodies and adds the
  tables of the site builds, and \<open>c6e4a12b7f90_content_archive_markers.py\<close>.
\<close>

section \<open>Structured posts\<close>

definition empty_document_default :: server_default where
  "empty_document_default =
     Jsonb_literal (JObj [(lit ''type'', JStr (lit ''doc'')), (lit ''content'', JArr [])])"

definition add_post_columns :: "operation list" where
  "add_post_columns =
     [Add_column ''posts'' (Column ''content_document'' JsonbType False (Some
       empty_document_default)),
      Add_column ''posts'' (Column ''rendered_html'' TextType True None),
      Add_column ''posts'' (Column ''og_image_id'' UuidType True None),
      Add_column ''posts'' (Column ''seo_title'' (VarChar 300) True None),
      Add_column ''posts'' (Column ''seo_description'' (VarChar 500) True None),
      Add_column ''posts'' (Column ''created_by'' UuidType True None),
      Add_column ''posts'' (Column ''updated_by'' UuidType True None)]"

text \<open>
  The \<open>UPDATE\<close>: a body becomes a document of one paragraph with one text node,
    and the HTML of
  that paragraph. \<open>replace_char\<close> is SQL's \<open>replace\<close> with a text of one
    character.
\<close>

definition replace_char :: "nat \<Rightarrow> ustr \<Rightarrow> ustr \<Rightarrow> ustr" where
  "replace_char c by s = concat (map (\<lambda>x. if x = c then by else [x]) s)"

definition backfill_document :: "ustr \<Rightarrow> json" where
  "backfill_document body =
     JObj [(lit ''type'', JStr (lit ''doc'')),
           (lit ''content'',
             if body = [] then JArr []
             else JArr [JObj [(lit ''type'', JStr (lit ''paragraph'')),
                              (lit ''content'',
                                JArr [JObj [(lit ''type'', JStr (lit ''text'')),
                                            (lit ''text'', JStr body)]])]])]"

definition backfill_html :: "ustr \<Rightarrow> ustr" where
  "backfill_html body =
     (if body = [] then []
      else lit ''<p>''
        @ replace_char 62 (lit ''&gt;'')
            (replace_char 60 (lit ''&lt;'') (replace_char 38 (lit ''&amp;'') body))
        @ lit ''</p>'')"

text \<open>\<open>posts.body\<close> is \<open>NOT NULL\<close>,
  so a row has a text there.\<close>

fun cell_text :: "cell \<Rightarrow> ustr" where
  "cell_text (Text s) = s"
| "cell_text _ = []"

definition backfill_post :: "table_row \<Rightarrow> table_row" where
  "backfill_post r =
     r(''content_document'' := Json (backfill_document (cell_text (r ''body''))),
       ''rendered_html'' := Text (backfill_html (cell_text (r ''body''))))"

definition backfill_posts :: "operation list" where
  "backfill_posts =
     [No_force_row_security ''posts'', Update_rows ''posts'' backfill_post,
       Force_row_security ''posts'']"

definition add_post_references :: "operation list" where
  "add_post_references =
     [Create_foreign_key ''fk_posts_created_by_users'' ''posts'' ''users'' [''created_by'']
       [''id''],
      Create_foreign_key ''fk_posts_updated_by_users'' ''posts'' ''users'' [''updated_by'']
        [''id''],
      Create_foreign_key ''fk_posts_tenant_id_og_image_id_media_assets'' ''posts''
        ''media_assets'' [''tenant_id'', ''og_image_id''] [''tenant_id'', ''id'']]"

section \<open>The tables of the site builds\<close>

definition ddl_tenant_site_build_configs :: "operation list" where
  "ddl_tenant_site_build_configs =
     [Create_table ''tenant_site_build_configs''
        [Column ''tenant_id'' UuidType False None,
         Column ''enabled'' BooleanType False None,
         Column ''canonical_domain'' (VarChar 253) False None,
         Column ''build_target_key'' (VarChar 200) False None,
         Column ''deployment_target_key'' (VarChar 200) False None,
         Column ''created_at'' TimestampTz False (Some Now),
         Column ''updated_at'' TimestampTz False (Some Now)]
        [ForeignKeyConstraint ''fk_tenant_site_build_configs_tenant_id_tenants'' [''tenant_id'']
          ''tenants'' [''id''] (Some ''CASCADE''),
         PrimaryKeyConstraint ''pk_tenant_site_build_configs'' [''tenant_id'']]]"

definition ddl_tenant_site_states :: "operation list" where
  "ddl_tenant_site_states =
     [Create_table ''tenant_site_states''
        [Column ''tenant_id'' UuidType False None,
         Column ''content_revision'' BigIntType False None,
         Column ''last_successful_build_revision'' BigIntType True None,
         Column ''last_build_at'' TimestampTz True None]
        [CheckConstraint ''ck_tenant_site_states_content_revision_nonnegative''
          ''content_revision >= 0'',
         CheckConstraint ''ck_tenant_site_states_deployed_revision_nonnegative''
           ''last_successful_build_revision IS NULL OR last_successful_build_revision >= 0'',
         ForeignKeyConstraint ''fk_tenant_site_states_tenant_id_tenants'' [''tenant_id'']
           ''tenants'' [''id''] (Some ''CASCADE''),
         PrimaryKeyConstraint ''pk_tenant_site_states'' [''tenant_id'']]]"

definition ddl_post_media_references :: "operation list" where
  "ddl_post_media_references =
     [Create_table ''post_media_references''
        [Column ''tenant_id'' UuidType False None,
         Column ''post_id'' UuidType False None,
         Column ''media_id'' UuidType False None,
         Column ''id'' UuidType False None]
        [ForeignKeyConstraint ''fk_post_media_references_tenant_id_media_id_media_assets''
          [''tenant_id'', ''media_id''] ''media_assets'' [''tenant_id'', ''id''] None,
         ForeignKeyConstraint ''fk_post_media_references_tenant_id_post_id_posts'' [''tenant_id'',
           ''post_id''] ''posts'' [''tenant_id'', ''id''] (Some ''CASCADE''),
         ForeignKeyConstraint ''fk_post_media_references_tenant_id_tenants'' [''tenant_id'']
           ''tenants'' [''id''] None,
         PrimaryKeyConstraint ''pk_post_media_references'' [''id''],
         UniqueConstraint ''uq_post_media_references_tenant_id_id'' [''tenant_id'', ''id''],
         UniqueConstraint ''uq_post_media_references_tenant_id_post_id_media_id'' [''tenant_id'',
           ''post_id'', ''media_id'']],
      Create_index ''ix_post_media_references_tenant_media'' ''post_media_references''
        [''tenant_id'', ''media_id''] False None,
      Create_index ''ix_post_media_references_tenant_post'' ''post_media_references''
        [''tenant_id'', ''post_id''] False None]"

definition ddl_site_build_requests :: "operation list" where
  "ddl_site_build_requests =
     [Create_table ''site_build_requests''
        [Column ''tenant_id'' UuidType False None,
         Column ''reason'' (VarChar 100) False None,
         Column ''entity_type'' (VarChar 100) True None,
         Column ''entity_id'' UuidType True None,
         Column ''target_revision'' BigIntType False None,
         Column ''status'' (VarChar 16) False None,
         Column ''attempt_count'' IntegerType False None,
         Column ''requested_at'' TimestampTz False None,
         Column ''next_attempt_at'' TimestampTz False None,
         Column ''started_at'' TimestampTz True None,
         Column ''lease_expires_at'' TimestampTz True None,
         Column ''completed_at'' TimestampTz True None,
         Column ''failed_at'' TimestampTz True None,
         Column ''actual_revision'' BigIntType True None,
         Column ''last_error'' TextType True None,
         Column ''created_by'' UuidType True None,
         Column ''id'' UuidType False None]
        [CheckConstraint ''ck_site_build_requests_attempt_count_nonnegative''
          ''attempt_count >= 0'',
         CheckConstraint ''ck_site_build_requests_target_revision_nonnegative''
           ''target_revision >= 0'',
         CheckConstraint ''ck_site_build_requests_valid_status''
           ''status IN ('PENDING', 'RUNNING', 'SUCCESSFUL', 'FAILED', 'SUPERSEDED')'',
         ForeignKeyConstraint ''fk_site_build_requests_created_by_users'' [''created_by'']
           ''users'' [''id''] None,
         ForeignKeyConstraint ''fk_site_build_requests_tenant_id_tenants'' [''tenant_id'']
           ''tenants'' [''id''] None,
         PrimaryKeyConstraint ''pk_site_build_requests'' [''id''],
         UniqueConstraint ''uq_site_build_requests_tenant_id_id'' [''tenant_id'', ''id'']],
      Create_index ''ix_site_build_requests_poll'' ''site_build_requests''
        [''status'', ''next_attempt_at'', ''requested_at''] False None,
      Create_index ''ix_site_build_requests_tenant_status_requested'' ''site_build_requests''
        [''tenant_id'', ''status'', ''requested_at''] False None,
      Create_index ''uq_site_build_requests_one_pending_per_tenant'' ''site_build_requests''
        [''tenant_id''] True (Some (''status = '' @ quoted ''PENDING'')),
      Create_index ''uq_site_build_requests_one_running_per_tenant'' ''site_build_requests''
        [''tenant_id''] True (Some (''status = '' @ quoted ''RUNNING''))]"

definition build_tables :: "string list" where
  "build_tables =
     [''post_media_references'', ''site_build_requests'', ''tenant_site_build_configs'',
      ''tenant_site_states'']"

text \<open>The migration's own \<open>_tenant_rls\<close> performs the three operations of
  \<open>tenant_rls\<close>.\<close>

definition secure_build_tables :: "operation list" where
  "secure_build_tables = concat (map tenant_rls build_tables) @ [Grant_tables build_tables]"

definition create_build_tables :: "operation list list" where
  "create_build_tables = [ddl_tenant_site_build_configs, ddl_tenant_site_states,
    ddl_post_media_references, ddl_site_build_requests]"

definition upgrade_8f3a2d6b9c10 :: "operation list" where
  "upgrade_8f3a2d6b9c10 =
     add_post_columns @ backfill_posts @ add_post_references
     @ concat create_build_tables @ secure_build_tables"

definition downgrade_8f3a2d6b9c10 :: "operation list" where
  "downgrade_8f3a2d6b9c10 =
     [Drop_index ''uq_site_build_requests_one_running_per_tenant'' ''site_build_requests'',
      Drop_index ''uq_site_build_requests_one_pending_per_tenant'' ''site_build_requests'',
      Drop_index ''ix_site_build_requests_tenant_status_requested'' ''site_build_requests'',
      Drop_index ''ix_site_build_requests_poll'' ''site_build_requests'',
      Drop_table ''site_build_requests'',
      Drop_index ''ix_post_media_references_tenant_post'' ''post_media_references'',
      Drop_index ''ix_post_media_references_tenant_media'' ''post_media_references'',
      Drop_table ''post_media_references'',
      Drop_table ''tenant_site_states'',
      Drop_table ''tenant_site_build_configs'',
      Drop_constraint ''fk_posts_tenant_id_og_image_id_media_assets'' ''posts'',
      Drop_constraint ''fk_posts_updated_by_users'' ''posts'',
      Drop_constraint ''fk_posts_created_by_users'' ''posts'',
      Drop_column ''posts'' ''updated_by'',
      Drop_column ''posts'' ''created_by'',
      Drop_column ''posts'' ''seo_description'',
      Drop_column ''posts'' ''seo_title'',
      Drop_column ''posts'' ''og_image_id'',
      Drop_column ''posts'' ''rendered_html'',
      Drop_column ''posts'' ''content_document'']"

section \<open>Archive markers\<close>

definition upgrade_c6e4a12b7f90 :: "operation list" where
  "upgrade_c6e4a12b7f90 =
     [Add_column ''honor_categories'' (Column ''archived_at'' TimestampTz True None),
      Add_column ''staff_members'' (Column ''archived_at'' TimestampTz True None)]"

definition downgrade_c6e4a12b7f90 :: "operation list" where
  "downgrade_c6e4a12b7f90 =
     [Drop_column ''staff_members'' ''archived_at'',
      Drop_column ''honor_categories'' ''archived_at'']"

end
