(* ===== verification/SchemaRuns.thy ===== *)
theory SchemaRuns
  imports Schema
begin

text \<open>
  How runs of migrations are computed. A group of operations that creates one table with its
  indexes is folded into the table it builds; a list of such groups runs as soon as every table is
  well formed, all names are distinct and every foreign key refers to a table created before it.
  Row-level security and grants become maps over the tables.
\<close>

section \<open>Tables from groups of operations\<close>

fun index_of :: "operation \<Rightarrow> table_index list" where
  "index_of (Create_index n t cs u w) = [Index n cs u w]"
| "index_of op = []"

fun indexes_only :: "string \<Rightarrow> operation list \<Rightarrow> bool" where
  "indexes_only n [] = True"
| "indexes_only n (Create_index i t cs u w # ops) = (t = n \<and> indexes_only n ops)"
| "indexes_only n (op # ops) = False"

fun is_group :: "operation list \<Rightarrow> bool" where
  "is_group (Create_table n cs ks # ops) = indexes_only n ops"
| "is_group ops = False"

fun built :: "operation list \<Rightarrow> table" where
  "built (Create_table n cs ks # ops) =
     (new_table n cs ks)\<lparr>table_indexes := concat (map index_of ops)\<rparr>"
| "built ops = new_table [] [] []"

section \<open>Well-formed tables and ordered references\<close>

definition well_formed :: "table \<Rightarrow> bool" where
  "well_formed t \<longleftrightarrow>
     distinct (map column_name (table_columns t))
     \<and> distinct (map constraint_name (table_constraints t))
     \<and> list_all (\<lambda>k. has_columns t (constraint_columns k)) (table_constraints t)
     \<and> list_all (\<lambda>i. has_columns t (index_columns i)) (table_indexes t)"

text \<open>The keys of a table and what it refers to, with the types of the columns.\<close>

definition typed_keys :: "table \<Rightarrow> (string list \<times> sql_type option list) list" where
  "typed_keys t = map (\<lambda>k. (k, map (type_of_column t) k)) (table_keys t)"

definition typed_references :: "table \<Rightarrow> (string \<times> string list \<times> sql_type option list) list" where
  "typed_references t = map (\<lambda>(cs, n, rs). (n, rs, map (type_of_column t) cs)) (table_references t)"

definition reference_found :: "table list \<Rightarrow> string \<times> string list \<times> sql_type option list \<Rightarrow> bool" where
  "reference_found ts r =
     (case r of (n, rs, tys) \<Rightarrow>
        (case find_table n ts of None \<Rightarrow> False | Some u \<Rightarrow> (rs, tys) \<in> set (typed_keys u)))"

lemma reference_ok_found:
  "list_all (reference_ok ts t) (table_references t) \<longleftrightarrow> list_all (reference_found ts) (typed_references t)"
  by (auto simp: list_all_iff reference_ok_def reference_found_def typed_references_def typed_keys_def
      split: option.splits prod.splits)

fun references_ordered :: "table list \<Rightarrow> table list \<Rightarrow> bool" where
  "references_ordered ts [] = True"
| "references_ordered ts (t # us) =
     (list_all (reference_found (ts @ [t])) (typed_references t) \<and> references_ordered (ts @ [t]) us)"

section \<open>Looking tables up\<close>

lemma find_table_Nil [simp]: "find_table n [] = None"
  by (simp add: find_table_def)

lemma find_table_Cons [simp]:
  "find_table n (t # ts) = (if table_name t = n then Some t else find_table n ts)"
  by (simp add: find_table_def scalar_def)

lemma find_table_append:
  "find_table n (ts @ us) = (case find_table n ts of None \<Rightarrow> find_table n us | Some t \<Rightarrow> Some t)"
  by (induction ts) auto

lemma find_table_None: "find_table n ts = None \<longleftrightarrow> n \<notin> table_name ` set ts"
  by (induction ts) auto

lemma find_table_Some: "find_table n ts = Some t \<Longrightarrow> t \<in> set ts \<and> table_name t = n"
  by (induction ts) (auto split: if_splits)

lemma find_table_map:
  assumes "\<And>t. table_name (f t) = table_name t"
  shows "find_table n (map f ts) = map_option f (find_table n ts)"
  using assms by (induction ts) auto

text \<open>Changing the one table of a name.\<close>

lemma alter_last:
  assumes "n \<notin> table_name ` set ts" "table_name t = n"
  shows "alter_table n f (d\<lparr>db_tables := ts @ [t]\<rparr>) =
    (case f t of Inl e \<Rightarrow> Inl e | Inr t' \<Rightarrow> Inr (d\<lparr>db_tables := ts @ [t']\<rparr>))"
proof -
  have "map (\<lambda>u. if table_name u = n then t' else u) ts = ts" for t'
    using assms(1) by (intro map_idI) (metis imageI)
  moreover have "find_table n (ts @ [t]) = Some t"
    using assms find_table_None [of n ts] by (simp add: find_table_append)
  ultimately show ?thesis
    using assms(2) by (simp add: alter_table_def split: sum.split)
qed

section \<open>Creating a table with its indexes\<close>

lemma has_columns_indexes [simp]: "has_columns (t\<lparr>table_indexes := ixs\<rparr>) cs = has_columns t cs"
  by (simp add: has_columns_def)

lemma type_of_column_indexes [simp]: "type_of_column (t\<lparr>table_indexes := ixs\<rparr>) = type_of_column t"
  by (simp add: type_of_column_def fun_eq_iff)

lemma table_keys_indexes [simp]: "table_keys (t\<lparr>table_indexes := ixs\<rparr>) = table_keys t"
  by (simp add: table_keys_def)

lemma table_references_indexes [simp]: "table_references (t\<lparr>table_indexes := ixs\<rparr>) = table_references t"
  by (simp add: table_references_def)

lemma typed_keys_indexes [simp]: "typed_keys (t\<lparr>table_indexes := ixs\<rparr>) = typed_keys t"
  by (simp add: typed_keys_def)

lemma typed_references_indexes [simp]: "typed_references (t\<lparr>table_indexes := ixs\<rparr>) = typed_references t"
  by (simp add: typed_references_def)

lemma relation_names_indexes:
  "relation_names (t\<lparr>table_indexes := ixs\<rparr>) = relation_names (t\<lparr>table_indexes := []\<rparr>) @ map index_name ixs"
  by (simp add: relation_names_def)

lemma create_indexes:
  assumes "indexes_only (table_name t) ops" "table_name t \<notin> table_name ` set ts"
    and "distinct (concat (map relation_names ts) @ relation_names t @ map index_name (concat (map index_of ops)))"
    and "list_all (\<lambda>i. has_columns t (index_columns i)) (concat (map index_of ops))"
  shows "migrate ops (d\<lparr>db_tables := ts @ [t]\<rparr>)
    = Inr (d\<lparr>db_tables := ts @ [t\<lparr>table_indexes := table_indexes t @ concat (map index_of ops)\<rparr>]\<rparr>)"
  using assms
proof (induction "table_name t" ops arbitrary: t rule: indexes_only.induct)
  case (2 i u cs un w ops)
  let ?t = "t\<lparr>table_indexes := table_indexes t @ [Index i cs un w]\<rparr>"
  have "migrate ops (d\<lparr>db_tables := ts @ [?t]\<rparr>)
      = Inr (d\<lparr>db_tables := ts @ [?t\<lparr>table_indexes := table_indexes ?t @ concat (map index_of ops)\<rparr>]\<rparr>)"
    by (rule "2.hyps") (use 2 in \<open>auto simp: relation_names_def\<close>)
  then show ?case
    using 2 by (auto simp: create_index_def all_relations_def alter_last)
qed auto

lemma create_group:
  assumes "is_group ops" and wf: "well_formed (built ops)"
    and names: "distinct (all_relations d @ relation_names (built ops))"
    and refs: "list_all (reference_found (db_tables d @ [built ops])) (typed_references (built ops))"
  shows "migrate ops d = Inr (d\<lparr>db_tables := db_tables d @ [built ops]\<rparr>)"
proof -
  obtain n cs ks ixs where ops: "ops = Create_table n cs ks # ixs" and ixs: "indexes_only n ixs"
    using assms(1) by (cases ops rule: is_group.cases) auto
  let ?t = "new_table n cs ks" and ?is = "concat (map index_of ixs)"
  have built: "built ops = ?t\<lparr>table_indexes := ?is\<rparr>" by (simp add: ops)
  have [simp]: "table_name ?t = n" "table_columns ?t = cs" "table_constraints ?t = ks" "table_indexes ?t = []"
    "?t\<lparr>table_indexes := []\<rparr> = ?t"
    by (simp_all add: new_table_def)
  have fresh: "n \<notin> table_name ` set (db_tables d)"
    using names by (auto simp: built all_relations_def relation_names_def)
  have found: "reference_found (db_tables d @ [?t\<lparr>table_indexes := ?is\<rparr>]) = reference_found (db_tables d @ [?t])"
    by (auto simp: fun_eq_iff reference_found_def find_table_append split: option.splits prod.splits)
  have "create_table n cs ks d = Inr (d\<lparr>db_tables := db_tables d @ [?t]\<rparr>)"
    using wf names refs
    by (auto simp: create_table_def Let_def well_formed_def built relation_names_indexes [where t = ?t and ixs = ?is] list_ex_iff
        reference_ok_found found)
  then show ?thesis
    using create_indexes [of ?t ixs "db_tables d" d] wf names ixs fresh
    by (auto simp: ops built well_formed_def all_relations_def relation_names_indexes [where t = ?t and ixs = ?is])
qed

theorem create_groups:
  assumes "list_all is_group gs" "list_all well_formed (map built gs)"
    and "distinct (all_relations d @ concat (map relation_names (map built gs)))"
    and "references_ordered (db_tables d) (map built gs)"
  shows "migrate (concat gs) d = Inr (d\<lparr>db_tables := db_tables d @ map built gs\<rparr>)"
  using assms
proof (induction gs arbitrary: d)
  case (Cons g gs)
  have "migrate g d = Inr (d\<lparr>db_tables := db_tables d @ [built g]\<rparr>)"
    by (rule create_group) (use Cons.prems in auto)
  moreover have "migrate (concat gs) (d\<lparr>db_tables := db_tables d @ [built g]\<rparr>)
      = Inr (d\<lparr>db_tables := db_tables d @ built g # map built gs\<rparr>)"
    using Cons.IH [of "d\<lparr>db_tables := db_tables d @ [built g]\<rparr>"] Cons.prems
    by (auto simp: all_relations_def)
  ultimately show ?case by (simp add: migrate_append)
qed simp


section \<open>Changing one table\<close>

definition locally :: "string \<Rightarrow> (table \<Rightarrow> table) \<Rightarrow> database \<Rightarrow> database" where
  "locally n f d = d\<lparr>db_tables := map (\<lambda>t. if table_name t = n then f t else t) (db_tables d)\<rparr>"

definition distinct_tables :: "database \<Rightarrow> bool" where
  "distinct_tables d = distinct (map table_name (db_tables d))"

lemma find_table_member:
  assumes "distinct_tables d" "t \<in> set (db_tables d)"
  shows "find_table (table_name t) (db_tables d) = Some t"
proof -
  have "distinct (map table_name ts) \<Longrightarrow> t \<in> set ts \<Longrightarrow> find_table (table_name t) ts = Some t" for ts
    by (induction ts) (auto simp: image_iff)
  with assms show ?thesis by (simp add: distinct_tables_def)
qed

lemma alter_locally:
  assumes "find_table n (db_tables d) = Some t" "distinct_tables d" "F t = Inr (f t)"
  shows "alter_table n F d = Inr (locally n f d)"
proof -
  have "u = t" if "u \<in> set (db_tables d)" "table_name u = n" for u
    using find_table_member [OF assms(2) that(1)] that assms(1) by simp
  then show ?thesis
    using assms by (auto simp: alter_table_def locally_def intro!: arg_cong [where f = "\<lambda>ts. d\<lparr>db_tables := ts\<rparr>"])
qed

text \<open>A step that keeps the name of its table.\<close>

definition keeps_name :: "(table \<Rightarrow> table) \<Rightarrow> bool" where
  "keeps_name f = (\<forall>t. table_name (f t) = table_name t)"

lemma locally_names:
  assumes "keeps_name f"
  shows "map table_name (db_tables (locally n f d)) = map table_name (db_tables d)"
  using assms by (simp add: locally_def keeps_name_def)

lemma locally_distinct [simp]: "keeps_name f \<Longrightarrow> distinct_tables (locally n f d) = distinct_tables d"
  by (simp only: distinct_tables_def locally_names)

lemma find_locally:
  assumes "keeps_name f"
  shows "find_table m (db_tables (locally n f d)) =
    (if m = n then map_option f (find_table n (db_tables d)) else find_table m (db_tables d))"
proof -
  have "find_table m (map (\<lambda>t. if table_name t = n then f t else t) ts) =
      (if m = n then map_option f (find_table n ts) else find_table m ts)" for ts
    using assms by (induction ts) (auto simp: keeps_name_def)
  then show ?thesis by (simp add: locally_def)
qed

lemma locally_locally [simp]:
  assumes "keeps_name f"
  shows "locally n g (locally n f d) = locally n (\<lambda>t. g (f t)) d"
  using assms by (auto simp: locally_def keeps_name_def)

lemma locally_fields [simp]:
  "db_roles (locally n f d) = db_roles d" "schema_usage (locally n f d) = schema_usage d"
  "transaction_time (locally n f d) = transaction_time d"
  by (simp_all add: locally_def)

section \<open>Row-level security\<close>

text \<open>The three operations that put a table under a policy of its own.\<close>

definition secured :: "policy \<Rightarrow> table \<Rightarrow> table" where
  "secured p t = t\<lparr>row_security := True, force_row_security := True, table_policies := table_policies t @ [p]\<rparr>"

definition granted :: "table \<Rightarrow> table" where
  "granted t = t\<lparr>app_privileges := True\<rparr>"

lemma secured_fields [simp]:
  "table_name (secured p t) = table_name t" "table_columns (secured p t) = table_columns t"
  "table_constraints (secured p t) = table_constraints t" "table_indexes (secured p t) = table_indexes t"
  "table_rows (secured p t) = table_rows t" "row_security (secured p t)" "force_row_security (secured p t)"
  "table_policies (secured p t) = table_policies t @ [p]" "app_privileges (secured p t) = app_privileges t"
  by (simp_all add: secured_def)

lemma granted_fields [simp]:
  "table_name (granted t) = table_name t" "table_columns (granted t) = table_columns t"
  "table_constraints (granted t) = table_constraints t" "table_indexes (granted t) = table_indexes t"
  "table_rows (granted t) = table_rows t" "row_security (granted t) = row_security t"
  "force_row_security (granted t) = force_row_security t"
  "table_policies (granted t) = table_policies t" "app_privileges (granted t)"
  by (simp_all add: granted_def)

text \<open>What depends on the columns, constraints and indexes alone.\<close>

lemma same_structure:
  assumes "table_constraints t = table_constraints u" "table_columns t = table_columns u"
  shows "table_keys t = table_keys u" "table_references t = table_references u"
    "typed_keys t = typed_keys u" "typed_references t = typed_references u"
    "has_columns t = has_columns u" "type_of_column t = type_of_column u"
proof -
  show types: "type_of_column t = type_of_column u" and "has_columns t = has_columns u"
    using assms by (simp_all add: has_columns_def type_of_column_def fun_eq_iff)
  show keys: "table_keys t = table_keys u" and refs: "table_references t = table_references u"
    using assms by (simp_all add: table_keys_def table_references_def)
  show "typed_keys t = typed_keys u" "typed_references t = typed_references u"
    by (simp_all add: typed_keys_def typed_references_def types keys refs)
qed

lemmas secured_structure [simp] =
  same_structure [OF secured_fields(3,2)] same_structure [OF granted_fields(3,2)]

lemma kept_relations [simp]:
  "relation_names (secured p t) = relation_names t" "relation_names (granted t) = relation_names t"
  by (simp_all add: relation_names_def)

lemma secure_table:
  assumes "find_table n (db_tables d) = Some t" "distinct_tables d" "policy_name p \<notin> policy_name ` set (table_policies t)"
  shows "migrate [Enable_row_security n, Force_row_security n, Create_policy (policy_name p) n (policy_using p) (policy_check p)] d
    = Inr (locally n (secured p) d)"
proof -
  let ?on = "\<lambda>t. t\<lparr>row_security := True\<rparr>" and ?force = "\<lambda>t. t\<lparr>force_row_security := True\<rparr>"
  have names: "keeps_name ?on" "keeps_name ?force" by (simp_all add: keeps_name_def)
  have on: "alter_table n (\<lambda>t. Inr (?on t)) d = Inr (locally n ?on d)"
    using assms by (simp add: alter_locally)
  let ?d = "locally n ?on d"
  have force: "alter_table n (\<lambda>t. Inr (?force t)) ?d = Inr (locally n ?force ?d)"
    using assms names by (simp add: alter_locally find_locally)
  let ?e = "locally n ?force ?d"
  have "perform (Create_policy (policy_name p) n (policy_using p) (policy_check p)) ?e
      = Inr (locally n (\<lambda>t. t\<lparr>table_policies := table_policies t @ [p]\<rparr>) ?e)"
    unfolding perform.simps create_policy_def
    by (rule alter_locally [where t = "t\<lparr>row_security := True, force_row_security := True\<rparr>"])
      (use assms in \<open>auto simp: find_locally keeps_name_def\<close>)
  then show ?thesis
    using names by (simp add: on force secured_def [abs_def] keeps_name_def)
qed

lemma secure_tables:
  assumes "distinct ns" "\<And>n. n \<in> set ns \<Longrightarrow> \<exists>t. find_table n (db_tables d) = Some t \<and> table_policies t = []"
    and "distinct_tables d"
  shows "migrate (concat (map (\<lambda>n. [Enable_row_security n, Force_row_security n,
      Create_policy (policy_name p) n (policy_using p) (policy_check p)]) ns)) d
    = Inr (d\<lparr>db_tables := map (\<lambda>t. if table_name t \<in> set ns then secured p t else t) (db_tables d)\<rparr>)"
  using assms
proof (induction ns arbitrary: d)
  case (Cons n ns)
  obtain t where t: "find_table n (db_tables d) = Some t" "table_policies t = []"
    using Cons.prems(2) by auto
  have name: "keeps_name (secured p)" by (simp add: keeps_name_def)
  have step: "migrate [Enable_row_security n, Force_row_security n,
      Create_policy (policy_name p) n (policy_using p) (policy_check p)] d = Inr (locally n (secured p) d)"
    by (rule secure_table) (use t Cons.prems in auto)
  have "migrate (concat (map (\<lambda>n. [Enable_row_security n, Force_row_security n,
      Create_policy (policy_name p) n (policy_using p) (policy_check p)]) ns)) (locally n (secured p) d)
    = Inr ((locally n (secured p) d)\<lparr>db_tables :=
        map (\<lambda>t. if table_name t \<in> set ns then secured p t else t) (db_tables (locally n (secured p) d))\<rparr>)"
    using Cons.prems name by (intro Cons.IH) (auto simp: find_locally)
  also have "\<dots> = Inr (d\<lparr>db_tables := map (\<lambda>t. if table_name t \<in> set (n # ns) then secured p t else t) (db_tables d)\<rparr>)"
    using Cons.prems(1) by (auto simp: locally_def)
  finally show ?case
    using migrate_appendI [OF step] by (simp del: migrate.simps)
qed simp

end
