(* ===== verification/BuiltTables.thy ===== *)
theory BuiltTables
  imports MigrationBlog SchemaRuns
begin

text \<open>
  The tables the migrations build, as the summaries that the runs need: names, keys, references,
  with the types of the columns involved. Every table is well formed, all relations have names of
  their own, and no table refers to one that is created later.
\<close>

lemmas group_defs =
  ddl_authentication_attempts_def ddl_school_directory_entries_def ddl_tenants_def
  ddl_users_def ddl_audit_events_def ddl_contact_requests_def ddl_exam_offerings_def
  ddl_honor_categories_def ddl_media_assets_def ddl_pricing_plans_def ddl_refresh_tokens_def
  ddl_registration_form_definitions_def ddl_tenant_addresses_def ddl_tenant_domains_def
  ddl_tenant_features_def ddl_tenant_memberships_def ddl_tenant_phones_def
  ddl_tenant_profiles_def ddl_tenant_social_links_def ddl_banners_def
  ddl_exam_pricing_plans_def ddl_gallery_albums_def ddl_honors_def ddl_posts_def
  ddl_registrations_def ddl_sample_exams_def ddl_staff_members_def ddl_gallery_items_def
  ddl_otp_challenges_def ddl_payment_transactions_def ddl_registration_contacts_def
  ddl_tenant_site_build_configs_def ddl_tenant_site_states_def ddl_post_media_references_def
  ddl_site_build_requests_def

lemma built_names [simp]:
  "table_name (built ddl_authentication_attempts) = ''authentication_attempts''"
  "table_name (built ddl_school_directory_entries) = ''school_directory_entries''"
  "table_name (built ddl_tenants) = ''tenants''"
  "table_name (built ddl_users) = ''users''"
  "table_name (built ddl_audit_events) = ''audit_events''"
  "table_name (built ddl_contact_requests) = ''contact_requests''"
  "table_name (built ddl_exam_offerings) = ''exam_offerings''"
  "table_name (built ddl_honor_categories) = ''honor_categories''"
  "table_name (built ddl_media_assets) = ''media_assets''"
  "table_name (built ddl_pricing_plans) = ''pricing_plans''"
  "table_name (built ddl_refresh_tokens) = ''refresh_tokens''"
  "table_name (built ddl_registration_form_definitions) = ''registration_form_definitions''"
  "table_name (built ddl_tenant_addresses) = ''tenant_addresses''"
  "table_name (built ddl_tenant_domains) = ''tenant_domains''"
  "table_name (built ddl_tenant_features) = ''tenant_features''"
  "table_name (built ddl_tenant_memberships) = ''tenant_memberships''"
  "table_name (built ddl_tenant_phones) = ''tenant_phones''"
  "table_name (built ddl_tenant_profiles) = ''tenant_profiles''"
  "table_name (built ddl_tenant_social_links) = ''tenant_social_links''"
  "table_name (built ddl_banners) = ''banners''"
  "table_name (built ddl_exam_pricing_plans) = ''exam_pricing_plans''"
  "table_name (built ddl_gallery_albums) = ''gallery_albums''"
  "table_name (built ddl_honors) = ''honors''"
  "table_name (built ddl_posts) = ''posts''"
  "table_name (built ddl_registrations) = ''registrations''"
  "table_name (built ddl_sample_exams) = ''sample_exams''"
  "table_name (built ddl_staff_members) = ''staff_members''"
  "table_name (built ddl_gallery_items) = ''gallery_items''"
  "table_name (built ddl_otp_challenges) = ''otp_challenges''"
  "table_name (built ddl_payment_transactions) = ''payment_transactions''"
  "table_name (built ddl_registration_contacts) = ''registration_contacts''"
  "table_name (built ddl_tenant_site_build_configs) = ''tenant_site_build_configs''"
  "table_name (built ddl_tenant_site_states) = ''tenant_site_states''"
  "table_name (built ddl_post_media_references) = ''post_media_references''"
  "table_name (built ddl_site_build_requests) = ''site_build_requests''"
  by (simp_all add: group_defs new_table_def)

lemma built_relations:
  "relation_names (built ddl_authentication_attempts) =
    [''authentication_attempts'', ''pk_authentication_attempts'',
     ''ix_auth_attempt_scope_created'']"
  "relation_names (built ddl_school_directory_entries) =
    [''school_directory_entries'', ''pk_school_directory_entries'']"
  "relation_names (built ddl_tenants) =
    [''tenants'', ''pk_tenants'', ''uq_tenants_slug'']"
  "relation_names (built ddl_users) =
    [''users'', ''pk_users'', ''uq_users_email'']"
  "relation_names (built ddl_audit_events) =
    [''audit_events'', ''pk_audit_events'', ''uq_audit_events_tenant_id_id'',
     ''ix_audit_events_tenant_created'', ''ix_audit_events_tenant_entity'']"
  "relation_names (built ddl_contact_requests) =
    [''contact_requests'', ''pk_contact_requests'', ''uq_contact_requests_tenant_id_id'',
     ''ix_contact_requests_tenant_status_created'', ''ix_contact_requests_tenant_ip_created'',
     ''ix_contact_requests_tenant_phone_created'']"
  "relation_names (built ddl_exam_offerings) =
    [''exam_offerings'', ''pk_exam_offerings'', ''uq_exam_offerings_tenant_id_id'',
     ''uq_exam_offerings_tenant_id_slug'', ''ix_exam_offerings_tenant_public'']"
  "relation_names (built ddl_honor_categories) =
    [''honor_categories'', ''pk_honor_categories'', ''uq_honor_categories_tenant_id_id'',
     ''uq_honor_categories_tenant_id_slug'']"
  "relation_names (built ddl_media_assets) =
    [''media_assets'', ''pk_media_assets'', ''uq_media_assets_tenant_id_id'',
     ''uq_media_assets_tenant_id_object_key'', ''ix_media_assets_tenant_created'']"
  "relation_names (built ddl_pricing_plans) =
    [''pricing_plans'', ''pk_pricing_plans'', ''uq_pricing_plans_tenant_id_id'',
     ''uq_pricing_plans_tenant_id_slug'', ''ix_pricing_plans_tenant_public'']"
  "relation_names (built ddl_refresh_tokens) =
    [''refresh_tokens'', ''pk_refresh_tokens'', ''uq_refresh_tokens_token_hash'',
     ''ix_refresh_tokens_user_active'']"
  "relation_names (built ddl_registration_form_definitions) =
    [''registration_form_definitions'', ''pk_registration_form_definitions'',
     ''uq_registration_form_definitions_tenant_id_id'',
     ''uq_registration_form_definitions_tenant_id_version'']"
  "relation_names (built ddl_tenant_addresses) =
    [''tenant_addresses'', ''pk_tenant_addresses'', ''uq_tenant_addresses_tenant_id_id'']"
  "relation_names (built ddl_tenant_domains) =
    [''tenant_domains'', ''pk_tenant_domains'', ''uq_tenant_domains_hostname'',
     ''ix_tenant_domains_tenant_id'']"
  "relation_names (built ddl_tenant_features) =
    [''tenant_features'', ''pk_tenant_features'', ''uq_tenant_features_tenant_id_feature_key'',
     ''ix_tenant_features_tenant_enabled'']"
  "relation_names (built ddl_tenant_memberships) =
    [''tenant_memberships'', ''pk_tenant_memberships'',
     ''uq_tenant_memberships_tenant_id_user_id'', ''ix_tenant_memberships_tenant_role'']"
  "relation_names (built ddl_tenant_phones) =
    [''tenant_phones'', ''pk_tenant_phones'', ''uq_tenant_phones_tenant_id_id'']"
  "relation_names (built ddl_tenant_profiles) =
    [''tenant_profiles'', ''pk_tenant_profiles'', ''uq_tenant_profiles_tenant_id_id'',
     ''uq_tenant_profiles_tenant_id'']"
  "relation_names (built ddl_tenant_social_links) =
    [''tenant_social_links'', ''pk_tenant_social_links'',
     ''uq_tenant_social_links_tenant_id_id'']"
  "relation_names (built ddl_banners) =
    [''banners'', ''pk_banners'', ''uq_banners_tenant_id_id'', ''ix_banners_tenant_public'']"
  "relation_names (built ddl_exam_pricing_plans) =
    [''exam_pricing_plans'', ''pk_exam_pricing_plans'']"
  "relation_names (built ddl_gallery_albums) =
    [''gallery_albums'', ''pk_gallery_albums'', ''uq_gallery_albums_tenant_id_id'',
     ''uq_gallery_albums_tenant_id_slug'', ''ix_gallery_albums_tenant_public'']"
  "relation_names (built ddl_honors) =
    [''honors'', ''pk_honors'', ''uq_honors_tenant_id_id'', ''ix_honors_tenant_public'']"
  "relation_names (built ddl_posts) =
    [''posts'', ''pk_posts'', ''uq_posts_tenant_id_id'', ''uq_posts_tenant_id_kind_slug'',
     ''ix_posts_tenant_kind_public'']"
  "relation_names (built ddl_registrations) =
    [''registrations'', ''pk_registrations'',
     ''uq_registrations_tenant_id_exam_offering_id_national_code'',
     ''uq_registrations_tenant_id_id'', ''ix_registrations_tenant_phone'',
     ''ix_registrations_tenant_status_created'']"
  "relation_names (built ddl_sample_exams) =
    [''sample_exams'', ''pk_sample_exams'', ''uq_sample_exams_tenant_id_id'',
     ''ix_sample_exams_tenant_public'']"
  "relation_names (built ddl_staff_members) =
    [''staff_members'', ''pk_staff_members'', ''uq_staff_members_tenant_id_id'',
     ''ix_staff_members_tenant_active'']"
  "relation_names (built ddl_gallery_items) =
    [''gallery_items'', ''pk_gallery_items'', ''uq_gallery_items_tenant_id_id'',
     ''ix_gallery_items_tenant_album_order'']"
  "relation_names (built ddl_otp_challenges) =
    [''otp_challenges'', ''pk_otp_challenges'', ''uq_otp_challenges_tenant_id_id'',
     ''ix_otp_challenges_ip_created'', ''ix_otp_challenges_tenant_phone_created'',
     ''ix_otp_challenges_tenant_registration_created'']"
  "relation_names (built ddl_payment_transactions) =
    [''payment_transactions'', ''pk_payment_transactions'',
     ''uq_payment_transactions_provider_provider_transaction_id'',
     ''uq_payment_transactions_tenant_id_id'',
     ''uq_payment_transactions_tenant_id_idempotency_key'',
     ''ix_payment_transactions_tenant_registration'',
     ''ix_payment_transactions_tenant_status_created'',
     ''uq_payment_transactions_active_registration'']"
  "relation_names (built ddl_registration_contacts) =
    [''registration_contacts'', ''pk_registration_contacts'',
     ''uq_registration_contacts_tenant_id_id'',
     ''uq_registration_contacts_tenant_id_registration_id_position'',
     ''ix_registration_contacts_tenant_registration'']"
  "relation_names (built ddl_tenant_site_build_configs) =
    [''tenant_site_build_configs'', ''pk_tenant_site_build_configs'']"
  "relation_names (built ddl_tenant_site_states) =
    [''tenant_site_states'', ''pk_tenant_site_states'']"
  "relation_names (built ddl_post_media_references) =
    [''post_media_references'', ''pk_post_media_references'',
     ''uq_post_media_references_tenant_id_id'',
     ''uq_post_media_references_tenant_id_post_id_media_id'',
     ''ix_post_media_references_tenant_media'', ''ix_post_media_references_tenant_post'']"
  "relation_names (built ddl_site_build_requests) =
    [''site_build_requests'', ''pk_site_build_requests'',
     ''uq_site_build_requests_tenant_id_id'', ''ix_site_build_requests_poll'',
     ''ix_site_build_requests_tenant_status_requested'',
     ''uq_site_build_requests_one_pending_per_tenant'',
     ''uq_site_build_requests_one_running_per_tenant'']"
  by (simp_all add: group_defs new_table_def relation_names_def)

lemma built_references:
  "typed_references (built ddl_authentication_attempts) =
    []"
  "typed_references (built ddl_school_directory_entries) =
    []"
  "typed_references (built ddl_tenants) =
    []"
  "typed_references (built ddl_users) =
    []"
  "typed_references (built ddl_audit_events) =
    [(''users'', [''id''], [Some UuidType]), (''tenants'', [''id''], [Some UuidType])]"
  "typed_references (built ddl_contact_requests) =
    [(''users'', [''id''], [Some UuidType]), (''tenants'', [''id''], [Some UuidType])]"
  "typed_references (built ddl_exam_offerings) =
    [(''tenants'', [''id''], [Some UuidType])]"
  "typed_references (built ddl_honor_categories) =
    [(''tenants'', [''id''], [Some UuidType])]"
  "typed_references (built ddl_media_assets) =
    [(''tenants'', [''id''], [Some UuidType])]"
  "typed_references (built ddl_pricing_plans) =
    [(''tenants'', [''id''], [Some UuidType])]"
  "typed_references (built ddl_refresh_tokens) =
    [(''refresh_tokens'', [''id''], [Some UuidType]), (''tenants'', [''id''], [Some UuidType]),
      (''users'', [''id''], [Some UuidType])]"
  "typed_references (built ddl_registration_form_definitions) =
    [(''tenants'', [''id''], [Some UuidType])]"
  "typed_references (built ddl_tenant_addresses) =
    [(''tenants'', [''id''], [Some UuidType])]"
  "typed_references (built ddl_tenant_domains) =
    [(''tenants'', [''id''], [Some UuidType])]"
  "typed_references (built ddl_tenant_features) =
    [(''tenants'', [''id''], [Some UuidType])]"
  "typed_references (built ddl_tenant_memberships) =
    [(''tenants'', [''id''], [Some UuidType]), (''users'', [''id''], [Some UuidType])]"
  "typed_references (built ddl_tenant_phones) =
    [(''tenants'', [''id''], [Some UuidType])]"
  "typed_references (built ddl_tenant_profiles) =
    [(''tenants'', [''id''], [Some UuidType])]"
  "typed_references (built ddl_tenant_social_links) =
    [(''tenants'', [''id''], [Some UuidType])]"
  "typed_references (built ddl_banners) =
    [(''media_assets'', [''tenant_id'', ''id''], [Some UuidType, Some UuidType]), (''tenants'',
      [''id''], [Some UuidType])]"
  "typed_references (built ddl_exam_pricing_plans) =
    [(''exam_offerings'', [''tenant_id'', ''id''], [Some UuidType, Some UuidType]),
      (''pricing_plans'', [''tenant_id'', ''id''], [Some UuidType, Some UuidType]), (''tenants'',
        [''id''], [Some UuidType])]"
  "typed_references (built ddl_gallery_albums) =
    [(''media_assets'', [''tenant_id'', ''id''], [Some UuidType, Some UuidType]), (''tenants'',
      [''id''], [Some UuidType])]"
  "typed_references (built ddl_honors) =
    [(''honor_categories'', [''tenant_id'', ''id''], [Some UuidType, Some UuidType]),
      (''media_assets'', [''tenant_id'', ''id''], [Some UuidType, Some UuidType]), (''tenants'',
        [''id''], [Some UuidType])]"
  "typed_references (built ddl_posts) =
    [(''media_assets'', [''tenant_id'', ''id''], [Some UuidType, Some UuidType]), (''tenants'',
      [''id''], [Some UuidType])]"
  "typed_references (built ddl_registrations) =
    [(''school_directory_entries'', [''id''], [Some UuidType]), (''school_directory_entries'',
      [''id''], [Some UuidType]), (''exam_offerings'', [''tenant_id'', ''id''], [Some UuidType,
        Some UuidType]), (''registration_form_definitions'', [''tenant_id'', ''id''],
          [Some UuidType, Some UuidType]), (''media_assets'', [''tenant_id'', ''id''],
            [Some UuidType, Some UuidType]), (''pricing_plans'', [''tenant_id'', ''id''],
              [Some UuidType, Some UuidType]), (''tenants'', [''id''], [Some UuidType])]"
  "typed_references (built ddl_sample_exams) =
    [(''media_assets'', [''tenant_id'', ''id''], [Some UuidType, Some UuidType]),
      (''media_assets'', [''tenant_id'', ''id''], [Some UuidType, Some UuidType]), (''tenants'',
        [''id''], [Some UuidType])]"
  "typed_references (built ddl_staff_members) =
    [(''media_assets'', [''tenant_id'', ''id''], [Some UuidType, Some UuidType]), (''tenants'',
      [''id''], [Some UuidType])]"
  "typed_references (built ddl_gallery_items) =
    [(''gallery_albums'', [''tenant_id'', ''id''], [Some UuidType, Some UuidType]),
      (''media_assets'', [''tenant_id'', ''id''], [Some UuidType, Some UuidType]), (''tenants'',
        [''id''], [Some UuidType])]"
  "typed_references (built ddl_otp_challenges) =
    [(''registrations'', [''tenant_id'', ''id''], [Some UuidType, Some UuidType]), (''tenants'',
      [''id''], [Some UuidType])]"
  "typed_references (built ddl_payment_transactions) =
    [(''registrations'', [''tenant_id'', ''id''], [Some UuidType, Some UuidType]), (''tenants'',
      [''id''], [Some UuidType])]"
  "typed_references (built ddl_registration_contacts) =
    [(''registrations'', [''tenant_id'', ''id''], [Some UuidType, Some UuidType]), (''tenants'',
      [''id''], [Some UuidType])]"
  "typed_references (built ddl_tenant_site_build_configs) =
    [(''tenants'', [''id''], [Some UuidType])]"
  "typed_references (built ddl_tenant_site_states) =
    [(''tenants'', [''id''], [Some UuidType])]"
  "typed_references (built ddl_post_media_references) =
    [(''media_assets'', [''tenant_id'', ''id''], [Some UuidType, Some UuidType]), (''posts'',
      [''tenant_id'', ''id''], [Some UuidType, Some UuidType]), (''tenants'', [''id''],
        [Some UuidType])]"
  "typed_references (built ddl_site_build_requests) =
    [(''users'', [''id''], [Some UuidType]), (''tenants'', [''id''], [Some UuidType])]"
  by (simp_all add: group_defs new_table_def typed_references_def table_references_def
    type_of_column_def)

lemma built_keys:
  "typed_keys (built ddl_school_directory_entries) =
    [([''id''], [Some UuidType])]"
  "typed_keys (built ddl_tenants) =
    [([''id''], [Some UuidType]), ([''slug''], [Some (VarChar 100)])]"
  "typed_keys (built ddl_users) =
    [([''id''], [Some UuidType]), ([''email''], [Some (VarChar 320)])]"
  "typed_keys (built ddl_exam_offerings) =
    [([''id''], [Some UuidType]), ([''tenant_id'', ''id''], [Some UuidType, Some UuidType]),
      ([''tenant_id'', ''slug''], [Some UuidType, Some (VarChar 200)])]"
  "typed_keys (built ddl_honor_categories) =
    [([''id''], [Some UuidType]), ([''tenant_id'', ''id''], [Some UuidType, Some UuidType]),
      ([''tenant_id'', ''slug''], [Some UuidType, Some (VarChar 150)])]"
  "typed_keys (built ddl_media_assets) =
    [([''id''], [Some UuidType]), ([''tenant_id'', ''id''], [Some UuidType, Some UuidType]),
      ([''tenant_id'', ''object_key''], [Some UuidType, Some TextType])]"
  "typed_keys (built ddl_pricing_plans) =
    [([''id''], [Some UuidType]), ([''tenant_id'', ''id''], [Some UuidType, Some UuidType]),
      ([''tenant_id'', ''slug''], [Some UuidType, Some (VarChar 200)])]"
  "typed_keys (built ddl_refresh_tokens) =
    [([''id''], [Some UuidType]), ([''token_hash''], [Some (VarChar 64)])]"
  "typed_keys (built ddl_registration_form_definitions) =
    [([''id''], [Some UuidType]), ([''tenant_id'', ''id''], [Some UuidType, Some UuidType]),
      ([''tenant_id'', ''version''], [Some UuidType, Some IntegerType])]"
  "typed_keys (built ddl_gallery_albums) =
    [([''id''], [Some UuidType]), ([''tenant_id'', ''id''], [Some UuidType, Some UuidType]),
      ([''tenant_id'', ''slug''], [Some UuidType, Some (VarChar 200)])]"
  "typed_keys (built ddl_posts) =
    [([''id''], [Some UuidType]), ([''tenant_id'', ''id''], [Some UuidType, Some UuidType]),
      ([''tenant_id'', ''kind'', ''slug''], [Some UuidType, Some (VarChar 16),
        Some (VarChar 200)])]"
  "typed_keys (built ddl_registrations) =
    [([''id''], [Some UuidType]), ([''tenant_id'', ''exam_offering_id'', ''national_code''],
      [Some UuidType, Some UuidType, Some (VarChar 10)]), ([''tenant_id'', ''id''],
        [Some UuidType, Some UuidType])]"
  by (simp_all add: group_defs new_table_def typed_keys_def table_keys_def type_of_column_def)

lemma built_indexes:
  "map index_name (table_indexes (built ddl_authentication_attempts)) =
    [''ix_auth_attempt_scope_created'']"
  "map index_name (table_indexes (built ddl_school_directory_entries)) = []"
  "map index_name (table_indexes (built ddl_tenants)) = []"
  "map index_name (table_indexes (built ddl_users)) = []"
  "map index_name (table_indexes (built ddl_audit_events)) = [''ix_audit_events_tenant_created'',
    ''ix_audit_events_tenant_entity'']"
  "map index_name (table_indexes (built ddl_contact_requests)) =
    [''ix_contact_requests_tenant_status_created'', ''ix_contact_requests_tenant_ip_created'',
      ''ix_contact_requests_tenant_phone_created'']"
  "map index_name (table_indexes (built ddl_exam_offerings)) =
    [''ix_exam_offerings_tenant_public'']"
  "map index_name (table_indexes (built ddl_honor_categories)) = []"
  "map index_name (table_indexes (built ddl_media_assets)) = [''ix_media_assets_tenant_created'']"
  "map index_name (table_indexes (built ddl_pricing_plans)) =
    [''ix_pricing_plans_tenant_public'']"
  "map index_name (table_indexes (built ddl_refresh_tokens)) =
    [''ix_refresh_tokens_user_active'']"
  "map index_name (table_indexes (built ddl_registration_form_definitions)) = []"
  "map index_name (table_indexes (built ddl_tenant_addresses)) = []"
  "map index_name (table_indexes (built ddl_tenant_domains)) = [''ix_tenant_domains_tenant_id'']"
  "map index_name (table_indexes (built ddl_tenant_features)) =
    [''ix_tenant_features_tenant_enabled'']"
  "map index_name (table_indexes (built ddl_tenant_memberships)) =
    [''ix_tenant_memberships_tenant_role'']"
  "map index_name (table_indexes (built ddl_tenant_phones)) = []"
  "map index_name (table_indexes (built ddl_tenant_profiles)) = []"
  "map index_name (table_indexes (built ddl_tenant_social_links)) = []"
  "map index_name (table_indexes (built ddl_banners)) = [''ix_banners_tenant_public'']"
  "map index_name (table_indexes (built ddl_exam_pricing_plans)) = []"
  "map index_name (table_indexes (built ddl_gallery_albums)) =
    [''ix_gallery_albums_tenant_public'']"
  "map index_name (table_indexes (built ddl_honors)) = [''ix_honors_tenant_public'']"
  "map index_name (table_indexes (built ddl_posts)) = [''ix_posts_tenant_kind_public'']"
  "map index_name (table_indexes (built ddl_registrations)) = [''ix_registrations_tenant_phone'',
    ''ix_registrations_tenant_status_created'']"
  "map index_name (table_indexes (built ddl_sample_exams)) = [''ix_sample_exams_tenant_public'']"
  "map index_name (table_indexes (built ddl_staff_members)) =
    [''ix_staff_members_tenant_active'']"
  "map index_name (table_indexes (built ddl_gallery_items)) =
    [''ix_gallery_items_tenant_album_order'']"
  "map index_name (table_indexes (built ddl_otp_challenges)) = [''ix_otp_challenges_ip_created'',
    ''ix_otp_challenges_tenant_phone_created'',
      ''ix_otp_challenges_tenant_registration_created'']"
  "map index_name (table_indexes (built ddl_payment_transactions)) =
    [''ix_payment_transactions_tenant_registration'',
      ''ix_payment_transactions_tenant_status_created'',
        ''uq_payment_transactions_active_registration'']"
  "map index_name (table_indexes (built ddl_registration_contacts)) =
    [''ix_registration_contacts_tenant_registration'']"
  "map index_name (table_indexes (built ddl_tenant_site_build_configs)) = []"
  "map index_name (table_indexes (built ddl_tenant_site_states)) = []"
  "map index_name (table_indexes (built ddl_post_media_references)) =
    [''ix_post_media_references_tenant_media'', ''ix_post_media_references_tenant_post'']"
  "map index_name (table_indexes (built ddl_site_build_requests)) =
    [''ix_site_build_requests_poll'', ''ix_site_build_requests_tenant_status_requested'',
      ''uq_site_build_requests_one_pending_per_tenant'',
        ''uq_site_build_requests_one_running_per_tenant'']"
  by (simp_all add: group_defs new_table_def)

lemma built_well_formed:
  "list_all well_formed (map built (create_initial_tables @ create_build_tables))"
  by (simp add: create_initial_tables_def create_build_tables_def group_defs well_formed_def
      has_columns_def new_table_def)

lemma built_groups: "list_all is_group (create_initial_tables @ create_build_tables)"
  by (simp add: create_initial_tables_def create_build_tables_def group_defs)

lemma built_distinct:
  "distinct (concat (map relation_names (map built (create_initial_tables @
    create_build_tables))))"
  by (simp add: create_initial_tables_def create_build_tables_def built_relations)

lemma initial_references: "references_ordered [] (map built create_initial_tables)"
  by (simp add: create_initial_tables_def built_references built_keys reference_found_def)

end
