(* ===== verification/MigratedSchema.thy ===== *)
theory MigratedSchema
  imports BuiltTables
begin

text \<open>
  The three migrations, run: what the database is after each of them, starting from any set of
  roles and with any rows in \<open>posts\<close> when the second one finds it.
\<close>

section \<open>Adding columns and foreign keys\<close>

definition fill :: "instant \<Rightarrow> column list \<Rightarrow> table_row \<Rightarrow> table_row" where
  "fill now cs r = fold (\<lambda>c r. r(column_name c := default_cell now (column_default c))) cs r"

definition with_columns :: "instant \<Rightarrow> column list \<Rightarrow> table \<Rightarrow> table" where
  "with_columns now cs t =
     t\<lparr>table_columns := table_columns t @ cs, table_rows := map (fill now cs) (table_rows t)\<rparr>"

lemma with_columns_fields [simp]:
  "table_name (with_columns now cs t) = table_name t" "table_columns (with_columns now cs t) = table_columns t @ cs"
  "table_constraints (with_columns now cs t) = table_constraints t"
  "table_indexes (with_columns now cs t) = table_indexes t"
  "table_rows (with_columns now cs t) = map (fill now cs) (table_rows t)"
  "row_security (with_columns now cs t) = row_security t"
  "force_row_security (with_columns now cs t) = force_row_security t"
  "table_policies (with_columns now cs t) = table_policies t"
  "app_privileges (with_columns now cs t) = app_privileges t"
  by (simp_all add: with_columns_def)

lemma fill_simps [simp]:
  "fill now [] = id"
  "fill now (c # cs) r = fill now cs (r(column_name c := default_cell now (column_default c)))"
  by (simp_all add: fill_def fun_eq_iff)

lemma with_columns_Nil: "with_columns now [] t = t"
  by (simp add: with_columns_def)

lemma with_columns_Cons: "with_columns now (c # cs) t = with_columns now cs (with_columns now [c] t)"
  by (simp add: with_columns_def)

lemma keeps_name_with_columns [simp]: "keeps_name (with_columns now cs)"
  by (simp add: keeps_name_def)

lemma add_columns:
  assumes "distinct_tables d" "find_table n (db_tables d) = Some t"
    and "distinct (map column_name (table_columns t @ cs))"
    and "\<And>c. c \<in> set cs \<Longrightarrow> is_nullable c \<or> column_default c \<noteq> None"
  shows "migrate (map (Add_column n) cs) d = Inr (locally n (with_columns (transaction_time d) cs) d)"
  using assms
proof (induction cs arbitrary: d t)
  case Nil
  then show ?case by (simp add: with_columns_def locally_def map_idI)
next
  case (Cons c cs)
  let ?now = "transaction_time d" and ?d = "locally n (with_columns (transaction_time d) [c]) d"
  have "perform (Add_column n c) d = Inr ?d"
    unfolding perform.simps add_column_def
    by (rule alter_locally [where t = t]) (use Cons.prems in \<open>auto simp: with_columns_def\<close>)
  moreover have "migrate (map (Add_column n) cs) ?d = Inr (locally n (with_columns (transaction_time ?d) cs) ?d)"
    by (rule Cons.IH [where t = "with_columns ?now [c] t"]) (use Cons.prems in \<open>auto simp: find_locally\<close>)
  moreover have "locally n (with_columns ?now (c # cs)) d = locally n (with_columns ?now cs) ?d"
    by (simp add: with_columns_Cons [of _ c cs, abs_def])
  ultimately show ?case by simp
qed

text \<open>Foreign keys whose columns hold no value yet.\<close>

definition with_references :: "(string \<times> string \<times> string list \<times> string list) list \<Rightarrow> table \<Rightarrow> table" where
  "with_references fs t =
     t\<lparr>table_constraints := table_constraints t @ map (\<lambda>(n, u, cs, rs). ForeignKeyConstraint n cs u rs None) fs\<rparr>"

lemma with_references_fields [simp]:
  "table_name (with_references fs t) = table_name t" "table_columns (with_references fs t) = table_columns t"
  "table_constraints (with_references fs t) =
     table_constraints t @ map (\<lambda>(n, u, cs, rs). ForeignKeyConstraint n cs u rs None) fs"
  "table_indexes (with_references fs t) = table_indexes t" "table_rows (with_references fs t) = table_rows t"
  "row_security (with_references fs t) = row_security t"
  "force_row_security (with_references fs t) = force_row_security t"
  "table_policies (with_references fs t) = table_policies t"
  "app_privileges (with_references fs t) = app_privileges t"
  by (simp_all add: with_references_def)

lemma keeps_name_with_references [simp]: "keeps_name (with_references fs)"
  by (simp add: keeps_name_def)

lemma with_references_Cons: "with_references (f # fs) t = with_references fs (with_references [f] t)"
  by (simp add: with_references_def)

lemma type_of_column_with_references [simp]: "type_of_column (with_references fs t) = type_of_column t"
  by (simp add: type_of_column_def fun_eq_iff)

lemma table_keys_with_references [simp]: "table_keys (with_references fs t) = table_keys t"
  by (auto simp: table_keys_def)

lemma typed_keys_with_references [simp]: "typed_keys (with_references fs t) = typed_keys t"
  by (simp add: typed_keys_def)

lemma has_columns_with_references [simp]: "has_columns (with_references fs t) = has_columns t"
  by (simp add: has_columns_def fun_eq_iff)

definition reference_types :: "table \<Rightarrow> string \<times> string \<times> string list \<times> string list \<Rightarrow> string \<times> string list \<times> sql_type option list" where
  "reference_types t = (\<lambda>(n, u, cs, rs). (u, rs, map (type_of_column t) cs))"

lemma add_references:
  assumes "distinct_tables d" "find_table t (db_tables d) = Some p"
    and "distinct (map constraint_name (table_constraints p) @ map fst fs)"
    and "\<And>f. f \<in> set fs \<Longrightarrow> (case f of (n, u, cs, rs) \<Rightarrow>
          u \<noteq> t \<and> has_columns p cs \<and> (\<exists>c\<in>set cs. \<forall>r\<in>set (table_rows p). r c = Null))"
    and "list_all (reference_found (db_tables d)) (map (reference_types p) fs)"
  shows "migrate (map (\<lambda>(n, u, cs, rs). Create_foreign_key n t u cs rs) fs) d = Inr (locally t (with_references fs) d)"
  using assms
proof (induction fs arbitrary: d p)
  case Nil
  then show ?case by (simp add: with_references_def locally_def map_idI)
next
  case (Cons f fs)
  obtain n u cs rs where f: "f = (n, u, cs, rs)" by (cases f)
  let ?d = "locally t (with_references [f]) d"
  have ok: "reference_ok (db_tables d) p (cs, u, rs)" and "find_table u (db_tables d) \<noteq> None"
    using Cons.prems(5)
    by (auto simp: f reference_types_def reference_found_def reference_ok_def typed_keys_def split: option.splits)
  then obtain target where target: "find_table u (db_tables d) = Some target" by auto
  have rows: "list_all (row_refers cs rs (table_rows target)) (table_rows p)"
    using Cons.prems(4) [of f] by (fastforce simp: f row_refers_def list_ex_iff list_all_iff)
  have "perform (Create_foreign_key n t u cs rs) d = Inr ?d"
    unfolding perform.simps create_foreign_key_def target option.case
    by (rule alter_locally [where t = p])
      (use Cons.prems(1-3) Cons.prems(4) [of f] ok rows in \<open>auto simp: f with_references_def\<close>)
  moreover have "migrate (map (\<lambda>(n, u, cs, rs). Create_foreign_key n t u cs rs) fs) ?d
      = Inr (locally t (with_references fs) ?d)"
  proof (rule Cons.IH [where p = "with_references [f] p"])
    show "\<And>g. g \<in> set fs \<Longrightarrow> case g of (n, u, cs, rs) \<Rightarrow>
        u \<noteq> t \<and> has_columns (with_references [f] p) cs
        \<and> (\<exists>c\<in>set cs. \<forall>r\<in>set (table_rows (with_references [f] p)). r c = Null)"
      using Cons.prems(4) by simp
    have "reference_found (db_tables ?d) (reference_types (with_references [f] p) g)
        = reference_found (db_tables d) (reference_types p g)" if "g \<in> set fs" for g
      using Cons.prems(4) [of g] that
      by (auto simp: reference_found_def reference_types_def find_locally split: prod.splits)
    then show "list_all (reference_found (db_tables ?d)) (map (reference_types (with_references [f] p)) fs)"
      using Cons.prems(5) by (auto simp: list_all_iff)
  qed (use Cons.prems f in \<open>auto simp: find_locally\<close>)
  ultimately show ?case
    by (simp add: f with_references_Cons [of "(n, u, cs, rs)" fs])
qed

lemma key_columns: "k \<in> set (key_of x) \<Longrightarrow> c \<in> set k \<Longrightarrow> c \<in> set (constraint_columns x)"
  by (cases x) auto

lemma typed_keys_with_columns:
  assumes "well_formed t" shows "typed_keys (with_columns now cs t) = typed_keys t"
proof -
  have type: "type_of_column (with_columns now cs t) c = type_of_column t c"
    if "c \<in> column_name ` set (table_columns t)" for c
    using that by (auto simp: type_of_column_def map_of_append map_add_def split: option.splits)
      (auto simp: map_of_eq_None_iff image_iff)
  have "c \<in> column_name ` set (table_columns t)" if key: "k \<in> set (table_keys t)" and col: "c \<in> set k" for k c
  proof -
    obtain x where "x \<in> set (table_constraints t)" "k \<in> set (key_of x)"
      using key by (auto simp: table_keys_def)
    then show ?thesis
      using assms col key_columns by (fastforce simp: well_formed_def has_columns_def list_all_iff)
  qed
  then show ?thesis
    by (auto simp: typed_keys_def table_keys_def type)
qed


section \<open>The initial migration\<close>

definition isolation_policy :: policy where
  "isolation_policy = Policy ''tenant_isolation'' tenant_predicate tenant_predicate"

lemma tenant_rls_secures:
  "tenant_rls = (\<lambda>n. [Enable_row_security n, Force_row_security n,
     Create_policy (policy_name isolation_policy) n (policy_using isolation_policy) (policy_check isolation_policy)])"
  by (simp add: fun_eq_iff tenant_rls_def isolation_policy_def)

lemma built_fresh:
  assumes "is_group g"
  shows "table_policies (built g) = []" "table_rows (built g) = []"
  using assms by (cases g rule: built.cases; simp add: new_table_def)+

definition initial_table :: "table \<Rightarrow> table" where
  "initial_table t = granted (if table_name t \<in> set tenant_tables then secured isolation_policy t else t)"

definition initial_tables :: "table list" where
  "initial_tables = map initial_table (map built create_initial_tables)"

definition initial_schema :: "role list \<Rightarrow> instant \<Rightarrow> database" where
  "initial_schema roles now =
     (empty_database roles now)\<lparr>db_tables := initial_tables, schema_usage := True\<rparr>"

lemma initial_table_name [simp]: "table_name (initial_table t) = table_name t"
  by (simp add: initial_table_def)

lemma initial_table_typed_keys [simp]: "typed_keys (initial_table t) = typed_keys t"
  by (simp add: initial_table_def)

lemma initial_names_distinct: "distinct (map table_name (map built create_initial_tables))"
  by (simp add: create_initial_tables_def)

lemma tenant_tables_built: "n \<in> set tenant_tables \<Longrightarrow> n \<in> table_name ` set (map built create_initial_tables)"
  by (auto simp: tenant_tables_def create_initial_tables_def)

lemma distinct_tenant_tables: "distinct tenant_tables"
  by (simp add: tenant_tables_def)

lemma run_create_initial:
  assumes "db_tables d = []"
  shows "migrate (concat create_initial_tables) d = Inr (d\<lparr>db_tables := map built create_initial_tables\<rparr>)"
  using create_groups [of create_initial_tables d] built_groups built_well_formed built_distinct
    initial_references assms
  by (simp add: all_relations_def)

lemma run_secure_initial:
  assumes "db_tables d = map built create_initial_tables"
  shows "migrate (concat (map tenant_rls tenant_tables)) d
    = Inr (d\<lparr>db_tables := map (\<lambda>t. if table_name t \<in> set tenant_tables then secured isolation_policy t else t)
        (map built create_initial_tables)\<rparr>)"
proof -
  have "distinct_tables d"
    using initial_names_distinct by (simp add: distinct_tables_def assms)
  moreover have "\<exists>t. find_table n (db_tables d) = Some t \<and> table_policies t = []" if n: "n \<in> set tenant_tables" for n
  proof -
    obtain t where t: "find_table n (db_tables d) = Some t"
      using find_table_None [of n "db_tables d"] tenant_tables_built [OF n] by (auto simp: assms)
    then have "t \<in> built ` set create_initial_tables" using find_table_Some [of n "db_tables d"] by (auto simp: assms)
    then show ?thesis
      using t built_fresh(1) built_groups by (auto simp: list_all_iff)
  qed
  ultimately show ?thesis
    unfolding tenant_rls_secures using assms distinct_tenant_tables
    by (subst secure_tables [where p = isolation_policy]) auto
qed

theorem run_initial:
  "migrate upgrade_bfd7cd1209eb (empty_database roles now) =
     (case require_application_role (empty_database roles now) of
        Inl e \<Rightarrow> Inl e
      | Inr _ \<Rightarrow> Inr (initial_schema roles now))"
proof (cases "require_application_role (empty_database roles now)")
  case (Inr d)
  then have d: "d = empty_database roles now"
    by (auto simp: require_application_role_def Let_def split: if_splits)
  let ?d = "empty_database roles now"
  have "migrate (concat create_initial_tables @ concat (map tenant_rls tenant_tables)
      @ [Grant_schema_usage, Grant_all_tables]) ?d = Inr (initial_schema roles now)"
    by (simp add: migrate_append run_create_initial run_secure_initial empty_database_def
        initial_schema_def initial_tables_def initial_table_def granted_def comp_def)
  with Inr d show ?thesis by (simp add: upgrade_bfd7cd1209eb_def)
qed (simp add: upgrade_bfd7cd1209eb_def)


section \<open>The migration of the blog\<close>

text \<open>The database as the second migration finds it: any rows in \<open>posts\<close>.\<close>

definition with_posts :: "table_row list \<Rightarrow> database \<Rightarrow> database" where
  "with_posts rows = locally ''posts'' (\<lambda>t. t\<lparr>table_rows := rows\<rparr>)"

definition post_columns :: "column list" where
  "post_columns =
     [Column ''content_document'' JsonbType False (Some empty_document_default),
      Column ''rendered_html'' TextType True None,
      Column ''og_image_id'' UuidType True None,
      Column ''seo_title'' (VarChar 300) True None,
      Column ''seo_description'' (VarChar 500) True None,
      Column ''created_by'' UuidType True None,
      Column ''updated_by'' UuidType True None]"

definition post_references :: "(string \<times> string \<times> string list \<times> string list) list" where
  "post_references =
     [(''fk_posts_created_by_users'', ''users'', [''created_by''], [''id'']),
      (''fk_posts_updated_by_users'', ''users'', [''updated_by''], [''id'']),
      (''fk_posts_tenant_id_og_image_id_media_assets'', ''media_assets'',
        [''tenant_id'', ''og_image_id''], [''tenant_id'', ''id''])]"

lemma add_post_columns_folds: "add_post_columns = map (Add_column ''posts'') post_columns"
  by (simp add: add_post_columns_def post_columns_def)

lemma add_post_references_folds:
  "add_post_references = map (\<lambda>(n, u, cs, rs). Create_foreign_key n ''posts'' u cs rs) post_references"
  by (simp add: add_post_references_def post_references_def)

definition with_backfill :: "table \<Rightarrow> table" where
  "with_backfill t = t\<lparr>table_rows := map backfill_post (table_rows t)\<rparr>"

lemma with_backfill_fields [simp]:
  "table_name (with_backfill t) = table_name t" "table_columns (with_backfill t) = table_columns t"
  "table_constraints (with_backfill t) = table_constraints t" "table_indexes (with_backfill t) = table_indexes t"
  "table_rows (with_backfill t) = map backfill_post (table_rows t)" "row_security (with_backfill t) = row_security t"
  "force_row_security (with_backfill t) = force_row_security t"
  "table_policies (with_backfill t) = table_policies t" "app_privileges (with_backfill t) = app_privileges t"
  by (simp_all add: with_backfill_def)

lemma keeps_name_with_backfill [simp]: "keeps_name with_backfill"
  by (simp add: keeps_name_def)

lemmas with_backfill_structure [simp] = same_structure [OF with_backfill_fields(3,2)]

text \<open>The backfill reaches every row because the policy is not forced while it runs.\<close>

lemma run_backfill:
  assumes "distinct_tables d" "find_table ''posts'' (db_tables d) = Some p" "force_row_security p"
  shows "migrate backfill_posts d = Inr (locally ''posts'' with_backfill d)"
proof -
  let ?off = "\<lambda>t. t\<lparr>force_row_security := False\<rparr>" and ?on = "\<lambda>t. t\<lparr>force_row_security := True\<rparr>"
  let ?d = "locally ''posts'' ?off d"
  have names: "keeps_name ?off" "keeps_name ?on" by (simp_all add: keeps_name_def)
  have off: "alter_table ''posts'' (\<lambda>t. Inr (?off t)) d = Inr ?d"
    using assms by (simp add: alter_locally)
  have update: "update_rows ''posts'' backfill_post ?d = Inr (locally ''posts'' with_backfill ?d)"
    unfolding update_rows_def
    by (rule alter_locally [where t = "?off p"]) (use assms names in \<open>auto simp: find_locally with_backfill_def\<close>)
  have on: "alter_table ''posts'' (\<lambda>t. Inr (?on t)) (locally ''posts'' with_backfill ?d)
      = Inr (locally ''posts'' ?on (locally ''posts'' with_backfill ?d))"
    by (rule alter_locally [where t = "with_backfill (?off p)"])
      (use assms names in \<open>auto simp: find_locally simp del: locally_locally\<close>)
  have "t = p" if "t \<in> set (db_tables d)" "table_name t = ''posts''" for t
    using find_table_member [OF assms(1) that(1)] that(2) assms(2) by simp
  then have "locally ''posts'' ?on (locally ''posts'' with_backfill ?d) = locally ''posts'' with_backfill d"
    using assms(3)
    by (auto simp: locally_def with_backfill_def intro!: arg_cong [where f = "\<lambda>ts. d\<lparr>db_tables := ts\<rparr>"])
  then show ?thesis by (simp add: backfill_posts_def off update on del: locally_locally)
qed

lemma posts_columns:
  "map column_name (table_columns (built ddl_posts)) =
    [''tenant_id'', ''kind'', ''title'', ''slug'', ''summary'', ''body'', ''cover_image_id'', ''event_date'',
     ''published_at'', ''status'', ''locale'', ''id'', ''created_at'', ''updated_at'']"
  by (simp add: ddl_posts_def new_table_def)

lemma posts_constraints:
  "map constraint_name (table_constraints (built ddl_posts)) =
    [''ck_posts_valid_kind'', ''ck_posts_valid_status'', ''fk_posts_tenant_id_cover_image_id_media_assets'',
     ''fk_posts_tenant_id_tenants'', ''pk_posts'', ''uq_posts_tenant_id_id'', ''uq_posts_tenant_id_kind_slug'']"
  by (simp add: ddl_posts_def new_table_def)


lemma posts_secured:
  "find_table ''posts'' (db_tables (initial_schema roles now)) = Some (granted (secured isolation_policy (built ddl_posts)))"
proof -
  have "find_table ''posts'' initial_tables = Some (initial_table (built ddl_posts))"
    by (simp add: initial_tables_def create_initial_tables_def)
  then show ?thesis by (simp add: initial_schema_def initial_table_def tenant_tables_def)
qed

text \<open>What the migration makes of the table of posts.\<close>

definition structured_posts :: "instant \<Rightarrow> table \<Rightarrow> table" where
  "structured_posts now t = with_references post_references (with_backfill (with_columns now post_columns t))"

lemma structured_posts_name [simp]: "table_name (structured_posts now t) = table_name t"
  by (simp add: structured_posts_def)

lemma filled_null:
  "backfill_post (fill now post_columns r) ''created_by'' = Null"
  "backfill_post (fill now post_columns r) ''updated_by'' = Null"
  "backfill_post (fill now post_columns r) ''og_image_id'' = Null"
  by (simp_all add: post_columns_def backfill_post_def default_cell_def)

lemma run_structure:
  assumes d: "distinct_tables d" and p: "find_table ''posts'' (db_tables d) = Some p"
    and cols: "map column_name (table_columns p) = map column_name (table_columns (built ddl_posts))"
    and cons: "table_constraints p = table_constraints (built ddl_posts)" and forced: "force_row_security p"
    and users: "find_table ''users'' (db_tables d) = Some u" "([''id''], [Some UuidType]) \<in> set (typed_keys u)"
    and media: "find_table ''media_assets'' (db_tables d) = Some m"
      "([''tenant_id'', ''id''], [Some UuidType, Some UuidType]) \<in> set (typed_keys m)"
    and tid: "type_of_column p ''tenant_id'' = Some UuidType"
  shows "migrate (add_post_columns @ backfill_posts @ add_post_references) d
    = Inr (locally ''posts'' (structured_posts (transaction_time d)) d)"
proof -
  let ?now = "transaction_time d"
  let ?d1 = "locally ''posts'' (with_columns ?now post_columns) d"
  let ?p1 = "with_columns ?now post_columns p"
  have 1: "migrate add_post_columns d = Inr ?d1"
    unfolding add_post_columns_folds
    by (rule add_columns [OF d p]) (auto simp: cols posts_columns post_columns_def)
  let ?d2 = "locally ''posts'' with_backfill ?d1" and ?p2 = "with_backfill ?p1"
  have 2: "migrate backfill_posts ?d1 = Inr ?d2"
    by (rule run_backfill [where p = ?p1]) (use d p forced in \<open>simp_all add: find_locally\<close>)
  have names: "map column_name (table_columns ?p1)
      = map column_name (table_columns (built ddl_posts)) @ map column_name post_columns"
    by (simp add: cols)
  have has: "has_columns ?p1 [''created_by'']" "has_columns ?p1 [''updated_by'']"
    "has_columns ?p1 [''tenant_id'', ''og_image_id'']"
    unfolding has_columns_def names posts_columns by (simp_all add: post_columns_def)
  have types: "type_of_column ?p1 c = (if c = ''tenant_id'' then Some UuidType else map_of
      [(''content_document'', JsonbType), (''rendered_html'', TextType), (''og_image_id'', UuidType),
       (''seo_title'', VarChar 300), (''seo_description'', VarChar 500), (''created_by'', UuidType),
       (''updated_by'', UuidType)] c)" if "c \<in> {''tenant_id'', ''og_image_id'', ''created_by'', ''updated_by''}" for c
  proof -
    have "map_of (map (\<lambda>k. (column_name k, column_type k)) (table_columns p)) c = None" if "c \<noteq> ''tenant_id''"
      using that \<open>c \<in> _\<close> arg_cong [OF cols, of set] posts_columns
      by (auto simp: map_of_eq_None_iff image_image)
    then show ?thesis
      using that tid
      by (auto simp: type_of_column_def post_columns_def map_add_def split: option.splits)
  qed
  have 3: "migrate add_post_references ?d2 = Inr (locally ''posts'' (with_references post_references) ?d2)"
    unfolding add_post_references_folds
  proof (rule add_references [where p = ?p2])
    show "list_all (reference_found (db_tables ?d2)) (map (reference_types ?p2) post_references)"
      using users media by (simp add: post_references_def reference_types_def reference_found_def types find_locally keeps_name_def)
    show "case f of (n, u, cs, rs) \<Rightarrow> u \<noteq> ''posts'' \<and> has_columns ?p2 cs
        \<and> (\<exists>c\<in>set cs. \<forall>r\<in>set (table_rows ?p2). r c = Null)" if "f \<in> set post_references" for f
      using that by (auto simp: post_references_def has filled_null)
  qed (use d p in \<open>simp_all add: find_locally keeps_name_def cons posts_constraints post_references_def\<close>)
  show ?thesis
    unfolding migrate_append 1 2 sum.case 3 by (simp add: structured_posts_def [abs_def] keeps_name_def)
qed


definition blog_schema :: "role list \<Rightarrow> instant \<Rightarrow> table_row list \<Rightarrow> database" where
  "blog_schema roles now rows =
     (let d = locally ''posts'' (structured_posts now) (with_posts rows (initial_schema roles now))
      in d\<lparr>db_tables := db_tables d @ map (\<lambda>g. granted (secured isolation_policy (built g))) create_build_tables\<rparr>)"


text \<open>Whether references are found depends on the names and keys of the tables alone.\<close>

lemma reference_found_cong:
  assumes "list_all2 (\<lambda>t u. table_name t = table_name u \<and> typed_keys t = typed_keys u) ts us"
  shows "reference_found ts = reference_found us"
proof -
  have "(case find_table n ts of None \<Rightarrow> False | Some u \<Rightarrow> k \<in> set (typed_keys u))
      = (case find_table n us of None \<Rightarrow> False | Some u \<Rightarrow> k \<in> set (typed_keys u))" for n k
    using assms by (induction rule: list_all2_induct) auto
  then show ?thesis by (simp add: fun_eq_iff reference_found_def split: prod.split)
qed

lemma references_ordered_cong:
  assumes "list_all2 (\<lambda>t u. table_name t = table_name u \<and> typed_keys t = typed_keys u) ts us"
  shows "references_ordered ts xs = references_ordered us xs"
  using assms
proof (induction xs arbitrary: ts us)
  case (Cons x xs)
  have "list_all2 (\<lambda>t u. table_name t = table_name u \<and> typed_keys t = typed_keys u) (ts @ [x]) (us @ [x])"
    using Cons.prems by (simp add: list_all2_appendI)
  with Cons.IH [OF this] reference_found_cong [OF this] show ?case by simp
qed simp

lemma build_references:
  "references_ordered (map built create_initial_tables) (map built create_build_tables)"
  by (simp add: create_initial_tables_def create_build_tables_def built_references built_keys
      reference_found_def)

text \<open>The tables of the first migration, as the second one leaves them.\<close>

definition blog_table :: "instant \<Rightarrow> table_row list \<Rightarrow> table \<Rightarrow> table" where
  "blog_table now rows t =
     (if table_name t = ''posts'' then structured_posts now ((initial_table t)\<lparr>table_rows := rows\<rparr>)
      else initial_table t)"

lemma posts_before:
  "db_tables (locally ''posts'' (structured_posts now) (with_posts rows (initial_schema roles now)))
    = map (blog_table now rows) (map built create_initial_tables)"
  by (simp add: with_posts_def locally_def initial_schema_def initial_tables_def blog_table_def)

lemma blog_table_name [simp]: "table_name (blog_table now rows t) = table_name t"
  by (simp add: blog_table_def)

lemma blog_table_keys:
  assumes "well_formed t" shows "typed_keys (blog_table now rows t) = typed_keys t"
proof -
  let ?t = "(initial_table t)\<lparr>table_rows := rows\<rparr>"
  have "well_formed ?t" and "typed_keys ?t = typed_keys t"
    using assms
    by (simp_all add: well_formed_def initial_table_def has_columns_def typed_keys_def table_keys_def
        type_of_column_def fun_eq_iff)
  then show ?thesis
    using typed_keys_with_columns [of ?t now post_columns] by (simp add: blog_table_def structured_posts_def)
qed

lemma blog_table_relations: "relation_names (blog_table now rows t) = relation_names t"
proof -
  have "concat (map (backing_index \<circ> (\<lambda>(n, u, cs, rs). ForeignKeyConstraint n cs u rs None)) fs) = []" for fs
    by (induction fs) auto
  then show ?thesis
    by (simp add: blog_table_def structured_posts_def relation_names_def initial_table_def)
qed

lemma find_initial:
  "find_table n (db_tables (with_posts rows (initial_schema roles now))) =
    map_option (\<lambda>t. if n = ''posts'' then (initial_table t)\<lparr>table_rows := rows\<rparr> else initial_table t)
      (find_table n (map built create_initial_tables))"
proof -
  have "db_tables (with_posts rows (initial_schema roles now)) =
      map (\<lambda>t. if table_name t = ''posts'' then (initial_table t)\<lparr>table_rows := rows\<rparr> else initial_table t)
        (map built create_initial_tables)"
    by (simp add: with_posts_def locally_def initial_schema_def initial_tables_def)
  moreover have "find_table n (map (\<lambda>t. if table_name t = ''posts'' then (initial_table t)\<lparr>table_rows := rows\<rparr> else initial_table t) ts)
      = map_option (\<lambda>t. if n = ''posts'' then (initial_table t)\<lparr>table_rows := rows\<rparr> else initial_table t) (find_table n ts)" for ts
    by (induction ts) auto
  ultimately show ?thesis by (simp only:)
qed

lemma keeps_name_rows [simp]: "keeps_name (\<lambda>t. t\<lparr>table_rows := rows\<rparr>)"
  by (simp add: keeps_name_def)

lemma keeps_name_structured [simp]: "keeps_name (structured_posts now)"
  by (simp add: keeps_name_def)

lemma initial_distinct: "distinct_tables (with_posts rows (initial_schema roles now))"
proof -
  have "distinct_tables (initial_schema roles now)"
    using initial_names_distinct
    by (simp add: distinct_tables_def initial_schema_def initial_tables_def comp_def)
  then show ?thesis by (simp add: with_posts_def)
qed

lemma time_fixed [simp]: "transaction_time (with_posts rows (initial_schema roles now)) = now"
  by (simp add: with_posts_def initial_schema_def empty_database_def)

lemma run_posts:
  "migrate (add_post_columns @ backfill_posts @ add_post_references) (with_posts rows (initial_schema roles now))
    = Inr (locally ''posts'' (structured_posts now) (with_posts rows (initial_schema roles now)))"
proof -
  let ?d = "with_posts rows (initial_schema roles now)"
  let ?p = "(initial_table (built ddl_posts))\<lparr>table_rows := rows\<rparr>"
  have p: "find_table ''posts'' (db_tables ?d) = Some ?p"
    and u: "find_table ''users'' (db_tables ?d) = Some (initial_table (built ddl_users))"
    and m: "find_table ''media_assets'' (db_tables ?d) = Some (initial_table (built ddl_media_assets))"
    unfolding find_initial by (simp_all add: create_initial_tables_def)
  have "migrate (add_post_columns @ backfill_posts @ add_post_references) ?d
      = Inr (locally ''posts'' (structured_posts (transaction_time ?d)) ?d)"
  proof (rule run_structure [OF initial_distinct p _ _ _ u _ m])
    show "type_of_column ?p ''tenant_id'' = Some UuidType"
      by (simp add: type_of_column_def initial_table_def ddl_posts_def new_table_def)
  qed (simp_all add: initial_table_def tenant_tables_def built_keys)
  then show ?thesis by simp
qed

lemma build_tables_named: "map table_name (map built create_build_tables) =
    [''tenant_site_build_configs'', ''tenant_site_states'', ''post_media_references'', ''site_build_requests'']"
  by (simp add: create_build_tables_def)

lemma build_tables_set: "set build_tables = table_name ` set (map built create_build_tables)"
proof -
  have "set [a, b, c, d] = set [c, d, a, b]" for a b c d :: string by auto
  then show ?thesis unfolding set_map [symmetric] build_tables_named build_tables_def .
qed

lemma all_names_distinct: "distinct (map table_name (map built (create_initial_tables @ create_build_tables)))"
  by (simp add: create_initial_tables_def create_build_tables_def)

lemma build_tables_new:
  assumes "n \<in> set build_tables"
  shows "n \<notin> (\<lambda>g. table_name (built g)) ` set create_initial_tables"
  using assms all_names_distinct by (auto simp: build_tables_set)

text \<open>Policies and grants of the new tables, which leave the older tables alone.\<close>

lemma run_secure_build:
  assumes names: "map table_name (db_tables d) = map table_name (map built create_initial_tables)"
  shows "migrate secure_build_tables (d\<lparr>db_tables := db_tables d @ map built create_build_tables\<rparr>)
    = Inr (d\<lparr>db_tables := db_tables d @ map (\<lambda>g. granted (secured isolation_policy (built g))) create_build_tables\<rparr>)"
proof -
  let ?new = "map built create_build_tables"
  let ?e = "d\<lparr>db_tables := db_tables d @ ?new\<rparr>"
  have older: "table_name t \<notin> set build_tables" if "t \<in> set (db_tables d)" for t
    using that build_tables_new arg_cong [OF names, of set] by fastforce
  have newer: "table_name (built g) \<in> set build_tables" if "g \<in> set create_build_tables" for g
    using that by (simp add: build_tables_set)
  have "distinct_tables ?e"
    using names all_names_distinct by (simp add: distinct_tables_def)
  moreover have "\<exists>t. find_table n (db_tables ?e) = Some t \<and> table_policies t = []" if n: "n \<in> set build_tables" for n
  proof -
    have "find_table n (db_tables d) = None"
      using build_tables_new [OF n] arg_cong [OF names, of set] by (simp add: find_table_None image_image)
    moreover obtain t where "find_table n ?new = Some t"
      using n find_table_None [of n ?new] by (auto simp: build_tables_set)
    moreover from this have "t \<in> built ` set create_build_tables"
      using find_table_Some by fastforce
    ultimately show ?thesis
      using built_fresh(1) built_groups by (auto simp: find_table_append list_all_iff)
  qed
  ultimately have "migrate (concat (map tenant_rls build_tables)) ?e
      = Inr (?e\<lparr>db_tables := map (\<lambda>t. if table_name t \<in> set build_tables then secured isolation_policy t else t) (db_tables ?e)\<rparr>)"
    unfolding tenant_rls_secures by (subst secure_tables [where p = isolation_policy]) (auto simp: build_tables_def)
  also have "map (\<lambda>t. if table_name t \<in> set build_tables then secured isolation_policy t else t) (db_tables ?e)
      = db_tables d @ map (\<lambda>g. secured isolation_policy (built g)) create_build_tables"
    by (simp add: older newer map_idI cong: map_cong)
  finally have secure: "migrate (concat (map tenant_rls build_tables)) ?e
      = Inr (d\<lparr>db_tables := db_tables d @ map (\<lambda>g. secured isolation_policy (built g)) create_build_tables\<rparr>)"
    by simp
  have "find_table n (db_tables d @ map (\<lambda>g. secured isolation_policy (built g)) create_build_tables) \<noteq> None"
    if "n \<in> set build_tables" for n
    using that by (auto simp: find_table_None build_tables_set image_Un image_image)
  moreover have "map (\<lambda>t. if table_name t \<in> set build_tables then t\<lparr>app_privileges := True\<rparr> else t)
      (db_tables d @ map (\<lambda>g. secured isolation_policy (built g)) create_build_tables)
      = db_tables d @ map (\<lambda>g. granted (secured isolation_policy (built g))) create_build_tables"
    by (simp add: older newer granted_def map_idI cong: map_cong)
  ultimately show ?thesis
    by (simp add: secure_build_tables_def migrate_append secure grant_tables_def list_all_iff)
qed

theorem run_blog:
  "migrate upgrade_8f3a2d6b9c10 (with_posts rows (initial_schema roles now)) = Inr (blog_schema roles now rows)"
proof -
  let ?d = "locally ''posts'' (structured_posts now) (with_posts rows (initial_schema roles now))"
  let ?new = "map built create_build_tables"
  let ?e = "?d\<lparr>db_tables := db_tables ?d @ ?new\<rparr>"
  have wf: "list_all well_formed (map built create_initial_tables)" "list_all well_formed ?new"
    using built_well_formed by simp_all
  have relations: "all_relations ?d = concat (map relation_names (map built create_initial_tables))"
    unfolding all_relations_def posts_before by (simp add: comp_def blog_table_relations)
  have "list_all2 (\<lambda>t u. table_name t = table_name u \<and> typed_keys t = typed_keys u)
      (db_tables ?d) (map built create_initial_tables)"
    unfolding posts_before using wf(1)
    by (auto simp: list.rel_map list_all_iff blog_table_keys intro!: list.rel_refl_strong)
  then have "references_ordered (db_tables ?d) ?new"
    using references_ordered_cong build_references by blast
  then have create: "migrate (concat create_build_tables) ?d = Inr ?e"
    using create_groups [of create_build_tables ?d] built_groups built_distinct wf(2)
    by (simp add: relations)
  have names: "map table_name (db_tables ?d) = map table_name (map built create_initial_tables)"
    unfolding posts_before by simp
  show ?thesis
    using migrate_appendI [OF run_posts [of rows roles now]] create run_secure_build [OF names]
    by (simp add: upgrade_8f3a2d6b9c10_def migrate_append [of "concat create_build_tables"] blog_schema_def Let_def)
qed


section \<open>The migration of the archive markers\<close>

definition archived_at :: column where
  "archived_at = Column ''archived_at'' TimestampTz True None"

definition archive_markers :: "instant \<Rightarrow> database \<Rightarrow> database" where
  "archive_markers now d =
     locally ''staff_members'' (with_columns now [archived_at])
       (locally ''honor_categories'' (with_columns now [archived_at]) d)"

definition head_schema :: "role list \<Rightarrow> instant \<Rightarrow> table_row list \<Rightarrow> database" where
  "head_schema roles now rows = archive_markers now (blog_schema roles now rows)"

lemma blog_schema_tables:
  "db_tables (blog_schema roles now rows) =
     map (blog_table now rows) (map built create_initial_tables)
     @ map (\<lambda>g. granted (secured isolation_policy (built g))) create_build_tables"
  unfolding blog_schema_def Let_def by (simp add: posts_before)

lemma blog_schema_distinct: "distinct_tables (blog_schema roles now rows)"
  using all_names_distinct by (simp add: distinct_tables_def blog_schema_tables comp_def)

lemma blog_schema_fields [simp]:
  "transaction_time (blog_schema roles now rows) = now" "db_roles (blog_schema roles now rows) = roles"
  "schema_usage (blog_schema roles now rows)"
  by (simp_all add: blog_schema_def Let_def with_posts_def initial_schema_def empty_database_def)

lemma find_blog:
  assumes "find_table n (map built create_initial_tables) = Some t"
  shows "find_table n (db_tables (blog_schema roles now rows)) = Some (blog_table now rows t)"
proof -
  have "find_table n (map (blog_table now rows) ts) = map_option (blog_table now rows) (find_table n ts)" for ts
    by (rule find_table_map) simp
  then show ?thesis
    unfolding blog_schema_tables by (simp only: find_table_append assms option.map option.case)
qed

lemma archived_tables:
  "find_table ''honor_categories'' (map built create_initial_tables) = Some (built ddl_honor_categories)"
  "find_table ''staff_members'' (map built create_initial_tables) = Some (built ddl_staff_members)"
  by (simp_all add: create_initial_tables_def)

lemma archived_at_new:
  "''archived_at'' \<notin> set (map column_name (table_columns (built ddl_honor_categories)))"
  "''archived_at'' \<notin> set (map column_name (table_columns (built ddl_staff_members)))"
  by (simp_all add: ddl_honor_categories_def ddl_staff_members_def new_table_def)

lemma blog_columns: "table_name t \<noteq> ''posts'' \<Longrightarrow> table_columns (blog_table now rows t) = table_columns t"
  by (simp add: blog_table_def initial_table_def)

lemma built_columns_distinct:
  assumes "find_table n (map built create_initial_tables) = Some t"
  shows "distinct (map column_name (table_columns t))"
  using assms find_table_Some built_well_formed by (fastforce simp: well_formed_def list_all_iff)

theorem run_archive:
  "migrate upgrade_c6e4a12b7f90 (blog_schema roles now rows) = Inr (head_schema roles now rows)"
proof -
  let ?d = "blog_schema roles now rows"
  let ?e = "locally ''honor_categories'' (with_columns now [archived_at]) ?d"
  note found = find_blog [OF archived_tables(1)] find_blog [OF archived_tables(2)]
  have honors: "migrate (map (Add_column ''honor_categories'') [archived_at]) ?d
      = Inr (locally ''honor_categories'' (with_columns (transaction_time ?d) [archived_at]) ?d)"
    by (rule add_columns [OF blog_schema_distinct found(1)])
      (use archived_at_new built_columns_distinct [OF archived_tables(1)] in
        \<open>auto simp: blog_columns archived_at_def\<close>)
  have staff: "migrate (map (Add_column ''staff_members'') [archived_at]) ?e
      = Inr (locally ''staff_members'' (with_columns (transaction_time ?e) [archived_at]) ?e)"
    by (rule add_columns [where t = "blog_table now rows (built ddl_staff_members)"])
      (use archived_at_new built_columns_distinct [OF archived_tables(2)] found blog_schema_distinct in
        \<open>auto simp: blog_columns archived_at_def find_locally\<close>)
  have ops: "upgrade_c6e4a12b7f90 = map (Add_column ''honor_categories'') [archived_at] @ map (Add_column ''staff_members'') [archived_at]"
    by (simp add: upgrade_c6e4a12b7f90_def archived_at_def)
  show ?thesis
    unfolding ops migrate_append honors sum.case blog_schema_fields staff by (simp add: head_schema_def archive_markers_def)
qed

text \<open>All three, on a new database.\<close>

definition upgrade_head :: "operation list" where
  "upgrade_head = upgrade_bfd7cd1209eb @ upgrade_8f3a2d6b9c10 @ upgrade_c6e4a12b7f90"

lemma no_posts: "with_posts [] (initial_schema roles now) = initial_schema roles now"
proof -
  have "table_rows t = []" if "t \<in> set initial_tables" for t
    using that built_fresh(2) built_groups
    by (auto simp: initial_tables_def initial_table_def list_all_iff)
  then have "map (\<lambda>t. if table_name t = ''posts'' then t\<lparr>table_rows := []\<rparr> else t) initial_tables = initial_tables"
    by (intro map_idI) auto
  then show ?thesis by (simp add: with_posts_def locally_def initial_schema_def)
qed

theorem run_head:
  "migrate upgrade_head (empty_database roles now) =
     (case require_application_role (empty_database roles now) of
        Inl e \<Rightarrow> Inl e
      | Inr _ \<Rightarrow> Inr (head_schema roles now []))"
  using run_initial [of roles now] run_blog [of "[]" roles now] run_archive [of roles now "[]"]
  by (simp add: upgrade_head_def migrate_append no_posts split: sum.splits)

end
