(* ===== verification/ModelAgreement.thy ===== *)
theory ModelAgreement
  imports Metadata MigratedSchema
begin

text \<open>
  The mapped classes against the tables of the migrations, class by class: every declared column,
  constraint and index is in the database exactly as declared, and the database has nothing else,
  but for three differences, listed here.
\<close>

section \<open>What the classes do not declare\<close>

text \<open>
  \<open>posts.content_document\<close> keeps the server default that filled it for the existing posts, and two
  tables have a unique constraint over the columns of their primary key.
\<close>

definition undeclared_default :: "string \<Rightarrow> string \<Rightarrow> server_default option" where
  "undeclared_default t c =
     (if t = ''posts'' \<and> c = ''content_document'' then Some empty_document_default else None)"

definition undeclared_constraints :: "string \<Rightarrow> table_constraint list" where
  "undeclared_constraints t =
     (if t = ''tenant_features''
      then [UniqueConstraint ''uq_tenant_features_tenant_id_feature_key'' [''tenant_id'', ''feature_key'']]
      else if t = ''tenant_memberships''
      then [UniqueConstraint ''uq_tenant_memberships_tenant_id_user_id'' [''tenant_id'', ''user_id'']]
      else [])"

section \<open>Agreement\<close>

definition column_as_built :: "string \<Rightarrow> column \<Rightarrow> column" where
  "column_as_built t c =
     (case undeclared_default t (column_name c) of
        None \<Rightarrow> c
      | Some d \<Rightarrow> Column (column_name c) (column_type c) (is_nullable c) (Some d))"

definition same_items :: "'a list \<Rightarrow> 'a list \<Rightarrow> bool" where
  "same_items xs ys \<longleftrightarrow>
     length xs = length ys \<and> list_all (\<lambda>x. x \<in> set ys) xs \<and> list_all (\<lambda>y. y \<in> set xs) ys"

definition table_agrees :: "table \<Rightarrow> table \<Rightarrow> bool" where
  "table_agrees m t \<longleftrightarrow>
     table_name m = table_name t
     \<and> same_items (map (column_as_built (table_name m)) (table_columns m)) (table_columns t)
     \<and> same_items (table_constraints m @ undeclared_constraints (table_name m)) (table_constraints t)
     \<and> same_items (table_indexes m) (table_indexes t)"

definition model_agrees :: "model_class \<Rightarrow> table \<Rightarrow> bool" where
  "model_agrees c t = (case declared_table c of None \<Rightarrow> False | Some m \<Rightarrow> table_agrees m t)"

lemmas declared_defs =
  declared_table_def all_attributes_def uuid_primary_key_def timestamps_def mapped_def
  declared_column_def declared_type_def declared_nullable_def attribute_constraints_def
  attribute_indexes_def convention_name_def NAMING_CONVENTION_def new_table_def Let_def

lemmas agreement_defs = model_agrees_def table_agrees_def same_items_def column_as_built_def
  undeclared_default_def undeclared_constraints_def

lemma built_agrees_1:
  "model_agrees class_AuditEvent (built ddl_audit_events)"
  "model_agrees class_User (built ddl_users)"
  "model_agrees class_TenantMembership (built ddl_tenant_memberships)"
  "model_agrees class_RefreshToken (built ddl_refresh_tokens)"
  "model_agrees class_AuthenticationAttempt (built ddl_authentication_attempts)"
  "model_agrees class_Banner (built ddl_banners)"
  "model_agrees class_PostMediaReference (built ddl_post_media_references)"
  "model_agrees class_Honor (built ddl_honors)"
  by (simp_all add: agreement_defs declared_defs
      class_AuditEvent_def ddl_audit_events_def class_User_def ddl_users_def
      class_TenantMembership_def ddl_tenant_memberships_def
      class_RefreshToken_def ddl_refresh_tokens_def
      class_AuthenticationAttempt_def ddl_authentication_attempts_def
      class_Banner_def ddl_banners_def
      class_PostMediaReference_def ddl_post_media_references_def class_Honor_def ddl_honors_def)

lemma built_agrees_2:
  "model_agrees class_ContactRequest (built ddl_contact_requests)"
  "model_agrees class_SampleExam (built ddl_sample_exams)"
  "model_agrees class_GalleryAlbum (built ddl_gallery_albums)"
  "model_agrees class_GalleryItem (built ddl_gallery_items)"
  "model_agrees class_SchoolDirectoryEntry (built ddl_school_directory_entries)"
  "model_agrees class_ExamOffering (built ddl_exam_offerings)"
  "model_agrees class_PricingPlan (built ddl_pricing_plans)"
  "model_agrees class_ExamPricingPlan (built ddl_exam_pricing_plans)"
  by (simp_all add: agreement_defs declared_defs
      class_ContactRequest_def ddl_contact_requests_def
      class_SampleExam_def ddl_sample_exams_def class_GalleryAlbum_def ddl_gallery_albums_def
      class_GalleryItem_def ddl_gallery_items_def
      class_SchoolDirectoryEntry_def ddl_school_directory_entries_def
      class_ExamOffering_def ddl_exam_offerings_def class_PricingPlan_def ddl_pricing_plans_def
      class_ExamPricingPlan_def ddl_exam_pricing_plans_def)

lemma built_agrees_3:
  "model_agrees class_MediaAsset (built ddl_media_assets)"
  "model_agrees class_PaymentTransaction (built ddl_payment_transactions)"
  "model_agrees class_RegistrationFormDefinition (built ddl_registration_form_definitions)"
  "model_agrees class_Registration (built ddl_registrations)"
  "model_agrees class_RegistrationContact (built ddl_registration_contacts)"
  "model_agrees class_OTPChallenge (built ddl_otp_challenges)"
  "model_agrees class_TenantSiteState (built ddl_tenant_site_states)"
  "model_agrees class_TenantSiteBuildConfig (built ddl_tenant_site_build_configs)"
  by (simp_all add: agreement_defs declared_defs
      class_MediaAsset_def ddl_media_assets_def
      class_PaymentTransaction_def ddl_payment_transactions_def
      class_RegistrationFormDefinition_def ddl_registration_form_definitions_def
      class_Registration_def ddl_registrations_def
      class_RegistrationContact_def ddl_registration_contacts_def
      class_OTPChallenge_def ddl_otp_challenges_def
      class_TenantSiteState_def ddl_tenant_site_states_def
      class_TenantSiteBuildConfig_def ddl_tenant_site_build_configs_def)

lemma built_agrees_4:
  "model_agrees class_SiteBuildRequest (built ddl_site_build_requests)"
  "model_agrees class_Tenant (built ddl_tenants)"
  "model_agrees class_TenantDomain (built ddl_tenant_domains)"
  "model_agrees class_TenantFeature (built ddl_tenant_features)"
  "model_agrees class_TenantProfile (built ddl_tenant_profiles)"
  "model_agrees class_TenantAddress (built ddl_tenant_addresses)"
  "model_agrees class_TenantPhone (built ddl_tenant_phones)"
  "model_agrees class_TenantSocialLink (built ddl_tenant_social_links)"
  by (simp_all add: agreement_defs declared_defs
      class_SiteBuildRequest_def ddl_site_build_requests_def class_Tenant_def ddl_tenants_def
      class_TenantDomain_def ddl_tenant_domains_def
      class_TenantFeature_def ddl_tenant_features_def
      class_TenantProfile_def ddl_tenant_profiles_def
      class_TenantAddress_def ddl_tenant_addresses_def
      class_TenantPhone_def ddl_tenant_phones_def
      class_TenantSocialLink_def ddl_tenant_social_links_def)

lemmas built_agrees = built_agrees_1 built_agrees_2 built_agrees_3 built_agrees_4

text \<open>The tables that later migrations extended.\<close>

definition extended :: "column list \<Rightarrow> table_constraint list \<Rightarrow> table \<Rightarrow> table" where
  "extended cs ks t =
     t\<lparr>table_columns := table_columns t @ cs, table_constraints := table_constraints t @ ks\<rparr>"

definition post_foreign_keys :: "table_constraint list" where
  "post_foreign_keys = map (\<lambda>(n, u, cs, rs). ForeignKeyConstraint n cs u rs None) post_references"

lemma posts_agree: "model_agrees class_Post (extended post_columns post_foreign_keys (built ddl_posts))"
  by (simp add: agreement_defs declared_defs class_Post_def ddl_posts_def extended_def post_columns_def
      post_foreign_keys_def post_references_def)

lemma archived_agree:
  "model_agrees class_HonorCategory (extended [archived_at] [] (built ddl_honor_categories))"
  "model_agrees class_StaffMember (extended [archived_at] [] (built ddl_staff_members))"
  by (simp_all add: agreement_defs declared_defs class_HonorCategory_def ddl_honor_categories_def
      class_StaffMember_def ddl_staff_members_def extended_def archived_at_def)

text \<open>Agreement looks at names, columns, constraints and indexes.\<close>

lemma model_agrees_cong:
  assumes "table_name t = table_name u" "table_columns t = table_columns u"
    "table_constraints t = table_constraints u" "table_indexes t = table_indexes u"
  shows "model_agrees c t = model_agrees c u"
  using assms by (simp add: model_agrees_def table_agrees_def split: option.split)

text \<open>A table of the first migration as it stands at the head.\<close>

definition head_table :: "instant \<Rightarrow> table_row list \<Rightarrow> table \<Rightarrow> table" where
  "head_table now rows t =
     (if table_name t \<in> {''honor_categories'', ''staff_members''}
      then with_columns now [archived_at] (blog_table now rows t) else blog_table now rows t)"

lemma head_schema_tables:
  "db_tables (head_schema roles now rows) =
     map (head_table now rows) (map built create_initial_tables)
     @ map (\<lambda>g. granted (secured isolation_policy (built g))) create_build_tables"
proof -
  have "table_name (built g) \<noteq> ''honor_categories''" "table_name (built g) \<noteq> ''staff_members''"
    if "g \<in> set create_build_tables" for g
    using that by (auto simp: create_build_tables_def)
  then show ?thesis
    unfolding head_schema_def archive_markers_def
    by (simp add: locally_def blog_schema_tables head_table_def)
qed

lemma head_table_name [simp]: "table_name (head_table now rows t) = table_name t"
  by (simp add: head_table_def)

lemma plain_agrees:
  assumes "model_agrees c t" "table_name t \<notin> {''posts'', ''honor_categories'', ''staff_members''}"
  shows "model_agrees c (head_table now rows t)"
  using assms model_agrees_cong [of "head_table now rows t" t]
  by (simp add: head_table_def blog_table_def initial_table_def)

lemma build_agrees: "model_agrees c t \<Longrightarrow> model_agrees c (granted (secured isolation_policy t))"
  using model_agrees_cong [of "granted (secured isolation_policy t)" t] by simp

lemma extended_agrees:
  "model_agrees class_Post (head_table now rows (built ddl_posts))"
  "model_agrees class_HonorCategory (head_table now rows (built ddl_honor_categories))"
  "model_agrees class_StaffMember (head_table now rows (built ddl_staff_members))"
proof -
  show "model_agrees class_Post (head_table now rows (built ddl_posts))"
    using posts_agree model_agrees_cong [of "head_table now rows (built ddl_posts)"
        "extended post_columns post_foreign_keys (built ddl_posts)"]
    by (simp add: head_table_def blog_table_def structured_posts_def initial_table_def extended_def post_foreign_keys_def)
  show "model_agrees class_HonorCategory (head_table now rows (built ddl_honor_categories))"
    "model_agrees class_StaffMember (head_table now rows (built ddl_staff_members))"
    using archived_agree model_agrees_cong [of "head_table now rows (built ddl_honor_categories)"
        "extended [archived_at] [] (built ddl_honor_categories)"]
      model_agrees_cong [of "head_table now rows (built ddl_staff_members)"
        "extended [archived_at] [] (built ddl_staff_members)"]
    by (simp_all add: head_table_def blog_table_def initial_table_def extended_def)
qed

end
