(* ===== verification/RowSecurity.thy ===== *)
theory RowSecurity
  imports ModelAgreement Uuids
begin

text \<open>
  What the installed policies do to a query of the application: the value of the policy
  expression for a row under a session's settings, and the rows a role sees of a table. The
  sessions are those of \<open>core/database.py\<close>: \<open>tenant_session\<close> sets \<open>app.current_tenant_id\<close> for the
  transaction, \<open>global_session\<close> leaves whatever a pooled connection has, which is unset or the
  empty text that PostgreSQL leaves behind a transaction-local setting. The text input of the
  \<open>uuid\<close> type, \<open>uuid_in\<close>, is PostgreSQL's.
\<close>

section \<open>Policy expressions\<close>

text \<open>\<open>None\<close> is an error, which fails the statement; NULL is a value.\<close>

fun sql_value :: "(ustr \<Rightarrow> uuid option) \<Rightarrow> (string \<Rightarrow> ustr option) \<Rightarrow> table_row \<Rightarrow> sql_expr \<Rightarrow> cell option" where
  "sql_value uuid_in settings r (Column_value c) = Some (r c)"
| "sql_value uuid_in settings r (Current_setting s) =
     Some (case settings s of None \<Rightarrow> Null | Some v \<Rightarrow> Text v)"
| "sql_value uuid_in settings r (Text_literal s) = Some (Text (lit s))"
| "sql_value uuid_in settings r (Nullif a b) =
     (case (sql_value uuid_in settings r a, sql_value uuid_in settings r b) of
        (Some v, Some w) \<Rightarrow> Some (if v = w then Null else v)
      | _ \<Rightarrow> None)"
| "sql_value uuid_in settings r (Cast_uuid e) =
     (case sql_value uuid_in settings r e of
        Some Null \<Rightarrow> Some Null
      | Some (Uuid u) \<Rightarrow> Some (Uuid u)
      | Some (Text s) \<Rightarrow> map_option Uuid (uuid_in s)
      | _ \<Rightarrow> None)"
| "sql_value uuid_in settings r (Equals a b) =
     (case (sql_value uuid_in settings r a, sql_value uuid_in settings r b) of
        (Some v, Some w) \<Rightarrow> Some (if v = Null \<or> w = Null then Null else Boolean (v = w))
      | _ \<Rightarrow> None)"

section \<open>What a role sees\<close>

text \<open>
  Superusers and roles with \<open>BYPASSRLS\<close> see every row; others the rows some policy admits, once
  row-level security is on. The application role owns no table.
\<close>

definition sees ::
  "(ustr \<Rightarrow> uuid option) \<Rightarrow> (string \<Rightarrow> ustr option) \<Rightarrow> role \<Rightarrow> table \<Rightarrow> table_row \<Rightarrow> bool" where
  "sees uuid_in settings rl t r =
     (rolsuper rl \<or> rolbypassrls rl \<or> \<not> row_security t
      \<or> list_ex (\<lambda>p. sql_value uuid_in settings r (policy_using p) = Some (Boolean True)) (table_policies t))"

text \<open>\<open>select set_config('app.current_tenant_id', str(tenant_id), true)\<close>, or nothing.\<close>

definition session_settings :: "ustr option \<Rightarrow> session \<Rightarrow> string \<Rightarrow> ustr option" where
  "session_settings leftover cur s =
     (if s = ''app.current_tenant_id''
      then (case cur of None \<Rightarrow> leftover | Some t \<Rightarrow> Some (uuid_str t)) else None)"

definition row_tenant :: "table_row \<Rightarrow> uuid" where
  "row_tenant r = (case r ''tenant_id'' of Uuid u \<Rightarrow> u | _ \<Rightarrow> 0)"

text \<open>
  The one law of \<open>uuid_in\<close> the code relies on: it reads back what Python's \<open>str\<close> of a UUID writes.
  The tenant of a session is a UUID.
\<close>

definition reads_uuids :: "(ustr \<Rightarrow> uuid option) \<Rightarrow> bool" where
  "reads_uuids uuid_in \<longleftrightarrow> (\<forall>u < 2 ^ 128. uuid_in (uuid_str u) = Some u)"

definition valid_session :: "session \<Rightarrow> bool" where
  "valid_session cur = (case cur of None \<Rightarrow> True | Some u \<Rightarrow> u < 2 ^ 128)"

lemma uuid_str_nonempty: "uuid_str u \<noteq> []"
  by (simp add: uuid_str_def Let_def)

text \<open>The policy admits a row exactly when the session is its tenant's.\<close>

lemma policy_value:
  assumes law: "reads_uuids uuid_in" and cur: "valid_session cur"
    and leftover: "leftover \<in> {None, Some []}" and row: "r ''tenant_id'' = Uuid u"
  shows "sql_value uuid_in (session_settings leftover cur) r tenant_predicate = Some (Boolean True)
    \<longleftrightarrow> tenant_isolation_policy cur u"
proof (cases cur)
  case None
  then show ?thesis
    using leftover row
    by (auto simp: tenant_predicate_def session_settings_def tenant_isolation_policy_def)
next
  case (Some t)
  then show ?thesis
    using law cur row Some
    by (auto simp: reads_uuids_def valid_session_def tenant_predicate_def session_settings_def tenant_isolation_policy_def uuid_str_nonempty)
qed

section \<open>Tenant-owned tables of the migrated schema\<close>

text \<open>
  Tables with a tenant column, except the two that are read before a tenant is known: domains,
  which resolve a host name to a tenant, and refresh tokens, which belong to a user.
\<close>

definition global_tables :: "string list" where
  "global_tables = [''tenant_domains'', ''refresh_tokens'']"

definition tenant_owned :: "table \<Rightarrow> bool" where
  "tenant_owned t \<longleftrightarrow>
     ''tenant_id'' \<in> set (map column_name (table_columns t)) \<and> table_name t \<notin> set global_tables"

definition isolated :: "table \<Rightarrow> bool" where
  "isolated t \<longleftrightarrow>
     row_security t \<and> force_row_security t \<and> app_privileges t \<and> table_policies t = [isolation_policy]"

lemma isolated_sees:
  assumes "isolated t" "\<not> rolsuper rl" "\<not> rolbypassrls rl"
    and "reads_uuids uuid_in" "valid_session cur" "leftover \<in> {None, Some []}" "r ''tenant_id'' = Uuid u"
  shows "sees uuid_in (session_settings leftover cur) rl t r \<longleftrightarrow> tenant_isolation_policy cur (row_tenant r)"
  using policy_value [where r = r and u = u, OF assms(4-7)] assms(1-3,7)
  by (simp add: sees_def isolated_def isolation_policy_def row_tenant_def)

text \<open>Every tenant-owned table the migrations create is listed for row-level security.\<close>

lemma built_unowned:
  "\<not> tenant_owned (built ddl_authentication_attempts)" "\<not> tenant_owned (built ddl_school_directory_entries)"
  "\<not> tenant_owned (built ddl_tenants)" "\<not> tenant_owned (built ddl_users)"
  by (simp_all add: tenant_owned_def group_defs new_table_def)

lemma global_unowned: "table_name t \<in> set global_tables \<Longrightarrow> \<not> tenant_owned t"
  by (simp add: tenant_owned_def)

lemma built_owned:
  "list_all (\<lambda>g. \<not> tenant_owned (built g) \<or> table_name (built g) \<in> set tenant_tables) create_initial_tables"
  by (simp add: create_initial_tables_def built_unowned global_unowned global_tables_def tenant_tables_def)

lemma initial_isolated:
  assumes "g \<in> set create_initial_tables" "table_name (built g) \<in> set tenant_tables"
  shows "isolated (initial_table (built g))"
  using assms built_fresh(1) built_groups
  by (auto simp: isolated_def initial_table_def list_all_iff)

lemma head_table_owned: "tenant_owned (head_table now rows t) = tenant_owned t"
  by (auto simp: tenant_owned_def head_table_def blog_table_def structured_posts_def initial_table_def
      post_columns_def archived_at_def)

lemma head_table_isolated: "isolated (head_table now rows t) = isolated (initial_table t)"
  by (simp add: isolated_def head_table_def blog_table_def structured_posts_def)

lemma head_isolated:
  assumes "t \<in> set (db_tables (head_schema roles now rows))" "tenant_owned t"
  shows "isolated t"
proof -
  consider g where "g \<in> set create_initial_tables" "t = head_table now rows (built g)"
    | g where "g \<in> set create_build_tables" "t = granted (secured isolation_policy (built g))"
    using assms(1) unfolding head_schema_tables by auto
  then show ?thesis
  proof cases
    case 1
    then have "table_name (built g) \<in> set tenant_tables"
      using assms(2) built_owned by (auto simp: head_table_owned list_all_iff)
    with 1 show ?thesis by (simp add: head_table_isolated initial_isolated)
  next
    case 2
    then show ?thesis
      using built_fresh(1) built_groups by (auto simp: isolated_def list_all_iff)
  qed
qed

section \<open>The roles of a migrated database\<close>

lemma required_role:
  assumes "require_application_role d = Inr d'" "rl \<in> set (db_roles d)" "rolname rl = ''kanoon_app''"
  shows "\<not> rolsuper rl" "\<not> rolbypassrls rl"
  using assms by (auto simp: require_application_role_def Let_def list_ex_iff split: if_splits)

lemma migrated_head:
  assumes "migrate upgrade_head (empty_database roles now) = Inr d"
  shows "d = head_schema roles now []" "\<exists>d'. require_application_role (empty_database roles now) = Inr d'"
  using assms by (auto simp: run_head split: sum.splits)

lemma head_roles [simp]: "db_roles (head_schema roles now rows) = roles"
  by (simp add: head_schema_def archive_markers_def)

end
