(* ===== verification/MigrationRollback.thy ===== *)
theory MigrationRollback
  imports RowSecurity
begin

text \<open>
  The downgrades: dropping the tables of a migration in the reverse order of their creation, and
  the columns and foreign keys it added, gives back the database the migration started from.
\<close>

section \<open>Dropping a table with its indexes\<close>

definition targets :: "table \<Rightarrow> string list" where
  "targets t = map fst (typed_references t)"

lemma targets_references: "u \<in> set (targets t) \<longleftrightarrow> list_ex (\<lambda>(cs, n,
  rs). n = u) (table_references t)"
  by (force simp: targets_def typed_references_def list_ex_iff image_iff)

definition drop_group :: "string \<times> string list \<Rightarrow> operation list" where
  "drop_group = (\<lambda>(n, ixs). map (\<lambda>i. Drop_index i n) ixs @ [Drop_table n])"

definition without_table :: "string \<Rightarrow> database \<Rightarrow> database" where
  "without_table n d = d\<lparr>db_tables := filter (\<lambda>t. table_name t \<noteq> n)
    (db_tables d)\<rparr>"

lemma run_drop_group:
  assumes "distinct_tables d" "find_table n (db_tables d) = Some t"
    and "distinct ixs" "set ixs \<subseteq> index_name ` set (table_indexes t)"
    and "\<And>u. u \<in> set (db_tables d) \<Longrightarrow> table_name u \<noteq> n
      \<Longrightarrow> n \<notin> set (targets u)"
  shows "migrate (drop_group (n, ixs)) d = Inr (without_table n d)"
  using assms
proof (induction ixs arbitrary: d t)
  case Nil
  then show ?case
    by (auto simp: drop_group_def drop_table_def without_table_def targets_references list_ex_iff)
next
  case (Cons i ixs)
  let ?f = "\<lambda>t. t\<lparr>table_indexes := filter (\<lambda>x. index_name x \<noteq> i)
    (table_indexes t)\<rparr>"
  have name: "keeps_name ?f" by (simp add: keeps_name_def)
  have "perform (Drop_index i n) d = Inr (locally n ?f d)"
    unfolding perform.simps drop_index_def by (rule alter_locally [where t = t]) (use Cons.prems
      in auto)
  moreover have "migrate (drop_group (n, ixs)) (locally n ?f d) = Inr (without_table n (locally n
    ?f d))"
  proof (rule Cons.IH [where t = "?f t"])
    show "find_table n (db_tables (locally n ?f d)) = Some (?f t)"
      using Cons.prems(2) name by (simp add: find_locally)
    show "set ixs \<subseteq> index_name ` set (table_indexes (?f t))"
      using Cons.prems(3,4) by fastforce
    show "n \<notin> set (targets u)" if "u \<in> set (db_tables (locally n ?f d))" "table_name u
      \<noteq> n" for u
      using that Cons.prems(5) by (auto simp: locally_def split: if_splits)
  qed (use Cons.prems name in auto)
  moreover have "without_table n (locally n ?f d) = without_table n d"
  proof -
    have "filter (\<lambda>t. table_name t \<noteq> n) (map (\<lambda>t. if table_name t = n then
      ?f t else t) ts)
        = filter (\<lambda>t. table_name t \<noteq> n) ts" for ts
      by (induction ts) simp_all
    from this [of "db_tables d"] show ?thesis
      by (simp add: without_table_def locally_def)
  qed
  ultimately show ?case by (simp add: drop_group_def)
qed


section \<open>Dropping the tables of a migration\<close>

lemma references_ordered_snoc:
  "references_ordered ts (us @ [t]) \<longleftrightarrow>
     references_ordered ts us \<and> list_all (reference_found (ts @ us @ [t])) (typed_references
       t)"
  by (induction us arbitrary: ts) auto

lemma reference_found_target:
  assumes "list_all (reference_found ts) (typed_references u)" "n \<in> set (targets u)"
  shows "n \<in> table_name ` set ts"
proof -
  obtain r where "r \<in> set (typed_references u)" "fst r = n"
    using assms(2) by (auto simp: targets_def)
  then have "find_table n ts \<noteq> None"
    using assms(1) by (auto simp: list_all_iff reference_found_def split: option.splits)
  then show ?thesis by (simp add: find_table_None)
qed

lemma ordered_targets:
  assumes "references_ordered ts us" "u \<in> set us" "n \<in> set (targets u)"
  shows "n \<in> table_name ` set (ts @ us)"
  using assms
proof (induction us arbitrary: ts)
  case (Cons v us)
  then consider "u = v" | "u \<in> set us" by auto
  then show ?case
  proof cases
    case 1
    then show ?thesis
      using Cons.prems reference_found_target [of "ts @ [v]" v n] by auto
  next
    case 2
    then show ?thesis
      using Cons.IH [of "ts @ [v]"] Cons.prems by auto
  qed
qed simp

definition drops :: "string \<times> string list \<Rightarrow> table \<Rightarrow> bool" where
  "drops = (\<lambda>(n, ixs) t. table_name t = n \<and> distinct ixs \<and> set ixs \<subseteq>
    set (map index_name (table_indexes t)))"

lemma run_drops:
  assumes "distinct (map table_name (base @ ts))" "references_ordered base ts"
    and "\<And>u n. u \<in> set base \<Longrightarrow> n \<in> set (targets u) \<Longrightarrow> n
      \<notin> table_name ` set ts"
    and "list_all2 drops ds (rev ts)"
  shows "migrate (concat (map drop_group ds)) (d\<lparr>db_tables := base @ ts\<rparr>) = Inr
    (d\<lparr>db_tables := base\<rparr>)"
  using assms
proof (induction ts arbitrary: ds rule: rev_induct)
  case (snoc t ts)
  obtain n ixs ds' where ds: "ds = (n, ixs) # ds'" and n: "table_name t = n"
    and ixs: "distinct ixs" "set ixs \<subseteq> index_name ` set (table_indexes t)" and ds':
      "list_all2 drops ds' (rev ts)"
    using snoc.prems(4) by (auto simp: list_all2_Cons2 drops_def)
  let ?d = "d\<lparr>db_tables := base @ ts @ [t]\<rparr>"
  have other: "table_name u \<noteq> n" if "u \<in> set (base @ ts)" for u
    using that snoc.prems(1) n by (metis (no_types) UnCI append.assoc distinct_append
      disjoint_insert(2)
        image_eqI list.set_map list.simps(15) list.simps(9) map_append set_append)
  have "migrate (drop_group (n, ixs)) ?d = Inr (without_table n ?d)"
  proof (rule run_drop_group [where t = t])
    show "find_table n (db_tables ?d) = Some t"
      using snoc.prems(1) n find_table_member [of ?d t] by (simp add: distinct_tables_def)
    show "n \<notin> set (targets u)" if u: "u \<in> set (db_tables ?d)" "table_name u \<noteq> n"
      for u
    proof
      assume target: "n \<in> set (targets u)"
      consider "u \<in> set base" | "u \<in> set ts" using u n by auto
      then show False
      proof cases
        case 1
        then show ?thesis using snoc.prems(3) [OF _ target] n by auto
      next
        case 2
        then have "n \<in> table_name ` set (base @ ts)"
          using ordered_targets [OF _ _ target] snoc.prems(2) by (simp add:
            references_ordered_snoc)
        then show ?thesis using other by auto
      qed
    qed
  qed (use snoc.prems(1) ixs in \<open>auto simp: distinct_tables_def\<close>)
  also have "without_table n ?d = d\<lparr>db_tables := base @ ts\<rparr>"
  proof -
    have "filter (\<lambda>t. table_name t \<noteq> n) (base @ ts) = base @ ts"
      using other by (intro filter_True) auto
    with n show ?thesis by (simp add: without_table_def)
  qed
  finally have "migrate (drop_group (n, ixs)) ?d = Inr (d\<lparr>db_tables := base @ ts\<rparr>)"
    .
  moreover have "migrate (concat (map drop_group ds')) (d\<lparr>db_tables := base @ ts\<rparr>) =
    Inr (d\<lparr>db_tables := base\<rparr>)"
    using snoc.prems ds' by (intro snoc.IH) (auto simp: references_ordered_snoc)
  ultimately show ?case
    by (simp add: ds migrate_append)
qed simp


section \<open>Dropping columns and foreign keys\<close>

text \<open>Every foreign key of the schema refers to \<open>id\<close> or to \<open>tenant_id,
  id\<close>.\<close>

definition plain_references :: "table \<Rightarrow> bool" where
  "plain_references t = list_all (\<lambda>(cs, n, rs). set rs \<subseteq> {''tenant_id'',
    ''id''}) (table_references t)"

definition without_columns :: "string list \<Rightarrow> table \<Rightarrow> table" where
  "without_columns cs t =
     t\<lparr>table_columns := filter (\<lambda>k. column_name k \<notin> set cs) (table_columns
       t),
       table_constraints := filter (\<lambda>k. set cs \<inter> set (constraint_columns k) = {})
         (table_constraints t),
       table_indexes := filter (\<lambda>i. set cs \<inter> set (index_columns i) = {})
         (table_indexes t),
       table_rows := map (\<lambda>r c. if c \<in> set cs then Null else r c) (table_rows
         t)\<rparr>"

lemma without_columns_name [simp]: "table_name (without_columns cs t) = table_name t"
  by (simp add: without_columns_def)

lemma keeps_name_without_columns [simp]: "keeps_name (without_columns cs)"
  by (simp add: keeps_name_def)

lemma without_columns_Cons: "without_columns (c # cs) t = without_columns cs (without_columns [c]
  t)"
  by (rule table.equality) (auto simp: without_columns_def fun_eq_iff intro!: filter_cong)

lemma without_columns_Nil: "without_columns [] t = t"
  by (simp add: without_columns_def)

lemma plain_subset:
  assumes "set (table_constraints t) \<subseteq> set (table_constraints u)" "plain_references u"
  shows "plain_references t"
proof -
  have "set (table_references t) \<subseteq> set (table_references u)"
    using assms(1) by (auto simp: table_references_def)
  with assms(2) show ?thesis unfolding plain_references_def list_all_iff by blast
qed

lemma without_columns_plain: "plain_references t \<Longrightarrow> plain_references
  (without_columns cs t)"
  by (erule plain_subset [rotated]) (auto simp: without_columns_def)

lemma run_drop_columns:
  assumes "distinct_tables d" "find_table n (db_tables d) = Some t"
    and "distinct cs" "set cs \<subseteq> column_name ` set (table_columns t)" "set cs \<inter>
      {''tenant_id'', ''id''} = {}"
    and "list_all plain_references (db_tables d)"
  shows "migrate (map (Drop_column n) cs) d = Inr (locally n (without_columns cs) d)"
  using assms
proof (induction cs arbitrary: d t)
  case Nil
  then show ?case by (simp add: without_columns_Nil locally_def map_idI)
next
  case (Cons c cs)
  let ?d = "locally n (without_columns [c]) d"
  have free: "\<not> list_ex (\<lambda>u. table_name u \<noteq> n \<and> list_ex (\<lambda>(cs, m,
    rs). m = n \<and> c \<in> set rs) (table_references u)) (db_tables d)"
    using Cons.prems(5,6) by (fastforce simp: list_ex_iff list_all_iff plain_references_def)
  have "perform (Drop_column n c) d = Inr ?d"
    unfolding perform.simps drop_column_def if_not_P [OF free]
    by (rule alter_locally [where t = t])
      (use Cons.prems(1,2,4) in \<open>auto simp: without_columns_def fun_upd_def intro!:
        filter_cong\<close>)
  moreover have "migrate (map (Drop_column n) cs) ?d = Inr (locally n (without_columns cs) ?d)"
  proof (rule Cons.IH [where t = "without_columns [c] t"])
    show "set cs \<subseteq> column_name ` set (table_columns (without_columns [c] t))"
      using Cons.prems(3,4) by (fastforce simp: without_columns_def)
    show "list_all plain_references (db_tables ?d)"
      using Cons.prems(6) by (auto simp: locally_def list_all_iff without_columns_plain)
  qed (use Cons.prems in \<open>auto simp: find_locally\<close>)
  ultimately show ?case
    by (simp add: without_columns_Cons [of c cs, abs_def])
qed

definition without_constraints :: "string list \<Rightarrow> table \<Rightarrow> table" where
  "without_constraints ns t =
     t\<lparr>table_constraints := filter (\<lambda>k. constraint_name k \<notin> set ns)
       (table_constraints t)\<rparr>"

lemma without_constraints_name [simp]: "table_name (without_constraints ns t) = table_name t"
  by (simp add: without_constraints_def)

lemma keeps_name_without_constraints [simp]: "keeps_name (without_constraints ns)"
  by (simp add: keeps_name_def)

lemma without_constraints_Cons:
  "without_constraints (n # ns) t = without_constraints ns (without_constraints [n] t)"
  by (auto simp: without_constraints_def intro!: filter_cong)

lemma run_drop_constraints:
  assumes "distinct_tables d" "find_table n (db_tables d) = Some t" "distinct ks"
    and "\<And>k. k \<in> set ks \<Longrightarrow> list_ex (is_foreign_key k) (table_constraints
      t)"
  shows "migrate (map (\<lambda>k. Drop_constraint k n) ks) d = Inr (locally n
    (without_constraints ks) d)"
  using assms
proof (induction ks arbitrary: d t)
  case Nil
  then show ?case by (simp add: without_constraints_def locally_def map_idI)
next
  case (Cons k ks)
  let ?d = "locally n (without_constraints [k]) d"
  have "perform (Drop_constraint k n) d = Inr ?d"
    unfolding perform.simps drop_constraint_def
    by (rule alter_locally [where t = t]) (use Cons.prems in \<open>auto simp:
      without_constraints_def\<close>)
  moreover have "migrate (map (\<lambda>k. Drop_constraint k n) ks) ?d = Inr (locally n
    (without_constraints ks) ?d)"
  proof (rule Cons.IH [where t = "without_constraints [k] t"])
    show "list_ex (is_foreign_key j) (table_constraints (without_constraints [k] t))" if "j \<in>
      set ks" for j
      using that Cons.prems(3) Cons.prems(4) [of j]
      by (auto simp: without_constraints_def list_ex_iff is_foreign_key_def)
  qed (use Cons.prems in \<open>auto simp: find_locally\<close>)
  ultimately show ?case
    by (simp add: without_constraints_Cons [of k ks, abs_def])
qed

text \<open>Undoing: a table gets back what it was.\<close>

lemma without_new_columns:
  assumes wf: "well_formed t" and new: "set cs \<inter> column_name ` set (table_columns t) = {}"
    and cols: "set (map column_name ks) \<subseteq> set cs" and rows: "\<forall>r\<in>set
      (table_rows t). \<forall>c\<in>set cs. r c = Null"
    and filled: "\<And>r c. c \<notin> set cs \<Longrightarrow> f r c = r c"
  shows "without_columns cs (t\<lparr>table_columns := table_columns t @ ks,
    table_rows := map f (table_rows t)\<rparr>) = t"
proof -
  have "filter (\<lambda>k. column_name k \<notin> set cs) (table_columns t) = table_columns t"
    using new by (intro filter_True) auto
  moreover have "filter (\<lambda>k. column_name k \<notin> set cs) ks = []"
    using cols by (auto simp: filter_empty_conv)
  moreover have "filter (\<lambda>k. set cs \<inter> set (constraint_columns k) = {})
    (table_constraints t) = table_constraints t"
    using wf new by (intro filter_True) (fastforce simp: well_formed_def has_columns_def
      list_all_iff)
  moreover have "filter (\<lambda>i. set cs \<inter> set (index_columns i) = {}) (table_indexes t)
    = table_indexes t"
    using wf new by (intro filter_True) (fastforce simp: well_formed_def has_columns_def
      list_all_iff)
  moreover have "map ((\<lambda>r c. if c \<in> set cs then Null else r c) \<circ> f) (table_rows
    t) = table_rows t"
    using rows filled by (intro map_idI) (auto simp: fun_eq_iff)
  ultimately show ?thesis by (simp add: without_columns_def)
qed

lemma without_new_constraints:
  assumes "constraint_name ` set ks \<subseteq> set ns" "set ns \<inter> constraint_name ` set
    (table_constraints t) = {}"
  shows "without_constraints ns (t\<lparr>table_constraints := table_constraints t @ ks\<rparr>) =
    t"
proof -
  have "filter (\<lambda>k. constraint_name k \<notin> set ns) (table_constraints t) =
    table_constraints t"
    using assms(2) by (intro filter_True) auto
  moreover have "filter (\<lambda>k. constraint_name k \<notin> set ns) ks = []"
    using assms(1) by (auto simp: filter_empty_conv)
  ultimately show ?thesis by (simp add: without_constraints_def)
qed


section \<open>The initial migration undone\<close>

definition initial_drops :: "(string \<times> string list) list" where
  "initial_drops =
     [(''registration_contacts'', [''ix_registration_contacts_tenant_registration'']),
      (''payment_transactions'', [''ix_payment_transactions_tenant_status_created'',
        ''uq_payment_transactions_active_registration'',
          ''ix_payment_transactions_tenant_registration'']),
      (''otp_challenges'', [''ix_otp_challenges_tenant_registration_created'',
        ''ix_otp_challenges_tenant_phone_created'', ''ix_otp_challenges_ip_created'']),
      (''gallery_items'', [''ix_gallery_items_tenant_album_order'']),
      (''staff_members'', [''ix_staff_members_tenant_active'']),
      (''sample_exams'', [''ix_sample_exams_tenant_public'']),
      (''registrations'', [''ix_registrations_tenant_status_created'',
        ''ix_registrations_tenant_phone'']),
      (''posts'', [''ix_posts_tenant_kind_public'']),
      (''honors'', [''ix_honors_tenant_public'']),
      (''gallery_albums'', [''ix_gallery_albums_tenant_public'']),
      (''exam_pricing_plans'', []), (''banners'', [''ix_banners_tenant_public'']),
      (''tenant_social_links'', []), (''tenant_profiles'', []), (''tenant_phones'', []),
      (''tenant_memberships'', [''ix_tenant_memberships_tenant_role'']),
      (''tenant_features'', [''ix_tenant_features_tenant_enabled'']),
      (''tenant_domains'', [''ix_tenant_domains_tenant_id'']), (''tenant_addresses'', []),
      (''registration_form_definitions'', []),
      (''refresh_tokens'', [''ix_refresh_tokens_user_active'']),
      (''pricing_plans'', [''ix_pricing_plans_tenant_public'']),
      (''media_assets'', [''ix_media_assets_tenant_created'']), (''honor_categories'', []),
      (''exam_offerings'', [''ix_exam_offerings_tenant_public'']),
      (''contact_requests'', [''ix_contact_requests_tenant_phone_created'',
        ''ix_contact_requests_tenant_ip_created'',
          ''ix_contact_requests_tenant_status_created'']),
      (''audit_events'', [''ix_audit_events_tenant_entity'', ''ix_audit_events_tenant_created'']),
      (''users'', []), (''tenants'', []), (''school_directory_entries'', []),
      (''authentication_attempts'', [''ix_auth_attempt_scope_created''])]"

lemma downgrade_initial_drops: "downgrade_bfd7cd1209eb = concat (map drop_group initial_drops)"
  by (simp add: downgrade_bfd7cd1209eb_def initial_drops_def drop_group_def)

lemma initial_table_structure [simp]:
  "table_indexes (initial_table t) = table_indexes t" "typed_references (initial_table t) =
    typed_references t"
  "table_references (initial_table t) = table_references t"
  by (simp_all add: initial_table_def)

lemmas built_index_sets = built_indexes [THEN arg_cong [where f = set],
  unfolded list.set_map list.set]

lemma initial_drops_fit: "list_all2 drops initial_drops (rev initial_tables)"
  by (simp add: initial_drops_def drops_def initial_tables_def create_initial_tables_def
      built_index_sets)

lemma references_ordered_map:
  assumes "\<And>t. table_name (f t) = table_name t \<and> typed_keys (f t) = typed_keys t \<and>
    typed_references (f t) = typed_references t"
  shows "references_ordered ts (map f us) = references_ordered ts us"
proof (induction us arbitrary: ts)
  case (Cons u us)
  have same: "list_all2 (\<lambda>t u. table_name t = table_name u \<and> typed_keys t =
    typed_keys u) (ts @ [f u]) (ts @ [u])"
    using assms by (auto intro!: list_all2_appendI list.rel_refl_strong)
  show ?case
    using assms by (simp add: Cons reference_found_cong [OF same] references_ordered_cong [OF
      same])
qed simp

theorem run_undo_initial:
  "migrate downgrade_bfd7cd1209eb (initial_schema roles now) = Inr ((empty_database roles
    now)\<lparr>schema_usage := True\<rparr>)"
proof -
  let ?d = "(empty_database roles now)\<lparr>schema_usage := True\<rparr>"
  have "distinct (map table_name ([] @ initial_tables))"
    using initial_names_distinct by (simp add: initial_tables_def comp_def)
  moreover have "references_ordered [] initial_tables"
    unfolding initial_tables_def using initial_references by (subst references_ordered_map)
      simp_all
  ultimately have "migrate (concat (map drop_group initial_drops)) (?d\<lparr>db_tables := [] @
    initial_tables\<rparr>)
      = Inr (?d\<lparr>db_tables := []\<rparr>)"
    using initial_drops_fit by (intro run_drops) simp_all
  then show ?thesis
    by (simp add: downgrade_initial_drops initial_schema_def empty_database_def)
qed


section \<open>The later migrations undone\<close>

definition build_drops :: "(string \<times> string list) list" where
  "build_drops =
     [(''site_build_requests'',
        [''uq_site_build_requests_one_running_per_tenant'',
          ''uq_site_build_requests_one_pending_per_tenant'',
         ''ix_site_build_requests_tenant_status_requested'', ''ix_site_build_requests_poll'']),
      (''post_media_references'',
        [''ix_post_media_references_tenant_post'', ''ix_post_media_references_tenant_media'']),
      (''tenant_site_states'', []), (''tenant_site_build_configs'', [])]"

definition post_keys :: "string list" where
  "post_keys =
     [''fk_posts_tenant_id_og_image_id_media_assets'', ''fk_posts_updated_by_users'',
       ''fk_posts_created_by_users'']"

definition post_fields :: "string list" where
  "post_fields =
     [''updated_by'', ''created_by'', ''seo_description'', ''seo_title'', ''og_image_id'',
       ''rendered_html'',
      ''content_document'']"

lemma downgrade_blog_drops:
  "downgrade_8f3a2d6b9c10 = concat (map drop_group build_drops)
     @ map (\<lambda>k. Drop_constraint k ''posts'') post_keys @ map (Drop_column ''posts'')
       post_fields"
  by (simp add: downgrade_8f3a2d6b9c10_def build_drops_def drop_group_def post_keys_def
    post_fields_def)

text \<open>What foreign keys refer to.\<close>

lemma built_plain: "list_all (\<lambda>g. plain_references (built g)) (create_initial_tables @
  create_build_tables)"
proof -
  have "plain_references t = list_all (\<lambda>(n, rs, ty). set rs \<subseteq> {''tenant_id'',
    ''id''}) (typed_references t)" for t
    by (auto simp: plain_references_def typed_references_def list_all_iff split: prod.splits)
  then show ?thesis by (simp add: create_initial_tables_def create_build_tables_def
    built_references)
qed

lemma with_references_table:
  "table_references (with_references fs t) = table_references t @ map (\<lambda>(n, u, cs,
    rs). (cs, u, rs)) fs"
proof -
  have "concat (map (reference_of \<circ> (\<lambda>(n, u, cs,
    rs). ForeignKeyConstraint n cs u rs None)) fs)
      = map (\<lambda>(n, u, cs, rs). (cs, u, rs)) fs"
    by (induction fs) auto
  then show ?thesis by (simp add: table_references_def)
qed

lemma targets_table: "targets t = map (\<lambda>(cs, n, rs). n) (table_references t)"
  by (auto simp: targets_def typed_references_def)

lemma blog_table_references:
  "table_references (blog_table now rows t) = table_references t
     @ (if table_name t = ''posts'' then map (\<lambda>(n, u, cs, rs). (cs, u,
       rs)) post_references else [])"
proof -
  have "table_references (t\<lparr>table_rows := rs\<rparr>) = table_references t" for t rs
    by (simp add: table_references_def)
  moreover have "table_references (with_columns now cs t) = table_references t" for cs t
    by (simp add: table_references_def)
  ultimately show ?thesis
    by (simp add: blog_table_def structured_posts_def with_references_table)
qed

lemma blog_table_plain: "plain_references t \<Longrightarrow> plain_references (blog_table now
  rows t)"
  by (auto simp: plain_references_def blog_table_references post_references_def)

lemma blog_table_targets:
  assumes "n \<in> set (targets (blog_table now rows (built g)))" "g \<in> set
    create_initial_tables"
  shows "n \<in> table_name ` set (map built create_initial_tables)"
proof (cases "n \<in> set (targets (built g))")
  case True
  then show ?thesis using ordered_targets [OF initial_references] assms(2) by fastforce
next
  case False
  then have "n \<in> {''users'', ''media_assets''}"
    using assms(1) by (auto simp: targets_table blog_table_references post_references_def split:
      if_splits)
  moreover have "table_name (built ddl_users) \<in> table_name ` set (map built
    create_initial_tables)"
    "table_name (built ddl_media_assets) \<in> table_name ` set (map built create_initial_tables)"
    by (auto simp: create_initial_tables_def simp del: built_names)
  ultimately show ?thesis by auto
qed

lemma build_drops_fit:
  "list_all2 drops build_drops (rev (map (\<lambda>g. granted (secured isolation_policy (built
    g))) create_build_tables))"
  by (simp add: build_drops_def drops_def create_build_tables_def built_index_sets)

lemma run_drop_build:
  "migrate (concat (map drop_group build_drops)) (blog_schema roles now rows)
    = Inr (locally ''posts'' (structured_posts now) (with_posts rows (initial_schema roles now)))"
proof -
  let ?d = "locally ''posts'' (structured_posts now) (with_posts rows (initial_schema roles now))"
  let ?f = "\<lambda>t. granted (secured isolation_policy t)"
  let ?new = "map ?f (map built create_build_tables)"
  have d: "?d\<lparr>db_tables := db_tables ?d\<rparr> = ?d" by simp
  have "list_all2 (\<lambda>t u. table_name t = table_name u \<and> typed_keys t = typed_keys u)
      (db_tables ?d) (map built create_initial_tables)"
    unfolding posts_before using built_well_formed
    by (auto simp: list.rel_map list_all_iff blog_table_keys intro!: list.rel_refl_strong)
  then have refs: "references_ordered (db_tables ?d) ?new"
    using references_ordered_cong build_references by (subst references_ordered_map) auto
  have "migrate (concat (map drop_group build_drops)) (?d\<lparr>db_tables := db_tables ?d @
    ?new\<rparr>)
      = Inr (?d\<lparr>db_tables := db_tables ?d\<rparr>)"
  proof (rule run_drops [OF _ refs])
    show "distinct (map table_name (db_tables ?d @ ?new))"
      using all_names_distinct unfolding posts_before by (simp add: comp_def)
    show "n \<notin> table_name ` set ?new" if u: "u \<in> set (db_tables ?d)" and target: "n
      \<in> set (targets u)" for u n
    proof -
      obtain g where "g \<in> set create_initial_tables" "u = blog_table now rows (built g)"
        using u unfolding posts_before by auto
      then have "n \<in> table_name ` set (map built create_initial_tables)"
        using target blog_table_targets by blast
      then show ?thesis using all_names_distinct by auto
    qed
    show "list_all2 drops build_drops (rev ?new)"
      using build_drops_fit by (simp add: comp_def)
  qed
  then show ?thesis by (simp add: d blog_schema_def Let_def comp_def)
qed


text \<open>Rows of the old shape: the columns the migration adds hold nothing yet.\<close>

definition old_post :: "table_row \<Rightarrow> bool" where
  "old_post r = list_all (\<lambda>c. r c = Null) post_fields"

lemma new_post_cells:
  assumes "c \<notin> set post_fields" shows "backfill_post (fill now post_columns r) c = r c"
  using assms by (auto simp: post_fields_def backfill_post_def post_columns_def)

lemma undo_structure:
  assumes wf: "well_formed t"
    and cols: "map column_name (table_columns t) = map column_name (table_columns (built
      ddl_posts))"
    and cons: "table_constraints t = table_constraints (built ddl_posts)"
    and rows: "\<forall>r\<in>set (table_rows t). old_post r"
  shows "without_columns post_fields (without_constraints post_keys (structured_posts now t)) = t"
proof -
  let ?t = "with_backfill (with_columns now post_columns t)"
  have "set post_keys \<inter> set (map constraint_name (table_constraints t)) = {}"
    unfolding cons posts_constraints by (simp add: post_keys_def)
  moreover have "constraint_name ` set (map (\<lambda>(n, u, cs,
    rs). ForeignKeyConstraint n cs u rs None) post_references)
      \<subseteq> set post_keys"
    by (simp add: post_references_def post_keys_def)
  ultimately have "without_constraints post_keys (structured_posts now t) = ?t"
    unfolding structured_posts_def with_references_def by (intro without_new_constraints) simp_all
  moreover have "?t = t\<lparr>table_columns := table_columns t @ post_columns,
      table_rows := map (\<lambda>r. backfill_post (fill now post_columns r)) (table_rows
        t)\<rparr>"
    by (simp add: with_backfill_def with_columns_def)
  moreover have "set post_fields \<inter> set (map column_name (table_columns t)) = {}"
    unfolding cols posts_columns by (simp add: post_fields_def)
  moreover have "set (map column_name post_columns) = set post_fields"
  proof -
    have "set [a, b, c, d, e, f, g] = set [g, f, e, d, c, b,
      a]" for a b c d e f g :: string by auto
    then show ?thesis unfolding post_columns_def post_fields_def list.map column.sel .
  qed
  ultimately show ?thesis
    using wf rows new_post_cells
    by (subst \<open>without_constraints _ _ = _\<close>, subst \<open>?t = _\<close>,
      intro without_new_columns)
      (auto simp: old_post_def list_all_iff)
qed


lemma posts_row_table:
  "find_table ''posts'' (db_tables (with_posts rows (initial_schema roles now)))
    = Some ((initial_table (built ddl_posts))\<lparr>table_rows := rows\<rparr>)"
  unfolding find_initial by (simp add: create_initial_tables_def)

lemma posts_row_wf: "well_formed ((initial_table (built ddl_posts))\<lparr>table_rows :=
  rows\<rparr>)"
proof -
  have "built ddl_posts \<in> set (map built create_initial_tables)"
    by (simp add: create_initial_tables_def)
  then have "well_formed (built ddl_posts)"
    using built_well_formed by (simp add: list_all_iff)
  then show ?thesis by (simp add: well_formed_def initial_table_def has_columns_def)
qed

lemma locally_id:
  assumes "distinct_tables d" "find_table n (db_tables d) = Some t" "f t = t"
  shows "locally n f d = d"
proof -
  have "u = t" if "u \<in> set (db_tables d)" "table_name u = n" for u
    using find_table_member [OF assms(1) that(1)] that assms(2) by simp
  then have "map (\<lambda>t. if table_name t = n then f t else t) (db_tables d) = db_tables d"
    using assms(3) by (intro map_idI) auto
  then show ?thesis by (simp add: locally_def)
qed

theorem run_undo_blog:
  assumes rows: "list_all old_post rows"
  shows "migrate downgrade_8f3a2d6b9c10 (blog_schema roles now rows) = Inr (with_posts rows
    (initial_schema roles now))"
proof -
  let ?d = "with_posts rows (initial_schema roles now)"
  let ?p = "(initial_table (built ddl_posts))\<lparr>table_rows := rows\<rparr>"
  let ?e = "locally ''posts'' (structured_posts now) ?d"
  let ?e' = "locally ''posts'' (without_constraints post_keys) ?e"
  let ?q = "structured_posts now ?p"
  have found: "find_table ''posts'' (db_tables ?e) = Some ?q"
    by (simp add: find_locally posts_row_table)
  have keys: "migrate (map (\<lambda>k. Drop_constraint k ''posts'') post_keys) ?e = Inr ?e'"
  proof (rule run_drop_constraints [OF _ found])
    show "list_ex (is_foreign_key k) (table_constraints ?q)" if "k \<in> set post_keys" for k
      using that by (auto simp: structured_posts_def post_references_def post_keys_def
        is_foreign_key_def)
  qed (simp_all add: initial_distinct post_keys_def)
  have plain: "list_all plain_references (db_tables ?e')"
  proof -
    have "plain_references (without_constraints ks t)" if "plain_references t" for ks t
      using that by (rule plain_subset [rotated]) (auto simp: without_constraints_def)
    moreover have "list_all plain_references (db_tables ?e)"
      unfolding posts_before using built_plain by (auto simp: list_all_iff intro:
        blog_table_plain)
    ultimately show ?thesis by (auto simp: locally_def list_all_iff)
  qed
  have "migrate (map (Drop_column ''posts'') post_fields) ?e' = Inr (locally ''posts''
    (without_columns post_fields) ?e')"
  proof (rule run_drop_columns [OF _ _ _ _ _ plain])
    show "find_table ''posts'' (db_tables ?e') = Some (without_constraints post_keys ?q)"
      by (simp add: find_locally posts_row_table keeps_name_def)
    show "set post_fields \<subseteq> column_name ` set (table_columns (without_constraints
      post_keys ?q))"
      by (auto simp: without_constraints_def structured_posts_def post_columns_def
        post_fields_def)
  qed (simp_all add: initial_distinct post_fields_def keeps_name_def)
  also have "locally ''posts'' (without_columns post_fields) ?e' = ?d"
  proof -
    have "without_columns post_fields (without_constraints post_keys (structured_posts now ?p)) =
      ?p"
      by (rule undo_structure [OF posts_row_wf]) (use rows in \<open>simp_all add:
        initial_table_def list_all_iff\<close>)
    then have "locally ''posts'' (\<lambda>t. without_columns post_fields (without_constraints
      post_keys (structured_posts now t))) ?d = ?d"
      by (intro locally_id [OF initial_distinct posts_row_table])
    then show ?thesis by (simp add: keeps_name_def)
  qed
  finally show ?thesis
    unfolding downgrade_blog_drops migrate_append run_drop_build sum.case keys by simp
qed

lemma downgrade_archive_columns:
  "downgrade_c6e4a12b7f90 =
     map (Drop_column ''staff_members'') [''archived_at''] @ map (Drop_column
       ''honor_categories'') [''archived_at'']"
  by (simp add: downgrade_c6e4a12b7f90_def)

lemma undo_archive_column:
  assumes "well_formed t" "''archived_at'' \<notin> set (map column_name (table_columns t))"
    "table_rows t = []"
  shows "without_columns [''archived_at''] (with_columns now [archived_at] t) = t"
  unfolding with_columns_def using assms
  by (intro without_new_columns) (auto simp: archived_at_def)

theorem run_undo_archive:
  "migrate downgrade_c6e4a12b7f90 (head_schema roles now rows) = Inr (blog_schema roles now rows)"
proof -
  let ?d = "blog_schema roles now rows"
  let ?add = "with_columns now [archived_at]" and ?del = "without_columns [''archived_at'']"
  let ?honors = "''honor_categories''" and ?staff = "''staff_members''"
  let ?e = "locally ?honors ?add ?d" and ?f = "head_schema roles now rows"
  note found = find_blog [OF archived_tables(1)] find_blog [OF archived_tables(2)]
  have head: "?f = locally ?staff ?add ?e" by (simp add: head_schema_def archive_markers_def)
  have plain: "list_all plain_references (db_tables ?d)"
  proof -
    have "plain_references (granted (secured isolation_policy t))" if "plain_references t" for t
      using that by (rule plain_subset [rotated]) simp
    then show ?thesis
      unfolding blog_schema_tables using built_plain by (auto simp: list_all_iff intro:
        blog_table_plain)
  qed
  have kept: "list_all plain_references (db_tables (locally n ?add x))" if "list_all
    plain_references (db_tables x)" for n x
    using that by (auto simp: locally_def list_all_iff intro: plain_subset [rotated])
  have undo: "?del (?add (blog_table now rows t)) = blog_table now rows t"
    if "t \<in> {built ddl_honor_categories, built ddl_staff_members}" for t
  proof (rule undo_archive_column)
    have "t \<in> set (map built create_initial_tables)"
      using that by (auto simp: create_initial_tables_def)
    then obtain g where g: "t = built g" "is_group g" "well_formed t"
      using built_well_formed built_groups by (auto simp: list_all_iff)
    have name: "table_name t \<noteq> ''posts''" using that by auto
    show "well_formed (blog_table now rows t)"
      using g(3) name by (simp add: blog_table_def initial_table_def well_formed_def)
    show "table_rows (blog_table now rows t) = []"
      using built_fresh(2) [OF g(2)] g(1) name by (simp add: blog_table_def initial_table_def)
    show "''archived_at'' \<notin> set (map column_name (table_columns (blog_table now rows t)))"
      using that archived_at_new by (auto simp: blog_columns)
  qed
  have staff: "migrate (map (Drop_column ?staff) [''archived_at'']) ?f = Inr (locally ?staff ?del
    ?f)"
    unfolding head
    by (rule run_drop_columns [where t = "?add (blog_table now rows (built ddl_staff_members))"])
      (use found blog_schema_distinct plain kept in \<open>auto simp: find_locally
        archived_at_def\<close>)
  have e: "locally ?staff ?del ?f = ?e"
  proof -
    have "locally ?staff (\<lambda>t. ?del (?add t)) ?e = ?e"
      by (rule locally_id [where t = "blog_table now rows (built ddl_staff_members)"])
        (use found blog_schema_distinct undo in \<open>simp_all add: find_locally\<close>)
    then show ?thesis by (simp add: head keeps_name_def del: locally_locally)
        (simp add: keeps_name_def)
  qed
  have honors: "migrate (map (Drop_column ?honors) [''archived_at'']) ?e = Inr (locally ?honors
    ?del ?e)"
    by (rule run_drop_columns [where t = "?add (blog_table now rows (built
      ddl_honor_categories))"])
      (use found blog_schema_distinct plain kept in \<open>auto simp: find_locally
        archived_at_def\<close>)
  have "locally ?honors (\<lambda>t. ?del (?add t)) ?d = ?d"
    by (rule locally_id [where t = "blog_table now rows (built ddl_honor_categories)"])
      (use found blog_schema_distinct undo in simp_all)
  then have "locally ?honors ?del ?e = ?d" by simp
  then show ?thesis
    unfolding downgrade_archive_columns migrate_append staff sum.case e honors by simp
qed

end
