(* ===== verification/Backfill.thy ===== *)
theory Backfill
  imports MigrationBlog
begin

text \<open>
  The documents and the HTML the second migration writes for the posts that exist, against the
  code that will read and replace them: \<open>validate_document\<close> and \<open>render_document\<close> of
  \<open>blog/rich_text.py\<close>.
\<close>

text \<open>The three nested replacements escape what the renderer escapes: the ampersand goes first.\<close>

lemma replace_char_append: "replace_char c by (s @ s') = replace_char c by s @ replace_char c by s'"
  by (simp add: replace_char_def)

lemma replacements_escape:
  "replace_char 62 (lit ''&gt;'') (replace_char 60 (lit ''&lt;'') (replace_char 38 (lit ''&amp;'') s)) = escape False s"
proof (induction s)
  case (Cons c s)
  have "replace_char 62 (lit ''&gt;'') (replace_char 60 (lit ''&lt;'') (replace_char 38 (lit ''&amp;'') [c])) = escape_char False c"
    by (simp add: replace_char_def escape_char_def)
  then show ?case
    using Cons replace_char_append [of 38 _ "[c]" s]
    by (simp add: replace_char_append escape_def)
qed (simp add: replace_char_def escape_def)

lemma backfill_html_element:
  "body \<noteq> [] \<Longrightarrow> backfill_html body = element (lit ''p'') [] (escape False body)"
  unfolding backfill_html_def replacements_escape by (simp add: element_def)

lemma paragraph_document:
  assumes "body \<noteq> []"
  shows "backfill_document body = JObj [(lit ''type'', JStr (lit ''doc'')),
    (lit ''content'', JArr [JObj [(lit ''type'', JStr (lit ''paragraph'')), (lit ''content'',
      JArr [JObj [(lit ''type'', JStr (lit ''text'')), (lit ''text'', JStr body)]])]])]"
  using assms by (simp add: backfill_document_def)

definition paragraph_entries :: "ustr \<Rightarrow> entries" where
  "paragraph_entries body =
     [(lit ''type'', JStr (lit ''doc'')),
      (lit ''content'', JArr [JObj [(lit ''type'', JStr (lit ''paragraph'')), (lit ''content'',
         JArr [JObj [(lit ''type'', JStr (lit ''text'')), (lit ''text'', JStr body)]])]])]"

lemma validate_paragraph:
  assumes "body \<noteq> []"
  shows "validate_document split require_content (backfill_document body) =
    (if length body > MAX_TEXT_CHARS then refuse ''rich-text document is too large''
     else if require_content \<and> strip body = [] then refuse ''rich-text document cannot be empty when published''
     else Inr (paragraph_entries body))"
  using assms
  by (simp add: paragraph_document paragraph_entries_def validate_document_def check_keys_def get_def get_or_def
      root_types_def block_types_def allowed_children_def check_container_def validate_text_def Let_def
      MAX_DEPTH_def MAX_NODES_def list_types_def)

lemma render_paragraph:
  assumes "body \<noteq> []"
  shows "render_document py_repr split (paragraph_entries body) = Inr (backfill_html body)"
  using assms
  by (simp add: paragraph_entries_def render_document_def children_of_def get_or_def item_def get_def
      wrap_children_def render_text_def iterate_def backfill_html_element element_def)

lemma backfill_empty:
  "validate_document split require_content (backfill_document []) =
     (if require_content then refuse ''rich-text document cannot be empty when published''
      else Inr [(lit ''type'', JStr (lit ''doc'')), (lit ''content'', JArr [])])"
  "render_document py_repr split [(lit ''type'', JStr (lit ''doc'')), (lit ''content'', JArr [])] = Inr (backfill_html [])"
  by (simp_all add: backfill_document_def backfill_html_def validate_document_def check_keys_def get_def get_or_def
      render_document_def children_of_def)

text \<open>
  C37: The HTML the blog migration writes for an existing post is what \<open>render_document\<close> makes of the
  document it writes for it, for every body that \<open>validate_document\<close> accepts as a draft, and those
  are the bodies of at most \<open>MAX_TEXT_CHARS\<close> characters. As the content of a published post the
  document is accepted exactly when the body also has a character that is not white space.
\<close>

theorem backfill_matches_renderer:
  "case validate_document split False (backfill_document body) of
     Inl e \<Rightarrow> length body > MAX_TEXT_CHARS \<and> e = RichTextError ''rich-text document is too large''
   | Inr doc \<Rightarrow>
       length body \<le> MAX_TEXT_CHARS \<and> backfill_document body = JObj doc
       \<and> render_document py_repr split doc = Inr (backfill_html body)
       \<and> (validate_document split True (backfill_document body) = Inr doc \<longleftrightarrow> strip body \<noteq> [])"
proof (cases "body = []")
  case True
  then show ?thesis
    using backfill_empty(1) [of split] backfill_empty(2) [of py_repr split] by (simp add: strip_def strip_where_def lstrip_where_def rstrip_where_def backfill_document_def)
next
  case False
  then show ?thesis
    using validate_paragraph [of body split] render_paragraph [of body py_repr split]
    by (simp add: paragraph_document paragraph_entries_def)
qed

end
