(* ===== verification/SchemaProperties.thy ===== *)
theory SchemaProperties
  imports MigrationRollback Backfill
begin

text \<open>
  What the migrations guarantee: the database they build is the one the mapped classes declare,
  its tenant-owned tables are isolated for the application's role, foreign keys never cross
  tenants, existing posts survive the blog migration with their text, and the downgrades restore
  what the upgrades found.
\<close>

section \<open>The schema is the declared one\<close>

lemma class_tables:
  "class_table class_AuditEvent = ''audit_events''"
  "class_table class_User = ''users''"
  "class_table class_TenantMembership = ''tenant_memberships''"
  "class_table class_RefreshToken = ''refresh_tokens''"
  "class_table class_AuthenticationAttempt = ''authentication_attempts''"
  "class_table class_Banner = ''banners''"
  "class_table class_Post = ''posts''"
  "class_table class_PostMediaReference = ''post_media_references''"
  "class_table class_HonorCategory = ''honor_categories''"
  "class_table class_Honor = ''honors''"
  "class_table class_StaffMember = ''staff_members''"
  "class_table class_ContactRequest = ''contact_requests''"
  "class_table class_SampleExam = ''sample_exams''"
  "class_table class_GalleryAlbum = ''gallery_albums''"
  "class_table class_GalleryItem = ''gallery_items''"
  "class_table class_SchoolDirectoryEntry = ''school_directory_entries''"
  "class_table class_ExamOffering = ''exam_offerings''"
  "class_table class_PricingPlan = ''pricing_plans''"
  "class_table class_ExamPricingPlan = ''exam_pricing_plans''"
  "class_table class_MediaAsset = ''media_assets''"
  "class_table class_PaymentTransaction = ''payment_transactions''"
  "class_table class_RegistrationFormDefinition = ''registration_form_definitions''"
  "class_table class_Registration = ''registrations''"
  "class_table class_RegistrationContact = ''registration_contacts''"
  "class_table class_OTPChallenge = ''otp_challenges''"
  "class_table class_TenantSiteState = ''tenant_site_states''"
  "class_table class_TenantSiteBuildConfig = ''tenant_site_build_configs''"
  "class_table class_SiteBuildRequest = ''site_build_requests''"
  "class_table class_Tenant = ''tenants''"
  "class_table class_TenantDomain = ''tenant_domains''"
  "class_table class_TenantFeature = ''tenant_features''"
  "class_table class_TenantProfile = ''tenant_profiles''"
  "class_table class_TenantAddress = ''tenant_addresses''"
  "class_table class_TenantPhone = ''tenant_phones''"
  "class_table class_TenantSocialLink = ''tenant_social_links''"
  by (simp_all add: class_AuditEvent_def class_User_def class_TenantMembership_def
                    class_RefreshToken_def class_AuthenticationAttempt_def class_Banner_def
                    class_Post_def class_PostMediaReference_def class_HonorCategory_def
                    class_Honor_def class_StaffMember_def class_ContactRequest_def
                    class_SampleExam_def class_GalleryAlbum_def class_GalleryItem_def
                    class_SchoolDirectoryEntry_def class_ExamOffering_def class_PricingPlan_def
                    class_ExamPricingPlan_def class_MediaAsset_def class_PaymentTransaction_def
                    class_RegistrationFormDefinition_def class_Registration_def
                    class_RegistrationContact_def class_OTPChallenge_def
                    class_TenantSiteState_def class_TenantSiteBuildConfig_def
                    class_SiteBuildRequest_def class_Tenant_def class_TenantDomain_def
                    class_TenantFeature_def class_TenantProfile_def class_TenantAddress_def
                    class_TenantPhone_def class_TenantSocialLink_def)

lemma find_head:
  "find_table n (db_tables (head_schema roles now rows)) =
     (case find_table n (map built create_initial_tables) of
        Some t \<Rightarrow> Some (head_table now rows t)
      | None \<Rightarrow> map_option (\<lambda>t. granted (secured isolation_policy t)) (find_table n (map built create_build_tables)))"
proof -
  have "find_table n (map (head_table now rows) ts) = map_option (head_table now rows) (find_table n ts)"
    "find_table n (map (\<lambda>t. granted (secured isolation_policy t)) ts)
      = map_option (\<lambda>t. granted (secured isolation_policy t)) (find_table n ts)" for ts
    by (rule find_table_map; simp)+
  moreover have "map (\<lambda>g. granted (secured isolation_policy (built g))) create_build_tables
      = map (\<lambda>t. granted (secured isolation_policy t)) (map built create_build_tables)"
    by simp
  ultimately show ?thesis
    unfolding head_schema_tables by (simp only: find_table_append) (simp split: option.split)
qed

definition class_agrees :: "table list \<Rightarrow> model_class \<Rightarrow> bool" where
  "class_agrees ts c =
     (case find_table (class_table c) ts of None \<Rightarrow> False | Some t \<Rightarrow> model_agrees c t)"

lemma initial_classes_agree:
  "class_agrees (db_tables (head_schema roles now rows)) class_AuditEvent"
  "class_agrees (db_tables (head_schema roles now rows)) class_User"
  "class_agrees (db_tables (head_schema roles now rows)) class_TenantMembership"
  "class_agrees (db_tables (head_schema roles now rows)) class_RefreshToken"
  "class_agrees (db_tables (head_schema roles now rows)) class_AuthenticationAttempt"
  "class_agrees (db_tables (head_schema roles now rows)) class_Banner"
  "class_agrees (db_tables (head_schema roles now rows)) class_Post"
  "class_agrees (db_tables (head_schema roles now rows)) class_HonorCategory"
  "class_agrees (db_tables (head_schema roles now rows)) class_Honor"
  "class_agrees (db_tables (head_schema roles now rows)) class_StaffMember"
  "class_agrees (db_tables (head_schema roles now rows)) class_ContactRequest"
  "class_agrees (db_tables (head_schema roles now rows)) class_SampleExam"
  "class_agrees (db_tables (head_schema roles now rows)) class_GalleryAlbum"
  "class_agrees (db_tables (head_schema roles now rows)) class_GalleryItem"
  "class_agrees (db_tables (head_schema roles now rows)) class_SchoolDirectoryEntry"
  "class_agrees (db_tables (head_schema roles now rows)) class_ExamOffering"
  "class_agrees (db_tables (head_schema roles now rows)) class_PricingPlan"
  "class_agrees (db_tables (head_schema roles now rows)) class_ExamPricingPlan"
  "class_agrees (db_tables (head_schema roles now rows)) class_MediaAsset"
  "class_agrees (db_tables (head_schema roles now rows)) class_PaymentTransaction"
  "class_agrees (db_tables (head_schema roles now rows)) class_RegistrationFormDefinition"
  "class_agrees (db_tables (head_schema roles now rows)) class_Registration"
  "class_agrees (db_tables (head_schema roles now rows)) class_RegistrationContact"
  "class_agrees (db_tables (head_schema roles now rows)) class_OTPChallenge"
  "class_agrees (db_tables (head_schema roles now rows)) class_Tenant"
  "class_agrees (db_tables (head_schema roles now rows)) class_TenantDomain"
  "class_agrees (db_tables (head_schema roles now rows)) class_TenantFeature"
  "class_agrees (db_tables (head_schema roles now rows)) class_TenantProfile"
  "class_agrees (db_tables (head_schema roles now rows)) class_TenantAddress"
  "class_agrees (db_tables (head_schema roles now rows)) class_TenantPhone"
  "class_agrees (db_tables (head_schema roles now rows)) class_TenantSocialLink"
  by (simp_all add: class_agrees_def find_head class_tables create_initial_tables_def plain_agrees
      built_agrees extended_agrees)

lemma build_classes_agree:
  "class_agrees (db_tables (head_schema roles now rows)) class_PostMediaReference"
  "class_agrees (db_tables (head_schema roles now rows)) class_TenantSiteState"
  "class_agrees (db_tables (head_schema roles now rows)) class_TenantSiteBuildConfig"
  "class_agrees (db_tables (head_schema roles now rows)) class_SiteBuildRequest"
  by (simp_all add: class_agrees_def find_head class_tables create_initial_tables_def
      create_build_tables_def build_agrees built_agrees)

lemma all_classes_agree: "list_all (class_agrees (db_tables (head_schema roles now rows))) all_models"
  by (simp add: all_models_def initial_classes_agree build_classes_agree)

text \<open>
  C35: Running the three migrations on an empty database fails only where the first one demands a
  provisioned application role without dangerous attributes. Otherwise the database has exactly
  one table per mapped class of the code, and each table has the declared columns with their
  types, nullability and server defaults, the declared constraints under the names of the naming
  convention and the declared indexes, and nothing else, but for three differences: the server
  default of \<open>posts.content_document\<close> and the unique constraints of \<open>tenant_features\<close> and
  \<open>tenant_memberships\<close>, which no class declares.
\<close>

theorem migrations_build_the_models:
  "case require_application_role (empty_database roles now) of
     Inl e \<Rightarrow> migrate upgrade_head (empty_database roles now) = Inl e
   | Inr _ \<Rightarrow>
       (\<exists>d. migrate upgrade_head (empty_database roles now) = Inr d
          \<and> length (db_tables d) = length all_models
          \<and> distinct (map table_name (db_tables d)) \<and> distinct (map class_table all_models)
          \<and> list_all (class_agrees (db_tables d)) all_models)"
proof (cases "require_application_role (empty_database roles now)")
  case (Inr d)
  have "distinct (map table_name (db_tables (head_schema roles now [])))"
    using all_names_distinct unfolding head_schema_tables by (simp add: comp_def)
  moreover have "length (db_tables (head_schema roles now [])) = length all_models"
    unfolding head_schema_tables by (simp add: create_initial_tables_def create_build_tables_def all_models_def)
  moreover have "distinct (map class_table all_models)"
    by (simp add: all_models_def class_tables)
  ultimately show ?thesis
    using Inr run_head [of roles now] all_classes_agree by simp
qed (simp add: run_head)


section \<open>A concrete server\<close>

definition app_role :: role where
  "app_role =
     \<lparr>rolname = ''kanoon_app'', rolsuper = False, rolbypassrls = False, rolcreatedb = False,
      rolcreaterole = False, rolcanlogin = False\<rparr>"

lemma app_role_accepted: "require_application_role (empty_database [app_role] now) = Inr (empty_database [app_role] now)"
  by (simp add: require_application_role_def empty_database_def app_role_def)

lemma head_migrated: "migrate upgrade_head (empty_database [app_role] now) = Inr (head_schema [app_role] now [])"
  by (simp add: run_head app_role_accepted)

lemma build_table_at_head:
  assumes "g \<in> set create_build_tables"
  shows "granted (secured isolation_policy (built g)) \<in> set (db_tables (head_schema roles now rows))"
  unfolding head_schema_tables using assms by auto

section \<open>Isolation\<close>

text \<open>
  C3: In every tenant-owned table of a migrated database, the rows a statement of the
  application's role sees in a session are those of the session's tenant, and none in a session
  without a tenant, even on a pooled connection whose setting an earlier transaction has left
  empty: the row-level security of the migrations is the \<open>visible\<close> that every table operation of
  this development is built on. The law assumed of PostgreSQL is that its \<open>uuid\<close> input reads
  back what \<open>str\<close> writes.
\<close>

theorem app_sessions_see_visible:
  assumes "migrate upgrade_head (empty_database roles now) = Inr d"
    and "t \<in> set (db_tables d)" "tenant_owned t" "rl \<in> set (db_roles d)" "rolname rl = ''kanoon_app''"
    and "reads_uuids uuid_in" "valid_session cur" "leftover \<in> {None, Some []}"
    and "list_all (\<lambda>r. r ''tenant_id'' = Uuid (row_tenant r)) rows"
  shows "filter (sees uuid_in (session_settings leftover cur) rl t) rows = visible row_tenant cur rows"
proof -
  obtain d' where "require_application_role (empty_database roles now) = Inr d'"
    using migrated_head(2) [OF assms(1)] by auto
  moreover have "rl \<in> set (db_roles (empty_database roles now))"
    using assms(4) migrated_head(1) [OF assms(1)] by (simp add: empty_database_def)
  ultimately have role: "\<not> rolsuper rl" "\<not> rolbypassrls rl"
    using required_role assms(5) by blast+
  have "isolated t"
    using head_isolated assms(2,3) migrated_head(1) [OF assms(1)] by blast
  then have "sees uuid_in (session_settings leftover cur) rl t r \<longleftrightarrow> tenant_isolation_policy cur (row_tenant r)"
    if "r \<in> set rows" for r
    using isolated_sees [where r = r and u = "row_tenant r"] role assms(6-9) that by (simp add: list_all_iff)
  then show ?thesis
    unfolding visible_def by (rule filter_cong [OF refl])
qed

theorem app_sessions_see_visible_witness:
  "filter (sees (\<lambda>s. case parse_uuid s of Inl _ \<Rightarrow> None | Inr u \<Rightarrow> Some u) (session_settings None (Some 7)) app_role
      (granted (secured isolation_policy (built ddl_site_build_requests)))) [\<lambda>_. Uuid 7, \<lambda>_. Uuid 8]
    = visible row_tenant (Some 7) [\<lambda>_. Uuid 7, \<lambda>_. Uuid 8]"
proof (rule app_sessions_see_visible [OF head_migrated [of 0]])
  show "granted (secured isolation_policy (built ddl_site_build_requests)) \<in> set (db_tables (head_schema [app_role] 0 []))"
    by (rule build_table_at_head) (simp add: create_build_tables_def)
  show "tenant_owned (granted (secured isolation_policy (built ddl_site_build_requests)))"
    by (simp add: tenant_owned_def global_tables_def ddl_site_build_requests_def new_table_def)
qed (simp_all add: app_role_def reads_uuids_def valid_session_def parse_uuid_str_core row_tenant_def)

section \<open>References\<close>

definition scoped :: "string list \<times> string \<times> string list \<Rightarrow> bool" where
  "scoped = (\<lambda>(cs, n, rs). n \<in> {''tenants'', ''users'', ''school_directory_entries'', ''refresh_tokens''}
     \<or> (cs \<noteq> [] \<and> rs \<noteq> [] \<and> hd cs = ''tenant_id'' \<and> hd rs = ''tenant_id''))"

lemma built_scoped:
  "list_all (\<lambda>g. list_all scoped (table_references (built g))) (create_initial_tables @ create_build_tables)"
  by (simp add: create_initial_tables_def create_build_tables_def group_defs new_table_def
      table_references_def scoped_def)

lemma head_scoped:
  assumes "t \<in> set (db_tables (head_schema roles now rows))" "f \<in> set (table_references t)"
  shows "scoped f"
proof -
  have head: "table_references (head_table now rows u) = table_references (blog_table now rows u)" for u
    by (simp add: head_table_def table_references_def)
  have posts: "list_all (\<lambda>x. scoped (case x of (n, u, cs, rs) \<Rightarrow> (cs, u, rs))) post_references"
    by (simp add: post_references_def scoped_def)
  consider g where "g \<in> set create_initial_tables" "t = head_table now rows (built g)"
    | g where "g \<in> set create_build_tables" "t = granted (secured isolation_policy (built g))"
    using assms(1) unfolding head_schema_tables by auto
  then show ?thesis
    using assms(2) built_scoped posts
    by cases (auto simp: head blog_table_references list_all_iff split: if_splits)
qed

lemma owned_names:
  assumes "t \<in> set (db_tables (head_schema roles now rows))" "tenant_owned t"
  shows "table_name t \<in> set (tenant_tables @ build_tables)"
proof -
  consider g where "g \<in> set create_initial_tables" "t = head_table now rows (built g)"
    | g where "g \<in> set create_build_tables" "t = granted (secured isolation_policy (built g))"
    using assms(1) unfolding head_schema_tables by auto
  then show ?thesis
    using assms(2) built_owned
    by cases (auto simp: head_table_owned list_all_iff build_tables_set)
qed

text \<open>
  C36: A foreign key between two tenant-owned tables of a migrated database compares the tenants of
  the rows as well: a row it accepts and the row it refers to belong to the same tenant. No
  reference leads from one tenant's data into another's.
\<close>

theorem references_stay_in_tenant:
  assumes "migrate upgrade_head (empty_database roles now) = Inr d"
    and "t \<in> set (db_tables d)" "u \<in> set (db_tables d)" "tenant_owned u"
    and "(cs, table_name u, rs) \<in> set (table_references t)" "row_matches cs rs r r'"
  shows "r ''tenant_id'' = r' ''tenant_id''"
proof -
  note d = migrated_head(1) [OF assms(1)]
  have "table_name u \<notin> {''tenants'', ''users'', ''school_directory_entries'', ''refresh_tokens''}"
    using owned_names [of u] assms(3,4) d by (auto simp: tenant_tables_def build_tables_def)
  moreover have "scoped (cs, table_name u, rs)"
    using head_scoped assms(2,5) d by blast
  ultimately have "cs \<noteq> []" "rs \<noteq> []" "hd cs = ''tenant_id''" "hd rs = ''tenant_id''"
    by (simp_all add: scoped_def)
  with assms(6) show ?thesis
    by (cases cs; cases rs) (auto simp: row_matches_def)
qed

definition sample_reference :: table_row where
  "sample_reference = (\<lambda>_. Null)(''tenant_id'' := Uuid 3, ''media_id'' := Uuid 5, ''id'' := Uuid 9)"

definition sample_media :: table_row where
  "sample_media = (\<lambda>_. Null)(''tenant_id'' := Uuid 3, ''id'' := Uuid 5)"

lemma media_at_head:
  "head_table now rows (built ddl_media_assets) \<in> set (db_tables (head_schema roles now rows))"
  unfolding head_schema_tables by (simp add: create_initial_tables_def)

theorem references_stay_in_tenant_witness:
  "sample_reference ''tenant_id'' = sample_media ''tenant_id''"
proof (rule references_stay_in_tenant [OF head_migrated [of 0] _ media_at_head])
  show "granted (secured isolation_policy (built ddl_post_media_references)) \<in> set (db_tables (head_schema [app_role] 0 []))"
    by (rule build_table_at_head) (simp add: create_build_tables_def)
  show "tenant_owned (head_table 0 [] (built ddl_media_assets))"
    unfolding head_table_owned
    by (simp add: tenant_owned_def global_tables_def ddl_media_assets_def new_table_def)
  show "([''tenant_id'', ''media_id''], table_name (head_table 0 [] (built ddl_media_assets)), [''tenant_id'', ''id''])
      \<in> set (table_references (granted (secured isolation_policy (built ddl_post_media_references))))"
    by (simp add: ddl_post_media_references_def new_table_def table_references_def)
  show "row_matches [''tenant_id'', ''media_id''] [''tenant_id'', ''id''] sample_reference sample_media"
    by (simp add: row_matches_def sample_reference_def sample_media_def)
qed

section \<open>Existing posts\<close>

text \<open>What the migration of the blog says of a post it found.\<close>

definition post_migrated :: "table_row \<Rightarrow> table_row \<Rightarrow> bool" where
  "post_migrated r r' =
     (r' ''content_document'' = Json (backfill_document (cell_text (r ''body'')))
      \<and> r' ''rendered_html'' = Text (backfill_html (cell_text (r ''body'')))
      \<and> list_all (\<lambda>c. r' c = r c) (map column_name (table_columns (built ddl_posts))))"

lemma fill_migrates: "post_migrated r (backfill_post (fill now post_columns r))"
  unfolding post_migrated_def posts_columns by (simp add: backfill_post_def post_columns_def)

lemma find_posts_blog:
  "find_table ''posts'' (db_tables (blog_schema roles now rows)) = Some (blog_table now rows (built ddl_posts))"
  by (rule find_blog) (simp add: create_initial_tables_def)

text \<open>
  The blog migration reaches every existing post of every tenant, although row-level security
  is forced on the table it runs against: each row keeps all of its old columns and gets the
  document and the HTML of its body.
\<close>

theorem blog_migration_keeps_posts:
  "\<exists>d p. migrate upgrade_bfd7cd1209eb (empty_database [app_role] now) = Inr (initial_schema [app_role] now)
     \<and> migrate upgrade_8f3a2d6b9c10 (with_posts rows (initial_schema [app_role] now)) = Inr d
     \<and> find_table ''posts'' (db_tables d) = Some p
     \<and> list_all2 post_migrated rows (table_rows p) \<and> force_row_security p"
proof -
  have "table_rows (blog_table now rows (built ddl_posts)) = map (\<lambda>r. backfill_post (fill now post_columns r)) rows"
    by (simp add: blog_table_def structured_posts_def)
  then have "list_all2 post_migrated rows (table_rows (blog_table now rows (built ddl_posts)))"
    by (simp add: list.rel_map fill_migrates list.rel_refl)
  moreover have "force_row_security (blog_table now rows (built ddl_posts))"
    by (simp add: blog_table_def structured_posts_def initial_table_def tenant_tables_def)
  ultimately show ?thesis
    using run_initial [of "[app_role]" now] run_blog find_posts_blog app_role_accepted by simp
qed

section \<open>Rolling back\<close>

text \<open>
  From the database the first migration builds, with any posts in it, the two later upgrades
  followed by their downgrades give back that database, rows included; the downgrade of the first
  migration then leaves an empty one, apart from the usage grant on the schema.
\<close>

theorem downgrades_restore:
  assumes "migrate upgrade_bfd7cd1209eb (empty_database roles now) = Inr d" "list_all old_post rows"
  shows "migrate (upgrade_8f3a2d6b9c10 @ upgrade_c6e4a12b7f90 @ downgrade_c6e4a12b7f90 @ downgrade_8f3a2d6b9c10)
        (with_posts rows d) = Inr (with_posts rows d)
      \<and> migrate downgrade_bfd7cd1209eb d = Inr ((empty_database roles now)\<lparr>schema_usage := True\<rparr>)"
proof -
  have d: "d = initial_schema roles now"
    using assms(1) by (simp add: run_initial split: sum.splits)
  show ?thesis
    using run_undo_blog [OF assms(2)]
    by (simp add: d migrate_append run_blog run_archive run_undo_archive run_undo_initial)
qed

definition sample_old_post :: table_row where
  "sample_old_post = (\<lambda>_. Null)(''tenant_id'' := Uuid 3, ''id'' := Uuid 5, ''body'' := Text (lit ''a < b''))"

theorem downgrades_restore_witness:
  "migrate (upgrade_8f3a2d6b9c10 @ upgrade_c6e4a12b7f90 @ downgrade_c6e4a12b7f90 @ downgrade_8f3a2d6b9c10)
      (with_posts [sample_old_post] (initial_schema [app_role] 0))
      = Inr (with_posts [sample_old_post] (initial_schema [app_role] 0))
    \<and> migrate downgrade_bfd7cd1209eb (initial_schema [app_role] 0)
      = Inr ((empty_database [app_role] 0)\<lparr>schema_usage := True\<rparr>)"
proof (rule downgrades_restore)
  show "migrate upgrade_bfd7cd1209eb (empty_database [app_role] 0) = Inr (initial_schema [app_role] 0)"
    by (simp add: run_initial app_role_accepted)
  show "list_all old_post [sample_old_post]"
    by (simp add: old_post_def post_fields_def sample_old_post_def)
qed

end
