(* ===== verification/OpenApi.thy ===== *)
theory OpenApi
  imports PyText
begin

text \<open>
  \<open>app/core/openapi.py\<close>: the error responses an operation of the generated OpenAPI document lists,
  and \<open>install_openapi_contract\<close>, which rewrites the document FastAPI generates. The document is a
  \<open>json\<close> value; the one FastAPI generates and the JSON schema of \<open>ErrorBody\<close> are arguments. A Python
  \<open>set\<close> of integers is iterated in an order of the interpreter, the argument \<open>order\<close>.
\<close>

section \<open>Which errors an operation documents\<close>

definition ERROR_DESCRIPTIONS :: "(nat \<times> string) list" where
  "ERROR_DESCRIPTIONS =
     [(400, ''The request conflicts with a business rule or resource state.''),
      (401, ''Authentication is required or the supplied credential is invalid.''),
      (403, ''The authenticated principal is not permitted to perform this operation.''),
      (404, ''The requested tenant or resource was not found.''),
      (409, ''The request conflicts with the current resource or integration state.''),
      (413, ''The request declares content larger than the configured limit.''),
      (422, ''The request did not pass structural or semantic validation.''),
      (429, ''The request was rejected by a bounded rate limit.''),
      (503, ''A required service dependency is unavailable.'')]"

definition ADMIN_CONFLICT_OPERATIONS :: "string list" where
  "ADMIN_CONFLICT_OPERATIONS =
     [''create_banner_api_v1_admin_banners_post'',
      ''create_blog_post_api_v1_admin_blog_post'',
      ''create_exam_api_v1_admin_exams_post'',
      ''create_gallery_api_v1_admin_gallery_post'',
      ''create_gallery_item_api_v1_admin_gallery__album_id__items_post'',
      ''create_honor_api_v1_admin_honors_post'',
      ''create_honor_category_api_v1_admin_honor_categories_post'',
      ''create_post_api_v1_admin_posts_post'',
      ''create_pricing_api_v1_admin_pricing_plans_post'',
      ''create_sample_exam_api_v1_admin_sample_exams_post'',
      ''create_staff_api_v1_admin_staff_post'',
      ''publish_blog_post_api_v1_admin_blog__post_id__publish_post'',
      ''update_banner_api_v1_admin_banners__entity_id__put'',
      ''update_blog_post_api_v1_admin_blog__post_id__patch'',
      ''update_exam_api_v1_admin_exams__entity_id__put'',
      ''update_gallery_album_api_v1_admin_gallery__entity_id__put'',
      ''update_honor_api_v1_admin_honors__entity_id__put'',
      ''update_honor_category_api_v1_admin_honor_categories__entity_id__put'',
      ''update_post_api_v1_admin_posts__entity_id__put'',
      ''update_pricing_plan_api_v1_admin_pricing_plans__entity_id__put'',
      ''update_sample_exam_api_v1_admin_sample_exams__entity_id__put'',
      ''update_staff_api_v1_admin_staff__entity_id__put'',
      ''complete_upload_api_v1_admin_media_uploads__media_id__complete_post'']"

definition REGISTRATION_BUSINESS_RULE_OPERATIONS :: "string list" where
  "REGISTRATION_BUSINESS_RULE_OPERATIONS =
     [''create_registration_api_v1_public_registrations_post'',
      ''patch_registration_api_v1_public_registrations__registration_id__patch'',
      ''put_contacts_api_v1_public_registrations__registration_id__contacts_put'',
      ''verify_otp_api_v1_public_registrations__registration_id__otp_verify_post'',
      ''submit_registration_api_v1_public_registrations__registration_id__submit_post'',
      ''initiate_payment_api_v1_public_registrations__registration_id__payment_post'']"

definition REGISTRATION_CONFLICT_OPERATIONS :: "string list" where
  "REGISTRATION_CONFLICT_OPERATIONS =
     [''patch_registration_api_v1_public_registrations__registration_id__patch'',
      ''complete_profile_image_upload_api_v1_public_registrations__registration_id__profile_image__media_id__complete_post'',
      ''submit_registration_api_v1_public_registrations__registration_id__submit_post'',
      ''initiate_payment_api_v1_public_registrations__registration_id__payment_post'']"

definition endswith :: "ustr \<Rightarrow> ustr \<Rightarrow> bool" where
  "endswith s p \<longleftrightarrow> startswith (rev s) (rev p)"

definition one_of :: "ustr \<Rightarrow> string list \<Rightarrow> bool" where
  "one_of s names \<longleftrightarrow> list_ex (\<lambda>n. s = lit n) names"

text \<open>\<open>statuses.add(code)\<close> under a condition.\<close>

definition add_if :: "bool \<Rightarrow> nat \<Rightarrow> nat set \<Rightarrow> nat set" where
  "add_if b code statuses = (if b then insert code statuses else statuses)"

definition error_statuses :: "ustr \<Rightarrow> ustr \<Rightarrow> ustr \<Rightarrow> (ustr \<times> json) list \<Rightarrow> nat set" where
  "error_statuses path method operation_id existing_responses =
     (let statuses = (if map_of existing_responses (lit ''422'') \<noteq> None then {422} else {}) in
      if path = lit ''/health/ready'' then {503}
      else if startswith path (lit ''/api/v1/admin/auth/'') then
        add_if (endswith operation_id (lit ''login_post'')) 429 (statuses \<union> {401, 404})
      else if startswith path (lit ''/api/v1/admin/'') then
        add_if (operation_id = lit ''initiate_upload_api_v1_admin_media_uploads_post'') 413
          (add_if (one_of operation_id ADMIN_CONFLICT_OPERATIONS) 409
            (add_if (startswith path (lit ''/api/v1/admin/registrations/'') \<and> method = lit ''patch'') 400
              (statuses \<union> {401, 403, 404})))
      else if startswith path (lit ''/api/v1/public/registrations'') then
        add_if (endswith path (lit ''/otp/send'')) 429
          (add_if (endswith path (lit ''/profile-image/upload'')) 413
            (add_if (one_of operation_id REGISTRATION_CONFLICT_OPERATIONS) 409
              (add_if (one_of operation_id REGISTRATION_BUSINESS_RULE_OPERATIONS) 400
                (add_if (operation_id \<noteq> lit ''create_registration_api_v1_public_registrations_post'') 401
                  (insert 404 statuses)))))
      else if startswith path (lit ''/api/v1/public/payments/callback/'') then statuses \<union> {401, 404}
      else if startswith path (lit ''/api/v1/internal/site-builds/'') then
        statuses \<union> {401, 404, 409, 422}
      else if startswith path (lit ''/api/v1/public/'') then
        add_if (path = lit ''/api/v1/public/blog/snapshot'') 409
          (add_if (path = lit ''/api/v1/public/contact-requests'') 429 (insert 404 statuses))
      else statuses)"

section \<open>Editing a document\<close>

text \<open>
  The document is edited in place. \<open>as_dict\<close> is a value used as a dictionary, \<open>dict_set\<close> is
  \<open>d[k] = v\<close> (a new key goes to the end), \<open>at_key k d f\<close> edits the value of a key, which
  \<open>setdefault\<close> creates as \<open>d\<close>, and \<open>each_item\<close> edits every value in the order of the keys.
\<close>

type_synonym dict = "(ustr \<times> json) list"

fun as_dict :: "json \<Rightarrow> exn + dict" where
  "as_dict (JObj entries) = Inr entries"
| "as_dict v = Inl (PyRuntimeError ''AttributeError'')"

fun dict_set :: "ustr \<Rightarrow> json \<Rightarrow> dict \<Rightarrow> dict" where
  "dict_set k v [] = [(k, v)]"
| "dict_set k v ((j, w) # entries) = (if j = k then (k, v) # entries else (j, w) # dict_set k v entries)"

definition edit_dict :: "(dict \<Rightarrow> exn + dict) \<Rightarrow> json \<Rightarrow> exn + json" where
  "edit_dict f v =
     (case as_dict v of
        Inl e \<Rightarrow> Inl e
      | Inr entries \<Rightarrow> (case f entries of Inl e \<Rightarrow> Inl e | Inr entries' \<Rightarrow> Inr (JObj entries')))"

definition at_key :: "ustr \<Rightarrow> json \<Rightarrow> (dict \<Rightarrow> exn + dict) \<Rightarrow> dict \<Rightarrow> exn + dict" where
  "at_key k initial f entries =
     (case edit_dict f (case map_of entries k of None \<Rightarrow> initial | Some v \<Rightarrow> v) of
        Inl e \<Rightarrow> Inl e
      | Inr v \<Rightarrow> Inr (dict_set k v entries))"

fun each_item :: "(ustr \<Rightarrow> json \<Rightarrow> exn + json) \<Rightarrow> dict \<Rightarrow> exn + dict" where
  "each_item f [] = Inr []"
| "each_item f ((k, v) # entries) =
     (case f k v of
        Inl e \<Rightarrow> Inl e
      | Inr v' \<Rightarrow> (case each_item f entries of Inl e \<Rightarrow> Inl e | Inr rest \<Rightarrow> Inr ((k, v') # rest)))"

fun then_edit :: "(dict \<Rightarrow> exn + dict) \<Rightarrow> (dict \<Rightarrow> exn + dict) \<Rightarrow> dict \<Rightarrow> exn + dict" where
  "then_edit f g entries = (case f entries of Inl e \<Rightarrow> Inl e | Inr entries' \<Rightarrow> g entries')"

section \<open>The contract\<close>

abbreviation text_value :: "string \<Rightarrow> json" where
  "text_value s \<equiv> JStr (lit s)"

definition status_key :: "nat \<Rightarrow> ustr" where
  "status_key code = digits_of code"

definition error_name :: "nat \<Rightarrow> ustr" where
  "error_name code = lit ''Error'' @ status_key code"

definition reusable_response :: "string \<Rightarrow> json" where
  "reusable_response description =
     JObj [(lit ''description'', text_value description),
           (lit ''content'', JObj [(lit ''application/json'',
              JObj [(lit ''schema'',
                 JObj [(lit ''$ref'', text_value ''#/components/schemas/ErrorBody'')])])])]"

definition response_reference :: "nat \<Rightarrow> json" where
  "response_reference code = JObj [(lit ''$ref'', JStr (lit ''#/components/responses/'' @ error_name code))]"

definition registration_export_response :: json where
  "registration_export_response =
     JObj [(lit ''description'', text_value ''Registration export.''),
           (lit ''headers'', JObj [(lit ''Content-Disposition'',
              JObj [(lit ''description'', text_value ''Attachment filename.''),
                    (lit ''schema'', JObj [(lit ''type'', text_value ''string'')])])]),
           (lit ''content'', JObj [(lit ''text/csv'',
              JObj [(lit ''schema'', JObj [(lit ''type'', text_value ''string''),
                                           (lit ''format'', text_value ''binary'')])])])]"

definition export_operation :: ustr where
  "export_operation = lit ''export_registrations_api_v1_admin_registrations_export_csv_get''"

definition set_components :: "json \<Rightarrow> dict \<Rightarrow> exn + dict" where
  "set_components error_body_schema =
     then_edit
       (at_key (lit ''schemas'') (JObj []) (\<lambda>schemas. Inr (dict_set (lit ''ErrorBody'') error_body_schema schemas)))
       (at_key (lit ''responses'') (JObj []) (\<lambda>responses.
          Inr (fold (\<lambda>(code, description). dict_set (error_name code) (reusable_response description))
                 ERROR_DESCRIPTIONS responses)))"

definition HTTP_METHODS :: "ustr list" where
  "HTTP_METHODS = [lit ''get'', lit ''post'', lit ''put'', lit ''patch'', lit ''delete'']"

text \<open>The responses of one operation.\<close>

definition contract_responses :: "(nat set \<Rightarrow> nat list) \<Rightarrow> ustr \<Rightarrow> ustr \<Rightarrow> ustr \<Rightarrow> dict \<Rightarrow> dict" where
  "contract_responses order path method operation_id responses =
     (let referenced = fold (\<lambda>code. dict_set (status_key code) (response_reference code))
            (order (error_statuses path method operation_id responses)) responses
      in if operation_id = export_operation
         then dict_set (lit ''200'') registration_export_response referenced else referenced)"

definition contract_operation :: "(nat set \<Rightarrow> nat list) \<Rightarrow> ustr \<Rightarrow> ustr \<Rightarrow> dict \<Rightarrow> exn + dict" where
  "contract_operation order path method operation =
     at_key (lit ''responses'') (JObj []) (\<lambda>responses.
       case map_of operation (lit ''operationId'') of
         None \<Rightarrow> Inl (PyKeyError ''operationId'')
       | Some (JStr operation_id) \<Rightarrow> Inr (contract_responses order path method operation_id responses)
       | Some v \<Rightarrow> Inl PyTypeError) operation"

definition contract_path :: "(nat set \<Rightarrow> nat list) \<Rightarrow> ustr \<Rightarrow> json \<Rightarrow> exn + json" where
  "contract_path order path =
     edit_dict (each_item (\<lambda>method operation.
       if method \<notin> set HTTP_METHODS then Inr operation
       else edit_dict (contract_operation order path method) operation))"

text \<open>\<open>schema.get("paths", {})\<close>: nothing is created where the document has no paths.\<close>

definition contract_paths :: "(nat set \<Rightarrow> nat list) \<Rightarrow> dict \<Rightarrow> exn + dict" where
  "contract_paths order document =
     (if map_of document (lit ''paths'') = None then Inr document
      else at_key (lit ''paths'') (JObj []) (each_item (contract_path order)) document)"

definition contract_document :: "(nat set \<Rightarrow> nat list) \<Rightarrow> json \<Rightarrow> dict \<Rightarrow> exn + dict" where
  "contract_document order error_body_schema =
     then_edit (at_key (lit ''components'') (JObj []) (set_components error_body_schema))
       (contract_paths order)"

text \<open>
  \<open>custom_openapi\<close>: \<open>cached\<close> is \<open>application.openapi_schema\<close>, which afterwards holds the answer.
\<close>

definition custom_openapi :: "(nat set \<Rightarrow> nat list) \<Rightarrow> json \<Rightarrow> json \<Rightarrow> json option \<Rightarrow> exn + json" where
  "custom_openapi order error_body_schema original cached =
     (case cached of
        Some document \<Rightarrow> Inr document
      | None \<Rightarrow> edit_dict (contract_document order error_body_schema) original)"

end
