(* ===== verification/OpenApiDocument.thy ===== *)
theory OpenApiDocument
  imports OpenApi
begin

text \<open>
  The operations of the committed document, \<open>openapi.json\<close>: method, path, operation identifier, whether
  the operation takes parameters or a body (FastAPI then documents a 422 itself), and the error statuses
  it lists.
\<close>

record op_row =
  op_method :: string
  op_path :: string
  op_id :: string
  op_validated :: bool
  op_errors :: "nat list"

definition committed :: "string \<Rightarrow> string \<Rightarrow> string \<Rightarrow> bool \<Rightarrow> nat list \<Rightarrow> op_row" where
  "committed method path operation_id validated errors =
     \<lparr>op_method = method, op_path = path, op_id = operation_id, op_validated = validated,
      op_errors = errors\<rparr>"

definition committed_operations :: "op_row list" where
  "committed_operations =
    [committed ''post''
       ''/api/v1/admin/auth/login''
       ''tenant_login_api_v1_admin_auth_login_post'' True [401, 404, 422, 429],
     committed ''post''
       ''/api/v1/admin/auth/refresh''
       ''tenant_refresh_api_v1_admin_auth_refresh_post'' True [401, 404, 422],
     committed ''get''
       ''/api/v1/admin/banners''
       ''list_banners_api_v1_admin_banners_get'' True [401, 403, 404, 422],
     committed ''post''
       ''/api/v1/admin/banners''
       ''create_banner_api_v1_admin_banners_post'' True [401, 403, 404, 409, 422],
     committed ''put''
       ''/api/v1/admin/banners/{entity_id}''
       ''update_banner_api_v1_admin_banners__entity_id__put'' True [401, 403, 404, 409, 422],
     committed ''get''
       ''/api/v1/admin/blog''
       ''list_blog_posts_api_v1_admin_blog_get'' True [401, 403, 404, 422],
     committed ''post''
       ''/api/v1/admin/blog''
       ''create_blog_post_api_v1_admin_blog_post'' True [401, 403, 404, 409, 422],
     committed ''get''
       ''/api/v1/admin/blog/{post_id}''
       ''get_blog_post_api_v1_admin_blog__post_id__get'' True [401, 403, 404, 422],
     committed ''patch''
       ''/api/v1/admin/blog/{post_id}''
       ''update_blog_post_api_v1_admin_blog__post_id__patch'' True [401, 403, 404, 409, 422],
     committed ''post''
       ''/api/v1/admin/blog/{post_id}/archive''
       ''archive_blog_post_api_v1_admin_blog__post_id__archive_post'' True [401, 403, 404, 422],
     committed ''post''
       ''/api/v1/admin/blog/{post_id}/publish''
       ''publish_blog_post_api_v1_admin_blog__post_id__publish_post'' True [401, 403, 404, 409, 422],
     committed ''get''
       ''/api/v1/admin/contact-requests''
       ''list_contact_requests_api_v1_admin_contact_requests_get'' True [401, 403, 404, 422],
     committed ''patch''
       ''/api/v1/admin/contact-requests/{entity_id}''
       ''handle_contact_request_api_v1_admin_contact_requests__entity_id__patch'' True [401, 403, 404, 422],
     committed ''get''
       ''/api/v1/admin/exams''
       ''list_exams_api_v1_admin_exams_get'' True [401, 403, 404, 422],
     committed ''post''
       ''/api/v1/admin/exams''
       ''create_exam_api_v1_admin_exams_post'' True [401, 403, 404, 409, 422],
     committed ''put''
       ''/api/v1/admin/exams/{entity_id}''
       ''update_exam_api_v1_admin_exams__entity_id__put'' True [401, 403, 404, 409, 422],
     committed ''get''
       ''/api/v1/admin/gallery''
       ''list_gallery_api_v1_admin_gallery_get'' True [401, 403, 404, 422],
     committed ''post''
       ''/api/v1/admin/gallery''
       ''create_gallery_api_v1_admin_gallery_post'' True [401, 403, 404, 409, 422],
     committed ''post''
       ''/api/v1/admin/gallery/{album_id}/items''
       ''create_gallery_item_api_v1_admin_gallery__album_id__items_post'' True [401, 403, 404, 409, 422],
     committed ''put''
       ''/api/v1/admin/gallery/{entity_id}''
       ''update_gallery_album_api_v1_admin_gallery__entity_id__put'' True [401, 403, 404, 409, 422],
     committed ''get''
       ''/api/v1/admin/honor-categories''
       ''list_honor_categories_api_v1_admin_honor_categories_get'' True [401, 403, 404, 422],
     committed ''post''
       ''/api/v1/admin/honor-categories''
       ''create_honor_category_api_v1_admin_honor_categories_post'' True [401, 403, 404, 409, 422],
     committed ''put''
       ''/api/v1/admin/honor-categories/{entity_id}''
       ''update_honor_category_api_v1_admin_honor_categories__entity_id__put'' True [401, 403, 404, 409, 422],
     committed ''get''
       ''/api/v1/admin/honors''
       ''list_honors_api_v1_admin_honors_get'' True [401, 403, 404, 422],
     committed ''post''
       ''/api/v1/admin/honors''
       ''create_honor_api_v1_admin_honors_post'' True [401, 403, 404, 409, 422],
     committed ''put''
       ''/api/v1/admin/honors/{entity_id}''
       ''update_honor_api_v1_admin_honors__entity_id__put'' True [401, 403, 404, 409, 422],
     committed ''post''
       ''/api/v1/admin/media/uploads''
       ''initiate_upload_api_v1_admin_media_uploads_post'' True [401, 403, 404, 413, 422],
     committed ''post''
       ''/api/v1/admin/media/uploads/{media_id}/complete''
       ''complete_upload_api_v1_admin_media_uploads__media_id__complete_post'' True [401, 403, 404, 409, 422],
     committed ''get''
       ''/api/v1/admin/posts''
       ''list_posts_api_v1_admin_posts_get'' True [401, 403, 404, 422],
     committed ''post''
       ''/api/v1/admin/posts''
       ''create_post_api_v1_admin_posts_post'' True [401, 403, 404, 409, 422],
     committed ''put''
       ''/api/v1/admin/posts/{entity_id}''
       ''update_post_api_v1_admin_posts__entity_id__put'' True [401, 403, 404, 409, 422],
     committed ''get''
       ''/api/v1/admin/pricing-plans''
       ''list_pricing_api_v1_admin_pricing_plans_get'' True [401, 403, 404, 422],
     committed ''post''
       ''/api/v1/admin/pricing-plans''
       ''create_pricing_api_v1_admin_pricing_plans_post'' True [401, 403, 404, 409, 422],
     committed ''put''
       ''/api/v1/admin/pricing-plans/{entity_id}''
       ''update_pricing_plan_api_v1_admin_pricing_plans__entity_id__put'' True [401, 403, 404, 409, 422],
     committed ''get''
       ''/api/v1/admin/registrations''
       ''list_registrations_api_v1_admin_registrations_get'' True [401, 403, 404, 422],
     committed ''get''
       ''/api/v1/admin/registrations/export.csv''
       ''export_registrations_api_v1_admin_registrations_export_csv_get'' False [401, 403, 404],
     committed ''get''
       ''/api/v1/admin/registrations/{registration_id}''
       ''registration_detail_api_v1_admin_registrations__registration_id__get'' True [401, 403, 404, 422],
     committed ''patch''
       ''/api/v1/admin/registrations/{registration_id}''
       ''update_registration_api_v1_admin_registrations__registration_id__patch'' True [400, 401, 403, 404, 422],
     committed ''get''
       ''/api/v1/admin/sample-exams''
       ''list_sample_exams_api_v1_admin_sample_exams_get'' True [401, 403, 404, 422],
     committed ''post''
       ''/api/v1/admin/sample-exams''
       ''create_sample_exam_api_v1_admin_sample_exams_post'' True [401, 403, 404, 409, 422],
     committed ''put''
       ''/api/v1/admin/sample-exams/{entity_id}''
       ''update_sample_exam_api_v1_admin_sample_exams__entity_id__put'' True [401, 403, 404, 409, 422],
     committed ''delete''
       ''/api/v1/admin/school-profile''
       ''reset_school_profile_api_v1_admin_school_profile_delete'' False [401, 403, 404],
     committed ''put''
       ''/api/v1/admin/school-profile''
       ''replace_school_profile_api_v1_admin_school_profile_put'' True [401, 403, 404, 422],
     committed ''get''
       ''/api/v1/admin/site-build/history''
       ''build_history_api_v1_admin_site_build_history_get'' True [401, 403, 404, 422],
     committed ''post''
       ''/api/v1/admin/site-build/rebuild''
       ''manual_rebuild_api_v1_admin_site_build_rebuild_post'' False [401, 403, 404],
     committed ''get''
       ''/api/v1/admin/site-build/status''
       ''build_status_api_v1_admin_site_build_status_get'' False [401, 403, 404],
     committed ''get''
       ''/api/v1/admin/staff''
       ''list_staff_api_v1_admin_staff_get'' True [401, 403, 404, 422],
     committed ''post''
       ''/api/v1/admin/staff''
       ''create_staff_api_v1_admin_staff_post'' True [401, 403, 404, 409, 422],
     committed ''put''
       ''/api/v1/admin/staff/{entity_id}''
       ''update_staff_api_v1_admin_staff__entity_id__put'' True [401, 403, 404, 409, 422],
     committed ''delete''
       ''/api/v1/admin/{resource}/{entity_id}''
       ''archive_resource_api_v1_admin__resource___entity_id__delete'' True [401, 403, 404, 422],
     committed ''post''
       ''/api/v1/internal/site-builds/{request_id}/result''
       ''record_build_result_api_v1_internal_site_builds__request_id__result_post'' True [401, 404, 409, 422],
     committed ''get''
       ''/api/v1/public/announcements''
       ''announcements_api_v1_public_announcements_get'' True [404, 422],
     committed ''get''
       ''/api/v1/public/announcements/{slug}''
       ''announcement_detail_api_v1_public_announcements__slug__get'' True [404, 422],
     committed ''get''
       ''/api/v1/public/banners''
       ''banners_api_v1_public_banners_get'' False [404],
     committed ''get''
       ''/api/v1/public/blog''
       ''list_blog_posts_api_v1_public_blog_get'' True [404, 422],
     committed ''get''
       ''/api/v1/public/blog/snapshot''
       ''blog_snapshot_api_v1_public_blog_snapshot_get'' True [404, 409, 422],
     committed ''get''
       ''/api/v1/public/blog/{slug}''
       ''get_blog_post_api_v1_public_blog__slug__get'' True [404, 422],
     committed ''post''
       ''/api/v1/public/contact-requests''
       ''create_contact_request_api_v1_public_contact_requests_post'' True [404, 422, 429],
     committed ''get''
       ''/api/v1/public/exams''
       ''exams_api_v1_public_exams_get'' False [404],
     committed ''get''
       ''/api/v1/public/gallery''
       ''gallery_api_v1_public_gallery_get'' True [404, 422],
     committed ''get''
       ''/api/v1/public/gallery/{slug}''
       ''gallery_detail_api_v1_public_gallery__slug__get'' True [404, 422],
     committed ''get''
       ''/api/v1/public/honors''
       ''honors_api_v1_public_honors_get'' True [404, 422],
     committed ''get''
       ''/api/v1/public/media/{media_id}''
       ''download_media_api_v1_public_media__media_id__get'' True [404, 422],
     committed ''get''
       ''/api/v1/public/news''
       ''news_api_v1_public_news_get'' True [404, 422],
     committed ''get''
       ''/api/v1/public/news/{slug}''
       ''news_detail_api_v1_public_news__slug__get'' True [404, 422],
     committed ''get''
       ''/api/v1/public/payments/callback/{provider_name}''
       ''payment_callback_api_v1_public_payments_callback__provider_name__get'' True [401, 404, 422],
     committed ''get''
       ''/api/v1/public/pricing-plans''
       ''pricing_plans_api_v1_public_pricing_plans_get'' False [404],
     committed ''post''
       ''/api/v1/public/registrations''
       ''create_registration_api_v1_public_registrations_post'' True [400, 404, 422],
     committed ''get''
       ''/api/v1/public/registrations/{registration_id}''
       ''get_registration_api_v1_public_registrations__registration_id__get'' True [401, 404, 422],
     committed ''patch''
       ''/api/v1/public/registrations/{registration_id}''
       ''patch_registration_api_v1_public_registrations__registration_id__patch'' True [400, 401, 404, 409, 422],
     committed ''put''
       ''/api/v1/public/registrations/{registration_id}/contacts''
       ''put_contacts_api_v1_public_registrations__registration_id__contacts_put'' True [400, 401, 404, 422],
     committed ''post''
       ''/api/v1/public/registrations/{registration_id}/otp/send''
       ''send_otp_api_v1_public_registrations__registration_id__otp_send_post'' True [401, 404, 422, 429],
     committed ''post''
       ''/api/v1/public/registrations/{registration_id}/otp/verify''
       ''verify_otp_api_v1_public_registrations__registration_id__otp_verify_post'' True [400, 401, 404, 422],
     committed ''post''
       ''/api/v1/public/registrations/{registration_id}/payment''
       ''initiate_payment_api_v1_public_registrations__registration_id__payment_post'' True [400, 401, 404, 409, 422],
     committed ''get''
       ''/api/v1/public/registrations/{registration_id}/payment/status''
       ''payment_status_api_v1_public_registrations__registration_id__payment_status_get'' True [401, 404, 422],
     committed ''post''
       ''/api/v1/public/registrations/{registration_id}/profile-image/upload''
       ''initiate_profile_image_upload_api_v1_public_registrations__registration_id__profile_image_upload_post'' True [401, 404, 413, 422],
     committed ''post''
       ''/api/v1/public/registrations/{registration_id}/profile-image/{media_id}/complete''
       ''complete_profile_image_upload_api_v1_public_registrations__registration_id__profile_image__media_id__complete_post'' True [401, 404, 409, 422],
     committed ''post''
       ''/api/v1/public/registrations/{registration_id}/submit''
       ''submit_registration_api_v1_public_registrations__registration_id__submit_post'' True [400, 401, 404, 409, 422],
     committed ''post''
       ''/api/v1/public/registrations/{registration_id}/token/rotate''
       ''rotate_draft_token_api_v1_public_registrations__registration_id__token_rotate_post'' True [401, 404, 422],
     committed ''get''
       ''/api/v1/public/sample-exams''
       ''sample_exams_api_v1_public_sample_exams_get'' True [404, 422],
     committed ''get''
       ''/api/v1/public/school-directory''
       ''school_directory_api_v1_public_school_directory_get'' True [404, 422],
     committed ''get''
       ''/api/v1/public/site''
       ''site_bootstrap_api_v1_public_site_get'' False [404],
     committed ''get''
       ''/api/v1/public/staff''
       ''staff_api_v1_public_staff_get'' False [404],
     committed ''get''
       ''/health/live''
       ''live_health_live_get'' False [],
     committed ''get''
       ''/health/ready''
       ''ready_health_ready_get'' False [503]]"

text \<open>The responses FastAPI gives an operation before the contract is applied, as far as errors go.\<close>

definition generated_responses :: "op_row \<Rightarrow> dict" where
  "generated_responses r =
     (if op_validated r then [(lit ''422'', JObj [])] else [])"

definition documented :: "op_row \<Rightarrow> nat set" where
  "documented r =
     error_statuses (lit (op_path r)) (lit (op_method r)) (lit (op_id r)) (generated_responses r)"

section \<open>Evaluation\<close>

text \<open>The same statuses as a list computed on plain strings, for evaluation.\<close>

definition has_prefix :: "string \<Rightarrow> string \<Rightarrow> bool" where
  "has_prefix s p \<longleftrightarrow> take (length p) s = p"

definition has_suffix :: "string \<Rightarrow> string \<Rightarrow> bool" where
  "has_suffix s p \<longleftrightarrow> has_prefix (rev s) (rev p)"

definition only_if :: "bool \<Rightarrow> nat \<Rightarrow> nat list" where
  "only_if b code = (if b then [code] else [])"

definition listed_errors :: "op_row \<Rightarrow> nat list" where
  "listed_errors r =
     (let path = op_path r; known = only_if (op_validated r) 422 in
      if path = ''/health/ready'' then [503]
      else if has_prefix path ''/api/v1/admin/auth/''
      then [401, 404] @ known @ only_if (has_suffix (op_id r) ''login_post'') 429
      else if has_prefix path ''/api/v1/admin/''
      then only_if (has_prefix path ''/api/v1/admin/registrations/'' \<and> op_method r = ''patch'') 400
        @ [401, 403, 404] @ only_if (op_id r \<in> set ADMIN_CONFLICT_OPERATIONS) 409
        @ only_if (op_id r = ''initiate_upload_api_v1_admin_media_uploads_post'') 413 @ known
      else if has_prefix path ''/api/v1/public/registrations''
      then only_if (op_id r \<in> set REGISTRATION_BUSINESS_RULE_OPERATIONS) 400
        @ only_if (op_id r \<noteq> ''create_registration_api_v1_public_registrations_post'') 401 @ [404]
        @ only_if (op_id r \<in> set REGISTRATION_CONFLICT_OPERATIONS) 409
        @ only_if (has_suffix path ''/profile-image/upload'') 413 @ known
        @ only_if (has_suffix path ''/otp/send'') 429
      else if has_prefix path ''/api/v1/public/payments/callback/'' then [401, 404] @ known
      else if has_prefix path ''/api/v1/internal/site-builds/'' then [401, 404, 409, 422]
      else if has_prefix path ''/api/v1/public/''
      then [404] @ only_if (path = ''/api/v1/public/blog/snapshot'') 409 @ known
        @ only_if (path = ''/api/v1/public/contact-requests'') 429
      else known)"

lemma lit_eq [simp]: "lit s = lit t \<longleftrightarrow> s = t"
  by (simp add: inj_map_eq_map inj_def)

lemma lit_prefix [simp]: "startswith (lit s) (lit p) \<longleftrightarrow> has_prefix s p"
  by (simp add: startswith_def has_prefix_def take_map)

lemma lit_suffix [simp]: "endswith (lit s) (lit p) \<longleftrightarrow> has_suffix s p"
  by (simp only: endswith_def has_suffix_def rev_map lit_prefix)

lemma lit_one_of [simp]: "one_of (lit s) names \<longleftrightarrow> s \<in> set names"
  by (auto simp: one_of_def list_ex_iff)

lemma add_if_set: "add_if b code A = A \<union> set (only_if b code)"
  by (auto simp: add_if_def only_if_def)

lemma generated_known:
  "(if map_of (generated_responses r) (lit ''422'') \<noteq> None then {422} else {}) = set (only_if (op_validated r) 422)"
  by (simp add: generated_responses_def only_if_def)

lemma documented_listed: "documented r = set (listed_errors r)"
  unfolding documented_def error_statuses_def listed_errors_def generated_known Let_def
    lit_eq lit_prefix lit_suffix lit_one_of add_if_set if_distrib [of set] set_append
  by (intro if_cong refl, simp_all add: Un_ac insert_commute)
    (cases "op_validated r"; simp add: only_if_def insert_commute)

lemma committed_ok: "list_all (\<lambda>r. listed_errors r = op_errors r) committed_operations"
  by code_simp

end
