(* ===== verification/ErrorStatuses.thy ===== *)
theory ErrorStatuses
  imports Payments Otp AdminRegistrations SiteBuildDelivery Access Blog
begin

text \<open>
  Which statuses the application errors of an endpoint can carry. \<open>raises_within S r\<close> says that the
  result \<open>r\<close>, if it is an application error, has a status of \<open>S\<close>; its rules follow the ways the
  endpoints compose operations, and each endpoint gets its set.
\<close>

section \<open>Results whose errors stay within a set\<close>

definition raises_within :: "nat set \<Rightarrow> exn + 'a \<Rightarrow> bool" where
  "raises_within S r =
     (case r of Inl (ApplicationError code n details) \<Rightarrow> n \<in> S | _ \<Rightarrow> True)"

named_theorems raising \<open>rules for the statuses of composed operations\<close>

lemma raises_within_simps [simp]:
  "raises_within S (Inr x)"
  "raises_within S (Inl (ApplicationError code n details)) \<longleftrightarrow> n \<in> S"
  "raises_within S (Inl IntegrityError)" "raises_within S (Inl (RichTextError m))"
  "raises_within S (Inl (PyValueError m))" "raises_within S (Inl (PyKeyError m))"
  "raises_within S (Inl (InvalidTokenError m))" "raises_within S (Inl PyTypeError)"
  "raises_within S (Inl (PyRuntimeError m))"
  by (simp_all add: raises_within_def)

lemma raises_within_other: "\<not> is_application_error e \<Longrightarrow> raises_within S (Inl e)"
  by (cases e) simp_all

lemma raises_within_mono: "raises_within S r \<Longrightarrow> S \<subseteq> T \<Longrightarrow> raises_within T r"
  by (auto simp: raises_within_def split: sum.splits exn.splits)

lemma raises_withinI: "(\<And>c n d. r = Inl (ApplicationError c n d) \<Longrightarrow> n \<in> S) \<Longrightarrow> raises_within S r"
  by (auto simp: raises_within_def split: sum.splits exn.splits)

lemma raises_withinD: "raises_within S r \<Longrightarrow> r = Inl (ApplicationError c n d) \<Longrightarrow> n \<in> S"
  by simp

lemma raises_outcomeD: "raises_within S (fst out) \<Longrightarrow> out = (Inl (ApplicationError c n d), s) \<Longrightarrow> n \<in> S"
  by simp

declare raises_within_simps(1,3-9) [raising]

lemma raises_if [raising]:
  "(P \<Longrightarrow> raises_within S r) \<Longrightarrow> (\<not> P \<Longrightarrow> raises_within S r') \<Longrightarrow> raises_within S (if P then r else r')"
  by simp

lemma raises_attempt [raising]:
  "raises_within S m \<Longrightarrow> (\<And>x. m = Inr x \<Longrightarrow> raises_within S (k x)) \<Longrightarrow> raises_within S (attempt m k)"
  by (cases m) (simp_all add: raises_within_def)

lemma raises_and_then [raising]:
  assumes "raises_within S (fst out)" "\<And>x s. out = (Inr x, s) \<Longrightarrow> raises_within S (fst (k x s))"
  shows "raises_within S (fst (and_then out k))"
  using assms by (cases out; cases "fst out") (simp_all add: raises_within_def)

lemma raises_transaction [raising]:
  "raises_within S (fst (body s)) \<Longrightarrow> raises_within S (fst (transaction body s))"
  by (rule transaction_cases [of body s]) auto

lemma raises_on_integrity_error [raising]:
  "raises_within S (fst out) \<Longrightarrow> raises_within S (Inl e) \<Longrightarrow> raises_within S (fst (on_integrity_error e out))"
  by (induction e out rule: on_integrity_error.induct) (auto simp: raises_within_def)

lemma raises_guarded [raising]:
  "raises_within S m \<Longrightarrow> (\<And>x. m = Inr x \<Longrightarrow> raises_within S (fst (k x))) \<Longrightarrow> raises_within S (fst (guarded m k s))"
  by (cases m) (simp_all add: guarded_def raises_within_def)

lemma raises_case [raising]:
  "raises_within S m \<Longrightarrow> (\<And>x. m = Inr x \<Longrightarrow> raises_within S (fst (k x)))
    \<Longrightarrow> raises_within S (fst (case m of Inl e \<Rightarrow> (Inl e, s) | Inr x \<Rightarrow> k x))"
  by (cases m) (simp_all add: raises_within_def)

section \<open>Registrations\<close>

lemma raises_draft_token [raising]: "raises_within {401} (draft_token h)"
  by (simp add: draft_token_def Let_def split: option.split prod.split)

lemma raises_authorized [raising]:
  "404 \<in> S \<Longrightarrow> raises_within S (authorized_draft digest cur now i token s)"
  by (simp add: authorized_draft_def split: option.split)

lemma raises_with_draft [raising]:
  assumes "404 \<in> S" "\<And>r. authorized_draft digest cur now i token s = Inr r \<Longrightarrow> raises_within S (fst (body r s))"
  shows "raises_within S (fst (with_draft digest cur now i token body s))"
  using assms raises_authorized [OF assms(1)] unfolding with_draft_def by (intro raises_case) auto

lemma raises_respond [raising]: "raises_within S (fst (respond cur r s))"
  by (simp add: respond_def registration_response_def)

lemma raises_flush_registration [raising]: "raises_within S (fst (flush_registration cur r s))"
  by (simp add: flush_registration_def)

lemma raises_resolve_plan [raising]: "400 \<in> S \<Longrightarrow> raises_within S (resolve_plan cur e p s)"
  by (simp add: resolve_plan_def split: option.split)

lemma raises_create_draft:
  "raises_within {400, 404} (fst (create_draft digest c cur now fresh raw t exam plan phone s))"
  by (auto simp: create_draft_def Let_def raises_resolve_plan intro!: raises_case split: option.split)

lemma raises_create_registration:
  "raises_within {400, 404} (fst (create_registration digest c t now fresh raw body s))"
  unfolding create_registration_def by (auto intro!: raising raises_create_draft split: prod.split)

lemma raises_get_registration:
  "raises_within {404} (fst (get_registration digest cur now i token s))"
  unfolding get_registration_def by (intro raising) simp

lemma raises_patch: "raises_within {400, 422} (fst (patch cur now r body s))"
  by (auto simp: patch_def Let_def raises_flush_registration)

lemma raises_patch_registration:
  "raises_within {400, 404, 409, 422} (fst (patch_registration digest cur now i token body s))"
  unfolding patch_registration_def duplicate_registration_def
  by (intro raising raises_within_mono [OF raises_patch]) auto

lemma raises_rotate_draft_token:
  "raises_within {404} (fst (rotate_draft_token digest c cur now i token raw s))"
  unfolding rotate_draft_token_def rotate_token_def Let_def prod.case by (intro raising) auto

lemma raises_put_contacts:
  "raises_within {400, 404} (fst (put_contacts digest cur now i token fresh body s))"
  unfolding put_contacts_def by (intro raising) (auto simp: replace_contacts_def Let_def)

lemma raises_form_check:
  assumes "\<And>a b e. validator a b = Schema_raises e \<Longrightarrow> \<not> is_application_error e"
    "form_check validator cur r s = Some e"
  shows "raises_within {400} (Inl e)"
  using assms(2) by (auto simp: form_check_def raises_within_other [OF assms(1)] split: option.splits if_splits schema_verdict.splits)

lemma raises_submit:
  assumes "\<And>a b e. validator a b = Schema_raises e \<Longrightarrow> \<not> is_application_error e"
  shows "raises_within {400, 404} (fst (submit validator cur now r s))"
proof -
  have "raises_within {400, 404} (Inl e :: exn + registration)" if "form_check validator cur r s = Some e" for e
    by (rule raises_within_mono [OF raises_form_check [OF assms that]]) auto
  then show ?thesis
    by (simp add: submit_def Let_def raises_flush_registration split: option.split)
qed

lemma raises_submit_registration:
  assumes "\<And>a b e. validator a b = Schema_raises e \<Longrightarrow> \<not> is_application_error e"
  shows "raises_within {400, 404, 409} (fst (submit_registration validator digest cur now i token s))"
  unfolding submit_registration_def duplicate_registration_def
  by (intro raising raises_within_mono [OF raises_submit [OF assms]]) auto

lemma raises_initiate_profile_image_upload:
  "raises_within {404, 413, 422}
     (fst (initiate_profile_image_upload upload digest c t now i token m nonce body s))"
  unfolding initiate_profile_image_upload_def
  by (intro raising) (auto simp: Let_def intro!: raising split: option.split)

lemma raises_inspect [raising]: "raises_within S (inspect h)"
  by (simp add: inspect_def split: head_result.split)

lemma raises_complete_profile_image_upload:
  "raises_within {404, 409, 422}
     (fst (complete_profile_image_upload head digest cur now i token m body s))"
  unfolding complete_profile_image_upload_def
  by (intro raising) (auto intro!: raising split: option.split)

section \<open>Codes and payments\<close>

text \<open>What the providers raise is theirs: no \<open>ApplicationError\<close>.\<close>

definition foreign :: "exn + 'a \<Rightarrow> bool" where
  "foreign r = (case r of Inl e \<Rightarrow> \<not> is_application_error e | Inr x \<Rightarrow> True)"

lemma foreign_within: "foreign r \<Longrightarrow> raises_within S r"
  by (auto simp: foreign_def raises_within_other split: sum.splits)

lemma foreignD: "foreign (fst out) \<Longrightarrow> out = (Inl (ApplicationError c n d), s) \<Longrightarrow> False"
  by (simp add: foreign_def)

lemma raises_send_otp:
  assumes "\<And>phone code name p. foreign (fst (send_code phone code name p))"
  shows "raises_within {404, 429}
    (fst (send_otp send_code hmac digest c t name now i token challenge code ip st))"
proof (rule raises_withinI)
  fix k n d
  obtain s p where st: "st = (s, p)" by (cases st)
  have refused: "n = 429" if "send_refused c cur now h r s = Some (ApplicationError k n d)" for cur h r
    using that by (auto simp: send_refused_def Let_def split: if_splits option.splits)
  have sent: "n = 429" if "send send_code hmac digest c cur now challenge code r ip name (s, p) =
      (Inl (ApplicationError k n d), st')" for cur r st'
    using that by (auto simp: send_def Let_def dest: refused foreignD [OF assms] split: option.splits sum.splits prod.splits if_splits)
  assume "fst (send_otp send_code hmac digest c t name now i token challenge code ip st) = Inl (ApplicationError k n d)"
  then show "n \<in> {404, 429}"
    by (auto simp: send_otp_def st dest: sent raises_withinD [OF raises_authorized [of "{404}"], simplified] split: sum.splits prod.splits)
qed

lemma raises_verify: "raises_within {400} (fst (verify hmac c cur now r code s))"
  by (simp add: verify_def Let_def split: option.split)

lemma raises_verify_otp:
  "raises_within {400, 404} (fst (verify_otp hmac digest c t now i token code s))"
  using raises_withinD [OF raises_authorized [of "{404}" digest "tenant_session t" now i token s]]
  by (auto simp: verify_otp_def intro!: raises_withinI dest: raises_outcomeD [OF raises_verify]
      split: sum.splits prod.splits if_splits)

lemma raises_flush_payment [raising]: "raises_within S (fst (flush_payment cur p r s))"
  by (simp add: flush_payment_def)

lemma raises_payable: "raises_within {400} (payable r)"
  by (simp add: payable_def split: option.split)

lemma raises_initiate_payment:
  assumes "\<And>amount cu url text g. foreign (fst (gw_initiate amount cu url text g))"
  shows "raises_within {400, 404, 409}
    (fst (initiate_payment gw_initiate gw_name jwt_encode digest c cur now i token tn nonce key st))"
proof (rule raises_withinI)
  fix k n d
  obtain s g where st: "st = (s, g)" by (cases st)
  have start: False if "start_payment gw_initiate gw_name jwt_encode digest c cur now tn nonce r key amount cu (s, g) =
      (Inl (ApplicationError k n d), st')" for r amount cu st'
    using that
    by (auto simp: start_payment_def Let_def
        dest: foreignD [OF assms] raises_outcomeD [OF raises_flush_payment [of "{}"]] split: sum.splits prod.splits)
  have initiated: "n \<in> {400, 409}" if "initiate gw_initiate gw_name jwt_encode digest c cur now tn nonce r key (s, g) =
      (Inl (ApplicationError k n d), st')" for r st'
    using that by (auto simp: initiate_def dest: start raises_withinD [OF raises_payable] split: option.splits sum.splits prod.splits if_splits)
  assume "fst (initiate_payment gw_initiate gw_name jwt_encode digest c cur now i token tn nonce key st) =
      Inl (ApplicationError k n d)"
  then show "n \<in> {400, 404, 409}"
    by (auto simp: initiate_payment_def st
        dest: initiated raises_withinD [OF raises_authorized [of "{404}"], simplified] split: sum.splits prod.splits)
qed

lemma raises_get_payment_status:
  "raises_within {404} (get_payment_status digest cur now i token s)"
  using raises_authorized [of "{404}" digest cur now i token s]
  by (auto simp: get_payment_status_def raises_within_def split: sum.split)

lemma raises_callback_claims: "raises_within {401} (callback_claims jwt_decode c now name state)"
  by (auto simp: callback_claims_def callback_invalid_def split: sum.split option.split prod.split)

lemma raises_payment_callback:
  assumes "\<And>auth amount cu data g. foreign (fst (gw_verify auth amount cu data g))"
  shows "raises_within {401, 404}
    (fst (payment_callback gw_verify gw_name jwt_decode digest c now name state query st))"
proof (rule raises_withinI)
  fix k n d
  obtain s g where st: "st = (s, g)" by (cases st)
  have verified: "n \<in> {401, 404}" if "verify_callback gw_verify gw_name digest cur now i nonce data (s, g) =
      (Inl (ApplicationError k n d), st')" for cur i nonce data st'
    using that by (auto simp: verify_callback_def Let_def dest: foreignD [OF assms] split: option.splits sum.splits prod.splits if_splits)
  assume "fst (payment_callback gw_verify gw_name jwt_decode digest c now name state query st) =
      Inl (ApplicationError k n d)"
  then show "n \<in> {401, 404}"
    by (auto simp: payment_callback_def st dest: verified raises_withinD [OF raises_callback_claims] split: sum.splits prod.splits if_splits)
qed

section \<open>Registration administration and media\<close>

lemma raises_admin_get [raising]: "404 \<in> S \<Longrightarrow> raises_within S (admin_get cur i s)"
  by (simp add: admin_get_def split: option.split)

lemma raises_registration_detail: "raises_within {404} (registration_detail cur i s)"
  by (simp add: registration_detail_def admin_get_def split: option.split)

lemma raises_update_registration:
  "raises_within {400, 404} (fst (update_registration cur now actor i body s))"
  unfolding update_registration_def
  by (intro raising) (auto simp: admin_update_registration_def Let_def)

lemma raises_initiate_upload:
  "raises_within {413, 422} (fst (initiate_upload upload c t m nonce body s))"
  by (auto simp: initiate_upload_def Let_def split: option.split)

lemma raises_complete_upload_request:
  "raises_within {404, 409, 422} (fst (complete_upload_request head cur m body s))"
  unfolding complete_upload_request_def
  by (intro raising) (auto simp: complete_upload_def intro!: raises_case raises_inspect split: option.split)

lemma raises_download_media: "raises_within {404} (download_media url cur m s)"
  by (simp add: download_media_def split: option.split)

section \<open>Guards\<close>

lemma raises_resolve_tenant: "raises_within {404} (resolve_tenant U ip_address ip_network c req s)"
proof -
  have "raises_within {404} (any_network nets ip)" for nets :: "('a \<Rightarrow> bool) option list" and ip
    by (induction nets ip rule: any_network.induct) auto
  then have "raises_within {404} (client_is_trusted_proxy ip_address ip_network c req)"
    by (auto simp: client_is_trusted_proxy_def split: option.split)
  then have "raises_within {404} (request_hostname U ip_address ip_network c req)"
    by (auto simp: request_hostname_def Let_def raises_within_def split: sum.split)
  moreover have "raises_within {404} (resolve_active_domain name s)" for name
    by (auto simp: resolve_active_domain_def split: list.split)
  ultimately show ?thesis
    by (auto simp: resolve_tenant_def intro!: raises_withinI dest: raises_withinD
        split: sum.splits option.splits if_splits)
qed

lemma raises_feature [raising]: "404 \<in> S \<Longrightarrow> raises_within S (ensure_feature_enabled t key s)"
  by (simp add: ensure_feature_enabled_def)

lemma raises_require_feature: "raises_within {404} (require_feature key tenant s)"
  by (simp add: require_feature_def tenant_context_from_request_def raises_feature split: option.split)

lemma raises_feature_guard [raising]: "404 \<in> S \<Longrightarrow> raises_within S (feature_guard key ctx s)"
  by (simp add: feature_guard_def raises_feature)

lemma raises_require_permission [raising]: "403 \<in> S \<Longrightarrow> raises_within S (require_permission p who)"
  by (simp add: require_permission_def split: option.split)

lemma raises_decode: "raises_within {} (decode_access_token dec c now token)"
proof -
  have "raises_within {} (parse_uuid v)" for v
    by (auto simp: parse_uuid_def Let_def split: option.split)
  then have "raises_within {} (claim_uuid v)" for v
    by (auto simp: claim_uuid_def split: option.split json.split)
  then show ?thesis
    by (auto simp: decode_access_token_def Let_def map_sum_def intro!: raises_withinI dest: raises_withinD
        split: option.splits sum.splits if_splits)
qed

lemma raises_claims_of [raising]: "401 \<in> S \<Longrightarrow> raises_within S (claims_of K U c now cr)"
  using raises_withinD [OF raises_decode [of "jwt_decoder K" c now]]
  by (auto simp: claims_of_def intro!: raises_withinI split: option.splits prod.splits if_splits sum.splits exn.splits)

lemma raises_with_permission:
  "raises_within {401, 403, 404} (with_permission K U c now p tenant cr s)"
  using raises_withinD [OF raises_claims_of [of "{401}" K U c now cr]]
    raises_withinD [OF raises_require_permission [of "{403}" p]]
  by (auto simp: with_permission_def tenant_principal_def tenant_context_from_request_def
      intro!: raises_withinI split: option.splits sum.splits if_splits prod.splits)

section \<open>Authentication\<close>

lemma raises_flush_token [raising]: "raises_within S (fst (flush_token r s))"
  by (auto simp: flush_token_def insert_unless_def)

lemma raises_issue_pair [raising]: "raises_within S (fst (issue_pair K c now d u t family s))"
  unfolding issue_pair_def by (intro raising) simp

lemma raises_authenticate [raising]:
  "429 \<in> S \<Longrightarrow> raises_within S (fst (authenticate_user K U c now a p ip only s))"
  by (simp add: authenticate_user_def enforce_rate_limit_def Let_def)

lemma raises_tenant_login:
  "raises_within {401, 404, 429} (fst (tenant_login K U c now d req tenant b s))"
  unfolding tenant_login_def tenant_context_from_request_def
  by (auto simp: ensure_tenant_access_def Let_def intro!: raising split: option.split)

lemma raises_rotate_refresh_token [raising]:
  "401 \<in> S \<Longrightarrow> raises_within S (fst (rotate_refresh_token K c now d raw expected s))"
  by (auto simp: rotate_refresh_token_def Let_def intro!: raising split: option.split)

lemma raises_tenant_refresh:
  "raises_within {401, 404} (fst (tenant_refresh K c now d tenant raw s))"
  unfolding tenant_refresh_def tenant_context_from_request_def refresh_response_def
  by (auto intro!: raising split: option.split prod.split)

section \<open>Site builds\<close>

lemma raises_flush_build [raising]: "raises_within S (fst (flush_build cur r s))"
  by (simp add: flush_build_def)

lemma raises_flush_builds [raising]: "raises_within S (fst (flush_builds cur rs s))"
  by (induction cur rs s rule: flush_builds.induct) (auto intro!: raising)

lemma raises_state_for_update [raising]: "raises_within S (fst (state_for_update cur t s))"
  by (simp add: state_for_update_def Let_def split: option.split)

lemma raises_enqueue [raising]: "raises_within S (fst (enqueue cur now fresh t n ch s))"
  by (simp add: enqueue_def Let_def raises_flush_build split: option.split)

lemma raises_public_content_changed [raising]:
  "raises_within S (fst (public_content_changed cur now fresh t ch s))"
  unfolding public_content_changed_def Let_def by (intro raising)

lemma raises_request_rebuild: "raises_within {} (fst (request_rebuild now fresh t actor s))"
  unfolding request_rebuild_def manual_rebuild_def Let_def by (intro raising) simp

lemma raises_record_result:
  "raises_within {404, 409, 422} (fst (record_result c cur now i result s))"
  by (auto simp: record_result_def record_success_def record_failure_def Let_def intro!: raising
      split: option.split result_status.split)

lemma raises_verify_message: "raises_within {401} (verify_message hmac secret now ts sig m p body age)"
  by (simp add: verify_message_def split: option.split)

lemma raises_record_build_result:
  "raises_within {401, 404, 409, 422}
     (fst (record_build_result hmac parse c now path m i ts sig body s))"
  unfolding record_build_result_def
  by (auto intro!: raising raises_within_mono [OF raises_verify_message] raises_within_mono [OF raises_record_result]
      split: option.split)

end
