(* ===== verification/ContentErrors.thy ===== *)
theory ContentErrors
  imports ErrorStatuses RichTextSafety ContentAdmin ContentPublic
begin

text \<open>
  The statuses of the content side: documents raise no application error at all, the admin endpoints
  stay within 403, 404, 409 and 422, the public ones within 404, 409 and 429.
\<close>

section \<open>Documents\<close>

lemma raises_urlsplit [raising]: "raises_within S (urlsplit b n u)"
  by (simp add: urlsplit_def Let_def split: prod.split)

lemma raises_validate_document [raising]: "raises_within S (validate_document (urlsplit b n) full v)"
proof (rule raises_withinI)
  fix c k d assume "validate_document (urlsplit b n) full v = Inl (ApplicationError c k d)"
  then have "refusal (urlsplit b n) (ApplicationError c k d)" by (rule refusal_document)
  then show "k \<in> S"
    using raises_withinD [OF raises_urlsplit] by (auto simp: refusal_def)
qed

lemma raises_leaves [raising]:
  "raises_within S (as_mapping v m)" "raises_within S (item es key)" "raises_within S (py_int v)"
  "raises_within S (iterate v)" "raises_within S (children_of es m)"
  by (cases v; simp add: item_def iterate_def split: option.split)+
    (simp add: children_of_def split: json.split option.split)

lemma raises_uuid_of [raising]: "raises_within S (uuid_of v)"
proof -
  have "raises_within S (parse_uuid t)" for t
    by (auto simp: parse_uuid_def Let_def split: option.split)
  then show ?thesis by (cases v) auto
qed

lemma raises_visit:
  "raises_within S (visit node)" "raises_within S (visit_all children)"
proof (induction node and children rule: visit_visit_all.induct)
  case (1 node)
  have "raises_within S (image_id node)"
    by (auto simp: image_id_def intro!: raising)
  with 1 show ?case by (auto intro!: raising)
qed (auto intro!: raising)

lemma raises_referenced [raising]: "raises_within S (referenced_media_ids doc)"
  unfolding referenced_media_ids_def by (intro raising raises_visit)

lemma raises_safe_href [raising]: "raises_within S (safe_href (urlsplit b n) v)"
  by (auto simp: safe_href_def intro!: raising split: json.split)

lemma raises_wrap_marks: "raises_within S (wrap_marks (urlsplit b n) marks t)"
proof (induction "urlsplit b n" marks t rule: wrap_marks.induct)
  case (2 mark marks t)
  have "raises_within S (wrap_mark (urlsplit b n) m t)" for m
    unfolding wrap_mark_def by (intro raising)
  with 2 show ?case unfolding wrap_marks.simps by (intro raising)
qed simp

lemma raises_render_text: "raises_within S (render_text py_repr (urlsplit b n) node)"
  unfolding render_text_def by (intro raising raises_wrap_marks)

lemma raises_render_image: "raises_within S (render_image py_repr node)"
  unfolding render_image_def Let_def by (intro raising)

lemma raises_wrap_children: "raises_within S (wrap_children ty node html)"
  unfolding wrap_children_def by (intro raising)

lemma raises_render:
  "raises_within S (render_node py_repr (urlsplit b n) node)"
  "raises_within S (render_children py_repr (urlsplit b n) m nodes)"
proof (induction py_repr "urlsplit b n" node and py_repr "urlsplit b n" m nodes
    rule: render_node_render_children.induct)
  case (1 py_repr node)
  show ?case
    unfolding render_node.simps
    by (intro raising raises_render_text raises_render_image raises_wrap_children 1)
qed (auto intro!: raising)

lemma raises_render_document [raising]: "raises_within S (render_document py_repr (urlsplit b n) doc)"
  unfolding render_document_def by (intro raising raises_render)

section \<open>The blog\<close>

lemma raises_find_post [raising]: "404 \<in> S \<Longrightarrow> raises_within S (find_post cur i s)"
  by (simp add: find_post_def split: option.split)

lemma raises_prepare [raising]:
  assumes "422 \<in> S"
  shows "raises_within S (prepare py_repr (urlsplit b n) t public cover og doc s)"
proof -
  have "raises_within S (validate_media t public ids s)" for ids
    using assms by (induction t public ids s rule: validate_media.induct) (auto split: option.split)
  then show ?thesis
    unfolding prepare_def all_media_ids_def by (intro raising)
qed

lemma raises_flush_post [raising]: "raises_within S (fst (flush_post cur now p s))"
  by (simp add: flush_post_def Let_def)

lemma raises_sync_references [raising]: "raises_within S (fst (sync_references cur fresh p doc s))"
  using raises_withinD [OF raises_referenced [of "{}" doc]]
  by (auto simp: sync_references_def Let_def intro!: raises_withinI split: sum.splits if_splits)

lemma raises_blog_guard [raising]:
  "403 \<in> S \<Longrightarrow> 404 \<in> S \<Longrightarrow> raises_within S (blog_guard p ctx who s)"
  unfolding blog_guard_def by (intro raising)

lemma raises_validate_blog [raising]:
  "raises_within S (validate_blog_create (urlsplit b n) body)"
  "raises_within S (validate_blog_update (urlsplit b n) change)"
  by (auto simp: validate_blog_create_def validate_blog_update_def intro!: raising split: option.split)

lemma raises_outcome_case:
  "raises_within S m \<Longrightarrow> (\<And>x y. m = Inr (x, y) \<Longrightarrow> raises_within S (fst (k x y)))
    \<Longrightarrow> raises_within S (fst (case m of Inl e \<Rightarrow> (Inl e, s) | Inr (x, y) \<Rightarrow> k x y))"
  by (cases m) (auto simp: raises_within_def)

lemma raises_create [raising]:
  "422 \<in> S \<Longrightarrow> raises_within S (fst (create py_repr (urlsplit b n) now d t actor body s))"
  unfolding create_def Let_def
  by (intro raises_outcome_case raising) (simp_all split: if_splits add: raising)

lemma raises_update [raising]:
  "422 \<in> S \<Longrightarrow> raises_within S (fst (update py_repr (urlsplit b n) now d t actor p change s))"
  unfolding update_def Let_def
  by (auto intro!: raises_outcome_case raising)

lemma raises_publish [raising]:
  "422 \<in> S \<Longrightarrow> raises_within S (fst (publish py_repr (urlsplit b n) now d t actor p s))"
  unfolding publish_def Let_def
  by (auto intro!: raises_outcome_case raising)

lemma raises_archive [raising]: "raises_within S (fst (archive now d t actor p s))"
  unfolding archive_def by (auto intro!: raising)

lemma raises_require_publish [raising]: "403 \<in> S \<Longrightarrow> raises_within S (require_publish who)"
  by (simp add: require_publish_def split: option.split)

lemma raises_list_blog_posts: "raises_within {403, 404} (list_blog_posts ctx who p wanted s)"
  unfolding list_blog_posts_def by (intro raising) simp_all

lemma raises_create_blog_post:
  "raises_within {403, 404, 409, 422} (fst (create_blog_post py_repr (urlsplit b n) now d ctx who body s))"
  unfolding create_blog_post_def by (intro raising) simp_all

lemma raises_get_blog_post: "raises_within {403, 404} (get_blog_post ctx who i s)"
  unfolding get_blog_post_def by (intro raising) simp_all

lemma raises_update_blog_post:
  "raises_within {403, 404, 409, 422} (fst (update_blog_post py_repr (urlsplit b n) now d ctx who i body s))"
  unfolding update_blog_post_def by (auto intro!: raising split: prod.split)

lemma raises_publish_blog_post:
  "raises_within {403, 404, 409, 422} (fst (publish_blog_post py_repr (urlsplit b n) now d ctx who i s))"
  unfolding publish_blog_post_def by (intro raising) simp_all

lemma raises_archive_blog_post:
  "raises_within {403, 404} (fst (archive_blog_post now d ctx who i s))"
  unfolding archive_blog_post_def by (intro raising) simp_all

lemma raises_map_attempt [raising]: "(\<And>x. raises_within S (f x)) \<Longrightarrow> raises_within S (map_attempt f xs)"
  by (induction xs) (auto intro!: raising)

lemma raises_summarise [raising]: "raises_within S (summarise media_of p)"
  by (simp add: summarise_def split: option.split)

lemma raises_detail_of [raising]: "raises_within S (detail_of media_of p)"
  unfolding detail_of_def by (intro raising)

lemma raises_snapshot_attempts [raising]:
  "409 \<in> S \<Longrightarrow> raises_within S (snapshot_attempts cur requested held rs)"
  by (induction cur requested held rs rule: snapshot_attempts.induct) (auto simp: Let_def intro!: raising)

lemma raises_blog_snapshot: "raises_within {404, 409} (blog_snapshot ctx requested s r1 r2 r3)"
  unfolding blog_snapshot_def by (intro raising) auto

lemma raises_list_public_posts: "raises_within {404} (list_public_posts ctx p s)"
  unfolding list_public_posts_def Let_def by (intro raising) simp

lemma raises_get_public_post: "raises_within {404} (get_public_post ctx name s)"
  unfolding get_public_post_def Let_def
  by (auto intro!: raising split: option.split)

section \<open>Content administration\<close>

lemma raises_checked [raising]: "raises_within S (checked ok b)"
  by (simp add: checked_def)

lemma raises_validated [raising]: "raises_within S (validated f v)"
  by (simp add: validated_def split: option.split)

lemma raises_validators [raising]:
  "raises_within S (validate_post_write pw)" "raises_within S (validate_banner_write u bw)"
  "raises_within S (validate_category_write cw)" "raises_within S (validate_honor_write hw)"
  "raises_within S (validate_staff_write m sw)" "raises_within S (validate_plan_write plw)"
  "raises_within S (validate_offering_write ow)" "raises_within S (validate_sample_write saw)"
  "raises_within S (validate_album_write aw)" "raises_within S (validate_item_write iw)"
  "raises_within S (validate_profile_write u prw)" "raises_within S (validate_contact_create cc)"
  "raises_within S (validate_contact_update cu)"
  unfolding validate_post_write_def validate_banner_write_def validate_category_write_def
    validate_honor_write_def validate_staff_write_def validate_plan_write_def
    validate_offering_write_def validate_sample_write_def validate_album_write_def
    validate_item_write_def validate_profile_write_def validate_contact_update_def
  by (auto simp: Let_def validate_contact_create_def normalize_iranian_mobile_def
      intro!: raising split: option.split sum.split)

lemma raises_admin_guard [raising]:
  "403 \<in> S \<Longrightarrow> 404 \<in> S \<Longrightarrow> raises_within S (admin_guard key p ctx who s)"
  unfolding admin_guard_def by (auto intro!: raising split: option.split)

lemma raises_resource_get [raising]: "404 \<in> S \<Longrightarrow> raises_within S (resource_get E cur i s)"
  by (simp add: resource_get_def split: option.split)

lemma raises_flush_check [raising]: "raises_within S (flush_check E r s)"
  by (simp add: flush_check_def)

lemma raises_resource_create [raising]: "raises_within S (fst (resource_create E now fresh t actor body s))"
  unfolding resource_create_def Let_def by (auto intro!: raising)

lemma raises_resource_update [raising]:
  "409 \<in> S \<Longrightarrow> raises_within S (fst (resource_update E now t actor body r s))"
  unfolding resource_update_def Let_def by (auto intro!: raising)

text \<open>The endpoints of every class share one set.\<close>

lemma raises_create_resource:
  assumes "\<And>x. raises_within {} (validate x)"
  shows "raises_within {403, 404, 409} (fst (create_resource E key validate now fresh ctx who body s))"
proof -
  have "raises_within {403, 404, 409} (validate body)"
    using assms by (rule raises_within_mono) simp
  then show ?thesis
    unfolding create_resource_def by (intro raising) simp_all
qed

lemma raises_list_resource: "raises_within {403, 404} (list_resource E key p any_order ctx who pg s)"
  unfolding list_resource_def by (intro raising) simp_all

lemma raises_update_resource:
  assumes "\<And>x. raises_within {} (validate x)"
  shows "raises_within {403, 404, 409} (fst (update_resource E key validate now ctx who i body s))"
proof -
  have "raises_within {403, 404, 409} (validate body)"
    using assms by (rule raises_within_mono) simp
  then show ?thesis
    unfolding update_resource_def by (auto intro!: raising split: prod.split)
qed

lemmas raises_resource = raises_create_resource raises_list_resource raises_update_resource

lemma raises_post_guard [raising]:
  "{403, 404, 422} \<subseteq> S \<Longrightarrow> raises_within S (post_guard body ctx who s)"
  unfolding post_guard_def by (auto intro!: raising)

lemma raises_list_posts: "raises_within {403, 404} (list_posts any_order k ctx who pg s)"
  unfolding list_posts_def by (intro raising) simp_all

lemma raises_create_post:
  "raises_within {403, 404, 409, 422} (fst (create_post now fresh ctx who body s))"
  unfolding create_post_def by (intro raising) auto

lemma raises_update_post:
  "raises_within {403, 404, 409, 422} (fst (update_post now ctx who i body s))"
  unfolding update_post_def by (auto intro!: raising split: prod.split)

lemma raises_create_gallery_item:
  "raises_within {403, 404, 409} (fst (create_gallery_item now fresh ctx who album body s))"
  unfolding create_gallery_item_def
  by (intro raising) (auto simp: add_gallery_item_def Let_def)

lemma raises_set_exam_plans [raising]:
  "422 \<in> S \<Longrightarrow> raises_within S (fst (set_exam_plans cur exam ids s))"
  by (simp add: set_exam_plans_def Let_def)

lemma raises_list_exams: "raises_within {403, 404} (list_exams any_order plan_order ctx who pg s)"
  unfolding list_exams_def list_resource_def by (intro raising) simp_all

lemma raises_create_exam:
  "raises_within {403, 404, 409, 422} (fst (create_exam now fresh ctx who body s))"
  unfolding create_exam_def by (intro raising) auto

lemma raises_update_exam:
  "raises_within {403, 404, 409, 422} (fst (update_exam now ctx who i body s))"
  unfolding update_exam_def by (auto intro!: raising split: prod.split)

lemma raises_replace_school_profile:
  "raises_within {403, 404} (fst (replace_school_profile u now d ctx who body s))"
  unfolding replace_school_profile_def
  by (intro raising) (auto simp: replace_profile_def Let_def)

lemma raises_reset_school_profile:
  "raises_within {403, 404} (fst (reset_school_profile now ctx who s))"
  unfolding reset_school_profile_def
  by (intro raising) (auto simp: reset_profile_def Let_def split: option.split)

lemma raises_list_contact_requests:
  "raises_within {403, 404} (list_contact_requests any_order ctx who pg s)"
  unfolding list_contact_requests_def by (intro raising) simp_all

lemma raises_handle_contact_request:
  "raises_within {403, 404} (fst (handle_contact_request now ctx who i body s))"
  unfolding handle_contact_request_def
  by (auto simp: handle_contact_def Let_def intro!: raising split: option.split prod.split)

lemma raises_archive_entity [raising]:
  "404 \<in> S \<Longrightarrow> raises_within S (fst (archive_entity E feature now ctx who i s))"
  unfolding archive_entity_def archive_or_delete_def Let_def by (auto intro!: raising)

lemma raises_archive_resource:
  "raises_within {403, 404} (fst (archive_resource now ctx who resource i s))"
proof -
  have choose: "raises_within {403, 404} (fst (if P then x else y))"
    if "raises_within {403, 404} (fst x)" "raises_within {403, 404} (fst y)" for P and x y :: "(unit, content_db) outcome"
    using that by simp
  show ?thesis
    unfolding archive_resource_def by (intro raising choose) simp_all
qed

section \<open>Public content\<close>

lemma raises_with_feature [raising]: "404 \<in> S \<Longrightarrow> raises_within S (with_feature key ctx s x)"
  unfolding with_feature_def by (intro raising)

lemma raises_post_detail [raising]: "404 \<in> S \<Longrightarrow> raises_within S (post_detail now cur k name s)"
  by (simp add: post_detail_def split: option.split)

lemma raises_gallery_detail: "raises_within {404} (gallery_detail name ctx s)"
  unfolding gallery_detail_def by (intro raising) (simp_all split: option.split)

lemma raises_public:
  "raises_within {404} (public_banners now ctx s)" "raises_within {404} (news now p ctx s)"
  "raises_within {404} (news_detail now name ctx s)" "raises_within {404} (announcements now p ctx s)"
  "raises_within {404} (announcement_detail now name ctx s)" "raises_within {404} (public_honors p ctx s)"
  "raises_within {404} (public_staff ctx s)" "raises_within {404} (pricing_plans ctx s)"
  "raises_within {404} (public_sample_exams p ctx s)" "raises_within {404} (public_gallery p ctx s)"
  unfolding public_banners_def news_def news_detail_def announcements_def announcement_detail_def
    public_honors_def public_staff_def pricing_plans_def public_sample_exams_def public_gallery_def
  by (intro raising insertI1)+

lemma raises_create_contact_request:
  "raises_within {404, 429} (fst (create_contact_request hash now fresh ctx client body s))"
  unfolding create_contact_request_def Let_def
  by (intro raising) auto

end
