(* ===== verification/DocumentedErrors.thy ===== *)
theory DocumentedErrors
  imports OpenApiDocument ContentErrors
begin

text \<open>
  Every application error an endpoint raises has a status that its operation documents: the sets of
  \<open>ErrorStatuses\<close> and \<open>ContentErrors\<close> against the ones \<open>error_statuses\<close> of \<open>core/openapi.py\<close> gives
  the operations of the committed document. Errors of the request's validation are \<open>PyValueError\<close>s
  of the model; FastAPI documents their 422 itself.
\<close>

text \<open>What the operation of a method and a path documents; the document has at most one.\<close>

definition documented_at :: "string \<Rightarrow> string \<Rightarrow> nat set" where
  "documented_at method path =
     \<Union> (documented ` set (filter (\<lambda>r. op_method r = method \<and> op_path r = path) committed_operations))"

lemma documented_errors: "r \<in> set committed_operations \<Longrightarrow> documented r = set (op_errors r)"
  using committed_ok by (auto simp: documented_listed list_all_iff)

text \<open>A walk through the operations and, in the same order, the statuses raised by some of them.\<close>

fun covered_by :: "op_row list \<Rightarrow> (string \<times> string \<times> nat list) list \<Rightarrow> bool" where
  "covered_by rows [] = True"
| "covered_by [] (x # xs) = False"
| "covered_by (r # rows) ((method, path, codes) # xs) =
     (if op_path r = path
      then (if op_method r = method
            then list_all (\<lambda>code. code \<in> set (op_errors r)) codes \<and> covered_by rows xs
            else covered_by rows ((method, path, codes) # xs))
      else covered_by rows ((method, path, codes) # xs))"

lemma covered_byD:
  "covered_by rows xs \<Longrightarrow> (method, path, codes) \<in> set xs
    \<Longrightarrow> \<exists>r\<in>set rows. op_method r = method \<and> op_path r = path \<and> set codes \<subseteq> set (op_errors r)"
proof (induction rows xs rule: covered_by.induct)
  case (3 r rows m p cs xs)
  then show ?case by (auto simp: list_all_iff split: if_splits)
qed simp_all

definition raised_statuses :: "(string \<times> string \<times> nat list) list" where
  "raised_statuses =
     [(''post'', ''/api/v1/admin/auth/login'', [401, 404, 429]),
      (''post'', ''/api/v1/admin/auth/refresh'', [401, 404]),
      (''get'', ''/api/v1/admin/banners'', [403, 404]),
      (''post'', ''/api/v1/admin/banners'', [403, 404, 409]),
      (''put'', ''/api/v1/admin/banners/{entity_id}'', [403, 404, 409]),
      (''get'', ''/api/v1/admin/blog'', [403, 404]),
      (''post'', ''/api/v1/admin/blog'', [403, 404, 409, 422]),
      (''get'', ''/api/v1/admin/blog/{post_id}'', [403, 404]),
      (''patch'', ''/api/v1/admin/blog/{post_id}'', [403, 404, 409, 422]),
      (''post'', ''/api/v1/admin/blog/{post_id}/archive'', [403, 404]),
      (''post'', ''/api/v1/admin/blog/{post_id}/publish'', [403, 404, 409, 422]),
      (''get'', ''/api/v1/admin/contact-requests'', [403, 404]),
      (''patch'', ''/api/v1/admin/contact-requests/{entity_id}'', [403, 404]),
      (''get'', ''/api/v1/admin/exams'', [403, 404]),
      (''post'', ''/api/v1/admin/exams'', [403, 404, 409, 422]),
      (''put'', ''/api/v1/admin/exams/{entity_id}'', [403, 404, 409, 422]),
      (''get'', ''/api/v1/admin/gallery'', [403, 404]),
      (''post'', ''/api/v1/admin/gallery'', [403, 404, 409]),
      (''post'', ''/api/v1/admin/gallery/{album_id}/items'', [403, 404, 409]),
      (''put'', ''/api/v1/admin/gallery/{entity_id}'', [403, 404, 409]),
      (''get'', ''/api/v1/admin/honor-categories'', [403, 404]),
      (''post'', ''/api/v1/admin/honor-categories'', [403, 404, 409]),
      (''put'', ''/api/v1/admin/honor-categories/{entity_id}'', [403, 404, 409]),
      (''get'', ''/api/v1/admin/honors'', [403, 404]),
      (''post'', ''/api/v1/admin/honors'', [403, 404, 409]),
      (''put'', ''/api/v1/admin/honors/{entity_id}'', [403, 404, 409]),
      (''post'', ''/api/v1/admin/media/uploads'', [413, 422]),
      (''post'', ''/api/v1/admin/media/uploads/{media_id}/complete'', [404, 409, 422]),
      (''get'', ''/api/v1/admin/posts'', [403, 404]),
      (''post'', ''/api/v1/admin/posts'', [403, 404, 409, 422]),
      (''put'', ''/api/v1/admin/posts/{entity_id}'', [403, 404, 409, 422]),
      (''get'', ''/api/v1/admin/pricing-plans'', [403, 404]),
      (''post'', ''/api/v1/admin/pricing-plans'', [403, 404, 409]),
      (''put'', ''/api/v1/admin/pricing-plans/{entity_id}'', [403, 404, 409]),
      (''get'', ''/api/v1/admin/registrations/{registration_id}'', [404]),
      (''patch'', ''/api/v1/admin/registrations/{registration_id}'', [400, 404]),
      (''get'', ''/api/v1/admin/sample-exams'', [403, 404]),
      (''post'', ''/api/v1/admin/sample-exams'', [403, 404, 409]),
      (''put'', ''/api/v1/admin/sample-exams/{entity_id}'', [403, 404, 409]),
      (''delete'', ''/api/v1/admin/school-profile'', [403, 404]),
      (''put'', ''/api/v1/admin/school-profile'', [403, 404]),
      (''post'', ''/api/v1/admin/site-build/rebuild'', []),
      (''get'', ''/api/v1/admin/staff'', [403, 404]),
      (''post'', ''/api/v1/admin/staff'', [403, 404, 409]),
      (''put'', ''/api/v1/admin/staff/{entity_id}'', [403, 404, 409]),
      (''delete'', ''/api/v1/admin/{resource}/{entity_id}'', [403, 404]),
      (''post'', ''/api/v1/internal/site-builds/{request_id}/result'', [401, 404, 409, 422]),
      (''get'', ''/api/v1/public/announcements'', [404]),
      (''get'', ''/api/v1/public/announcements/{slug}'', [404]),
      (''get'', ''/api/v1/public/banners'', [404]),
      (''get'', ''/api/v1/public/blog'', [404]),
      (''get'', ''/api/v1/public/blog/snapshot'', [404, 409]),
      (''get'', ''/api/v1/public/blog/{slug}'', [404]),
      (''post'', ''/api/v1/public/contact-requests'', [404, 429]),
      (''get'', ''/api/v1/public/gallery'', [404]),
      (''get'', ''/api/v1/public/gallery/{slug}'', [404]),
      (''get'', ''/api/v1/public/honors'', [404]),
      (''get'', ''/api/v1/public/media/{media_id}'', [404]),
      (''get'', ''/api/v1/public/news'', [404]),
      (''get'', ''/api/v1/public/news/{slug}'', [404]),
      (''get'', ''/api/v1/public/payments/callback/{provider_name}'', [401, 404]),
      (''get'', ''/api/v1/public/pricing-plans'', [404]),
      (''post'', ''/api/v1/public/registrations'', [400, 404]),
      (''get'', ''/api/v1/public/registrations/{registration_id}'', [404]),
      (''patch'', ''/api/v1/public/registrations/{registration_id}'', [400, 404, 409, 422]),
      (''put'', ''/api/v1/public/registrations/{registration_id}/contacts'', [400, 404]),
      (''post'', ''/api/v1/public/registrations/{registration_id}/otp/send'', [404, 429]),
      (''post'', ''/api/v1/public/registrations/{registration_id}/otp/verify'', [400, 404]),
      (''post'', ''/api/v1/public/registrations/{registration_id}/payment'', [400, 404, 409]),
      (''get'', ''/api/v1/public/registrations/{registration_id}/payment/status'', [404]),
      (''post'', ''/api/v1/public/registrations/{registration_id}/profile-image/upload'', [404, 413, 422]),
      (''post'', ''/api/v1/public/registrations/{registration_id}/profile-image/{media_id}/complete'', [404, 409, 422]),
      (''post'', ''/api/v1/public/registrations/{registration_id}/submit'', [400, 404, 409]),
      (''post'', ''/api/v1/public/registrations/{registration_id}/token/rotate'', [404]),
      (''get'', ''/api/v1/public/sample-exams'', [404]),
      (''get'', ''/api/v1/public/staff'', [404])]"

lemma raised_covered: "covered_by committed_operations raised_statuses"
  by code_simp

lemma covered_at: "list_all (\<lambda>(method, path, codes). set codes \<subseteq> documented_at method path) raised_statuses"
proof -
  have "set codes \<subseteq> documented_at verb path" if "(verb, path, codes) \<in> set raised_statuses"
    for verb path codes
    using covered_byD [OF raised_covered that] documented_errors by (fastforce simp: documented_at_def)
  then show ?thesis by (auto simp: list_all_iff)
qed

lemmas covered = covered_at [unfolded raised_statuses_def list.pred_inject prod.case list.set]

section \<open>Guards\<close>

definition exempt_text :: "string \<Rightarrow> bool" where
  "exempt_text p \<longleftrightarrow>
     p \<in> set [''/health/live'', ''/health/ready'', ''/docs'', ''/openapi.json'']
     \<or> list_ex (has_prefix p) [''/api/v1/public/payments/callback/'', ''/api/v1/internal/site-builds/'']"

lemma lit_members: "lit p \<in> set (map lit ps) \<longleftrightarrow> p \<in> set ps"
  "list_ex (startswith (lit p)) (map lit ps) \<longleftrightarrow> list_ex (has_prefix p) ps"
  by (auto simp: list_ex_iff)

lemma exempt_lit: "exempt (lit p) \<longleftrightarrow> exempt_text p"
  unfolding exempt_def EXEMPT_PATHS_def EXEMPT_PREFIXES_def exempt_text_def lit_members ..

definition behind_login :: "op_row \<Rightarrow> bool" where
  "behind_login r \<longleftrightarrow>
     has_prefix (op_path r) ''/api/v1/admin/'' \<and> \<not> has_prefix (op_path r) ''/api/v1/admin/auth/''"

definition of_draft :: "op_row \<Rightarrow> bool" where
  "of_draft r \<longleftrightarrow> has_prefix (op_path r) ''/api/v1/public/registrations/''"

lemma guards_covered:
  "list_all (\<lambda>r. exempt_text (op_path r) \<or> 404 \<in> set (op_errors r)) committed_operations"
  "list_all (\<lambda>r. \<not> behind_login r \<or> list_all (\<lambda>code. code \<in> set (op_errors r)) [401, 403, 404]) committed_operations"
  "list_all (\<lambda>r. \<not> of_draft r \<or> 401 \<in> set (op_errors r)) committed_operations"
  by code_simp+

lemma guards_documented:
  assumes "r \<in> set committed_operations"
  shows "\<not> exempt (lit (op_path r)) \<Longrightarrow> {404} \<subseteq> documented r"
    "behind_login r \<Longrightarrow> {401, 403, 404} \<subseteq> documented r" "of_draft r \<Longrightarrow> {401} \<subseteq> documented r"
  using guards_covered assms by (auto simp: exempt_lit documented_errors list_all_iff)

section \<open>The document\<close>

lemma committed_described:
  "list_all (\<lambda>r. list_all (\<lambda>code. map_of ERROR_DESCRIPTIONS code \<noteq> None) (op_errors r)) committed_operations"
  by code_simp

lemma all_found:
  "list_all (\<lambda>name. name \<in> set (map op_id committed_operations))
       (ADMIN_CONFLICT_OPERATIONS @ REGISTRATION_BUSINESS_RULE_OPERATIONS @ REGISTRATION_CONFLICT_OPERATIONS)"
  by code_simp

lemma found_iff: "name \<in> set (map op_id rows) \<longleftrightarrow> list_ex (\<lambda>r. op_id r = name) rows"
  by (auto simp: list_ex_iff)

section \<open>The endpoints\<close>

text \<open>committed_document_current. The committed document lists for every operation exactly the error
  statuses that the contract computes for it; each of them has a reusable response, and the operations
  that the contract names are operations of the document.\<close>

theorem committed_document_current:
  "list_all (\<lambda>r. documented r = set (op_errors r)) committed_operations
   \<and> list_all (\<lambda>r. list_all (\<lambda>code. map_of ERROR_DESCRIPTIONS code \<noteq> None) (op_errors r)) committed_operations
   \<and> list_all (\<lambda>name. list_ex (\<lambda>r. op_id r = name) committed_operations)
       (ADMIN_CONFLICT_OPERATIONS @ REGISTRATION_BUSINESS_RULE_OPERATIONS @ REGISTRATION_CONFLICT_OPERATIONS)"
proof (intro conjI)
  show "list_all (\<lambda>r. documented r = set (op_errors r)) committed_operations"
    by (simp add: list_all_iff documented_errors)
  show "list_all (\<lambda>r. list_all (\<lambda>code. map_of ERROR_DESCRIPTIONS code \<noteq> None) (op_errors r)) committed_operations"
    by (rule committed_described)
  show "list_all (\<lambda>name. list_ex (\<lambda>r. op_id r = name) committed_operations)
       (ADMIN_CONFLICT_OPERATIONS @ REGISTRATION_BUSINESS_RULE_OPERATIONS @ REGISTRATION_CONFLICT_OPERATIONS)"
    using all_found unfolding found_iff .
qed

text \<open>C38: registration_errors_documented. Every application error of the registration, payment, media and
  registration administration endpoints has a status that the OpenAPI document lists for its operation,
  if the code sender, the payment gateway and the JSON schema validator raise errors of their own kind.\<close>

theorem registration_errors_documented:
  assumes "\<And>phone code name p. foreign (fst (send_code phone code name p))"
    and "\<And>schema answers e. validator schema answers = Schema_raises e \<Longrightarrow> \<not> is_application_error e"
    and "\<And>amount currency url text g. foreign (fst (gw_initiate amount currency url text g))"
    and "\<And>authority amount currency data g. foreign (fst (gw_verify authority amount currency data g))"
  shows
    "raises_within (documented_at ''post'' ''/api/v1/public/registrations'')
         (fst (create_registration digest c t now fresh raw create_body s))
     \<and> raises_within (documented_at ''get'' ''/api/v1/public/registrations/{registration_id}'')
         (fst (get_registration digest cur now i token s))
     \<and> raises_within (documented_at ''patch'' ''/api/v1/public/registrations/{registration_id}'')
         (fst (patch_registration digest cur now i token edit_body s))
     \<and> raises_within (documented_at ''post'' ''/api/v1/public/registrations/{registration_id}/token/rotate'')
         (fst (rotate_draft_token digest c cur now i token raw s))
     \<and> raises_within (documented_at ''post'' ''/api/v1/public/registrations/{registration_id}/profile-image/upload'')
         (fst (initiate_profile_image_upload ticket digest c t now i token m fresh upload_body s))
     \<and> raises_within (documented_at ''post'' ''/api/v1/public/registrations/{registration_id}/profile-image/{media_id}/complete'')
         (fst (complete_profile_image_upload head digest cur now i token m done_body s))
     \<and> raises_within (documented_at ''put'' ''/api/v1/public/registrations/{registration_id}/contacts'')
         (fst (put_contacts digest cur now i token ids contact_bodies s))
     \<and> raises_within (documented_at ''post'' ''/api/v1/public/registrations/{registration_id}/otp/send'')
         (fst (send_otp send_code hmac digest c t name now i token fresh code ip (s, p)))
     \<and> raises_within (documented_at ''post'' ''/api/v1/public/registrations/{registration_id}/otp/verify'')
         (fst (verify_otp hmac digest c t now i token code s))
     \<and> raises_within (documented_at ''post'' ''/api/v1/public/registrations/{registration_id}/submit'')
         (fst (submit_registration validator digest cur now i token s))
     \<and> raises_within (documented_at ''post'' ''/api/v1/public/registrations/{registration_id}/payment'')
         (fst (initiate_payment gw_initiate gw_name jwt_encode digest c cur now i token fresh nonce key (s, g)))
     \<and> raises_within (documented_at ''get'' ''/api/v1/public/registrations/{registration_id}/payment/status'')
         (get_payment_status digest cur now i token s)
     \<and> raises_within (documented_at ''get'' ''/api/v1/public/payments/callback/{provider_name}'')
         (fst (payment_callback gw_verify gw_name jwt_decode digest c now name state query (s, g)))
     \<and> raises_within (documented_at ''get'' ''/api/v1/admin/registrations/{registration_id}'')
         (registration_detail cur i s)
     \<and> raises_within (documented_at ''patch'' ''/api/v1/admin/registrations/{registration_id}'')
         (fst (update_registration cur now actor i status_body s))
     \<and> raises_within (documented_at ''post'' ''/api/v1/admin/media/uploads'')
         (fst (initiate_upload ticket c t m fresh upload_body s))
     \<and> raises_within (documented_at ''post'' ''/api/v1/admin/media/uploads/{media_id}/complete'')
         (fst (complete_upload_request head cur m done_body s))
     \<and> raises_within (documented_at ''get'' ''/api/v1/public/media/{media_id}'')
         (download_media url cur m s)"
  by (intro conjI
      raises_within_mono [OF raises_create_registration]
      raises_within_mono [OF raises_get_registration]
      raises_within_mono [OF raises_patch_registration]
      raises_within_mono [OF raises_rotate_draft_token]
      raises_within_mono [OF raises_initiate_profile_image_upload]
      raises_within_mono [OF raises_complete_profile_image_upload]
      raises_within_mono [OF raises_put_contacts]
      raises_within_mono [OF raises_send_otp [OF assms(1)]]
      raises_within_mono [OF raises_verify_otp]
      raises_within_mono [OF raises_submit_registration [OF assms(2)]]
      raises_within_mono [OF raises_initiate_payment [OF assms(3)]]
      raises_within_mono [OF raises_get_payment_status]
      raises_within_mono [OF raises_payment_callback [OF assms(4)]]
      raises_within_mono [OF raises_registration_detail]
      raises_within_mono [OF raises_update_registration]
      raises_within_mono [OF raises_initiate_upload]
      raises_within_mono [OF raises_complete_upload_request]
      raises_within_mono [OF raises_download_media])
    (simp_all only: covered)

theorem registration_errors_documented_witness:
  "fst (get_registration id (tenant_session 1) 0 5 (lit ''wrong'') (sample_db []))
     = Inl (app_error ''DRAFT_ACCESS_DENIED'' 404)
   \<and> 404 \<in> documented_at ''get'' ''/api/v1/public/registrations/{registration_id}''"
proof -
  let ?answer = "fst (get_registration id (tenant_session 1) 0 5 (lit ''wrong'') (sample_db []))"
  have providers: "foreign (fst (mock_send_code x u v p))"
    "foreign (fst (mock_initiate x n u v w g))"
    "foreign (fst (mock_verify x n u q g))"
    for x u v w p n q g
    by (simp_all add: foreign_def mock_send_code_def mock_initiate_def mock_verify_def)
  have within: "raises_within (documented_at ''get'' ''/api/v1/public/registrations/{registration_id}'') ?answer"
    by (rule registration_errors_documented [OF providers(1) _ providers(2) providers(3),
          where validator = "\<lambda>_ _. Schema_ok", THEN conjunct2, THEN conjunct1]) simp
  have answer: "?answer = Inl (app_error ''DRAFT_ACCESS_DENIED'' 404)"
    by (simp add: get_registration_def with_draft_def authorized_draft_def transaction_def table_eval sample_defs)
  with within show ?thesis by (simp add: raises_within_def)
qed

text \<open>C39: content_errors_documented. Every application error of the guards of the endpoints (tenant, feature,
  principal and permission, draft token) and of the authentication, site build, content and blog
  endpoints has a status that the OpenAPI document lists for the operation.\<close>

theorem content_errors_documented:
  "list_all (\<lambda>r. raises_within (documented r) (resolve_tenant U ip_address ip_network c req pdb)
         \<and> raises_within (documented r) (require_feature key tenant pdb))
       (filter (\<lambda>r. \<not> exempt (lit (op_path r))) committed_operations)
     \<and> list_all (\<lambda>r. raises_within (documented r) (with_permission K U c now permission tenant credentials pdb))
         (filter behind_login committed_operations)
     \<and> list_all (\<lambda>r. raises_within (documented r) (draft_token header)) (filter of_draft committed_operations)
     \<and> raises_within (documented_at ''post'' ''/api/v1/admin/auth/login'')
         (fst (tenant_login K U c now d req tenant login_body pdb))
     \<and> raises_within (documented_at ''post'' ''/api/v1/admin/auth/refresh'')
         (fst (tenant_refresh K c now d tenant raw pdb))
     \<and> raises_within (documented_at ''post'' ''/api/v1/internal/site-builds/{request_id}/result'')
         (fst (record_build_result hmac parse c now path meth i stamp sig body s))
     \<and> raises_within (documented_at ''post'' ''/api/v1/admin/site-build/rebuild'')
         (fst (request_rebuild now i t actor s))
     \<and> raises_within (documented_at ''get'' ''/api/v1/admin/banners'')
         (list_banners key_order_banner ctx who pg s)
     \<and> raises_within (documented_at ''post'' ''/api/v1/admin/banners'')
         (fst (create_banner u now fresh ctx who banner_body s))
     \<and> raises_within (documented_at ''put'' ''/api/v1/admin/banners/{entity_id}'')
         (fst (update_banner u now ctx who i banner_body s))
     \<and> raises_within (documented_at ''get'' ''/api/v1/admin/honor-categories'')
         (list_honor_categories key_order_category ctx who pg s)
     \<and> raises_within (documented_at ''post'' ''/api/v1/admin/honor-categories'')
         (fst (create_honor_category now fresh ctx who category_body s))
     \<and> raises_within (documented_at ''put'' ''/api/v1/admin/honor-categories/{entity_id}'')
         (fst (update_honor_category now ctx who i category_body s))
     \<and> raises_within (documented_at ''get'' ''/api/v1/admin/honors'')
         (list_honors key_order_honor ctx who pg s)
     \<and> raises_within (documented_at ''post'' ''/api/v1/admin/honors'')
         (fst (create_honor now fresh ctx who honor_body s))
     \<and> raises_within (documented_at ''put'' ''/api/v1/admin/honors/{entity_id}'')
         (fst (update_honor now ctx who i honor_body s))
     \<and> raises_within (documented_at ''get'' ''/api/v1/admin/staff'')
         (list_staff key_order_member ctx who pg s)
     \<and> raises_within (documented_at ''post'' ''/api/v1/admin/staff'')
         (fst (create_staff mail now fresh ctx who member_body s))
     \<and> raises_within (documented_at ''put'' ''/api/v1/admin/staff/{entity_id}'')
         (fst (update_staff mail now ctx who i member_body s))
     \<and> raises_within (documented_at ''get'' ''/api/v1/admin/pricing-plans'')
         (list_pricing key_order_plan ctx who pg s)
     \<and> raises_within (documented_at ''post'' ''/api/v1/admin/pricing-plans'')
         (fst (create_pricing now fresh ctx who plan_body s))
     \<and> raises_within (documented_at ''put'' ''/api/v1/admin/pricing-plans/{entity_id}'')
         (fst (update_pricing_plan now ctx who i plan_body s))
     \<and> raises_within (documented_at ''get'' ''/api/v1/admin/sample-exams'')
         (list_sample_exams key_order_sample ctx who pg s)
     \<and> raises_within (documented_at ''post'' ''/api/v1/admin/sample-exams'')
         (fst (create_sample_exam now fresh ctx who sample_body s))
     \<and> raises_within (documented_at ''put'' ''/api/v1/admin/sample-exams/{entity_id}'')
         (fst (update_sample_exam now ctx who i sample_body s))
     \<and> raises_within (documented_at ''get'' ''/api/v1/admin/gallery'')
         (list_gallery key_order_album ctx who pg s)
     \<and> raises_within (documented_at ''post'' ''/api/v1/admin/gallery'')
         (fst (create_gallery now fresh ctx who album_body s))
     \<and> raises_within (documented_at ''put'' ''/api/v1/admin/gallery/{entity_id}'')
         (fst (update_gallery_album now ctx who i album_body s))
     \<and> raises_within (documented_at ''post'' ''/api/v1/admin/gallery/{album_id}/items'')
         (fst (create_gallery_item now fresh ctx who i item_body s))
     \<and> raises_within (documented_at ''get'' ''/api/v1/admin/posts'')
         (list_posts post_order kind ctx who pg s)
     \<and> raises_within (documented_at ''post'' ''/api/v1/admin/posts'')
         (fst (create_post now fresh ctx who post_write_body s))
     \<and> raises_within (documented_at ''put'' ''/api/v1/admin/posts/{entity_id}'')
         (fst (update_post now ctx who i post_write_body s))
     \<and> raises_within (documented_at ''get'' ''/api/v1/admin/exams'')
         (list_exams exam_order plan_order ctx who pg s)
     \<and> raises_within (documented_at ''post'' ''/api/v1/admin/exams'')
         (fst (create_exam now fresh ctx who exam_body s))
     \<and> raises_within (documented_at ''put'' ''/api/v1/admin/exams/{entity_id}'')
         (fst (update_exam now ctx who i exam_body s))
     \<and> raises_within (documented_at ''put'' ''/api/v1/admin/school-profile'')
         (fst (replace_school_profile u now ids ctx who profile_body s))
     \<and> raises_within (documented_at ''delete'' ''/api/v1/admin/school-profile'')
         (fst (reset_school_profile now ctx who s))
     \<and> raises_within (documented_at ''get'' ''/api/v1/admin/contact-requests'')
         (list_contact_requests request_order ctx who pg s)
     \<and> raises_within (documented_at ''patch'' ''/api/v1/admin/contact-requests/{entity_id}'')
         (fst (handle_contact_request now ctx who i handled_body s))
     \<and> raises_within (documented_at ''delete'' ''/api/v1/admin/{resource}/{entity_id}'')
         (fst (archive_resource now ctx who resource i s))
     \<and> raises_within (documented_at ''get'' ''/api/v1/admin/blog'')
         (list_blog_posts ctx who pg wanted s)
     \<and> raises_within (documented_at ''post'' ''/api/v1/admin/blog'')
         (fst (create_blog_post py_repr (urlsplit b n) now drawn_ids ctx who blog_body s))
     \<and> raises_within (documented_at ''get'' ''/api/v1/admin/blog/{post_id}'')
         (get_blog_post ctx who i s)
     \<and> raises_within (documented_at ''patch'' ''/api/v1/admin/blog/{post_id}'')
         (fst (update_blog_post py_repr (urlsplit b n) now drawn_ids ctx who i change_body s))
     \<and> raises_within (documented_at ''post'' ''/api/v1/admin/blog/{post_id}/publish'')
         (fst (publish_blog_post py_repr (urlsplit b n) now drawn_ids ctx who i s))
     \<and> raises_within (documented_at ''post'' ''/api/v1/admin/blog/{post_id}/archive'')
         (fst (archive_blog_post now drawn_ids ctx who i s))
     \<and> raises_within (documented_at ''get'' ''/api/v1/public/banners'')
         (public_banners now ctx s)
     \<and> raises_within (documented_at ''get'' ''/api/v1/public/news'')
         (news now pg ctx s)
     \<and> raises_within (documented_at ''get'' ''/api/v1/public/news/{slug}'')
         (news_detail now name ctx s)
     \<and> raises_within (documented_at ''get'' ''/api/v1/public/announcements'')
         (announcements now pg ctx s)
     \<and> raises_within (documented_at ''get'' ''/api/v1/public/announcements/{slug}'')
         (announcement_detail now name ctx s)
     \<and> raises_within (documented_at ''get'' ''/api/v1/public/honors'')
         (public_honors pg ctx s)
     \<and> raises_within (documented_at ''get'' ''/api/v1/public/staff'')
         (public_staff ctx s)
     \<and> raises_within (documented_at ''get'' ''/api/v1/public/pricing-plans'')
         (pricing_plans ctx s)
     \<and> raises_within (documented_at ''get'' ''/api/v1/public/sample-exams'')
         (public_sample_exams pg ctx s)
     \<and> raises_within (documented_at ''get'' ''/api/v1/public/gallery'')
         (public_gallery pg ctx s)
     \<and> raises_within (documented_at ''get'' ''/api/v1/public/gallery/{slug}'')
         (gallery_detail name ctx s)
     \<and> raises_within (documented_at ''post'' ''/api/v1/public/contact-requests'')
         (fst (create_contact_request hash now fresh ctx client contact_body s))
     \<and> raises_within (documented_at ''get'' ''/api/v1/public/blog'')
         (list_public_posts ctx pg s)
     \<and> raises_within (documented_at ''get'' ''/api/v1/public/blog/{slug}'')
         (get_public_post ctx name s)
     \<and> raises_within (documented_at ''get'' ''/api/v1/public/blog/snapshot'')
         (blog_snapshot ctx requested s r1 r2 r3)"
proof -
  have guards:
    "list_all (\<lambda>r. raises_within (documented r) (resolve_tenant U ip_address ip_network c req pdb)
         \<and> raises_within (documented r) (require_feature key tenant pdb))
       (filter (\<lambda>r. \<not> exempt (lit (op_path r))) committed_operations)"
    "list_all (\<lambda>r. raises_within (documented r) (with_permission K U c now permission tenant credentials pdb))
       (filter behind_login committed_operations)"
    "list_all (\<lambda>r. raises_within (documented r) (draft_token header)) (filter of_draft committed_operations)"
    unfolding list_all_iff set_filter mem_Collect_eq
    by (intro ballI conjI raises_within_mono [OF raises_resolve_tenant]
        raises_within_mono [OF raises_require_feature] raises_within_mono [OF raises_with_permission]
        raises_within_mono [OF raises_draft_token] guards_documented; simp)+
  show ?thesis
    unfolding
    list_banners_def create_banner_def update_banner_def list_honor_categories_def
    create_honor_category_def update_honor_category_def list_honors_def create_honor_def
    update_honor_def list_staff_def create_staff_def update_staff_def list_pricing_def
    create_pricing_def update_pricing_plan_def list_sample_exams_def create_sample_exam_def
    update_sample_exam_def list_gallery_def create_gallery_def update_gallery_album_def
    by (intro conjI guards
      raises_within_mono [OF raises_tenant_login]
      raises_within_mono [OF raises_tenant_refresh]
      raises_within_mono [OF raises_record_build_result]
      raises_within_mono [OF raises_request_rebuild]
      raises_within_mono [OF raises_list_resource]
      raises_within_mono [OF raises_create_resource]
      raises_within_mono [OF raises_update_resource]
      raises_within_mono [OF raises_create_gallery_item]
      raises_within_mono [OF raises_list_posts]
      raises_within_mono [OF raises_create_post]
      raises_within_mono [OF raises_update_post]
      raises_within_mono [OF raises_list_exams]
      raises_within_mono [OF raises_create_exam]
      raises_within_mono [OF raises_update_exam]
      raises_within_mono [OF raises_replace_school_profile]
      raises_within_mono [OF raises_reset_school_profile]
      raises_within_mono [OF raises_list_contact_requests]
      raises_within_mono [OF raises_handle_contact_request]
      raises_within_mono [OF raises_archive_resource]
      raises_within_mono [OF raises_list_blog_posts]
      raises_within_mono [OF raises_create_blog_post]
      raises_within_mono [OF raises_get_blog_post]
      raises_within_mono [OF raises_update_blog_post]
      raises_within_mono [OF raises_publish_blog_post]
      raises_within_mono [OF raises_archive_blog_post]
      raises_within_mono [OF raises_public(1)]
      raises_within_mono [OF raises_public(2)]
      raises_within_mono [OF raises_public(3)]
      raises_within_mono [OF raises_public(4)]
      raises_within_mono [OF raises_public(5)]
      raises_within_mono [OF raises_public(6)]
      raises_within_mono [OF raises_public(7)]
      raises_within_mono [OF raises_public(8)]
      raises_within_mono [OF raises_public(9)]
      raises_within_mono [OF raises_public(10)]
      raises_within_mono [OF raises_gallery_detail]
      raises_within_mono [OF raises_create_contact_request]
      raises_within_mono [OF raises_list_public_posts]
      raises_within_mono [OF raises_get_public_post]
      raises_within_mono [OF raises_blog_snapshot])
      (simp_all only: covered raises_validators)
qed

end
