(* ===== verification/OpenApiContract.thy ===== *)
theory OpenApiContract
  imports OpenApi SiteBuildDelivery
begin

text \<open>
  What \<open>install_openapi_contract\<close> makes of a generated document: lookups in the edited document, and
  the theorem that every operation lists a reference for each of its error statuses, which resolves.
\<close>

section \<open>Looking up\<close>

fun at_path :: "ustr list \<Rightarrow> json \<Rightarrow> json option" where
  "at_path [] v = Some v"
| "at_path (k # ks) (JObj entries) = Option.bind (map_of entries k) (at_path ks)"
| "at_path (k # ks) v = None"

lemma at_path_Cons:
  "at_path (k # ks) v = Some w \<Longrightarrow> (\<And>d x. v = JObj d \<Longrightarrow> map_of d k = Some x \<Longrightarrow> at_path ks x = Some w \<Longrightarrow> P) \<Longrightarrow> P"
  by (cases v) (auto simp: bind_eq_Some_conv)

lemma bind_at_path_Nil [simp]: "Option.bind v (at_path []) = v"
  by (cases v) simp_all

lemma map_of_dict_set [simp]: "map_of (dict_set k v d) = (map_of d)(k \<mapsto> v)"
  by (induction k v d rule: dict_set.induct) auto

lemma edit_dict_Inr: "edit_dict f v = Inr w \<longleftrightarrow> (\<exists>d d'. v = JObj d \<and> f d = Inr d' \<and> w = JObj d')"
  by (cases v) (auto simp: edit_dict_def split: sum.splits)

lemma at_key_Inr:
  "at_key k initial f d = Inr d' \<longleftrightarrow>
     (\<exists>w. edit_dict f (or_default (map_of d k) initial) = Inr w \<and> d' = dict_set k w d)"
  by (auto simp: at_key_def or_default_def split: sum.splits option.splits)

lemma then_edit_Inr: "then_edit f g d = Inr d' \<longleftrightarrow> (\<exists>e. f d = Inr e \<and> g e = Inr d')"
  by (auto split: sum.splits)

lemma each_item_lookup:
  "each_item f d = Inr d' \<Longrightarrow> map_of d k = Some v \<Longrightarrow> \<exists>w. f k v = Inr w \<and> map_of d' k = Some w"
  by (induction f d arbitrary: d' rule: each_item.induct) (auto split: sum.splits if_splits)

lemma inj_digits_of: "inj digits_of"
  by (rule injI) (metis dec_number_digits option.inject)

lemma status_key_eq [simp]: "status_key a = status_key b \<longleftrightarrow> a = b"
  using inj_digits_of by (simp add: status_key_def inj_eq)

lemma error_name_eq [simp]: "error_name a = error_name b \<longleftrightarrow> a = b"
  by (simp add: error_name_def)

lemma map_of_fold_dict_set:
  assumes "\<And>a b. key a = key b \<longleftrightarrow> a = b"
  shows "map_of (fold (\<lambda>a. dict_set (key a) (val a)) xs d) (key a) =
    (if a \<in> set xs then Some (val a) else map_of d (key a))"
  using assms by (induction xs arbitrary: d) auto

lemma map_of_fold_other:
  "k \<notin> key ` set xs \<Longrightarrow> map_of (fold (\<lambda>a. dict_set (key a) (val a)) xs d) k = map_of d k"
  by (induction xs arbitrary: d) auto

section \<open>The responses of an operation\<close>

lemma add_if_within: "A \<subseteq> B \<Longrightarrow> code \<in> B \<Longrightarrow> add_if b code A \<subseteq> B"
  by (simp add: add_if_def)

definition contract_codes :: "nat set" where
  "contract_codes = {400, 401, 403, 404, 409, 413, 422, 429, 503}"

lemma error_statuses_known: "error_statuses path method oid responses \<subseteq> contract_codes"
proof -
  have choose: "(if P then A else B) \<subseteq> contract_codes" if "A \<subseteq> contract_codes" "B \<subseteq> contract_codes" for P A B
    using that by simp
  show ?thesis
    unfolding error_statuses_def Let_def
    by (intro choose add_if_within Un_least insert_subsetI; simp add: contract_codes_def)
qed

lemma error_statuses_described: "code \<in> contract_codes \<Longrightarrow> map_of ERROR_DESCRIPTIONS code \<noteq> None"
  by (auto simp: contract_codes_def ERROR_DESCRIPTIONS_def)

lemma key_200: "lit ''200'' = status_key 200"
  by (simp add: status_key_def digits_of.simps)

lemma responses_lookup:
  assumes "\<And>A. finite A \<Longrightarrow> set (order A) = A"
  shows "code \<in> error_statuses path method oid responses \<Longrightarrow>
      map_of (contract_responses order path method oid responses) (status_key code) = Some (response_reference code)"
    "key \<notin> status_key ` error_statuses path method oid responses \<Longrightarrow>
      key \<noteq> lit ''200'' \<or> oid \<noteq> export_operation \<Longrightarrow>
      map_of (contract_responses order path method oid responses) key = map_of responses key"
    "map_of (contract_responses order path method export_operation responses) (lit ''200'') =
      Some registration_export_response"
proof -
  have "finite contract_codes" by (simp add: contract_codes_def)
  then have listed: "set (order (error_statuses path method oid responses)) = error_statuses path method oid responses" for oid
    by (rule assms [OF finite_subset [OF error_statuses_known]])
  have "200 \<notin> contract_codes" by (simp add: contract_codes_def)
  then have not_200: "200 \<notin> error_statuses path method oid responses"
    using error_statuses_known by blast
  show "map_of (contract_responses order path method oid responses) (status_key code) = Some (response_reference code)"
    if "code \<in> error_statuses path method oid responses"
  proof -
    have "code \<noteq> 200" using that not_200 by blast
    with that show ?thesis
      unfolding contract_responses_def Let_def key_200 by (auto simp: map_of_fold_dict_set listed)
  qed
  show "map_of (contract_responses order path method oid responses) key = map_of responses key"
    if "key \<notin> status_key ` error_statuses path method oid responses" "key \<noteq> lit ''200'' \<or> oid \<noteq> export_operation"
    using that by (auto simp: contract_responses_def Let_def map_of_fold_other listed)
  show "map_of (contract_responses order path method export_operation responses) (lit ''200'') = Some registration_export_response"
    unfolding contract_responses_def Let_def by (simp del: list.map)
qed

section \<open>The document\<close>

lemma contract_operation_lookup:
  assumes "contract_operation order path method operation = Inr operation'"
    and "map_of operation (lit ''operationId'') = Some (JStr oid)"
  obtains responses where "or_default (map_of operation (lit ''responses'')) (JObj []) = JObj responses"
    "map_of operation' =
       (map_of operation)(lit ''responses'' \<mapsto> JObj (contract_responses order path method oid responses))"
  using assms by (auto simp: contract_operation_def at_key_Inr edit_dict_Inr)

lemma two_edits:
  assumes "then_edit (at_key k (JObj []) f) (\<lambda>d. if map_of d k' = None then Inr d else at_key k' (JObj []) g d) original
      = Inr document" and "k \<noteq> k'"
  shows "\<exists>d components. f d = Inr components \<and> map_of document k = Some (JObj components)"
    "map_of original k' = Some (JObj paths) \<Longrightarrow> \<exists>paths'. g paths = Inr paths' \<and> map_of document k' = Some (JObj paths')"
proof -
  obtain d components e where e: "f d = Inr components" "e = dict_set k (JObj components) original"
    "(if map_of e k' = None then Inr e else at_key k' (JObj []) g e) = Inr document"
    using assms(1) unfolding then_edit_Inr at_key_Inr edit_dict_Inr by blast
  then have "document = e \<or> (\<exists>w. document = dict_set k' w e)"
    by (auto simp: at_key_Inr split: if_splits)
  then show "\<exists>d components. f d = Inr components \<and> map_of document k = Some (JObj components)"
    using e(1,2) assms(2) by auto
  show "\<exists>paths'. g paths = Inr paths' \<and> map_of document k' = Some (JObj paths')"
    if "map_of original k' = Some (JObj paths)"
    using that e(2,3) assms(2) unfolding at_key_Inr edit_dict_Inr by (auto simp: at_key_Inr edit_dict_Inr)
qed

lemma component_keys: "lit ''components'' \<noteq> lit ''paths''" "lit ''schemas'' \<noteq> lit ''responses''"
  by simp_all

lemma contract_document_Inr:
  assumes "contract_document order schema original = Inr document"
  shows "\<exists>d components. set_components schema d = Inr components
      \<and> map_of document (lit ''components'') = Some (JObj components)"
    "map_of original (lit ''paths'') = Some (JObj paths) \<Longrightarrow>
       \<exists>paths'. each_item (contract_path order) paths = Inr paths' \<and> map_of document (lit ''paths'') = Some (JObj paths')"
proof -
  have "then_edit (at_key (lit ''components'') (JObj []) (set_components schema))
      (\<lambda>d. if map_of d (lit ''paths'') = None then Inr d
           else at_key (lit ''paths'') (JObj []) (each_item (contract_path order)) d) original = Inr document"
    using assms by (simp only: contract_document_def contract_paths_def [abs_def])
  note both = two_edits [OF this component_keys(1)]
  show "\<exists>d components. set_components schema d = Inr components
      \<and> map_of document (lit ''components'') = Some (JObj components)"
    by (rule both(1))
  show "\<exists>paths'. each_item (contract_path order) paths = Inr paths' \<and> map_of document (lit ''paths'') = Some (JObj paths')"
    if "map_of original (lit ''paths'') = Some (JObj paths)"
    using that by (rule both(2))
qed

lemma fold_descriptions:
  "map_of ds code = Some v \<Longrightarrow> distinct (map fst ds) \<Longrightarrow>
     map_of (fold (\<lambda>(code, description). dict_set (error_name code) (reusable_response description)) ds d) (error_name code)
       = Some (reusable_response v)"
proof (induction ds arbitrary: d)
  case (Cons x ds)
  have absent: "code \<notin> fst ` set ds \<Longrightarrow>
      map_of (fold (\<lambda>(code, description). dict_set (error_name code) (reusable_response description)) ds d) (error_name code)
        = map_of d (error_name code)" for d
    by (induction ds arbitrary: d) (auto split: prod.split)
  from Cons show ?case by (auto simp: absent split: prod.splits if_splits)
qed simp

lemma set_components_lookup:
  assumes "set_components schema d = Inr components" "map_of ERROR_DESCRIPTIONS code = Some description"
  shows "\<exists>responses. map_of components (lit ''responses'') = Some (JObj responses)
    \<and> map_of responses (error_name code) = Some (reusable_response description)"
proof -
  have "distinct (map fst ERROR_DESCRIPTIONS)" by (simp add: ERROR_DESCRIPTIONS_def)
  from fold_descriptions [OF assms(2) this] assms(1) show ?thesis
    unfolding set_components_def then_edit_Inr at_key_Inr edit_dict_Inr
    by (auto simp del: list.map)
qed

lemma set_components_schema:
  "set_components schema d = Inr components \<Longrightarrow>
     \<exists>schemas. map_of components (lit ''schemas'') = Some (JObj schemas) \<and> map_of schemas (lit ''ErrorBody'') = Some schema"
  using component_keys(2) unfolding set_components_def then_edit_Inr at_key_Inr edit_dict_Inr
  by (auto simp del: list.map)

section \<open>Every error is listed\<close>

text \<open>C40: contract_lists_errors. In the document of \<open>custom_openapi\<close> an operation of the generated document
  has, for every error status the contract computes for it, a reference to a reusable response, and the
  reference resolves, down to the schema of the error body; its other responses stay, but for the
  export's 200, and so does the rest of the operation. The answer is kept: asking again returns the
  same document.\<close>

theorem contract_lists_errors:
  assumes "\<And>A. finite A \<Longrightarrow> set (order A) = A"
    and "custom_openapi order error_body original None = Inr document"
    and "at_path [lit ''paths'', path, method] original = Some (JObj operation)" "method \<in> set HTTP_METHODS"
    and "map_of operation (lit ''operationId'') = Some (JStr oid)"
    and "or_default (map_of operation (lit ''responses'')) (JObj []) = JObj responses"
  shows "(\<forall>code \<in> error_statuses path method oid responses.
        at_path [lit ''paths'', path, method, lit ''responses'', status_key code] document
          = Some (JObj [(lit ''$ref'', JStr (lit ''#/components/responses/'' @ error_name code))])
        \<and> (\<exists>description. map_of ERROR_DESCRIPTIONS code = Some description
             \<and> at_path [lit ''components'', lit ''responses'', error_name code] document
               = Some (reusable_response description)))
    \<and> at_path [lit ''components'', lit ''schemas'', lit ''ErrorBody''] document = Some error_body
    \<and> (\<forall>key. key \<notin> status_key ` error_statuses path method oid responses \<longrightarrow>
         key \<noteq> lit ''200'' \<or> oid \<noteq> export_operation \<longrightarrow>
         at_path [lit ''paths'', path, method, lit ''responses'', key] document = map_of responses key)
    \<and> (\<forall>key. key \<noteq> lit ''responses'' \<longrightarrow>
         at_path [lit ''paths'', path, method, key] document = map_of operation key)
    \<and> custom_openapi order error_body original (Some document) = Inr document"
proof -
  obtain o_dict d_dict where dicts: "original = JObj o_dict" "document = JObj d_dict"
    "contract_document order error_body o_dict = Inr d_dict"
    using assms(2) by (auto simp: custom_openapi_def edit_dict_Inr)
  obtain paths items where found: "map_of o_dict (lit ''paths'') = Some (JObj paths)"
    "map_of paths path = Some (JObj items)" "map_of items method = Some (JObj operation)"
    using assms(3) unfolding dicts(1) by (elim at_path_Cons) (auto simp del: list.map)
  note edited = contract_document_Inr [OF dicts(3)]
  obtain paths' item' where paths': "map_of d_dict (lit ''paths'') = Some (JObj paths')"
    "contract_path order path (JObj items) = Inr item'" "map_of paths' path = Some item'"
    using edited(2) [OF found(1)] each_item_lookup [OF _ found(2)] by blast
  then obtain items' where items': "item' = JObj items'"
    "each_item (\<lambda>method operation. if method \<notin> set HTTP_METHODS then Inr operation
       else edit_dict (contract_operation order path method) operation) items = Inr items'"
    unfolding contract_path_def edit_dict_Inr by blast
  obtain operation' where operation': "contract_operation order path method operation = Inr operation'"
    "map_of items' method = Some (JObj operation')"
    using each_item_lookup [OF items'(2) found(3)] assms(4) by (auto simp: edit_dict_Inr simp del: list.map)
  have down: "at_path (lit ''paths'' # path # method # ks) document = at_path ks (JObj operation')" for ks
    by (simp add: dicts(2) paths'(1,3) items'(1) operation'(2) del: list.map)
  have result: "map_of operation' =
      (map_of operation)(lit ''responses'' \<mapsto> JObj (contract_responses order path method oid responses))"
    using contract_operation_lookup [OF operation'(1) assms(5)] assms(6) by (metis json.inject(6))
  obtain d components where components: "set_components error_body d = Inr components"
    "map_of d_dict (lit ''components'') = Some (JObj components)"
    using edited(1) by blast
  have reusable: "\<exists>description. map_of ERROR_DESCRIPTIONS code = Some description
      \<and> at_path [lit ''components'', lit ''responses'', error_name code] document = Some (reusable_response description)"
    if "code \<in> error_statuses path method oid responses" for code
  proof -
    have "code \<in> contract_codes" using error_statuses_known that by blast
    then obtain description where description: "map_of ERROR_DESCRIPTIONS code = Some description"
      using error_statuses_described by blast
    from set_components_lookup [OF components(1) description] obtain responses where
      "map_of components (lit ''responses'') = Some (JObj responses)"
      "map_of responses (error_name code) = Some (reusable_response description)"
      by blast
    with description components(2) show ?thesis by (simp add: dicts(2) del: list.map)
  qed
  have "at_path [lit ''components'', lit ''schemas'', lit ''ErrorBody''] document = Some error_body"
    using set_components_schema [OF components(1)] components(2) by (auto simp: dicts(2) simp del: list.map)
  then show ?thesis
    using responses_lookup [where order = order, OF assms(1)] reusable
    by (auto simp: down result custom_openapi_def response_reference_def simp del: list.map)
qed

text \<open>A document with one operation.\<close>

definition small_document :: json where
  "small_document =
     JObj [(lit ''paths'', JObj [(lit ''/api/v1/public/contact-requests'', JObj [(lit ''post'',
       JObj [(lit ''operationId'', text_value ''create_contact''),
             (lit ''responses'', JObj [(lit ''422'', JNull)])])])])]"

theorem contract_lists_errors_witness:
  "\<exists>document. custom_openapi sorted_list_of_set JNull small_document None = Inr document
     \<and> at_path [lit ''paths'', lit ''/api/v1/public/contact-requests'', lit ''post'', lit ''responses'', status_key 429]
         document = Some (response_reference 429)"
proof -
  let ?path = "lit ''/api/v1/public/contact-requests''" and ?responses = "[(lit ''422'', JNull)]"
  obtain document where document: "custom_openapi sorted_list_of_set JNull small_document None = Inr document"
    by (simp add: custom_openapi_def edit_dict_def small_document_def contract_document_def at_key_def
        set_components_def contract_paths_def contract_path_def contract_operation_def HTTP_METHODS_def)
  have listed: "429 \<in> error_statuses ?path (lit ''post'') (lit ''create_contact'') ?responses"
    by code_simp
  have "at_path [lit ''paths'', ?path, lit ''post'', lit ''responses'', status_key 429] document =
      Some (response_reference 429)" unfolding response_reference_def
    by (rule contract_lists_errors [OF _ document, THEN conjunct1, rule_format, OF _ _ _ _ _ listed, THEN conjunct1])
      (simp_all add: small_document_def HTTP_METHODS_def or_default_def)+
  with document show ?thesis by blast
qed

end
