(* ===== verification/Spec2Isabelle.thy ===== *)
theory Spec2Isabelle
  imports EnrollmentProperties PaidOnce SiteBuildDelivery SiteBuildRetries HttpSecurity RichTextSafety BlogSnapshot ContentGuarantees SchemaProperties
    DocumentedErrors OpenApiContract
begin

text \<open>
  A verification library for the Kanoon backend (\<open>src/app\<close>): a multi-tenant FastAPI service in
  which schools (tenants) publish content, open exams, take registrations confirmed by one-time
  codes, take payments, and have a static site rebuilt when their public content changes.

  \<^bold>\<open>How the program fits together.\<close> A request first passes the HTTP stack: the error boundary,
  the tenant middleware, which turns the host name into a tenant, CORS and security headers. The
  endpoint then runs inside one database transaction whose session only sees the rows of that
  tenant (row-level security), after the guards (feature gate, principal, permission) have let it
  in. The endpoints call services, which read and write tables and raise \<open>ApplicationError\<close>s;
  an exception rolls the transaction back. Publishing content asks the site-build service for a
  build; a separate worker claims, triggers and retries builds, and a signed callback reports
  their result. OTP senders, payment gateways, build executors and the object storage are
  providers behind interfaces.

  \<^bold>\<open>Conventions.\<close> A table is a list of records, one record per row class; the state of a group of
  components is a record of tables (\<open>reg_db\<close> for registrations, OTP, payments and media, \<open>site_db\<close>
  for site builds, \<open>platform_db\<close>, which extends it, for tenants, users and tokens, \<open>content_db\<close>, which
  extends that, for content and the blog). An operation
  takes and returns that state together with \<open>Inl\<close> an exception or \<open>Inr\<close> a value (\<open>outcome\<close>);
  \<open>transaction\<close> rolls back. A \<open>session\<close> restricts what is visible to a tenant. The clock
  (\<open>now\<close>), fresh identifiers and random tokens are arguments. Constraints of the tables are
  predicates whose violation is \<open>IntegrityError\<close>; values the database cannot store are
  \<open>PyRuntimeError\<close>. Histories are sequences of whole requests, in any order: where the code takes row
  or advisory locks these put overlapping requests in sequence, and for the others the theorems are about
  requests that do not overlap. The control plane takes no lock when a primary domain is added;
  \<open>overlapping_additions\<close> shows what overlapping requests do there. The statements of a blog
  snapshot are interleaved with any requests. Python
  integers are \<open>int\<close> or \<open>nat\<close>, which is what they are: no operation of the code wraps around.

  \<^bold>\<open>Theories.\<close>
  \<^item> \<open>Prelude\<close>, \<open>Tables\<close>, \<open>PyText\<close>, \<open>Uuids\<close>, \<open>Pagination\<close>: outcomes and transactions; tables,
    visibility, histories and the locales \<open>inductive_invariant\<close>, \<open>monotone_quantity\<close> and
    \<open>tenant_confinement\<close>; Python's text operations, UUIDs and pages.
  \<^item> \<open>Validation\<close>, \<open>RegistrationModel\<close>, \<open>Registrations\<close>, \<open>RegistrationRouter\<close>, \<open>Samples\<close>:
    \<open>registrations/validation.py\<close>, \<open>models.py\<close>, \<open>schemas.py\<close>, \<open>service.py\<close>, \<open>router.py\<close>.
    Submission succeeds exactly when it should; patches edit only mutable drafts; draft tokens open
    and lose access as they should.
  \<^item> \<open>Config\<close>, \<open>Media\<close>: \<open>core/config.py\<close>, \<open>media/\<close>. What the settings validators accept, and the
    life of an upload.
  \<^item> \<open>Otp\<close>, \<open>Tokens\<close>, \<open>Payments\<close>: \<open>otp/\<close>, \<open>auth/security.py\<close>, \<open>payments/\<close>. Guess bounds, signed
    states, idempotent initiation, callbacks that settle once; the provider interfaces are the
    locales \<open>otp_provider\<close> and \<open>payment_gateway\<close>, interpreted on the mock providers of the code.
  \<^item> \<open>AdminRegistrations\<close>: \<open>registrations/admin_*.py\<close>, with the CSV export read back.
  \<^item> \<open>Enrollment\<close>, \<open>EnrollmentProperties\<close>, \<open>PaidOnce\<close>: every event that changes registrations, codes and
    payments as one transition function, and the invariants of all its histories: capacity, the limit on
    codes, one successful payment per registration, and the histories in which a second one succeeds.
  \<^item> \<open>SiteBuilds\<close>, \<open>SiteBuildQueue\<close>, \<open>SiteBuildProperties\<close>, \<open>SiteBuildDelivery\<close>,
    \<open>SiteBuildRetries\<close>: \<open>site_builds/\<close>. The queue (one pending and one running build per tenant), its refinement of an abstract queue,
    liveness of published changes, the end of failing builds, signatures, executors (locale
    \<open>build_executor\<close>) and callbacks.
  \<^item> \<open>Hostnames\<close>, \<open>Tenancy\<close>, \<open>PlatformRouter\<close>, \<open>Auth\<close>, \<open>PlatformHistory\<close>, \<open>PlatformProperties\<close>,
    \<open>Access\<close>: \<open>tenancy/\<close>, \<open>auth/\<close> and the bootstrap command of \<open>cli.py\<close>. Host names, tenants,
    memberships, logins, refresh-token families, and who reaches which endpoint.
  \<^item> \<open>HttpSecurity\<close>: \<open>core/http_security.py\<close>, \<open>core/errors.py\<close> and the middleware order.
  \<^item> \<open>RichText\<close>, \<open>RichTextProperties\<close>, \<open>RichTextSafety\<close>: \<open>blog/rich_text.py\<close>, the validation and
    rendering of structured documents: which are accepted, that they render, and that the HTML is
    nested markup of allowed tags and safe links only.
  \<^item> \<open>ContentModel\<close>, \<open>ContentWrites\<close>, \<open>ContentAdmin\<close>, \<open>ContentPublic\<close>: \<open>content/\<close>, with the profile
    tables of \<open>tenancy/models.py\<close>: the tables and their constraints, the request bodies, the admin
    service and its endpoints, the public endpoints and the contact form. \<open>Blog\<close>: the rest of
    \<open>blog/\<close>, the service, its endpoints, and the snapshot of the site build.
  \<^item> \<open>ContentClasses\<close>: the admin service is written over any mapped class; here the laws of such a
    class are the locale \<open>mapped_class\<close> (and \<open>side_class\<close> for tables the blog does not touch),
    interpreted on the nine classes of the program. \<open>ContentHistory\<close>: every write endpoint, upload and
    build event as one step function, and what each does. \<open>ContentProperties\<close>,
    \<open>BlogSnapshot\<close>, \<open>ContentGuarantees\<close>: posts and their references stay consistent, the answer of a
    snapshot is the blog of one moment unless a retry kept posts of an earlier attempt, publishing is visible, tenants are confined, archives stay, the contact form
    keeps its limit, a profile reads back.
  \<^item> \<open>Schema\<close>, \<open>SchemaRuns\<close>: tables with their columns, constraints, indexes, policies and rows, the
    operations of a migration and what PostgreSQL refuses. \<open>MigrationInitial\<close>, \<open>MigrationBlog\<close>: the
    three files of \<open>migrations/versions/\<close>, one definition per created table (\<open>ddl_\<close> and its name), the
    upgrades, the downgrades and the backfill of posts. \<open>Metadata\<close>: every mapped class of the
    \<open>models.py\<close> files, the mixins and the naming convention of \<open>core/models.py\<close>.
    \<open>BuiltTables\<close>, \<open>MigratedSchema\<close>, \<open>MigrationRollback\<close> run them; \<open>ModelAgreement\<close> compares the
    result with the classes; \<open>RowSecurity\<close> evaluates the installed policies for the sessions of
    \<open>core/database.py\<close>; \<open>Backfill\<close> compares the backfill with \<open>blog/rich_text.py\<close>.
    \<open>SchemaProperties\<close>: the migrations build what the classes declare but for three listed differences, the application's sessions
    see what \<open>visible\<close> of \<open>Tables\<close> says, foreign keys stay within a tenant, posts survive, the
    downgrades restore.
  \<^item> \<open>OpenApi\<close>, \<open>OpenApiContract\<close>: \<open>core/openapi.py\<close>, the error statuses an operation documents, the
    rewriting of the generated document, and that its references resolve. \<open>OpenApiDocument\<close>: the
    operations of the committed \<open>openapi.json\<close> with the errors they list. \<open>ErrorStatuses\<close>,
    \<open>ContentErrors\<close>: the statuses each endpoint's application errors can have, composed along the
    endpoint's definition. \<open>DocumentedErrors\<close>: these are documented for the endpoint's operation, and
    the committed document is current.

  \<^bold>\<open>Bounds and fuel.\<close> Every model function is total. Fuel appears once, in \<open>remove_all\<close> of \<open>Uuids\<close>
  (the length of the text, one step per character, which is enough because each step consumes at
  least one). The validation of documents recurses at most \<open>MAX_DEPTH\<close> levels and terminates by
  that bound, rendering by the size of the document. A snapshot of the blog makes three attempts
  in one session, as the code does.

  \<^bold>\<open>Arguments of the model.\<close> Code outside \<open>src\<close> is an argument: argon2, HMAC and SHA-256, JWT
  encoding and decoding, S3, the HTTP client, the Unicode tables behind \<open>casefold\<close> and IDNA, the
  \<open>ipaddress\<close> parser, PostgreSQL's \<open>uuid\<close> input. Where a theorem relies on a law of theirs (a signature that was not made
  does not verify), the law is a premise or a locale assumption, with a witness that instantiates
  it.

  \<^bold>\<open>Not modelled.\<close> The response classes of \<open>content/schemas.py\<close> and \<open>content/admin_schemas.py\<close>, which
  project the rows the endpoints return; datetimes without a time zone. Log lines, health checks, process start-up,
  engine and connection-pool set-up, which are input and output without a
  decision of their own; the truncation of constraint names over 63 bytes, which SQLAlchemy does in
  the same way for the migrations and the classes; the one-off scripts under \<open>.tmp\<close>, deployment files and tests.
\<close>

end
